(* ===== verification/Hk_Prelude.thy ===== *)
theory Hk_Prelude
  imports Main "HOL-Library.List_Lexorder" "HOL-Library.Char_ord" "HOL-Library.Multiset"
begin

text \<open>
  Shared vocabulary of the development.  The modelled code is JavaScript: it throws errors,
  works on dynamically typed values, keeps every chain-scale amount as a canonical decimal
  string and converts it with \<open>BigInt\<close>, sorts with a comparator on strings, and keeps
  insertion-ordered \<open>Map\<close> objects.  This theory gives each of these a HOL counterpart and
  proves the generic facts that the component theories use:
  \<^item> \<open>js_error\<close>, \<open>res\<close>, \<open>bindE\<close>: thrown errors as values of a sum type, sequencing, and loops
    that stop at the first error (\<open>foldE\<close>, \<open>mapE\<close>);
  \<^item> \<open>jsval\<close>: JavaScript values (the JSON data model plus \<open>undefined\<close>, non-integral numbers,
    functions and objects with a foreign prototype), property access and exact-schema checks;
  \<^item> canonical decimal strings: the regular expressions the code tests, \<open>BigInt(s)\<close> as
    \<open>nat_of_dec\<close>, \<open>toString\<close> as \<open>dec_of_nat\<close>, and that both are inverse to each other;
  \<^item> insertion-ordered maps as association lists (\<open>omap_get\<close>, \<open>omap_set\<close>);
  \<^item> sorting by a string key, where distinct keys make the result unique.
\<close>

section \<open>Errors as values\<close>

text \<open>
  \<open>JsError m\<close> is \<open>throw new Error(m)\<close>; \<open>JsTypeError\<close> and \<open>JsRangeError m\<close> the built-in error
  classes; \<open>LeaseLost reason owner version\<close> and \<open>PolicyRefusal reason\<close> are the two error
  classes the runner declares.
\<close>

datatype js_error =
    JsError string
  | JsTypeError string
  | JsRangeError string
  | LeaseLost string string int
  | PolicyRefusal string

type_synonym 'a res = "js_error + 'a"

named_theorems res_simps \<open>inversion of successful runs of the error monad\<close>
named_theorems val_defs \<open>definitions of the elementary validators\<close>

definition bindE :: "'a res \<Rightarrow> ('a \<Rightarrow> 'b res) \<Rightarrow> 'b res" where
  "bindE m f = (case m of Inl e \<Rightarrow> Inl e | Inr x \<Rightarrow> f x)"

text \<open>A \<open>for (const [position, entry] of xs.entries())\<close> loop over a state, and \<open>xs.map\<close>.\<close>

fun foldE :: "(nat \<Rightarrow> 'a \<Rightarrow> 's \<Rightarrow> 's res) \<Rightarrow> nat \<Rightarrow> 'a list \<Rightarrow> 's \<Rightarrow> 's res" where
  "foldE f i [] s = Inr s"
| "foldE f i (x # xs) s = bindE (f i x s) (foldE f (Suc i) xs)"

fun mapE :: "(nat \<Rightarrow> 'a \<Rightarrow> 'b res) \<Rightarrow> nat \<Rightarrow> 'a list \<Rightarrow> 'b list res" where
  "mapE f i [] = Inr []"
| "mapE f i (x # xs) = bindE (f i x) (\<lambda>y. bindE (mapE f (Suc i) xs) (\<lambda>ys. Inr (y # ys)))"

definition isOk :: "'a res \<Rightarrow> bool" where
  "isOk r = (case r of Inl e \<Rightarrow> False | Inr x \<Rightarrow> True)"

lemma bindE_simps [simp]:
  "bindE (Inl e) f = Inl e"
  "bindE (Inr x) f = f x"
  by (simp_all add: bindE_def)

lemma isOk_simps [simp]: "isOk (Inl e) = False" "isOk (Inr x) = True"
  by (simp_all add: isOk_def)

lemma isOk_iff: "isOk r \<longleftrightarrow> (\<exists>x. r = Inr x)"
  by (cases r) simp_all

lemma bindE_Inr_iff [res_simps]: "bindE m f = Inr y \<longleftrightarrow> (\<exists>x. m = Inr x \<and> f x = Inr y)"
  by (cases m) simp_all

lemma bindE_Inl_iff: "bindE m f = Inl e \<longleftrightarrow> m = Inl e \<or> (\<exists>x. m = Inr x \<and> f x = Inl e)"
  by (cases m) auto

lemma bindE_assoc: "bindE (bindE m f) g = bindE m (\<lambda>x. bindE (f x) g)"
  by (cases m) simp_all

lemma throw_if_Inr_iff [res_simps]: "(if b then Inl e else r) = Inr y \<longleftrightarrow> \<not> b \<and> r = Inr y"
  by simp

lemma pass_if_Inr_iff [res_simps]: "(if b then r else Inl e) = Inr y \<longleftrightarrow> b \<and> r = Inr y"
  by simp

lemma foldE_append: "foldE f i (xs @ ys) s = bindE (foldE f i xs s) (foldE f (i + length xs) ys)"
proof (induction xs arbitrary: i s)
  case Nil
  then show ?case by simp
next
  case (Cons x xs)
  then show ?case by (cases "f i x s") simp_all
qed

text \<open>A loop that succeeds keeps every invariant that one iteration keeps.\<close>

lemma foldE_invariant:
  assumes "foldE f i xs s = Inr t" and "P s"
    and "\<And>j x s s'. x \<in> set xs \<Longrightarrow> P s \<Longrightarrow> f j x s = Inr s' \<Longrightarrow> P s'"
  shows "P t"
  using assms
proof (induction xs arbitrary: i s)
  case Nil
  then show ?case by simp
next
  case (Cons x xs)
  from Cons.prems(1) obtain s' where s': "f i x s = Inr s'" and rest: "foldE f (Suc i) xs s' = Inr t"
    by (auto simp: res_simps)
  have "P s'" by (rule Cons.prems(3) [OF _ Cons.prems(2) s']) simp
  with rest show ?case by (rule Cons.IH) (rule Cons.prems(3), simp_all)
qed

text \<open>The same with an invariant that also speaks of the elements already processed.\<close>

lemma foldE_prefix_invariant:
  assumes "foldE f i xs s = Inr t" and "P pre s"
    and "\<And>pre j x s s'. P pre s \<Longrightarrow> f j x s = Inr s' \<Longrightarrow> P (pre @ [x]) s'"
  shows "P (pre @ xs) t"
  using assms(1,2)
proof (induction xs arbitrary: i s pre)
  case Nil
  then show ?case by simp
next
  case (Cons x xs)
  from Cons.prems(1) obtain s' where s': "f i x s = Inr s'" and rest: "foldE f (Suc i) xs s' = Inr t"
    by (auto simp: res_simps)
  have "P (pre @ [x]) s'" by (rule assms(3) [OF Cons.prems(2) s'])
  from Cons.IH [OF rest this] show ?case by simp
qed

lemma foldE_no_index: "foldE (\<lambda>_. f) i xs s = foldE (\<lambda>_. f) j xs s"
  by (induction xs arbitrary: i j s) (auto simp: bindE_def split: sum.split)

lemma foldE_unit: "foldE (\<lambda>_ x _. g x) i xs () = Inr u \<longleftrightarrow> (\<forall>x \<in> set xs. g x = Inr ())"
  by (induction xs arbitrary: i) (auto simp: res_simps)

lemma foldE_unit_pairs: "foldE (\<lambda>_ (a, b) _. g a b) i xs () = Inr u \<longleftrightarrow> (\<forall>(a, b) \<in> set xs. g a b = Inr ())"
proof (induction xs arbitrary: i)
  case (Cons x xs)
  then show ?case by (cases x) (simp add: bindE_Inr_iff)
qed simp

lemma mapE_Inr_iff:
  "mapE f i xs = Inr ys \<longleftrightarrow>
     length ys = length xs \<and> (\<forall>k < length xs. f (i + k) (xs ! k) = Inr (ys ! k))"
proof (induction xs arbitrary: i ys)
  case Nil
  then show ?case by auto
next
  case (Cons x xs)
  show ?case
  proof (cases ys)
    case Nil
    then show ?thesis by (auto simp: res_simps)
  next
    case (Cons y zs)
    then show ?thesis
      using Cons.IH [of "Suc i" zs] by (auto simp: res_simps nth_Cons less_Suc_eq_0_disj all_conj_distrib
          split: nat.splits dest: spec [of _ "Suc _"])
  qed
qed

lemma mapE_cong [fundef_cong]:
  "xs = ys \<Longrightarrow> i = j \<Longrightarrow> (\<And>k x. x \<in> set ys \<Longrightarrow> f k x = g k x) \<Longrightarrow> mapE f i xs = mapE g j ys"
proof (induction xs arbitrary: ys i j)
  case Nil
  then show ?case by simp
next
  case (Cons x xs)
  then obtain zs where ys: "ys = x # zs" by auto
  have "mapE f (Suc i) xs = mapE g (Suc i) xs" by (rule Cons.IH) (use Cons.prems in \<open>auto simp: ys\<close>)
  with Cons.prems show ?case by (simp add: ys)
qed

lemma mapE_length: "mapE f i xs = Inr ys \<Longrightarrow> length ys = length xs"
  by (simp add: mapE_Inr_iff)


section \<open>Canonical decimal strings\<close>

text \<open>
  The code never uses a JavaScript number for an amount.  It tests strings against
  \<^verbatim>\<open>/^(?:0|[1-9][0-9]*)$/\<close> and \<^verbatim>\<open>/^(?:[1-9][0-9]*)$/\<close>, converts them with \<open>BigInt(s)\<close> and
  prints results with \<open>toString()\<close>.
\<close>

definition is_digit :: "char \<Rightarrow> bool" where
  "is_digit c = (c \<in> set ''0123456789'')"

definition is_pos_decimal :: "string \<Rightarrow> bool" where
  "is_pos_decimal s = (case s of [] \<Rightarrow> False | c # cs \<Rightarrow> c \<noteq> CHR ''0'' \<and> is_digit c \<and> list_all is_digit cs)"

definition is_decimal :: "string \<Rightarrow> bool" where
  "is_decimal s = (s = ''0'' \<or> is_pos_decimal s)"

definition digit_char :: "nat \<Rightarrow> char" where
  "digit_char d = ''0123456789'' ! d"

definition digit_val :: "char \<Rightarrow> nat" where
  "digit_val c = of_char c - 48"

fun dec_of_nat :: "nat \<Rightarrow> string" where
  "dec_of_nat n = (if n < 10 then [digit_char n] else dec_of_nat (n div 10) @ [digit_char (n mod 10)])"

declare dec_of_nat.simps [simp del]

definition nat_of_dec :: "string \<Rightarrow> nat" where
  "nat_of_dec s = foldl (\<lambda>a c. a * 10 + digit_val c) 0 s"

lemma digit_cases: "d < 10 \<Longrightarrow> d \<in> {0, 1, 2, 3, 4, 5, 6, 7, 8, 9 :: nat}"
  by auto

lemma digit_val_char [simp]: "d < 10 \<Longrightarrow> digit_val (digit_char d) = d"
  by (drule digit_cases) (auto simp: digit_val_def digit_char_def)

lemma is_digit_char [simp]: "d < 10 \<Longrightarrow> is_digit (digit_char d)"
  by (drule digit_cases) (auto simp: is_digit_def digit_char_def)

lemma digit_char_val [simp]: "is_digit c \<Longrightarrow> digit_char (digit_val c) = c"
  by (auto simp: is_digit_def digit_char_def digit_val_def)

lemma digit_val_less [simp]: "is_digit c \<Longrightarrow> digit_val c < 10"
  by (auto simp: is_digit_def digit_val_def)

lemma digit_val_pos: "is_digit c \<Longrightarrow> c \<noteq> CHR ''0'' \<Longrightarrow> 0 < digit_val c"
  by (auto simp: is_digit_def digit_val_def)

lemma digit_char_nonzero: "d < 10 \<Longrightarrow> 0 < d \<Longrightarrow> digit_char d \<noteq> CHR ''0''"
  by (drule digit_cases) (auto simp: digit_char_def)

lemma nat_of_dec_snoc [simp]: "nat_of_dec (s @ [c]) = nat_of_dec s * 10 + digit_val c"
  by (simp add: nat_of_dec_def)

lemma nat_of_dec_single: "nat_of_dec [c] = digit_val c"
  by (simp add: nat_of_dec_def)

lemma nat_of_dec_dec_of_nat [simp]: "nat_of_dec (dec_of_nat n) = n"
proof (induction n rule: dec_of_nat.induct)
  case (1 n)
  show ?case
  proof (cases "n < 10")
    case True
    then show ?thesis by (simp add: dec_of_nat.simps [of n] nat_of_dec_single)
  next
    case False
    then show ?thesis using 1 by (simp add: dec_of_nat.simps [of n])
  qed
qed

lemma is_pos_decimal_snoc: "s \<noteq> [] \<Longrightarrow> is_pos_decimal (s @ [c]) = (is_pos_decimal s \<and> is_digit c)"
  by (cases s) (auto simp: is_pos_decimal_def)

lemma is_pos_decimal_dec_of_nat: "0 < n \<Longrightarrow> is_pos_decimal (dec_of_nat n)"
proof (induction n rule: dec_of_nat.induct)
  case (1 n)
  show ?case
  proof (cases "n < 10")
    case True
    with 1 show ?thesis
      by (simp add: dec_of_nat.simps [of n] is_pos_decimal_def digit_char_nonzero)
  next
    case False
    then have "is_pos_decimal (dec_of_nat (n div 10))" using 1 by simp
    moreover from this have "dec_of_nat (n div 10) \<noteq> []" by (auto simp: is_pos_decimal_def)
    ultimately show ?thesis using False
      by (simp add: dec_of_nat.simps [of n] is_pos_decimal_snoc)
  qed
qed

lemma dec_of_nat_0 [simp]: "dec_of_nat 0 = ''0''"
  by (simp add: dec_of_nat.simps [of 0] digit_char_def)

lemma is_decimal_dec_of_nat [simp]: "is_decimal (dec_of_nat n)"
  by (cases "n = 0") (simp_all add: is_decimal_def is_pos_decimal_dec_of_nat)

lemma nat_of_dec_pos: "is_pos_decimal s \<Longrightarrow> 0 < nat_of_dec s"
proof (induction s rule: rev_induct)
  case Nil
  then show ?case by (simp add: is_pos_decimal_def)
next
  case (snoc c s)
  show ?case
  proof (cases "s = []")
    case True
    with snoc.prems show ?thesis by (simp add: is_pos_decimal_def nat_of_dec_single digit_val_pos)
  next
    case False
    with snoc show ?thesis by (simp add: is_pos_decimal_snoc)
  qed
qed

lemma dec_of_nat_nat_of_dec_pos: "is_pos_decimal s \<Longrightarrow> dec_of_nat (nat_of_dec s) = s"
proof (induction s rule: rev_induct)
  case Nil
  then show ?case by (simp add: is_pos_decimal_def)
next
  case (snoc c s)
  show ?case
  proof (cases "s = []")
    case True
    with snoc.prems have "is_digit c" by (simp add: is_pos_decimal_def)
    with True show ?thesis by (simp add: nat_of_dec_single dec_of_nat.simps [of "digit_val c"])
  next
    case False
    with snoc.prems have s: "is_pos_decimal s" and c: "is_digit c"
      by (simp_all add: is_pos_decimal_snoc)
    let ?n = "nat_of_dec s * 10 + digit_val c"
    from s have "0 < nat_of_dec s" by (rule nat_of_dec_pos)
    then have "\<not> ?n < 10" by simp
    moreover have "?n div 10 = nat_of_dec s" "?n mod 10 = digit_val c" using c by simp_all
    ultimately show ?thesis using snoc.IH s c by (simp add: dec_of_nat.simps [of ?n])
  qed
qed

text \<open>\<open>BigInt(s).toString()\<close> gives a canonical decimal string back unchanged.\<close>

lemma dec_of_nat_nat_of_dec [simp]: "is_decimal s \<Longrightarrow> dec_of_nat (nat_of_dec s) = s"
proof -
  have "nat_of_dec ''0'' = 0" by (simp add: nat_of_dec_def digit_val_def)
  then show "is_decimal s \<Longrightarrow> dec_of_nat (nat_of_dec s) = s"
    by (auto simp: is_decimal_def dec_of_nat_nat_of_dec_pos)
qed

lemma is_pos_decimal_iff: "is_pos_decimal s \<longleftrightarrow> is_decimal s \<and> 0 < nat_of_dec s"
proof -
  have "nat_of_dec ''0'' = 0" by (simp add: nat_of_dec_def digit_val_def)
  then show ?thesis by (auto simp: is_decimal_def nat_of_dec_pos)
qed

lemma is_pos_decimal_imp_decimal: "is_pos_decimal s \<Longrightarrow> is_decimal s"
  by (simp add: is_decimal_def)

lemma decimal_eq_zero_iff: "is_decimal s \<Longrightarrow> s = ''0'' \<longleftrightarrow> nat_of_dec s = 0"
  by (metis dec_of_nat_0 dec_of_nat_nat_of_dec nat_of_dec_dec_of_nat)

lemma nat_of_dec_inj: "is_decimal s \<Longrightarrow> is_decimal t \<Longrightarrow> nat_of_dec s = nat_of_dec t \<longleftrightarrow> s = t"
  by (metis dec_of_nat_nat_of_dec)

lemma dec_of_nat_inj [simp]: "dec_of_nat m = dec_of_nat n \<longleftrightarrow> m = n"
  by (metis nat_of_dec_dec_of_nat)

lemma dec_of_nat_eq_zero_iff [simp]: "dec_of_nat n = ''0'' \<longleftrightarrow> n = 0"
  by (metis dec_of_nat_0 dec_of_nat_inj)

definition MAX_UINT256 :: nat where
  "MAX_UINT256 = 2 ^ 256 - 1"

section \<open>String patterns\<close>

definition is_lower_hex :: "char \<Rightarrow> bool" where
  "is_lower_hex c = (c \<in> set ''0123456789abcdef'')"

definition is_any_hex :: "char \<Rightarrow> bool" where
  "is_any_hex c = (c \<in> set ''0123456789abcdefABCDEF'')"

text \<open>\<^verbatim>\<open>/^0x[0-9a-f]{n}$/\<close>, \<^verbatim>\<open>/^0x[0-9a-fA-F]{n}$/\<close> and \<^verbatim>\<open>/^sha256:[0-9a-f]{64}$/\<close>.\<close>

definition hex_pattern :: "nat \<Rightarrow> string \<Rightarrow> bool" where
  "hex_pattern n s = (take 2 s = ''0x'' \<and> length s = n + 2 \<and> list_all is_lower_hex (drop 2 s))"

definition any_hex_pattern :: "nat \<Rightarrow> string \<Rightarrow> bool" where
  "any_hex_pattern n s = (take 2 s = ''0x'' \<and> length s = n + 2 \<and> list_all is_any_hex (drop 2 s))"

definition digest_pattern :: "string \<Rightarrow> bool" where
  "digest_pattern s = (take 7 s = ''sha256:'' \<and> length s = 71 \<and> list_all is_lower_hex (drop 7 s))"

text \<open>\<open>s.toLowerCase()\<close> on the characters the modelled patterns admit.\<close>

definition lower_char :: "char \<Rightarrow> char" where
  "lower_char c = (if 65 \<le> (of_char c :: nat) \<and> (of_char c :: nat) \<le> 90 then char_of (of_char c + 32 :: nat) else c)"

definition toLowerCase :: "string \<Rightarrow> string" where
  "toLowerCase s = map lower_char s"

definition ZERO_ADDRESS :: string where
  "ZERO_ADDRESS = ''0x'' @ replicate 40 CHR ''0''"

lemma lower_char_0x [simp]: "lower_char CHR ''0'' = CHR ''0''" "lower_char CHR ''x'' = CHR ''x''"
  by (simp_all add: lower_char_def)

lemma lower_hex_fixed: "is_lower_hex c \<Longrightarrow> lower_char c = c"
  by (auto simp: is_lower_hex_def lower_char_def)

lemma lower_any_hex: "is_any_hex c \<Longrightarrow> is_lower_hex (lower_char c)"
proof -
  have "list_all (\<lambda>c. is_lower_hex (lower_char c)) ''0123456789abcdefABCDEF''" by code_simp
  then show "is_any_hex c \<Longrightarrow> is_lower_hex (lower_char c)"
    unfolding list_all_iff is_any_hex_def by blast
qed

lemma lower_hex_any: "is_lower_hex c \<Longrightarrow> is_any_hex c"
  by (auto simp: is_any_hex_def is_lower_hex_def)

lemma hex_pattern_split: "hex_pattern n s \<longleftrightarrow> (\<exists>t. s = ''0x'' @ t \<and> length t = n \<and> list_all is_lower_hex t)"
proof
  assume h: "hex_pattern n s"
  then have "s = ''0x'' @ drop 2 s" by (metis append_take_drop_id hex_pattern_def)
  with h show "\<exists>t. s = ''0x'' @ t \<and> length t = n \<and> list_all is_lower_hex t"
    by (intro exI [of _ "drop 2 s"]) (simp add: hex_pattern_def)
qed (auto simp: hex_pattern_def)

lemma any_hex_pattern_split: "any_hex_pattern n s \<longleftrightarrow> (\<exists>t. s = ''0x'' @ t \<and> length t = n \<and> list_all is_any_hex t)"
proof
  assume h: "any_hex_pattern n s"
  then have "s = ''0x'' @ drop 2 s" by (metis append_take_drop_id any_hex_pattern_def)
  with h show "\<exists>t. s = ''0x'' @ t \<and> length t = n \<and> list_all is_any_hex t"
    by (intro exI [of _ "drop 2 s"]) (simp add: any_hex_pattern_def)
qed (auto simp: any_hex_pattern_def)

lemma toLowerCase_hex [simp]: "hex_pattern n s \<Longrightarrow> toLowerCase s = s"
  by (auto simp: hex_pattern_split toLowerCase_def list_all_iff lower_hex_fixed intro!: map_idI)

lemma hex_pattern_any: "hex_pattern n s \<Longrightarrow> any_hex_pattern n s"
  by (auto simp: hex_pattern_split any_hex_pattern_split list_all_iff lower_hex_any)

lemma toLowerCase_any_hex: "any_hex_pattern n s \<Longrightarrow> hex_pattern n (toLowerCase s)"
  by (auto simp: hex_pattern_split any_hex_pattern_split toLowerCase_def list_all_iff lower_any_hex)


section \<open>JavaScript values\<close>

text \<open>
  The values the code receives are produced by \<open>JSON.parse\<close>, \<open>structuredClone\<close> or object
  literals.  \<open>JNum i\<close> is an integral number, \<open>JFrac t\<close> a finite number that is not integral, given by
  the text \<open>JSON.stringify\<close> prints for it, \<open>JNonFinite\<close> an infinity or \<open>NaN\<close>, \<open>JObj\<close> an object whose prototype is \<open>Object.prototype\<close> with its own enumerable data
  properties in insertion order, \<open>JInst\<close> an object with another prototype, \<open>JFun\<close> a function.
  Arrays are dense.  Symbol keys, accessors, sparse arrays, bigints and \<open>-0\<close> have no counterpart,
  so the code's tests for them never fire on a \<open>jsval\<close>.
\<close>

datatype jsval =
    JUndefined
  | JNull
  | JBool bool
  | JNum int
  | JFrac string
  | JNonFinite
  | JStr string
  | JArr "jsval list"
  | JObj "(string \<times> jsval) list"
  | JInst "(string \<times> jsval) list"
  | JFun

definition jprop :: "jsval \<Rightarrow> string \<Rightarrow> jsval" where
  "jprop v f = (case v of
      JObj ps \<Rightarrow> (case map_of ps f of None \<Rightarrow> JUndefined | Some x \<Rightarrow> x)
    | JInst ps \<Rightarrow> (case map_of ps f of None \<Rightarrow> JUndefined | Some x \<Rightarrow> x)
    | _ \<Rightarrow> JUndefined)"

definition isPlainObject :: "jsval \<Rightarrow> bool" where
  "isPlainObject v = (case v of JObj ps \<Rightarrow> True | _ \<Rightarrow> False)"

definition ownKeys :: "jsval \<Rightarrow> string list" where
  "ownKeys v = (case v of JObj ps \<Rightarrow> map fst ps | JInst ps \<Rightarrow> map fst ps | _ \<Rightarrow> [])"

definition hasOwn :: "jsval \<Rightarrow> string \<Rightarrow> bool" where
  "hasOwn v f = (f \<in> set (ownKeys v))"

definition isString :: "jsval \<Rightarrow> bool" where
  "isString v = (case v of JStr s \<Rightarrow> True | _ \<Rightarrow> False)"

text \<open>\<open>Object.keys(value).length === fields.length \<and> fields.every(f => Object.hasOwn(value, f))\<close>.\<close>

definition exactKeys :: "jsval \<Rightarrow> string list \<Rightarrow> bool" where
  "exactKeys v fields = (length (ownKeys v) = length fields \<and> list_all (hasOwn v) fields)"

definition MAX_SAFE_INTEGER :: int where
  "MAX_SAFE_INTEGER = 2 ^ 53 - 1"

definition isInteger :: "jsval \<Rightarrow> bool" where
  "isInteger v = (case v of JNum i \<Rightarrow> True | _ \<Rightarrow> False)"

definition safeInt :: "int \<Rightarrow> bool" where
  "safeInt i = (- MAX_SAFE_INTEGER \<le> i \<and> i \<le> MAX_SAFE_INTEGER)"

definition isSafeInteger :: "jsval \<Rightarrow> bool" where
  "isSafeInteger v = (case v of JNum i \<Rightarrow> safeInt i | _ \<Rightarrow> False)"

definition num_of :: "jsval \<Rightarrow> int" where
  "num_of v = (case v of JNum i \<Rightarrow> i | _ \<Rightarrow> 0)"

definition str_of :: "jsval \<Rightarrow> string" where
  "str_of v = (case v of JStr s \<Rightarrow> s | _ \<Rightarrow> [])"

definition str_matches :: "(string \<Rightarrow> bool) \<Rightarrow> jsval \<Rightarrow> bool" where
  "str_matches p v = (case v of JStr s \<Rightarrow> p s | _ \<Rightarrow> False)"

definition arr_of :: "jsval \<Rightarrow> jsval list" where
  "arr_of v = (case v of JArr xs \<Rightarrow> xs | _ \<Rightarrow> [])"

definition isArray :: "jsval \<Rightarrow> bool" where
  "isArray v = (case v of JArr xs \<Rightarrow> True | _ \<Rightarrow> False)"

text \<open>\<open>!v\<close>: the falsy values.\<close>

definition falsy :: "jsval \<Rightarrow> bool" where
  "falsy v = (v \<in> {JUndefined, JNull, JBool False, JNum 0, JStr []})"

text \<open>\<open>typeof v === 'object'\<close>, which also holds of \<open>null\<close>.\<close>

definition typeofObject :: "jsval \<Rightarrow> bool" where
  "typeofObject v = (case v of JNull \<Rightarrow> True | JArr xs \<Rightarrow> True | JObj ps \<Rightarrow> True | JInst ps \<Rightarrow> True | _ \<Rightarrow> False)"

lemmas jsval_kinds [val_defs] =
  jprop_def isPlainObject_def ownKeys_def hasOwn_def isString_def exactKeys_def isInteger_def
  isSafeInteger_def safeInt_def num_of_def str_of_def str_matches_def arr_of_def isArray_def
  falsy_def typeofObject_def MAX_SAFE_INTEGER_def

text \<open>
  \<open>BigInt(v)\<close> on the values the code passes to it: digits (the empty string is zero), a minus sign and
  digits, hexadecimal with prefix \<open>0x\<close>, integral numbers and booleans.  Other strings raise a
  \<open>SyntaxError\<close>, other values a \<open>TypeError\<close>; surrounding white space, and the octal and binary
  prefixes, are not recognised by the model.
\<close>

definition hex_val :: "char \<Rightarrow> nat" where
  "hex_val c = (let n = of_char c in if n < 58 then n - 48 else if n < 71 then n - 55 else n - 87)"

definition nat_of_hex :: "string \<Rightarrow> nat" where
  "nat_of_hex s = foldl (\<lambda>a c. a * 16 + hex_val c) 0 s"

definition js_BigInt :: "jsval \<Rightarrow> int res" where
  "js_BigInt v = (case v of
      JStr s \<Rightarrow>
        if list_all is_digit s then Inr (int (nat_of_dec s))
        else if take 1 s = ''-'' \<and> drop 1 s \<noteq> [] \<and> list_all is_digit (drop 1 s) then Inr (- int (nat_of_dec (drop 1 s)))
        else if take 2 s = ''0x'' \<and> drop 2 s \<noteq> [] \<and> list_all is_any_hex (drop 2 s) then Inr (int (nat_of_hex (drop 2 s)))
        else Inl (JsError ''Cannot convert to a BigInt'')
    | JNum i \<Rightarrow> Inr i
    | JFrac t \<Rightarrow> Inl (JsRangeError ''cannot be converted to a BigInt'')
    | JNonFinite \<Rightarrow> Inl (JsRangeError ''cannot be converted to a BigInt'')
    | JBool b \<Rightarrow> Inr (if b then 1 else 0)
    | _ \<Rightarrow> Inl (JsTypeError ''Cannot convert to a BigInt''))"

lemma js_BigInt_decimal [simp]: "is_decimal s \<Longrightarrow> js_BigInt (JStr s) = Inr (int (nat_of_dec s))"
proof -
  assume "is_decimal s"
  then have "list_all is_digit s"
    by (cases s) (auto simp: is_decimal_def is_pos_decimal_def is_digit_def)
  then show ?thesis by (simp add: js_BigInt_def)
qed

lemma jprop_JObj: "jprop (JObj ps) f = (case map_of ps f of None \<Rightarrow> JUndefined | Some x \<Rightarrow> x)"
  by (simp add: jprop_def)

lemma str_matches_iff: "str_matches p v \<longleftrightarrow> (\<exists>s. v = JStr s \<and> p s)"
  by (auto simp: str_matches_def split: jsval.splits)

lemma str_matches_JStr [simp]: "str_matches p (JStr s) = p s"
  by (simp add: str_matches_def)

lemma str_of_JStr [simp]: "str_of (JStr s) = s"
  by (simp add: str_of_def)

lemma num_of_JNum [simp]: "num_of (JNum i) = i"
  by (simp add: num_of_def)

lemma arr_of_JArr [simp]: "arr_of (JArr xs) = xs"
  by (simp add: arr_of_def)

lemma isArray_iff: "isArray v \<longleftrightarrow> (\<exists>xs. v = JArr xs)"
  by (auto simp: isArray_def split: jsval.splits)

lemma isPlainObject_iff: "isPlainObject v \<longleftrightarrow> (\<exists>ps. v = JObj ps)"
  by (auto simp: isPlainObject_def split: jsval.splits)

lemma isInteger_iff: "isInteger v \<longleftrightarrow> (\<exists>i. v = JNum i)"
  by (auto simp: isInteger_def split: jsval.splits)

text \<open>
  An object that passes the exact-schema test has pairwise distinct keys: the test alone rules out
  duplicate entries of the association list that represents it.
\<close>

lemma exactKeys_distinct:
  assumes "exactKeys v fields" and "distinct fields"
  shows "distinct (ownKeys v) \<and> set (ownKeys v) = set fields"
proof -
  have sub: "set fields \<subseteq> set (ownKeys v)" and len: "length (ownKeys v) = length fields"
    using assms(1) by (auto simp: exactKeys_def hasOwn_def list_all_iff)
  have "card (set fields) \<le> card (set (ownKeys v))" using sub by (simp add: card_mono)
  moreover have "card (set fields) = length (ownKeys v)" using assms(2) len by (simp add: distinct_card)
  ultimately have "card (set (ownKeys v)) = length (ownKeys v)" using card_length [of "ownKeys v"] by simp
  then have d: "distinct (ownKeys v)" by (simp add: card_distinct)
  have "set fields = set (ownKeys v)"
    by (rule card_subset_eq [OF _ sub]) (use \<open>card (set fields) = length (ownKeys v)\<close> d in \<open>simp_all add: distinct_card\<close>)
  with d show ?thesis by simp
qed

section \<open>Insertion-ordered maps\<close>

text \<open>
  A JavaScript \<open>Map\<close> iterates in insertion order; \<open>set\<close> on an existing key keeps its position.
\<close>

definition omap_get :: "('k \<times> 'v) list \<Rightarrow> 'k \<Rightarrow> 'v option" where
  "omap_get m k = map_of m k"

fun omap_set :: "'k \<Rightarrow> 'v \<Rightarrow> ('k \<times> 'v) list \<Rightarrow> ('k \<times> 'v) list" where
  "omap_set k v [] = [(k, v)]"
| "omap_set k v ((k', v') # m) = (if k' = k then (k, v) # m else (k', v') # omap_set k v m)"

definition omap_wf :: "('k \<times> 'v) list \<Rightarrow> bool" where
  "omap_wf m = distinct (map fst m)"

definition omap_has :: "('k \<times> 'v) list \<Rightarrow> 'k \<Rightarrow> bool" where
  "omap_has m k = (k \<in> set (map fst m))"

lemma omap_get_set [simp]: "omap_get (omap_set k v m) k' = (if k' = k then Some v else omap_get m k')"
proof (induction m)
  case Nil
  then show ?case by (simp add: omap_get_def)
next
  case (Cons p m)
  then show ?case by (cases p) (auto simp: omap_get_def)
qed

lemma omap_keys_set: "set (map fst (omap_set k v m)) = insert k (set (map fst m))"
proof (induction m)
  case Nil
  then show ?case by simp
next
  case (Cons p m)
  then show ?case by (cases p) auto
qed

lemma omap_wf_set [simp]: "omap_wf m \<Longrightarrow> omap_wf (omap_set k v m)"
proof (induction m)
  case Nil
  then show ?case by (simp add: omap_wf_def)
next
  case (Cons p m)
  then show ?case using omap_keys_set [of k v m] by (cases p) (auto simp: omap_wf_def)
qed

lemma omap_wf_Nil [simp]: "omap_wf []"
  by (simp add: omap_wf_def)

lemma omap_get_iff: "omap_wf m \<Longrightarrow> omap_get m k = Some v \<longleftrightarrow> (k, v) \<in> set m"
  by (simp add: omap_wf_def omap_get_def)

lemma omap_has_iff: "omap_has m k \<longleftrightarrow> omap_get m k \<noteq> None"
  by (auto simp: omap_has_def omap_get_def map_of_eq_None_iff image_iff)

section \<open>Sorting by a string key\<close>

text \<open>
  \<open>xs.sort((a, b) => a.k < b.k ? -1 : a.k > b.k ? 1 : 0)\<close> is a stable sort; \<open>sort_key\<close> is one too.
  With distinct keys the sorted list is the only sorted permutation, so the result does not
  depend on the order of the input.
\<close>

lemma sort_key_unique:
  assumes "mset xs = mset ys" and "distinct (map k xs)"
  shows "sort_key k xs = sort_key k ys"
proof (rule properties_for_sort_key)
  show "mset (sort_key k ys) = mset xs" using assms(1) by simp
  show "sorted (map k (sort_key k ys))" by simp
  fix u assume u: "u \<in> set (sort_key k ys)"
  have d: "distinct (map k (sort_key k ys))"
    by (metis assms mset_eq_imp_distinct_iff mset_map mset_sort)
  have "filter (\<lambda>x. k u = k x) zs = [u]" if "distinct (map k zs)" "u \<in> set zs" for zs
    using that by (induction zs) (auto simp: filter_empty_conv image_iff)
  then show "filter (\<lambda>x. k u = k x) (sort_key k ys) = filter (\<lambda>x. k u = k x) xs"
    using u d assms by (metis mset_eq_setD set_sort)
qed

lemma sorted_distinct_strict: "sorted xs \<Longrightarrow> distinct xs \<Longrightarrow> sorted_wrt (<) xs"
  by (simp add: strict_sorted_iff)

lemma sorted_wrt_sort_key:
  "distinct (map k xs) \<Longrightarrow> sorted_wrt (\<lambda>a b. k a < k b) (sort_key k xs)"
proof -
  assume "distinct (map k xs)"
  then have "distinct (map k (sort_key k xs))"
    by (metis mset_eq_imp_distinct_iff mset_map mset_sort)
  then have "sorted_wrt (<) (map k (sort_key k xs))" by (simp add: sorted_distinct_strict)
  then show ?thesis by (simp add: sorted_wrt_map)
qed

lemma sum_list_sort_key [simp]:
  fixes f :: "'a \<Rightarrow> 'b::comm_monoid_add"
  shows "sum_list (map f (sort_key k xs)) = sum_list (map f xs)"
  by (metis mset_map mset_sort sum_mset_sum_list)


section \<open>Concrete values for witnesses\<close>

definition addr_a :: string where "addr_a = ''0x'' @ replicate 40 CHR ''a''"
definition addr_b :: string where "addr_b = ''0x'' @ replicate 40 CHR ''b''"
definition addr_c :: string where "addr_c = ''0x'' @ replicate 40 CHR ''c''"

lemma addr_hex [simp]: "hex_pattern 40 addr_a" "hex_pattern 40 addr_b" "hex_pattern 40 addr_c"
  by (simp_all add: hex_pattern_def addr_a_def addr_b_def addr_c_def list_all_iff is_lower_hex_def)

lemma addr_any_hex [simp]: "any_hex_pattern 40 addr_a" "any_hex_pattern 40 addr_b" "any_hex_pattern 40 addr_c"
  by (simp_all add: hex_pattern_any)

lemma zero_hex [simp]: "hex_pattern 40 ZERO_ADDRESS"
  by (simp add: hex_pattern_def ZERO_ADDRESS_def list_all_iff is_lower_hex_def)

lemma addr_distinct [simp]:
  "addr_a \<noteq> addr_b" "addr_b \<noteq> addr_a" "addr_a \<noteq> addr_c" "addr_c \<noteq> addr_a" "addr_b \<noteq> addr_c" "addr_c \<noteq> addr_b"
  "addr_a \<noteq> ZERO_ADDRESS" "addr_b \<noteq> ZERO_ADDRESS" "addr_c \<noteq> ZERO_ADDRESS"
  "ZERO_ADDRESS \<noteq> addr_a" "ZERO_ADDRESS \<noteq> addr_b" "ZERO_ADDRESS \<noteq> addr_c"
  by (simp_all add: addr_a_def addr_b_def addr_c_def ZERO_ADDRESS_def numeral_eq_Suc)

lemma addr_nonempty [simp]: "addr_a \<noteq> []" "addr_b \<noteq> []" "addr_c \<noteq> []"
  by (simp_all add: addr_a_def addr_b_def addr_c_def)

lemma addr_lower [simp]: "toLowerCase addr_a = addr_a" "toLowerCase addr_b = addr_b" "toLowerCase addr_c = addr_c"
  by (rule toLowerCase_hex [of 40], simp)+

lemma addr_less [simp]: "addr_a < addr_b" "addr_b < addr_c" "addr_a < addr_c"
  "\<not> addr_b < addr_a" "\<not> addr_c < addr_b" "\<not> addr_c < addr_a"
  "addr_a \<le> addr_b" "addr_b \<le> addr_c" "addr_a \<le> addr_c"
  "\<not> addr_b \<le> addr_a" "\<not> addr_c \<le> addr_b" "\<not> addr_c \<le> addr_a"
proof -
  have ab: "addr_a < addr_b" by (simp add: addr_a_def addr_b_def numeral_eq_Suc less_list_code)
  have bc: "addr_b < addr_c" by (simp add: addr_b_def addr_c_def numeral_eq_Suc less_list_code)
  show "addr_a < addr_b" "addr_b < addr_c" "addr_a < addr_c"
    "\<not> addr_b < addr_a" "\<not> addr_c < addr_b" "\<not> addr_c < addr_a"
    "addr_a \<le> addr_b" "addr_b \<le> addr_c" "addr_a \<le> addr_c"
    "\<not> addr_b \<le> addr_a" "\<not> addr_c \<le> addr_b" "\<not> addr_c \<le> addr_a"
    using ab bc by auto
qed

end
