(* ===== verification/Lease.thy ===== *)
theory Lease
  imports Hk_Prelude
begin

text \<open>
  The exclusive cycle lease: \<^verbatim>\<open>packages/runner/src/automation/exclusive-lease.mjs\<close> and the on-disk
  store behind it, \<^verbatim>\<open>packages/adapters/src/app/lease-store.mjs\<close>.

  The lease functions read the store once and then compare-and-swap it.  Both calls are
  synchronous inside one process, but another process can move the store between them, so every
  lease function takes two store states: the one \<open>readLease\<close> saw and the one \<open>compareAndSwapLease\<close>
  finds.  Calling it with the same state twice is the uninterrupted call.  The store is an
  interface (locale \<open>lease_store\<close>): the two functions and the laws the clients rely on.  The file
  store is shown to obey the laws; the step relation \<open>lease_step\<close> interleaves any number of
  processes on it.
\<close>

section \<open>Data\<close>

record lease =
  l_version :: int
  l_owner :: string
  l_token :: string
  l_fencingToken :: string
  l_acquiredAt :: int
  l_expiresAt :: int

record lease_snapshot =
  snap_version :: int
  snap_lease :: "lease option"

type_synonym 's read_fn = "'s \<Rightarrow> lease_snapshot res"
type_synonym 's cas_fn = "'s \<Rightarrow> int \<Rightarrow> lease option \<Rightarrow> (bool \<times> 's) res"

section \<open>Validators of \<open>exclusive-lease.mjs\<close>\<close>

text \<open>\<open>ownerPattern\<close>: one alphanumeric character, then 1 to 127 of \<^verbatim>\<open>[A-Za-z0-9:._-]\<close>.\<close>

definition is_alnum :: "char \<Rightarrow> bool" where
  "is_alnum c = (c \<in> set ''ABCDEFGHIJKLMNOPQRSTUVWXYZabcdefghijklmnopqrstuvwxyz0123456789'')"

definition ownerPattern :: "string \<Rightarrow> bool" where
  "ownerPattern s = (case s of [] \<Rightarrow> False
     | c # cs \<Rightarrow> is_alnum c \<and> 1 \<le> length cs \<and> length cs \<le> 127
                 \<and> list_all (\<lambda>d. is_alnum d \<or> d \<in> set '':._-'') cs)"

text \<open>\<open>fencingTokenPattern\<close>: a version 4 UUID in lower case.\<close>

definition fencingTokenPattern :: "string \<Rightarrow> bool" where
  "fencingTokenPattern s =
     (length s = 36
      \<and> s ! 8 = CHR ''-'' \<and> s ! 13 = CHR ''-'' \<and> s ! 18 = CHR ''-'' \<and> s ! 23 = CHR ''-''
      \<and> s ! 14 = CHR ''4'' \<and> s ! 19 \<in> set ''89ab''
      \<and> list_all is_lower_hex (filter (\<lambda>c. c \<noteq> CHR ''-'') s)
      \<and> length (filter (\<lambda>c. c = CHR ''-'') s) = 4)"

definition assertClock :: "int \<Rightarrow> int \<Rightarrow> unit res" where
  "assertClock now ttlMs =
     (if \<not> safeInt now \<or> now < 0 then Inl (JsError ''lease time is invalid'')
      else if \<not> safeInt ttlMs \<or> ttlMs \<le> 0 then Inl (JsError ''lease ttl is invalid'')
      else if \<not> safeInt (now + ttlMs) then Inl (JsError ''lease expiry overflow'')
      else Inr ())"

definition assertOwner :: "string \<Rightarrow> unit res" where
  "assertOwner own = (if \<not> ownerPattern own then Inl (JsError ''lease owner is invalid'') else Inr ())"

definition assertFencingToken :: "string \<Rightarrow> string res" where
  "assertFencingToken v =
     (if \<not> fencingTokenPattern v then Inl (JsError ''cycle lease fencing token is invalid'') else Inr v)"

definition assertSnapshot :: "lease_snapshot \<Rightarrow> lease_snapshot res" where
  "assertSnapshot snap =
     (if \<not> safeInt (snap_version snap) \<or> snap_version snap < 0
      then Inl (JsError ''lease store version is invalid'') else Inr snap)"

definition sameLease :: "lease \<Rightarrow> lease \<Rightarrow> bool" where
  "sameLease current l =
     (l_version current = l_version l \<and> l_owner current = l_owner l
      \<and> l_token current = l_token l \<and> l_fencingToken current = l_fencingToken l)"

definition assertLeaseOwnership :: "lease option \<Rightarrow> lease \<Rightarrow> lease res" where
  "assertLeaseOwnership current l =
     (case current of
        None \<Rightarrow> Inl (JsError ''cycle lease owner token or version mismatch'')
      | Some c \<Rightarrow> if \<not> sameLease c l then Inl (JsError ''cycle lease owner token or version mismatch'')
                   else Inr c)"

section \<open>The lease operations\<close>

definition assertLeaseCurrent :: "'s read_fn \<Rightarrow> 's \<Rightarrow> lease \<Rightarrow> int \<Rightarrow> bool res" where
  "assertLeaseCurrent readLease store l now =
     (if \<not> safeInt (l_version l) then Inl (JsError ''cycle lease is invalid'')
      else bindE (assertFencingToken (l_fencingToken l)) (\<lambda>_.
        if \<not> safeInt now \<or> now < 0 then Inl (JsError ''lease time is invalid'')
        else bindE (bindE (readLease store) assertSnapshot) (\<lambda>snap.
          case snap_lease snap of
            None \<Rightarrow> Inl (LeaseLost ''ownership'' (l_owner l) (l_version l))
          | Some c \<Rightarrow>
              if \<not> sameLease c l then Inl (LeaseLost ''ownership'' (l_owner l) (l_version l))
              else if l_expiresAt c \<le> now then Inl (LeaseLost ''expired'' (l_owner l) (l_version l))
              else Inr True)))"

text \<open>\<open>token\<close> and \<open>fencingToken\<close> are the two values \<open>randomUUID()\<close> returned.\<close>

definition acquireLease ::
  "'s read_fn \<Rightarrow> 's cas_fn \<Rightarrow> 's \<Rightarrow> 's \<Rightarrow> string \<Rightarrow> int \<Rightarrow> int \<Rightarrow> string \<Rightarrow> string \<Rightarrow> (lease \<times> 's) res"
where
  "acquireLease readLease compareAndSwapLease readStore casStore own now ttlMs uuid1 uuid2 =
     bindE (assertOwner own) (\<lambda>_.
     bindE (assertClock now ttlMs) (\<lambda>_.
     bindE (bindE (readLease readStore) assertSnapshot) (\<lambda>snap.
       if (case snap_lease snap of None \<Rightarrow> False | Some c \<Rightarrow> now < l_expiresAt c)
       then Inl (JsError ''active cycle lease is already held'')
       else
         let l = \<lparr>l_version = snap_version snap + 1, l_owner = own, l_token = uuid1,
                  l_fencingToken = uuid2, l_acquiredAt = now, l_expiresAt = now + ttlMs\<rparr>
         in bindE (compareAndSwapLease casStore (snap_version snap) (Some l)) (\<lambda>(swapped, store').
              if \<not> swapped then Inl (JsError ''concurrent cycle lease acquisition rejected'')
              else Inr (l, store')))))"

definition renewLease ::
  "'s read_fn \<Rightarrow> 's cas_fn \<Rightarrow> 's \<Rightarrow> 's \<Rightarrow> lease \<Rightarrow> int \<Rightarrow> int \<Rightarrow> (lease \<times> 's) res"
where
  "renewLease readLease compareAndSwapLease readStore casStore l now ttlMs =
     bindE (assertClock now ttlMs) (\<lambda>_.
     bindE (bindE (readLease readStore) assertSnapshot) (\<lambda>snap.
     bindE (assertLeaseOwnership (snap_lease snap) l) (\<lambda>current.
       if l_expiresAt current \<le> now then Inl (JsError ''cycle lease has expired'')
       else
         let renewed = current\<lparr>l_version := snap_version snap + 1, l_expiresAt := now + ttlMs\<rparr>
         in bindE (compareAndSwapLease casStore (snap_version snap) (Some renewed)) (\<lambda>(swapped, store').
              if \<not> swapped then Inl (JsError ''concurrent cycle lease renewal rejected'')
              else Inr (renewed, store')))))"

definition releaseLease ::
  "'s read_fn \<Rightarrow> 's cas_fn \<Rightarrow> 's \<Rightarrow> 's \<Rightarrow> lease \<Rightarrow> (bool \<times> 's) res"
where
  "releaseLease readLease compareAndSwapLease readStore casStore l =
     bindE (bindE (readLease readStore) assertSnapshot) (\<lambda>snap.
     bindE (assertLeaseOwnership (snap_lease snap) l) (\<lambda>_.
     bindE (compareAndSwapLease casStore (snap_version snap) None) (\<lambda>(swapped, store').
       if \<not> swapped then Inl (JsError ''concurrent cycle lease release rejected'')
       else Inr (True, store'))))"

section \<open>The file store of \<open>lease-store.mjs\<close>\<close>

text \<open>
  What the lease file holds: nothing (\<open>ENOENT\<close>), text that is not JSON, JSON that is not a record
  of the store's shape, or a record.
\<close>

datatype lease_file =
    NoFile
  | CorruptText
  | OtherJson
  | RecordFile (rf_schema: string) (rf_version: int) (rf_lease: "lease option")

definition LEASE_STORE_SCHEMA :: string where
  "LEASE_STORE_SCHEMA = ''hookemon.adapters.lease-store.v1''"

definition LOCK_MAX_ATTEMPTS :: nat where
  "LOCK_MAX_ATTEMPTS = 20000"

definition readRecord :: "lease_file \<Rightarrow> lease_snapshot res" where
  "readRecord file =
     (case file of
        NoFile \<Rightarrow> Inr \<lparr>snap_version = 0, snap_lease = None\<rparr>
      | CorruptText \<Rightarrow> Inl (JsError ''lease store file contains corrupt JSON'')
      | OtherJson \<Rightarrow> Inl (JsError ''lease store file schema is invalid'')
      | RecordFile schema version l \<Rightarrow>
          if schema \<noteq> LEASE_STORE_SCHEMA \<or> \<not> safeInt version \<or> version < 0
          then Inl (JsError ''lease store file schema is invalid'')
          else Inr \<lparr>snap_version = version, snap_lease = l\<rparr>)"

text \<open>
  \<open>withLock\<close> spins on an exclusively created lock file.  \<open>held k\<close> says whether another process has
  the lock file when attempt number \<open>k\<close> tries to create it; the first attempt that finds it absent
  runs the critical section.
\<close>

fun withLock :: "nat \<Rightarrow> nat \<Rightarrow> (nat \<Rightarrow> bool) \<Rightarrow> 'a res \<Rightarrow> 'a res" where
  "withLock 0 attempt held work =
     Inl (JsError ''lease store lock contention: exceeded the maximum retry attempts'')"
| "withLock (Suc remaining) attempt held work =
     (if held attempt then withLock remaining (Suc attempt) held work else work)"

text \<open>The critical section of \<open>compareAndSwapLease\<close>, which runs with the lock held.\<close>

definition casCritical :: "lease_file cas_fn" where
  "casCritical file expectedVersion nextLease =
     bindE (readRecord file) (\<lambda>current.
       if snap_version current \<noteq> expectedVersion then Inr (False, file)
       else Inr (True, RecordFile LEASE_STORE_SCHEMA (expectedVersion + 1) nextLease))"

definition compareAndSwapLease :: "(nat \<Rightarrow> bool) \<Rightarrow> lease_file cas_fn" where
  "compareAndSwapLease held file expectedVersion nextLease =
     (if \<not> safeInt expectedVersion \<or> expectedVersion < 0
      then Inl (JsError ''lease store expectedVersion is invalid'')
      else withLock LOCK_MAX_ATTEMPTS 0 held (casCritical file expectedVersion nextLease))"


section \<open>Processes sharing one store\<close>

text \<open>
  Any number of runner processes, numbered by \<open>nat\<close>, share a store and a clock.  A process keeps
  its lease in a local variable (\<open>sys_held\<close>).  An operation is two steps: \<open>look\<close> takes the time and
  reads the store, a later step compares and swaps; other processes may move in between.  The
  argument \<open>c\<close> of \<open>cas\<close> is the lock contention the call meets.  A failed operation leaves the store
  unchanged, and a process may lose its lease variable at any time (a crash).
\<close>

record 's lsys =
  sys_store :: 's
  sys_now :: int
  sys_held :: "nat \<Rightarrow> lease option"
  sys_seen :: "nat \<Rightarrow> ('s \<times> int) option"

inductive lease_step :: "'s read_fn \<Rightarrow> ('c \<Rightarrow> 's cas_fn) \<Rightarrow> 's lsys \<Rightarrow> 's lsys \<Rightarrow> bool"
  for readL :: "'s read_fn" and cas :: "'c \<Rightarrow> 's cas_fn"
where
  tick: "0 \<le> d \<Longrightarrow> lease_step readL cas s (s\<lparr>sys_now := sys_now s + d\<rparr>)"
| look: "lease_step readL cas s (s\<lparr>sys_seen := (sys_seen s)(i \<mapsto> (sys_store s, sys_now s))\<rparr>)"
| acquire: "sys_seen s i = Some (seen, now) \<Longrightarrow>
     acquireLease readL (cas c) seen (sys_store s) own now ttlMs uuid1 uuid2 = Inr (l, store') \<Longrightarrow>
     lease_step readL cas s (s\<lparr>sys_store := store', sys_held := (sys_held s)(i \<mapsto> l),
                               sys_seen := (sys_seen s)(i := None)\<rparr>)"
| renew: "sys_seen s i = Some (seen, now) \<Longrightarrow> sys_held s i = Some l \<Longrightarrow>
     renewLease readL (cas c) seen (sys_store s) l now ttlMs = Inr (l', store') \<Longrightarrow>
     lease_step readL cas s (s\<lparr>sys_store := store', sys_held := (sys_held s)(i \<mapsto> l'),
                               sys_seen := (sys_seen s)(i := None)\<rparr>)"
| release: "sys_seen s i = Some (seen, now) \<Longrightarrow> sys_held s i = Some l \<Longrightarrow>
     releaseLease readL (cas c) seen (sys_store s) l = Inr (True, store') \<Longrightarrow>
     lease_step readL cas s (s\<lparr>sys_store := store', sys_held := (sys_held s)(i := None),
                               sys_seen := (sys_seen s)(i := None)\<rparr>)"
| abandon: "lease_step readL cas s (s\<lparr>sys_held := (sys_held s)(i := None), sys_seen := (sys_seen s)(i := None)\<rparr>)"
| refuse: "lease_step readL cas s (s\<lparr>sys_seen := (sys_seen s)(i := None)\<rparr>)"

inductive lease_reachable :: "'s read_fn \<Rightarrow> ('c \<Rightarrow> 's cas_fn) \<Rightarrow> 's lsys \<Rightarrow> bool"
  for readL :: "'s read_fn" and cas :: "'c \<Rightarrow> 's cas_fn"
where
  start: "lease_reachable readL cas \<lparr>sys_store = store, sys_now = now, sys_held = Map.empty, sys_seen = Map.empty\<rparr>"
| move: "lease_reachable readL cas s \<Longrightarrow> lease_step readL cas s t \<Longrightarrow> lease_reachable readL cas t"

section \<open>The store interface\<close>

text \<open>
  What the clients rely on: a successful swap happened at the expected version and leaves a store
  that reads back as the next version with the written lease.
\<close>

locale lease_store =
  fixes readL :: "'s read_fn" and cas :: "'c \<Rightarrow> 's cas_fn"
  assumes swap_expected: "cas c s v l = Inr (True, s') \<Longrightarrow> \<exists>snap. readL s = Inr snap \<and> snap_version snap = v"
    and swap_written: "cas c s v l = Inr (True, s') \<Longrightarrow> readL s' = Inr snap \<Longrightarrow>
      snap = \<lparr>snap_version = v + 1, snap_lease = l\<rparr>"
begin

lemma acquireLease_success:
  assumes "acquireLease readL (cas c) seen store own now ttlMs u1 u2 = Inr (l, store')"
  obtains snap where "readL seen = Inr snap"
    and "cas c store (snap_version snap) (Some l) = Inr (True, store')"
    and "\<And>cl. snap_lease snap = Some cl \<Longrightarrow> l_expiresAt cl \<le> now"
    and "l_version l = snap_version snap + 1" and "l_owner l = own" and "l_expiresAt l = now + ttlMs"
  using assms
  by (auto simp: acquireLease_def assertSnapshot_def Let_def bindE_Inr_iff split: if_splits option.splits)

lemma renewLease_success:
  assumes "renewLease readL (cas c) seen store l now ttlMs = Inr (l', store')"
  obtains snap cl where "readL seen = Inr snap" and "snap_lease snap = Some cl" and "sameLease cl l"
    and "now < l_expiresAt cl" and "l' = cl\<lparr>l_version := snap_version snap + 1, l_expiresAt := now + ttlMs\<rparr>"
    and "cas c store (snap_version snap) (Some l') = Inr (True, store')"
  using assms
  by (auto simp: renewLease_def assertSnapshot_def assertLeaseOwnership_def Let_def bindE_Inr_iff
      split: if_splits option.splits)

lemma releaseLease_success:
  assumes "releaseLease readL (cas c) seen store l = Inr (True, store')"
  obtains snap cl where "readL seen = Inr snap" and "snap_lease snap = Some cl" and "sameLease cl l"
    and "cas c store (snap_version snap) None = Inr (True, store')"
  using assms
  by (auto simp: releaseLease_def assertSnapshot_def assertLeaseOwnership_def bindE_Inr_iff
      split: if_splits option.splits)

text \<open>
  The invariant, for a store that can be read at version \<open>n\<close>: no process holds a lease newer than
  \<open>n\<close>, what a process has seen is at most as new as the store and equal to it at the same version,
  and no two processes hold leases of the same version.
\<close>

definition held_bound :: "'s lsys \<Rightarrow> bool" where
  "held_bound s \<longleftrightarrow> (\<forall>snap i l. readL (sys_store s) = Inr snap \<longrightarrow> sys_held s i = Some l \<longrightarrow> l_version l \<le> snap_version snap)"

definition seen_bound :: "'s lsys \<Rightarrow> bool" where
  "seen_bound s \<longleftrightarrow> (\<forall>snap i seen now sn. readL (sys_store s) = Inr snap \<longrightarrow> sys_seen s i = Some (seen, now) \<longrightarrow>
     readL seen = Inr sn \<longrightarrow> snap_version sn \<le> snap_version snap \<and> (snap_version sn = snap_version snap \<longrightarrow> sn = snap))"

definition held_distinct :: "'s lsys \<Rightarrow> bool" where
  "held_distinct s \<longleftrightarrow> (\<forall>i j l l'. i \<noteq> j \<longrightarrow> sys_held s i = Some l \<longrightarrow> sys_held s j = Some l' \<longrightarrow> l_version l \<noteq> l_version l')"

definition lease_inv :: "'s lsys \<Rightarrow> bool" where
  "lease_inv s \<longleftrightarrow> held_bound s \<and> seen_bound s \<and> held_distinct s"

text \<open>One successful swap, whatever the operation: the store moves to a version above everything seen.\<close>

lemma swap_inv:
  assumes inv: "lease_inv s" and swap: "cas c (sys_store s) v nl = Inr (True, store')"
    and upd: "\<And>l. h = Some l \<Longrightarrow> l_version l = v + 1"
  shows "lease_inv (s\<lparr>sys_store := store', sys_held := (sys_held s)(i := h), sys_seen := (sys_seen s)(i := None)\<rparr>)"
proof -
  obtain snap where snap: "readL (sys_store s) = Inr snap" "snap_version snap = v"
    using swap_expected [OF swap] by blast
  have written: "readL store' = Inr snap' \<Longrightarrow> snap_version snap' = v + 1" for snap'
    using swap_written [OF swap] by simp
  have old: "sys_held s j = Some l \<Longrightarrow> l_version l \<le> v" for j l
    using inv snap unfolding lease_inv_def held_bound_def by blast
  have seen: "sys_seen s j = Some (seen, now) \<Longrightarrow> readL seen = Inr sn \<Longrightarrow> snap_version sn \<le> v" for j seen now sn
    using inv snap unfolding lease_inv_def seen_bound_def by blast
  have dist: "held_distinct s" using inv unfolding lease_inv_def by blast
  let ?t = "s\<lparr>sys_store := store', sys_held := (sys_held s)(i := h), sys_seen := (sys_seen s)(i := None)\<rparr>"
  have "held_bound ?t" unfolding held_bound_def by (auto dest!: written upd old split: if_splits)
  moreover have "seen_bound ?t" unfolding seen_bound_def by (auto dest!: written seen split: if_splits)
  moreover have "held_distinct ?t"
    using dist unfolding held_distinct_def by (fastforce dest: upd old split: if_splits)
  ultimately show ?thesis unfolding lease_inv_def by blast
qed

lemma lease_step_inv: "lease_step readL cas s t \<Longrightarrow> lease_inv s \<Longrightarrow> lease_inv t"
proof (induction rule: lease_step.induct)
  case (tick d s)
  then show ?case by (simp add: lease_inv_def held_bound_def seen_bound_def held_distinct_def)
next
  case (look s i)
  then show ?case by (auto simp: lease_inv_def held_bound_def seen_bound_def held_distinct_def)
next
  case (acquire s i seen now c own ttlMs uuid1 uuid2 l store')
  from acquire.hyps(2) obtain snap :: lease_snapshot where "cas c (sys_store s) (snap_version snap) (Some l) = Inr (True, store')"
    and "l_version l = snap_version snap + 1" by (rule acquireLease_success) (rule that)
  with acquire.prems show ?case by (auto intro: swap_inv)
next
  case (renew s i seen now l c ttlMs l' store')
  from renew.hyps(3) obtain snap :: lease_snapshot and cl where "cas c (sys_store s) (snap_version snap) (Some l') = Inr (True, store')"
    and "l' = cl\<lparr>l_version := snap_version snap + 1, l_expiresAt := now + ttlMs\<rparr>"
    by (rule renewLease_success) blast
  with renew.prems show ?case by (auto intro: swap_inv)
next
  case (release s i seen now l c store')
  from release.hyps(3) obtain snap :: lease_snapshot where "cas c (sys_store s) (snap_version snap) None = Inr (True, store')"
    by (rule releaseLease_success) blast
  with release.prems show ?case by (auto intro: swap_inv)
next
  case (abandon s i)
  then show ?case by (auto simp: lease_inv_def held_bound_def seen_bound_def held_distinct_def)
next
  case (refuse s i)
  then show ?case by (auto simp: lease_inv_def held_bound_def seen_bound_def held_distinct_def)
qed

lemma reachable_inv: "lease_reachable readL cas s \<Longrightarrow> lease_inv s"
proof (induction rule: lease_reachable.induct)
  case (start store now)
  then show ?case by (simp add: lease_inv_def held_bound_def seen_bound_def held_distinct_def)
next
  case (move s t)
  then show ?case by (blast intro: lease_step_inv)
qed

lemma assertLeaseCurrent_version:
  "assertLeaseCurrent readL store l now = Inr True \<Longrightarrow>
     \<exists>snap c. readL store = Inr snap \<and> snap_lease snap = Some c \<and> sameLease c l \<and> now < l_expiresAt c"
  by (auto simp: assertLeaseCurrent_def assertSnapshot_def bindE_Inr_iff split: if_splits option.splits)

lemma at_most_one_current:
  assumes "lease_reachable readL cas s" and "sys_held s i = Some l" and "sys_held s j = Some l'"
    and "assertLeaseCurrent readL (sys_store s) l now = Inr True"
    and "assertLeaseCurrent readL (sys_store s) l' now' = Inr True"
  shows "i = j"
proof (rule ccontr)
  assume "i \<noteq> j"
  with reachable_inv [OF assms(1)] assms(2,3) have "l_version l \<noteq> l_version l'"
    unfolding lease_inv_def held_distinct_def by blast
  with assertLeaseCurrent_version [OF assms(4)] assertLeaseCurrent_version [OF assms(5)]
  show False by (auto simp: sameLease_def)
qed

text \<open>An acquisition never replaces a lease that has not expired, whatever happened since it looked.\<close>

lemma acquire_replaces_dead:
  assumes reach: "lease_reachable readL cas s" and seen: "sys_seen s i = Some (seen, now)"
    and acq: "acquireLease readL (cas c) seen (sys_store s) own now ttlMs u1 u2 = Inr (l, store')"
    and cur: "readL (sys_store s) = Inr snap" and lease: "snap_lease snap = Some cl"
  shows "l_expiresAt cl \<le> now"
proof -
  from acq obtain sn where sn: "readL seen = Inr sn" and cas: "cas c (sys_store s) (snap_version sn) (Some l) = Inr (True, store')"
    and dead: "\<And>cl. snap_lease sn = Some cl \<Longrightarrow> l_expiresAt cl \<le> now" by (rule acquireLease_success) blast
  from swap_expected [OF cas] cur have "snap_version snap = snap_version sn" by auto
  with reachable_inv [OF reach] cur sn seen have "sn = snap"
    unfolding lease_inv_def seen_bound_def by metis
  with dead lease show ?thesis by blast
qed

end

section \<open>The file store provides the interface\<close>

lemma withLock_Inr: "withLock n k held work = Inr r \<Longrightarrow> work = Inr r"
  by (induction n arbitrary: k) (auto split: if_splits)

lemma compareAndSwapLease_swapped:
  assumes "compareAndSwapLease h file v l = Inr (True, file')"
  shows "\<exists>snap. readRecord file = Inr snap \<and> snap_version snap = v"
    and "file' = RecordFile LEASE_STORE_SCHEMA (v + 1) l"
  using assms
  by (auto simp: compareAndSwapLease_def casCritical_def bindE_Inr_iff dest!: withLock_Inr split: if_splits)

interpretation file_store: lease_store readRecord compareAndSwapLease
proof
  fix h f v l f'
  assume "compareAndSwapLease h f v l = Inr (True, f')"
  then show "\<exists>snap. readRecord f = Inr snap \<and> snap_version snap = v"
    by (rule compareAndSwapLease_swapped)
next
  fix h f v l f' snap
  assume "compareAndSwapLease h f v l = Inr (True, f')" and "readRecord f' = Inr snap"
  then show "snap = \<lparr>snap_version = v + 1, snap_lease = l\<rparr>"
    by (auto dest!: compareAndSwapLease_swapped(2) simp: readRecord_def split: if_splits)
qed


section \<open>Properties\<close>

text \<open>
  A concrete run used as witness: process 0 acquires the lease at time 0 for one second, two
  seconds later process 1 acquires it over the expired record.
\<close>

definition uuid_a :: string where "uuid_a = ''0f0e0d0c-0b0a-4908-8706-050403020100''"
definition uuid_b :: string where "uuid_b = ''1f1e1d1c-1b1a-4918-9716-151413121110''"

definition lease_a :: lease where
  "lease_a = \<lparr>l_version = 1, l_owner = ''runner-a'', l_token = uuid_a, l_fencingToken = uuid_b,
              l_acquiredAt = 0, l_expiresAt = 1000\<rparr>"

definition lease_b :: lease where
  "lease_b = \<lparr>l_version = 2, l_owner = ''runner-b'', l_token = uuid_b, l_fencingToken = uuid_a,
              l_acquiredAt = 2000, l_expiresAt = 3000\<rparr>"

definition two_runners :: "lease_file lsys" where
  "two_runners = \<lparr>sys_store = RecordFile LEASE_STORE_SCHEMA 2 (Some lease_b), sys_now = 2000,
     sys_held = [0 \<mapsto> lease_a, 1 \<mapsto> lease_b], sys_seen = Map.empty\<rparr>"

lemmas lease_eval = acquireLease_def assertLeaseCurrent_def assertOwner_def assertClock_def assertFencingToken_def
  assertSnapshot_def ownerPattern_def fencingTokenPattern_def is_alnum_def safeInt_def MAX_SAFE_INTEGER_def
  is_lower_hex_def sameLease_def readRecord_def compareAndSwapLease_def casCritical_def LOCK_MAX_ATTEMPTS_def
  LEASE_STORE_SCHEMA_def uuid_a_def uuid_b_def lease_a_def lease_b_def Let_def

lemma withLock_free: "0 < n \<Longrightarrow> \<not> held k \<Longrightarrow> withLock n k held work = work"
  by (cases n) simp_all

lemma withLock_obtains: "j \<le> k \<Longrightarrow> k < j + n \<Longrightarrow> \<not> held k \<Longrightarrow> withLock n j held work = work"
proof (induction n arbitrary: j)
  case 0
  then show ?case by simp
next
  case (Suc n)
  show ?case
  proof (cases "held j")
    case True
    with Suc.prems have "j \<noteq> k" by auto
    with Suc.prems True show ?thesis by (simp add: Suc.IH)
  qed simp
qed

lemma acquire_a:
  "acquireLease readRecord (compareAndSwapLease (\<lambda>_. False)) NoFile NoFile ''runner-a'' 0 1000 uuid_a uuid_b
     = Inr (lease_a, RecordFile LEASE_STORE_SCHEMA 1 (Some lease_a))"
  by (simp add: lease_eval withLock_free)

lemma acquire_b:
  "acquireLease readRecord (compareAndSwapLease (\<lambda>_. False)) (RecordFile LEASE_STORE_SCHEMA 1 (Some lease_a))
       (RecordFile LEASE_STORE_SCHEMA 1 (Some lease_a)) ''runner-b'' 2000 1000 uuid_b uuid_a
     = Inr (lease_b, RecordFile LEASE_STORE_SCHEMA 2 (Some lease_b))"
  by (simp add: lease_eval withLock_free)

lemma acquire_move:
  assumes "lease_reachable readL cas s" and "sys_seen s = Map.empty"
    and acq: "acquireLease readL (cas c) (sys_store s) (sys_store s) own (sys_now s) ttlMs u1 u2 = Inr (l, store')"
  shows "lease_reachable readL cas (s\<lparr>sys_store := store', sys_held := (sys_held s)(i \<mapsto> l)\<rparr>)"
proof -
  let ?t = "s\<lparr>sys_seen := (sys_seen s)(i \<mapsto> (sys_store s, sys_now s))\<rparr>"
  have "lease_reachable readL cas ?t" by (rule lease_reachable.move [OF assms(1) lease_step.look])
  moreover have "lease_step readL cas ?t (?t\<lparr>sys_store := store', sys_held := (sys_held ?t)(i \<mapsto> l), sys_seen := (sys_seen ?t)(i := None)\<rparr>)"
    by (rule lease_step.acquire [where seen = "sys_store s" and now = "sys_now s"]) (use acq in simp_all)
  ultimately have "lease_reachable readL cas (?t\<lparr>sys_store := store', sys_held := (sys_held ?t)(i \<mapsto> l), sys_seen := (sys_seen ?t)(i := None)\<rparr>)"
    by (rule lease_reachable.move)
  moreover have "?t\<lparr>sys_store := store', sys_held := (sys_held ?t)(i \<mapsto> l), sys_seen := (sys_seen ?t)(i := None)\<rparr>
      = s\<lparr>sys_store := store', sys_held := (sys_held s)(i \<mapsto> l)\<rparr>"
    using assms(2) by (cases s) auto
  ultimately show ?thesis by simp
qed

definition one_runner :: "lease_file lsys" where
  "one_runner = \<lparr>sys_store = RecordFile LEASE_STORE_SCHEMA 1 (Some lease_a), sys_now = 2000,
     sys_held = [0 \<mapsto> lease_a], sys_seen = Map.empty\<rparr>"

lemma one_runner_reachable: "lease_reachable readRecord compareAndSwapLease one_runner"
proof -
  let ?R = "lease_reachable readRecord compareAndSwapLease"
  have "?R \<lparr>sys_store = NoFile, sys_now = 0, sys_held = Map.empty, sys_seen = Map.empty\<rparr>" by (rule lease_reachable.start)
  from acquire_move [OF this, of "\<lambda>_. False" _ _ _ _ _ _ 0, simplified, OF acquire_a]
  have "?R \<lparr>sys_store = RecordFile LEASE_STORE_SCHEMA 1 (Some lease_a), sys_now = 0, sys_held = [0 \<mapsto> lease_a], sys_seen = Map.empty\<rparr>"
    by simp
  from lease_reachable.move [OF this lease_step.tick [where d = 2000]] show ?thesis by (simp add: one_runner_def)
qed

lemma two_runners_reachable: "lease_reachable readRecord compareAndSwapLease two_runners"
  using acquire_move [OF one_runner_reachable, of "\<lambda>_. False" _ _ _ _ _ _ 1, unfolded one_runner_def, simplified, OF acquire_b]
  by (simp add: two_runners_def)

text \<open>
  C4.  Mutual exclusion of the cycle lease on the file store.  In every state that any number of
  interleaved processes can reach, two different processes never both pass \<open>assertLeaseCurrent\<close>
  with the lease they hold.
\<close>

theorem lease_mutual_exclusion:
  assumes "lease_reachable readRecord compareAndSwapLease s"
    and "sys_held s i = Some l" and "sys_held s j = Some l'" and "i \<noteq> j"
    and "assertLeaseCurrent readRecord (sys_store s) l now = Inr True"
  shows "assertLeaseCurrent readRecord (sys_store s) l' now' \<noteq> Inr True"
  using file_store.at_most_one_current [OF assms(1,2,3,5)] assms(4) by blast

theorem lease_mutual_exclusion_witness:
  "lease_reachable readRecord compareAndSwapLease two_runners
   \<and> assertLeaseCurrent readRecord (sys_store two_runners) lease_b 2500 = Inr True
   \<and> assertLeaseCurrent readRecord (sys_store two_runners) lease_a 2500 \<noteq> Inr True"
proof -
  have b: "assertLeaseCurrent readRecord (sys_store two_runners) lease_b 2500 = Inr True"
    by (simp add: two_runners_def lease_eval)
  have held: "sys_held two_runners 1 = Some lease_b" "sys_held two_runners 0 = Some lease_a"
    by (simp_all add: two_runners_def)
  from lease_mutual_exclusion [OF two_runners_reachable held _ b, of 2500] two_runners_reachable b
  show ?thesis by simp
qed

text \<open>
  An acquisition only ever replaces a dead record.  When a process that looked at the store
  some time ago succeeds in acquiring, the lease in the store at the moment of the swap is expired
  at the time the process used; and the new lease has the next version.
\<close>

theorem acquire_replaces_only_expired:
  assumes "lease_reachable readRecord compareAndSwapLease s" and "sys_seen s i = Some (seen, now)"
    and "acquireLease readRecord (compareAndSwapLease c) seen (sys_store s) own now ttlMs u1 u2 = Inr (l, store')"
    and "readRecord (sys_store s) = Inr snap"
  shows "(\<forall>cl. snap_lease snap = Some cl \<longrightarrow> l_expiresAt cl \<le> now)
         \<and> l_version l = snap_version snap + 1 \<and> l_expiresAt l = now + ttlMs"
proof -
  from assms(3) obtain sn where sn: "readRecord seen = Inr sn" "l_version l = snap_version sn + 1"
      "l_expiresAt l = now + ttlMs" and cas: "compareAndSwapLease c (sys_store s) (snap_version sn) (Some l) = Inr (True, store')"
    by (rule file_store.acquireLease_success) blast
  from file_store.swap_expected [OF cas] assms(4) have "snap_version snap = snap_version sn" by auto
  with sn file_store.acquire_replaces_dead [OF assms(1,2,3,4)] show ?thesis by auto
qed

theorem acquire_replaces_only_expired_witness:
  "l_expiresAt lease_a \<le> 2000 \<and> l_version lease_b = 1 + 1 \<and> l_expiresAt lease_b = 2000 + 1000"
proof -
  let ?f = "RecordFile LEASE_STORE_SCHEMA 1 (Some lease_a)"
  let ?s = "one_runner\<lparr>sys_seen := (sys_seen one_runner)(1 \<mapsto> (sys_store one_runner, sys_now one_runner))\<rparr>"
  have r: "lease_reachable readRecord compareAndSwapLease ?s"
    by (rule lease_reachable.move [OF one_runner_reachable lease_step.look])
  have seen: "sys_seen ?s 1 = Some (?f, 2000)" by (simp add: one_runner_def)
  have acq: "acquireLease readRecord (compareAndSwapLease (\<lambda>_. False)) ?f (sys_store ?s) ''runner-b'' 2000 1000 uuid_b uuid_a
    = Inr (lease_b, RecordFile LEASE_STORE_SCHEMA 2 (Some lease_b))" by (simp add: acquire_b one_runner_def)
  have rd: "readRecord (sys_store ?s) = Inr \<lparr>snap_version = 1, snap_lease = Some lease_a\<rparr>"
    by (simp add: readRecord_def one_runner_def safeInt_def MAX_SAFE_INTEGER_def)
  from acquire_replaces_only_expired [OF r seen acq rd] show ?thesis by simp
qed

text \<open>
  Two processes that race to swap the same expected version never both succeed: once one swap
  at version \<open>v\<close> has gone through, every later swap at \<open>v\<close> returns \<open>false\<close> and changes nothing, as long
  as the lock is obtained.
\<close>

theorem cas_single_winner:
  assumes "compareAndSwapLease h store v l = Inr (True, store')" and "v < MAX_SAFE_INTEGER"
    and "k < LOCK_MAX_ATTEMPTS" and "\<not> h' k"
  shows "compareAndSwapLease h' store' v l' = Inr (False, store')"
proof -
  have v: "safeInt v" "0 \<le> v" using assms(1) by (auto simp: compareAndSwapLease_def split: if_splits)
  have store': "store' = RecordFile LEASE_STORE_SCHEMA (v + 1) l" by (rule compareAndSwapLease_swapped(2) [OF assms(1)])
  have "readRecord store' = Inr \<lparr>snap_version = v + 1, snap_lease = l\<rparr>"
    using v assms(2) by (simp add: store' readRecord_def safeInt_def MAX_SAFE_INTEGER_def)
  then show ?thesis using v assms(3,4)
    by (simp add: compareAndSwapLease_def casCritical_def withLock_obtains [of 0 k])
qed

theorem cas_single_winner_witness:
  "compareAndSwapLease (\<lambda>k. k < 3) (RecordFile LEASE_STORE_SCHEMA 1 (Some lease_a)) 0 (Some lease_b)
     = Inr (False, RecordFile LEASE_STORE_SCHEMA 1 (Some lease_a))"
  by (rule cas_single_winner [where h = "\<lambda>_. False" and store = NoFile and k = 5])
    (simp_all add: lease_eval withLock_free)

end
