(* ===== verification/Budget_Gate.thy ===== *)
theory Budget_Gate
  imports Lease
begin

text \<open>
  The budget gate of \<^verbatim>\<open>packages/runner/src/automation/budget-gate.mjs\<close>: whether a new cycle may open,
  and the exact principal in wei it is opened for.
\<close>

section \<open>Model\<close>

definition budgetFields :: "string list" where
  "budgetFields = [''availableProcessWei'', ''packPriceWei'', ''outboundCapWei'', ''returnCapWei'',
                   ''operatingMarginWei'', ''activeCycleId'']"

definition parseAtomicWei :: "jsval \<Rightarrow> string \<Rightarrow> bool \<Rightarrow> nat res" where
  "parseAtomicWei v label positive =
     (if \<not> str_matches is_decimal v then Inl (JsError (label @ '' must be a canonical unsigned decimal string''))
      else let amount = nat_of_dec (str_of v) in
        if amount > MAX_UINT256 then Inl (JsError (label @ '' exceeds uint256''))
        else if positive \<and> amount = 0 then Inl (JsError (label @ '' must be positive''))
        else Inr amount)"

record budget_decision =
  bd_ready :: bool
  bd_reason :: string
  bd_requiredProcessWei :: string
  bd_releaseAmount :: string

text \<open>The result object: the refusal it starts from, and the release that replaces it.\<close>

definition budgetResult :: "bool \<Rightarrow> nat \<Rightarrow> nat \<Rightarrow> budget_decision" where
  "budgetResult idle available required =
     (if \<not> idle \<or> available < required
      then \<lparr>bd_ready = False,
             bd_reason = (if idle then ''INSUFFICIENT_PROCESS_LIABILITY'' else ''ACTIVE_CYCLE''),
             bd_requiredProcessWei = dec_of_nat required, bd_releaseAmount = ''0''\<rparr>
      else \<lparr>bd_ready = True, bd_reason = ''READY'',
             bd_requiredProcessWei = dec_of_nat required, bd_releaseAmount = dec_of_nat required\<rparr>)"

text \<open>\<open>admitted\<close> is \<open>admittedAggregateFundingWei\<close>; its default \<open>null\<close> is \<open>JNull\<close>.\<close>

definition decideCycleBudget :: "jsval \<Rightarrow> jsval \<Rightarrow> budget_decision res" where
  "decideCycleBudget input admittedWei =
     (if falsy input \<or> \<not> typeofObject input \<or> isArray input
      then Inl (JsError ''cycle budget input must be a plain object'')
      else if \<not> exactKeys input budgetFields then Inl (JsError ''cycle budget input must use the exact schema'')
      else if jprop input ''activeCycleId'' \<noteq> JNull \<and> \<not> str_matches ownerPattern (jprop input ''activeCycleId'')
      then Inl (JsError ''activeCycleId is invalid'')
      else
        bindE (parseAtomicWei (jprop input ''availableProcessWei'') ''availableProcessWei'' False) (\<lambda>available.
        bindE (parseAtomicWei (jprop input ''packPriceWei'') ''packPriceWei'' True) (\<lambda>packPrice.
        bindE (parseAtomicWei (jprop input ''outboundCapWei'') ''outboundCapWei'' False) (\<lambda>outboundCap.
        bindE (parseAtomicWei (jprop input ''returnCapWei'') ''returnCapWei'' False) (\<lambda>returnCap.
        bindE (parseAtomicWei (jprop input ''operatingMarginWei'') ''operatingMarginWei'' False) (\<lambda>operatingMargin.
          let staticRequired = packPrice + outboundCap + returnCap + operatingMargin in
          if staticRequired > MAX_UINT256 then Inl (JsError ''required process budget overflow'')
          else
            bindE (if admittedWei = JNull then Inr None
                   else bindE (parseAtomicWei admittedWei ''admittedAggregateFundingWei'' True) (\<lambda>a. Inr (Some a)))
            (\<lambda>admitted. Inr (budgetResult (jprop input ''activeCycleId'' = JNull) available
                     (case admitted of None \<Rightarrow> staticRequired | Some a \<Rightarrow> a)))))))))"

section \<open>Facts\<close>

lemma parseAtomicWei_Inr:
  "parseAtomicWei v label pos = Inr n \<longleftrightarrow>
     (\<exists>s. v = JStr s \<and> is_decimal s \<and> n = nat_of_dec s \<and> n \<le> MAX_UINT256 \<and> (pos \<longrightarrow> 0 < n))"
  by (auto simp: parseAtomicWei_def str_matches_iff Let_def split: if_splits)

text \<open>The five configured amounts of an accepted input, as numbers.\<close>

definition budgetAmount :: "jsval \<Rightarrow> string \<Rightarrow> nat" where
  "budgetAmount input f = nat_of_dec (str_of (jprop input f))"

definition requiredBudget :: "jsval \<Rightarrow> jsval \<Rightarrow> nat" where
  "requiredBudget input admittedWei =
     (if admittedWei = JNull
      then budgetAmount input ''packPriceWei'' + budgetAmount input ''outboundCapWei''
           + budgetAmount input ''returnCapWei'' + budgetAmount input ''operatingMarginWei''
      else nat_of_dec (str_of admittedWei))"

lemma decideCycleBudget_Inr:
  assumes "decideCycleBudget input admittedWei = Inr d"
  shows "d = budgetResult (jprop input ''activeCycleId'' = JNull) (budgetAmount input ''availableProcessWei'')
               (requiredBudget input admittedWei)"
    and "0 < requiredBudget input admittedWei" and "requiredBudget input admittedWei \<le> MAX_UINT256"
  using assms unfolding decideCycleBudget_def requiredBudget_def budgetAmount_def Let_def
  by (auto simp: res_simps parseAtomicWei_Inr not_less split: if_splits)

section \<open>Properties\<close>

definition budget_example :: jsval where
  "budget_example = JObj [(''availableProcessWei'', JStr ''500''), (''packPriceWei'', JStr ''300''),
     (''outboundCapWei'', JStr ''40''), (''returnCapWei'', JStr ''30''), (''operatingMarginWei'', JStr ''20''),
     (''activeCycleId'', JNull)]"

lemmas budget_eval = decideCycleBudget_def budgetResult_def parseAtomicWei_def budget_example_def budgetFields_def jsval_kinds
  is_decimal_def is_pos_decimal_def is_digit_def nat_of_dec_def digit_val_def MAX_UINT256_def Let_def
  requiredBudget_def budgetAmount_def

lemma budget_example_static: "decideCycleBudget budget_example JNull
  = Inr \<lparr>bd_ready = True, bd_reason = ''READY'', bd_requiredProcessWei = dec_of_nat 390, bd_releaseAmount = dec_of_nat 390\<rparr>"
  by (simp add: budget_eval)

text \<open>
  C23.  The budget gate decides exactly: an accepted request is ready if and only if no cycle is
  active and the available liability covers the required principal; a ready decision releases
  exactly the required principal, which is positive, fits in a uint256 and never exceeds what is
  available; a refusal releases nothing.  With an admitted quote the required principal is the
  quoted amount, not the configured sum.
\<close>

theorem budget_gate_exact:
  assumes "decideCycleBudget input admittedWei = Inr d"
  shows "(bd_ready d \<longleftrightarrow> jprop input ''activeCycleId'' = JNull
           \<and> requiredBudget input admittedWei \<le> budgetAmount input ''availableProcessWei'')
         \<and> (bd_ready d \<longrightarrow> nat_of_dec (bd_releaseAmount d) = requiredBudget input admittedWei
           \<and> 0 < nat_of_dec (bd_releaseAmount d) \<and> nat_of_dec (bd_releaseAmount d) \<le> MAX_UINT256
           \<and> nat_of_dec (bd_releaseAmount d) \<le> budgetAmount input ''availableProcessWei'')
         \<and> (\<not> bd_ready d \<longrightarrow> bd_releaseAmount d = ''0'')"
  using decideCycleBudget_Inr [OF assms] by (auto simp: budgetResult_def split: if_splits)

theorem budget_gate_exact_witness:
  "\<exists>d. decideCycleBudget budget_example JNull = Inr d \<and> bd_ready d \<and> nat_of_dec (bd_releaseAmount d) = 390
       \<and> 390 \<le> budgetAmount budget_example ''availableProcessWei''"
proof -
  let ?d = "\<lparr>bd_ready = True, bd_reason = ''READY'', bd_requiredProcessWei = dec_of_nat 390, bd_releaseAmount = dec_of_nat 390\<rparr>"
  have "nat_of_dec (bd_releaseAmount ?d) \<le> budgetAmount budget_example ''availableProcessWei''"
    using budget_gate_exact [OF budget_example_static] by simp
  with budget_example_static show ?thesis by (intro exI [of _ ?d]) simp
qed

end
