(* ===== verification/Fee_Settlement.thy ===== *)
theory Fee_Settlement
  imports Hk_Prelude
begin

text \<open>
  Fee settlement planning and verification of
  \<^verbatim>\<open>packages/runner/src/automation/fee-settlement.mjs\<close>: the hook's fee liabilities become claim plans,
  and a settlement receipt is accepted only with independent chain and balance evidence.
\<close>

section \<open>Model\<close>

definition exactObject :: "jsval \<Rightarrow> string list \<Rightarrow> string \<Rightarrow> jsval res" where
  "exactObject v fields label =
     (if \<not> isPlainObject v then Inl (JsError (label @ '' must be a plain object''))
      else if \<not> exactKeys v fields then Inl (JsError (label @ '' must use the exact schema''))
      else Inr v)"

definition assertAddress :: "jsval \<Rightarrow> string \<Rightarrow> unit res" where
  "assertAddress v label =
     (if \<not> str_matches (any_hex_pattern 40) v then Inl (JsError (label @ '' is invalid'')) else Inr ())"

definition assertAmount :: "jsval \<Rightarrow> string \<Rightarrow> unit res" where
  "assertAmount v label =
     (if \<not> str_matches is_decimal v then Inl (JsError (label @ '' is invalid''))
      else if nat_of_dec (str_of v) > MAX_UINT256 then Inl (JsError (label @ '' exceeds uint256''))
      else Inr ())"

record fee_plan =
  fp_kind :: string
  fp_beneficiary :: string
  fp_destination :: string
  fp_asset :: string
  fp_source :: string
  fp_amount :: string
  fp_status :: string

definition planClaim :: "string \<Rightarrow> jsval \<Rightarrow> string \<Rightarrow> string \<Rightarrow> fee_plan res" where
  "planClaim kind liability asset source =
     bindE (exactObject liability [''beneficiary'', ''amount'', ''claimAuthorityAvailable''] (kind @ '' liability'')) (\<lambda>_.
     bindE (assertAddress (jprop liability ''beneficiary'') (kind @ '' beneficiary'')) (\<lambda>_.
     bindE (assertAmount (jprop liability ''amount'') (kind @ '' amount'')) (\<lambda>_.
       case jprop liability ''claimAuthorityAvailable'' of
         JBool available \<Rightarrow>
           Inr \<lparr>fp_kind = kind, fp_beneficiary = str_of (jprop liability ''beneficiary''),
                fp_destination = str_of (jprop liability ''beneficiary''), fp_asset = asset, fp_source = source,
                fp_amount = str_of (jprop liability ''amount''),
                fp_status = (if available then ''READY'' else ''PENDING_BENEFICIARY_AUTHORITY'')\<rparr>
       | _ \<Rightarrow> Inl (JsError (kind @ '' claim authority is invalid'')))))"

text \<open>One iteration of the loop over the treasuries: the set of seen beneficiaries and the plans so far.\<close>

definition planTreasury :: "string \<Rightarrow> string \<Rightarrow> jsval \<Rightarrow> string list \<times> fee_plan list \<Rightarrow> (string list \<times> fee_plan list) res" where
  "planTreasury asset source liability st =
     (let (seen, plans) = st in
      bindE (planClaim ''TREASURY'' liability asset source) (\<lambda>treasury.
        let key = toLowerCase (fp_beneficiary treasury) in
        if key \<in> set seen then Inl (JsError ''duplicate Treasury beneficiary liability'')
        else Inr (key # seen, if fp_amount treasury \<noteq> ''0'' then plans @ [treasury] else plans)))"

definition planFeeSettlements :: "jsval \<Rightarrow> fee_plan list res" where
  "planFeeSettlements snapshot =
     bindE (exactObject snapshot [''asset'', ''source'', ''programmable'', ''treasuries'', ''processLiability'']
              ''fee liability snapshot'') (\<lambda>_.
     if \<not> isArray (jprop snapshot ''treasuries'') then Inl (JsError ''Treasury liabilities must be an array'')
     else
       bindE (assertAddress (jprop snapshot ''asset'') ''fee liability asset'') (\<lambda>_.
       bindE (assertAddress (jprop snapshot ''source'') ''fee liability source'') (\<lambda>_.
       bindE (assertAmount (jprop snapshot ''processLiability'') ''process liability'') (\<lambda>_.
         let asset = str_of (jprop snapshot ''asset''); source = str_of (jprop snapshot ''source'') in
         bindE (planClaim ''PROGRAMMABLE'' (jprop snapshot ''programmable'') asset source) (\<lambda>programmable.
         bindE (foldE (\<lambda>_ liability. planTreasury asset source liability) 0 (arr_of (jprop snapshot ''treasuries''))
                 ([], if fp_amount programmable \<noteq> ''0'' then [programmable] else [])) (\<lambda>(seen, plans).
           Inr plans))))))"

definition jsval_of_plan :: "fee_plan \<Rightarrow> jsval" where
  "jsval_of_plan p = JObj [(''kind'', JStr (fp_kind p)), (''beneficiary'', JStr (fp_beneficiary p)),
     (''destination'', JStr (fp_destination p)), (''asset'', JStr (fp_asset p)), (''source'', JStr (fp_source p)),
     (''amount'', JStr (fp_amount p)), (''status'', JStr (fp_status p))]"

definition verifyFeeSettlement :: "jsval \<Rightarrow> jsval \<Rightarrow> jsval \<Rightarrow> jsval res" where
  "verifyFeeSettlement receipt plan evidence =
     bindE (exactObject plan [''kind'', ''beneficiary'', ''destination'', ''asset'', ''source'', ''amount'', ''status'']
              ''fee settlement plan'') (\<lambda>_.
     bindE (assertAddress (jprop plan ''asset'') ''fee settlement plan asset'') (\<lambda>_.
     bindE (assertAddress (jprop plan ''source'') ''fee settlement plan source'') (\<lambda>_.
     if jprop plan ''status'' \<noteq> JStr ''READY'' then Inl (JsError ''beneficiary claim authority is unavailable'')
     else
     bindE (exactObject receipt [''kind'', ''beneficiary'', ''destination'', ''asset'', ''source'', ''amount'',
              ''transactionId'', ''status'', ''finalized''] ''fee settlement receipt'') (\<lambda>_.
     if jprop receipt ''kind'' \<noteq> jprop plan ''kind'' \<or> jprop receipt ''beneficiary'' \<noteq> jprop plan ''beneficiary''
     then Inl (JsError ''fee settlement beneficiary mismatch'')
     else if jprop receipt ''destination'' \<noteq> jprop plan ''destination''
           \<or> jprop receipt ''destination'' \<noteq> jprop receipt ''beneficiary''
     then Inl (JsError ''fee settlement destination mismatch'')
     else if jprop receipt ''asset'' \<noteq> jprop plan ''asset'' then Inl (JsError ''fee settlement asset mismatch'')
     else if jprop receipt ''source'' \<noteq> jprop plan ''source'' then Inl (JsError ''fee settlement source mismatch'')
     else if jprop receipt ''amount'' \<noteq> jprop plan ''amount'' then Inl (JsError ''fee settlement amount mismatch'')
     else if jprop receipt ''status'' \<noteq> JStr ''SUCCESS'' then Inl (JsError ''fee settlement is not success'')
     else if jprop receipt ''finalized'' \<noteq> JBool True then Inl (JsError ''fee settlement is not finalized'')
     else if \<not> str_matches (\<lambda>s. s \<noteq> []) (jprop receipt ''transactionId'')
     then Inl (JsError ''fee settlement transaction identity is invalid'')
     else
     bindE (exactObject evidence [''chainReceipt'', ''credit''] ''fee settlement independent evidence'') (\<lambda>_.
     let chain = jprop evidence ''chainReceipt''; credit = jprop evidence ''credit'' in
     bindE (exactObject chain [''transactionId'', ''status'', ''finalized'', ''asset'', ''source'', ''destination'', ''amount'']
              ''fee settlement chain receipt'') (\<lambda>_.
     bindE (assertAddress (jprop chain ''source'') ''fee settlement chain source'') (\<lambda>_.
     if jprop chain ''transactionId'' \<noteq> jprop receipt ''transactionId'' \<or> jprop chain ''status'' \<noteq> JStr ''SUCCESS''
        \<or> jprop chain ''finalized'' \<noteq> JBool True \<or> jprop chain ''asset'' \<noteq> jprop receipt ''asset''
        \<or> jprop chain ''source'' \<noteq> jprop receipt ''source'' \<or> jprop chain ''destination'' \<noteq> jprop receipt ''destination''
        \<or> jprop chain ''amount'' \<noteq> jprop receipt ''amount'' \<or> \<not> str_matches (\<lambda>s. s \<noteq> []) (jprop chain ''source'')
     then Inl (JsError ''fee settlement chain receipt is not independently bound'')
     else
     bindE (exactObject credit [''asset'', ''source'', ''destination'', ''amount'', ''beforeBalance'', ''afterBalance'']
              ''fee settlement credit evidence'') (\<lambda>_.
     bindE (assertAddress (jprop credit ''source'') ''fee settlement credit source'') (\<lambda>_.
     bindE (assertAmount (jprop credit ''beforeBalance'') ''fee settlement beforeBalance'') (\<lambda>_.
     bindE (assertAmount (jprop credit ''afterBalance'') ''fee settlement afterBalance'') (\<lambda>_.
     if jprop credit ''asset'' \<noteq> jprop receipt ''asset'' \<or> jprop credit ''source'' \<noteq> jprop receipt ''source''
        \<or> jprop credit ''destination'' \<noteq> jprop receipt ''destination'' \<or> jprop credit ''amount'' \<noteq> jprop receipt ''amount''
     then Inl (JsError ''fee settlement credit evidence is not independently bound'')
     else bindE (js_BigInt (jprop receipt ''amount'')) (\<lambda>amount.
       if int (nat_of_dec (str_of (jprop credit ''afterBalance''))) - int (nat_of_dec (str_of (jprop credit ''beforeBalance''))) \<noteq> amount
       then Inl (JsError ''fee settlement credit evidence is not independently bound'')
       else Inr receipt))))))))))))"

section \<open>Facts\<close>

lemma exactObject_Inr [res_simps]: "exactObject v fs l = Inr w \<longleftrightarrow> isPlainObject v \<and> exactKeys v fs \<and> w = v"
  by (auto simp: exactObject_def)

lemma assertAddress_Inr [res_simps]: "assertAddress v l = Inr u \<longleftrightarrow> (\<exists>s. v = JStr s \<and> any_hex_pattern 40 s)"
  by (auto simp: assertAddress_def str_matches_iff)

lemma assertAmount_Inr [res_simps]:
  "assertAmount v l = Inr u \<longleftrightarrow> (\<exists>s. v = JStr s \<and> is_decimal s \<and> nat_of_dec s \<le> MAX_UINT256)"
  by (auto simp: assertAmount_def str_matches_iff)

text \<open>A plan the planner can produce: paid to its beneficiary, with a positive canonical amount.\<close>

definition good_plan :: "string \<Rightarrow> string \<Rightarrow> fee_plan \<Rightarrow> bool" where
  "good_plan asset source p \<longleftrightarrow> fp_destination p = fp_beneficiary p \<and> fp_asset p = asset \<and> fp_source p = source
     \<and> fp_kind p \<in> {''PROGRAMMABLE'', ''TREASURY''} \<and> any_hex_pattern 40 (fp_beneficiary p)
     \<and> is_decimal (fp_amount p) \<and> nat_of_dec (fp_amount p) \<le> MAX_UINT256
     \<and> fp_status p \<in> {''READY'', ''PENDING_BENEFICIARY_AUTHORITY''}"

definition liabilityAmount :: "jsval \<Rightarrow> nat" where
  "liabilityAmount v = nat_of_dec (str_of (jprop v ''amount''))"

definition planTotal :: "fee_plan list \<Rightarrow> nat" where
  "planTotal ps = sum_list (map (\<lambda>p. nat_of_dec (fp_amount p)) ps)"

lemma planClaim_good:
  "planClaim kind liability asset source = Inr p \<Longrightarrow> kind \<in> {''PROGRAMMABLE'', ''TREASURY''} \<Longrightarrow>
     good_plan asset source p \<and> fp_kind p = kind \<and> nat_of_dec (fp_amount p) = liabilityAmount liability"
  by (auto simp: planClaim_def res_simps good_plan_def liabilityAmount_def split: jsval.splits if_splits)

definition treasury_keys :: "fee_plan list \<Rightarrow> string list" where
  "treasury_keys ps = map (\<lambda>p. toLowerCase (fp_beneficiary p)) (filter (\<lambda>p. fp_kind p = ''TREASURY'') ps)"

definition planning_inv :: "string \<Rightarrow> string \<Rightarrow> string list \<times> fee_plan list \<Rightarrow> bool" where
  "planning_inv asset source st \<longleftrightarrow> (\<forall>p \<in> set (snd st). good_plan asset source p \<and> 0 < nat_of_dec (fp_amount p))
     \<and> distinct (treasury_keys (snd st)) \<and> set (treasury_keys (snd st)) \<subseteq> set (fst st)"

lemma planTreasury_step:
  assumes "planTreasury asset source liability st = Inr st'"
  shows "planning_inv asset source st \<Longrightarrow> planning_inv asset source st'"
    and "planTotal (snd st') = planTotal (snd st) + liabilityAmount liability"
proof -
  obtain seen plans where st: "st = (seen, plans)" by (cases st)
  with assms obtain t where t: "planClaim ''TREASURY'' liability asset source = Inr t"
    and fresh: "toLowerCase (fp_beneficiary t) \<notin> set seen"
    and st': "st' = (toLowerCase (fp_beneficiary t) # seen, if fp_amount t \<noteq> ''0'' then plans @ [t] else plans)"
    by (auto simp: planTreasury_def res_simps Let_def)
  have good: "good_plan asset source t" "fp_kind t = ''TREASURY''" "nat_of_dec (fp_amount t) = liabilityAmount liability"
    using planClaim_good [OF t] by auto
  then have zero: "fp_amount t = ''0'' \<longleftrightarrow> nat_of_dec (fp_amount t) = 0"
    by (simp add: good_plan_def decimal_eq_zero_iff)
  show "planning_inv asset source st \<Longrightarrow> planning_inv asset source st'"
    using good fresh zero by (auto simp: st st' planning_inv_def treasury_keys_def)
  show "planTotal (snd st') = planTotal (snd st) + liabilityAmount liability"
    using good zero by (auto simp: st st' planTotal_def)
qed

lemma planTreasury_fold_total:
  "foldE (\<lambda>_ l. planTreasury asset source l) i ls st = Inr st' \<Longrightarrow>
     planTotal (snd st') = planTotal (snd st) + sum_list (map liabilityAmount ls)"
proof (induction ls arbitrary: i st)
  case Nil
  then show ?case by simp
next
  case (Cons l ls)
  then show ?case by (auto simp: res_simps dest!: planTreasury_step(2) Cons.IH)
qed

lemma planFeeSettlements_Inr:
  assumes "planFeeSettlements snapshot = Inr plans"
  obtains p seen where
    "planClaim ''PROGRAMMABLE'' (jprop snapshot ''programmable'') (str_of (jprop snapshot ''asset'')) (str_of (jprop snapshot ''source'')) = Inr p"
    "foldE (\<lambda>_ l. planTreasury (str_of (jprop snapshot ''asset'')) (str_of (jprop snapshot ''source'')) l) 0
       (arr_of (jprop snapshot ''treasuries'')) ([], if fp_amount p \<noteq> ''0'' then [p] else []) = Inr (seen, plans)"
  using assms by (auto simp: planFeeSettlements_def res_simps Let_def split: prod.splits)

section \<open>Properties\<close>

text \<open>
  C24.  Fee settlement planning is complete and non-custodial: the planned amounts add up to exactly
  the reported Programmable and Treasury liabilities, every plan pays its own beneficiary a positive
  amount in the reported asset from the reported source, and no treasury beneficiary is planned twice
  (up to the case of the address).
\<close>

theorem fee_plans_conserve_liability:
  assumes "planFeeSettlements snapshot = Inr plans"
  shows "planTotal plans = liabilityAmount (jprop snapshot ''programmable'')
           + sum_list (map liabilityAmount (arr_of (jprop snapshot ''treasuries'')))
         \<and> (\<forall>p \<in> set plans. good_plan (str_of (jprop snapshot ''asset'')) (str_of (jprop snapshot ''source'')) p
              \<and> 0 < nat_of_dec (fp_amount p))
         \<and> distinct (treasury_keys plans)"
proof -
  let ?a = "str_of (jprop snapshot ''asset'')" and ?s = "str_of (jprop snapshot ''source'')"
  from assms obtain p seen where p: "planClaim ''PROGRAMMABLE'' (jprop snapshot ''programmable'') ?a ?s = Inr p"
    and loop: "foldE (\<lambda>_ l. planTreasury ?a ?s l) 0 (arr_of (jprop snapshot ''treasuries''))
       ([], if fp_amount p \<noteq> ''0'' then [p] else []) = Inr (seen, plans)"
    by (rule planFeeSettlements_Inr)
  have good: "good_plan ?a ?s p" "fp_kind p = ''PROGRAMMABLE''" "nat_of_dec (fp_amount p) = liabilityAmount (jprop snapshot ''programmable'')"
    using planClaim_good [OF p] by auto
  then have zero: "fp_amount p = ''0'' \<longleftrightarrow> nat_of_dec (fp_amount p) = 0"
    by (simp add: good_plan_def decimal_eq_zero_iff)
  have "planning_inv ?a ?s ([], if fp_amount p \<noteq> ''0'' then [p] else [])"
    using good zero by (auto simp: planning_inv_def treasury_keys_def)
  then have "planning_inv ?a ?s (seen, plans)"
    by (rule foldE_invariant [OF loop]) (auto dest: planTreasury_step)
  moreover have "planTotal plans = planTotal (if fp_amount p \<noteq> ''0'' then [p] else [])
      + sum_list (map liabilityAmount (arr_of (jprop snapshot ''treasuries'')))"
    using planTreasury_fold_total [OF loop] by simp
  ultimately show ?thesis using good zero by (auto simp: planning_inv_def planTotal_def)
qed

definition fee_example :: jsval where
  "fee_example = JObj [(''asset'', JStr addr_a), (''source'', JStr addr_b),
     (''programmable'', JObj [(''beneficiary'', JStr addr_a), (''amount'', JStr ''20''), (''claimAuthorityAvailable'', JBool True)]),
     (''treasuries'', JArr [JObj [(''beneficiary'', JStr addr_b), (''amount'', JStr ''30''), (''claimAuthorityAvailable'', JBool False)],
                            JObj [(''beneficiary'', JStr addr_a), (''amount'', JStr ''0''), (''claimAuthorityAvailable'', JBool True)]]),
     (''processLiability'', JStr ''250'')]"

lemmas fee_eval = planFeeSettlements_def planClaim_def planTreasury_def exactObject_def assertAddress_def assertAmount_def
  fee_example_def jsval_kinds is_decimal_def is_pos_decimal_def is_digit_def nat_of_dec_def digit_val_def
  MAX_UINT256_def Let_def

theorem fee_plans_conserve_liability_witness:
  "\<exists>plans. planFeeSettlements fee_example = Inr plans \<and> length plans = 2 \<and> planTotal plans = 50"
proof -
  let ?p = "\<lparr>fp_kind = ''PROGRAMMABLE'', fp_beneficiary = addr_a, fp_destination = addr_a, fp_asset = addr_a, fp_source = addr_b,
      fp_amount = ''20'', fp_status = ''READY''\<rparr>"
  let ?t = "\<lparr>fp_kind = ''TREASURY'', fp_beneficiary = addr_b, fp_destination = addr_b, fp_asset = addr_a, fp_source = addr_b,
      fp_amount = ''30'', fp_status = ''PENDING_BENEFICIARY_AUTHORITY''\<rparr>"
  have run: "planFeeSettlements fee_example = Inr [?p, ?t]"
    by (simp add: fee_eval)
  have "planTotal [?p, ?t] = 50"
    using fee_plans_conserve_liability [OF run] by (simp add: liabilityAmount_def fee_eval)
  with run show ?thesis by auto
qed


text \<open>
  A fee settlement is only accepted with independent evidence: the plan had the beneficiary's
  authority, the receipt pays the planned beneficiary the planned amount of the planned asset, the
  chain receipt confirms the same transaction as finalized, and the beneficiary's balance grew by
  exactly that amount.
\<close>

theorem fee_settlement_needs_evidence:
  assumes "verifyFeeSettlement receipt plan evidence = Inr r"
  shows "r = receipt \<and> jprop plan ''status'' = JStr ''READY''
    \<and> jprop receipt ''beneficiary'' = jprop plan ''beneficiary'' \<and> jprop receipt ''destination'' = jprop receipt ''beneficiary''
    \<and> jprop receipt ''amount'' = jprop plan ''amount'' \<and> jprop receipt ''asset'' = jprop plan ''asset''
    \<and> jprop (jprop evidence ''chainReceipt'') ''transactionId'' = jprop receipt ''transactionId''
    \<and> jprop (jprop evidence ''chainReceipt'') ''finalized'' = JBool True
    \<and> jprop (jprop evidence ''chainReceipt'') ''amount'' = jprop plan ''amount''
    \<and> js_BigInt (jprop plan ''amount'') =
        Inr (int (nat_of_dec (str_of (jprop (jprop evidence ''credit'') ''afterBalance'')))
             - int (nat_of_dec (str_of (jprop (jprop evidence ''credit'') ''beforeBalance''))))"
  using assms unfolding verifyFeeSettlement_def Let_def by (auto simp: res_simps)

definition fee_receipt :: jsval where
  "fee_receipt = JObj [(''kind'', JStr ''TREASURY''), (''beneficiary'', JStr addr_b), (''destination'', JStr addr_b),
     (''asset'', JStr addr_a), (''source'', JStr addr_c), (''amount'', JStr ''30''), (''transactionId'', JStr ''tx1''),
     (''status'', JStr ''SUCCESS''), (''finalized'', JBool True)]"

definition fee_plan_example :: jsval where
  "fee_plan_example = JObj [(''kind'', JStr ''TREASURY''), (''beneficiary'', JStr addr_b), (''destination'', JStr addr_b),
     (''asset'', JStr addr_a), (''source'', JStr addr_c), (''amount'', JStr ''30''), (''status'', JStr ''READY'')]"

definition fee_evidence :: jsval where
  "fee_evidence = JObj [(''chainReceipt'', JObj [(''transactionId'', JStr ''tx1''), (''status'', JStr ''SUCCESS''),
       (''finalized'', JBool True), (''asset'', JStr addr_a), (''source'', JStr addr_c), (''destination'', JStr addr_b), (''amount'', JStr ''30'')]),
     (''credit'', JObj [(''asset'', JStr addr_a), (''source'', JStr addr_c), (''destination'', JStr addr_b), (''amount'', JStr ''30''),
       (''beforeBalance'', JStr ''70''), (''afterBalance'', JStr ''100'')])]"

theorem fee_settlement_needs_evidence_witness:
  "verifyFeeSettlement fee_receipt fee_plan_example fee_evidence = Inr fee_receipt
   \<and> js_BigInt (jprop fee_plan_example ''amount'') = Inr (100 - 70)"
proof -
  have ok: "verifyFeeSettlement fee_receipt fee_plan_example fee_evidence = Inr fee_receipt"
    by (simp add: verifyFeeSettlement_def fee_receipt_def fee_plan_example_def fee_evidence_def fee_eval js_BigInt_def)
  from fee_settlement_needs_evidence [OF ok] ok show ?thesis
    by (simp add: fee_evidence_def fee_eval)
qed

end
