(* ===== verification/Canonical_Json.thy ===== *)
theory Canonical_Json
  imports Hk_Prelude
begin

text \<open>
  Canonical JSON and digests of \<^verbatim>\<open>packages/runner/src/cycle/journal.mjs\<close>: the size bounds on a value,
  its canonical text (keys sorted, no white space), and the SHA-256 digest of that text.  SHA-256
  comes from \<open>node:crypto\<close>, which is not part of the repository: every definition that digests takes
  \<open>sha\<close>, the function from a text to its hexadecimal SHA-256, as a parameter.
\<close>

section \<open>JSON text\<close>

text \<open>\<open>JSON.stringify\<close> of a string: quotes, backslashes and control characters are escaped.\<close>

definition hex_digit_char :: "nat \<Rightarrow> char" where
  "hex_digit_char d = ''0123456789abcdef'' ! d"

definition json_escape :: "char \<Rightarrow> string" where
  "json_escape c =
     (let n = of_char c :: nat in
      if c = CHR 0x22 then [CHR 0x5C, CHR 0x22]
      else if c = CHR 0x5C then [CHR 0x5C, CHR 0x5C]
      else if n = 8 then [CHR 0x5C, CHR ''b'']
      else if n = 9 then [CHR 0x5C, CHR ''t'']
      else if n = 10 then [CHR 0x5C, CHR ''n'']
      else if n = 12 then [CHR 0x5C, CHR ''f'']
      else if n = 13 then [CHR 0x5C, CHR ''r'']
      else if n < 32 then [CHR 0x5C, CHR ''u'', CHR ''0'', CHR ''0'', hex_digit_char (n div 16), hex_digit_char (n mod 16)]
      else [c])"

definition json_string :: "string \<Rightarrow> string" where
  "json_string s = [CHR 0x22] @ concat (map json_escape s) @ [CHR 0x22]"

definition json_int :: "int \<Rightarrow> string" where
  "json_int i = (if i < 0 then CHR ''-'' # dec_of_nat (nat (- i)) else dec_of_nat (nat i))"

fun json_join :: "string list \<Rightarrow> string" where
  "json_join [] = []"
| "json_join [t] = t"
| "json_join (t # ts) = t @ [CHR '',''] @ json_join ts"

text \<open>
  \<open>JSON.stringify\<close>: \<open>undefined\<close> and functions have no text, are skipped as properties and print as
  \<open>null\<close> in arrays; numbers that are not finite print as \<open>null\<close>.
\<close>

fun JSON_stringify :: "jsval \<Rightarrow> string option" where
  "JSON_stringify JUndefined = None"
| "JSON_stringify JFun = None"
| "JSON_stringify JNull = Some ''null''"
| "JSON_stringify (JStr s) = Some (json_string s)"
| "JSON_stringify (JBool b) = Some (if b then ''true'' else ''false'')"
| "JSON_stringify (JNum i) = Some (json_int i)"
| "JSON_stringify (JFrac t) = Some t"
| "JSON_stringify JNonFinite = Some ''null''"
| "JSON_stringify (JArr xs) =
     Some (''['' @ json_join (map (\<lambda>x. case JSON_stringify x of None \<Rightarrow> ''null'' | Some t \<Rightarrow> t) xs) @ '']'')"
| "JSON_stringify (JObj ps) =
     Some (''{'' @ json_join (concat (map (\<lambda>p. case JSON_stringify (snd p) of None \<Rightarrow> []
        | Some t \<Rightarrow> [json_string (fst p) @ '':'' @ t]) ps)) @ ''}'')"
| "JSON_stringify (JInst ps) =
     Some (''{'' @ json_join (concat (map (\<lambda>p. case JSON_stringify (snd p) of None \<Rightarrow> []
        | Some t \<Rightarrow> [json_string (fst p) @ '':'' @ t]) ps)) @ ''}'')"

section \<open>Bounds on a value: \<open>assertBoundedCanonicalValue\<close>\<close>

record canonical_limits =
  lim_objects :: nat
  lim_arrays :: nat
  lim_arrayItems :: nat
  lim_aggregateBytes :: nat

definition default_limits :: canonical_limits where
  "default_limits = \<lparr>lim_objects = 20000, lim_arrays = 10000, lim_arrayItems = 512, lim_aggregateBytes = 4194304\<rparr>"

record visit_counters =
  vc_objects :: nat
  vc_arrays :: nat
  vc_bytes :: nat

definition propertyKeyBytes :: nat where "propertyKeyBytes = 256"
definition canonicalDepth :: nat where "canonicalDepth = 32"
definition canonicalObjectFields :: nat where "canonicalObjectFields = 64"
definition stringChars :: nat where "stringChars = 262144"
definition decimalDigits :: nat where "decimalDigits = 78"
definition hexChars :: nat where "hexChars = 131072"

definition addEncodedBytes :: "string \<Rightarrow> canonical_limits \<Rightarrow> string \<Rightarrow> bool \<Rightarrow> visit_counters \<Rightarrow> visit_counters res" where
  "addEncodedBytes label lim text isKey c =
     (if isKey \<and> length text > propertyKeyBytes then Inl (JsError (label @ '' property key byte limit exceeded''))
      else let b = vc_bytes c + length text in
        if b > lim_aggregateBytes lim then Inl (JsError (label @ '' aggregate encoded byte budget exceeded''))
        else Inr (c\<lparr>vc_bytes := b\<rparr>))"

definition visitString :: "string \<Rightarrow> canonical_limits \<Rightarrow> string \<Rightarrow> visit_counters \<Rightarrow> visit_counters res" where
  "visitString label lim s c =
     (if length s > stringChars then Inl (JsError (label @ '' string length limit exceeded''))
      else bindE (addEncodedBytes label lim s False c) (\<lambda>c'.
        if s \<noteq> [] \<and> list_all is_digit s \<and> length s > decimalDigits
        then Inl (JsError (label @ '' decimal digit limit exceeded''))
        else if s \<noteq> [] \<and> even (length s) \<and> list_all is_lower_hex s \<and> length s > hexChars
        then Inl (JsError (label @ '' hex byte limit exceeded''))
        else Inr c'))"

fun visit :: "string \<Rightarrow> canonical_limits \<Rightarrow> jsval \<Rightarrow> nat \<Rightarrow> visit_counters \<Rightarrow> visit_counters res"
  and visitItems :: "string \<Rightarrow> canonical_limits \<Rightarrow> jsval list \<Rightarrow> nat \<Rightarrow> nat \<Rightarrow> visit_counters \<Rightarrow> visit_counters res"
  and visitProps :: "string \<Rightarrow> canonical_limits \<Rightarrow> (string \<times> jsval) list \<Rightarrow> nat \<Rightarrow> visit_counters \<Rightarrow> visit_counters res"
where
  "visit label lim v depth c =
     (if depth > canonicalDepth then Inl (JsError (label @ '' depth limit exceeded''))
      else case v of
        JStr s \<Rightarrow> visitString label lim s c
      | JArr xs \<Rightarrow>
          let c' = c\<lparr>vc_arrays := vc_arrays c + 1\<rparr> in
          if vc_arrays c' > lim_arrays lim then Inl (JsError (label @ '' array count limit exceeded''))
          else if length xs > lim_arrayItems lim then Inl (JsError (label @ '' array item limit exceeded''))
          else visitItems label lim xs 0 (Suc depth) c'
      | JObj ps \<Rightarrow>
          let c' = c\<lparr>vc_objects := vc_objects c + 1\<rparr> in
          if vc_objects c' > lim_objects lim then Inl (JsError (label @ '' object count limit exceeded''))
          else if length ps > canonicalObjectFields then Inl (JsError (label @ '' object field count limit exceeded''))
          else visitProps label lim ps (Suc depth) c'
      | JInst ps \<Rightarrow>
          let c' = c\<lparr>vc_objects := vc_objects c + 1\<rparr> in
          if vc_objects c' > lim_objects lim then Inl (JsError (label @ '' object count limit exceeded''))
          else if length ps > canonicalObjectFields then Inl (JsError (label @ '' object field count limit exceeded''))
          else visitProps label lim ps (Suc depth) c'
      | _ \<Rightarrow> Inr c)"
| "visitItems label lim [] index depth c = Inr c"
| "visitItems label lim (x # xs) index depth c =
     bindE (addEncodedBytes label lim (dec_of_nat index) True c) (\<lambda>c1.
     bindE (visit label lim x depth c1) (visitItems label lim xs (Suc index) depth))"
| "visitProps label lim [] depth c = Inr c"
| "visitProps label lim ((k, x) # ps) depth c =
     bindE (addEncodedBytes label lim k True c) (\<lambda>c1.
     bindE (visit label lim x depth c1) (visitProps label lim ps depth))"

declare visit.simps [simp del]

definition assertBoundedCanonicalValue :: "jsval \<Rightarrow> string \<Rightarrow> canonical_limits \<Rightarrow> unit res" where
  "assertBoundedCanonicalValue v label lim =
     bindE (visit label lim v 0 \<lparr>vc_objects = 0, vc_arrays = 0, vc_bytes = 0\<rparr>) (\<lambda>_. Inr ())"

section \<open>Canonical text\<close>

definition forbiddenKeys :: "string list" where
  "forbiddenKeys = [''__proto__'', ''prototype'', ''constructor'']"

definition assertCanonicalObject :: "jsval \<Rightarrow> unit res" where
  "assertCanonicalObject v =
     (if \<not> isPlainObject v then Inl (JsError ''canonical object must be plain'')
      else if list_ex (\<lambda>k. k \<in> set forbiddenKeys) (ownKeys v)
      then Inl (JsError ''canonical object prototype-pollution key is unsupported'')
      else Inr ())"

fun canonicalJsonUnchecked :: "jsval \<Rightarrow> string res" where
  "canonicalJsonUnchecked JNull = Inr ''null''"
| "canonicalJsonUnchecked (JStr s) = Inr (json_string s)"
| "canonicalJsonUnchecked (JBool b) = Inr (if b then ''true'' else ''false'')"
| "canonicalJsonUnchecked (JNum i) = Inr (json_int i)"
| "canonicalJsonUnchecked (JFrac t) = Inr t"
| "canonicalJsonUnchecked JNonFinite = Inl (JsError ''canonical number must be finite and not -0'')"
| "canonicalJsonUnchecked (JArr xs) =
     bindE (mapE (\<lambda>_ x. canonicalJsonUnchecked x) 0 xs) (\<lambda>ts. Inr (''['' @ json_join ts @ '']''))"
| "canonicalJsonUnchecked (JObj ps) =
     bindE (assertCanonicalObject (JObj ps)) (\<lambda>_.
     bindE (mapE (\<lambda>_ p. bindE (canonicalJsonUnchecked (snd p)) (\<lambda>t. Inr (json_string (fst p) @ '':'' @ t))) 0 (sort_key fst ps))
       (\<lambda>ts. Inr (''{'' @ json_join ts @ ''}'')))"
| "canonicalJsonUnchecked (JInst ps) = Inl (JsError ''canonical object must be plain'')"
| "canonicalJsonUnchecked JUndefined = Inl (JsError ''canonical value has unsupported type undefined'')"
| "canonicalJsonUnchecked JFun = Inl (JsError ''canonical value has unsupported type function'')"

definition canonicalJson :: "jsval \<Rightarrow> string res" where
  "canonicalJson v =
     bindE (assertBoundedCanonicalValue v ''canonical value'' default_limits) (\<lambda>_. canonicalJsonUnchecked v)"

definition digest :: "(string \<Rightarrow> string) \<Rightarrow> jsval \<Rightarrow> string res" where
  "digest sha v = bindE (canonicalJson v) (\<lambda>t. Inr (''sha256:'' @ sha t))"

text \<open>\<open>canonicalJson(v) !== canonicalJson(w)\<close>, the comparison of two values most modules use.\<close>

definition textsDiffer :: "jsval \<Rightarrow> jsval \<Rightarrow> bool res" where
  "textsDiffer v w = bindE (canonicalJson v) (\<lambda>a. bindE (canonicalJson w) (\<lambda>b. Inr (a \<noteq> b)))"

section \<open>What the bounds measure\<close>

text \<open>
  The counters of the visit, as sums over the value: objects, arrays and encoded bytes.  A value whose
  strings, keys, arrays, objects and depth are within the fixed limits (\<open>fits\<close>) and whose sums are within the
  budgets passes, and the counters are exactly the sums.
\<close>

fun objectsOf :: "jsval \<Rightarrow> nat" where
  "objectsOf (JArr xs) = sum_list (map objectsOf xs)"
| "objectsOf (JObj ps) = Suc (sum_list (map (\<lambda>p. objectsOf (snd p)) ps))"
| "objectsOf (JInst ps) = Suc (sum_list (map (\<lambda>p. objectsOf (snd p)) ps))"
| "objectsOf v = 0"

fun arraysOf :: "jsval \<Rightarrow> nat" where
  "arraysOf (JArr xs) = Suc (sum_list (map arraysOf xs))"
| "arraysOf (JObj ps) = sum_list (map (\<lambda>p. arraysOf (snd p)) ps)"
| "arraysOf (JInst ps) = sum_list (map (\<lambda>p. arraysOf (snd p)) ps)"
| "arraysOf v = 0"

fun keyBytes :: "nat \<Rightarrow> nat \<Rightarrow> nat" where
  "keyBytes i 0 = 0"
| "keyBytes i (Suc n) = length (dec_of_nat i) + keyBytes (Suc i) n"

fun bytesOf :: "jsval \<Rightarrow> nat" where
  "bytesOf (JStr s) = length s"
| "bytesOf (JArr xs) = keyBytes 0 (length xs) + sum_list (map bytesOf xs)"
| "bytesOf (JObj ps) = sum_list (map (\<lambda>p. length (fst p) + bytesOf (snd p)) ps)"
| "bytesOf (JInst ps) = sum_list (map (\<lambda>p. length (fst p) + bytesOf (snd p)) ps)"
| "bytesOf v = 0"

fun fits :: "nat \<Rightarrow> nat \<Rightarrow> jsval \<Rightarrow> bool" where
  "fits items d (JStr s) = (d \<le> canonicalDepth \<and> length s \<le> decimalDigits)"
| "fits items d (JArr xs) = (d \<le> canonicalDepth \<and> length xs \<le> items \<and> list_all (\<lambda>i. length (dec_of_nat i) \<le> propertyKeyBytes) [0..<length xs]
     \<and> list_all (fits items (Suc d)) xs)"
| "fits items d (JObj ps) = (d \<le> canonicalDepth \<and> length ps \<le> canonicalObjectFields
     \<and> list_all (\<lambda>p. length (fst p) \<le> propertyKeyBytes \<and> fits items (Suc d) (snd p)) ps)"
| "fits items d (JInst ps) = (d \<le> canonicalDepth \<and> length ps \<le> canonicalObjectFields
     \<and> list_all (\<lambda>p. length (fst p) \<le> propertyKeyBytes \<and> fits items (Suc d) (snd p)) ps)"
| "fits items d v = (d \<le> canonicalDepth)"

definition bump :: "nat \<Rightarrow> nat \<Rightarrow> nat \<Rightarrow> visit_counters \<Rightarrow> visit_counters" where
  "bump o' a b c = \<lparr>vc_objects = vc_objects c + o', vc_arrays = vc_arrays c + a, vc_bytes = vc_bytes c + b\<rparr>"

definition room :: "canonical_limits \<Rightarrow> nat \<Rightarrow> nat \<Rightarrow> nat \<Rightarrow> visit_counters \<Rightarrow> bool" where
  "room lim o' a b c = (vc_objects c + o' \<le> lim_objects lim \<and> vc_arrays c + a \<le> lim_arrays lim \<and> vc_bytes c + b \<le> lim_aggregateBytes lim)"

definition visits :: "string \<Rightarrow> canonical_limits \<Rightarrow> nat \<Rightarrow> jsval \<Rightarrow> bool" where
  "visits label lim d v = (\<forall>c. room lim (objectsOf v) (arraysOf v) (bytesOf v) c
     \<longrightarrow> visit label lim v d c = Inr (bump (objectsOf v) (arraysOf v) (bytesOf v) c))"

lemma bump_bump [simp]: "bump o1 a1 b1 (bump o2 a2 b2 c) = bump (o2 + o1) (a2 + a1) (b2 + b1) c"
  by (simp add: bump_def)

lemma addEncodedBytes_ok:
  "room lim 0 0 (length t) c \<Longrightarrow> (isKey \<longrightarrow> length t \<le> propertyKeyBytes) \<Longrightarrow> addEncodedBytes label lim t isKey c = Inr (bump 0 0 (length t) c)"
  by (auto simp: addEncodedBytes_def room_def bump_def Let_def)

lemma visitItems_ok:
  "\<forall>x \<in> set xs. visits label lim d x \<Longrightarrow> \<forall>j. j < length xs \<longrightarrow> length (dec_of_nat (i + j)) \<le> propertyKeyBytes \<Longrightarrow>
   room lim (sum_list (map objectsOf xs)) (sum_list (map arraysOf xs)) (keyBytes i (length xs) + sum_list (map bytesOf xs)) c \<Longrightarrow>
   visitItems label lim xs i d c
     = Inr (bump (sum_list (map objectsOf xs)) (sum_list (map arraysOf xs)) (keyBytes i (length xs) + sum_list (map bytesOf xs)) c)"
proof (induction xs arbitrary: i c)
  case Nil
  then show ?case by (simp add: bump_def)
next
  case (Cons x xs)
  have k: "length (dec_of_nat i) \<le> propertyKeyBytes" using Cons.prems(2) by force
  have rest: "\<forall>j. j < length xs \<longrightarrow> length (dec_of_nat (Suc i + j)) \<le> propertyKeyBytes"
    using Cons.prems(2) by (metis Suc_less_eq add_Suc add_Suc_right length_Cons)
  have "addEncodedBytes label lim (dec_of_nat i) True c = Inr (bump 0 0 (length (dec_of_nat i)) c)"
    by (rule addEncodedBytes_ok) (use Cons.prems(3) k in \<open>simp_all add: room_def\<close>)
  moreover have "visit label lim x d (bump 0 0 (length (dec_of_nat i)) c)
      = Inr (bump (objectsOf x) (arraysOf x) (length (dec_of_nat i) + bytesOf x) c)"
    using Cons.prems(1,3) by (simp add: visits_def room_def bump_def [of 0 0])
      (simp add: bump_def)
  moreover have "visitItems label lim xs (Suc i) d (bump (objectsOf x) (arraysOf x) (length (dec_of_nat i) + bytesOf x) c)
      = Inr (bump (sum_list (map objectsOf xs)) (sum_list (map arraysOf xs)) (keyBytes (Suc i) (length xs) + sum_list (map bytesOf xs))
          (bump (objectsOf x) (arraysOf x) (length (dec_of_nat i) + bytesOf x) c))"
    by (rule Cons.IH) (use Cons.prems rest in \<open>simp_all add: room_def bump_def\<close>)
  ultimately show ?case by (simp add: ac_simps)
qed

lemma visitProps_ok:
  "\<forall>p \<in> set ps. length (fst p) \<le> propertyKeyBytes \<and> visits label lim d (snd p) \<Longrightarrow>
   room lim (sum_list (map (\<lambda>p. objectsOf (snd p)) ps)) (sum_list (map (\<lambda>p. arraysOf (snd p)) ps))
     (sum_list (map (\<lambda>p. length (fst p) + bytesOf (snd p)) ps)) c \<Longrightarrow>
   visitProps label lim ps d c = Inr (bump (sum_list (map (\<lambda>p. objectsOf (snd p)) ps)) (sum_list (map (\<lambda>p. arraysOf (snd p)) ps))
     (sum_list (map (\<lambda>p. length (fst p) + bytesOf (snd p)) ps)) c)"
proof (induction ps arbitrary: c)
  case Nil
  then show ?case by (simp add: bump_def)
next
  case (Cons p ps)
  obtain k x where p: "p = (k, x)" by (cases p)
  have "addEncodedBytes label lim k True c = Inr (bump 0 0 (length k) c)"
    by (rule addEncodedBytes_ok) (use Cons.prems in \<open>simp_all add: room_def p\<close>)
  moreover have "visit label lim x d (bump 0 0 (length k) c) = Inr (bump (objectsOf x) (arraysOf x) (length k + bytesOf x) c)"
    using Cons.prems by (simp add: visits_def room_def bump_def [of 0 0] p) (simp add: bump_def)
  moreover have "visitProps label lim ps d (bump (objectsOf x) (arraysOf x) (length k + bytesOf x) c)
      = Inr (bump (sum_list (map (\<lambda>p. objectsOf (snd p)) ps)) (sum_list (map (\<lambda>p. arraysOf (snd p)) ps))
          (sum_list (map (\<lambda>p. length (fst p) + bytesOf (snd p)) ps)) (bump (objectsOf x) (arraysOf x) (length k + bytesOf x) c))"
    by (rule Cons.IH) (use Cons.prems in \<open>simp_all add: room_def bump_def p\<close>)
  ultimately show ?case by (simp add: p ac_simps)
qed

lemma bump_record: "c\<lparr>vc_arrays := Suc (vc_arrays c)\<rparr> = bump 0 1 0 c" "c\<lparr>vc_objects := Suc (vc_objects c)\<rparr> = bump 1 0 0 c"
  by (simp_all add: bump_def)

lemma fits_visits: "fits (lim_arrayItems lim) d v \<Longrightarrow> visits label lim d v"
proof (induction "lim_arrayItems lim" d v rule: fits.induct)
  case (1 d s)
  then show ?case
    by (auto simp: visits_def visit.simps visitString_def stringChars_def hexChars_def decimalDigits_def addEncodedBytes_def room_def bump_def)
next
  case (2 d xs)
  then have "\<forall>x \<in> set xs. visits label lim (Suc d) x" "\<forall>j. j < length xs \<longrightarrow> length (dec_of_nat (0 + j)) \<le> propertyKeyBytes"
    by (auto simp: list_all_iff)
  from visitItems_ok [OF this] 2(2) show ?case
    by (simp add: visits_def visit.simps Let_def bump_record) (auto simp: room_def bump_def)
next
  case (3 d ps)
  then have "\<forall>p \<in> set ps. length (fst p) \<le> propertyKeyBytes \<and> visits label lim (Suc d) (snd p)" by (auto simp: list_all_iff)
  from visitProps_ok [OF this] 3(2) show ?case
    by (simp add: visits_def visit.simps Let_def bump_record) (auto simp: room_def bump_def)
next
  case (4 d ps)
  then have "\<forall>p \<in> set ps. length (fst p) \<le> propertyKeyBytes \<and> visits label lim (Suc d) (snd p)" by (auto simp: list_all_iff)
  from visitProps_ok [OF this] 4(2) show ?case
    by (simp add: visits_def visit.simps Let_def bump_record) (auto simp: room_def bump_def)
qed (auto simp: visits_def visit.simps bump_def)

lemma assertBounded_ok:
  assumes "fits (lim_arrayItems lim) 0 v" and "objectsOf v \<le> lim_objects lim" and "arraysOf v \<le> lim_arrays lim"
    and "bytesOf v \<le> lim_aggregateBytes lim"
  shows "assertBoundedCanonicalValue v label lim = Inr ()"
  using fits_visits [OF assms(1), of label] assms(2-4) by (simp add: assertBoundedCanonicalValue_def visits_def room_def)

lemma canonicalJson_fits:
  assumes "fits 512 0 v" and "objectsOf v \<le> 20000" and "arraysOf v \<le> 10000" and "bytesOf v \<le> 4194304"
  shows "canonicalJson v = canonicalJsonUnchecked v"
  using assms by (simp add: canonicalJson_def assertBounded_ok default_limits_def)

text \<open>Values the canonical text accepts: plain objects without forbidden keys, nothing undefined, callable or not finite.\<close>

fun canonOk :: "jsval \<Rightarrow> bool" where
  "canonOk JNonFinite = False"
| "canonOk (JArr xs) = list_all canonOk xs"
| "canonOk (JObj ps) = list_all (\<lambda>p. fst p \<notin> set forbiddenKeys \<and> canonOk (snd p)) ps"
| "canonOk (JInst ps) = False"
| "canonOk JUndefined = False"
| "canonOk JFun = False"
| "canonOk v = True"

lemma mapE_allOk: "(\<And>x i. x \<in> set xs \<Longrightarrow> isOk (f i x)) \<Longrightarrow> isOk (mapE f i xs)"
  by (induction xs arbitrary: i) (auto simp: isOk_iff res_simps, metis)

lemma canonOk_text: "canonOk v \<Longrightarrow> isOk (canonicalJsonUnchecked v)"
proof (induction v)
  case (JArr xs)
  then have "isOk (mapE (\<lambda>_ x. canonicalJsonUnchecked x) 0 xs)" by (intro mapE_allOk) (simp add: list_all_iff)
  then show ?case by (auto simp: isOk_iff)
next
  case (JObj ps)
  have "isOk (bindE (canonicalJsonUnchecked (snd p)) (\<lambda>t. Inr (json_string (fst p) @ '':'' @ t)))" if "p \<in> set ps" for p
    using JObj.IH [of p "snd p"] JObj.prems that by (cases p) (fastforce simp: list_all_iff isOk_iff snds.simps)
  then have "isOk (mapE (\<lambda>_ p. bindE (canonicalJsonUnchecked (snd p)) (\<lambda>t. Inr (json_string (fst p) @ '':'' @ t))) 0 (sort_key fst ps))"
    by (intro mapE_allOk) simp
  moreover have "assertCanonicalObject (JObj ps) = Inr ()"
    using JObj.prems by (auto simp: assertCanonicalObject_def isPlainObject_def ownKeys_def list_all_iff list_ex_iff)
  ultimately show ?case by (auto simp: isOk_iff)
qed simp_all

lemma canonicalJson_accepts:
  assumes "fits 512 0 v" and "objectsOf v \<le> 20000" and "arraysOf v \<le> 10000" and "bytesOf v \<le> 4194304" and "canonOk v"
  shows "\<exists>t. canonicalJson v = Inr t"
  using canonOk_text [OF assms(5)] canonicalJson_fits [OF assms(1-4)] by (simp add: isOk_iff)

lemmas json_limits = canonicalDepth_def propertyKeyBytes_def canonicalObjectFields_def decimalDigits_def forbiddenKeys_def

end
