(* ===== verification/Reward_Selection.thy ===== *)
theory Reward_Selection
  imports Canonical_Json
begin

text \<open>
  The reward recipient policy of a cycle: the admitted limits
  (\<^verbatim>\<open>packages/runner/src/config/reward-recipient-selection.mjs\<close>) and the digested record that freezes
  one of them for a cycle (\<^verbatim>\<open>packages/runner/src/automation/reward-selection-snapshot.mjs\<close>).
\<close>

definition REWARD_RECIPIENT_LIMIT_OPTIONS :: "int list" where
  "REWARD_RECIPIENT_LIMIT_OPTIONS = [100, 200, 300, 400, 500, 600, 700, 800, 900, 1000]"

definition assertRewardRecipientLimit :: "jsval \<Rightarrow> int res" where
  "assertRewardRecipientLimit v =
     (if \<not> isInteger v \<or> num_of v \<notin> set REWARD_RECIPIENT_LIMIT_OPTIONS
      then Inl (JsError ''rewardRecipientLimit must be an integer from 100 through 1000 in increments of 100'')
      else Inr (num_of v))"

definition REWARD_SELECTION_SNAPSHOT_SCHEMA :: string where
  "REWARD_SELECTION_SNAPSHOT_SCHEMA = ''hookemon.reward-selection-snapshot.v1''"

definition INPUT_FIELDS :: "string list" where
  "INPUT_FIELDS = [''cycleId'', ''configurationRevision'', ''rewardRecipientLimit'']"

definition exact :: "jsval \<Rightarrow> string list \<Rightarrow> unit res" where
  "exact v fieldNames =
     (if \<not> isPlainObject v then Inl (JsError ''reward selection snapshot must be a plain object'')
      else if \<not> exactKeys v fieldNames then Inl (JsError ''reward selection snapshot must use the exact schema'')
      else Inr ())"

text \<open>\<open>s.trim()\<close> is empty: every character is white space or a line terminator.\<close>

definition is_space :: "char \<Rightarrow> bool" where
  "is_space c = ((of_char c :: nat) \<in> {9, 10, 11, 12, 13, 32, 160})"

definition isBlank :: "string \<Rightarrow> bool" where
  "isBlank s = list_all is_space s"

definition payload :: "jsval \<Rightarrow> (string \<times> jsval) list res" where
  "payload v =
     (if \<not> str_matches (\<lambda>s. \<not> isBlank s) (jprop v ''cycleId'')
      then Inl (JsError ''reward selection snapshot cycleId is invalid'')
      else if \<not> isSafeInteger (jprop v ''configurationRevision'') \<or> num_of (jprop v ''configurationRevision'') < 0
      then Inl (JsError ''reward selection snapshot configurationRevision is invalid'')
      else bindE (assertRewardRecipientLimit (jprop v ''rewardRecipientLimit'')) (\<lambda>limit.
        Inr [(''schema'', JStr REWARD_SELECTION_SNAPSHOT_SCHEMA), (''cycleId'', jprop v ''cycleId''),
             (''configurationRevision'', jprop v ''configurationRevision''), (''rewardRecipientLimit'', JNum limit)]))"

definition rewardSelectionDigest :: "(string \<Rightarrow> string) \<Rightarrow> (string \<times> jsval) list \<Rightarrow> string" where
  "rewardSelectionDigest sha ps =
     (let canonical = the (JSON_stringify (JObj (sort_key fst ps))) in
      ''sha256:'' @ sha (REWARD_SELECTION_SNAPSHOT_SCHEMA @ [CHR 0x0A] @ canonical))"

definition createRewardSelectionSnapshot :: "(string \<Rightarrow> string) \<Rightarrow> jsval \<Rightarrow> jsval res" where
  "createRewardSelectionSnapshot sha v =
     bindE (exact v INPUT_FIELDS) (\<lambda>_.
     bindE (payload v) (\<lambda>content.
       Inr (JObj (content @ [(''digest'', JStr (rewardSelectionDigest sha content))]))))"

text \<open>The optional \<open>cycleId\<close> argument is \<open>JUndefined\<close> when it is left out.\<close>

definition assertRewardSelectionSnapshot :: "(string \<Rightarrow> string) \<Rightarrow> jsval \<Rightarrow> jsval \<Rightarrow> jsval res" where
  "assertRewardSelectionSnapshot sha v cycleId =
     bindE (exact v ([''schema''] @ INPUT_FIELDS @ [''digest''])) (\<lambda>_.
     bindE (payload v) (\<lambda>content.
       if jprop v ''schema'' \<noteq> JStr REWARD_SELECTION_SNAPSHOT_SCHEMA
          \<or> jprop v ''digest'' \<noteq> JStr (rewardSelectionDigest sha content)
       then Inl (JsError ''reward selection snapshot digest or schema mismatch'')
       else if cycleId \<noteq> JUndefined \<and> jprop v ''cycleId'' \<noteq> cycleId
       then Inl (JsError ''reward selection snapshot cycleId mismatch'')
       else Inr v))"

lemma assertRewardRecipientLimit_range:
  "assertRewardRecipientLimit v = Inr n \<Longrightarrow> v = JNum n \<and> 100 \<le> n \<and> n \<le> 1000 \<and> n mod 100 = 0"
  by (auto simp: assertRewardRecipientLimit_def REWARD_RECIPIENT_LIMIT_OPTIONS_def isInteger_iff split: if_splits)

lemma exact_Inr_iff: "exact v fs = Inr u \<longleftrightarrow> isPlainObject v \<and> exactKeys v fs"
  by (auto simp: exact_def)

lemma payload_Inr:
  "payload v = Inr c \<Longrightarrow> \<exists>s r n. jprop v ''cycleId'' = JStr s \<and> \<not> isBlank s
     \<and> jprop v ''configurationRevision'' = JNum r \<and> 0 \<le> r \<and> safeInt r \<and> jprop v ''rewardRecipientLimit'' = JNum n
     \<and> n \<in> set REWARD_RECIPIENT_LIMIT_OPTIONS
     \<and> c = [(''schema'', JStr REWARD_SELECTION_SNAPSHOT_SCHEMA), (''cycleId'', JStr s),
            (''configurationRevision'', JNum r), (''rewardRecipientLimit'', JNum n)]"
  by (auto simp: payload_def res_simps str_matches_iff assertRewardRecipientLimit_def isInteger_iff isSafeInteger_def
      split: if_splits jsval.splits)

lemma payload_content:
  "\<not> isBlank s \<Longrightarrow> 0 \<le> r \<Longrightarrow> safeInt r \<Longrightarrow> n \<in> set REWARD_RECIPIENT_LIMIT_OPTIONS \<Longrightarrow>
   payload (JObj ([(''schema'', x), (''cycleId'', JStr s), (''configurationRevision'', JNum r), (''rewardRecipientLimit'', JNum n)] @ ps))
   = Inr [(''schema'', JStr REWARD_SELECTION_SNAPSHOT_SCHEMA), (''cycleId'', JStr s),
            (''configurationRevision'', JNum r), (''rewardRecipientLimit'', JNum n)]"
  by (simp add: payload_def jprop_JObj assertRewardRecipientLimit_def isInteger_def isSafeInteger_def)

lemma create_reward_selection_accepted:
  assumes "createRewardSelectionSnapshot sha v = Inr w"
  shows "assertRewardSelectionSnapshot sha w JUndefined = Inr w
    \<and> assertRewardSelectionSnapshot sha w (jprop v ''cycleId'') = Inr w"
proof -
  from assms obtain c where c: "payload v = Inr c"
    and w: "w = JObj (c @ [(''digest'', JStr (rewardSelectionDigest sha c))])"
    by (auto simp: createRewardSelectionSnapshot_def res_simps)
  from payload_Inr [OF c] obtain s r n where
      f: "jprop v ''cycleId'' = JStr s" "\<not> isBlank s" "0 \<le> r" "safeInt r" "n \<in> set REWARD_RECIPIENT_LIMIT_OPTIONS"
    and ce: "c = [(''schema'', JStr REWARD_SELECTION_SNAPSHOT_SCHEMA), (''cycleId'', JStr s),
            (''configurationRevision'', JNum r), (''rewardRecipientLimit'', JNum n)]"
    by blast
  have "payload w = Inr c" unfolding w using f by (subst ce) (simp add: payload_content [simplified] ce)
  moreover have "exact w ([''schema''] @ INPUT_FIELDS @ [''digest'']) = Inr ()"
    by (simp add: exact_Inr_iff w ce isPlainObject_def exactKeys_def ownKeys_def hasOwn_def INPUT_FIELDS_def)
  moreover have "jprop w ''schema'' = JStr REWARD_SELECTION_SNAPSHOT_SCHEMA" "jprop w ''cycleId'' = JStr s"
    "jprop w ''digest'' = JStr (rewardSelectionDigest sha c)"
    by (simp_all add: w ce jprop_JObj)
  ultimately show ?thesis using f by (simp add: assertRewardSelectionSnapshot_def)
qed

end
