(* ===== verification/Snapshot_Indexer.thy ===== *)
theory Snapshot_Indexer
  imports Reward_Selection "HOL-Library.Product_Lexorder"
begin

text \<open>
  The holder snapshot indexer, \<^verbatim>\<open>packages/runner/src/distribution/snapshot-indexer.mjs\<close>, with the
  reward selection records it validates (\<^verbatim>\<open>automation/reward-selection-snapshot.mjs\<close>,
  \<^verbatim>\<open>config/reward-recipient-selection.mjs\<close>): transfer logs are folded into balances, excluded
  addresses are split off, the result is sorted and digested, and the largest holders are selected.
\<close>

section \<open>Validators\<close>

definition assertExactShape :: "jsval \<Rightarrow> string list \<Rightarrow> string \<Rightarrow> jsval res" where
  "assertExactShape v fieldNames label =
     (if \<not> isPlainObject v then Inl (JsError (label @ '' must be a plain object''))
      else if \<not> exactKeys v fieldNames then Inl (JsError (label @ '' must use the exact schema''))
      else Inr v)"

definition assertBoundedArray :: "jsval \<Rightarrow> string \<Rightarrow> nat \<Rightarrow> nat \<Rightarrow> jsval list res" where
  "assertBoundedArray v label lo hi =
     (if \<not> isArray v \<or> length (arr_of v) < lo \<or> length (arr_of v) > hi
      then Inl (JsError (label @ '' must contain between '' @ dec_of_nat lo @ '' and '' @ dec_of_nat hi @ '' entries''))
      else Inr (arr_of v))"

definition assertAddress :: "jsval \<Rightarrow> string \<Rightarrow> bool \<Rightarrow> string res" where
  "assertAddress v label allowZero =
     (if \<not> str_matches (hex_pattern 40) v then Inl (JsError (label @ '' must be a canonical lowercase EVM address''))
      else if \<not> allowZero \<and> str_of v = ZERO_ADDRESS then Inl (JsError (label @ '' must be nonzero''))
      else Inr (str_of v))"

definition assertDecimalString :: "jsval \<Rightarrow> string \<Rightarrow> bool \<Rightarrow> string res" where
  "assertDecimalString v label positive =
     (if \<not> str_matches (if positive then is_pos_decimal else is_decimal) v
      then Inl (JsError (label @ '' must be a canonical decimal string''))
      else Inr (str_of v))"

definition assertTokenDecimals :: "jsval \<Rightarrow> string \<Rightarrow> int res" where
  "assertTokenDecimals v label =
     (if \<not> isInteger v \<or> num_of v < 0 \<or> num_of v > 255
      then Inl (JsError (label @ '' must be an integer between 0 and 255''))
      else Inr (num_of v))"

text \<open>A typed amount: \<open>{ chainId, assetId, decimals, amountAtomic }\<close>.\<close>

record typed_amount =
  ta_chainId :: string
  ta_assetId :: string
  ta_decimals :: int
  ta_amountAtomic :: string

definition TYPED_AMOUNT_FIELDS :: "string list" where
  "TYPED_AMOUNT_FIELDS = [''chainId'', ''assetId'', ''decimals'', ''amountAtomic'']"

definition jsval_of_amount :: "typed_amount \<Rightarrow> jsval" where
  "jsval_of_amount a = JObj [(''chainId'', JStr (ta_chainId a)), (''assetId'', JStr (ta_assetId a)),
     (''decimals'', JNum (ta_decimals a)), (''amountAtomic'', JStr (ta_amountAtomic a))]"

definition assertTypedHkmnAmount :: "jsval \<Rightarrow> string \<Rightarrow> jsval \<Rightarrow> jsval \<Rightarrow> jsval \<Rightarrow> typed_amount res" where
  "assertTypedHkmnAmount v label chainId tokenAddress decimals =
     bindE (assertExactShape v TYPED_AMOUNT_FIELDS label) (\<lambda>amount.
     bindE (assertDecimalString (jprop amount ''chainId'') (label @ '' chainId'') True) (\<lambda>c.
     bindE (assertAddress (jprop amount ''assetId'') (label @ '' assetId'') False) (\<lambda>a.
     bindE (assertTokenDecimals (jprop amount ''decimals'') (label @ '' decimals'')) (\<lambda>d.
     bindE (assertDecimalString (jprop amount ''amountAtomic'') (label @ '' amountAtomic'') False) (\<lambda>n.
       if JStr c \<noteq> chainId \<or> JStr a \<noteq> tokenAddress \<or> JNum d \<noteq> decimals
       then Inl (JsError (label @ '' does not identify the snapshot token''))
       else Inr \<lparr>ta_chainId = c, ta_assetId = a, ta_decimals = d, ta_amountAtomic = n\<rparr>)))))"

lemma assertExactShape_Inr [res_simps]:
  "assertExactShape v fs label = Inr w \<longleftrightarrow> w = v \<and> isPlainObject v \<and> exactKeys v fs"
  by (auto simp: assertExactShape_def)

lemma assertBoundedArray_Inr [res_simps]:
  "assertBoundedArray v label lo hi = Inr xs \<longleftrightarrow> v = JArr xs \<and> lo \<le> length xs \<and> length xs \<le> hi"
  by (auto simp: assertBoundedArray_def isArray_iff)

lemma snapshotAddress_Inr [res_simps]:
  "assertAddress v label z = Inr a \<longleftrightarrow> v = JStr a \<and> hex_pattern 40 a \<and> (z \<or> a \<noteq> ZERO_ADDRESS)"
  by (auto simp: assertAddress_def str_matches_iff)

lemma assertDecimalString_Inr [res_simps]:
  "assertDecimalString v label p = Inr s \<longleftrightarrow> v = JStr s \<and> (if p then is_pos_decimal s else is_decimal s)"
  by (auto simp: assertDecimalString_def str_matches_iff)

section \<open>Snapshot digests\<close>

text \<open>
  \<open>appendCanonicalJson\<close> feeds the canonical text into the hash piece by piece; the model builds the
  concatenation of the pieces.
\<close>

fun appendCanonicalJson :: "jsval \<Rightarrow> string res" where
  "appendCanonicalJson JNull = Inr ''null''"
| "appendCanonicalJson (JStr s) = Inr (json_string s)"
| "appendCanonicalJson (JBool b) = Inr (if b then ''true'' else ''false'')"
| "appendCanonicalJson (JNum i) = Inr (json_int i)"
| "appendCanonicalJson (JFrac t) = Inr t"
| "appendCanonicalJson JNonFinite = Inr ''null''"
| "appendCanonicalJson (JArr xs) =
     bindE (mapE (\<lambda>_ x. appendCanonicalJson x) 0 xs) (\<lambda>ts. Inr (''['' @ json_join ts @ '']''))"
| "appendCanonicalJson (JObj ps) =
     bindE (mapE (\<lambda>_ p. bindE (appendCanonicalJson (snd p)) (\<lambda>t. Inr (json_string (fst p) @ '':'' @ t))) 0 (sort_key fst ps))
       (\<lambda>ts. Inr (''{'' @ json_join ts @ ''}''))"
| "appendCanonicalJson (JInst ps) = Inl (JsError ''snapshot digest value is unsupported'')"
| "appendCanonicalJson JUndefined = Inl (JsError ''snapshot digest value is unsupported'')"
| "appendCanonicalJson JFun = Inl (JsError ''snapshot digest value is unsupported'')"

definition snapshotDigest :: "(string \<Rightarrow> string) \<Rightarrow> jsval \<Rightarrow> string res" where
  "snapshotDigest sha v = bindE (appendCanonicalJson v) (\<lambda>t. Inr (''sha256:'' @ sha t))"

text \<open>The digest is defined on every value built of JSON data.\<close>

fun json_value :: "jsval \<Rightarrow> bool" where
  "json_value JUndefined = False"
| "json_value JFun = False"
| "json_value (JInst ps) = False"
| "json_value (JArr xs) = list_all json_value xs"
| "json_value (JObj ps) = list_all (\<lambda>p. json_value (snd p)) ps"
| "json_value v = True"

lemma mapE_ok: "(\<And>i x. x \<in> set xs \<Longrightarrow> isOk (f i x)) \<Longrightarrow> isOk (mapE f i xs)"
proof (induction xs arbitrary: i)
  case Nil
  then show ?case by simp
next
  case (Cons x xs)
  then have "isOk (f i x)" "isOk (mapE f (Suc i) xs)" by simp_all
  then show ?case by (auto simp: isOk_iff)
qed

lemma bindE_ok: "isOk m \<Longrightarrow> (\<And>x. m = Inr x \<Longrightarrow> isOk (f x)) \<Longrightarrow> isOk (bindE m f)"
  by (auto simp: isOk_iff)

lemma appendCanonicalJson_ok: "json_value v \<Longrightarrow> isOk (appendCanonicalJson v)"
proof (induction v rule: appendCanonicalJson.induct)
  case (7 xs)
  then show ?case by (auto simp: list_all_iff intro!: bindE_ok mapE_ok)
next
  case (8 ps)
  have "isOk (appendCanonicalJson (snd p))" if "p \<in> set ps" for p
    using 8 that by (auto simp: list_all_iff)
  then show ?case by (auto intro!: bindE_ok mapE_ok)
qed simp_all

lemma snapshotDigest_ok: "json_value v \<Longrightarrow> isOk (snapshotDigest sha v)"
  by (auto simp: snapshotDigest_def intro!: bindE_ok appendCanonicalJson_ok)

section \<open>Folding transfer logs\<close>

definition TRANSFER_LOG_FIELDS :: "string list" where
  "TRANSFER_LOG_FIELDS = [''blockNumber'', ''logIndex'', ''from'', ''to'', ''value'']"

record fold_state =
  fs_balances :: "(string \<times> nat) list"
  fs_previousBlock :: int
  fs_previousLogIndex :: int
  fs_mintedTotal :: nat
  fs_burnedTotal :: nat

definition fold_init :: fold_state where
  "fold_init = \<lparr>fs_balances = [], fs_previousBlock = -1, fs_previousLogIndex = -1, fs_mintedTotal = 0, fs_burnedTotal = 0\<rparr>"

definition balanceOf :: "(string \<times> nat) list \<Rightarrow> string \<Rightarrow> nat" where
  "balanceOf m a = (case omap_get m a of None \<Rightarrow> 0 | Some b \<Rightarrow> b)"

text \<open>The two halves of one transfer: the debit (or mint), then the credit (or burn).\<close>

definition debitTransfer :: "string \<Rightarrow> string \<Rightarrow> nat \<Rightarrow> fold_state \<Rightarrow> fold_state res" where
  "debitTransfer label src amount st =
     (if src = ZERO_ADDRESS then Inr (st\<lparr>fs_mintedTotal := fs_mintedTotal st + amount\<rparr>)
      else let current = balanceOf (fs_balances st) src in
        if current < amount
        then Inl (JsError (label @ '' debits more than the running balance - the transfer-log set is incomplete''))
        else Inr (st\<lparr>fs_balances := omap_set src (current - amount) (fs_balances st)\<rparr>))"

definition creditTransfer :: "string \<Rightarrow> nat \<Rightarrow> fold_state \<Rightarrow> fold_state" where
  "creditTransfer dst amount st =
     (if dst = ZERO_ADDRESS then st\<lparr>fs_burnedTotal := fs_burnedTotal st + amount\<rparr>
      else st\<lparr>fs_balances := omap_set dst (balanceOf (fs_balances st) dst + amount) (fs_balances st)\<rparr>)"

definition foldTransferLog :: "nat \<Rightarrow> nat \<Rightarrow> jsval \<Rightarrow> fold_state \<Rightarrow> fold_state res" where
  "foldTransferLog snapshotBlock position entry st =
     (let label = ''holder snapshot transfer log '' @ dec_of_nat position in
      bindE (assertExactShape entry TRANSFER_LOG_FIELDS label) (\<lambda>log.
      bindE (assertDecimalString (jprop log ''blockNumber'') (label @ '' block number'') False) (\<lambda>bn.
      bindE (assertDecimalString (jprop log ''logIndex'') (label @ '' log index'') False) (\<lambda>li.
      bindE (assertAddress (jprop log ''from'') (label @ '' from'') True) (\<lambda>src.
      bindE (assertAddress (jprop log ''to'') (label @ '' to'') True) (\<lambda>dst.
      bindE (assertDecimalString (jprop log ''value'') (label @ '' value'') False) (\<lambda>v.
        let blockNumber = int (nat_of_dec bn); logIndex = int (nat_of_dec li) in
        if blockNumber > int snapshotBlock
        then Inl (JsError (label @ '' is newer than the finalized snapshot block''))
        else if blockNumber < fs_previousBlock st \<or> (blockNumber = fs_previousBlock st \<and> logIndex \<le> fs_previousLogIndex st)
        then Inl (JsError (label @ '' is out of canonical (blockNumber, logIndex) order''))
        else
          let st1 = st\<lparr>fs_previousBlock := blockNumber, fs_previousLogIndex := logIndex\<rparr>; amount = nat_of_dec v in
          if amount = 0 then Inr st1
          else bindE (debitTransfer label src amount st1) (\<lambda>st2. Inr (creditTransfer dst amount st2)))))))))"

definition foldTransferLogs :: "jsval \<Rightarrow> string \<Rightarrow> fold_state res" where
  "foldTransferLogs transferLogs snapshotBlockNumber =
     bindE (assertBoundedArray transferLogs ''holder snapshot transfer logs'' 0 (nat MAX_SAFE_INTEGER)) (\<lambda>logs.
       foldE (foldTransferLog (nat_of_dec snapshotBlockNumber)) 0 logs fold_init)"

section \<open>Building the snapshot\<close>

definition HOLDER_SNAPSHOT_SCHEMA :: string where
  "HOLDER_SNAPSHOT_SCHEMA = ''hookemon.hkmn-holder-snapshot.v1''"

definition DIRECT_BALANCES_LIMIT :: nat where
  "DIRECT_BALANCES_LIMIT = 250000"

record holder_snapshot =
  hs_chainId :: string
  hs_tokenAddress :: string
  hs_blockNumber :: string
  hs_blockHash :: string
  hs_totalSupply :: string
  hs_totalHolderBalance :: string
  hs_totalExcludedBalance :: string
  hs_holderCount :: int
  hs_excludedAddresses :: "(string \<times> string) list"
  hs_directBalances :: "(string \<times> string) list"
  hs_holderSnapshotDigest :: string

definition SNAPSHOT_INPUT_FIELDS :: "string list" where
  "SNAPSHOT_INPUT_FIELDS = [''chainId'', ''tokenAddress'', ''blockNumber'', ''blockHash'', ''finalized'',
     ''totalSupply'', ''excludedAddresses'', ''transferLogs'']"

definition jsval_of_excluded :: "string \<times> string \<Rightarrow> jsval" where
  "jsval_of_excluded p = JObj [(''address'', JStr (fst p)), (''reason'', JStr (snd p))]"

definition jsval_of_balance :: "string \<times> string \<Rightarrow> jsval" where
  "jsval_of_balance p = JObj [(''recipient'', JStr (fst p)), (''directHkmnBalance'', JStr (snd p))]"

definition snapshotContentProps :: "holder_snapshot \<Rightarrow> (string \<times> jsval) list" where
  "snapshotContentProps s =
     [(''schema'', JStr HOLDER_SNAPSHOT_SCHEMA), (''chainId'', JStr (hs_chainId s)),
      (''tokenAddress'', JStr (hs_tokenAddress s)), (''blockNumber'', JStr (hs_blockNumber s)),
      (''blockHash'', JStr (hs_blockHash s)), (''finalized'', JBool True),
      (''totalSupply'', JStr (hs_totalSupply s)), (''totalHolderBalance'', JStr (hs_totalHolderBalance s)),
      (''totalExcludedBalance'', JStr (hs_totalExcludedBalance s)), (''holderCount'', JNum (hs_holderCount s)),
      (''excludedAddresses'', JArr (map jsval_of_excluded (hs_excludedAddresses s))),
      (''directBalances'', JArr (map jsval_of_balance (hs_directBalances s)))]"

definition jsval_of_snapshot :: "holder_snapshot \<Rightarrow> jsval" where
  "jsval_of_snapshot s = JObj (snapshotContentProps s @ [(''holderSnapshotDigest'', JStr (hs_holderSnapshotDigest s))])"

definition snapshotContentDigest :: "(string \<Rightarrow> string) \<Rightarrow> (string \<times> jsval) list \<Rightarrow> string res" where
  "snapshotContentDigest sha props =
     snapshotDigest sha (JObj [(''domain'', JStr HOLDER_SNAPSHOT_SCHEMA), (''snapshot'', JObj props)])"

definition EXCLUDED_ADDRESS_FIELDS :: "string list" where
  "EXCLUDED_ADDRESS_FIELDS = [''address'', ''reason'']"

definition parseExcluded :: "nat \<Rightarrow> jsval \<Rightarrow> (string \<times> string) res" where
  "parseExcluded position entry =
     (let label = ''holder snapshot excluded address '' @ dec_of_nat position in
      bindE (assertExactShape entry EXCLUDED_ADDRESS_FIELDS label) (\<lambda>excluded.
      bindE (assertAddress (jprop excluded ''address'') (label @ '' address'') True) (\<lambda>address.
        if \<not> str_matches (\<lambda>s. s \<noteq> []) (jprop excluded ''reason'') then Inl (JsError (label @ '' reason is invalid''))
        else Inr (address, str_of (jprop excluded ''reason'')))))"

definition collectExcluded :: "nat \<Rightarrow> jsval \<Rightarrow> (string \<times> string) list \<Rightarrow> (string \<times> string) list res" where
  "collectExcluded position entry m =
     bindE (parseExcluded position entry) (\<lambda>(address, reason).
       if omap_has m address then Inl (JsError ''holder snapshot excluded addresses must be unique'')
       else Inr (omap_set address reason m))"

text \<open>The loop over the folded balances: total held, total excluded, and the payable holders.\<close>

fun splitBalances :: "(string \<times> string) list \<Rightarrow> (string \<times> nat) list \<Rightarrow> nat \<times> nat \<times> (string \<times> string) list" where
  "splitBalances excluded [] = (0, 0, [])"
| "splitBalances excluded ((address, balance) # rest) =
     (let (held, excl, direct) = splitBalances excluded rest in
      if balance = 0 then (held, excl, direct)
      else if omap_has excluded address then (held, excl + balance, direct)
      else (held + balance, excl, (address, dec_of_nat balance) # direct))"

definition snapshotContent :: "string \<Rightarrow> string \<Rightarrow> string \<Rightarrow> string \<Rightarrow> string \<Rightarrow> (string \<times> string) list
  \<Rightarrow> nat \<times> nat \<times> (string \<times> string) list \<Rightarrow> holder_snapshot" where
  "snapshotContent chainId tokenAddress blockNumber blockHash totalSupply excludedByAddress parts =
     (case parts of (totalHolderBalance, totalExcludedBalance, directBalances) \<Rightarrow>
       \<lparr>hs_chainId = chainId, hs_tokenAddress = tokenAddress, hs_blockNumber = blockNumber,
        hs_blockHash = blockHash, hs_totalSupply = totalSupply,
        hs_totalHolderBalance = dec_of_nat totalHolderBalance,
        hs_totalExcludedBalance = dec_of_nat totalExcludedBalance,
        hs_holderCount = int (length directBalances),
        hs_excludedAddresses = sort_key fst excludedByAddress,
        hs_directBalances = sort_key fst directBalances, hs_holderSnapshotDigest = []\<rparr>)"

definition buildHolderSnapshot :: "(string \<Rightarrow> string) \<Rightarrow> jsval \<Rightarrow> holder_snapshot res" where
  "buildHolderSnapshot sha input =
     bindE (assertExactShape input SNAPSHOT_INPUT_FIELDS ''holder snapshot input'') (\<lambda>value.
     bindE (assertDecimalString (jprop value ''chainId'') ''holder snapshot chainId'' True) (\<lambda>chainId.
     bindE (assertAddress (jprop value ''tokenAddress'') ''holder snapshot token address'' False) (\<lambda>tokenAddress.
     bindE (assertDecimalString (jprop value ''blockNumber'') ''holder snapshot block number'' False) (\<lambda>blockNumber.
     if \<not> str_matches (hex_pattern 64) (jprop value ''blockHash'') then Inl (JsError ''holder snapshot block hash is invalid'')
     else if jprop value ''finalized'' \<noteq> JBool True then Inl (JsError ''holder snapshot must be built from a finalized block'')
     else
     bindE (assertDecimalString (jprop value ''totalSupply'') ''holder snapshot total supply'' False) (\<lambda>totalSupply.
     bindE (assertBoundedArray (jprop value ''excludedAddresses'') ''holder snapshot excluded addresses'' 0 (nat MAX_SAFE_INTEGER)) (\<lambda>exclInput.
     bindE (foldE collectExcluded 0 exclInput []) (\<lambda>excludedByAddress.
     bindE (foldTransferLogs (jprop value ''transferLogs'') blockNumber) (\<lambda>st.
     if int (fs_mintedTotal st) - int (fs_burnedTotal st) \<noteq> int (nat_of_dec totalSupply)
     then Inl (JsError ''holder snapshot total supply does not reconcile with the folded transfer-log set (mint minus burn) - the log range is incomplete or the supplied total supply is wrong'')
     else
       let parts = splitBalances excludedByAddress (fs_balances st) in
       if length (snd (snd parts)) > DIRECT_BALANCES_LIMIT
       then Inl (JsError (''holder snapshot direct balances exceed the limit of '' @ dec_of_nat DIRECT_BALANCES_LIMIT))
       else
         let content = snapshotContent chainId tokenAddress blockNumber (str_of (jprop value ''blockHash'')) totalSupply
               excludedByAddress parts
         in bindE (snapshotContentDigest sha (snapshotContentProps content)) (\<lambda>d.
              Inr (content\<lparr>hs_holderSnapshotDigest := d\<rparr>))))))))))"

section \<open>Re-validating a snapshot\<close>

definition DIRECT_BALANCE_FIELDS :: "string list" where
  "DIRECT_BALANCE_FIELDS = [''recipient'', ''directHkmnBalance'']"

definition HOLDER_SNAPSHOT_FIELDS :: "string list" where
  "HOLDER_SNAPSHOT_FIELDS = [''schema'', ''chainId'', ''tokenAddress'', ''blockNumber'', ''blockHash'', ''finalized'',
     ''totalSupply'', ''totalHolderBalance'', ''totalExcludedBalance'', ''holderCount'',
     ''excludedAddresses'', ''directBalances'', ''holderSnapshotDigest'']"

text \<open>
  The loop bodies of \<open>assertHolderSnapshot\<close>.  The state of the first is \<open>previousExcluded\<close> with
  \<open>excludedSet\<close>, that of the second \<open>previousRecipient\<close> with \<open>totalHolderBalance\<close>.
\<close>

definition checkExcluded :: "nat \<Rightarrow> jsval \<Rightarrow> string option \<times> string list \<Rightarrow> (string option \<times> string list) res" where
  "checkExcluded position entry st =
     bindE (parseExcluded position entry) (\<lambda>(address, reason).
       if fst st \<noteq> None \<and> address \<le> the (fst st)
       then Inl (JsError ''holder snapshot excluded addresses must be sorted and unique'')
       else Inr (Some address, snd st @ [address]))"

definition parseDirectBalance :: "nat \<Rightarrow> jsval \<Rightarrow> (string \<times> string) res" where
  "parseDirectBalance position entry =
     (let label = ''holder snapshot direct balance '' @ dec_of_nat position in
      bindE (assertExactShape entry DIRECT_BALANCE_FIELDS label) (\<lambda>balance.
      bindE (assertAddress (jprop balance ''recipient'') (label @ '' recipient'') False) (\<lambda>recipient.
      bindE (assertDecimalString (jprop balance ''directHkmnBalance'') (label @ '' balance'') True) (\<lambda>amount.
        Inr (recipient, amount)))))"

definition checkBalance :: "string list \<Rightarrow> nat \<Rightarrow> jsval \<Rightarrow> string option \<times> nat \<Rightarrow> (string option \<times> nat) res" where
  "checkBalance excludedSet position entry st =
     bindE (parseDirectBalance position entry) (\<lambda>(recipient, amount).
       if recipient \<in> set excludedSet
       then Inl (JsError ''holder snapshot excluded addresses must never appear as a recipient'')
       else if fst st \<noteq> None \<and> recipient \<le> the (fst st)
       then Inl (JsError ''holder snapshot direct balances must be sorted and unique'')
       else Inr (Some recipient, snd st + nat_of_dec amount))"

definition assertDigest :: "jsval \<Rightarrow> string \<Rightarrow> string res" where
  "assertDigest v label =
     (if \<not> str_matches digest_pattern v then Inl (JsError (label @ '' is invalid'')) else Inr (str_of v))"

definition without :: "string \<Rightarrow> jsval \<Rightarrow> (string \<times> jsval) list" where
  "without key v = (case v of JObj ps \<Rightarrow> filter (\<lambda>p. fst p \<noteq> key) ps | _ \<Rightarrow> [])"

text \<open>The scalar fields, checked before the two loops.\<close>

definition assertHolderSnapshotHead :: "jsval \<Rightarrow> unit res" where
  "assertHolderSnapshotHead snapshot =
     (if jprop snapshot ''schema'' \<noteq> JStr HOLDER_SNAPSHOT_SCHEMA then Inl (JsError ''holder snapshot schema is invalid'')
      else
      bindE (assertDecimalString (jprop snapshot ''chainId'') ''holder snapshot chainId'' True) (\<lambda>_.
      bindE (assertAddress (jprop snapshot ''tokenAddress'') ''holder snapshot token address'' False) (\<lambda>_.
      bindE (assertDecimalString (jprop snapshot ''blockNumber'') ''holder snapshot block number'' False) (\<lambda>_.
      if \<not> str_matches (hex_pattern 64) (jprop snapshot ''blockHash'') then Inl (JsError ''holder snapshot block hash is invalid'')
      else if jprop snapshot ''finalized'' \<noteq> JBool True then Inl (JsError ''holder snapshot must be finalized'')
      else
      bindE (assertDecimalString (jprop snapshot ''totalSupply'') ''holder snapshot total supply'' False) (\<lambda>_.
      bindE (assertDecimalString (jprop snapshot ''totalHolderBalance'') ''holder snapshot total holder balance'' False) (\<lambda>_.
      bindE (assertDecimalString (jprop snapshot ''totalExcludedBalance'') ''holder snapshot total excluded balance'' False) (\<lambda>_.
      if \<not> isInteger (jprop snapshot ''holderCount'') \<or> num_of (jprop snapshot ''holderCount'') < 0
      then Inl (JsError ''holder snapshot holder count is invalid'')
      else Inr ())))))))"

definition assertHolderSnapshot :: "(string \<Rightarrow> string) \<Rightarrow> jsval \<Rightarrow> jsval res" where
  "assertHolderSnapshot sha v =
     bindE (assertExactShape v HOLDER_SNAPSHOT_FIELDS ''holder snapshot'') (\<lambda>snapshot.
     bindE (assertHolderSnapshotHead snapshot) (\<lambda>_.
     bindE (assertBoundedArray (jprop snapshot ''excludedAddresses'') ''holder snapshot excluded addresses'' 0 (nat MAX_SAFE_INTEGER)) (\<lambda>excluded.
     bindE (foldE checkExcluded 0 excluded (None, [])) (\<lambda>(_, excludedSet).
     bindE (assertBoundedArray (jprop snapshot ''directBalances'') ''holder snapshot direct balances'' 0 DIRECT_BALANCES_LIMIT) (\<lambda>direct.
     bindE (foldE (checkBalance excludedSet) 0 direct (None, 0)) (\<lambda>(_, totalHolderBalance).
     if int (length direct) \<noteq> num_of (jprop snapshot ''holderCount'') then Inl (JsError ''holder snapshot holder count mismatch'')
     else if totalHolderBalance \<noteq> nat_of_dec (str_of (jprop snapshot ''totalHolderBalance''))
     then Inl (JsError ''holder snapshot total holder balance does not match its direct balances'')
     else
     bindE (assertDigest (jprop snapshot ''holderSnapshotDigest'') ''holder snapshot digest'') (\<lambda>d.
     bindE (snapshotContentDigest sha (without ''holderSnapshotDigest'' snapshot)) (\<lambda>d'.
       if d \<noteq> d' then Inl (JsError ''holder snapshot digest mismatch'') else Inr snapshot))))))))"

section \<open>Replay digest, eligibility holder set and snapshot candidate\<close>

definition digestTransferLogReplay :: "(string \<Rightarrow> string) \<Rightarrow> jsval \<Rightarrow> jsval \<Rightarrow> string res" where
  "digestTransferLogReplay sha snapshotBlock transferLogs =
     bindE (assertDecimalString snapshotBlock ''transfer-log replay snapshot block'' False) (\<lambda>b.
     bindE (foldTransferLogs transferLogs b) (\<lambda>_.
       snapshotDigest sha (JObj [(''domain'', JStr ''hookemon.hkmn-transfer-log-replay.v1''),
         (''snapshotBlock'', snapshotBlock), (''transferLogs'', transferLogs)])))"

definition ELIGIBILITY_HOLDER_SET_INPUT_FIELDS :: "string list" where
  "ELIGIBILITY_HOLDER_SET_INPUT_FIELDS = [''chainId'', ''tokenAddress'', ''tokenDecimals'', ''snapshotBlock'', ''snapshotHash'',
     ''supply'', ''exclusions'', ''transferLogs'']"

definition eligibilityEntry :: "typed_amount \<Rightarrow> string \<times> string \<Rightarrow> jsval" where
  "eligibilityEntry supply p = JObj [(''recipient'', JStr (fst p)),
     (''hkmnBalance'', jsval_of_amount (supply\<lparr>ta_amountAtomic := snd p\<rparr>))]"

definition buildEligibilityHolderSet :: "(string \<Rightarrow> string) \<Rightarrow> jsval \<Rightarrow> jsval res" where
  "buildEligibilityHolderSet sha input =
     bindE (assertExactShape input ELIGIBILITY_HOLDER_SET_INPUT_FIELDS ''eligibility holder set input'') (\<lambda>value.
     bindE (assertDecimalString (jprop value ''chainId'') ''eligibility holder set chainId'' True) (\<lambda>_.
     bindE (assertAddress (jprop value ''tokenAddress'') ''eligibility holder set token address'' False) (\<lambda>_.
     bindE (assertTokenDecimals (jprop value ''tokenDecimals'') ''eligibility holder set token decimals'') (\<lambda>_.
     bindE (assertDecimalString (jprop value ''snapshotBlock'') ''eligibility holder set snapshot block'' False) (\<lambda>_.
     if \<not> str_matches (hex_pattern 64) (jprop value ''snapshotHash'')
     then Inl (JsError ''eligibility holder set snapshot hash is invalid'')
     else
     bindE (assertTypedHkmnAmount (jprop value ''supply'') ''eligibility holder set supply''
       (jprop value ''chainId'') (jprop value ''tokenAddress'') (jprop value ''tokenDecimals'')) (\<lambda>supply.
     bindE (buildHolderSnapshot sha (JObj [(''chainId'', jprop value ''chainId''), (''tokenAddress'', jprop value ''tokenAddress''),
       (''blockNumber'', jprop value ''snapshotBlock''), (''blockHash'', jprop value ''snapshotHash''), (''finalized'', JBool True),
       (''totalSupply'', JStr (ta_amountAtomic supply)), (''excludedAddresses'', jprop value ''exclusions''),
       (''transferLogs'', jprop value ''transferLogs'')])) (\<lambda>holderSnapshot.
     bindE (digestTransferLogReplay sha (jprop value ''snapshotBlock'') (jprop value ''transferLogs'')) (\<lambda>logDigest.
       Inr (JObj [(''schema'', JStr ''hookemon.eligibility-holder-set.v1''), (''snapshotBlock'', jprop value ''snapshotBlock''),
         (''snapshotHash'', jprop value ''snapshotHash''), (''supply'', jsval_of_amount supply),
         (''entries'', JArr (map (eligibilityEntry supply) (hs_directBalances holderSnapshot))),
         (''exclusions'', JArr (map jsval_of_excluded (hs_excludedAddresses holderSnapshot))),
         (''transferLogDigest'', JStr logDigest),
         (''holderSnapshotDigest'', JStr (hs_holderSnapshotDigest holderSnapshot))])))))))))"

text \<open>The optional \<open>directBalances\<close> is \<open>JUndefined\<close> when it is left out; \<open>??\<close> also replaces \<open>null\<close>.\<close>

definition projectBalance :: "jsval \<Rightarrow> jsval" where
  "projectBalance e = JObj [(''recipient'', jprop e ''recipient''), (''directHkmnBalance'', jprop e ''directHkmnBalance'')]"

definition toSnapshotCandidate :: "jsval \<Rightarrow> jsval \<Rightarrow> jsval res" where
  "toSnapshotCandidate holderSnapshot directBalances =
     (if falsy holderSnapshot \<or> \<not> typeofObject holderSnapshot then Inl (JsError ''holder snapshot is required'')
      else
      bindE (assertBoundedArray (if directBalances \<in> {JUndefined, JNull} then jprop holderSnapshot ''directBalances'' else directBalances)
        ''holder snapshot candidate direct balances'' 1 1024) (\<lambda>balances.
      Inr (JObj [(''schema'', JStr ''hookemon.input-bound-hkmn-snapshot-candidate.v1''),
        (''authority'', JStr ''INPUT_BOUND_CANDIDATE_NOT_AUTHENTICATED''), (''asset'', JStr ''HKMN''),
        (''chainId'', jprop holderSnapshot ''chainId''), (''tokenAddress'', jprop holderSnapshot ''tokenAddress''),
        (''blockNumber'', jprop holderSnapshot ''blockNumber''), (''blockHash'', jprop holderSnapshot ''blockHash''),
        (''finalized'', JBool True), (''directBalances'', JArr (map projectBalance balances))])))"

section \<open>Selecting the largest holders\<close>

definition snapshot_limits :: canonical_limits where
  "snapshot_limits = \<lparr>lim_objects = 2 * 250000 + 4096, lim_arrays = 16384, lim_arrayItems = 250000, lim_aggregateBytes = 268435456\<rparr>"

definition snapshotHolders :: "jsval \<Rightarrow> (string \<times> string) list" where
  "snapshotHolders snapshot =
     map (\<lambda>e. (str_of (jprop e ''recipient''), str_of (jprop e ''directHkmnBalance''))) (arr_of (jprop snapshot ''directBalances''))"

text \<open>The comparator of \<open>ranked.sort\<close>: larger balance first, then smaller address.\<close>

definition rankKey :: "string \<times> string \<Rightarrow> int \<times> string" where
  "rankKey p = (- int (nat_of_dec (snd p)), fst p)"

definition selectTop :: "nat \<Rightarrow> (string \<times> string) list \<Rightarrow> (string \<times> string) list" where
  "selectTop limit holders = sort_key fst (take limit (sort_key rankKey holders))"

definition balanceTotal :: "(string \<times> string) list \<Rightarrow> nat" where
  "balanceTotal holders = sum_list (map (\<lambda>p. nat_of_dec (snd p)) holders)"

definition withAmount :: "jsval \<Rightarrow> string \<Rightarrow> jsval" where
  "withAmount supply a = (case supply of JObj ps \<Rightarrow> JObj (omap_set ''amountAtomic'' (JStr a) ps) | _ \<Rightarrow> supply)"

definition selectionEntries :: "jsval \<Rightarrow> (string \<times> string) list \<Rightarrow> jsval" where
  "selectionEntries supply selected =
     JArr (map (\<lambda>p. JObj [(''recipient'', JStr (fst p)), (''hkmnBalance'', withAmount supply (snd p))]) selected)"

definition selectionContent :: "jsval \<Rightarrow> jsval \<Rightarrow> jsval \<Rightarrow> (string \<times> string) list \<Rightarrow> (string \<times> jsval) list" where
  "selectionContent snapshot supply rewardSelection selected =
     [(''schema'', JStr ''hookemon.reward-selection-evidence.v1''), (''rewardSelection'', rewardSelection),
      (''holderSnapshot'', snapshot), (''eligibleCount'', jprop snapshot ''holderCount''),
      (''selectedCount'', JNum (int (length selected))),
      (''selectedBalanceTotal'', withAmount supply (dec_of_nat (balanceTotal selected))),
      (''unselectedEligibleBalanceTotal'', withAmount supply
        (json_int (int (nat_of_dec (str_of (jprop snapshot ''totalHolderBalance''))) - int (balanceTotal selected)))),
      (''excludedBalanceTotal'', withAmount supply (str_of (jprop snapshot ''totalExcludedBalance'')))]"

definition selectEligibilityRecipients :: "(string \<Rightarrow> string) \<Rightarrow> jsval \<Rightarrow> jsval \<Rightarrow> jsval \<Rightarrow> (jsval \<times> jsval) res" where
  "selectEligibilityRecipients sha holderSnapshot supply rewardSelection =
     bindE (assertBoundedCanonicalValue holderSnapshot ''reward selection holder snapshot'' snapshot_limits) (\<lambda>_.
     bindE (assertHolderSnapshot sha holderSnapshot) (\<lambda>snapshot.
     bindE (assertRewardSelectionSnapshot sha rewardSelection JUndefined) (\<lambda>_.
     bindE (assertTypedHkmnAmount supply ''reward selection supply''
       (jprop snapshot ''chainId'') (jprop snapshot ''tokenAddress'') (jprop supply ''decimals'')) (\<lambda>_.
     if jprop supply ''amountAtomic'' \<noteq> jprop snapshot ''totalSupply''
        \<or> nat_of_dec (str_of (jprop snapshot ''totalHolderBalance'')) + nat_of_dec (str_of (jprop snapshot ''totalExcludedBalance''))
          \<noteq> nat_of_dec (str_of (jprop snapshot ''totalSupply''))
     then Inl (JsError ''reward selection full supply does not reconcile'')
     else
       let selected = selectTop (nat (num_of (jprop rewardSelection ''rewardRecipientLimit''))) (snapshotHolders snapshot);
           entries = selectionEntries supply selected;
           content = selectionContent snapshot supply rewardSelection selected
       in bindE (snapshotDigest sha (JObj [(''domain'', JStr ''hookemon.reward-selection-evidence.v1''),
            (''selection'', JObj content), (''entries'', entries)])) (\<lambda>d.
          Inr (entries, JObj (content @ [(''digest'', JStr d)])))))))"

definition SELECTION_FIELDS :: "string list" where
  "SELECTION_FIELDS = [''schema'', ''rewardSelection'', ''holderSnapshot'', ''eligibleCount'', ''selectedCount'',
     ''selectedBalanceTotal'', ''unselectedEligibleBalanceTotal'', ''excludedBalanceTotal'', ''digest'']"

definition assertSameDigest :: "(string \<Rightarrow> string) \<Rightarrow> jsval \<Rightarrow> jsval \<Rightarrow> string \<Rightarrow> unit res" where
  "assertSameDigest sha a b message =
     bindE (snapshotDigest sha a) (\<lambda>da. bindE (snapshotDigest sha b) (\<lambda>db.
       if da \<noteq> db then Inl (JsError message) else Inr ()))"

definition assertEligibilitySelection :: "(string \<Rightarrow> string) \<Rightarrow> jsval \<Rightarrow> jsval \<Rightarrow> jsval res" where
  "assertEligibilitySelection sha selection manifest =
     bindE (assertExactShape selection SELECTION_FIELDS ''reward selection evidence'') (\<lambda>_.
     bindE (assertRewardSelectionSnapshot sha (jprop selection ''rewardSelection'') (jprop manifest ''cycleId'')) (\<lambda>_.
     bindE (selectEligibilityRecipients sha (jprop selection ''holderSnapshot'') (jprop manifest ''supply'')
       (jprop selection ''rewardSelection'')) (\<lambda>(expectedEntries, expectedSelection).
     let snapshot = jprop selection ''holderSnapshot'' in
     if jprop snapshot ''blockNumber'' \<noteq> jprop manifest ''snapshotBlock''
        \<or> jprop snapshot ''blockHash'' \<noteq> jprop manifest ''snapshotHash''
        \<or> jprop snapshot ''holderSnapshotDigest'' \<noteq> jprop manifest ''holderSnapshotDigest''
     then Inl (JsError ''reward selection holder snapshot does not match manifest'')
     else
     bindE (assertSameDigest sha (jprop snapshot ''excludedAddresses'') (jprop manifest ''exclusions'')
       ''reward selection holder snapshot does not match manifest'') (\<lambda>_.
     bindE (assertSameDigest sha expectedSelection selection ''reward selection evidence or selected entries mismatch'') (\<lambda>_.
     bindE (assertSameDigest sha expectedEntries (jprop manifest ''entries'') ''reward selection evidence or selected entries mismatch'') (\<lambda>_.
       Inr expectedSelection))))))"

definition summarizeEligibilitySelection :: "(string \<Rightarrow> string) \<Rightarrow> jsval \<Rightarrow> jsval res" where
  "summarizeEligibilitySelection sha selection =
     bindE (assertExactShape selection SELECTION_FIELDS ''reward selection evidence'') (\<lambda>_.
     if jprop selection ''schema'' \<noteq> JStr ''hookemon.reward-selection-evidence.v1''
     then Inl (JsError ''reward selection evidence schema is invalid'')
     else
     bindE (assertHolderSnapshot sha (jprop selection ''holderSnapshot'')) (\<lambda>_.
     bindE (assertRewardSelectionSnapshot sha (jprop selection ''rewardSelection'') JUndefined) (\<lambda>_.
     if \<not> str_matches digest_pattern (jprop selection ''digest'')
     then Inl (JsError ''reward selection evidence digest is invalid'')
     else Inr (JObj [(''schema'', JStr ''hookemon.reward-selection-summary.v1''),
       (''rewardSelection'', jprop selection ''rewardSelection''),
       (''holderSnapshotDigest'', jprop (jprop selection ''holderSnapshot'') ''holderSnapshotDigest''),
       (''eligibleCount'', jprop selection ''eligibleCount''), (''selectedCount'', jprop selection ''selectedCount''),
       (''selectedBalanceTotal'', jprop selection ''selectedBalanceTotal''),
       (''unselectedEligibleBalanceTotal'', jprop selection ''unselectedEligibleBalanceTotal''),
       (''excludedBalanceTotal'', jprop selection ''excludedBalanceTotal''), (''digest'', jprop selection ''digest'')]))))"

definition SUMMARY_FIELDS :: "string list" where
  "SUMMARY_FIELDS = [''schema'', ''rewardSelection'', ''holderSnapshotDigest'', ''eligibleCount'', ''selectedCount'',
     ''selectedBalanceTotal'', ''unselectedEligibleBalanceTotal'', ''excludedBalanceTotal'', ''digest'']"

definition assertSummaryCount :: "jsval \<Rightarrow> string \<Rightarrow> unit res" where
  "assertSummaryCount summary f =
     (if \<not> isSafeInteger (jprop summary f) \<or> num_of (jprop summary f) < 0
      then Inl (JsError (''reward selection summary '' @ f @ '' is invalid'')) else Inr ())"

definition assertSummaryAmount :: "jsval \<Rightarrow> jsval \<Rightarrow> string \<Rightarrow> typed_amount res" where
  "assertSummaryAmount summary manifest f =
     assertTypedHkmnAmount (jprop summary f) (''reward selection summary '' @ f)
       (jprop (jprop manifest ''supply'') ''chainId'') (jprop (jprop manifest ''supply'') ''assetId'')
       (jprop (jprop manifest ''supply'') ''decimals'')"

definition addEntryBalance :: "nat \<Rightarrow> jsval \<Rightarrow> int \<Rightarrow> int res" where
  "addEntryBalance position entry acc =
     bindE (js_BigInt (jprop (jprop entry ''hkmnBalance'') ''amountAtomic'')) (\<lambda>b. Inr (acc + b))"

definition assertEligibilitySelectionSummary :: "(string \<Rightarrow> string) \<Rightarrow> jsval \<Rightarrow> jsval \<Rightarrow> jsval res" where
  "assertEligibilitySelectionSummary sha summary manifest =
     bindE (assertExactShape summary SUMMARY_FIELDS ''reward selection summary'') (\<lambda>_.
     if jprop summary ''schema'' \<noteq> JStr ''hookemon.reward-selection-summary.v1''
     then Inl (JsError ''reward selection summary schema is invalid'')
     else
     bindE (assertRewardSelectionSnapshot sha (jprop summary ''rewardSelection'') (jprop manifest ''cycleId'')) (\<lambda>_.
     if jprop summary ''holderSnapshotDigest'' \<noteq> jprop manifest ''holderSnapshotDigest''
     then Inl (JsError ''reward selection summary holder snapshot does not match manifest'')
     else if \<not> str_matches digest_pattern (jprop summary ''digest'')
     then Inl (JsError ''reward selection summary digest is invalid'')
     else
     bindE (assertSummaryCount summary ''eligibleCount'') (\<lambda>_.
     bindE (assertSummaryCount summary ''selectedCount'') (\<lambda>_.
     if num_of (jprop summary ''selectedCount'') \<noteq> int (length (arr_of (jprop manifest ''entries'')))
        \<or> num_of (jprop summary ''selectedCount'') > num_of (jprop summary ''eligibleCount'')
     then Inl (JsError ''reward selection summary selected count does not match manifest'')
     else
     bindE (assertSummaryAmount summary manifest ''selectedBalanceTotal'') (\<lambda>selectedTotal.
     bindE (assertSummaryAmount summary manifest ''unselectedEligibleBalanceTotal'') (\<lambda>unselectedTotal.
     bindE (assertSummaryAmount summary manifest ''excludedBalanceTotal'') (\<lambda>excludedTotal.
     bindE (foldE addEntryBalance 0 (arr_of (jprop manifest ''entries'')) 0) (\<lambda>selectedFromEntries.
     if selectedFromEntries \<noteq> int (nat_of_dec (ta_amountAtomic selectedTotal))
     then Inl (JsError ''reward selection summary selected balance does not match manifest'')
     else
     bindE (js_BigInt (jprop (jprop manifest ''supply'') ''amountAtomic'')) (\<lambda>supplyAmount.
     if selectedFromEntries + int (nat_of_dec (ta_amountAtomic unselectedTotal)) + int (nat_of_dec (ta_amountAtomic excludedTotal))
        \<noteq> supplyAmount
     then Inl (JsError ''reward selection summary balances do not reconcile to manifest supply'')
     else Inr summary)))))))))"

section \<open>The fold is a ledger\<close>

text \<open>What the logs say of an address, independently of the fold: the sums of its credits and debits.\<close>

definition log_value :: "jsval \<Rightarrow> nat" where "log_value l = nat_of_dec (str_of (jprop l ''value''))"
definition log_from :: "jsval \<Rightarrow> string" where "log_from l = str_of (jprop l ''from'')"
definition log_to :: "jsval \<Rightarrow> string" where "log_to l = str_of (jprop l ''to'')"

definition inflow :: "jsval list \<Rightarrow> string \<Rightarrow> nat" where
  "inflow logs a = sum_list (map log_value (filter (\<lambda>l. log_to l = a) logs))"

definition outflow :: "jsval list \<Rightarrow> string \<Rightarrow> nat" where
  "outflow logs a = sum_list (map log_value (filter (\<lambda>l. log_from l = a) logs))"

definition ledgerSum :: "(string \<times> nat) list \<Rightarrow> nat" where
  "ledgerSum m = sum_list (map snd m)"

definition ledger_inv :: "jsval list \<Rightarrow> fold_state \<Rightarrow> bool" where
  "ledger_inv logs st = (omap_wf (fs_balances st) \<and> \<not> omap_has (fs_balances st) ZERO_ADDRESS
     \<and> ledgerSum (fs_balances st) + fs_burnedTotal st = fs_mintedTotal st
     \<and> fs_mintedTotal st = outflow logs ZERO_ADDRESS \<and> fs_burnedTotal st = inflow logs ZERO_ADDRESS
     \<and> (\<forall>a. a \<noteq> ZERO_ADDRESS \<longrightarrow> balanceOf (fs_balances st) a + outflow logs a = inflow logs a)
     \<and> (\<forall>a. omap_has (fs_balances st) a \<longrightarrow> hex_pattern 40 a))"

lemma flow_snoc [simp]:
  "inflow (logs @ [l]) a = inflow logs a + (if log_to l = a then log_value l else 0)"
  "outflow (logs @ [l]) a = outflow logs a + (if log_from l = a then log_value l else 0)"
  by (simp_all add: inflow_def outflow_def)

lemma balanceOf_set [simp]: "balanceOf (omap_set k v m) a = (if a = k then v else balanceOf m a)"
  by (simp add: balanceOf_def)

lemma omap_has_set [simp]: "omap_has (omap_set k v m) a = (a = k \<or> omap_has m a)"
  using omap_keys_set [of k v m] by (auto simp: omap_has_def)

lemma ledgerSum_set: "omap_wf m \<Longrightarrow> ledgerSum (omap_set k v m) + balanceOf m k = ledgerSum m + v"
proof (induction m)
  case Nil
  then show ?case by (simp add: ledgerSum_def balanceOf_def omap_get_def)
next
  case (Cons p m)
  then show ?case
    by (cases p) (auto simp: ledgerSum_def balanceOf_def omap_get_def omap_wf_def split: option.splits)
qed

lemma ledgerSum_change:
  "omap_wf m \<Longrightarrow> balanceOf m k \<le> v \<Longrightarrow> ledgerSum (omap_set k v m) = ledgerSum m + (v - balanceOf m k)"
  "omap_wf m \<Longrightarrow> v \<le> balanceOf m k \<Longrightarrow> ledgerSum (omap_set k v m) + (balanceOf m k - v) = ledgerSum m"
  using ledgerSum_set [of m k v] by simp_all

text \<open>One iteration, inverted: the log is well formed, not newer than the block, in order, and applied.\<close>

definition validLog :: "jsval \<Rightarrow> bool" where
  "validLog l = (isPlainObject l \<and> exactKeys l TRANSFER_LOG_FIELDS
     \<and> str_matches is_decimal (jprop l ''blockNumber'') \<and> str_matches is_decimal (jprop l ''logIndex'')
     \<and> str_matches (hex_pattern 40) (jprop l ''from'') \<and> str_matches (hex_pattern 40) (jprop l ''to'')
     \<and> str_matches is_decimal (jprop l ''value''))"

definition log_block :: "jsval \<Rightarrow> nat" where "log_block l = nat_of_dec (str_of (jprop l ''blockNumber''))"
definition log_index :: "jsval \<Rightarrow> nat" where "log_index l = nat_of_dec (str_of (jprop l ''logIndex''))"

definition advance :: "jsval \<Rightarrow> fold_state \<Rightarrow> fold_state" where
  "advance l st = st\<lparr>fs_previousBlock := int (log_block l), fs_previousLogIndex := int (log_index l)\<rparr>"

definition applyLog :: "string \<Rightarrow> jsval \<Rightarrow> fold_state \<Rightarrow> fold_state res" where
  "applyLog label l st =
     (if log_value l = 0 then Inr (advance l st)
      else bindE (debitTransfer label (log_from l) (log_value l) (advance l st)) (\<lambda>st2. Inr (creditTransfer (log_to l) (log_value l) st2)))"

lemmas log_defs = log_value_def log_from_def log_to_def log_block_def log_index_def

lemma advance_simps [simp]:
  "fs_balances (advance l st) = fs_balances st" "fs_mintedTotal (advance l st) = fs_mintedTotal st"
  "fs_burnedTotal (advance l st) = fs_burnedTotal st"
  by (simp_all add: advance_def)

lemma foldTransferLog_Inr_iff:
  "foldTransferLog blk pos l st = Inr st' \<longleftrightarrow>
     validLog l \<and> log_block l \<le> blk
     \<and> (fs_previousBlock st < int (log_block l) \<or> fs_previousBlock st = int (log_block l) \<and> fs_previousLogIndex st < int (log_index l))
     \<and> applyLog (''holder snapshot transfer log '' @ dec_of_nat pos) l st = Inr st'"
  unfolding foldTransferLog_def Let_def applyLog_def validLog_def log_defs advance_def assertAddress_def assertDecimalString_def assertExactShape_def
  by (simp add: res_simps str_matches_iff not_less not_le split del: if_split cong: conj_cong)
    (auto simp: not_less not_le split: if_splits)

lemma debit_step:
  assumes "debitTransfer label src amount st = Inr st2" and "0 < amount" and wf: "omap_wf (fs_balances st)"
  shows "omap_wf (fs_balances st2) \<and> fs_burnedTotal st2 = fs_burnedTotal st
    \<and> (\<forall>a. omap_has (fs_balances st2) a \<longrightarrow> omap_has (fs_balances st) a \<or> a = src \<and> src \<noteq> ZERO_ADDRESS)
    \<and> fs_mintedTotal st2 = fs_mintedTotal st + (if src = ZERO_ADDRESS then amount else 0)
    \<and> ledgerSum (fs_balances st2) + (if src = ZERO_ADDRESS then 0 else amount) = ledgerSum (fs_balances st)
    \<and> (\<forall>a. a \<noteq> ZERO_ADDRESS \<longrightarrow> balanceOf (fs_balances st2) a + (if src = a then amount else 0) = balanceOf (fs_balances st) a)"
  using assms ledgerSum_change(2) [OF wf, of "balanceOf (fs_balances st) src - amount" src]
  by (auto simp: debitTransfer_def Let_def split: if_splits)

lemma credit_step:
  assumes "omap_wf (fs_balances st)"
  shows "omap_wf (fs_balances (creditTransfer dst amount st)) \<and> fs_mintedTotal (creditTransfer dst amount st) = fs_mintedTotal st
    \<and> (\<forall>a. omap_has (fs_balances (creditTransfer dst amount st)) a \<longrightarrow> omap_has (fs_balances st) a \<or> a = dst \<and> dst \<noteq> ZERO_ADDRESS)
    \<and> fs_burnedTotal (creditTransfer dst amount st) = fs_burnedTotal st + (if dst = ZERO_ADDRESS then amount else 0)
    \<and> ledgerSum (fs_balances (creditTransfer dst amount st)) = ledgerSum (fs_balances st) + (if dst = ZERO_ADDRESS then 0 else amount)
    \<and> (\<forall>a. a \<noteq> ZERO_ADDRESS \<longrightarrow>
         balanceOf (fs_balances (creditTransfer dst amount st)) a = balanceOf (fs_balances st) a + (if dst = a then amount else 0))"
  using assms ledgerSum_change(1) [OF assms, of dst "balanceOf (fs_balances st) dst + amount"]
  by (auto simp: creditTransfer_def)

lemma ledger_inv_step:
  assumes inv: "ledger_inv logs st" and step: "foldTransferLog blk pos l st = Inr st'"
  shows "ledger_inv (logs @ [l]) st'"
proof -
  from step obtain label where hex: "hex_pattern 40 (log_from l)" "hex_pattern 40 (log_to l)" and st': "applyLog label l st = Inr st'"
    by (auto simp: foldTransferLog_Inr_iff validLog_def log_defs str_matches_iff)
  show ?thesis
  proof (cases "log_value l = 0")
    case True
    with inv st' show ?thesis by (auto simp: ledger_inv_def applyLog_def)
  next
    case False
    with st' obtain st2 where d: "debitTransfer label (log_from l) (log_value l) (advance l st) = Inr st2"
      and c: "st' = creditTransfer (log_to l) (log_value l) st2" by (auto simp: applyLog_def res_simps)
    have wf: "omap_wf (fs_balances (advance l st))" using inv by (simp add: ledger_inv_def)
    note D = debit_step [OF d _ wf]
    note C = credit_step [of st2 "log_to l" "log_value l", folded c]
    have "omap_wf (fs_balances st2)" using D False by simp
    note C = C [OF this]
    have "balanceOf (fs_balances st') a + outflow (logs @ [l]) a = inflow (logs @ [l]) a" if "a \<noteq> ZERO_ADDRESS" for a
    proof -
      have "balanceOf (fs_balances st) a + outflow logs a = inflow logs a" using inv that by (simp add: ledger_inv_def)
      moreover have "balanceOf (fs_balances st2) a + (if log_from l = a then log_value l else 0) = balanceOf (fs_balances st) a"
        using D False that by simp
      moreover have "balanceOf (fs_balances st') a = balanceOf (fs_balances st2) a + (if log_to l = a then log_value l else 0)"
        using C that by simp
      ultimately show ?thesis by simp
    qed
    moreover have "ledgerSum (fs_balances st') + fs_burnedTotal st' = fs_mintedTotal st'"
      using C D False inv by (simp add: ledger_inv_def split: if_splits)
    moreover have "fs_mintedTotal st' = outflow (logs @ [l]) ZERO_ADDRESS" "fs_burnedTotal st' = inflow (logs @ [l]) ZERO_ADDRESS"
      using C D False inv by (simp_all add: ledger_inv_def)
    moreover have "\<not> omap_has (fs_balances st') ZERO_ADDRESS" "\<forall>a. omap_has (fs_balances st') a \<longrightarrow> hex_pattern 40 a"
      using C D False inv hex unfolding ledger_inv_def by (simp, metis, simp, metis)
    ultimately show ?thesis using C by (simp add: ledger_inv_def)
  qed
qed

lemma ledger_inv_init: "ledger_inv [] fold_init"
  by (simp add: ledger_inv_def fold_init_def ledgerSum_def inflow_def outflow_def balanceOf_def omap_get_def omap_has_def)

lemma foldTransferLogs_inv: "foldTransferLogs (JArr logs) b = Inr st \<Longrightarrow> ledger_inv logs st"
  using foldE_prefix_invariant [of _ 0 logs fold_init st ledger_inv "[]"] ledger_inv_init ledger_inv_step
  by (auto simp: foldTransferLogs_def assertBoundedArray_def res_simps isArray_def)

section \<open>The snapshot built from a ledger\<close>

lemma splitBalances_spec:
  assumes "omap_wf m" and "splitBalances ex m = (held, excl, direct)"
  shows "held = balanceTotal direct \<and> held + excl = ledgerSum m \<and> distinct (map fst direct)
    \<and> (\<forall>a s. (a, s) \<in> set direct \<longleftrightarrow> \<not> omap_has ex a \<and> 0 < balanceOf m a \<and> s = dec_of_nat (balanceOf m a))"
  using assms
proof (induction m arbitrary: held excl direct)
  case Nil
  then show ?case by (simp add: balanceTotal_def ledgerSum_def balanceOf_def omap_get_def)
next
  case (Cons p m)
  obtain a b where p: "p = (a, b)" by (cases p)
  obtain h e d where sp: "splitBalances ex m = (h, e, d)" by (cases "splitBalances ex m")
  have wf: "omap_wf m" and a: "\<not> omap_has m a" using Cons.prems(1) by (auto simp: omap_wf_def omap_has_def p)
  have IH: "h = balanceTotal d" "h + e = ledgerSum m" "distinct (map fst d)"
    "\<And>x s. (x, s) \<in> set d \<longleftrightarrow> \<not> omap_has ex x \<and> 0 < balanceOf m x \<and> s = dec_of_nat (balanceOf m x)"
    using Cons.IH [OF wf sp] by auto
  have bal: "balanceOf ((a, b) # m) x = (if x = a then b else balanceOf m x)" for x
    by (simp add: balanceOf_def omap_get_def)
  have z: "balanceOf m a = 0" using a by (simp add: omap_has_iff balanceOf_def)
  then have "a \<notin> fst ` set d" using IH(4) by force
  then show ?case using Cons.prems(2) IH z
    by (auto simp: p sp bal balanceTotal_def ledgerSum_def Let_def split: if_splits)
qed

lemma parseExcluded_Inr_iff:
  "parseExcluded pos e = Inr (a, r) \<longleftrightarrow> isPlainObject e \<and> exactKeys e EXCLUDED_ADDRESS_FIELDS
     \<and> jprop e ''address'' = JStr a \<and> hex_pattern 40 a \<and> jprop e ''reason'' = JStr r \<and> r \<noteq> []"
  by (auto simp: parseExcluded_def Let_def res_simps assertExactShape_def assertAddress_def str_matches_iff split: if_splits)

definition excluded_ok :: "(string \<times> string) list \<Rightarrow> bool" where
  "excluded_ok ex = (omap_wf ex \<and> (\<forall>(a, r) \<in> set ex. hex_pattern 40 a \<and> r \<noteq> []))"

lemma omap_set_fresh: "\<not> omap_has m k \<Longrightarrow> omap_set k v m = m @ [(k, v)]"
  by (induction m) (auto simp: omap_has_def)

lemma collectExcluded_ok: "excluded_ok m \<Longrightarrow> collectExcluded pos e m = Inr m' \<Longrightarrow> excluded_ok m'"
  by (auto simp: collectExcluded_def res_simps parseExcluded_Inr_iff excluded_ok_def omap_set_fresh split: if_splits prod.splits)
    (auto simp: omap_wf_def omap_has_def)

lemma collectExcluded_all_ok: "foldE collectExcluded i xs [] = Inr ex \<Longrightarrow> excluded_ok ex"
  by (erule foldE_invariant [where P = excluded_ok]) (auto simp: excluded_ok_def [of "[]"] collectExcluded_ok)

lemma collectExcluded_length: "foldE collectExcluded i xs [] = Inr ex \<Longrightarrow> length ex = length xs"
proof -
  assume f: "foldE collectExcluded i xs [] = Inr ex"
  have "length m' = length (pre @ [x])" if "length m = length pre" "collectExcluded j x m = Inr m'" for pre :: "jsval list" and j x m m'
    using that by (auto simp: collectExcluded_def res_simps omap_set_fresh)
  from foldE_prefix_invariant [OF f, of "\<lambda>pre m. length m = length pre" "[]", OF _ this] show ?thesis by simp
qed

lemma snapshotContentProps_digest [simp]: "snapshotContentProps (s\<lparr>hs_holderSnapshotDigest := d\<rparr>) = snapshotContentProps s"
  by (simp add: snapshotContentProps_def)

lemma snapshotContent_simps [simp]:
  "hs_chainId (snapshotContent c t b h n ex p) = c" "hs_tokenAddress (snapshotContent c t b h n ex p) = t"
  "hs_blockNumber (snapshotContent c t b h n ex p) = b" "hs_blockHash (snapshotContent c t b h n ex p) = h"
  "hs_totalSupply (snapshotContent c t b h n ex p) = n"
  "hs_totalHolderBalance (snapshotContent c t b h n ex p) = dec_of_nat (fst p)"
  "hs_totalExcludedBalance (snapshotContent c t b h n ex p) = dec_of_nat (fst (snd p))"
  "hs_holderCount (snapshotContent c t b h n ex p) = int (length (snd (snd p)))"
  "hs_excludedAddresses (snapshotContent c t b h n ex p) = sort_key fst ex"
  "hs_directBalances (snapshotContent c t b h n ex p) = sort_key fst (snd (snd p))"
  by (simp_all add: snapshotContent_def split: prod.splits)

text \<open>A successful build, inverted.\<close>

lemma buildHolderSnapshot_Inr:
  assumes "buildHolderSnapshot sha input = Inr s"
  obtains logs ex st d where "jprop input ''transferLogs'' = JArr logs" "excluded_ok ex" "ledger_inv logs st"
    "is_pos_decimal (hs_chainId s)" "hex_pattern 40 (hs_tokenAddress s)" "hs_tokenAddress s \<noteq> ZERO_ADDRESS"
    "is_decimal (hs_blockNumber s)" "hex_pattern 64 (hs_blockHash s)" "is_decimal (hs_totalSupply s)"
    "fs_mintedTotal st = fs_burnedTotal st + nat_of_dec (hs_totalSupply s)"
    "length (snd (snd (splitBalances ex (fs_balances st)))) \<le> DIRECT_BALANCES_LIMIT" "length ex \<le> nat MAX_SAFE_INTEGER"
    "snapshotContentDigest sha (snapshotContentProps s) = Inr d"
    "s = (snapshotContent (hs_chainId s) (hs_tokenAddress s) (hs_blockNumber s) (hs_blockHash s) (hs_totalSupply s)
       ex (splitBalances ex (fs_balances st)))\<lparr>hs_holderSnapshotDigest := d\<rparr>"
proof -
  from assms obtain c t b n x ex st d where f: "jprop input ''chainId'' = JStr c" "is_pos_decimal c"
      "jprop input ''tokenAddress'' = JStr t" "hex_pattern 40 t" "t \<noteq> ZERO_ADDRESS" "jprop input ''blockNumber'' = JStr b" "is_decimal b"
      "str_matches (hex_pattern 64) (jprop input ''blockHash'')" "jprop input ''totalSupply'' = JStr n" "is_decimal n"
    and x: "length x \<le> nat MAX_SAFE_INTEGER" and ex: "foldE collectExcluded 0 x [] = Inr ex"
    and fold: "foldTransferLogs (jprop input ''transferLogs'') b = Inr st"
    and tot: "int (fs_mintedTotal st) - int (fs_burnedTotal st) = int (nat_of_dec n)"
    and limit: "length (snd (snd (splitBalances ex (fs_balances st)))) \<le> DIRECT_BALANCES_LIMIT"
    and d: "snapshotContentDigest sha (snapshotContentProps
        (snapshotContent c t b (str_of (jprop input ''blockHash'')) n ex (splitBalances ex (fs_balances st)))) = Inr d"
    and s: "s = (snapshotContent c t b (str_of (jprop input ''blockHash'')) n ex (splitBalances ex (fs_balances st)))
        \<lparr>hs_holderSnapshotDigest := d\<rparr>"
    unfolding buildHolderSnapshot_def Let_def res_simps if_True if_False not_not not_less simp_thms
    by clarify (rule that, (assumption | rule refl)+)
  from fold obtain logs where logs: "jprop input ''transferLogs'' = JArr logs"
    by (auto simp: foldTransferLogs_def assertBoundedArray_def res_simps isArray_iff)
  have "ledger_inv logs st" using fold unfolding logs by (rule foldTransferLogs_inv)
  moreover have "length ex \<le> nat MAX_SAFE_INTEGER" using x collectExcluded_length [OF ex] by simp
  moreover have "fs_mintedTotal st = fs_burnedTotal st + nat_of_dec (hs_totalSupply s)" using tot by (simp add: s)
  ultimately show ?thesis
    by (intro that [OF logs collectExcluded_all_ok [OF ex]]) (use f limit d s in \<open>auto simp: str_matches_iff\<close>)
qed

lemma direct_balance_iff:
  assumes inv: "ledger_inv logs st" and ex: "excluded_ok ex"
  shows "(a, bal) \<in> set (snd (snd (splitBalances ex (fs_balances st)))) \<longleftrightarrow>
     a \<noteq> ZERO_ADDRESS \<and> a \<notin> fst ` set ex \<and> outflow logs a < inflow logs a \<and> bal = dec_of_nat (inflow logs a - outflow logs a)"
proof -
  obtain h e d where sp: "splitBalances ex (fs_balances st) = (h, e, d)" by (cases "splitBalances ex (fs_balances st)")
  have wf: "omap_wf (fs_balances st)" and z: "\<not> omap_has (fs_balances st) ZERO_ADDRESS"
    and bal: "\<And>x. x \<noteq> ZERO_ADDRESS \<Longrightarrow> balanceOf (fs_balances st) x + outflow logs x = inflow logs x"
    using inv by (auto simp: ledger_inv_def)
  have "balanceOf (fs_balances st) ZERO_ADDRESS = 0" using z by (simp add: omap_has_iff balanceOf_def)
  then show ?thesis using splitBalances_spec [OF wf sp] bal [of a]
    by (cases "a = ZERO_ADDRESS") (auto simp: sp omap_has_def)
qed

lemma direct_balance_ok:
  assumes inv: "ledger_inv logs st" and "(a, bal) \<in> set (snd (snd (splitBalances ex (fs_balances st))))"
  shows "hex_pattern 40 a \<and> a \<noteq> ZERO_ADDRESS \<and> a \<notin> fst ` set ex \<and> is_pos_decimal bal"
proof -
  obtain h e d where sp: "splitBalances ex (fs_balances st) = (h, e, d)" by (cases "splitBalances ex (fs_balances st)")
  have wf: "omap_wf (fs_balances st)" using inv by (simp add: ledger_inv_def)
  have b: "0 < balanceOf (fs_balances st) a" "\<not> omap_has ex a" "bal = dec_of_nat (balanceOf (fs_balances st) a)"
    using splitBalances_spec [OF wf sp] assms(2) by (auto simp: sp)
  then have "omap_has (fs_balances st) a" by (auto simp: balanceOf_def omap_has_iff split: option.splits)
  with inv have "hex_pattern 40 a" "a \<noteq> ZERO_ADDRESS" by (auto simp: ledger_inv_def)
  with b show ?thesis by (simp add: is_pos_decimal_dec_of_nat omap_has_def)
qed

section \<open>Concrete snapshot input\<close>

definition hash_z :: string where "hash_z = ''0x'' @ replicate 64 CHR ''0''"
definition sha_z :: "string \<Rightarrow> string" where "sha_z t = replicate 64 CHR ''0''"

definition ex_log :: "string \<Rightarrow> string \<Rightarrow> string \<Rightarrow> string \<Rightarrow> jsval" where
  "ex_log i src dst v = JObj [(''blockNumber'', JStr ''7''), (''logIndex'', JStr i), (''from'', JStr src), (''to'', JStr dst), (''value'', JStr v)]"

definition ex_logs :: "jsval list" where
  "ex_logs = [ex_log ''0'' ZERO_ADDRESS addr_a ''10'', ex_log ''1'' addr_a addr_b ''4'', ex_log ''2'' addr_a addr_c ''1'',
     ex_log ''3'' addr_c ZERO_ADDRESS ''1'']"

definition ex_input :: jsval where
  "ex_input = JObj [(''chainId'', JStr ''1''), (''tokenAddress'', JStr addr_c), (''blockNumber'', JStr ''9''), (''blockHash'', JStr hash_z),
     (''finalized'', JBool True), (''totalSupply'', JStr ''9''), (''excludedAddresses'', JArr [JObj [(''address'', JStr addr_a), (''reason'', JStr ''pool'')]]),
     (''transferLogs'', JArr ex_logs)]"

lemma hash_z_hex [simp]: "hex_pattern 64 hash_z"
  by (simp add: hash_z_def hex_pattern_def list_all_iff is_lower_hex_def)

lemma sha_z_hex [simp]: "length (sha_z t) = 64" "list_all is_lower_hex (sha_z t)"
  by (simp_all add: sha_z_def list_all_iff is_lower_hex_def)

lemmas snapshot_eval = bindE_def assertExactShape_def assertAddress_def assertDecimalString_def assertBoundedArray_def
  foldTransferLog_def foldTransferLogs_def debitTransfer_def creditTransfer_def balanceOf_def omap_get_def fold_init_def
  Let_def jprop_JObj isPlainObject_def exactKeys_def hasOwn_def ownKeys_def isArray_def is_decimal_def is_pos_decimal_def
  is_digit_def nat_of_dec_def digit_val_def MAX_SAFE_INTEGER_def

lemma ex_fold: "foldTransferLogs (JArr ex_logs) ''9'' = Inr \<lparr>fs_balances = [(addr_a, 5), (addr_b, 4), (addr_c, 0)],
    fs_previousBlock = 7, fs_previousLogIndex = 3, fs_mintedTotal = 10, fs_burnedTotal = 1\<rparr>"
  by (simp add: snapshot_eval ex_logs_def ex_log_def TRANSFER_LOG_FIELDS_def)

lemma snapshotContentDigest_ok: "\<exists>d. snapshotContentDigest sha (snapshotContentProps s) = Inr d"
proof -
  have "isOk (snapshotContentDigest sha (snapshotContentProps s))"
    unfolding snapshotContentDigest_def
    by (rule snapshotDigest_ok) (simp add: snapshotContentProps_def list_all_iff jsval_of_excluded_def jsval_of_balance_def)
  then show ?thesis by (simp add: isOk_iff)
qed

definition ex_digest :: string where "ex_digest = ''sha256:'' @ replicate 64 CHR ''0''"

lemma ex_digest_eq: "snapshotDigest sha_z v = Inr d \<Longrightarrow> d = ex_digest"
  by (auto simp: snapshotDigest_def res_simps sha_z_def ex_digest_def)

definition ex_snapshot :: "string \<Rightarrow> holder_snapshot" where
  "ex_snapshot d = \<lparr>hs_chainId = ''1'', hs_tokenAddress = addr_c, hs_blockNumber = ''9'',
    hs_blockHash = hash_z, hs_totalSupply = ''9'', hs_totalHolderBalance = ''4'', hs_totalExcludedBalance = ''5'', hs_holderCount = 1,
    hs_excludedAddresses = [(addr_a, ''pool'')], hs_directBalances = [(addr_b, ''4'')], hs_holderSnapshotDigest = d\<rparr>"

lemma ex_build: "buildHolderSnapshot sha_z ex_input = Inr (ex_snapshot ex_digest)"
proof -
  let ?c = "ex_snapshot []"
  obtain d where d: "snapshotContentDigest sha_z (snapshotContentProps ?c) = Inr d" using snapshotContentDigest_ok by blast
  have c: "snapshotContent ''1'' addr_c ''9'' hash_z ''9'' [(addr_a, ''pool'')] (4, 5, [(addr_b, dec_of_nat 4)]) = ?c"
    by (simp add: snapshotContent_def omap_has_def ex_snapshot_def dec_of_nat.simps digit_char_def)
  have ex: "foldE collectExcluded 0 [JObj [(''address'', JStr addr_a), (''reason'', JStr ''pool'')]] [] = Inr [(addr_a, ''pool'')]"
    by (simp add: collectExcluded_def parseExcluded_def EXCLUDED_ADDRESS_FIELDS_def omap_has_def snapshot_eval)
  have "buildHolderSnapshot sha_z ex_input = bindE (snapshotContentDigest sha_z (snapshotContentProps ?c)) (\<lambda>d. Inr (?c\<lparr>hs_holderSnapshotDigest := d\<rparr>))"
    unfolding buildHolderSnapshot_def ex_input_def Let_def
    by (simp add: jprop_JObj assertExactShape_def SNAPSHOT_INPUT_FIELDS_def isPlainObject_def exactKeys_def hasOwn_def ownKeys_def
        assertDecimalString_def assertAddress_def assertBoundedArray_def isArray_def is_decimal_def is_pos_decimal_def is_digit_def
        MAX_SAFE_INTEGER_def ex ex_fold c DIRECT_BALANCES_LIMIT_def nat_of_dec_def digit_val_def omap_has_def del: foldE.simps)
  moreover have "d = ex_digest" using d unfolding snapshotContentDigest_def by (rule ex_digest_eq)
  ultimately show ?thesis using d by (simp add: ex_snapshot_def)
qed

section \<open>Properties\<close>

text \<open>
  C15.  A built snapshot lists exactly the addresses that are neither the zero address nor excluded and
  whose credits in the transfer logs exceed their debits, each with that difference as its balance, and
  lists them in strictly increasing address order.
\<close>

theorem snapshot_balances_exact:
  assumes "buildHolderSnapshot sha input = Inr s"
  shows "(\<forall>a bal. (a, bal) \<in> set (hs_directBalances s) \<longleftrightarrow>
      a \<noteq> ZERO_ADDRESS \<and> a \<notin> fst ` set (hs_excludedAddresses s)
      \<and> outflow (arr_of (jprop input ''transferLogs'')) a < inflow (arr_of (jprop input ''transferLogs'')) a
      \<and> bal = dec_of_nat (inflow (arr_of (jprop input ''transferLogs'')) a - outflow (arr_of (jprop input ''transferLogs'')) a))
    \<and> sorted_wrt (<) (map fst (hs_directBalances s))"
proof -
  from assms obtain logs ex st d where logs: "jprop input ''transferLogs'' = JArr logs"
    and ex: "excluded_ok ex" and inv: "ledger_inv logs st"
    and s: "s = (snapshotContent (hs_chainId s) (hs_tokenAddress s) (hs_blockNumber s) (hs_blockHash s) (hs_totalSupply s)
       ex (splitBalances ex (fs_balances st)))\<lparr>hs_holderSnapshotDigest := d\<rparr>"
    by (rule buildHolderSnapshot_Inr)
  have db: "hs_directBalances s = sort_key fst (snd (snd (splitBalances ex (fs_balances st))))"
    and ea: "hs_excludedAddresses s = sort_key fst ex" by (subst s, simp)+
  have "omap_wf (fs_balances st)" using inv by (simp add: ledger_inv_def)
  then have "distinct (map fst (snd (snd (splitBalances ex (fs_balances st)))))"
    using splitBalances_spec [of "fs_balances st" ex] by (metis prod.collapse)
  from sorted_wrt_sort_key [OF this] show ?thesis
    using direct_balance_iff [OF inv ex] by (simp add: db ea logs sorted_wrt_map)
qed

theorem snapshot_balances_exact_witness:
  "\<exists>s. buildHolderSnapshot sha_z ex_input = Inr s \<and> (addr_b, ''4'') \<in> set (hs_directBalances s)
    \<and> (\<forall>bal. (addr_a, bal) \<notin> set (hs_directBalances s)) \<and> inflow ex_logs addr_b = 4 \<and> outflow ex_logs addr_b = 0"
proof -
  note b = ex_build
  have logs: "arr_of (jprop ex_input ''transferLogs'') = ex_logs" by (simp add: ex_input_def jprop_JObj)
  have flow: "inflow ex_logs addr_b = 4" "outflow ex_logs addr_b = 0"
    by (simp_all add: inflow_def outflow_def ex_logs_def ex_log_def log_defs jprop_JObj nat_of_dec_def digit_val_def)
  have "dec_of_nat 4 = ''4''" by (simp add: dec_of_nat.simps digit_char_def)
  with snapshot_balances_exact [OF b] flow have "(addr_b, ''4'') \<in> set (hs_directBalances (ex_snapshot ex_digest))"
    "\<forall>bal. (addr_a, bal) \<notin> set (hs_directBalances (ex_snapshot ex_digest))"
    unfolding logs by (auto simp: ex_snapshot_def)
  with b flow show ?thesis by blast
qed

text \<open>
  A built snapshot accounts for the whole supply: the payable balances sum to the stated holder
  total, holder total and excluded total sum to the total supply, and the supply is what the logs mint
  less what they burn.
\<close>

theorem snapshot_supply_reconciles:
  assumes "buildHolderSnapshot sha input = Inr s"
  shows "nat_of_dec (hs_totalHolderBalance s) = balanceTotal (hs_directBalances s)
    \<and> nat_of_dec (hs_totalHolderBalance s) + nat_of_dec (hs_totalExcludedBalance s) = nat_of_dec (hs_totalSupply s)
    \<and> nat_of_dec (hs_totalSupply s) + inflow (arr_of (jprop input ''transferLogs'')) ZERO_ADDRESS
        = outflow (arr_of (jprop input ''transferLogs'')) ZERO_ADDRESS
    \<and> hs_holderCount s = int (length (hs_directBalances s))"
proof -
  from assms obtain logs ex st d where logs: "jprop input ''transferLogs'' = JArr logs"
    and inv: "ledger_inv logs st" and minted: "fs_mintedTotal st = fs_burnedTotal st + nat_of_dec (hs_totalSupply s)"
    and s: "s = (snapshotContent (hs_chainId s) (hs_tokenAddress s) (hs_blockNumber s) (hs_blockHash s) (hs_totalSupply s)
       ex (splitBalances ex (fs_balances st)))\<lparr>hs_holderSnapshotDigest := d\<rparr>"
    by (rule buildHolderSnapshot_Inr)
  obtain h e direct where sp: "splitBalances ex (fs_balances st) = (h, e, direct)" by (cases "splitBalances ex (fs_balances st)")
  have fields: "hs_totalHolderBalance s = dec_of_nat h" "hs_totalExcludedBalance s = dec_of_nat e"
    "hs_directBalances s = sort_key fst direct" "hs_holderCount s = int (length direct)"
    by (subst s, simp add: sp)+
  have "h = balanceTotal direct" "h + e = ledgerSum (fs_balances st)"
    using splitBalances_spec [OF _ sp] inv by (auto simp: ledger_inv_def)
  moreover have "balanceTotal (sort_key fst direct) = balanceTotal direct" by (simp add: balanceTotal_def)
  ultimately show ?thesis using inv minted by (simp add: fields logs ledger_inv_def)
qed

theorem snapshot_supply_reconciles_witness:
  "\<exists>s. buildHolderSnapshot sha_z ex_input = Inr s \<and> hs_totalSupply s = ''9''
    \<and> nat_of_dec (hs_totalHolderBalance s) + nat_of_dec (hs_totalExcludedBalance s) = nat_of_dec ''9''"
proof -
  note b = ex_build
  have "hs_totalSupply (ex_snapshot ex_digest) = ''9''" by (simp add: ex_snapshot_def)
  with b snapshot_supply_reconciles [OF b] show ?thesis by metis
qed

section \<open>What re-validation accepts\<close>

definition opt_cons :: "'a option \<Rightarrow> 'a list \<Rightarrow> 'a list" where
  "opt_cons prev xs = (case prev of None \<Rightarrow> xs | Some a \<Rightarrow> a # xs)"

definition validExcluded :: "jsval \<Rightarrow> bool" where
  "validExcluded e = (isPlainObject e \<and> exactKeys e EXCLUDED_ADDRESS_FIELDS
     \<and> str_matches (hex_pattern 40) (jprop e ''address'') \<and> str_matches (\<lambda>r. r \<noteq> []) (jprop e ''reason''))"

definition validBalance :: "jsval \<Rightarrow> bool" where
  "validBalance e = (isPlainObject e \<and> exactKeys e DIRECT_BALANCE_FIELDS
     \<and> str_matches (\<lambda>a. hex_pattern 40 a \<and> a \<noteq> ZERO_ADDRESS) (jprop e ''recipient'')
     \<and> str_matches is_pos_decimal (jprop e ''directHkmnBalance''))"

definition holder_of :: "jsval \<Rightarrow> string \<times> string" where
  "holder_of e = (str_of (jprop e ''recipient''), str_of (jprop e ''directHkmnBalance''))"

definition recipient_of :: "jsval \<Rightarrow> string" where
  "recipient_of e = str_of (jprop e ''recipient'')"

lemma fst_holder_of [simp]: "fst (holder_of e) = recipient_of e"
  by (simp add: holder_of_def recipient_of_def)

definition excluded_of :: "jsval \<Rightarrow> string" where
  "excluded_of e = str_of (jprop e ''address'')"

lemma parseDirectBalance_Inr_iff: "parseDirectBalance pos e = Inr p \<longleftrightarrow> validBalance e \<and> p = holder_of e"
  unfolding parseDirectBalance_def Let_def res_simps if_True validBalance_def holder_of_def by (auto simp: str_matches_iff)

lemma parseExcluded_Inr_iff2: "parseExcluded pos e = Inr p \<longleftrightarrow> validExcluded e \<and> p = (excluded_of e, str_of (jprop e ''reason''))"
  by (cases p) (auto simp: parseExcluded_Inr_iff validExcluded_def excluded_of_def str_matches_iff)

lemma sorted_opt_cons2:
  fixes a :: "'a::linorder"
  shows "sorted_wrt (<) (opt_cons prev (a # as)) \<longleftrightarrow> \<not> (prev \<noteq> None \<and> a \<le> the prev) \<and> sorted_wrt (<) (a # as)"
proof (cases prev)
  case None
  then show ?thesis by (simp add: opt_cons_def)
next
  case (Some b)
  then show ?thesis by (simp add: opt_cons_def sorted_wrt2 not_le del: sorted_wrt.simps)
qed

lemma checkBalance_fold:
  "foldE (checkBalance X) i es (prev, tot) = Inr r \<longleftrightarrow>
     list_all validBalance es \<and> list_all (\<lambda>e. recipient_of e \<notin> set X) es
     \<and> sorted_wrt (<) (opt_cons prev (map (recipient_of) es))
     \<and> r = (if es = [] then prev else Some (recipient_of (last es)), tot + balanceTotal (map holder_of es))"
  if "sorted_wrt (<) (opt_cons prev [])"
  using that
proof (induction es arbitrary: i prev tot)
  case Nil
  then show ?case by (auto simp: balanceTotal_def opt_cons_def split: option.splits)
next
  case (Cons e es)
  have step: "checkBalance X i e (prev, tot) = Inr q \<longleftrightarrow> validBalance e \<and> recipient_of e \<notin> set X
      \<and> \<not> (prev \<noteq> None \<and> recipient_of e \<le> the prev) \<and> q = (Some (recipient_of e), tot + nat_of_dec (snd (holder_of e)))" for q
    by (auto simp: checkBalance_def res_simps parseDirectBalance_Inr_iff case_prod_unfold)
  have IH: "foldE (checkBalance X) (Suc i) es (Some a, t) = Inr r \<longleftrightarrow>
     list_all validBalance es \<and> list_all (\<lambda>e. recipient_of e \<notin> set X) es
     \<and> sorted_wrt (<) (a # map (recipient_of) es)
     \<and> r = (if es = [] then Some a else Some (recipient_of (last es)), t + balanceTotal (map holder_of es))" for a t
    using Cons.IH [of "Some a"] by (simp add: opt_cons_def)
  show ?case
    by (simp add: bindE_Inr_iff step IH sorted_opt_cons2 del: sorted_wrt.simps split_paired_Ex cong: conj_cong)
      (auto simp: balanceTotal_def add.assoc)
qed

lemma checkExcluded_fold:
  "foldE checkExcluded i es (prev, acc) = Inr r \<longleftrightarrow>
     list_all validExcluded es \<and> sorted_wrt (<) (opt_cons prev (map excluded_of es))
     \<and> r = (if es = [] then prev else Some (excluded_of (last es)), acc @ map excluded_of es)"
  if "sorted_wrt (<) (opt_cons prev [])"
  using that
proof (induction es arbitrary: i prev acc)
  case Nil
  then show ?case by (auto simp: opt_cons_def split: option.splits)
next
  case (Cons e es)
  have step: "checkExcluded i e (prev, acc) = Inr q \<longleftrightarrow> validExcluded e
      \<and> \<not> (prev \<noteq> None \<and> excluded_of e \<le> the prev) \<and> q = (Some (excluded_of e), acc @ [excluded_of e])" for q
    by (auto simp: checkExcluded_def res_simps parseExcluded_Inr_iff2 split: prod.splits)
  have IH: "foldE checkExcluded (Suc i) es (Some a, t) = Inr r \<longleftrightarrow>
     list_all validExcluded es \<and> sorted_wrt (<) (a # map excluded_of es)
     \<and> r = (if es = [] then Some a else Some (excluded_of (last es)), t @ map excluded_of es)" for a t
    using Cons.IH [of "Some a"] by (simp add: opt_cons_def)
  show ?case
    by (simp add: bindE_Inr_iff step IH sorted_opt_cons2 del: sorted_wrt.simps split_paired_Ex cong: conj_cong) auto
qed

lemmas check_folds = checkBalance_fold [of None, simplified opt_cons_def option.case sorted_wrt.simps simp_thms]
  checkExcluded_fold [of None, simplified opt_cons_def option.case sorted_wrt.simps simp_thms]

lemma assertHolderSnapshot_Inr_iff:
  "assertHolderSnapshot sha v = Inr w \<longleftrightarrow> w = v \<and> isPlainObject v \<and> exactKeys v HOLDER_SNAPSHOT_FIELDS
     \<and> assertHolderSnapshotHead v = Inr ()
     \<and> (\<exists>ex. jprop v ''excludedAddresses'' = JArr ex \<and> length ex \<le> nat MAX_SAFE_INTEGER \<and> list_all validExcluded ex
          \<and> sorted_wrt (<) (map excluded_of ex)
          \<and> (\<exists>es. jprop v ''directBalances'' = JArr es \<and> length es \<le> DIRECT_BALANCES_LIMIT \<and> list_all validBalance es
               \<and> list_all (\<lambda>e. recipient_of e \<notin> excluded_of ` set ex) es \<and> sorted_wrt (<) (map (recipient_of) es)
               \<and> int (length es) = num_of (jprop v ''holderCount'')
               \<and> balanceTotal (map holder_of es) = nat_of_dec (str_of (jprop v ''totalHolderBalance''))))
     \<and> str_matches digest_pattern (jprop v ''holderSnapshotDigest'')
     \<and> snapshotContentDigest sha (without ''holderSnapshotDigest'' v) = Inr (str_of (jprop v ''holderSnapshotDigest''))"
  unfolding assertHolderSnapshot_def res_simps check_folds assertDigest_def
  by (auto simp: res_simps check_folds list_all_iff assertDigest_def split: prod.splits)

lemma jprop_snapshot [simp]:
  "jprop (jsval_of_snapshot s) ''schema'' = JStr HOLDER_SNAPSHOT_SCHEMA"
  "jprop (jsval_of_snapshot s) ''chainId'' = JStr (hs_chainId s)"
  "jprop (jsval_of_snapshot s) ''tokenAddress'' = JStr (hs_tokenAddress s)"
  "jprop (jsval_of_snapshot s) ''blockNumber'' = JStr (hs_blockNumber s)"
  "jprop (jsval_of_snapshot s) ''blockHash'' = JStr (hs_blockHash s)"
  "jprop (jsval_of_snapshot s) ''finalized'' = JBool True"
  "jprop (jsval_of_snapshot s) ''totalSupply'' = JStr (hs_totalSupply s)"
  "jprop (jsval_of_snapshot s) ''totalHolderBalance'' = JStr (hs_totalHolderBalance s)"
  "jprop (jsval_of_snapshot s) ''totalExcludedBalance'' = JStr (hs_totalExcludedBalance s)"
  "jprop (jsval_of_snapshot s) ''holderCount'' = JNum (hs_holderCount s)"
  "jprop (jsval_of_snapshot s) ''excludedAddresses'' = JArr (map jsval_of_excluded (hs_excludedAddresses s))"
  "jprop (jsval_of_snapshot s) ''directBalances'' = JArr (map jsval_of_balance (hs_directBalances s))"
  "jprop (jsval_of_snapshot s) ''holderSnapshotDigest'' = JStr (hs_holderSnapshotDigest s)"
  by (simp_all add: jsval_of_snapshot_def snapshotContentProps_def jprop_JObj)

lemma snapshot_shape [simp]:
  "isPlainObject (jsval_of_snapshot s)" "exactKeys (jsval_of_snapshot s) HOLDER_SNAPSHOT_FIELDS"
  "without ''holderSnapshotDigest'' (jsval_of_snapshot s) = snapshotContentProps s"
  by (simp_all add: jsval_of_snapshot_def snapshotContentProps_def isPlainObject_def exactKeys_def ownKeys_def
      hasOwn_def HOLDER_SNAPSHOT_FIELDS_def without_def)

lemma entry_of_simps [simp]:
  "holder_of (jsval_of_balance p) = p" "recipient_of (jsval_of_balance p) = fst p" "excluded_of (jsval_of_excluded p) = fst p"
  "validBalance (jsval_of_balance p) \<longleftrightarrow> hex_pattern 40 (fst p) \<and> fst p \<noteq> ZERO_ADDRESS \<and> is_pos_decimal (snd p)"
  "validExcluded (jsval_of_excluded p) \<longleftrightarrow> hex_pattern 40 (fst p) \<and> snd p \<noteq> []"
  by (simp_all add: jsval_of_balance_def jsval_of_excluded_def holder_of_def recipient_of_def excluded_of_def jprop_JObj
      validBalance_def validExcluded_def isPlainObject_def exactKeys_def ownKeys_def hasOwn_def DIRECT_BALANCE_FIELDS_def
      EXCLUDED_ADDRESS_FIELDS_def)

text \<open>The parameter \<open>sha\<close> behaves like a hexadecimal SHA-256: 64 lowercase hexadecimal digits.\<close>

definition sha_hex :: "(string \<Rightarrow> string) \<Rightarrow> bool" where
  "sha_hex sha = (\<forall>t. length (sha t) = 64 \<and> list_all is_lower_hex (sha t))"

lemma snapshotDigest_pattern: "sha_hex sha \<Longrightarrow> snapshotDigest sha v = Inr d \<Longrightarrow> digest_pattern d"
  by (auto simp: snapshotDigest_def res_simps sha_hex_def digest_pattern_def)

text \<open>
  C25.  What the indexer builds, a verifier accepts: re-validation of a built snapshot recomputes the same
  totals, order and digest and returns it unchanged (for a digest function that prints 64 lowercase
  hexadecimal digits).
\<close>

theorem built_snapshot_revalidates:
  assumes "sha_hex sha" and "buildHolderSnapshot sha input = Inr s"
  shows "assertHolderSnapshot sha (jsval_of_snapshot s) = Inr (jsval_of_snapshot s)"
proof -
  from assms(2) obtain logs ex st d where ex: "excluded_ok ex" and inv: "ledger_inv logs st"
    and f: "is_pos_decimal (hs_chainId s)" "hex_pattern 40 (hs_tokenAddress s)" "hs_tokenAddress s \<noteq> ZERO_ADDRESS"
      "is_decimal (hs_blockNumber s)" "hex_pattern 64 (hs_blockHash s)" "is_decimal (hs_totalSupply s)"
    and lim: "length (snd (snd (splitBalances ex (fs_balances st)))) \<le> DIRECT_BALANCES_LIMIT" "length ex \<le> nat MAX_SAFE_INTEGER"
    and d: "snapshotContentDigest sha (snapshotContentProps s) = Inr d"
    and s: "s = (snapshotContent (hs_chainId s) (hs_tokenAddress s) (hs_blockNumber s) (hs_blockHash s) (hs_totalSupply s)
       ex (splitBalances ex (fs_balances st)))\<lparr>hs_holderSnapshotDigest := d\<rparr>"
    by (rule buildHolderSnapshot_Inr)
  obtain h e direct where sp: "splitBalances ex (fs_balances st) = (h, e, direct)" by (cases "splitBalances ex (fs_balances st)")
  have flds: "hs_totalHolderBalance s = dec_of_nat h" "hs_totalExcludedBalance s = dec_of_nat e" "hs_excludedAddresses s = sort_key fst ex"
    "hs_directBalances s = sort_key fst direct" "hs_holderCount s = int (length direct)" "hs_holderSnapshotDigest s = d"
    by (subst s, simp add: sp)+
  have spec: "h = balanceTotal direct" "distinct (map fst direct)"
    using splitBalances_spec [OF _ sp] inv by (auto simp: ledger_inv_def)
  have ok: "hex_pattern 40 (fst p) \<and> fst p \<noteq> ZERO_ADDRESS \<and> fst p \<notin> fst ` set ex \<and> is_pos_decimal (snd p)" if "p \<in> set direct" for p
    using direct_balance_ok [OF inv, of "fst p" "snd p" ex] that by (simp add: sp)
  have "digest_pattern d" using assms(1) d unfolding snapshotContentDigest_def by (rule snapshotDigest_pattern)
  moreover have "sorted_wrt (<) (map fst (sort_key fst direct))" using sorted_wrt_sort_key [OF spec(2)] by (simp add: sorted_wrt_map)
  moreover have "sorted_wrt (<) (map fst (sort_key fst ex))" using sorted_wrt_sort_key [of fst ex] ex
    by (simp add: sorted_wrt_map excluded_ok_def omap_wf_def)
  moreover have "assertHolderSnapshotHead (jsval_of_snapshot s) = Inr ()"
    using f by (simp add: assertHolderSnapshotHead_def assertDecimalString_def assertAddress_def flds isInteger_def)
  ultimately show ?thesis
    using ex ok lim d spec(1)
    by (simp add: assertHolderSnapshot_Inr_iff flds sp list_all_iff excluded_ok_def case_prod_unfold comp_def balanceTotal_def image_image)
qed

theorem built_snapshot_revalidates_witness:
  "\<exists>s. sha_hex sha_z \<and> buildHolderSnapshot sha_z ex_input = Inr s
    \<and> assertHolderSnapshot sha_z (jsval_of_snapshot s) = Inr (jsval_of_snapshot s)"
proof -
  note b = ex_build
  have "sha_hex sha_z" by (simp add: sha_hex_def)
  with b built_snapshot_revalidates [OF this b] show ?thesis by blast
qed

section \<open>Selection of the largest holders\<close>

lemma selectTop_set: "set (selectTop n xs) = set (take n (sort_key rankKey xs))"
  by (simp add: selectTop_def)

lemma selectTop_length: "length (selectTop n xs) = min n (length xs)"
  by (simp add: selectTop_def min.commute)

lemma distinct_sort_key: "distinct (map k xs) \<Longrightarrow> distinct (map k (sort_key j xs))"
  by (metis mset_eq_imp_distinct_iff mset_map mset_sort)

lemma selectTop_sorted: "distinct (map fst xs) \<Longrightarrow> sorted_wrt (<) (map fst (selectTop n xs))"
  unfolding selectTop_def using sorted_wrt_sort_key [of fst "take n (sort_key rankKey xs)"]
  by (simp add: sorted_wrt_map distinct_sort_key flip: take_map)

lemma selectTop_total: "balanceTotal (selectTop n xs) + balanceTotal (drop n (sort_key rankKey xs)) = balanceTotal xs"
proof -
  have "balanceTotal (selectTop n xs) = balanceTotal (take n (sort_key rankKey xs))"
    by (simp add: selectTop_def balanceTotal_def)
  moreover have "balanceTotal (take n ys) + balanceTotal (drop n ys) = balanceTotal ys" for ys
    unfolding balanceTotal_def by (metis append_take_drop_id map_append sum_list_append)
  moreover have "balanceTotal (sort_key rankKey xs) = balanceTotal xs" by (simp add: balanceTotal_def)
  ultimately show ?thesis by metis
qed

lemma selectTop_dominates:
  assumes "distinct (map fst xs)" and p: "p \<in> set (selectTop n xs)" and q: "q \<in> set xs - set (selectTop n xs)"
  shows "nat_of_dec (snd q) < nat_of_dec (snd p) \<or> nat_of_dec (snd q) = nat_of_dec (snd p) \<and> fst p < fst q"
proof -
  let ?ys = "sort_key rankKey xs"
  have "p \<in> set (take n ?ys)" using p by (simp add: selectTop_set)
  moreover have "q \<in> set (drop n ?ys)" using q
    by (metis Diff_iff Un_iff append_take_drop_id selectTop_set set_append set_sort)
  moreover have "sorted (map rankKey (take n ?ys @ drop n ?ys))" by simp
  ultimately have "rankKey p \<le> rankKey q" unfolding map_append sorted_append by auto
  moreover have "fst p \<noteq> fst q"
    using assms(1) p q \<open>p \<in> set (take n ?ys)\<close> unfolding distinct_map inj_on_def
    by (metis Diff_iff in_set_takeD set_sort)
  ultimately show ?thesis by (auto simp: rankKey_def less_eq_prod_def)
qed

lemma snapshotHolders_eq: "jprop v ''directBalances'' = JArr es \<Longrightarrow> snapshotHolders v = map holder_of es"
  by (simp add: snapshotHolders_def holder_of_def)

lemma assertTokenDecimals_Inr [res_simps]:
  "assertTokenDecimals v label = Inr n \<longleftrightarrow> v = JNum n \<and> 0 \<le> n \<and> n \<le> 255"
  by (auto simp: assertTokenDecimals_def isInteger_iff)

lemma assertTypedHkmnAmount_Inr:
  assumes "assertTypedHkmnAmount v label c t dv = Inr a"
  shows "isPlainObject v" "jprop v ''amountAtomic'' = JStr (ta_amountAtomic a)" "is_decimal (ta_amountAtomic a)"
    "c = JStr (ta_chainId a)" "t = JStr (ta_assetId a)" "dv = JNum (ta_decimals a)"
  using assms unfolding assertTypedHkmnAmount_def res_simps if_False de_Morgan_disj not_not by auto

lemma withAmount_amount [simp]: "isPlainObject v \<Longrightarrow> jprop (withAmount v a) ''amountAtomic'' = JStr a"
  using omap_get_set [of "''amountAtomic''" "JStr a"]
  by (auto simp: isPlainObject_iff withAmount_def jprop_JObj omap_get_def)

lemma json_int_nat [simp]: "json_int (int n) = dec_of_nat n"
  by (simp add: json_int_def)

lemma selectEligibilityRecipients_Inr:
  assumes "selectEligibilityRecipients sha snap supply rs = Inr (entries, selection)"
  obtains limit es d where "jprop rs ''rewardRecipientLimit'' = JNum limit" "100 \<le> limit" "limit \<le> 1000"
    "jprop snap ''directBalances'' = JArr es" "distinct (map fst (snapshotHolders snap))"
    "balanceTotal (snapshotHolders snap) = nat_of_dec (str_of (jprop snap ''totalHolderBalance''))"
    "jprop snap ''holderCount'' = JNum (int (length es))"
    "isPlainObject supply" "jprop supply ''amountAtomic'' = jprop snap ''totalSupply''"
    "nat_of_dec (str_of (jprop snap ''totalHolderBalance'')) + nat_of_dec (str_of (jprop snap ''totalExcludedBalance''))
       = nat_of_dec (str_of (jprop supply ''amountAtomic''))"
    "entries = selectionEntries supply (selectTop (nat limit) (snapshotHolders snap))"
    "selection = JObj (selectionContent snap supply rs (selectTop (nat limit) (snapshotHolders snap)) @ [(''digest'', JStr d)])"
proof -
  from assms obtain am c where snap: "assertHolderSnapshot sha snap = Inr snap" and rs: "payload rs = Inr c"
    and am: "assertTypedHkmnAmount supply ''reward selection supply'' (jprop snap ''chainId'') (jprop snap ''tokenAddress'') (jprop supply ''decimals'') = Inr am"
    and sup: "jprop supply ''amountAtomic'' = jprop snap ''totalSupply''"
      "nat_of_dec (str_of (jprop snap ''totalHolderBalance'')) + nat_of_dec (str_of (jprop snap ''totalExcludedBalance''))
          = nat_of_dec (str_of (jprop snap ''totalSupply''))"
    and res: "\<exists>d. entries = selectionEntries supply (selectTop (nat (num_of (jprop rs ''rewardRecipientLimit''))) (snapshotHolders snap))
      \<and> selection = JObj (selectionContent snap supply rs (selectTop (nat (num_of (jprop rs ''rewardRecipientLimit''))) (snapshotHolders snap)) @ [(''digest'', JStr d)])"
    unfolding selectEligibilityRecipients_def Let_def assertRewardSelectionSnapshot_def bindE_Inr_iff throw_if_Inr_iff de_Morgan_disj not_not
    by (auto simp: assertHolderSnapshot_Inr_iff)
  from payload_Inr [OF rs] obtain limit where lim: "jprop rs ''rewardRecipientLimit'' = JNum limit" "limit \<in> set REWARD_RECIPIENT_LIMIT_OPTIONS"
    by blast
  then have range: "100 \<le> limit" "limit \<le> 1000" by (auto simp: REWARD_RECIPIENT_LIMIT_OPTIONS_def)
  from snap obtain es where es: "jprop snap ''directBalances'' = JArr es" "sorted_wrt (<) (map recipient_of es)"
     "int (length es) = num_of (jprop snap ''holderCount'')"
     "balanceTotal (map holder_of es) = nat_of_dec (str_of (jprop snap ''totalHolderBalance''))"
    by (auto simp: assertHolderSnapshot_Inr_iff)
  have "jprop snap ''holderCount'' = JNum (int (length es))"
    using snap es(3) unfolding assertHolderSnapshot_Inr_iff assertHolderSnapshotHead_def by (auto simp: res_simps isInteger_iff)
  moreover have "distinct (map fst (snapshotHolders snap))"
    using es(2) by (simp add: snapshotHolders_eq [OF es(1)] comp_def strict_sorted_iff)
  ultimately show ?thesis
    using that lim(1) range es sup res assertTypedHkmnAmount_Inr(1) [OF am] by (auto simp: snapshotHolders_eq)
qed

text \<open>
  C26.  The selected recipients are the largest holders: with the frozen limit (100 to 1000), the entries are
  the first \<open>limit\<close> holders of the snapshot by balance, ties broken by address; every selected holder
  outranks every holder left out, and the entries are in strictly increasing address order.
\<close>

theorem selection_takes_largest_holders:
  assumes "selectEligibilityRecipients sha snap supply rs = Inr (entries, selection)"
  shows "\<exists>limit sel. jprop rs ''rewardRecipientLimit'' = JNum limit \<and> 100 \<le> limit \<and> limit \<le> 1000
    \<and> entries = selectionEntries supply sel \<and> set sel \<subseteq> set (snapshotHolders snap)
    \<and> length sel = min (nat limit) (length (snapshotHolders snap)) \<and> sorted_wrt (<) (map fst sel)
    \<and> (\<forall>p \<in> set sel. \<forall>q \<in> set (snapshotHolders snap) - set sel.
         nat_of_dec (snd q) < nat_of_dec (snd p) \<or> nat_of_dec (snd q) = nat_of_dec (snd p) \<and> fst p < fst q)"
proof -
  from assms obtain limit where l: "jprop rs ''rewardRecipientLimit'' = JNum limit" "100 \<le> limit" "limit \<le> 1000"
    and d: "distinct (map fst (snapshotHolders snap))"
    and e: "entries = selectionEntries supply (selectTop (nat limit) (snapshotHolders snap))"
    by (rule selectEligibilityRecipients_Inr)
  have "set (selectTop (nat limit) (snapshotHolders snap)) \<subseteq> set (snapshotHolders snap)"
    by (metis selectTop_set set_sort set_take_subset)
  with l e selectTop_length selectTop_sorted [OF d] selectTop_dominates [OF d] show ?thesis by blast
qed

text \<open>
  The totals of the selection evidence partition the supply: selected, unselected eligible and excluded
  balance add up to the supply the selection is bound to, and the counts are those of the entries and of
  the snapshot.
\<close>

theorem selection_totals_partition_supply:
  assumes "selectEligibilityRecipients sha snap supply rs = Inr (entries, selection)"
  shows "nat_of_dec (str_of (jprop (jprop selection ''selectedBalanceTotal'') ''amountAtomic''))
     + nat_of_dec (str_of (jprop (jprop selection ''unselectedEligibleBalanceTotal'') ''amountAtomic''))
     + nat_of_dec (str_of (jprop (jprop selection ''excludedBalanceTotal'') ''amountAtomic''))
       = nat_of_dec (str_of (jprop supply ''amountAtomic''))
    \<and> jprop selection ''selectedCount'' = JNum (int (length (arr_of entries)))
    \<and> jprop selection ''eligibleCount'' = JNum (int (length (snapshotHolders snap)))"
proof -
  from assms obtain limit es d where es: "jprop snap ''directBalances'' = JArr es"
    and t: "balanceTotal (snapshotHolders snap) = nat_of_dec (str_of (jprop snap ''totalHolderBalance''))"
    and n: "jprop snap ''holderCount'' = JNum (int (length es))" and p: "isPlainObject supply"
    and sup: "nat_of_dec (str_of (jprop snap ''totalHolderBalance'')) + nat_of_dec (str_of (jprop snap ''totalExcludedBalance''))
       = nat_of_dec (str_of (jprop supply ''amountAtomic''))"
    and e: "entries = selectionEntries supply (selectTop (nat limit) (snapshotHolders snap))"
    and s: "selection = JObj (selectionContent snap supply rs (selectTop (nat limit) (snapshotHolders snap)) @ [(''digest'', JStr d)])"
    by (rule selectEligibilityRecipients_Inr)
  let ?sel = "selectTop (nat limit) (snapshotHolders snap)"
  have le: "balanceTotal ?sel \<le> balanceTotal (snapshotHolders snap)" using selectTop_total by (metis le_add1)
  have "jprop selection ''unselectedEligibleBalanceTotal'' = withAmount supply (dec_of_nat (balanceTotal (snapshotHolders snap) - balanceTotal ?sel))"
    using le by (simp add: s selectionContent_def jprop_JObj flip: t of_nat_diff)
  moreover have "jprop selection ''selectedBalanceTotal'' = withAmount supply (dec_of_nat (balanceTotal ?sel))"
    "jprop selection ''excludedBalanceTotal'' = withAmount supply (str_of (jprop snap ''totalExcludedBalance''))"
    "jprop selection ''selectedCount'' = JNum (int (length ?sel))" "jprop selection ''eligibleCount'' = jprop snap ''holderCount''"
    by (simp_all add: s selectionContent_def jprop_JObj)
  ultimately show ?thesis using p le t sup by (simp add: e selectionEntries_def n snapshotHolders_eq [OF es])
qed

subsection \<open>A concrete selection\<close>

definition ex_supply :: jsval where
  "ex_supply = JObj [(''chainId'', JStr ''1''), (''assetId'', JStr addr_c), (''decimals'', JNum 18), (''amountAtomic'', JStr ''9'')]"

definition ex_reward :: jsval where
  "ex_reward = JObj [(''schema'', JStr REWARD_SELECTION_SNAPSHOT_SCHEMA), (''cycleId'', JStr ''cycle-1''),
     (''configurationRevision'', JNum 3), (''rewardRecipientLimit'', JNum 100), (''digest'', JStr ex_digest)]"

lemma ex_reward_ok: "assertRewardSelectionSnapshot sha_z ex_reward JUndefined = Inr ex_reward"
  using payload_content [of "''cycle-1''" 3 100 "JStr REWARD_SELECTION_SNAPSHOT_SCHEMA" "[(''digest'', JStr ex_digest)]"]
  by (simp add: assertRewardSelectionSnapshot_def ex_reward_def exact_def isPlainObject_def exactKeys_def ownKeys_def hasOwn_def
      INPUT_FIELDS_def isBlank_def is_space_def safeInt_def MAX_SAFE_INTEGER_def REWARD_RECIPIENT_LIMIT_OPTIONS_def
      jprop_JObj rewardSelectionDigest_def sha_z_def ex_digest_def)

lemma ex_bounded: "assertBoundedCanonicalValue (jsval_of_snapshot (ex_snapshot ex_digest)) label snapshot_limits = Inr ()"
proof -
  have l: "length addr_a = 42" "length addr_b = 42" "length addr_c = 42" "length hash_z = 66" "length ex_digest = 71"
    by (simp_all add: addr_a_def addr_b_def addr_c_def hash_z_def ex_digest_def)
  have x: "\<not> list_all is_digit addr_a" "\<not> list_all is_digit addr_b" "\<not> list_all is_digit addr_c" "\<not> list_all is_digit hash_z" "\<not> list_all is_digit ex_digest"
    by (simp_all add: addr_a_def addr_b_def addr_c_def hash_z_def ex_digest_def is_digit_def)
  show ?thesis
    by (simp add: assertBoundedCanonicalValue_def jsval_of_snapshot_def snapshotContentProps_def ex_snapshot_def visit.simps
        addEncodedBytes_def visitString_def snapshot_limits_def stringChars_def propertyKeyBytes_def canonicalDepth_def
        canonicalObjectFields_def decimalDigits_def hexChars_def jsval_of_excluded_def jsval_of_balance_def Let_def l x
        HOLDER_SNAPSHOT_SCHEMA_def is_digit_def dec_of_nat.simps)
qed

lemma ex_snapshot_ok: "assertHolderSnapshot sha_z (jsval_of_snapshot (ex_snapshot ex_digest)) = Inr (jsval_of_snapshot (ex_snapshot ex_digest))"
proof -
  have "digest_pattern ex_digest" by (simp add: ex_digest_def digest_pattern_def list_all_iff is_lower_hex_def)
  moreover obtain d where d: "snapshotContentDigest sha_z (snapshotContentProps (ex_snapshot ex_digest)) = Inr d"
    using snapshotContentDigest_ok by blast
  moreover have "d = ex_digest" using d unfolding snapshotContentDigest_def by (rule ex_digest_eq)
  ultimately show ?thesis
    by (simp add: assertHolderSnapshot_Inr_iff assertHolderSnapshotHead_def assertDecimalString_def assertAddress_def isInteger_def
        ex_snapshot_def DIRECT_BALANCES_LIMIT_def MAX_SAFE_INTEGER_def is_decimal_def is_pos_decimal_def is_digit_def
        balanceTotal_def nat_of_dec_def)
qed

lemma ex_selection: "\<exists>entries selection. selectEligibilityRecipients sha_z (jsval_of_snapshot (ex_snapshot ex_digest)) ex_supply ex_reward
    = Inr (entries, selection)"
proof -
  let ?s = "jsval_of_snapshot (ex_snapshot ex_digest)"
  have "assertTypedHkmnAmount ex_supply ''reward selection supply'' (jprop ?s ''chainId'') (jprop ?s ''tokenAddress'') (jprop ex_supply ''decimals'')
     = Inr \<lparr>ta_chainId = ''1'', ta_assetId = addr_c, ta_decimals = 18, ta_amountAtomic = ''9''\<rparr>"
    by (simp add: assertTypedHkmnAmount_def ex_supply_def ex_snapshot_def TYPED_AMOUNT_FIELDS_def assertTokenDecimals_def isInteger_def snapshot_eval)
  moreover have "isOk (snapshotDigest sha_z (JObj [(''domain'', JStr ''hookemon.reward-selection-evidence.v1''),
      (''selection'', JObj (selectionContent ?s ex_supply ex_reward sel)), (''entries'', selectionEntries ex_supply sel)]))" for sel
    by (rule snapshotDigest_ok) (simp add: selectionContent_def selectionEntries_def ex_supply_def ex_reward_def withAmount_def
        list_all_iff jsval_of_snapshot_def snapshotContentProps_def jsval_of_excluded_def jsval_of_balance_def jprop_JObj)
  ultimately show ?thesis
    by (simp add: selectEligibilityRecipients_def ex_bounded ex_snapshot_ok ex_reward_ok Let_def isOk_iff bindE_Inr_iff)
      (simp add: ex_supply_def ex_snapshot_def jprop_JObj nat_of_dec_def digit_val_def)
qed

theorem selection_takes_largest_holders_witness:
  "\<exists>entries selection limit sel. selectEligibilityRecipients sha_z (jsval_of_snapshot (ex_snapshot ex_digest)) ex_supply ex_reward
      = Inr (entries, selection)
    \<and> entries = selectionEntries ex_supply sel \<and> length sel = min (nat limit) 1 \<and> 100 \<le> limit"
proof -
  obtain entries selection where run: "selectEligibilityRecipients sha_z (jsval_of_snapshot (ex_snapshot ex_digest)) ex_supply ex_reward
      = Inr (entries, selection)"
    using ex_selection by blast
  have "length (snapshotHolders (jsval_of_snapshot (ex_snapshot ex_digest))) = 1" by (simp add: snapshotHolders_def ex_snapshot_def)
  with selection_takes_largest_holders [OF run] run show ?thesis by metis
qed

theorem selection_totals_partition_supply_witness:
  "\<exists>entries selection. selectEligibilityRecipients sha_z (jsval_of_snapshot (ex_snapshot ex_digest)) ex_supply ex_reward
      = Inr (entries, selection)
    \<and> jprop selection ''eligibleCount'' = JNum 1"
proof -
  obtain entries selection where run: "selectEligibilityRecipients sha_z (jsval_of_snapshot (ex_snapshot ex_digest)) ex_supply ex_reward
      = Inr (entries, selection)"
    using ex_selection by blast
  have "length (snapshotHolders (jsval_of_snapshot (ex_snapshot ex_digest))) = 1" by (simp add: snapshotHolders_def ex_snapshot_def)
  with selection_totals_partition_supply [OF run] run show ?thesis by (metis of_nat_1)
qed

end
