(* ===== verification/Floor_Shares.thy ===== *)
theory Floor_Shares
  imports Hk_Prelude
begin

text \<open>
  The contract of a floor-and-carry split: a pool is divided among weights so that every weight gets
  the integral part of its exact proportional share of the supply.  Two modules split this way
  (\<^verbatim>\<open>distribution/pro-rata.mjs\<close> and \<^verbatim>\<open>distribution/payout-plan.mjs\<close>); both interpret this locale on their
  own share function and take conservation, fairness and the dust bound from it.
\<close>

locale floor_shares =
  fixes pool :: nat and whole :: nat and share :: "nat \<Rightarrow> nat"
  assumes whole_pos: "0 < whole"
    and share_floor: "share w * whole \<le> w * pool"
    and share_tight: "w * pool < (share w + 1) * whole"
begin

lemma share_mono: "v \<le> w \<Longrightarrow> share v \<le> share w"
proof -
  assume "v \<le> w"
  then have "v * pool \<le> w * pool" by simp
  with share_floor [of v] share_tight [of w] have "share v * whole < (share w + 1) * whole" by linarith
  from mult_less_cancel2 [THEN iffD1, OF this] show ?thesis by simp
qed

lemma share_zero: "share 0 = 0"
  using share_floor [of 0] whole_pos by simp

lemma sum_floor: "sum_list (map share ws) * whole \<le> sum_list ws * pool"
proof (induction ws)
  case Nil
  then show ?case by simp
next
  case (Cons w ws)
  then show ?case using share_floor [of w] by (simp add: algebra_simps)
qed

lemma sum_tight: "sum_list ws * pool + length ws \<le> (sum_list (map share ws) + length ws) * whole"
proof (induction ws)
  case Nil
  then show ?case by simp
next
  case (Cons w ws)
  then show ?case using share_tight [of w] by (simp add: algebra_simps)
qed

text \<open>The shares of weights within the supply never exceed the pool.\<close>

lemma shares_within_pool:
  assumes "sum_list ws \<le> whole"
  shows "sum_list (map share ws) \<le> pool"
proof -
  have "sum_list (map share ws) * whole \<le> whole * pool"
    using sum_floor [of ws] mult_right_mono [OF assms, of pool] by linarith
  then show ?thesis using whole_pos by (simp add: mult.commute)
qed

text \<open>When the weights make up the whole supply, less than one unit per weight is left over.\<close>

lemma dust_below_length:
  assumes "sum_list ws = whole"
  shows "pool - sum_list (map share ws) < length ws"
proof -
  have ne: "0 < length ws" using assms whole_pos by (cases ws) auto
  have "pool * whole < (sum_list (map share ws) + length ws) * whole"
    using sum_tight [of ws] ne by (simp only: assms mult.commute [of whole pool])
  then have "pool < sum_list (map share ws) + length ws" using mult_less_cancel2 by blast
  then show ?thesis using ne by linarith
qed

text \<open>The law determines the share.\<close>

lemma share_unique:
  assumes "s * whole \<le> w * pool" and "w * pool < (s + 1) * whole"
  shows "share w = s"
proof -
  have "share w * whole < (s + 1) * whole" "s * whole < (share w + 1) * whole"
    using assms share_floor [of w] share_tight [of w] by linarith+
  from this [THEN mult_less_cancel2 [THEN iffD1]] show ?thesis by simp
qed

end

text \<open>Integer division obeys the contract.\<close>

lemma floor_division:
  fixes pool whole w :: nat
  assumes "0 < whole"
  shows "w * pool div whole * whole \<le> w * pool" "w * pool < (w * pool div whole + 1) * whole"
proof -
  have "w * pool mod whole < whole" using assms by simp
  moreover have "w * pool = w * pool div whole * whole + w * pool mod whole" by simp
  ultimately show "w * pool div whole * whole \<le> w * pool" "w * pool < (w * pool div whole + 1) * whole"
    unfolding add_mult_distrib by linarith+
qed

end
