(* ===== verification/Pro_Rata.thy ===== *)
theory Pro_Rata
  imports Snapshot_Indexer Floor_Shares
begin

text \<open>
  The pro-rata manifest compiler, \<^verbatim>\<open>packages/runner/src/distribution/pro-rata.mjs\<close>: the frozen eligibility
  payout manifest, the floor-and-carry distribution of a pool over holder balances, its split into
  chunks, and the projection of a chunk into the reconciliation input.
\<close>

section \<open>Validators\<close>

definition assertDecimalString :: "jsval \<Rightarrow> string \<Rightarrow> bool \<Rightarrow> string res" where
  "assertDecimalString v label positive =
     (if \<not> str_matches (if positive then is_pos_decimal else is_decimal) v
      then Inl (JsError (if positive then label @ '' must be positive'' else label @ '' must be a canonical decimal string''))
      else Inr (str_of v))"

definition assertRecipient :: "jsval \<Rightarrow> string \<Rightarrow> string res" where
  "assertRecipient v label =
     (if \<not> str_matches (hex_pattern 40) v \<or> str_of v = ZERO_ADDRESS
      then Inl (JsError (label @ '' must be a canonical nonzero EVM address'')) else Inr (str_of v))"

definition assertExactObject :: "jsval \<Rightarrow> string list \<Rightarrow> string \<Rightarrow> jsval res" where
  "assertExactObject v fieldNames label =
     (if \<not> isPlainObject v then Inl (JsError (label @ '' must be a plain object''))
      else if \<not> exactKeys v fieldNames then Inl (JsError (label @ '' must use the exact schema''))
      else Inr v)"

definition nonEmptyString :: "jsval \<Rightarrow> bool" where
  "nonEmptyString v = str_matches (\<lambda>s. s \<noteq> []) v"

definition assertTypedAmount :: "jsval \<Rightarrow> string \<Rightarrow> typed_amount res" where
  "assertTypedAmount v label =
     bindE (assertExactObject v TYPED_AMOUNT_FIELDS label) (\<lambda>amount.
     bindE (assertDecimalString (jprop amount ''chainId'') (label @ '' chainId'') True) (\<lambda>c.
     if \<not> nonEmptyString (jprop amount ''assetId'') then Inl (JsError (label @ '' assetId is invalid''))
     else if \<not> isInteger (jprop amount ''decimals'') \<or> num_of (jprop amount ''decimals'') < 0 \<or> num_of (jprop amount ''decimals'') > 255
     then Inl (JsError (label @ '' decimals is invalid''))
     else
     bindE (assertDecimalString (jprop amount ''amountAtomic'') (label @ '' amountAtomic'') False) (\<lambda>n.
       Inr \<lparr>ta_chainId = c, ta_assetId = str_of (jprop amount ''assetId''), ta_decimals = num_of (jprop amount ''decimals''),
            ta_amountAtomic = n\<rparr>)))"

definition LOG_SOURCE_FIELDS :: "string list" where
  "LOG_SOURCE_FIELDS = [''sourceId'', ''transferLogDigest'', ''logCount'']"

definition assertLogSource :: "jsval \<Rightarrow> string \<Rightarrow> jsval res" where
  "assertLogSource v label =
     bindE (assertExactObject v LOG_SOURCE_FIELDS label) (\<lambda>source.
     if \<not> nonEmptyString (jprop source ''sourceId'') then Inl (JsError (label @ '' sourceId is invalid''))
     else if \<not> str_matches digest_pattern (jprop source ''transferLogDigest'')
     then Inl (JsError (label @ '' transferLogDigest is invalid''))
     else if \<not> isInteger (jprop source ''logCount'') \<or> num_of (jprop source ''logCount'') < 0
     then Inl (JsError (label @ '' logCount is invalid''))
     else Inr source)"

section \<open>The eligibility payout manifest\<close>

definition assertEligibilityEntry :: "typed_amount \<Rightarrow> nat \<Rightarrow> jsval \<Rightarrow> string option \<times> (string \<times> typed_amount) list
  \<Rightarrow> (string option \<times> (string \<times> typed_amount) list) res" where
  "assertEligibilityEntry supplyAmount index rawEntry st =
     (let label = ''eligibility manifest entry '' @ dec_of_nat index in
      bindE (assertExactObject rawEntry [''recipient'', ''hkmnBalance''] label) (\<lambda>entry.
      bindE (assertRecipient (jprop entry ''recipient'') (label @ '' recipient'')) (\<lambda>recipient.
      bindE (assertTypedAmount (jprop entry ''hkmnBalance'') (label @ '' hkmnBalance'')) (\<lambda>hkmnBalance.
      if ta_chainId hkmnBalance \<noteq> ta_chainId supplyAmount \<or> ta_assetId hkmnBalance \<noteq> ta_assetId supplyAmount
         \<or> ta_decimals hkmnBalance \<noteq> ta_decimals supplyAmount \<or> ta_amountAtomic hkmnBalance = ''0''
      then Inl (JsError (label @ '' balance does not match supply''))
      else if fst st \<noteq> None \<and> recipient \<le> the (fst st)
      then Inl (JsError ''eligibility manifest entries must be address-sorted and unique'')
      else Inr (Some recipient, snd st @ [(recipient, hkmnBalance)])))))"

definition assertEligibilityEntries :: "jsval \<Rightarrow> typed_amount \<Rightarrow> (string \<times> typed_amount) list res" where
  "assertEligibilityEntries v supplyAmount =
     (if \<not> isArray v then Inl (JsError ''eligibility manifest entries must be an array'')
      else bindE (foldE (assertEligibilityEntry supplyAmount) 0 (arr_of v) (None, [])) (\<lambda>st. Inr (snd st)))"

definition assertExclusion :: "nat \<Rightarrow> jsval \<Rightarrow> string option \<times> (string \<times> string) list
  \<Rightarrow> (string option \<times> (string \<times> string) list) res" where
  "assertExclusion index rawExclusion st =
     (let label = ''eligibility manifest exclusion '' @ dec_of_nat index in
      bindE (assertExactObject rawExclusion [''address'', ''reason''] label) (\<lambda>exclusion.
      if \<not> str_matches (hex_pattern 40) (jprop exclusion ''address'') then Inl (JsError (label @ '' address is invalid''))
      else if \<not> nonEmptyString (jprop exclusion ''reason'') then Inl (JsError (label @ '' reason is invalid''))
      else if fst st \<noteq> None \<and> str_of (jprop exclusion ''address'') \<le> the (fst st)
      then Inl (JsError ''eligibility manifest exclusions must be address-sorted and unique'')
      else Inr (Some (str_of (jprop exclusion ''address'')),
        snd st @ [(str_of (jprop exclusion ''address''), str_of (jprop exclusion ''reason''))])))"

definition assertExclusions :: "jsval \<Rightarrow> (string \<times> string) list res" where
  "assertExclusions v =
     (if \<not> isArray v then Inl (JsError ''eligibility manifest exclusions must be an array'')
      else bindE (foldE assertExclusion 0 (arr_of v) (None, [])) (\<lambda>st. Inr (snd st)))"

definition FEASIBILITY_FIELDS :: "string list" where
  "FEASIBILITY_FIELDS = [''recipientCount'', ''transactionCount'', ''maxRecipientCount'', ''maxTransactionCount'',
     ''measuredTransferGas'', ''maxGasPriceWei'', ''estimatedNativeFee'', ''nativeReserve'',
     ''nativeBalance'', ''requiredNativeAmount'', ''feasible'', ''reason'']"

definition assertFeasibilityCount :: "jsval \<Rightarrow> nat \<Rightarrow> string \<Rightarrow> unit res" where
  "assertFeasibilityCount feasibility i f =
     (if \<not> isInteger (jprop feasibility f) \<or> num_of (jprop feasibility f) < 0
      then Inl (JsError (''eligibility manifest feasibility '' @ f @ '' is invalid'')) else Inr ())"

definition assertNativeFeasibility :: "typed_amount \<Rightarrow> nat \<Rightarrow> string \<times> typed_amount \<Rightarrow> unit res" where
  "assertNativeFeasibility supplyAmount i fa =
     (if ta_chainId (snd fa) \<noteq> ta_chainId supplyAmount \<or> ta_assetId (snd fa) \<noteq> ''native'' \<or> ta_decimals (snd fa) \<noteq> 18
      then Inl (JsError (''eligibility manifest feasibility '' @ fst fa @ '' is not a native amount for the snapshot chain''))
      else Inr ())"

definition NATIVE_FIELDS :: "string list" where
  "NATIVE_FIELDS = [''estimatedNativeFee'', ''nativeReserve'', ''nativeBalance'', ''requiredNativeAmount'']"

definition assertFeasibility :: "jsval \<Rightarrow> typed_amount \<Rightarrow> nat \<Rightarrow> jsval res" where
  "assertFeasibility v supplyAmount entryCount =
     bindE (assertExactObject v FEASIBILITY_FIELDS ''eligibility manifest feasibility'') (\<lambda>feasibility.
     bindE (mapE (assertFeasibilityCount feasibility) 0 [''recipientCount'', ''transactionCount'', ''maxRecipientCount'', ''maxTransactionCount'']) (\<lambda>_.
     if num_of (jprop feasibility ''recipientCount'') \<noteq> int entryCount \<or> num_of (jprop feasibility ''transactionCount'') \<noteq> int entryCount
     then Inl (JsError ''eligibility manifest feasibility counts do not match entries'')
     else
     bindE (assertDecimalString (jprop feasibility ''measuredTransferGas'') ''eligibility manifest feasibility measuredTransferGas'' True) (\<lambda>_.
     bindE (assertDecimalString (jprop feasibility ''maxGasPriceWei'') ''eligibility manifest feasibility maxGasPriceWei'' True) (\<lambda>_.
     bindE (mapE (\<lambda>i f. bindE (assertTypedAmount (jprop feasibility f) (''eligibility manifest feasibility '' @ f)) (\<lambda>a. Inr (f, a))) 0 NATIVE_FIELDS) (\<lambda>nativeAmounts.
     bindE (mapE (assertNativeFeasibility supplyAmount) 0 nativeAmounts) (\<lambda>_.
     if jprop feasibility ''feasible'' \<noteq> JBool True \<and> jprop feasibility ''feasible'' \<noteq> JBool False
     then Inl (JsError ''eligibility manifest feasibility feasible is invalid'')
     else if jprop feasibility ''reason'' \<noteq> JNull \<and> \<not> nonEmptyString (jprop feasibility ''reason'')
     then Inl (JsError ''eligibility manifest feasibility reason is invalid'')
     else Inr feasibility))))))"

definition assertLogCompleteness :: "jsval \<Rightarrow> jsval res" where
  "assertLogCompleteness v =
     bindE (assertExactObject v [''mode'', ''primary'', ''secondary''] ''eligibility manifest logCompleteness'') (\<lambda>lc.
     if jprop lc ''mode'' \<noteq> JStr ''dual-source'' \<and> jprop lc ''mode'' \<noteq> JStr ''single-source-explicitly-allowed''
     then Inl (JsError ''eligibility manifest logCompleteness mode is invalid'')
     else
     bindE (assertLogSource (jprop lc ''primary'') ''eligibility manifest primary log source'') (\<lambda>primary.
     bindE (if jprop lc ''secondary'' = JNull then Inr JNull
            else assertLogSource (jprop lc ''secondary'') ''eligibility manifest secondary log source'') (\<lambda>secondary.
     if (jprop lc ''mode'' = JStr ''dual-source'') \<noteq> (secondary \<noteq> JNull)
     then Inl (JsError ''eligibility manifest logCompleteness source mode is inconsistent'')
     else if secondary \<noteq> JNull \<and> (jprop secondary ''sourceId'' = jprop primary ''sourceId''
             \<or> jprop secondary ''transferLogDigest'' \<noteq> jprop primary ''transferLogDigest'')
     then Inl (JsError ''eligibility manifest dual-source evidence must use distinct matching sources'')
     else Inr (JObj [(''mode'', jprop lc ''mode''), (''primary'', primary), (''secondary'', secondary)]))))"

definition ELIGIBILITY_MANIFEST_INPUT_FIELDS :: "string list" where
  "ELIGIBILITY_MANIFEST_INPUT_FIELDS = [''cycleId'', ''snapshotBlock'', ''snapshotHash'', ''finality'', ''supply'', ''entries'',
     ''exclusions'', ''feasibility'', ''logCompleteness'', ''holderSnapshotDigest'', ''launchManifestDigest'']"

definition jsval_of_entry :: "string \<times> typed_amount \<Rightarrow> jsval" where
  "jsval_of_entry e = JObj [(''recipient'', JStr (fst e)), (''hkmnBalance'', jsval_of_amount (snd e))]"

definition copyProps :: "jsval \<Rightarrow> string list \<Rightarrow> jsval" where
  "copyProps v fs = JObj (map (\<lambda>f. (f, jprop v f)) fs)"

definition manifestProps :: "jsval \<Rightarrow> typed_amount \<Rightarrow> (string \<times> typed_amount) list \<Rightarrow> (string \<times> string) list \<Rightarrow> jsval \<Rightarrow> jsval
  \<Rightarrow> (string \<times> jsval) list" where
  "manifestProps input supplyAmount entries exclusions feasibility logCompleteness =
     [(''cycleId'', jprop input ''cycleId''), (''snapshotBlock'', jprop input ''snapshotBlock''),
      (''snapshotHash'', jprop input ''snapshotHash''),
      (''finality'', copyProps (jprop input ''finality'') [''policyId'', ''depth'']),
      (''supply'', jsval_of_amount supplyAmount), (''entries'', JArr (map jsval_of_entry entries)),
      (''exclusions'', JArr (map jsval_of_excluded exclusions)), (''feasibility'', copyProps feasibility FEASIBILITY_FIELDS),
      (''logCompleteness'', logCompleteness), (''holderSnapshotDigest'', jprop input ''holderSnapshotDigest''),
      (''launchManifestDigest'', jprop input ''launchManifestDigest'')]"

definition createEligibilityPayoutManifest :: "(string \<Rightarrow> string) \<Rightarrow> jsval \<Rightarrow> jsval res" where
  "createEligibilityPayoutManifest sha inputValue =
     (let selected = hasOwn inputValue ''selection'' in
      bindE (assertExactObject inputValue (ELIGIBILITY_MANIFEST_INPUT_FIELDS @ (if selected then [''selection''] else []))
        ''eligibility manifest input'') (\<lambda>input.
      if \<not> nonEmptyString (jprop input ''cycleId'') then Inl (JsError ''eligibility manifest cycleId is invalid'')
      else
      bindE (assertDecimalString (jprop input ''snapshotBlock'') ''eligibility manifest snapshotBlock'' False) (\<lambda>_.
      if \<not> str_matches (hex_pattern 64) (jprop input ''snapshotHash'') then Inl (JsError ''eligibility manifest snapshotHash is invalid'')
      else
      bindE (assertExactObject (jprop input ''finality'') [''policyId'', ''depth''] ''eligibility manifest finality'') (\<lambda>finality.
      if \<not> nonEmptyString (jprop finality ''policyId'') then Inl (JsError ''eligibility manifest finality policyId is invalid'')
      else
      bindE (assertDecimalString (jprop finality ''depth'') ''eligibility manifest finality depth'' True) (\<lambda>_.
      bindE (assertTypedAmount (jprop input ''supply'') ''eligibility manifest supply'') (\<lambda>supplyAmount.
      bindE (assertEligibilityEntries (jprop input ''entries'') supplyAmount) (\<lambda>entries.
      bindE (assertExclusions (jprop input ''exclusions'')) (\<lambda>exclusions.
      bindE (assertFeasibility (jprop input ''feasibility'') supplyAmount (length entries)) (\<lambda>feasibility.
      bindE (assertLogCompleteness (jprop input ''logCompleteness'')) (\<lambda>logCompleteness.
      if \<not> str_matches digest_pattern (jprop input ''holderSnapshotDigest'')
      then Inl (JsError ''eligibility manifest holderSnapshotDigest is invalid'')
      else if \<not> str_matches digest_pattern (jprop input ''launchManifestDigest'')
      then Inl (JsError ''eligibility manifest launchManifestDigest is invalid'')
      else if selected
      then bindE (assertEligibilitySelection sha (jprop input ''selection'') input) (\<lambda>selection.
        Inr (JObj ([(''schema'', JStr ''hookemon.eligibility-payout-manifest.v2''), (''selection'', selection)]
          @ manifestProps input supplyAmount entries exclusions feasibility logCompleteness)))
      else Inr (JObj ([(''schema'', JStr ''hookemon.eligibility-payout-manifest.v1'')]
          @ manifestProps input supplyAmount entries exclusions feasibility logCompleteness))))))))))))"

section \<open>The floor-and-carry distribution\<close>

definition isObjectLike :: "jsval \<Rightarrow> bool" where
  "isObjectLike v = (case v of JObj ps \<Rightarrow> True | JInst ps \<Rightarrow> True | _ \<Rightarrow> False)"

definition assertDirectBalance :: "string \<Rightarrow> nat \<Rightarrow> jsval \<Rightarrow> (string \<times> string) list \<Rightarrow> (string \<times> string) list res" where
  "assertDirectBalance label position entry normalized =
     (let l = label @ '' entry '' @ dec_of_nat position in
      if \<not> isObjectLike entry then Inl (JsError (l @ '' must be an object''))
      else if \<not> list_all (\<lambda>k. k \<in> {''recipient'', ''directHkmnBalance''}) (ownKeys entry)
      then Inl (JsError (l @ '' must use the exact schema''))
      else
      bindE (assertRecipient (jprop entry ''recipient'') (l @ '' recipient'')) (\<lambda>recipient.
      bindE (assertDecimalString (jprop entry ''directHkmnBalance'') (l @ '' balance'') True) (\<lambda>balance.
      if recipient \<in> set (map fst normalized) then Inl (JsError (label @ '' recipients must be unique''))
      else Inr (normalized @ [(recipient, balance)]))))"

definition assertDirectBalances :: "jsval \<Rightarrow> string \<Rightarrow> (string \<times> string) list res" where
  "assertDirectBalances v label =
     (if \<not> isArray v \<or> arr_of v = [] then Inl (JsError (label @ '' must be a nonempty array''))
      else foldE (assertDirectBalance label) 0 (arr_of v) [])"

record payable_entry =
  pe_index :: nat
  pe_recipient :: string
  pe_directHkmnBalance :: string
  pe_amountAtomicUSDG :: string

record pro_rata_distribution =
  pr_proceedsAmount :: string
  pr_previousDust :: string
  pr_distributablePool :: string
  pr_totalEligibleSupply :: string
  pr_holderCount :: nat
  pr_payableHolderCount :: nat
  pr_totalAmountAtomicUSDG :: string
  pr_dust :: string
  pr_entries :: "payable_entry list"

definition proRataShare :: "nat \<Rightarrow> nat \<Rightarrow> nat \<Rightarrow> nat" where
  "proRataShare pool totalEligibleSupply balance = balance * pool div totalEligibleSupply"

text \<open>The loop over the sorted holders: \<open>totalDistributed\<close> and \<open>entries\<close>, whose next index is its length.\<close>

fun distribute :: "nat \<Rightarrow> nat \<Rightarrow> (string \<times> string) list \<Rightarrow> nat \<times> payable_entry list \<Rightarrow> nat \<times> payable_entry list" where
  "distribute pool tot [] st = st"
| "distribute pool tot ((recipient, balance) # hs) (totalDistributed, entries) =
     (let amount = proRataShare pool tot (nat_of_dec balance) in
      if amount = 0 then distribute pool tot hs (totalDistributed, entries)
      else distribute pool tot hs (totalDistributed + amount,
        entries @ [\<lparr>pe_index = length entries, pe_recipient = recipient, pe_directHkmnBalance = balance,
          pe_amountAtomicUSDG = dec_of_nat amount\<rparr>]))"

definition chooseSupply :: "jsval \<Rightarrow> nat \<Rightarrow> nat res" where
  "chooseSupply totalEligibleSupply suppliedBalanceTotal =
     (if totalEligibleSupply = JUndefined then Inr suppliedBalanceTotal
      else bindE (assertDecimalString totalEligibleSupply ''pro-rata total eligible supply'' True) (\<lambda>t.
        if nat_of_dec t < suppliedBalanceTotal
        then Inl (JsError ''pro-rata total eligible supply must be at least the sum of the supplied direct balances'')
        else Inr (nat_of_dec t)))"

definition computeProRataDistribution :: "jsval \<Rightarrow> pro_rata_distribution res" where
  "computeProRataDistribution inputValue =
     (let input = if isObjectLike inputValue then inputValue else JObj [] in
      bindE (assertDirectBalances (jprop input ''directBalances'') ''pro-rata direct balances'') (\<lambda>directBalances.
      bindE (assertDecimalString (jprop input ''proceedsAmount'') ''pro-rata proceeds amount'' False) (\<lambda>proceeds.
      bindE (assertDecimalString (if jprop input ''previousDust'' = JUndefined then JStr ''0'' else jprop input ''previousDust'')
        ''pro-rata previous dust'' False) (\<lambda>previousDust.
      let holders = sort_key fst directBalances in
      bindE (chooseSupply (jprop input ''totalEligibleSupply'') (balanceTotal holders)) (\<lambda>totalEligibleSupply.
      let distributablePool = nat_of_dec proceeds + nat_of_dec previousDust;
          (totalDistributed, entries) = distribute distributablePool totalEligibleSupply holders (0, []);
          dust = int distributablePool - int totalDistributed
      in Inr \<lparr>pr_proceedsAmount = proceeds, pr_previousDust = previousDust,
        pr_distributablePool = dec_of_nat distributablePool, pr_totalEligibleSupply = dec_of_nat totalEligibleSupply,
        pr_holderCount = length holders, pr_payableHolderCount = length entries,
        pr_totalAmountAtomicUSDG = dec_of_nat totalDistributed, pr_dust = json_int dust, pr_entries = entries\<rparr>)))))"

definition computeProRataDistributionFromSnapshot :: "jsval \<Rightarrow> jsval \<Rightarrow> jsval \<Rightarrow> jsval \<Rightarrow> pro_rata_distribution res" where
  "computeProRataDistributionFromSnapshot holderSnapshot proceedsAmount previousDust totalEligibleSupply =
     (if falsy holderSnapshot \<or> \<not> typeofObject holderSnapshot \<or> \<not> isArray (jprop holderSnapshot ''directBalances'')
      then Inl (JsError ''pro-rata holder snapshot is required'')
      else computeProRataDistribution (JObj [(''directBalances'', jprop holderSnapshot ''directBalances''),
        (''proceedsAmount'', proceedsAmount), (''previousDust'', previousDust),
        (''totalEligibleSupply'', if totalEligibleSupply \<in> {JUndefined, JNull} then jprop holderSnapshot ''totalHolderBalance'' else totalEligibleSupply)]))"

section \<open>Chunks\<close>

definition CHUNK_ENTRY_LIMIT :: nat where "CHUNK_ENTRY_LIMIT = 1024"
definition MAX_CHUNKS_PER_DISTRIBUTION :: nat where "MAX_CHUNKS_PER_DISTRIBUTION = 64"

definition PAYABLE_ENTRY_FIELDS :: "string list" where
  "PAYABLE_ENTRY_FIELDS = [''index'', ''recipient'', ''directHkmnBalance'', ''amountAtomicUSDG'']"

type_synonym payable = "string \<times> string \<times> string"

definition assertPayableEntry :: "string \<Rightarrow> nat \<Rightarrow> jsval \<Rightarrow> payable list \<Rightarrow> payable list res" where
  "assertPayableEntry label position entry normalized =
     (let l = label @ '' entry '' @ dec_of_nat position in
      if \<not> isObjectLike entry then Inl (JsError (l @ '' must be an object''))
      else if \<not> exactKeys entry PAYABLE_ENTRY_FIELDS then Inl (JsError (l @ '' must use the exact schema''))
      else
      bindE (assertRecipient (jprop entry ''recipient'') (l @ '' recipient'')) (\<lambda>recipient.
      bindE (assertDecimalString (jprop entry ''directHkmnBalance'') (l @ '' balance'') True) (\<lambda>balance.
      bindE (assertDecimalString (jprop entry ''amountAtomicUSDG'') (l @ '' amount'') True) (\<lambda>amount.
      if recipient \<in> set (map fst normalized) then Inl (JsError (label @ '' recipients must be unique''))
      else Inr (normalized @ [(recipient, balance, amount)])))))"

definition assertPayableEntries :: "jsval \<Rightarrow> string \<Rightarrow> payable list res" where
  "assertPayableEntries v label =
     (if \<not> isArray v \<or> arr_of v = [] then Inl (JsError (label @ '' must be a nonempty array''))
      else foldE (assertPayableEntry label) 0 (arr_of v) [])"

record chunk =
  ch_chunkIndex :: nat
  ch_entryCount :: nat
  ch_rootSum :: string
  ch_entries :: "payable_entry list"

record chunking =
  ck_chunkEntryLimit :: nat
  ck_chunkCount :: nat
  ck_totalLiability :: string
  ck_chunks :: "chunk list"

definition payableTotal :: "payable list \<Rightarrow> nat" where
  "payableTotal ps = sum_list (map (\<lambda>p. nat_of_dec (snd (snd p))) ps)"

definition chunkEntry :: "nat \<Rightarrow> payable \<Rightarrow> payable_entry" where
  "chunkEntry localIndex p = \<lparr>pe_index = localIndex, pe_recipient = fst p, pe_directHkmnBalance = fst (snd p),
     pe_amountAtomicUSDG = snd (snd p)\<rparr>"

definition slice :: "nat \<Rightarrow> payable list \<Rightarrow> nat \<Rightarrow> payable list" where
  "slice limit es i = take limit (drop (i * limit) es)"

definition makeChunk :: "nat \<Rightarrow> payable list \<Rightarrow> nat \<Rightarrow> chunk" where
  "makeChunk limit es chunkIndex =
     \<lparr>ch_chunkIndex = chunkIndex, ch_entryCount = length (slice limit es chunkIndex),
      ch_rootSum = dec_of_nat (payableTotal (slice limit es chunkIndex)),
      ch_entries = map2 chunkEntry [0..<length (slice limit es chunkIndex)] (slice limit es chunkIndex)\<rparr>"

text \<open>\<open>Math.ceil(n / limit)\<close>.\<close>

definition ceilDiv :: "nat \<Rightarrow> nat \<Rightarrow> nat" where
  "ceilDiv n limit = (n + limit - 1) div limit"

definition chunkProRataEntries :: "jsval \<Rightarrow> jsval \<Rightarrow> chunking res" where
  "chunkProRataEntries entries chunkEntryLimit =
     (let limitValue = if chunkEntryLimit = JUndefined then JNum (int CHUNK_ENTRY_LIMIT) else chunkEntryLimit in
      if \<not> isInteger limitValue \<or> num_of limitValue < 1 \<or> num_of limitValue > int CHUNK_ENTRY_LIMIT
      then Inl (JsError ''pro-rata chunk entry limit is invalid'')
      else
      bindE (assertPayableEntries entries ''pro-rata chunk entries'') (\<lambda>normalized.
      let limit = nat (num_of limitValue); es = sort_key fst normalized; chunkCount = ceilDiv (length es) limit in
      if chunkCount > MAX_CHUNKS_PER_DISTRIBUTION
      then Inl (JsError (''pro-rata distribution requires '' @ dec_of_nat chunkCount @ '' chunks, exceeding MAX_CHUNKS_PER_PAYOUT (''
        @ dec_of_nat MAX_CHUNKS_PER_DISTRIBUTION @ '')''))
      else
        let chunks = map (makeChunk limit es) [0..<chunkCount] in
        Inr \<lparr>ck_chunkEntryLimit = limit, ck_chunkCount = chunkCount,
          ck_totalLiability = dec_of_nat (sum_list (map (\<lambda>c. nat_of_dec (ch_rootSum c)) chunks)), ck_chunks = chunks\<rparr>))"

definition jsval_of_payable :: "payable_entry \<Rightarrow> jsval" where
  "jsval_of_payable e = JObj [(''index'', JNum (int (pe_index e))), (''recipient'', JStr (pe_recipient e)),
     (''directHkmnBalance'', JStr (pe_directHkmnBalance e)), (''amountAtomicUSDG'', JStr (pe_amountAtomicUSDG e))]"

definition toHolderCandidateInput :: "jsval \<Rightarrow> jsval \<Rightarrow> jsval \<Rightarrow> jsval res" where
  "toHolderCandidateInput closedProceedsBasis holderSnapshot chunkValue =
     (if falsy chunkValue \<or> \<not> isArray (jprop chunkValue ''entries'') \<or> arr_of (jprop chunkValue ''entries'') = []
      then Inl (JsError ''pro-rata candidate input requires a nonempty chunk'')
      else
      bindE (toSnapshotCandidate holderSnapshot (JArr (map projectBalance (arr_of (jprop chunkValue ''entries''))))) (\<lambda>snapshot.
        Inr (JObj [(''closedProceedsBasis'', closedProceedsBasis), (''snapshot'', snapshot),
          (''entries'', JArr (map (\<lambda>e. copyProps e PAYABLE_ENTRY_FIELDS) (arr_of (jprop chunkValue ''entries''))))])))"

section \<open>Inversion of the validators\<close>

lemma proRataDecimal_Inr [res_simps]:
  "assertDecimalString v label p = Inr s \<longleftrightarrow> v = JStr s \<and> (if p then is_pos_decimal s else is_decimal s)"
  by (auto simp: assertDecimalString_def str_matches_iff)

lemma assertRecipient_Inr [res_simps]:
  "assertRecipient v label = Inr a \<longleftrightarrow> v = JStr a \<and> hex_pattern 40 a \<and> a \<noteq> ZERO_ADDRESS"
  by (auto simp: assertRecipient_def str_matches_iff)

definition validDirect :: "jsval \<Rightarrow> bool" where
  "validDirect e = (isObjectLike e \<and> list_all (\<lambda>k. k \<in> {''recipient'', ''directHkmnBalance''}) (ownKeys e)
     \<and> str_matches (\<lambda>a. hex_pattern 40 a \<and> a \<noteq> ZERO_ADDRESS) (jprop e ''recipient'')
     \<and> str_matches is_pos_decimal (jprop e ''directHkmnBalance''))"

definition validPayable :: "jsval \<Rightarrow> bool" where
  "validPayable e = (isObjectLike e \<and> exactKeys e PAYABLE_ENTRY_FIELDS
     \<and> str_matches (\<lambda>a. hex_pattern 40 a \<and> a \<noteq> ZERO_ADDRESS) (jprop e ''recipient'')
     \<and> str_matches is_pos_decimal (jprop e ''directHkmnBalance'') \<and> str_matches is_pos_decimal (jprop e ''amountAtomicUSDG''))"

definition payable_of :: "jsval \<Rightarrow> payable" where
  "payable_of e = (str_of (jprop e ''recipient''), str_of (jprop e ''directHkmnBalance''), str_of (jprop e ''amountAtomicUSDG''))"

lemma assertDirectBalance_Inr:
  "assertDirectBalance label i e acc = Inr r \<longleftrightarrow>
     validDirect e \<and> recipient_of e \<notin> set (map fst acc) \<and> r = acc @ [holder_of e]"
  unfolding assertDirectBalance_def Let_def res_simps if_True validDirect_def holder_of_def recipient_of_def
  by (auto simp: str_matches_iff simp del: set_map)

lemma assertPayableEntry_Inr:
  "assertPayableEntry label i e acc = Inr r \<longleftrightarrow>
     validPayable e \<and> recipient_of e \<notin> set (map fst acc) \<and> r = acc @ [payable_of e]"
  unfolding assertPayableEntry_def Let_def res_simps if_True validPayable_def payable_of_def recipient_of_def
  by (auto simp: str_matches_iff simp del: set_map)

lemma foldE_collect:
  assumes step: "\<And>i e acc r. f i e acc = Inr r \<longleftrightarrow> ok e \<and> fst (g e) \<notin> set (map fst acc) \<and> r = acc @ [g e]"
  shows "distinct (map fst acc) \<Longrightarrow> foldE f i xs acc = Inr r \<longleftrightarrow>
     list_all ok xs \<and> distinct (map fst (acc @ map g xs)) \<and> r = acc @ map g xs"
proof (induction xs arbitrary: i acc)
  case Nil
  then show ?case by auto
next
  case (Cons x xs)
  have "foldE f i (x # xs) acc = Inr r \<longleftrightarrow> ok x \<and> fst (g x) \<notin> set (map fst acc) \<and> foldE f (Suc i) xs (acc @ [g x]) = Inr r"
    by (simp add: bindE_Inr_iff step)
  also have "\<dots> \<longleftrightarrow> list_all ok (x # xs) \<and> distinct (map fst (acc @ map g (x # xs))) \<and> r = acc @ map g (x # xs)"
    using Cons.IH [of "acc @ [g x]" "Suc i"] Cons.prems by auto
  finally show ?case .
qed

lemma fst_payable_of [simp]: "fst (payable_of e) = recipient_of e"
  by (simp add: payable_of_def recipient_of_def)

lemmas collectDirect = foldE_collect [of "assertDirectBalance label" validDirect holder_of "[]" for label,
  unfolded fst_holder_of, OF assertDirectBalance_Inr, simplified, unfolded comp_def fst_holder_of]
lemmas collectPayable = foldE_collect [of "assertPayableEntry label" validPayable payable_of "[]" for label,
  unfolded fst_payable_of, OF assertPayableEntry_Inr, simplified, unfolded comp_def fst_payable_of]

lemma assertDirectBalances_Inr_iff:
  "assertDirectBalances v label = Inr r \<longleftrightarrow>
     (\<exists>xs. v = JArr xs \<and> xs \<noteq> [] \<and> list_all validDirect xs \<and> distinct (map recipient_of xs) \<and> r = map holder_of xs)"
  by (auto simp: assertDirectBalances_def isArray_iff collectDirect)

lemma assertPayableEntries_Inr_iff:
  "assertPayableEntries v label = Inr r \<longleftrightarrow>
     (\<exists>xs. v = JArr xs \<and> xs \<noteq> [] \<and> list_all validPayable xs \<and> distinct (map recipient_of xs) \<and> r = map payable_of xs)"
  by (auto simp: assertPayableEntries_def isArray_iff collectPayable)

lemma validDirect_pos: "validDirect e \<Longrightarrow> 0 < nat_of_dec (snd (holder_of e))"
  by (auto simp: validDirect_def holder_of_def str_matches_iff is_pos_decimal_iff)

lemma balanceTotal_pos: "xs \<noteq> [] \<Longrightarrow> list_all validDirect xs \<Longrightarrow> 0 < balanceTotal (map holder_of xs)"
  by (cases xs) (simp_all add: balanceTotal_def validDirect_pos add_pos_nonneg)

section \<open>The distribution loop\<close>

interpretation pro_rata: floor_shares pool "Suc k" "proRataShare pool (Suc k)" for pool k
  by unfold_locales (simp_all only: proRataShare_def floor_division zero_less_Suc)

definition holderShare :: "nat \<Rightarrow> nat \<Rightarrow> string \<times> string \<Rightarrow> nat" where
  "holderShare pool tot h = proRataShare pool tot (nat_of_dec (snd h))"

definition payHolder :: "nat \<Rightarrow> nat \<Rightarrow> nat \<Rightarrow> string \<times> string \<Rightarrow> payable_entry" where
  "payHolder pool tot i h = \<lparr>pe_index = i, pe_recipient = fst h, pe_directHkmnBalance = snd h,
     pe_amountAtomicUSDG = dec_of_nat (holderShare pool tot h)\<rparr>"

definition paidHolders :: "nat \<Rightarrow> nat \<Rightarrow> (string \<times> string) list \<Rightarrow> (string \<times> string) list" where
  "paidHolders pool tot hs = filter (\<lambda>h. holderShare pool tot h \<noteq> 0) hs"

lemma distribute_spec:
  "distribute pool tot hs (t, es) = (t + sum_list (map (holderShare pool tot) hs),
     es @ map2 (payHolder pool tot) [length es..<length es + length (paidHolders pool tot hs)] (paidHolders pool tot hs))"
proof (induction hs arbitrary: t es)
  case Nil
  then show ?case by (simp add: paidHolders_def)
next
  case (Cons h hs)
  obtain a b where h: "h = (a, b)" by (cases h)
  show ?case
  proof (cases "holderShare pool tot h = 0")
    case True
    with Cons show ?thesis by (simp add: h holderShare_def paidHolders_def)
  next
    case False
    let ?n = "length (paidHolders pool tot hs)"
    have "length (paidHolders pool tot (h # hs)) = Suc ?n" using False by (simp add: paidHolders_def)
    then have "[length es..<length es + length (paidHolders pool tot (h # hs))] = length es # [Suc (length es)..<Suc (length es) + ?n]"
      by (simp add: upt_conv_Cons del: upt_Suc)
    moreover have "paidHolders pool tot (h # hs) = h # paidHolders pool tot hs" using False by (simp add: paidHolders_def)
    ultimately show ?thesis using False Cons.IH
      by (simp add: h holderShare_def payHolder_def Let_def)
  qed
qed

lemma sum_paid: "sum_list (map (holderShare pool tot) (paidHolders pool tot hs)) = sum_list (map (holderShare pool tot) hs)"
  by (induction hs) (simp_all add: paidHolders_def)

lemma chooseSupply_Inr:
  "chooseSupply v n = Inr t \<Longrightarrow> n \<le> t \<and> (v = JUndefined \<longrightarrow> t = n)"
  by (auto simp: chooseSupply_def res_simps split: if_splits)

text \<open>A successful computation, inverted; \<open>holders\<close> is the validated, address-sorted holder list.\<close>

definition holdersOf :: "jsval \<Rightarrow> (string \<times> string) list" where
  "holdersOf input = sort_key fst (map holder_of (arr_of (jprop input ''directBalances'')))"

definition distributionOf :: "string \<Rightarrow> string \<Rightarrow> nat \<Rightarrow> (string \<times> string) list \<Rightarrow> pro_rata_distribution" where
  "distributionOf proceeds previousDust tot holders =
     (let pool = nat_of_dec proceeds + nat_of_dec previousDust; paid = paidHolders pool tot holders;
          distributed = sum_list (map (holderShare pool tot) holders) in
      \<lparr>pr_proceedsAmount = proceeds, pr_previousDust = previousDust, pr_distributablePool = dec_of_nat pool,
       pr_totalEligibleSupply = dec_of_nat tot, pr_holderCount = length holders, pr_payableHolderCount = length paid,
       pr_totalAmountAtomicUSDG = dec_of_nat distributed, pr_dust = dec_of_nat (pool - distributed),
       pr_entries = map2 (payHolder pool tot) [0..<length paid] paid\<rparr>)"

lemma shares_le_pool:
  assumes "0 < tot" and "balanceTotal holders \<le> tot"
  shows "sum_list (map (holderShare pool tot) holders) \<le> pool"
proof -
  obtain k where k: "tot = Suc k" using assms(1) by (cases tot) auto
  from pro_rata.shares_within_pool [of "map (\<lambda>h. nat_of_dec (snd h)) holders" k pool] assms(2) show ?thesis
    by (simp add: balanceTotal_def k comp_def holderShare_def [abs_def])
qed

lemma computeProRata_Inr:
  assumes "computeProRataDistribution input = Inr d"
  obtains tot where "isArray (jprop input ''directBalances'')" "arr_of (jprop input ''directBalances'') \<noteq> []"
    "list_all validDirect (arr_of (jprop input ''directBalances''))" "distinct (map fst (holdersOf input))"
    "is_decimal (pr_proceedsAmount d)" "is_decimal (pr_previousDust d)"
    "0 < tot" "balanceTotal (holdersOf input) \<le> tot"
    "jprop input ''totalEligibleSupply'' = JUndefined \<Longrightarrow> tot = balanceTotal (holdersOf input)"
    "d = distributionOf (pr_proceedsAmount d) (pr_previousDust d) tot (holdersOf input)"
proof -
  let ?in = "if isObjectLike input then input else JObj []"
  from assms obtain xs p q tot where xs: "jprop ?in ''directBalances'' = JArr xs" "xs \<noteq> []" "list_all validDirect xs" "distinct (map recipient_of xs)"
    and pq: "is_decimal p" "is_decimal q" and tot: "chooseSupply (jprop ?in ''totalEligibleSupply'') (balanceTotal (sort_key fst (map holder_of xs))) = Inr tot"
    and d: "d = (case distribute (nat_of_dec p + nat_of_dec q) tot (sort_key fst (map holder_of xs)) (0, []) of (t, es) \<Rightarrow>
       \<lparr>pr_proceedsAmount = p, pr_previousDust = q, pr_distributablePool = dec_of_nat (nat_of_dec p + nat_of_dec q),
        pr_totalEligibleSupply = dec_of_nat tot, pr_holderCount = length (sort_key fst (map holder_of xs)), pr_payableHolderCount = length es,
        pr_totalAmountAtomicUSDG = dec_of_nat t, pr_dust = json_int (int (nat_of_dec p + nat_of_dec q) - int t), pr_entries = es\<rparr>)"
    unfolding computeProRataDistribution_def Let_def res_simps assertDirectBalances_Inr_iff if_False
    by (auto simp: case_prod_unfold)
  have obj: "?in = input" using xs(1) by (auto simp: jprop_JObj split: if_splits)
  note xs = xs [unfolded obj] and tot = tot [unfolded obj]
  have h: "holdersOf input = sort_key fst (map holder_of xs)" by (simp add: holdersOf_def xs(1))
  have bt: "balanceTotal (holdersOf input) = balanceTotal (map holder_of xs)" by (simp add: h balanceTotal_def)
  have pos: "0 < balanceTotal (holdersOf input)" using balanceTotal_pos [OF xs(2,3)] by (simp add: bt)
  note t = chooseSupply_Inr [OF tot [folded h]]
  have le: "sum_list (map (holderShare (nat_of_dec p + nat_of_dec q) tot) (holdersOf input)) \<le> nat_of_dec p + nat_of_dec q"
    by (rule shares_le_pool) (use t pos in auto)
  have de: "d = distributionOf p q tot (holdersOf input)"
    using le unfolding d distribute_spec distributionOf_def Let_def h [symmetric]
    by (simp flip: of_nat_diff of_nat_add)
  then have "pr_proceedsAmount d = p" "pr_previousDust d = q" by (simp_all add: distributionOf_def Let_def)
  moreover have "distinct (map fst (holdersOf input))"
    using xs(4) distinct_sort_key [of fst "map holder_of xs" fst] by (simp add: h comp_def)
  ultimately show ?thesis using that [of tot] xs pq t pos de by (auto simp: isArray_def)
qed

section \<open>Chunking\<close>

lemma concat_slices: "concat (map (slice limit es) [0..<k]) = take (k * limit) es"
proof (induction k)
  case 0
  then show ?case by simp
next
  case (Suc k)
  have "take (Suc k * limit) es = take (k * limit) es @ take limit (drop (k * limit) es)"
    by (simp add: take_add add.commute flip: take_add)
  with Suc show ?case by (simp add: slice_def)
qed

lemma ceilDiv_covers: "0 < limit \<Longrightarrow> n \<le> ceilDiv n limit * limit"
proof -
  assume l: "0 < limit"
  have "(n + limit - 1) mod limit < limit" using l by simp
  moreover have "n + limit - 1 = ceilDiv n limit * limit + (n + limit - 1) mod limit" by (simp add: ceilDiv_def)
  ultimately show ?thesis using l by linarith
qed

lemma ceilDiv_tight: "0 < limit \<Longrightarrow> i < ceilDiv n limit \<Longrightarrow> i * limit < n"
proof -
  assume l: "0 < limit" and i: "i < ceilDiv n limit"
  have "(i + 1) * limit \<le> ceilDiv n limit * limit" using i by (intro mult_right_mono) auto
  moreover have "ceilDiv n limit * limit \<le> n + limit - 1" by (simp add: ceilDiv_def)
  ultimately show ?thesis using l by (simp add: add_mult_distrib)
qed

lemma ceilDiv_le: "n \<le> m * limit \<Longrightarrow> 0 < limit \<Longrightarrow> ceilDiv n limit \<le> m"
proof -
  assume n: "n \<le> m * limit" and l: "0 < limit"
  have "n + limit - 1 < (m + 1) * limit" using n l by (simp add: add_mult_distrib)
  then have "ceilDiv n limit < m + 1" unfolding ceilDiv_def using l by (simp only: div_less_iff_less_mult)
  then show ?thesis by simp
qed

lemma payableTotal_concat: "payableTotal (concat pss) = sum_list (map payableTotal pss)"
  by (induction pss) (simp_all add: payableTotal_def)

definition payableTriple :: "payable_entry \<Rightarrow> payable" where
  "payableTriple e = (pe_recipient e, pe_directHkmnBalance e, pe_amountAtomicUSDG e)"

lemma makeChunk_entries:
  "map payableTriple (ch_entries (makeChunk limit es i)) = slice limit es i"
  "map pe_index (ch_entries (makeChunk limit es i)) = [0..<length (slice limit es i)]"
  "length (ch_entries (makeChunk limit es i)) = length (slice limit es i)"
  by (rule nth_equalityI; simp add: makeChunk_def payableTriple_def chunkEntry_def)+ (simp add: makeChunk_def)

lemma chunkProRataEntries_Inr_iff:
  "chunkProRataEntries (JArr xs) lim = Inr c \<longleftrightarrow>
     (\<exists>limit. 0 < limit \<and> limit \<le> CHUNK_ENTRY_LIMIT \<and> (if lim = JUndefined then limit = CHUNK_ENTRY_LIMIT else lim = JNum (int limit))
       \<and> xs \<noteq> [] \<and> list_all validPayable xs \<and> distinct (map recipient_of xs)
       \<and> ceilDiv (length xs) limit \<le> MAX_CHUNKS_PER_DISTRIBUTION
       \<and> c = \<lparr>ck_chunkEntryLimit = limit, ck_chunkCount = ceilDiv (length xs) limit,
              ck_totalLiability = dec_of_nat (payableTotal (map payable_of xs)),
              ck_chunks = map (makeChunk limit (sort_key fst (map payable_of xs))) [0..<ceilDiv (length xs) limit]\<rparr>)" (is "?l \<longleftrightarrow> ?r")
proof -
  have tot: "sum_list (map (\<lambda>c. nat_of_dec (ch_rootSum c)) (map (makeChunk limit es) [0..<ceilDiv (length es) limit])) = payableTotal es"
    if "0 < limit" for limit es
  proof -
    have "map (\<lambda>c. nat_of_dec (ch_rootSum c)) (map (makeChunk limit es) [0..<ceilDiv (length es) limit])
        = map payableTotal (map (slice limit es) [0..<ceilDiv (length es) limit])"
      by (simp add: makeChunk_def)
    also have "sum_list \<dots> = payableTotal es"
      unfolding payableTotal_concat [symmetric] concat_slices using ceilDiv_covers [OF that, of "length es"] by simp
    finally show ?thesis .
  qed
  have srt: "payableTotal (sort_key fst (map payable_of xs)) = payableTotal (map payable_of xs)" by (simp add: payableTotal_def)
  show ?thesis
    unfolding chunkProRataEntries_def Let_def res_simps assertPayableEntries_Inr_iff
    using tot [of _ "sort_key fst (map payable_of xs)"] srt
    by (cases "lim = JUndefined") (force simp: isInteger_iff CHUNK_ENTRY_LIMIT_def not_less)+
qed

section \<open>Concrete distribution\<close>

definition ex_balance :: "string \<Rightarrow> string \<Rightarrow> jsval" where
  "ex_balance a b = JObj [(''recipient'', JStr a), (''directHkmnBalance'', JStr b)]"

definition ex_pool :: jsval where
  "ex_pool = JObj [(''directBalances'', JArr [ex_balance addr_b ''1'', ex_balance addr_a ''2'']), (''proceedsAmount'', JStr ''10'')]"

definition ex_distribution :: pro_rata_distribution where
  "ex_distribution = \<lparr>pr_proceedsAmount = ''10'', pr_previousDust = ''0'', pr_distributablePool = ''10'', pr_totalEligibleSupply = ''3'',
     pr_holderCount = 2, pr_payableHolderCount = 2, pr_totalAmountAtomicUSDG = ''9'', pr_dust = ''1'',
     pr_entries = [\<lparr>pe_index = 0, pe_recipient = addr_a, pe_directHkmnBalance = ''2'', pe_amountAtomicUSDG = ''6''\<rparr>,
       \<lparr>pe_index = 1, pe_recipient = addr_b, pe_directHkmnBalance = ''1'', pe_amountAtomicUSDG = ''3''\<rparr>]\<rparr>"

lemmas pro_rata_eval = computeProRataDistribution_def assertDirectBalances_def assertDirectBalance_def assertRecipient_def
  assertDecimalString_def chooseSupply_def balanceTotal_def proRataShare_def isObjectLike_def ownKeys_def isArray_def jprop_JObj Let_def
  is_decimal_def is_pos_decimal_def is_digit_def nat_of_dec_def digit_val_def dec_of_nat.simps digit_char_def json_int_def

lemma ex_compute: "computeProRataDistribution ex_pool = Inr ex_distribution"
  by (simp add: ex_pool_def ex_distribution_def ex_balance_def pro_rata_eval)

section \<open>Properties\<close>

text \<open>
  C21.  The distribution conserves the pool: the paid amounts sum to the stated total, the total plus the
  dust is exactly the distributable pool, and the pool is the proceeds plus the dust carried in.
\<close>

theorem pro_rata_conserves_pool:
  assumes "computeProRataDistribution input = Inr d"
  shows "sum_list (map (\<lambda>e. nat_of_dec (pe_amountAtomicUSDG e)) (pr_entries d)) = nat_of_dec (pr_totalAmountAtomicUSDG d)
    \<and> nat_of_dec (pr_totalAmountAtomicUSDG d) + nat_of_dec (pr_dust d) = nat_of_dec (pr_distributablePool d)
    \<and> nat_of_dec (pr_distributablePool d) = nat_of_dec (pr_proceedsAmount d) + nat_of_dec (pr_previousDust d)
    \<and> is_decimal (pr_dust d) \<and> is_decimal (pr_totalAmountAtomicUSDG d)"
proof -
  from assms obtain tot where t: "0 < tot" "balanceTotal (holdersOf input) \<le> tot"
    and d: "d = distributionOf (pr_proceedsAmount d) (pr_previousDust d) tot (holdersOf input)"
    by (rule computeProRata_Inr)
  let ?pool = "nat_of_dec (pr_proceedsAmount d) + nat_of_dec (pr_previousDust d)"
  let ?paid = "paidHolders ?pool tot (holdersOf input)"
  have flds: "pr_entries d = map2 (payHolder ?pool tot) [0..<length ?paid] ?paid" "pr_distributablePool d = dec_of_nat ?pool"
    "pr_totalAmountAtomicUSDG d = dec_of_nat (sum_list (map (holderShare ?pool tot) (holdersOf input)))"
    "pr_dust d = dec_of_nat (?pool - sum_list (map (holderShare ?pool tot) (holdersOf input)))"
    by (subst d, simp add: distributionOf_def Let_def)+
  have "map (\<lambda>e. nat_of_dec (pe_amountAtomicUSDG e)) (pr_entries d) = map (holderShare ?pool tot) ?paid"
    unfolding flds by (rule nth_equalityI) (simp_all add: payHolder_def)
  then show ?thesis using shares_le_pool [OF t, of ?pool] by (simp add: flds(2-4) sum_paid)
qed

theorem pro_rata_conserves_pool_witness:
  "computeProRataDistribution ex_pool = Inr ex_distribution
   \<and> nat_of_dec (pr_totalAmountAtomicUSDG ex_distribution) + nat_of_dec (pr_dust ex_distribution) = nat_of_dec (pr_distributablePool ex_distribution)"
  using pro_rata_conserves_pool [OF ex_compute] ex_compute by simp

text \<open>
  Every payable entry is a floor share: an entry with recipient \<open>r\<close>, balance \<open>b\<close> and amount \<open>a\<close> exists
  exactly when \<open>(r, b)\<close> is a holder, \<open>a\<close> is positive and \<open>a\<close> is the integral part of \<open>b * pool / supply\<close>;
  the entries are in strictly increasing recipient order and numbered from zero without gaps.
\<close>

theorem pro_rata_entries_are_floor_shares:
  assumes "computeProRataDistribution input = Inr d"
  shows "(\<forall>r b a. (\<exists>e \<in> set (pr_entries d). payableTriple e = (r, b, a)) \<longleftrightarrow>
      (r, b) \<in> set (holdersOf input) \<and> is_pos_decimal a
      \<and> nat_of_dec a * nat_of_dec (pr_totalEligibleSupply d) \<le> nat_of_dec b * nat_of_dec (pr_distributablePool d)
      \<and> nat_of_dec b * nat_of_dec (pr_distributablePool d) < (nat_of_dec a + 1) * nat_of_dec (pr_totalEligibleSupply d))
    \<and> sorted_wrt (<) (map pe_recipient (pr_entries d)) \<and> map pe_index (pr_entries d) = [0..<length (pr_entries d)]"
proof -
  from assms obtain tot where t: "0 < tot" and dist: "distinct (map fst (holdersOf input))"
    and d: "d = distributionOf (pr_proceedsAmount d) (pr_previousDust d) tot (holdersOf input)"
    by (rule computeProRata_Inr)
  let ?pool = "nat_of_dec (pr_proceedsAmount d) + nat_of_dec (pr_previousDust d)"
  let ?paid = "paidHolders ?pool tot (holdersOf input)"
  have flds: "pr_entries d = map2 (payHolder ?pool tot) [0..<length ?paid] ?paid" "pr_distributablePool d = dec_of_nat ?pool"
    "pr_totalEligibleSupply d = dec_of_nat tot"
    by (subst d, simp add: distributionOf_def Let_def)+
  obtain k where k: "tot = Suc k" using t by (cases tot) auto
  have triples: "map payableTriple (pr_entries d) = map (\<lambda>h. (fst h, snd h, dec_of_nat (holderShare ?pool tot h))) ?paid"
    and recip: "map pe_recipient (pr_entries d) = map fst ?paid" and idx: "map pe_index (pr_entries d) = [0..<length (pr_entries d)]"
    unfolding flds(1) by (rule nth_equalityI; simp add: payHolder_def payableTriple_def)+
  have floor: "nat_of_dec a * tot \<le> nat_of_dec b * ?pool \<and> nat_of_dec b * ?pool < (nat_of_dec a + 1) * tot
      \<longleftrightarrow> nat_of_dec a = holderShare ?pool tot (r, b)" for r a b
    using pro_rata.share_unique [of "nat_of_dec a" k "nat_of_dec b" ?pool] pro_rata.share_floor [of ?pool k "nat_of_dec b"]
      pro_rata.share_tight [of "nat_of_dec b" ?pool k]
    by (auto simp: k holderShare_def)
  have mem: "(\<exists>e \<in> set (pr_entries d). payableTriple e = (r, b, a)) \<longleftrightarrow>
      (r, b) \<in> set (holdersOf input) \<and> 0 < holderShare ?pool tot (r, b) \<and> a = dec_of_nat (holderShare ?pool tot (r, b))" for r b a
  proof -
    have "(\<exists>e \<in> set (pr_entries d). payableTriple e = (r, b, a)) \<longleftrightarrow> (r, b, a) \<in> set (map payableTriple (pr_entries d))" by force
    also have "\<dots> \<longleftrightarrow> (\<exists>h \<in> set ?paid. (r, b, a) = (fst h, snd h, dec_of_nat (holderShare ?pool tot h)))" unfolding triples by auto
    finally show ?thesis by (auto simp: paidHolders_def)
  qed
  have pos: "0 < n \<and> a = dec_of_nat n \<longleftrightarrow> is_pos_decimal a \<and> nat_of_dec a = n" for a n
    by (auto simp: is_pos_decimal_iff)
  have sup: "nat_of_dec (pr_totalEligibleSupply d) = tot" "nat_of_dec (pr_distributablePool d) = ?pool" by (simp_all add: flds)
  have "sorted_wrt (<) (map fst (holdersOf input))" using dist by (simp add: strict_sorted_iff) (simp add: holdersOf_def)
  then have "sorted_wrt (<) (map fst ?paid)" by (simp add: paidHolders_def sorted_wrt_map sorted_wrt_filter)
  with idx show ?thesis unfolding mem pos sup recip floor [symmetric] by simp
qed

theorem pro_rata_entries_are_floor_shares_witness:
  "computeProRataDistribution ex_pool = Inr ex_distribution
   \<and> map pe_index (pr_entries ex_distribution) = [0..<length (pr_entries ex_distribution)]
   \<and> nat_of_dec ''6'' * nat_of_dec ''3'' \<le> nat_of_dec ''2'' * nat_of_dec ''10''"
proof -
  note spec = pro_rata_entries_are_floor_shares [OF ex_compute]
  have "\<exists>e \<in> set (pr_entries ex_distribution). payableTriple e = (addr_a, ''2'', ''6'')"
    by (simp add: ex_distribution_def payableTriple_def)
  with spec have "nat_of_dec ''6'' * nat_of_dec (pr_totalEligibleSupply ex_distribution)
      \<le> nat_of_dec ''2'' * nat_of_dec (pr_distributablePool ex_distribution)" by blast
  with spec ex_compute show ?thesis by (simp add: ex_distribution_def)
qed

text \<open>
  C27.  When the eligible supply is the sum of the balances (no wider supply is passed), the dust left by
  rounding is smaller than the number of holders: each holder loses less than one atomic unit.
\<close>

theorem pro_rata_dust_bound:
  assumes "computeProRataDistribution input = Inr d" and "jprop input ''totalEligibleSupply'' = JUndefined"
  shows "nat_of_dec (pr_dust d) < pr_holderCount d"
proof -
  obtain tot where t: "0 < tot" "tot = balanceTotal (holdersOf input)"
    and d: "d = distributionOf (pr_proceedsAmount d) (pr_previousDust d) tot (holdersOf input)"
    by (rule computeProRata_Inr [OF assms(1)]) (use assms(2) in blast)
  let ?pool = "nat_of_dec (pr_proceedsAmount d) + nat_of_dec (pr_previousDust d)"
  have flds: "pr_dust d = dec_of_nat (?pool - sum_list (map (holderShare ?pool tot) (holdersOf input)))" "pr_holderCount d = length (holdersOf input)"
    by (subst d, simp add: distributionOf_def Let_def)+
  obtain k where k: "tot = Suc k" using t(1) by (cases tot) auto
  from pro_rata.dust_below_length [of "map (\<lambda>h. nat_of_dec (snd h)) (holdersOf input)" k ?pool] t(2)
  show ?thesis by (simp add: flds balanceTotal_def k comp_def holderShare_def [abs_def])
qed

theorem pro_rata_dust_bound_witness:
  "computeProRataDistribution ex_pool = Inr ex_distribution \<and> nat_of_dec (pr_dust ex_distribution) < pr_holderCount ex_distribution"
  using pro_rata_dust_bound [OF ex_compute] ex_compute by (simp add: ex_pool_def jprop_JObj)

text \<open>
  C28.  The distribution does not depend on the order in which the holders are listed: any permutation
  of the direct balances gives the same record.
\<close>

theorem pro_rata_order_independent:
  assumes "mset xs = mset ys"
    and "computeProRataDistribution (JObj ((''directBalances'', JArr xs) # rest)) = Inr d"
  shows "computeProRataDistribution (JObj ((''directBalances'', JArr ys) # rest)) = Inr d"
proof -
  let ?in = "\<lambda>zs. JObj ((''directBalances'', JArr zs) # rest)"
  from assms(2) have v: "xs \<noteq> []" "list_all validDirect xs" "distinct (map recipient_of xs)"
    by (auto simp: computeProRataDistribution_def Let_def isObjectLike_def bindE_Inr_iff assertDirectBalances_Inr_iff jprop_JObj)
  have "distinct (map recipient_of ys)" using v(3) assms(1) by (metis mset_eq_imp_distinct_iff mset_map)
  moreover have "list_all validDirect ys" "ys \<noteq> []" using v assms(1) by (auto simp: list_all_iff dest: mset_eq_setD)
  ultimately have dy: "assertDirectBalances (JArr ys) l = Inr (map holder_of ys)" for l
    by (simp add: assertDirectBalances_Inr_iff)
  have dx: "assertDirectBalances (JArr xs) l = Inr (map holder_of xs)" for l using v by (simp add: assertDirectBalances_Inr_iff)
  have srt: "sort_key fst (map holder_of xs) = sort_key fst (map holder_of ys)"
    by (rule sort_key_unique) (use assms(1) v(3) in \<open>simp_all add: comp_def\<close>)
  have "jprop (?in xs) f = jprop (?in ys) f" if "f \<noteq> ''directBalances''" for f using that by (simp add: jprop_JObj)
  then have "computeProRataDistribution (?in ys) = computeProRataDistribution (?in xs)"
    by (simp add: computeProRataDistribution_def isObjectLike_def jprop_JObj dx dy srt Let_def mset_eq_length [OF assms(1)])
  with assms(2) show ?thesis by simp
qed

theorem pro_rata_order_independent_witness:
  "computeProRataDistribution (JObj [(''directBalances'', JArr [ex_balance addr_a ''2'', ex_balance addr_b ''1'']), (''proceedsAmount'', JStr ''10'')])
     = Inr ex_distribution"
  by (rule pro_rata_order_independent [of "[ex_balance addr_b ''1'', ex_balance addr_a ''2'']"])
    (simp_all add: add_mset_commute ex_compute [unfolded ex_pool_def])

text \<open>
  Chunking partitions the payable entries: the chunks, put together, are the entries in address order,
  nothing dropped or duplicated; every chunk is nonempty, within the limit, numbered locally from zero and
  binds the sum of its own amounts; there are at most 64 chunks, and the total liability is the sum of all
  amounts.
\<close>

theorem chunks_partition_entries:
  assumes "chunkProRataEntries (JArr xs) limitValue = Inr c"
  shows "concat (map (\<lambda>ch. map payableTriple (ch_entries ch)) (ck_chunks c)) = sort_key fst (map payable_of xs)
    \<and> (\<forall>ch \<in> set (ck_chunks c). 0 < length (ch_entries ch) \<and> length (ch_entries ch) \<le> ck_chunkEntryLimit c
         \<and> ch_entryCount ch = length (ch_entries ch) \<and> map pe_index (ch_entries ch) = [0..<length (ch_entries ch)]
         \<and> nat_of_dec (ch_rootSum ch) = payableTotal (map payableTriple (ch_entries ch)))
    \<and> ck_chunkEntryLimit c \<le> 1024 \<and> length (ck_chunks c) \<le> 64 \<and> map ch_chunkIndex (ck_chunks c) = [0..<ck_chunkCount c]
    \<and> nat_of_dec (ck_totalLiability c) = payableTotal (map payable_of xs)
    \<and> sum_list (map (\<lambda>ch. nat_of_dec (ch_rootSum ch)) (ck_chunks c)) = nat_of_dec (ck_totalLiability c)"
proof -
  let ?es = "sort_key fst (map payable_of xs)"
  from assms obtain limit where l: "0 < limit" "limit \<le> CHUNK_ENTRY_LIMIT" "ceilDiv (length xs) limit \<le> MAX_CHUNKS_PER_DISTRIBUTION"
    and c: "c = \<lparr>ck_chunkEntryLimit = limit, ck_chunkCount = ceilDiv (length xs) limit,
              ck_totalLiability = dec_of_nat (payableTotal (map payable_of xs)),
              ck_chunks = map (makeChunk limit ?es) [0..<ceilDiv (length xs) limit]\<rparr>"
    by (auto simp: chunkProRataEntries_Inr_iff)
  have whole: "concat (map (slice limit ?es) [0..<ceilDiv (length xs) limit]) = ?es"
    using ceilDiv_covers [OF l(1), of "length xs"] by (simp add: concat_slices)
  have "payableTotal (concat (map (slice limit ?es) [0..<ceilDiv (length xs) limit])) = payableTotal ?es" by (simp only: whole)
  then have total: "sum_list (map (\<lambda>i. payableTotal (slice limit ?es i)) [0..<ceilDiv (length xs) limit]) = payableTotal (map payable_of xs)"
    by (simp add: payableTotal_concat comp_def) (simp add: payableTotal_def)
  have root: "nat_of_dec (ch_rootSum (makeChunk limit ?es i)) = payableTotal (slice limit ?es i)"
    "ch_entryCount (makeChunk limit ?es i) = length (slice limit ?es i)" "ch_chunkIndex (makeChunk limit ?es i) = i" for i
    by (simp_all add: makeChunk_def)
  have len: "0 < length (slice limit ?es i) \<and> length (slice limit ?es i) \<le> limit" if "i < ceilDiv (length xs) limit" for i
    using ceilDiv_tight [OF l(1) that] l(1) by (simp add: slice_def)
  have "ch_entries (makeChunk limit ?es i) = [] \<longleftrightarrow> slice limit ?es i = []" for i
    using makeChunk_entries(3) [of limit ?es i] by (metis length_0_conv)
  then show ?thesis
    using whole total len l by (simp add: c comp_def makeChunk_entries root CHUNK_ENTRY_LIMIT_def MAX_CHUNKS_PER_DISTRIBUTION_def)
qed

definition ex_payables :: "jsval list" where
  "ex_payables = map jsval_of_payable (pr_entries ex_distribution)"

lemma ex_payables_valid: "list_all validPayable ex_payables" "distinct (map recipient_of ex_payables)" "length ex_payables = 2"
  "map payable_of ex_payables = [(addr_a, ''2'', ''6''), (addr_b, ''1'', ''3'')]"
  by (simp_all add: ex_payables_def ex_distribution_def jsval_of_payable_def validPayable_def isObjectLike_def exactKeys_def ownKeys_def hasOwn_def
      PAYABLE_ENTRY_FIELDS_def jprop_JObj is_pos_decimal_def is_digit_def recipient_of_def payable_of_def)

lemma ex_chunk: "\<exists>c. chunkProRataEntries (JArr ex_payables) (JNum 1) = Inr c \<and> ck_chunkCount c = 2"
  using ex_payables_valid
  by (subst chunkProRataEntries_Inr_iff) (auto intro!: exI [of _ 1] simp: CHUNK_ENTRY_LIMIT_def MAX_CHUNKS_PER_DISTRIBUTION_def ceilDiv_def)

theorem chunks_partition_entries_witness:
  "\<exists>c. chunkProRataEntries (JArr ex_payables) (JNum 1) = Inr c \<and> ck_chunkCount c = 2 \<and> length (ck_chunks c) \<le> 64
    \<and> concat (map (\<lambda>ch. map payableTriple (ch_entries ch)) (ck_chunks c)) = [(addr_a, ''2'', ''6''), (addr_b, ''1'', ''3'')]"
proof -
  obtain c where c: "chunkProRataEntries (JArr ex_payables) (JNum 1) = Inr c" "ck_chunkCount c = 2" using ex_chunk by blast
  have "sort_key fst (map payable_of ex_payables) = [(addr_a, ''2'', ''6''), (addr_b, ''1'', ''3'')]" by (simp add: ex_payables_valid)
  with chunks_partition_entries [OF c(1)] c show ?thesis by auto
qed

text \<open>
  C29.  What the compiler distributes, the chunker accepts whole: the nonempty entry list of a computed
  distribution of at most 65536 payable holders is chunked without error, and the chunks together bind exactly
  the distributed total.
\<close>

theorem distribution_chunks_bind_total:
  assumes "computeProRataDistribution input = Inr d" and "pr_entries d \<noteq> []" and "length (pr_entries d) \<le> 64 * 1024"
  shows "\<exists>c. chunkProRataEntries (JArr (map jsval_of_payable (pr_entries d))) JUndefined = Inr c
    \<and> ck_totalLiability c = pr_totalAmountAtomicUSDG d"
proof -
  from assms(1) obtain tot where v: "list_all validDirect (arr_of (jprop input ''directBalances''))" and dist: "distinct (map fst (holdersOf input))"
    and d: "d = distributionOf (pr_proceedsAmount d) (pr_previousDust d) tot (holdersOf input)"
    by (rule computeProRata_Inr)
  let ?pool = "nat_of_dec (pr_proceedsAmount d) + nat_of_dec (pr_previousDust d)"
  let ?paid = "paidHolders ?pool tot (holdersOf input)" and ?xs = "map jsval_of_payable (pr_entries d)"
  have flds: "pr_entries d = map2 (payHolder ?pool tot) [0..<length ?paid] ?paid"
    "pr_totalAmountAtomicUSDG d = dec_of_nat (sum_list (map (holderShare ?pool tot) (holdersOf input)))"
    by (subst d, simp add: distributionOf_def Let_def)+
  have pays: "map payable_of ?xs = map (\<lambda>h. (fst h, snd h, dec_of_nat (holderShare ?pool tot h))) ?paid"
    and rec: "map recipient_of ?xs = map fst ?paid"
    unfolding flds(1) by (rule nth_equalityI; simp add: payHolder_def payable_of_def recipient_of_def jsval_of_payable_def jprop_JObj)+
  have holder: "hex_pattern 40 (fst h) \<and> fst h \<noteq> ZERO_ADDRESS \<and> is_pos_decimal (snd h)" if "h \<in> set ?paid" for h
  proof -
    from that obtain x where "h = holder_of x" "validDirect x" using v by (auto simp: paidHolders_def holdersOf_def list_all_iff)
    then show ?thesis unfolding validDirect_def holder_of_def str_matches_iff by auto
  qed
  have "validPayable (jsval_of_payable e)" if e: "e \<in> set (pr_entries d)" for e
  proof -
    from e obtain j where j: "j < length ?paid" "e = payHolder ?pool tot j (?paid ! j)"
      unfolding flds(1) in_set_conv_nth by auto
    then have "?paid ! j \<in> set ?paid" by simp
    moreover from this have "0 < holderShare ?pool tot (?paid ! j)" by (simp add: paidHolders_def)
    ultimately show ?thesis using holder [of "?paid ! j"] unfolding j(2)
      by (simp add: payHolder_def jsval_of_payable_def validPayable_def isObjectLike_def exactKeys_def ownKeys_def hasOwn_def
          PAYABLE_ENTRY_FIELDS_def jprop_JObj is_pos_decimal_dec_of_nat)
  qed
  then have "list_all validPayable ?xs" by (auto simp: list_all_iff)
  moreover have "distinct (map recipient_of ?xs)" unfolding rec using dist by (simp add: paidHolders_def distinct_map_filter)
  moreover have "ceilDiv (length ?xs) CHUNK_ENTRY_LIMIT \<le> MAX_CHUNKS_PER_DISTRIBUTION"
    by (rule ceilDiv_le) (use assms(3) in \<open>simp_all add: CHUNK_ENTRY_LIMIT_def MAX_CHUNKS_PER_DISTRIBUTION_def\<close>)
  moreover have "payableTotal (map payable_of ?xs) = sum_list (map (holderShare ?pool tot) (holdersOf input))"
    unfolding pays by (simp add: payableTotal_def comp_def sum_paid)
  ultimately show ?thesis using assms(2) flds(2)
    by (subst chunkProRataEntries_Inr_iff) (auto intro!: exI [of _ CHUNK_ENTRY_LIMIT] simp: CHUNK_ENTRY_LIMIT_def)
qed

theorem distribution_chunks_bind_total_witness:
  "\<exists>c. chunkProRataEntries (JArr (map jsval_of_payable (pr_entries ex_distribution))) JUndefined = Inr c \<and> ck_totalLiability c = ''9''"
  using distribution_chunks_bind_total [OF ex_compute] by (simp add: ex_distribution_def)

end
