(* ===== verification/Payout_Plan.thy ===== *)
theory Payout_Plan
  imports Pro_Rata
begin

text \<open>
  The direct payout compiler, \<^verbatim>\<open>packages/runner/src/distribution/payout-plan.mjs\<close>: it re-validates the frozen
  eligibility manifest, splits the returned amount plus the carried dust over the eligible balances by
  floor division, and seals the plan with a digest.  A cycle with no eligible holder yields a plan that
  spends nothing and carries the whole pool forward.
\<close>

section \<open>Amounts\<close>

definition DIRECT_PAYOUT_RECIPIENT_LIMIT :: nat where "DIRECT_PAYOUT_RECIPIENT_LIMIT = 10000"

definition payout_limits :: canonical_limits where
  "payout_limits = \<lparr>lim_objects = 200000, lim_arrays = 10000, lim_arrayItems = DIRECT_PAYOUT_RECIPIENT_LIMIT, lim_aggregateBytes = 33554432\<rparr>"

definition NATIVE_PAYOUT_CHAIN_ID :: string where "NATIVE_PAYOUT_CHAIN_ID = ''4663''"
definition NATIVE_PAYOUT_DECIMALS :: int where "NATIVE_PAYOUT_DECIMALS = 18"

definition assertNativeAsset :: "jsval \<Rightarrow> string res" where
  "assertNativeAsset v = (if v \<noteq> JStr ''native'' then Inl (JsError ''payout asset must be native'') else Inr ''native'')"

definition assertPlainObject :: "jsval \<Rightarrow> string \<Rightarrow> jsval res" where
  "assertPlainObject v label = (if \<not> isPlainObject v then Inl (JsError (label @ '' must be a plain object'')) else Inr v)"

definition assertExactFields :: "jsval \<Rightarrow> string list \<Rightarrow> string \<Rightarrow> jsval res" where
  "assertExactFields v fieldNames label =
     bindE (assertPlainObject v label) (\<lambda>_.
       if \<not> exactKeys v fieldNames then Inl (JsError (label @ '' must use the exact schema'')) else Inr v)"

definition assertAtomic :: "jsval \<Rightarrow> string \<Rightarrow> string res" where
  "assertAtomic v label =
     (if \<not> str_matches is_decimal v then Inl (JsError (label @ '' must be a canonical atomic integer string''))
      else if nat_of_dec (str_of v) > MAX_UINT256 then Inl (JsError (label @ '' exceeds uint256''))
      else Inr (str_of v))"

definition assertPayoutAddress :: "jsval \<Rightarrow> string \<Rightarrow> string res" where
  "assertPayoutAddress v label =
     (if \<not> str_matches (any_hex_pattern 40) v then Inl (JsError (label @ '' must be an EVM address''))
      else Inr (toLowerCase (str_of v)))"

definition createNativePayoutAmount :: "jsval \<Rightarrow> jsval \<Rightarrow> typed_amount res" where
  "createNativePayoutAmount assetId amountAtomic =
     bindE (assertNativeAsset assetId) (\<lambda>a.
     bindE (assertAtomic amountAtomic ''native ETH amountAtomic'') (\<lambda>n.
       Inr \<lparr>ta_chainId = NATIVE_PAYOUT_CHAIN_ID, ta_assetId = a, ta_decimals = NATIVE_PAYOUT_DECIMALS, ta_amountAtomic = n\<rparr>))"

definition copyPrincipalAmount :: "jsval \<Rightarrow> string \<Rightarrow> string \<Rightarrow> typed_amount res" where
  "copyPrincipalAmount v label expectedAssetId =
     bindE (assertExactFields v TYPED_AMOUNT_FIELDS label) (\<lambda>amount.
     if jprop amount ''chainId'' \<noteq> JStr NATIVE_PAYOUT_CHAIN_ID
     then Inl (JsError (label @ '' chainId must be '' @ NATIVE_PAYOUT_CHAIN_ID))
     else
     bindE (assertNativeAsset (JStr expectedAssetId)) (\<lambda>configuredAssetId.
     bindE (assertNativeAsset (jprop amount ''assetId'')) (\<lambda>assetId.
     if assetId \<noteq> configuredAssetId \<or> jprop amount ''decimals'' \<noteq> JNum NATIVE_PAYOUT_DECIMALS
     then Inl (JsError (label @ '' must identify the configured native ETH asset identity on chain '' @ NATIVE_PAYOUT_CHAIN_ID
       @ '' with eighteen decimals''))
     else createNativePayoutAmount (JStr configuredAssetId) (jprop amount ''amountAtomic''))))"

definition copyNativeAmount :: "jsval \<Rightarrow> string \<Rightarrow> typed_amount res" where
  "copyNativeAmount v label =
     bindE (assertExactFields v TYPED_AMOUNT_FIELDS label) (\<lambda>amount.
     if jprop amount ''chainId'' \<noteq> JNum 4663 \<and> jprop amount ''chainId'' \<noteq> JStr ''4663''
     then Inl (JsError (label @ '' chainId must be 4663''))
     else if jprop amount ''assetId'' \<noteq> JStr ''native'' \<or> jprop amount ''decimals'' \<noteq> JNum 18
     then Inl (JsError (label @ '' must identify the chain 4663 native asset with eighteen decimals''))
     else bindE (assertAtomic (jprop amount ''amountAtomic'') (label @ '' amountAtomic'')) (\<lambda>n.
       Inr \<lparr>ta_chainId = ''4663'', ta_assetId = ''native'', ta_decimals = 18, ta_amountAtomic = n\<rparr>))"

definition copyHkmnAmount :: "jsval \<Rightarrow> string \<Rightarrow> typed_amount option \<Rightarrow> typed_amount res" where
  "copyHkmnAmount v label expected =
     bindE (assertExactFields v TYPED_AMOUNT_FIELDS label) (\<lambda>amount.
     if jprop amount ''chainId'' \<noteq> JNum 4663 \<and> jprop amount ''chainId'' \<noteq> JStr ''4663''
     then Inl (JsError (label @ '' chainId must be 4663''))
     else if \<not> str_matches (any_hex_pattern 40) (jprop amount ''assetId'') \<or> \<not> isInteger (jprop amount ''decimals'')
             \<or> num_of (jprop amount ''decimals'') < 0 \<or> num_of (jprop amount ''decimals'') > 255
     then Inl (JsError (label @ '' must identify a configured HKMN EVM asset''))
     else bindE (assertAtomic (jprop amount ''amountAtomic'') (label @ '' amountAtomic'')) (\<lambda>n.
     if n = ''0'' then Inl (JsError (label @ '' amountAtomic must be positive''))
     else if (case expected of None \<Rightarrow> False
              | Some e \<Rightarrow> toLowerCase (str_of (jprop amount ''assetId'')) \<noteq> ta_assetId e \<or> num_of (jprop amount ''decimals'') \<noteq> ta_decimals e)
     then Inl (JsError (label @ '' must identify the frozen eligibility manifest HKMN asset''))
     else Inr \<lparr>ta_chainId = ''4663'', ta_assetId = toLowerCase (str_of (jprop amount ''assetId'')),
       ta_decimals = num_of (jprop amount ''decimals''), ta_amountAtomic = n\<rparr>))"

section \<open>Return binding and previous dust\<close>

record return_binding =
  rb_operations :: string
  rb_assetId :: string
  rb_evidenceDigest :: string

definition normalizeReturnBinding :: "jsval \<Rightarrow> return_binding res" where
  "normalizeReturnBinding v =
     bindE (assertExactFields v [''operations'', ''assetId'', ''evidenceDigest''] ''finalized return binding'') (\<lambda>binding.
     if \<not> str_matches digest_pattern (jprop binding ''evidenceDigest'')
     then Inl (JsError ''finalized return binding evidenceDigest is invalid'')
     else
     bindE (assertPayoutAddress (jprop binding ''operations'') ''finalized return binding Operations address'') (\<lambda>operations.
     bindE (assertNativeAsset (jprop binding ''assetId'')) (\<lambda>assetId.
       Inr \<lparr>rb_operations = operations, rb_assetId = assetId, rb_evidenceDigest = str_of (jprop binding ''evidenceDigest'')\<rparr>)))"

definition normalizePreviousDustSource :: "jsval \<Rightarrow> typed_amount \<Rightarrow> jsval res" where
  "normalizePreviousDustSource v previousDust =
     (if v = JNull then
        if ta_amountAtomic previousDust \<noteq> ''0''
        then Inl (JsError ''previous dust source is required when previous dust is nonzero'') else Inr JNull
      else if ta_amountAtomic previousDust = ''0''
      then Inl (JsError ''previous dust source must be null when previous dust is zero'')
      else
      bindE (assertExactFields v [''cycleId'', ''digest'', ''planDigest''] ''previous dust source'') (\<lambda>source.
      if \<not> nonEmptyString (jprop source ''cycleId'') then Inl (JsError ''previous dust source cycleId is invalid'')
      else if \<not> str_matches digest_pattern (jprop source ''digest'') then Inl (JsError ''previous dust source digest is invalid'')
      else if \<not> str_matches digest_pattern (jprop source ''planDigest'') then Inl (JsError ''previous dust source planDigest is invalid'')
      else Inr (copyProps source [''cycleId'', ''digest'', ''planDigest''])))"

section \<open>The normalised manifest\<close>

definition normalizeEntry :: "typed_amount \<Rightarrow> nat \<Rightarrow> jsval \<Rightarrow> (string \<times> typed_amount) list \<Rightarrow> (string \<times> typed_amount) list res" where
  "normalizeEntry supplyAmount index entry normalized =
     (let label = ''eligibility manifest entry '' @ dec_of_nat index in
      bindE (assertExactFields entry [''recipient'', ''hkmnBalance''] label) (\<lambda>_.
      bindE (assertPayoutAddress (jprop entry ''recipient'') (label @ '' recipient'')) (\<lambda>recipient.
      if recipient \<in> set (map fst normalized) then Inl (JsError ''eligibility manifest recipients must be unique'')
      else
      bindE (copyHkmnAmount (jprop entry ''hkmnBalance'') (label @ '' hkmnBalance'') (Some supplyAmount)) (\<lambda>balance.
        Inr (normalized @ [(recipient, balance)])))))"

definition normalizeEntries :: "jsval \<Rightarrow> typed_amount \<Rightarrow> (string \<times> typed_amount) list res" where
  "normalizeEntries entries supplyAmount =
     (if \<not> isArray entries then Inl (JsError ''eligibility manifest entries must be an array'')
      else bindE (foldE (normalizeEntry supplyAmount) 0 (arr_of entries) []) (\<lambda>normalized. Inr (sort_key fst normalized)))"

definition eligibleTotal :: "(string \<times> typed_amount) list \<Rightarrow> nat" where
  "eligibleTotal es = sum_list (map (\<lambda>e. nat_of_dec (ta_amountAtomic (snd e))) es)"

record normalized_manifest =
  nm_selection :: jsval
  nm_fullSelection :: jsval
  nm_manifest :: jsval
  nm_supply :: typed_amount
  nm_exclusions :: "(string \<times> string) list"
  nm_entries :: "(string \<times> typed_amount) list"
  nm_feasibility :: jsval

text \<open>
  The three ways the selection may arrive: a summary that is checked against the manifest, the full
  evidence, which goes through the manifest validator and is summarised, or none.  The result is
  the manifest, the summary and the full evidence (\<open>JUndefined\<close> when absent).
\<close>

definition readManifest :: "(string \<Rightarrow> string) \<Rightarrow> jsval \<Rightarrow> (jsval \<times> jsval \<times> jsval) res" where
  "readManifest sha supplied =
     (let suppliedSelection = jprop supplied ''selection'';
          manifestInput = (case supplied of JObj ps \<Rightarrow> filter (\<lambda>p. fst p \<notin> {''schema'', ''selection''}) ps | _ \<Rightarrow> []) in
      if jprop suppliedSelection ''schema'' = JStr ''hookemon.reward-selection-summary.v1''
      then bindE (createEligibilityPayoutManifest sha (JObj manifestInput)) (\<lambda>manifest.
           bindE (assertEligibilitySelectionSummary sha suppliedSelection manifest) (\<lambda>selection. Inr (manifest, selection, JUndefined)))
      else if suppliedSelection \<noteq> JUndefined
      then bindE (createEligibilityPayoutManifest sha (JObj (manifestInput @ [(''selection'', suppliedSelection)]))) (\<lambda>manifest.
           bindE (summarizeEligibilitySelection sha (jprop manifest ''selection'')) (\<lambda>selection.
             Inr (manifest, selection, jprop manifest ''selection'')))
      else bindE (createEligibilityPayoutManifest sha (JObj manifestInput)) (\<lambda>manifest. Inr (manifest, JUndefined, JUndefined)))"

definition assertEnvelopeCount :: "jsval \<Rightarrow> nat \<Rightarrow> string \<Rightarrow> unit res" where
  "assertEnvelopeCount feasibility i key =
     (if \<not> isSafeInteger (jprop feasibility key) \<or> num_of (jprop feasibility key) < 0
      then Inl (JsError (''eligibility manifest feasibility '' @ key @ '' is invalid'')) else Inr ())"

definition assertEnvelopePrice :: "jsval \<Rightarrow> nat \<Rightarrow> string \<Rightarrow> unit res" where
  "assertEnvelopePrice feasibility i key =
     (if \<not> str_matches (\<lambda>s. is_decimal s \<and> s \<noteq> ''0'') (jprop feasibility key)
      then Inl (JsError (''eligibility manifest feasibility '' @ key @ '' is invalid'')) else Inr ())"

definition assertEnvelope :: "jsval \<Rightarrow> nat \<Rightarrow> jsval res" where
  "assertEnvelope v entryCount =
     bindE (assertPlainObject v ''eligibility manifest feasibility'') (\<lambda>feasibility.
     if jprop feasibility ''feasible'' \<noteq> JBool True
     then Inl (JsError (''eligibility manifest feasibility must pass before payout''
       @ (if falsy (jprop feasibility ''reason'') then [] else '': '' @ str_of (jprop feasibility ''reason''))))
     else
     bindE (mapE (assertEnvelopeCount feasibility) 0 [''recipientCount'', ''transactionCount'', ''maxRecipientCount'', ''maxTransactionCount'']) (\<lambda>_.
     if num_of (jprop feasibility ''recipientCount'') \<noteq> int entryCount \<or> num_of (jprop feasibility ''transactionCount'') \<noteq> int entryCount
     then Inl (JsError ''eligibility manifest feasibility counts do not match its frozen entries'')
     else if num_of (jprop feasibility ''maxRecipientCount'') < int entryCount \<or> num_of (jprop feasibility ''maxTransactionCount'') < int entryCount
     then Inl (JsError ''eligibility manifest feasibility envelope cannot support every frozen recipient'')
     else
     bindE (mapE (assertEnvelopePrice feasibility) 0 [''measuredTransferGas'', ''maxGasPriceWei'']) (\<lambda>_.
     bindE (copyNativeAmount (jprop feasibility ''estimatedNativeFee'') ''eligibility manifest feasibility estimatedNativeFee'') (\<lambda>fee.
     bindE (copyNativeAmount (jprop feasibility ''nativeReserve'') ''eligibility manifest feasibility nativeReserve'') (\<lambda>reserve.
     bindE (copyNativeAmount (jprop feasibility ''nativeBalance'') ''eligibility manifest feasibility nativeBalance'') (\<lambda>balance.
     bindE (copyNativeAmount (jprop feasibility ''requiredNativeAmount'') ''eligibility manifest feasibility requiredNativeAmount'') (\<lambda>required.
     let expectedFee = entryCount * nat_of_dec (str_of (jprop feasibility ''measuredTransferGas'')) * nat_of_dec (str_of (jprop feasibility ''maxGasPriceWei''));
         expectedRequired = expectedFee + nat_of_dec (ta_amountAtomic reserve) in
     if nat_of_dec (ta_amountAtomic fee) \<noteq> expectedFee \<or> nat_of_dec (ta_amountAtomic required) \<noteq> expectedRequired
        \<or> nat_of_dec (ta_amountAtomic balance) < nat_of_dec (ta_amountAtomic required)
     then Inl (JsError ''eligibility manifest native-balance feasibility envelope is inconsistent'')
     else Inr (JObj [(''recipientCount'', jprop feasibility ''recipientCount''), (''transactionCount'', jprop feasibility ''transactionCount''),
       (''maxRecipientCount'', jprop feasibility ''maxRecipientCount''), (''maxTransactionCount'', jprop feasibility ''maxTransactionCount''),
       (''measuredTransferGas'', jprop feasibility ''measuredTransferGas''), (''maxGasPriceWei'', jprop feasibility ''maxGasPriceWei''),
       (''estimatedNativeFee'', jsval_of_amount fee), (''nativeReserve'', jsval_of_amount reserve),
       (''nativeBalance'', jsval_of_amount balance), (''requiredNativeAmount'', jsval_of_amount required)]))))))))"

definition MANIFEST_V1 :: string where "MANIFEST_V1 = ''hookemon.eligibility-payout-manifest.v1''"
definition MANIFEST_V2 :: string where "MANIFEST_V2 = ''hookemon.eligibility-payout-manifest.v2''"

definition normalizeEligibilityManifest :: "(string \<Rightarrow> string) \<Rightarrow> jsval \<Rightarrow> string \<Rightarrow> normalized_manifest res" where
  "normalizeEligibilityManifest sha v cycleId =
     bindE (assertPlainObject v ''eligibility manifest'') (\<lambda>supplied.
     if jprop supplied ''schema'' \<noteq> JStr MANIFEST_V1 \<and> jprop supplied ''schema'' \<noteq> JStr MANIFEST_V2
     then Inl (JsError ''eligibility manifest schema is invalid'')
     else if (jprop supplied ''schema'' = JStr MANIFEST_V2) \<noteq> (jprop supplied ''selection'' \<noteq> JUndefined)
     then Inl (JsError ''eligibility manifest schema does not match selection evidence'')
     else
     bindE (readManifest sha supplied) (\<lambda>(manifest, selection, fullSelection).
     if jprop manifest ''cycleId'' \<noteq> JStr cycleId then Inl (JsError ''eligibility manifest cycleId does not match payout cycleId'')
     else
     bindE (copyHkmnAmount (jprop manifest ''supply'') ''eligibility manifest supply'' None) (\<lambda>supplyAmount.
     bindE (normalizeEntries (jprop manifest ''entries'') supplyAmount) (\<lambda>entries.
     if length entries > DIRECT_PAYOUT_RECIPIENT_LIMIT
     then Inl (JsError (''direct payout supports at most '' @ dec_of_nat DIRECT_PAYOUT_RECIPIENT_LIMIT @ '' recipients''))
     else if eligibleTotal entries > nat_of_dec (ta_amountAtomic supplyAmount)
     then Inl (JsError ''eligibility manifest aggregate eligible balance exceeds frozen gross supply'')
     else
     let exclusions = map (\<lambda>x. (toLowerCase (str_of (jprop x ''address'')), str_of (jprop x ''reason''))) (arr_of (jprop manifest ''exclusions'')) in
     if list_ex (\<lambda>e. fst e \<in> set (map fst exclusions)) entries
     then Inl (JsError ''eligibility manifest includes a recipient from its frozen exclusions'')
     else
     bindE (assertEnvelope (jprop manifest ''feasibility'') (length entries)) (\<lambda>feasibility.
       Inr \<lparr>nm_selection = selection, nm_fullSelection = fullSelection, nm_manifest = manifest, nm_supply = supplyAmount,
            nm_exclusions = exclusions, nm_entries = entries, nm_feasibility = feasibility\<rparr>)))))"

section \<open>Canonical plan text and digest\<close>

definition assertCanonicalPayoutObject :: "jsval \<Rightarrow> unit res" where
  "assertCanonicalPayoutObject v =
     (if \<not> isPlainObject v then Inl (JsError ''direct payout plan canonical object must be plain'')
      else if list_ex (\<lambda>k. k \<in> set forbiddenKeys) (ownKeys v)
      then Inl (JsError ''direct payout plan canonical object key is unsupported'')
      else Inr ())"

fun canonicalPayoutPlanJsonUnchecked :: "jsval \<Rightarrow> string res" where
  "canonicalPayoutPlanJsonUnchecked JNull = Inr ''null''"
| "canonicalPayoutPlanJsonUnchecked (JStr s) = Inr (json_string s)"
| "canonicalPayoutPlanJsonUnchecked (JBool b) = Inr (if b then ''true'' else ''false'')"
| "canonicalPayoutPlanJsonUnchecked (JNum i) = Inr (json_int i)"
| "canonicalPayoutPlanJsonUnchecked (JFrac t) = Inr t"
| "canonicalPayoutPlanJsonUnchecked JNonFinite = Inl (JsError ''direct payout plan canonical number is invalid'')"
| "canonicalPayoutPlanJsonUnchecked (JArr xs) =
     bindE (mapE (\<lambda>_ x. canonicalPayoutPlanJsonUnchecked x) 0 xs) (\<lambda>ts. Inr (''['' @ json_join ts @ '']''))"
| "canonicalPayoutPlanJsonUnchecked (JObj ps) =
     bindE (assertCanonicalPayoutObject (JObj ps)) (\<lambda>_.
     bindE (mapE (\<lambda>_ p. bindE (canonicalPayoutPlanJsonUnchecked (snd p)) (\<lambda>t. Inr (json_string (fst p) @ '':'' @ t))) 0 (sort_key fst ps))
       (\<lambda>ts. Inr (''{'' @ json_join ts @ ''}'')))"
| "canonicalPayoutPlanJsonUnchecked (JInst ps) = Inl (JsError ''direct payout plan canonical object must be plain'')"
| "canonicalPayoutPlanJsonUnchecked JUndefined = Inl (JsError ''direct payout plan canonical value type undefined is unsupported'')"
| "canonicalPayoutPlanJsonUnchecked JFun = Inl (JsError ''direct payout plan canonical value type function is unsupported'')"

definition canonicalPayoutPlanJson :: "jsval \<Rightarrow> string res" where
  "canonicalPayoutPlanJson v =
     bindE (assertBoundedCanonicalValue v ''direct payout plan'' payout_limits) (\<lambda>_. canonicalPayoutPlanJsonUnchecked v)"

definition payoutPlanDigest :: "(string \<Rightarrow> string) \<Rightarrow> jsval \<Rightarrow> string res" where
  "payoutPlanDigest sha v = bindE (canonicalPayoutPlanJson v) (\<lambda>t. Inr (''sha256:'' @ sha t))"

section \<open>Compiling the plan\<close>

record allocation =
  al_recipient :: string
  al_hkmnBalance :: typed_amount
  al_amount :: typed_amount

record payout_plan =
  pp_schema :: jsval
  pp_cycleId :: string
  pp_eligibility :: jsval
  pp_returnEvidence :: return_binding
  pp_returnDelta :: typed_amount
  pp_previousDust :: typed_amount
  pp_previousDustSource :: jsval
  pp_distributablePool :: typed_amount
  pp_totalEligibleHkmn :: typed_amount
  pp_allocations :: "allocation list"
  pp_totalAllocated :: typed_amount
  pp_dust :: typed_amount
  pp_feasibility :: jsval
  pp_outcome :: string
  pp_payableRecipientCount :: nat
  pp_planDigest :: string

definition jsval_of_allocation :: "allocation \<Rightarrow> jsval" where
  "jsval_of_allocation a = JObj [(''recipient'', JStr (al_recipient a)), (''hkmnBalance'', jsval_of_amount (al_hkmnBalance a)),
     (''amount'', jsval_of_amount (al_amount a))]"

definition jsval_of_binding :: "return_binding \<Rightarrow> jsval" where
  "jsval_of_binding b = JObj [(''operations'', JStr (rb_operations b)), (''assetId'', JStr (rb_assetId b)),
     (''evidenceDigest'', JStr (rb_evidenceDigest b))]"

definition unsignedPlan :: "payout_plan \<Rightarrow> (string \<times> jsval) list" where
  "unsignedPlan p =
     [(''schema'', pp_schema p), (''cycleId'', JStr (pp_cycleId p)), (''eligibility'', pp_eligibility p),
      (''returnEvidence'', jsval_of_binding (pp_returnEvidence p)), (''returnDelta'', jsval_of_amount (pp_returnDelta p)),
      (''previousDust'', jsval_of_amount (pp_previousDust p)), (''previousDustSource'', pp_previousDustSource p),
      (''distributablePool'', jsval_of_amount (pp_distributablePool p)), (''totalEligibleHkmn'', jsval_of_amount (pp_totalEligibleHkmn p)),
      (''allocations'', JArr (map jsval_of_allocation (pp_allocations p))), (''totalAllocated'', jsval_of_amount (pp_totalAllocated p)),
      (''dust'', jsval_of_amount (pp_dust p)), (''feasibility'', pp_feasibility p), (''outcome'', JStr (pp_outcome p))]"

definition directPayoutPlanDigest :: "(string \<Rightarrow> string) \<Rightarrow> payout_plan \<Rightarrow> string res" where
  "directPayoutPlanDigest sha p = payoutPlanDigest sha (JObj (unsignedPlan p))"

definition payoutShare :: "nat \<Rightarrow> nat \<Rightarrow> nat \<Rightarrow> nat" where
  "payoutShare pool totalEligible balance = (let numerator = balance * pool in numerator div totalEligible)"

text \<open>The candidates: recipient, balance and floored amount; none when nobody is eligible.\<close>

definition candidates :: "nat \<Rightarrow> (string \<times> typed_amount) list \<Rightarrow> (string \<times> typed_amount \<times> nat) list" where
  "candidates pool entries =
     (let totalEligible = eligibleTotal entries in
      if totalEligible = 0 then []
      else map (\<lambda>e. (fst e, snd e, payoutShare pool totalEligible (nat_of_dec (ta_amountAtomic (snd e))))) entries)"

definition makeAllocation :: "string \<Rightarrow> nat \<Rightarrow> string \<times> typed_amount \<times> nat \<Rightarrow> allocation res" where
  "makeAllocation assetId i c =
     bindE (createNativePayoutAmount (JStr assetId) (JStr (dec_of_nat (snd (snd c))))) (\<lambda>amount.
       Inr \<lparr>al_recipient = fst c, al_hkmnBalance = fst (snd c), al_amount = amount\<rparr>)"

definition allocatedTotal :: "allocation list \<Rightarrow> nat" where
  "allocatedTotal as = sum_list (map (\<lambda>a. nat_of_dec (ta_amountAtomic (al_amount a))) as)"

definition eligibilityProps :: "normalized_manifest \<Rightarrow> jsval \<Rightarrow> jsval" where
  "eligibilityProps nm selection =
     (let m = nm_manifest nm in
      JObj ((if falsy selection then [] else [(''selection'', selection)])
        @ [(''snapshotBlock'', jprop m ''snapshotBlock''), (''snapshotHash'', JStr (toLowerCase (str_of (jprop m ''snapshotHash'')))),
           (''finality'', jprop m ''finality''), (''supply'', jsval_of_amount (nm_supply nm)),
           (''exclusions'', JArr (map jsval_of_excluded (nm_exclusions nm))), (''logCompleteness'', jprop m ''logCompleteness''),
           (''holderSnapshotDigest'', jprop m ''holderSnapshotDigest''), (''launchManifestDigest'', jprop m ''launchManifestDigest'')]))"

definition planSchema :: "jsval \<Rightarrow> normalized_manifest \<Rightarrow> jsval" where
  "planSchema legacyPlanSchema nm =
     (if legacyPlanSchema \<noteq> JNull then legacyPlanSchema
      else JStr (if falsy (nm_selection nm) then ''hookemon.direct-payout-plan.v2'' else ''hookemon.direct-payout-plan.v4''))"

definition OUTCOME_ALLOCATED :: string where "OUTCOME_ALLOCATED = ''ALLOCATED''"
definition OUTCOME_NON_SPENDING :: string where "OUTCOME_NON_SPENDING = ''NON_SPENDING_NO_ELIGIBLE_HOLDERS''"

definition assemblePlan :: "jsval \<Rightarrow> string \<Rightarrow> normalized_manifest \<Rightarrow> return_binding \<Rightarrow> typed_amount \<Rightarrow> typed_amount \<Rightarrow> jsval
  \<Rightarrow> typed_amount \<Rightarrow> allocation list \<Rightarrow> typed_amount \<Rightarrow> typed_amount \<Rightarrow> payout_plan" where
  "assemblePlan legacyPlanSchema cycleId eligibility returnEvidence returnDelta carryInDust carryInDustSource
     distributablePool allocations totalAllocated dust =
     (let selection = if legacyPlanSchema = JStr ''hookemon.direct-payout-plan.v3'' then nm_fullSelection eligibility else nm_selection eligibility;
          totalEligible = eligibleTotal (nm_entries eligibility) in
      \<lparr>pp_schema = planSchema legacyPlanSchema eligibility, pp_cycleId = cycleId,
       pp_eligibility = eligibilityProps eligibility selection, pp_returnEvidence = returnEvidence, pp_returnDelta = returnDelta,
       pp_previousDust = carryInDust, pp_previousDustSource = carryInDustSource, pp_distributablePool = distributablePool,
       pp_totalEligibleHkmn = (nm_supply eligibility)\<lparr>ta_amountAtomic := dec_of_nat totalEligible\<rparr>,
       pp_allocations = allocations, pp_totalAllocated = totalAllocated, pp_dust = dust, pp_feasibility = nm_feasibility eligibility,
       pp_outcome = (if totalEligible = 0 then OUTCOME_NON_SPENDING else OUTCOME_ALLOCATED),
       pp_payableRecipientCount = length (filter (\<lambda>a. ta_amountAtomic (al_amount a) \<noteq> ''0'') allocations),
       pp_planDigest = []\<rparr>)"

text \<open>Arguments left out are \<open>JNull\<close> for \<open>previousDustSource\<close> and \<open>legacyPlanSchema\<close>.\<close>

definition compileDirectPayoutPlan :: "(string \<Rightarrow> string) \<Rightarrow> jsval \<Rightarrow> jsval \<Rightarrow> jsval \<Rightarrow> jsval \<Rightarrow> jsval \<Rightarrow> jsval \<Rightarrow> jsval \<Rightarrow> payout_plan res" where
  "compileDirectPayoutPlan sha cycleIdValue eligibilityManifest finalizedReturn previousDust previousDustSource returnBinding legacyPlanSchema =
     (if \<not> nonEmptyString cycleIdValue then Inl (JsError ''payout plan cycleId is invalid'')
      else let cycleId = str_of cycleIdValue in
      bindE (normalizeEligibilityManifest sha eligibilityManifest cycleId) (\<lambda>eligibility.
      bindE (normalizeReturnBinding returnBinding) (\<lambda>returnEvidence.
      bindE (copyPrincipalAmount finalizedReturn ''finalized return'' (rb_assetId returnEvidence)) (\<lambda>returnDelta.
      bindE (copyPrincipalAmount previousDust ''previous dust'' (rb_assetId returnEvidence)) (\<lambda>carryInDust.
      bindE (normalizePreviousDustSource previousDustSource carryInDust) (\<lambda>carryInDustSource.
      let pool = nat_of_dec (ta_amountAtomic returnDelta) + nat_of_dec (ta_amountAtomic carryInDust) in
      if pool > MAX_UINT256 then Inl (JsError ''direct payout distributable pool exceeds uint256'')
      else
      let cs = candidates pool (nm_entries eligibility);
          dustAtomic = int pool - int (sum_list (map (\<lambda>c. snd (snd c)) cs));
          native = (\<lambda>n. createNativePayoutAmount (JStr (rb_assetId returnEvidence)) (JStr n)) in
      bindE (mapE (makeAllocation (rb_assetId returnEvidence)) 0 (sort_key fst cs)) (\<lambda>allocations.
      bindE (native (json_int dustAtomic)) (\<lambda>dust.
      bindE (native (dec_of_nat pool)) (\<lambda>distributablePool.
      bindE (native (dec_of_nat (allocatedTotal allocations))) (\<lambda>totalAllocated.
      let plan = assemblePlan legacyPlanSchema cycleId eligibility returnEvidence returnDelta carryInDust carryInDustSource
            distributablePool allocations totalAllocated dust in
      bindE (directPayoutPlanDigest sha plan) (\<lambda>d. Inr (plan\<lparr>pp_planDigest := d\<rparr>))))))))))))"

section \<open>Supplementary plans\<close>

definition assertSupplementaryIndex :: "jsval \<Rightarrow> int res" where
  "assertSupplementaryIndex v =
     (if \<not> isSafeInteger v \<or> num_of v < 1
      then Inl (JsError ''supplementary payout plan supplementary index must be a positive safe integer'') else Inr (num_of v))"

record supplementary_plan =
  sp_schema :: string
  sp_cycleId :: string
  sp_manifestId :: string
  sp_supplementaryIndex :: int
  sp_payoutPlan :: payout_plan
  sp_supplementaryPlanDigest :: string

definition jsval_of_plan :: "payout_plan \<Rightarrow> jsval" where
  "jsval_of_plan p = JObj (unsignedPlan p @ [(''payableRecipientCount'', JNum (int (pp_payableRecipientCount p))),
     (''planDigest'', JStr (pp_planDigest p))])"

definition unsignedSupplementaryPlan :: "supplementary_plan \<Rightarrow> jsval" where
  "unsignedSupplementaryPlan s = JObj [(''schema'', JStr (sp_schema s)), (''cycleId'', JStr (sp_cycleId s)), (''manifestId'', JStr (sp_manifestId s)),
     (''supplementaryIndex'', JNum (sp_supplementaryIndex s)), (''payoutPlan'', jsval_of_plan (sp_payoutPlan s))]"

definition supplementaryPayoutPlanDigest :: "(string \<Rightarrow> string) \<Rightarrow> supplementary_plan \<Rightarrow> string res" where
  "supplementaryPayoutPlanDigest sha s = payoutPlanDigest sha (unsignedSupplementaryPlan s)"

definition compileSupplementaryDirectPayoutPlan :: "(string \<Rightarrow> string) \<Rightarrow> jsval \<Rightarrow> jsval \<Rightarrow> jsval \<Rightarrow> jsval \<Rightarrow> jsval \<Rightarrow> jsval \<Rightarrow> jsval \<Rightarrow> jsval
  \<Rightarrow> supplementary_plan res" where
  "compileSupplementaryDirectPayoutPlan sha cycleIdValue supplementaryIndex eligibilityManifest finalizedReturn previousDust previousDustSource
     returnBinding legacyPlanSchema =
     bindE (assertSupplementaryIndex supplementaryIndex) (\<lambda>index.
     bindE (compileDirectPayoutPlan sha cycleIdValue eligibilityManifest finalizedReturn previousDust previousDustSource returnBinding legacyPlanSchema) (\<lambda>payoutPlan.
     let s = \<lparr>sp_schema = (if pp_schema payoutPlan = JStr ''hookemon.direct-payout-plan.v4'' then ''hookemon.supplementary-direct-payout-plan.v4''
            else if pp_schema payoutPlan = JStr ''hookemon.direct-payout-plan.v3'' then ''hookemon.supplementary-direct-payout-plan.v3''
            else ''hookemon.supplementary-direct-payout-plan.v2''),
           sp_cycleId = pp_cycleId payoutPlan, sp_manifestId = pp_cycleId payoutPlan @ '':supplementary:'' @ json_int index,
           sp_supplementaryIndex = index, sp_payoutPlan = payoutPlan, sp_supplementaryPlanDigest = []\<rparr> in
     bindE (supplementaryPayoutPlanDigest sha s) (\<lambda>d. Inr (s\<lparr>sp_supplementaryPlanDigest := d\<rparr>))))"

section \<open>Inversion\<close>

definition amt :: "typed_amount \<Rightarrow> nat" where
  "amt a = nat_of_dec (ta_amountAtomic a)"

definition nativeAmount :: "string \<Rightarrow> typed_amount" where
  "nativeAmount n = \<lparr>ta_chainId = NATIVE_PAYOUT_CHAIN_ID, ta_assetId = ''native'', ta_decimals = NATIVE_PAYOUT_DECIMALS, ta_amountAtomic = n\<rparr>"

lemma amt_nativeAmount [simp]: "amt (nativeAmount (dec_of_nat n)) = n" "amt (nativeAmount s) = nat_of_dec s"
  by (simp_all add: amt_def nativeAmount_def)

lemma assertAtomic_Inr [res_simps]:
  "assertAtomic v label = Inr s \<longleftrightarrow> v = JStr s \<and> is_decimal s \<and> nat_of_dec s \<le> MAX_UINT256"
  by (auto simp: assertAtomic_def str_matches_iff)

lemma assertExactFields_Inr [res_simps]:
  "assertExactFields v fs label = Inr w \<longleftrightarrow> w = v \<and> isPlainObject v \<and> exactKeys v fs"
  by (auto simp: assertExactFields_def assertPlainObject_def)

lemma assertPayoutAddress_Inr [res_simps]:
  "assertPayoutAddress v label = Inr a \<longleftrightarrow> str_matches (any_hex_pattern 40) v \<and> a = toLowerCase (str_of v)"
  by (auto simp: assertPayoutAddress_def)

lemma createNativePayoutAmount_Inr [res_simps]:
  "createNativePayoutAmount a v = Inr t \<longleftrightarrow>
     (\<exists>s. a = JStr ''native'' \<and> v = JStr s \<and> is_decimal s \<and> nat_of_dec s \<le> MAX_UINT256 \<and> t = nativeAmount s)"
  by (auto simp: createNativePayoutAmount_def res_simps assertNativeAsset_def nativeAmount_def)

lemma copyPrincipalAmount_Inr:
  "copyPrincipalAmount v label a = Inr t \<Longrightarrow> a = ''native'' \<and> jprop v ''amountAtomic'' = JStr (ta_amountAtomic t)
     \<and> is_decimal (ta_amountAtomic t) \<and> amt t \<le> MAX_UINT256 \<and> t = nativeAmount (ta_amountAtomic t)"
  by (auto simp: copyPrincipalAmount_def res_simps assertNativeAsset_def amt_def nativeAmount_def split: if_splits)

definition hkmn_of :: "jsval \<Rightarrow> typed_amount" where
  "hkmn_of v = \<lparr>ta_chainId = ''4663'', ta_assetId = toLowerCase (str_of (jprop v ''assetId'')), ta_decimals = num_of (jprop v ''decimals''),
     ta_amountAtomic = str_of (jprop v ''amountAtomic'')\<rparr>"

lemma copyHkmnAmount_Inr:
  "copyHkmnAmount v label expected = Inr a \<longleftrightarrow> isOk (copyHkmnAmount v [] expected) \<and> a = hkmn_of v \<and> is_decimal (ta_amountAtomic a)
     \<and> 0 < amt a \<and> amt a \<le> MAX_UINT256"
proof -
  have pos: "is_decimal s \<Longrightarrow> s \<noteq> ''0'' \<Longrightarrow> 0 < nat_of_dec s" for s using decimal_eq_zero_iff by auto
  have eq: "(isOk (copyHkmnAmount v [] expected) \<longleftrightarrow> isOk (copyHkmnAmount v label expected))
      \<and> (copyHkmnAmount v label expected = Inr a \<longrightarrow> a = hkmn_of v \<and> is_decimal (ta_amountAtomic a) \<and> 0 < amt a \<and> amt a \<le> MAX_UINT256)
      \<and> (isOk (copyHkmnAmount v label expected) \<longrightarrow> copyHkmnAmount v label expected = Inr (hkmn_of v))"
    unfolding isOk_iff copyHkmnAmount_def res_simps hkmn_of_def amt_def
    by (auto simp: res_simps pos split: option.splits)
  then show ?thesis by (auto simp: isOk_iff)
qed

definition okEntry :: "typed_amount \<Rightarrow> jsval \<Rightarrow> bool" where
  "okEntry supplyAmount e = (isPlainObject e \<and> exactKeys e [''recipient'', ''hkmnBalance''] \<and> str_matches (any_hex_pattern 40) (jprop e ''recipient'')
     \<and> isOk (copyHkmnAmount (jprop e ''hkmnBalance'') [] (Some supplyAmount)))"

definition entry_of :: "jsval \<Rightarrow> string \<times> typed_amount" where
  "entry_of e = (toLowerCase (str_of (jprop e ''recipient'')), hkmn_of (jprop e ''hkmnBalance''))"

lemma normalizeEntry_Inr:
  "normalizeEntry supplyAmount i e acc = Inr r \<longleftrightarrow> okEntry supplyAmount e \<and> fst (entry_of e) \<notin> set (map fst acc) \<and> r = acc @ [entry_of e]"
proof -
  have "isOk (copyHkmnAmount v [] x) \<Longrightarrow> is_decimal (ta_amountAtomic (hkmn_of v)) \<and> 0 < amt (hkmn_of v) \<and> amt (hkmn_of v) \<le> MAX_UINT256" for v x
    unfolding isOk_iff by (metis copyHkmnAmount_Inr)
  then show ?thesis
    unfolding normalizeEntry_def Let_def res_simps copyHkmnAmount_Inr okEntry_def entry_of_def
    by (auto simp del: set_map)
qed

lemma okEntry_pos: "okEntry whole e \<Longrightarrow> 0 < amt (snd (entry_of e))"
  unfolding okEntry_def isOk_iff entry_of_def using copyHkmnAmount_Inr by fastforce

lemma normalizeEntries_Inr:
  assumes "normalizeEntries v whole = Inr es"
  shows "sorted_wrt (<) (map fst es) \<and> (\<forall>e \<in> set es. 0 < amt (snd e)) \<and> length es = length (arr_of v)"
proof -
  from assms obtain ns where ns: "foldE (normalizeEntry whole) 0 (arr_of v) [] = Inr ns" "es = sort_key fst ns"
    by (auto simp: normalizeEntries_def res_simps)
  from ns(1) have n: "list_all (okEntry whole) (arr_of v)" "distinct (map fst ns)" "ns = map entry_of (arr_of v)"
    using foldE_collect [of "normalizeEntry whole" "okEntry whole" entry_of "[]" 0 "arr_of v" ns, OF normalizeEntry_Inr] by auto
  have "sorted_wrt (<) (map fst es)" using sorted_wrt_sort_key [OF n(2)] by (simp add: ns(2) sorted_wrt_map)
  moreover have "\<forall>e \<in> set es. 0 < amt (snd e)" using n(1) okEntry_pos by (auto simp: ns(2) n(3) list_all_iff)
  ultimately show ?thesis by (simp add: ns(2) n(3))
qed

lemma copyNativeAmount_Inr: "copyNativeAmount v label = Inr a \<Longrightarrow> ta_amountAtomic a = str_of (jprop v ''amountAtomic'')"
  by (auto simp: copyNativeAmount_def res_simps)

text \<open>The fee envelope of an accepted manifest: the figures agree and the balance covers them.\<close>

definition envelopeHolds :: "jsval \<Rightarrow> nat \<Rightarrow> bool" where
  "envelopeHolds feasibility n =
     (let num = (\<lambda>f. nat_of_dec (str_of (jprop (jprop feasibility f) ''amountAtomic'')));
          fee = n * nat_of_dec (str_of (jprop feasibility ''measuredTransferGas'')) * nat_of_dec (str_of (jprop feasibility ''maxGasPriceWei'')) in
      num ''estimatedNativeFee'' = fee \<and> num ''requiredNativeAmount'' = fee + num ''nativeReserve''
      \<and> num ''requiredNativeAmount'' \<le> num ''nativeBalance'')"

lemma assertEnvelope_Inr:
  assumes "assertEnvelope v n = Inr w"
  shows "jprop v ''feasible'' = JBool True" "envelopeHolds v n"
  using assms unfolding assertEnvelope_def Let_def res_simps de_Morgan_disj not_not not_less envelopeHolds_def assertPlainObject_def
  by (auto dest!: copyNativeAmount_Inr)

lemma normalizeEligibilityManifest_Inr:
  assumes "normalizeEligibilityManifest sha v cycleId = Inr nm"
  shows "sorted_wrt (<) (map fst (nm_entries nm))" "\<forall>e \<in> set (nm_entries nm). 0 < amt (snd e)"
    "eligibleTotal (nm_entries nm) \<le> amt (nm_supply nm)" "length (nm_entries nm) \<le> DIRECT_PAYOUT_RECIPIENT_LIMIT"
    "fst ` set (nm_entries nm) \<inter> fst ` set (nm_exclusions nm) = {}"
    "jprop (jprop (nm_manifest nm) ''feasibility'') ''feasible'' = JBool True"
    "envelopeHolds (jprop (nm_manifest nm) ''feasibility'') (length (nm_entries nm))"
proof -
  let ?exs = "\<lambda>m. map (\<lambda>x. (toLowerCase (str_of (jprop x ''address'')), str_of (jprop x ''reason''))) (arr_of (jprop m ''exclusions''))"
  from assms obtain manifest selection fullSelection whole es feas where
      es: "normalizeEntries (jprop manifest ''entries'') whole = Inr es" and lim: "length es \<le> DIRECT_PAYOUT_RECIPIENT_LIMIT"
    and tot: "eligibleTotal es \<le> nat_of_dec (ta_amountAtomic whole)"
    and exs: "\<not> list_ex (\<lambda>e. fst e \<in> set (map fst (?exs manifest))) es"
    and env: "assertEnvelope (jprop manifest ''feasibility'') (length es) = Inr feas"
    and nmeq: "nm = \<lparr>nm_selection = selection, nm_fullSelection = fullSelection, nm_manifest = manifest, nm_supply = whole,
        nm_exclusions = ?exs manifest, nm_entries = es, nm_feasibility = feas\<rparr>"
    unfolding normalizeEligibilityManifest_def Let_def bindE_Inr_iff throw_if_Inr_iff not_less split_paired_Ex prod.case sum.inject
    by (elim exE conjE) (rule that, (assumption | erule sym)+)
  have nm: "nm_entries nm = es" "nm_supply nm = whole" "nm_manifest nm = manifest" by (simp_all add: nmeq)
  have ex: "\<not> list_ex (\<lambda>e. fst e \<in> set (map fst (nm_exclusions nm))) es" using exs by (simp add: nmeq)
  note e = normalizeEntries_Inr [OF es] and f = assertEnvelope_Inr [OF env]
  from ex have "fst ` set es \<inter> fst ` set (nm_exclusions nm) = {}" by (auto simp: list_ex_iff)
  with e f lim tot show "sorted_wrt (<) (map fst (nm_entries nm))" "\<forall>e \<in> set (nm_entries nm). 0 < amt (snd e)"
    "eligibleTotal (nm_entries nm) \<le> amt (nm_supply nm)" "length (nm_entries nm) \<le> DIRECT_PAYOUT_RECIPIENT_LIMIT"
    "fst ` set (nm_entries nm) \<inter> fst ` set (nm_exclusions nm) = {}"
    "jprop (jprop (nm_manifest nm) ''feasibility'') ''feasible'' = JBool True"
    "envelopeHolds (jprop (nm_manifest nm) ''feasibility'') (length (nm_entries nm))"
    by (simp_all add: nm amt_def)
qed

interpretation payout: floor_shares pool "Suc k" "payoutShare pool (Suc k)" for pool k
  by unfold_locales (simp_all only: payoutShare_def Let_def floor_division zero_less_Suc)

definition entryShare :: "nat \<Rightarrow> (string \<times> typed_amount) list \<Rightarrow> string \<times> typed_amount \<Rightarrow> nat" where
  "entryShare pool entries e = payoutShare pool (eligibleTotal entries) (amt (snd e))"

definition allocate :: "nat \<Rightarrow> (string \<times> typed_amount) list \<Rightarrow> string \<times> typed_amount \<Rightarrow> allocation" where
  "allocate pool entries e = \<lparr>al_recipient = fst e, al_hkmnBalance = snd e, al_amount = nativeAmount (dec_of_nat (entryShare pool entries e))\<rparr>"

lemma eligibleTotal_zero_iff: "\<forall>e \<in> set es. 0 < amt (snd e) \<Longrightarrow> eligibleTotal es = 0 \<longleftrightarrow> es = []"
  by (cases es) (auto simp: eligibleTotal_def amt_def)

lemma entryShares_le: "sum_list (map (entryShare pool es) es) \<le> pool" if nz: "eligibleTotal es \<noteq> 0"
proof -
  obtain k where k: "eligibleTotal es = Suc k" using nz by (cases "eligibleTotal es") auto
  from payout.shares_within_pool [of "map (\<lambda>e. amt (snd e)) es" k pool] show ?thesis
    using k by (simp add: entryShare_def [abs_def] comp_def eligibleTotal_def amt_def)
qed

lemma entryShares_dust: "pool - sum_list (map (entryShare pool es) es) < length es" if nz: "eligibleTotal es \<noteq> 0"
proof -
  obtain k where k: "eligibleTotal es = Suc k" using nz by (cases "eligibleTotal es") auto
  from payout.dust_below_length [of "map (\<lambda>e. amt (snd e)) es" k pool] show ?thesis
    using k by (simp add: entryShare_def [abs_def] comp_def eligibleTotal_def amt_def)
qed

lemma mapE_makeAllocation:
  "mapE (makeAllocation a) i cs = Inr as \<Longrightarrow>
     as = map (\<lambda>c. \<lparr>al_recipient = fst c, al_hkmnBalance = fst (snd c), al_amount = nativeAmount (dec_of_nat (snd (snd c)))\<rparr>) cs"
proof (induction cs arbitrary: i as)
  case Nil
  then show ?case by simp
next
  case (Cons c cs)
  then show ?case by (auto simp: res_simps makeAllocation_def)
qed

lemma compile_Inr:
  assumes "compileDirectPayoutPlan sha cyc man ret prev src binding legacy = Inr p"
  obtains nm where "normalizeEligibilityManifest sha man (str_of cyc) = Inr nm" "pp_cycleId p = str_of cyc"
    "amt (pp_distributablePool p) = amt (pp_returnDelta p) + amt (pp_previousDust p)" "amt (pp_distributablePool p) \<le> MAX_UINT256"
    "pp_allocations p = (if nm_entries nm = [] then [] else map (allocate (amt (pp_distributablePool p)) (nm_entries nm)) (nm_entries nm))"
    "amt (pp_totalAllocated p) = allocatedTotal (pp_allocations p)"
    "amt (pp_totalAllocated p) + amt (pp_dust p) = amt (pp_distributablePool p)"
    "pp_outcome p = (if nm_entries nm = [] then OUTCOME_NON_SPENDING else OUTCOME_ALLOCATED)"
    "copyPrincipalAmount ret ''finalized return'' ''native'' = Inr (pp_returnDelta p)"
    "copyPrincipalAmount prev ''previous dust'' ''native'' = Inr (pp_previousDust p)"
    "directPayoutPlanDigest sha p = Inr (pp_planDigest p)" "pp_feasibility p = nm_feasibility nm"
proof -
  let ?pool = "\<lambda>rd cd. nat_of_dec (ta_amountAtomic rd) + nat_of_dec (ta_amountAtomic cd)"
  from assms obtain nm re rd cd cds as du dp ta d where nm: "normalizeEligibilityManifest sha man (str_of cyc) = Inr nm"
    and rd: "copyPrincipalAmount ret ''finalized return'' (rb_assetId re) = Inr rd"
    and cd: "copyPrincipalAmount prev ''previous dust'' (rb_assetId re) = Inr cd"
    and pool: "?pool rd cd \<le> MAX_UINT256"
    and as: "mapE (makeAllocation (rb_assetId re)) 0 (sort_key fst (candidates (?pool rd cd) (nm_entries nm))) = Inr as"
    and du: "createNativePayoutAmount (JStr (rb_assetId re))
        (JStr (json_int (int (?pool rd cd) - int (sum_list (map (\<lambda>c. snd (snd c)) (candidates (?pool rd cd) (nm_entries nm))))))) = Inr du"
    and dp: "createNativePayoutAmount (JStr (rb_assetId re)) (JStr (dec_of_nat (?pool rd cd))) = Inr dp"
    and ta: "createNativePayoutAmount (JStr (rb_assetId re)) (JStr (dec_of_nat (allocatedTotal as))) = Inr ta"
    and d: "directPayoutPlanDigest sha (assemblePlan legacy (str_of cyc) nm re rd cd cds dp as ta du) = Inr d"
    and p: "p = assemblePlan legacy (str_of cyc) nm re rd cd cds dp as ta du\<lparr>pp_planDigest := d\<rparr>"
    unfolding compileDirectPayoutPlan_def Let_def bindE_Inr_iff throw_if_Inr_iff not_less sum.inject
    by (elim exE conjE) (rule that, (assumption | erule sym)+)
  let ?es = "nm_entries nm" and ?n = "?pool rd cd"
  note E = normalizeEligibilityManifest_Inr [OF nm]
  have nat: "rb_assetId re = ''native''" "amt dp = ?n" "amt ta = allocatedTotal as" using copyPrincipalAmount_Inr [OF rd] dp ta
    by (auto simp: createNativePayoutAmount_Inr)
  have zero: "eligibleTotal ?es = 0 \<longleftrightarrow> ?es = []" by (rule eligibleTotal_zero_iff [OF E(2)])
  have "sorted (map fst ?es)" using E(1) by (simp add: strict_sorted_iff)
  then have srt: "sort_key fst (candidates ?n ?es) = candidates ?n ?es"
    by (intro sort_key_id_if_sorted) (simp add: candidates_def Let_def comp_def)
  have al: "as = (if ?es = [] then [] else map (allocate ?n ?es) ?es)"
    using mapE_makeAllocation [OF as] zero unfolding srt
    by (simp add: candidates_def Let_def allocate_def [abs_def] entryShare_def amt_def)
  have tot: "sum_list (map (\<lambda>c. snd (snd c)) (candidates ?n ?es)) = allocatedTotal as"
    using zero by (simp add: al candidates_def Let_def allocatedTotal_def allocate_def entryShare_def amt_def comp_def nativeAmount_def)
  have le: "allocatedTotal as \<le> ?n"
    using zero entryShares_le [of ?es ?n] by (simp add: al allocatedTotal_def allocate_def comp_def nativeAmount_def)
  have "amt du = ?n - allocatedTotal as"
    using du le unfolding tot by (auto simp: createNativePayoutAmount_Inr simp flip: of_nat_diff of_nat_add)
  then have "amt ta + amt du = amt dp" using nat le by simp
  moreover have "directPayoutPlanDigest sha p = Inr (pp_planDigest p)"
    using d by (simp add: p directPayoutPlanDigest_def unsignedPlan_def)
  moreover have P: "pp_cycleId p = str_of cyc" "pp_returnDelta p = rd" "pp_previousDust p = cd" "pp_distributablePool p = dp" "pp_allocations p = as"
      "pp_totalAllocated p = ta" "pp_dust p = du" "pp_feasibility p = nm_feasibility nm"
      "pp_outcome p = (if ?es = [] then OUTCOME_NON_SPENDING else OUTCOME_ALLOCATED)"
    by (simp_all add: p assemblePlan_def Let_def zero)
  moreover have "?n = amt rd + amt cd" by (simp add: amt_def)
  ultimately show ?thesis
    by (intro that [OF nm]) (use nat pool al rd cd in simp_all)
qed

section \<open>A concrete payout\<close>

text \<open>Values whose canonical text is defined: JSON data without the forbidden keys.\<close>

fun canonical_value :: "jsval \<Rightarrow> bool" where
  "canonical_value JUndefined = False"
| "canonical_value JFun = False"
| "canonical_value JNonFinite = False"
| "canonical_value (JInst ps) = False"
| "canonical_value (JArr xs) = list_all canonical_value xs"
| "canonical_value (JObj ps) = list_all (\<lambda>p. fst p \<notin> set forbiddenKeys \<and> canonical_value (snd p)) ps"
| "canonical_value v = True"

lemma canonicalPayoutPlanJsonUnchecked_ok: "canonical_value v \<Longrightarrow> isOk (canonicalPayoutPlanJsonUnchecked v)"
proof (induction v rule: canonicalPayoutPlanJsonUnchecked.induct)
  case (7 xs)
  then show ?case by (auto simp: list_all_iff intro!: bindE_ok mapE_ok)
next
  case (8 ps)
  have "isOk (assertCanonicalPayoutObject (JObj ps))"
    using 8 by (auto simp: assertCanonicalPayoutObject_def isPlainObject_def ownKeys_def list_all_iff list_ex_iff)
  moreover have "isOk (canonicalPayoutPlanJsonUnchecked (snd p))" if "p \<in> set ps" for p
    using 8 that calculation by (auto simp: list_all_iff isOk_iff)
  ultimately show ?case by (auto intro!: bindE_ok mapE_ok)
qed simp_all

definition hkmn :: "string \<Rightarrow> jsval" where
  "hkmn n = JObj [(''chainId'', JStr ''4663''), (''assetId'', JStr addr_c), (''decimals'', JNum 18), (''amountAtomic'', JStr n)]"

definition wei :: "string \<Rightarrow> jsval" where
  "wei n = JObj [(''chainId'', JStr ''4663''), (''assetId'', JStr ''native''), (''decimals'', JNum 18), (''amountAtomic'', JStr n)]"

definition ex_feasibility :: jsval where
  "ex_feasibility = JObj [(''recipientCount'', JNum 2), (''transactionCount'', JNum 2), (''maxRecipientCount'', JNum 9), (''maxTransactionCount'', JNum 9),
     (''measuredTransferGas'', JStr ''3''), (''maxGasPriceWei'', JStr ''1''), (''estimatedNativeFee'', wei ''6''), (''nativeReserve'', wei ''1''),
     (''nativeBalance'', wei ''8''), (''requiredNativeAmount'', wei ''7''), (''feasible'', JBool True), (''reason'', JNull)]"

definition ex_source :: jsval where
  "ex_source = JObj [(''sourceId'', JStr ''rpc''), (''transferLogDigest'', JStr ex_digest), (''logCount'', JNum 4)]"

definition ex_entry :: "string \<Rightarrow> string \<Rightarrow> jsval" where
  "ex_entry a n = JObj [(''recipient'', JStr a), (''hkmnBalance'', hkmn n)]"

definition ex_manifest_props :: "(string \<times> jsval) list" where
  "ex_manifest_props = [(''cycleId'', JStr ''c1''), (''snapshotBlock'', JStr ''9''), (''snapshotHash'', JStr hash_z),
     (''finality'', JObj [(''policyId'', JStr ''p''), (''depth'', JStr ''2'')]), (''supply'', hkmn ''9''),
     (''entries'', JArr [ex_entry addr_a ''2'', ex_entry addr_b ''1'']), (''exclusions'', JArr [jsval_of_excluded (addr_c, ''pool'')]),
     (''feasibility'', ex_feasibility),
     (''logCompleteness'', JObj [(''mode'', JStr ''single-source-explicitly-allowed''), (''primary'', ex_source), (''secondary'', JNull)]),
     (''holderSnapshotDigest'', JStr ex_digest), (''launchManifestDigest'', JStr ex_digest)]"

lemma ex_digest_pattern [simp]: "digest_pattern ex_digest"
  by (simp add: ex_digest_def digest_pattern_def list_all_iff is_lower_hex_def)

lemmas shape_eval = isPlainObject_def exactKeys_def ownKeys_def hasOwn_def jprop_JObj isArray_def isInteger_def nonEmptyString_def
lemmas dec_eval = is_decimal_def is_pos_decimal_def is_digit_def nat_of_dec_def digit_val_def

lemma ex_amounts:
  "assertTypedAmount (hkmn n) l = (if is_decimal n then Inr \<lparr>ta_chainId = ''4663'', ta_assetId = addr_c, ta_decimals = 18, ta_amountAtomic = n\<rparr>
     else Inl (JsError (l @ '' amountAtomic must be a canonical decimal string'')))"
  "assertTypedAmount (wei n) l = (if is_decimal n then Inr \<lparr>ta_chainId = ''4663'', ta_assetId = ''native'', ta_decimals = 18, ta_amountAtomic = n\<rparr>
     else Inl (JsError (l @ '' amountAtomic must be a canonical decimal string'')))"
  by (simp_all add: assertTypedAmount_def hkmn_def wei_def assertExactObject_def shape_eval TYPED_AMOUNT_FIELDS_def
      Pro_Rata.assertDecimalString_def is_pos_decimal_def is_digit_def)

lemma ex_feasibility_ok:
  "ta_chainId w = ''4663'' \<Longrightarrow> assertFeasibility ex_feasibility w 2 = Inr ex_feasibility"
  by (simp add: assertFeasibility_def ex_feasibility_def assertExactObject_def shape_eval FEASIBILITY_FIELDS_def assertFeasibilityCount_def
      Pro_Rata.assertDecimalString_def dec_eval NATIVE_FIELDS_def ex_amounts assertNativeFeasibility_def)

lemma ex_logs_ok: "assertLogCompleteness (JObj [(''mode'', JStr ''single-source-explicitly-allowed''), (''primary'', ex_source), (''secondary'', JNull)])
    = Inr (JObj [(''mode'', JStr ''single-source-explicitly-allowed''), (''primary'', ex_source), (''secondary'', JNull)])"
  by (simp add: assertLogCompleteness_def assertExactObject_def shape_eval assertLogSource_def ex_source_def LOG_SOURCE_FIELDS_def)

lemma hkmn_amount: "jsval_of_amount \<lparr>ta_chainId = ''4663'', ta_assetId = addr_c, ta_decimals = 18, ta_amountAtomic = n\<rparr> = hkmn n"
  by (simp add: jsval_of_amount_def hkmn_def)

lemma ex_feasibility_copy: "copyProps ex_feasibility FEASIBILITY_FIELDS = ex_feasibility"
  by (simp add: copyProps_def ex_feasibility_def FEASIBILITY_FIELDS_def jprop_JObj)

lemma ex_manifest_ok: "createEligibilityPayoutManifest sha (JObj ex_manifest_props)
    = Inr (JObj ((''schema'', JStr ''hookemon.eligibility-payout-manifest.v1'') # ex_manifest_props))"
proof -
  let ?w = "\<lparr>ta_chainId = ''4663'', ta_assetId = addr_c, ta_decimals = 18, ta_amountAtomic = ''9''\<rparr> :: typed_amount"
  have es: "assertEligibilityEntries (JArr [ex_entry addr_a ''2'', ex_entry addr_b ''1'']) ?w
      = Inr [(addr_a, ?w\<lparr>ta_amountAtomic := ''2''\<rparr>), (addr_b, ?w\<lparr>ta_amountAtomic := ''1''\<rparr>)]"
    by (simp add: assertEligibilityEntries_def assertEligibilityEntry_def assertExactObject_def shape_eval ex_entry_def assertRecipient_def
        Let_def dec_eval ex_amounts)
  have xs: "assertExclusions (JArr [jsval_of_excluded (addr_c, ''pool'')]) = Inr [(addr_c, ''pool'')]"
    by (simp add: assertExclusions_def assertExclusion_def assertExactObject_def shape_eval jsval_of_excluded_def Let_def)
  have je: "jsval_of_entry (a, \<lparr>ta_chainId = ''4663'', ta_assetId = addr_c, ta_decimals = 18, ta_amountAtomic = n\<rparr>) = ex_entry a n" for a n
    by (simp add: jsval_of_entry_def hkmn_amount ex_entry_def)
  show ?thesis
    using ex_feasibility_ok [of ?w, unfolded numeral_2_eq_2]
    by (simp add: createEligibilityPayoutManifest_def ex_manifest_props_def assertExactObject_def shape_eval ELIGIBILITY_MANIFEST_INPUT_FIELDS_def
        Let_def Pro_Rata.assertDecimalString_def dec_eval ex_amounts es xs ex_logs_ok manifestProps_def copyProps_def [of _ "[''policyId'', ''depth'']"]
        ex_feasibility_copy je hkmn_amount)
qed

definition ex_manifest :: jsval where
  "ex_manifest = JObj ((''schema'', JStr MANIFEST_V1) # ex_manifest_props)"

definition ex_hkmn :: "string \<Rightarrow> typed_amount" where
  "ex_hkmn n = \<lparr>ta_chainId = ''4663'', ta_assetId = addr_c, ta_decimals = 18, ta_amountAtomic = n\<rparr>"

lemma ex_hkmn_amount [simp]: "ta_amountAtomic (ex_hkmn n) = n"
  by (simp add: ex_hkmn_def)

lemma ex_copy_hkmn: "is_pos_decimal n \<Longrightarrow> nat_of_dec n \<le> MAX_UINT256 \<Longrightarrow> expected \<in> {None, Some (ex_hkmn m)} \<Longrightarrow>
    copyHkmnAmount (hkmn n) l expected = Inr (ex_hkmn n)"
  by (auto simp: copyHkmnAmount_def hkmn_def ex_hkmn_def assertExactFields_def assertPlainObject_def shape_eval TYPED_AMOUNT_FIELDS_def assertAtomic_def
      is_pos_decimal_imp_decimal) (simp_all add: is_pos_decimal_def)

lemma ex_copy_wei: "is_decimal n \<Longrightarrow> nat_of_dec n \<le> MAX_UINT256 \<Longrightarrow> copyNativeAmount (wei n) l = Inr (nativeAmount n)"
  "is_decimal n \<Longrightarrow> nat_of_dec n \<le> MAX_UINT256 \<Longrightarrow> copyPrincipalAmount (wei n) l ''native'' = Inr (nativeAmount n)"
  by (simp_all add: copyNativeAmount_def copyPrincipalAmount_def assertNativeAsset_def createNativePayoutAmount_def wei_def nativeAmount_def
      assertExactFields_def assertPlainObject_def shape_eval TYPED_AMOUNT_FIELDS_def assertAtomic_def NATIVE_PAYOUT_CHAIN_ID_def NATIVE_PAYOUT_DECIMALS_def)

definition ex_envelope :: jsval where
  "ex_envelope = JObj [(''recipientCount'', JNum 2), (''transactionCount'', JNum 2), (''maxRecipientCount'', JNum 9), (''maxTransactionCount'', JNum 9),
     (''measuredTransferGas'', JStr ''3''), (''maxGasPriceWei'', JStr ''1''), (''estimatedNativeFee'', wei ''6''), (''nativeReserve'', wei ''1''),
     (''nativeBalance'', wei ''8''), (''requiredNativeAmount'', wei ''7'')]"

lemma wei_amount: "jsval_of_amount (nativeAmount n) = wei n"
  by (simp add: jsval_of_amount_def nativeAmount_def wei_def NATIVE_PAYOUT_CHAIN_ID_def NATIVE_PAYOUT_DECIMALS_def)

lemma small_uint: "n < 1000 \<Longrightarrow> n \<le> MAX_UINT256"
  by (simp add: MAX_UINT256_def)

lemma ex_envelope_ok: "assertEnvelope ex_feasibility 2 = Inr ex_envelope"
proof -
  have w: "copyNativeAmount (wei [c]) l = Inr (nativeAmount [c])" if "is_decimal [c]" "digit_val c < 1000" for c l
    by (rule ex_copy_wei) (use that in \<open>simp_all add: nat_of_dec_single small_uint\<close>)
  have ds: "is_decimal ''6''" "is_decimal ''1''" "is_decimal ''8''" "is_decimal ''7''" by (simp_all add: dec_eval)
  show ?thesis
    by (simp add: assertEnvelope_def assertPlainObject_def ex_feasibility_def isPlainObject_def jprop_JObj assertEnvelopeCount_def isSafeInteger_def
        safeInt_def MAX_SAFE_INTEGER_def assertEnvelopePrice_def ex_envelope_def Let_def w [OF ds(1)] w [OF ds(2)] w [OF ds(3)] w [OF ds(4)] wei_amount
        nat_of_dec_single digit_val_def ds)
      (simp add: nativeAmount_def dec_eval)
qed

definition ex_nm :: normalized_manifest where
  "ex_nm = \<lparr>nm_selection = JUndefined, nm_fullSelection = JUndefined, nm_manifest = ex_manifest, nm_supply = ex_hkmn ''9'',
     nm_exclusions = [(addr_c, ''pool'')], nm_entries = [(addr_a, ex_hkmn ''2''), (addr_b, ex_hkmn ''1'')], nm_feasibility = ex_envelope\<rparr>"

lemma ex_read: "readManifest sha ex_manifest = Inr (ex_manifest, JUndefined, JUndefined)"
proof -
  have s: "jprop ex_manifest ''selection'' = JUndefined" by (simp add: ex_manifest_def ex_manifest_props_def jprop_JObj)
  have f: "filter (\<lambda>p. fst p \<notin> {''schema'', ''selection''}) ((''schema'', JStr MANIFEST_V1) # ex_manifest_props) = ex_manifest_props"
    by (simp add: ex_manifest_props_def)
  have "readManifest sha ex_manifest = bindE (createEligibilityPayoutManifest sha (JObj ex_manifest_props)) (\<lambda>m. Inr (m, JUndefined, JUndefined))"
    unfolding readManifest_def Let_def s by (simp add: ex_manifest_def f [simplified] jprop_def [of JUndefined])
  then show ?thesis by (simp add: ex_manifest_ok ex_manifest_def MANIFEST_V1_def)
qed

lemma ex_props [simp]:
  "jprop ex_manifest ''schema'' = JStr MANIFEST_V1" "jprop ex_manifest ''selection'' = JUndefined" "jprop ex_manifest ''cycleId'' = JStr ''c1''"
  "jprop ex_manifest ''supply'' = hkmn ''9''" "jprop ex_manifest ''entries'' = JArr [ex_entry addr_a ''2'', ex_entry addr_b ''1'']"
  "jprop ex_manifest ''exclusions'' = JArr [jsval_of_excluded (addr_c, ''pool'')]" "jprop ex_manifest ''feasibility'' = ex_feasibility"
  "jprop ex_manifest ''snapshotBlock'' = JStr ''9''" "jprop ex_manifest ''snapshotHash'' = JStr hash_z" "isPlainObject ex_manifest"
  "jprop ex_manifest ''finality'' = JObj [(''policyId'', JStr ''p''), (''depth'', JStr ''2'')]"
  "jprop ex_manifest ''logCompleteness'' = JObj [(''mode'', JStr ''single-source-explicitly-allowed''), (''primary'', ex_source), (''secondary'', JNull)]"
  "jprop ex_manifest ''holderSnapshotDigest'' = JStr ex_digest" "jprop ex_manifest ''launchManifestDigest'' = JStr ex_digest"
  by (simp_all add: ex_manifest_def ex_manifest_props_def jprop_JObj isPlainObject_def)

lemma ex_copy_digit: "is_pos_decimal [c] \<Longrightarrow> digit_val c < 1000 \<Longrightarrow> expected \<in> {None, Some (ex_hkmn m)} \<Longrightarrow>
    copyHkmnAmount (hkmn [c]) l expected = Inr (ex_hkmn [c])"
  by (rule ex_copy_hkmn) (simp_all add: nat_of_dec_single small_uint)

lemma ex_normalize: "normalizeEligibilityManifest sha ex_manifest ''c1'' = Inr ex_nm"
proof -
  have c: "copyHkmnAmount (hkmn ''9'') l None = Inr (ex_hkmn ''9'')" "copyHkmnAmount (hkmn ''2'') l (Some (ex_hkmn m)) = Inr (ex_hkmn ''2'')"
    "copyHkmnAmount (hkmn ''1'') l (Some (ex_hkmn m)) = Inr (ex_hkmn ''1'')" for l m
    by (rule ex_copy_digit; simp add: is_pos_decimal_def is_digit_def digit_val_def)+
  have es: "normalizeEntries (JArr [ex_entry addr_a ''2'', ex_entry addr_b ''1'']) (ex_hkmn ''9'') = Inr [(addr_a, ex_hkmn ''2''), (addr_b, ex_hkmn ''1'')]"
    by (simp add: normalizeEntries_def normalizeEntry_def ex_entry_def assertExactFields_def assertPlainObject_def assertPayoutAddress_def shape_eval Let_def c)
  have "assertEnvelope ex_feasibility (length [(addr_a, ex_hkmn ''2''), (addr_b, ex_hkmn ''1'')]) = Inr ex_envelope"
    using ex_envelope_ok by (simp add: numeral_2_eq_2)
  then show ?thesis
    by (simp add: normalizeEligibilityManifest_def assertPlainObject_def ex_read c es Let_def DIRECT_PAYOUT_RECIPIENT_LIMIT_def eligibleTotal_def
        ex_nm_def jsval_of_excluded_def jprop_JObj MANIFEST_V1_def MANIFEST_V2_def nat_of_dec_single digit_val_def)
qed

definition ex_binding :: jsval where
  "ex_binding = JObj [(''operations'', JStr addr_a), (''assetId'', JStr ''native''), (''evidenceDigest'', JStr ex_digest)]"

definition ex_re :: return_binding where
  "ex_re = \<lparr>rb_operations = addr_a, rb_assetId = ''native'', rb_evidenceDigest = ex_digest\<rparr>"

lemma ex_binding_ok: "normalizeReturnBinding ex_binding = Inr ex_re"
  by (simp add: normalizeReturnBinding_def ex_binding_def ex_re_def assertExactFields_def assertPlainObject_def shape_eval assertPayoutAddress_def assertNativeAsset_def)

definition ex_allocations :: "allocation list" where
  "ex_allocations = [\<lparr>al_recipient = addr_a, al_hkmnBalance = ex_hkmn ''2'', al_amount = nativeAmount ''6''\<rparr>,
     \<lparr>al_recipient = addr_b, al_hkmnBalance = ex_hkmn ''1'', al_amount = nativeAmount ''3''\<rparr>]"

definition ex_plan :: payout_plan where
  "ex_plan = assemblePlan JNull ''c1'' ex_nm ex_re (nativeAmount ''10'') (nativeAmount ''0'') JNull (nativeAmount ''10'') ex_allocations
     (nativeAmount ''9'') (nativeAmount ''1'')"

lemma ex_candidates: "sort_key fst (candidates 10 (nm_entries ex_nm)) = [(addr_a, ex_hkmn ''2'', 6), (addr_b, ex_hkmn ''1'', 3)]"
  "candidates 10 (nm_entries ex_nm) = [(addr_a, ex_hkmn ''2'', 6), (addr_b, ex_hkmn ''1'', 3)]"
  by (simp_all add: candidates_def ex_nm_def eligibleTotal_def payoutShare_def nat_of_dec_single digit_val_def)

lemma ex_native: "createNativePayoutAmount (JStr ''native'') (JStr n) = Inr (nativeAmount n)" if "is_decimal n" "nat_of_dec n < 1000"
  using that small_uint by (auto simp: createNativePayoutAmount_Inr)

lemma ex_allocations_ok: "mapE (makeAllocation ''native'') 0 [(addr_a, ex_hkmn ''2'', 6), (addr_b, ex_hkmn ''1'', 3)] = Inr ex_allocations"
proof -
  have "dec_of_nat 6 = ''6''" "dec_of_nat 3 = ''3''" by (simp_all add: dec_of_nat.simps digit_char_def)
  then show ?thesis by (simp add: makeAllocation_def ex_native ex_allocations_def dec_eval)
qed

lemma ex_plan_bounded: "assertBoundedCanonicalValue (JObj (unsignedPlan ex_plan)) label payout_limits = Inr ()"
proof -
  have l: "length addr_a = 42" "length addr_b = 42" "length addr_c = 42" "length hash_z = 66" "length ex_digest = 71"
    by (simp_all add: addr_a_def addr_b_def addr_c_def hash_z_def ex_digest_def)
  have h: "toLowerCase hash_z = hash_z" by (rule toLowerCase_hex [of 64]) simp
  note plan = unsignedPlan_def ex_plan_def assemblePlan_def Let_def planSchema_def ex_nm_def
        eligibilityProps_def falsy_def jsval_of_binding_def ex_re_def wei_amount wei_def jsval_of_allocation_def ex_allocations_def ex_envelope_def
        jsval_of_amount_def ex_hkmn_def jsval_of_excluded_def ex_source_def h OUTCOME_ALLOCATED_def eligibleTotal_def nat_of_dec_single digit_val_def
        dec_of_nat.simps digit_char_def
  show ?thesis
    by (rule assertBounded_ok) (simp_all add: plan payout_limits_def propertyKeyBytes_def canonicalDepth_def canonicalObjectFields_def
      decimalDigits_def DIRECT_PAYOUT_RECIPIENT_LIMIT_def l nativeAmount_def NATIVE_PAYOUT_CHAIN_ID_def NATIVE_PAYOUT_DECIMALS_def)
qed

lemma ex_plan_canonical: "canonical_value (JObj (unsignedPlan ex_plan))"
  by (simp add: unsignedPlan_def ex_plan_def assemblePlan_def Let_def planSchema_def ex_nm_def eligibilityProps_def falsy_def jsval_of_binding_def
      jsval_of_allocation_def ex_allocations_def ex_envelope_def jsval_of_amount_def wei_def jsval_of_excluded_def ex_source_def forbiddenKeys_def)

definition ex_compile :: "payout_plan res" where
  "ex_compile = compileDirectPayoutPlan sha_z (JStr ''c1'') ex_manifest (wei ''10'') (wei ''0'') JNull ex_binding JNull"

lemma ex_compile_ok: "\<exists>d. ex_compile = Inr (ex_plan\<lparr>pp_planDigest := d\<rparr>)"
proof -
  have dec: "is_decimal ''10''" "is_decimal ''0''" "is_decimal ''1''" "is_decimal ''9''" "nat_of_dec ''10'' = 10" "nat_of_dec ''0'' = 0"
      "nat_of_dec ''1'' = 1" "nat_of_dec ''9'' = 9" "dec_of_nat 10 = ''10''" "dec_of_nat 9 = ''9''" "json_int 1 = ''1''"
    by (simp_all add: dec_eval dec_of_nat.simps digit_char_def json_int_def)
  have amts: "copyPrincipalAmount (wei ''10'') l ''native'' = Inr (nativeAmount ''10'')" "copyPrincipalAmount (wei ''0'') l ''native'' = Inr (nativeAmount ''0'')" for l
    by (rule ex_copy_wei(2); simp add: dec small_uint)+
  have nat: "createNativePayoutAmount (JStr ''native'') (JStr ''10'') = Inr (nativeAmount ''10'')"
    "createNativePayoutAmount (JStr ''native'') (JStr ''9'') = Inr (nativeAmount ''9'')"
    "createNativePayoutAmount (JStr ''native'') (JStr ''1'') = Inr (nativeAmount ''1'')"
    by (rule ex_native; simp add: dec)+
  have tot: "allocatedTotal ex_allocations = 9" by (simp add: allocatedTotal_def ex_allocations_def nativeAmount_def nat_of_dec_single digit_val_def)
  have na: "ta_amountAtomic (nativeAmount n) = n" for n by (simp add: nativeAmount_def)
  have lt: "\<not> MAX_UINT256 < 10" by (simp add: MAX_UINT256_def)
  have "isOk (directPayoutPlanDigest sha_z ex_plan)"
    using canonicalPayoutPlanJsonUnchecked_ok [OF ex_plan_canonical]
    by (auto simp: directPayoutPlanDigest_def payoutPlanDigest_def canonicalPayoutPlanJson_def ex_plan_bounded isOk_iff)
  then obtain d where d: "directPayoutPlanDigest sha_z ex_plan = Inr d" by (auto simp: isOk_iff)
  have "ex_compile = Inr (ex_plan\<lparr>pp_planDigest := d\<rparr>)"
    unfolding ex_compile_def compileDirectPayoutPlan_def
    by (simp add: nonEmptyString_def Let_def ex_normalize ex_binding_ok ex_re_def [THEN arg_cong [of _ _ rb_assetId], simplified] amts normalizePreviousDustSource_def
        na dec small_uint ex_candidates ex_allocations_ok nat tot d lt del: mapE.simps flip: ex_plan_def)
  then show ?thesis by blast
qed

section \<open>Properties\<close>

text \<open>
  C12.  A compiled plan conserves the money: the allocated amounts sum to the stated total, total plus dust is
  the distributable pool, the pool is the finalized return plus the carried dust, and none of it exceeds
  a uint256.
\<close>

theorem payout_plan_conserves_pool:
  assumes "compileDirectPayoutPlan sha cyc man ret prev src binding legacy = Inr p"
  shows "allocatedTotal (pp_allocations p) = amt (pp_totalAllocated p)
    \<and> amt (pp_totalAllocated p) + amt (pp_dust p) = amt (pp_distributablePool p)
    \<and> amt (pp_distributablePool p) = nat_of_dec (str_of (jprop ret ''amountAtomic'')) + nat_of_dec (str_of (jprop prev ''amountAtomic''))
    \<and> amt (pp_distributablePool p) \<le> MAX_UINT256"
proof -
  from assms obtain nm where "amt (pp_distributablePool p) = amt (pp_returnDelta p) + amt (pp_previousDust p)" "amt (pp_distributablePool p) \<le> MAX_UINT256"
    "amt (pp_totalAllocated p) = allocatedTotal (pp_allocations p)" "amt (pp_totalAllocated p) + amt (pp_dust p) = amt (pp_distributablePool p)"
    and r: "copyPrincipalAmount ret ''finalized return'' ''native'' = Inr (pp_returnDelta p)"
      "copyPrincipalAmount prev ''previous dust'' ''native'' = Inr (pp_previousDust p)"
    by (rule compile_Inr)
  with copyPrincipalAmount_Inr [OF r(1)] copyPrincipalAmount_Inr [OF r(2)] show ?thesis by (simp add: amt_def)
qed

theorem payout_plan_conserves_pool_witness:
  "\<exists>p. ex_compile = Inr p \<and> amt (pp_totalAllocated p) + amt (pp_dust p) = amt (pp_distributablePool p) \<and> amt (pp_distributablePool p) = 10"
proof -
  obtain d where d: "ex_compile = Inr (ex_plan\<lparr>pp_planDigest := d\<rparr>)" using ex_compile_ok by blast
  from payout_plan_conserves_pool [OF d [unfolded ex_compile_def]] d show ?thesis
    by (auto simp: wei_def jprop_JObj nat_of_dec_def digit_val_def)
qed

text \<open>
  C13.  Every allocation of a compiled plan is a floor share: the recipients are exactly the eligible holders of
  the validated manifest in strictly increasing address order, and with \<open>total\<close> the sum of their balances
  each gets the integral part of \<open>balance * pool / total\<close>.
\<close>

theorem payout_allocations_are_floor_shares:
  assumes "compileDirectPayoutPlan sha cyc man ret prev src binding legacy = Inr p"
  shows "\<exists>nm. normalizeEligibilityManifest sha man (str_of cyc) = Inr nm
    \<and> map (\<lambda>a. (al_recipient a, al_hkmnBalance a)) (pp_allocations p) = nm_entries nm
    \<and> sorted_wrt (<) (map al_recipient (pp_allocations p))
    \<and> (\<forall>a \<in> set (pp_allocations p).
         amt (al_amount a) * eligibleTotal (nm_entries nm) \<le> amt (al_hkmnBalance a) * amt (pp_distributablePool p)
         \<and> amt (al_hkmnBalance a) * amt (pp_distributablePool p) < (amt (al_amount a) + 1) * eligibleTotal (nm_entries nm))"
proof -
  from assms obtain nm where nm: "normalizeEligibilityManifest sha man (str_of cyc) = Inr nm"
    and al: "pp_allocations p = (if nm_entries nm = [] then [] else map (allocate (amt (pp_distributablePool p)) (nm_entries nm)) (nm_entries nm))"
    by (rule compile_Inr)
  note E = normalizeEligibilityManifest_Inr [OF nm]
  have floor: "amt (al_amount (allocate n es e)) * eligibleTotal es \<le> amt (snd e) * n \<and> amt (snd e) * n < (amt (al_amount (allocate n es e)) + 1) * eligibleTotal es"
    if "0 < eligibleTotal es" for n es e
    using floor_division [OF that, of "amt (snd e)" n] by (simp add: allocate_def entryShare_def payoutShare_def)
  have pos: "0 < eligibleTotal (nm_entries nm)" if "nm_entries nm \<noteq> []" using eligibleTotal_zero_iff [OF E(2)] that by simp
  have "map (\<lambda>a. (al_recipient a, al_hkmnBalance a)) (pp_allocations p) = nm_entries nm" "map al_recipient (pp_allocations p) = map fst (nm_entries nm)"
    by (simp_all add: al allocate_def comp_def)
  moreover have "amt (al_amount a) * eligibleTotal (nm_entries nm) \<le> amt (al_hkmnBalance a) * amt (pp_distributablePool p)
         \<and> amt (al_hkmnBalance a) * amt (pp_distributablePool p) < (amt (al_amount a) + 1) * eligibleTotal (nm_entries nm)"
    if "a \<in> set (pp_allocations p)" for a
  proof -
    from that al obtain e where e: "a = allocate (amt (pp_distributablePool p)) (nm_entries nm) e" "nm_entries nm \<noteq> []" by (auto split: if_splits)
    from floor [OF pos [OF e(2)], of "amt (pp_distributablePool p)" e] show ?thesis by (simp add: e(1) allocate_def [THEN arg_cong [of _ _ al_hkmnBalance]])
  qed
  ultimately show ?thesis using nm E(1) by auto
qed

theorem payout_allocations_are_floor_shares_witness:
  "\<exists>p nm. ex_compile = Inr p \<and> normalizeEligibilityManifest sha_z ex_manifest ''c1'' = Inr nm
    \<and> map (\<lambda>a. (al_recipient a, al_hkmnBalance a)) (pp_allocations p) = nm_entries nm \<and> map al_recipient (pp_allocations p) = [addr_a, addr_b]"
proof -
  obtain d where d: "ex_compile = Inr (ex_plan\<lparr>pp_planDigest := d\<rparr>)" using ex_compile_ok by blast
  have "map al_recipient (pp_allocations (ex_plan\<lparr>pp_planDigest := d\<rparr>)) = [addr_a, addr_b]"
    by (simp add: ex_plan_def assemblePlan_def Let_def ex_allocations_def)
  with payout_allocations_are_floor_shares [OF d [unfolded ex_compile_def]] d show ?thesis by auto
qed

text \<open>
  The outcome is honest: a plan is non-spending exactly when it has no allocation, and then the whole
  pool is carried as dust; otherwise the dust is smaller than the number of recipients.
\<close>

theorem payout_outcome_and_dust:
  assumes "compileDirectPayoutPlan sha cyc man ret prev src binding legacy = Inr p"
  shows "(pp_outcome p = OUTCOME_NON_SPENDING \<longleftrightarrow> pp_allocations p = [])
    \<and> (if pp_allocations p = [] then amt (pp_dust p) = amt (pp_distributablePool p) \<and> amt (pp_totalAllocated p) = 0
       else amt (pp_dust p) < length (pp_allocations p))"
proof -
  from assms obtain nm where nm: "normalizeEligibilityManifest sha man (str_of cyc) = Inr nm"
    and al: "pp_allocations p = (if nm_entries nm = [] then [] else map (allocate (amt (pp_distributablePool p)) (nm_entries nm)) (nm_entries nm))"
    and t: "amt (pp_totalAllocated p) = allocatedTotal (pp_allocations p)" "amt (pp_totalAllocated p) + amt (pp_dust p) = amt (pp_distributablePool p)"
    and o: "pp_outcome p = (if nm_entries nm = [] then OUTCOME_NON_SPENDING else OUTCOME_ALLOCATED)"
    by (rule compile_Inr)
  have nz: "nm_entries nm \<noteq> [] \<Longrightarrow> eligibleTotal (nm_entries nm) \<noteq> 0" using normalizeEligibilityManifest_Inr(2) [OF nm] eligibleTotal_zero_iff by blast
  have "allocatedTotal (map (allocate n es) es) = sum_list (map (entryShare n es) es)" for n es
    by (simp add: allocatedTotal_def allocate_def comp_def nativeAmount_def)
  with entryShares_dust [OF nz, of "amt (pp_distributablePool p)"] t al show ?thesis
    by (auto simp: o OUTCOME_NON_SPENDING_def OUTCOME_ALLOCATED_def allocatedTotal_def)
qed

theorem payout_outcome_and_dust_witness:
  "\<exists>p. ex_compile = Inr p \<and> pp_outcome p \<noteq> OUTCOME_NON_SPENDING \<and> amt (pp_dust p) < length (pp_allocations p)"
proof -
  obtain d where d: "ex_compile = Inr (ex_plan\<lparr>pp_planDigest := d\<rparr>)" using ex_compile_ok by blast
  have "pp_allocations (ex_plan\<lparr>pp_planDigest := d\<rparr>) \<noteq> []" by (simp add: ex_plan_def assemblePlan_def Let_def ex_allocations_def)
  with payout_outcome_and_dust [OF d [unfolded ex_compile_def]] d show ?thesis by auto
qed

text \<open>
  Only an accepted manifest is paid: the manifest is marked feasible, no recipient is one of its frozen
  exclusions, there are at most 10000 of them, their balances are within the gross supply, and the measured
  fee envelope is exact and covered by the native balance.
\<close>

theorem payout_respects_manifest:
  assumes "compileDirectPayoutPlan sha cyc man ret prev src binding legacy = Inr p"
  shows "\<exists>nm. normalizeEligibilityManifest sha man (str_of cyc) = Inr nm
    \<and> jprop (jprop (nm_manifest nm) ''feasibility'') ''feasible'' = JBool True
    \<and> set (map al_recipient (pp_allocations p)) \<inter> fst ` set (nm_exclusions nm) = {}
    \<and> length (pp_allocations p) \<le> 10000 \<and> sum_list (map (\<lambda>a. amt (al_hkmnBalance a)) (pp_allocations p)) \<le> amt (nm_supply nm)
    \<and> envelopeHolds (jprop (nm_manifest nm) ''feasibility'') (length (pp_allocations p))"
proof -
  from assms obtain nm where nm: "normalizeEligibilityManifest sha man (str_of cyc) = Inr nm"
    and al: "pp_allocations p = (if nm_entries nm = [] then [] else map (allocate (amt (pp_distributablePool p)) (nm_entries nm)) (nm_entries nm))"
    by (rule compile_Inr)
  have "map al_recipient (pp_allocations p) = map fst (nm_entries nm)" "length (pp_allocations p) = length (nm_entries nm)"
    "sum_list (map (\<lambda>a. amt (al_hkmnBalance a)) (pp_allocations p)) = eligibleTotal (nm_entries nm)"
    by (simp_all add: al allocate_def comp_def eligibleTotal_def amt_def)
  with nm normalizeEligibilityManifest_Inr [OF nm] show ?thesis by (auto simp: DIRECT_PAYOUT_RECIPIENT_LIMIT_def)
qed

theorem payout_respects_manifest_witness:
  "\<exists>p nm. ex_compile = Inr p \<and> normalizeEligibilityManifest sha_z ex_manifest ''c1'' = Inr nm \<and> nm_exclusions nm = [(addr_c, ''pool'')]
    \<and> set (map al_recipient (pp_allocations p)) \<inter> fst ` set (nm_exclusions nm) = {}"
proof -
  obtain d where d: "ex_compile = Inr (ex_plan\<lparr>pp_planDigest := d\<rparr>)" using ex_compile_ok by blast
  from payout_respects_manifest [OF d [unfolded ex_compile_def]] d ex_normalize [of sha_z] show ?thesis
    by (auto simp: ex_nm_def)
qed

end
