(* ===== verification/Scheduler.thy ===== *)
theory Scheduler
  imports Hk_Prelude
begin

text \<open>
  The wake-up loop of the runner: \<^verbatim>\<open>packages/runner/src/scheduler/scheduler.mjs\<close>.

  \<open>createScheduler\<close> returns an object whose methods share mutable variables; they are the record
  \<open>sched\<close>.  Ticks are serialised by a promise chain (\<open>tickChain\<close>): the model keeps the chain as a queue
  of enqueued ticks and the one whose promise is being settled.  A tick is interrupted at its two
  \<open>await\<close>s, so it runs in phases, and \<open>start\<close>, \<open>stop\<close>, \<open>triggerTick\<close>, \<open>abortInFlight\<close> and timer
  callbacks may happen between any two of them: the step relation \<open>sched_step\<close> interleaves them freely.
  The state file, the worker and the clock are arguments of the steps.

  Shown here: while the scheduler runs, some wake-up is always pending; \<open>stop\<close> retires every timer and
  every queued automatic tick for good; the outage delay is the doubling sequence with its ceiling; the
  view is consistent; a worker is asked to open a cycle only under a configuration, read in that tick,
  that does not pause it.  The last theorem exhibits runs with two live timers.
\<close>

section \<open>Data\<close>

record configuration =
  paused :: bool
  executionPaused :: bool
  killSwitch :: bool
  liveMode :: bool
  intervalMinutes :: int

datatype fast_retry = Outage | Pending

record tick_outcome =
  o_intervalMs :: int
  requiresFastRetry :: "fast_retry option"
  pendingReason :: "string option"

text \<open>What the worker call resolves to: the fields of the result the scheduler looks at.\<close>

record cycle_result =
  r_status :: string
  r_reason :: "string option"

text \<open>\<open>readConfiguration\<close>: the configuration of the state file, or the message of the read error.\<close>

datatype state_read = StateRead "configuration option" | StateError string

text \<open>\<open>buildWorker\<close> throws, returns something that is not a worker, or returns a worker.\<close>

datatype built_worker = BuildThrows | NotAWorker | Worker

datatype worker_method = RunOnce | RecoverActiveCycle

record tick_event =
  e_type :: string
  e_tick :: nat
  e_at :: int
  e_paused :: bool
  e_liveMode :: bool
  e_intervalMs :: int
  e_calledMethod :: "worker_method option"

text \<open>A call of a worker: the method, and the two arguments \<open>{ liveMode, configuration }\<close> with which \<open>buildWorker\<close> built the worker it is called on.\<close>

record worker_call =
  w_method :: worker_method
  w_liveMode :: bool
  w_configuration :: "configuration option"

text \<open>An enqueued tick: the argument of \<open>enqueueTick\<close>.\<close>

record tick_job =
  scheduleAfter :: bool
  scheduledGeneration :: "nat option"

text \<open>
  Where the tick at the head of the chain stands: awaiting the state file, awaiting the worker, or
  settled with an outcome that the \<open>then\<close> handler has not yet applied.
\<close>

datatype phase =
    Reading nat int
  | Working nat int "configuration option"
  | Settled tick_outcome

type_synonym timers = "nat \<rightharpoonup> nat \<times> int"

record sched =
  stopped :: bool
  timerHandle :: "nat option"
  tickCount :: nat
  currentAbortController :: "bool option"
  scheduleGeneration :: nat
  outageBackoffMs :: "int option"
  nextCycleAtMs :: "int option"
  nextReconcileAtMs :: "int option"
  lastConfigPaused :: bool
  lastAutomationEnabled :: bool
  lastPendingReason :: "string option"
  queue :: "tick_job list"
  inFlight :: "(tick_job \<times> phase) option"
  live :: timers
  freshHandle :: nat
  events :: "tick_event list"
  workerCalls :: "worker_call list"

section \<open>Creation\<close>

definition DEFAULT_TICK_INTERVAL_MS :: int where "DEFAULT_TICK_INTERVAL_MS = 1200000"
definition RECONCILE_RETRY_MS :: int where "RECONCILE_RETRY_MS = 5000"
definition RECONCILE_MAX_BACKOFF_MS :: int where "RECONCILE_MAX_BACKOFF_MS = 300000"
definition RECONCILE_BACKOFF_FACTOR :: int where "RECONCILE_BACKOFF_FACTOR = 2"

definition RECONCILE_PENDING_STATUSES :: "string list" where
  "RECONCILE_PENDING_STATUSES = [''ACTIVE_CYCLE_NOT_RECONCILED'', ''SUPPLEMENTARY_SETTLEMENT'']"

definition missingStateMessage :: string where
  "missingStateMessage = ''operator state file does not exist''"

record sched_options =
  defaultIntervalMs :: int
  reconcileRetryMs :: int
  reconcileMaxBackoffMs :: int

definition assertPositiveInteger :: "jsval \<Rightarrow> string \<Rightarrow> int res" where
  "assertPositiveInteger v label =
     (if \<not> isSafeInteger v \<or> num_of v \<le> 0 then Inl (JsError (label @ '' must be a positive integer''))
      else Inr (num_of v))"

definition assertFunction :: "jsval \<Rightarrow> string \<Rightarrow> bool \<Rightarrow> unit res" where
  "assertFunction v label optional =
     (if optional \<and> v = JUndefined then Inr ()
      else if v \<noteq> JFun then Inl (JsError (label @ '' must be a function'')) else Inr ())"

text \<open>A destructured property with a default value.\<close>

definition withDefault :: "jsval \<Rightarrow> string \<Rightarrow> jsval \<Rightarrow> jsval" where
  "withDefault opts f d = (if jprop opts f = JUndefined then d else jprop opts f)"

definition createScheduler :: "jsval \<Rightarrow> sched_options res" where
  "createScheduler opts =
     (if falsy opts \<or> \<not> typeofObject opts \<or> isArray opts
      then Inl (JsError ''scheduler options must be an object'')
      else if \<not> isString (jprop opts ''statePath'') \<or> str_of (jprop opts ''statePath'') = []
      then Inl (JsError ''scheduler statePath must be a nonempty string'')
      else bindE (assertFunction (jprop opts ''buildWorker'') ''scheduler buildWorker'' False) (\<lambda>_.
      bindE (assertFunction (withDefault opts ''readState'' JFun) ''scheduler readState'' False) (\<lambda>_.
      bindE (assertFunction (withDefault opts ''now'' JFun) ''scheduler now'' False) (\<lambda>_.
      bindE (assertFunction (withDefault opts ''schedule'' JFun) ''scheduler schedule'' False) (\<lambda>_.
      bindE (assertFunction (withDefault opts ''cancel'' JFun) ''scheduler cancel'' False) (\<lambda>_.
      bindE (assertFunction (jprop opts ''onTick'') ''scheduler onTick'' True) (\<lambda>_.
      bindE (assertPositiveInteger (withDefault opts ''defaultIntervalMs'' (JNum DEFAULT_TICK_INTERVAL_MS))
               ''scheduler defaultIntervalMs'') (\<lambda>interval.
      bindE (assertPositiveInteger (withDefault opts ''reconcileRetryMs'' (JNum RECONCILE_RETRY_MS))
               ''scheduler reconcileRetryMs'') (\<lambda>retry.
      bindE (assertPositiveInteger (withDefault opts ''reconcileMaxBackoffMs'' (JNum RECONCILE_MAX_BACKOFF_MS))
               ''scheduler reconcileMaxBackoffMs'') (\<lambda>ceiling.
        if ceiling < retry then Inl (JsError ''scheduler reconcileMaxBackoffMs must be at least reconcileRetryMs'')
        else Inr \<lparr>defaultIntervalMs = interval, reconcileRetryMs = retry, reconcileMaxBackoffMs = ceiling\<rparr>))))))))))"

definition initial :: sched where
  "initial = \<lparr>stopped = True, timerHandle = None, tickCount = 0, currentAbortController = None,
     scheduleGeneration = 0, outageBackoffMs = None, nextCycleAtMs = None, nextReconcileAtMs = None,
     lastConfigPaused = True, lastAutomationEnabled = False, lastPendingReason = None,
     queue = [], inFlight = None, live = Map.empty, freshHandle = 0, events = [], workerCalls = []\<rparr>"

section \<open>The timer service\<close>

text \<open>
  \<open>schedule\<close> and \<open>cancel\<close> default to \<open>setTimeout\<close> and \<open>clearTimeout\<close>.  The loop relies on three laws:
  a scheduled callback is live under the handle returned, scheduling leaves the other timers alone, and
  cancelling removes exactly the given timer.
\<close>

locale timer_service =
  fixes sched_timer :: "'t \<Rightarrow> nat \<times> int \<Rightarrow> nat \<times> 't"
    and cancel_timer :: "nat \<Rightarrow> 't \<Rightarrow> 't"
    and lookup_timer :: "'t \<Rightarrow> nat \<Rightarrow> (nat \<times> int) option"
  assumes sched_live: "sched_timer t x = (h, t') \<Longrightarrow> lookup_timer t' h = Some x"
    and sched_others: "sched_timer t x = (h, t') \<Longrightarrow> h' \<noteq> h \<Longrightarrow> lookup_timer t' h' = lookup_timer t h'"
    and cancel_others: "lookup_timer (cancel_timer h t) h' = (if h' = h then None else lookup_timer t h')"
begin

text \<open>Cancelling a timer and installing its replacement leaves at least the replacement live.\<close>

lemma replaced_live:
  assumes "sched_timer (cancel_timer h t) x = (h', t')"
  shows "lookup_timer t' h' = Some x"
  using assms by (rule sched_live)

lemma replaced_origin:
  assumes "sched_timer (cancel_timer h t) x = (h', t')" and "lookup_timer t' k = Some y"
  shows "y = x \<or> (k \<noteq> h \<and> lookup_timer t k = Some y)"
proof (cases "k = h'")
  case True
  with assms sched_live [OF assms(1)] show ?thesis by simp
next
  case False
  with assms sched_others [OF assms(1), of k] show ?thesis by (simp add: cancel_others split: if_splits)
qed

end

definition setTimeout :: "nat \<times> timers \<Rightarrow> nat \<times> int \<Rightarrow> nat \<times> (nat \<times> timers)" where
  "setTimeout t x = (fst t, (Suc (fst t), (snd t)(fst t \<mapsto> x)))"

definition clearTimeout :: "nat \<Rightarrow> nat \<times> timers \<Rightarrow> nat \<times> timers" where
  "clearTimeout h t = (fst t, (snd t)(h := None))"

interpretation node_timers: timer_service setTimeout clearTimeout "\<lambda>t. snd t"
  by unfold_locales (auto simp: setTimeout_def clearTimeout_def)

section \<open>One tick\<close>

definition tickPendingReason :: "configuration option \<Rightarrow> cycle_result option \<Rightarrow> string option" where
  "tickPendingReason config result =
     (case config of
        None \<Rightarrow> Some ''CONFIGURATION_NOT_SET''
      | Some c \<Rightarrow>
          let flags = (if killSwitch c then Some ''KILL_SWITCH''
                       else if executionPaused c then Some ''EXECUTION_PAUSED''
                       else if paused c then Some ''PAUSED''
                       else None)
          in (case result of
                None \<Rightarrow> flags
              | Some r \<Rightarrow>
                  let reason = (case r_reason r of None \<Rightarrow> ''UNKNOWN'' | Some t \<Rightarrow> t) in
                  if r_status r = ''WAITING_FOR_PROCESS_BUDGET'' then Some ''INSUFFICIENT_FUNDS''
                  else if r_status r = ''ACTIVE_CYCLE_NOT_RECONCILED'' \<or> r_status r = ''SUPPLEMENTARY_SETTLEMENT''
                  then Some ''RECONCILING_PENDING_TRANSACTION''
                  else if r_status r = ''LEASE_HELD'' then Some ''LEASE_HELD_BY_ANOTHER_RUNNER''
                  else if r_status r = ''POLICY_REFUSED'' then Some (''POLICY_REFUSED_'' @ reason)
                  else if r_status r = ''RECOVERY_REFUSED'' then Some (''RECOVERY_REFUSED_'' @ reason)
                  else flags))"

definition tickPaused :: "configuration option \<Rightarrow> bool" where
  "tickPaused config = (case config of None \<Rightarrow> True | Some c \<Rightarrow> paused c \<or> executionPaused c \<or> killSwitch c)"

definition tickLiveMode :: "configuration option \<Rightarrow> bool" where
  "tickLiveMode config = (case config of None \<Rightarrow> False | Some c \<Rightarrow> liveMode c)"

definition tickIntervalMs :: "sched_options \<Rightarrow> configuration option \<Rightarrow> int" where
  "tickIntervalMs opts config =
     (case config of None \<Rightarrow> defaultIntervalMs opts | Some c \<Rightarrow> intervalMinutes c * 60000)"

definition emit :: "tick_event \<Rightarrow> sched \<Rightarrow> sched" where
  "emit e s = s\<lparr>events := events s @ [e]\<rparr>"

definition tickEvent ::
  "sched_options \<Rightarrow> string \<Rightarrow> nat \<Rightarrow> int \<Rightarrow> configuration option \<Rightarrow> worker_method option \<Rightarrow> tick_event"
where
  "tickEvent opts ty tick at config m =
     \<lparr>e_type = ty, e_tick = tick, e_at = at, e_paused = tickPaused config, e_liveMode = tickLiveMode config,
      e_intervalMs = tickIntervalMs opts config, e_calledMethod = m\<rparr>"

text \<open>The tick up to its first \<open>await\<close>.\<close>

definition beginTick :: "int \<Rightarrow> tick_job \<Rightarrow> sched \<Rightarrow> sched" where
  "beginTick at j s = s\<lparr>tickCount := tickCount s + 1, inFlight := Some (j, Reading (tickCount s + 1) at)\<rparr>"

text \<open>Between the two \<open>await\<close>s: the state file has been read, the worker is built and called.\<close>

definition observeConfiguration :: "configuration option \<Rightarrow> sched \<Rightarrow> sched" where
  "observeConfiguration config s =
     s\<lparr>lastConfigPaused := (case config of None \<Rightarrow> True | Some c \<Rightarrow> paused c),
       lastAutomationEnabled := (case config of None \<Rightarrow> False
          | Some c \<Rightarrow> \<not> paused c \<and> \<not> executionPaused c \<and> \<not> killSwitch c)\<rparr>"

definition settleWith ::
  "sched_options \<Rightarrow> tick_job \<Rightarrow> configuration option \<Rightarrow> fast_retry option \<Rightarrow> string option \<Rightarrow> sched \<Rightarrow> sched"
where
  "settleWith opts j config retry reason s =
     s\<lparr>inFlight := Some (j, Settled \<lparr>o_intervalMs = tickIntervalMs opts config,
                                    requiresFastRetry = retry, pendingReason = reason\<rparr>)\<rparr>"

definition calledMethod :: "configuration option \<Rightarrow> worker_method" where
  "calledMethod config = (if tickPaused config then RecoverActiveCycle else RunOnce)"

definition afterRead ::
  "sched_options \<Rightarrow> tick_job \<Rightarrow> nat \<Rightarrow> int \<Rightarrow> state_read \<Rightarrow> (bool \<Rightarrow> configuration option \<Rightarrow> built_worker) \<Rightarrow> sched \<Rightarrow> sched"
where
  "afterRead opts j tick at rd buildWorker s =
     (case rd of
        StateError msg \<Rightarrow>
          let missing = (msg = missingStateMessage) in
          settleWith opts j None (if missing then None else Some Outage)
            (Some (if missing then ''CONFIGURATION_NOT_SET'' else ''STATE_UNAVAILABLE''))
            (emit (tickEvent opts (if missing then ''TICK_STATE_MISSING'' else ''TICK_STATE_READ_FAILED'') tick at None None)
              (observeConfiguration None s))
      | StateRead config \<Rightarrow>
          let s1 = observeConfiguration config s in
          (case buildWorker (tickLiveMode config) config of
             BuildThrows \<Rightarrow>
               settleWith opts j config (Some Outage) (Some ''WORKER_UNAVAILABLE'')
                 (emit (tickEvent opts ''TICK_WORKER_BUILD_FAILED'' tick at config None) s1)
           | NotAWorker \<Rightarrow>
               settleWith opts j config (Some Outage) (Some ''WORKER_UNAVAILABLE'')
                 (emit (tickEvent opts ''TICK_WORKER_INVALID'' tick at config None) s1)
           | Worker \<Rightarrow>
               s1\<lparr>currentAbortController := Some False,
                  workerCalls := workerCalls s1 @ [\<lparr>w_method = calledMethod config,
                     w_liveMode = tickLiveMode config, w_configuration = config\<rparr>],
                  inFlight := Some (j, Working tick at config)\<rparr>))"

text \<open>After the second \<open>await\<close>: the worker call threw (\<open>Inl\<close>) or resolved to a result or to nothing.\<close>

definition pendingStatus :: "cycle_result option \<Rightarrow> bool" where
  "pendingStatus result = (case result of None \<Rightarrow> False | Some r \<Rightarrow> r_status r \<in> set RECONCILE_PENDING_STATUSES)"

definition afterWork ::
  "sched_options \<Rightarrow> tick_job \<Rightarrow> nat \<Rightarrow> int \<Rightarrow> configuration option \<Rightarrow> cycle_result option res \<Rightarrow> sched \<Rightarrow> sched"
where
  "afterWork opts j tick at config outcome s =
     (let s1 = s\<lparr>currentAbortController := None\<rparr> in
      case outcome of
        Inl err \<Rightarrow>
          settleWith opts j config (Some Outage) (Some ''TICK_FAILED'')
            (emit (tickEvent opts ''TICK_FAILED'' tick at config (Some (calledMethod config))) s1)
      | Inr result \<Rightarrow>
          settleWith opts j config (if pendingStatus result then Some Pending else None)
            (tickPendingReason config result)
            (emit (tickEvent opts ''TICK_COMPLETE'' tick at config (Some (calledMethod config))) s1))"

section \<open>The wake-up loop\<close>

definition scheduleNext :: "int \<Rightarrow> sched \<Rightarrow> sched" where
  "scheduleNext delayMs s =
     (if stopped s then s
      else let (h, fresh', live') = setTimeout (freshHandle s, live s) (scheduleGeneration s, delayMs)
           in s\<lparr>timerHandle := Some h, freshHandle := fresh', live := live'\<rparr>)"

definition cancelInstalled :: "sched \<Rightarrow> sched" where
  "cancelInstalled s =
     (case timerHandle s of
        None \<Rightarrow> s
      | Some h \<Rightarrow> s\<lparr>live := snd (clearTimeout h (freshHandle s, live s)), timerHandle := None\<rparr>)"

text \<open>The delay until the next wake-up, or \<open>None\<close> when the tick does not drive the timer.\<close>

definition applyScheduleOutcome ::
  "sched_options \<Rightarrow> int \<Rightarrow> tick_outcome \<Rightarrow> bool \<Rightarrow> sched \<Rightarrow> int option \<times> sched"
where
  "applyScheduleOutcome opts now outcome schedAfter s0 =
     (let s = s0\<lparr>lastPendingReason := pendingReason outcome\<rparr> in
      case requiresFastRetry outcome of
        None \<Rightarrow>
          if \<not> schedAfter then (None, s)
          else (Some (o_intervalMs outcome),
                s\<lparr>outageBackoffMs := None, nextCycleAtMs := Some (now + o_intervalMs outcome), nextReconcileAtMs := None\<rparr>)
      | Some Outage \<Rightarrow>
          let backoff = (case outageBackoffMs s of
                 None \<Rightarrow> reconcileRetryMs opts
               | Some b \<Rightarrow> min (b * RECONCILE_BACKOFF_FACTOR) (reconcileMaxBackoffMs opts))
          in (Some backoff,
              s\<lparr>outageBackoffMs := Some backoff, nextReconcileAtMs := Some (now + backoff), nextCycleAtMs := None\<rparr>)
      | Some Pending \<Rightarrow>
          (Some (reconcileRetryMs opts),
           s\<lparr>outageBackoffMs := None, nextReconcileAtMs := Some (now + reconcileRetryMs opts), nextCycleAtMs := None\<rparr>))"

definition preemptInstalledTimer :: "int \<Rightarrow> sched \<Rightarrow> sched" where
  "preemptInstalledTimer delayMs s =
     (if stopped s then s
      else scheduleNext delayMs (cancelInstalled (s\<lparr>scheduleGeneration := scheduleGeneration s + 1\<rparr>)))"

text \<open>
  \<open>enqueueTick\<close> appends to the chain.  When the chain reaches the tick, \<open>dispatch\<close> either skips it (an
  automatic tick of an older generation, or of a stopped scheduler) or runs it; when its promise
  settles, the handler applies the outcome, or re-arms the default interval after a rejection.
\<close>

definition enqueueTick :: "bool \<Rightarrow> nat option \<Rightarrow> sched \<Rightarrow> sched" where
  "enqueueTick schedAfter gen s = s\<lparr>queue := queue s @ [\<lparr>scheduleAfter = schedAfter, scheduledGeneration = gen\<rparr>]\<rparr>"

definition skipped :: "tick_job \<Rightarrow> sched \<Rightarrow> bool" where
  "skipped j s = (case scheduledGeneration j of None \<Rightarrow> False
                    | Some g \<Rightarrow> stopped s \<or> g \<noteq> scheduleGeneration s)"

definition dispatch :: "sched_options \<Rightarrow> int \<Rightarrow> tick_job \<Rightarrow> sched \<Rightarrow> sched" where
  "dispatch opts now j s =
     (if skipped j s
      then s\<lparr>inFlight := Some (j, Settled \<lparr>o_intervalMs = defaultIntervalMs opts, requiresFastRetry = None,
                                        pendingReason = lastPendingReason s\<rparr>)\<rparr>
      else beginTick now j s)"

definition settleTick :: "sched_options \<Rightarrow> int \<Rightarrow> tick_job \<Rightarrow> tick_outcome \<Rightarrow> sched \<Rightarrow> sched" where
  "settleTick opts now j outcome s =
     (case applyScheduleOutcome opts now outcome (scheduleAfter j) (s\<lparr>inFlight := None\<rparr>) of
        (delay, s1) \<Rightarrow>
          (case delay of
             None \<Rightarrow> s1
           | Some d \<Rightarrow> if scheduleAfter j then scheduleNext d s1 else preemptInstalledTimer d s1))"

definition rejectTick :: "sched_options \<Rightarrow> tick_job \<Rightarrow> sched \<Rightarrow> sched" where
  "rejectTick opts j s =
     (let s1 = s\<lparr>inFlight := None\<rparr> in
      if scheduleAfter j then scheduleNext (defaultIntervalMs opts) s1 else s1)"

definition wake :: "nat \<Rightarrow> sched \<Rightarrow> sched" where
  "wake gen s =
     (let s1 = s\<lparr>timerHandle := None\<rparr> in
      if stopped s1 \<or> gen \<noteq> scheduleGeneration s1 then s1 else enqueueTick True (Some gen) s1)"

section \<open>The methods of the scheduler\<close>

definition start :: "sched \<Rightarrow> sched" where
  "start s =
     (if \<not> stopped s then s
      else let s1 = s\<lparr>stopped := False, scheduleGeneration := scheduleGeneration s + 1\<rparr>
           in wake (scheduleGeneration s1) s1)"

definition stop :: "sched \<Rightarrow> sched" where
  "stop s = cancelInstalled (s\<lparr>stopped := True, scheduleGeneration := scheduleGeneration s + 1\<rparr>)"

definition isRunning :: "sched \<Rightarrow> bool" where
  "isRunning s = (\<not> stopped s)"

text \<open>The view; the two instants stay in milliseconds where the code prints them as ISO dates.\<close>

record sched_view =
  v_nextCycleAt :: "int option"
  v_nextReconcileAt :: "int option"
  v_automationEnabled :: bool
  v_paused :: bool
  v_pendingReason :: "string option"

definition getView :: "sched \<Rightarrow> sched_view" where
  "getView s =
     \<lparr>v_nextCycleAt = (if stopped s then None else nextCycleAtMs s),
      v_nextReconcileAt = (if stopped s then None else nextReconcileAtMs s),
      v_automationEnabled = lastAutomationEnabled s,
      v_paused = lastConfigPaused s,
      v_pendingReason = lastPendingReason s\<rparr>"

definition abortInFlight :: "sched \<Rightarrow> sched" where
  "abortInFlight s = s\<lparr>currentAbortController := map_option (\<lambda>_. True) (currentAbortController s)\<rparr>"

definition triggerTick :: "sched \<Rightarrow> sched" where
  "triggerTick s = enqueueTick False None s"

text \<open>The timer with handle \<open>h\<close> fires: it is no longer live, and its callback runs.\<close>

definition fire :: "nat \<Rightarrow> nat \<Rightarrow> sched \<Rightarrow> sched" where
  "fire h gen s = wake gen (s\<lparr>live := (live s)(h := None)\<rparr>)"

inductive sched_step :: "sched_options \<Rightarrow> sched \<Rightarrow> sched \<Rightarrow> bool" for opts where
  step_start: "sched_step opts s (start s)"
| step_stop: "sched_step opts s (stop s)"
| step_trigger: "sched_step opts s (triggerTick s)"
| step_abort: "sched_step opts s (abortInFlight s)"
| step_fire: "live s h = Some (gen, delay) \<Longrightarrow> sched_step opts s (fire h gen s)"
| step_dispatch: "inFlight s = None \<Longrightarrow> queue s = j # js
    \<Longrightarrow> sched_step opts s (dispatch opts now j (s\<lparr>queue := js\<rparr>))"
| step_read: "inFlight s = Some (j, Reading tick at)
    \<Longrightarrow> sched_step opts s (afterRead opts j tick at rd buildWorker s)"
| step_work: "inFlight s = Some (j, Working tick at config)
    \<Longrightarrow> sched_step opts s (afterWork opts j tick at config outcome s)"
| step_settle: "inFlight s = Some (j, Settled outcome)
    \<Longrightarrow> sched_step opts s (settleTick opts now j outcome s)"
| step_reject: "inFlight s = Some (j, Reading tick at) \<Longrightarrow> sched_step opts s (rejectTick opts j s)"

inductive sched_steps :: "sched_options \<Rightarrow> sched \<Rightarrow> sched \<Rightarrow> bool" for opts where
  steps_refl: "sched_steps opts s s"
| steps_snoc: "sched_steps opts s t \<Longrightarrow> sched_step opts t u \<Longrightarrow> sched_steps opts s u"

definition sched_reachable :: "sched_options \<Rightarrow> sched \<Rightarrow> bool" where
  "sched_reachable opts s = sched_steps opts initial s"

lemma sched_reachable_invariant:
  assumes "sched_reachable opts s" and "P initial"
    and "\<And>s t. P s \<Longrightarrow> sched_step opts s t \<Longrightarrow> P t"
  shows "P s"
proof -
  have "sched_steps opts i s \<Longrightarrow> P i \<Longrightarrow> P s" for i
    by (induction rule: sched_steps.induct) (auto intro: assms(3))
  with assms show ?thesis by (simp add: sched_reachable_def)
qed

named_theorems sched_defs \<open>the bodies of the scheduler's operations\<close>

lemmas sched_ops [sched_defs] =
  scheduleNext_def cancelInstalled_def setTimeout_def clearTimeout_def applyScheduleOutcome_def
  preemptInstalledTimer_def enqueueTick_def dispatch_def settleTick_def rejectTick_def wake_def
  start_def stop_def abortInFlight_def triggerTick_def fire_def beginTick_def observeConfiguration_def
  settleWith_def emit_def afterRead_def afterWork_def Let_def

section \<open>A running scheduler always has a wake-up pending\<close>

definition wakeupPending :: "sched \<Rightarrow> bool" where
  "wakeupPending s =
     ((\<exists>h d. live s h = Some (scheduleGeneration s, d))
      \<or> (\<exists>j \<in> set (queue s). scheduleAfter j)
      \<or> (\<exists>j p. inFlight s = Some (j, p) \<and> scheduleAfter j))"

lemma scheduleNext_pending: "\<not> stopped s \<Longrightarrow> wakeupPending (scheduleNext d s)"
  by (auto simp: scheduleNext_def setTimeout_def wakeupPending_def)

lemma scheduleNext_stopped [simp]: "stopped (scheduleNext d s) = stopped s"
  by (simp add: scheduleNext_def setTimeout_def)

lemma preempt_stopped [simp]: "stopped (preemptInstalledTimer d s) = stopped s"
  by (simp add: preemptInstalledTimer_def cancelInstalled_def split: option.split)

lemma cancelInstalled_stopped [simp]: "stopped (cancelInstalled s) = stopped s"
  by (simp add: cancelInstalled_def split: option.split)

lemma preempt_pending: "\<not> stopped s \<Longrightarrow> wakeupPending (preemptInstalledTimer d s)"
  by (simp add: preemptInstalledTimer_def scheduleNext_pending)

lemma apply_frame:
  assumes "applyScheduleOutcome opts now out sa s = (delay, s1)"
  shows "stopped s1 = stopped s" "live s1 = live s" "queue s1 = queue s" "inFlight s1 = inFlight s"
    "scheduleGeneration s1 = scheduleGeneration s" "tickCount s1 = tickCount s" "workerCalls s1 = workerCalls s"
    "sa \<Longrightarrow> delay \<noteq> None" "freshHandle s1 = freshHandle s"
  using assms by (auto simp: applyScheduleOutcome_def Let_def split: option.splits fast_retry.splits if_splits)

text \<open>What settling a tick does after \<open>applyScheduleOutcome\<close>.\<close>

lemma settle_cases:
  obtains (idle) s1 where "settleTick opts now j out s = s1" "\<not> scheduleAfter j"
      "applyScheduleOutcome opts now out (scheduleAfter j) (s\<lparr>inFlight := None\<rparr>) = (None, s1)"
  | (automatic) d s1 where "settleTick opts now j out s = scheduleNext d s1" "scheduleAfter j"
      "applyScheduleOutcome opts now out (scheduleAfter j) (s\<lparr>inFlight := None\<rparr>) = (Some d, s1)"
  | (manual) d s1 where "settleTick opts now j out s = preemptInstalledTimer d s1" "\<not> scheduleAfter j"
      "applyScheduleOutcome opts now out (scheduleAfter j) (s\<lparr>inFlight := None\<rparr>) = (Some d, s1)"
proof -
  obtain delay s1 where a: "applyScheduleOutcome opts now out (scheduleAfter j) (s\<lparr>inFlight := None\<rparr>) = (delay, s1)"
    by (cases "applyScheduleOutcome opts now out (scheduleAfter j) (s\<lparr>inFlight := None\<rparr>)")
  show thesis
  proof (cases delay)
    case None
    with apply_frame(8) [OF a] have "\<not> scheduleAfter j" by blast
    moreover have "settleTick opts now j out s = s1" using a None by (simp only: settleTick_def prod.case option.case)
    ultimately show thesis using a None by (intro idle) simp_all
  next
    case (Some d)
    have "settleTick opts now j out s = (if scheduleAfter j then scheduleNext d s1 else preemptInstalledTimer d s1)"
      using a Some by (simp only: settleTick_def prod.case option.case)
    with a Some show thesis by (cases "scheduleAfter j") (auto intro: automatic manual)
  qed
qed

lemma settle_pending:
  assumes "inFlight s = Some (j, p)" and "wakeupPending s" and "\<not> stopped s"
  shows "wakeupPending (settleTick opts now j out s)"
proof (cases rule: settle_cases [of opts now j out s])
  case (idle s1)
  with assms apply_frame [OF idle(3)] show ?thesis by (auto simp: wakeupPending_def)
next
  case (automatic d s1)
  with assms apply_frame [OF automatic(3)] show ?thesis by (simp add: scheduleNext_pending)
next
  case (manual d s1)
  with assms apply_frame [OF manual(3)] show ?thesis by (simp add: preempt_pending)
qed

lemma settle_stopped [simp]: "stopped (settleTick opts now j out s) = stopped s"
  by (cases rule: settle_cases [of opts now j out s]) (auto dest: apply_frame(1))

definition loopAlive :: "sched \<Rightarrow> bool" where
  "loopAlive s = (stopped s \<or> wakeupPending s)"

lemma fire_alive:
  assumes "loopAlive s" and "live s h = Some (gen, delay)"
  shows "loopAlive (fire h gen s)"
proof (cases "stopped s \<or> gen \<noteq> scheduleGeneration s")
  case True
  with assms show ?thesis
    by (auto simp: loopAlive_def wakeupPending_def fire_def wake_def Let_def) (metis option.inject prod.inject)+
next
  case False
  then show ?thesis by (auto simp: loopAlive_def wakeupPending_def fire_def wake_def Let_def enqueueTick_def)
qed

lemma tick_phases_alive:
  assumes "loopAlive s" and "inFlight s = Some (j, p)"
  shows "loopAlive (afterRead opts j tick at rd buildWorker s)"
    and "loopAlive (afterWork opts j tick at config outcome s)"
  using assms
  by (auto simp: loopAlive_def wakeupPending_def afterRead_def afterWork_def settleWith_def emit_def
      observeConfiguration_def Let_def split: state_read.split built_worker.split sum.split)

lemma sched_step_alive: "sched_step opts s t \<Longrightarrow> loopAlive s \<Longrightarrow> loopAlive t"
proof (induction rule: sched_step.induct)
  case (step_start s)
  then show ?case by (auto simp: loopAlive_def wakeupPending_def start_def wake_def enqueueTick_def Let_def)
next
  case (step_stop s)
  then show ?case by (simp add: loopAlive_def stop_def)
next
  case (step_trigger s)
  then show ?case by (auto simp: loopAlive_def wakeupPending_def triggerTick_def enqueueTick_def)
next
  case (step_abort s)
  then show ?case by (auto simp: loopAlive_def wakeupPending_def abortInFlight_def)
next
  case (step_fire s h gen delay)
  then show ?case by (simp add: fire_alive)
next
  case (step_dispatch s j js now)
  then show ?case
    by (cases "skipped j (s\<lparr>queue := js\<rparr>)") (auto simp: loopAlive_def wakeupPending_def dispatch_def beginTick_def)
next
  case (step_read s j tick at rd buildWorker)
  then show ?case by (simp add: tick_phases_alive)
next
  case (step_work s j tick at config outcome)
  then show ?case by (simp add: tick_phases_alive)
next
  case (step_settle s j outcome now)
  then show ?case using settle_pending [OF step_settle(1), of opts now outcome] by (auto simp: loopAlive_def)
next
  case (step_reject s j tick at)
  then show ?case
    by (cases "stopped s") (auto simp: loopAlive_def rejectTick_def Let_def scheduleNext_pending, auto simp: wakeupPending_def)
qed

text \<open>
  C30. Whatever the interleaving of \<open>start\<close>, \<open>stop\<close>, manual ticks, timer callbacks and tick outcomes, a
  scheduler that is running never stalls: a live timer of the current generation is installed, or a tick
  that will install one is queued or in flight.
\<close>

theorem scheduler_never_stalls:
  assumes "sched_reachable opts s" and "\<not> stopped s"
  shows "(\<exists>h d. live s h = Some (scheduleGeneration s, d))
         \<or> (\<exists>j \<in> set (queue s). scheduleAfter j)
         \<or> (\<exists>j p. inFlight s = Some (j, p) \<and> scheduleAfter j)"
proof -
  have "loopAlive s"
    by (rule sched_reachable_invariant [OF assms(1) _ sched_step_alive]) (simp_all add: loopAlive_def initial_def)
  with assms(2) show ?thesis by (simp add: loopAlive_def wakeupPending_def)
qed

section \<open>Stopping retires every pending wake-up\<close>

text \<open>Timers and queued automatic ticks carry a generation that is current at most while running.\<close>

definition staleOrCurrent :: "sched \<Rightarrow> nat \<Rightarrow> bool" where
  "staleOrCurrent s g = (g \<le> scheduleGeneration s \<and> (stopped s \<longrightarrow> g < scheduleGeneration s))"

definition generationsOk :: "sched \<Rightarrow> bool" where
  "generationsOk s =
     ((\<forall>h g d. live s h = Some (g, d) \<longrightarrow> staleOrCurrent s g)
      \<and> (\<forall>j \<in> set (queue s). \<forall>g. scheduledGeneration j = Some g \<longrightarrow> staleOrCurrent s g))"

lemma scheduleNext_generations: "generationsOk s \<Longrightarrow> generationsOk (scheduleNext d s)"
  by (auto simp: generationsOk_def staleOrCurrent_def scheduleNext_def setTimeout_def)

lemma cancelInstalled_frame [simp]:
  "queue (cancelInstalled s) = queue s" "scheduleGeneration (cancelInstalled s) = scheduleGeneration s"
  "inFlight (cancelInstalled s) = inFlight s" "workerCalls (cancelInstalled s) = workerCalls s"
  by (auto simp: cancelInstalled_def clearTimeout_def split: option.splits if_splits)

lemma cancelInstalled_live: "live (cancelInstalled s) h = Some x \<Longrightarrow> live s h = Some x"
  by (auto simp: cancelInstalled_def clearTimeout_def split: option.splits if_splits)

lemma bump_generations:
  assumes "generationsOk s"
  shows "scheduleGeneration t = scheduleGeneration s + 1 \<Longrightarrow> live t = live s \<Longrightarrow> queue t = queue s
      \<Longrightarrow> generationsOk (cancelInstalled t)"
    and "\<And>h g d. live s h = Some (g, d) \<Longrightarrow> g < scheduleGeneration s + 1"
    and "\<And>j g. j \<in> set (queue s) \<Longrightarrow> scheduledGeneration j = Some g \<Longrightarrow> g < scheduleGeneration s + 1"
  using assms by (fastforce simp: generationsOk_def staleOrCurrent_def dest: cancelInstalled_live)+

lemma preempt_generations:
  assumes "generationsOk s"
  shows "generationsOk (preemptInstalledTimer d s)"
  using bump_generations(1) [OF assms] assms by (simp add: preemptInstalledTimer_def scheduleNext_generations)

lemma generations_frame:
  "generationsOk s \<Longrightarrow> live t = live s \<Longrightarrow> queue t = queue s \<Longrightarrow> scheduleGeneration t = scheduleGeneration s
   \<Longrightarrow> stopped t = stopped s \<Longrightarrow> generationsOk t"
  by (simp add: generationsOk_def staleOrCurrent_def)

lemma settle_generations:
  assumes "generationsOk s"
  shows "generationsOk (settleTick opts now j out s)"
proof (cases rule: settle_cases [of opts now j out s])
  case (idle s1)
  have "generationsOk s1" by (rule generations_frame [OF assms]) (simp_all add: apply_frame [OF idle(3)])
  with idle show ?thesis by simp
next
  case (automatic d s1)
  have "generationsOk s1" by (rule generations_frame [OF assms]) (simp_all add: apply_frame [OF automatic(3)])
  with automatic show ?thesis by (simp add: scheduleNext_generations)
next
  case (manual d s1)
  have "generationsOk s1" by (rule generations_frame [OF assms]) (simp_all add: apply_frame [OF manual(3)])
  with manual show ?thesis by (simp add: preempt_generations)
qed

lemma tick_phases_frame:
  "live (afterRead opts j tick at rd bw s) = live s" "queue (afterRead opts j tick at rd bw s) = queue s"
  "scheduleGeneration (afterRead opts j tick at rd bw s) = scheduleGeneration s"
  "stopped (afterRead opts j tick at rd bw s) = stopped s"
  "live (afterWork opts j tick at config out s) = live s" "queue (afterWork opts j tick at config out s) = queue s"
  "scheduleGeneration (afterWork opts j tick at config out s) = scheduleGeneration s"
  "stopped (afterWork opts j tick at config out s) = stopped s"
  by (simp_all add: afterRead_def afterWork_def settleWith_def emit_def observeConfiguration_def Let_def
      split: state_read.split built_worker.split sum.split)

lemma sched_step_generations: "sched_step opts s t \<Longrightarrow> generationsOk s \<Longrightarrow> generationsOk t"
proof (induction rule: sched_step.induct)
  case (step_start s)
  then show ?case
    by (auto simp: start_def wake_def enqueueTick_def Let_def generationsOk_def staleOrCurrent_def) fastforce+
next
  case (step_stop s)
  then show ?case by (simp add: stop_def bump_generations(1))
next
  case (step_trigger s)
  then show ?case by (simp add: triggerTick_def enqueueTick_def generationsOk_def staleOrCurrent_def)
next
  case (step_abort s)
  show ?case by (rule generations_frame [OF step_abort]) (simp_all add: abortInFlight_def)
next
  case (step_fire s h gen delay)
  then show ?case
    by (auto simp: fire_def wake_def enqueueTick_def Let_def generationsOk_def staleOrCurrent_def)
next
  case (step_dispatch s j js now)
  then show ?case
    by (auto simp: dispatch_def beginTick_def generationsOk_def staleOrCurrent_def)
next
  case (step_read s j tick at rd buildWorker)
  show ?case by (rule generations_frame [OF step_read(2)]) (simp_all add: tick_phases_frame)
next
  case (step_work s j tick at config outcome)
  show ?case by (rule generations_frame [OF step_work(2)]) (simp_all add: tick_phases_frame)
next
  case (step_settle s j outcome now)
  then show ?case by (simp add: settle_generations)
next
  case (step_reject s j tick at)
  have "generationsOk (s\<lparr>inFlight := None\<rparr>)" by (rule generations_frame [OF step_reject(2)]) simp_all
  then show ?case by (simp add: rejectTick_def Let_def scheduleNext_generations)
qed

lemma reachable_generations: "sched_reachable opts s \<Longrightarrow> generationsOk s"
  by (erule sched_reachable_invariant [OF _ _ sched_step_generations]) (simp_all add: generationsOk_def initial_def)

lemma scheduleNext_generation [simp]: "scheduleGeneration (scheduleNext d s) = scheduleGeneration s"
  by (simp add: scheduleNext_def setTimeout_def)

lemma sched_step_mono: "sched_step opts s t \<Longrightarrow> scheduleGeneration s \<le> scheduleGeneration t"
proof (induction rule: sched_step.induct)
  case (step_settle s j outcome now)
  then show ?case
    by (cases rule: settle_cases [of opts now j outcome s])
       (auto dest: apply_frame(5) simp: preemptInstalledTimer_def)
qed (simp_all add: start_def stop_def triggerTick_def abortInFlight_def fire_def wake_def enqueueTick_def Let_def
      dispatch_def beginTick_def rejectTick_def tick_phases_frame)

lemma sched_steps_mono: "sched_steps opts s t \<Longrightarrow> scheduleGeneration s \<le> scheduleGeneration t"
  by (induction rule: sched_steps.induct) (auto dest: sched_step_mono)

text \<open>
  \<open>stop()\<close> is final for everything that was pending: a timer callback installed before it enqueues
  nothing, and an automatic tick queued before it runs no tick, in every later state, even after the
  scheduler was started again.
\<close>

theorem stop_retires_pending_wakeups:
  assumes "sched_reachable opts s" and "sched_steps opts (stop s) t"
  shows "(\<forall>h g d. live s h = Some (g, d) \<longrightarrow> queue (fire h g t) = queue t)
         \<and> (\<forall>j \<in> set (queue s). scheduledGeneration j \<noteq> None
              \<longrightarrow> tickCount (dispatch opts now j t) = tickCount t
                \<and> workerCalls (dispatch opts now j t) = workerCalls t)"
proof -
  note g = reachable_generations [OF assms(1)]
  have "scheduleGeneration (stop s) = scheduleGeneration s + 1" by (simp add: stop_def)
  with sched_steps_mono [OF assms(2)] have le: "scheduleGeneration s + 1 \<le> scheduleGeneration t" by simp
  have "queue (fire h k t) = queue t" if "live s h = Some (k, d)" for h k d
    using bump_generations(2) [OF g that] le by (simp add: fire_def wake_def Let_def)
  moreover have "skipped j t" if "j \<in> set (queue s)" "scheduledGeneration j \<noteq> None" for j
    using that bump_generations(3) [OF g that(1)] le by (auto simp: skipped_def)
  ultimately show ?thesis by (auto simp: dispatch_def)
qed

section \<open>Outage backoff\<close>

text \<open>Settling a run of ticks, each with the clock value its handler reads.\<close>

fun applyOutcomes :: "sched_options \<Rightarrow> bool \<Rightarrow> (int \<times> tick_outcome) list \<Rightarrow> sched \<Rightarrow> sched" where
  "applyOutcomes opts sa [] s = s"
| "applyOutcomes opts sa ((now, out) # os) s = applyOutcomes opts sa os (snd (applyScheduleOutcome opts now out sa s))"

lemma createScheduler_Inr:
  assumes "createScheduler v = Inr opts"
  shows "0 < reconcileRetryMs opts" "reconcileRetryMs opts \<le> reconcileMaxBackoffMs opts" "0 < defaultIntervalMs opts"
  using assms by (auto simp: createScheduler_def assertPositiveInteger_def res_simps)

lemma apply_outage:
  assumes "requiresFastRetry out = Some Outage"
  shows "outageBackoffMs (snd (applyScheduleOutcome opts now out sa s)) =
           Some (case outageBackoffMs s of None \<Rightarrow> reconcileRetryMs opts
                  | Some b \<Rightarrow> min (b * 2) (reconcileMaxBackoffMs opts))"
    and "fst (applyScheduleOutcome opts now out sa s) = outageBackoffMs (snd (applyScheduleOutcome opts now out sa s))"
  using assms by (simp_all add: applyScheduleOutcome_def Let_def RECONCILE_BACKOFF_FACTOR_def split: option.split)

lemma min_double:
  fixes r m :: int
  assumes "0 < r"
  shows "min (min (r * 2 ^ k) m * 2) m = min (r * 2 ^ Suc k) m \<or> m < 0"
  by (auto simp: min_def)

lemma outages_from_some:
  assumes "0 < reconcileRetryMs opts" and "0 \<le> reconcileMaxBackoffMs opts"
    and "list_all (\<lambda>p. requiresFastRetry (snd p) = Some Outage) os"
    and "outageBackoffMs s = Some (min (reconcileRetryMs opts * 2 ^ k) (reconcileMaxBackoffMs opts))"
  shows "outageBackoffMs (applyOutcomes opts sa os s) =
           Some (min (reconcileRetryMs opts * 2 ^ (k + length os)) (reconcileMaxBackoffMs opts))"
  using assms(3,4)
proof (induction os arbitrary: s k)
  case Nil
  then show ?case by simp
next
  case (Cons p os)
  obtain now out where p: "p = (now, out)" by (cases p)
  let ?s = "snd (applyScheduleOutcome opts now out sa s)"
  have "outageBackoffMs ?s = Some (min (reconcileRetryMs opts * 2 ^ Suc k) (reconcileMaxBackoffMs opts))"
    using Cons.prems p apply_outage(1) [of out opts now sa s] min_double [OF assms(1), of k "reconcileMaxBackoffMs opts"] assms(2)
    by simp
  from Cons.IH [OF _ this] Cons.prems p show ?case by simp
qed

text \<open>
  Consecutive outages are retried after exactly \<open>reconcileRetryMs\<close>, then twice that, and so on up to
  \<open>reconcileMaxBackoffMs\<close>: the \<open>(n+1)\<close>-th consecutive outage waits the minimum of \<open>reconcileRetryMs * 2^n\<close>
  and the ceiling, and any other outcome of an automatic tick, or a pending reconciliation, resets the
  sequence.
\<close>

theorem outage_backoff_exact:
  assumes "createScheduler v = Inr opts" and "outageBackoffMs s = None"
    and "list_all (\<lambda>p. requiresFastRetry (snd p) = Some Outage) os"
    and "requiresFastRetry out = Some Outage"
  shows "fst (applyScheduleOutcome opts now out sa (applyOutcomes opts sa os s)) =
           Some (min (reconcileRetryMs opts * 2 ^ length os) (reconcileMaxBackoffMs opts))
         \<and> (\<forall>ok. requiresFastRetry ok = Some Pending \<or> (requiresFastRetry ok = None \<and> sa) \<longrightarrow>
              outageBackoffMs (snd (applyScheduleOutcome opts now ok sa (applyOutcomes opts sa os s))) = None)"
proof
  note b = createScheduler_Inr [OF assms(1)]
  let ?R = "reconcileRetryMs opts" let ?M = "reconcileMaxBackoffMs opts"
  have "outageBackoffMs (applyOutcomes opts sa (os @ [(now, out)]) s) = Some (min (?R * 2 ^ length os) ?M)"
  proof (cases os)
    case Nil
    with assms(2) b show ?thesis by (simp add: apply_outage(1) [OF assms(4)])
  next
    case (Cons p ps)
    obtain n0 o0 where p: "p = (n0, o0)" by (cases p)
    let ?s = "snd (applyScheduleOutcome opts n0 o0 sa s)"
    have s0: "outageBackoffMs ?s = Some (min (?R * 2 ^ 0) ?M)"
      using assms(2,3) b Cons p by (simp add: apply_outage(1))
    show ?thesis
      using outages_from_some [OF b(1) _ _ s0, where os = "ps @ [(now, out)]" and sa = sa] assms(3,4) b Cons p
      by simp
  qed
  moreover have "applyOutcomes opts sa (os @ [(now, out)]) s =
      snd (applyScheduleOutcome opts now out sa (applyOutcomes opts sa os s))" for os s
    by (induction os arbitrary: s) auto
  ultimately show "fst (applyScheduleOutcome opts now out sa (applyOutcomes opts sa os s)) = Some (min (?R * 2 ^ length os) ?M)"
    by (simp add: apply_outage(2) [OF assms(4)])
qed (auto simp: applyScheduleOutcome_def Let_def)

section \<open>The view and the worker\<close>

definition viewOk :: "sched_options \<Rightarrow> sched \<Rightarrow> bool" where
  "viewOk opts s =
     ((nextCycleAtMs s = None \<or> nextReconcileAtMs s = None)
      \<and> (\<forall>b. outageBackoffMs s = Some b \<longrightarrow> reconcileRetryMs opts \<le> b \<and> b \<le> reconcileMaxBackoffMs opts)
      \<and> (outageBackoffMs s \<noteq> None \<longrightarrow> nextReconcileAtMs s \<noteq> None))"

lemma apply_viewOk:
  assumes "viewOk opts s" and "0 < reconcileRetryMs opts" and "reconcileRetryMs opts \<le> reconcileMaxBackoffMs opts"
    and "applyScheduleOutcome opts now out sa (s\<lparr>inFlight := None\<rparr>) = (delay, s1)"
  shows "viewOk opts s1"
  using assms by (auto simp: viewOk_def applyScheduleOutcome_def Let_def RECONCILE_BACKOFF_FACTOR_def min_def
      split: option.splits fast_retry.splits if_splits)

lemma viewOk_frame:
  "viewOk opts s \<Longrightarrow> nextCycleAtMs t = nextCycleAtMs s \<Longrightarrow> nextReconcileAtMs t = nextReconcileAtMs s
   \<Longrightarrow> outageBackoffMs t = outageBackoffMs s \<Longrightarrow> viewOk opts t"
  by (simp add: viewOk_def)

lemma timers_viewOk:
  "viewOk opts s \<Longrightarrow> viewOk opts (scheduleNext d s)"
  "viewOk opts s \<Longrightarrow> viewOk opts (cancelInstalled s)"
  "viewOk opts s \<Longrightarrow> viewOk opts (preemptInstalledTimer d s)"
  by (simp_all add: viewOk_def scheduleNext_def preemptInstalledTimer_def cancelInstalled_def setTimeout_def split: option.split)

lemma sched_step_viewOk:
  assumes "sched_step opts s t" and "viewOk opts s"
    and "0 < reconcileRetryMs opts" and "reconcileRetryMs opts \<le> reconcileMaxBackoffMs opts"
  shows "viewOk opts t"
  using assms(1)
proof cases
  case (step_settle j outcome now)
  then show ?thesis using apply_viewOk [OF assms(2-4)]
    by (cases rule: settle_cases [of opts now j outcome s]) (auto simp: timers_viewOk)
qed (use assms(2) in \<open>auto simp: viewOk_def sched_defs split: option.splits state_read.splits built_worker.splits sum.splits\<close>)

text \<open>
  The view never announces both a new cycle and a reconciliation, a stopped scheduler announces
  neither, and the outage delay in force stays between \<open>reconcileRetryMs\<close> and \<open>reconcileMaxBackoffMs\<close> and
  is always announced as a reconciliation.
\<close>

theorem scheduler_view_consistent:
  assumes "createScheduler v = Inr opts" and "sched_reachable opts s"
  shows "(v_nextCycleAt (getView s) = None \<or> v_nextReconcileAt (getView s) = None)
         \<and> (stopped s \<longrightarrow> v_nextCycleAt (getView s) = None \<and> v_nextReconcileAt (getView s) = None)
         \<and> (\<forall>b. outageBackoffMs s = Some b \<longrightarrow>
              reconcileRetryMs opts \<le> b \<and> b \<le> reconcileMaxBackoffMs opts
              \<and> (\<not> stopped s \<longrightarrow> v_nextReconcileAt (getView s) \<noteq> None))"
proof -
  note b = createScheduler_Inr [OF assms(1)]
  have "viewOk opts s"
  proof (rule sched_reachable_invariant [OF assms(2)])
    show "viewOk opts initial" by (simp add: viewOk_def initial_def)
    show "viewOk opts u" if "viewOk opts t" and "sched_step opts t u" for t u
      by (rule sched_step_viewOk [OF that(2,1) b(1,2)])
  qed
  then show ?thesis by (auto simp: viewOk_def getView_def)
qed

definition authorisedCall :: "worker_call \<Rightarrow> bool" where
  "authorisedCall c =
     (w_liveMode c = tickLiveMode (w_configuration c)
      \<and> w_method c = calledMethod (w_configuration c))"

lemma afterRead_calls:
  "\<exists>cs. workerCalls (afterRead opts j tick at rd bw s) = workerCalls s @ cs \<and> list_all authorisedCall cs"
  by (auto simp: afterRead_def settleWith_def emit_def observeConfiguration_def Let_def authorisedCall_def
      split: state_read.split built_worker.split)

lemma timers_calls [simp]:
  "workerCalls (scheduleNext d s) = workerCalls s" "workerCalls (preemptInstalledTimer d s) = workerCalls s"
  by (simp_all add: scheduleNext_def setTimeout_def preemptInstalledTimer_def)

lemma sched_step_calls:
  assumes "sched_step opts s t" and "list_all authorisedCall (workerCalls s)"
  shows "list_all authorisedCall (workerCalls t)"
  using assms(1)
proof cases
  case (step_read j tick at rd buildWorker)
  with afterRead_calls [of opts j tick at rd buildWorker s] assms(2) show ?thesis by auto
next
  case (step_settle j outcome now)
  then show ?thesis using assms(2)
    by (cases rule: settle_cases [of opts now j outcome s]) (auto dest: apply_frame(7))
qed (use assms(2) in \<open>simp_all add: start_def stop_def triggerTick_def abortInFlight_def fire_def wake_def enqueueTick_def
      Let_def dispatch_def beginTick_def rejectTick_def afterWork_def settleWith_def emit_def split: sum.split\<close>)

text \<open>
  C22. Every call of a worker, in every run, follows the configuration that its tick read and handed to \<open>buildWorker\<close>:
  \<open>runOnce\<close>, the only call that may open a cycle, is made exactly when there is a configuration and neither \<open>paused\<close> nor
  \<open>executionPaused\<close> nor \<open>killSwitch\<close> is set in it, and \<open>recoverActiveCycle\<close> otherwise; and the worker is built with exactly that
  configuration's \<open>liveMode\<close>, with \<open>false\<close> when there is no configuration.
\<close>

theorem worker_calls_authorised:
  assumes "sched_reachable opts s" and "c \<in> set (workerCalls s)"
  shows "w_method c = (if \<exists>cfg. w_configuration c = Some cfg \<and> \<not> paused cfg \<and> \<not> executionPaused cfg \<and> \<not> killSwitch cfg
            then RunOnce else RecoverActiveCycle)
         \<and> w_liveMode c = (case w_configuration c of None \<Rightarrow> False | Some cfg \<Rightarrow> liveMode cfg)"
proof -
  have "list_all authorisedCall (workerCalls s)"
    by (rule sched_reachable_invariant [OF assms(1) _ sched_step_calls]) (simp_all add: initial_def)
  with assms(2) have "authorisedCall c" by (auto simp: list_all_iff)
  then show ?thesis
    by (auto simp: authorisedCall_def calledMethod_def tickPaused_def tickLiveMode_def split: option.splits if_splits)
qed

section \<open>Concrete runs\<close>

definition ex_options :: sched_options where
  "ex_options = \<lparr>defaultIntervalMs = 1200000, reconcileRetryMs = 5000, reconcileMaxBackoffMs = 300000\<rparr>"

definition ex_arguments :: jsval where
  "ex_arguments = JObj [(''statePath'', JStr ''state.json''), (''buildWorker'', JFun)]"

definition ex_config :: configuration where
  "ex_config = \<lparr>paused = False, executionPaused = False, killSwitch = False, liveMode = True, intervalMinutes = 20\<rparr>"

definition outage_outcome :: tick_outcome where
  "outage_outcome = \<lparr>o_intervalMs = 1200000, requiresFastRetry = Some Outage, pendingReason = Some ''TICK_FAILED''\<rparr>"

lemma ex_created: "createScheduler ex_arguments = Inr ex_options"
  by (simp add: createScheduler_def ex_arguments_def ex_options_def assertFunction_def assertPositiveInteger_def withDefault_def
      val_defs DEFAULT_TICK_INTERVAL_MS_def RECONCILE_RETRY_MS_def RECONCILE_MAX_BACKOFF_MS_def)

lemma reachable_initial: "sched_reachable opts initial"
  by (simp add: sched_reachable_def steps_refl)

lemma reachable_step: "sched_reachable opts s \<Longrightarrow> sched_step opts s t \<Longrightarrow> sched_reachable opts t"
  by (simp add: sched_reachable_def steps_snoc)

lemmas sched_eval = sched_ops initial_def ex_options_def ex_config_def skipped_def tickLiveMode_def tickPaused_def
  tickIntervalMs_def tickEvent_def calledMethod_def pendingStatus_def tickPendingReason_def RECONCILE_PENDING_STATUSES_def

text \<open>A running scheduler whose first tick has called its worker, and the same after the tick has settled.\<close>

definition ex_called :: sched where
  "ex_called = afterRead ex_options \<lparr>scheduleAfter = True, scheduledGeneration = Some 1\<rparr> 1 0
     (StateRead (Some ex_config)) (\<lambda>_ _. Worker)
     (dispatch ex_options 0 \<lparr>scheduleAfter = True, scheduledGeneration = Some 1\<rparr> ((start initial)\<lparr>queue := []\<rparr>))"

lemma ex_called_reachable: "sched_reachable ex_options ex_called"
  unfolding ex_called_def
  by (rule reachable_step [OF reachable_step [OF reachable_step [OF reachable_initial step_start] step_dispatch] step_read])
     (simp_all add: sched_eval)

definition ex_failed :: sched where
  "ex_failed = settleTick ex_options 9 \<lparr>scheduleAfter = True, scheduledGeneration = Some 1\<rparr>
     \<lparr>o_intervalMs = 1200000, requiresFastRetry = Some Outage, pendingReason = Some ''TICK_FAILED''\<rparr>
     (afterWork ex_options \<lparr>scheduleAfter = True, scheduledGeneration = Some 1\<rparr> 1 0 (Some ex_config)
       (Inl (JsError ''rpc down'')) ex_called)"

lemma ex_failed_reachable: "sched_reachable ex_options ex_failed"
  unfolding ex_failed_def
  by (rule reachable_step [OF reachable_step [OF ex_called_reachable step_work] step_settle])
     (simp_all add: ex_called_def sched_eval)

theorem scheduler_never_stalls_witness:
  "\<not> stopped ex_called \<and> ((\<exists>h d. live ex_called h = Some (scheduleGeneration ex_called, d))
         \<or> (\<exists>j \<in> set (queue ex_called). scheduleAfter j)
         \<or> (\<exists>j p. inFlight ex_called = Some (j, p) \<and> scheduleAfter j))"
proof -
  have r: "\<not> stopped ex_called" by (simp add: ex_called_def sched_eval)
  from scheduler_never_stalls [OF ex_called_reachable r] r show ?thesis by blast
qed

theorem stop_retires_pending_wakeups_witness:
  "tickCount (dispatch ex_options 0 \<lparr>scheduleAfter = True, scheduledGeneration = Some 1\<rparr> (start (stop (start initial)))) = 0"
proof -
  have r: "sched_reachable ex_options (start initial)" by (rule reachable_step [OF reachable_initial step_start])
  have t: "sched_steps ex_options (stop (start initial)) (start (stop (start initial)))"
    by (rule steps_snoc [OF steps_refl step_start])
  from stop_retires_pending_wakeups [OF r t, of 0] show ?thesis by (simp add: sched_eval)
qed

theorem outage_backoff_exact_witness:
  "fst (applyScheduleOutcome ex_options 7 outage_outcome True
     (applyOutcomes ex_options True [(1, outage_outcome), (2, outage_outcome)] initial)) = Some 20000"
  using outage_backoff_exact [OF ex_created, of initial "[(1, outage_outcome), (2, outage_outcome)]" outage_outcome 7 True]
  by (simp add: outage_outcome_def initial_def ex_options_def)

theorem scheduler_view_consistent_witness:
  "outageBackoffMs ex_failed = Some 5000 \<and> v_nextCycleAt (getView ex_failed) = None
   \<and> v_nextReconcileAt (getView ex_failed) \<noteq> None"
proof -
  have f: "outageBackoffMs ex_failed = Some 5000" "\<not> stopped ex_failed"
    by (simp_all add: ex_failed_def ex_called_def sched_eval)
  have "v_nextReconcileAt (getView ex_failed) \<noteq> None"
    using scheduler_view_consistent [OF ex_created ex_failed_reachable] f by simp
  moreover from this have "v_nextCycleAt (getView ex_failed) = None"
    using scheduler_view_consistent [OF ex_created ex_failed_reachable] by auto
  ultimately show ?thesis using f by simp
qed

theorem worker_calls_authorised_witness:
  "\<exists>c. c \<in> set (workerCalls ex_called) \<and> w_method c = RunOnce \<and> w_liveMode c
     \<and> (\<exists>cfg. w_configuration c = Some cfg \<and> \<not> paused cfg \<and> liveMode cfg)"
proof -
  let ?c = "\<lparr>w_method = RunOnce, w_liveMode = True, w_configuration = Some ex_config\<rparr>"
  have c: "?c \<in> set (workerCalls ex_called)" by (simp add: ex_called_def sched_eval)
  from worker_calls_authorised [OF ex_called_reachable c] c show ?thesis by (intro exI [of _ ?c]) auto
qed

text \<open>
  The two runs below reach a running scheduler with two live timers of the current generation.  In the
  first a cadence timer fires while a manual tick is in flight; the manual tick finds an open cycle and
  preempts, and the automatic tick, skipped as stale, still installs its default interval and overwrites
  the announced reconciliation.  In the second the scheduler is stopped and started while a tick is in
  flight.
\<close>

definition pending_result :: cycle_result where
  "pending_result = \<lparr>r_status = ''ACTIVE_CYCLE_NOT_RECONCILED'', r_reason = None\<rparr>"

abbreviation auto_job :: "nat \<Rightarrow> tick_job" where
  "auto_job g \<equiv> \<lparr>scheduleAfter = True, scheduledGeneration = Some g\<rparr>"

abbreviation manual_job :: tick_job where
  "manual_job \<equiv> \<lparr>scheduleAfter = False, scheduledGeneration = None\<rparr>"

abbreviation pop_queue :: "sched \<Rightarrow> sched" where
  "pop_queue s \<equiv> s\<lparr>queue := tl (queue s)\<rparr>"

definition idle_outcome :: tick_outcome where
  "idle_outcome = \<lparr>o_intervalMs = 1200000, requiresFastRetry = None, pendingReason = None\<rparr>"

definition race_manual :: sched where
  "race_manual =
     afterWork ex_options manual_job 2 1200000 (Some ex_config) (Inr (Some pending_result))
      (afterRead ex_options manual_job 2 1200000 (StateRead (Some ex_config)) (\<lambda>_ _. Worker)
        (fire 0 1
          (dispatch ex_options 1200000 manual_job (pop_queue
            (triggerTick
              (settleTick ex_options 0 (auto_job 1) idle_outcome
                (afterWork ex_options (auto_job 1) 1 0 (Some ex_config) (Inr None) ex_called)))))))"

definition pending_outcome :: tick_outcome where
  "pending_outcome = \<lparr>o_intervalMs = 1200000, requiresFastRetry = Some Pending,
     pendingReason = Some ''RECONCILING_PENDING_TRANSACTION''\<rparr>"

definition race_end :: sched where
  "race_end =
     settleTick ex_options 1200001 (auto_job 1) (pending_outcome\<lparr>requiresFastRetry := None\<rparr>)
      (dispatch ex_options 1200001 (auto_job 1) (pop_queue
        (settleTick ex_options 1200001 manual_job pending_outcome race_manual)))"

lemma race_manual_reachable: "sched_reachable ex_options race_manual"
  unfolding race_manual_def
  by (rule reachable_step [OF reachable_step [OF reachable_step [OF reachable_step [OF reachable_step
        [OF reachable_step [OF reachable_step [OF ex_called_reachable step_work] step_settle] step_trigger]
        step_dispatch] step_fire] step_read] step_work])
     (simp_all add: ex_called_def sched_eval idle_outcome_def)

lemma race_end_reachable: "sched_reachable ex_options race_end"
  unfolding race_end_def
  by (rule reachable_step [OF reachable_step [OF reachable_step [OF race_manual_reachable step_settle] step_dispatch] step_settle])
     (simp_all add: race_manual_def ex_called_def sched_eval idle_outcome_def pending_outcome_def pending_result_def)

definition restart_end :: sched where
  "restart_end =
     settleTick ex_options 7 (auto_job 3) idle_outcome
      (afterWork ex_options (auto_job 3) 2 5 (Some ex_config) (Inr None)
       (afterRead ex_options (auto_job 3) 2 5 (StateRead (Some ex_config)) (\<lambda>_ _. Worker)
        (dispatch ex_options 5 (auto_job 3) (pop_queue
         (settleTick ex_options 5 (auto_job 1) idle_outcome
          (afterWork ex_options (auto_job 1) 1 0 (Some ex_config) (Inr None)
           (start (stop ex_called))))))))"

lemma restart_end_reachable: "sched_reachable ex_options restart_end"
  unfolding restart_end_def
  by (rule reachable_step [OF reachable_step [OF reachable_step [OF reachable_step [OF reachable_step [OF reachable_step
        [OF reachable_step [OF reachable_step [OF ex_called_reachable step_stop] step_start] step_work] step_settle]
        step_dispatch] step_read] step_work] step_settle])
     (simp_all add: ex_called_def sched_eval idle_outcome_def)

text \<open>
  C31. "A single timer drives the loop" does not hold of every run.  A running scheduler can be reached that
  has two live timers of the current generation, both of which will enqueue and re-arm: once through a
  manual tick that preempts while the fired cadence tick is still queued, where the fast reconciliation
  deadline also disappears from the view, and once through \<open>stop\<close> and \<open>start\<close> during a tick.
\<close>

theorem scheduler_loop_can_double:
  "sched_reachable ex_options race_end \<and> \<not> stopped race_end
     \<and> live race_end 1 = Some (scheduleGeneration race_end, 5000)
     \<and> live race_end 2 = Some (scheduleGeneration race_end, 1200000)
     \<and> v_nextReconcileAt (getView race_end) = None
   \<and> sched_reachable ex_options restart_end \<and> \<not> stopped restart_end
     \<and> live restart_end 0 = Some (scheduleGeneration restart_end, 1200000)
     \<and> live restart_end 1 = Some (scheduleGeneration restart_end, 1200000)"
  by (simp add: race_end_reachable restart_end_reachable,
      simp add: race_end_def race_manual_def restart_end_def ex_called_def sched_eval idle_outcome_def
        pending_outcome_def pending_result_def getView_def)

end
