(* ===== verification/Keccak.thy ===== *)
theory Keccak
  imports Hk_Prelude "HOL-Library.Word"
begin

text \<open>
  The byte layer of \<^verbatim>\<open>packages/contracts/tooling/payout/canonical-merkle-sum.mjs\<close>: the Keccak-256 permutation
  and sponge, hexadecimal text, and the 32-byte words of the ABI encoding.

  A \<open>Uint8Array\<close> is a list of 8-bit words.  The code keeps the 64-bit lanes as bigints masked with
  \<open>MASK_64\<close>; the model keeps them as 64-bit words, where complement, shift and exclusive or are the
  same functions on the masked values.  Shown here: the masked shifts are a rotation, the digest has 32
  bytes, hexadecimal text round-trips, and an encoded unsigned integer is read back exactly.
\<close>

unbundle bit_operations_syntax

type_synonym byte = "8 word"
type_synonym lane = "64 word"

section \<open>Keccak-256\<close>

definition RATE_BYTES :: nat where "RATE_BYTES = 136"

definition ROTATION :: "nat list" where
  "ROTATION = [
  0, 1, 62, 28, 27,
  36, 44, 6, 55, 20,
  3, 10, 43, 25, 39,
  41, 45, 15, 21, 8,
  18, 2, 61, 56, 14]"

definition ROUND_CONSTANTS :: "lane list" where
  "ROUND_CONSTANTS = [
  0x0000000000000001, 0x0000000000008082, 0x800000000000808a,
  0x8000000080008000, 0x000000000000808b, 0x0000000080000001,
  0x8000000080008081, 0x8000000000008009, 0x000000000000008a,
  0x0000000000000088, 0x0000000080008009, 0x000000008000000a,
  0x000000008000808b, 0x800000000000008b, 0x8000000000008089,
  0x8000000000008003, 0x8000000000008002, 0x8000000000000080,
  0x000000000000800a, 0x800000008000000a, 0x8000000080008081,
  0x8000000000008080, 0x0000000080000001, 0x8000000080008008]"

definition rotateLeft :: "lane \<Rightarrow> nat \<Rightarrow> lane" where
  "rotateLeft v shift = (if shift = 0 then v else push_bit shift v OR drop_bit (64 - shift) v)"

text \<open>One round: column parities, mixing, rotation with transposition, the nonlinear row step.\<close>

definition columns :: "lane list \<Rightarrow> lane list" where
  "columns st = map (\<lambda>x. foldl (\<lambda>c y. c XOR st ! (x + 5 * y)) 0 [0..<5]) [0..<5]"

definition mixed :: "lane list \<Rightarrow> lane list" where
  "mixed cs = map (\<lambda>x. cs ! ((x + 4) mod 5) XOR rotateLeft (cs ! ((x + 1) mod 5)) 1) [0..<5]"

definition applyMixed :: "lane list \<Rightarrow> lane list" where
  "applyMixed st = (let m = mixed (columns st) in map (\<lambda>i. st ! i XOR m ! (i mod 5)) [0..<25])"

definition rotated :: "lane list \<Rightarrow> lane list" where
  "rotated st =
     foldl (\<lambda>r (x, y). r[y + 5 * ((2 * x + 3 * y) mod 5) := rotateLeft (st ! (x + 5 * y)) (ROTATION ! (x + 5 * y))])
       (replicate 25 0) (List.product [0..<5] [0..<5])"

definition rowStep :: "lane list \<Rightarrow> lane list" where
  "rowStep r = map (\<lambda>i. let x = i mod 5; y = i div 5 in
       r ! i XOR (NOT (r ! ((x + 1) mod 5 + 5 * y)) AND r ! ((x + 2) mod 5 + 5 * y))) [0..<25]"

definition keccakRound :: "lane list \<Rightarrow> lane \<Rightarrow> lane list" where
  "keccakRound st rc = (let r = rowStep (rotated (applyMixed st)) in r[0 := r ! 0 XOR rc])"

definition permute :: "lane list \<Rightarrow> lane list" where
  "permute st = foldl keccakRound st ROUND_CONSTANTS"

definition paddedLength :: "nat \<Rightarrow> nat" where
  "paddedLength n = ((n + 1 + (RATE_BYTES - 1)) div RATE_BYTES) * RATE_BYTES"

definition padded :: "byte list \<Rightarrow> byte list" where
  "padded input =
     (let n = paddedLength (length input);
          p0 = input @ replicate (n - length input) 0;
          p1 = p0[length input := 0x01]
      in p1[n - 1 := p1 ! (n - 1) OR 0x80])"

definition laneValue :: "byte list \<Rightarrow> nat \<Rightarrow> nat \<Rightarrow> lane" where
  "laneValue p block l =
     foldl (\<lambda>v b. v OR push_bit (b * 8) (ucast (p ! (block + l * 8 + b)))) 0 [0..<8]"

definition absorbBlock :: "byte list \<Rightarrow> lane list \<Rightarrow> nat \<Rightarrow> lane list" where
  "absorbBlock p st block =
     permute (foldl (\<lambda>s l. s[l := s ! l XOR laneValue p block l]) st [0..<RATE_BYTES div 8])"

definition squeeze :: "lane list \<Rightarrow> byte list" where
  "squeeze st = map (\<lambda>b. ucast (drop_bit ((b mod 8) * 8) (st ! (b div 8)) AND 0xff)) [0..<32]"

definition keccak256 :: "byte list \<Rightarrow> byte list" where
  "keccak256 input =
     (let p = padded input in
      squeeze (foldl (absorbBlock p) (replicate 25 0)
        (map (\<lambda>k. k * RATE_BYTES) [0..<length p div RATE_BYTES])))"

lemma length_keccak256 [simp]: "length (keccak256 bs) = 32"
  by (simp add: keccak256_def squeeze_def Let_def)

lemma rotateLeft_rotl:
  assumes "shift < 64"
  shows "rotateLeft v shift = word_rotl shift v"
proof (cases "shift = 0")
  case True
  then show ?thesis by (auto simp: rotateLeft_def bit_word_rotl_iff intro!: bit_word_eqI)
next
  case False
  define k where "k = 64 - shift"
  have k: "shift + k = 64" "0 < k" "k < 64" using assms False by (simp_all add: k_def)
  show ?thesis
  proof (rule bit_word_eqI)
    fix n assume "n < LENGTH(64)"
    then have n: "n < 64" by simp
    have l: "bit (rotateLeft v shift) n = (shift \<le> n \<and> bit v (n - shift) \<or> bit v (k + n))"
      using False n by (simp add: rotateLeft_def k_def bit_or_iff bit_push_bit_iff bit_drop_bit_eq)
    have r: "bit (word_rotl shift v) n = bit v ((n + k) mod 64)"
      using n assms by (simp add: bit_word_rotl_iff k_def)
    show "bit (rotateLeft v shift) n = bit (word_rotl shift v) n"
    proof (cases "n < shift")
      case True
      with k have "(n + k) mod 64 = k + n" by simp
      with True show ?thesis unfolding l r by simp
    next
      case False
      with k have "n + k = 64 + (n - shift)" by simp
      then have "(n + k) mod 64 = n - shift" using n by simp
      moreover have "\<not> bit v (k + n)" using False k by (intro impossible_bit) simp
      ultimately show ?thesis using False unfolding l r by simp
    qed
  qed
qed

section \<open>Hexadecimal text\<close>

definition hex_digit :: "nat \<Rightarrow> char" where
  "hex_digit d = ''0123456789abcdef'' ! d"

fun hex_of_nat :: "nat \<Rightarrow> string" where
  "hex_of_nat n = (if n < 16 then [hex_digit n] else hex_of_nat (n div 16) @ [hex_digit (n mod 16)])"

declare hex_of_nat.simps [simp del]

definition padStart :: "nat \<Rightarrow> string \<Rightarrow> string" where
  "padStart n s = replicate (n - length s) CHR ''0'' @ s"

definition bytesToHex :: "byte list \<Rightarrow> string" where
  "bytesToHex bs = ''0x'' @ concat (map (\<lambda>b. padStart 2 (hex_of_nat (unat b))) bs)"

fun hexPairs :: "string \<Rightarrow> byte list" where
  "hexPairs (a # b # s) = word_of_nat (hex_val a * 16 + hex_val b) # hexPairs s"
| "hexPairs s = []"

definition hexToBytes :: "string \<Rightarrow> nat \<Rightarrow> byte list res" where
  "hexToBytes v expectedBytes =
     (if take 2 v \<noteq> ''0x'' \<or> \<not> list_all is_any_hex (drop 2 v) then Inl (JsTypeError ''invalid hex'')
      else let digits = drop 2 v in
        if length digits \<noteq> expectedBytes * 2
        then Inl (JsRangeError (''expected '' @ dec_of_nat expectedBytes @ '' bytes''))
        else if digits = [] then Inl (JsTypeError ''match returned null'')
        else Inr (hexPairs digits))"

definition hashHex :: "byte list \<Rightarrow> string" where
  "hashHex bs = bytesToHex (keccak256 bs)"

text \<open>\<open>new TextEncoder().encode(value)\<close> on ASCII text.\<close>

definition utf8Hash :: "string \<Rightarrow> string" where
  "utf8Hash s = hashHex (map (\<lambda>c. word_of_nat (of_char c)) s)"

definition TAGS_manifest :: string where "TAGS_manifest = utf8Hash ''HOOKEMON_PAYOUT_MANIFEST_R55_A4_V1''"
definition TAGS_nonemptyLeaf :: string where "TAGS_nonemptyLeaf = utf8Hash ''HOOKEMON_PAYOUT_NONEMPTY_LEAF_R55_A4_V1''"
definition TAGS_emptyLeaf :: string where "TAGS_emptyLeaf = utf8Hash ''HOOKEMON_PAYOUT_EMPTY_LEAF_R55_A4_V1''"
definition TAGS_node :: string where "TAGS_node = utf8Hash ''HOOKEMON_PAYOUT_NODE_R55_A4_V1''"

section \<open>Words of the ABI encoding\<close>

definition uintWord :: "jsval \<Rightarrow> nat \<Rightarrow> byte list res" where
  "uintWord v bits =
     bindE (js_BigInt v) (\<lambda>integer.
       if integer < 0 \<or> 2 ^ bits \<le> integer
       then Inl (JsRangeError (''uint'' @ dec_of_nat bits @ '' out of range''))
       else hexToBytes (''0x'' @ padStart 64 (hex_of_nat (nat integer))) 32)"

definition bytes32Word :: "string \<Rightarrow> byte list res" where
  "bytes32Word v = hexToBytes v 32"

definition addressWord :: "string \<Rightarrow> byte list res" where
  "addressWord v = bindE (hexToBytes v 20) (\<lambda>bs. Inr (replicate 12 0 @ bs))"

text \<open>A list of words that may each throw, evaluated from left to right, and their concatenation.\<close>

fun sequenceE :: "'a res list \<Rightarrow> 'a list res" where
  "sequenceE [] = Inr []"
| "sequenceE (r # rs) = bindE r (\<lambda>x. bindE (sequenceE rs) (\<lambda>xs. Inr (x # xs)))"

definition encodeStatic :: "byte list res list \<Rightarrow> byte list res" where
  "encodeStatic words = bindE (sequenceE words) (\<lambda>ws. Inr (concat ws))"

section \<open>Hexadecimal text round-trips\<close>

lemma hex_cases: "d < 16 \<Longrightarrow> d \<in> {0, 1, 2, 3, 4, 5, 6, 7, 8, 9, 10, 11, 12, 13, 14, 15 :: nat}"
  by simp presburger

lemma hex_val_digit [simp]: "d < 16 \<Longrightarrow> hex_val (hex_digit d) = d"
  by (drule hex_cases) (auto simp: hex_val_def hex_digit_def Let_def)

lemma hex_digit_lower [simp]: "d < 16 \<Longrightarrow> is_lower_hex (hex_digit d)"
  by (drule hex_cases) (auto simp: is_lower_hex_def hex_digit_def)

lemma hex_digit_val: "is_any_hex c \<Longrightarrow> hex_val c < 16 \<and> hex_digit (hex_val c) = lower_char c"
proof -
  have "list_all (\<lambda>c. hex_val c < 16 \<and> hex_digit (hex_val c) = lower_char c) ''0123456789abcdefABCDEF''" by code_simp
  then show "is_any_hex c \<Longrightarrow> hex_val c < 16 \<and> hex_digit (hex_val c) = lower_char c"
    unfolding list_all_iff is_any_hex_def by blast
qed

lemma nat_of_hex_snoc [simp]: "nat_of_hex (s @ [c]) = nat_of_hex s * 16 + hex_val c"
  by (simp add: nat_of_hex_def)

lemma nat_of_hex_of_nat [simp]: "nat_of_hex (hex_of_nat n) = n"
proof (induction n rule: hex_of_nat.induct)
  case (1 n)
  show ?case
  proof (cases "n < 16")
    case True
    then show ?thesis by (simp add: hex_of_nat.simps [of n] nat_of_hex_def)
  next
    case False
    then show ?thesis using 1 by (simp add: hex_of_nat.simps [of n])
  qed
qed

lemma hex_of_nat_lower: "list_all is_lower_hex (hex_of_nat n)"
proof (induction n rule: hex_of_nat.induct)
  case (1 n)
  then show ?case by (cases "n < 16") (simp_all add: hex_of_nat.simps [of n])
qed

lemma length_hex_of_nat: "n < 16 ^ k \<Longrightarrow> 0 < k \<Longrightarrow> length (hex_of_nat n) \<le> k"
proof (induction n arbitrary: k rule: hex_of_nat.induct)
  case (1 n)
  show ?case
  proof (cases "n < 16")
    case True
    with 1 show ?thesis by (simp add: hex_of_nat.simps [of n])
  next
    case False
    with 1 obtain m where k: "k = Suc m" "0 < m" by (cases k; cases "k = 1") auto
    have "n div 16 < 16 ^ m" using 1(2) k by (simp add: less_mult_imp_div_less mult.commute)
    with 1(1) False k show ?thesis by (simp add: hex_of_nat.simps [of n])
  qed
qed

lemma nat_of_hex_pad [simp]: "nat_of_hex (padStart n s) = nat_of_hex s"
proof -
  have "foldl (\<lambda>a c. a * 16 + hex_val c) 0 (replicate k CHR ''0'') = 0" for k
    by (induction k) (simp_all add: hex_val_def)
  then show ?thesis by (simp add: nat_of_hex_def padStart_def)
qed

lemma length_padStart: "length s \<le> n \<Longrightarrow> length (padStart n s) = n"
  by (simp add: padStart_def)

lemma padStart_lower: "list_all is_lower_hex s \<Longrightarrow> list_all is_lower_hex (padStart n s)"
proof -
  have "is_lower_hex CHR ''0''" by (simp add: is_lower_hex_def)
  then show "list_all is_lower_hex s \<Longrightarrow> list_all is_lower_hex (padStart n s)" by (auto simp: padStart_def list_all_iff)
qed

text \<open>The two digits of a byte.\<close>

lemma byte_less: "unat (b :: byte) < 256"
  using unsigned_less [of b] by simp

lemma byte_div_less [simp]: "unat (b :: byte) div 16 < 16"
  using byte_less [of b] by simp

lemma unat_byte: "n < 256 \<Longrightarrow> unat (word_of_nat n :: byte) = n"
  by (simp add: unsigned_of_nat take_bit_nat_eq_self)

lemma byteHex: "padStart 2 (hex_of_nat (unat (b :: byte))) = [hex_digit (unat b div 16), hex_digit (unat b mod 16)]"
proof -
  have b: "unat b < 256" by (rule byte_less)
  then have "unat b div 16 < 16" by simp
  then show ?thesis
    by (cases "unat b < 16") (simp_all add: padStart_def hex_of_nat.simps [of "unat b"] hex_of_nat.simps [of "unat b div 16"]
        hex_digit_def)
qed

lemma byte_digits: "(word_of_nat (hex_val (hex_digit (unat b div 16)) * 16 + hex_val (hex_digit (unat b mod 16))) :: byte) = b"
proof -
  have "unat b < 256" by (rule byte_less)
  then have "unat b div 16 < 16" by simp
  then show ?thesis by simp
qed

lemma hexPairs_bytesToHex: "hexPairs (concat (map (\<lambda>b. padStart 2 (hex_of_nat (unat b))) bs)) = bs"
  by (induction bs) (simp_all add: byteHex byte_digits del: of_nat_add of_nat_mult)

lemma length_bytesToHex: "length (bytesToHex bs) = 2 + 2 * length bs"
  by (induction bs) (simp_all add: bytesToHex_def byteHex)

lemma bytesToHex_lower: "list_all is_lower_hex (drop 2 (bytesToHex bs))"
proof (induction bs)
  case Nil
  then show ?case by (simp add: bytesToHex_def)
next
  case (Cons b bs)
  have "unat b < 256" by (rule byte_less)
  then have "unat b div 16 < 16" by simp
  with Cons show ?case by (simp add: bytesToHex_def byteHex)
qed

lemma bytesToHex_pattern: "length bs = n \<Longrightarrow> hex_pattern (2 * n) (bytesToHex bs)"
  using bytesToHex_lower [of bs] length_bytesToHex [of bs] by (simp add: hex_pattern_def) (simp add: bytesToHex_def)

lemma hexPairs_drop_bytesToHex [simp]: "hexPairs (drop 2 (bytesToHex bs)) = bs"
  by (simp add: bytesToHex_def hexPairs_bytesToHex)

lemma bytesToHex_inj [simp]: "bytesToHex a = bytesToHex b \<longleftrightarrow> a = b"
  by (metis hexPairs_drop_bytesToHex)

lemma hexPairs_digits:
  "list_all is_any_hex s \<Longrightarrow> even (length s)
   \<Longrightarrow> concat (map (\<lambda>b. padStart 2 (hex_of_nat (unat b))) (hexPairs s)) = map lower_char s"
proof (induction s rule: hexPairs.induct)
  case (1 a b s)
  then have v: "hex_val a < 16" "hex_val b < 16" "hex_digit (hex_val a) = lower_char a" "hex_digit (hex_val b) = lower_char b"
    using hex_digit_val by auto
  then have "unat (word_of_nat (hex_val a * 16 + hex_val b) :: byte) = hex_val a * 16 + hex_val b"
    by (intro unat_byte) simp
  with 1 v show ?case by (simp add: byteHex)
qed simp_all

lemma bytesToHex_hexPairs:
  assumes "any_hex_pattern (2 * n) v"
  shows "bytesToHex (hexPairs (drop 2 v)) = toLowerCase v"
proof -
  obtain t where t: "v = ''0x'' @ t" "length t = 2 * n" "list_all is_any_hex t"
    using assms by (auto simp: any_hex_pattern_split)
  then show ?thesis by (simp add: bytesToHex_def hexPairs_digits toLowerCase_def)
qed

lemma hexPairs_inj:
  assumes "any_hex_pattern (2 * n) v" and "any_hex_pattern (2 * n) w" and "hexPairs (drop 2 v) = hexPairs (drop 2 w)"
  shows "toLowerCase v = toLowerCase w"
  using assms by (metis bytesToHex_hexPairs)

lemma length_hexPairs: "length (hexPairs s) = length s div 2"
  by (induction s rule: hexPairs.induct) simp_all

section \<open>The encoded words\<close>

text \<open>\<open>be_value\<close> reads a byte string as a big-endian integer; \<open>wordOf\<close> is the 32-byte word \<open>uintWord\<close> returns.\<close>

definition be_value :: "byte list \<Rightarrow> nat" where
  "be_value bs = foldl (\<lambda>a b. a * 256 + unat b) 0 bs"

definition wordOf :: "nat \<Rightarrow> byte list" where
  "wordOf n = hexPairs (padStart 64 (hex_of_nat n))"

lemma be_value_hexPairs_acc:
  "list_all is_any_hex s \<Longrightarrow> even (length s)
   \<Longrightarrow> foldl (\<lambda>a b. a * 256 + unat b) a (hexPairs s) = foldl (\<lambda>a c. a * 16 + hex_val c) a s"
proof (induction s arbitrary: a rule: hexPairs.induct)
  case (1 x y s)
  then have "hex_val x < 16" "hex_val y < 16" using hex_digit_val by auto
  then have "unat (word_of_nat (hex_val x * 16 + hex_val y) :: byte) = hex_val x * 16 + hex_val y"
    by (intro unat_byte) simp
  with 1 show ?case by (simp add: algebra_simps)
qed simp_all

lemma lower_list_any: "list_all is_lower_hex s \<Longrightarrow> list_all is_any_hex s"
  by (auto simp: list_all_iff lower_hex_any)

lemma wordOf_value:
  assumes "n < 2 ^ 256"
  shows "length (wordOf n) = 32" and "be_value (wordOf n) = n"
    and "length (padStart 64 (hex_of_nat n)) = 64" and "list_all is_lower_hex (padStart 64 (hex_of_nat n))"
proof -
  have "(2::nat) ^ 256 = 16 ^ 64" by simp
  with assms have "length (hex_of_nat n) \<le> 64" by (intro length_hex_of_nat) simp_all
  then show l: "length (padStart 64 (hex_of_nat n)) = 64" by (rule length_padStart)
  show h: "list_all is_lower_hex (padStart 64 (hex_of_nat n))" by (simp add: padStart_lower hex_of_nat_lower)
  show "length (wordOf n) = 32" using l by (simp add: wordOf_def length_hexPairs)
  show "be_value (wordOf n) = n"
    using be_value_hexPairs_acc [OF lower_list_any [OF h]] l nat_of_hex_pad [of 64 "hex_of_nat n"]
    by (simp add: be_value_def wordOf_def nat_of_hex_def nat_of_hex_of_nat [unfolded nat_of_hex_def])
qed

lemma wordOf_inj: "m < 2 ^ 256 \<Longrightarrow> n < 2 ^ 256 \<Longrightarrow> wordOf m = wordOf n \<longleftrightarrow> m = n"
  by (metis wordOf_value(2))

lemma hexToBytes_Inr:
  "0 < n \<Longrightarrow> hexToBytes v n = Inr w \<longleftrightarrow> any_hex_pattern (2 * n) v \<and> w = hexPairs (drop 2 v)"
  by (auto simp: hexToBytes_def any_hex_pattern_def Let_def)

lemma uintWord_Inr:
  assumes "bits \<le> 256"
  shows "uintWord v bits = Inr w \<longleftrightarrow> (\<exists>n. js_BigInt v = Inr (int n) \<and> n < 2 ^ bits \<and> w = wordOf n)"
proof -
  have "hexToBytes (''0x'' @ padStart 64 (hex_of_nat n)) 32 = Inr (wordOf n)" if "n < 2 ^ bits" for n
  proof -
    have "(2::nat) ^ bits \<le> 2 ^ 256" using assms by (rule power_increasing) simp
    with that have "n < 2 ^ 256" by (rule less_le_trans)
    from wordOf_value(3,4) [OF this] show ?thesis
      by (simp add: hexToBytes_def wordOf_def Let_def lower_list_any) auto
  qed
  moreover have "uintWord v bits = Inr w \<longleftrightarrow>
      (\<exists>i. js_BigInt v = Inr i \<and> 0 \<le> i \<and> i < 2 ^ bits \<and> hexToBytes (''0x'' @ padStart 64 (hex_of_nat (nat i))) 32 = Inr w)"
    unfolding uintWord_def bindE_Inr_iff throw_if_Inr_iff de_Morgan_disj not_less not_le by blast
  moreover have "(\<exists>i. js_BigInt v = Inr i \<and> 0 \<le> i \<and> i < 2 ^ bits \<and> P (nat i))
      \<longleftrightarrow> (\<exists>n. js_BigInt v = Inr (int n) \<and> n < 2 ^ bits \<and> P n)" for P
  proof
    assume "\<exists>i. js_BigInt v = Inr i \<and> 0 \<le> i \<and> i < 2 ^ bits \<and> P (nat i)"
    then obtain i where "js_BigInt v = Inr i" "0 \<le> i" "i < 2 ^ bits" "P (nat i)" by blast
    then show "\<exists>n. js_BigInt v = Inr (int n) \<and> n < 2 ^ bits \<and> P n"
      by (intro exI [of _ "nat i"]) (simp add: nat_less_iff)
  next
    assume "\<exists>n. js_BigInt v = Inr (int n) \<and> n < 2 ^ bits \<and> P n"
    then obtain n where "js_BigInt v = Inr (int n)" "n < 2 ^ bits" "P n" by blast
    then show "\<exists>i. js_BigInt v = Inr i \<and> 0 \<le> i \<and> i < 2 ^ bits \<and> P (nat i)"
      by (intro exI [of _ "int n"]) simp
  qed
  ultimately show ?thesis by fastforce
qed

lemma bytes32Word_Inr: "bytes32Word v = Inr w \<longleftrightarrow> any_hex_pattern 64 v \<and> w = hexPairs (drop 2 v)"
  using hexToBytes_Inr [of 32 v w] by (simp add: bytes32Word_def)

lemma addressWord_Inr:
  "addressWord v = Inr w \<longleftrightarrow> any_hex_pattern 40 v \<and> w = replicate 12 0 @ hexPairs (drop 2 v)"
  using hexToBytes_Inr [of 20 v] by (auto simp: addressWord_def res_simps)

lemmas word_Inr = bytes32Word_Inr addressWord_Inr uintWord_Inr

lemma length_bytes32: "any_hex_pattern 64 v \<Longrightarrow> length (hexPairs (drop 2 v)) = 32"
  by (simp add: any_hex_pattern_def length_hexPairs)

lemma length_address: "any_hex_pattern 40 v \<Longrightarrow> length (hexPairs (drop 2 v)) = 20"
  by (simp add: any_hex_pattern_def length_hexPairs)

lemma hashHex_pattern [simp]: "hex_pattern 64 (hashHex bs)" "any_hex_pattern 64 (hashHex bs)"
  using bytesToHex_pattern [of "keccak256 bs" 32] by (simp_all add: hashHex_def hex_pattern_any)

lemma hashHex_bytes [simp]: "hexPairs (drop 2 (hashHex bs)) = keccak256 bs"
  by (simp add: hashHex_def)

lemma hashHex_eq_iff: "hashHex a = hashHex b \<longleftrightarrow> keccak256 a = keccak256 b"
  by (simp add: hashHex_def)

lemma tags_pattern [simp]:
  "any_hex_pattern 64 TAGS_manifest" "any_hex_pattern 64 TAGS_nonemptyLeaf" "any_hex_pattern 64 TAGS_emptyLeaf"
  "any_hex_pattern 64 TAGS_node"
  by (simp_all add: TAGS_manifest_def TAGS_nonemptyLeaf_def TAGS_emptyLeaf_def TAGS_node_def utf8Hash_def)

lemma sequenceE_Inr: "sequenceE rs = Inr xs \<longleftrightarrow> rs = map Inr xs"
  by (induction rs arbitrary: xs) (auto simp: res_simps)

lemma encodeStatic_Inr: "encodeStatic ws = Inr bs \<longleftrightarrow> (\<exists>xs. ws = map Inr xs \<and> bs = concat xs)"
  by (auto simp: encodeStatic_def res_simps sequenceE_Inr)

text \<open>A concatenation of 32-byte words determines the words.\<close>

lemma concat_words_inj:
  assumes "list_all (\<lambda>w. length w = n) xs" and "list_all (\<lambda>w. length w = n) ys" and "0 < n" and "concat xs = concat ys"
  shows "xs = ys"
  using assms
proof (induction xs arbitrary: ys)
  case Nil
  then show ?case by (cases ys) auto
next
  case (Cons x xs)
  from Cons.prems obtain y zs where ys: "ys = y # zs" by (cases ys) auto
  have "x @ concat xs = y @ concat zs" "length x = length y" using Cons.prems ys by simp_all
  then have "x = y" "concat xs = concat zs" by simp_all
  moreover have "xs = zs" by (rule Cons.IH) (use Cons.prems ys \<open>concat xs = concat zs\<close> in simp_all)
  ultimately show ?case using ys by simp
qed

end
