(* ===== verification/Merkle_Sum.thy ===== *)
theory Merkle_Sum
  imports Keccak
begin

text \<open>
  The payout Merkle-sum tree: \<^verbatim>\<open>packages/contracts/tooling/payout/canonical-merkle-sum.mjs\<close> from the entry
  validation on.

  Every leaf and node carries a hash and a sum; a parent hashes both children with their sums and adds the
  sums.  The generic facts about such trees are proved once, in the locale \<open>sum_tree\<close>, for any parent
  function that adds weights and for any notion of two nodes being the same up to a clash of hash inputs;
  \<open>parentNode\<close> is an instance.  The lemmas here describe a built tree: its levels, its root, its leaves and
  the proofs read off it.  The properties are in \<open>Merkle_Manifest\<close> (the encoding) and \<open>Merkle_Claims\<close> (the tree).
\<close>

section \<open>Data\<close>

definition DEPTH :: nat where "DEPTH = 10"
definition WIDTH :: nat where "WIDTH = 2 ^ DEPTH"

record payout_domain =
  d_chainId :: jsval
  d_hook :: string
  d_cycleId :: string
  d_payoutId :: string

text \<open>\<open>{ ...domain, manifestDigest }\<close>.\<close>

record leaf_domain = payout_domain +
  d_manifestDigest :: string

record payout_entry =
  pe_index :: jsval
  pe_recipient :: string
  pe_amount :: jsval
  pe_directBalance :: jsval

record manifest =
  mf_domain :: payout_domain
  mf_snapshotNumber :: jsval
  mf_snapshotHash :: string
  mf_entries :: "payout_entry list"

record node =
  n_hash :: string
  n_sum :: string

record merkle_proof =
  siblingHashes :: "string list"
  siblingSums :: "string list"

record distribution =
  b_manifestBytes :: string
  b_manifestDigest :: string
  b_leaves :: "node list"
  b_root :: node
  b_proofs :: "merkle_proof list"

section \<open>Manifest\<close>

definition indexInRange :: "jsval \<Rightarrow> bool" where
  "indexInRange v = (isInteger v \<and> 0 \<le> num_of v \<and> num_of v < int WIDTH)"

definition validateEntry :: "string \<Rightarrow> int \<Rightarrow> payout_entry \<Rightarrow> int res" where
  "validateEntry hook prev e =
     (if \<not> indexInRange (pe_index e) then Inl (JsRangeError ''entry index out of range'')
      else if num_of (pe_index e) \<le> prev then Inl (JsRangeError ''entry indices must be strictly increasing'')
      else if toLowerCase (pe_recipient e) = ZERO_ADDRESS \<or> toLowerCase (pe_recipient e) = toLowerCase hook
      then Inl (JsRangeError ''entry recipient must be nonzero and differ from the hook'')
      else bindE (js_BigInt (pe_amount e)) (\<lambda>amount.
        if amount \<le> 0 then Inl (JsRangeError ''entry amount must be positive'')
        else bindE (js_BigInt (pe_directBalance e)) (\<lambda>balance.
        if balance \<le> 0 then Inl (JsRangeError ''entry direct balance must be positive'')
        else bindE (uintWord (pe_amount e) 256) (\<lambda>_.
        bindE (uintWord (pe_directBalance e) 256) (\<lambda>_.
        bindE (addressWord (pe_recipient e)) (\<lambda>_. Inr (num_of (pe_index e))))))))"

definition validateEntries :: "payout_entry list \<Rightarrow> string \<Rightarrow> int res" where
  "validateEntries entries hook = foldE (\<lambda>_ e prev. validateEntry hook prev e) 0 entries (- 1)"

definition headWords :: "payout_domain \<Rightarrow> jsval \<Rightarrow> string \<Rightarrow> byte list res list" where
  "headWords domain number hash =
     [bytes32Word TAGS_manifest, uintWord (JNum 1) 8, uintWord (d_chainId domain) 256, addressWord (d_hook domain),
      bytes32Word (d_cycleId domain), bytes32Word (d_payoutId domain), uintWord number 256,
      bytes32Word hash, uintWord (JNum 288) 256]"

definition entryWords :: "payout_entry \<Rightarrow> byte list res list" where
  "entryWords e = [uintWord (pe_index e) 16, addressWord (pe_recipient e), uintWord (pe_amount e) 256,
                   uintWord (pe_directBalance e) 256]"

definition manifestBytes :: "manifest \<Rightarrow> string res" where
  "manifestBytes m =
     bindE (validateEntries (mf_entries m) (d_hook (mf_domain m))) (\<lambda>_.
     bindE (encodeStatic (headWords (mf_domain m) (mf_snapshotNumber m) (mf_snapshotHash m))) (\<lambda>head.
     bindE (sequenceE (concat (map entryWords (mf_entries m)))) (\<lambda>encodedEntries.
     bindE (uintWord (JNum (int (length (mf_entries m)))) 256) (\<lambda>count.
       Inr (bytesToHex (concat (head # count # encodedEntries)))))))"

section \<open>Leaves and nodes\<close>

definition leafDomainWords :: "leaf_domain \<Rightarrow> byte list res list" where
  "leafDomainWords d =
     [uintWord (d_chainId d) 256, addressWord (d_hook d), bytes32Word (d_cycleId d), bytes32Word (d_payoutId d),
      bytes32Word (d_manifestDigest d)]"

definition nonemptyLeafBytes :: "leaf_domain \<Rightarrow> jsval \<Rightarrow> string \<Rightarrow> int \<Rightarrow> byte list res" where
  "nonemptyLeafBytes d index recipient amt =
     encodeStatic (bytes32Word TAGS_nonemptyLeaf # leafDomainWords d
       @ [uintWord index 16, addressWord recipient, uintWord (JNum amt) 256])"

definition nonemptyLeaf :: "leaf_domain \<Rightarrow> jsval \<Rightarrow> string \<Rightarrow> jsval \<Rightarrow> node res" where
  "nonemptyLeaf d index recipient amount =
     (if \<not> indexInRange index then Inl (JsRangeError ''leaf index out of range'')
      else if toLowerCase recipient = ZERO_ADDRESS \<or> toLowerCase recipient = toLowerCase (d_hook d)
      then Inl (JsRangeError ''leaf recipient must be nonzero and differ from the hook'')
      else bindE (js_BigInt amount) (\<lambda>amt.
        if amt \<le> 0 \<or> int MAX_UINT256 < amt then Inl (JsRangeError ''leaf amount must be positive uint256'')
        else bindE (nonemptyLeafBytes d index recipient amt) (\<lambda>encoded.
          Inr \<lparr>n_hash = hashHex encoded, n_sum = dec_of_nat (nat amt)\<rparr>)))"

definition emptyLeafBytes :: "leaf_domain \<Rightarrow> jsval \<Rightarrow> byte list res" where
  "emptyLeafBytes d index = encodeStatic (bytes32Word TAGS_emptyLeaf # leafDomainWords d @ [uintWord index 16])"

definition emptyLeaf :: "leaf_domain \<Rightarrow> jsval \<Rightarrow> node res" where
  "emptyLeaf d index =
     (if \<not> indexInRange index then Inl (JsRangeError ''leaf index out of range'')
      else bindE (emptyLeafBytes d index) (\<lambda>encoded. Inr \<lparr>n_hash = hashHex encoded, n_sum = ''0''\<rparr>))"

definition parentBytes :: "nat \<Rightarrow> string \<Rightarrow> int \<Rightarrow> string \<Rightarrow> int \<Rightarrow> byte list res" where
  "parentBytes level leftHash leftSum rightHash rightSum =
     encodeStatic [bytes32Word TAGS_node, uintWord (JNum (int level)) 8, bytes32Word leftHash, uintWord (JNum leftSum) 256,
                   bytes32Word rightHash, uintWord (JNum rightSum) 256]"

definition parentNode :: "nat \<Rightarrow> node \<Rightarrow> node \<Rightarrow> node res" where
  "parentNode level l r =
     (if DEPTH \<le> level then Inl (JsRangeError ''node level out of range'')
      else bindE (js_BigInt (JStr (n_sum l))) (\<lambda>leftSum.
      bindE (js_BigInt (JStr (n_sum r))) (\<lambda>rightSum.
        if leftSum < 0 \<or> rightSum < 0 \<or> int MAX_UINT256 - rightSum < leftSum
        then Inl (JsRangeError ''uint256 sum overflow'')
        else bindE (parentBytes level (n_hash l) leftSum (n_hash r) rightSum) (\<lambda>encoded.
          Inr \<lparr>n_hash = hashHex encoded, n_sum = dec_of_nat (nat (leftSum + rightSum))\<rparr>))))"

section \<open>Proofs\<close>

text \<open>The loop of \<open>verifyProof\<close>: bit \<open>level\<close> of the index says on which side the current node stands.\<close>

fun foldProof :: "(nat \<Rightarrow> 'n \<Rightarrow> 'n \<Rightarrow> 'n res) \<Rightarrow> nat \<Rightarrow> nat \<Rightarrow> 'n list \<Rightarrow> 'n \<Rightarrow> 'n res" where
  "foldProof parent index level [] n = Inr n"
| "foldProof parent index level (sib # sibs) n =
     bindE (if even (index div 2 ^ level) then parent level n sib else parent level sib n)
       (foldProof parent index (Suc level) sibs)"

definition siblingNodes :: "merkle_proof \<Rightarrow> node list" where
  "siblingNodes proof = map (\<lambda>(h, t). \<lparr>n_hash = h, n_sum = t\<rparr>) (zip (siblingHashes proof) (siblingSums proof))"

definition verifyProof :: "node \<Rightarrow> jsval \<Rightarrow> merkle_proof \<Rightarrow> node \<Rightarrow> bool res" where
  "verifyProof leaf index proof expectedRoot =
     (if \<not> indexInRange index then Inl (JsRangeError ''proof index out of range'')
      else if length (siblingHashes proof) \<noteq> DEPTH \<or> length (siblingSums proof) \<noteq> DEPTH
      then Inl (JsRangeError ''proof must have depth 10'')
      else bindE (foldProof parentNode (nat (num_of index)) 0 (siblingNodes proof) leaf) (\<lambda>n.
        Inr (n_hash n = n_hash expectedRoot \<and> n_sum n = n_sum expectedRoot)))"

definition proofDigestStep :: "nat \<Rightarrow> merkle_proof \<Rightarrow> byte list \<Rightarrow> byte list res" where
  "proofDigestStep index proof dig =
     (if length (siblingHashes proof) \<noteq> DEPTH \<or> length (siblingSums proof) \<noteq> DEPTH
      then Inl (JsRangeError ''proof must have depth 10'')
      else bindE (encodeStatic (Inr dig # uintWord (JNum (int index)) 16 # map bytes32Word (siblingHashes proof)
                    @ map (\<lambda>t. uintWord (JStr t) 256) (siblingSums proof))) (\<lambda>encoded. Inr (keccak256 encoded)))"

definition orderedProofsDigest :: "merkle_proof list \<Rightarrow> string res" where
  "orderedProofsDigest proofs =
     (if length proofs \<noteq> WIDTH then Inl (JsRangeError ''expected 1024 proofs'')
      else bindE (foldE proofDigestStep 0 proofs (replicate 32 0)) (\<lambda>dig. Inr (bytesToHex dig)))"

section \<open>Building a distribution\<close>

definition entryByIndex :: "payout_entry list \<Rightarrow> jsval \<Rightarrow> payout_entry option" where
  "entryByIndex entries i = map_of (rev (map (\<lambda>e. (pe_index e, e)) entries)) i"

definition makeLeaf :: "leaf_domain \<Rightarrow> payout_entry list \<Rightarrow> nat \<Rightarrow> node res" where
  "makeLeaf d entries i =
     (case entryByIndex entries (JNum (int i)) of
        Some e \<Rightarrow> nonemptyLeaf d (JNum (int i)) (pe_recipient e) (pe_amount e)
      | None \<Rightarrow> emptyLeaf d (JNum (int i)))"

definition parentsOf :: "nat \<Rightarrow> node list \<Rightarrow> node list res" where
  "parentsOf level children =
     mapE (\<lambda>_ k. parentNode level (children ! (k * 2)) (children ! (k * 2 + 1))) 0 [0..<length children div 2]"

fun buildLevels :: "nat \<Rightarrow> nat \<Rightarrow> node list \<Rightarrow> node list list res" where
  "buildLevels 0 level children = Inr [children]"
| "buildLevels (Suc n) level children =
     bindE (parentsOf level children) (\<lambda>parents.
     bindE (buildLevels n (Suc level) parents) (\<lambda>rest. Inr (children # rest)))"

fun proofSiblings :: "node list list \<Rightarrow> nat \<Rightarrow> node list" where
  "proofSiblings [] cursor = []"
| "proofSiblings [roots] cursor = []"
| "proofSiblings (level # levels) cursor = level ! (cursor XOR 1) # proofSiblings levels (cursor div 2)"

definition makeProof :: "node list list \<Rightarrow> nat \<Rightarrow> merkle_proof" where
  "makeProof levels index =
     (let sibs = proofSiblings levels index in \<lparr>siblingHashes = map n_hash sibs, siblingSums = map n_sum sibs\<rparr>)"

definition leafDomain :: "payout_domain \<Rightarrow> string \<Rightarrow> leaf_domain" where
  "leafDomain d dig = \<lparr>d_chainId = d_chainId d, d_hook = d_hook d, d_cycleId = d_cycleId d, d_payoutId = d_payoutId d,
     d_manifestDigest = dig\<rparr>"

definition buildDistribution :: "manifest \<Rightarrow> distribution res" where
  "buildDistribution m =
     bindE (manifestBytes m) (\<lambda>encoded.
     bindE (hexToBytes encoded ((length encoded - 2) div 2)) (\<lambda>raw.
       let manifestDigest = hashHex raw; ld = leafDomain (mf_domain m) manifestDigest in
       bindE (mapE (\<lambda>_ i. makeLeaf ld (mf_entries m) i) 0 [0..<WIDTH]) (\<lambda>leaves.
       bindE (buildLevels DEPTH 0 leaves) (\<lambda>levels.
         Inr \<lparr>b_manifestBytes = encoded, b_manifestDigest = manifestDigest, b_leaves = leaves,
              b_root = (levels ! DEPTH) ! 0, b_proofs = map (makeProof levels) [0..<WIDTH]\<rparr>))))"

section \<open>Trees whose nodes carry sums\<close>

text \<open>\<open>levels\<close> is a tree of the given depth: each level is half as long as the one below, pairwise combined.\<close>

definition linked :: "(nat \<Rightarrow> 'n \<Rightarrow> 'n \<Rightarrow> 'n res) \<Rightarrow> 'n list list \<Rightarrow> nat \<Rightarrow> bool" where
  "linked parent levels d =
     (length levels = Suc d
      \<and> (\<forall>l < d. length (levels ! l) = 2 * length (levels ! Suc l)
           \<and> (\<forall>k < length (levels ! Suc l).
                parent l (levels ! l ! (2 * k)) (levels ! l ! (2 * k + 1)) = Inr (levels ! Suc l ! k))))"

text \<open>The pairs of children a proof check combines, and the pairs of a tree, each with its level.\<close>

fun proofPairs :: "(nat \<Rightarrow> 'n \<Rightarrow> 'n \<Rightarrow> 'n res) \<Rightarrow> nat \<Rightarrow> nat \<Rightarrow> 'n list \<Rightarrow> 'n \<Rightarrow> (nat \<times> 'n \<times> 'n) list" where
  "proofPairs parent index level [] n = []"
| "proofPairs parent index level (sib # sibs) n =
     (let pair = (if even (index div 2 ^ level) then (n, sib) else (sib, n)) in
      (level, pair) # (case parent level (fst pair) (snd pair) of
         Inl _ \<Rightarrow> [] | Inr p \<Rightarrow> proofPairs parent index (Suc level) sibs p))"

definition treePairs :: "'n list list \<Rightarrow> (nat \<times> 'n \<times> 'n) set" where
  "treePairs levels = {(l, levels ! l ! (2 * k), levels ! l ! (2 * k + 1)) |l k. Suc l < length levels \<and> k < length (levels ! Suc l)}"

lemma half_cursor: "(i::nat) div 2 ^ Suc l = i div 2 ^ l div 2"
  by (simp only: power_Suc2 div_mult2_eq)

lemma cursor_less:
  assumes "(i::nat) < 2 ^ d" and "l < d"
  shows "i div 2 ^ Suc l < 2 ^ (d - Suc l)"
proof (rule less_mult_imp_div_less)
  have "2 ^ (d - Suc l) * 2 ^ Suc l = (2::nat) ^ (d - Suc l + Suc l)" by (rule power_add [symmetric])
  with assms show "i < 2 ^ (d - Suc l) * 2 ^ Suc l" by simp
qed

locale sum_tree =
  fixes parent :: "nat \<Rightarrow> 'n \<Rightarrow> 'n \<Rightarrow> 'n res" and weight :: "'n \<Rightarrow> nat"
  assumes parent_weight: "parent l a b = Inr c \<Longrightarrow> weight c = weight a + weight b"
begin

lemma pairs_total:
  assumes "length xs = 2 * length ys"
    and "\<And>k. k < length ys \<Longrightarrow> parent l (xs ! (2 * k)) (xs ! (2 * k + 1)) = Inr (ys ! k)"
  shows "sum_list (map weight ys) = sum_list (map weight xs)"
  using assms
proof (induction ys arbitrary: xs)
  case Nil
  then show ?case by simp
next
  case (Cons y ys)
  from Cons.prems(1) obtain a b zs where xs: "xs = a # b # zs"
    by (cases xs; cases "tl xs") auto
  have "parent l a b = Inr y" using Cons.prems(2) [of 0] xs by simp
  then have "weight y = weight a + weight b" by (rule parent_weight)
  moreover have "sum_list (map weight ys) = sum_list (map weight zs)"
    using Cons.prems(1) Cons.prems(2) [of "Suc _"] xs by (intro Cons.IH) simp_all
  ultimately show ?case using xs by simp
qed

lemma level_total:
  assumes "linked parent levels d" and "l \<le> d"
  shows "sum_list (map weight (levels ! l)) = sum_list (map weight (levels ! 0))"
  using assms(2)
proof (induction l)
  case 0
  then show ?case by simp
next
  case (Suc l)
  have "sum_list (map weight (levels ! Suc l)) = sum_list (map weight (levels ! l))"
    using assms(1) Suc.prems by (intro pairs_total [of _ _ l]) (auto simp: linked_def)
  with Suc show ?case by simp
qed

lemma level_length:
  assumes "linked parent levels d" and "l \<le> d" and "length (levels ! 0) = 2 ^ d"
  shows "length (levels ! l) = 2 ^ (d - l)"
  using assms(2)
proof (induction l)
  case 0
  then show ?case using assms(3) by simp
next
  case (Suc l)
  have "length (levels ! l) = 2 * length (levels ! Suc l)" using assms(1) Suc.prems by (simp add: linked_def)
  moreover have "(2::nat) ^ (d - l) = 2 * 2 ^ (d - Suc l)" using Suc.prems by (simp flip: power_Suc add: Suc_diff_Suc)
  ultimately show ?case using Suc by simp
qed

lemma foldProof_weight:
  "foldProof parent index l sibs n = Inr c \<Longrightarrow> weight c = weight n + sum_list (map weight sibs)"
proof (induction sibs arbitrary: l n)
  case Nil
  then show ?case by simp
next
  case (Cons sib sibs)
  then obtain p where p: "(if even (index div 2 ^ l) then parent l n sib else parent l sib n) = Inr p"
    and rest: "foldProof parent index (Suc l) sibs p = Inr c" by (auto simp: res_simps)
  have "weight p = weight n + weight sib" using p by (auto dest: parent_weight split: if_splits)
  with Cons.IH [OF rest] show ?case by simp
qed

text \<open>On a tree, the fold with the sibling nodes climbs from a leaf to the root.\<close>

lemma foldProof_climbs:
  assumes "linked parent levels d" and "length (levels ! 0) = 2 ^ d" and "i < 2 ^ d"
    and "l + length sibs = d"
    and "\<And>j. j < length sibs \<Longrightarrow>
       sibs ! j = levels ! (l + j) ! (if even (i div 2 ^ (l + j)) then i div 2 ^ (l + j) + 1 else i div 2 ^ (l + j) - 1)"
  shows "foldProof parent i l sibs (levels ! l ! (i div 2 ^ l)) = Inr (levels ! d ! (i div 2 ^ d))"
  using assms(4,5)
proof (induction sibs arbitrary: l)
  case Nil
  then show ?case by simp
next
  case (Cons sib sibs)
  let ?c = "i div 2 ^ l"
  have l: "l < d" "l \<le> d" using Cons.prems(1) by simp_all
  have half: "i div 2 ^ Suc l = ?c div 2" by (rule half_cursor)
  have "i div 2 ^ Suc l < 2 ^ (d - Suc l)" using assms(3) l(1) by (rule cursor_less)
  then have k: "?c div 2 < length (levels ! Suc l)" using level_length [OF assms(1) _ assms(2), of "Suc l"] l half by simp
  have pair: "parent l (levels ! l ! (2 * (?c div 2))) (levels ! l ! (2 * (?c div 2) + 1)) = Inr (levels ! Suc l ! (?c div 2))"
    using assms(1) l k by (simp add: linked_def)
  have sib: "sib = levels ! l ! (if even ?c then ?c + 1 else ?c - 1)" using Cons.prems(2) [of 0] by simp
  have step: "(if even ?c then parent l (levels ! l ! ?c) sib else parent l sib (levels ! l ! ?c)) = Inr (levels ! Suc l ! (?c div 2))"
  proof (cases "even ?c")
    case True
    with pair sib show ?thesis by simp
  next
    case False
    then have "2 * (?c div 2) = ?c - 1" "2 * (?c div 2) + 1 = ?c" by (simp_all add: odd_two_times_div_two_nat)
    with False pair sib show ?thesis by simp
  qed
  have "foldProof parent i (Suc l) sibs (levels ! Suc l ! (i div 2 ^ Suc l)) = Inr (levels ! d ! (i div 2 ^ d))"
    using Cons.prems(1) Cons.prems(2) [of "Suc _"] by (intro Cons.IH) simp_all
  with step half show ?case by simp
qed

end

text \<open>
  A parent function that binds its children: equal parents come from equal children, unless the two calls
  clash (for hashed nodes, unless they hash different inputs to the same value).
\<close>

locale bound_tree = sum_tree +
  fixes same :: "'a \<Rightarrow> 'a \<Rightarrow> bool" and clash :: "nat \<times> 'a \<times> 'a \<Rightarrow> nat \<times> 'a \<times> 'a \<Rightarrow> bool"
  assumes parent_binds: "parent l a b = Inr c \<Longrightarrow> parent l a' b' = Inr c' \<Longrightarrow> same c c'
      \<Longrightarrow> (same a a' \<and> same b b') \<or> clash (l, a, b) (l, a', b')"
begin

lemma foldProof_binds:
  assumes "linked parent levels d" and "length (levels ! 0) = 2 ^ d" and "i < 2 ^ d"
    and "l + length sibs = d" and "foldProof parent i l sibs n = Inr c" and "same c (levels ! d ! (i div 2 ^ d))"
  shows "same n (levels ! l ! (i div 2 ^ l))
         \<or> (\<exists>p \<in> set (proofPairs parent i l sibs n). \<exists>q \<in> treePairs levels. clash p q)"
  using assms(4-6)
proof (induction sibs arbitrary: l n)
  case Nil
  then show ?case by simp
next
  case (Cons sib sibs)
  let ?c = "i div 2 ^ l"
  define a b where "a = (if even ?c then n else sib)" and "b = (if even ?c then sib else n)"
  have ab: "(if even ?c then parent l n sib else parent l sib n) = parent l a b" by (simp add: a_def b_def)
  from Cons.prems(2) obtain m where m: "parent l a b = Inr m" and rest: "foldProof parent i (Suc l) sibs m = Inr c"
    by (auto simp: ab res_simps)
  have l: "l < d" "Suc l + length sibs = d" using Cons.prems(1) by simp_all
  have half: "i div 2 ^ Suc l = ?c div 2" by (rule half_cursor)
  have "i div 2 ^ Suc l < 2 ^ (d - Suc l)" using assms(3) l(1) by (rule cursor_less)
  then have k: "?c div 2 < length (levels ! Suc l)" using level_length [OF assms(1) _ assms(2), of "Suc l"] l half by simp
  let ?p = "(l, a, b)" and ?q = "(l, levels ! l ! (2 * (?c div 2)), levels ! l ! (2 * (?c div 2) + 1))"
  have pair: "parent l (fst (snd ?q)) (snd (snd ?q)) = Inr (levels ! Suc l ! (?c div 2))"
    using assms(1) l k by (simp add: linked_def)
  have q: "?q \<in> treePairs levels" using assms(1) l k by (auto simp: treePairs_def linked_def)
  have pairs: "proofPairs parent i l (sib # sibs) n = ?p # proofPairs parent i (Suc l) sibs m"
    using m by (simp add: a_def b_def Let_def split: if_splits)
  from Cons.IH [OF l(2) rest Cons.prems(3)] show ?case
  proof
    assume "same m (levels ! Suc l ! (i div 2 ^ Suc l))"
    then have s: "same m (levels ! Suc l ! (?c div 2))" by (simp only: half)
    from parent_binds [OF m pair s] have "(same a (fst (snd ?q)) \<and> same b (snd (snd ?q))) \<or> clash ?p ?q" by simp
    then show ?thesis
    proof
      assume ab: "same a (fst (snd ?q)) \<and> same b (snd (snd ?q))"
      have "same n (levels ! l ! ?c)"
      proof (cases "even ?c")
        case True
        then have "2 * (?c div 2) = ?c" by simp
        with ab True show ?thesis by (simp add: a_def)
      next
        case False
        then have "2 * (?c div 2) + 1 = ?c" by simp
        with ab False show ?thesis by (simp add: b_def)
      qed
      then show ?thesis ..
    next
      assume "clash ?p ?q"
      with q show ?thesis unfolding pairs by auto
    qed
  next
    assume "\<exists>p \<in> set (proofPairs parent i (Suc l) sibs m). \<exists>q \<in> treePairs levels. clash p q"
    then show ?thesis unfolding pairs by auto
  qed
qed

end

section \<open>The payout tree as an instance\<close>

definition weight :: "node \<Rightarrow> nat" where
  "weight n = (case js_BigInt (JStr (n_sum n)) of Inl _ \<Rightarrow> 0 | Inr i \<Rightarrow> nat i)"

lemma weight_BigInt: "js_BigInt (JStr (n_sum n)) = Inr (int k) \<Longrightarrow> weight n = k"
  by (simp add: weight_def)

lemma weight_decimal [simp]: "weight \<lparr>n_hash = h, n_sum = dec_of_nat k\<rparr> = k"
  by (simp add: weight_def)

text \<open>The encoding of an inner node as explicit words, and what a successful \<open>parentNode\<close> computes.\<close>

definition nodeWords :: "nat \<Rightarrow> string \<Rightarrow> nat \<Rightarrow> string \<Rightarrow> nat \<Rightarrow> byte list list" where
  "nodeWords l ha x hb y =
     [hexPairs (drop 2 TAGS_node), wordOf l, hexPairs (drop 2 ha), wordOf x, hexPairs (drop 2 hb), wordOf y]"

lemma MAX_UINT256_less: "n \<le> MAX_UINT256 \<longleftrightarrow> n < 2 ^ 256"
proof -
  have "(0::nat) < 2 ^ 256" by simp
  then show ?thesis unfolding MAX_UINT256_def by linarith
qed

lemma sum_within_uint256:
  assumes "x + y \<le> MAX_UINT256"
  shows "x < 2 ^ 256" and "y < 2 ^ 256"
  using assms by (simp_all only: MAX_UINT256_less [symmetric])

lemma uintWord_nat: "bits \<le> 256 \<Longrightarrow> n < 2 ^ bits \<Longrightarrow> uintWord (JNum (int n)) bits = Inr (wordOf n)"
  by (simp add: uintWord_Inr js_BigInt_def)

lemma parentBytes_Inr:
  assumes "l < DEPTH" and "x < 2 ^ 256" and "y < 2 ^ 256"
  shows "parentBytes l ha (int x) hb (int y) = Inr bs \<longleftrightarrow>
    any_hex_pattern 64 ha \<and> any_hex_pattern 64 hb \<and> bs = concat (nodeWords l ha x hb y)"
proof -
  have "l < 2 ^ 8" using assms(1) by (simp add: DEPTH_def)
  then have w: "uintWord (JNum (int l)) 8 = Inr (wordOf l)" "uintWord (JNum (int x)) 256 = Inr (wordOf x)"
    "uintWord (JNum (int y)) 256 = Inr (wordOf y)" using assms by (simp_all add: uintWord_nat)
  have t: "bytes32Word TAGS_node = Inr (hexPairs (drop 2 TAGS_node))" by (simp add: bytes32Word_Inr)
  show ?thesis unfolding parentBytes_def encodeStatic_def sequenceE.simps w t nodeWords_def
    by (auto simp: res_simps bytes32Word_Inr)
qed

lemma parentNode_Inr:
  "parentNode l a b = Inr c \<longleftrightarrow>
     l < DEPTH \<and> (\<exists>x y. js_BigInt (JStr (n_sum a)) = Inr (int x) \<and> js_BigInt (JStr (n_sum b)) = Inr (int y)
       \<and> x + y \<le> MAX_UINT256 \<and> any_hex_pattern 64 (n_hash a) \<and> any_hex_pattern 64 (n_hash b)
       \<and> c = \<lparr>n_hash = hashHex (concat (nodeWords l (n_hash a) x (n_hash b) y)), n_sum = dec_of_nat (x + y)\<rparr>)"
  (is "?L = ?R")
proof
  assume ?L
  then obtain i j bs where l: "l < DEPTH" and i: "js_BigInt (JStr (n_sum a)) = Inr i" and j: "js_BigInt (JStr (n_sum b)) = Inr j"
    and pos: "0 \<le> i" "0 \<le> j" "i \<le> int MAX_UINT256 - j"
    and bs: "parentBytes l (n_hash a) i (n_hash b) j = Inr bs"
    and c: "c = \<lparr>n_hash = hashHex bs, n_sum = dec_of_nat (nat (i + j))\<rparr>"
    unfolding parentNode_def bindE_Inr_iff throw_if_Inr_iff not_le not_less de_Morgan_disj sum.inject by blast
  define x y where "x = nat i" and "y = nat j"
  have xy: "i = int x" "j = int y" "x + y \<le> MAX_UINT256" using pos by (simp_all add: x_def y_def nat_le_iff flip: nat_add_distrib)
  then have "x < 2 ^ 256" "y < 2 ^ 256" using sum_within_uint256 [OF xy(3)] by simp_all
  with l bs xy have "any_hex_pattern 64 (n_hash a)" "any_hex_pattern 64 (n_hash b)"
    "bs = concat (nodeWords l (n_hash a) x (n_hash b) y)" by (simp_all add: parentBytes_Inr)
  with l i j xy c show ?R by (auto intro!: exI [of _ x] exI [of _ y] simp flip: of_nat_add)
next
  assume ?R
  then obtain x y where l: "l < DEPTH" and x: "js_BigInt (JStr (n_sum a)) = Inr (int x)" "js_BigInt (JStr (n_sum b)) = Inr (int y)"
    and le: "x + y \<le> MAX_UINT256" and h: "any_hex_pattern 64 (n_hash a)" "any_hex_pattern 64 (n_hash b)"
    and c: "c = \<lparr>n_hash = hashHex (concat (nodeWords l (n_hash a) x (n_hash b) y)), n_sum = dec_of_nat (x + y)\<rparr>" by blast
  have "x < 2 ^ 256" "y < 2 ^ 256" using sum_within_uint256 [OF le] by simp_all
  with l h have "parentBytes l (n_hash a) (int x) (n_hash b) (int y) = Inr (concat (nodeWords l (n_hash a) x (n_hash b) y))"
    by (simp add: parentBytes_Inr)
  moreover have "\<not> int MAX_UINT256 - int y < int x" using le by linarith
  ultimately show ?L using l x c by (simp add: parentNode_def flip: of_nat_add)
qed

text \<open>Two nodes are the same when their hashes are the same bytes and their sums the same number.\<close>

definition sameNode :: "node \<Rightarrow> node \<Rightarrow> bool" where
  "sameNode a b = (toLowerCase (n_hash a) = toLowerCase (n_hash b)
                   \<and> js_BigInt (JStr (n_sum a)) = js_BigInt (JStr (n_sum b)))"

text \<open>The bytes a pair of children is hashed from, and when two pairs are a Keccak collision.\<close>

definition pairBytes :: "nat \<times> node \<times> node \<Rightarrow> byte list" where
  "pairBytes p = (case p of (l, a, b) \<Rightarrow> concat (nodeWords l (n_hash a) (weight a) (n_hash b) (weight b)))"

definition collide :: "byte list \<Rightarrow> byte list \<Rightarrow> bool" where
  "collide x y = (x \<noteq> y \<and> keccak256 x = keccak256 y)"

lemma nodeWords_lengths:
  assumes "l < DEPTH" and "any_hex_pattern 64 ha" and "any_hex_pattern 64 hb" and "x < 2 ^ 256" and "y < 2 ^ 256"
  shows "list_all (\<lambda>w. length w = 32) (nodeWords l ha x hb y)"
proof -
  have "l < 2 ^ 256" using assms(1) by (simp add: DEPTH_def)
  with assms show ?thesis by (simp add: nodeWords_def length_bytes32 wordOf_value)
qed

interpretation payout_tree: bound_tree parentNode weight sameNode "\<lambda>p q. collide (pairBytes p) (pairBytes q)"
proof
  fix l a b c assume "parentNode l a b = Inr c"
  then show "weight c = weight a + weight b" by (auto simp: parentNode_Inr weight_BigInt)
next
  fix l a b c a' b' c'
  assume 1: "parentNode l a b = Inr c" and 2: "parentNode l a' b' = Inr c'" and s: "sameNode c c'"
  from 1 obtain x y where l: "l < DEPTH" and x: "js_BigInt (JStr (n_sum a)) = Inr (int x)" "js_BigInt (JStr (n_sum b)) = Inr (int y)"
    and le: "x + y \<le> MAX_UINT256" and h: "any_hex_pattern 64 (n_hash a)" "any_hex_pattern 64 (n_hash b)"
    and c: "n_hash c = hashHex (concat (nodeWords l (n_hash a) x (n_hash b) y))" by (auto simp: parentNode_Inr)
  from 2 obtain x' y' where x': "js_BigInt (JStr (n_sum a')) = Inr (int x')" "js_BigInt (JStr (n_sum b')) = Inr (int y')"
    and le': "x' + y' \<le> MAX_UINT256" and h': "any_hex_pattern 64 (n_hash a')" "any_hex_pattern 64 (n_hash b')"
    and c': "n_hash c' = hashHex (concat (nodeWords l (n_hash a') x' (n_hash b') y'))" by (auto simp: parentNode_Inr)
  have lt: "x < 2 ^ 256" "y < 2 ^ 256" "x' < 2 ^ 256" "y' < 2 ^ 256" using sum_within_uint256 [OF le] sum_within_uint256 [OF le'] by simp_all
  have w: "weight a = x" "weight b = y" "weight a' = x'" "weight b' = y'" using x x' by (simp_all add: weight_BigInt)
  have "hashHex (concat (nodeWords l (n_hash a) x (n_hash b) y)) = hashHex (concat (nodeWords l (n_hash a') x' (n_hash b') y'))"
    using s c c' toLowerCase_hex [OF hashHex_pattern(1)] by (simp add: sameNode_def)
  then have k: "keccak256 (pairBytes (l, a, b)) = keccak256 (pairBytes (l, a', b'))"
    by (simp add: hashHex_eq_iff pairBytes_def w)
  show "(sameNode a a' \<and> sameNode b b') \<or> collide (pairBytes (l, a, b)) (pairBytes (l, a', b'))"
  proof (cases "pairBytes (l, a, b) = pairBytes (l, a', b')")
    case True
    then have "nodeWords l (n_hash a) x (n_hash b) y = nodeWords l (n_hash a') x' (n_hash b') y'"
      using nodeWords_lengths [OF l h lt(1,2)] nodeWords_lengths [OF l h' lt(3,4)]
      by (intro concat_words_inj [where n = 32]) (simp_all add: pairBytes_def w)
    then have "hexPairs (drop 2 (n_hash a)) = hexPairs (drop 2 (n_hash a'))" "hexPairs (drop 2 (n_hash b)) = hexPairs (drop 2 (n_hash b'))"
      and xy: "x = x'" "y = y'" using lt by (simp_all add: nodeWords_def wordOf_inj)
    then have "toLowerCase (n_hash a) = toLowerCase (n_hash a')" "toLowerCase (n_hash b) = toLowerCase (n_hash b')"
      using hexPairs_inj [of 32 "n_hash a" "n_hash a'"] hexPairs_inj [of 32 "n_hash b" "n_hash b'"] h h' by simp_all
    with x x' xy show ?thesis by (simp add: sameNode_def)
  next
    case False
    with k show ?thesis by (simp add: collide_def)
  qed
qed

section \<open>The levels of a built tree\<close>

lemma parentsOf_Inr:
  "parentsOf l ch = Inr ps \<longleftrightarrow>
     length ps = length ch div 2 \<and> (\<forall>k < length ch div 2. parentNode l (ch ! (2 * k)) (ch ! (2 * k + 1)) = Inr (ps ! k))"
  by (simp add: parentsOf_def mapE_Inr_iff mult.commute)

lemma buildLevels_Inr:
  assumes "buildLevels n l ch = Inr L" and "length ch = 2 ^ n"
  shows "L ! 0 = ch \<and> length L = Suc n
    \<and> (\<forall>j < n. length (L ! j) = 2 * length (L ! Suc j)
        \<and> (\<forall>k < length (L ! Suc j). parentNode (l + j) (L ! j ! (2 * k)) (L ! j ! (2 * k + 1)) = Inr (L ! Suc j ! k)))"
  using assms
proof (induction n arbitrary: l ch L)
  case 0
  then show ?case by auto
next
  case (Suc n)
  from Suc.prems(1) obtain ps R where ps: "parentsOf l ch = Inr ps" and R: "buildLevels n (Suc l) ps = Inr R" and L: "L = ch # R"
    by (auto simp: res_simps)
  have lp: "length ps = 2 ^ n" "length ch = 2 * length ps" using ps Suc.prems(2) by (simp_all add: parentsOf_Inr)
  note IH = Suc.IH [OF R lp(1)]
  have "length (L ! j) = 2 * length (L ! Suc j)
      \<and> (\<forall>k < length (L ! Suc j). parentNode (l + j) (L ! j ! (2 * k)) (L ! j ! (2 * k + 1)) = Inr (L ! Suc j ! k))"
    if "j < Suc n" for j
  proof (cases j)
    case 0
    then show ?thesis using IH ps lp L by (simp add: parentsOf_Inr)
  next
    case (Suc j')
    then show ?thesis using IH that L by simp
  qed
  with IH L show ?case by simp
qed

lemma buildLevels_linked:
  assumes "buildLevels DEPTH 0 leaves = Inr L" and "length leaves = WIDTH"
  shows "linked parentNode L DEPTH" and "L ! 0 = leaves" and "length (L ! 0) = 2 ^ DEPTH"
  using buildLevels_Inr [OF assms(1)] assms(2) by (simp_all add: linked_def WIDTH_def)

lemma xor_one: "(n::nat) XOR 1 = (if even n then n + 1 else n - 1)"
  using xor_one_eq [of n] by simp

lemma proofSiblings_nth:
  "length (proofSiblings L c) = length L - 1
   \<and> (\<forall>j < length L - 1. proofSiblings L c ! j = L ! j ! ((c div 2 ^ j) XOR 1))"
proof (induction L c rule: proofSiblings.induct)
  case (3 lv lv' L c)
  have "proofSiblings (lv # lv' # L) c ! j = (lv # lv' # L) ! j ! ((c div 2 ^ j) XOR 1)" if "j < Suc (length L)" for j
  proof (cases j)
    case 0
    then show ?thesis by simp
  next
    case (Suc i)
    with 3 that show ?thesis by (simp add: div_mult2_eq)
  qed
  with 3 show ?case by simp
qed simp_all

lemma siblingNodes_makeProof [simp]: "siblingNodes (makeProof L i) = proofSiblings L i"
proof -
  have "map (\<lambda>(h, t). \<lparr>n_hash = h, n_sum = t\<rparr>) (zip (map n_hash xs) (map n_sum xs)) = xs" for xs
    by (induction xs) simp_all
  then show ?thesis by (simp add: siblingNodes_def makeProof_def Let_def)
qed

lemma verifyProof_built:
  assumes "buildLevels DEPTH 0 leaves = Inr L" and "length leaves = WIDTH" and "i < WIDTH"
  shows "verifyProof (leaves ! i) (JNum (int i)) (makeProof L i) (L ! DEPTH ! 0) = Inr True"
proof -
  note b = buildLevels_linked [OF assms(1,2)]
  have len: "length L = Suc DEPTH" using b(1) by (simp add: linked_def)
  have i: "i < 2 ^ DEPTH" using assms(3) by (simp add: WIDTH_def)
  have "foldProof parentNode i 0 (proofSiblings L i) (L ! 0 ! (i div 2 ^ 0)) = Inr (L ! DEPTH ! (i div 2 ^ DEPTH))"
    by (rule payout_tree.foldProof_climbs [OF b(1,3) i]) (use proofSiblings_nth [of L i] len xor_one in \<open>simp_all\<close>)
  then have "foldProof parentNode i 0 (proofSiblings L i) (leaves ! i) = Inr (L ! DEPTH ! 0)" using i b(2) by simp
  then show ?thesis using assms(3) proofSiblings_nth [of L i] len
    by (simp add: verifyProof_def indexInRange_def isInteger_def) (simp add: makeProof_def Let_def)
qed

section \<open>Entries and leaves\<close>

definition entryAmount :: "payout_entry \<Rightarrow> nat" where
  "entryAmount e = (case js_BigInt (pe_amount e) of Inl _ \<Rightarrow> 0 | Inr i \<Rightarrow> nat i)"

definition manifestTotal :: "manifest \<Rightarrow> nat" where
  "manifestTotal m = sum_list (map entryAmount (mf_entries m))"

definition entryOk :: "string \<Rightarrow> payout_entry \<Rightarrow> bool" where
  "entryOk hook e =
     (indexInRange (pe_index e) \<and> any_hex_pattern 40 (pe_recipient e)
      \<and> toLowerCase (pe_recipient e) \<noteq> ZERO_ADDRESS \<and> toLowerCase (pe_recipient e) \<noteq> toLowerCase hook
      \<and> js_BigInt (pe_amount e) = Inr (int (entryAmount e)) \<and> 0 < entryAmount e \<and> entryAmount e < 2 ^ 256
      \<and> (\<exists>d. js_BigInt (pe_directBalance e) = Inr (int d) \<and> 0 < d \<and> d < 2 ^ 256))"

lemma ex_int_iff: "(\<exists>n. b = int n \<and> P n) \<longleftrightarrow> 0 \<le> b \<and> P (nat b)"
  by (metis nat_int nat_0_le of_nat_0_le_iff)

lemma validateEntry_Inr:
  "validateEntry hook prev e = Inr p \<longleftrightarrow> entryOk hook e \<and> prev < num_of (pe_index e) \<and> p = num_of (pe_index e)"
  unfolding validateEntry_def bindE_Inr_iff throw_if_Inr_iff not_le not_less de_Morgan_disj sum.inject not_not
    addressWord_Inr uintWord_Inr [OF order_refl]
  by (cases "js_BigInt (pe_amount e)"; cases "js_BigInt (pe_directBalance e)")
     (auto simp: entryOk_def entryAmount_def ex_int_iff)

lemma validateEntries_Inr:
  assumes "validateEntries es hook = Inr p"
  shows "list_all (entryOk hook) es" and "sorted_wrt (\<lambda>a b. num_of (pe_index a) < num_of (pe_index b)) es"
proof -
  have "list_all (entryOk hook) ([] @ es) \<and> sorted_wrt (\<lambda>a b. num_of (pe_index a) < num_of (pe_index b)) ([] @ es)
      \<and> (\<forall>e \<in> set ([] @ es). num_of (pe_index e) \<le> p)"
    by (rule foldE_prefix_invariant [OF assms [unfolded validateEntries_def]])
       (auto simp: validateEntry_Inr sorted_wrt_append)
  then show "list_all (entryOk hook) es" "sorted_wrt (\<lambda>a b. num_of (pe_index a) < num_of (pe_index b)) es" by simp_all
qed

lemma entries_distinct:
  assumes "sorted_wrt (\<lambda>a b. num_of (pe_index a) < num_of (pe_index b)) es"
  shows "distinct (map pe_index es)"
  using assms by (induction es) auto

lemma entryByIndex_Some:
  "distinct (map pe_index es) \<Longrightarrow> entryByIndex es i = Some e \<longleftrightarrow> e \<in> set es \<and> pe_index e = i"
proof -
  assume d: "distinct (map pe_index es)"
  then have "distinct (map fst (rev (map (\<lambda>e. (pe_index e, e)) es)))" by (simp add: comp_def flip: rev_map)
  then show ?thesis by (auto simp: entryByIndex_def)
qed

text \<open>What a successful \<open>manifestBytes\<close> has checked and encoded.\<close>

definition domainOk :: "payout_domain \<Rightarrow> bool" where
  "domainOk d = ((\<exists>n. js_BigInt (d_chainId d) = Inr (int n) \<and> n < 2 ^ 256) \<and> any_hex_pattern 40 (d_hook d)
                 \<and> any_hex_pattern 64 (d_cycleId d) \<and> any_hex_pattern 64 (d_payoutId d))"

lemma manifestBytes_checks:
  assumes "manifestBytes m = Inr enc"
  shows "domainOk (mf_domain m)" and "list_all (entryOk (d_hook (mf_domain m))) (mf_entries m)"
    and "sorted_wrt (\<lambda>a b. num_of (pe_index a) < num_of (pe_index b)) (mf_entries m)"
    and "\<exists>bs. bs \<noteq> [] \<and> enc = bytesToHex bs"
proof -
  from assms obtain p head es count where v: "validateEntries (mf_entries m) (d_hook (mf_domain m)) = Inr p"
    and h: "encodeStatic (headWords (mf_domain m) (mf_snapshotNumber m) (mf_snapshotHash m)) = Inr head"
    and c: "uintWord (JNum (int (length (mf_entries m)))) 256 = Inr count"
    and e: "enc = bytesToHex (concat (head # count # es))"
    unfolding manifestBytes_def bindE_Inr_iff sum.inject by blast
  show "list_all (entryOk (d_hook (mf_domain m))) (mf_entries m)"
    "sorted_wrt (\<lambda>a b. num_of (pe_index a) < num_of (pe_index b)) (mf_entries m)"
    using validateEntries_Inr [OF v] by simp_all
  show "domainOk (mf_domain m)" using h
    by (auto simp: encodeStatic_def sequenceE.simps headWords_def res_simps word_Inr domainOk_def)
  from c obtain n where "n < 2 ^ 256" "count = wordOf n" by (auto simp: uintWord_Inr [OF order_refl])
  then have "count \<noteq> []" using wordOf_value(1) [of n] by auto
  with e show "\<exists>bs. bs \<noteq> [] \<and> enc = bytesToHex bs" by (intro exI [of _ "concat (head # count # es)"]) simp
qed

lemma rehash_manifest: "bs \<noteq> [] \<Longrightarrow> hexToBytes (bytesToHex bs) ((length (bytesToHex bs) - 2) div 2) = Inr bs"
  using bytesToHex_pattern [of bs "length bs"] by (simp add: length_bytesToHex hexToBytes_Inr hex_pattern_any)

lemma buildDistribution_Inr:
  assumes "buildDistribution m = Inr b"
  obtains enc L where "manifestBytes m = Inr enc" "b_manifestBytes b = enc"
    "mapE (\<lambda>_ i. makeLeaf (leafDomain (mf_domain m) (b_manifestDigest b)) (mf_entries m) i) 0 [0..<WIDTH] = Inr (b_leaves b)"
    "buildLevels DEPTH 0 (b_leaves b) = Inr L" "b_root b = L ! DEPTH ! 0" "b_proofs b = map (makeProof L) [0..<WIDTH]"
    "hex_pattern 64 (b_manifestDigest b)"
proof -
  from assms obtain enc raw leaves L where "manifestBytes m = Inr enc"
    and "mapE (\<lambda>_ i. makeLeaf (leafDomain (mf_domain m) (hashHex raw)) (mf_entries m) i) 0 [0..<WIDTH] = Inr leaves"
    and "buildLevels DEPTH 0 leaves = Inr L"
    and "b = \<lparr>b_manifestBytes = enc, b_manifestDigest = hashHex raw, b_leaves = leaves,
              b_root = (L ! DEPTH) ! 0, b_proofs = map (makeProof L) [0..<WIDTH]\<rparr>"
    unfolding buildDistribution_def Let_def bindE_Inr_iff sum.inject by metis
  then show thesis by (intro that [of enc L]) simp_all
qed

lemma built_leaves:
  assumes "mapE (\<lambda>_ i. makeLeaf ld es i) 0 [0..<WIDTH] = Inr leaves"
  shows "length leaves = WIDTH" and "i < WIDTH \<Longrightarrow> makeLeaf ld es i = Inr (leaves ! i)"
  using assms by (simp_all add: mapE_Inr_iff)

lemma makeLeaf_weight:
  assumes "makeLeaf ld es i = Inr n"
  shows "weight n = (case entryByIndex es (JNum (int i)) of None \<Rightarrow> 0 | Some e \<Rightarrow> entryAmount e)"
  using assms dec_of_nat_0
  by (auto simp: makeLeaf_def nonemptyLeaf_def emptyLeaf_def entryAmount_def weight_def js_BigInt_decimal res_simps simp flip: dec_of_nat_0
      split: option.splits)

lemma lookup_none:
  fixes f :: "payout_entry \<Rightarrow> nat"
  shows "\<forall>e \<in> set es. pe_index e \<noteq> i \<Longrightarrow> (\<Sum>e\<leftarrow>es. if pe_index e = i then f e else 0) = 0"
  by (induction es) simp_all

lemma lookup_total:
  fixes f :: "payout_entry \<Rightarrow> nat"
  assumes "distinct (map pe_index es)" and "\<And>e. e \<in> set es \<Longrightarrow> indexInRange (pe_index e)"
  shows "sum_list (map (\<lambda>i. case entryByIndex es (JNum (int i)) of None \<Rightarrow> 0 | Some e \<Rightarrow> f e) [0..<WIDTH]) = sum_list (map f es)"
proof -
  have one: "(case entryByIndex es (JNum (int i)) of None \<Rightarrow> 0 | Some e \<Rightarrow> f e)
      = sum_list (map (\<lambda>e. if pe_index e = JNum (int i) then f e else 0) es)" for i
  proof (cases "entryByIndex es (JNum (int i))")
    case None
    then have "\<forall>e \<in> set es. pe_index e \<noteq> JNum (int i)" using entryByIndex_Some [OF assms(1)] by (metis option.distinct(1))
    with None show ?thesis by (simp add: lookup_none)
  next
    case (Some e)
    then have e: "e \<in> set es" "pe_index e = JNum (int i)" by (simp_all add: entryByIndex_Some [OF assms(1)])
    have "sum_list (map (\<lambda>e. if pe_index e = JNum (int i) then f e else 0) es) = f e" using e assms(1)
    proof (induction es)
      case (Cons x xs)
      show ?case
      proof (cases "x = e")
        case True
        then have "\<forall>y \<in> set xs. pe_index y \<noteq> JNum (int i)" using Cons.prems by (auto simp: image_iff)
        with True Cons.prems show ?thesis by (simp add: lookup_none)
      next
        case False
        then have "pe_index x \<noteq> JNum (int i)" using Cons.prems by (auto simp: image_iff)
        with False Cons show ?thesis by simp
      qed
    qed simp
    with Some show ?thesis by simp
  qed
  have "(\<Sum>i\<leftarrow>[0..<WIDTH]. \<Sum>e\<leftarrow>xs. if pe_index e = JNum (int i) then f e else 0) = sum_list (map f xs)"
    if "set xs \<subseteq> set es" for xs using that
  proof (induction xs)
    case Nil
    then show ?case by (simp add: sum_list_0)
  next
    case (Cons e xs)
    obtain k where k: "pe_index e = JNum (int k)" "k < WIDTH"
      using assms(2) [of e] Cons.prems by (auto simp: indexInRange_def isInteger_iff num_of_def dest: zero_le_imp_eq_int)
    have "(\<Sum>i\<leftarrow>[0..<WIDTH]. if pe_index e = JNum (int i) then f e else 0) = f e"
      using k by (simp add: interv_sum_list_conv_sum_set_nat sum.delta')
    with Cons show ?case by (simp add: sum_list_addf)
  qed
  from this [of es] show ?thesis by (simp add: one)
qed

lemma leaves_total:
  assumes "manifestBytes m = Inr enc" and "mapE (\<lambda>_ i. makeLeaf ld (mf_entries m) i) 0 [0..<WIDTH] = Inr leaves"
  shows "sum_list (map weight leaves) = manifestTotal m"
proof -
  note c = manifestBytes_checks [OF assms(1)]
  have "map weight leaves = map (\<lambda>i. weight (leaves ! i)) [0..<WIDTH]"
    using built_leaves(1) [OF assms(2)] by (metis map_nth map_map comp_apply map_cong)
  also have "\<dots> = map (\<lambda>i. case entryByIndex (mf_entries m) (JNum (int i)) of None \<Rightarrow> 0 | Some e \<Rightarrow> entryAmount e) [0..<WIDTH]"
    by (rule map_cong [OF refl], rule makeLeaf_weight, rule built_leaves(2) [OF assms(2)]) simp
  finally show ?thesis
    using lookup_total [OF entries_distinct [OF c(3)], of entryAmount] c(2)
    by (simp add: manifestTotal_def list_all_iff entryOk_def)
qed

lemma root_is_parent:
  assumes "linked parentNode L DEPTH" and "length (L ! 0) = 2 ^ DEPTH"
  shows "length (L ! DEPTH) = 1" and "\<exists>a b. parentNode 9 a b = Inr (L ! DEPTH ! 0)"
proof -
  show l: "length (L ! DEPTH) = 1" using payout_tree.level_length [OF assms(1) _ assms(2), of DEPTH] by simp
  have d: "DEPTH = Suc 9" by (simp add: DEPTH_def)
  have "\<forall>k < length (L ! DEPTH). parentNode 9 (L ! 9 ! (2 * k)) (L ! 9 ! (2 * k + 1)) = Inr (L ! DEPTH ! k)"
    using assms(1) unfolding linked_def d by blast
  with l show "\<exists>a b. parentNode 9 a b = Inr (L ! DEPTH ! 0)" by auto
qed

lemma single_total: "length xs = 1 \<Longrightarrow> sum_list (map f xs) = (f (xs ! 0) :: nat)"
  by (cases xs) auto

lemma root_sum:
  assumes "buildLevels DEPTH 0 leaves = Inr L" and "length leaves = WIDTH"
  shows "n_sum (L ! DEPTH ! 0) = dec_of_nat (sum_list (map weight leaves))" and "sum_list (map weight leaves) \<le> MAX_UINT256"
proof -
  note b = buildLevels_linked [OF assms]
  note r = root_is_parent [OF b(1,3)]
  obtain a c where p: "parentNode 9 a c = Inr (L ! DEPTH ! 0)" using r(2) by blast
  have "sum_list (map weight (L ! DEPTH)) = sum_list (map weight leaves)"
    using payout_tree.level_total [OF b(1), of DEPTH] b(2) by simp
  then have w: "weight (L ! DEPTH ! 0) = sum_list (map weight leaves)" by (simp add: single_total [OF r(1)])
  from p obtain x y where "x + y \<le> MAX_UINT256" "n_sum (L ! DEPTH ! 0) = dec_of_nat (x + y)" by (auto simp: parentNode_Inr)
  moreover from this have "weight (L ! DEPTH ! 0) = x + y" by (simp add: weight_def)
  ultimately show "n_sum (L ! DEPTH ! 0) = dec_of_nat (sum_list (map weight leaves))"
    "sum_list (map weight leaves) \<le> MAX_UINT256" using w by simp_all
qed

end
