(* ===== verification/Merkle_Manifest.thy ===== *)
theory Merkle_Manifest
  imports Merkle_Sum
begin

text \<open>
  The canonical payout manifest as bytes: the decoder of \<^verbatim>\<open>packages/runner/src/distribution/merkle-sum.mjs\<close>, the
  explicit word layout of \<open>manifestBytes\<close>, and that decoding an encoded manifest gives its content in canonical
  form (decimal strings, lower-case addresses).  The input of \<open>canonicalVector\<close> is the concrete manifest used for
  witnesses.
\<close>

section \<open>The decoder\<close>

definition readWord :: "byte list \<Rightarrow> nat \<Rightarrow> string \<Rightarrow> byte list res" where
  "readWord bytes offset label =
     (if length bytes < offset + 32 then Inl (JsError (label @ '' is truncated'')) else Inr (take 32 (drop offset bytes)))"

definition readUint :: "byte list \<Rightarrow> nat \<Rightarrow> nat \<Rightarrow> string \<Rightarrow> int res" where
  "readUint bytes offset bits label =
     bindE (readWord bytes offset label) (\<lambda>w.
     bindE (js_BigInt (JStr (bytesToHex w))) (\<lambda>v.
       if 2 ^ bits \<le> v then Inl (JsError (label @ '' exceeds uint'' @ dec_of_nat bits)) else Inr v))"

definition readBytes32 :: "byte list \<Rightarrow> nat \<Rightarrow> string \<Rightarrow> string res" where
  "readBytes32 bytes offset label = bindE (readWord bytes offset label) (\<lambda>w. Inr (bytesToHex w))"

definition readAddress :: "byte list \<Rightarrow> nat \<Rightarrow> string \<Rightarrow> string res" where
  "readAddress bytes offset label =
     bindE (readWord bytes offset label) (\<lambda>w.
       if list_ex (\<lambda>b. b \<noteq> 0) (take 12 w) then Inl (JsError (label @ '' is not canonical''))
       else Inr (bytesToHex (drop 12 w)))"

text \<open>\<open>value.toString()\<close> of a decoded integer, which is never negative.\<close>

definition decimalOf :: "int \<Rightarrow> jsval" where
  "decimalOf v = JStr (dec_of_nat (nat v))"

definition readEntry :: "byte list \<Rightarrow> nat \<Rightarrow> payout_entry res" where
  "readEntry bytes index =
     (let offset = 320 + index * 128 in
      bindE (readUint bytes offset 16 ''manifest entry index'') (\<lambda>i.
      bindE (readAddress bytes (offset + 32) ''manifest entry recipient'') (\<lambda>r.
      bindE (readUint bytes (offset + 64) 256 ''manifest entry amount'') (\<lambda>a.
      bindE (readUint bytes (offset + 96) 256 ''manifest entry direct balance'') (\<lambda>d.
        Inr \<lparr>pe_index = JNum i, pe_recipient = r, pe_amount = decimalOf a, pe_directBalance = decimalOf d\<rparr>)))))"

definition readDomain :: "byte list \<Rightarrow> payout_domain res" where
  "readDomain bytes =
     bindE (readUint bytes 64 256 ''manifest chainId'') (\<lambda>chainId.
     bindE (readAddress bytes 96 ''manifest hook'') (\<lambda>hook.
     bindE (readBytes32 bytes 128 ''manifest cycleId'') (\<lambda>cycleId.
     bindE (readBytes32 bytes 160 ''manifest payoutId'') (\<lambda>payoutId.
       Inr \<lparr>d_chainId = decimalOf chainId, d_hook = hook, d_cycleId = cycleId, d_payoutId = payoutId\<rparr>))))"

definition manifestPattern :: "string \<Rightarrow> bool" where
  "manifestPattern s = (take 2 s = ''0x'' \<and> drop 2 s \<noteq> [] \<and> even (length (drop 2 s)) \<and> list_all is_lower_hex (drop 2 s))"

definition readEntryCount :: "byte list \<Rightarrow> nat res" where
  "readEntryCount bytes =
     bindE (readBytes32 bytes 0 ''manifest tag'') (\<lambda>tag.
       if tag \<noteq> TAGS_manifest then Inl (JsError ''canonical manifest tag is invalid'')
       else bindE (readUint bytes 32 8 ''manifest schema'') (\<lambda>schema.
       if schema \<noteq> 1 then Inl (JsError ''canonical manifest schema is invalid'')
       else bindE (readUint bytes 256 256 ''manifest entries offset'') (\<lambda>offset.
       if offset \<noteq> 288 then Inl (JsError ''canonical manifest entries offset is invalid'')
       else bindE (readUint bytes 288 256 ''manifest entry count'') (\<lambda>count.
       if count < 1 \<or> int WIDTH < count then Inl (JsError ''canonical manifest entry count is invalid'')
       else if length bytes \<noteq> 320 + nat count * 128 then Inl (JsError ''canonical manifest length is invalid'')
       else Inr (nat count)))))"

definition readManifest :: "byte list \<Rightarrow> nat \<Rightarrow> manifest res" where
  "readManifest bytes n =
     bindE (readDomain bytes) (\<lambda>domain.
     bindE (readUint bytes 192 256 ''manifest snapshot number'') (\<lambda>number.
     bindE (readBytes32 bytes 224 ''manifest snapshot hash'') (\<lambda>hash.
     bindE (mapE (\<lambda>_ i. readEntry bytes i) 0 [0..<n]) (\<lambda>entries.
       Inr \<lparr>mf_domain = domain, mf_snapshotNumber = decimalOf number, mf_snapshotHash = hash, mf_entries = entries\<rparr>))))"

definition decodeCanonicalManifest :: "jsval \<Rightarrow> manifest res" where
  "decodeCanonicalManifest v =
     (if \<not> str_matches manifestPattern v \<or> (length (str_of v) - 2) mod 64 \<noteq> 0
      then Inl (JsError ''canonical manifest bytes are invalid'')
      else let bytes = hexPairs (drop 2 (str_of v)) in
        if length bytes < 320 then Inl (JsError ''canonical manifest bytes are truncated'')
        else bindE (readEntryCount bytes) (\<lambda>count.
             bindE (readManifest bytes count) (\<lambda>decoded.
             bindE (manifestBytes decoded) (\<lambda>reencoded.
               if reencoded \<noteq> str_of v then Inl (JsError ''canonical manifest encoding is noncanonical'')
               else Inr decoded))))"

section \<open>The word layout of the manifest\<close>

definition bigNat :: "jsval \<Rightarrow> nat" where
  "bigNat v = (case js_BigInt v of Inl _ \<Rightarrow> 0 | Inr i \<Rightarrow> nat i)"

definition isUint :: "nat \<Rightarrow> jsval \<Rightarrow> bool" where
  "isUint bits v = (js_BigInt v = Inr (int (bigNat v)) \<and> bigNat v < 2 ^ bits)"

lemma isUint_iff: "isUint bits v \<longleftrightarrow> (\<exists>n. js_BigInt v = Inr (int n) \<and> n < 2 ^ bits)"
  by (auto simp: isUint_def bigNat_def)

lemma uintWord_isUint: "bits \<le> 256 \<Longrightarrow> uintWord v bits = Inr w \<longleftrightarrow> isUint bits v \<and> w = wordOf (bigNat v)"
  by (auto simp: uintWord_Inr isUint_def bigNat_def)

abbreviation hexBytes :: "string \<Rightarrow> byte list" where
  "hexBytes v \<equiv> hexPairs (drop 2 v)"

abbreviation addressBytes :: "string \<Rightarrow> byte list" where
  "addressBytes v \<equiv> replicate 12 0 @ hexBytes v"

definition headList :: "manifest \<Rightarrow> byte list list" where
  "headList m =
     [hexBytes TAGS_manifest, wordOf 1, wordOf (bigNat (d_chainId (mf_domain m))), addressBytes (d_hook (mf_domain m)),
      hexBytes (d_cycleId (mf_domain m)), hexBytes (d_payoutId (mf_domain m)), wordOf (bigNat (mf_snapshotNumber m)),
      hexBytes (mf_snapshotHash m), wordOf 288, wordOf (length (mf_entries m))]"

definition entryList :: "payout_entry \<Rightarrow> byte list list" where
  "entryList e = [wordOf (bigNat (pe_index e)), addressBytes (pe_recipient e), wordOf (bigNat (pe_amount e)),
                  wordOf (bigNat (pe_directBalance e))]"

definition manifestWords :: "manifest \<Rightarrow> byte list list" where
  "manifestWords m = headList m @ concat (map entryList (mf_entries m))"

definition manifestOk :: "manifest \<Rightarrow> bool" where
  "manifestOk m =
     (domainOk (mf_domain m) \<and> isUint 256 (mf_snapshotNumber m) \<and> any_hex_pattern 64 (mf_snapshotHash m)
      \<and> list_all (entryOk (d_hook (mf_domain m))) (mf_entries m)
      \<and> sorted_wrt (\<lambda>a b. num_of (pe_index a) < num_of (pe_index b)) (mf_entries m))"

lemma entryOk_index:
  assumes "entryOk hook e"
  shows "isUint 16 (pe_index e)" and "bigNat (pe_index e) < WIDTH" and "pe_index e = JNum (int (bigNat (pe_index e)))"
    and "entryAmount e = bigNat (pe_amount e)" and "isUint 256 (pe_amount e)" and "isUint 256 (pe_directBalance e)"
proof -
  obtain j where j: "pe_index e = JNum j" "0 \<le> j" "j < int WIDTH"
    using assms by (auto simp: entryOk_def indexInRange_def isInteger_iff)
  then obtain k where k: "pe_index e = JNum (int k)" "k < WIDTH" by (metis of_nat_less_iff zero_le_imp_eq_int)
  then have b: "bigNat (pe_index e) = k" by (simp add: bigNat_def js_BigInt_def)
  show "pe_index e = JNum (int (bigNat (pe_index e)))" "bigNat (pe_index e) < WIDTH" using b k by simp_all
  show "isUint 16 (pe_index e)" using b k by (simp add: isUint_def js_BigInt_def WIDTH_def DEPTH_def)
  show "entryAmount e = bigNat (pe_amount e)" by (simp add: entryAmount_def bigNat_def)
  then show "isUint 256 (pe_amount e)" using assms by (simp add: entryOk_def isUint_def)
  show "isUint 256 (pe_directBalance e)" using assms by (auto simp: entryOk_def isUint_iff)
qed

lemma entryWords_eq:
  assumes "entryOk hook e"
  shows "entryWords e = map Inr (entryList e)"
proof -
  have "addressWord (pe_recipient e) = Inr (addressBytes (pe_recipient e))" using assms by (simp add: entryOk_def addressWord_Inr)
  with entryOk_index [OF assms] show ?thesis by (simp add: entryWords_def entryList_def uintWord_isUint)
qed

lemma validate_succeeds:
  assumes "list_all (entryOk hook) es" and "sorted_wrt (\<lambda>a b. num_of (pe_index a) < num_of (pe_index b)) es"
    and "\<And>e. e \<in> set es \<Longrightarrow> prev < num_of (pe_index e)"
  shows "\<exists>p. foldE (\<lambda>_ e prev. validateEntry hook prev e) i es prev = Inr p"
  using assms
proof (induction es arbitrary: i prev)
  case Nil
  then show ?case by simp
next
  case (Cons e es)
  have "validateEntry hook prev e = Inr (num_of (pe_index e))" using Cons.prems by (simp add: validateEntry_Inr)
  with Cons.IH [of "num_of (pe_index e)" "Suc i"] Cons.prems show ?case by simp
qed

lemma entries_bounded:
  assumes "list_all (entryOk hook) es" and "sorted_wrt (\<lambda>a b. num_of (pe_index a) < num_of (pe_index b)) es"
  shows "length es \<le> WIDTH"
proof -
  have "inj_on (bigNat \<circ> pe_index) (set es) \<and> distinct es"
    using entries_distinct [OF assms(2)] assms(1) entryOk_index(3) by (auto simp: distinct_map list_all_iff inj_on_def) metis
  moreover have "(bigNat \<circ> pe_index) ` set es \<subseteq> {..<WIDTH}" using assms(1) entryOk_index(2) by (auto simp: list_all_iff)
  ultimately have "card (set es) \<le> card {..<WIDTH}" by (metis card_inj_on_le finite_lessThan)
  with \<open>_ \<and> distinct es\<close> show ?thesis by (simp add: distinct_card)
qed

lemma sequenceE_map_Inr [simp]: "sequenceE (map Inr xs) = Inr xs"
  by (simp add: sequenceE_Inr)

lemma domainOk_iff:
  "domainOk d \<longleftrightarrow> isUint 256 (d_chainId d) \<and> any_hex_pattern 40 (d_hook d)
     \<and> any_hex_pattern 64 (d_cycleId d) \<and> any_hex_pattern 64 (d_payoutId d)"
  by (simp add: domainOk_def isUint_iff)

lemma headWords_Inr:
  "encodeStatic (headWords d number hash) = Inr bs \<longleftrightarrow>
     domainOk d \<and> isUint 256 number \<and> any_hex_pattern 64 hash
     \<and> bs = concat [hexBytes TAGS_manifest, wordOf 1, wordOf (bigNat (d_chainId d)), addressBytes (d_hook d),
                    hexBytes (d_cycleId d), hexBytes (d_payoutId d), wordOf (bigNat number), hexBytes hash, wordOf 288]"
proof -
  have 1: "uintWord (JNum 1) 8 = Inr (wordOf 1)" using uintWord_nat [of 8 1] by simp
  have 2: "uintWord (JNum 288) 256 = Inr (wordOf 288)" using uintWord_nat [of 256 288] by simp
  have 3: "bytes32Word TAGS_manifest = Inr (hexBytes TAGS_manifest)" by (simp add: bytes32Word_Inr)
  show ?thesis unfolding encodeStatic_def headWords_def sequenceE.simps 1 2 3 domainOk_iff
    by (auto simp: res_simps uintWord_isUint bytes32Word_Inr addressWord_Inr)
qed

lemma entries_words:
  "list_all (entryOk hook) es \<Longrightarrow> sequenceE (concat (map entryWords es)) = Inr (concat (map entryList es))"
proof -
  assume "list_all (entryOk hook) es"
  then have "concat (map entryWords es) = map Inr (concat (map entryList es))"
    by (induction es) (auto simp: entryWords_eq [of hook])
  then show ?thesis by simp
qed

lemma manifestBytes_iff:
  "manifestBytes m = Inr enc \<longleftrightarrow> manifestOk m \<and> enc = bytesToHex (concat (manifestWords m))"
proof
  assume m: "manifestBytes m = Inr enc"
  note c = manifestBytes_checks [OF m]
  from m obtain p head es n where v: "validateEntries (mf_entries m) (d_hook (mf_domain m)) = Inr p"
    and h: "encodeStatic (headWords (mf_domain m) (mf_snapshotNumber m) (mf_snapshotHash m)) = Inr head"
    and es: "sequenceE (concat (map entryWords (mf_entries m))) = Inr es"
    and n: "uintWord (JNum (int (length (mf_entries m)))) 256 = Inr n"
    and e: "enc = bytesToHex (concat (head # n # es))"
    unfolding manifestBytes_def bindE_Inr_iff sum.inject by blast
  have "n = wordOf (length (mf_entries m))" using n by (simp add: uintWord_isUint bigNat_def js_BigInt_def)
  moreover have "es = concat (map entryList (mf_entries m))" using es entries_words [OF c(2)] by simp
  ultimately show "manifestOk m \<and> enc = bytesToHex (concat (manifestWords m))"
    using c(2,3) h e by (simp add: manifestOk_def manifestWords_def headList_def headWords_Inr)
next
  assume r: "manifestOk m \<and> enc = bytesToHex (concat (manifestWords m))"
  then have es: "list_all (entryOk (d_hook (mf_domain m))) (mf_entries m)"
    and so: "sorted_wrt (\<lambda>a b. num_of (pe_index a) < num_of (pe_index b)) (mf_entries m)" by (simp_all add: manifestOk_def)
  have "\<exists>p. validateEntries (mf_entries m) (d_hook (mf_domain m)) = Inr p" unfolding validateEntries_def
    by (rule validate_succeeds [OF es so]) (use es in \<open>auto simp: list_all_iff entryOk_def indexInRange_def\<close>)
  moreover have "length (mf_entries m) < 2 ^ 256" using entries_bounded [OF es so] by (simp add: WIDTH_def DEPTH_def)
  moreover have "encodeStatic (headWords (mf_domain m) (mf_snapshotNumber m) (mf_snapshotHash m)) = Inr (concat (take 9 (headList m)))"
    using r by (simp add: manifestOk_def headWords_Inr headList_def)
  ultimately show "manifestBytes m = Inr enc"
    using r entries_words [OF es] by (auto simp: manifestBytes_def manifestWords_def headList_def uintWord_nat)
qed

section \<open>Decoding an encoded manifest\<close>

lemma isUint_less: "isUint bits v \<Longrightarrow> bits \<le> 256 \<Longrightarrow> bigNat v < 2 ^ 256"
  unfolding isUint_def by (meson less_le_trans one_le_numeral power_increasing)

lemma entryList_lengths: "entryOk hook e \<Longrightarrow> list_all (\<lambda>w. length w = 32) (entryList e)"
proof -
  assume e: "entryOk hook e"
  note i = entryOk_index [OF e]
  have "length (hexBytes (pe_recipient e)) = 20" using e by (simp add: entryOk_def length_address)
  moreover have "length (wordOf (bigNat (pe_index e))) = 32" "length (wordOf (bigNat (pe_amount e))) = 32"
    "length (wordOf (bigNat (pe_directBalance e))) = 32"
    using isUint_less [OF i(1)] isUint_less [OF i(5)] isUint_less [OF i(6)] by (simp_all add: wordOf_value(1))
  ultimately show ?thesis by (simp add: entryList_def)
qed

lemma manifestWords_lengths:
  assumes "manifestOk m"
  shows "list_all (\<lambda>w. length w = 32) (manifestWords m)"
proof -
  have es: "list_all (entryOk (d_hook (mf_domain m))) (mf_entries m)" using assms by (simp add: manifestOk_def)
  have "length (mf_entries m) < 2 ^ 256" using entries_bounded [OF es] assms by (simp add: manifestOk_def WIDTH_def DEPTH_def)
  moreover have "list_all (\<lambda>w. length w = 32) (concat (map entryList (mf_entries m)))"
    using es by (induction "mf_entries m") (auto simp: list_all_iff dest!: entryList_lengths)
  moreover have "length (wordOf (bigNat v)) = 32" if "isUint 256 v" for v
    using isUint_less [OF that] by (simp add: wordOf_value(1))
  moreover have "length (wordOf 1) = 32" "length (wordOf 288) = 32" by (rule wordOf_value(1), simp)+
  ultimately show ?thesis using assms
    by (simp add: manifestWords_def headList_def manifestOk_def domainOk_iff length_bytes32 length_address wordOf_value(1))
qed

lemma concat_nth_word:
  assumes "list_all (\<lambda>w. length w = 32) ws" and "k < length ws"
  shows "readWord (concat ws) (32 * k) label = Inr (ws ! k)"
proof -
  have len: "length (concat xs) = 32 * length xs" if "list_all (\<lambda>w. length w = 32) xs" for xs :: "byte list list"
    using that by (induction xs) simp_all
  have "take 32 (drop (32 * k) (concat ws)) = ws ! k" using assms
  proof (induction ws arbitrary: k)
    case (Cons w ws)
    then show ?case by (cases k) simp_all
  qed simp
  with assms show ?thesis by (simp add: readWord_def len)
qed

lemma js_BigInt_hex: "t \<noteq> [] \<Longrightarrow> list_all is_any_hex t \<Longrightarrow> js_BigInt (JStr (''0x'' @ t)) = Inr (int (nat_of_hex t))"
  by (simp add: js_BigInt_def is_digit_def)

lemma bytesToHex_prefix: "bytesToHex w = ''0x'' @ drop 2 (bytesToHex w)"
  by (simp add: bytesToHex_def)

lemma readUint_word:
  assumes "list_all (\<lambda>w. length w = 32) ws" and "k < length ws" and "ws ! k = wordOf n" and "n < 2 ^ bits" and "bits \<le> 256"
  shows "readUint (concat ws) (32 * k) bits label = Inr (int n)"
proof -
  have n: "n < 2 ^ 256" using assms(4,5) by (meson less_le_trans one_le_numeral power_increasing)
  have h: "list_all is_any_hex (drop 2 (bytesToHex (wordOf n)))" by (rule lower_list_any [OF bytesToHex_lower])
  have l: "length (drop 2 (bytesToHex (wordOf n))) = 64" using wordOf_value(1) [OF n] by (simp add: length_bytesToHex)
  then have ev: "even (length (drop 2 (bytesToHex (wordOf n))))" by (simp only:) simp
  have "nat_of_hex (drop 2 (bytesToHex (wordOf n))) = n"
    using be_value_hexPairs_acc [OF h ev, of 0] wordOf_value(2) [OF n] by (simp add: be_value_def nat_of_hex_def)
  then have "js_BigInt (JStr (bytesToHex (wordOf n))) = Inr (int n)"
    using js_BigInt_hex [OF _ h] l bytesToHex_prefix [of "wordOf n"] by (metis length_0_conv zero_neq_numeral)
  then show ?thesis using assms(3,4) by (simp add: readUint_def concat_nth_word [OF assms(1,2)] not_le)
qed

lemma readBytes32_word:
  assumes "list_all (\<lambda>w. length w = 32) ws" and "k < length ws" and "ws ! k = hexBytes v" and "any_hex_pattern 64 v"
  shows "readBytes32 (concat ws) (32 * k) label = Inr (toLowerCase v)"
  using assms bytesToHex_hexPairs [of 32 v] by (simp add: readBytes32_def concat_nth_word)

lemma readAddress_word:
  assumes "list_all (\<lambda>w. length w = 32) ws" and "k < length ws" and "ws ! k = addressBytes v" and "any_hex_pattern 40 v"
  shows "readAddress (concat ws) (32 * k) label = Inr (toLowerCase v)"
  using assms bytesToHex_hexPairs [of 20 v] by (simp add: readAddress_def concat_nth_word list_ex_iff)

definition canonicalEntry :: "payout_entry \<Rightarrow> payout_entry" where
  "canonicalEntry e = \<lparr>pe_index = pe_index e, pe_recipient = toLowerCase (pe_recipient e),
     pe_amount = JStr (dec_of_nat (bigNat (pe_amount e))), pe_directBalance = JStr (dec_of_nat (bigNat (pe_directBalance e)))\<rparr>"

definition canonicalManifest :: "manifest \<Rightarrow> manifest" where
  "canonicalManifest m =
     \<lparr>mf_domain = \<lparr>d_chainId = JStr (dec_of_nat (bigNat (d_chainId (mf_domain m)))), d_hook = toLowerCase (d_hook (mf_domain m)),
                   d_cycleId = toLowerCase (d_cycleId (mf_domain m)), d_payoutId = toLowerCase (d_payoutId (mf_domain m))\<rparr>,
      mf_snapshotNumber = JStr (dec_of_nat (bigNat (mf_snapshotNumber m))),
      mf_snapshotHash = toLowerCase (mf_snapshotHash m), mf_entries = map canonicalEntry (mf_entries m)\<rparr>"

lemma bigNat_dec [simp]: "bigNat (JStr (dec_of_nat n)) = n" "isUint bits (JStr (dec_of_nat n)) \<longleftrightarrow> n < 2 ^ bits"
  by (simp_all add: bigNat_def isUint_def)

lemma hex_lower_again:
  assumes "any_hex_pattern (2 * n) v"
  shows "any_hex_pattern (2 * n) (toLowerCase v)" and "hexBytes (toLowerCase v) = hexBytes v" and "toLowerCase (toLowerCase v) = toLowerCase v"
proof -
  have h: "hex_pattern (2 * n) (toLowerCase v)" using assms by (rule toLowerCase_any_hex)
  then show "any_hex_pattern (2 * n) (toLowerCase v)" by (rule hex_pattern_any)
  show "hexBytes (toLowerCase v) = hexBytes v" using bytesToHex_hexPairs [OF assms] by (metis hexPairs_drop_bytesToHex)
  show "toLowerCase (toLowerCase v) = toLowerCase v" using h by (rule toLowerCase_hex)
qed

lemmas hex_lower64 = hex_lower_again [of 32, simplified]
lemmas hex_lower40 = hex_lower_again [of 20, simplified]

lemma canonicalEntry_ok:
  assumes "entryOk hook e" and "any_hex_pattern 40 hook"
  shows "entryOk (toLowerCase hook) (canonicalEntry e)" and "entryList (canonicalEntry e) = entryList e"
proof -
  note i = entryOk_index [OF assms(1)]
  have e: "any_hex_pattern 40 (pe_recipient e)" using assms(1) by (simp add: entryOk_def)
  have bal: "0 < bigNat (pe_directBalance e)" "bigNat (pe_directBalance e) < 2 ^ 256"
    using assms(1) by (auto simp: entryOk_def bigNat_def)
  have a: "entryAmount (canonicalEntry e) = entryAmount e" by (simp add: entryAmount_def canonicalEntry_def bigNat_def)
  show "entryOk (toLowerCase hook) (canonicalEntry e)"
    using assms i bal a by (simp add: entryOk_def hex_lower40 [OF e] hex_lower40 [OF assms(2)])
      (simp add: canonicalEntry_def hex_lower40 [OF e])
  show "entryList (canonicalEntry e) = entryList e" by (simp add: entryList_def canonicalEntry_def hex_lower40 [OF e])
qed

lemma canonicalManifest_ok:
  assumes "manifestOk m"
  shows "manifestOk (canonicalManifest m)" and "manifestWords (canonicalManifest m) = manifestWords m"
proof -
  have d: "domainOk (mf_domain m)" "isUint 256 (mf_snapshotNumber m)" "any_hex_pattern 64 (mf_snapshotHash m)"
    and es: "list_all (entryOk (d_hook (mf_domain m))) (mf_entries m)"
    and so: "sorted_wrt (\<lambda>a b. num_of (pe_index a) < num_of (pe_index b)) (mf_entries m)"
    using assms by (simp_all add: manifestOk_def)
  then have h: "any_hex_pattern 40 (d_hook (mf_domain m))" "any_hex_pattern 64 (d_cycleId (mf_domain m))"
    "any_hex_pattern 64 (d_payoutId (mf_domain m))" "isUint 256 (d_chainId (mf_domain m))" by (simp_all add: domainOk_iff)
  have "list_all (entryOk (toLowerCase (d_hook (mf_domain m)))) (map canonicalEntry (mf_entries m))"
    using es canonicalEntry_ok(1) [OF _ h(1)] by (simp add: list_all_iff)
  moreover have "sorted_wrt (\<lambda>a b. num_of (pe_index a) < num_of (pe_index b)) (map canonicalEntry (mf_entries m))"
    using so by (simp add: sorted_wrt_map canonicalEntry_def)
  moreover have "domainOk (mf_domain (canonicalManifest m))"
    using h by (simp add: domainOk_iff canonicalManifest_def hex_lower40 [OF h(1)] hex_lower64 [OF h(2)] hex_lower64 [OF h(3)])
      (simp add: isUint_def)
  ultimately show "manifestOk (canonicalManifest m)" using d
    by (simp add: manifestOk_def) (simp add: canonicalManifest_def hex_lower64 [OF d(3)] isUint_def)
  have "map entryList (map canonicalEntry (mf_entries m)) = map entryList (mf_entries m)"
    using es canonicalEntry_ok(2) [OF _ h(1)] by (simp add: list_all_iff)
  then show "manifestWords (canonicalManifest m) = manifestWords m"
    by (simp add: manifestWords_def headList_def canonicalManifest_def hex_lower40 [OF h(1)] hex_lower64 [OF h(2)]
        hex_lower64 [OF h(3)] hex_lower64 [OF d(3)] del: map_map)
qed

lemma entry_word_nth:
  assumes "i < length es" and "j < 4"
  shows "concat (map entryList es) ! (4 * i + j) = entryList (es ! i) ! j"
  using assms
proof (induction es arbitrary: i)
  case (Cons e es)
  have l: "length (entryList e) = 4" by (simp add: entryList_def)
  show ?case
  proof (cases i)
    case 0
    with Cons.prems l show ?thesis by (simp add: nth_append)
  next
    case (Suc k)
    with Cons l show ?thesis by (simp add: nth_append)
  qed
qed simp

lemma manifest_word_nth:
  assumes "i < length (mf_entries m)" and "j < 4"
  shows "manifestWords m ! (10 + 4 * i + j) = entryList (mf_entries m ! i) ! j"
    and "10 + 4 * i + j < length (manifestWords m)"
proof -
  have h: "length (headList m) = 10" by (simp add: headList_def)
  then show "manifestWords m ! (10 + 4 * i + j) = entryList (mf_entries m ! i) ! j"
    using entry_word_nth [OF assms] by (simp add: manifestWords_def nth_append add.assoc)
  have "length (concat (map entryList es)) = 4 * length es" for es by (induction es) (simp_all add: entryList_def)
  with h assms show "10 + 4 * i + j < length (manifestWords m)" by (simp add: manifestWords_def)
qed

lemma length_manifestWords: "length (manifestWords m) = 10 + 4 * length (mf_entries m)"
proof -
  have "length (concat (map entryList es)) = 4 * length es" for es by (induction es) (simp_all add: entryList_def)
  then show ?thesis by (simp add: manifestWords_def headList_def)
qed

lemma head_word_nth: "k < 10 \<Longrightarrow> manifestWords m ! k = headList m ! k"
proof -
  have "length (headList m) = 10" by (simp add: headList_def)
  then show "k < 10 \<Longrightarrow> manifestWords m ! k = headList m ! k" by (simp add: manifestWords_def nth_append)
qed

lemma readEntry_word:
  assumes "manifestOk m" and "i < length (mf_entries m)"
  shows "readEntry (concat (manifestWords m)) i = Inr (canonicalEntry (mf_entries m ! i))"
proof -
  let ?e = "mf_entries m ! i" let ?ws = "manifestWords m"
  have e: "entryOk (d_hook (mf_domain m)) ?e" using assms by (simp add: manifestOk_def list_all_length)
  note x = entryOk_index [OF e] note l = manifestWords_lengths [OF assms(1)]
  have r: "any_hex_pattern 40 (pe_recipient ?e)" using e by (simp add: entryOk_def)
  have o: "320 + i * 128 = 32 * (10 + 4 * i + 0)" "320 + i * 128 + 32 = 32 * (10 + 4 * i + 1)"
    "320 + i * 128 + 64 = 32 * (10 + 4 * i + 2)" "320 + i * 128 + 96 = 32 * (10 + 4 * i + 3)" by simp_all
  have w: "?ws ! (10 + 4 * i + 0) = wordOf (bigNat (pe_index ?e))" "?ws ! (10 + 4 * i + 1) = addressBytes (pe_recipient ?e)"
    "?ws ! (10 + 4 * i + 2) = wordOf (bigNat (pe_amount ?e))" "?ws ! (10 + 4 * i + 3) = wordOf (bigNat (pe_directBalance ?e))"
    using manifest_word_nth(1) [OF assms(2), of 0] manifest_word_nth(1) [OF assms(2), of 1]
      manifest_word_nth(1) [OF assms(2), of 2] manifest_word_nth(1) [OF assms(2), of 3] by (simp_all add: entryList_def)
  have k: "10 + 4 * i + 0 < length ?ws" "10 + 4 * i + 1 < length ?ws" "10 + 4 * i + 2 < length ?ws" "10 + 4 * i + 3 < length ?ws"
    using assms(2) by (simp_all add: length_manifestWords)
  have lt: "bigNat (pe_index ?e) < 2 ^ 16" "bigNat (pe_amount ?e) < 2 ^ 256" "bigNat (pe_directBalance ?e) < 2 ^ 256"
    using x(1,5,6) by (simp_all only: isUint_def)
  have b: "(16::nat) \<le> 256" by simp
  have j: "JNum (int (bigNat (pe_index ?e))) = pe_index ?e" using x(3) by simp
  note reads = readUint_word [OF l k(1) w(1) lt(1) b] readAddress_word [OF l k(2) w(2) r]
    readUint_word [OF l k(3) w(3) lt(2) order_refl] readUint_word [OF l k(4) w(4) lt(3) order_refl]
  show ?thesis unfolding readEntry_def Let_def
    reads [folded o] bindE_simps decimalOf_def nat_int j canonicalEntry_def by (rule refl)
qed

lemma head_reads:
  assumes "manifestOk m"
  shows "readBytes32 (concat (manifestWords m)) 0 l0 = Inr TAGS_manifest"
    and "readUint (concat (manifestWords m)) 32 8 l1 = Inr 1"
    and "readUint (concat (manifestWords m)) 64 256 l2 = Inr (int (bigNat (d_chainId (mf_domain m))))"
    and "readAddress (concat (manifestWords m)) 96 l3 = Inr (toLowerCase (d_hook (mf_domain m)))"
    and "readBytes32 (concat (manifestWords m)) 128 l4 = Inr (toLowerCase (d_cycleId (mf_domain m)))"
    and "readBytes32 (concat (manifestWords m)) 160 l5 = Inr (toLowerCase (d_payoutId (mf_domain m)))"
    and "readUint (concat (manifestWords m)) 192 256 l6 = Inr (int (bigNat (mf_snapshotNumber m)))"
    and "readBytes32 (concat (manifestWords m)) 224 l7 = Inr (toLowerCase (mf_snapshotHash m))"
    and "readUint (concat (manifestWords m)) 256 256 l8 = Inr 288"
    and "readUint (concat (manifestWords m)) 288 256 l9 = Inr (int (length (mf_entries m)))"
proof -
  let ?ws = "manifestWords m"
  note l = manifestWords_lengths [OF assms]
  have k: "k < 10 \<Longrightarrow> k < length ?ws" for k by (simp add: length_manifestWords)
  have d: "isUint 256 (d_chainId (mf_domain m))" "any_hex_pattern 40 (d_hook (mf_domain m))"
    "any_hex_pattern 64 (d_cycleId (mf_domain m))" "any_hex_pattern 64 (d_payoutId (mf_domain m))"
    "isUint 256 (mf_snapshotNumber m)" "any_hex_pattern 64 (mf_snapshotHash m)"
    using assms by (simp_all add: manifestOk_def domainOk_iff)
  have n: "length (mf_entries m) < 2 ^ 256" using entries_bounded assms by (force simp: manifestOk_def WIDTH_def DEPTH_def)
  have t: "toLowerCase TAGS_manifest = TAGS_manifest" by (simp add: TAGS_manifest_def utf8Hash_def toLowerCase_hex [of 64])
  have one: "wordOf (Suc 0) = wordOf 1" by simp
  show "readBytes32 (concat ?ws) 0 l0 = Inr TAGS_manifest"
    using readBytes32_word [OF l k, of 0 TAGS_manifest l0] head_word_nth [of 0 m] t by (simp add: headList_def)
  show "readUint (concat ?ws) 32 8 l1 = Inr 1"
    using readUint_word [OF l k, of 1 1 8 l1] head_word_nth [of 1 m] by (simp add: headList_def)
  show "readUint (concat ?ws) 64 256 l2 = Inr (int (bigNat (d_chainId (mf_domain m))))"
    using readUint_word [OF l k, of 2 _ 256 l2] head_word_nth [of 2 m] d(1) by (simp add: headList_def isUint_def)
  show "readAddress (concat ?ws) 96 l3 = Inr (toLowerCase (d_hook (mf_domain m)))"
    using readAddress_word [OF l k, of 3 _ l3] head_word_nth [of 3 m] d(2) by (simp add: headList_def)
  show "readBytes32 (concat ?ws) 128 l4 = Inr (toLowerCase (d_cycleId (mf_domain m)))"
    using readBytes32_word [OF l k, of 4 _ l4] head_word_nth [of 4 m] d(3) by (simp add: headList_def)
  show "readBytes32 (concat ?ws) 160 l5 = Inr (toLowerCase (d_payoutId (mf_domain m)))"
    using readBytes32_word [OF l k, of 5 _ l5] head_word_nth [of 5 m] d(4) by (simp add: headList_def)
  show "readUint (concat ?ws) 192 256 l6 = Inr (int (bigNat (mf_snapshotNumber m)))"
    using readUint_word [OF l k, of 6 _ 256 l6] head_word_nth [of 6 m] d(5) by (simp add: headList_def isUint_def)
  show "readBytes32 (concat ?ws) 224 l7 = Inr (toLowerCase (mf_snapshotHash m))"
    using readBytes32_word [OF l k, of 7 _ l7] head_word_nth [of 7 m] d(6) by (simp add: headList_def)
  show "readUint (concat ?ws) 256 256 l8 = Inr 288"
    using readUint_word [OF l k, of 8 288 256 l8] head_word_nth [of 8 m] by (simp add: headList_def)
  show "readUint (concat ?ws) 288 256 l9 = Inr (int (length (mf_entries m)))"
    using readUint_word [OF l k, of 9 _ 256 l9] head_word_nth [of 9 m] n by (simp add: headList_def)
qed

lemma length_concat_words: "list_all (\<lambda>w. length w = 32) ws \<Longrightarrow> length (concat ws) = 32 * length ws"
  by (induction ws) simp_all

text \<open>
  C33. The canonical manifest round-trips: decoding the encoding of a nonempty manifest gives exactly its content,
  with integers as decimal strings and hexadecimal text in lower case, and the decoder's own re-encoding check
  accepts it.
\<close>

theorem manifest_roundtrip:
  assumes "manifestBytes m = Inr enc" and "mf_entries m \<noteq> []"
  shows "decodeCanonicalManifest (JStr enc) = Inr (canonicalManifest m)"
proof -
  let ?bytes = "concat (manifestWords m)" and ?n = "length (mf_entries m)"
  have ok: "manifestOk m" and enc: "enc = bytesToHex ?bytes" using assms(1) by (simp_all add: manifestBytes_iff)
  have len: "length ?bytes = 320 + ?n * 128"
    using length_concat_words [OF manifestWords_lengths [OF ok]] by (simp add: length_manifestWords)
  have n: "1 \<le> ?n" "?n \<le> WIDTH" using assms(2) entries_bounded ok by (auto simp: manifestOk_def Suc_le_eq)
  have pat: "manifestPattern enc" "(length enc - 2) mod 64 = 0"
    using bytesToHex_lower [of ?bytes] length_bytesToHex [of ?bytes] len
    by (simp_all add: manifestPattern_def enc) (simp add: bytesToHex_def)
  have cnt: "readEntryCount ?bytes = Inr ?n" using n len assms(2) by (simp add: readEntryCount_def head_reads [OF ok])
  have es: "mapE (\<lambda>_ i. readEntry ?bytes i) 0 [0..<?n] = Inr (map canonicalEntry (mf_entries m))"
    using readEntry_word [OF ok] by (simp add: mapE_Inr_iff)
  have dec: "readManifest ?bytes ?n = Inr (canonicalManifest m)"
    by (simp add: readManifest_def readDomain_def head_reads [OF ok] es decimalOf_def canonicalManifest_def)
  have re: "manifestBytes (canonicalManifest m) = Inr enc"
    using canonicalManifest_ok [OF ok] enc by (simp add: manifestBytes_iff)
  have b: "hexPairs (drop 2 enc) = ?bytes" by (simp add: enc)
  show ?thesis using pat len by (simp add: decodeCanonicalManifest_def b cnt dec re)
qed

section \<open>The input of the canonical vector\<close>

definition paddedBytes32 :: "nat \<Rightarrow> string" where
  "paddedBytes32 v = ''0x'' @ padStart 64 (hex_of_nat v)"

definition vectorEntry :: "nat \<Rightarrow> string \<Rightarrow> nat \<Rightarrow> nat \<Rightarrow> payout_entry" where
  "vectorEntry i r a d = \<lparr>pe_index = JNum (int i), pe_recipient = r, pe_amount = JNum (int a), pe_directBalance = JNum (int d)\<rparr>"

definition canonicalVectorInput :: manifest where
  "canonicalVectorInput =
     \<lparr>mf_domain = \<lparr>d_chainId = JStr ''466'', d_hook = ''0x1111111111111111111111111111111111111111'',
                   d_cycleId = paddedBytes32 0xc1c1e, d_payoutId = paddedBytes32 0xa110c\<rparr>,
      mf_snapshotNumber = JNum 12345678, mf_snapshotHash = paddedBytes32 0xabcdef,
      mf_entries = [vectorEntry 0 ''0x0000000000000000000000000000000000001001'' 100 5,
                    vectorEntry 1 ''0x0000000000000000000000000000000000001002'' 200 10,
                    vectorEntry 17 ''0x0000000000000000000000000000000000001012'' 300 15,
                    vectorEntry 511 ''0x0000000000000000000000000000000000001511'' 400 20,
                    vectorEntry 1023 ''0x0000000000000000000000000000000000002023'' 500 25]\<rparr>"

lemma paddedBytes32_pattern: "v < 2 ^ 256 \<Longrightarrow> any_hex_pattern 64 (paddedBytes32 v)"
  using wordOf_value(3,4) [of v] by (simp add: paddedBytes32_def any_hex_pattern_def lower_list_any)

lemma vector_entry_ok:
  assumes "i < WIDTH" and "any_hex_pattern 40 r" and "toLowerCase r \<noteq> ZERO_ADDRESS" and "toLowerCase r \<noteq> toLowerCase hook"
    and "0 < a" and "a < 2 ^ 256" and "0 < d" and "d < 2 ^ 256"
  shows "entryOk hook (vectorEntry i r a d)"
  using assms by (simp add: entryOk_def vectorEntry_def indexInRange_def isInteger_def entryAmount_def js_BigInt_def)

lemma vector_addresses:
  "list_all (\<lambda>r. any_hex_pattern 40 r \<and> toLowerCase r \<noteq> ZERO_ADDRESS
       \<and> toLowerCase r \<noteq> toLowerCase ''0x1111111111111111111111111111111111111111'')
     [''0x0000000000000000000000000000000000001001'', ''0x0000000000000000000000000000000000001002'',
      ''0x0000000000000000000000000000000000001012'', ''0x0000000000000000000000000000000000001511'',
      ''0x0000000000000000000000000000000000002023'']"
  by code_simp

lemma vector_ok: "manifestOk canonicalVectorInput"
proof -
  have "domainOk (mf_domain canonicalVectorInput)"
    by (simp add: canonicalVectorInput_def domainOk_iff paddedBytes32_pattern isUint_def bigNat_def js_BigInt_def is_digit_def
        nat_of_dec_def digit_val_def) (simp add: any_hex_pattern_def is_any_hex_def)
  moreover have "list_all (entryOk (d_hook (mf_domain canonicalVectorInput))) (mf_entries canonicalVectorInput)"
    using vector_addresses unfolding canonicalVectorInput_def manifest.simps payout_domain.simps list.pred_inject
    by (intro conjI TrueI vector_entry_ok) (simp_all add: WIDTH_def DEPTH_def)
  ultimately show ?thesis
    by (simp add: manifestOk_def) (simp add: canonicalVectorInput_def paddedBytes32_pattern vectorEntry_def isUint_def bigNat_def
        js_BigInt_def)
qed

theorem manifest_roundtrip_witness:
  "decodeCanonicalManifest (JStr (bytesToHex (concat (manifestWords canonicalVectorInput)))) = Inr (canonicalManifest canonicalVectorInput)"
  by (rule manifest_roundtrip) (simp add: manifestBytes_iff vector_ok, simp add: canonicalVectorInput_def)

end
