(* ===== verification/Merkle_Claims.thy ===== *)
theory Merkle_Claims
  imports Merkle_Manifest
begin

text \<open>
  Claims against the payout tree of \<^verbatim>\<open>canonical-merkle-sum.mjs\<close>: when a distribution can be built at all, and what
  a claim that verifies against its root implies.  The binding theorem names the byte strings that the
  verifier and the builder hash (\<open>claimInputs\<close>, \<open>treeInputs\<close>), so that its alternative, a Keccak collision between
  one of each, is a concrete pair and not the mere existence of collisions.
\<close>

section \<open>When a distribution is built\<close>

text \<open>The words of the leaf encodings.\<close>

lemma leafDomainWords_ok:
  assumes "domainOk d" and "any_hex_pattern 64 dig"
  obtains dw where "leafDomainWords (leafDomain d dig) = map Inr dw" "list_all (\<lambda>w. length w = 32) dw" "length dw = 5"
proof -
  from assms obtain n where n: "js_BigInt (d_chainId d) = Inr (int n)" "n < 2 ^ 256" by (auto simp: domainOk_def)
  then have c: "uintWord (d_chainId d) 256 = Inr (wordOf n)" by (auto simp: uintWord_Inr [OF order_refl])
  let ?h = "\<lambda>v. hexPairs (drop 2 v)"
  have "addressWord (d_hook d) = Inr (replicate 12 0 @ ?h (d_hook d))" "bytes32Word (d_cycleId d) = Inr (?h (d_cycleId d))"
    "bytes32Word (d_payoutId d) = Inr (?h (d_payoutId d))" "bytes32Word dig = Inr (?h dig)"
    using assms by (simp_all add: domainOk_def word_Inr)
  with c n assms show thesis
    by (intro that [of "[wordOf n, replicate 12 0 @ ?h (d_hook d), ?h (d_cycleId d), ?h (d_payoutId d), ?h dig]"])
       (simp_all add: leafDomainWords_def leafDomain_def domainOk_def length_bytes32 length_address wordOf_value)
qed

lemma encode_words: "encodeStatic (map Inr ws) = Inr (concat ws)"
  by (auto simp: encodeStatic_Inr)

lemma nonemptyLeafBytes_words:
  assumes "leafDomainWords ld = map Inr dw" and "k < 2 ^ 16" and "any_hex_pattern 40 r" and "x < 2 ^ 256"
  shows "nonemptyLeafBytes ld (JNum (int k)) r (int x) = Inr (concat (hexPairs (drop 2 TAGS_nonemptyLeaf) # dw
           @ [wordOf k, replicate 12 0 @ hexPairs (drop 2 r), wordOf x]))"
proof -
  have "uintWord (JNum (int k)) 16 = Inr (wordOf k)" "uintWord (JNum (int x)) 256 = Inr (wordOf x)"
    using assms by (simp_all add: uintWord_nat)
  moreover have "addressWord r = Inr (replicate 12 0 @ hexPairs (drop 2 r))" using assms by (simp add: word_Inr)
  moreover have "bytes32Word TAGS_nonemptyLeaf = Inr (hexPairs (drop 2 TAGS_nonemptyLeaf))" by (simp add: word_Inr)
  ultimately show ?thesis unfolding nonemptyLeafBytes_def using assms(1)
    encode_words [of "hexPairs (drop 2 TAGS_nonemptyLeaf) # dw @ [wordOf k, replicate 12 0 @ hexPairs (drop 2 r), wordOf x]"]
    by simp
qed

lemma emptyLeafBytes_words:
  assumes "leafDomainWords ld = map Inr dw" and "k < 2 ^ 16"
  shows "emptyLeafBytes ld (JNum (int k)) = Inr (concat (hexPairs (drop 2 TAGS_emptyLeaf) # dw @ [wordOf k]))"
proof -
  have "uintWord (JNum (int k)) 16 = Inr (wordOf k)" using assms by (simp add: uintWord_nat)
  moreover have "bytes32Word TAGS_emptyLeaf = Inr (hexPairs (drop 2 TAGS_emptyLeaf))" by (simp add: word_Inr)
  ultimately show ?thesis unfolding emptyLeafBytes_def using assms(1)
    encode_words [of "hexPairs (drop 2 TAGS_emptyLeaf) # dw @ [wordOf k]"] by simp
qed

lemma index_in_range [simp]: "indexInRange (JNum (int i)) \<longleftrightarrow> i < WIDTH"
  by (simp add: indexInRange_def isInteger_def)

lemma WIDTH_less: "i < WIDTH \<Longrightarrow> i < 2 ^ 16"
  by (simp add: WIDTH_def DEPTH_def)

text \<open>A node that \<open>parentNode\<close> accepts as a child.\<close>

definition goodNode :: "node \<Rightarrow> bool" where
  "goodNode n = (any_hex_pattern 64 (n_hash n) \<and> js_BigInt (JStr (n_sum n)) = Inr (int (weight n)))"

lemma makeLeaf_succeeds:
  assumes "domainOk d" and "hex_pattern 64 dig" and "list_all (entryOk (d_hook d)) es" and "distinct (map pe_index es)" and "i < WIDTH"
  shows "\<exists>n. makeLeaf (leafDomain d dig) es i = Inr n \<and> goodNode n"
proof -
  obtain dw where dw: "leafDomainWords (leafDomain d dig) = map Inr dw"
    using leafDomainWords_ok [OF assms(1) hex_pattern_any [OF assms(2)]] by blast
  show ?thesis
  proof (cases "entryByIndex es (JNum (int i))")
    case None
    then show ?thesis using emptyLeafBytes_words [OF dw WIDTH_less [OF assms(5)]] assms(5)
      by (simp add: makeLeaf_def emptyLeaf_def goodNode_def flip: dec_of_nat_0)
  next
    case (Some e)
    then have "e \<in> set es" by (simp add: entryByIndex_Some [OF assms(4)])
    then have e: "entryOk (d_hook d) e" using assms(3) by (simp add: list_all_iff)
    then have "\<not> int MAX_UINT256 < int (entryAmount e)" by (simp add: entryOk_def not_less MAX_UINT256_less)
    with Some e nonemptyLeafBytes_words [OF dw WIDTH_less [OF assms(5)], of "pe_recipient e" "entryAmount e"] assms(5)
    show ?thesis by (simp add: makeLeaf_def nonemptyLeaf_def goodNode_def entryOk_def leafDomain_def)
  qed
qed

lemma two_le_sum_list:
  fixes xs :: "nat list"
  assumes "i < j" and "j < length xs"
  shows "xs ! i + xs ! j \<le> sum_list xs"
proof -
  have "(\<Sum>k\<in>{i, j}. xs ! k) \<le> (\<Sum>k = 0..<length xs. xs ! k)" by (rule sum_mono2) (use assms in auto)
  with assms(1) show ?thesis by (simp add: sum_list_sum_nth)
qed

lemma parentNode_succeeds:
  assumes "goodNode a" and "goodNode b" and "weight a + weight b \<le> MAX_UINT256" and "l < DEPTH"
  shows "\<exists>p. parentNode l a b = Inr p \<and> goodNode p"
  using assms by (auto simp: parentNode_Inr goodNode_def)

lemma parents_succeed:
  assumes "list_all goodNode ch" and "sum_list (map weight ch) \<le> MAX_UINT256" and "l < DEPTH" and "even (length ch)"
  shows "\<exists>ps. parentsOf l ch = Inr ps \<and> list_all goodNode ps \<and> sum_list (map weight ps) = sum_list (map weight ch)"
proof -
  have "\<exists>p. parentNode l (ch ! (2 * k)) (ch ! (2 * k + 1)) = Inr p \<and> goodNode p" if k: "k < length ch div 2" for k
  proof -
    have lt: "2 * k + 1 < length ch" using k by simp
    then have "weight (ch ! (2 * k)) + weight (ch ! (2 * k + 1)) \<le> sum_list (map weight ch)"
      using two_le_sum_list [of "2 * k" "2 * k + 1" "map weight ch"] by simp
    with assms lt show ?thesis by (intro parentNode_succeeds) (simp_all add: list_all_length)
  qed
  then obtain f where f: "\<And>k. k < length ch div 2 \<Longrightarrow> parentNode l (ch ! (2 * k)) (ch ! (2 * k + 1)) = Inr (f k) \<and> goodNode (f k)"
    by metis
  let ?ps = "map f [0..<length ch div 2]"
  have "parentsOf l ch = Inr ?ps" using f by (simp add: parentsOf_Inr)
  moreover have "list_all goodNode ?ps" using f by (simp add: list_all_iff)
  moreover have "sum_list (map weight ?ps) = sum_list (map weight ch)"
    using f assms(4) by (intro payout_tree.pairs_total [of _ _ l]) simp_all
  ultimately show ?thesis by blast
qed

lemma levels_succeed:
  assumes "list_all goodNode ch" and "sum_list (map weight ch) \<le> MAX_UINT256" and "l + n \<le> DEPTH" and "length ch = 2 ^ n"
  shows "\<exists>L. buildLevels n l ch = Inr L"
  using assms
proof (induction n arbitrary: l ch)
  case 0
  then show ?case by simp
next
  case (Suc n)
  obtain ps where ps: "parentsOf l ch = Inr ps" "list_all goodNode ps" "sum_list (map weight ps) = sum_list (map weight ch)"
    using parents_succeed [of ch l] Suc.prems by auto
  have "length ps = 2 ^ n" using ps(1) Suc.prems by (simp add: parentsOf_Inr)
  then obtain L where "buildLevels n (Suc l) ps = Inr L" using Suc.IH [of ps "Suc l"] ps Suc.prems by auto
  with ps(1) show ?case by simp
qed

lemma buildDistribution_succeeds:
  assumes m: "manifestBytes m = Inr enc" and total: "manifestTotal m \<le> MAX_UINT256"
  shows "\<exists>b. buildDistribution m = Inr b"
proof -
  note c = manifestBytes_checks [OF m]
  from c(4) obtain bs where bs: "hexToBytes enc ((length enc - 2) div 2) = Inr bs" using rehash_manifest by blast
  let ?ld = "leafDomain (mf_domain m) (hashHex bs)"
  have "\<forall>i. i < WIDTH \<longrightarrow> (\<exists>n. makeLeaf ?ld (mf_entries m) i = Inr n \<and> goodNode n)"
    using makeLeaf_succeeds [OF c(1) hashHex_pattern(1) c(2) entries_distinct [OF c(3)]] by blast
  then obtain f where f: "\<And>i. i < WIDTH \<Longrightarrow> makeLeaf ?ld (mf_entries m) i = Inr (f i) \<and> goodNode (f i)" by metis
  let ?leaves = "map f [0..<WIDTH]"
  have leaves: "mapE (\<lambda>_ i. makeLeaf ?ld (mf_entries m) i) 0 [0..<WIDTH] = Inr ?leaves" using f by (simp add: mapE_Inr_iff)
  have "sum_list (map weight ?leaves) \<le> MAX_UINT256" using leaves_total [OF m leaves] total by simp
  moreover have "list_all goodNode ?leaves" using f by (simp add: list_all_iff)
  ultimately obtain L where "buildLevels DEPTH 0 ?leaves = Inr L"
    using levels_succeed [of ?leaves 0 DEPTH] by (auto simp: WIDTH_def)
  with m bs leaves show ?thesis by (simp add: buildDistribution_def Let_def)
qed

lemma built_total:
  assumes "buildDistribution m = Inr b"
  shows "n_sum (b_root b) = dec_of_nat (manifestTotal m)" and "manifestTotal m \<le> MAX_UINT256" and "\<exists>enc. manifestBytes m = Inr enc"
proof -
  obtain enc L where m: "manifestBytes m = Inr enc"
    and leaves: "mapE (\<lambda>_ i. makeLeaf (leafDomain (mf_domain m) (b_manifestDigest b)) (mf_entries m) i) 0 [0..<WIDTH] = Inr (b_leaves b)"
    and L: "buildLevels DEPTH 0 (b_leaves b) = Inr L" and root: "b_root b = L ! DEPTH ! 0"
    by (rule buildDistribution_Inr [OF assms]) blast
  from root_sum [OF L built_leaves(1) [OF leaves]] leaves_total [OF m leaves] root m
  show "n_sum (b_root b) = dec_of_nat (manifestTotal m)" "manifestTotal m \<le> MAX_UINT256" "\<exists>enc. manifestBytes m = Inr enc" by simp_all
qed

text \<open>
  A distribution is built exactly when the manifest encodes and its total fits a \<open>uint256\<close>: no other error is
  raised on the way, and a total beyond the range is always refused.
\<close>

theorem distribution_builds_iff:
  "(\<exists>b. buildDistribution m = Inr b) \<longleftrightarrow> (\<exists>enc. manifestBytes m = Inr enc) \<and> manifestTotal m \<le> MAX_UINT256"
  using buildDistribution_succeeds built_total(2,3) by blast

lemma vector_builds:
  obtains b where "buildDistribution canonicalVectorInput = Inr b"
proof -
  have "manifestTotal canonicalVectorInput \<le> MAX_UINT256"
    by (simp add: manifestTotal_def canonicalVectorInput_def vectorEntry_def entryAmount_def js_BigInt_def MAX_UINT256_def)
  with buildDistribution_succeeds vector_ok manifestBytes_iff that show thesis by blast
qed

text \<open>
  C32. The root of every distribution that is built carries exactly the total of the manifest's amounts, as a
  canonical decimal string, and that total fits a \<open>uint256\<close>.
\<close>

theorem distribution_root_is_total:
  assumes "buildDistribution m = Inr b"
  shows "n_sum (b_root b) = dec_of_nat (manifestTotal m) \<and> manifestTotal m \<le> MAX_UINT256"
  using built_total [OF assms] by simp

theorem distribution_root_is_total_witness:
  "\<exists>b. buildDistribution canonicalVectorInput = Inr b \<and> n_sum (b_root b) = dec_of_nat 1500"
proof -
  obtain b where b: "buildDistribution canonicalVectorInput = Inr b" by (rule vector_builds)
  have "manifestTotal canonicalVectorInput = 1500"
    by (simp add: manifestTotal_def canonicalVectorInput_def vectorEntry_def entryAmount_def js_BigInt_def)
  with distribution_root_is_total [OF b] b show ?thesis by auto
qed

text \<open>
  Every proof of a built distribution verifies: for each of the 1024 indices, \<open>verifyProof\<close> accepts the leaf at
  that index with the generated proof against the root.
\<close>

theorem distribution_proofs_verify:
  assumes "buildDistribution m = Inr b" and "i < WIDTH"
  shows "verifyProof (b_leaves b ! i) (JNum (int i)) (b_proofs b ! i) (b_root b) = Inr True"
proof -
  obtain enc L where leaves: "mapE (\<lambda>_ i. makeLeaf (leafDomain (mf_domain m) (b_manifestDigest b)) (mf_entries m) i) 0 [0..<WIDTH]
      = Inr (b_leaves b)"
    and L: "buildLevels DEPTH 0 (b_leaves b) = Inr L" "b_root b = L ! DEPTH ! 0" "b_proofs b = map (makeProof L) [0..<WIDTH]"
    by (rule buildDistribution_Inr [OF assms(1)]) blast
  from verifyProof_built [OF L(1) built_leaves(1) [OF leaves] assms(2)] L assms(2) show ?thesis by simp
qed

theorem distribution_proofs_verify_witness:
  "\<exists>b. buildDistribution canonicalVectorInput = Inr b
     \<and> verifyProof (b_leaves b ! 511) (JNum 511) (b_proofs b ! 511) (b_root b) = Inr True"
proof -
  obtain b where b: "buildDistribution canonicalVectorInput = Inr b" by (rule vector_builds)
  from distribution_proofs_verify [OF b, of 511] b show ?thesis by (auto simp: WIDTH_def DEPTH_def)
qed

section \<open>What a verified claim implies\<close>

text \<open>The byte strings hashed while a claim is checked, and while the tree of a manifest is built.\<close>

definition claimInputs :: "leaf_domain \<Rightarrow> jsval \<Rightarrow> string \<Rightarrow> int \<Rightarrow> node \<Rightarrow> merkle_proof \<Rightarrow> byte list set" where
  "claimInputs ld index recipient amt leaf prf =
     {bs. nonemptyLeafBytes ld index recipient amt = Inr bs}
     \<union> pairBytes ` set (proofPairs parentNode (nat (num_of index)) 0 (siblingNodes prf) leaf)"

definition leafBytes :: "leaf_domain \<Rightarrow> payout_entry list \<Rightarrow> nat \<Rightarrow> byte list res" where
  "leafBytes ld es i =
     (case entryByIndex es (JNum (int i)) of
        Some e \<Rightarrow> nonemptyLeafBytes ld (JNum (int i)) (pe_recipient e) (int (entryAmount e))
      | None \<Rightarrow> emptyLeafBytes ld (JNum (int i)))"

definition treeInputs :: "manifest \<Rightarrow> distribution \<Rightarrow> byte list set" where
  "treeInputs m b =
     {bs. \<exists>i < WIDTH. leafBytes (leafDomain (mf_domain m) (b_manifestDigest b)) (mf_entries m) i = Inr bs}
     \<union> (case buildLevels DEPTH 0 (b_leaves b) of Inl _ \<Rightarrow> {} | Inr L \<Rightarrow> pairBytes ` treePairs L)"

lemma makeLeaf_bytes:
  assumes "makeLeaf ld es i = Inr n" and "distinct (map pe_index es)" and "list_all (entryOk hook) es"
  shows "\<exists>bs. leafBytes ld es i = Inr bs \<and> n_hash n = hashHex bs"
proof (cases "entryByIndex es (JNum (int i))")
  case None
  with assms show ?thesis by (auto simp: makeLeaf_def leafBytes_def emptyLeaf_def res_simps)
next
  case (Some e)
  then have "js_BigInt (pe_amount e) = Inr (int (entryAmount e))"
    using assms by (auto simp: entryByIndex_Some [OF assms(2)] list_all_iff entryOk_def)
  with Some assms(1) show ?thesis by (auto simp: makeLeaf_def leafBytes_def nonemptyLeaf_def res_simps)
qed

lemma nonemptyLeaf_Inr:
  assumes "nonemptyLeaf ld index recipient amount = Inr leaf"
  obtains k x bs where "index = JNum (int k)" "k < WIDTH" "js_BigInt amount = Inr (int x)" "0 < x" "x < 2 ^ 256"
    "nonemptyLeafBytes ld index recipient (int x) = Inr bs" "leaf = \<lparr>n_hash = hashHex bs, n_sum = dec_of_nat x\<rparr>"
    "any_hex_pattern 40 recipient"
proof -
  from assms obtain t bs where i: "indexInRange index" and t: "js_BigInt amount = Inr t" "0 < t" "t \<le> int MAX_UINT256"
    and bs: "nonemptyLeafBytes ld index recipient t = Inr bs" and leaf: "leaf = \<lparr>n_hash = hashHex bs, n_sum = dec_of_nat (nat t)\<rparr>"
    unfolding nonemptyLeaf_def bindE_Inr_iff throw_if_Inr_iff not_le not_less de_Morgan_disj sum.inject not_not by blast
  obtain j where "index = JNum j" "0 \<le> j" using i by (auto simp: indexInRange_def isInteger_iff num_of_def)
  then obtain k where k: "index = JNum (int k)" using zero_le_imp_eq_int by blast
  obtain x where x: "t = int x" using t(2) by (metis zero_le_imp_eq_int less_imp_le)
  have "x < 2 ^ 256" using t(3) by (simp only: x of_nat_le_iff MAX_UINT256_less)
  have r: "any_hex_pattern 40 recipient"
  proof -
    let ?ws = "bytes32Word TAGS_nonemptyLeaf # leafDomainWords ld @ [uintWord index 16, addressWord recipient, uintWord (JNum t) 256]"
    from bs obtain xs where "?ws = map Inr xs \<and> bs = concat xs" unfolding nonemptyLeafBytes_def encodeStatic_Inr ..
    then have "?ws = map Inr xs" ..
    then have "set ?ws = Inr ` set xs" by (simp only: set_map)
    then have "addressWord recipient \<in> range Inr" by auto
    then show ?thesis by (auto simp: addressWord_Inr)
  qed
  show thesis by (rule that [of k x bs]) (use k i t x bs leaf r \<open>x < 2 ^ 256\<close> in simp_all)
qed

text \<open>Equal leaf hashes: the leaf of the manifest is the claimed one, or the two encodings collide.\<close>

lemma leaf_binds:
  assumes d: "domainOk d" "any_hex_pattern 64 dig"
    and es: "list_all (entryOk (d_hook d)) es" "distinct (map pe_index es)"
    and k: "k < WIDTH" and r: "any_hex_pattern 40 recipient" and x: "x < 2 ^ 256"
    and b1: "nonemptyLeafBytes (leafDomain d dig) (JNum (int k)) recipient (int x) = Inr bs"
    and b2: "leafBytes (leafDomain d dig) es k = Inr bs'" and eq: "keccak256 bs = keccak256 bs'"
  shows "(\<exists>e \<in> set es. pe_index e = JNum (int k) \<and> toLowerCase (pe_recipient e) = toLowerCase recipient \<and> entryAmount e = x)
         \<or> collide bs bs'"
proof (cases "bs = bs'")
  case False
  with eq show ?thesis by (simp add: collide_def)
next
  case True
  obtain dw where dw: "leafDomainWords (leafDomain d dig) = map Inr dw" "list_all (\<lambda>w. length w = 32) dw" "length dw = 5"
    using leafDomainWords_ok [OF d] by blast
  note k16 = WIDTH_less [OF k]
  have k256: "k < 2 ^ 256" using k by (simp add: WIDTH_def DEPTH_def)
  have bs: "bs = concat (hexPairs (drop 2 TAGS_nonemptyLeaf) # dw @ [wordOf k, replicate 12 0 @ hexPairs (drop 2 recipient), wordOf x])"
    using nonemptyLeafBytes_words [OF dw(1) k16 r x] b1 by simp
  have len32: "\<And>w. w \<in> set dw \<Longrightarrow> length w = 32" using dw(2) by (simp add: list_all_iff)
  show ?thesis
  proof (cases "entryByIndex es (JNum (int k))")
    case None
    then have "bs' = concat (hexPairs (drop 2 TAGS_emptyLeaf) # dw @ [wordOf k])"
      using b2 emptyLeafBytes_words [OF dw(1) k16] by (simp add: leafBytes_def)
    with bs True have "length (wordOf x) = 0"
      by (simp add: length_bytes32 length_address [OF r])
    then show ?thesis using wordOf_value(1) [OF x] by simp
  next
    case (Some e)
    then have e: "e \<in> set es" "pe_index e = JNum (int k)" by (simp_all add: entryByIndex_Some [OF es(2)])
    then have ok: "any_hex_pattern 40 (pe_recipient e)" "entryAmount e < 2 ^ 256" using es(1) by (auto simp: list_all_iff entryOk_def)
    have "bs' = concat (hexPairs (drop 2 TAGS_nonemptyLeaf) # dw
        @ [wordOf k, replicate 12 0 @ hexPairs (drop 2 (pe_recipient e)), wordOf (entryAmount e)])"
      using b2 Some nonemptyLeafBytes_words [OF dw(1) k16 ok] by (simp add: leafBytes_def)
    with bs True have "hexPairs (drop 2 recipient) @ wordOf x = hexPairs (drop 2 (pe_recipient e)) @ wordOf (entryAmount e)" by simp
    then have "hexPairs (drop 2 recipient) = hexPairs (drop 2 (pe_recipient e))" "wordOf x = wordOf (entryAmount e)"
      using length_address [OF r] length_address [OF ok(1)] by simp_all
    then have "toLowerCase (pe_recipient e) = toLowerCase recipient" "entryAmount e = x"
      using hexPairs_inj [of 20 recipient "pe_recipient e"] r ok x by (simp_all add: wordOf_inj)
    with e show ?thesis by blast
  qed
qed

text \<open>
  C14. A claim that verifies against the root of a built distribution is a claim of its manifest: if the leaf for
  (index, recipient, amount) in the distribution's domain verifies with any proof, the manifest has an entry with
  that index, that recipient (up to the case of the hexadecimal digits) and that amount; otherwise one of the byte
  strings hashed by the verifier and one hashed by the builder are an explicit Keccak-256 collision.
\<close>

theorem verified_claim_is_in_manifest:
  assumes "buildDistribution m = Inr b"
    and "nonemptyLeaf (leafDomain (mf_domain m) (b_manifestDigest b)) index recipient amount = Inr leaf"
    and "verifyProof leaf index prf (b_root b) = Inr True"
  shows "(\<exists>e \<in> set (mf_entries m). pe_index e = index \<and> toLowerCase (pe_recipient e) = toLowerCase recipient
            \<and> js_BigInt (pe_amount e) = js_BigInt amount)
         \<or> (\<exists>x \<in> claimInputs (leafDomain (mf_domain m) (b_manifestDigest b)) index recipient (int (weight leaf)) leaf prf.
              \<exists>y \<in> treeInputs m b. x \<noteq> y \<and> keccak256 x = keccak256 y)"
proof -
  let ?ld = "leafDomain (mf_domain m) (b_manifestDigest b)"
  obtain enc L where m: "manifestBytes m = Inr enc"
    and leaves: "mapE (\<lambda>_ i. makeLeaf ?ld (mf_entries m) i) 0 [0..<WIDTH] = Inr (b_leaves b)"
    and L: "buildLevels DEPTH 0 (b_leaves b) = Inr L" and root: "b_root b = L ! DEPTH ! 0"
    and dig: "hex_pattern 64 (b_manifestDigest b)" by (rule buildDistribution_Inr [OF assms(1)]) blast
  note c = manifestBytes_checks [OF m]
  note tree = buildLevels_linked [OF L built_leaves(1) [OF leaves]]
  obtain k x bs where k: "index = JNum (int k)" "k < WIDTH" and x: "js_BigInt amount = Inr (int x)" "x < 2 ^ 256"
    and bs: "nonemptyLeafBytes ?ld index recipient (int x) = Inr bs" and leaf: "leaf = \<lparr>n_hash = hashHex bs, n_sum = dec_of_nat x\<rparr>"
    and r: "any_hex_pattern 40 recipient" by (rule nonemptyLeaf_Inr [OF assms(2)]) blast
  have k2: "k < 2 ^ DEPTH" "k div 2 ^ DEPTH = 0" using k(2) by (simp_all add: WIDTH_def)
  from assms(3) obtain n where n: "foldProof parentNode k 0 (siblingNodes prf) leaf = Inr n"
    and nr: "n_hash n = n_hash (b_root b)" "n_sum n = n_sum (b_root b)"
    and len: "length (siblingHashes prf) = DEPTH" "length (siblingSums prf) = DEPTH"
    by (auto simp: verifyProof_def k res_simps)
  have sl: "0 + length (siblingNodes prf) = DEPTH" using len by (simp add: siblingNodes_def)
  have same: "sameNode n (L ! DEPTH ! (k div 2 ^ DEPTH))" using nr root k2 by (simp add: sameNode_def)
  have w: "weight leaf = x" by (simp add: leaf)
  from payout_tree.foldProof_binds [OF tree(1,3) k2(1) sl n same]
  show ?thesis
  proof
    assume "sameNode leaf (L ! 0 ! (k div 2 ^ 0))"
    then have s: "sameNode leaf (b_leaves b ! k)" using tree(2) by simp
    obtain bs' where bs': "leafBytes ?ld (mf_entries m) k = Inr bs'" "n_hash (b_leaves b ! k) = hashHex bs'"
      using makeLeaf_bytes [OF built_leaves(2) [OF leaves k(2)] entries_distinct [OF c(3)] c(2)] by blast
    have "keccak256 bs = keccak256 bs'"
      using s bs'(2) toLowerCase_hex [OF hashHex_pattern(1)] by (simp add: sameNode_def leaf hashHex_eq_iff)
    from leaf_binds [OF c(1) hex_pattern_any [OF dig] c(2) entries_distinct [OF c(3)] k(2) r x(2) bs [unfolded k(1)] bs'(1) this]
    show ?thesis
    proof
      assume "\<exists>e \<in> set (mf_entries m). pe_index e = JNum (int k) \<and> toLowerCase (pe_recipient e) = toLowerCase recipient \<and> entryAmount e = x"
      then show ?thesis using c(2) x(1) k(1) by (auto simp: list_all_iff entryOk_def)
    next
      assume "collide bs bs'"
      moreover have "bs \<in> claimInputs ?ld index recipient (int (weight leaf)) leaf prf" using bs w by (simp add: claimInputs_def)
      moreover have "bs' \<in> treeInputs m b" using bs'(1) k(2) by (auto simp: treeInputs_def)
      ultimately show ?thesis by (auto simp: collide_def)
    qed
  next
    assume "\<exists>p \<in> set (proofPairs parentNode k 0 (siblingNodes prf) leaf). \<exists>q \<in> treePairs L. collide (pairBytes p) (pairBytes q)"
    then obtain p q where pq: "p \<in> set (proofPairs parentNode k 0 (siblingNodes prf) leaf)" "q \<in> treePairs L"
      "collide (pairBytes p) (pairBytes q)" by blast
    then have "pairBytes p \<in> claimInputs ?ld index recipient (int (weight leaf)) leaf prf" "pairBytes q \<in> treeInputs m b"
      using L k(1) by (auto simp: claimInputs_def treeInputs_def)
    with pq(3) show ?thesis by (auto simp: collide_def)
  qed
qed

lemma vector_claim:
  assumes b: "buildDistribution canonicalVectorInput = Inr b"
  shows "nonemptyLeaf (leafDomain (mf_domain canonicalVectorInput) (b_manifestDigest b)) (JNum 17)
      ''0x0000000000000000000000000000000000001012'' (JNum 300) = Inr (b_leaves b ! 17)"
proof -
  obtain enc L where leaves: "mapE (\<lambda>_ i. makeLeaf (leafDomain (mf_domain canonicalVectorInput) (b_manifestDigest b))
      (mf_entries canonicalVectorInput) i) 0 [0..<WIDTH] = Inr (b_leaves b)" by (rule buildDistribution_Inr [OF b]) blast
  have "entryByIndex (mf_entries canonicalVectorInput) (JNum (int 17)) =
      Some (vectorEntry 17 ''0x0000000000000000000000000000000000001012'' 300 15)"
    by (simp add: entryByIndex_def canonicalVectorInput_def vectorEntry_def)
  with built_leaves(2) [OF leaves, of 17] show ?thesis by (simp add: makeLeaf_def vectorEntry_def WIDTH_def DEPTH_def)
qed

theorem verified_claim_is_in_manifest_witness:
  "\<exists>b leaf prf. buildDistribution canonicalVectorInput = Inr b
     \<and> verifyProof leaf (JNum 17) prf (b_root b) = Inr True
     \<and> ((\<exists>e \<in> set (mf_entries canonicalVectorInput). pe_index e = JNum 17
            \<and> toLowerCase (pe_recipient e) = toLowerCase ''0x0000000000000000000000000000000000001012''
            \<and> js_BigInt (pe_amount e) = js_BigInt (JNum 300))
         \<or> (\<exists>x \<in> claimInputs (leafDomain (mf_domain canonicalVectorInput) (b_manifestDigest b)) (JNum 17)
                ''0x0000000000000000000000000000000000001012'' (int (weight leaf)) leaf prf.
              \<exists>y \<in> treeInputs canonicalVectorInput b. x \<noteq> y \<and> keccak256 x = keccak256 y))"
proof -
  obtain b where b: "buildDistribution canonicalVectorInput = Inr b" by (rule vector_builds)
  obtain enc L where leaves: "mapE (\<lambda>_ i. makeLeaf (leafDomain (mf_domain canonicalVectorInput) (b_manifestDigest b))
      (mf_entries canonicalVectorInput) i) 0 [0..<WIDTH] = Inr (b_leaves b)"
    and L: "buildLevels DEPTH 0 (b_leaves b) = Inr L" "b_root b = L ! DEPTH ! 0" by (rule buildDistribution_Inr [OF b]) blast
  have v: "verifyProof (b_leaves b ! 17) (JNum 17) (makeProof L 17) (b_root b) = Inr True"
    using verifyProof_built [OF L(1) built_leaves(1) [OF leaves], of 17] L(2) by (simp add: WIDTH_def DEPTH_def)
  from b v verified_claim_is_in_manifest [OF b vector_claim [OF b] v] show ?thesis by blast
qed

end
