(* ===== verification/Keccak_Vector.thy ===== *)
theory Keccak_Vector
  imports Keccak
begin

text \<open>
  A test vector for the Keccak-256 model, evaluated by rewriting alone: the node tag of
  \<^verbatim>\<open>canonical-merkle-sum.mjs\<close> is the constant published in
  \<^verbatim>\<open>packages/contracts/test-vectors/payout/canonical-merkle-sum-v1.json\<close>.  The symbolic lemmas compute one
  round on twenty-five lanes; the numbered lemmas are the twenty-four rounds on the padded tag.
\<close>

section \<open>One round on explicit lanes\<close>

lemma upt5: "[0..<5] = [0, 1, 2, 3, 4]" by code_simp

lemma upt25: "[0..<25] = [0, 1, 2, 3, 4, 5, 6, 7, 8, 9, 10, 11, 12, 13, 14, 15, 16, 17, 18, 19, 20, 21, 22,
      23, 24]" by code_simp

lemma replicate25: "replicate 25 (0::lane) = [0, 0, 0, 0, 0, 0, 0, 0, 0, 0, 0, 0, 0, 0, 0, 0, 0, 0, 0, 0, 0,
      0, 0, 0, 0]" by code_simp

lemma columns_eval: "columns [a0, a1, a2, a3, a4, a5, a6, a7, a8, a9, a10, a11, a12, a13, a14, a15, a16,
      a17, a18, a19, a20, a21, a22, a23, a24] = [(((a0 XOR a5) XOR a10) XOR a15) XOR a20, (((a1 XOR a6) XOR
      a11) XOR a16) XOR a21, (((a2 XOR a7) XOR a12) XOR a17) XOR a22, (((a3 XOR a8) XOR a13) XOR a18) XOR
      a23, (((a4 XOR a9) XOR a14) XOR a19) XOR a24]"
  by (simp add: columns_def upt5)

lemma mixed_eval: "mixed [c0, c1, c2, c3, c4] = [c4 XOR rotateLeft c1 1, c0 XOR rotateLeft c2 1, c1 XOR
      rotateLeft c3 1, c2 XOR rotateLeft c4 1, c3 XOR rotateLeft c0 1]"
  by (simp add: mixed_def upt5)

lemma applyMixed_lanes: "map (\<lambda>i. [a0, a1, a2, a3, a4, a5, a6, a7, a8, a9, a10, a11, a12, a13, a14, a15,
      a16, a17, a18, a19, a20, a21, a22, a23, a24] ! i XOR [m0, m1, m2, m3, m4] ! (i mod 5)) [0..<25] = [a0
      XOR m0, a1 XOR m1, a2 XOR m2, a3 XOR m3, a4 XOR m4, a5 XOR m0, a6 XOR m1, a7 XOR m2, a8 XOR m3, a9 XOR
      m4, a10 XOR m0, a11 XOR m1, a12 XOR m2, a13 XOR m3, a14 XOR m4, a15 XOR m0, a16 XOR m1, a17 XOR m2,
      a18 XOR m3, a19 XOR m4, a20 XOR m0, a21 XOR m1, a22 XOR m2, a23 XOR m3, a24 XOR m4]"
  by (simp add: upt25)

lemma rotated_eval: "rotated [a0, a1, a2, a3, a4, a5, a6, a7, a8, a9, a10, a11, a12, a13, a14, a15, a16,
      a17, a18, a19, a20, a21, a22, a23, a24] = [rotateLeft a0 0, rotateLeft a6 44, rotateLeft a12 43,
      rotateLeft a18 21, rotateLeft a24 14, rotateLeft a3 28, rotateLeft a9 20, rotateLeft a10 3, rotateLeft
      a16 45, rotateLeft a22 61, rotateLeft a1 1, rotateLeft a7 6, rotateLeft a13 25, rotateLeft a19 8,
      rotateLeft a20 18, rotateLeft a4 27, rotateLeft a5 36, rotateLeft a11 10, rotateLeft a17 15,
      rotateLeft a23 56, rotateLeft a2 62, rotateLeft a8 55, rotateLeft a14 39, rotateLeft a15 41,
      rotateLeft a21 2]"
  by (simp add: rotated_def ROTATION_def upt5 replicate25) 

lemma row_eval: "rowStep [a0, a1, a2, a3, a4, a5, a6, a7, a8, a9, a10, a11, a12, a13, a14, a15, a16, a17,
      a18, a19, a20, a21, a22, a23, a24] = [a0 XOR (NOT a1 AND a2), a1 XOR (NOT a2 AND a3), a2 XOR (NOT a3
      AND a4), a3 XOR (NOT a4 AND a0), a4 XOR (NOT a0 AND a1), a5 XOR (NOT a6 AND a7), a6 XOR (NOT a7 AND
      a8), a7 XOR (NOT a8 AND a9), a8 XOR (NOT a9 AND a5), a9 XOR (NOT a5 AND a6), a10 XOR (NOT a11 AND
      a12), a11 XOR (NOT a12 AND a13), a12 XOR (NOT a13 AND a14), a13 XOR (NOT a14 AND a10), a14 XOR (NOT
      a10 AND a11), a15 XOR (NOT a16 AND a17), a16 XOR (NOT a17 AND a18), a17 XOR (NOT a18 AND a19), a18 XOR
      (NOT a19 AND a15), a19 XOR (NOT a15 AND a16), a20 XOR (NOT a21 AND a22), a21 XOR (NOT a22 AND a23),
      a22 XOR (NOT a23 AND a24), a23 XOR (NOT a24 AND a20), a24 XOR (NOT a20 AND a21)]"
  by (simp add: rowStep_def Let_def upt25)


lemmas round_eval = applyMixed_def Let_def columns_eval mixed_eval applyMixed_lanes rotated_eval row_eval rotateLeft_def

lemma keccakRound_step:
  assumes "rowStep (rotated (applyMixed st)) = b # bs" and "b XOR rc = x"
  shows "keccakRound st rc = x # bs"
  using assms by (simp add: keccakRound_def Let_def)

section \<open>The twenty-four rounds\<close>

lemma round_1: "keccakRound [0x4e4f4d454b4f4f48, 0x5f54554f5941505f, 0x3535525f45444f4e, 0x131565f34415f, 0,
      0, 0, 0, 0, 0, 0, 0, 0, 0, 0, 0, 0x8000000000000000, 0, 0, 0, 0, 0, 0, 0, 0] 1 = [0xf265eb6358edecd7,
      0x7c75e24316df1c9e, 0xee801c98a78e5e3c, 0x5be86d18a1caae7a, 0xe7ef326ab1e1f72f, 0xd1a644b113574235,
      0xb7f61aadd5d3b1fa, 0xf485168dd4d507b9, 0x7a3f9485be2d3c18, 0x17a25cf0904db396, 0xdce1796f25074196,
      0xd4acacb8e8e13d6f, 0x9eda8a9c9c4a5a86, 0xcb2aeda89bdece88, 0xab764a9a488e42c3, 0x71c8b2fa69a1ad4e,
      0x207a1b6b0aba06c0, 0xd3a3eb45094250d4, 0xbbb9b138c9d056bb, 0x46173c53dd4f44ee, 0xaafdbc2968ce2b2b,
      0xa71a82983fa2b326, 0x45f9674c49dfac74, 0x6f49277d79d51d4e, 0x9595a56f003fc754]"
  by (rule keccakRound_step [of _ "0xf265eb6358edecd6"]) (simp_all add: round_eval)

lemma round_2: "keccakRound [0xf265eb6358edecd7, 0x7c75e24316df1c9e, 0xee801c98a78e5e3c, 0x5be86d18a1caae7a,
      0xe7ef326ab1e1f72f, 0xd1a644b113574235, 0xb7f61aadd5d3b1fa, 0xf485168dd4d507b9, 0x7a3f9485be2d3c18,
      0x17a25cf0904db396, 0xdce1796f25074196, 0xd4acacb8e8e13d6f, 0x9eda8a9c9c4a5a86, 0xcb2aeda89bdece88,
      0xab764a9a488e42c3, 0x71c8b2fa69a1ad4e, 0x207a1b6b0aba06c0, 0xd3a3eb45094250d4, 0xbbb9b138c9d056bb,
      0x46173c53dd4f44ee, 0xaafdbc2968ce2b2b, 0xa71a82983fa2b326, 0x45f9674c49dfac74, 0x6f49277d79d51d4e,
      0x9595a56f003fc754] 0x8082 = [0x72c3ed8593576348, 0x425b8f4ebc9d2ef9, 0x3f5a8b1df296bf53,
      0xf222da2042720bf8, 0x65c8e883ec3274fc, 0x1456752d80c985d7, 0xf5c7b977f0b69b02, 0xe21fe90c61562cdb,
      0x3058e4087b412644, 0x15b43d934ddc4cf4, 0x78584a0d0db9b4a0, 0x2171e32a14035884, 0xeac8eebc55d1b178,
      0xa78ebd369fa8c7a0, 0x6d5835fb06c2416a, 0x73d4d490b626ab00, 0xbef8e2619d0534d0, 0xa9dbdf70aa908756,
      0x83937f67bd839bfd, 0xe044bd378cbef890, 0x40f62e79f440cc6a, 0x2db8e4606b3d82e4, 0x35afb228ab89f57,
      0x70669bb09d6959f9, 0x8515cf5c379897c2]"
  by (rule keccakRound_step [of _ "0x72c3ed859357e3ca"]) (simp_all add: round_eval)

lemma round_3: "keccakRound [0x72c3ed8593576348, 0x425b8f4ebc9d2ef9, 0x3f5a8b1df296bf53, 0xf222da2042720bf8,
      0x65c8e883ec3274fc, 0x1456752d80c985d7, 0xf5c7b977f0b69b02, 0xe21fe90c61562cdb, 0x3058e4087b412644,
      0x15b43d934ddc4cf4, 0x78584a0d0db9b4a0, 0x2171e32a14035884, 0xeac8eebc55d1b178, 0xa78ebd369fa8c7a0,
      0x6d5835fb06c2416a, 0x73d4d490b626ab00, 0xbef8e2619d0534d0, 0xa9dbdf70aa908756, 0x83937f67bd839bfd,
      0xe044bd378cbef890, 0x40f62e79f440cc6a, 0x2db8e4606b3d82e4, 0x35afb228ab89f57, 0x70669bb09d6959f9,
      0x8515cf5c379897c2] 0x800000000000808a = [0x81adc938f0ecead5, 0x1fb72fe39c00460e, 0xb1d314116fd1ff99,
      0x52e0ecf1afbc0f52, 0xe2114459f95c1632, 0xaa5534d4916c757d, 0x282b32d1770fc736, 0x7ae1dd964899b231,
      0x960d94234b8e44de, 0xa17cbed40108d005, 0xb9d9e5785bc8ce9f, 0xe5350760e523c87e, 0xf2f39aabd1941f21,
      0x1b834ae005f632b3, 0x2f56d3a91331ef00, 0x86de29b2f5207eac, 0x6fa2d737719218ac, 0x166f6716c921cc9f,
      0xf77a8c917616fa8a, 0x603dd7124dc7444f, 0x55bc45a714186c0e, 0x6ab8dfb54f929cf8, 0xf9a9df1e4bba551c,
      0x1c924ca1e5c04fee, 0xc338ed5f07f99b58]"
  by (rule keccakRound_step [of _ "0x1adc938f0ec6a5f"]) (simp_all add: round_eval)

lemma round_4: "keccakRound [0x81adc938f0ecead5, 0x1fb72fe39c00460e, 0xb1d314116fd1ff99, 0x52e0ecf1afbc0f52,
      0xe2114459f95c1632, 0xaa5534d4916c757d, 0x282b32d1770fc736, 0x7ae1dd964899b231, 0x960d94234b8e44de,
      0xa17cbed40108d005, 0xb9d9e5785bc8ce9f, 0xe5350760e523c87e, 0xf2f39aabd1941f21, 0x1b834ae005f632b3,
      0x2f56d3a91331ef00, 0x86de29b2f5207eac, 0x6fa2d737719218ac, 0x166f6716c921cc9f, 0xf77a8c917616fa8a,
      0x603dd7124dc7444f, 0x55bc45a714186c0e, 0x6ab8dfb54f929cf8, 0xf9a9df1e4bba551c, 0x1c924ca1e5c04fee,
      0xc338ed5f07f99b58] 0x8000000080008000 = [0x8ba1fdd1b38c7ef0, 0x5a378cfe915844f, 0xfb438a622f6be56a,
      0xeca853eab9d362b8, 0x3d9db0c4bc0b5d41, 0xe9964285d1bdb204, 0x6cfd5ff8bfebbfc3, 0xcc4cf8acc71534c4,
      0xd8b192dd4eb65a4d, 0x1caaf81175b625dd, 0xcdd3165d8f793713, 0x642c3272131eba1, 0xee55484bf087300f,
      0x1d88199c6adc1eda, 0xdfb394ca202c17f1, 0x21fb52b94a8752da, 0xe809f08ac58259d, 0xc382465a6235d821,
      0x88481cfe44bd5efa, 0xa3546c85f683116d, 0x62cb78716fb66ac5, 0xceca782dee241d31, 0xfa029cfc5ae555e9,
      0x42f5bcd027cfc65, 0x97f5f6fd71bdb0d2]"
  by (rule keccakRound_step [of _ "0xba1fdd1338cfef0"]) (simp_all add: round_eval)

lemma round_5: "keccakRound [0x8ba1fdd1b38c7ef0, 0x5a378cfe915844f, 0xfb438a622f6be56a, 0xeca853eab9d362b8,
      0x3d9db0c4bc0b5d41, 0xe9964285d1bdb204, 0x6cfd5ff8bfebbfc3, 0xcc4cf8acc71534c4, 0xd8b192dd4eb65a4d,
      0x1caaf81175b625dd, 0xcdd3165d8f793713, 0x642c3272131eba1, 0xee55484bf087300f, 0x1d88199c6adc1eda,
      0xdfb394ca202c17f1, 0x21fb52b94a8752da, 0xe809f08ac58259d, 0xc382465a6235d821, 0x88481cfe44bd5efa,
      0xa3546c85f683116d, 0x62cb78716fb66ac5, 0xceca782dee241d31, 0xfa029cfc5ae555e9, 0x42f5bcd027cfc65,
      0x97f5f6fd71bdb0d2] 0x808b = [0x3ba9c59a8464e928, 0xa3e8539459a737c, 0xb707fedf7b821b7e,
      0x6770825f4df9a0f, 0x9bff8e8ced6768b6, 0xbe1a49335d8ac3f0, 0x25a7a7aa43d6afda, 0xcad3828755ad5413,
      0x33de8d5c7b12e5fe, 0x237696df3b70fa87, 0x938a235eea7f0e28, 0x3521a03015f5451f, 0x32e749ef893e1ea,
      0x1bf0c8bd0a3e0a1f, 0xcd80a1f8c1d3980a, 0x77bc0050280c1166, 0x7677ad4c45d0bb9d, 0x8e520da04bdd20ad,
      0xeba3707b9ee082de, 0xa9326230f10f2284, 0x94f665994d0c4982, 0xccc617d51878e05f, 0xd3aeb0d0ee1e78d4,
      0x9fc8167ac727299e, 0xceacfecf886db83e]"
  by (rule keccakRound_step [of _ "0x3ba9c59a846469a3"]) (simp_all add: round_eval)

lemma round_6: "keccakRound [0x3ba9c59a8464e928, 0xa3e8539459a737c, 0xb707fedf7b821b7e, 0x6770825f4df9a0f,
      0x9bff8e8ced6768b6, 0xbe1a49335d8ac3f0, 0x25a7a7aa43d6afda, 0xcad3828755ad5413, 0x33de8d5c7b12e5fe,
      0x237696df3b70fa87, 0x938a235eea7f0e28, 0x3521a03015f5451f, 0x32e749ef893e1ea, 0x1bf0c8bd0a3e0a1f,
      0xcd80a1f8c1d3980a, 0x77bc0050280c1166, 0x7677ad4c45d0bb9d, 0x8e520da04bdd20ad, 0xeba3707b9ee082de,
      0xa9326230f10f2284, 0x94f665994d0c4982, 0xccc617d51878e05f, 0xd3aeb0d0ee1e78d4, 0x9fc8167ac727299e,
      0xceacfecf886db83e] 0x80000001 = [0x3538d028fe718d1b, 0x23e33b2d346b0e3b, 0x4cafccae5b7b36f9,
      0xc5861aeab41c1131, 0xd29e971b67a05dbf, 0xbdb5c54f37d53fb7, 0x5360ae6ce00a3633, 0x30cbf0bcc5dcd2be,
      0x40483cb23182e1b6, 0x7ab859cce304c0fe, 0x32c058c4e9d8f561, 0xf2ecda8ec4ece27, 0x476a6f9ea0e8a8ab,
      0xd7dd8952912cc738, 0x4fddfb0d63d111da, 0xa0e308e1af5b4f88, 0x71f52c2e4975c03c, 0x3e94aabf2f7bcef9,
      0x3d6ad4c226d50d1e, 0x328590e724c995cc, 0xa1fa0dd29fbb9d6, 0x111adb79714a513c, 0x8e3f9caa2ade2690,
      0x1212040b718cf8b7, 0xffe2813ea059c6d4]"
  by (rule keccakRound_step [of _ "0x3538d0287e718d1a"]) (simp_all add: round_eval)

lemma round_7: "keccakRound [0x3538d028fe718d1b, 0x23e33b2d346b0e3b, 0x4cafccae5b7b36f9, 0xc5861aeab41c1131,
      0xd29e971b67a05dbf, 0xbdb5c54f37d53fb7, 0x5360ae6ce00a3633, 0x30cbf0bcc5dcd2be, 0x40483cb23182e1b6,
      0x7ab859cce304c0fe, 0x32c058c4e9d8f561, 0xf2ecda8ec4ece27, 0x476a6f9ea0e8a8ab, 0xd7dd8952912cc738,
      0x4fddfb0d63d111da, 0xa0e308e1af5b4f88, 0x71f52c2e4975c03c, 0x3e94aabf2f7bcef9, 0x3d6ad4c226d50d1e,
      0x328590e724c995cc, 0xa1fa0dd29fbb9d6, 0x111adb79714a513c, 0x8e3f9caa2ade2690, 0x1212040b718cf8b7,
      0xffe2813ea059c6d4] 0x8000000080008081 = [0xe334eb415c453c6e, 0x3d48afc9ba0c5dd6, 0xfe1de417f9bc3139,
      0xbba5ed7d7b8eafb, 0x91babf8af9f12bea, 0x7042d83361bcb796, 0x521a57679cf23900, 0x5ea86cce454c2d51,
      0x97960ee8e040f04a, 0xee797cd649e170ba, 0xc02231a8bad76d4e, 0x52cc21120fe81353, 0xf8533b69561a8158,
      0x8d14182bd1f5792a, 0x794128eaa4247a2a, 0x2dc387b17864ad3d, 0x694126a098eee285, 0x57001fd49cda7c40,
      0x7640c49a7e8d7d9c, 0x74ccef231606efe3, 0x6b5ef224df2e1d7c, 0x26ebe0e882a6d4f4, 0x82db211bebaf7ab6,
      0x9cf48b4cc2c62cf7, 0x4b06dfda81ce6611]"
  by (rule keccakRound_step [of _ "0x6334eb41dc45bcef"]) (simp_all add: round_eval)

lemma round_8: "keccakRound [0xe334eb415c453c6e, 0x3d48afc9ba0c5dd6, 0xfe1de417f9bc3139, 0xbba5ed7d7b8eafb,
      0x91babf8af9f12bea, 0x7042d83361bcb796, 0x521a57679cf23900, 0x5ea86cce454c2d51, 0x97960ee8e040f04a,
      0xee797cd649e170ba, 0xc02231a8bad76d4e, 0x52cc21120fe81353, 0xf8533b69561a8158, 0x8d14182bd1f5792a,
      0x794128eaa4247a2a, 0x2dc387b17864ad3d, 0x694126a098eee285, 0x57001fd49cda7c40, 0x7640c49a7e8d7d9c,
      0x74ccef231606efe3, 0x6b5ef224df2e1d7c, 0x26ebe0e882a6d4f4, 0x82db211bebaf7ab6, 0x9cf48b4cc2c62cf7,
      0x4b06dfda81ce6611] 0x8000000000008009 = [0xfe3c45c7c1551183, 0x3fd331ce83ac496b, 0x458b496bef5a0cce,
      0xdd48945068552c97, 0x8c2206c83ceb8eb6, 0xd4cf6a02dbf97753, 0x48cc727afb03e67f, 0xa896aa5bf8379af0,
      0xa47eecdcfb225475, 0x68def2d14d8d2bfc, 0x737584b41acb5919, 0xa11f77b8a792dc96, 0x9e9fa7d7a8e7701f,
      0xf7f77b4f8afcdda4, 0xda06c2b87d72d9de, 0x729fdb7abc50683, 0x4909caeef601814a, 0xd913d8624d98a595,
      0x91caa8832e2feb06, 0x69a35af8f87a69ae, 0xf8eff5df45b4d09, 0x46383cbbc43b373d, 0xf1109e568ed0095f,
      0x5384f3f85ecf2c79, 0xe556356067d2c42c]"
  by (rule keccakRound_step [of _ "0x7e3c45c7c155918a"]) (simp_all add: round_eval)

lemma round_9: "keccakRound [0xfe3c45c7c1551183, 0x3fd331ce83ac496b, 0x458b496bef5a0cce, 0xdd48945068552c97,
      0x8c2206c83ceb8eb6, 0xd4cf6a02dbf97753, 0x48cc727afb03e67f, 0xa896aa5bf8379af0, 0xa47eecdcfb225475,
      0x68def2d14d8d2bfc, 0x737584b41acb5919, 0xa11f77b8a792dc96, 0x9e9fa7d7a8e7701f, 0xf7f77b4f8afcdda4,
      0xda06c2b87d72d9de, 0x729fdb7abc50683, 0x4909caeef601814a, 0xd913d8624d98a595, 0x91caa8832e2feb06,
      0x69a35af8f87a69ae, 0xf8eff5df45b4d09, 0x46383cbbc43b373d, 0xf1109e568ed0095f, 0x5384f3f85ecf2c79,
      0xe556356067d2c42c] 0x8a = [0xedd0dc5c8ae5cbdc, 0xe41c9aee85f47fd5, 0x381dcaa70507f4fd,
      0x742ea28d7057c3bb, 0x8f958ef0a6a4f667, 0xb3ca4f595ed6c4f, 0x91e8854f50220123, 0x8aeec1f829e01e33,
      0x8d03f5a544d7384b, 0x82e6eca5f630203b, 0x6261b9ac4fb351f8, 0xe272cb5dbc5ddfa, 0x5fac0fead980ff9f,
      0x5ff07e68e3c051f2, 0x8748b3b1efd4b38a, 0xe41f9422ffd3757e, 0x202373cd0832380b, 0x59261644b4f03d5c,
      0x55b63904d11b4cb4, 0xbfcc518e582d7c45, 0xe5490e80f5065053, 0x51ddbcaab4502c5e, 0xf5efb28b647f9b77,
      0xadb9f08ebe60fa94, 0x98eab237834b562e]"
  by (rule keccakRound_step [of _ "0xedd0dc5c8ae5cb56"]) (simp_all add: round_eval)

lemma round_10: "keccakRound [0xedd0dc5c8ae5cbdc, 0xe41c9aee85f47fd5, 0x381dcaa70507f4fd,
      0x742ea28d7057c3bb, 0x8f958ef0a6a4f667, 0xb3ca4f595ed6c4f, 0x91e8854f50220123, 0x8aeec1f829e01e33,
      0x8d03f5a544d7384b, 0x82e6eca5f630203b, 0x6261b9ac4fb351f8, 0xe272cb5dbc5ddfa, 0x5fac0fead980ff9f,
      0x5ff07e68e3c051f2, 0x8748b3b1efd4b38a, 0xe41f9422ffd3757e, 0x202373cd0832380b, 0x59261644b4f03d5c,
      0x55b63904d11b4cb4, 0xbfcc518e582d7c45, 0xe5490e80f5065053, 0x51ddbcaab4502c5e, 0xf5efb28b647f9b77,
      0xadb9f08ebe60fa94, 0x98eab237834b562e] 0x88 = [0x741210e68a30ca9f, 0x5b4a99ddffc8471a,
      0x3aec7742489050fc, 0xfc1583e896a94bcf, 0x3225eafa1ae1776b, 0x90ff2e69f44aa1f0, 0x929b89212d4d382a,
      0x917349976b7f8732, 0x20242ac8af23e751, 0x6a4c70edbdca5a86, 0xc5d5cb3a2e9f24bf, 0xf1bd05bef0a20905,
      0x40f51df2e2b9a960, 0x6d120a26e3406e2a, 0x8c1d38d14113b3f, 0xa10919468ed68ec9, 0x4384f45937a633ad,
      0xc4f99f2deff220a3, 0x35913939d9a4fd5e, 0xc732d13d6f73a4e6, 0xbbe1fdb175e21c89, 0x1e3378a12599884,
      0xc9028fad13705cf0, 0xfe982aad2fd29b6, 0x58a49dee15aac6b3]"
  by (rule keccakRound_step [of _ "0x741210e68a30ca17"]) (simp_all add: round_eval)

lemma round_11: "keccakRound [0x741210e68a30ca9f, 0x5b4a99ddffc8471a, 0x3aec7742489050fc,
      0xfc1583e896a94bcf, 0x3225eafa1ae1776b, 0x90ff2e69f44aa1f0, 0x929b89212d4d382a, 0x917349976b7f8732,
      0x20242ac8af23e751, 0x6a4c70edbdca5a86, 0xc5d5cb3a2e9f24bf, 0xf1bd05bef0a20905, 0x40f51df2e2b9a960,
      0x6d120a26e3406e2a, 0x8c1d38d14113b3f, 0xa10919468ed68ec9, 0x4384f45937a633ad, 0xc4f99f2deff220a3,
      0x35913939d9a4fd5e, 0xc732d13d6f73a4e6, 0xbbe1fdb175e21c89, 0x1e3378a12599884, 0xc9028fad13705cf0,
      0xfe982aad2fd29b6, 0x58a49dee15aac6b3] 0x80008009 = [0x7ff991ad8c628409, 0x4f2cc0c60ffb7253,
      0xd29729464da00225, 0x7aeeecb9189aba0, 0xe9fba2a4096332c4, 0x93abba03d8099bae, 0xa7cb7b8fefa9c78c,
      0xf764338f60de1107, 0xbe70c4afd844b6fe, 0x98e7e8aed151b5fa, 0x5f61fbaa4f4164e3, 0xbaca8393a35da5e6,
      0x329a6709b8f9ff66, 0xc1fa3cc95428a6f9, 0x77e0ce92e8c6823d, 0x48ae86d1fc736e9b, 0x2187d1febdea2401,
      0x7dfac8baf93913dd, 0x2ccb2fc648814427, 0x657774919f74efe2, 0x55d7654c3a6fee1f, 0x59aca88dbe028896,
      0xc48e23f115f5cfe7, 0x9108d107278f2d1, 0xdc6d069acc81133f]"
  by (rule keccakRound_step [of _ "0x7ff991ad0c620400"]) (simp_all add: round_eval)

lemma round_12: "keccakRound [0x7ff991ad8c628409, 0x4f2cc0c60ffb7253, 0xd29729464da00225, 0x7aeeecb9189aba0,
      0xe9fba2a4096332c4, 0x93abba03d8099bae, 0xa7cb7b8fefa9c78c, 0xf764338f60de1107, 0xbe70c4afd844b6fe,
      0x98e7e8aed151b5fa, 0x5f61fbaa4f4164e3, 0xbaca8393a35da5e6, 0x329a6709b8f9ff66, 0xc1fa3cc95428a6f9,
      0x77e0ce92e8c6823d, 0x48ae86d1fc736e9b, 0x2187d1febdea2401, 0x7dfac8baf93913dd, 0x2ccb2fc648814427,
      0x657774919f74efe2, 0x55d7654c3a6fee1f, 0x59aca88dbe028896, 0xc48e23f115f5cfe7, 0x9108d107278f2d1,
      0xdc6d069acc81133f] 0x8000000a = [0xb613a46cf68eb530, 0x18ffbd7b42dd0e4a, 0x2cb51571812e1b0,
      0x8d7d9930b81ba3e0, 0xb4bc856fba2bff41, 0x62f427df3131ca5a, 0xedc74a2663298883, 0x8c54125c6e7e6e39,
      0x57a78cfce5ec920b, 0xf6ae215501ed5dbc, 0x322bfc5234b7c6db, 0xb367ad1b8178e0b9, 0x8bc6e24fce429c1e,
      0x242f45104594306d, 0xc773628c3a3ef8f4, 0x26a4d670d7a7828f, 0xbcf33b078e1c6e22, 0xec7c723751fe6d12,
      0x94d2edf358e8758f, 0x9a89e071bdd54c11, 0x11d3a6a61453800a, 0xbef7d11b0953863f, 0x5f9ebeb30386a3b8,
      0x2b55334299b1813d, 0x21528853c7a8489e]"
  by (rule keccakRound_step [of _ "0xb613a46c768eb53a"]) (simp_all add: round_eval)

lemma round_13: "keccakRound [0xb613a46cf68eb530, 0x18ffbd7b42dd0e4a, 0x2cb51571812e1b0, 0x8d7d9930b81ba3e0,
      0xb4bc856fba2bff41, 0x62f427df3131ca5a, 0xedc74a2663298883, 0x8c54125c6e7e6e39, 0x57a78cfce5ec920b,
      0xf6ae215501ed5dbc, 0x322bfc5234b7c6db, 0xb367ad1b8178e0b9, 0x8bc6e24fce429c1e, 0x242f45104594306d,
      0xc773628c3a3ef8f4, 0x26a4d670d7a7828f, 0xbcf33b078e1c6e22, 0xec7c723751fe6d12, 0x94d2edf358e8758f,
      0x9a89e071bdd54c11, 0x11d3a6a61453800a, 0xbef7d11b0953863f, 0x5f9ebeb30386a3b8, 0x2b55334299b1813d,
      0x21528853c7a8489e] 0x8000808b = [0x275e7027809a056f, 0x8894e1909c608977, 0xa3d4d3338246629b,
      0xa342d686b7c7e4b3, 0xe949aca5b91f8c6, 0xba447d2d15c71e89, 0x99a7b2ee364343ea, 0x333191d407ac348a,
      0xa5bddc3ed9df0f41, 0xb60f8086b8d658d5, 0x874d31b44c55ee2, 0xb7efd57bf4028302, 0xd0bb11e2b0cf51ea,
      0xc514209d52cf4c7a, 0x1091a523bb581e69, 0xc8d1767042b480ad, 0x1521c24d4f969ab9, 0xa9462c970c83b0be,
      0xf4c22c444ba956b, 0x1fc81b0ea68ef2b1, 0x13acbf75126826ed, 0x1c4e17ff4afcf87f, 0x7ed5c4041ff35ac1,
      0x3a94ce61515180ea, 0x4aa163dbc9e45d0]"
  by (rule keccakRound_step [of _ "0x275e7027009a85e4"]) (simp_all add: round_eval)

lemma round_14: "keccakRound [0x275e7027809a056f, 0x8894e1909c608977, 0xa3d4d3338246629b,
      0xa342d686b7c7e4b3, 0xe949aca5b91f8c6, 0xba447d2d15c71e89, 0x99a7b2ee364343ea, 0x333191d407ac348a,
      0xa5bddc3ed9df0f41, 0xb60f8086b8d658d5, 0x874d31b44c55ee2, 0xb7efd57bf4028302, 0xd0bb11e2b0cf51ea,
      0xc514209d52cf4c7a, 0x1091a523bb581e69, 0xc8d1767042b480ad, 0x1521c24d4f969ab9, 0xa9462c970c83b0be,
      0xf4c22c444ba956b, 0x1fc81b0ea68ef2b1, 0x13acbf75126826ed, 0x1c4e17ff4afcf87f, 0x7ed5c4041ff35ac1,
      0x3a94ce61515180ea, 0x4aa163dbc9e45d0] 0x800000000000008b = [0x6315650c7651da09, 0xd2b2a5a6fc282daa,
      0xaa542559fa3abc6f, 0xbd0c9e386b1cca5f, 0xfb0f3f4845787e97, 0xa05ec0fd0785eacb, 0x96f1b8a2f14371ae,
      0x6076100fc07008e7, 0xb4064e35316b7045, 0x65011554a2902395, 0x94990274b37f6396, 0xa1417e4b8e18d01c,
      0x47ed11275679df75, 0x8fd3a79d398e3000, 0x805d4346e1976e82, 0x91902880a96d3592, 0x74e4100d2db4c1fe,
      0x9e1e84e6b6ec356f, 0x7b1026bacffe74c9, 0x5daf9a040b719a13, 0x7e95275d60df0e74, 0x70205ac134fdca5c,
      0xd2b4a12b422fc5c9, 0x53be0a289c568e58, 0xf6338f9e946fc0c1]"
  by (rule keccakRound_step [of _ "0xe315650c7651da82"]) (simp_all add: round_eval)

lemma round_15: "keccakRound [0x6315650c7651da09, 0xd2b2a5a6fc282daa, 0xaa542559fa3abc6f,
      0xbd0c9e386b1cca5f, 0xfb0f3f4845787e97, 0xa05ec0fd0785eacb, 0x96f1b8a2f14371ae, 0x6076100fc07008e7,
      0xb4064e35316b7045, 0x65011554a2902395, 0x94990274b37f6396, 0xa1417e4b8e18d01c, 0x47ed11275679df75,
      0x8fd3a79d398e3000, 0x805d4346e1976e82, 0x91902880a96d3592, 0x74e4100d2db4c1fe, 0x9e1e84e6b6ec356f,
      0x7b1026bacffe74c9, 0x5daf9a040b719a13, 0x7e95275d60df0e74, 0x70205ac134fdca5c, 0xd2b4a12b422fc5c9,
      0x53be0a289c568e58, 0xf6338f9e946fc0c1] 0x8000000000008089 = [0x98520fdbf7003de3, 0x62da82cf43b204a3,
      0x2ccdc3d63474c767, 0xc4b8fbcf65fe097f, 0x43a39c871873caeb, 0x4c83c8bac13f766e, 0x6f464f7f239e2ff1,
      0x1ad1eb98734a598b, 0xc3ff01f5370c80e9, 0x2f9b80d5b1967dfd, 0xd15a05fec9e0a757, 0x61336402b82a3fb7,
      0x414d79f35d0e52e7, 0xa685be2f1e9b3985, 0x24cad52d935733f8, 0x815dfee94b06bde2, 0xa5b8cae5481fe238,
      0xd11ceb13962e0229, 0x5cb03c33e1e188bb, 0x8ef945f635ee26cf, 0xa7bfae934288e4d3, 0xdd0f371b20472894,
      0xf237322fdab42b06, 0x77af43f826262898, 0x70f797c83c535969]"
  by (rule keccakRound_step [of _ "0x18520fdbf700bd6a"]) (simp_all add: round_eval)

lemma round_16: "keccakRound [0x98520fdbf7003de3, 0x62da82cf43b204a3, 0x2ccdc3d63474c767,
      0xc4b8fbcf65fe097f, 0x43a39c871873caeb, 0x4c83c8bac13f766e, 0x6f464f7f239e2ff1, 0x1ad1eb98734a598b,
      0xc3ff01f5370c80e9, 0x2f9b80d5b1967dfd, 0xd15a05fec9e0a757, 0x61336402b82a3fb7, 0x414d79f35d0e52e7,
      0xa685be2f1e9b3985, 0x24cad52d935733f8, 0x815dfee94b06bde2, 0xa5b8cae5481fe238, 0xd11ceb13962e0229,
      0x5cb03c33e1e188bb, 0x8ef945f635ee26cf, 0xa7bfae934288e4d3, 0xdd0f371b20472894, 0xf237322fdab42b06,
      0x77af43f826262898, 0x70f797c83c535969] 0x8000000000008003 = [0xc6fcec01f6a2ea6a, 0xa71d2eddadc52789,
      0x45032e43f2f35efe, 0x4292829345dcb651, 0xc376549b80ea6abe, 0xd5e421a83dd2a07e, 0xef0f2d70689e7b58,
      0xf0f5330f94019cee, 0x72b77440a961663b, 0xf67bea2b8f9ac3a4, 0xd2804650507af001, 0x7bf1b9779068c984,
      0x587858fc6d1eca8c, 0x75dbe142d2153b43, 0x795e5ccf8e25ed0a, 0x4f77108f57d2d96, 0x68b3135f62f71e7c,
      0xb691b2e53816408a, 0xf6c0c8967a69845b, 0x54e27b8fb940112, 0xca5bf929e4b98e61, 0xeead4ed4fb99bec8,
      0x3f2e8cb4af6080b6, 0xe8e55837224ae033, 0x7e6ad527f60f0c55]"
  by (rule keccakRound_step [of _ "0x46fcec01f6a26a69"]) (simp_all add: round_eval)

lemma round_17: "keccakRound [0xc6fcec01f6a2ea6a, 0xa71d2eddadc52789, 0x45032e43f2f35efe,
      0x4292829345dcb651, 0xc376549b80ea6abe, 0xd5e421a83dd2a07e, 0xef0f2d70689e7b58, 0xf0f5330f94019cee,
      0x72b77440a961663b, 0xf67bea2b8f9ac3a4, 0xd2804650507af001, 0x7bf1b9779068c984, 0x587858fc6d1eca8c,
      0x75dbe142d2153b43, 0x795e5ccf8e25ed0a, 0x4f77108f57d2d96, 0x68b3135f62f71e7c, 0xb691b2e53816408a,
      0xf6c0c8967a69845b, 0x54e27b8fb940112, 0xca5bf929e4b98e61, 0xeead4ed4fb99bec8, 0x3f2e8cb4af6080b6,
      0xe8e55837224ae033, 0x7e6ad527f60f0c55] 0x8000000000008002 = [0xba706a12e2de0abc, 0xfef27afd7a73d26,
      0xa62f7ad5b18e6766, 0xdccffffb087d43fa, 0x106621c331343bf6, 0x6c4daecdf4e05da3, 0x2834ddb36e933687,
      0x5540c89a2173d1f6, 0x8adaf7b9fce812a0, 0x250ecca2b7de757e, 0x809f95ceb46f5654, 0x96f796ad53ec757c,
      0xc4a6e4f4aabc416a, 0xbdb30d008f949342, 0xb2cbc917f156fa74, 0xd28a7eb795362ee0, 0xbaa22288a67fbebf,
      0x8d35928e4f079e60, 0x6ff7d81ffde4f86d, 0x35823a0a152e9ca8, 0xd0d2b254fa065907, 0x18aa3437b106a31e,
      0x3cc82c93766e6f56, 0x420e14706b389385, 0xadc2ef3e2198fb30]"
  by (rule keccakRound_step [of _ "0x3a706a12e2de8abe"]) (simp_all add: round_eval)

lemma round_18: "keccakRound [0xba706a12e2de0abc, 0xfef27afd7a73d26, 0xa62f7ad5b18e6766, 0xdccffffb087d43fa,
      0x106621c331343bf6, 0x6c4daecdf4e05da3, 0x2834ddb36e933687, 0x5540c89a2173d1f6, 0x8adaf7b9fce812a0,
      0x250ecca2b7de757e, 0x809f95ceb46f5654, 0x96f796ad53ec757c, 0xc4a6e4f4aabc416a, 0xbdb30d008f949342,
      0xb2cbc917f156fa74, 0xd28a7eb795362ee0, 0xbaa22288a67fbebf, 0x8d35928e4f079e60, 0x6ff7d81ffde4f86d,
      0x35823a0a152e9ca8, 0xd0d2b254fa065907, 0x18aa3437b106a31e, 0x3cc82c93766e6f56, 0x420e14706b389385,
      0xadc2ef3e2198fb30] 0x8000000000000080 = [0x10dff79cdaf31b85, 0x60fb26287c0a1ac0, 0x33df3e590aa13c65,
      0xc72d71671d2acfba, 0x237d95a3cee6f0c0, 0x91d48eb78649db59, 0xf6bd545511a06beb, 0xedeea410a3321c15,
      0x50255a61099789ad, 0x12427898d32aabfb, 0xeeed96043d2c0c2a, 0x9e00b3c1eba85aa2, 0x90305b7f8e2f25aa,
      0xa18146038d8085a, 0xcc2d28f8f03ff736, 0x4b5917f8d3ef6081, 0xe6813379dd2c3162, 0x13fa077374b92319,
      0x676db66e766eebdf, 0x17f7d1b5eee9c17, 0xeaab4ea015e410fc, 0x8a39056e8fdefac1, 0x245e6c4f1895cf66,
      0x327efd5647d7c508, 0x10f5727b20c78aac]"
  by (rule keccakRound_step [of _ "0x90dff79cdaf31b05"]) (simp_all add: round_eval)

lemma round_19: "keccakRound [0x10dff79cdaf31b85, 0x60fb26287c0a1ac0, 0x33df3e590aa13c65,
      0xc72d71671d2acfba, 0x237d95a3cee6f0c0, 0x91d48eb78649db59, 0xf6bd545511a06beb, 0xedeea410a3321c15,
      0x50255a61099789ad, 0x12427898d32aabfb, 0xeeed96043d2c0c2a, 0x9e00b3c1eba85aa2, 0x90305b7f8e2f25aa,
      0xa18146038d8085a, 0xcc2d28f8f03ff736, 0x4b5917f8d3ef6081, 0xe6813379dd2c3162, 0x13fa077374b92319,
      0x676db66e766eebdf, 0x17f7d1b5eee9c17, 0xeaab4ea015e410fc, 0x8a39056e8fdefac1, 0x245e6c4f1895cf66,
      0x327efd5647d7c508, 0x10f5727b20c78aac] 0x800a = [0xd9fd168a0c8e067, 0xc400ecf68bbbde21,
      0xe2b53fa64623430d, 0x16b0b0e22f8df71, 0x1af2b01e2feb5327, 0xfb5576373ee004a2, 0x1087ca0e5642f36,
      0x6c451b803c63160b, 0x8ed44a6ffa235d92, 0x3a9cc6a31fffdfcb, 0xa148b2beb83cf252, 0x40eac1d7160fc087,
      0xf2b9ee58852f3d7e, 0x476caa8e18815a57, 0xe9f6fe3caef83fbd, 0xaca48f0e7b7fb6ec, 0xc71a5f2bca18c53b,
      0xbdc6296e4afd0ed5, 0x185248f0e1937fa1, 0x8398fa731b2bf24a, 0xfdcecd1fb8f2638f, 0x32f8daa2ee56c008,
      0x39fc45ee861260d1, 0x8874869d78141a8f, 0xdfab8c96fb8acc02]"
  by (rule keccakRound_step [of _ "0xd9fd168a0c8606d"]) (simp_all add: round_eval)

lemma round_20: "keccakRound [0xd9fd168a0c8e067, 0xc400ecf68bbbde21, 0xe2b53fa64623430d, 0x16b0b0e22f8df71,
      0x1af2b01e2feb5327, 0xfb5576373ee004a2, 0x1087ca0e5642f36, 0x6c451b803c63160b, 0x8ed44a6ffa235d92,
      0x3a9cc6a31fffdfcb, 0xa148b2beb83cf252, 0x40eac1d7160fc087, 0xf2b9ee58852f3d7e, 0x476caa8e18815a57,
      0xe9f6fe3caef83fbd, 0xaca48f0e7b7fb6ec, 0xc71a5f2bca18c53b, 0xbdc6296e4afd0ed5, 0x185248f0e1937fa1,
      0x8398fa731b2bf24a, 0xfdcecd1fb8f2638f, 0x32f8daa2ee56c008, 0x39fc45ee861260d1, 0x8874869d78141a8f,
      0xdfab8c96fb8acc02] 0x800000008000000a = [0xf9a1c7966e392532, 0xd6432f74123b8afd, 0xd2af43cb9b8ea371,
      0x20c554083ff86ada, 0x7bf62392ddee0e4, 0xadc91a724d4cf579, 0xcc48113e5b12b284, 0x79173f0fbf6ab486,
      0x219ae20108a4f903, 0x9f021a505fb4ef6c, 0x7411f97c326cb298, 0xe7b1233515564f3d, 0x3122da8a2b2a90e1,
      0xbd621179c5cc3a9e, 0x664dfc0eded064b1, 0xeb894b48ba729313, 0xd10e1f74cf73103b, 0x17256e42d3282bdb,
      0x769179ee20e98ec7, 0xd04d544cee370b2a, 0x89d7effceb61a0b8, 0xfa0bf828389a4c40, 0x858e7d7cbb62799,
      0x94a58fb015f37658, 0x75f712b9b7a62017]"
  by (rule keccakRound_step [of _ "0x79a1c796ee392538"]) (simp_all add: round_eval)

lemma round_21: "keccakRound [0xf9a1c7966e392532, 0xd6432f74123b8afd, 0xd2af43cb9b8ea371,
      0x20c554083ff86ada, 0x7bf62392ddee0e4, 0xadc91a724d4cf579, 0xcc48113e5b12b284, 0x79173f0fbf6ab486,
      0x219ae20108a4f903, 0x9f021a505fb4ef6c, 0x7411f97c326cb298, 0xe7b1233515564f3d, 0x3122da8a2b2a90e1,
      0xbd621179c5cc3a9e, 0x664dfc0eded064b1, 0xeb894b48ba729313, 0xd10e1f74cf73103b, 0x17256e42d3282bdb,
      0x769179ee20e98ec7, 0xd04d544cee370b2a, 0x89d7effceb61a0b8, 0xfa0bf828389a4c40, 0x858e7d7cbb62799,
      0x94a58fb015f37658, 0x75f712b9b7a62017] 0x8000000080008081 = [0xcf16d3c72c2b13ec, 0xbd4dd57a9f825f59,
      0x502332d27890e3f9, 0x6d1fbcb17b58ac7b, 0xc0b2f416240fabfe, 0x6d299b5462225cf7, 0xb8b880b1bc448467,
      0xd524d9ad86bf26dc, 0x2adc1314b804be36, 0x5e1eb754b9a295e2, 0x3f35e1ddfc31bb6a, 0xef9df6eed2ef004c,
      0x6ad19171d719dcf6, 0x1055faed89d8025a, 0xa42d39b8d903ff8f, 0x78128d5426cef91b, 0xecb27235be4ac63a,
      0x675339cffa637380, 0x604e7b4f71ad3646, 0x800be704d7e8f719, 0x2e420e376fc726fb, 0x6789640507d3d349,
      0xa3cbc21e05d2b80a, 0xcb0ad01f5ff83a89, 0xce01eec948fcff46]"
  by (rule keccakRound_step [of _ "0x4f16d3c7ac2b936d"]) (simp_all add: round_eval)

lemma round_22: "keccakRound [0xcf16d3c72c2b13ec, 0xbd4dd57a9f825f59, 0x502332d27890e3f9,
      0x6d1fbcb17b58ac7b, 0xc0b2f416240fabfe, 0x6d299b5462225cf7, 0xb8b880b1bc448467, 0xd524d9ad86bf26dc,
      0x2adc1314b804be36, 0x5e1eb754b9a295e2, 0x3f35e1ddfc31bb6a, 0xef9df6eed2ef004c, 0x6ad19171d719dcf6,
      0x1055faed89d8025a, 0xa42d39b8d903ff8f, 0x78128d5426cef91b, 0xecb27235be4ac63a, 0x675339cffa637380,
      0x604e7b4f71ad3646, 0x800be704d7e8f719, 0x2e420e376fc726fb, 0x6789640507d3d349, 0xa3cbc21e05d2b80a,
      0xcb0ad01f5ff83a89, 0xce01eec948fcff46] 0x8000000000008080 = [0xa070ff5a62b046b2, 0x26144a393aa67ee4,
      0x195a838033c98ba8, 0xb7fa43a6f22444e1, 0x51a6b696752d519c, 0x1927e8dbbcb04d94, 0x50529937e9b3cf8b,
      0xe8b5744e7df75d5, 0x99ab20b62110890e, 0x8737a063319b0bf6, 0xca45ad5787f9a0dc, 0x30a92141a36cbbd3,
      0xab70c4b7b3e61a2a, 0x6c582ec5489562ae, 0x68089671a4d23abb, 0xcdd887026b733bbb, 0x1f909e3530586680,
      0x2b75b0146b1bbde0, 0x1dc198b8c258df52, 0x4a09422a3f360e7b, 0x723f66b8dbe18192, 0xd8f5c3a20a4cf927,
      0x187a2e26275c9c86, 0x395de33cc56816c8, 0x60f9365f47b90bc6]"
  by (rule keccakRound_step [of _ "0x2070ff5a62b0c632"]) (simp_all add: round_eval)

lemma round_23: "keccakRound [0xa070ff5a62b046b2, 0x26144a393aa67ee4, 0x195a838033c98ba8,
      0xb7fa43a6f22444e1, 0x51a6b696752d519c, 0x1927e8dbbcb04d94, 0x50529937e9b3cf8b, 0xe8b5744e7df75d5,
      0x99ab20b62110890e, 0x8737a063319b0bf6, 0xca45ad5787f9a0dc, 0x30a92141a36cbbd3, 0xab70c4b7b3e61a2a,
      0x6c582ec5489562ae, 0x68089671a4d23abb, 0xcdd887026b733bbb, 0x1f909e3530586680, 0x2b75b0146b1bbde0,
      0x1dc198b8c258df52, 0x4a09422a3f360e7b, 0x723f66b8dbe18192, 0xd8f5c3a20a4cf927, 0x187a2e26275c9c86,
      0x395de33cc56816c8, 0x60f9365f47b90bc6] 0x80000001 = [0x3d18531bee926bec, 0xd408b83fbaac84e1,
      0x46b0ff7b0096c665, 0xf153133a7b575f97, 0xedf66a5b12c333f3, 0xafcc548087400a78, 0x1891f4c7e9978543,
      0x89d1749cfecf743e, 0x9ba219970a33738b, 0x6aa8f4efc225fc07, 0xaf78fbb580d1ca2b, 0xbaa70dc454425b35,
      0xcf80b5dc87b2da98, 0xbedaa2d9710b4d15, 0x37625b071f2d811f, 0xf441c0a205774fb4, 0xb0252cf2b79209c9,
      0x5929cf12cd8879d, 0x68f6dc097386734a, 0x289e0cdc7e5f3912, 0x5dde10f6e1a3f0f5, 0xf75f6b17ca4d3ac9,
      0x63a9f2c92aaa74e5, 0xd6e140b94858b24f, 0xf777a33db3d825e]"
  by (rule keccakRound_step [of _ "0x3d18531b6e926bed"]) (simp_all add: round_eval)

lemma round_24: "keccakRound [0x3d18531bee926bec, 0xd408b83fbaac84e1, 0x46b0ff7b0096c665,
      0xf153133a7b575f97, 0xedf66a5b12c333f3, 0xafcc548087400a78, 0x1891f4c7e9978543, 0x89d1749cfecf743e,
      0x9ba219970a33738b, 0x6aa8f4efc225fc07, 0xaf78fbb580d1ca2b, 0xbaa70dc454425b35, 0xcf80b5dc87b2da98,
      0xbedaa2d9710b4d15, 0x37625b071f2d811f, 0xf441c0a205774fb4, 0xb0252cf2b79209c9, 0x5929cf12cd8879d,
      0x68f6dc097386734a, 0x289e0cdc7e5f3912, 0x5dde10f6e1a3f0f5, 0xf75f6b17ca4d3ac9, 0x63a9f2c92aaa74e5,
      0xd6e140b94858b24f, 0xf777a33db3d825e] 0x8000000080008008 = [0xcdd5e4b17123812d, 0x7a2fb491768ba11b,
      0xbe186f1d66ffaf51, 0xde1e28b506d03cd9, 0x77a8eec8846363d9, 0x4d19daae9b07424a, 0x89be36835b720785,
      0xc1b8a85bf94b4613, 0xc8417d706f13c8fe, 0xd03492b2408d668c, 0xdfaf688591f95df3, 0x3b069f78c287cc19,
      0xfdb6937adaad572c, 0xc77eecdac0b1afbb, 0x98216a631bf48206, 0x5992c55a059d313f, 0xf382df11ef17a6b2,
      0x962ea9900750c, 0x39d0750ec2141066, 0x39df9a73aae01402, 0xa8e732228b5f78e4, 0x9b3b6197b6b47ca1,
      0x225f2965e1bff9d, 0x24525a0039ac03cd, 0xac6bd439f6a46107]"
  by (rule keccakRound_step [of _ "0x4dd5e4b1f1230125"]) (simp_all add: round_eval)

lemma permute_node_tag: "permute [0x4e4f4d454b4f4f48, 0x5f54554f5941505f, 0x3535525f45444f4e,
      0x131565f34415f, 0, 0, 0, 0, 0, 0, 0, 0, 0, 0, 0, 0, 0x8000000000000000, 0, 0, 0, 0, 0, 0, 0, 0] =
      [0xcdd5e4b17123812d, 0x7a2fb491768ba11b, 0xbe186f1d66ffaf51, 0xde1e28b506d03cd9, 0x77a8eec8846363d9,
      0x4d19daae9b07424a, 0x89be36835b720785, 0xc1b8a85bf94b4613, 0xc8417d706f13c8fe, 0xd03492b2408d668c,
      0xdfaf688591f95df3, 0x3b069f78c287cc19, 0xfdb6937adaad572c, 0xc77eecdac0b1afbb, 0x98216a631bf48206,
      0x5992c55a059d313f, 0xf382df11ef17a6b2, 0x962ea9900750c, 0x39d0750ec2141066, 0x39df9a73aae01402,
      0xa8e732228b5f78e4, 0x9b3b6197b6b47ca1, 0x225f2965e1bff9d, 0x24525a0039ac03cd, 0xac6bd439f6a46107]"
  by (simp only: permute_def ROUND_CONSTANTS_def foldl_Cons foldl_Nil
      round_1 round_2 round_3 round_4 round_5 round_6 round_7 round_8 round_9 round_10 round_11 round_12
      round_13 round_14 round_15 round_16 round_17 round_18 round_19 round_20 round_21 round_22 round_23 round_24)

lemma replicate106: "replicate 106 (0::byte) = [0, 0, 0, 0, 0, 0, 0, 0, 0, 0, 0, 0, 0, 0, 0, 0, 0, 0, 0, 0,
      0, 0, 0, 0, 0, 0, 0, 0, 0, 0, 0, 0, 0, 0, 0, 0, 0, 0, 0, 0, 0, 0, 0, 0, 0, 0, 0, 0, 0, 0, 0, 0, 0, 0,
      0, 0, 0, 0, 0, 0, 0, 0, 0, 0, 0, 0, 0, 0, 0, 0, 0, 0, 0, 0, 0, 0, 0, 0, 0, 0, 0, 0, 0, 0, 0, 0, 0, 0,
      0, 0, 0, 0, 0, 0, 0, 0, 0, 0, 0, 0, 0, 0, 0, 0, 0, 0]" by code_simp

lemma upt8: "[0..<8] = [0, 1, 2, 3, 4, 5, 6, 7]" by code_simp

lemma upt32: "[0..<32] = [0, 1, 2, 3, 4, 5, 6, 7, 8, 9, 10, 11, 12, 13, 14, 15, 16, 17, 18, 19, 20, 21, 22,
      23, 24, 25, 26, 27, 28, 29, 30, 31]" by code_simp

lemma upt17: "[0..<17] = [0, 1, 2, 3, 4, 5, 6, 7, 8, 9, 10, 11, 12, 13, 14, 15, 16]" by code_simp

section \<open>The node tag\<close>

definition node_tag_bytes :: "byte list" where
  "node_tag_bytes = map (\<lambda>c. word_of_nat (of_char c)) ''HOOKEMON_PAYOUT_NODE_R55_A4_V1''"

lemma node_tag_bytes_eval: "node_tag_bytes = [0x48, 0x4f, 0x4f, 0x4b, 0x45, 0x4d, 0x4f, 0x4e, 0x5f, 0x50,
      0x41, 0x59, 0x4f, 0x55, 0x54, 0x5f, 0x4e, 0x4f, 0x44, 0x45, 0x5f, 0x52, 0x35, 0x35, 0x5f, 0x41, 0x34,
      0x5f, 0x56, 0x31]"
  by (simp add: node_tag_bytes_def)

lemma padded_node_tag: "padded node_tag_bytes = [0x48, 0x4f, 0x4f, 0x4b, 0x45, 0x4d, 0x4f, 0x4e, 0x5f, 0x50,
      0x41, 0x59, 0x4f, 0x55, 0x54, 0x5f, 0x4e, 0x4f, 0x44, 0x45, 0x5f, 0x52, 0x35, 0x35, 0x5f, 0x41, 0x34,
      0x5f, 0x56, 0x31, 1, 0, 0, 0, 0, 0, 0, 0, 0, 0, 0, 0, 0, 0, 0, 0, 0, 0, 0, 0, 0, 0, 0, 0, 0, 0, 0, 0,
      0, 0, 0, 0, 0, 0, 0, 0, 0, 0, 0, 0, 0, 0, 0, 0, 0, 0, 0, 0, 0, 0, 0, 0, 0, 0, 0, 0, 0, 0, 0, 0, 0, 0,
      0, 0, 0, 0, 0, 0, 0, 0, 0, 0, 0, 0, 0, 0, 0, 0, 0, 0, 0, 0, 0, 0, 0, 0, 0, 0, 0, 0, 0, 0, 0, 0, 0, 0,
      0, 0, 0, 0, 0, 0, 0, 0, 0, 0x80]"
  by (simp add: padded_def Let_def paddedLength_def RATE_BYTES_def node_tag_bytes_eval replicate106)

lemma absorb_node_tag: "foldl (\<lambda>s l. s[l := s ! l XOR laneValue (padded node_tag_bytes) 0 l])
      (replicate 25 0) [0..<17] = [0x4e4f4d454b4f4f48, 0x5f54554f5941505f, 0x3535525f45444f4e,
      0x131565f34415f, 0, 0, 0, 0, 0, 0, 0, 0, 0, 0, 0, 0, 0x8000000000000000, 0, 0, 0, 0, 0, 0, 0, 0]"
  by (simp add: laneValue_def upt8 upt17 padded_node_tag replicate25)

lemma squeeze_node_tag: "squeeze [0xcdd5e4b17123812d, 0x7a2fb491768ba11b, 0xbe186f1d66ffaf51,
      0xde1e28b506d03cd9, 0x77a8eec8846363d9, 0x4d19daae9b07424a, 0x89be36835b720785, 0xc1b8a85bf94b4613,
      0xc8417d706f13c8fe, 0xd03492b2408d668c, 0xdfaf688591f95df3, 0x3b069f78c287cc19, 0xfdb6937adaad572c,
      0xc77eecdac0b1afbb, 0x98216a631bf48206, 0x5992c55a059d313f, 0xf382df11ef17a6b2, 0x962ea9900750c,
      0x39d0750ec2141066, 0x39df9a73aae01402, 0xa8e732228b5f78e4, 0x9b3b6197b6b47ca1, 0x225f2965e1bff9d,
      0x24525a0039ac03cd, 0xac6bd439f6a46107] = [0x2d, 0x81, 0x23, 0x71, 0xb1, 0xe4, 0xd5, 0xcd, 0x1b, 0xa1,
      0x8b, 0x76, 0x91, 0xb4, 0x2f, 0x7a, 0x51, 0xaf, 0xff, 0x66, 0x1d, 0x6f, 0x18, 0xbe, 0xd9, 0x3c, 0xd0,
      6, 0xb5, 0x28, 0x1e, 0xde]"
  by (simp add: squeeze_def upt32)

lemma hex_node_tag: "bytesToHex [0x2d, 0x81, 0x23, 0x71, 0xb1, 0xe4, 0xd5, 0xcd, 0x1b, 0xa1, 0x8b, 0x76,
      0x91, 0xb4, 0x2f, 0x7a, 0x51, 0xaf, 0xff, 0x66, 0x1d, 0x6f, 0x18, 0xbe, 0xd9, 0x3c, 0xd0, 6, 0xb5,
      0x28, 0x1e, 0xde] = ''0x2d812371b1e4d5cd1ba18b7691b42f7a51afff661d6f18bed93cd006b5281ede''"
  by (simp add: bytesToHex_def padStart_def hex_of_nat.simps hex_digit_def)

lemma absorbBlock_node_tag: "absorbBlock (padded node_tag_bytes) (replicate 25 0) 0 = permute (foldl
    (\<lambda>s l. s[l := s ! l XOR laneValue (padded node_tag_bytes) 0 l]) (replicate 25 0) [0..<17])"
  by (simp add: absorbBlock_def RATE_BYTES_def)

lemma keccak_node_tag: "keccak256 node_tag_bytes = squeeze (absorbBlock (padded node_tag_bytes) (replicate 25 0) 0)"
proof -
  have "length (padded node_tag_bytes) = 136" by (simp add: padded_node_tag)
  then have "length (padded node_tag_bytes) div RATE_BYTES = 1" by (simp add: RATE_BYTES_def)
  then show ?thesis by (simp add: keccak256_def Let_def)
qed

text \<open>
  The model of Keccak-256 computes the published test vector: the hash of the domain-separation string of
  inner nodes is the node tag the contracts and the tooling share.
\<close>

lemma node_tag_vector: "TAGS_node = ''0x2d812371b1e4d5cd1ba18b7691b42f7a51afff661d6f18bed93cd006b5281ede''"
  by (simp only: TAGS_node_def utf8Hash_def hashHex_def node_tag_bytes_def [symmetric] keccak_node_tag
      absorbBlock_node_tag absorb_node_tag permute_node_tag squeeze_node_tag hex_node_tag)

end
