(* ===== verification/Effects.thy ===== *)
theory Effects
  imports Hk_Prelude
begin

text \<open>
  Programs that call out.  An asynchronous method of the runner is a sequence of calls to collaborators it does
  not control (repository, stage driver, policy engine, clock, lease store), each of which answers or throws.
  The model of such a method is a function of an environment that answers every call, given everything that
  happened before, and of the trace so far; it returns a value or a thrown error and the extended trace.  A
  theorem for all environments holds whatever the collaborators do.

  \<open>triple guard pre p post\<close> is a Hoare triple over traces: run from a trace that satisfies \<open>pre\<close>, the program
  only makes calls that \<open>guard\<close> permits at that point, only extends the trace, and, when it returns a value,
  establishes \<open>post\<close>.
\<close>

type_synonym 'c event = "'c \<times> jsval res"
type_synonym 'c trace = "'c event list"
type_synonym 'c env = "'c trace \<Rightarrow> 'c \<Rightarrow> jsval res"
type_synonym ('c, 'a) prog = "'c env \<Rightarrow> 'c trace \<Rightarrow> 'a res \<times> 'c trace"

section \<open>Programs\<close>

definition retP :: "'a \<Rightarrow> ('c, 'a) prog" where
  "retP x env tr = (Inr x, tr)"

definition throwP :: "js_error \<Rightarrow> ('c, 'a) prog" where
  "throwP e env tr = (Inl e, tr)"

definition liftP :: "'a res \<Rightarrow> ('c, 'a) prog" where
  "liftP r env tr = (r, tr)"

definition bindP :: "('c, 'a) prog \<Rightarrow> ('a \<Rightarrow> ('c, 'b) prog) \<Rightarrow> ('c, 'b) prog" where
  "bindP p f env tr = (case p env tr of (Inl e, tr') \<Rightarrow> (Inl e, tr') | (Inr x, tr') \<Rightarrow> f x env tr')"

definition callP :: "'c \<Rightarrow> ('c, jsval) prog" where
  "callP c env tr = (let a = env tr c in (a, tr @ [(c, a)]))"

text \<open>A call whose argument is read off the history, such as the current value of a mutable variable.\<close>

definition traceP :: "('c trace \<Rightarrow> ('c, 'a) prog) \<Rightarrow> ('c, 'a) prog" where
  "traceP f env tr = f tr env tr"

definition catchP :: "('c, 'a) prog \<Rightarrow> (js_error \<Rightarrow> ('c, 'a) prog) \<Rightarrow> ('c, 'a) prog" where
  "catchP p h env tr = (case p env tr of (Inl e, tr') \<Rightarrow> h e env tr' | (Inr x, tr') \<Rightarrow> (Inr x, tr'))"

text \<open>\<open>try { p } finally { q }\<close>: an error of \<open>q\<close> replaces the outcome of \<open>p\<close>.\<close>

definition finallyP :: "('c, 'a) prog \<Rightarrow> ('c, 'b) prog \<Rightarrow> ('c, 'a) prog" where
  "finallyP p q env tr =
     (case p env tr of (r, tr') \<Rightarrow>
        (case q env tr' of (Inl e, tr'') \<Rightarrow> (Inl e, tr'') | (Inr _, tr'') \<Rightarrow> (r, tr'')))"

section \<open>Triples\<close>

fun permitted :: "('c trace \<Rightarrow> 'c \<Rightarrow> bool) \<Rightarrow> 'c trace \<Rightarrow> 'c trace \<Rightarrow> bool" where
  "permitted guard pre [] = True"
| "permitted guard pre ((c, a) # post) = (guard pre c \<and> permitted guard (pre @ [(c, a)]) post)"

definition triple ::
  "('c trace \<Rightarrow> 'c \<Rightarrow> bool) \<Rightarrow> ('c trace \<Rightarrow> bool) \<Rightarrow> ('c, 'a) prog \<Rightarrow> ('a \<Rightarrow> 'c trace \<Rightarrow> bool) \<Rightarrow> bool"
where
  "triple guard P p Q =
     (\<forall>env tr. P tr \<longrightarrow>
        (\<exists>new. snd (p env tr) = tr @ new \<and> permitted guard tr new
               \<and> (\<forall>x. fst (p env tr) = Inr x \<longrightarrow> Q x (tr @ new))))"

named_theorems triple_intro \<open>structural rules for triples\<close>

lemma permitted_append: "permitted guard pre (xs @ ys) \<longleftrightarrow> permitted guard pre xs \<and> permitted guard (pre @ xs) ys"
  by (induction guard pre xs rule: permitted.induct) auto

lemma permitted_iff: "permitted guard pre new \<longleftrightarrow> (\<forall>xs c a ys. new = xs @ (c, a) # ys \<longrightarrow> guard (pre @ xs) c)"
proof (induction guard pre new rule: permitted.induct)
  case (2 guard pre c a post)
  show ?case
  proof
    assume p: "permitted guard pre ((c, a) # post)"
    show "\<forall>xs d b ys. (c, a) # post = xs @ (d, b) # ys \<longrightarrow> guard (pre @ xs) d"
    proof (intro allI impI)
      fix xs d b ys assume "(c, a) # post = xs @ (d, b) # ys"
      then show "guard (pre @ xs) d" using p 2 by (cases xs) auto
    qed
  next
    assume r: "\<forall>xs d b ys. (c, a) # post = xs @ (d, b) # ys \<longrightarrow> guard (pre @ xs) d"
    have "guard pre c" using r [rule_format, of "[]"] by simp
    moreover have "permitted guard (pre @ [(c, a)]) post" unfolding 2
      using r [rule_format, of "(c, a) # _"] by simp
    ultimately show "permitted guard pre ((c, a) # post)" by simp
  qed
qed simp

lemma tripleD:
  assumes "triple guard P p Q" and "P tr" and "p env tr = (r, tr')"
  obtains new where "tr' = tr @ new" "permitted guard tr new" "\<And>x. r = Inr x \<Longrightarrow> Q x tr'"
  using assms unfolding triple_def by (metis fst_conv snd_conv)

lemma triple_ret [triple_intro]: "(\<And>tr. P tr \<Longrightarrow> Q x tr) \<Longrightarrow> triple guard P (retP x) Q"
  by (simp add: triple_def retP_def)

lemma triple_throw [triple_intro]: "triple guard P (throwP e) Q"
  by (simp add: triple_def throwP_def)

lemma triple_lift [triple_intro]: "(\<And>x tr. r = Inr x \<Longrightarrow> P tr \<Longrightarrow> Q x tr) \<Longrightarrow> triple guard P (liftP r) Q"
  by (simp add: triple_def liftP_def)

lemma triple_trace [triple_intro]: "(\<And>tr. triple guard (\<lambda>t. P t \<and> t = tr) (f tr) Q) \<Longrightarrow> triple guard P (traceP f) Q"
  by (simp add: triple_def traceP_def)

lemma triple_call:
  assumes "\<And>tr. P tr \<Longrightarrow> guard tr c" and "\<And>x tr. P tr \<Longrightarrow> Q x (tr @ [(c, Inr x)])"
  shows "triple guard P (callP c) Q"
  using assms by (simp add: triple_def callP_def Let_def)

lemma triple_bind:
  assumes "triple guard P p Q" and "\<And>x. triple guard (Q x) (f x) R"
  shows "triple guard P (bindP p f) R"
  unfolding triple_def
proof (intro allI impI)
  fix env tr assume P: "P tr"
  obtain r tr1 where p: "p env tr = (r, tr1)" by (cases "p env tr")
  from tripleD [OF assms(1) P p] obtain new where n: "tr1 = tr @ new" "permitted guard tr new" "\<And>x. r = Inr x \<Longrightarrow> Q x tr1" by metis
  show "\<exists>new. snd (bindP p f env tr) = tr @ new \<and> permitted guard tr new
      \<and> (\<forall>x. fst (bindP p f env tr) = Inr x \<longrightarrow> R x (tr @ new))"
  proof (cases r)
    case (Inl e)
    with p n show ?thesis by (auto simp: bindP_def)
  next
    case (Inr x)
    obtain r2 tr2 where f: "f x env tr1 = (r2, tr2)" by (cases "f x env tr1")
    from tripleD [OF assms(2) n(3) [OF Inr] f] obtain new2 where
      "tr2 = tr1 @ new2" "permitted guard tr1 new2" "\<And>y. r2 = Inr y \<Longrightarrow> R y tr2" by metis
    with n Inr p f show ?thesis by (intro exI [of _ "new @ new2"]) (simp add: bindP_def permitted_append)
  qed
qed

lemma triple_catch:
  assumes "triple guard P p Q" and "\<And>e. triple guard (\<lambda>tr'. \<exists>tr new. P tr \<and> tr' = tr @ new) (h e) Q"
  shows "triple guard P (catchP p h) Q"
  unfolding triple_def
proof (intro allI impI)
  fix env tr assume P: "P tr"
  obtain r tr1 where p: "p env tr = (r, tr1)" by (cases "p env tr")
  from tripleD [OF assms(1) P p] obtain new where n: "tr1 = tr @ new" "permitted guard tr new" "\<And>x. r = Inr x \<Longrightarrow> Q x tr1" by metis
  show "\<exists>new. snd (catchP p h env tr) = tr @ new \<and> permitted guard tr new
      \<and> (\<forall>x. fst (catchP p h env tr) = Inr x \<longrightarrow> Q x (tr @ new))"
  proof (cases r)
    case (Inr x)
    with p n show ?thesis by (auto simp: catchP_def)
  next
    case (Inl e)
    obtain r2 tr2 where f: "h e env tr1 = (r2, tr2)" by (cases "h e env tr1")
    have "\<exists>tr new. P tr \<and> tr1 = tr @ new" using P n(1) by blast
    from tripleD [OF assms(2) this f] obtain new2 where
      "tr2 = tr1 @ new2" "permitted guard tr1 new2" "\<And>y. r2 = Inr y \<Longrightarrow> Q y tr2" by metis
    with n Inl p f show ?thesis by (intro exI [of _ "new @ new2"]) (simp add: catchP_def permitted_append)
  qed
qed

lemma triple_finally:
  assumes "triple guard P p Q" and "triple guard (\<lambda>tr'. \<exists>tr new. P tr \<and> tr' = tr @ new) q (\<lambda>_ _. True)"
  shows "triple guard P (finallyP p q) (\<lambda>x tr'. \<exists>tr new. Q x tr \<and> tr' = tr @ new)"
  unfolding triple_def
proof (intro allI impI)
  fix env tr assume P: "P tr"
  obtain r tr1 where p: "p env tr = (r, tr1)" by (cases "p env tr")
  from tripleD [OF assms(1) P p] obtain new where n: "tr1 = tr @ new" "permitted guard tr new" "\<And>x. r = Inr x \<Longrightarrow> Q x tr1" by metis
  obtain r2 tr2 where q: "q env tr1 = (r2, tr2)" by (cases "q env tr1")
  have "\<exists>tr new. P tr \<and> tr1 = tr @ new" using P n(1) by blast
  from tripleD [OF assms(2) this q] obtain new2 where m: "tr2 = tr1 @ new2" "permitted guard tr1 new2" by metis
  show "\<exists>new. snd (finallyP p q env tr) = tr @ new \<and> permitted guard tr new
      \<and> (\<forall>x. fst (finallyP p q env tr) = Inr x \<longrightarrow> (\<exists>t new'. Q x t \<and> tr @ new = t @ new'))"
    using n m p q by (intro exI [of _ "new @ new2"]) (auto simp: finallyP_def permitted_append split: sum.splits)
qed

lemma triple_if [triple_intro]:
  "(b \<Longrightarrow> triple guard P p Q) \<Longrightarrow> (\<not> b \<Longrightarrow> triple guard P q Q) \<Longrightarrow> triple guard P (if b then p else q) Q"
  by simp

lemma triple_conseq:
  "triple guard P p Q \<Longrightarrow> (\<And>tr. P' tr \<Longrightarrow> P tr) \<Longrightarrow> (\<And>x tr. Q x tr \<Longrightarrow> Q' x tr) \<Longrightarrow> triple guard P' p Q'"
  unfolding triple_def by metis

lemma triple_pre: "triple guard P p Q \<Longrightarrow> (\<And>tr. P' tr \<Longrightarrow> P tr) \<Longrightarrow> triple guard P' p Q"
  by (rule triple_conseq)

text \<open>Facts about the past stay true.\<close>

definition stable :: "('c trace \<Rightarrow> bool) \<Rightarrow> bool" where
  "stable F = (\<forall>tr new. F tr \<longrightarrow> F (tr @ new))"

lemma stableD: "stable F \<Longrightarrow> F tr \<Longrightarrow> F (tr @ new)"
  by (simp add: stable_def)

lemma stable_mem: "stable (\<lambda>tr. e \<in> set tr)"
  by (simp add: stable_def)

lemma triple_frame:
  assumes "triple guard P p Q" and "stable F"
  shows "triple guard (\<lambda>tr. P tr \<and> F tr) p (\<lambda>x tr. Q x tr \<and> F tr)"
  using assms unfolding triple_def stable_def by metis

lemma triple_stable:
  assumes "triple guard (\<lambda>_. True) p (\<lambda>_ _. True)" and "stable F"
  shows "triple guard F p (\<lambda>_. F)"
  using triple_frame [OF assms] by simp

text \<open>A program whose calls are always permitted.\<close>

lemma triple_bind_any:
  assumes "triple guard F p (\<lambda>_. F)" and "\<And>x. triple guard F (f x) R"
  shows "triple guard F (bindP p f) R"
  using assms by (rule triple_bind)

lemma triple_call_stable:
  assumes "\<And>tr. guard tr c" and "stable F"
  shows "triple guard F (callP c) (\<lambda>x tr. F tr \<and> (c, Inr x) \<in> set tr)"
  using assms by (intro triple_call) (auto intro: stableD)

end
