(* ===== verification/Js_Objects.thy ===== *)
theory Js_Objects
  imports Hk_Prelude
begin

text \<open>
  Operations of the language on dynamically typed values that several modules use: nullish coalescing, property access that
  throws, spreading, string conversion, \<open>structuredClone\<close>, error messages, and guards that throw.
\<close>

text \<open>\<open>v === null || v === undefined\<close>, \<open>v ?? d\<close>, \<open>v.f\<close> (which throws on \<open>null\<close> and \<open>undefined\<close>) and \<open>v?.[0]\<close>.\<close>

definition nullish :: "jsval \<Rightarrow> bool" where
  "nullish v = (v \<in> {JUndefined, JNull})"

definition orElse :: "jsval \<Rightarrow> jsval \<Rightarrow> jsval" where
  "orElse v d = (if nullish v then d else v)"

definition getProp :: "jsval \<Rightarrow> string \<Rightarrow> jsval res" where
  "getProp v f =
     (if nullish v
      then Inl (JsTypeError (''Cannot read properties of '' @ (if v = JNull then ''null'' else ''undefined'') @ '' (reading '' @ [CHR 39] @ f @ [CHR 39] @ '')''))
      else Inr (jprop v f))"

text \<open>\<open>===\<close>, which holds only between equal primitives, since two objects that come from different places of the input are never identical.\<close>

definition strictEq :: "jsval \<Rightarrow> jsval \<Rightarrow> bool" where
  "strictEq v w = (v = w \<and> (case v of JArr xs \<Rightarrow> False | JObj ps \<Rightarrow> False | JInst ps \<Rightarrow> False | JFun \<Rightarrow> False | JNonFinite \<Rightarrow> False | _ \<Rightarrow> True))"

definition firstElem :: "jsval \<Rightarrow> jsval" where
  "firstElem v = (case v of
      JArr xs \<Rightarrow> (case xs of [] \<Rightarrow> JUndefined | x # _ \<Rightarrow> x)
    | JStr s \<Rightarrow> (case s of [] \<Rightarrow> JUndefined | c # _ \<Rightarrow> JStr [c])
    | _ \<Rightarrow> jprop v ''0'')"

text \<open>\<open>{...v}\<close> and \<open>{...v, more}\<close>: own properties, later keys replacing earlier ones in place.\<close>

definition spread :: "jsval \<Rightarrow> (string \<times> jsval) list" where
  "spread v = (case v of
      JObj ps \<Rightarrow> ps
    | JInst ps \<Rightarrow> ps
    | JArr xs \<Rightarrow> zip (map dec_of_nat [0..<length xs]) xs
    | JStr s \<Rightarrow> zip (map dec_of_nat [0..<length s]) (map (\<lambda>c. JStr [c]) s)
    | _ \<Rightarrow> [])"

definition withProps :: "(string \<times> jsval) list \<Rightarrow> (string \<times> jsval) list \<Rightarrow> jsval" where
  "withProps ps qs = JObj (foldl (\<lambda>acc (k, v). omap_set k v acc) ps qs)"

text \<open>\<open>String(v)\<close> as template literals use it.\<close>

fun jsString :: "jsval \<Rightarrow> string" where
  "jsString JUndefined = ''undefined''"
| "jsString JNull = ''null''"
| "jsString (JBool b) = (if b then ''true'' else ''false'')"
| "jsString (JNum i) = (if i < 0 then CHR ''-'' # dec_of_nat (nat (- i)) else dec_of_nat (nat i))"
| "jsString (JFrac t) = t"
| "jsString JNonFinite = ''NaN''"
| "jsString (JStr s) = s"
| "jsString (JArr xs) = concat (case map (\<lambda>x. if nullish x then [] else jsString x) xs of [] \<Rightarrow> [] | y # ys \<Rightarrow> y # map (\<lambda>z. CHR '','' # z) ys)"
| "jsString (JObj ps) = ''[object Object]''"
| "jsString (JInst ps) = ''[object Object]''"
| "jsString JFun = ''function''"

text \<open>\<open>error.message\<close>.\<close>

definition errorMessage :: "js_error \<Rightarrow> string" where
  "errorMessage e = (case e of
      JsError m \<Rightarrow> m | JsTypeError m \<Rightarrow> m | JsRangeError m \<Rightarrow> m
    | LeaseLost reason own version \<Rightarrow> ''cycle lease lost: '' @ reason
    | PolicyRefusal reason \<Rightarrow> ''policy refused mutation: '' @ reason)"

definition containsText :: "string \<Rightarrow> string \<Rightarrow> bool" where
  "containsText pat s = list_ex (\<lambda>n. take (length pat) (drop n s) = pat) [0..<Suc (length s)]"

text \<open>\<open>structuredClone\<close>: functions are refused, a foreign prototype is lost.\<close>

fun structuredClone :: "jsval \<Rightarrow> jsval res" where
  "structuredClone (JArr xs) = bindE (mapE (\<lambda>_. structuredClone) 0 xs) (\<lambda>ys. Inr (JArr ys))"
| "structuredClone (JObj ps) = bindE (mapE (\<lambda>_ p. bindE (structuredClone (snd p)) (\<lambda>v. Inr (fst p, v))) 0 ps) (\<lambda>qs. Inr (JObj qs))"
| "structuredClone (JInst ps) = bindE (mapE (\<lambda>_ p. bindE (structuredClone (snd p)) (\<lambda>v. Inr (fst p, v))) 0 ps) (\<lambda>qs. Inr (JObj qs))"
| "structuredClone JFun = Inl (JsError ''function could not be cloned.'')"
| "structuredClone v = Inr v"

section \<open>Spreads\<close>

lemma map_of_omap_set: "map_of (omap_set k v m) k' = (if k' = k then Some v else map_of m k')"
  using omap_get_set [of k v m k'] by (simp add: omap_get_def)

lemma jprop_withProps:
  "jprop (withProps ps qs) f = (case map_of (rev qs) f of Some x \<Rightarrow> x | None \<Rightarrow> jprop (JObj ps) f)"
proof -
  have "map_of (foldl (\<lambda>acc (k, v). omap_set k v acc) ps qs) f = (case map_of (rev qs) f of Some x \<Rightarrow> Some x | None \<Rightarrow> map_of ps f)"
    by (induction qs arbitrary: ps) (auto simp: map_of_omap_set map_add_def split: option.splits)
  then show ?thesis by (simp add: withProps_def jprop_JObj split: option.splits)
qed

lemma hasOwn_withProps: "hasOwn (withProps ps qs) f \<longleftrightarrow> f \<in> set (map fst ps) \<union> set (map fst qs)"
proof -
  have "set (map fst (foldl (\<lambda>acc (k, v). omap_set k v acc) ps qs)) = set (map fst ps) \<union> set (map fst qs)"
    by (induction qs arbitrary: ps) (auto simp: omap_keys_set simp del: set_map)
  then show ?thesis by (simp add: hasOwn_def withProps_def ownKeys_def del: set_map)
qed

lemma map_of_rev_distinct: "distinct (map fst xs) \<Longrightarrow> map_of (rev xs) f = map_of xs f"
proof (induction xs)
  case (Cons x xs)
  then have "map_of xs (fst x) = None" by (simp add: map_of_eq_None_iff)
  with Cons show ?case by (cases x) (auto simp: map_add_def split: option.splits)
qed simp

section \<open>Guards\<close>

definition throwIf :: "bool \<Rightarrow> string \<Rightarrow> unit res" where
  "throwIf b m = (if b then Inl (JsError m) else Inr ())"

lemma throwIf_Inr [res_simps]: "throwIf b m = Inr u \<longleftrightarrow> \<not> b"
  by (simp add: throwIf_def)

lemma checked_then [res_simps]: "bindE (throwIf b m) f = Inr y \<longleftrightarrow> \<not> b \<and> f () = Inr y"
  by (simp add: throwIf_def)

end
