(* ===== verification/Canonical_Injective.thy ===== *)
theory Canonical_Injective
  imports Canonical_Json
begin

text \<open>
  The canonical text of \<^verbatim>\<open>packages/runner/src/cycle/journal.mjs\<close> determines the value it was written from, up
  to the order of object keys: what the journal compares as text it compares as a value.  \<open>jtext\<close> is the text
  without the checks, \<open>normal\<close> a value with its keys in the order the text has them; the main lemma is that a text
  is a prefix code, so that a text followed by a delimiter can be read back in one way only.
\<close>

section \<open>Values with a text\<close>

text \<open>
  A number that is not integral prints as a text of digits, sign, point and exponent that is not the text of an
  integer; property names of an object are distinct.
\<close>

definition is_num_char :: "char \<Rightarrow> bool" where
  "is_num_char c = (c \<in> set ''0123456789-+.e'')"

definition is_int_text :: "string \<Rightarrow> bool" where
  "is_int_text t = (is_decimal t \<or> (take 1 t = ''-'' \<and> is_pos_decimal (drop 1 t)))"

definition frac_text :: "string \<Rightarrow> bool" where
  "frac_text t = (t \<noteq> [] \<and> list_all is_num_char t \<and> \<not> is_int_text t)"

fun pureJson :: "jsval \<Rightarrow> bool" where
  "pureJson (JArr xs) = list_all pureJson xs"
| "pureJson (JObj ps) = (distinct (map fst ps) \<and> list_all (\<lambda>p. pureJson (snd p)) ps)"
| "pureJson (JFrac t) = frac_text t"
| "pureJson v = True"

fun normal :: "jsval \<Rightarrow> jsval" where
  "normal (JArr xs) = JArr (map normal xs)"
| "normal (JObj ps) = JObj (map (\<lambda>p. (fst p, normal (snd p))) (sort_key fst ps))"
| "normal v = v"

fun jtext :: "jsval \<Rightarrow> string" where
  "jtext JNull = ''null''"
| "jtext (JStr s) = json_string s"
| "jtext (JBool b) = (if b then ''true'' else ''false'')"
| "jtext (JNum i) = json_int i"
| "jtext (JFrac t) = t"
| "jtext (JArr xs) = ''['' @ json_join (map jtext xs) @ '']''"
| "jtext (JObj ps) = ''{'' @ json_join (map (\<lambda>p. json_string (fst p) @ '':'' @ jtext (snd p)) (sort_key fst ps)) @ ''}''"
| "jtext v = []"

text \<open>The text with the checks is \<open>jtext\<close>, on the values that pass them.\<close>

lemma mapE_Inr: "(\<And>i x. x \<in> set xs \<Longrightarrow> f i x = Inr (g x)) \<Longrightarrow> mapE f i xs = Inr (map g xs)"
  by (induction xs arbitrary: i) auto

lemma mapE_each: "mapE f i xs = Inr ys \<Longrightarrow> x \<in> set xs \<Longrightarrow> \<exists>j y. f j x = Inr y"
  by (induction xs arbitrary: i ys) (auto simp: res_simps)

lemma canonicalJsonUnchecked_txt: "canonOk v \<Longrightarrow> canonicalJsonUnchecked v = Inr (jtext v)"
proof (induction v)
  case (JArr xs)
  then have "mapE (\<lambda>_ x. canonicalJsonUnchecked x) 0 xs = Inr (map jtext xs)"
    by (intro mapE_Inr) (simp add: list_all_iff)
  then show ?case by simp
next
  case (JObj ps)
  have "mapE (\<lambda>_ p. bindE (canonicalJsonUnchecked (snd p)) (\<lambda>t. Inr (json_string (fst p) @ '':'' @ t))) 0 (sort_key fst ps)
      = Inr (map (\<lambda>p. json_string (fst p) @ '':'' @ jtext (snd p)) (sort_key fst ps))"
  proof (rule mapE_Inr)
    fix i p assume "p \<in> set (sort_key fst ps)"
    then have p: "p \<in> set ps" by simp
    then have "canonicalJsonUnchecked (snd p) = Inr (jtext (snd p))"
      using JObj.IH [of p "snd p"] JObj.prems by (cases p) (auto simp: list_all_iff snds.simps)
    then show "bindE (canonicalJsonUnchecked (snd p)) (\<lambda>t. Inr (json_string (fst p) @ '':'' @ t))
        = Inr (json_string (fst p) @ '':'' @ jtext (snd p))" by simp
  qed
  moreover have "assertCanonicalObject (JObj ps) = Inr ()"
    using JObj.prems by (auto simp: assertCanonicalObject_def isPlainObject_def ownKeys_def list_all_iff list_ex_iff)
  ultimately show ?case by simp
qed simp_all

lemma canonicalJsonUnchecked_canonOk: "canonicalJsonUnchecked v = Inr t \<Longrightarrow> canonOk v"
proof (induction v arbitrary: t)
  case (JArr xs)
  then obtain ts where m: "mapE (\<lambda>_ x. canonicalJsonUnchecked x) 0 xs = Inr ts" by (auto simp: res_simps)
  have "canonOk x" if "x \<in> set xs" for x
    using mapE_each [OF m that] JArr.IH [OF that] by blast
  then show ?case by (simp add: list_all_iff)
next
  case (JObj ps)
  then obtain ts where c: "assertCanonicalObject (JObj ps) = Inr ()"
    and m: "mapE (\<lambda>_ p. bindE (canonicalJsonUnchecked (snd p)) (\<lambda>t. Inr (json_string (fst p) @ '':'' @ t))) 0 (sort_key fst ps) = Inr ts"
    by (auto simp: res_simps)
  have "canonOk (snd p)" if p: "p \<in> set ps" for p
  proof -
    have "p \<in> set (sort_key fst ps)" using p by simp
    from mapE_each [OF m this] obtain t where "canonicalJsonUnchecked (snd p) = Inr t" by (auto simp: res_simps)
    then show ?thesis using JObj.IH [of p "snd p"] p by (cases p) (auto simp: snds.simps)
  qed
  moreover have "fst p \<notin> set forbiddenKeys" if "p \<in> set ps" for p
    using c that by (auto simp: assertCanonicalObject_def isPlainObject_def ownKeys_def list_ex_iff res_simps)
  ultimately show ?case by (simp add: list_all_iff)
qed simp_all

lemma canonicalJsonUnchecked_iff: "canonicalJsonUnchecked v = Inr t \<longleftrightarrow> canonOk v \<and> t = jtext v"
  using canonicalJsonUnchecked_txt canonicalJsonUnchecked_canonOk by fastforce

section \<open>Numbers\<close>

definition delimited :: "string \<Rightarrow> bool" where
  "delimited r = (case r of [] \<Rightarrow> True | c # _ \<Rightarrow> \<not> is_num_char c)"

lemma is_num_char_digit: "is_digit c \<Longrightarrow> is_num_char c"
  by (auto simp: is_digit_def is_num_char_def)

lemma is_decimal_num_chars: "is_decimal s \<Longrightarrow> s \<noteq> [] \<and> list_all is_num_char s"
  by (cases s) (auto simp: is_decimal_def is_pos_decimal_def list_all_iff is_num_char_digit, simp add: is_num_char_def)

lemma json_int_text: "is_int_text (json_int i)"
proof (cases "i < 0")
  case True
  then have "0 < nat (- i)" by simp
  then have "is_pos_decimal (dec_of_nat (nat (- i)))" by (rule is_pos_decimal_dec_of_nat)
  with True show ?thesis by (simp add: json_int_def is_int_text_def)
next
  case False
  then show ?thesis by (simp add: json_int_def is_int_text_def)
qed

lemma int_text_chars: "is_int_text t \<Longrightarrow> t \<noteq> [] \<and> list_all is_num_char t"
proof -
  assume "is_int_text t"
  then consider "is_decimal t" | "take 1 t = ''-''" "is_pos_decimal (drop 1 t)" by (auto simp: is_int_text_def)
  then show ?thesis
  proof cases
    case 1
    then show ?thesis by (rule is_decimal_num_chars)
  next
    case 2
    then have "t = CHR ''-'' # drop 1 t" by (cases t) auto
    moreover have "list_all is_num_char (drop 1 t)" using 2 is_decimal_num_chars [of "drop 1 t"] by (simp add: is_decimal_def)
    moreover have "is_num_char CHR ''-''" by (simp add: is_num_char_def)
    ultimately show ?thesis by (metis list.discI list.pred_inject(2))
  qed
qed

lemma json_int_inj: "json_int i = json_int j \<longleftrightarrow> i = j"
proof -
  have minus: "dec_of_nat n \<noteq> CHR ''-'' # s" for n s
    using is_decimal_dec_of_nat [of n] by (auto simp: is_decimal_def is_pos_decimal_def is_digit_def)
  show ?thesis by (auto simp: json_int_def minus minus [symmetric] split: if_splits)
qed

lemma num_prefix_unique:
  assumes "list_all is_num_char t" "list_all is_num_char u" "delimited r" "delimited s" "t @ r = u @ s"
  shows "t = u \<and> r = s"
proof -
  have tw: "takeWhile is_num_char (x @ z) = x" if "list_all is_num_char x" "delimited z" for x z
    using that by (cases z) (auto simp: takeWhile_append list_all_iff delimited_def)
  show ?thesis using tw [OF assms(1,3)] tw [OF assms(2,4)] assms(5) by simp
qed

section \<open>Strings\<close>

lemma hex_digit_char_inj: "d < 16 \<Longrightarrow> e < 16 \<Longrightarrow> hex_digit_char d = hex_digit_char e \<longleftrightarrow> d = e"
proof -
  have "distinct ''0123456789abcdef''" by simp
  then show "d < 16 \<Longrightarrow> e < 16 \<Longrightarrow> hex_digit_char d = hex_digit_char e \<longleftrightarrow> d = e"
    unfolding hex_digit_char_def by (subst nth_eq_iff_index_eq) simp_all
qed

lemma of_char_cong: "(of_char c :: nat) = n \<Longrightarrow> c = char_of n"
  by auto

text \<open>The forms an escaped character can take, and what each says of the character.\<close>

lemma json_escape_cases:
  obtains (short) x where "json_escape c = [CHR 0x5C, x]" "x \<in> {CHR 0x22, CHR 0x5C, CHR ''b'', CHR ''t'', CHR ''n'', CHR ''f'', CHR ''r''}"
      "c = (if x = CHR 0x22 then CHR 0x22 else if x = CHR 0x5C then CHR 0x5C else if x = CHR ''b'' then char_of (8 :: nat)
        else if x = CHR ''t'' then char_of (9 :: nat) else if x = CHR ''n'' then char_of (10 :: nat)
        else if x = CHR ''f'' then char_of (12 :: nat) else char_of (13 :: nat))"
  | (hex) "json_escape c = [CHR 0x5C, CHR ''u'', CHR ''0'', CHR ''0'', hex_digit_char (of_char c div 16), hex_digit_char (of_char c mod 16)]"
      "(of_char c :: nat) < 32"
  | (plain) "json_escape c = [c]" "c \<noteq> CHR 0x22" "c \<noteq> CHR 0x5C"
proof -
  let ?n = "of_char c :: nat"
  consider "c = CHR 0x22" | "c = CHR 0x5C" | "c = char_of (8 :: nat)" | "c = char_of (9 :: nat)" | "c = char_of (10 :: nat)"
    | "c = char_of (12 :: nat)" | "c = char_of (13 :: nat)"
    | "?n < 32" "?n \<notin> {8, 9, 10, 12, 13}" | "c \<noteq> CHR 0x22" "c \<noteq> CHR 0x5C" "\<not> ?n < 32"
    using of_char_cong [of c] by fastforce
  then show thesis
  proof cases
    case 1 then show ?thesis using short [of "CHR 0x22"] by (simp add: json_escape_def)
  next
    case 2 then show ?thesis using short [of "CHR 0x5C"] by (simp add: json_escape_def)
  next
    case 3
    moreover have "json_escape (char_of (8 :: nat)) = [CHR 0x5C, CHR ''b'']" by code_simp
    ultimately show ?thesis using short [of "CHR ''b''"] by simp
  next
    case 4
    moreover have "json_escape (char_of (9 :: nat)) = [CHR 0x5C, CHR ''t'']" by code_simp
    ultimately show ?thesis using short [of "CHR ''t''"] by simp
  next
    case 5
    moreover have "json_escape (char_of (10 :: nat)) = [CHR 0x5C, CHR ''n'']" by code_simp
    ultimately show ?thesis using short [of "CHR ''n''"] by simp
  next
    case 6
    moreover have "json_escape (char_of (12 :: nat)) = [CHR 0x5C, CHR ''f'']" by code_simp
    ultimately show ?thesis using short [of "CHR ''f''"] by simp
  next
    case 7
    moreover have "json_escape (char_of (13 :: nat)) = [CHR 0x5C, CHR ''r'']" by code_simp
    ultimately show ?thesis using short [of "CHR ''r''"] by simp
  next
    case 8
    then have "c \<noteq> CHR 0x22" "c \<noteq> CHR 0x5C" by auto
    with 8 have "json_escape c = [CHR 0x5C, CHR ''u'', CHR ''0'', CHR ''0'', hex_digit_char (of_char c div 16), hex_digit_char (of_char c mod 16)]"
      by (simp add: json_escape_def Let_def)
    then show ?thesis using hex 8 by simp
  next
    case 9
    then have "json_escape c = [c]" by (auto simp: json_escape_def Let_def)
    then show ?thesis using plain 9 by simp
  qed
qed

lemma json_escape_unique:
  assumes "json_escape c @ x = json_escape d @ y"
  shows "c = d \<and> x = y"
proof (cases c rule: json_escape_cases)
  case c: (short a)
  then show ?thesis
  proof (cases d rule: json_escape_cases)
    case (short b)
    with c assms show ?thesis by simp
  qed (use assms c in auto)
next
  case c: hex
  then show ?thesis
  proof (cases d rule: json_escape_cases)
    case hex
    let ?m = "of_char c :: nat" and ?n = "of_char d :: nat"
    have "?m div 16 = ?n div 16" "?m mod 16 = ?n mod 16" "x = y"
      using assms c hex by (simp_all add: hex_digit_char_inj)
    then have "?m = ?n" by (metis div_mult_mod_eq)
    then show ?thesis using \<open>x = y\<close> by simp
  qed (use assms c in auto)
next
  case c: plain
  then show ?thesis
  proof (cases d rule: json_escape_cases)
    case plain
    with c assms show ?thesis by simp
  qed (use assms c in auto)
qed

lemma json_escape_Cons: "\<exists>a as. json_escape c = a # as \<and> a \<noteq> CHR 0x22"
  by (cases c rule: json_escape_cases) auto

lemma escaped_unique:
  "concat (map json_escape s) @ CHR 0x22 # x = concat (map json_escape t) @ CHR 0x22 # y \<Longrightarrow> s = t \<and> x = y"
proof (induction s arbitrary: t)
  case Nil
  then show ?case
  proof (cases t)
    case (Cons d t')
    with Nil json_escape_Cons [of d] show ?thesis by auto
  qed simp
next
  case (Cons c s)
  show ?case
  proof (cases t)
    case Nil
    with Cons json_escape_Cons [of c] show ?thesis by auto
  next
    case t: (Cons d t')
    with Cons.prems have "json_escape c @ concat (map json_escape s) @ CHR 0x22 # x
        = json_escape d @ concat (map json_escape t') @ CHR 0x22 # y" by simp
    from json_escape_unique [OF this] Cons.IH [of t'] show ?thesis by (simp add: t)
  qed
qed

lemma json_string_unique: "json_string s @ x = json_string t @ y \<longleftrightarrow> s = t \<and> x = y"
  using escaped_unique [of s x t y] by (auto simp: json_string_def)

section \<open>Lists\<close>

text \<open>
  Items printed by a prefix code, joined by commas and closed by a bracket: the text determines the items.
  \<open>g\<close> is what the text of an item determines of it.
\<close>

definition closer :: "char \<Rightarrow> bool" where
  "closer c = (c \<in> {CHR '']'', CHR ''}''})"

fun join_rest :: "string list \<Rightarrow> string" where
  "join_rest [] = []"
| "join_rest (t # ts) = CHR '','' # t @ join_rest ts"

lemma json_join_Cons: "json_join (t # ts) = t @ join_rest ts"
  by (induction ts arbitrary: t) simp_all

lemma delimited_join_rest: "closer c \<Longrightarrow> delimited (join_rest ts @ c # r)"
  by (cases ts) (auto simp: delimited_def is_num_char_def closer_def)

lemma join_rest_unique:
  assumes "\<And>x y r s. x \<in> set xs \<Longrightarrow> y \<in> set ys \<Longrightarrow> delimited r \<Longrightarrow> delimited s \<Longrightarrow> f x @ r = f y @ s \<Longrightarrow> g x = g y \<and> r = s"
    and "closer c" and "join_rest (map f xs) @ c # r = join_rest (map f ys) @ c # s"
  shows "map g xs = map g ys \<and> r = s"
  using assms(1,3)
proof (induction xs arbitrary: ys)
  case Nil
  then show ?case using assms(2) by (cases ys) (auto simp: closer_def)
next
  case (Cons x xs)
  show ?case
  proof (cases ys)
    case Nil
    with Cons.prems(2) assms(2) show ?thesis by (auto simp: closer_def)
  next
    case ys: (Cons y ys')
    from Cons.prems(2) have "f x @ (join_rest (map f xs) @ c # r) = f y @ (join_rest (map f ys') @ c # s)" by (simp add: ys)
    then have "g x = g y \<and> join_rest (map f xs) @ c # r = join_rest (map f ys') @ c # s"
      by (rule Cons.prems(1) [rotated 4]) (simp_all add: ys delimited_join_rest [OF assms(2)])
    then have "g x = g y" "join_rest (map f xs) @ c # r = join_rest (map f ys') @ c # s" by simp_all
    moreover from this(2) have "map g xs = map g ys' \<and> r = s"
      by (intro Cons.IH) (use Cons.prems(1) ys in auto)
    ultimately show ?thesis by (simp add: ys)
  qed
qed

lemma json_join_unique:
  assumes cancel: "\<And>x y r s. x \<in> set xs \<Longrightarrow> y \<in> set ys \<Longrightarrow> delimited r \<Longrightarrow> delimited s \<Longrightarrow> f x @ r = f y @ s \<Longrightarrow> g x = g y \<and> r = s"
    and start: "\<And>z. z \<in> set xs \<union> set ys \<Longrightarrow> \<exists>a as. f z = a # as \<and> \<not> closer a"
    and "closer c" and eq: "json_join (map f xs) @ c # r = json_join (map f ys) @ c # s"
  shows "map g xs = map g ys \<and> r = s"
proof (cases xs)
  case Nil
  with eq start assms(3) show ?thesis by (cases ys) (fastforce simp: json_join_Cons)+
next
  case xs: (Cons x xs')
  show ?thesis
  proof (cases ys)
    case Nil
    from start [of x] assms(3) eq show ?thesis by (auto simp: Nil xs json_join_Cons)
  next
    case ys: (Cons y ys')
    from eq have "f x @ (join_rest (map f xs') @ c # r) = f y @ (join_rest (map f ys') @ c # s)" by (simp add: xs ys json_join_Cons)
    then have "g x = g y \<and> join_rest (map f xs') @ c # r = join_rest (map f ys') @ c # s"
      by (rule cancel [rotated 4]) (simp_all add: xs ys delimited_join_rest [OF assms(3)])
    then have "g x = g y" "join_rest (map f xs') @ c # r = join_rest (map f ys') @ c # s" by simp_all
    moreover from this(2) have "map g xs' = map g ys' \<and> r = s"
      by (intro join_rest_unique [OF _ assms(3), where f = f]) (use cancel xs ys in auto)
    ultimately show ?thesis by (simp add: xs ys)
  qed
qed

section \<open>The text determines the value\<close>

text \<open>The first character of a text tells the kind of the value.\<close>

definition first_kind :: "char \<Rightarrow> nat" where
  "first_kind c = (if c = CHR ''n'' then 0 else if c = CHR 0x22 then 1 else if c = CHR ''t'' then 2 else if c = CHR ''f'' then 3
     else if c = CHR ''['' then 4 else if c = CHR ''{'' then 5 else 6)"

fun kind_of :: "jsval \<Rightarrow> nat" where
  "kind_of JNull = 0"
| "kind_of (JStr s) = 1"
| "kind_of (JBool b) = (if b then 2 else 3)"
| "kind_of (JArr xs) = 4"
| "kind_of (JObj ps) = 5"
| "kind_of v = 6"

lemma num_char_kind: "is_num_char c \<Longrightarrow> first_kind c = 6 \<and> \<not> closer c"
  by (auto simp: is_num_char_def first_kind_def closer_def)

lemma num_text_start: "t \<noteq> [] \<Longrightarrow> list_all is_num_char t \<Longrightarrow> \<exists>a as. t = a # as \<and> first_kind a = 6 \<and> \<not> closer a"
  by (cases t) (auto dest: num_char_kind)

lemma jtext_start:
  assumes "canonOk v" and "pureJson v"
  shows "\<exists>a as. jtext v = a # as \<and> first_kind a = kind_of v \<and> \<not> closer a"
proof (cases v)
  case (JNum i)
  then show ?thesis using num_text_start [of "json_int i"] int_text_chars [OF json_int_text] by simp
next
  case (JFrac t)
  then show ?thesis using num_text_start [of t] assms by (simp add: frac_text_def)
qed (use assms in \<open>auto simp: first_kind_def closer_def json_string_def\<close>)

lemma number_unique:
  assumes "kind_of v = 6" "kind_of w = 6" "canonOk v" "canonOk w" "pureJson v" "pureJson w"
    and "delimited r" "delimited s" "jtext v @ r = jtext w @ s"
  shows "v = w \<and> r = s"
proof -
  have num: "(\<exists>i. u = JNum i) \<or> (\<exists>t. u = JFrac t \<and> frac_text t)" if "kind_of u = 6" "canonOk u" "pureJson u" for u
    using that by (cases u) (auto split: if_splits)
  have chars: "list_all is_num_char (jtext u)" if "kind_of u = 6" "canonOk u" "pureJson u" for u
    using num [OF that] int_text_chars [OF json_int_text] by (auto simp: frac_text_def)
  have "jtext v = jtext w \<and> r = s" using num_prefix_unique [OF chars chars] assms by blast
  with num [of v] num [of w] assms show ?thesis
    by (auto simp: json_int_inj frac_text_def json_int_text dest: sym)
qed

lemma jtext_unique:
  "canonOk v \<Longrightarrow> pureJson v \<Longrightarrow> canonOk w \<Longrightarrow> pureJson w \<Longrightarrow> delimited r \<Longrightarrow> delimited s \<Longrightarrow> jtext v @ r = jtext w @ s
    \<Longrightarrow> normal v = normal w \<and> r = s"
proof (induction v arbitrary: w r s)
  case (JArr xs)
  have "kind_of w = 4" using jtext_start [of w] JArr.prems by (auto simp: first_kind_def split: if_splits)
  then obtain ys where w: "w = JArr ys" by (cases w) (auto split: if_splits)
  have "map normal xs = map normal ys \<and> r = s"
  proof (rule json_join_unique [where f = jtext and c = "CHR '']''"])
    show "json_join (map jtext xs) @ CHR '']'' # r = json_join (map jtext ys) @ CHR '']'' # s" using JArr.prems(7) by (simp add: w)
    show "\<exists>a as. jtext z = a # as \<and> \<not> closer a" if "z \<in> set xs \<union> set ys" for z
      using jtext_start [of z] that JArr.prems by (auto simp: w list_all_iff)
  qed (use JArr.IH JArr.prems in \<open>auto simp: w list_all_iff closer_def\<close>)
  then show ?case by (simp add: w)
next
  case (JObj ps)
  have "kind_of w = 5" using jtext_start [of w] JObj.prems by (auto simp: first_kind_def split: if_splits)
  then obtain qs where w: "w = JObj qs" by (cases w) (auto split: if_splits)
  let ?f = "\<lambda>p. json_string (fst p) @ '':'' @ jtext (snd p)"
  let ?g = "\<lambda>p. (fst p, normal (snd p))"
  have "map ?g (sort_key fst ps) = map ?g (sort_key fst qs) \<and> r = s"
  proof (rule json_join_unique [where f = ?f and c = "CHR ''}''"])
    show "json_join (map ?f (sort_key fst ps)) @ CHR ''}'' # r = json_join (map ?f (sort_key fst qs)) @ CHR ''}'' # s"
      using JObj.prems(7) by (simp add: w)
    show "\<exists>a as. ?f z = a # as \<and> \<not> closer a" if "z \<in> set (sort_key fst ps) \<union> set (sort_key fst qs)" for z
      by (simp add: json_string_def closer_def)
    show "?g x = ?g y \<and> r' = s'" if x: "x \<in> set (sort_key fst ps)" and y: "y \<in> set (sort_key fst qs)"
      and d: "delimited r'" "delimited s'" and eq: "?f x @ r' = ?f y @ s'" for x y r' s'
    proof -
      from eq have k: "fst x = fst y" and t: "jtext (snd x) @ r' = jtext (snd y) @ s'" by (simp_all add: json_string_unique)
      have "normal (snd x) = normal (snd y) \<and> r' = s'"
        by (rule JObj.IH [of x "snd x"]) (use x y d t JObj.prems in \<open>auto simp: w list_all_iff snds.simps\<close>)
      with k show ?thesis by simp
    qed
  qed (simp add: closer_def)
  then show ?case by (simp add: w)
next
  case (JStr t)
  have "kind_of w = 1" using jtext_start [of w] JStr.prems by (auto simp: first_kind_def json_string_def split: if_splits)
  then obtain u where "w = JStr u" by (cases w) (auto split: if_splits)
  with JStr.prems(7) show ?case by (simp add: json_string_unique)
next
  case JNull
  have "kind_of w = 0" using jtext_start [of w] JNull.prems by (auto simp: first_kind_def split: if_splits)
  then have "w = JNull" by (cases w) (auto split: if_splits)
  with JNull.prems show ?case by simp
next
  case (JBool b)
  have "kind_of w = kind_of (JBool b)" using jtext_start [of w] JBool.prems by (cases b) (auto simp: first_kind_def split: if_splits)
  then have "w = JBool b" by (cases w) (auto split: if_splits)
  with JBool.prems show ?case by simp
next
  case (JNum i)
  have "kind_of w = 6" using jtext_start [of w] jtext_start [of "JNum i"] JNum.prems by auto
  then show ?case using number_unique [of "JNum i" w r s] JNum.prems by auto
next
  case (JFrac t)
  have "kind_of w = 6" using jtext_start [of w] jtext_start [of "JFrac t"] JFrac.prems by auto
  then show ?case using number_unique [of "JFrac t" w r s] JFrac.prems by auto
qed simp_all

lemma canonicalJsonUnchecked_injective:
  assumes "canonicalJsonUnchecked v = Inr t" "canonicalJsonUnchecked w = Inr t" "pureJson v" "pureJson w"
  shows "normal v = normal w"
  using assms jtext_unique [of v w "[]" "[]"] by (simp add: canonicalJsonUnchecked_iff delimited_def)

lemma canonicalJson_injective:
  assumes "canonicalJson v = Inr t" "canonicalJson w = Inr t" "pureJson v" "pureJson w"
  shows "normal v = normal w"
  by (rule canonicalJsonUnchecked_injective) (use assms in \<open>auto simp: canonicalJson_def res_simps\<close>)

section \<open>Reading a property of the normal form\<close>

lemma map_of_normal:
  assumes "distinct (map fst ps)"
  shows "map_of (map (\<lambda>p. (fst p, normal (snd p))) (sort_key fst ps)) f = map_option normal (map_of ps f)"
proof -
  have d: "distinct (map fst (sort_key fst ps))" using assms by (metis mset_eq_imp_distinct_iff mset_map mset_sort)
  have "map_of (sort_key fst ps) f = map_of ps f"
    using map_of_eq_Some_iff [OF d] map_of_eq_Some_iff [OF assms] by (metis (no_types) not_None_eq set_sort)
  moreover have "map_of (map (\<lambda>p. (fst p, normal (snd p))) qs) f = map_option normal (map_of qs f)" for qs
    by (induction qs) auto
  ultimately show ?thesis by simp
qed

lemma normal_jprop:
  assumes "normal (JObj ps) = normal (JObj qs)" "distinct (map fst ps)" "distinct (map fst qs)"
  shows "normal (jprop (JObj ps) f) = normal (jprop (JObj qs) f)"
proof -
  have "map_option normal (map_of ps f) = map_option normal (map_of qs f)"
    using assms map_of_normal [of ps f] map_of_normal [of qs f] by simp
  then show ?thesis by (auto simp: jprop_JObj split: option.splits)
qed

lemma normal_JStr: "normal v = JStr s \<longleftrightarrow> v = JStr s"
  by (cases v) auto

lemma normal_JNum: "normal v = JNum i \<longleftrightarrow> v = JNum i"
  by (cases v) auto

lemma normal_JNull: "normal v = JNull \<longleftrightarrow> v = JNull"
  by (cases v) auto

lemma textsDiffer_False:
  assumes "textsDiffer v w = Inr False" "pureJson v" "pureJson w"
  shows "normal v = normal w"
  using assms canonicalJson_injective by (auto simp: textsDiffer_def res_simps)

text \<open>Objects with the same text have the same strings and nulls as properties.\<close>

lemma texts_same_prop:
  assumes "textsDiffer (JObj ps) (JObj qs) = Inr False" "pureJson (JObj ps)" "pureJson (JObj qs)"
    and "isString (jprop (JObj ps) f) \<or> jprop (JObj ps) f = JNull"
  shows "jprop (JObj qs) f = jprop (JObj ps) f"
proof -
  have "normal (jprop (JObj ps) f) = normal (jprop (JObj qs) f)"
    by (rule normal_jprop [OF textsDiffer_False [OF assms(1-3)]]) (use assms(2,3) in simp_all)
  with assms(4) show ?thesis
    by (auto simp: isString_def normal_JStr normal_JNull eq_commute [of _ "normal (jprop (JObj qs) f)"] split: jsval.splits)
qed

section \<open>Evaluating a comparison\<close>

text \<open>
  Equations for evaluation: the comparison of equal values, and the checks whose text is thrown away, need only the bounds and \<open>canonOk\<close>,
  not the text.
\<close>

definition canonChecks :: "jsval \<Rightarrow> unit res" where
  "canonChecks v = bindE (assertBoundedCanonicalValue v ''canonical value'' default_limits) (\<lambda>_.
     if canonOk v then Inr () else bindE (canonicalJsonUnchecked v) (\<lambda>_. Inr ()))"

lemma canonChecks_only: "bindE (canonicalJson v) (\<lambda>_. r) = bindE (canonChecks v) (\<lambda>_. r)"
  by (simp add: canonicalJson_def canonChecks_def bindE_assoc canonicalJsonUnchecked_txt)

lemma textsDiffer_eval [code]:
  "textsDiffer v w =
     (if v = w then bindE (canonChecks v) (\<lambda>_. Inr False) else bindE (canonicalJson v) (\<lambda>a. bindE (canonicalJson w) (\<lambda>b. Inr (a \<noteq> b))))"
proof (cases "v = w")
  case True
  have "bindE (canonicalJson v) (\<lambda>a. bindE (canonicalJson v) (\<lambda>b. Inr (a \<noteq> b))) = bindE (canonicalJson v) (\<lambda>_. Inr False)"
    by (cases "canonicalJson v") simp_all
  with True show ?thesis by (simp add: textsDiffer_def canonChecks_only)
qed (simp add: textsDiffer_def)

end
