(* ===== verification/Money_Attempts.thy ===== *)
theory Money_Attempts
  imports Js_Objects Canonical_Injective
begin

text \<open>
  The records of outgoing money operations of \<^verbatim>\<open>packages/runner/src/cycle/money-schemas.mjs\<close>: a provider
  mutation attempt (a request to an off-chain provider), a chain transaction attempt, and the binding and invocation ledger of a
  sign-only retry.  Each has a validator, which gives the record the validated object stands for, and a transition
  function with its table of permitted transitions.  \<open>jsval_of_...\<close> is the object of a record.
\<close>

section \<open>Stages and elementary checks\<close>

definition OPERATIONAL_CYCLE_STAGES :: "string list" where
  "OPERATIONAL_CYCLE_STAGES = [''eligibility-snapshot'', ''claim-process'', ''outbound'', ''purchase'', ''open'', ''epic-gate'',
     ''buyback'', ''return'', ''payout'']"

definition RELAY_LEG_TERMINAL_STATES :: "string list" where
  "RELAY_LEG_TERMINAL_STATES = [''HELD_RELAY_PARTIAL'', ''HELD_RELAY_REFUND'', ''HELD_RELAY_LATE'', ''HELD_RELAY_WRONG_ASSET'']"

definition CYCLE_TERMINAL_STATES :: "string list" where
  "CYCLE_TERMINAL_STATES = [''COMPLETED'', ''FAILED'', ''HELD_DATA_UNVERIFIED'', ''HELD_UNAVAILABLE'', ''HELD_OWNER_DECISION'']
     @ RELAY_LEG_TERMINAL_STATES"

definition assertMoneyObject :: "jsval \<Rightarrow> string list \<Rightarrow> string \<Rightarrow> unit res" where
  "assertMoneyObject v keys label =
     (if \<not> isPlainObject v then Inl (JsError (label @ '' must be a plain object''))
      else if \<not> exactKeys v keys then Inl (JsError (label @ '' must use the exact schema''))
      else Inr ())"

definition assertMoneyString :: "jsval \<Rightarrow> string \<Rightarrow> string res" where
  "assertMoneyString v label =
     (if \<not> str_matches (\<lambda>s. s \<noteq> [] \<and> length s \<le> 512) v then Inl (JsError (label @ '' is invalid'')) else Inr (str_of v))"

definition assertMoneyDigest :: "jsval \<Rightarrow> string \<Rightarrow> string res" where
  "assertMoneyDigest v label = (if \<not> str_matches digest_pattern v then Inl (JsError (label @ '' is invalid'')) else Inr (str_of v))"

definition assertMoneyAtomic :: "jsval \<Rightarrow> string \<Rightarrow> string res" where
  "assertMoneyAtomic v label = (if \<not> str_matches is_decimal v then Inl (JsError (label @ '' is invalid'')) else Inr (str_of v))"

definition assertStage :: "jsval \<Rightarrow> string \<Rightarrow> string res" where
  "assertStage v label =
     (if \<not> str_matches (\<lambda>s. s \<in> set OPERATIONAL_CYCLE_STAGES) v then Inl (JsError (label @ '' is invalid'')) else Inr (str_of v))"

definition assertCycleTerminalState :: "jsval \<Rightarrow> string \<Rightarrow> string res" where
  "assertCycleTerminalState v label =
     (if \<not> str_matches (\<lambda>s. s \<in> set CYCLE_TERMINAL_STATES) v then Inl (JsError (label @ '' is invalid'')) else Inr (str_of v))"

text \<open>\<open>if (v !== null) check(v)\<close>.\<close>

definition unlessNull :: "(jsval \<Rightarrow> string \<Rightarrow> string res) \<Rightarrow> jsval \<Rightarrow> string \<Rightarrow> string option res" where
  "unlessNull check v label = (if v = JNull then Inr None else bindE (check v label) (\<lambda>s. Inr (Some s)))"

definition nullable :: "string option \<Rightarrow> jsval" where
  "nullable v = (case v of None \<Rightarrow> JNull | Some s \<Rightarrow> JStr s)"

text \<open>The member of an enumeration of states a value names.\<close>

definition stateNamed :: "('s \<Rightarrow> string) \<Rightarrow> 's list \<Rightarrow> jsval \<Rightarrow> string \<Rightarrow> 's res" where
  "stateNamed name states v label =
     (case List.find (\<lambda>s. v = JStr (name s)) states of None \<Rightarrow> Inl (JsError (label @ '' state is invalid'')) | Some s \<Rightarrow> Inr s)"

section \<open>Provider mutation attempts\<close>

datatype provider_state = P_PREPARED | P_NOT_SENT | P_SENT_UNKNOWN | P_RESPONSE_RECORDED | P_RECONCILED

primrec provider_state_name :: "provider_state \<Rightarrow> string" where
  "provider_state_name P_PREPARED = ''PREPARED''"
| "provider_state_name P_NOT_SENT = ''NOT_SENT''"
| "provider_state_name P_SENT_UNKNOWN = ''SENT_UNKNOWN''"
| "provider_state_name P_RESPONSE_RECORDED = ''RESPONSE_RECORDED''"
| "provider_state_name P_RECONCILED = ''RECONCILED''"

definition PROVIDER_MUTATION_ATTEMPT_STATES :: "provider_state list" where
  "PROVIDER_MUTATION_ATTEMPT_STATES = [P_PREPARED, P_NOT_SENT, P_SENT_UNKNOWN, P_RESPONSE_RECORDED, P_RECONCILED]"

record provider_attempt =
  pa_cycleId :: string
  pa_stage :: string
  pa_state :: provider_state
  pa_requestDigest :: string
  pa_responseDigest :: "string option"
  pa_reconciliationDigest :: "string option"

definition providerSchema :: string where "providerSchema = ''hookemon.provider-mutation-attempt.v1''"

definition jsval_of_provider :: "provider_attempt \<Rightarrow> jsval" where
  "jsval_of_provider a = JObj [(''schema'', JStr providerSchema), (''cycleId'', JStr (pa_cycleId a)), (''stage'', JStr (pa_stage a)),
     (''state'', JStr (provider_state_name (pa_state a))), (''requestDigest'', JStr (pa_requestDigest a)),
     (''responseDigest'', nullable (pa_responseDigest a)), (''reconciliationDigest'', nullable (pa_reconciliationDigest a))]"

definition providerFields :: "string list" where
  "providerFields = [''schema'', ''cycleId'', ''stage'', ''state'', ''requestDigest'', ''responseDigest'', ''reconciliationDigest'']"

definition assertProviderMutationAttempt :: "jsval \<Rightarrow> string \<Rightarrow> provider_attempt res" where
  "assertProviderMutationAttempt v label =
     bindE (assertMoneyObject v providerFields label) (\<lambda>_.
     bindE (throwIf (jprop v ''schema'' \<noteq> JStr providerSchema) (label @ '' schema is invalid'')) (\<lambda>_.
     bindE (assertMoneyString (jprop v ''cycleId'') (label @ '' cycleId'')) (\<lambda>cycleId.
     bindE (assertStage (jprop v ''stage'') (label @ '' stage'')) (\<lambda>stage.
     bindE (stateNamed provider_state_name PROVIDER_MUTATION_ATTEMPT_STATES (jprop v ''state'') label) (\<lambda>state.
     bindE (assertMoneyDigest (jprop v ''requestDigest'') (label @ '' requestDigest'')) (\<lambda>requestDigest.
     bindE (unlessNull assertMoneyDigest (jprop v ''responseDigest'') (label @ '' responseDigest'')) (\<lambda>responseDigest.
     bindE (unlessNull assertMoneyDigest (jprop v ''reconciliationDigest'') (label @ '' reconciliationDigest'')) (\<lambda>reconciliationDigest.
     bindE (throwIf (state \<in> {P_PREPARED, P_NOT_SENT, P_SENT_UNKNOWN} \<and> (responseDigest \<noteq> None \<or> reconciliationDigest \<noteq> None))
       (label @ '' state cannot contain response or reconciliation evidence'')) (\<lambda>_.
     bindE (throwIf (state = P_RESPONSE_RECORDED \<and> (responseDigest = None \<or> reconciliationDigest \<noteq> None))
       (label @ '' response-recorded state requires only a response digest'')) (\<lambda>_.
     bindE (throwIf (state = P_RECONCILED \<and> reconciliationDigest = None)
       (label @ '' reconciled state requires a reconciliation digest'')) (\<lambda>_.
     Inr \<lparr>pa_cycleId = cycleId, pa_stage = stage, pa_state = state, pa_requestDigest = requestDigest,
          pa_responseDigest = responseDigest, pa_reconciliationDigest = reconciliationDigest\<rparr>)))))))))))"

definition providerLabel :: string where "providerLabel = ''provider mutation attempt''"

definition createPreparedProviderMutationAttempt :: "jsval \<Rightarrow> jsval \<Rightarrow> jsval \<Rightarrow> provider_attempt res" where
  "createPreparedProviderMutationAttempt cycleId stage requestDigest =
     assertProviderMutationAttempt (JObj [(''schema'', JStr providerSchema), (''cycleId'', cycleId), (''stage'', stage), (''state'', JStr ''PREPARED''),
       (''requestDigest'', requestDigest), (''responseDigest'', JNull), (''reconciliationDigest'', JNull)]) providerLabel"

primrec permittedProvider :: "provider_state \<Rightarrow> provider_state list" where
  "permittedProvider P_PREPARED = [P_NOT_SENT, P_SENT_UNKNOWN, P_RESPONSE_RECORDED]"
| "permittedProvider P_NOT_SENT = [P_PREPARED]"
| "permittedProvider P_SENT_UNKNOWN = [P_RESPONSE_RECORDED, P_RECONCILED]"
| "permittedProvider P_RESPONSE_RECORDED = [P_RECONCILED]"
| "permittedProvider P_RECONCILED = []"

definition transitionProviderMutationAttempt :: "jsval \<Rightarrow> provider_state \<Rightarrow> jsval \<Rightarrow> provider_attempt res" where
  "transitionProviderMutationAttempt v nextState evidence =
     bindE (assertProviderMutationAttempt v providerLabel) (\<lambda>current.
     bindE (throwIf (nextState \<notin> set (permittedProvider (pa_state current))) ''provider mutation attempt transition is invalid'') (\<lambda>_.
     bindE (throwIf (\<not> typeofObject evidence \<or> evidence = JNull \<or> isArray evidence
         \<or> \<not> list_all (\<lambda>k. k \<in> {''responseDigest'', ''reconciliationDigest''}) (ownKeys evidence))
       ''provider mutation attempt transition evidence is invalid'') (\<lambda>_.
     assertProviderMutationAttempt
       (withProps (spread (jsval_of_provider current)) (spread evidence @ [(''state'', JStr (provider_state_name nextState))])) providerLabel)))"

section \<open>Chain transaction attempts\<close>

datatype chain_state = C_PREPARED | C_SIGNED | C_BROADCAST | C_FINALIZED

primrec chain_state_name :: "chain_state \<Rightarrow> string" where
  "chain_state_name C_PREPARED = ''PREPARED''"
| "chain_state_name C_SIGNED = ''SIGNED''"
| "chain_state_name C_BROADCAST = ''BROADCAST''"
| "chain_state_name C_FINALIZED = ''FINALIZED''"

definition CHAIN_TRANSACTION_ATTEMPT_STATES :: "chain_state list" where
  "CHAIN_TRANSACTION_ATTEMPT_STATES = [C_PREPARED, C_SIGNED, C_BROADCAST, C_FINALIZED]"

record chain_attempt =
  ca_cycleId :: string
  ca_stage :: string
  ca_state :: chain_state
  ca_requestDigest :: string
  ca_rawBytes :: "string option"
  ca_nonce :: "string option"
  ca_blockhash :: "string option"
  ca_hash :: "string option"

definition chainSchema :: string where "chainSchema = ''hookemon.chain-transaction-attempt.v1''"

definition jsval_of_chain :: "chain_attempt \<Rightarrow> jsval" where
  "jsval_of_chain a = JObj [(''schema'', JStr chainSchema), (''cycleId'', JStr (ca_cycleId a)), (''stage'', JStr (ca_stage a)),
     (''state'', JStr (chain_state_name (ca_state a))), (''requestDigest'', JStr (ca_requestDigest a)), (''rawBytes'', nullable (ca_rawBytes a)),
     (''nonce'', nullable (ca_nonce a)), (''blockhash'', nullable (ca_blockhash a)), (''hash'', nullable (ca_hash a))]"

definition chainFields :: "string list" where
  "chainFields = [''schema'', ''cycleId'', ''stage'', ''state'', ''requestDigest'', ''rawBytes'', ''nonce'', ''blockhash'', ''hash'']"

text \<open>
  Base64 as \<open>Buffer\<close> reads and prints it: the text that \<open>bytes.toString('base64')\<close> gives back unchanged is made of groups
  of four letters, the last one padded, with zero bits where the padding cuts.  \<open>base64Bytes\<close> is the number of
  bytes such a text stands for.
\<close>

definition base64_value :: "char \<Rightarrow> nat option" where
  "base64_value c = (case List.find (\<lambda>p. snd p = c) (enumerate 0 ''ABCDEFGHIJKLMNOPQRSTUVWXYZabcdefghijklmnopqrstuvwxyz0123456789+/'') of
      None \<Rightarrow> None | Some (i, _) \<Rightarrow> Some i)"

definition base64_multiple :: "nat \<Rightarrow> char \<Rightarrow> bool" where
  "base64_multiple m c = (case base64_value c of None \<Rightarrow> False | Some n \<Rightarrow> n mod m = 0)"

fun base64Bytes :: "string \<Rightarrow> nat option" where
  "base64Bytes [] = Some 0"
| "base64Bytes (a # b # c # d # rest) =
     (if rest = [] \<and> c = CHR ''='' \<and> d = CHR ''=''
      then (if base64_multiple 1 a \<and> base64_multiple 16 b then Some 1 else None)
      else if rest = [] \<and> d = CHR ''=''
      then (if base64_multiple 1 a \<and> base64_multiple 1 b \<and> base64_multiple 4 c then Some 2 else None)
      else if list_all (base64_multiple 1) [a, b, c, d] then map_option (\<lambda>n. n + 3) (base64Bytes rest) else None)"
| "base64Bytes _ = None"

definition solanaWire :: "string \<Rightarrow> bool" where
  "solanaWire s = (length s \<le> 1644 \<and> (case base64Bytes s of None \<Rightarrow> False | Some n \<Rightarrow> 0 < n \<and> n \<le> 1232))"

definition assertChainSigningMaterial :: "jsval \<Rightarrow> string \<Rightarrow> unit res" where
  "assertChainSigningMaterial v label =
     bindE (if jprop v ''blockhash'' \<noteq> JNull
            then throwIf (\<not> str_matches solanaWire (jprop v ''rawBytes'')) (label @ '' rawBytes must be canonical Solana base64 within 1232 wire bytes'')
            else bindE (assertMoneyString (jprop v ''rawBytes'') (label @ '' rawBytes'')) (\<lambda>_. Inr ())) (\<lambda>_.
     bindE (throwIf ((jprop v ''nonce'' = JNull) = (jprop v ''blockhash'' = JNull)) (label @ '' requires exactly one nonce or blockhash'')) (\<lambda>_.
     bindE (unlessNull assertMoneyAtomic (jprop v ''nonce'') (label @ '' nonce'')) (\<lambda>_.
     bindE (unlessNull assertMoneyString (jprop v ''blockhash'') (label @ '' blockhash'')) (\<lambda>_.
     bindE (assertMoneyString (jprop v ''hash'') (label @ '' hash'')) (\<lambda>_. Inr ())))))"

definition strOrNone :: "jsval \<Rightarrow> string option" where
  "strOrNone v = (case v of JStr s \<Rightarrow> Some s | _ \<Rightarrow> None)"

definition assertChainTransactionAttempt :: "jsval \<Rightarrow> string \<Rightarrow> chain_attempt res" where
  "assertChainTransactionAttempt v label =
     bindE (assertMoneyObject v chainFields label) (\<lambda>_.
     bindE (throwIf (jprop v ''schema'' \<noteq> JStr chainSchema) (label @ '' schema is invalid'')) (\<lambda>_.
     bindE (assertMoneyString (jprop v ''cycleId'') (label @ '' cycleId'')) (\<lambda>cycleId.
     bindE (assertStage (jprop v ''stage'') (label @ '' stage'')) (\<lambda>stage.
     bindE (stateNamed chain_state_name CHAIN_TRANSACTION_ATTEMPT_STATES (jprop v ''state'') label) (\<lambda>state.
     bindE (assertMoneyDigest (jprop v ''requestDigest'') (label @ '' requestDigest'')) (\<lambda>requestDigest.
     bindE (if state = C_PREPARED
            then throwIf (jprop v ''rawBytes'' \<noteq> JNull \<or> jprop v ''nonce'' \<noteq> JNull \<or> jprop v ''blockhash'' \<noteq> JNull \<or> jprop v ''hash'' \<noteq> JNull)
                   (label @ '' prepared state cannot contain signing material'')
            else assertChainSigningMaterial v label) (\<lambda>_.
     Inr \<lparr>ca_cycleId = cycleId, ca_stage = stage, ca_state = state, ca_requestDigest = requestDigest, ca_rawBytes = strOrNone (jprop v ''rawBytes''),
          ca_nonce = strOrNone (jprop v ''nonce''), ca_blockhash = strOrNone (jprop v ''blockhash''), ca_hash = strOrNone (jprop v ''hash'')\<rparr>)))))))"

definition chainLabel :: string where "chainLabel = ''chain transaction attempt''"

definition createPreparedChainTransactionAttempt :: "jsval \<Rightarrow> jsval \<Rightarrow> jsval \<Rightarrow> chain_attempt res" where
  "createPreparedChainTransactionAttempt cycleId stage requestDigest =
     assertChainTransactionAttempt (JObj [(''schema'', JStr chainSchema), (''cycleId'', cycleId), (''stage'', stage), (''state'', JStr ''PREPARED''),
       (''requestDigest'', requestDigest), (''rawBytes'', JNull), (''nonce'', JNull), (''blockhash'', JNull), (''hash'', JNull)]) chainLabel"

primrec permittedChain :: "chain_state \<Rightarrow> chain_state list" where
  "permittedChain C_PREPARED = [C_SIGNED]"
| "permittedChain C_SIGNED = [C_BROADCAST]"
| "permittedChain C_BROADCAST = [C_FINALIZED]"
| "permittedChain C_FINALIZED = []"

definition transitionChainTransactionAttempt :: "jsval \<Rightarrow> chain_state \<Rightarrow> jsval \<Rightarrow> chain_attempt res" where
  "transitionChainTransactionAttempt v nextState evidence =
     bindE (assertChainTransactionAttempt v chainLabel) (\<lambda>current.
     bindE (throwIf (nextState \<notin> set (permittedChain (ca_state current))) ''chain transaction attempt transition is invalid'') (\<lambda>_.
     bindE (throwIf (\<not> typeofObject evidence \<or> evidence = JNull \<or> isArray evidence) ''chain transaction attempt transition evidence is invalid'') (\<lambda>_.
     bindE (if ca_state current = C_PREPARED
            then throwIf (sort (ownKeys evidence) \<noteq> [''blockhash'', ''hash'', ''nonce'', ''rawBytes'']) ''chain transaction attempt signing evidence is invalid''
            else throwIf (ownKeys evidence \<noteq> []) ''chain transaction attempt transition evidence is immutable after signing'') (\<lambda>_.
     assertChainTransactionAttempt
       (withProps (spread (jsval_of_chain current)) (spread evidence @ [(''state'', JStr (chain_state_name nextState))])) chainLabel))))"

section \<open>Sign-only retries\<close>

text \<open>
  The binding pins the exact request a signer may see again; the ledger counts the invocations of the signer: at most
  two, the second only after a timeout of the first.
\<close>

record sign_only_binding =
  sb_cycleId :: string
  sb_stage :: string
  sb_requestDigest :: string
  sb_role :: string
  sb_account :: string
  sb_unsignedWireBytes :: string
  sb_unsignedRequestDigest :: string
  sb_policyDigest :: string
  sb_validityContextDigest :: string

definition SIGN_ONLY_PRE_SIGN_BINDING_SCHEMA :: string where
  "SIGN_ONLY_PRE_SIGN_BINDING_SCHEMA = ''hookemon.sign-only-pre-sign-binding.v1''"

definition jsval_of_binding :: "sign_only_binding \<Rightarrow> jsval" where
  "jsval_of_binding b = JObj [(''schema'', JStr SIGN_ONLY_PRE_SIGN_BINDING_SCHEMA), (''cycleId'', JStr (sb_cycleId b)), (''stage'', JStr (sb_stage b)),
     (''requestDigest'', JStr (sb_requestDigest b)), (''role'', JStr (sb_role b)), (''account'', JStr (sb_account b)),
     (''unsignedWireBytes'', JStr (sb_unsignedWireBytes b)), (''unsignedRequestDigest'', JStr (sb_unsignedRequestDigest b)),
     (''policyDigest'', JStr (sb_policyDigest b)), (''validityContextDigest'', JStr (sb_validityContextDigest b))]"

definition bindingFields :: "string list" where
  "bindingFields = [''schema'', ''cycleId'', ''stage'', ''requestDigest'', ''role'', ''account'', ''unsignedWireBytes'', ''unsignedRequestDigest'',
     ''policyDigest'', ''validityContextDigest'']"

definition assertSignOnlyPreSignBinding :: "jsval \<Rightarrow> string \<Rightarrow> sign_only_binding res" where
  "assertSignOnlyPreSignBinding v label =
     bindE (assertMoneyObject v bindingFields label) (\<lambda>_.
     bindE (throwIf (jprop v ''schema'' \<noteq> JStr SIGN_ONLY_PRE_SIGN_BINDING_SCHEMA) (label @ '' schema is invalid'')) (\<lambda>_.
     bindE (assertMoneyString (jprop v ''cycleId'') (label @ '' cycleId'')) (\<lambda>cycleId.
     bindE (assertStage (jprop v ''stage'') (label @ '' stage'')) (\<lambda>stage.
     bindE (assertMoneyDigest (jprop v ''requestDigest'') (label @ '' requestDigest'')) (\<lambda>requestDigest.
     bindE (assertMoneyString (jprop v ''role'') (label @ '' role'')) (\<lambda>role.
     bindE (assertMoneyString (jprop v ''account'') (label @ '' account'')) (\<lambda>account.
     bindE (throwIf (\<not> str_matches (\<lambda>s. s \<noteq> []) (jprop v ''unsignedWireBytes'')) (label @ '' unsignedWireBytes is invalid'')) (\<lambda>_.
     bindE (assertMoneyDigest (jprop v ''unsignedRequestDigest'') (label @ '' unsignedRequestDigest'')) (\<lambda>unsignedRequestDigest.
     bindE (assertMoneyDigest (jprop v ''policyDigest'') (label @ '' policyDigest'')) (\<lambda>policyDigest.
     bindE (assertMoneyDigest (jprop v ''validityContextDigest'') (label @ '' validityContextDigest'')) (\<lambda>validityContextDigest.
     Inr \<lparr>sb_cycleId = cycleId, sb_stage = stage, sb_requestDigest = requestDigest, sb_role = role, sb_account = account,
          sb_unsignedWireBytes = str_of (jprop v ''unsignedWireBytes''), sb_unsignedRequestDigest = unsignedRequestDigest,
          sb_policyDigest = policyDigest, sb_validityContextDigest = validityContextDigest\<rparr>)))))))))))"

datatype ledger_state = L_1_ALLOCATED | L_1_TIMED_OUT | L_2_ALLOCATED | L_2_TIMED_OUT

primrec ledger_state_name :: "ledger_state \<Rightarrow> string" where
  "ledger_state_name L_1_ALLOCATED = ''ORDINAL_1_ALLOCATED''"
| "ledger_state_name L_1_TIMED_OUT = ''ORDINAL_1_TIMED_OUT''"
| "ledger_state_name L_2_ALLOCATED = ''ORDINAL_2_ALLOCATED''"
| "ledger_state_name L_2_TIMED_OUT = ''ORDINAL_2_TIMED_OUT''"

definition SIGN_ONLY_INVOCATION_LEDGER_STATES :: "ledger_state list" where
  "SIGN_ONLY_INVOCATION_LEDGER_STATES = [L_1_ALLOCATED, L_1_TIMED_OUT, L_2_ALLOCATED, L_2_TIMED_OUT]"

record sign_ledger =
  sl_cycleId :: string
  sl_stage :: string
  sl_requestDigest :: string
  sl_state :: ledger_state

definition SIGN_ONLY_INVOCATION_LEDGER_SCHEMA :: string where
  "SIGN_ONLY_INVOCATION_LEDGER_SCHEMA = ''hookemon.sign-only-invocation-ledger.v1''"

definition jsval_of_ledger :: "sign_ledger \<Rightarrow> jsval" where
  "jsval_of_ledger l = JObj [(''schema'', JStr SIGN_ONLY_INVOCATION_LEDGER_SCHEMA), (''cycleId'', JStr (sl_cycleId l)), (''stage'', JStr (sl_stage l)),
     (''requestDigest'', JStr (sl_requestDigest l)), (''state'', JStr (ledger_state_name (sl_state l)))]"

definition assertSignOnlyInvocationLedger :: "jsval \<Rightarrow> string \<Rightarrow> sign_ledger res" where
  "assertSignOnlyInvocationLedger v label =
     bindE (assertMoneyObject v [''schema'', ''cycleId'', ''stage'', ''requestDigest'', ''state''] label) (\<lambda>_.
     bindE (throwIf (jprop v ''schema'' \<noteq> JStr SIGN_ONLY_INVOCATION_LEDGER_SCHEMA) (label @ '' schema is invalid'')) (\<lambda>_.
     bindE (assertMoneyString (jprop v ''cycleId'') (label @ '' cycleId'')) (\<lambda>cycleId.
     bindE (assertStage (jprop v ''stage'') (label @ '' stage'')) (\<lambda>stage.
     bindE (assertMoneyDigest (jprop v ''requestDigest'') (label @ '' requestDigest'')) (\<lambda>requestDigest.
     bindE (stateNamed ledger_state_name SIGN_ONLY_INVOCATION_LEDGER_STATES (jprop v ''state'') label) (\<lambda>state.
     Inr \<lparr>sl_cycleId = cycleId, sl_stage = stage, sl_requestDigest = requestDigest, sl_state = state\<rparr>))))))"

definition ledgerLabel :: string where "ledgerLabel = ''sign-only invocation ledger''"

definition createReservedSignOnlyInvocationLedger :: "jsval \<Rightarrow> jsval \<Rightarrow> jsval \<Rightarrow> sign_ledger res" where
  "createReservedSignOnlyInvocationLedger cycleId stage requestDigest =
     assertSignOnlyInvocationLedger (JObj [(''schema'', JStr SIGN_ONLY_INVOCATION_LEDGER_SCHEMA), (''cycleId'', cycleId), (''stage'', stage),
       (''requestDigest'', requestDigest), (''state'', JStr ''ORDINAL_1_ALLOCATED'')]) ledgerLabel"

primrec permittedLedger :: "ledger_state \<Rightarrow> ledger_state list" where
  "permittedLedger L_1_ALLOCATED = [L_1_TIMED_OUT]"
| "permittedLedger L_1_TIMED_OUT = [L_2_ALLOCATED]"
| "permittedLedger L_2_ALLOCATED = [L_2_TIMED_OUT]"
| "permittedLedger L_2_TIMED_OUT = []"

definition transitionSignOnlyInvocationLedger :: "jsval \<Rightarrow> ledger_state \<Rightarrow> sign_ledger res" where
  "transitionSignOnlyInvocationLedger v nextState =
     bindE (assertSignOnlyInvocationLedger v ledgerLabel) (\<lambda>current.
     bindE (throwIf (nextState \<notin> set (permittedLedger (sl_state current))) ''sign-only invocation ledger transition is invalid'') (\<lambda>_.
     assertSignOnlyInvocationLedger (jsval_of_ledger (current\<lparr>sl_state := nextState\<rparr>)) ledgerLabel))"

section \<open>Lemmas on the validators\<close>

lemmas money_checks = assertMoneyObject_def assertMoneyString_def assertMoneyDigest_def assertMoneyAtomic_def assertStage_def

lemma unlessNull_Inr: "unlessNull check v label = Inr x \<longleftrightarrow> (v = JNull \<and> x = None) \<or> (v \<noteq> JNull \<and> (\<exists>s. check v label = Inr s \<and> x = Some s))"
  by (auto simp: unlessNull_def res_simps)

lemma assertMoneyDigest_Inr: "assertMoneyDigest v label = Inr s \<longleftrightarrow> v = JStr s \<and> digest_pattern s"
  by (auto simp: assertMoneyDigest_def str_matches_iff)

lemma assertMoneyString_Inr: "assertMoneyString v label = Inr s \<longleftrightarrow> v = JStr s \<and> s \<noteq> [] \<and> length s \<le> 512"
  by (auto simp: assertMoneyString_def str_matches_iff)

lemma assertMoneyAtomic_Inr: "assertMoneyAtomic v label = Inr s \<longleftrightarrow> v = JStr s \<and> is_decimal s"
  by (auto simp: assertMoneyAtomic_def str_matches_iff)

lemma assertStage_Inr: "assertStage v label = Inr s \<longleftrightarrow> v = JStr s \<and> s \<in> set OPERATIONAL_CYCLE_STAGES"
  by (auto simp: assertStage_def str_matches_iff)

lemma stateNamed_Inr: "stateNamed name states v label = Inr s \<Longrightarrow> v = JStr (name s) \<and> s \<in> set states"
  by (auto simp: stateNamed_def find_Some_iff split: option.splits)

lemmas money_inversions = assertMoneyDigest_Inr assertMoneyString_Inr assertMoneyAtomic_Inr assertStage_Inr unlessNull_Inr

lemma assertProvider_fields:
  assumes "assertProviderMutationAttempt v label = Inr a"
  shows "jprop v ''cycleId'' = JStr (pa_cycleId a)" "jprop v ''stage'' = JStr (pa_stage a)"
    "jprop v ''state'' = JStr (provider_state_name (pa_state a))" "jprop v ''requestDigest'' = JStr (pa_requestDigest a)"
    "pa_stage a \<in> set OPERATIONAL_CYCLE_STAGES" "digest_pattern (pa_requestDigest a)"
    "pa_state a = P_RECONCILED \<Longrightarrow> pa_reconciliationDigest a \<noteq> None"
    "pa_state a = P_RESPONSE_RECORDED \<Longrightarrow> pa_responseDigest a \<noteq> None"
  using assms unfolding assertProviderMutationAttempt_def
  by (auto simp: res_simps money_inversions dest: stateNamed_Inr)

lemma jsval_of_provider_props [simp]:
  "jprop (jsval_of_provider a) ''cycleId'' = JStr (pa_cycleId a)" "jprop (jsval_of_provider a) ''stage'' = JStr (pa_stage a)"
  "jprop (jsval_of_provider a) ''state'' = JStr (provider_state_name (pa_state a))"
  "jprop (jsval_of_provider a) ''requestDigest'' = JStr (pa_requestDigest a)"
  "jprop (jsval_of_provider a) ''responseDigest'' = nullable (pa_responseDigest a)"
  "jprop (jsval_of_provider a) ''reconciliationDigest'' = nullable (pa_reconciliationDigest a)"
  by (simp_all add: jsval_of_provider_def jprop_JObj)

lemma nullable_inj: "nullable x = nullable y \<longleftrightarrow> x = y"
  by (auto simp: nullable_def split: option.splits)

lemma provider_state_name_inj: "provider_state_name s = provider_state_name t \<longleftrightarrow> s = t"
  by (cases s; cases t) simp_all

lemma chain_state_name_inj: "chain_state_name s = chain_state_name t \<longleftrightarrow> s = t"
  by (cases s; cases t) simp_all

lemma ledger_state_name_inj: "ledger_state_name s = ledger_state_name t \<longleftrightarrow> s = t"
  by (cases s; cases t) simp_all

lemma jprop_with_state: "jprop (withProps ps (qs @ [(''state'', x)])) ''state'' = x"
  by (simp add: jprop_withProps)

lemma jprop_with_other: "f \<noteq> ''state'' \<Longrightarrow> f \<notin> set (map fst qs) \<Longrightarrow> jprop (withProps ps (qs @ [(''state'', x)])) f = jprop (JObj ps) f"
proof -
  assume "f \<noteq> ''state''" "f \<notin> set (map fst qs)"
  then have "map_of (rev (qs @ [(''state'', x)])) f = None" by (auto simp: map_of_eq_None_iff)
  then show ?thesis by (simp only: jprop_withProps option.case)
qed

lemma spread_ownKeys: "typeofObject v \<Longrightarrow> v \<noteq> JNull \<Longrightarrow> \<not> isArray v \<Longrightarrow> map fst (spread v) = ownKeys v"
  by (auto simp: typeofObject_def isArray_def spread_def ownKeys_def split: jsval.splits)

text \<open>A transition keeps the identity of the attempt and follows the table.\<close>

lemma transitionProvider_Inr:
  assumes "transitionProviderMutationAttempt v s ev = Inr b"
  obtains a where "assertProviderMutationAttempt v providerLabel = Inr a" "s \<in> set (permittedProvider (pa_state a))"
    "pa_state b = s" "pa_cycleId b = pa_cycleId a" "pa_stage b = pa_stage a" "pa_requestDigest b = pa_requestDigest a"
proof -
  let ?w = "\<lambda>a. withProps (spread (jsval_of_provider a)) (spread ev @ [(''state'', JStr (provider_state_name s))])"
  from assms obtain a where a: "assertProviderMutationAttempt v providerLabel = Inr a" "s \<in> set (permittedProvider (pa_state a))"
    and ev: "typeofObject ev" "ev \<noteq> JNull" "\<not> isArray ev" "list_all (\<lambda>k. k \<in> {''responseDigest'', ''reconciliationDigest''}) (ownKeys ev)"
    and b: "assertProviderMutationAttempt (?w a) providerLabel = Inr b"
    unfolding transitionProviderMutationAttempt_def by (auto simp: res_simps)
  have keys: "set (map fst (spread ev)) \<subseteq> {''responseDigest'', ''reconciliationDigest''}"
    using ev(4) unfolding spread_ownKeys [OF ev(1-3)] by (auto simp: list_all_iff)
  have obj: "JObj (spread (jsval_of_provider a)) = jsval_of_provider a" by (simp add: spread_def jsval_of_provider_def)
  have keep: "jprop (?w a) f = jprop (jsval_of_provider a) f" if "f \<in> {''cycleId'', ''stage'', ''requestDigest''}" for f
  proof -
    have "f \<noteq> ''state''" "f \<notin> set (map fst (spread ev))" using that keys by auto
    then show ?thesis using jprop_with_other [where ps = "spread (jsval_of_provider a)"] obj by metis
  qed
  show thesis
    using that [OF a] assertProvider_fields [OF b] keep [of "''cycleId''"] keep [of "''stage''"] keep [of "''requestDigest''"]
    by (simp add: jprop_with_state provider_state_name_inj)
qed

lemma jsval_of_chain_props [simp]:
  "jprop (jsval_of_chain a) ''cycleId'' = JStr (ca_cycleId a)" "jprop (jsval_of_chain a) ''stage'' = JStr (ca_stage a)"
  "jprop (jsval_of_chain a) ''state'' = JStr (chain_state_name (ca_state a))"
  "jprop (jsval_of_chain a) ''requestDigest'' = JStr (ca_requestDigest a)" "jprop (jsval_of_chain a) ''rawBytes'' = nullable (ca_rawBytes a)"
  "jprop (jsval_of_chain a) ''nonce'' = nullable (ca_nonce a)" "jprop (jsval_of_chain a) ''blockhash'' = nullable (ca_blockhash a)"
  "jprop (jsval_of_chain a) ''hash'' = nullable (ca_hash a)"
  by (simp_all add: jsval_of_chain_def jprop_JObj)

lemma strOrNone_nullable [simp]: "strOrNone (nullable x) = x"
  by (simp add: strOrNone_def nullable_def split: option.split)

lemma strOrNone_simps [simp]: "strOrNone (JStr s) = Some s" "strOrNone JNull = None"
  by (simp_all add: strOrNone_def)

lemma assertChain_fields:
  assumes "assertChainTransactionAttempt v label = Inr a"
  shows "jprop v ''cycleId'' = JStr (ca_cycleId a)" "jprop v ''stage'' = JStr (ca_stage a)"
    "jprop v ''state'' = JStr (chain_state_name (ca_state a))" "jprop v ''requestDigest'' = JStr (ca_requestDigest a)"
    "ca_stage a \<in> set OPERATIONAL_CYCLE_STAGES" "digest_pattern (ca_requestDigest a)"
    "ca_rawBytes a = strOrNone (jprop v ''rawBytes'')" "ca_nonce a = strOrNone (jprop v ''nonce'')"
    "ca_blockhash a = strOrNone (jprop v ''blockhash'')" "ca_hash a = strOrNone (jprop v ''hash'')"
  using assms unfolding assertChainTransactionAttempt_def
  by (auto simp: res_simps money_inversions dest: stateNamed_Inr)

text \<open>Signing material is present exactly when the attempt is signed.\<close>

lemma assertChain_material:
  assumes "assertChainTransactionAttempt v label = Inr a"
  shows "ca_state a = C_PREPARED \<Longrightarrow> ca_rawBytes a = None \<and> ca_nonce a = None \<and> ca_blockhash a = None \<and> ca_hash a = None"
    and "ca_state a \<noteq> C_PREPARED \<Longrightarrow> ca_rawBytes a \<noteq> None \<and> ca_hash a \<noteq> None \<and> (ca_nonce a = None) \<noteq> (ca_blockhash a = None)"
proof -
  let ?m = "if ca_state a = C_PREPARED
            then throwIf (jprop v ''rawBytes'' \<noteq> JNull \<or> jprop v ''nonce'' \<noteq> JNull \<or> jprop v ''blockhash'' \<noteq> JNull \<or> jprop v ''hash'' \<noteq> JNull)
                   (label @ '' prepared state cannot contain signing material'')
            else assertChainSigningMaterial v label"
  from assms have m: "?m = Inr ()" unfolding assertChainTransactionAttempt_def by (auto simp: res_simps)
  note f = assertChain_fields(7-10) [OF assms]
  show "ca_state a = C_PREPARED \<Longrightarrow> ca_rawBytes a = None \<and> ca_nonce a = None \<and> ca_blockhash a = None \<and> ca_hash a = None"
    using m by (simp add: f res_simps)
  show "ca_rawBytes a \<noteq> None \<and> ca_hash a \<noteq> None \<and> (ca_nonce a = None) \<noteq> (ca_blockhash a = None)" if "ca_state a \<noteq> C_PREPARED"
    using m that unfolding f assertChainSigningMaterial_def
    by (auto simp: res_simps money_inversions str_matches_iff split: if_splits)
qed

lemma transitionChain_Inr:
  assumes "transitionChainTransactionAttempt v s ev = Inr b"
  obtains a where "assertChainTransactionAttempt v chainLabel = Inr a" "s \<in> set (permittedChain (ca_state a))"
    "ca_state b = s" "ca_cycleId b = ca_cycleId a" "ca_stage b = ca_stage a" "ca_requestDigest b = ca_requestDigest a"
    "ca_state a \<noteq> C_PREPARED \<Longrightarrow> b = a\<lparr>ca_state := s\<rparr>"
proof -
  let ?w = "\<lambda>a. withProps (spread (jsval_of_chain a)) (spread ev @ [(''state'', JStr (chain_state_name s))])"
  from assms obtain a where a: "assertChainTransactionAttempt v chainLabel = Inr a" "s \<in> set (permittedChain (ca_state a))"
    and ev: "typeofObject ev" "ev \<noteq> JNull" "\<not> isArray ev"
    and k: "if ca_state a = C_PREPARED then sort (ownKeys ev) = [''blockhash'', ''hash'', ''nonce'', ''rawBytes''] else ownKeys ev = []"
    and b: "assertChainTransactionAttempt (?w a) chainLabel = Inr b"
    unfolding transitionChainTransactionAttempt_def by (auto simp: res_simps split: if_splits)
  have "set (ownKeys ev) \<subseteq> {''blockhash'', ''hash'', ''nonce'', ''rawBytes''}"
    using k by (auto split: if_splits dest!: arg_cong [where f = set])
  then have keys: "set (map fst (spread ev)) \<subseteq> {''blockhash'', ''hash'', ''nonce'', ''rawBytes''}"
    unfolding spread_ownKeys [OF ev(1-3)] .
  have obj: "JObj (spread (jsval_of_chain a)) = jsval_of_chain a" by (simp add: spread_def jsval_of_chain_def)
  have keep: "jprop (?w a) f = jprop (jsval_of_chain a) f" if "f \<noteq> ''state''" "f \<notin> set (map fst (spread ev))" for f
    using jprop_with_other [OF that, where ps = "spread (jsval_of_chain a)"] obj by metis
  have ids: "jprop (?w a) f = jprop (jsval_of_chain a) f" if "f \<in> {''cycleId'', ''stage'', ''requestDigest''}" for f
    by (rule keep) (use that keys in auto)
  have st: "ca_state b = s" using assertChain_fields(3) [OF b] by (simp add: jprop_with_state chain_state_name_inj)
  have same: "b = a\<lparr>ca_state := s\<rparr>" if "ca_state a \<noteq> C_PREPARED"
  proof -
    have "spread ev = []" using k that spread_ownKeys [OF ev] by simp
    then show ?thesis
      using assertChain_fields(1,2,4,7-10) [OF b] keep st by (cases a; cases b) simp
  qed
  show thesis
    using that [OF a st _ _ _ same] assertChain_fields(1,2,4) [OF b] ids [of "''cycleId''"] ids [of "''stage''"] ids [of "''requestDigest''"]
    by simp
qed

lemma assertLedger_fields:
  assumes "assertSignOnlyInvocationLedger v label = Inr l"
  shows "jprop v ''cycleId'' = JStr (sl_cycleId l)" "jprop v ''stage'' = JStr (sl_stage l)"
    "jprop v ''requestDigest'' = JStr (sl_requestDigest l)" "jprop v ''state'' = JStr (ledger_state_name (sl_state l))"
    "sl_stage l \<in> set OPERATIONAL_CYCLE_STAGES" "digest_pattern (sl_requestDigest l)"
  using assms unfolding assertSignOnlyInvocationLedger_def
  by (auto simp: res_simps money_inversions dest: stateNamed_Inr)

lemma jsval_of_ledger_props [simp]:
  "jprop (jsval_of_ledger l) ''cycleId'' = JStr (sl_cycleId l)" "jprop (jsval_of_ledger l) ''stage'' = JStr (sl_stage l)"
  "jprop (jsval_of_ledger l) ''requestDigest'' = JStr (sl_requestDigest l)"
  "jprop (jsval_of_ledger l) ''state'' = JStr (ledger_state_name (sl_state l))"
  by (simp_all add: jsval_of_ledger_def jprop_JObj)

lemma transitionLedger_Inr:
  assumes "transitionSignOnlyInvocationLedger (jsval_of_ledger l) s = Inr m"
  shows "s \<in> set (permittedLedger (sl_state l))" "m = l\<lparr>sl_state := s\<rparr>"
proof -
  from assms obtain c where c: "assertSignOnlyInvocationLedger (jsval_of_ledger l) ledgerLabel = Inr c"
    "s \<in> set (permittedLedger (sl_state c))" and m: "assertSignOnlyInvocationLedger (jsval_of_ledger (c\<lparr>sl_state := s\<rparr>)) ledgerLabel = Inr m"
    unfolding transitionSignOnlyInvocationLedger_def by (auto simp: res_simps)
  have "c = l" using assertLedger_fields [OF c(1)] by (cases c; cases l) (simp add: ledger_state_name_inj)
  with c(2) show "s \<in> set (permittedLedger (sl_state l))" by simp
  show "m = l\<lparr>sl_state := s\<rparr>"
    using assertLedger_fields [OF m] \<open>c = l\<close> by (cases m; cases l) (simp add: ledger_state_name_inj)
qed

section \<open>Comparison by text\<close>

text \<open>The code compares records by their canonical text; that is equality of the records.\<close>

lemma pure_records [simp]:
  "pureJson (jsval_of_provider a)" "pureJson (jsval_of_chain c)" "pureJson (jsval_of_ledger l)" "pureJson (jsval_of_binding b)"
  by (auto simp: jsval_of_provider_def jsval_of_chain_def jsval_of_ledger_def jsval_of_binding_def nullable_def split: option.split)

lemma plain_records [simp]:
  "isPlainObject (jsval_of_provider a)" "isPlainObject (jsval_of_chain c)" "isPlainObject (jsval_of_ledger l)"
  by (simp_all add: jsval_of_provider_def jsval_of_chain_def jsval_of_ledger_def isPlainObject_def)

lemma record_text_prop:
  assumes "textsDiffer v w = Inr False" "pureJson v" "pureJson w" "isPlainObject v" "isPlainObject w"
    and "isString (jprop v f) \<or> jprop v f = JNull"
  shows "jprop w f = jprop v f"
  using assms texts_same_prop [of _ _ f] by (auto simp: isPlainObject_iff)

lemma nullable_kind [simp]: "isString (nullable x) \<or> nullable x = JNull"
  by (simp add: nullable_def isString_def split: option.split)

lemma same_provider: "textsDiffer (jsval_of_provider a) (jsval_of_provider b) = Inr False \<Longrightarrow> a = b"
proof -
  assume t: "textsDiffer (jsval_of_provider a) (jsval_of_provider b) = Inr False"
  have eq: "jprop (jsval_of_provider b) f = jprop (jsval_of_provider a) f"
    if "isString (jprop (jsval_of_provider a) f) \<or> jprop (jsval_of_provider a) f = JNull" for f
    by (rule record_text_prop [OF t _ _ _ _ that]) simp_all
  show ?thesis
    using eq [of "''cycleId''"] eq [of "''stage''"] eq [of "''state''"] eq [of "''requestDigest''"] eq [of "''responseDigest''"]
      eq [of "''reconciliationDigest''"]
    by (cases a; cases b) (simp add: isString_def [of "JStr _"] nullable_inj provider_state_name_inj)
qed

lemma same_chain: "textsDiffer (jsval_of_chain a) (jsval_of_chain b) = Inr False \<Longrightarrow> a = b"
proof -
  assume t: "textsDiffer (jsval_of_chain a) (jsval_of_chain b) = Inr False"
  have eq: "jprop (jsval_of_chain b) f = jprop (jsval_of_chain a) f"
    if "isString (jprop (jsval_of_chain a) f) \<or> jprop (jsval_of_chain a) f = JNull" for f
    by (rule record_text_prop [OF t _ _ _ _ that]) simp_all
  show ?thesis
    using eq [of "''cycleId''"] eq [of "''stage''"] eq [of "''state''"] eq [of "''requestDigest''"] eq [of "''rawBytes''"]
      eq [of "''nonce''"] eq [of "''blockhash''"] eq [of "''hash''"]
    by (cases a; cases b) (simp add: isString_def [of "JStr _"] nullable_inj chain_state_name_inj)
qed

lemma same_ledger: "textsDiffer (jsval_of_ledger a) (jsval_of_ledger b) = Inr False \<Longrightarrow> a = b"
proof -
  assume t: "textsDiffer (jsval_of_ledger a) (jsval_of_ledger b) = Inr False"
  have eq: "jprop (jsval_of_ledger b) f = jprop (jsval_of_ledger a) f"
    if "isString (jprop (jsval_of_ledger a) f)" for f
    by (rule record_text_prop [OF t]) (simp_all add: that)
  show ?thesis
    using eq [of "''cycleId''"] eq [of "''stage''"] eq [of "''state''"] eq [of "''requestDigest''"]
    by (cases a; cases b) (simp add: isString_def [of "JStr _"] ledger_state_name_inj)
qed

end
