(* ===== verification/Pack_Plan.thy ===== *)
theory Pack_Plan
  imports Canonical_Json
begin

text \<open>
  The operator's pack plan, \<^verbatim>\<open>packages/runner/src/config/pack-plan.mjs\<close>, and the digested snapshot a cycle
  freezes of it, \<^verbatim>\<open>packages/runner/src/automation/pack-plan-snapshot.mjs\<close>.

  A validated plan is the record \<open>pack_plan\<close>; \<open>jsval_of_plan\<close> is the frozen object the code returns.  The plan
  is compared by its canonical JSON text; the text of a list of orders is shown to determine the orders, so
  the comparison is exact: a revision is consumed exactly when the orders change.
\<close>

section \<open>Plans\<close>

definition PACK_PLAN_SCHEMA :: string where "PACK_PLAN_SCHEMA = ''hookemon.pack-plan.v1''"
definition MAX_PACK_PLAN_ORDERS :: int where "MAX_PACK_PLAN_ORDERS = 64"

definition is_lower_alnum :: "char \<Rightarrow> bool" where
  "is_lower_alnum c = (c \<in> set ''abcdefghijklmnopqrstuvwxyz0123456789'')"

definition packCodePattern :: "string \<Rightarrow> bool" where
  "packCodePattern s = (case s of [] \<Rightarrow> False
     | c # cs \<Rightarrow> is_lower_alnum c \<and> 1 \<le> length cs \<and> length cs \<le> 63 \<and> list_all (\<lambda>d. is_lower_alnum d \<or> d \<in> set ''_-'') cs)"

record pack_plan =
  pp_revision :: int
  pp_orders :: "(string \<times> int) list"

definition orderObject :: "string \<times> int \<Rightarrow> jsval" where
  "orderObject p = JObj [(''pack'', JStr (fst p)), (''quantity'', JNum (snd p))]"

definition ordersArray :: "(string \<times> int) list \<Rightarrow> jsval" where
  "ordersArray os = JArr (map orderObject os)"

definition jsval_of_plan :: "pack_plan \<Rightarrow> jsval" where
  "jsval_of_plan p = JObj [(''schema'', JStr PACK_PLAN_SCHEMA), (''revision'', JNum (pp_revision p)),
                           (''orders'', ordersArray (pp_orders p))]"

definition exactObject :: "jsval \<Rightarrow> string list \<Rightarrow> string \<Rightarrow> unit res" where
  "exactObject v fieldNames label =
     bindE (canonicalJson v) (\<lambda>_.
       if \<not> isPlainObject v \<or> \<not> exactKeys v fieldNames then Inl (JsError (label @ '' must use the exact schema'')) else Inr ())"

text \<open>One iteration over the orders; the state holds \<open>previous\<close>, \<open>total\<close> and the orders collected so far.\<close>

type_synonym plan_state = "string option \<times> int \<times> (string \<times> int) list"

definition checkOrder :: "jsval \<Rightarrow> plan_state \<Rightarrow> plan_state res" where
  "checkOrder order st =
     (case st of (prev, tot, os) \<Rightarrow>
        bindE (exactObject order [''pack'', ''quantity''] ''pack plan order'') (\<lambda>_.
          let pack = jprop order ''pack''; quantity = jprop order ''quantity'' in
          if \<not> str_matches packCodePattern pack then Inl (JsError ''pack plan pack is invalid'')
          else if (case prev of None \<Rightarrow> False | Some p \<Rightarrow> str_of pack \<le> p) then Inl (JsError ''pack plan orders must be unique and sorted'')
          else if \<not> isSafeInteger quantity \<or> num_of quantity < 1 \<or> MAX_PACK_PLAN_ORDERS < num_of quantity
          then Inl (JsError ''pack plan quantity is invalid'')
          else if MAX_PACK_PLAN_ORDERS < tot + num_of quantity then Inl (JsError ''pack plan total quantity exceeds the hard cap'')
          else Inr (Some (str_of pack), tot + num_of quantity, os @ [(str_of pack, num_of quantity)])))"

definition assertPackPlan :: "jsval \<Rightarrow> pack_plan res" where
  "assertPackPlan v =
     bindE (exactObject v [''schema'', ''revision'', ''orders''] ''pack plan'') (\<lambda>_.
       if jprop v ''schema'' \<noteq> JStr PACK_PLAN_SCHEMA then Inl (JsError ''pack plan schema is invalid'')
       else if \<not> isSafeInteger (jprop v ''revision'') \<or> num_of (jprop v ''revision'') < 0 then Inl (JsError ''pack plan revision is invalid'')
       else if \<not> isArray (jprop v ''orders'') then Inl (JsError ''pack plan orders must be an array'')
       else bindE (foldE (\<lambda>_. checkOrder) 0 (arr_of (jprop v ''orders'')) (None, 0, [])) (\<lambda>(_, _, os).
         Inr \<lparr>pp_revision = num_of (jprop v ''revision''), pp_orders = os\<rparr>))"

definition planObject :: "int \<Rightarrow> jsval \<Rightarrow> jsval" where
  "planObject revision orders = JObj [(''schema'', JStr PACK_PLAN_SCHEMA), (''revision'', JNum revision), (''orders'', orders)]"

definition createEmptyPackPlan :: "pack_plan res" where
  "createEmptyPackPlan = assertPackPlan (planObject 0 (JArr []))"

definition replacePackPlan :: "jsval \<Rightarrow> jsval \<Rightarrow> pack_plan res" where
  "replacePackPlan current orders =
     bindE (assertPackPlan current) (\<lambda>base.
     bindE (assertPackPlan (planObject (pp_revision base) orders)) (\<lambda>candidate.
     bindE (canonicalJson (ordersArray (pp_orders base))) (\<lambda>a.
     bindE (canonicalJson (ordersArray (pp_orders candidate))) (\<lambda>b.
       if a = b then Inr base
       else assertPackPlan (planObject (pp_revision base + 1) (ordersArray (pp_orders candidate)))))))"

definition packPlanFromSelection :: "jsval \<Rightarrow> jsval \<Rightarrow> pack_plan res" where
  "packPlanFromSelection codes current =
     bindE (assertPackPlan current) (\<lambda>base.
     bindE (canonicalJson codes) (\<lambda>_.
       if \<not> isArray codes \<or> list_ex (\<lambda>c. \<not> str_matches packCodePattern c) (arr_of codes)
       then Inl (JsError ''pack plan selection is invalid'')
       else let quantityOf = (\<lambda>p. case map_of (pp_orders base) p of None \<Rightarrow> 1 | Some q \<Rightarrow> q) in
         replacePackPlan (jsval_of_plan base)
           (ordersArray (map (\<lambda>p. (p, quantityOf p)) (sort (remdups (map str_of (arr_of codes))))))))"

section \<open>Snapshots\<close>

definition PACK_PLAN_SNAPSHOT_SCHEMA :: string where "PACK_PLAN_SNAPSHOT_SCHEMA = ''hookemon.pack-plan-snapshot.v1''"

definition cycleIdPattern :: "string \<Rightarrow> bool" where
  "cycleIdPattern s =
     (let alnum = (\<lambda>c. c \<in> set ''ABCDEFGHIJKLMNOPQRSTUVWXYZabcdefghijklmnopqrstuvwxyz0123456789'') in
      case s of [] \<Rightarrow> False
      | c # cs \<Rightarrow> alnum c \<and> 1 \<le> length cs \<and> length cs \<le> 127 \<and> list_all (\<lambda>d. alnum d \<or> d \<in> set '':._-'') cs)"

record pack_plan_snapshot =
  ps_cycleId :: string
  ps_plan :: pack_plan
  ps_digest :: string

definition snapshotPayload :: "string \<Rightarrow> pack_plan \<Rightarrow> (string \<times> jsval) list" where
  "snapshotPayload cid p =
     [(''schema'', JStr PACK_PLAN_SNAPSHOT_SCHEMA), (''cycleId'', JStr cid), (''plan'', jsval_of_plan p)]"

definition jsval_of_pack_snapshot :: "pack_plan_snapshot \<Rightarrow> jsval" where
  "jsval_of_pack_snapshot s = JObj (snapshotPayload (ps_cycleId s) (ps_plan s) @ [(''digest'', JStr (ps_digest s))])"

definition createPackPlanSnapshot :: "(string \<Rightarrow> string) \<Rightarrow> jsval \<Rightarrow> pack_plan_snapshot res" where
  "createPackPlanSnapshot sha v =
     (if \<not> str_matches cycleIdPattern (jprop v ''cycleId'') then Inl (JsError ''pack plan snapshot cycleId is invalid'')
      else let cid = str_of (jprop v ''cycleId'') in
        bindE (assertPackPlan (jprop v ''plan'')) (\<lambda>p.
        bindE (digest sha (JObj (snapshotPayload cid p))) (\<lambda>d.
          Inr \<lparr>ps_cycleId = cid, ps_plan = p, ps_digest = d\<rparr>)))"

text \<open>\<open>expected\<close> is the optional \<open>cycleId\<close> of the second argument, \<open>JUndefined\<close> when absent.\<close>

definition assertPackPlanSnapshot :: "(string \<Rightarrow> string) \<Rightarrow> jsval \<Rightarrow> jsval \<Rightarrow> pack_plan_snapshot res" where
  "assertPackPlanSnapshot sha v expected =
     bindE (canonicalJson v) (\<lambda>_.
       if \<not> isPlainObject v \<or> \<not> exactKeys v [''schema'', ''cycleId'', ''plan'', ''digest'']
       then Inl (JsError ''pack plan snapshot must use the exact schema'')
       else if jprop v ''schema'' \<noteq> JStr PACK_PLAN_SNAPSHOT_SCHEMA then Inl (JsError ''pack plan snapshot schema is invalid'')
       else bindE (createPackPlanSnapshot sha v) (\<lambda>s.
         if jprop v ''digest'' \<noteq> JStr (ps_digest s) then Inl (JsError ''pack plan snapshot digest mismatch'')
         else if expected \<noteq> JUndefined \<and> expected \<noteq> JStr (ps_cycleId s) then Inl (JsError ''pack plan snapshot cycleId mismatch'')
         else Inr s))"

section \<open>What a validated plan is\<close>

definition planOrdersOk :: "(string \<times> int) list \<Rightarrow> bool" where
  "planOrdersOk os =
     (sorted_wrt (<) (map fst os) \<and> list_all (\<lambda>p. packCodePattern (fst p) \<and> 1 \<le> snd p) os \<and> sum_list (map snd os) \<le> MAX_PACK_PLAN_ORDERS)"

definition orderStateOk :: "jsval list \<Rightarrow> plan_state \<Rightarrow> bool" where
  "orderStateOk pre st = (case st of (prev, tot, os) \<Rightarrow>
     planOrdersOk os \<and> tot = sum_list (map snd os) \<and> prev = (if os = [] then None else Some (fst (last os)))
     \<and> os = map (\<lambda>o'. (str_of (jprop o' ''pack''), num_of (jprop o' ''quantity''))) pre)"

lemma sorted_snoc:
  fixes x :: string
  shows "sorted_wrt (<) (xs @ [x]) \<longleftrightarrow> sorted_wrt (<) xs \<and> (xs \<noteq> [] \<longrightarrow> last xs < x)"
proof (induction xs)
  case (Cons y ys)
  then show ?case by (cases "ys = []") (auto simp: sorted_wrt_append dest: less_trans last_in_set)
qed simp

lemma checkOrder_step:
  assumes "orderStateOk pre st" and "checkOrder order st = Inr st'"
  shows "orderStateOk (pre @ [order]) st'"
proof -
  obtain prev tot os where st: "st = (prev, tot, os)" by (cases st)
  let ?p = "str_of (jprop order ''pack'')" and ?q = "num_of (jprop order ''quantity'')"
  from assms(2) have p: "packCodePattern ?p" and lt: "\<not> (case prev of None \<Rightarrow> False | Some p \<Rightarrow> ?p \<le> p)"
    and q: "1 \<le> ?q" "tot + ?q \<le> MAX_PACK_PLAN_ORDERS" and st': "st' = (Some ?p, tot + ?q, os @ [(?p, ?q)])"
    by (auto simp: checkOrder_def st Let_def res_simps str_matches_iff not_less not_le)
  have "os \<noteq> [] \<Longrightarrow> fst (last os) < ?p" using assms(1) lt by (simp add: orderStateOk_def st not_le)
  moreover have ok: "planOrdersOk os" "tot = sum_list (map snd os)" using assms(1) unfolding orderStateOk_def st prod.case by blast+
  ultimately have "planOrdersOk (os @ [(?p, ?q)])"
    using p q by (simp add: planOrdersOk_def sorted_snoc last_map)
  with assms(1) ok(2) show ?thesis unfolding st st' orderStateOk_def by simp
qed

lemma assertPackPlan_Inr:
  assumes "assertPackPlan v = Inr p"
  shows "planOrdersOk (pp_orders p)" and "0 \<le> pp_revision p" and "safeInt (pp_revision p)"
    and "pp_orders p = map (\<lambda>o'. (str_of (jprop o' ''pack''), num_of (jprop o' ''quantity''))) (arr_of (jprop v ''orders''))"
    and "pp_revision p = num_of (jprop v ''revision'')"
proof -
  from assms obtain prev tot os where f: "foldE (\<lambda>_. checkOrder) 0 (arr_of (jprop v ''orders'')) (None, 0, []) = Inr (prev, tot, os)"
    and p: "p = \<lparr>pp_revision = num_of (jprop v ''revision''), pp_orders = os\<rparr>"
    and r: "isSafeInteger (jprop v ''revision'')" "0 \<le> num_of (jprop v ''revision'')"
    by (auto simp: assertPackPlan_def res_simps)
  have "orderStateOk ([] @ arr_of (jprop v ''orders'')) (prev, tot, os)"
  proof (rule foldE_prefix_invariant [where P = orderStateOk, OF f])
    show "orderStateOk [] (None, 0, [])" by (simp add: orderStateOk_def planOrdersOk_def MAX_PACK_PLAN_ORDERS_def)
  qed (rule checkOrder_step)
  with p r show "planOrdersOk (pp_orders p)" "0 \<le> pp_revision p" "safeInt (pp_revision p)"
    "pp_orders p = map (\<lambda>o'. (str_of (jprop o' ''pack''), num_of (jprop o' ''quantity''))) (arr_of (jprop v ''orders''))"
    "pp_revision p = num_of (jprop v ''revision'')"
    by (auto simp: orderStateOk_def isSafeInteger_def num_of_def split: jsval.splits)
qed

section \<open>The text of the orders determines the orders\<close>

lemma split_at_unique:
  assumes "c \<notin> set p" and "c \<notin> set q" and "p @ c # r = q @ c # t"
  shows "p = q \<and> r = t"
  using assms
proof (induction p arbitrary: q)
  case Nil
  then show ?case by (cases q) auto
next
  case (Cons x p)
  then show ?case by (cases q) auto
qed

definition packChar :: "char \<Rightarrow> bool" where
  "packChar c = (is_lower_alnum c \<or> c \<in> set ''_-'')"

lemma packCodePattern_chars: "packCodePattern s \<Longrightarrow> list_all packChar s"
  by (auto simp: packCodePattern_def packChar_def list_all_iff split: list.splits)

lemma packChar_plain: "packChar c \<Longrightarrow> json_escape c = [c] \<and> c \<noteq> CHR 0x22"
proof -
  have "list_all (\<lambda>c. json_escape c = [c] \<and> c \<noteq> CHR 0x22) (''abcdefghijklmnopqrstuvwxyz0123456789'' @ ''_-'')" by code_simp
  then show "packChar c \<Longrightarrow> json_escape c = [c] \<and> c \<noteq> CHR 0x22"
    unfolding list_all_iff packChar_def is_lower_alnum_def by (simp only: set_append Un_iff) blast
qed

lemma json_string_code: "packCodePattern s \<Longrightarrow> json_string s = CHR 0x22 # s @ [CHR 0x22]" "packCodePattern s \<Longrightarrow> CHR 0x22 \<notin> set s"
proof -
  have "list_all packChar s \<Longrightarrow> concat (map json_escape s) = s \<and> CHR 0x22 \<notin> set s" for s
    using packChar_plain by (induction s) auto
  then show "packCodePattern s \<Longrightarrow> json_string s = CHR 0x22 # s @ [CHR 0x22]" "packCodePattern s \<Longrightarrow> CHR 0x22 \<notin> set s"
    by (simp_all add: json_string_def packCodePattern_chars)
qed

lemma decimal_digits: "list_all is_digit (dec_of_nat n)"
  using is_decimal_dec_of_nat [of n]
  by (auto simp: is_decimal_def is_pos_decimal_def is_digit_def split: list.splits)

lemma decimal_no_brace: "CHR ''}'' \<notin> set (dec_of_nat n)"
proof -
  have "\<not> is_digit CHR ''}''" by (simp add: is_digit_def)
  with decimal_digits [of n] show ?thesis by (auto simp: list_all_iff)
qed

definition orderHead :: string where
  "orderHead = ''{'' @ json_string ''pack'' @ '':''"

definition orderMiddle :: string where
  "orderMiddle = '','' @ json_string ''quantity'' @ '':''"

definition orderText :: "string \<times> int \<Rightarrow> string" where
  "orderText p = orderHead @ json_string (fst p) @ orderMiddle @ json_int (snd p) @ ''}''"

definition orderOk :: "string \<times> int \<Rightarrow> bool" where
  "orderOk p = (packCodePattern (fst p) \<and> 1 \<le> snd p)"

lemma orderText_prefix:
  assumes "orderOk a" and "orderOk b" and "orderText a @ x = orderText b @ y"
  shows "a = b \<and> x = y"
proof -
  have "fst a @ CHR 0x22 # orderMiddle @ json_int (snd a) @ ''}'' @ x = fst b @ CHR 0x22 # orderMiddle @ json_int (snd b) @ ''}'' @ y"
    using assms by (simp add: orderText_def orderOk_def json_string_code(1))
  then have f: "fst a = fst b" and "orderMiddle @ json_int (snd a) @ ''}'' @ x = orderMiddle @ json_int (snd b) @ ''}'' @ y"
    using split_at_unique [OF json_string_code(2) json_string_code(2)] assms(1,2) unfolding orderOk_def by blast+
  then have "dec_of_nat (nat (snd a)) @ CHR ''}'' # x = dec_of_nat (nat (snd b)) @ CHR ''}'' # y"
    using assms(1,2) by (simp add: json_int_def orderOk_def)
  from split_at_unique [OF decimal_no_brace decimal_no_brace this] have "nat (snd a) = nat (snd b)" "x = y" by simp_all
  with f assms(1,2) show ?thesis by (auto simp: orderOk_def prod_eq_iff eq_nat_nat_iff)
qed

lemma orderText_head: "\<exists>t. orderText a = CHR ''{'' # t"
  by (simp add: orderText_def orderHead_def)

lemma join_orders_inj:
  assumes "list_all orderOk xs" and "list_all orderOk ys" and "json_join (map orderText xs) @ '']'' = json_join (map orderText ys) @ '']''"
  shows "xs = ys"
  using assms
proof (induction xs arbitrary: ys)
  case Nil
  show ?case
  proof (cases ys)
    case (Cons b ys')
    then show ?thesis using Nil orderText_head [of b] by (cases ys') auto
  qed simp
next
  case (Cons a xs)
  obtain b ys' where ys: "ys = b # ys'"
  proof (cases ys)
    case Nil
    then show thesis using Cons.prems orderText_head [of a] by (cases xs) auto
  qed
  have tail: "json_join (map orderText (c # cs)) @ '']'' = orderText c @ (if cs = [] then '']'' else '','' @ json_join (map orderText cs) @ '']'')" for c cs
    by (cases cs) simp_all
  have "a = b" and rest: "(if xs = [] then '']'' else '','' @ json_join (map orderText xs) @ '']'')
      = (if ys' = [] then '']'' else '','' @ json_join (map orderText ys') @ '']'')"
    using orderText_prefix [OF _ _ Cons.prems(3) [unfolded ys tail]] Cons.prems(1,2) unfolding ys by simp_all
  moreover have "xs = ys'"
  proof (cases "xs = []"; cases "ys' = []")
    assume "xs \<noteq> []" "ys' \<noteq> []"
    then show ?thesis using rest Cons.prems ys by (intro Cons.IH) simp_all
  qed (use rest in auto)
  ultimately show ?case using ys by simp
qed

lemma orderObject_text:
  "canonicalJsonUnchecked (orderObject p) = Inr (orderText p)"
  by (simp add: orderObject_def orderText_def orderHead_def orderMiddle_def assertCanonicalObject_def forbiddenKeys_def val_defs
      json_string_def)

lemma ordersArray_text:
  "canonicalJsonUnchecked (ordersArray os) = Inr (''['' @ json_join (map orderText os) @ '']'')"
proof -
  have "mapE (\<lambda>_ x. canonicalJsonUnchecked x) i (map orderObject os) = Inr (map orderText os)" for i
    by (simp add: mapE_Inr_iff orderObject_text)
  then show ?thesis by (simp add: ordersArray_def)
qed

lemma orders_text_inj:
  assumes "planOrdersOk xs" and "planOrdersOk ys"
    and "canonicalJson (ordersArray xs) = Inr t" and "canonicalJson (ordersArray ys) = Inr t"
  shows "xs = ys"
proof (rule join_orders_inj)
  show "list_all orderOk xs" "list_all orderOk ys" using assms(1,2) by (simp_all add: planOrdersOk_def orderOk_def list_all_iff)
  show "json_join (map orderText xs) @ '']'' = json_join (map orderText ys) @ '']''"
    using assms(3,4) by (auto simp: canonicalJson_def res_simps ordersArray_text)
qed

section \<open>Properties\<close>

lemma reparse_plan:
  assumes "assertPackPlan (planObject r (ordersArray os)) = Inr p"
  shows "pp_orders p = os" and "pp_revision p = r" and "planOrdersOk os"
proof -
  note a = assertPackPlan_Inr [OF assms]
  have "map (\<lambda>o'. (str_of (jprop o' ''pack''), num_of (jprop o' ''quantity''))) (map orderObject os) = os"
    by (simp add: orderObject_def jprop_JObj comp_def)
  then show "pp_orders p = os" using a(4) by (simp add: planObject_def ordersArray_def jprop_JObj)
  then show "planOrdersOk os" using a(1) by simp
  show "pp_revision p = r" using a(5) by (simp add: planObject_def jprop_JObj)
qed

lemma jsval_of_plan_object: "jsval_of_plan p = planObject (pp_revision p) (ordersArray (pp_orders p))"
  by (simp add: jsval_of_plan_def planObject_def)

lemma replacePackPlan_Inr:
  assumes "replacePackPlan (jsval_of_plan base) (ordersArray os) = Inr plan"
  shows "pp_orders plan = os" and "planOrdersOk os"
    and "pp_revision plan = pp_revision base + (if os = pp_orders base then 0 else 1)"
proof -
  from assms obtain b c ta tb where b: "assertPackPlan (jsval_of_plan base) = Inr b"
    and c: "assertPackPlan (planObject (pp_revision b) (ordersArray os)) = Inr c"
    and t: "canonicalJson (ordersArray (pp_orders b)) = Inr ta" "canonicalJson (ordersArray (pp_orders c)) = Inr tb"
    and r: "(if ta = tb then Inr b else assertPackPlan (planObject (pp_revision b + 1) (ordersArray (pp_orders c)))) = Inr plan"
    unfolding replacePackPlan_def bindE_Inr_iff by blast
  note pb = reparse_plan [OF b [unfolded jsval_of_plan_object]] and pc = reparse_plan [OF c]
  show "planOrdersOk os" by (rule pc(3))
  show "pp_orders plan = os" "pp_revision plan = pp_revision base + (if os = pp_orders base then 0 else 1)"
  proof (atomize (full), cases "ta = tb")
    case True
    with r have "plan = b" by simp
    moreover have "pp_orders base = os" using orders_text_inj [OF pb(3) pc(3)] t True pb(1) pc(1) by simp
    ultimately show "pp_orders plan = os \<and> pp_revision plan = pp_revision base + (if os = pp_orders base then 0 else 1)" using pb by simp
  next
    case False
    then have "assertPackPlan (planObject (pp_revision base + 1) (ordersArray os)) = Inr plan" using r pb(2) pc(1) by simp
    moreover have "os \<noteq> pp_orders base" using False t pb(1) pc(1) by auto
    ultimately show "pp_orders plan = os \<and> pp_revision plan = pp_revision base + (if os = pp_orders base then 0 else 1)"
      using reparse_plan by simp
  qed
qed

text \<open>
  C34. Selecting packs gives exactly the selected codes, without duplicates and in ascending order, each with the
  quantity the plan already had for it or one; the plan stays within the cap of 64 unit purchases, and its revision
  is advanced by one exactly when the orders change.
\<close>

theorem pack_selection_exact:
  assumes "assertPackPlan current = Inr base" and "packPlanFromSelection codes current = Inr plan"
  shows "pp_orders plan = map (\<lambda>p. (p, case map_of (pp_orders base) p of None \<Rightarrow> 1 | Some q \<Rightarrow> q))
           (sort (remdups (map str_of (arr_of codes))))
         \<and> sum_list (map snd (pp_orders plan)) \<le> 64
         \<and> pp_revision plan = pp_revision base + (if pp_orders plan = pp_orders base then 0 else 1)"
proof -
  let ?os = "map (\<lambda>p. (p, case map_of (pp_orders base) p of None \<Rightarrow> 1 | Some q \<Rightarrow> q)) (sort (remdups (map str_of (arr_of codes))))"
  have "replacePackPlan (jsval_of_plan base) (ordersArray ?os) = Inr plan"
    using assms by (auto simp: packPlanFromSelection_def Let_def res_simps)
  from replacePackPlan_Inr [OF this] show ?thesis by (simp add: planOrdersOk_def MAX_PACK_PLAN_ORDERS_def)
qed

lemma length_dec: "length (dec_of_nat n) \<le> Suc n"
proof (induction n rule: dec_of_nat.induct)
  case (1 n)
  then show ?case by (cases "n < 10") (simp_all add: dec_of_nat.simps [of n])
qed

lemma keyBytes_le: "keyBytes i n \<le> n * (i + n + 1)"
proof (induction n arbitrary: i)
  case (Suc n)
  have "keyBytes i (Suc n) \<le> Suc i + n * (Suc i + n + 1)" using Suc [of "Suc i"] length_dec [of i] by simp
  then show ?case by (simp add: algebra_simps)
qed simp

lemma packCode_length: "packCodePattern s \<Longrightarrow> length s \<le> 64"
  by (cases s) (simp_all add: packCodePattern_def)

lemma planOrders_small:
  assumes "planOrdersOk os"
  shows "length os \<le> 64" and "list_all (\<lambda>p. length (fst p) \<le> 64) os"
proof -
  have "int (length xs) \<le> sum_list (map snd xs)" if "list_all (\<lambda>p. packCodePattern (fst p) \<and> 1 \<le> snd p) xs" for xs
    using that by (induction xs) auto
  then have "int (length os) \<le> 64" using assms by (force simp: planOrdersOk_def MAX_PACK_PLAN_ORDERS_def)
  then show "length os \<le> 64" by simp
  show "list_all (\<lambda>p. length (fst p) \<le> 64) os"
    using assms packCode_length by (auto simp: planOrdersOk_def list_all_iff)
qed

lemma orders_measures:
  "objectsOf (ordersArray os) = length os" "arraysOf (ordersArray os) = 1"
  "list_all (\<lambda>p. length (fst p) \<le> 64) os \<Longrightarrow> bytesOf (ordersArray os) \<le> length os * (length os + 1) + 76 * length os"
proof -
  show "objectsOf (ordersArray os) = length os" by (induction os) (simp_all add: ordersArray_def orderObject_def)
  have "sum_list (map (arraysOf \<circ> orderObject) os) = 0" by (induction os) (simp_all add: orderObject_def)
  then show "arraysOf (ordersArray os) = 1" by (simp add: ordersArray_def)
  assume "list_all (\<lambda>p. length (fst p) \<le> 64) os"
  then have "sum_list (map (bytesOf \<circ> orderObject) os) \<le> 76 * length os" by (induction os) (simp_all add: orderObject_def)
  with keyBytes_le [of 0 "length os"] show "bytesOf (ordersArray os) \<le> length os * (length os + 1) + 76 * length os"
    by (simp add: ordersArray_def)
qed

lemma orders_fit:
  assumes "length os \<le> 64" and "list_all (\<lambda>p. length (fst p) \<le> 64) os" and "d \<le> 1"
  shows "fits 512 d (ordersArray os)"
proof -
  have "length (dec_of_nat i) \<le> 256" if "i < length os" for i using length_dec [of i] that assms(1) by linarith
  then show ?thesis using assms
    by (auto simp: ordersArray_def orderObject_def list_all_iff canonicalDepth_def propertyKeyBytes_def canonicalObjectFields_def decimalDigits_def)
qed

lemma order_exact:
  assumes "length (fst p) \<le> 64"
  shows "exactObject (orderObject p) [''pack'', ''quantity''] label = Inr ()"
proof -
  have "canonicalJson (orderObject p) = canonicalJsonUnchecked (orderObject p)"
    by (rule canonicalJson_fits) (use assms in \<open>simp_all add: orderObject_def canonicalDepth_def propertyKeyBytes_def
        canonicalObjectFields_def decimalDigits_def\<close>)
  then show ?thesis by (simp add: exactObject_def orderObject_text) (simp add: orderObject_def val_defs)
qed

lemma planObject_exact:
  assumes "planOrdersOk os"
  shows "exactObject (planObject r (ordersArray os)) [''schema'', ''revision'', ''orders''] label = Inr ()"
proof -
  note sm = planOrders_small [OF assms]
  have "length os * (length os + 1) \<le> 64 * 65" using sm(1) by (intro mult_le_mono) simp_all
  then have b: "bytesOf (ordersArray os) \<le> 10000" using orders_measures(3) [OF sm(2)] sm(1) by linarith
  have "canonicalJson (planObject r (ordersArray os)) = canonicalJsonUnchecked (planObject r (ordersArray os))"
    by (rule canonicalJson_fits) (use sm b orders_measures(1,2) [of os] orders_fit [OF sm, of 1] in
        \<open>simp_all add: planObject_def canonicalDepth_def propertyKeyBytes_def canonicalObjectFields_def decimalDigits_def PACK_PLAN_SCHEMA_def\<close>)
  moreover have "isOk (canonicalJsonUnchecked (planObject r (ordersArray os)))"
    by (simp add: planObject_def assertCanonicalObject_def forbiddenKeys_def val_defs ordersArray_text)
  moreover have "isPlainObject (planObject r (ordersArray os))"
    "exactKeys (planObject r (ordersArray os)) [''schema'', ''revision'', ''orders'']" by (simp_all add: planObject_def val_defs)
  ultimately show ?thesis by (auto simp: exactObject_def isOk_iff)
qed

text \<open>Every well-formed plan is accepted and read back unchanged.\<close>

lemma checkOrders_ok:
  assumes "planOrdersOk (pre @ os)"
  shows "foldE (\<lambda>_. checkOrder) i (map orderObject os) (if pre = [] then None else Some (fst (last pre)), sum_list (map snd pre), pre)
       = Inr (if pre @ os = [] then None else Some (fst (last (pre @ os))), sum_list (map snd (pre @ os)), pre @ os)"
  using assms
proof (induction os arbitrary: pre i)
  case Nil
  then show ?case by simp
next
  case (Cons p os)
  have ok: "packCodePattern (fst p)" "1 \<le> snd p" using Cons.prems by (simp_all add: planOrdersOk_def)
  have nn: "0 \<le> sum_list (map snd xs)" if "list_all (\<lambda>p. packCodePattern (fst p) \<and> 1 \<le> snd p) xs"
    for xs :: "(string \<times> int) list" using that by (induction xs) auto
  have tot: "sum_list (map snd pre) + snd p \<le> 64" "snd p \<le> 64"
    using Cons.prems nn [of pre] nn [of os] by (auto simp: planOrdersOk_def MAX_PACK_PLAN_ORDERS_def)
  have lt: "pre \<noteq> [] \<Longrightarrow> \<not> fst p \<le> fst (last pre)"
    using Cons.prems by (auto simp: planOrdersOk_def sorted_wrt_append not_le)
  have "length (fst p) \<le> 64" using planOrders_small(2) [OF Cons.prems] by simp
  then have step: "checkOrder (orderObject p) (if pre = [] then None else Some (fst (last pre)), sum_list (map snd pre), pre)
      = Inr (Some (fst p), sum_list (map snd pre) + snd p, pre @ [p])"
    using ok tot lt by (simp add: checkOrder_def order_exact) (simp add: orderObject_def val_defs MAX_PACK_PLAN_ORDERS_def)
  have "foldE (\<lambda>_. checkOrder) (Suc i) (map orderObject os) (if pre @ [p] = [] then None else Some (fst (last (pre @ [p]))),
      sum_list (map snd (pre @ [p])), pre @ [p])
    = Inr (if (pre @ [p]) @ os = [] then None else Some (fst (last ((pre @ [p]) @ os))), sum_list (map snd ((pre @ [p]) @ os)), (pre @ [p]) @ os)"
    by (rule Cons.IH) (use Cons.prems in simp)
  with step show ?case by simp
qed

lemma assertPackPlan_ok:
  assumes "planOrdersOk os" and "0 \<le> r" and "safeInt r"
  shows "assertPackPlan (planObject r (ordersArray os)) = Inr \<lparr>pp_revision = r, pp_orders = os\<rparr>"
  using checkOrders_ok [of "[]" os 0] assms
  by (simp add: assertPackPlan_def planObject_exact) (simp add: planObject_def ordersArray_def val_defs)

definition ex_codes :: jsval where
  "ex_codes = JArr [JStr ''nova'', JStr ''base'', JStr ''nova'']"

definition ex_plan :: jsval where
  "ex_plan = planObject 3 (ordersArray [(''base'', 4)])"

lemma ex_orders_ok: "planOrdersOk [(''base'', 4)]" "planOrdersOk [(''base'', 4), (''nova'', 1)]"
  by (simp_all add: planOrdersOk_def packCodePattern_def is_lower_alnum_def MAX_PACK_PLAN_ORDERS_def less_list_code)

lemma ex_plan_selection: "packPlanFromSelection ex_codes ex_plan = Inr \<lparr>pp_revision = 4, pp_orders = [(''base'', 4), (''nova'', 1)]\<rparr>"
proof -
  have sa: "safeInt 3" "safeInt 4" by (simp_all add: safeInt_def MAX_SAFE_INTEGER_def)
  have "canonicalJson ex_codes = canonicalJsonUnchecked ex_codes"
  proof (rule canonicalJson_fits)
    have "length (dec_of_nat i) \<le> 256" if "i < 3" for i using length_dec [of i] that by linarith
    then show "fits 512 0 ex_codes"
      by (auto simp: ex_codes_def canonicalDepth_def decimalDigits_def propertyKeyBytes_def list_all_iff)
    show "bytesOf ex_codes \<le> 4194304" using length_dec [of 1] length_dec [of 2] by (simp add: ex_codes_def numeral_2_eq_2)
  qed (simp_all add: ex_codes_def)
  then have c: "isOk (canonicalJson ex_codes)" by (simp add: ex_codes_def)
  have t: "canonicalJson (ordersArray os) = Inr (''['' @ json_join (map orderText os) @ '']'')"
    if "os = [(''base'', 4)] \<or> os = [(''base'', 4), (''nova'', 1)]" for os
  proof -
    have "length os \<le> 64" "list_all (\<lambda>p. length (fst p) \<le> 64) os" using that by auto
    with orders_measures [of os] orders_fit [of os 0] that have "canonicalJson (ordersArray os) = canonicalJsonUnchecked (ordersArray os)"
      by (intro canonicalJson_fits) auto
    then show ?thesis by (simp add: ordersArray_text)
  qed
  have "replacePackPlan (jsval_of_plan \<lparr>pp_revision = 3, pp_orders = [(''base'', 4)]\<rparr>) (ordersArray [(''base'', 4), (''nova'', 1)])
      = Inr \<lparr>pp_revision = 4, pp_orders = [(''base'', 4), (''nova'', 1)]\<rparr>"
    using ex_orders_ok sa t by (simp add: replacePackPlan_def jsval_of_plan_object assertPackPlan_ok orderText_def)
  moreover have "sort (remdups (map str_of (arr_of ex_codes))) = [''base'', ''nova'']"
    by (simp add: ex_codes_def less_list_code less_eq_list_code)
  moreover have "list_ex (\<lambda>c. \<not> str_matches packCodePattern c) (arr_of ex_codes) = False" "isArray ex_codes"
    by (simp_all add: ex_codes_def packCodePattern_def is_lower_alnum_def isArray_def)
  ultimately show ?thesis using c sa ex_orders_ok(1)
    by (auto simp: packPlanFromSelection_def ex_plan_def assertPackPlan_ok Let_def isOk_iff)
qed

theorem pack_selection_exact_witness:
  "\<exists>base plan. assertPackPlan ex_plan = Inr base \<and> packPlanFromSelection ex_codes ex_plan = Inr plan \<and> pp_revision plan = pp_revision base + 1"
proof -
  have b: "assertPackPlan ex_plan = Inr \<lparr>pp_revision = 3, pp_orders = [(''base'', 4)]\<rparr>"
    unfolding ex_plan_def by (rule assertPackPlan_ok [OF ex_orders_ok(1)]) (simp_all add: safeInt_def MAX_SAFE_INTEGER_def)
  from pack_selection_exact [OF b ex_plan_selection] b ex_plan_selection show ?thesis by auto
qed

end
