(* ===== verification/Cycle_Service.thy ===== *)
theory Cycle_Service
  imports Effects Js_Objects Money_Attempts Budget_Gate Pack_Plan Reward_Selection
begin

text \<open>
  The stage sequencer of the runner: \<^verbatim>\<open>packages/runner/src/automation/automated-cycle-service.mjs\<close>.

  \<open>AutomatedCycleService\<close> takes the cycle lease, settles left-over work, opens a cycle when budget and policy
  allow it, and drives the cycle through its stages.  Everything it does is a call to a collaborator that
  was passed to the constructor, so its methods are programs over \<open>svc_call\<close> (theory \<open>Effects\<close>): one
  constructor per call the code makes, with the arguments it passes; the environment answers or throws.  The lease functions and the
  clock are calls too.  The validated configuration is the record \<open>svc\<close>.

  The mutable variables \<open>lease\<close> and \<open>heartbeatError\<close>, which the heartbeat timer changes while a call is
  awaited, are functions of the history: \<open>currentLease\<close> is the last lease an acquisition or renewal returned,
  \<open>heartbeatError\<close> the error of the heartbeat that failed.  \<open>awaitP\<close> lets any number of
  heartbeats happen during an awaited call.  \<open>context.lease\<close> is a copy that every
  heartbeat updates, so it is the current lease at each call.  Closures passed as arguments are \<open>JFun\<close>.
\<close>

section \<open>Constants\<close>

definition AUTOMATED_CYCLE_STAGES :: "string list" where
  "AUTOMATED_CYCLE_STAGES = OPERATIONAL_CYCLE_STAGES"

definition STAGE_JOIN_PRECONDITIONS :: "string \<Rightarrow> string list" where
  "STAGE_JOIN_PRECONDITIONS stage =
     (if stage = ''claim-process'' then [''eligibility-snapshot'']
      else if stage = ''payout'' then [''eligibility-snapshot'', ''return''] else [])"

section \<open>Configuration\<close>

record svc =
  svc_owner :: jsval
  svc_leaseTtlMs :: jsval
  svc_liveMode :: bool
  svc_mode :: string
  svc_providerMode :: jsval
  svc_dryRun :: bool
  svc_packId :: jsval
  svc_readPackPlan :: bool
  svc_readCycleConfiguration :: bool
  svc_policyEngine :: jsval
  svc_policyCapMicroUsd :: jsval
  svc_recoveryGuard :: bool
  svc_beforeComplete :: bool
  svc_beforeMutation :: bool
  svc_rehearsalSessionId :: jsval
  svc_admissionPlanner :: jsval
  svc_quoteRefreshPlanner :: jsval
  svc_operationsAccounts :: jsval
  svc_cycleRepository :: jsval
  svc_stageDriver :: jsval
  svc_now :: jsval
  svc_leaseStore :: jsval
  svc_budgetReader :: jsval
  svc_runnerFactory :: jsval
  svc_feeSettlementObserver :: jsval

definition requiredFields :: "string list" where
  "requiredFields = [''owner'', ''leaseTtlMs'', ''now'', ''leaseStore'', ''budgetReader'', ''cycleRepository'', ''runnerFactory'',
     ''stageDriver'', ''feeSettlementObserver'', ''liveMode'']"

definition optionalFields :: "string list" where
  "optionalFields = [''readCycleConfiguration'', ''readPackPlan'', ''packId'', ''policyEngine'', ''mode'', ''providerMode'', ''dryRun'',
     ''policyCapMicroUsd'', ''recoveryGuard'', ''beforeComplete'', ''beforeMutation'', ''rehearsalSessionId'', ''admissionPlanner'',
     ''quoteRefreshPlanner'', ''operationsAccounts'']"

definition hasMethod :: "jsval \<Rightarrow> string \<Rightarrow> bool" where
  "hasMethod v m = (jprop v m = JFun)"

definition requireMethod :: "jsval \<Rightarrow> string \<Rightarrow> string \<Rightarrow> unit res" where
  "requireMethod v m label =
     (if falsy v \<or> \<not> hasMethod v m then Inl (JsError (label @ ''.'' @ m @ '' is required'')) else Inr ())"

definition requireMethods :: "jsval \<Rightarrow> string list \<Rightarrow> string \<Rightarrow> unit res" where
  "requireMethods v ms label = foldE (\<lambda>_ m _. requireMethod v m label) 0 ms ()"

definition assertPolicyEngine :: "jsval \<Rightarrow> jsval res" where
  "assertPolicyEngine v =
     bindE (requireMethods v [''evaluate'', ''admit'', ''evaluatePurchase'', ''assertExecutionAllowed''] ''policyEngine'') (\<lambda>_. Inr v)"

definition rehearsalPattern :: "string \<Rightarrow> bool" where
  "rehearsalPattern s = (take 10 s = ''rehearsal-'' \<and> length s = 46 \<and> list_all (\<lambda>c. is_lower_hex c \<or> c = CHR ''-'') (drop 10 s))"

definition optionalFunction :: "jsval \<Rightarrow> string \<Rightarrow> string \<Rightarrow> unit res" where
  "optionalFunction config f m = throwIf (jprop config f \<noteq> JUndefined \<and> jprop config f \<noteq> JFun) m"

text \<open>The shape of the configuration and its collaborators.\<close>

definition checkCollaborators :: "jsval \<Rightarrow> unit res" where
  "checkCollaborators config =
     bindE (throwIf (falsy config \<or> \<not> typeofObject config \<or> isArray config) ''automated cycle service configuration is invalid'') (\<lambda>_.
     bindE (throwIf (\<not> list_all (hasOwn config) requiredFields
                     \<or> list_ex (\<lambda>k. k \<notin> set requiredFields \<and> k \<notin> set optionalFields) (ownKeys config))
              ''automated cycle service configuration must use the exact schema'') (\<lambda>_.
     bindE (throwIf (jprop config ''now'' \<noteq> JFun \<or> jprop config ''runnerFactory'' \<noteq> JFun)
              ''automated cycle service factories are invalid'') (\<lambda>_.
     bindE (requireMethod (jprop config ''budgetReader'') ''read'' ''budgetReader'') (\<lambda>_.
     bindE (requireMethods (jprop config ''cycleRepository'')
              [''readActiveCycle'', ''createCycle'', ''readStage'', ''prepareStage'', ''completeStage'', ''completeCycle'', ''readClaimPreconditions'']
              ''cycleRepository'') (\<lambda>_.
     bindE (requireMethods (jprop config ''stageDriver'') [''reconcile'', ''execute'', ''commit''] ''stageDriver'') (\<lambda>_.
       requireMethod (jprop config ''feeSettlementObserver'') ''observe'' ''feeSettlementObserver''))))))"

text \<open>The execution modes: production is live, unless it is a dry run against fake providers.\<close>

definition checkModes :: "bool \<Rightarrow> jsval \<Rightarrow> jsval \<Rightarrow> jsval \<Rightarrow> jsval \<Rightarrow> unit res" where
  "checkModes live mode providerMode dryRun rehearsalSessionId =
     bindE (throwIf (mode \<noteq> JStr ''production'' \<and> mode \<noteq> JStr ''rehearsal'')
              ''automated cycle service mode must be \"production\" or \"rehearsal\"'') (\<lambda>_.
     bindE (throwIf (providerMode \<noteq> JNull \<and> providerMode \<noteq> JStr ''live'' \<and> providerMode \<noteq> JStr ''fake'')
              ''automated cycle service providerMode must be \"live\" or \"fake\"'') (\<lambda>_.
     bindE (throwIf (dryRun \<noteq> JBool True \<and> dryRun \<noteq> JBool False) ''automated cycle service dryRun must be a boolean'') (\<lambda>_.
     bindE (throwIf (dryRun = JBool True \<and> (mode \<noteq> JStr ''production'' \<or> providerMode \<noteq> JStr ''fake'' \<or> live))
              ''automated cycle service dryRun requires production mode with fake providers and liveMode=false'') (\<lambda>_.
     bindE (throwIf (mode = JStr ''production'' \<and> providerMode \<noteq> JNull \<and> providerMode \<noteq> JStr ''live'' \<and> dryRun = JBool False)
              ''automated cycle service production providerMode must be \"live\"'') (\<lambda>_.
     bindE (throwIf (mode = JStr ''production'' \<and> \<not> live \<and> dryRun = JBool False)
              ''automated cycle service production mode requires liveMode=true'') (\<lambda>_.
     bindE (throwIf (providerMode \<noteq> JNull \<and> live \<noteq> (providerMode = JStr ''live'') \<and> dryRun = JBool False)
              ''automated cycle service liveMode must match providerMode'') (\<lambda>_.
       throwIf (rehearsalSessionId \<noteq> JUndefined
                \<and> (\<not> str_matches rehearsalPattern rehearsalSessionId \<or> mode \<noteq> JStr ''rehearsal'' \<or> providerMode \<noteq> JStr ''fake''))
         ''automated cycle service rehearsalSessionId requires fake rehearsal execution'')))))))"

text \<open>The remaining options of the constructor, in the order it checks them.\<close>

definition checkOptions :: "bool \<Rightarrow> jsval \<Rightarrow> jsval \<Rightarrow> unit res" where
  "checkOptions live policyEngine config =
     (let packIdBad = (\<not> isString (jprop config ''packId'') \<or> jprop config ''packId'' = JStr []) in
     bindE (optionalFunction config ''recoveryGuard'' ''automated cycle service recoveryGuard must be a function'') (\<lambda>_.
     bindE (optionalFunction config ''beforeComplete'' ''automated cycle service beforeComplete must be a function'') (\<lambda>_.
     bindE (optionalFunction config ''beforeMutation'' ''automated cycle service beforeMutation must be a function'') (\<lambda>_.
     bindE (throwIf (jprop config ''policyCapMicroUsd'' \<noteq> JUndefined \<and> \<not> str_matches is_decimal (jprop config ''policyCapMicroUsd''))
              ''automated cycle service policyCapMicroUsd must be a canonical unsigned decimal string'') (\<lambda>_.
     bindE (throwIf (live \<and> policyEngine = JNull) ''live automated cycle service requires a policyEngine'') (\<lambda>_.
     bindE (throwIf (live \<and> jprop config ''readCycleConfiguration'' \<noteq> JFun \<and> jprop config ''readPackPlan'' \<noteq> JFun \<and> packIdBad)
              ''live automated cycle service requires a policy packId'') (\<lambda>_.
     bindE (throwIf (jprop config ''packId'' \<noteq> JUndefined \<and> packIdBad) ''automated cycle service packId is invalid'') (\<lambda>_.
     bindE (optionalFunction config ''readPackPlan'' ''readPackPlan must be a function'') (\<lambda>_.
     bindE (optionalFunction config ''readCycleConfiguration'' ''readCycleConfiguration must be a function'') (\<lambda>_.
     bindE (throwIf (\<not> falsy (jprop config ''readCycleConfiguration'') \<and> \<not> falsy (jprop config ''readPackPlan''))
              ''cycle configuration and pack plan must share one reader'') (\<lambda>_.
     bindE (throwIf (\<not> nullish (jprop config ''admissionPlanner'') \<and> \<not> hasMethod (jprop config ''admissionPlanner'') ''plan'')
              ''admissionPlanner must expose plan()'') (\<lambda>_.
       throwIf (\<not> nullish (jprop config ''quoteRefreshPlanner'') \<and> \<not> hasMethod (jprop config ''quoteRefreshPlanner'') ''plan'')
         ''quoteRefreshPlanner must expose plan()'' ))))))))))))"

text \<open>The private fields the constructor assigns.\<close>

definition configuredService :: "jsval \<Rightarrow> bool \<Rightarrow> jsval \<Rightarrow> jsval \<Rightarrow> jsval \<Rightarrow> jsval \<Rightarrow> svc" where
  "configuredService config live mode providerMode dryRun policyEngine =
     \<lparr>svc_owner = jprop config ''owner'', svc_leaseTtlMs = jprop config ''leaseTtlMs'', svc_liveMode = live,
       svc_mode = str_of mode, svc_providerMode = providerMode, svc_dryRun = (dryRun = JBool True),
       svc_packId = orElse (jprop config ''packId'') JNull,
       svc_readPackPlan = (jprop config ''readPackPlan'' = JFun),
       svc_readCycleConfiguration = (jprop config ''readCycleConfiguration'' = JFun),
       svc_policyEngine = policyEngine, svc_policyCapMicroUsd = orElse (jprop config ''policyCapMicroUsd'') JNull,
       svc_recoveryGuard = (jprop config ''recoveryGuard'' = JFun),
       svc_beforeComplete = (jprop config ''beforeComplete'' = JFun),
       svc_beforeMutation = (jprop config ''beforeMutation'' = JFun),
       svc_rehearsalSessionId = orElse (jprop config ''rehearsalSessionId'') JNull,
       svc_admissionPlanner = orElse (jprop config ''admissionPlanner'') JNull,
       svc_quoteRefreshPlanner = orElse (jprop config ''quoteRefreshPlanner'') JNull,
       svc_operationsAccounts = orElse (jprop config ''operationsAccounts'') JNull,
       svc_cycleRepository = jprop config ''cycleRepository'', svc_stageDriver = jprop config ''stageDriver'',
       svc_now = jprop config ''now'', svc_leaseStore = jprop config ''leaseStore'', svc_budgetReader = jprop config ''budgetReader'',
       svc_runnerFactory = jprop config ''runnerFactory'', svc_feeSettlementObserver = jprop config ''feeSettlementObserver''\<rparr>"

definition newAutomatedCycleService :: "jsval \<Rightarrow> svc res" where
  "newAutomatedCycleService config =
     bindE (checkCollaborators config) (\<lambda>_.
     bindE (throwIf (jprop config ''liveMode'' \<noteq> JBool True \<and> jprop config ''liveMode'' \<noteq> JBool False)
              ''automated cycle service liveMode must be a boolean'') (\<lambda>_.
       let live = (jprop config ''liveMode'' = JBool True);
           mode = orElse (jprop config ''mode'') (JStr (if live then ''production'' else ''rehearsal''));
           providerMode = orElse (jprop config ''providerMode'') JNull;
           dryRun = orElse (jprop config ''dryRun'') (JBool False) in
     bindE (checkModes live mode providerMode dryRun (jprop config ''rehearsalSessionId'')) (\<lambda>_.
     bindE (if jprop config ''policyEngine'' = JUndefined then Inr JNull else assertPolicyEngine (jprop config ''policyEngine'')) (\<lambda>policyEngine.
     bindE (checkOptions live policyEngine config) (\<lambda>_.
       Inr (configuredService config live mode providerMode dryRun policyEngine))))))"

section \<open>Calls to the collaborators\<close>

datatype (plugins only: code) svc_call =
    Now
  | ReadSignal
  | AcquireLease jsval jsval jsval
  | AssertLeaseCurrent jsval jsval
  | RenewLease jsval jsval jsval
  | ReleaseLease jsval
  | HeartbeatsDue
  | HeartbeatNow
  | HeartbeatRenew jsval jsval jsval
  | ListHeldPositions
  | ReadSupplementarySettlement jsval
  | RunSupplementarySettlement jsval
  | ListOpenPayoutRetries
  | RunPayoutRetry jsval
  | ReadActiveCycle
  | ReadBudget
  | PolicyEvaluate jsval
  | ReadCycleConfiguration
  | ReadPackPlan
  | NextCycleId
  | PlanAdmission jsval
  | CreateCycle jsval
  | RecoveryGuard jsval
  | RunnerFactory jsval
  | ReadStage jsval string
  | ReadOutboundQuoteRefresh jsval
  | ReadFinalizedClaimCustodyEvidence jsval
  | PlanQuoteRefresh jsval
  | EvaluateQuoteRefresh jsval
  | SelectOutboundQuoteRefresh jsval jsval
  | ReadClaimPreconditions jsval
  | PrepareStage jsval string jsval
  | Reconcile jsval
  | PolicyAdmit jsval
  | EvaluatePurchase jsval
  | AssertExecutionAllowed jsval
  | BeforeMutation jsval
  | Execute jsval
  | Commit jsval
  | CompleteStage jsval string jsval jsval
  | BeforeComplete jsval
  | CompleteCycle jsval jsval
  | ObserveFeeSettlement jsval

type_synonym svc_trace = "svc_call trace"
type_synonym 'a svc_prog = "(svc_call, 'a) prog"

text \<open>The variable \<open>lease\<close>.\<close>

definition leaseStep :: "jsval \<Rightarrow> svc_call event \<Rightarrow> jsval" where
  "leaseStep l ev = (case ev of
      (AcquireLease _ _ _, Inr l') \<Rightarrow> l'
    | (RenewLease _ _ _, Inr l') \<Rightarrow> l'
    | (HeartbeatRenew _ _ _, Inr l') \<Rightarrow> l'
    | _ \<Rightarrow> l)"

definition currentLease :: "svc_trace \<Rightarrow> jsval" where
  "currentLease tr = foldl leaseStep JUndefined tr"

text \<open>The variable \<open>heartbeatError\<close>.\<close>

definition heartbeatFailure :: "svc_call event \<Rightarrow> js_error option" where
  "heartbeatFailure ev = (case ev of
      (HeartbeatNow, Inl e) \<Rightarrow> Some e
    | (HeartbeatRenew _ _ _, Inl e) \<Rightarrow> Some e
    | _ \<Rightarrow> None)"

fun heartbeatError :: "svc_trace \<Rightarrow> js_error option" where
  "heartbeatError [] = None"
| "heartbeatError (ev # tr) = (case heartbeatFailure ev of Some e \<Rightarrow> Some e | None \<Rightarrow> heartbeatError tr)"

text \<open>
  One firing of the heartbeat timer, and the firings during one awaited call: the environment says how many
  are due.  After a failure the timer is not armed again.
\<close>

definition heartbeat :: "svc \<Rightarrow> unit svc_prog" where
  "heartbeat s = traceP (\<lambda>tr.
     if heartbeatError tr \<noteq> None then retP ()
     else catchP (bindP (callP HeartbeatNow) (\<lambda>n.
                  bindP (callP (HeartbeatRenew (currentLease tr) n (svc_leaseTtlMs s))) (\<lambda>_. retP ())))
            (\<lambda>_. retP ()))"

primrec heartbeats :: "svc \<Rightarrow> nat \<Rightarrow> unit svc_prog" where
  "heartbeats s 0 = retP ()"
| "heartbeats s (Suc n) = bindP (heartbeat s) (\<lambda>_. heartbeats s n)"

definition duringAwait :: "svc \<Rightarrow> unit svc_prog" where
  "duringAwait s = catchP (bindP (callP HeartbeatsDue) (\<lambda>n. heartbeats s (nat (num_of n)))) (\<lambda>_. retP ())"

definition awaitP :: "svc \<Rightarrow> svc_call \<Rightarrow> jsval svc_prog" where
  "awaitP s c = finallyP (callP c) (duringAwait s)"

text \<open>\<open>signal.reason\<close> is thrown; its text is the message of an error object, or the value as a string.\<close>

definition reasonText :: "jsval \<Rightarrow> string" where
  "reasonText r = (case jprop r ''message'' of JStr m \<Rightarrow> m | _ \<Rightarrow> jsString r)"

definition assertNotAborted :: "unit svc_prog" where
  "assertNotAborted = bindP (callP ReadSignal) (\<lambda>sig.
     if \<not> falsy (jprop sig ''aborted'')
     then throwP (JsError (if nullish (jprop sig ''reason'') then ''automated cycle aborted'' else reasonText (jprop sig ''reason'')))
     else retP ())"

definition checkLeaseCurrent :: "unit svc_prog" where
  "checkLeaseCurrent = bindP (callP Now) (\<lambda>n. traceP (\<lambda>tr. bindP (callP (AssertLeaseCurrent (currentLease tr) n)) (\<lambda>_. retP ())))"

definition assertLease :: "unit svc_prog" where
  "assertLease = traceP (\<lambda>tr. case heartbeatError tr of Some e \<Rightarrow> throwP e | None \<Rightarrow> checkLeaseCurrent)"

definition assertPolicyDecision :: "jsval \<Rightarrow> jsval res" where
  "assertPolicyDecision decision =
     (if falsy decision \<or> jprop decision ''allowed'' \<noteq> JBool True
      then Inl (PolicyRefusal (jsString (orElse (jprop decision ''reason'') (JStr ''POLICY_ENGINE_INVALID_DECISION''))))
      else Inr decision)"

section \<open>Joins\<close>

fun checkJoins :: "svc \<Rightarrow> jsval \<Rightarrow> string \<Rightarrow> string list \<Rightarrow> unit svc_prog" where
  "checkJoins s cid stage [] = retP ()"
| "checkJoins s cid stage (p # ps) =
     bindP (awaitP s (ReadStage cid p)) (\<lambda>r.
       if jprop r ''status'' \<noteq> JStr ''COMPLETE'' \<or> nullish (jprop r ''evidence'')
       then throwP (JsError (''stage join incomplete: '' @ [CHR 39] @ p @ [CHR 39] @ '' must be finalized before '' @ [CHR 39] @ stage
                             @ [CHR 39] @ '' can be attempted''))
       else checkJoins s cid stage ps)"

definition custodyReasons :: "jsval \<Rightarrow> string list" where
  "custodyReasons custody =
     (if jprop custody ''unattributed'' = JBool True then [''unattributed assets''] else [])
     @ (if jprop custody ''unresolvedObligations'' = JBool True then [''unresolved obligations''] else [])"

fun joinComma :: "string list \<Rightarrow> string" where
  "joinComma [] = []"
| "joinComma [x] = x"
| "joinComma (x # xs) = x @ '', '' @ joinComma xs"

definition assertJoinPreconditions :: "svc \<Rightarrow> jsval \<Rightarrow> string \<Rightarrow> unit svc_prog" where
  "assertJoinPreconditions s cid stage =
     bindP (checkJoins s cid stage (STAGE_JOIN_PRECONDITIONS stage)) (\<lambda>_.
       if stage = ''claim-process''
       then bindP (awaitP s (ReadClaimPreconditions cid)) (\<lambda>custody.
              if falsy custody \<or> \<not> typeofObject custody then throwP (JsError ''claim-process custody preconditions are invalid'')
              else if custodyReasons custody \<noteq> []
              then throwP (JsError (''claim-process blocked by custody preconditions: '' @ joinComma (custodyReasons custody)))
              else retP ())
       else retP ())"

section \<open>Left-over work\<close>

definition supplementaryDue :: "jsval \<Rightarrow> bool" where
  "supplementaryDue position =
     (\<not> falsy position \<and> typeofObject position \<and> jprop (jprop position ''ownerDecision'') ''choice'' = JStr ''sell''
      \<and> jprop position ''resolution'' = JNull)"

definition supplementaryResult :: "jsval \<Rightarrow> jsval \<Rightarrow> jsval \<Rightarrow> jsval res" where
  "supplementaryResult position settlement result =
     bindE (getProp settlement ''cycleId'') (\<lambda>cid.
       Inr (JObj [(''cycleId'', cid), (''positionId'', jprop position ''positionId''), (''manifestId'', jprop settlement ''manifestId''),
                  (''stage'', orElse (jprop result ''stage'') JNull),
                  (''settlementState'', orElse (jprop result ''state'') (jprop settlement ''state''))]))"

fun settleFirst :: "svc \<Rightarrow> jsval \<Rightarrow> jsval list \<Rightarrow> jsval svc_prog" where
  "settleFirst s lease [] = retP JNull"
| "settleFirst s lease (position # rest) =
     bindP assertNotAborted (\<lambda>_.
       if \<not> supplementaryDue position then settleFirst s lease rest
       else bindP (awaitP s (ReadSupplementarySettlement (jprop position ''positionId''))) (\<lambda>settlement.
         if settlement = JNull \<or> jprop settlement ''state'' = JStr ''COMPLETE'' then settleFirst s lease rest
         else bindP assertLease (\<lambda>_.
           bindP (callP Now) (\<lambda>n.
           bindP (awaitP s (RunSupplementarySettlement (JObj [(''position'', position), (''settlement'', settlement), (''nowMs'', n),
                    (''fencingToken'', jprop lease ''fencingToken''), (''assertLease'', JFun)]))) (\<lambda>result.
           bindP assertLease (\<lambda>_.
             if falsy result \<or> \<not> typeofObject result \<or> isArray result
             then throwP (JsError ''supplementary settlement stage driver result is invalid'')
             else if jprop result ''status'' = JStr ''PENDING'' then settleFirst s lease rest
             else if jprop result ''status'' \<noteq> JStr ''ADVANCED''
             then throwP (JsError ''supplementary settlement stage driver result status is invalid'')
             else liftP (supplementaryResult position settlement result)))))))"

definition runOneSupplementarySettlement :: "svc \<Rightarrow> jsval svc_prog" where
  "runOneSupplementarySettlement s = traceP (\<lambda>tr.
     if \<not> hasMethod (svc_stageDriver s) ''runSupplementarySettlement''
        \<or> \<not> hasMethod (svc_cycleRepository s) ''listHeldPositions''
        \<or> \<not> hasMethod (svc_cycleRepository s) ''readSupplementarySettlement''
     then retP JNull
     else bindP (awaitP s ListHeldPositions) (\<lambda>positions.
       if \<not> isArray positions then throwP (JsError ''supplementary settlement held-position list is invalid'')
       else settleFirst s (currentLease tr) (arr_of positions)))"

definition retryError :: "jsval \<Rightarrow> js_error \<Rightarrow> jsval res" where
  "retryError retry e =
     bindE (getProp retry ''cycleId'') (\<lambda>cid.
       Inr (JObj [(''status'', JStr ''ERROR''), (''cycleId'', cid), (''recipient'', jprop retry ''recipient''),
                  (''retryId'', jprop retry ''retryId''), (''error'', JStr (errorMessage e))]))"

fun retryEach :: "svc \<Rightarrow> jsval \<Rightarrow> jsval list \<Rightarrow> jsval list svc_prog" where
  "retryEach s lease [] = retP []"
| "retryEach s lease (retry # rest) =
     bindP assertNotAborted (\<lambda>_.
     bindP (catchP
        (bindP assertLease (\<lambda>_.
         bindP (callP Now) (\<lambda>n.
           awaitP s (RunPayoutRetry (withProps (spread retry)
              [(''nowMs'', n), (''lease'', lease), (''fencingToken'', jprop lease ''fencingToken''), (''assertLease'', JFun)])))))
        (\<lambda>e. liftP (retryError retry e))) (\<lambda>r.
     bindP (retryEach s lease rest) (\<lambda>rs. retP (r # rs))))"

definition runPayoutRetries :: "svc \<Rightarrow> jsval list svc_prog" where
  "runPayoutRetries s = traceP (\<lambda>tr.
     if \<not> hasMethod (svc_stageDriver s) ''runPayoutRetry'' \<or> \<not> hasMethod (svc_cycleRepository s) ''listOpenPayoutRetries''
     then retP []
     else bindP (awaitP s ListOpenPayoutRetries) (\<lambda>retries.
       if \<not> isArray retries then throwP (JsError ''payout retry list is invalid'')
       else retryEach s (currentLease tr) (arr_of retries)))"

section \<open>What the calls are told about the cycle\<close>

definition cyclePackId :: "svc \<Rightarrow> jsval \<Rightarrow> jsval" where
  "cyclePackId s cycle =
     orElse (jprop (firstElem (jprop (jprop cycle ''admission'') ''orders'')) ''packId'')
       (orElse (jprop (jprop cycle ''admission'') ''packId'') (svc_packId s))"

definition cycleCost :: "jsval \<Rightarrow> jsval" where
  "cycleCost cycle =
     orElse (jprop (jprop (jprop cycle ''admission'') ''aggregateFundingUsd'') ''amountMicroUsd'') (jprop cycle ''releaseCostMicroUsd'')"

definition orUndefined :: "jsval \<Rightarrow> jsval" where
  "orUndefined v = orElse v JUndefined"

definition admissionProps :: "jsval \<Rightarrow> (string \<times> jsval) list" where
  "admissionProps cycle = (if falsy (jprop cycle ''admission'') then [] else [(''admission'', jprop cycle ''admission'')])"

definition modeProps :: "svc \<Rightarrow> (string \<times> jsval) list" where
  "modeProps s = [(''liveMode'', JBool (svc_liveMode s)), (''mode'', JStr (svc_mode s)), (''capMicroUsd'', orUndefined (svc_policyCapMicroUsd s))]"

section \<open>Quote refresh\<close>

definition selectQuoteRefresh :: "svc \<Rightarrow> jsval \<Rightarrow> jsval \<Rightarrow> bool svc_prog" where
  "selectQuoteRefresh s cycle refresh =
     (if svc_quoteRefreshPlanner s = JNull \<or> svc_policyEngine s = JNull
         \<or> \<not> hasMethod (svc_policyEngine s) ''evaluateQuoteRefresh''
         \<or> \<not> hasMethod (svc_cycleRepository s) ''readFinalizedClaimCustodyEvidence''
         \<or> \<not> hasMethod (svc_cycleRepository s) ''selectOutboundQuoteRefresh''
      then retP False
      else
        bindP (awaitP s (ReadFinalizedClaimCustodyEvidence (jprop cycle ''cycleId''))) (\<lambda>custody.
        if custody = JNull then retP False else
        bindP (awaitP s (PlanQuoteRefresh (JObj [(''cycleId'', jprop cycle ''cycleId''), (''packId'', cyclePackId s cycle),
                 (''admission'', jprop cycle ''admission''), (''custody'', custody)]))) (\<lambda>replacement.
        if replacement = JNull then retP False else
        bindP assertLease (\<lambda>_.
        bindP (awaitP s (EvaluateQuoteRefresh (JObj ([(''cycleId'', jprop cycle ''cycleId''),
                 (''releaseAmountWei'', jprop cycle ''releaseAmount''), (''releaseCostMicroUsd'', cycleCost cycle),
                 (''packId'', cyclePackId s cycle)] @ modeProps s
                 @ [(''admission'', jprop cycle ''admission''), (''replacement'', replacement),
                    (''operations'', orUndefined (svc_operationsAccounts s))])))) (\<lambda>decision.
        bindP (liftP (assertPolicyDecision decision)) (\<lambda>_.
        bindP assertLease (\<lambda>_.
        bindP (awaitP s (SelectOutboundQuoteRefresh (jprop cycle ''cycleId'')
                 (JObj [(''predecessorExpiryDigest'', jprop refresh ''expiryDigest''), (''replacement'', replacement),
                    (''refreshPolicyDecisionDigest'', jprop decision ''refreshPolicyDecisionDigest''),
                    (''operations'', svc_operationsAccounts s), (''assertLease'', JFun)]))) (\<lambda>_.
          retP True))))))))"

section \<open>Early returns\<close>

datatype 'a flow = Return jsval | Continue 'a

definition bindF :: "'a flow svc_prog \<Rightarrow> ('a \<Rightarrow> 'b flow svc_prog) \<Rightarrow> 'b flow svc_prog" where
  "bindF p f = bindP p (\<lambda>x. case x of Return v \<Rightarrow> retP (Return v) | Continue y \<Rightarrow> f y)"

definition returnF :: "jsval \<Rightarrow> 'a flow svc_prog" where
  "returnF v = retP (Return v)"

definition statusOnly :: "string \<Rightarrow> jsval" where
  "statusOnly status = JObj [(''status'', JStr status), (''cycleId'', JNull), (''stage'', JNull)]"

definition statusWith :: "string \<Rightarrow> string \<Rightarrow> jsval \<Rightarrow> jsval" where
  "statusWith status key v = JObj [(''status'', JStr status), (''cycleId'', JNull), (''stage'', JNull), (key, v)]"

definition cycleStatus :: "string \<Rightarrow> jsval \<Rightarrow> jsval" where
  "cycleStatus status cycle = JObj [(''status'', JStr status), (''cycleId'', jprop cycle ''cycleId''), (''stage'', JNull)]"

section \<open>Opening a cycle\<close>

definition budgetRefusal :: "budget_decision \<Rightarrow> jsval" where
  "budgetRefusal d = statusWith (if bd_reason d = ''ACTIVE_CYCLE'' then ''ACTIVE_CYCLE_NOT_RECONCILED'' else ''WAITING_FOR_PROCESS_BUDGET'')
     ''requiredProcessWei'' (JStr (bd_requiredProcessWei d))"

definition policyRefused :: "jsval \<Rightarrow> jsval" where
  "policyRefused decision = statusWith ''POLICY_REFUSED'' ''reason'' (orElse (jprop decision ''reason'') (JStr ''POLICY_ENGINE_INVALID_DECISION''))"

text \<open>The first gate: the configured budget, then the policy engine, before anything is priced.\<close>

definition cycleStartGate :: "svc \<Rightarrow> jsval \<Rightarrow> budget_decision flow svc_prog" where
  "cycleStartGate s budget =
     (if jprop budget ''packPriceWei'' = JStr ''0'' then returnF (statusWith ''WAITING_FOR_PROCESS_BUDGET'' ''requiredProcessWei'' (JStr ''0''))
      else bindP (liftP (decideCycleBudget budget JNull)) (\<lambda>gate.
        if \<not> bd_ready gate then returnF (budgetRefusal gate)
        else if falsy (svc_policyEngine s) then retP (Continue gate)
        else bindP (awaitP s (PolicyEvaluate (JObj ([(''boundary'', JStr ''cycle-start''),
                 (''releaseAmountWei'', JStr (bd_releaseAmount gate)), (''releaseCostMicroUsd'', JStr ''0'')] @ modeProps s)))) (\<lambda>decision.
          if falsy (jprop decision ''allowed'') then returnF (policyRefused decision) else retP (Continue gate))))"

text \<open>The cycle configuration (\<open>JUndefined\<close> when there is no reader) and the pack plan.\<close>

definition readConfiguration :: "svc \<Rightarrow> jsval flow svc_prog" where
  "readConfiguration s =
     (if \<not> svc_readCycleConfiguration s then retP (Continue JUndefined)
      else bindP (awaitP s ReadCycleConfiguration) (\<lambda>raw.
        bindP (liftP (structuredClone raw)) (\<lambda>cfg.
          if cfg = JNull then returnF (statusOnly ''WAITING_FOR_CONFIGURATION'')
          else if cfg = JUndefined then retP (Continue cfg)
          else bindP (liftP (assertRewardRecipientLimit (jprop cfg ''rewardRecipientLimit''))) (\<lambda>_.
            if \<not> isSafeInteger (jprop cfg ''configurationRevision'') \<or> num_of (jprop cfg ''configurationRevision'') < 0
            then throwP (JsError ''cycle configuration revision is invalid'')
            else retP (Continue cfg)))))"

definition readPlan :: "svc \<Rightarrow> jsval \<Rightarrow> pack_plan option flow svc_prog" where
  "readPlan s cfg =
     bindP (if cfg \<noteq> JUndefined then bindP (liftP (assertPackPlan (jprop cfg ''packPlan''))) (\<lambda>p. retP (Some p))
            else if \<not> svc_readPackPlan s then retP None
            else bindP (awaitP s ReadPackPlan) (\<lambda>raw. bindP (liftP (assertPackPlan raw)) (\<lambda>p. retP (Some p)))) (\<lambda>plan.
       if (case plan of None \<Rightarrow> False | Some p \<Rightarrow> pp_orders p = [])
       then returnF (statusWith ''WAITING_FOR_ADMISSION'' ''requiredProcessWei'' (JStr ''0''))
       else retP (Continue plan))"

definition selectedPackId :: "svc \<Rightarrow> pack_plan option \<Rightarrow> jsval" where
  "selectedPackId s plan = (case plan of None \<Rightarrow> svc_packId s
     | Some p \<Rightarrow> (case pp_orders p of [] \<Rightarrow> svc_packId s | o1 # _ \<Rightarrow> JStr (fst o1)))"

definition planProps :: "pack_plan option \<Rightarrow> (string \<times> jsval) list" where
  "planProps plan = (case plan of None \<Rightarrow> [] | Some p \<Rightarrow> [(''packPlan'', jsval_of_plan p)])"

text \<open>The reserved cycle id and the admission; both are \<open>JNull\<close> without an admission planner.\<close>

definition planAdmission :: "svc \<Rightarrow> pack_plan option \<Rightarrow> (jsval \<times> jsval) flow svc_prog" where
  "planAdmission s plan =
     (if svc_admissionPlanner s = JNull then retP (Continue (JNull, JNull))
      else bindP (callP NextCycleId) (\<lambda>cid.
        bindP (callP Now) (\<lambda>n.
        bindP (awaitP s (PlanAdmission (JObj ([(''cycleId'', cid), (''packId'', selectedPackId s plan)] @ planProps plan @ [(''nowMs'', n)])))) (\<lambda>admission.
          if admission = JNull then returnF (statusWith ''WAITING_FOR_ADMISSION'' ''requiredProcessWei'' (JStr ''0''))
          else retP (Continue (cid, admission))))))"

text \<open>The amount the second gate is asked about; an absent quote falls back to the parameter's default \<open>null\<close>.\<close>

definition admittedWei :: "jsval \<Rightarrow> jsval res" where
  "admittedWei admission =
     bindE (getProp admission ''aggregateFundingQuote'') (\<lambda>q.
     bindE (getProp q ''amountAtomic'') (\<lambda>a. Inr (if a = JUndefined then JNull else a)))"

definition admissionDecision :: "jsval \<Rightarrow> jsval \<Rightarrow> budget_decision \<Rightarrow> budget_decision res" where
  "admissionDecision budget admission gate =
     (if admission = JNull then Inr gate else bindE (admittedWei admission) (decideCycleBudget budget))"

definition admissionPolicy :: "svc \<Rightarrow> pack_plan option \<Rightarrow> jsval \<Rightarrow> jsval \<Rightarrow> budget_decision \<Rightarrow> unit flow svc_prog" where
  "admissionPolicy s plan cid admission d =
     (if falsy (svc_policyEngine s) \<or> admission = JNull then retP (Continue ())
      else bindP (liftP (bindE (getProp admission ''aggregateFundingUsd'') (\<lambda>u. getProp u ''amountMicroUsd''))) (\<lambda>cost.
        bindP (awaitP s (PolicyEvaluate (JObj ([(''boundary'', JStr ''cycle-start''),
                 (''releaseAmountWei'', JStr (bd_releaseAmount d)), (''releaseCostMicroUsd'', cost)] @ modeProps s
                 @ [(''admission'', admission), (''cycleId'', cid), (''packId'', selectedPackId s plan),
                    (''operations'', orUndefined (svc_operationsAccounts s))])))) (\<lambda>decision.
          if falsy (jprop decision ''allowed'') then returnF (policyRefused decision) else retP (Continue ()))))"

definition createArgs :: "svc \<Rightarrow> jsval \<Rightarrow> pack_plan option \<Rightarrow> jsval \<Rightarrow> jsval \<Rightarrow> budget_decision \<Rightarrow> jsval" where
  "createArgs s cfg plan cid admission d =
     JObj ((if cfg = JUndefined then [] else [(''rewardRecipientLimit'', jprop cfg ''rewardRecipientLimit''),
              (''configurationRevision'', jprop cfg ''configurationRevision'')])
           @ [(''releaseAmount'', JStr (bd_releaseAmount d))] @ planProps plan @ [(''mode'', JStr (svc_mode s))]
           @ (if admission = JNull then [] else [(''cycleId'', cid), (''admission'', admission), (''operations'', svc_operationsAccounts s)])
           @ (if svc_providerMode s = JNull then [] else [(''providerMode'', svc_providerMode s)])
           @ (if svc_dryRun s then [(''dryRun'', JBool True)] else [])
           @ (if svc_rehearsalSessionId s = JNull then [] else [(''rehearsalSessionId'', svc_rehearsalSessionId s)]))"

definition openCycle :: "svc \<Rightarrow> jsval flow svc_prog" where
  "openCycle s =
     bindP (awaitP s ReadBudget) (\<lambda>budget.
     bindF (cycleStartGate s budget) (\<lambda>gate.
     bindF (readConfiguration s) (\<lambda>cfg.
     bindF (readPlan s cfg) (\<lambda>plan.
     bindF (planAdmission s plan) (\<lambda>(cid, admission).
     bindP checkLeaseCurrent (\<lambda>_.
     bindP (liftP (admissionDecision budget admission gate)) (\<lambda>d.
       if \<not> bd_ready d then returnF (budgetRefusal d)
       else
     bindF (admissionPolicy s plan cid admission d) (\<lambda>_.
     bindP checkLeaseCurrent (\<lambda>_.
     bindP (awaitP s (CreateCycle (createArgs s cfg plan cid admission d))) (\<lambda>cycle.
     bindP checkLeaseCurrent (\<lambda>_. retP (Continue cycle))))))))))))"

text \<open>The active cycle, or a new one; the flag is \<open>createdCycle\<close>.\<close>

definition findCycle :: "svc \<Rightarrow> bool \<Rightarrow> jsval \<Rightarrow> jsval list \<Rightarrow> (jsval \<times> bool) flow svc_prog" where
  "findCycle s requireActive supplementary payoutRetries =
     bindP (awaitP s ReadActiveCycle) (\<lambda>cycle.
       if cycle \<noteq> JNull then retP (Continue (cycle, False))
       else if requireActive then
         (if supplementary \<noteq> JNull then returnF (withProps [(''status'', JStr ''SUPPLEMENTARY_SETTLEMENT'')] (spread supplementary))
          else case payoutRetries of
              [] \<Rightarrow> returnF (statusOnly ''NO_ACTIVE_CYCLE'')
            | r # _ \<Rightarrow> bindP (liftP (getProp r ''cycleId'')) (\<lambda>cid.
                 returnF (JObj [(''status'', JStr ''PAYOUT_RETRY''), (''cycleId'', cid), (''stage'', JStr ''payout'')])))
       else bindF (openCycle s) (\<lambda>c. retP (Continue (c, True))))"

section \<open>Admitting the cycle to this runner\<close>

text \<open>The status the run ends with because of the cycle's modes or terminal state, if any.\<close>

definition cycleMismatch :: "svc \<Rightarrow> jsval \<Rightarrow> string option" where
  "cycleMismatch s cycle =
     (if jprop cycle ''mode'' \<noteq> JStr ''production'' \<and> jprop cycle ''mode'' \<noteq> JStr ''rehearsal'' then Some ''CYCLE_MODE_UNRESOLVED''
      else if jprop cycle ''mode'' \<noteq> JStr (svc_mode s) then Some ''CYCLE_MODE_MISMATCH''
      else if svc_providerMode s \<noteq> JNull \<and> jprop cycle ''providerMode'' \<noteq> svc_providerMode s
      then Some (if jprop cycle ''providerMode'' = JNull then ''CYCLE_PROVIDER_MODE_UNRESOLVED'' else ''CYCLE_PROVIDER_MODE_MISMATCH'')
      else if (\<not> falsy (jprop cycle ''dryRun'')) \<noteq> svc_dryRun s
      then Some (if jprop cycle ''dryRun'' = JBool True then ''CYCLE_DRY_RUN_MISMATCH'' else ''CYCLE_DRY_RUN_UNRESOLVED'')
      else if svc_rehearsalSessionId s \<noteq> JNull \<and> jprop cycle ''rehearsalSessionId'' \<noteq> svc_rehearsalSessionId s
      then Some (if jprop cycle ''rehearsalSessionId'' = JNull then ''CYCLE_REHEARSAL_SESSION_UNRESOLVED'' else ''CYCLE_REHEARSAL_SESSION_MISMATCH'')
      else case jprop cycle ''terminalState'' of JStr t \<Rightarrow> Some t | _ \<Rightarrow> None)"

definition admitCycle :: "svc \<Rightarrow> jsval \<Rightarrow> bool \<Rightarrow> unit flow svc_prog" where
  "admitCycle s cycle created =
     (if falsy cycle \<or> \<not> isString (jprop cycle ''cycleId'') then throwP (JsError ''active cycle record is invalid'')
      else case cycleMismatch s cycle of
        Some status \<Rightarrow> returnF (cycleStatus status cycle)
      | None \<Rightarrow>
          if created \<or> \<not> svc_recoveryGuard s then retP (Continue ())
          else bindP (awaitP s (RecoveryGuard (JObj [(''cycleId'', jprop cycle ''cycleId''), (''mode'', jprop cycle ''mode'')]))) (\<lambda>recovery.
            if falsy recovery \<or> jprop recovery ''resumable'' \<noteq> JBool True
            then returnF (JObj [(''status'', JStr ''RECOVERY_REFUSED''), (''cycleId'', jprop cycle ''cycleId''), (''stage'', JNull),
                    (''reason'', orElse (jprop recovery ''reason'') (JStr ''RECOVERY_GUARD_INVALID''))])
            else retP (Continue ())))"

section \<open>The mutation guard\<close>

definition argOr :: "jsval \<Rightarrow> string \<Rightarrow> jsval \<Rightarrow> jsval" where
  "argOr arg key d = (if jprop arg key = JUndefined then d else jprop arg key)"

text \<open>\<open>activeStage\<close> is \<open>activeContext?.stage\<close>: \<open>JUndefined\<close> outside a stage.\<close>

definition assertMutationAllowed :: "svc \<Rightarrow> jsval \<Rightarrow> jsval \<Rightarrow> jsval \<Rightarrow> jsval svc_prog" where
  "assertMutationAllowed s cycle activeStage arg = traceP (\<lambda>tr.
     let boundary = argOr arg ''boundary'' (JStr ''mutation'');
         cid = argOr arg ''cycleId'' (jprop cycle ''cycleId'');
         amount = argOr arg ''releaseAmountWei'' (jprop cycle ''releaseAmount'');
         pack = argOr arg ''packId'' (cyclePackId s cycle);
         requestDigest = argOr arg ''requestDigest'' JNull;
         fencingToken = argOr arg ''fencingToken'' (jprop (currentLease tr) ''fencingToken'');
         stage = argOr arg ''stage'' (orElse activeStage JNull) in
     if arg = JNull then throwP (JsTypeError ''Cannot destructure null'')
     else if cid \<noteq> jprop cycle ''cycleId'' \<or> amount \<noteq> jprop cycle ''releaseAmount'' \<or> pack \<noteq> cyclePackId s cycle
     then throwP (JsError ''automated cycle mutation guard context does not match the active cycle'')
     else if stage \<noteq> activeStage then throwP (JsError ''automated cycle mutation guard stage does not match the active stage'')
     else if requestDigest \<noteq> JNull \<and> \<not> str_matches digest_pattern requestDigest
     then throwP (JsError ''automated cycle mutation guard request digest is invalid'')
     else if fencingToken \<noteq> jprop (currentLease tr) ''fencingToken''
     then throwP (JsError ''automated cycle mutation guard fencing token is stale'')
     else
       bindP assertLease (\<lambda>_.
       bindP (if falsy (svc_policyEngine s) then retP ()
              else bindP (awaitP s (AssertExecutionAllowed (JObj ([(''boundary'', boundary), (''cycleId'', cid),
                       (''releaseAmountWei'', amount), (''releaseCostMicroUsd'', cycleCost cycle), (''packId'', pack),
                       (''requestDigest'', requestDigest), (''fencingToken'', fencingToken), (''stage'', stage)]
                       @ modeProps s @ admissionProps cycle)))) (\<lambda>decision.
                     bindP (liftP (assertPolicyDecision decision)) (\<lambda>_. retP ()))) (\<lambda>_.
       bindP assertLease (\<lambda>_.
         traceP (\<lambda>tr'. retP (jprop (currentLease tr') ''fencingToken''))))))"

section \<open>One stage\<close>

text \<open>The context object; \<open>extra\<close> are the properties added to it after its creation.\<close>

definition stageContext ::
  "svc \<Rightarrow> jsval \<Rightarrow> string \<Rightarrow> jsval \<Rightarrow> jsval \<Rightarrow> jsval \<Rightarrow> jsval \<Rightarrow> (string \<times> jsval) list \<Rightarrow> jsval"
where
  "stageContext s cycle stage runner lease fencingToken n extra =
     JObj ((if jprop cycle ''rewardSelection'' = JUndefined then [] else [(''rewardSelection'', jprop cycle ''rewardSelection'')])
           @ [(''cycleId'', jprop cycle ''cycleId''), (''stage'', JStr stage), (''runner'', runner), (''lease'', lease),
              (''fencingToken'', fencingToken), (''releaseAmountWei'', jprop cycle ''releaseAmount''),
              (''releaseCostMicroUsd'', cycleCost cycle), (''packId'', cyclePackId s cycle), (''nowMs'', n),
              (''assertLease'', JFun), (''assertMutationAllowed'', JFun)] @ extra)"

text \<open>A call that passes the context, with the lease the context holds at that moment.\<close>

definition withContext :: "(jsval \<Rightarrow> jsval) \<Rightarrow> (jsval \<Rightarrow> 'a svc_prog) \<Rightarrow> 'a svc_prog" where
  "withContext ctx f = traceP (\<lambda>tr. f (ctx (currentLease tr)))"

definition policyArgs :: "svc \<Rightarrow> jsval \<Rightarrow> string \<Rightarrow> jsval" where
  "policyArgs s cycle boundary =
     JObj ([(''boundary'', JStr boundary), (''cycleId'', jprop cycle ''cycleId''), (''releaseAmountWei'', jprop cycle ''releaseAmount''),
            (''releaseCostMicroUsd'', cycleCost cycle), (''packId'', cyclePackId s cycle)] @ modeProps s @ admissionProps cycle)"

definition stagePolicy :: "svc \<Rightarrow> jsval \<Rightarrow> string \<Rightarrow> unit svc_prog" where
  "stagePolicy s cycle stage =
     bindP (if \<not> falsy (svc_policyEngine s) \<and> stage = ''claim-process''
            then bindP (awaitP s (PolicyAdmit (policyArgs s cycle ''claim-process''))) (\<lambda>d. bindP (liftP (assertPolicyDecision d)) (\<lambda>_. retP ()))
            else retP ()) (\<lambda>_.
       if \<not> falsy (svc_policyEngine s) \<and> stage = ''purchase''
       then bindP (awaitP s (EvaluatePurchase (policyArgs s cycle ''purchase''))) (\<lambda>d. bindP (liftP (assertPolicyDecision d)) (\<lambda>_. retP ()))
       else retP ())"

definition beforeMutationStep :: "svc \<Rightarrow> jsval \<Rightarrow> string \<Rightarrow> unit svc_prog" where
  "beforeMutationStep s cycle stage =
     (if \<not> svc_beforeMutation s then retP ()
      else bindP (awaitP s (BeforeMutation (JObj [(''cycleId'', jprop cycle ''cycleId''), (''stage'', JStr stage), (''mode'', jprop cycle ''mode''),
               (''providerMode'', orElse (jprop cycle ''providerMode'') JNull), (''releaseAmountWei'', jprop cycle ''releaseAmount''),
               (''releaseCostMicroUsd'', cycleCost cycle), (''assertLease'', JFun)]))) (\<lambda>_. assertLease))"

text \<open>The branch taken when nothing was reconciled: policy, mutation guard, execution, second reconciliation.\<close>

definition executeStage :: "svc \<Rightarrow> jsval \<Rightarrow> string \<Rightarrow> (jsval \<Rightarrow> jsval) \<Rightarrow> jsval svc_prog" where
  "executeStage s cycle stage ctx =
     bindP (stagePolicy s cycle stage) (\<lambda>_.
     bindP (assertMutationAllowed s cycle (JStr stage) (JObj [(''boundary'', JStr ''mutation'')])) (\<lambda>_.
     bindP (beforeMutationStep s cycle stage) (\<lambda>_.
     bindP (withContext ctx (\<lambda>c. awaitP s (Execute c))) (\<lambda>_.
     bindP assertLease (\<lambda>_.
     bindP (withContext ctx (\<lambda>c. awaitP s (Reconcile c))) (\<lambda>evidence.
     bindP assertLease (\<lambda>_. retP evidence)))))))"

definition quoteRefreshGate :: "svc \<Rightarrow> jsval \<Rightarrow> string \<Rightarrow> unit flow svc_prog" where
  "quoteRefreshGate s cycle stage =
     (if stage = ''outbound'' \<and> hasMethod (svc_cycleRepository s) ''readOutboundQuoteRefresh''
      then bindP (awaitP s (ReadOutboundQuoteRefresh (jprop cycle ''cycleId''))) (\<lambda>refresh.
        if jprop refresh ''state'' = JStr ''REFRESH_REQUIRED''
        then bindP (selectQuoteRefresh s cycle refresh) (\<lambda>selected.
          if \<not> selected
          then returnF (JObj [(''status'', JStr ''WAITING_FOR_QUOTE_REFRESH''), (''cycleId'', jprop cycle ''cycleId''), (''stage'', JStr stage)])
          else retP (Continue ()))
        else retP (Continue ()))
      else retP (Continue ()))"

definition renewP :: "svc \<Rightarrow> unit svc_prog" where
  "renewP s = bindP (callP Now) (\<lambda>n. traceP (\<lambda>tr. bindP (callP (RenewLease (currentLease tr) n (svc_leaseTtlMs s))) (\<lambda>_. retP ())))"

definition settleStage :: "svc \<Rightarrow> jsval \<Rightarrow> string \<Rightarrow> (jsval \<Rightarrow> jsval) \<Rightarrow> jsval \<Rightarrow> unit svc_prog" where
  "settleStage s cycle stage ctx evidence =
     (if evidence = JNull then throwP (JsError (stage @ '' mutation remains unresolved after execution''))
      else
        bindP (withContext ctx (\<lambda>c. awaitP s (Commit (withProps (spread c) [(''evidence'', evidence)])))) (\<lambda>_.
        bindP assertLease (\<lambda>_.
        bindP (traceP (\<lambda>tr. awaitP s (CompleteStage (jprop cycle ''cycleId'') stage evidence
                 (JObj [(''lease'', currentLease tr), (''assertLease'', JFun)])))) (\<lambda>_.
        bindP assertLease (\<lambda>_. renewP s)))))"

definition runStage :: "svc \<Rightarrow> jsval \<Rightarrow> jsval \<Rightarrow> string \<Rightarrow> unit flow svc_prog" where
  "runStage s cycle runner stage =
     bindP assertNotAborted (\<lambda>_.
     bindP assertLease (\<lambda>_.
     bindP (awaitP s (ReadStage (jprop cycle ''cycleId'') stage)) (\<lambda>current.
       if jprop current ''status'' = JStr ''COMPLETE'' then retP (Continue ())
       else
     bindF (quoteRefreshGate s cycle stage) (\<lambda>_.
     bindP (assertJoinPreconditions s (jprop cycle ''cycleId'') stage) (\<lambda>_.
     traceP (\<lambda>tr.
     bindP (callP Now) (\<lambda>n.
       let token = jprop (currentLease tr) ''fencingToken'';
           ctx0 = (\<lambda>l. stageContext s cycle stage runner l token n []) in
     bindP (withContext ctx0 (\<lambda>c. awaitP s (PrepareStage (jprop cycle ''cycleId'') stage c))) (\<lambda>intent.
       let ctx = (\<lambda>l. stageContext s cycle stage runner l token n [(''intent'', intent)]) in
     bindP assertLease (\<lambda>_.
     bindP (withContext ctx (\<lambda>c. awaitP s (Reconcile c))) (\<lambda>evidence.
     bindP assertLease (\<lambda>_.
     bindP (if evidence = JNull then executeStage s cycle stage ctx else retP evidence) (\<lambda>evidence'.
     bindP (settleStage s cycle stage ctx evidence') (\<lambda>_. retP (Continue ()))))))))))))))"

primrec runStages :: "svc \<Rightarrow> jsval \<Rightarrow> jsval \<Rightarrow> string list \<Rightarrow> unit flow svc_prog" where
  "runStages s cycle runner [] = retP (Continue ())"
| "runStages s cycle runner (stage # rest) = bindF (runStage s cycle runner stage) (\<lambda>_. runStages s cycle runner rest)"

section \<open>A run\<close>

definition observeFees :: "svc \<Rightarrow> jsval \<Rightarrow> jsval svc_prog" where
  "observeFees s cid = catchP (awaitP s (ObserveFeeSettlement cid))
     (\<lambda>e. retP (JObj [(''status'', JStr ''OBSERVATION_FAILED''), (''error'', JStr (errorMessage e))]))"

definition finishCycle :: "svc \<Rightarrow> jsval \<Rightarrow> jsval \<Rightarrow> jsval flow svc_prog" where
  "finishCycle s cycle runner =
     bindP assertLease (\<lambda>_.
     bindP (if \<not> svc_beforeComplete s then retP ()
            else bindP (awaitP s (BeforeComplete (JObj [(''cycleId'', jprop cycle ''cycleId''), (''mode'', jprop cycle ''mode''),
                     (''providerMode'', orElse (jprop cycle ''providerMode'') JNull), (''runner'', runner)]))) (\<lambda>_. assertLease)) (\<lambda>_.
     bindP (traceP (\<lambda>tr. awaitP s (CompleteCycle (jprop cycle ''cycleId'') (JObj [(''lease'', currentLease tr), (''assertLease'', JFun)])))) (\<lambda>_.
     bindP assertLease (\<lambda>_.
     bindP (observeFees s (jprop cycle ''cycleId'')) (\<lambda>fees.
       returnF (JObj [(''status'', JStr ''COMPLETE''), (''cycleId'', jprop cycle ''cycleId''), (''stage'', JStr ''closed''),
                      (''feeSettlement'', fees)]))))))"

text \<open>The body of the second \<open>try\<close>.\<close>

definition runHeld :: "svc \<Rightarrow> bool \<Rightarrow> jsval flow svc_prog" where
  "runHeld s requireActive =
     bindP assertNotAborted (\<lambda>_.
     bindP (runOneSupplementarySettlement s) (\<lambda>supplementary.
     bindP (runPayoutRetries s) (\<lambda>payoutRetries.
     bindF (findCycle s requireActive supplementary payoutRetries) (\<lambda>(cycle, created).
     bindF (admitCycle s cycle created) (\<lambda>_.
     bindP (callP (RunnerFactory (jprop cycle ''cycleId''))) (\<lambda>runner.
     bindF (runStages s cycle runner AUTOMATED_CYCLE_STAGES) (\<lambda>_.
       finishCycle s cycle runner)))))))"

definition acquireP :: "svc \<Rightarrow> unit flow svc_prog" where
  "acquireP s =
     catchP (bindP (callP Now) (\<lambda>n. bindP (callP (AcquireLease (svc_owner s) n (svc_leaseTtlMs s))) (\<lambda>_. retP (Continue ()))))
       (\<lambda>e. if containsText ''active cycle lease'' (errorMessage e) then returnF (statusOnly ''LEASE_HELD'') else throwP e)"

definition releaseP :: "unit svc_prog" where
  "releaseP = traceP (\<lambda>tr. if falsy (currentLease tr) then retP () else bindP (callP (ReleaseLease (currentLease tr))) (\<lambda>_. retP ()))"

definition run :: "svc \<Rightarrow> bool \<Rightarrow> jsval svc_prog" where
  "run s requireActive =
     bindP (bindF (acquireP s) (\<lambda>_. finallyP (runHeld s requireActive) releaseP)) (\<lambda>r.
       case r of Return v \<Rightarrow> retP v | Continue v \<Rightarrow> retP v)"

definition runOnce :: "svc \<Rightarrow> jsval svc_prog" where
  "runOnce s = run s False"

definition recoverActiveCycle :: "svc \<Rightarrow> jsval svc_prog" where
  "recoverActiveCycle s = run s True"

end
