(* ===== verification/Service_Config.thy ===== *)
theory Service_Config
  imports Cycle_Service
begin

text \<open>
  What the constructor of \<open>AutomatedCycleService\<close> guarantees about the configuration of the service it returns, and an example configuration.
\<close>

section \<open>Inversion of the constructor's checks\<close>

lemma requireMethod_Inr: "requireMethod v m label = Inr u \<longleftrightarrow> \<not> falsy v \<and> hasMethod v m"
  by (simp add: requireMethod_def)

lemma requireMethods_Inr: "requireMethods v ms label = Inr u \<Longrightarrow> \<forall>m \<in> set ms. hasMethod v m"
proof -
  have "foldE (\<lambda>_ m _. requireMethod v m label) i ms () = Inr u \<Longrightarrow> \<forall>m \<in> set ms. hasMethod v m" for i
    by (induction ms arbitrary: i) (auto simp: res_simps requireMethod_Inr)
  then show "requireMethods v ms label = Inr u \<Longrightarrow> \<forall>m \<in> set ms. hasMethod v m" by (simp add: requireMethods_def)
qed

lemma checkModes_Inr:
  assumes "checkModes live mode providerMode dryRun rehearsal = Inr u"
  shows "mode = JStr ''production'' \<or> mode = JStr ''rehearsal''" and "dryRun = JBool True \<or> dryRun = JBool False"
    and "dryRun = JBool True \<longrightarrow> mode = JStr ''production'' \<and> providerMode = JStr ''fake'' \<and> \<not> live"
    and "mode = JStr ''production'' \<and> dryRun = JBool False \<longrightarrow> providerMode = JNull \<or> providerMode = JStr ''live''"
    and "mode = JStr ''production'' \<and> dryRun = JBool False \<longrightarrow> live"
    and "providerMode \<noteq> JNull \<and> dryRun = JBool False \<longrightarrow> live = (providerMode = JStr ''live'')"
    and "rehearsal \<noteq> JUndefined \<longrightarrow> mode = JStr ''rehearsal'' \<and> providerMode = JStr ''fake''"
proof -
  note c = assms [unfolded checkModes_def checked_then throwIf_Inr]
  show "mode = JStr ''production'' \<or> mode = JStr ''rehearsal''" using conjunct1 [OF c] by argo
  note c = conjunct2 [OF conjunct2 [OF c]]
  show "dryRun = JBool True \<or> dryRun = JBool False" using conjunct1 [OF c] by argo
  note c = conjunct2 [OF c]
  show "dryRun = JBool True \<longrightarrow> mode = JStr ''production'' \<and> providerMode = JStr ''fake'' \<and> \<not> live" using conjunct1 [OF c] by argo
  note c = conjunct2 [OF c]
  show "mode = JStr ''production'' \<and> dryRun = JBool False \<longrightarrow> providerMode = JNull \<or> providerMode = JStr ''live''" using conjunct1 [OF c] by argo
  note c = conjunct2 [OF c]
  show "mode = JStr ''production'' \<and> dryRun = JBool False \<longrightarrow> live" using conjunct1 [OF c] by argo
  note c = conjunct2 [OF c]
  show "providerMode \<noteq> JNull \<and> dryRun = JBool False \<longrightarrow> live = (providerMode = JStr ''live'')" using conjunct1 [OF c] by argo
  show "rehearsal \<noteq> JUndefined \<longrightarrow> mode = JStr ''rehearsal'' \<and> providerMode = JStr ''fake''" using conjunct2 [OF c] by argo
qed

lemma checkOptions_Inr:
  assumes "checkOptions live engine config = Inr u"
  shows "live \<longrightarrow> engine \<noteq> JNull"
    and "live \<longrightarrow> jprop config ''readCycleConfiguration'' = JFun \<or> jprop config ''readPackPlan'' = JFun
           \<or> (isString (jprop config ''packId'') \<and> jprop config ''packId'' \<noteq> JStr [])"
    and "falsy (jprop config ''readCycleConfiguration'') \<or> falsy (jprop config ''readPackPlan'')"
    and "jprop config ''policyCapMicroUsd'' = JUndefined \<or> str_matches is_decimal (jprop config ''policyCapMicroUsd'')"
    and "jprop config ''packId'' = JUndefined \<or> (isString (jprop config ''packId'') \<and> jprop config ''packId'' \<noteq> JStr [])"
    and "nullish (jprop config ''admissionPlanner'') \<or> hasMethod (jprop config ''admissionPlanner'') ''plan''"
    and "nullish (jprop config ''quoteRefreshPlanner'') \<or> hasMethod (jprop config ''quoteRefreshPlanner'') ''plan''"
proof -
  note c = assms [unfolded checkOptions_def optionalFunction_def Let_def checked_then throwIf_Inr]
  note c = conjunct2 [OF conjunct2 [OF conjunct2 [OF c]]]
  show "jprop config ''policyCapMicroUsd'' = JUndefined \<or> str_matches is_decimal (jprop config ''policyCapMicroUsd'')" using conjunct1 [OF c] by argo
  note c = conjunct2 [OF c]
  show "live \<longrightarrow> engine \<noteq> JNull" using conjunct1 [OF c] by argo
  note c = conjunct2 [OF c]
  show "live \<longrightarrow> jprop config ''readCycleConfiguration'' = JFun \<or> jprop config ''readPackPlan'' = JFun
           \<or> (isString (jprop config ''packId'') \<and> jprop config ''packId'' \<noteq> JStr [])" using conjunct1 [OF c] by argo
  note c = conjunct2 [OF c]
  show "jprop config ''packId'' = JUndefined \<or> (isString (jprop config ''packId'') \<and> jprop config ''packId'' \<noteq> JStr [])" using conjunct1 [OF c] by argo
  note c = conjunct2 [OF conjunct2 [OF conjunct2 [OF c]]]
  show "falsy (jprop config ''readCycleConfiguration'') \<or> falsy (jprop config ''readPackPlan'')" using conjunct1 [OF c] by argo
  note c = conjunct2 [OF c]
  show "nullish (jprop config ''admissionPlanner'') \<or> hasMethod (jprop config ''admissionPlanner'') ''plan''" using conjunct1 [OF c] by argo
  show "nullish (jprop config ''quoteRefreshPlanner'') \<or> hasMethod (jprop config ''quoteRefreshPlanner'') ''plan''" using conjunct2 [OF c] by argo
qed

lemma checkCollaborators_Inr:
  assumes "checkCollaborators config = Inr u"
  shows "\<forall>m \<in> set [''readActiveCycle'', ''createCycle'', ''readStage'', ''prepareStage'', ''completeStage'', ''completeCycle'', ''readClaimPreconditions''].
           hasMethod (jprop config ''cycleRepository'') m"
    and "\<forall>m \<in> set [''reconcile'', ''execute'', ''commit'']. hasMethod (jprop config ''stageDriver'') m"
    and "hasMethod (jprop config ''budgetReader'') ''read''" and "hasMethod (jprop config ''feeSettlementObserver'') ''observe''"
    and "jprop config ''now'' = JFun" and "jprop config ''runnerFactory'' = JFun"
proof -
  from assms obtain u1 u2 u3 u4 u5 where f: "throwIf (jprop config ''now'' \<noteq> JFun \<or> jprop config ''runnerFactory'' \<noteq> JFun)
              ''automated cycle service factories are invalid'' = Inr u1"
      and b: "requireMethod (jprop config ''budgetReader'') ''read'' ''budgetReader'' = Inr u2"
      and r: "requireMethods (jprop config ''cycleRepository'')
        [''readActiveCycle'', ''createCycle'', ''readStage'', ''prepareStage'', ''completeStage'', ''completeCycle'', ''readClaimPreconditions'']
        ''cycleRepository'' = Inr u3"
      and d: "requireMethods (jprop config ''stageDriver'') [''reconcile'', ''execute'', ''commit''] ''stageDriver'' = Inr u4"
      and o: "requireMethod (jprop config ''feeSettlementObserver'') ''observe'' ''feeSettlementObserver'' = Inr u5"
    unfolding checkCollaborators_def bindE_Inr_iff by (elim exE conjE) (rule that)
  show "\<forall>m \<in> set [''readActiveCycle'', ''createCycle'', ''readStage'', ''prepareStage'', ''completeStage'', ''completeCycle'', ''readClaimPreconditions''].
           hasMethod (jprop config ''cycleRepository'') m" by (rule requireMethods_Inr [OF r])
  show "\<forall>m \<in> set [''reconcile'', ''execute'', ''commit'']. hasMethod (jprop config ''stageDriver'') m" by (rule requireMethods_Inr [OF d])
  show "hasMethod (jprop config ''budgetReader'') ''read''" using b by (simp add: requireMethod_Inr)
  show "hasMethod (jprop config ''feeSettlementObserver'') ''observe''" using o by (simp add: requireMethod_Inr)
  show "jprop config ''now'' = JFun" "jprop config ''runnerFactory'' = JFun" using f by (simp_all add: throwIf_Inr)
qed

section \<open>An example\<close>

definition ex_object :: "string list \<Rightarrow> jsval" where
  "ex_object ms = JObj (map (\<lambda>m. (m, JFun)) ms)"

definition ex_config :: jsval where
  "ex_config = JObj [(''owner'', JStr ''runner-a''), (''leaseTtlMs'', JNum 60000), (''now'', JFun), (''leaseStore'', JObj []),
     (''budgetReader'', ex_object [''read'']),
     (''cycleRepository'', ex_object [''readActiveCycle'', ''createCycle'', ''readStage'', ''prepareStage'', ''completeStage'', ''completeCycle'',
        ''readClaimPreconditions'']),
     (''runnerFactory'', JFun), (''stageDriver'', ex_object [''reconcile'', ''execute'', ''commit'']),
     (''feeSettlementObserver'', ex_object [''observe'']), (''liveMode'', JBool True), (''packId'', JStr ''base''),
     (''policyEngine'', ex_object [''evaluate'', ''admit'', ''evaluatePurchase'', ''assertExecutionAllowed''])]"

definition ex_svc :: svc where
  "ex_svc = \<lparr>svc_owner = JStr ''runner-a'', svc_leaseTtlMs = JNum 60000, svc_liveMode = True, svc_mode = ''production'', svc_providerMode = JNull,
     svc_dryRun = False, svc_packId = JStr ''base'', svc_readPackPlan = False, svc_readCycleConfiguration = False,
     svc_policyEngine = ex_object [''evaluate'', ''admit'', ''evaluatePurchase'', ''assertExecutionAllowed''],
     svc_policyCapMicroUsd = JNull, svc_recoveryGuard = False, svc_beforeComplete = False, svc_beforeMutation = False,
     svc_rehearsalSessionId = JNull, svc_admissionPlanner = JNull, svc_quoteRefreshPlanner = JNull, svc_operationsAccounts = JNull,
     svc_cycleRepository = ex_object [''readActiveCycle'', ''createCycle'', ''readStage'', ''prepareStage'', ''completeStage'', ''completeCycle'',
        ''readClaimPreconditions''],
     svc_stageDriver = ex_object [''reconcile'', ''execute'', ''commit''],
     svc_now = JFun, svc_leaseStore = JObj [], svc_budgetReader = ex_object [''read''], svc_runnerFactory = JFun,
     svc_feeSettlementObserver = ex_object [''observe'']\<rparr>"

lemma ex_svc_built: "newAutomatedCycleService ex_config = Inr ex_svc"
  by code_simp

section \<open>The property\<close>

text \<open>
  C36.  A service that was constructed is well formed: its mode is production or rehearsal; production without a dry run is live and never talks to fake
  providers; a dry run is a production run against fake providers that is not live; fake providers are never combined with live mode; a live service has a policy
  engine with all four operations and a way to know its pack; a rehearsal session implies fake rehearsal execution; the pack plan and
  the cycle configuration are never both read; the pack, if one is fixed, is a nonempty string and the cap, if one is set, a canonical decimal
  number.  The collaborators have the methods that the constructor demands: the clock and the runner factory are functions, the budget
  reader reads, the fee observer observes, the repository and the stage driver have their seven and three operations, and a planner, if
  there is one, plans.
\<close>

theorem service_configuration_wellformed:
  assumes "newAutomatedCycleService config = Inr s"
  shows "svc_mode s \<in> {''production'', ''rehearsal''}
      \<and> (svc_mode s = ''production'' \<and> \<not> svc_dryRun s \<longrightarrow> svc_liveMode s \<and> svc_providerMode s \<noteq> JStr ''fake'')
      \<and> (svc_dryRun s \<longrightarrow> svc_mode s = ''production'' \<and> svc_providerMode s = JStr ''fake'' \<and> \<not> svc_liveMode s)
      \<and> (svc_providerMode s = JStr ''fake'' \<longrightarrow> \<not> svc_liveMode s)
      \<and> (svc_liveMode s \<longrightarrow> (\<forall>m \<in> {''evaluate'', ''admit'', ''evaluatePurchase'', ''assertExecutionAllowed''}. hasMethod (svc_policyEngine s) m)
           \<and> (svc_readCycleConfiguration s \<or> svc_readPackPlan s \<or> (\<exists>p. svc_packId s = JStr p \<and> p \<noteq> [])))
      \<and> (svc_rehearsalSessionId s \<noteq> JNull \<longrightarrow> svc_mode s = ''rehearsal'' \<and> svc_providerMode s = JStr ''fake'')
      \<and> \<not> (svc_readCycleConfiguration s \<and> svc_readPackPlan s)
      \<and> (\<forall>m \<in> {''readActiveCycle'', ''createCycle'', ''readStage'', ''prepareStage'', ''completeStage'', ''completeCycle'', ''readClaimPreconditions''}.
           hasMethod (svc_cycleRepository s) m)
      \<and> (\<forall>m \<in> {''reconcile'', ''execute'', ''commit''}. hasMethod (svc_stageDriver s) m)
      \<and> hasMethod (svc_budgetReader s) ''read'' \<and> hasMethod (svc_feeSettlementObserver s) ''observe'' \<and> svc_now s = JFun \<and> svc_runnerFactory s = JFun
      \<and> (svc_admissionPlanner s \<noteq> JNull \<longrightarrow> hasMethod (svc_admissionPlanner s) ''plan'')
      \<and> (svc_quoteRefreshPlanner s \<noteq> JNull \<longrightarrow> hasMethod (svc_quoteRefreshPlanner s) ''plan'')
      \<and> (svc_packId s \<noteq> JNull \<longrightarrow> (\<exists>p. svc_packId s = JStr p \<and> p \<noteq> []))
      \<and> (svc_policyCapMicroUsd s \<noteq> JNull \<longrightarrow> (\<exists>n. svc_policyCapMicroUsd s = JStr n \<and> is_decimal n))"
proof -
  let ?p = "jprop config"
  define live where "live = (?p ''liveMode'' = JBool True)"
  define mode where "mode = orElse (?p ''mode'') (JStr (if live then ''production'' else ''rehearsal''))"
  define providerMode where "providerMode = orElse (?p ''providerMode'') JNull"
  define dryRun where "dryRun = orElse (?p ''dryRun'') (JBool False)"
  from assms obtain engine u1 u2 u3 where
      coll: "checkCollaborators config = Inr u1" and modes: "checkModes live mode providerMode dryRun (?p ''rehearsalSessionId'') = Inr u2"
      and eng: "(if ?p ''policyEngine'' = JUndefined then Inr JNull else assertPolicyEngine (?p ''policyEngine'')) = Inr engine"
      and opts: "checkOptions live engine config = Inr u3"
      and cs: "s = configuredService config live mode providerMode dryRun engine"
    unfolding newAutomatedCycleService_def Let_def live_def [symmetric] mode_def [symmetric] providerMode_def [symmetric] dryRun_def [symmetric]
      checked_then bindE_Inr_iff sum.inject by (elim exE conjE) (rule that, assumption+, rule sym)
  have s: "svc_liveMode s = live" "svc_mode s = str_of mode" "svc_providerMode s = providerMode" "svc_dryRun s = (dryRun = JBool True)"
        "svc_packId s = orElse (?p ''packId'') JNull" "svc_readPackPlan s = (?p ''readPackPlan'' = JFun)"
        "svc_readCycleConfiguration s = (?p ''readCycleConfiguration'' = JFun)" "svc_policyEngine s = engine"
        "svc_rehearsalSessionId s = orElse (?p ''rehearsalSessionId'') JNull" "svc_cycleRepository s = ?p ''cycleRepository''"
        "svc_stageDriver s = ?p ''stageDriver''" "svc_budgetReader s = ?p ''budgetReader''" "svc_feeSettlementObserver s = ?p ''feeSettlementObserver''"
        "svc_now s = ?p ''now''" "svc_runnerFactory s = ?p ''runnerFactory''" "svc_policyCapMicroUsd s = orElse (?p ''policyCapMicroUsd'') JNull"
        "svc_admissionPlanner s = orElse (?p ''admissionPlanner'') JNull" "svc_quoteRefreshPlanner s = orElse (?p ''quoteRefreshPlanner'') JNull"
    by (simp_all add: cs configuredService_def)
  note m = checkModes_Inr [OF modes] and o = checkOptions_Inr [OF opts]
  have mode: "mode = JStr (svc_mode s)" "svc_mode s \<in> {''production'', ''rehearsal''}" using m(1) s(2) by auto
  have dry: "dryRun = JBool (svc_dryRun s)" using m(2) s(4) by auto
  have engine: "\<forall>m \<in> set [''evaluate'', ''admit'', ''evaluatePurchase'', ''assertExecutionAllowed'']. hasMethod (svc_policyEngine s) m" if "live"
  proof -
    have "engine \<noteq> JNull" using o(1) that by simp
    with eng have "engine = ?p ''policyEngine''" "\<exists>u. requireMethods engine [''evaluate'', ''admit'', ''evaluatePurchase'', ''assertExecutionAllowed''] ''policyEngine'' = Inr u"
      by (auto simp: assertPolicyEngine_def bindE_Inr_iff simp del: list.set split: if_splits)
    then show ?thesis unfolding s(8) using requireMethods_Inr by blast
  qed
  have pack: "svc_readCycleConfiguration s \<or> svc_readPackPlan s \<or> (\<exists>p. svc_packId s = JStr p \<and> p \<noteq> [])" if "live"
    using o(2) that unfolding s(5,6,7) by (auto simp: orElse_def nullish_def isString_def split: jsval.splits)
  have one_reader: "\<not> (svc_readCycleConfiguration s \<and> svc_readPackPlan s)"
    using o(3) unfolding s(6,7) by (auto simp: falsy_def)
  have session: "svc_mode s = ''rehearsal'' \<and> svc_providerMode s = JStr ''fake''" if "svc_rehearsalSessionId s \<noteq> JNull"
  proof -
    have "?p ''rehearsalSessionId'' \<noteq> JUndefined" using that unfolding s(9) by (auto simp: orElse_def nullish_def)
    with m(7) mode(1) s(3) show ?thesis by simp
  qed
  have prod: "live \<and> svc_providerMode s \<noteq> JStr ''fake''" if "svc_mode s = ''production'' \<and> \<not> svc_dryRun s"
    using m(4,5) mode(1) dry s(3) that by auto
  have dryProd: "svc_mode s = ''production'' \<and> svc_providerMode s = JStr ''fake'' \<and> \<not> live" if "svc_dryRun s"
    using m(3) mode(1) dry s(3) that by simp
  have fake: "\<not> live" if "svc_providerMode s = JStr ''fake''"
    using m(2,3,6) s(3) that by (cases "svc_dryRun s") (auto simp: dry)
  have planners: "svc_admissionPlanner s \<noteq> JNull \<longrightarrow> hasMethod (svc_admissionPlanner s) ''plan''"
      "svc_quoteRefreshPlanner s \<noteq> JNull \<longrightarrow> hasMethod (svc_quoteRefreshPlanner s) ''plan''"
    using o(6,7) unfolding s(17,18) by (auto simp: orElse_def)
  have fixedPack: "svc_packId s \<noteq> JNull \<longrightarrow> (\<exists>p. svc_packId s = JStr p \<and> p \<noteq> [])"
    using o(5) unfolding s(5) by (auto simp: orElse_def nullish_def isString_def split: jsval.splits)
  have cap: "svc_policyCapMicroUsd s \<noteq> JNull \<longrightarrow> (\<exists>n. svc_policyCapMicroUsd s = JStr n \<and> is_decimal n)"
    using o(4) unfolding s(16) by (auto simp: orElse_def nullish_def str_matches_iff)
  show ?thesis
    using mode(2) prod dryProd fake engine pack one_reader session checkCollaborators_Inr [OF coll] s(1) planners fixedPack cap
    unfolding s(10-15) list.set by (intro conjI impI) simp_all
qed

theorem service_configuration_wellformed_witness:
  "newAutomatedCycleService ex_config = Inr ex_svc \<and> hasMethod (svc_policyEngine ex_svc) ''admit'' \<and> hasMethod (svc_stageDriver ex_svc) ''execute''
     \<and> hasMethod (svc_budgetReader ex_svc) ''read''"
  using service_configuration_wellformed [OF ex_svc_built] ex_svc_built by (auto simp: ex_svc_def)

end
