(* ===== verification/Cycle_Safety.thy ===== *)
theory Cycle_Safety
  imports Service_Config
begin

text \<open>
  What the stage sequencer never does, whatever its collaborators answer and however often the heartbeat
  fires in between.  \<open>svcGuard\<close> lists the conditions under which the four consequential calls may be made
  (open a cycle, execute a stage, complete a stage, complete the cycle), as facts about the calls made before.
  The triple \<open>run_triple\<close> shows that a whole run obeys it; each condition is then read off as a property.
\<close>

section \<open>Facts about the history\<close>

definition forStage :: "jsval \<Rightarrow> jsval \<Rightarrow> string \<Rightarrow> bool" where
  "forStage ctx cid st = (jprop ctx ''cycleId'' = cid \<and> jprop ctx ''stage'' = JStr st)"

definition allowed :: "jsval \<Rightarrow> bool" where
  "allowed d = (jprop d ''allowed'' = JBool True)"

abbreviation policed :: "svc \<Rightarrow> bool" where
  "policed s \<equiv> \<not> falsy (svc_policyEngine s)"

text \<open>A stage is done when the repository reported it complete or accepted its completion.\<close>

definition stageDone :: "jsval \<Rightarrow> string \<Rightarrow> svc_trace \<Rightarrow> bool" where
  "stageDone cid st tr =
     ((\<exists>v. (ReadStage cid st, Inr v) \<in> set tr \<and> jprop v ''status'' = JStr ''COMPLETE'')
      \<or> (\<exists>ev opts a. (CompleteStage cid st ev opts, Inr a) \<in> set tr))"

definition earlierStages :: "string \<Rightarrow> string list" where
  "earlierStages st = takeWhile (\<lambda>x. x \<noteq> st) AUTOMATED_CYCLE_STAGES"

definition earlierDone :: "jsval \<Rightarrow> string \<Rightarrow> svc_trace \<Rightarrow> bool" where
  "earlierDone cid st tr = (\<forall>p \<in> set (earlierStages st). stageDone cid p tr)"

definition leaseLastCall :: "svc_trace \<Rightarrow> bool" where
  "leaseLastCall tr = (\<exists>past n a. tr = past @ [(AssertLeaseCurrent (currentLease past) n, Inr a)])"

definition leaseJustChecked :: "svc_trace \<Rightarrow> bool" where
  "leaseJustChecked tr = (heartbeatError tr = None \<and> leaseLastCall tr)"

definition nothingReconciled :: "jsval \<Rightarrow> string \<Rightarrow> svc_trace \<Rightarrow> bool" where
  "nothingReconciled cid st tr = (\<exists>ctx. (Reconcile ctx, Inr JNull) \<in> set tr \<and> forStage ctx cid st)"

definition executionPolicy :: "svc \<Rightarrow> jsval \<Rightarrow> string \<Rightarrow> svc_trace \<Rightarrow> bool" where
  "executionPolicy s cid st tr =
     (policed s \<longrightarrow>
        (\<exists>args d. (AssertExecutionAllowed args, Inr d) \<in> set tr \<and> allowed d \<and> forStage args cid st)
        \<and> (st = ''claim-process'' \<longrightarrow> (\<exists>args d. (PolicyAdmit args, Inr d) \<in> set tr \<and> allowed d \<and> jprop args ''cycleId'' = cid))
        \<and> (st = ''purchase'' \<longrightarrow> (\<exists>args d. (EvaluatePurchase args, Inr d) \<in> set tr \<and> allowed d \<and> jprop args ''cycleId'' = cid)))"

definition joinsProved :: "jsval \<Rightarrow> string \<Rightarrow> svc_trace \<Rightarrow> bool" where
  "joinsProved cid st tr =
     (\<forall>p \<in> set (STAGE_JOIN_PRECONDITIONS st). \<exists>r. (ReadStage cid p, Inr r) \<in> set tr
        \<and> jprop r ''status'' = JStr ''COMPLETE'' \<and> \<not> nullish (jprop r ''evidence''))"

definition notExecuted :: "string \<Rightarrow> svc_trace \<Rightarrow> bool" where
  "notExecuted st tr = (\<forall>ctx a. (Execute ctx, a) \<in> set tr \<longrightarrow> jprop ctx ''stage'' \<noteq> JStr st)"

section \<open>The guard\<close>

definition executeOk :: "svc \<Rightarrow> svc_trace \<Rightarrow> jsval \<Rightarrow> bool" where
  "executeOk s tr ctx =
     (\<exists>cid st. forStage ctx cid st \<and> st \<in> set AUTOMATED_CYCLE_STAGES \<and> jprop ctx ''lease'' = currentLease tr
        \<and> leaseJustChecked tr \<and> nothingReconciled cid st tr \<and> executionPolicy s cid st tr \<and> joinsProved cid st tr
        \<and> earlierDone cid st tr \<and> notExecuted st tr)"

definition completeStageOk :: "svc_trace \<Rightarrow> jsval \<Rightarrow> string \<Rightarrow> jsval \<Rightarrow> bool" where
  "completeStageOk tr cid st ev =
     (leaseJustChecked tr \<and> ev \<noteq> JNull \<and> earlierDone cid st tr \<and> joinsProved cid st tr
      \<and> (\<exists>ctx. (Reconcile ctx, Inr ev) \<in> set tr \<and> forStage ctx cid st)
      \<and> (\<exists>c a. (Commit c, Inr a) \<in> set tr \<and> forStage c cid st \<and> jprop c ''evidence'' = ev))"

definition completeCycleOk :: "svc_trace \<Rightarrow> jsval \<Rightarrow> bool" where
  "completeCycleOk tr cid = (leaseJustChecked tr \<and> (\<forall>st \<in> set AUTOMATED_CYCLE_STAGES. stageDone cid st tr))"

definition startAllowed :: "string \<Rightarrow> svc_trace \<Rightarrow> bool" where
  "startAllowed amount tr =
     (\<exists>q a. (PolicyEvaluate q, Inr a) \<in> set tr \<and> \<not> falsy (jprop a ''allowed'')
        \<and> jprop q ''boundary'' = JStr ''cycle-start'' \<and> jprop q ''releaseAmountWei'' = JStr amount)"

text \<open>The policy was asked about this admission of this cycle, at the cost and the amount it quotes.\<close>

definition admissionAllowed :: "string \<Rightarrow> jsval \<Rightarrow> jsval \<Rightarrow> svc_trace \<Rightarrow> bool" where
  "admissionAllowed amount cid admission tr =
     (\<exists>q a. (PolicyEvaluate q, Inr a) \<in> set tr \<and> \<not> falsy (jprop a ''allowed'')
        \<and> jprop q ''boundary'' = JStr ''cycle-start'' \<and> jprop q ''releaseAmountWei'' = JStr amount
        \<and> jprop q ''releaseCostMicroUsd'' = jprop (jprop admission ''aggregateFundingUsd'') ''amountMicroUsd''
        \<and> jprop q ''admission'' = admission \<and> jprop q ''cycleId'' = cid)"

text \<open>
  The budget decision and the policy answers a new cycle rests on.  Without a planner the decision is the gate's; with one it is made again, for the
  amount quoted in the planner's answer, and that answer is the admission the cycle is created with.
\<close>

definition createCycleOk :: "svc \<Rightarrow> svc_trace \<Rightarrow> jsval \<Rightarrow> bool" where
  "createCycleOk s tr args =
     (leaseLastCall tr \<and> (ReadActiveCycle, Inr JNull) \<in> set tr
      \<and> (\<exists>budget gate d.
           (ReadBudget, Inr budget) \<in> set tr
           \<and> decideCycleBudget budget JNull = Inr gate \<and> bd_ready gate \<and> bd_ready d
           \<and> jprop args ''releaseAmount'' = JStr (bd_releaseAmount d)
           \<and> (policed s \<longrightarrow> startAllowed (bd_releaseAmount gate) tr)
           \<and> (if svc_admissionPlanner s = JNull then d = gate
              else \<exists>p quoted. jprop args ''admission'' \<noteq> JNull \<and> (PlanAdmission p, Inr (jprop args ''admission'')) \<in> set tr
                \<and> jprop p ''cycleId'' = jprop args ''cycleId''
                \<and> admittedWei (jprop args ''admission'') = Inr quoted \<and> decideCycleBudget budget quoted = Inr d
                \<and> (policed s \<longrightarrow> admissionAllowed (bd_releaseAmount d) (jprop args ''cycleId'') (jprop args ''admission'') tr))))"

definition svcGuard :: "svc \<Rightarrow> svc_trace \<Rightarrow> svc_call \<Rightarrow> bool" where
  "svcGuard s tr c = (case c of
      Execute ctx \<Rightarrow> executeOk s tr ctx
    | CompleteStage cid st ev opts \<Rightarrow> completeStageOk tr cid st ev
    | CompleteCycle cid opts \<Rightarrow> completeCycleOk tr cid
    | CreateCycle args \<Rightarrow> createCycleOk s tr args
    | AcquireLease own n ttl \<Rightarrow> False
    | ReleaseLease l \<Rightarrow> False
    | _ \<Rightarrow> True)"

section \<open>Facts that survive every call but an execution\<close>

definition isExecute :: "svc_call \<Rightarrow> bool" where
  "isExecute c = (case c of Execute ctx \<Rightarrow> True | _ \<Rightarrow> False)"

definition calm :: "(svc_trace \<Rightarrow> bool) \<Rightarrow> bool" where
  "calm F = (\<forall>tr c a. \<not> isExecute c \<longrightarrow> F tr \<longrightarrow> F (tr @ [(c, a)]))"

named_theorems calm_intro \<open>closure properties of calm facts\<close>

lemma calmD: "calm F \<Longrightarrow> \<not> isExecute c \<Longrightarrow> F tr \<Longrightarrow> F (tr @ [(c, a)])"
  by (simp add: calm_def)

lemma calm_stable: "stable F \<Longrightarrow> calm F"
  by (simp add: calm_def stable_def)

lemma calm_const [calm_intro]: "calm (\<lambda>_. b)"
  by (simp add: calm_def)

lemma calm_mem [calm_intro]: "calm (\<lambda>tr. e \<in> set tr)"
  by (simp add: calm_def)

lemma calm_conj [calm_intro]: "calm F \<Longrightarrow> calm G \<Longrightarrow> calm (\<lambda>tr. F tr \<and> G tr)"
  by (simp add: calm_def)

lemma calm_stageDone [calm_intro]: "calm (stageDone cid st)"
  by (auto simp: calm_def stageDone_def)

lemma calm_earlierDone [calm_intro]: "calm (earlierDone cid st)"
  using calm_stageDone by (simp add: calm_def earlierDone_def)

lemma calm_nothingReconciled [calm_intro]: "calm (nothingReconciled cid st)"
  by (auto simp: calm_def nothingReconciled_def)

lemma calm_executionPolicy [calm_intro]: "calm (executionPolicy s cid st)"
  by (auto simp: calm_def executionPolicy_def)

lemma calm_joinsProved [calm_intro]: "calm (joinsProved cid st)"
  by (force simp: calm_def joinsProved_def)

lemma calm_notExecuted [calm_intro]: "calm (notExecuted st)"
  by (auto simp: calm_def notExecuted_def isExecute_def)

section \<open>Rules for the primitive programs\<close>

lemma currentLease_snoc: "currentLease (tr @ [ev]) = leaseStep (currentLease tr) ev"
  by (simp add: currentLease_def)

lemma heartbeatError_append:
  "heartbeatError (xs @ ys) = (case heartbeatError xs of Some e \<Rightarrow> Some e | None \<Rightarrow> heartbeatError ys)"
  by (induction xs) (auto split: option.splits)

lemma heartbeatError_snoc:
  "heartbeatError (tr @ [ev]) = (case heartbeatError tr of Some e \<Rightarrow> Some e | None \<Rightarrow> heartbeatFailure ev)"
  by (simp add: heartbeatError_append split: option.splits)

lemma call_calm:
  assumes "calm F" and "\<not> isExecute c" and "\<And>tr. F tr \<Longrightarrow> svcGuard s tr c"
  shows "triple (svcGuard s) F (callP c) (\<lambda>x tr. F tr \<and> (c, Inr x) \<in> set tr)"
  using assms by (intro triple_call) (auto dest: calmD)

text \<open>A program that only makes unguarded calls: every calm fact survives it, also when it throws.\<close>

definition quiet :: "svc \<Rightarrow> 'a svc_prog \<Rightarrow> bool" where
  "quiet s p = (\<forall>F env tr r tr'. calm F \<longrightarrow> F tr \<longrightarrow> p env tr = (r, tr') \<longrightarrow>
      F tr' \<and> (\<exists>new. tr' = tr @ new \<and> permitted (svcGuard s) tr new))"

named_theorems quiet_intro \<open>programs that only make unguarded calls\<close>

lemma quiet_triple: "quiet s p \<Longrightarrow> calm F \<Longrightarrow> triple (svcGuard s) F p (\<lambda>_. F)"
  unfolding quiet_def triple_def by (metis surjective_pairing)

lemma quiet_ret [quiet_intro]: "quiet s (retP x)"
  by (simp add: quiet_def retP_def)

lemma quiet_throw [quiet_intro]: "quiet s (throwP e)"
  by (simp add: quiet_def throwP_def)

lemma quiet_lift [quiet_intro]: "quiet s (liftP r)"
  by (simp add: quiet_def liftP_def)

lemma quiet_trace [quiet_intro]: "(\<And>tr. quiet s (f tr)) \<Longrightarrow> quiet s (traceP f)"
  unfolding quiet_def traceP_def by blast

lemma quiet_if [quiet_intro]: "(b \<Longrightarrow> quiet s p) \<Longrightarrow> (\<not> b \<Longrightarrow> quiet s q) \<Longrightarrow> quiet s (if b then p else q)"
  by simp

lemma quiet_call:
  assumes "\<not> isExecute c" and "\<And>tr. svcGuard s tr c"
  shows "quiet s (callP c)"
  using assms by (auto simp: quiet_def callP_def Let_def dest: calmD)

lemma quiet_bind [quiet_intro]:
  assumes "quiet s p" and "\<And>x. quiet s (f x)"
  shows "quiet s (bindP p f)"
  unfolding quiet_def
proof (intro allI impI)
  fix F env tr r tr' assume F: "calm F" "F tr" and run: "bindP p f env tr = (r, tr')"
  obtain r1 tr1 where p: "p env tr = (r1, tr1)" by (cases "p env tr")
  from assms(1) F p obtain new1 where 1: "F tr1" "tr1 = tr @ new1" "permitted (svcGuard s) tr new1"
    unfolding quiet_def by blast
  show "F tr' \<and> (\<exists>new. tr' = tr @ new \<and> permitted (svcGuard s) tr new)"
  proof (cases r1)
    case (Inl e)
    with run p 1 show ?thesis by (auto simp: bindP_def)
  next
    case (Inr x)
    with run p have "f x env tr1 = (r, tr')" by (simp add: bindP_def)
    with assms(2) [of x] F(1) 1(1) obtain new2 where "F tr'" "tr' = tr1 @ new2" "permitted (svcGuard s) tr1 new2"
      unfolding quiet_def by blast
    with 1 show ?thesis by (auto simp: permitted_append)
  qed
qed

lemma quiet_catch [quiet_intro]:
  assumes "quiet s p" and "\<And>e. quiet s (h e)"
  shows "quiet s (catchP p h)"
  unfolding quiet_def
proof (intro allI impI)
  fix F env tr r tr' assume F: "calm F" "F tr" and run: "catchP p h env tr = (r, tr')"
  obtain r1 tr1 where p: "p env tr = (r1, tr1)" by (cases "p env tr")
  from assms(1) F p obtain new1 where 1: "F tr1" "tr1 = tr @ new1" "permitted (svcGuard s) tr new1"
    unfolding quiet_def by blast
  show "F tr' \<and> (\<exists>new. tr' = tr @ new \<and> permitted (svcGuard s) tr new)"
  proof (cases r1)
    case (Inr x)
    with run p 1 show ?thesis by (auto simp: catchP_def)
  next
    case (Inl e)
    with run p have "h e env tr1 = (r, tr')" by (simp add: catchP_def)
    with assms(2) [of e] F(1) 1(1) obtain new2 where "F tr'" "tr' = tr1 @ new2" "permitted (svcGuard s) tr1 new2"
      unfolding quiet_def by blast
    with 1 show ?thesis by (auto simp: permitted_append)
  qed
qed

lemma quiet_heartbeat [quiet_intro]: "quiet s (heartbeat s')"
  unfolding heartbeat_def by (intro quiet_intro quiet_call) (simp_all add: svcGuard_def isExecute_def)

lemma quiet_heartbeats [quiet_intro]: "quiet s (heartbeats s' n)"
  by (induction n) (auto intro!: quiet_intro)

lemma quiet_duringAwait [quiet_intro]: "quiet s (duringAwait s')"
  unfolding duringAwait_def by (intro quiet_intro quiet_call) (simp_all add: svcGuard_def isExecute_def)

lemma duringAwait_returns: "fst (duringAwait s env tr) = Inr ()"
  by (auto simp: duringAwait_def catchP_def retP_def split: prod.splits sum.splits)

lemma awaitP_run: "awaitP s c env tr = (env tr c, snd (duringAwait s env (tr @ [(c, env tr c)])))"
  using duringAwait_returns [of s env "tr @ [(c, env tr c)]"]
  by (auto simp: awaitP_def finallyP_def callP_def Let_def split: prod.splits sum.splits)

text \<open>An awaited call: facts that hold right after the call survive the heartbeats.\<close>

lemma triple_await:
  assumes "\<And>tr. P tr \<Longrightarrow> svcGuard s tr c" and "calm F" and "\<And>tr a. P tr \<Longrightarrow> F (tr @ [(c, a)])"
  shows "triple (svcGuard s) P (awaitP s c) (\<lambda>x tr. F tr \<and> (c, Inr x) \<in> set tr)"
  unfolding triple_def
proof (intro allI impI)
  fix env :: "svc_call env" and tr assume P: "P tr"
  define a where "a = env tr c"
  let ?F = "\<lambda>tr. F tr \<and> (c, a) \<in> set tr"
  obtain r tr' where d: "duringAwait s env (tr @ [(c, a)]) = (r, tr')" by fastforce
  have "calm ?F" using assms(2) by (intro calm_intro)
  moreover have "?F (tr @ [(c, a)])" using assms(3) [OF P] by simp
  ultimately obtain new where n: "?F tr'" "tr' = (tr @ [(c, a)]) @ new" "permitted (svcGuard s) (tr @ [(c, a)]) new"
    using d quiet_duringAwait [of s s] unfolding quiet_def by blast
  have run: "awaitP s c env tr = (a, tr')" using d by (simp add: awaitP_run a_def)
  show "\<exists>new. snd (awaitP s c env tr) = tr @ new \<and> permitted (svcGuard s) tr new
      \<and> (\<forall>x. fst (awaitP s c env tr) = Inr x \<longrightarrow> F (tr @ new) \<and> (c, Inr x) \<in> set (tr @ new))"
    using n run assms(1) [OF P] by (intro exI [of _ "(c, a) # new"]) auto
qed

lemma await_calm:
  assumes "calm F" and "\<not> isExecute c" and "\<And>tr. F tr \<Longrightarrow> svcGuard s tr c"
  shows "triple (svcGuard s) F (awaitP s c) (\<lambda>x tr. F tr \<and> (c, Inr x) \<in> set tr)"
  by (rule triple_await) (use assms in \<open>auto dest: calmD\<close>)

lemma quiet_await:
  assumes "\<not> isExecute c" and "\<And>tr. svcGuard s tr c"
  shows "quiet s (awaitP s c)"
  unfolding quiet_def
proof (intro allI impI)
  fix F env tr r tr' assume F: "calm F" "F tr" and run: "awaitP s c env tr = (r, tr')"
  obtain r2 where d: "duringAwait s env (tr @ [(c, env tr c)]) = (r2, tr')"
    using run by (metis awaitP_run prod.inject surjective_pairing)
  have "F (tr @ [(c, env tr c)])" using F assms(1) by (blast dest: calmD)
  then obtain new where "F tr'" "tr' = (tr @ [(c, env tr c)]) @ new" "permitted (svcGuard s) (tr @ [(c, env tr c)]) new"
    using d F(1) quiet_duringAwait [of s s] unfolding quiet_def by blast
  then show "F tr' \<and> (\<exists>new. tr' = tr @ new \<and> permitted (svcGuard s) tr new)"
    using assms(2) by (intro conjI exI [of _ "(c, env tr c) # new"]) auto
qed

text \<open>The calls the guard says nothing about.\<close>

definition plainCall :: "svc_call \<Rightarrow> bool" where
  "plainCall c = (case c of Execute _ \<Rightarrow> False | CompleteStage _ _ _ _ \<Rightarrow> False | CompleteCycle _ _ \<Rightarrow> False | CreateCycle _ \<Rightarrow> False
     | AcquireLease _ _ _ \<Rightarrow> False | ReleaseLease _ \<Rightarrow> False | _ \<Rightarrow> True)"

lemma plainCallD: "plainCall c \<Longrightarrow> \<not> isExecute c" "plainCall c \<Longrightarrow> svcGuard s tr c"
  by (simp_all add: plainCall_def isExecute_def svcGuard_def split: svc_call.splits)

lemma quiet_plain [quiet_intro]:
  "plainCall c \<Longrightarrow> quiet s (callP c)" "plainCall c \<Longrightarrow> quiet s (awaitP s c)"
  by (simp_all add: quiet_call quiet_await plainCallD)

lemma quiet_assertNotAborted [quiet_intro]: "quiet s assertNotAborted"
  unfolding assertNotAborted_def by (intro quiet_intro) (simp add: plainCall_def)

lemma quiet_checkLease [quiet_intro]: "quiet s checkLeaseCurrent"
  unfolding checkLeaseCurrent_def by (intro quiet_intro) (simp_all add: plainCall_def)

lemma quiet_assertLease [quiet_intro]: "quiet s assertLease"
  unfolding assertLease_def by (intro quiet_intro) (auto intro: quiet_intro split: option.splits)

lemma quiet_selectQuoteRefresh [quiet_intro]: "quiet s (selectQuoteRefresh s cycle refresh)"
  unfolding selectQuoteRefresh_def by (intro quiet_intro) (simp_all add: plainCall_def)

lemma quiet_settleFirst [quiet_intro]: "quiet s (settleFirst s lease ps)"
  by (induction ps) (auto intro!: quiet_intro simp: plainCall_def)

lemma quiet_retryEach [quiet_intro]: "quiet s (retryEach s lease rs)"
  by (induction rs) (auto intro!: quiet_intro simp: plainCall_def)

lemma quiet_leftovers [quiet_intro]: "quiet s (runOneSupplementarySettlement s)" "quiet s (runPayoutRetries s)"
  unfolding runOneSupplementarySettlement_def runPayoutRetries_def by (intro quiet_intro, simp_all add: plainCall_def)+

lemma quiet_beforeMutation [quiet_intro]: "quiet s (beforeMutationStep s cycle stage)"
  unfolding beforeMutationStep_def by (intro quiet_intro) (simp_all add: plainCall_def)

lemma quiet_renew [quiet_intro]: "quiet s (renewP s')"
  unfolding renewP_def by (intro quiet_intro) (simp_all add: plainCall_def)

lemma quiet_observeFees [quiet_intro]: "quiet s (observeFees s cid)"
  unfolding observeFees_def by (intro quiet_intro) (simp_all add: plainCall_def)

lemma quiet_bindF [quiet_intro]: "quiet s p \<Longrightarrow> (\<And>x. quiet s (f x)) \<Longrightarrow> quiet s (bindF p f)"
  unfolding bindF_def by (intro quiet_intro) (auto intro: quiet_intro split: flow.splits)

lemma quiet_returnF [quiet_intro]: "quiet s (returnF v)"
  unfolding returnF_def by (rule quiet_ret)

lemma quiet_admitCycle [quiet_intro]: "quiet s (admitCycle s cycle created)"
  unfolding admitCycle_def by (intro quiet_if quiet_throw) (auto intro!: quiet_intro simp: plainCall_def split: option.splits)

section \<open>Triples of the guarded programs\<close>

lemma triple_traceF: "(\<And>tr. triple G P (f tr) Q) \<Longrightarrow> triple G P (traceP f) Q"
  by (rule triple_trace) (blast intro: triple_pre)

lemma triple_quiet_bind:
  assumes "quiet s p" and "calm F" and "\<And>x. triple (svcGuard s) F (f x) R"
  shows "triple (svcGuard s) F (bindP p f) R"
  by (rule triple_bind [OF quiet_triple]) (use assms in auto)

definition flowPost :: "('a \<Rightarrow> svc_trace \<Rightarrow> bool) \<Rightarrow> 'a flow \<Rightarrow> svc_trace \<Rightarrow> bool" where
  "flowPost Q x tr = (case x of Return v \<Rightarrow> True | Continue y \<Rightarrow> Q y tr)"

lemma flowPost_simps [simp]: "flowPost Q (Return v) tr" "flowPost Q (Continue y) tr = Q y tr"
  by (simp_all add: flowPost_def)

lemma triple_bindF:
  assumes "triple G P p (flowPost Q)" and "\<And>y. triple G (Q y) (f y) (flowPost R)"
  shows "triple G P (bindF p f) (flowPost R)"
  unfolding bindF_def
proof (rule triple_bind [OF assms(1)])
  fix x show "triple G (flowPost Q x) (case x of Return v \<Rightarrow> retP (Return v) | Continue y \<Rightarrow> f y) (flowPost R)"
  proof (cases x)
    case (Return v)
    then show ?thesis by (simp add: triple_ret)
  next
    case (Continue y)
    then show ?thesis using assms(2) [of y] by (auto elim!: triple_pre)
  qed
qed

lemma triple_returnF: "triple G P (returnF v) (flowPost Q)"
  unfolding returnF_def by (rule triple_ret) simp

lemma triple_quiet_bindF:
  assumes "quiet s p" and "calm F" and "\<And>x. triple (svcGuard s) F (f x) (flowPost R)"
  shows "triple (svcGuard s) F (bindF p f) (flowPost R)"
proof (rule triple_bindF)
  show "triple (svcGuard s) F p (flowPost (\<lambda>_. F))"
    by (rule triple_conseq [OF quiet_triple [OF assms(1,2)]]) (auto simp: flowPost_def split: flow.splits)
qed (rule assms(3))

lemma checkLease_checked:
  assumes "calm F"
  shows "triple (svcGuard s) F checkLeaseCurrent (\<lambda>_ tr. F tr \<and> leaseLastCall tr)"
  unfolding checkLeaseCurrent_def
proof (rule triple_quiet_bind [OF quiet_plain(1) assms], simp add: plainCall_def, rule triple_trace)
  fix n tr
  let ?c = "AssertLeaseCurrent (currentLease tr) n"
  show "triple (svcGuard s) (\<lambda>t. F t \<and> t = tr) (bindP (callP ?c) (\<lambda>_. retP ())) (\<lambda>_ t. F t \<and> leaseLastCall t)"
  proof (rule triple_bind [where Q = "\<lambda>x t. F t \<and> leaseLastCall t"])
    show "triple (svcGuard s) (\<lambda>t. F t \<and> t = tr) (callP ?c) (\<lambda>x t. F t \<and> leaseLastCall t)"
      by (rule triple_call) (auto simp: svcGuard_def leaseLastCall_def isExecute_def intro: calmD [OF assms])
  qed (rule triple_ret, simp)
qed

lemma heartbeat_quiet_calls:
  assumes "checkLeaseCurrent env tr = (r, tr')" shows "heartbeatError tr' = heartbeatError tr"
  using assms by (auto simp: checkLeaseCurrent_def bindP_def callP_def traceP_def retP_def Let_def heartbeatError_snoc
      heartbeatError_append heartbeatFailure_def split: prod.splits sum.splits option.splits)

lemma assertLease_checked:
  assumes "calm F"
  shows "triple (svcGuard s) F assertLease (\<lambda>_ tr. F tr \<and> leaseJustChecked tr)"
  unfolding triple_def
proof (intro allI impI)
  fix env tr assume F: "F tr"
  show "\<exists>new. snd (assertLease env tr) = tr @ new \<and> permitted (svcGuard s) tr new
      \<and> (\<forall>x. fst (assertLease env tr) = Inr x \<longrightarrow> F (tr @ new) \<and> leaseJustChecked (tr @ new))"
  proof (cases "heartbeatError tr")
    case (Some e)
    then show ?thesis by (simp add: assertLease_def traceP_def throwP_def)
  next
    case None
    obtain r tr' where c: "checkLeaseCurrent env tr = (r, tr')" by fastforce
    from tripleD [OF checkLease_checked [OF assms] F c] obtain new where
      n: "tr' = tr @ new" "permitted (svcGuard s) tr new" "\<And>x. r = Inr x \<Longrightarrow> F tr' \<and> leaseLastCall tr'" by metis
    have "heartbeatError tr' = None" using heartbeat_quiet_calls [OF c] None by simp
    with n c None show ?thesis by (intro exI [of _ new]) (auto simp: assertLease_def traceP_def leaseJustChecked_def)
  qed
qed

lemma withContext_await:
  assumes "calm F" and "\<And>c. plainCall (K c)"
  shows "triple (svcGuard s) F (withContext ctx (\<lambda>c. awaitP s (K c))) (\<lambda>x tr. F tr \<and> (\<exists>l. (K (ctx l), Inr x) \<in> set tr))"
  unfolding withContext_def
  by (rule triple_traceF, rule triple_conseq [OF await_calm [OF assms(1)]]) (use assms(2) plainCallD in \<open>auto\<close>)

lemma quiet_withContext [quiet_intro]: "(\<And>c. quiet s (f c)) \<Longrightarrow> quiet s (withContext ctx f)"
  unfolding withContext_def by (intro quiet_intro)

subsection \<open>One stage\<close>

lemma checkJoins_proved:
  assumes "calm F"
  shows "triple (svcGuard s) F (checkJoins s cid st ps)
           (\<lambda>_ tr. F tr \<and> (\<forall>p \<in> set ps. \<exists>r. (ReadStage cid p, Inr r) \<in> set tr
              \<and> jprop r ''status'' = JStr ''COMPLETE'' \<and> \<not> nullish (jprop r ''evidence'')))"
  using assms
proof (induction ps arbitrary: F)
  case Nil
  then show ?case by (simp add: triple_ret)
next
  case (Cons p ps)
  show ?case unfolding checkJoins.simps
  proof (rule triple_bind [OF await_calm [OF Cons.prems]])
    fix r
    let ?F = "\<lambda>tr. F tr \<and> (ReadStage cid p, Inr r) \<in> set tr"
    have "calm ?F" using Cons.prems by (intro calm_intro)
    from Cons.IH [OF this] show "triple (svcGuard s) ?F
        (if jprop r ''status'' \<noteq> JStr ''COMPLETE'' \<or> nullish (jprop r ''evidence'')
         then throwP (JsError (''stage join incomplete: '' @ [CHR 39] @ p @ [CHR 39] @ '' must be finalized before '' @ [CHR 39] @ st
                             @ [CHR 39] @ '' can be attempted'')) else checkJoins s cid st ps)
        (\<lambda>_ tr. F tr \<and> (\<forall>q \<in> set (p # ps). \<exists>r. (ReadStage cid q, Inr r) \<in> set tr
              \<and> jprop r ''status'' = JStr ''COMPLETE'' \<and> \<not> nullish (jprop r ''evidence'')))"
      by (intro triple_if triple_throw) (auto elim!: triple_conseq)
  qed (simp_all add: isExecute_def svcGuard_def)
qed

lemma joins_proved:
  assumes "calm F"
  shows "triple (svcGuard s) F (assertJoinPreconditions s cid st) (\<lambda>_ tr. F tr \<and> joinsProved cid st tr)"
  unfolding assertJoinPreconditions_def
proof (rule triple_bind [where Q = "\<lambda>_ tr. F tr \<and> joinsProved cid st tr"])
  show "triple (svcGuard s) F (checkJoins s cid st (STAGE_JOIN_PRECONDITIONS st)) (\<lambda>_ tr. F tr \<and> joinsProved cid st tr)"
    by (rule triple_conseq [OF checkJoins_proved [OF assms]]) (auto simp: joinsProved_def)
  fix x :: unit
  have "calm (\<lambda>tr. F tr \<and> joinsProved cid st tr)" using assms by (intro calm_intro)
  then show "triple (svcGuard s) (\<lambda>tr. F tr \<and> joinsProved cid st tr)
    (if st = ''claim-process''
     then bindP (awaitP s (ReadClaimPreconditions cid)) (\<lambda>custody.
              if falsy custody \<or> \<not> typeofObject custody then throwP (JsError ''claim-process custody preconditions are invalid'')
              else if custodyReasons custody \<noteq> []
              then throwP (JsError (''claim-process blocked by custody preconditions: '' @ joinComma (custodyReasons custody)))
              else retP ()) else retP ()) (\<lambda>_ tr. F tr \<and> joinsProved cid st tr)"
    by (intro quiet_triple quiet_intro) (simp_all add: plainCall_def)
qed

lemma decision_allowed: "assertPolicyDecision d = Inr x \<Longrightarrow> allowed d"
  by (auto simp: assertPolicyDecision_def allowed_def split: if_splits)

text \<open>Asking the policy engine and insisting on its consent.\<close>

lemma policy_consent:
  assumes "calm F" and "plainCall c"
  shows "triple (svcGuard s) F (bindP (awaitP s c) (\<lambda>d. bindP (liftP (assertPolicyDecision d)) (\<lambda>_. retP ())))
           (\<lambda>_ tr. F tr \<and> (\<exists>d. (c, Inr d) \<in> set tr \<and> allowed d))"
proof (rule triple_bind [OF await_calm [OF assms(1)]])
  fix d
  show "triple (svcGuard s) (\<lambda>tr. F tr \<and> (c, Inr d) \<in> set tr) (bindP (liftP (assertPolicyDecision d)) (\<lambda>_. retP ()))
     (\<lambda>_ tr. F tr \<and> (\<exists>d. (c, Inr d) \<in> set tr \<and> allowed d))"
    by (rule triple_bind [where Q = "\<lambda>_ tr. F tr \<and> (\<exists>d. (c, Inr d) \<in> set tr \<and> allowed d)"])
       (auto intro!: triple_lift triple_ret dest: decision_allowed)
qed (use assms(2) plainCallD in auto)

definition stageConsent :: "svc \<Rightarrow> jsval \<Rightarrow> string \<Rightarrow> svc_trace \<Rightarrow> bool" where
  "stageConsent s cid st tr =
     (policed s \<longrightarrow>
        (st = ''claim-process'' \<longrightarrow> (\<exists>args d. (PolicyAdmit args, Inr d) \<in> set tr \<and> allowed d \<and> jprop args ''cycleId'' = cid))
        \<and> (st = ''purchase'' \<longrightarrow> (\<exists>args d. (EvaluatePurchase args, Inr d) \<in> set tr \<and> allowed d \<and> jprop args ''cycleId'' = cid)))"

lemma calm_stageConsent [calm_intro]: "calm (stageConsent s cid st)"
  by (auto simp: calm_def stageConsent_def)

lemma policyArgs_cycle: "jprop (policyArgs s cycle b) ''cycleId'' = jprop cycle ''cycleId''"
  by (simp add: policyArgs_def jprop_JObj)

lemma stagePolicy_consent:
  assumes "calm F"
  shows "triple (svcGuard s) F (stagePolicy s cycle st) (\<lambda>_ tr. F tr \<and> stageConsent s (jprop cycle ''cycleId'') st tr)"
proof -
  consider "policed s" "st = ''claim-process''" | "policed s" "st = ''purchase''"
    | "falsy (svc_policyEngine s) \<or> (st \<noteq> ''claim-process'' \<and> st \<noteq> ''purchase'')" by blast
  then show ?thesis
  proof cases
    case 1
    have "triple (svcGuard s) F (bindP (awaitP s (PolicyAdmit (policyArgs s cycle ''claim-process'')))
        (\<lambda>d. bindP (liftP (assertPolicyDecision d)) (\<lambda>_. retP ()))) (\<lambda>_ tr. F tr \<and> stageConsent s (jprop cycle ''cycleId'') st tr)"
      by (rule triple_conseq [OF policy_consent [OF assms]])
         (use 1 policyArgs_cycle in \<open>auto simp: plainCall_def stageConsent_def, blast\<close>)
    with 1 show ?thesis unfolding stagePolicy_def
      by (intro triple_bind [where Q = "\<lambda>_ tr. F tr \<and> stageConsent s (jprop cycle ''cycleId'') st tr"]) (auto intro: triple_ret)
  next
    case 2
    have "triple (svcGuard s) F (bindP (awaitP s (EvaluatePurchase (policyArgs s cycle ''purchase'')))
        (\<lambda>d. bindP (liftP (assertPolicyDecision d)) (\<lambda>_. retP ()))) (\<lambda>_ tr. F tr \<and> stageConsent s (jprop cycle ''cycleId'') st tr)"
      by (rule triple_conseq [OF policy_consent [OF assms]])
         (use 2 policyArgs_cycle in \<open>auto simp: plainCall_def stageConsent_def, blast\<close>)
    with 2 show ?thesis unfolding stagePolicy_def
      by (intro triple_bind [where Q = "\<lambda>_. F"]) (auto intro: triple_ret)
  next
    case 3
    then show ?thesis unfolding stagePolicy_def
      by (intro triple_bind [where Q = "\<lambda>_ tr. F tr \<and> stageConsent s (jprop cycle ''cycleId'') st tr"])
         (auto intro!: triple_ret simp: stageConsent_def)
  qed
qed

lemma mutation_allowed:
  assumes "calm F"
  shows "triple (svcGuard s) F (assertMutationAllowed s cycle (JStr st) (JObj [(''boundary'', JStr ''mutation'')]))
           (\<lambda>_ tr. (F tr \<and> (policed s \<longrightarrow> (\<exists>args d. (AssertExecutionAllowed args, Inr d) \<in> set tr \<and> allowed d
                       \<and> forStage args (jprop cycle ''cycleId'') st))) \<and> leaseJustChecked tr)"
    (is "triple _ _ _ (\<lambda>_ tr. (F tr \<and> ?consent tr) \<and> leaseJustChecked tr)")
proof -
  have calm: "calm (\<lambda>tr. F tr \<and> ?consent tr)"
    using assms by (intro calm_conj) (auto simp: calm_def)
  define consult where "consult args = (if falsy (svc_policyEngine s) then retP ()
      else bindP (awaitP s (AssertExecutionAllowed args)) (\<lambda>decision. bindP (liftP (assertPolicyDecision decision)) (\<lambda>_. retP ())))" for args
  have consult: "triple (svcGuard s) F (consult args) (\<lambda>_ tr. F tr \<and> ?consent tr)"
    if "forStage args (jprop cycle ''cycleId'') st" for args
    unfolding consult_def
    by (intro triple_if, rule triple_ret, simp, rule triple_conseq [OF policy_consent [OF assms]])
       (use that in \<open>auto simp: plainCall_def\<close>)
  have final: "triple (svcGuard s) (\<lambda>tr. F tr \<and> ?consent tr)
      (bindP assertLease (\<lambda>_. traceP (\<lambda>tr'. retP (jprop (currentLease tr') ''fencingToken''))))
      (\<lambda>_ tr. (F tr \<and> ?consent tr) \<and> leaseJustChecked tr)"
    by (rule triple_bind [OF assertLease_checked [OF calm]], rule triple_traceF, rule triple_ret)
  show ?thesis
    unfolding assertMutationAllowed_def Let_def
    apply (rule triple_traceF, intro triple_if triple_throw)
    apply (rule triple_quiet_bind [OF quiet_assertLease assms])
    apply (rule triple_bind, rule consult [unfolded consult_def])
     apply (simp add: forStage_def argOr_def jprop_JObj orElse_def nullish_def)
    apply (rule final)
    done
qed

definition doneAll :: "jsval \<Rightarrow> string list \<Rightarrow> svc_trace \<Rightarrow> bool" where
  "doneAll cid ps tr = (\<forall>p \<in> set ps. stageDone cid p tr)"

definition execOnly :: "string list \<Rightarrow> svc_trace \<Rightarrow> bool" where
  "execOnly ps tr = (\<forall>ctx a. (Execute ctx, a) \<in> set tr \<longrightarrow> (\<exists>p \<in> set ps. jprop ctx ''stage'' = JStr p))"

lemma calm_doneAll [calm_intro]: "calm (doneAll cid ps)"
  using calm_stageDone by (simp add: calm_def doneAll_def)

lemma calm_execOnly [calm_intro]: "calm (execOnly ps)"
  by (auto simp: calm_def execOnly_def isExecute_def)

lemma calm_reconciled [calm_intro]: "calm (\<lambda>tr. \<exists>l. (K (ctx l), Inr ev) \<in> set tr)"
  by (auto simp: calm_def)

lemma stageDone_exec: "stageDone cid p tr \<Longrightarrow> stageDone cid p (tr @ new)"
  by (auto simp: stageDone_def)

lemma joinsProved_exec: "joinsProved cid st tr \<Longrightarrow> joinsProved cid st (tr @ new)"
  by (force simp: joinsProved_def)

lemma doneAll_exec: "doneAll cid ps tr \<Longrightarrow> doneAll cid ps (tr @ new)"
  by (simp add: doneAll_def stageDone_exec)

text \<open>What holds when stage \<open>st\<close> is entered, after the stages \<open>ps\<close>.\<close>

definition enterFacts :: "jsval \<Rightarrow> string list \<Rightarrow> string \<Rightarrow> svc_trace \<Rightarrow> bool" where
  "enterFacts cid ps st tr = (doneAll cid ps tr \<and> execOnly ps tr \<and> joinsProved cid st tr)"

definition leaveFacts :: "jsval \<Rightarrow> string list \<Rightarrow> string \<Rightarrow> svc_trace \<Rightarrow> bool" where
  "leaveFacts cid ps st tr = (doneAll cid ps tr \<and> execOnly (ps @ [st]) tr \<and> joinsProved cid st tr)"

lemma calm_enter_leave [calm_intro]: "calm (enterFacts cid ps st)" "calm (leaveFacts cid ps st)"
  unfolding enterFacts_def leaveFacts_def by (intro calm_intro)+

lemma enter_leave: "enterFacts cid ps st tr \<Longrightarrow> leaveFacts cid ps st tr"
  by (auto simp: enterFacts_def leaveFacts_def execOnly_def)

text \<open>A position in the stage list.\<close>

definition stagePos :: "string list \<Rightarrow> string \<Rightarrow> bool" where
  "stagePos ps st = (\<exists>rest. AUTOMATED_CYCLE_STAGES = ps @ st # rest)"

lemma stages_distinct: "distinct AUTOMATED_CYCLE_STAGES"
  by (simp add: AUTOMATED_CYCLE_STAGES_def OPERATIONAL_CYCLE_STAGES_def)

lemma stagePosD:
  assumes "stagePos ps st"
  shows "st \<in> set AUTOMATED_CYCLE_STAGES" "st \<notin> set ps" "earlierStages st = ps"
proof -
  obtain rest where e: "AUTOMATED_CYCLE_STAGES = ps @ st # rest" using assms by (auto simp: stagePos_def)
  show "st \<in> set AUTOMATED_CYCLE_STAGES" by (simp add: e)
  show n: "st \<notin> set ps" using stages_distinct by (auto simp: e)
  show "earlierStages st = ps" unfolding earlierStages_def e using n
    by (subst takeWhile_append2) auto
qed

lemma execOnly_fresh: "execOnly ps tr \<Longrightarrow> st \<notin> set ps \<Longrightarrow> notExecuted st tr"
  by (fastforce simp: execOnly_def notExecuted_def)

lemma execute_call:
  assumes ctx: "\<And>l. forStage (ctx l) cid st" "\<And>l. jprop (ctx l) ''lease'' = l" and pos: "stagePos ps st"
  shows "triple (svcGuard s)
     (\<lambda>tr. (enterFacts cid ps st tr \<and> nothingReconciled cid st tr \<and> executionPolicy s cid st tr) \<and> leaseJustChecked tr)
     (withContext ctx (\<lambda>c. awaitP s (Execute c))) (\<lambda>_. leaveFacts cid ps st)"
  unfolding withContext_def
proof (rule triple_trace)
  fix now
  let ?P = "\<lambda>tr. ((enterFacts cid ps st tr \<and> nothingReconciled cid st tr \<and> executionPolicy s cid st tr) \<and> leaseJustChecked tr) \<and> tr = now"
  let ?ctx = "ctx (currentLease now)"
  have ok: "executeOk s tr ?ctx" if "?P tr" for tr
    unfolding executeOk_def
    using that ctx [of "currentLease now"] stagePosD [OF pos] execOnly_fresh
    by (intro exI [of _ cid] exI [of _ st]) (auto simp: enterFacts_def doneAll_def earlierDone_def)
  have left: "leaveFacts cid ps st (tr @ [(Execute ?ctx, a)])" if "?P tr" for tr a
    using that ctx(1) [of "currentLease now"]
    by (auto simp: enterFacts_def leaveFacts_def execOnly_def forStage_def joinsProved_exec doneAll_exec)
  have "triple (svcGuard s) ?P (awaitP s (Execute ?ctx)) (\<lambda>x tr. leaveFacts cid ps st tr \<and> (Execute ?ctx, Inr x) \<in> set tr)"
    by (rule triple_await) (use ok left in \<open>simp_all add: svcGuard_def calm_intro\<close>)
  then show "triple (svcGuard s) ?P (awaitP s (Execute ?ctx)) (\<lambda>_. leaveFacts cid ps st)"
    by (rule triple_conseq) auto
qed

lemma beforeMutation_checked:
  assumes "calm F"
  shows "triple (svcGuard s) (\<lambda>tr. F tr \<and> leaseJustChecked tr) (beforeMutationStep s cycle st) (\<lambda>_ tr. F tr \<and> leaseJustChecked tr)"
proof (cases "svc_beforeMutation s")
  case False
  then show ?thesis by (simp add: beforeMutationStep_def triple_ret)
next
  case True
  have "triple (svcGuard s) F (beforeMutationStep s cycle st) (\<lambda>_ tr. F tr \<and> leaseJustChecked tr)"
    unfolding beforeMutationStep_def using True
    by (simp, intro triple_quiet_bind [OF quiet_plain(2) assms] assertLease_checked [OF assms]) (simp add: plainCall_def)
  then show ?thesis by (rule triple_pre) simp
qed

lemma executeStage_triple:
  assumes ctx: "\<And>l. forStage (ctx l) cid st" "\<And>l. jprop (ctx l) ''lease'' = l" and pos: "stagePos ps st"
    and cid: "cid = jprop cycle ''cycleId''"
  shows "triple (svcGuard s) (\<lambda>tr. enterFacts cid ps st tr \<and> nothingReconciled cid st tr) (executeStage s cycle st ctx)
     (\<lambda>ev tr. leaveFacts cid ps st tr \<and> (\<exists>l. (Reconcile (ctx l), Inr ev) \<in> set tr))"
proof -
  let ?F = "\<lambda>tr. enterFacts cid ps st tr \<and> nothingReconciled cid st tr"
  let ?E = "\<lambda>tr. enterFacts cid ps st tr \<and> nothingReconciled cid st tr \<and> executionPolicy s cid st tr"
  let ?L = "leaveFacts cid ps st"
  have calms: "calm ?F" "calm (\<lambda>tr. ?F tr \<and> stageConsent s cid st tr)" "calm ?E" by (intro calm_intro)+
  have policy: "triple (svcGuard s) (\<lambda>tr. ?F tr \<and> stageConsent s cid st tr)
      (assertMutationAllowed s cycle (JStr st) (JObj [(''boundary'', JStr ''mutation'')])) (\<lambda>_ tr. ?E tr \<and> leaseJustChecked tr)"
    by (rule triple_conseq [OF mutation_allowed [OF calms(2)]]) (auto simp: cid executionPolicy_def stageConsent_def)
  have tail: "triple (svcGuard s) ?L (bindP assertLease (\<lambda>_. bindP (withContext ctx (\<lambda>c. awaitP s (Reconcile c)))
      (\<lambda>evidence. bindP assertLease (\<lambda>_. retP evidence))))
      (\<lambda>ev tr. ?L tr \<and> (\<exists>l. (Reconcile (ctx l), Inr ev) \<in> set tr))"
    apply (rule triple_quiet_bind [OF quiet_assertLease])
     apply (intro calm_intro)
    apply (rule triple_bind [OF withContext_await])
      apply (intro calm_intro)
     apply (simp add: plainCall_def)
    apply (rule triple_quiet_bind [OF quiet_assertLease])
     apply (intro calm_intro)
    apply (rule triple_ret)
    apply assumption
    done
  show ?thesis unfolding executeStage_def
    by (rule triple_bind [OF stagePolicy_consent [OF calms(1), of s cycle st, folded cid]],
        rule triple_bind [OF policy], rule triple_bind [OF beforeMutation_checked [OF calms(3)]],
        rule triple_bind [OF execute_call [OF ctx pos]], rule tail)
qed

lemma settleStage_triple:
  assumes ctx: "\<And>l. forStage (ctx l) cid st" "\<And>l. \<exists>ps. ctx l = JObj ps" and pos: "stagePos ps st"
    and cid: "cid = jprop cycle ''cycleId''"
  shows "triple (svcGuard s) (\<lambda>tr. leaveFacts cid ps st tr \<and> (\<exists>l. (Reconcile (ctx l), Inr ev) \<in> set tr))
     (settleStage s cycle st ctx ev) (\<lambda>_ tr. doneAll cid (ps @ [st]) tr \<and> execOnly (ps @ [st]) tr)"
proof -
  let ?commit = "\<lambda>c. Commit (withProps (spread c) [(''evidence'', ev)])"
  let ?F = "\<lambda>tr. leaveFacts cid ps st tr \<and> (\<exists>l. (Reconcile (ctx l), Inr ev) \<in> set tr)"
  let ?G = "\<lambda>tr. ?F tr \<and> (\<exists>l a. (?commit (ctx l), Inr a) \<in> set tr)"
  let ?H = "\<lambda>tr. doneAll cid (ps @ [st]) tr \<and> execOnly (ps @ [st]) tr"
  have commits: "calm (\<lambda>tr. \<exists>l a. (?commit (ctx l), Inr a) \<in> set tr)" by (auto simp: calm_def)
  have calms: "calm ?F" "calm ?G" "calm ?H" by (intro calm_intro commits)+
  have committed: "forStage (withProps (spread (ctx l)) [(''evidence'', ev)]) cid st"
      "jprop (withProps (spread (ctx l)) [(''evidence'', ev)]) ''evidence'' = ev" for l
    using ctx [of l] by (auto simp: withProps_def spread_def forStage_def jprop_JObj omap_get_def [symmetric])
  have complete: "completeStageOk tr cid st ev" if "?G tr \<and> leaseJustChecked tr" "ev \<noteq> JNull" for tr
    using that committed ctx(1) stagePosD [OF pos]
    by (fastforce simp: completeStageOk_def leaveFacts_def earlierDone_def doneAll_def)
  have completed: "triple (svcGuard s) (\<lambda>tr. ?G tr \<and> leaseJustChecked tr)
      (traceP (\<lambda>tr. awaitP s (CompleteStage (jprop cycle ''cycleId'') st ev (JObj [(''lease'', currentLease tr), (''assertLease'', JFun)]))))
      (\<lambda>_. ?H)" if "ev \<noteq> JNull"
  proof (rule triple_traceF)
    fix now
    let ?c = "CompleteStage (jprop cycle ''cycleId'') st ev (JObj [(''lease'', currentLease now), (''assertLease'', JFun)])"
    have "triple (svcGuard s) (\<lambda>tr. ?G tr \<and> leaseJustChecked tr) (awaitP s ?c) (\<lambda>x tr. ?F tr \<and> (?c, Inr x) \<in> set tr)"
      by (rule triple_await) (use that complete calms calmD [OF calms(1), of ?c] in \<open>auto simp: svcGuard_def isExecute_def cid\<close>)
    then show "triple (svcGuard s) (\<lambda>tr. ?G tr \<and> leaseJustChecked tr) (awaitP s ?c) (\<lambda>_. ?H)"
      by (rule triple_conseq) (auto simp: leaveFacts_def doneAll_def stageDone_def cid)
  qed
  have commit: "triple (svcGuard s) ?F (withContext ctx (\<lambda>c. awaitP s (?commit c))) (\<lambda>_. ?G)"
    by (rule triple_conseq [OF withContext_await [OF calms(1)]]) (auto simp: plainCall_def)
  show ?thesis unfolding settleStage_def
    by (intro triple_if triple_throw, rule triple_bind [OF commit], rule triple_bind [OF assertLease_checked [OF calms(2)]],
        rule triple_bind [OF completed], assumption, rule triple_quiet_bind [OF quiet_assertLease calms(3)], rule quiet_triple [OF quiet_renew calms(3)])
qed

lemma stageContext_facts:
  "forStage (stageContext s cycle st runner l tok n ex) (jprop cycle ''cycleId'') st"
  "jprop (stageContext s cycle st runner l tok n ex) ''lease'' = l"
  "\<exists>ps. stageContext s cycle st runner l tok n ex = JObj ps"
  by (simp_all add: stageContext_def forStage_def jprop_JObj)

lemma quiet_quoteRefreshGate [quiet_intro]: "quiet s (quoteRefreshGate s cycle st)"
  unfolding quoteRefreshGate_def by (intro quiet_intro) (simp_all add: plainCall_def)

lemma runStage_triple:
  assumes pos: "stagePos ps st" and cid: "cid = jprop cycle ''cycleId''"
  shows "triple (svcGuard s) (\<lambda>tr. doneAll cid ps tr \<and> execOnly ps tr) (runStage s cycle runner st)
     (flowPost (\<lambda>_ tr. doneAll cid (ps @ [st]) tr \<and> execOnly (ps @ [st]) tr))"
proof -
  let ?P = "\<lambda>tr. doneAll cid ps tr \<and> execOnly ps tr"
  let ?H = "\<lambda>tr. doneAll cid (ps @ [st]) tr \<and> execOnly (ps @ [st]) tr"
  let ?E = "enterFacts cid ps st"
  have calms: "calm ?P" "calm ?E" by (intro calm_intro)+
  have joins: "triple (svcGuard s) ?P (assertJoinPreconditions s (jprop cycle ''cycleId'') st) (\<lambda>_. ?E)"
    by (rule triple_conseq [OF joins_proved [OF calms(1)]]) (auto simp: enterFacts_def cid)
  have work: "triple (svcGuard s) ?E (bindP (withContext ctx (\<lambda>c. awaitP s (Reconcile c))) (\<lambda>evidence. bindP assertLease (\<lambda>_.
      bindP (if evidence = JNull then executeStage s cycle st ctx else retP evidence) (\<lambda>evidence'.
      bindP (settleStage s cycle st ctx evidence') (\<lambda>_. retP (Continue ())))))) (flowPost (\<lambda>_. ?H))"
    if ctx: "\<And>l. forStage (ctx l) cid st" "\<And>l. jprop (ctx l) ''lease'' = l" "\<And>l. \<exists>ps. ctx l = JObj ps" for ctx
  proof (rule triple_bind [OF withContext_await [OF calms(2)]])
    fix ev
    let ?R = "\<lambda>ev tr. leaveFacts cid ps st tr \<and> (\<exists>l. (Reconcile (ctx l), Inr ev) \<in> set tr)"
    have c: "calm (\<lambda>tr. ?E tr \<and> (\<exists>l. (Reconcile (ctx l), Inr ev) \<in> set tr))" by (intro calm_intro)
    have ex: "triple (svcGuard s) (\<lambda>tr. ?E tr \<and> (\<exists>l. (Reconcile (ctx l), Inr ev) \<in> set tr))
        (if ev = JNull then executeStage s cycle st ctx else retP ev) ?R"
    proof (rule triple_if)
      assume "ev = JNull"
      then show "triple (svcGuard s) (\<lambda>tr. ?E tr \<and> (\<exists>l. (Reconcile (ctx l), Inr ev) \<in> set tr)) (executeStage s cycle st ctx) ?R"
        by (intro triple_pre [OF executeStage_triple [OF ctx(1,2) pos cid]]) (use ctx(1) in \<open>auto simp: nothingReconciled_def\<close>)
    qed (rule triple_ret, auto intro: enter_leave)
    show "triple (svcGuard s) (\<lambda>tr. ?E tr \<and> (\<exists>l. (Reconcile (ctx l), Inr ev) \<in> set tr)) (bindP assertLease (\<lambda>_.
      bindP (if ev = JNull then executeStage s cycle st ctx else retP ev) (\<lambda>evidence'.
      bindP (settleStage s cycle st ctx evidence') (\<lambda>_. retP (Continue ()))))) (flowPost (\<lambda>_. ?H))"
      by (rule triple_quiet_bind [OF quiet_assertLease c], rule triple_bind [OF ex],
          rule triple_bind [OF settleStage_triple [OF ctx(1,3) pos cid]], rule triple_ret, simp)
  qed (simp add: plainCall_def)
  show ?thesis unfolding runStage_def Let_def
    apply (rule triple_quiet_bind [OF quiet_assertNotAborted calms(1)])
    apply (rule triple_quiet_bind [OF quiet_assertLease calms(1)])
    apply (rule triple_bind [OF await_calm [OF calms(1)]])
      apply (simp_all add: isExecute_def svcGuard_def)
    apply (intro impI conjI)
     apply (rule triple_ret)
     apply (auto simp: doneAll_def stageDone_def cid execOnly_def)[1]
    apply (rule triple_pre [where P = ?P])
     apply (rule triple_quiet_bindF [OF quiet_quoteRefreshGate calms(1)])
     apply (rule triple_bind [OF joins], rule triple_traceF)
     apply (rule triple_quiet_bind [OF quiet_plain(1) calms(2)], simp add: plainCall_def)
     apply (rule triple_quiet_bind [OF _ calms(2)])
      apply (intro quiet_intro, simp add: plainCall_def)
     apply (rule triple_quiet_bind [OF quiet_assertLease calms(2)])
     apply (rule work)
       apply (simp_all add: stageContext_facts cid)
    done
qed

lemma runStages_triple:
  assumes "AUTOMATED_CYCLE_STAGES = ps @ rest" and "cid = jprop cycle ''cycleId''"
  shows "triple (svcGuard s) (\<lambda>tr. doneAll cid ps tr \<and> execOnly ps tr) (runStages s cycle runner rest)
     (flowPost (\<lambda>_. doneAll cid AUTOMATED_CYCLE_STAGES))"
  using assms
proof (induction rest arbitrary: ps)
  case Nil
  then show ?case unfolding runStages.simps by (intro triple_ret) simp
next
  case (Cons st rest)
  have "stagePos ps st" using Cons.prems by (auto simp: stagePos_def)
  then show ?case unfolding runStages.simps
    by (rule triple_bindF [OF runStage_triple [OF _ Cons.prems(2)]]) (rule Cons.IH, simp_all add: Cons.prems)
qed

subsection \<open>Opening and closing the cycle\<close>

lemma finishCycle_triple:
  assumes "cid = jprop cycle ''cycleId''"
  shows "triple (svcGuard s) (doneAll cid AUTOMATED_CYCLE_STAGES) (finishCycle s cycle runner) (\<lambda>_ _. True)"
proof -
  let ?D = "doneAll cid AUTOMATED_CYCLE_STAGES"
  let ?K = "\<lambda>tr. ?D tr \<and> leaseJustChecked tr"
  have calm: "calm ?D" by (intro calm_intro)
  have hook: "triple (svcGuard s) ?K (if \<not> svc_beforeComplete s then retP ()
      else bindP (awaitP s (BeforeComplete args)) (\<lambda>_. assertLease)) (\<lambda>_. ?K)" for args
    by (intro triple_if, rule triple_ret, assumption, rule triple_pre [where P = ?D],
        rule triple_quiet_bind [OF quiet_plain(2) calm]) (auto simp: plainCall_def intro: assertLease_checked [OF calm])
  have complete: "triple (svcGuard s) ?K (traceP (\<lambda>tr. awaitP s (CompleteCycle (jprop cycle ''cycleId'') (opts tr)))) (\<lambda>_ _. True)" for opts
  proof (rule triple_traceF)
    fix now
    show "triple (svcGuard s) ?K (awaitP s (CompleteCycle (jprop cycle ''cycleId'') (opts now))) (\<lambda>_ _. True)"
      by (rule triple_conseq [OF triple_await [where F = "\<lambda>_. True" and P = ?K]])
         (auto simp: svcGuard_def completeCycleOk_def doneAll_def assms calm_intro)
  qed
  show ?thesis unfolding finishCycle_def
    by (rule triple_bind [OF assertLease_checked [OF calm]], rule triple_bind [OF hook], rule triple_bind [OF complete],
        rule quiet_triple, intro quiet_intro, rule calm_const)
qed

text \<open>What the gate before pricing establishes.\<close>

definition gateFacts :: "svc \<Rightarrow> jsval \<Rightarrow> budget_decision \<Rightarrow> svc_trace \<Rightarrow> bool" where
  "gateFacts s budget gate tr =
     (execOnly [] tr \<and> (ReadActiveCycle, Inr JNull) \<in> set tr \<and> (ReadBudget, Inr budget) \<in> set tr
      \<and> decideCycleBudget budget JNull = Inr gate \<and> bd_ready gate
      \<and> (policed s \<longrightarrow> startAllowed (bd_releaseAmount gate) tr))"

lemma calm_gateFacts [calm_intro]: "calm (gateFacts s budget gate)"
  using calm_execOnly [of "[]"] by (auto simp: calm_def gateFacts_def startAllowed_def)

lemma policy_evaluate:
  assumes "calm F" and "jprop q ''boundary'' = JStr ''cycle-start''" and "jprop q ''releaseAmountWei'' = JStr amount"
  shows "triple (svcGuard s) F (bindP (awaitP s (PolicyEvaluate q)) (\<lambda>d.
            if falsy (jprop d ''allowed'') then returnF (policyRefused d) else retP (Continue y)))
     (flowPost (\<lambda>y' tr. y' = y \<and> F tr \<and> startAllowed amount tr))"
  by (rule triple_bind [OF await_calm [OF assms(1)]], simp_all add: isExecute_def svcGuard_def,
      intro conjI impI, rule triple_returnF, rule triple_ret) (use assms in \<open>auto simp: startAllowed_def\<close>)

lemma policy_evaluate_admission:
  assumes "calm F" and "jprop q ''boundary'' = JStr ''cycle-start''" and "jprop q ''releaseAmountWei'' = JStr amount"
    and "jprop q ''releaseCostMicroUsd'' = jprop (jprop admission ''aggregateFundingUsd'') ''amountMicroUsd''"
    and "jprop q ''admission'' = admission" and "jprop q ''cycleId'' = cid"
  shows "triple (svcGuard s) F (bindP (awaitP s (PolicyEvaluate q)) (\<lambda>d.
            if falsy (jprop d ''allowed'') then returnF (policyRefused d) else retP (Continue y)))
     (flowPost (\<lambda>_ tr. F tr \<and> admissionAllowed amount cid admission tr))"
  by (rule triple_bind [OF await_calm [OF assms(1)]], simp_all add: isExecute_def svcGuard_def,
      intro conjI impI, rule triple_returnF, rule triple_ret) (use assms in \<open>auto simp: admissionAllowed_def\<close>)

lemma flowPost_mono: "flowPost P x tr \<Longrightarrow> (\<And>y. P y tr \<Longrightarrow> Q y tr) \<Longrightarrow> flowPost Q x tr"
  by (cases x) simp_all

lemma cycleStartGate_triple:
  "triple (svcGuard s) (\<lambda>tr. execOnly [] tr \<and> (ReadActiveCycle, Inr JNull) \<in> set tr \<and> (ReadBudget, Inr budget) \<in> set tr)
     (cycleStartGate s budget) (flowPost (gateFacts s budget))"
proof -
  let ?F = "\<lambda>tr. execOnly [] tr \<and> (ReadActiveCycle, Inr JNull) \<in> set tr \<and> (ReadBudget, Inr budget) \<in> set tr"
  show ?thesis unfolding cycleStartGate_def
  proof (intro triple_if triple_returnF, rule triple_bind [where Q = "\<lambda>gate tr. ?F tr \<and> decideCycleBudget budget JNull = Inr gate"],
      rule triple_lift, simp, intro triple_if triple_returnF)
    fix gate
    let ?G = "\<lambda>tr. ?F tr \<and> decideCycleBudget budget JNull = Inr gate"
    assume ready: "\<not> \<not> bd_ready gate"
    show "triple (svcGuard s) ?G (retP (Continue gate)) (flowPost (gateFacts s budget))" if "falsy (svc_policyEngine s)"
      by (rule triple_ret) (use ready that in \<open>simp add: gateFacts_def\<close>)
    have calm: "calm ?G" by (intro calm_intro)
    show "triple (svcGuard s) ?G (bindP (awaitP s (PolicyEvaluate (JObj ([(''boundary'', JStr ''cycle-start''),
                 (''releaseAmountWei'', JStr (bd_releaseAmount gate)), (''releaseCostMicroUsd'', JStr ''0'')] @ modeProps s)))) (\<lambda>decision.
          if falsy (jprop decision ''allowed'') then returnF (policyRefused decision) else retP (Continue gate)))
       (flowPost (gateFacts s budget))" if "policed s"
      by (rule triple_conseq [OF policy_evaluate [OF calm]])
         (use ready that in \<open>auto simp: jprop_JObj gateFacts_def elim!: flowPost_mono\<close>)
  qed
qed

lemma quiet_readConfiguration [quiet_intro]: "quiet s (readConfiguration s)"
  unfolding readConfiguration_def by (intro quiet_intro) (simp_all add: plainCall_def)

lemma quiet_readPlan [quiet_intro]: "quiet s (readPlan s cfg)"
  unfolding readPlan_def by (intro quiet_intro) (simp_all add: plainCall_def)

text \<open>The admission, if there is a planner, is the planner's answer for the reserved cycle id.\<close>

definition admissionFacts :: "svc \<Rightarrow> jsval \<Rightarrow> jsval \<Rightarrow> svc_trace \<Rightarrow> bool" where
  "admissionFacts s cid admission tr =
     (if svc_admissionPlanner s = JNull then admission = JNull
      else admission \<noteq> JNull \<and> (\<exists>p. (PlanAdmission p, Inr admission) \<in> set tr \<and> jprop p ''cycleId'' = cid))"

lemma calm_admissionFacts [calm_intro]: "calm (admissionFacts s cid admission)"
  by (auto simp: calm_def admissionFacts_def)

lemma planAdmission_triple:
  assumes "calm F"
  shows "triple (svcGuard s) F (planAdmission s plan) (flowPost (\<lambda>(cid, admission) tr. F tr \<and> admissionFacts s cid admission tr))"
  unfolding planAdmission_def
  apply (intro triple_if)
   apply (rule triple_ret, simp add: admissionFacts_def)
  apply (rule triple_quiet_bind [OF quiet_plain(1) assms], simp add: plainCall_def)
  apply (rule triple_quiet_bind [OF quiet_plain(1) assms], simp add: plainCall_def)
  apply (rule triple_bind [OF await_calm [OF assms]])
    apply (simp_all add: isExecute_def svcGuard_def)
  apply (intro conjI impI triple_returnF)
  apply (rule triple_ret)
  apply (auto simp: admissionFacts_def jprop_JObj)
  done

lemma createArgs_amount: "jprop (createArgs s cfg plan cid admission d) ''releaseAmount'' = JStr (bd_releaseAmount d)"
  by (simp add: createArgs_def jprop_JObj)

lemma createArgs_admission:
  "admission \<noteq> JNull \<Longrightarrow> jprop (createArgs s cfg plan cid admission d) ''admission'' = admission"
  "admission \<noteq> JNull \<Longrightarrow> jprop (createArgs s cfg plan cid admission d) ''cycleId'' = cid"
  by (simp_all add: createArgs_def jprop_JObj planProps_def split: option.splits)

text \<open>What the second gate establishes.\<close>

definition openFacts :: "svc \<Rightarrow> jsval \<Rightarrow> budget_decision \<Rightarrow> jsval \<Rightarrow> jsval \<Rightarrow> budget_decision \<Rightarrow> svc_trace \<Rightarrow> bool" where
  "openFacts s budget gate cid admission d tr =
     (gateFacts s budget gate tr \<and> admissionFacts s cid admission tr \<and> bd_ready d \<and> admissionDecision budget admission gate = Inr d
      \<and> (policed s \<and> admission \<noteq> JNull \<longrightarrow> admissionAllowed (bd_releaseAmount d) cid admission tr))"

lemma calm_openFacts [calm_intro]: "calm (openFacts s budget gate cid admission d)"
  using calm_gateFacts [of s budget gate] calm_admissionFacts [of s cid admission]
  by (auto simp: calm_def openFacts_def admissionAllowed_def)

lemma openFacts_create:
  assumes "openFacts s budget gate cid admission d tr" and "leaseLastCall tr"
  shows "createCycleOk s tr (createArgs s cfg plan cid admission d)"
proof (cases "svc_admissionPlanner s = JNull")
  case True
  then have "admission = JNull" using assms(1) by (simp add: openFacts_def admissionFacts_def)
  then have "d = gate" using assms(1) by (simp add: openFacts_def admissionDecision_def)
  then show ?thesis unfolding createCycleOk_def using assms True
    by (intro conjI exI [of _ budget] exI [of _ gate] exI [of _ d]) (simp_all add: openFacts_def gateFacts_def createArgs_amount)
next
  case False
  then have n: "admission \<noteq> JNull" using assms(1) by (simp add: openFacts_def admissionFacts_def)
  then obtain quoted where q: "admittedWei admission = Inr quoted" "decideCycleBudget budget quoted = Inr d"
    using assms(1) by (auto simp: openFacts_def admissionDecision_def bindE_Inr_iff)
  obtain p where "(PlanAdmission p, Inr admission) \<in> set tr" "jprop p ''cycleId'' = cid"
    using assms(1) False by (auto simp: openFacts_def admissionFacts_def)
  with q n have "\<exists>p quoted. jprop (createArgs s cfg plan cid admission d) ''admission'' \<noteq> JNull
      \<and> (PlanAdmission p, Inr (jprop (createArgs s cfg plan cid admission d) ''admission'')) \<in> set tr
      \<and> jprop p ''cycleId'' = jprop (createArgs s cfg plan cid admission d) ''cycleId''
      \<and> admittedWei (jprop (createArgs s cfg plan cid admission d) ''admission'') = Inr quoted \<and> decideCycleBudget budget quoted = Inr d
      \<and> (policed s \<longrightarrow> admissionAllowed (bd_releaseAmount d) (jprop (createArgs s cfg plan cid admission d) ''cycleId'')
           (jprop (createArgs s cfg plan cid admission d) ''admission'') tr)"
    using assms(1) by (simp add: createArgs_admission openFacts_def) blast
  with False show ?thesis unfolding createCycleOk_def
    using assms by (intro conjI exI [of _ budget] exI [of _ gate] exI [of _ d]) (simp_all add: openFacts_def gateFacts_def createArgs_amount)
qed

lemma admissionPolicy_triple:
  assumes "bd_ready d" and "admissionDecision budget admission gate = Inr d"
  shows "triple (svcGuard s) (\<lambda>tr. gateFacts s budget gate tr \<and> admissionFacts s cid admission tr)
     (admissionPolicy s plan cid admission d) (flowPost (\<lambda>_. openFacts s budget gate cid admission d))"
  unfolding admissionPolicy_def
proof (rule triple_if)
  let ?F = "\<lambda>tr. gateFacts s budget gate tr \<and> admissionFacts s cid admission tr"
  assume "falsy (svc_policyEngine s) \<or> admission = JNull"
  then show "triple (svcGuard s) ?F (retP (Continue ())) (flowPost (\<lambda>_. openFacts s budget gate cid admission d))"
    by (intro triple_ret) (use assms in \<open>auto simp: openFacts_def gateFacts_def\<close>)
next
  let ?F = "\<lambda>tr. gateFacts s budget gate tr \<and> admissionFacts s cid admission tr"
  let ?usd = "bindE (getProp admission ''aggregateFundingUsd'') (\<lambda>u. getProp u ''amountMicroUsd'')"
  let ?ask = "\<lambda>cost. bindP (awaitP s (PolicyEvaluate (JObj ([(''boundary'', JStr ''cycle-start''),
                 (''releaseAmountWei'', JStr (bd_releaseAmount d)), (''releaseCostMicroUsd'', cost)] @ modeProps s
                 @ [(''admission'', admission), (''cycleId'', cid), (''packId'', selectedPackId s plan),
                    (''operations'', orUndefined (svc_operationsAccounts s))])))) (\<lambda>decision.
          if falsy (jprop decision ''allowed'') then returnF (policyRefused decision) else retP (Continue ()))"
  have calm: "calm ?F" by (intro calm_intro)
  show "triple (svcGuard s) ?F (bindP (liftP ?usd) ?ask) (flowPost (\<lambda>_. openFacts s budget gate cid admission d))"
  proof (rule triple_bind [where Q = "\<lambda>cost tr. ?F tr \<and> ?usd = Inr cost"], rule triple_lift, simp)
    fix cost
    show "triple (svcGuard s) (\<lambda>tr. ?F tr \<and> ?usd = Inr cost) (?ask cost) (flowPost (\<lambda>_. openFacts s budget gate cid admission d))"
    proof (cases "?usd = Inr cost")
      case True
      then have cost: "cost = jprop (jprop admission ''aggregateFundingUsd'') ''amountMicroUsd''"
        by (auto simp: getProp_def res_simps split: if_splits)
      have "triple (svcGuard s) ?F (?ask cost) (flowPost (\<lambda>_. openFacts s budget gate cid admission d))"
        by (rule triple_conseq [OF policy_evaluate_admission [OF calm, where amount = "bd_releaseAmount d" and cid = cid and admission = admission]])
           (use assms cost in \<open>auto simp: jprop_JObj modeProps_def openFacts_def elim!: flowPost_mono\<close>)
      then show ?thesis by (rule triple_pre) simp
    qed (simp add: triple_def)
  qed
qed

lemma create_call:
  "triple (svcGuard s) (openFacts s budget gate cid admission d)
     (bindP checkLeaseCurrent (\<lambda>_. bindP (awaitP s (CreateCycle (createArgs s cfg plan cid admission d)))
       (\<lambda>cycle. bindP checkLeaseCurrent (\<lambda>_. retP (Continue cycle))))) (flowPost (\<lambda>_. execOnly []))"
proof -
  let ?c = "CreateCycle (createArgs s cfg plan cid admission d)"
  have open_exec: "execOnly [] tr" if "openFacts s budget gate cid admission d tr" for tr
    using that by (simp add: openFacts_def gateFacts_def)
  have "triple (svcGuard s) (\<lambda>tr. openFacts s budget gate cid admission d tr \<and> leaseLastCall tr) (awaitP s ?c)
      (\<lambda>x tr. execOnly [] tr \<and> (?c, Inr x) \<in> set tr)"
    by (rule triple_await)
       (use open_exec calmD [OF calm_execOnly] in \<open>auto simp: svcGuard_def isExecute_def calm_intro intro: openFacts_create\<close>)
  then have call: "triple (svcGuard s) (\<lambda>tr. openFacts s budget gate cid admission d tr \<and> leaseLastCall tr) (awaitP s ?c) (\<lambda>_. execOnly [])"
    by (rule triple_conseq) auto
  show ?thesis
    by (rule triple_bind [OF checkLease_checked [OF calm_openFacts]], rule triple_bind [OF call],
        rule triple_quiet_bind [OF quiet_checkLease calm_execOnly], rule triple_ret) simp
qed

lemma openCycle_triple:
  "triple (svcGuard s) (\<lambda>tr. execOnly [] tr \<and> (ReadActiveCycle, Inr JNull) \<in> set tr) (openCycle s) (flowPost (\<lambda>_. execOnly []))"
  unfolding openCycle_def
proof (rule triple_bind [OF await_calm])
  fix budget
  have decide: "triple (svcGuard s) (\<lambda>tr. gateFacts s budget gate tr \<and> admissionFacts s cid admission tr)
     (bindP (liftP (admissionDecision budget admission gate)) (\<lambda>d.
       if \<not> bd_ready d then returnF (budgetRefusal d)
       else bindF (admissionPolicy s plan cid admission d) (\<lambda>_. bindP checkLeaseCurrent (\<lambda>_.
         bindP (awaitP s (CreateCycle (createArgs s cfg plan cid admission d))) (\<lambda>cycle.
         bindP checkLeaseCurrent (\<lambda>_. retP (Continue cycle))))))) (flowPost (\<lambda>_. execOnly []))" for gate cfg plan cid admission
  proof (rule triple_bind [where Q = "\<lambda>d tr. (gateFacts s budget gate tr \<and> admissionFacts s cid admission tr) \<and> admissionDecision budget admission gate = Inr d"],
      rule triple_lift, simp, intro triple_if triple_returnF)
    fix d :: budget_decision assume ready: "\<not> \<not> bd_ready d"
    show "triple (svcGuard s) (\<lambda>tr. (gateFacts s budget gate tr \<and> admissionFacts s cid admission tr) \<and> admissionDecision budget admission gate = Inr d)
      (bindF (admissionPolicy s plan cid admission d) (\<lambda>_. bindP checkLeaseCurrent (\<lambda>_.
         bindP (awaitP s (CreateCycle (createArgs s cfg plan cid admission d))) (\<lambda>cycle.
         bindP checkLeaseCurrent (\<lambda>_. retP (Continue cycle)))))) (flowPost (\<lambda>_. execOnly []))"
    proof (cases "admissionDecision budget admission gate = Inr d")
      case True
      then show ?thesis using ready
        by (intro triple_bindF [OF triple_pre [OF admissionPolicy_triple]] create_call) auto
    qed (simp add: triple_def)
  qed
  show "triple (svcGuard s) (\<lambda>tr. (execOnly [] tr \<and> (ReadActiveCycle, Inr JNull) \<in> set tr) \<and> (ReadBudget, Inr budget) \<in> set tr)
     (bindF (cycleStartGate s budget) (\<lambda>gate. bindF (readConfiguration s) (\<lambda>cfg. bindF (readPlan s cfg) (\<lambda>plan.
      bindF (planAdmission s plan) (\<lambda>(cid, admission). bindP checkLeaseCurrent (\<lambda>_.
      bindP (liftP (admissionDecision budget admission gate)) (\<lambda>d.
       if \<not> bd_ready d then returnF (budgetRefusal d)
       else bindF (admissionPolicy s plan cid admission d) (\<lambda>_. bindP checkLeaseCurrent (\<lambda>_.
         bindP (awaitP s (CreateCycle (createArgs s cfg plan cid admission d))) (\<lambda>cycle.
         bindP checkLeaseCurrent (\<lambda>_. retP (Continue cycle)))))))))))) (flowPost (\<lambda>_. execOnly []))"
    apply (rule triple_bindF [OF triple_pre [OF cycleStartGate_triple]], simp)
    apply (rule triple_quiet_bindF [OF quiet_readConfiguration calm_gateFacts])
    apply (rule triple_quiet_bindF [OF quiet_readPlan calm_gateFacts])
    apply (rule triple_bindF [OF planAdmission_triple [OF calm_gateFacts]])
    apply (clarsimp split: prod.splits)
    apply (rule triple_quiet_bind [OF quiet_checkLease])
     apply (intro calm_intro)
    apply (rule decide)
    done
qed (simp_all add: calm_intro isExecute_def svcGuard_def)

lemma findCycle_triple:
  "triple (svcGuard s) (execOnly []) (findCycle s requireActive supplementary retries) (flowPost (\<lambda>_. execOnly []))"
  unfolding findCycle_def
proof (rule triple_bind [OF await_calm [OF calm_execOnly]])
  fix cycle
  let ?F = "\<lambda>tr. execOnly [] tr \<and> (ReadActiveCycle, Inr cycle) \<in> set tr"
  show "triple (svcGuard s) ?F (if cycle \<noteq> JNull then retP (Continue (cycle, False))
       else if requireActive then
         (if supplementary \<noteq> JNull then returnF (withProps [(''status'', JStr ''SUPPLEMENTARY_SETTLEMENT'')] (spread supplementary))
          else case retries of
              [] \<Rightarrow> returnF (statusOnly ''NO_ACTIVE_CYCLE'')
            | r # _ \<Rightarrow> bindP (liftP (getProp r ''cycleId'')) (\<lambda>cid.
                 returnF (JObj [(''status'', JStr ''PAYOUT_RETRY''), (''cycleId'', cid), (''stage'', JStr ''payout'')])))
       else bindF (openCycle s) (\<lambda>c. retP (Continue (c, True)))) (flowPost (\<lambda>_. execOnly []))"
    apply (intro triple_if triple_returnF)
      apply (rule triple_ret, simp)
     apply (cases retries, simp add: triple_returnF)
     apply (simp, rule triple_bind [where Q = "\<lambda>_ _. True"], rule triple_lift, simp, rule triple_returnF)
    apply (rule triple_bindF [OF triple_pre [OF openCycle_triple]], simp)
    apply (rule triple_ret, simp)
    done
qed (simp_all add: isExecute_def svcGuard_def)

lemma runHeld_triple: "triple (svcGuard s) (execOnly []) (runHeld s requireActive) (\<lambda>_ _. True)"
  unfolding runHeld_def
  apply (rule triple_quiet_bind [OF quiet_assertNotAborted calm_execOnly])
  apply (rule triple_quiet_bind [OF quiet_leftovers(1) calm_execOnly])
  apply (rule triple_quiet_bind [OF quiet_leftovers(2) calm_execOnly])
  apply (rule triple_conseq [where Q = "flowPost (\<lambda>_ _. True)"])
    apply (rule triple_bindF [OF findCycle_triple])
    apply (clarsimp split: prod.splits)
    apply (rule triple_quiet_bindF [OF quiet_admitCycle calm_execOnly])
    apply (rule triple_quiet_bind [OF quiet_plain(1) calm_execOnly], simp add: plainCall_def)
    apply (rule triple_bindF [OF triple_pre [OF runStages_triple [where ps = "[]"]]])
       apply (simp_all add: doneAll_def)
  apply (rule triple_conseq [OF finishCycle_triple [OF refl]])
   apply (simp_all add: doneAll_def flowPost_def split: flow.splits)
  done

section \<open>A whole run\<close>

definition acquired :: "svc \<Rightarrow> jsval \<Rightarrow> jsval \<Rightarrow> svc_trace" where
  "acquired s n l = [(Now, Inr n), (AcquireLease (svc_owner s) n (svc_leaseTtlMs s), Inr l)]"

definition refused :: "svc \<Rightarrow> js_error \<Rightarrow> svc_trace \<Rightarrow> bool" where
  "refused s e tr = (tr = [(Now, Inl e)] \<or> (\<exists>n. tr = [(Now, Inr n), (AcquireLease (svc_owner s) n (svc_leaseTtlMs s), Inl e)]))"

definition heldByOther :: "js_error \<Rightarrow> bool" where
  "heldByOther e = containsText ''active cycle lease'' (errorMessage e)"

lemma acquireP_cases:
  assumes "acquireP s env [] = (x, tr)"
  obtains (failed) e where "refused s e tr" "x = (if heldByOther e then Inr (Return (statusOnly ''LEASE_HELD'')) else Inl e)"
  | (held) n l where "x = Inr (Continue ())" "tr = acquired s n l"
proof -
  let ?acq = "\<lambda>n. AcquireLease (svc_owner s) n (svc_leaseTtlMs s)"
  let ?out = "\<lambda>e. if heldByOther e then Inr (Return (statusOnly ''LEASE_HELD'')) else Inl e :: unit flow res"
  show ?thesis
  proof (cases "env [] Now")
    case (Inl e)
    have "acquireP s env [] = (?out e, [(Now, Inl e)])"
      by (simp add: acquireP_def catchP_def bindP_def callP_def Let_def Inl returnF_def retP_def throwP_def heldByOther_def)
    with assms show ?thesis by (intro failed [of e]) (auto simp: refused_def)
  next
    case (Inr n)
    show ?thesis
    proof (cases "env [(Now, Inr n)] (?acq n)")
      case (Inl e)
      have "acquireP s env [] = (?out e, [(Now, Inr n), (?acq n, Inl e)])"
        by (simp add: acquireP_def catchP_def bindP_def callP_def Let_def Inl \<open>env [] Now = Inr n\<close> returnF_def retP_def throwP_def heldByOther_def)
      with assms show ?thesis by (intro failed [of e]) (auto simp: refused_def)
    next
      case (Inr l)
      have "acquireP s env [] = (Inr (Continue ()), acquired s n l)"
        by (simp add: acquireP_def catchP_def bindP_def callP_def Let_def Inr \<open>env [] Now = Inr n\<close> retP_def acquired_def)
      with assms show ?thesis by (intro held [of n l]) auto
    qed
  qed
qed

text \<open>A run is a failed acquisition, or an acquisition, guarded calls, and the release of the current lease.\<close>

lemma run_shape:
  assumes "run s requireActive env [] = (r, tr)"
  obtains (failed) e where "refused s e tr" "r = (if heldByOther e then Inr (statusOnly ''LEASE_HELD'') else Inl e)"
  | (held) n l new rel where "tr = (acquired s n l @ new) @ rel" "permitted (svcGuard s) (acquired s n l) new"
      "if falsy (currentLease (acquired s n l @ new)) then rel = []
       else \<exists>a. rel = [(ReleaseLease (currentLease (acquired s n l @ new)), a)]"
proof -
  obtain x tr1 where acq: "acquireP s env [] = (x, tr1)" by fastforce
  from acq show ?thesis
  proof (cases rule: acquireP_cases)
    case (failed e)
    then show ?thesis using assms acq that(1) [of e] by (auto simp: run_def bindF_def bindP_def retP_def split: if_splits)
  next
    case (held n l)
    obtain y tr2 where body: "runHeld s requireActive env tr1 = (y, tr2)" by fastforce
    have "execOnly [] tr1" by (simp add: held execOnly_def acquired_def)
    from tripleD [OF runHeld_triple this body] obtain new where new: "tr2 = tr1 @ new" "permitted (svcGuard s) tr1 new" by metis
    obtain z tr3 where rel: "releaseP env tr2 = (z, tr3)" by fastforce
    have "tr = tr3"
      using assms acq body rel held(1)
      by (auto simp: run_def bindF_def bindP_def finallyP_def retP_def split: sum.splits flow.splits)
    moreover have "tr3 = (if falsy (currentLease tr2) then tr2
        else tr2 @ [(ReleaseLease (currentLease tr2), env tr2 (ReleaseLease (currentLease tr2)))])"
      using rel by (auto simp: releaseP_def traceP_def bindP_def callP_def retP_def Let_def split: if_splits sum.splits)
    ultimately show ?thesis
      using that(2) [of n l new "drop (length tr2) tr"] new held(2) by (auto split: if_splits)
  qed
qed

definition consequential :: "svc_call \<Rightarrow> bool" where
  "consequential c = (case c of Execute _ \<Rightarrow> True | CompleteStage _ _ _ _ \<Rightarrow> True | CompleteCycle _ _ \<Rightarrow> True | CreateCycle _ \<Rightarrow> True | _ \<Rightarrow> False)"

lemma middle_split:
  assumes "past @ e # later = (xs @ ys) @ zs" and "e \<notin> set xs" and "e \<notin> set zs"
  obtains us vs where "ys = us @ e # vs" "past = xs @ us"
  using assms by (auto simp: append_eq_append_conv2 append_eq_Cons_conv Cons_eq_append_conv)

lemma guarded_call:
  assumes "run s requireActive env [] = (r, past @ (c, a) # later)" and "consequential c"
  shows "svcGuard s past c"
  using assms(1)
proof (cases rule: run_shape)
  case (failed e)
  then have "(c, a) \<in> set [(Now, Inl e)] \<or> (\<exists>n. (c, a) \<in> set [(Now, Inr n), (AcquireLease (svc_owner s) n (svc_leaseTtlMs s), Inl e)])"
    unfolding refused_def by (metis in_set_conv_decomp)
  then show ?thesis using assms(2) by (auto simp: consequential_def)
next
  case (held n l new rel)
  have "(c, a) \<notin> set (acquired s n l)" "(c, a) \<notin> set rel"
    using held(3) assms(2) by (auto simp: acquired_def consequential_def split: if_splits)
  then obtain us vs where "new = us @ (c, a) # vs" "past = acquired s n l @ us"
    using middle_split [OF held(1)] by metis
  with held(2) show ?thesis by (simp add: permitted_append)
qed

section \<open>An example run\<close>

definition ex_lease :: jsval where
  "ex_lease = JObj [(''owner'', JStr ''runner-a''), (''fencingToken'', JStr ''token'')]"

definition ex_cycle :: jsval where
  "ex_cycle = JObj [(''cycleId'', JStr ''cycle-1''), (''mode'', JStr ''production''), (''releaseAmount'', JStr ''390'')]"

definition ex_consent :: jsval where
  "ex_consent = JObj [(''allowed'', JBool True)]"

text \<open>Every stage but the purchase is complete; the purchase reconciles once it has been executed.\<close>

definition ex_env :: "svc_call env" where
  "ex_env tr c = (case c of
      Now \<Rightarrow> Inr (JNum 1)
    | ReadSignal \<Rightarrow> Inr JUndefined
    | AcquireLease _ _ _ \<Rightarrow> Inr ex_lease
    | RenewLease _ _ _ \<Rightarrow> Inr ex_lease
    | AssertLeaseCurrent _ _ \<Rightarrow> Inr (JBool True)
    | ReleaseLease _ \<Rightarrow> Inr (JBool True)
    | HeartbeatsDue \<Rightarrow> Inr (JNum 0)
    | ReadActiveCycle \<Rightarrow> Inr ex_cycle
    | ReadStage _ st \<Rightarrow> Inr (if st = ''purchase'' then JNull else JObj [(''status'', JStr ''COMPLETE''), (''evidence'', JObj [])])
    | Reconcile _ \<Rightarrow> Inr (if list_ex (\<lambda>(c', _). isExecute c') tr then JStr ''receipt'' else JNull)
    | EvaluatePurchase _ \<Rightarrow> Inr ex_consent
    | AssertExecutionAllowed _ \<Rightarrow> Inr ex_consent
    | _ \<Rightarrow> Inr (JObj []))"

text \<open>No cycle is active and the budget is ready; the new cycle is already closed when it is returned.\<close>

definition ex_opening :: "svc_call env" where
  "ex_opening tr c = (case c of
      ReadActiveCycle \<Rightarrow> Inr JNull
    | ReadBudget \<Rightarrow> Inr budget_example
    | PolicyEvaluate _ \<Rightarrow> Inr ex_consent
    | CreateCycle _ \<Rightarrow> Inr (JObj [(''cycleId'', JStr ''cycle-1''), (''mode'', JStr ''production''), (''terminalState'', JStr ''COMPLETE'')])
    | _ \<Rightarrow> ex_env tr c)"

text \<open>The same with an admission planner whose quote is below the configured requirement.\<close>

definition ex_planned :: svc where
  "ex_planned = ex_svc\<lparr>svc_admissionPlanner := ex_object [''plan'']\<rparr>"

definition ex_answer :: jsval where
  "ex_answer = JObj [(''aggregateFundingQuote'', JObj [(''amountAtomic'', JStr ''120'')]), (''aggregateFundingUsd'', JObj [(''amountMicroUsd'', JStr ''7'')])]"

definition ex_admitting :: "svc_call env" where
  "ex_admitting tr c = (case c of
      NextCycleId \<Rightarrow> Inr (JStr ''cycle-1'')
    | PlanAdmission _ \<Rightarrow> Inr ex_answer
    | _ \<Rightarrow> ex_opening tr c)"

definition callsSeen :: "svc_trace \<Rightarrow> bool" where
  "callsSeen tr =
     (list_ex (\<lambda>(c, _). isExecute c) tr \<and> list_ex (\<lambda>(c, _). case c of CompleteStage _ _ _ _ \<Rightarrow> True | _ \<Rightarrow> False) tr
      \<and> list_ex (\<lambda>(c, _). case c of CompleteCycle _ _ \<Rightarrow> True | _ \<Rightarrow> False) tr)"

lemma ex_run_calls: "callsSeen (snd (run ex_svc False ex_env []))"
  by code_simp

lemmas run_eval = run_def bindF_def bindP_def callP_def retP_def throwP_def liftP_def traceP_def catchP_def finallyP_def returnF_def acquireP_def releaseP_def
  runHeld_def awaitP_def duringAwait_def assertNotAborted_def checkLeaseCurrent_def assertLease_def runOneSupplementarySettlement_def
  runPayoutRetries_def findCycle_def openCycle_def cycleStartGate_def readConfiguration_def readPlan_def planAdmission_def admissionDecision_def
  admissionPolicy_def admitCycle_def cycleMismatch_def

lemma listed_call:
  assumes "list_ex (\<lambda>(c, _). P c) tr"
  obtains past c a later where "tr = past @ (c, a) # later" "P c"
  using assms by (fastforce simp: list_ex_iff dest: split_list)

section \<open>Properties\<close>

text \<open>
  C1.  A stage is executed only when it may be.  In every run, under every behaviour of the collaborators and of the
  heartbeat, when the service calls the stage driver's execute for a stage: the last thing it did was to confirm that
  the lease it holds now is current, and no heartbeat has failed; the context carries that lease; the driver had answered that nothing is reconciled
  for this stage; every earlier stage of the sequence is complete, and the stages it joins on have recorded evidence;
  the policy engine, if there is one, allowed this very cycle and stage (and admitted the claim, or evaluated the
  purchase); and this run has not executed the stage before.
\<close>

theorem stage_execution_authorised:
  assumes "run s requireActive env [] = (r, past @ (Execute ctx, a) # later)"
  shows "\<exists>cid st. forStage ctx cid st \<and> st \<in> set AUTOMATED_CYCLE_STAGES \<and> jprop ctx ''lease'' = currentLease past
        \<and> leaseJustChecked past \<and> nothingReconciled cid st past \<and> executionPolicy s cid st past \<and> joinsProved cid st past
        \<and> earlierDone cid st past \<and> notExecuted st past"
  using guarded_call [OF assms] by (simp add: consequential_def svcGuard_def executeOk_def)

theorem stage_execution_authorised_witness:
  "\<exists>past ctx a later cid. run ex_svc False ex_env [] = (fst (run ex_svc False ex_env []), past @ (Execute ctx, a) # later)
     \<and> leaseJustChecked past \<and> (\<exists>st. forStage ctx cid st \<and> executionPolicy ex_svc cid st past \<and> earlierDone cid st past)"
proof -
  have "list_ex (\<lambda>(c, _). isExecute c) (snd (run ex_svc False ex_env []))" using ex_run_calls by (simp add: callsSeen_def)
  then obtain past c a later where tr: "snd (run ex_svc False ex_env []) = past @ (c, a) # later" and "isExecute c" by (rule listed_call)
  then obtain ctx where c: "c = Execute ctx" by (auto simp: isExecute_def split: svc_call.splits)
  have run: "run ex_svc False ex_env [] = (fst (run ex_svc False ex_env []), past @ (Execute ctx, a) # later)"
    using tr by (simp add: c prod_eq_iff)
  from stage_execution_authorised [OF run] run show ?thesis by blast
qed

text \<open>
  C20.  A stage is recorded complete only on reconciled evidence: when the service asks the repository to complete a
  stage, the evidence it passes is not null, is what the stage driver's reconciliation of that stage returned, has been
  committed by the driver, all earlier stages are complete, and the lease has just been confirmed.
\<close>

theorem stage_completion_needs_evidence:
  assumes "run s requireActive env [] = (r, past @ (CompleteStage cid st ev opts, a) # later)"
  shows "ev \<noteq> JNull \<and> (\<exists>ctx. (Reconcile ctx, Inr ev) \<in> set past \<and> forStage ctx cid st)
      \<and> (\<exists>c b. (Commit c, Inr b) \<in> set past \<and> forStage c cid st \<and> jprop c ''evidence'' = ev)
      \<and> earlierDone cid st past \<and> joinsProved cid st past \<and> leaseJustChecked past"
  using guarded_call [OF assms] by (simp add: consequential_def svcGuard_def completeStageOk_def)

theorem stage_completion_needs_evidence_witness:
  "\<exists>past cid st ev opts a later.
     run ex_svc False ex_env [] = (fst (run ex_svc False ex_env []), past @ (CompleteStage cid st ev opts, a) # later)
     \<and> ev \<noteq> JNull \<and> (\<exists>ctx. (Reconcile ctx, Inr ev) \<in> set past \<and> forStage ctx cid st) \<and> leaseJustChecked past"
proof -
  have "list_ex (\<lambda>(c, _). case c of CompleteStage _ _ _ _ \<Rightarrow> True | _ \<Rightarrow> False) (snd (run ex_svc False ex_env []))"
    using ex_run_calls by (simp add: callsSeen_def)
  then obtain past c a later where tr: "snd (run ex_svc False ex_env []) = past @ (c, a) # later"
    and "case c of CompleteStage _ _ _ _ \<Rightarrow> True | _ \<Rightarrow> False" by (rule listed_call)
  then obtain cid st ev opts where c: "c = CompleteStage cid st ev opts" by (auto split: svc_call.splits)
  have run: "run ex_svc False ex_env [] = (fst (run ex_svc False ex_env []), past @ (CompleteStage cid st ev opts, a) # later)"
    using tr by (simp add: c prod_eq_iff)
  from stage_completion_needs_evidence [OF run] run show ?thesis by blast
qed

text \<open>
  The cycle is completed only at the end: when the service asks the repository to complete a cycle, each of the
  nine stages was reported complete by the repository or completed in this run, and the lease has just been confirmed.
\<close>

theorem cycle_completion_is_last:
  assumes "run s requireActive env [] = (r, past @ (CompleteCycle cid opts, a) # later)"
  shows "(\<forall>st \<in> set OPERATIONAL_CYCLE_STAGES. stageDone cid st past) \<and> leaseJustChecked past"
  using guarded_call [OF assms] by (simp add: consequential_def svcGuard_def completeCycleOk_def AUTOMATED_CYCLE_STAGES_def)

theorem cycle_completion_is_last_witness:
  "\<exists>past cid opts a later. run ex_svc False ex_env [] = (fst (run ex_svc False ex_env []), past @ (CompleteCycle cid opts, a) # later)
     \<and> stageDone cid ''payout'' past \<and> leaseJustChecked past"
proof -
  have "list_ex (\<lambda>(c, _). case c of CompleteCycle _ _ \<Rightarrow> True | _ \<Rightarrow> False) (snd (run ex_svc False ex_env []))"
    using ex_run_calls by (simp add: callsSeen_def)
  then obtain past c a later where tr: "snd (run ex_svc False ex_env []) = past @ (c, a) # later"
    and "case c of CompleteCycle _ _ \<Rightarrow> True | _ \<Rightarrow> False" by (rule listed_call)
  then obtain cid opts where c: "c = CompleteCycle cid opts" by (auto split: svc_call.splits)
  have run: "run ex_svc False ex_env [] = (fst (run ex_svc False ex_env []), past @ (CompleteCycle cid opts, a) # later)"
    using tr by (simp add: c prod_eq_iff)
  from cycle_completion_is_last [OF run] have "stageDone cid ''payout'' past" "leaseJustChecked past"
    by (simp_all add: OPERATIONAL_CYCLE_STAGES_def)
  with run show ?thesis by blast
qed

text \<open>
  C16.  A cycle is opened only when it is funded and allowed: when the service creates a cycle, the repository has
  reported that none is active, the last call confirmed the lease, and the budget read in this run is ready as configured.  Without an admission planner the release
  amount is exactly the configured requirement.  With one, the cycle carries the planner's answer for its own id, the same budget is also ready for the
  amount quoted there, and the release amount is exactly the one of that second decision.  The release amount never exceeds the reported
  process liability.  The policy engine, if there is one, allowed a cycle start with the configured amount, and with a planner
  also this admission of this cycle at its quoted amount and cost.
\<close>

theorem cycle_opening_is_funded:
  assumes "run s requireActive env [] = (r, past @ (CreateCycle args, a) # later)"
  shows "(ReadActiveCycle, Inr JNull) \<in> set past \<and> leaseLastCall past
      \<and> (\<exists>budget gate d.
           (ReadBudget, Inr budget) \<in> set past
           \<and> decideCycleBudget budget JNull = Inr gate \<and> bd_ready gate \<and> bd_ready d
           \<and> jprop args ''releaseAmount'' = JStr (bd_releaseAmount d)
           \<and> nat_of_dec (bd_releaseAmount d) \<le> nat_of_dec (str_of (jprop budget ''availableProcessWei''))
           \<and> (policed s \<longrightarrow> startAllowed (bd_releaseAmount gate) past)
           \<and> (if svc_admissionPlanner s = JNull then d = gate
              else \<exists>p quoted. jprop args ''admission'' \<noteq> JNull \<and> (PlanAdmission p, Inr (jprop args ''admission'')) \<in> set past
                \<and> jprop p ''cycleId'' = jprop args ''cycleId''
                \<and> admittedWei (jprop args ''admission'') = Inr quoted \<and> decideCycleBudget budget quoted = Inr d
                \<and> (policed s \<longrightarrow> admissionAllowed (bd_releaseAmount d) (jprop args ''cycleId'') (jprop args ''admission'') past)))"
proof -
  have ok: "createCycleOk s past args" using guarded_call [OF assms] by (simp add: consequential_def svcGuard_def)
  have funded: "nat_of_dec (bd_releaseAmount d) \<le> nat_of_dec (str_of (jprop budget ''availableProcessWei''))"
    if "decideCycleBudget budget q = Inr d" "bd_ready d" for budget q d
    using decideCycleBudget_Inr(1) [OF that(1)] that(2) by (simp add: budgetResult_def budgetAmount_def split: if_splits)
  from ok obtain budget gate d where o: "(ReadBudget, Inr budget) \<in> set past" "decideCycleBudget budget JNull = Inr gate" "bd_ready gate" "bd_ready d"
      "jprop args ''releaseAmount'' = JStr (bd_releaseAmount d)" "policed s \<longrightarrow> startAllowed (bd_releaseAmount gate) past"
    and p: "if svc_admissionPlanner s = JNull then d = gate
              else \<exists>p quoted. jprop args ''admission'' \<noteq> JNull \<and> (PlanAdmission p, Inr (jprop args ''admission'')) \<in> set past
                \<and> jprop p ''cycleId'' = jprop args ''cycleId''
                \<and> admittedWei (jprop args ''admission'') = Inr quoted \<and> decideCycleBudget budget quoted = Inr d
                \<and> (policed s \<longrightarrow> admissionAllowed (bd_releaseAmount d) (jprop args ''cycleId'') (jprop args ''admission'') past)"
    unfolding createCycleOk_def by blast
  have "nat_of_dec (bd_releaseAmount d) \<le> nat_of_dec (str_of (jprop budget ''availableProcessWei''))"
    using p funded [OF o(2,3)] funded [OF _ o(4)] by (auto split: if_splits)
  with ok o p show ?thesis unfolding createCycleOk_def by blast
qed

lemma ex_quoted: "decideCycleBudget budget_example (JStr ''120'')
  = Inr \<lparr>bd_ready = True, bd_reason = ''READY'', bd_requiredProcessWei = dec_of_nat 120, bd_releaseAmount = dec_of_nat 120\<rparr>"
  by (simp add: budget_eval)

lemma ex_planned_calls: "list_ex (\<lambda>(c, _). case c of CreateCycle args \<Rightarrow> jprop args ''releaseAmount'' = JStr (dec_of_nat 120) \<and> jprop args ''admission'' = ex_answer
    | _ \<Rightarrow> False) (snd (run ex_planned False ex_admitting []))"
  using budget_example_static ex_quoted
  by (simp add: run_eval ex_admitting_def ex_answer_def ex_planned_def ex_opening_def ex_env_def ex_svc_def hasMethod_def ex_object_def jprop_JObj Let_def falsy_def
      ex_consent_def budget_example_def isString_def ex_lease_def nullish_def currentLease_def leaseStep_def jprop_def admittedWei_def getProp_def createArgs_def planProps_def)

theorem cycle_opening_is_funded_witness:
  "\<exists>past args a later. run ex_planned False ex_admitting [] = (fst (run ex_planned False ex_admitting []), past @ (CreateCycle args, a) # later)
     \<and> (ReadActiveCycle, Inr JNull) \<in> set past \<and> leaseLastCall past \<and> admissionAllowed (dec_of_nat 120) (jprop args ''cycleId'') ex_answer past"
proof -
  from ex_planned_calls obtain past c a later where tr: "snd (run ex_planned False ex_admitting []) = past @ (c, a) # later"
    and c0: "case c of CreateCycle args \<Rightarrow> jprop args ''releaseAmount'' = JStr (dec_of_nat 120) \<and> jprop args ''admission'' = ex_answer | _ \<Rightarrow> False"
    by (rule listed_call)
  from c0 obtain args where c: "c = CreateCycle args" by (auto split: svc_call.splits)
  have args: "jprop args ''releaseAmount'' = JStr (dec_of_nat 120)" "jprop args ''admission'' = ex_answer" using c0 by (simp_all add: c)
  have run: "run ex_planned False ex_admitting [] = (fst (run ex_planned False ex_admitting []), past @ (CreateCycle args, a) # later)"
    using tr by (simp add: c prod_eq_iff)
  have "svc_admissionPlanner ex_planned \<noteq> JNull" "policed ex_planned" by (simp_all add: ex_planned_def ex_object_def ex_svc_def falsy_def)
  with cycle_opening_is_funded [OF run] args run show ?thesis by fastforce
qed

definition leaseCall :: "svc_call \<Rightarrow> bool" where
  "leaseCall c = (case c of AcquireLease _ _ _ \<Rightarrow> True | ReleaseLease _ \<Rightarrow> True | _ \<Rightarrow> False)"

lemma permitted_no_leaseCall: "permitted (svcGuard s) pre new \<Longrightarrow> (c, a) \<in> set new \<Longrightarrow> \<not> leaseCall c"
  by (induction "svcGuard s" pre new rule: permitted.induct) (auto simp: leaseCall_def svcGuard_def split: svc_call.splits)

text \<open>
  C35.  The lease is taken once and given back on every path.  A run whose acquisition fails makes no further call, and reports
  \<open>LEASE_HELD\<close> when the error says that another runner holds the lease.  Any other run, whether it returns or throws, acquires the lease once at the start, and its last
  call releases the lease it holds at that moment, heartbeats and renewals included; it releases it only there.
\<close>

theorem lease_released_on_every_path:
  assumes "run s requireActive env [] = (r, tr)"
  shows "(\<exists>e. refused s e tr \<and> r = (if heldByOther e then Inr (statusOnly ''LEASE_HELD'') else Inl e))
     \<or> (\<exists>n l body. (\<forall>c a. (c, a) \<in> set body \<longrightarrow> \<not> leaseCall c)
          \<and> (if falsy (currentLease (acquired s n l @ body)) then tr = acquired s n l @ body
             else \<exists>a. tr = (acquired s n l @ body) @ [(ReleaseLease (currentLease (acquired s n l @ body)), a)]))"
  using assms
proof (cases rule: run_shape)
  case (failed e)
  then show ?thesis by blast
next
  case (held n l new rel)
  have "\<forall>c a. (c, a) \<in> set new \<longrightarrow> \<not> leaseCall c" using permitted_no_leaseCall [OF held(2)] by blast
  moreover have "if falsy (currentLease (acquired s n l @ new)) then tr = acquired s n l @ new
      else \<exists>a. tr = (acquired s n l @ new) @ [(ReleaseLease (currentLease (acquired s n l @ new)), a)]"
    using held(1,3) by (auto split: if_splits)
  ultimately show ?thesis by blast
qed

theorem lease_released_on_every_path_witness:
  "\<exists>tr. run ex_svc True (\<lambda>_ _. Inl (JsError ''active cycle lease is already held'')) [] = (Inr (statusOnly ''LEASE_HELD''), tr)
     \<and> (\<exists>e. refused ex_svc e tr)"
proof -
  let ?env = "\<lambda>_ _. Inl (JsError ''active cycle lease is already held'') :: jsval res"
  have h: "containsText ''active cycle lease'' (errorMessage (JsError ''active cycle lease is already held''))" by code_simp
  have run: "run ex_svc True ?env [] = (Inr (statusOnly ''LEASE_HELD''), [(Now, Inl (JsError ''active cycle lease is already held''))])"
    by (simp add: run_eval h Let_def)
  from lease_released_on_every_path [OF run] show ?thesis
    using run by (auto simp: acquired_def split: if_splits)
qed

end
