(* ===== verification/Operator_Configuration.thy ===== *)
theory Operator_Configuration
  imports Js_Objects Pack_Plan Reward_Selection
begin

text \<open>
  The operator configuration document, \<^verbatim>\<open>packages/runner/src/config/state-schema.mjs\<close>: the spending limits, pause switches and
  ledgers that the policy engine decides on, with the hard caps of \<^verbatim>\<open>packages/runner/src/operator/state-file.mjs\<close>.

  A validated document is the record \<open>operator_configuration\<close>, its ledgers lists of records; \<open>jsval_of_configuration\<close> is the
  frozen object the code returns.  Amounts stay canonical decimal strings, as in the document.
\<close>

section \<open>Constants\<close>

definition OPERATOR_CONFIGURATION_SCHEMA :: string where
  "OPERATOR_CONFIGURATION_SCHEMA = ''hookemon.operator-configuration.v6''"

definition legacyConfigurationSchema :: string where
  "legacyConfigurationSchema = ''hookemon.operator-configuration.v4''"

definition configurationFields :: "string list" where
  "configurationFields = [''schema'', ''intervalMinutes'', ''allowedPackIds'', ''packPlan'', ''rewardRecipientLimit'', ''requestedOrders'',
     ''maxBoostersPerCycle'', ''maxUnitPriceMicroUsd'', ''maxCycleBudgetMicroUsd'', ''max24HourBudgetMicroUsd'', ''processClaimLimit6hMicroUsd'',
     ''paused'', ''liveMode'', ''maxCyclesPerDay'', ''perCycleCapMicroUsd'', ''lossCapMicroUsd'', ''maxOutstandingCustodyMicroUsd'',
     ''maxHeldPositions'', ''maxHeldValueMicroUsd'', ''unresolvedCardDeadlineMinutes'', ''executionPaused'', ''killSwitch'',
     ''manualApprovalCycles'', ''pendingEpicDecisions'', ''approvalsByCycleDigest'', ''spendLedger'', ''cycleLedger'', ''configurationRevision'']"

definition prohibitedSecretFields :: "string list" where
  "prohibitedSecretFields = [''privateKey'', ''secretKey'', ''mnemonic'', ''seed'', ''keypair'']"

definition DEFAULT_REWARD_RECIPIENT_LIMIT :: int where "DEFAULT_REWARD_RECIPIENT_LIMIT = 200"

definition maxSafeMicroUsd :: nat where "maxSafeMicroUsd = nat MAX_SAFE_INTEGER"

section \<open>Validated documents\<close>

record pending_decision =
  pd_cycleId :: string
  pd_cycleDigest :: string
  pd_heldAtMs :: int

record approval =
  ap_cycleId :: string
  ap_approvedAtMs :: int

record cycle_entry =
  ce_cycleId :: string
  ce_cycleDigest :: string
  ce_mode :: string
  ce_openedAtMs :: int
  ce_releaseAmountWei :: string
  ce_releaseCostMicroUsd :: string

record spend_entry =
  se_cycleId :: string
  se_cycleDigest :: string
  se_amountMicroUsd :: string
  se_reservedAtMs :: int

record operator_configuration =
  oc_intervalMinutes :: int
  oc_allowedPackIds :: "string list"
  oc_packPlan :: pack_plan
  oc_rewardRecipientLimit :: int
  oc_requestedOrders :: int
  oc_maxBoostersPerCycle :: int
  oc_maxUnitPriceMicroUsd :: string
  oc_maxCycleBudgetMicroUsd :: string
  oc_max24HourBudgetMicroUsd :: string
  oc_processClaimLimit6hMicroUsd :: string
  oc_paused :: bool
  oc_liveMode :: bool
  oc_maxCyclesPerDay :: int
  oc_perCycleCapMicroUsd :: string
  oc_lossCapMicroUsd :: string
  oc_maxOutstandingCustodyMicroUsd :: string
  oc_maxHeldPositions :: int
  oc_maxHeldValueMicroUsd :: string
  oc_unresolvedCardDeadlineMinutes :: int
  oc_executionPaused :: bool
  oc_killSwitch :: bool
  oc_manualApprovalCycles :: int
  oc_pendingEpicDecisions :: "pending_decision list"
  oc_approvalsByCycleDigest :: "(string \<times> approval) list"
  oc_spendLedger :: "spend_entry list"
  oc_cycleLedger :: "cycle_entry list"
  oc_configurationRevision :: int

definition jsval_of_pending :: "pending_decision \<Rightarrow> jsval" where
  "jsval_of_pending d = JObj [(''cycleId'', JStr (pd_cycleId d)), (''cycleDigest'', JStr (pd_cycleDigest d)), (''heldAtMs'', JNum (pd_heldAtMs d))]"

definition jsval_of_approval :: "approval \<Rightarrow> jsval" where
  "jsval_of_approval a = JObj [(''cycleId'', JStr (ap_cycleId a)), (''approvedAtMs'', JNum (ap_approvedAtMs a))]"

definition jsval_of_cycle_entry :: "cycle_entry \<Rightarrow> jsval" where
  "jsval_of_cycle_entry e = JObj [(''cycleId'', JStr (ce_cycleId e)), (''cycleDigest'', JStr (ce_cycleDigest e)), (''mode'', JStr (ce_mode e)),
     (''openedAtMs'', JNum (ce_openedAtMs e)), (''releaseCostMicroUsd'', JStr (ce_releaseCostMicroUsd e)), (''releaseAmountWei'', JStr (ce_releaseAmountWei e))]"

definition jsval_of_spend_entry :: "spend_entry \<Rightarrow> jsval" where
  "jsval_of_spend_entry e = JObj [(''cycleId'', JStr (se_cycleId e)), (''cycleDigest'', JStr (se_cycleDigest e)),
     (''amountMicroUsd'', JStr (se_amountMicroUsd e)), (''reservedAtMs'', JNum (se_reservedAtMs e))]"

definition jsval_of_configuration :: "operator_configuration \<Rightarrow> jsval" where
  "jsval_of_configuration c = JObj [(''schema'', JStr OPERATOR_CONFIGURATION_SCHEMA), (''intervalMinutes'', JNum (oc_intervalMinutes c)),
     (''allowedPackIds'', JArr (map JStr (oc_allowedPackIds c))), (''packPlan'', jsval_of_plan (oc_packPlan c)),
     (''rewardRecipientLimit'', JNum (oc_rewardRecipientLimit c)), (''requestedOrders'', JNum (oc_requestedOrders c)),
     (''maxBoostersPerCycle'', JNum (oc_maxBoostersPerCycle c)), (''maxUnitPriceMicroUsd'', JStr (oc_maxUnitPriceMicroUsd c)),
     (''maxCycleBudgetMicroUsd'', JStr (oc_maxCycleBudgetMicroUsd c)), (''max24HourBudgetMicroUsd'', JStr (oc_max24HourBudgetMicroUsd c)),
     (''processClaimLimit6hMicroUsd'', JStr (oc_processClaimLimit6hMicroUsd c)), (''paused'', JBool (oc_paused c)),
     (''liveMode'', JBool (oc_liveMode c)), (''maxCyclesPerDay'', JNum (oc_maxCyclesPerDay c)),
     (''perCycleCapMicroUsd'', JStr (oc_perCycleCapMicroUsd c)), (''lossCapMicroUsd'', JStr (oc_lossCapMicroUsd c)),
     (''maxOutstandingCustodyMicroUsd'', JStr (oc_maxOutstandingCustodyMicroUsd c)), (''maxHeldPositions'', JNum (oc_maxHeldPositions c)),
     (''maxHeldValueMicroUsd'', JStr (oc_maxHeldValueMicroUsd c)), (''unresolvedCardDeadlineMinutes'', JNum (oc_unresolvedCardDeadlineMinutes c)),
     (''executionPaused'', JBool (oc_executionPaused c)), (''killSwitch'', JBool (oc_killSwitch c)),
     (''manualApprovalCycles'', JNum (oc_manualApprovalCycles c)), (''pendingEpicDecisions'', JArr (map jsval_of_pending (oc_pendingEpicDecisions c))),
     (''approvalsByCycleDigest'', JObj (map (\<lambda>(d, a). (d, jsval_of_approval a)) (oc_approvalsByCycleDigest c))),
     (''spendLedger'', JArr (map jsval_of_spend_entry (oc_spendLedger c))), (''cycleLedger'', JArr (map jsval_of_cycle_entry (oc_cycleLedger c))),
     (''configurationRevision'', JNum (oc_configurationRevision c))]"

section \<open>Validation\<close>

definition assertExactPlainObject :: "jsval \<Rightarrow> string list \<Rightarrow> string \<Rightarrow> unit res" where
  "assertExactPlainObject v fieldNames label =
     bindE (canonicalJson v) (\<lambda>_. throwIf (\<not> isPlainObject v \<or> \<not> exactKeys v fieldNames) (label @ '' must use the exact schema''))"

definition assertNoSecretMaterial :: "jsval \<Rightarrow> string \<Rightarrow> unit res" where
  "assertNoSecretMaterial v label =
     throwIf (\<not> falsy v \<and> typeofObject v \<and> \<not> isArray v \<and> list_ex (\<lambda>k. k \<in> set prohibitedSecretFields) (ownKeys v))
       (label @ '' must not carry secret-material fields'')"

definition assertIntegerInRange :: "jsval \<Rightarrow> string \<Rightarrow> int \<Rightarrow> int \<Rightarrow> int res" where
  "assertIntegerInRange v label lo hi =
     (if \<not> isInteger v \<or> num_of v < lo \<or> hi < num_of v
      then Inl (JsError (label @ '' must be an integer between '' @ json_int lo @ '' and '' @ json_int hi)) else Inr (num_of v))"

definition assertBoolean :: "jsval \<Rightarrow> string \<Rightarrow> bool res" where
  "assertBoolean v label = (case v of JBool b \<Rightarrow> Inr b | _ \<Rightarrow> Inl (JsError (label @ '' must be a boolean'')))"

definition assertMicroUsdAmount :: "jsval \<Rightarrow> string \<Rightarrow> nat res" where
  "assertMicroUsdAmount v label =
     (if \<not> str_matches is_decimal v then Inl (JsError (label @ '' must be a canonical unsigned decimal string''))
      else let amount = nat_of_dec (str_of v) in
        if maxSafeMicroUsd < amount then Inl (JsError (label @ '' exceeds the maximum representable micro-USD amount'')) else Inr amount)"

definition checkPackId :: "jsval \<Rightarrow> string option \<times> string list \<Rightarrow> (string option \<times> string list) res" where
  "checkPackId code st =
     (case st of (prev, out) \<Rightarrow>
        if \<not> str_matches packCodePattern code then Inl (JsError ''operator configuration allowedPackIds entry is invalid'')
        else if (case prev of None \<Rightarrow> False | Some p \<Rightarrow> str_of code \<le> p)
        then Inl (JsError ''operator configuration allowedPackIds must be unique and sorted'')
        else Inr (Some (str_of code), out @ [str_of code]))"

definition assertAllowedPackIds :: "jsval \<Rightarrow> string list res" where
  "assertAllowedPackIds v =
     (if \<not> isArray v then Inl (JsError ''operator configuration allowedPackIds must be an array'')
      else bindE (foldE (\<lambda>_. checkPackId) 0 (arr_of v) (None, [])) (\<lambda>(_, out). Inr out))"

definition assertTimestamp :: "jsval \<Rightarrow> string \<Rightarrow> int res" where
  "assertTimestamp v label =
     (if \<not> isSafeInteger v \<or> num_of v < 0 then Inl (JsError (label @ '' must be a nonnegative safe integer'')) else Inr (num_of v))"

definition assertCycleId :: "jsval \<Rightarrow> string \<Rightarrow> string res" where
  "assertCycleId v label = (if \<not> str_matches cycleIdPattern v then Inl (JsError (label @ '' is invalid'')) else Inr (str_of v))"

definition assertDigest :: "jsval \<Rightarrow> string \<Rightarrow> string res" where
  "assertDigest v label = (if \<not> str_matches digest_pattern v then Inl (JsError (label @ '' is invalid'')) else Inr (str_of v))"

definition itemLabel :: "string \<Rightarrow> nat \<Rightarrow> string" where
  "itemLabel name i = ''operator configuration '' @ name @ ''['' @ dec_of_nat i @ '']''"

subsection \<open>The lists\<close>

definition checkPending :: "nat \<Rightarrow> jsval \<Rightarrow> pending_decision list \<Rightarrow> pending_decision list res" where
  "checkPending i entry out =
     (let label = itemLabel ''pendingEpicDecisions'' i in
      bindE (assertExactPlainObject entry [''cycleId'', ''cycleDigest'', ''heldAtMs''] label) (\<lambda>_.
      bindE (assertCycleId (jprop entry ''cycleId'') (label @ '' cycleId'')) (\<lambda>cid.
      bindE (assertDigest (jprop entry ''cycleDigest'') (label @ '' cycleDigest'')) (\<lambda>d.
      bindE (assertTimestamp (jprop entry ''heldAtMs'') (label @ '' heldAtMs'')) (\<lambda>t.
      bindE (throwIf (cid \<in> set (map pd_cycleId out)) ''operator configuration pendingEpicDecisions cycleId is duplicated'') (\<lambda>_.
        Inr (out @ [\<lparr>pd_cycleId = cid, pd_cycleDigest = d, pd_heldAtMs = t\<rparr>])))))))"

definition assertPendingEpicDecisions :: "jsval \<Rightarrow> pending_decision list res" where
  "assertPendingEpicDecisions v =
     (if \<not> isArray v then Inl (JsError ''operator configuration pendingEpicDecisions must be an array'')
      else foldE checkPending 0 (arr_of v) [])"

definition checkApproval :: "string \<times> jsval \<Rightarrow> (string \<times> approval) list \<Rightarrow> (string \<times> approval) list res" where
  "checkApproval p out =
     (let label = ''operator configuration approval '' @ fst p in
      bindE (assertDigest (JStr (fst p)) ''operator configuration approval cycle digest'') (\<lambda>d.
      bindE (assertExactPlainObject (snd p) [''cycleId'', ''approvedAtMs''] label) (\<lambda>_.
      bindE (assertCycleId (jprop (snd p) ''cycleId'') (label @ '' cycleId'')) (\<lambda>cid.
      bindE (assertTimestamp (jprop (snd p) ''approvedAtMs'') (label @ '' approvedAtMs'')) (\<lambda>t.
        Inr (omap_set d \<lparr>ap_cycleId = cid, ap_approvedAtMs = t\<rparr> out))))))"

definition assertApprovalsByCycleDigest :: "jsval \<Rightarrow> (string \<times> approval) list res" where
  "assertApprovalsByCycleDigest v =
     (if \<not> isPlainObject v then Inl (JsError ''operator configuration approvalsByCycleDigest must be a plain object'')
      else foldE (\<lambda>_. checkApproval) 0 (spread v) [])"

text \<open>\<open>previous\<close> is the time of the last entry collected, -1 before the first.\<close>

definition checkCycleEntry :: "nat \<Rightarrow> jsval \<Rightarrow> cycle_entry list \<Rightarrow> cycle_entry list res" where
  "checkCycleEntry i entry out =
     (let label = itemLabel ''cycleLedger'' i; previous = (if out = [] then -1 else ce_openedAtMs (last out)) in
      bindE (assertExactPlainObject entry [''cycleId'', ''cycleDigest'', ''mode'', ''openedAtMs'', ''releaseAmountWei'', ''releaseCostMicroUsd''] label) (\<lambda>_.
      bindE (assertCycleId (jprop entry ''cycleId'') (label @ '' cycleId'')) (\<lambda>cid.
      bindE (assertDigest (jprop entry ''cycleDigest'') (label @ '' cycleDigest'')) (\<lambda>d.
      bindE (throwIf (jprop entry ''mode'' \<noteq> JStr ''production'' \<and> jprop entry ''mode'' \<noteq> JStr ''rehearsal'') (label @ '' mode is invalid'')) (\<lambda>_.
      bindE (assertTimestamp (jprop entry ''openedAtMs'') (label @ '' openedAtMs'')) (\<lambda>t.
      bindE (throwIf (\<not> str_matches is_decimal (jprop entry ''releaseAmountWei'') \<or> 2 ^ 256 \<le> nat_of_dec (str_of (jprop entry ''releaseAmountWei'')))
               ''operator cycleLedger releaseAmountWei is invalid'') (\<lambda>_.
      bindE (assertMicroUsdAmount (jprop entry ''releaseCostMicroUsd'') (label @ '' releaseCostMicroUsd'')) (\<lambda>_.
      bindE (throwIf (cid \<in> set (map ce_cycleId out) \<or> d \<in> set (map ce_cycleDigest out))
               ''operator configuration cycleLedger cycle identity is duplicated'') (\<lambda>_.
      bindE (throwIf (t < previous) ''operator configuration cycleLedger must be ordered by openedAtMs'') (\<lambda>_.
        Inr (out @ [\<lparr>ce_cycleId = cid, ce_cycleDigest = d, ce_mode = str_of (jprop entry ''mode''), ce_openedAtMs = t,
                ce_releaseAmountWei = str_of (jprop entry ''releaseAmountWei''),
                ce_releaseCostMicroUsd = str_of (jprop entry ''releaseCostMicroUsd'')\<rparr>])))))))))))"

definition assertCycleLedger :: "jsval \<Rightarrow> cycle_entry list res" where
  "assertCycleLedger v =
     (if \<not> isArray v then Inl (JsError ''operator configuration cycleLedger must be an array'')
      else foldE checkCycleEntry 0 (arr_of v) [])"

definition checkSpendEntry :: "cycle_entry list \<Rightarrow> nat \<Rightarrow> jsval \<Rightarrow> spend_entry list \<Rightarrow> spend_entry list res" where
  "checkSpendEntry cycles i entry out =
     (let label = itemLabel ''spendLedger'' i; previous = (if out = [] then -1 else se_reservedAtMs (last out)) in
      bindE (assertExactPlainObject entry [''cycleId'', ''cycleDigest'', ''amountMicroUsd'', ''reservedAtMs''] label) (\<lambda>_.
      bindE (assertCycleId (jprop entry ''cycleId'') (label @ '' cycleId'')) (\<lambda>cid.
      bindE (assertDigest (jprop entry ''cycleDigest'') (label @ '' cycleDigest'')) (\<lambda>d.
      bindE (assertMicroUsdAmount (jprop entry ''amountMicroUsd'') (label @ '' amountMicroUsd'')) (\<lambda>_.
      bindE (assertTimestamp (jprop entry ''reservedAtMs'') (label @ '' reservedAtMs'')) (\<lambda>t.
      bindE (throwIf (d \<notin> set (map ce_cycleDigest cycles)) ''operator configuration spendLedger must bind a recorded cycle digest'') (\<lambda>_.
      bindE (throwIf (d \<in> set (map se_cycleDigest out)) ''operator configuration spendLedger cycle digest is duplicated'') (\<lambda>_.
      bindE (throwIf (t < previous) ''operator configuration spendLedger must be ordered by reservedAtMs'') (\<lambda>_.
        Inr (out @ [\<lparr>se_cycleId = cid, se_cycleDigest = d, se_amountMicroUsd = str_of (jprop entry ''amountMicroUsd''),
                se_reservedAtMs = t\<rparr>]))))))))))"

definition assertSpendLedger :: "jsval \<Rightarrow> cycle_entry list \<Rightarrow> spend_entry list res" where
  "assertSpendLedger v cycles =
     (if \<not> isArray v then Inl (JsError ''operator configuration spendLedger must be an array'')
      else foldE (checkSpendEntry cycles) 0 (arr_of v) [])"

subsection \<open>The document\<close>

text \<open>A document written before \<open>processClaimLimit6hMicroUsd\<close> existed gets its default.\<close>

definition withClaimLimit :: "jsval \<Rightarrow> jsval" where
  "withClaimLimit v =
     (if jprop v ''schema'' = JStr OPERATOR_CONFIGURATION_SCHEMA \<and> \<not> hasOwn v ''processClaimLimit6hMicroUsd''
      then withProps (spread v) [(''processClaimLimit6hMicroUsd'', JStr ''25000000000'')] else v)"

definition cfgLabel :: "string \<Rightarrow> string" where
  "cfgLabel f = ''operator configuration '' @ f"

definition checkInteger :: "jsval \<Rightarrow> string \<Rightarrow> int \<Rightarrow> int \<Rightarrow> unit res" where
  "checkInteger v f lo hi = bindE (assertIntegerInRange (jprop v f) (cfgLabel f) lo hi) (\<lambda>_. Inr ())"

definition checkBoolean :: "jsval \<Rightarrow> string \<Rightarrow> unit res" where
  "checkBoolean v f = bindE (assertBoolean (jprop v f) (cfgLabel f)) (\<lambda>_. Inr ())"

definition amountField :: "jsval \<Rightarrow> string \<Rightarrow> nat res" where
  "amountField v f = assertMicroUsdAmount (jprop v f) (cfgLabel f)"

definition checkClaimLimit :: "jsval \<Rightarrow> unit res" where
  "checkClaimLimit v =
     bindE (amountField v ''processClaimLimit6hMicroUsd'') (\<lambda>claimLimit.
     bindE (throwIf (50000000000 < claimLimit) ''operator configuration processClaimLimit6hMicroUsd exceeds the fixed hard cap'') (\<lambda>_.
       checkInteger v ''intervalMinutes'' 5 1440))"

definition checkBudgets :: "jsval \<Rightarrow> unit res" where
  "checkBudgets v =
     bindE (assertIntegerInRange (jprop v ''maxBoostersPerCycle'') (cfgLabel ''maxBoostersPerCycle'') 1 1000) (\<lambda>maxBoosters.
     bindE (checkInteger v ''requestedOrders'' 0 maxBoosters) (\<lambda>_.
     bindE (amountField v ''maxUnitPriceMicroUsd'') (\<lambda>unitPrice.
     bindE (amountField v ''maxCycleBudgetMicroUsd'') (\<lambda>cycleBudget.
     bindE (amountField v ''max24HourBudgetMicroUsd'') (\<lambda>dayBudget.
     bindE (throwIf (cycleBudget < unitPrice) ''operator configuration maxUnitPriceMicroUsd must not exceed maxCycleBudgetMicroUsd'') (\<lambda>_.
     bindE (throwIf (dayBudget < cycleBudget) ''operator configuration maxCycleBudgetMicroUsd must not exceed max24HourBudgetMicroUsd'') (\<lambda>_.
     bindE (checkBoolean v ''paused'') (\<lambda>_.
     bindE (checkBoolean v ''liveMode'') (\<lambda>_.
     bindE (checkInteger v ''maxCyclesPerDay'' 0 MAX_SAFE_INTEGER) (\<lambda>_.
     bindE (amountField v ''perCycleCapMicroUsd'') (\<lambda>perCycleCap.
       throwIf (perCycleCap \<noteq> cycleBudget) ''operator configuration perCycleCapMicroUsd must equal maxCycleBudgetMicroUsd'')))))))))))"

definition checkCustodyLimits :: "jsval \<Rightarrow> unit res" where
  "checkCustodyLimits v =
     bindE (amountField v ''lossCapMicroUsd'') (\<lambda>_.
     bindE (amountField v ''maxOutstandingCustodyMicroUsd'') (\<lambda>_.
     bindE (checkInteger v ''maxHeldPositions'' 0 10) (\<lambda>_.
     bindE (amountField v ''maxHeldValueMicroUsd'') (\<lambda>heldValue.
     bindE (throwIf (5000000000 < heldValue) ''operator configuration maxHeldValueMicroUsd exceeds the fixed hard cap'') (\<lambda>_.
     bindE (checkInteger v ''unresolvedCardDeadlineMinutes'' 5 1440) (\<lambda>_.
     bindE (checkBoolean v ''executionPaused'') (\<lambda>_.
     bindE (checkBoolean v ''killSwitch'') (\<lambda>_.
       checkInteger v ''manualApprovalCycles'' 0 MAX_SAFE_INTEGER))))))))"

text \<open>The object literal the function returns.\<close>

definition configurationOf ::
  "jsval \<Rightarrow> string list \<Rightarrow> pack_plan \<Rightarrow> pending_decision list \<Rightarrow> (string \<times> approval) list \<Rightarrow> cycle_entry list \<Rightarrow> spend_entry list
   \<Rightarrow> int \<Rightarrow> operator_configuration"
where
  "configurationOf v packIds plan pendings approvals cycles spends recipientLimit =
     (let i = (\<lambda>f. num_of (jprop v f)); s = (\<lambda>f. str_of (jprop v f)); b = (\<lambda>f. jprop v f = JBool True) in
      \<lparr>oc_intervalMinutes = i ''intervalMinutes'', oc_allowedPackIds = packIds, oc_packPlan = plan, oc_rewardRecipientLimit = recipientLimit,
       oc_requestedOrders = i ''requestedOrders'', oc_maxBoostersPerCycle = i ''maxBoostersPerCycle'',
       oc_maxUnitPriceMicroUsd = s ''maxUnitPriceMicroUsd'', oc_maxCycleBudgetMicroUsd = s ''maxCycleBudgetMicroUsd'',
       oc_max24HourBudgetMicroUsd = s ''max24HourBudgetMicroUsd'', oc_processClaimLimit6hMicroUsd = s ''processClaimLimit6hMicroUsd'',
       oc_paused = b ''paused'', oc_liveMode = b ''liveMode'', oc_maxCyclesPerDay = i ''maxCyclesPerDay'',
       oc_perCycleCapMicroUsd = s ''perCycleCapMicroUsd'', oc_lossCapMicroUsd = s ''lossCapMicroUsd'',
       oc_maxOutstandingCustodyMicroUsd = s ''maxOutstandingCustodyMicroUsd'', oc_maxHeldPositions = i ''maxHeldPositions'',
       oc_maxHeldValueMicroUsd = s ''maxHeldValueMicroUsd'', oc_unresolvedCardDeadlineMinutes = i ''unresolvedCardDeadlineMinutes'',
       oc_executionPaused = b ''executionPaused'', oc_killSwitch = b ''killSwitch'', oc_manualApprovalCycles = i ''manualApprovalCycles'',
       oc_pendingEpicDecisions = pendings, oc_approvalsByCycleDigest = approvals, oc_spendLedger = spends, oc_cycleLedger = cycles,
       oc_configurationRevision = i ''configurationRevision''\<rparr>)"

definition assertOperatorConfiguration :: "jsval \<Rightarrow> operator_configuration res" where
  "assertOperatorConfiguration given =
     (let v = withClaimLimit given in
      bindE (assertNoSecretMaterial v ''operator configuration'') (\<lambda>_.
      bindE (assertExactPlainObject v configurationFields ''operator configuration'') (\<lambda>_.
      bindE (throwIf (jprop v ''schema'' \<noteq> JStr OPERATOR_CONFIGURATION_SCHEMA) ''operator configuration schema is invalid'') (\<lambda>_.
      bindE (checkClaimLimit v) (\<lambda>_.
      bindE (assertAllowedPackIds (jprop v ''allowedPackIds'')) (\<lambda>packIds.
      bindE (assertPackPlan (jprop v ''packPlan'')) (\<lambda>plan.
      bindE (checkBudgets v) (\<lambda>_.
      bindE (checkCustodyLimits v) (\<lambda>_.
      bindE (assertPendingEpicDecisions (jprop v ''pendingEpicDecisions'')) (\<lambda>pendings.
      bindE (assertApprovalsByCycleDigest (jprop v ''approvalsByCycleDigest'')) (\<lambda>approvals.
      bindE (assertCycleLedger (jprop v ''cycleLedger'')) (\<lambda>cycles.
      bindE (assertSpendLedger (jprop v ''spendLedger'') cycles) (\<lambda>spends.
      bindE (checkInteger v ''configurationRevision'' 0 MAX_SAFE_INTEGER) (\<lambda>_.
      bindE (assertRewardRecipientLimit (jprop v ''rewardRecipientLimit'')) (\<lambda>recipientLimit.
        Inr (configurationOf v packIds plan pendings approvals cycles spends recipientLimit))))))))))))))))"

section \<open>Defaults, migration and edits\<close>

definition createDefaultOperatorConfiguration :: "operator_configuration res" where
  "createDefaultOperatorConfiguration =
     bindE createEmptyPackPlan (\<lambda>plan. assertOperatorConfiguration (JObj [(''schema'', JStr OPERATOR_CONFIGURATION_SCHEMA),
       (''intervalMinutes'', JNum 20), (''allowedPackIds'', JArr []), (''packPlan'', jsval_of_plan plan), (''rewardRecipientLimit'', JNum DEFAULT_REWARD_RECIPIENT_LIMIT),
       (''requestedOrders'', JNum 0), (''maxBoostersPerCycle'', JNum 1), (''maxUnitPriceMicroUsd'', JStr ''0''),
       (''maxCycleBudgetMicroUsd'', JStr ''0''), (''max24HourBudgetMicroUsd'', JStr ''0''), (''processClaimLimit6hMicroUsd'', JStr ''25000000000''),
       (''paused'', JBool False), (''liveMode'', JBool False), (''maxCyclesPerDay'', JNum 0), (''perCycleCapMicroUsd'', JStr ''0''),
       (''lossCapMicroUsd'', JStr ''0''), (''maxOutstandingCustodyMicroUsd'', JStr ''0''), (''maxHeldPositions'', JNum 10),
       (''maxHeldValueMicroUsd'', JStr ''5000000000''), (''unresolvedCardDeadlineMinutes'', JNum 30), (''executionPaused'', JBool False),
       (''killSwitch'', JBool False), (''manualApprovalCycles'', JNum 0), (''pendingEpicDecisions'', JArr []), (''approvalsByCycleDigest'', JObj []),
       (''spendLedger'', JArr []), (''cycleLedger'', JArr []), (''configurationRevision'', JNum 0)]))"

text \<open>The configuration, \<open>None\<close> for \<open>null\<close>, and whether it was migrated.\<close>

definition migrateOperatorConfiguration :: "jsval \<Rightarrow> (operator_configuration option \<times> bool) res" where
  "migrateOperatorConfiguration v =
     (if v = JNull then Inr (None, False)
      else if jprop v ''schema'' \<in> {JStr legacyConfigurationSchema, JStr ''hookemon.operator-configuration.v5''}
      then let v4 = (jprop v ''schema'' = JStr legacyConfigurationSchema) in
        bindE (assertNoSecretMaterial v ''legacy operator configuration'') (\<lambda>_.
        bindE (assertExactPlainObject v (filter (\<lambda>f. f \<noteq> ''processClaimLimit6hMicroUsd'' \<and> f \<noteq> ''rewardRecipientLimit''
                 \<and> (\<not> v4 \<or> f \<noteq> ''packPlan'')) configurationFields) ''legacy operator configuration'') (\<lambda>_.
        bindE (if v4 then bindE createEmptyPackPlan (\<lambda>p. Inr (jsval_of_plan p)) else Inr (jprop v ''packPlan'')) (\<lambda>plan.
        bindE (assertOperatorConfiguration (withProps (spread v) [(''schema'', JStr OPERATOR_CONFIGURATION_SCHEMA),
                 (''packPlan'', plan), (''rewardRecipientLimit'', JNum DEFAULT_REWARD_RECIPIENT_LIMIT)])) (\<lambda>c. Inr (Some c, True)))))
      else bindE (assertOperatorConfiguration v) (\<lambda>c. Inr (Some c, \<not> hasOwn v ''processClaimLimit6hMicroUsd'')))"

definition patchFields :: "string list" where
  "patchFields = [''pendingEpicDecisions'', ''approvalsByCycleDigest'', ''spendLedger'', ''cycleLedger'']"

definition checkPatch :: "jsval \<Rightarrow> unit res" where
  "checkPatch patch =
     bindE (assertNoSecretMaterial patch ''operator configuration patch'') (\<lambda>_.
     bindE (throwIf (falsy patch \<or> \<not> typeofObject patch \<or> isArray patch) ''operator configuration patch must be a plain object'') (\<lambda>_.
     bindE (throwIf (hasOwn patch ''schema'' \<and> jprop patch ''schema'' \<noteq> JStr OPERATOR_CONFIGURATION_SCHEMA)
              ''operator configuration patch schema is invalid'') (\<lambda>_.
     bindE (throwIf (hasOwn patch ''configurationRevision'') ''operator configuration patch must not set configurationRevision directly'') (\<lambda>_.
       foldE (\<lambda>_ f _. throwIf (hasOwn patch f) (''operator configuration patch must not set '' @ f @ '' directly'')) 0 patchFields ()))))"

text \<open>The two budget fields that must agree follow each other when only one of them is patched.\<close>

definition pairedCaps :: "jsval \<Rightarrow> (string \<times> jsval) list" where
  "pairedCaps patch =
     (if hasOwn patch ''maxCycleBudgetMicroUsd'' \<and> \<not> hasOwn patch ''perCycleCapMicroUsd''
      then [(''perCycleCapMicroUsd'', jprop patch ''maxCycleBudgetMicroUsd'')]
      else if hasOwn patch ''perCycleCapMicroUsd'' \<and> \<not> hasOwn patch ''maxCycleBudgetMicroUsd''
      then [(''maxCycleBudgetMicroUsd'', jprop patch ''perCycleCapMicroUsd'')] else [])"

definition applyOperatorConfiguration :: "jsval \<Rightarrow> jsval \<Rightarrow> operator_configuration res" where
  "applyOperatorConfiguration current patch =
     bindE (if current = JNull then createDefaultOperatorConfiguration else assertOperatorConfiguration current) (\<lambda>base.
     bindE (checkPatch patch) (\<lambda>_.
     bindE (if \<not> hasOwn patch ''packPlan'' then Inr []
            else bindE (assertExactPlainObject (jprop patch ''packPlan'') [''orders''] ''operator configuration pack plan patch'') (\<lambda>_.
              bindE (replacePackPlan (jsval_of_plan (oc_packPlan base)) (jprop (jprop patch ''packPlan'') ''orders'')) (\<lambda>p.
                Inr [(''packPlan'', jsval_of_plan p)]))) (\<lambda>planProps.
       assertOperatorConfiguration (withProps (spread (jsval_of_configuration base))
         (spread patch @ planProps @ pairedCaps patch @ [(''configurationRevision'', JNum (oc_configurationRevision base + 1))])))))"

section \<open>Hard caps\<close>

definition MAX_UNIT_PRICE_MICRO_USD :: nat where "MAX_UNIT_PRICE_MICRO_USD = 55000000"
definition CYCLE_BUDGET_MULTIPLE :: nat where "CYCLE_BUDGET_MULTIPLE = 3"
definition DAILY_BUDGET_MULTIPLE :: nat where "DAILY_BUDGET_MULTIPLE = 3"

definition OPERATOR_HARD_CAPS :: "(string \<times> nat \<times> (operator_configuration \<Rightarrow> nat)) list" where
  "OPERATOR_HARD_CAPS =
     [(''maxBoostersPerCycle'', 1000, \<lambda>c. nat (oc_maxBoostersPerCycle c)),
      (''maxUnitPriceMicroUsd'', MAX_UNIT_PRICE_MICRO_USD, \<lambda>c. nat_of_dec (oc_maxUnitPriceMicroUsd c)),
      (''maxCycleBudgetMicroUsd'', MAX_UNIT_PRICE_MICRO_USD * CYCLE_BUDGET_MULTIPLE, \<lambda>c. nat_of_dec (oc_maxCycleBudgetMicroUsd c)),
      (''max24HourBudgetMicroUsd'', MAX_UNIT_PRICE_MICRO_USD * CYCLE_BUDGET_MULTIPLE * DAILY_BUDGET_MULTIPLE,
         \<lambda>c. nat_of_dec (oc_max24HourBudgetMicroUsd c)),
      (''maxHeldPositions'', 10, \<lambda>c. nat (oc_maxHeldPositions c)),
      (''maxHeldValueMicroUsd'', 5000000000, \<lambda>c. nat_of_dec (oc_maxHeldValueMicroUsd c))]"

text \<open>\<open>state-file.mjs\<close> and \<open>policy-engine.mjs\<close> have the same check; they name it differently in the message.\<close>

definition assertOperatorHardCaps :: "string \<Rightarrow> operator_configuration \<Rightarrow> operator_configuration res" where
  "assertOperatorHardCaps who c =
     bindE (foldE (\<lambda>_ (f, ceiling, get) _. throwIf (ceiling < get c) (who @ '' configuration '' @ f @ '' exceeds the fixed hard cap'')) 0
       OPERATOR_HARD_CAPS ()) (\<lambda>_. Inr c)"

record operator_state =
  os_revision :: int
  os_configuration :: "operator_configuration option"

definition assertOperatorState :: "jsval \<Rightarrow> operator_state res" where
  "assertOperatorState v =
     bindE (assertExactPlainObject v [''schema'', ''revision'', ''configuration''] ''operator state'') (\<lambda>_.
     bindE (throwIf (jprop v ''schema'' \<noteq> JStr ''hookemon.operator-state.v2'') ''operator state schema is invalid'') (\<lambda>_.
     bindE (if jprop v ''configuration'' = JNull then Inr None
            else bindE (assertOperatorConfiguration (jprop v ''configuration'')) (\<lambda>c.
              bindE (assertOperatorHardCaps ''operator'' c) (\<lambda>c'. Inr (Some c')))) (\<lambda>configuration.
     bindE (throwIf (\<not> isInteger (jprop v ''revision'') \<or> num_of (jprop v ''revision'') < 0) ''operator state revision is invalid'') (\<lambda>_.
       Inr \<lparr>os_revision = num_of (jprop v ''revision''), os_configuration = configuration\<rparr>))))"

section \<open>Facts\<close>

lemma assertExactPlainObject_Inr: "assertExactPlainObject v fs l = Inr u \<longleftrightarrow> (\<exists>t. canonicalJson v = Inr t) \<and> isPlainObject v \<and> exactKeys v fs"
  by (auto simp: assertExactPlainObject_def res_simps)

lemma assertTimestamp_Inr: "assertTimestamp v l = Inr t \<longleftrightarrow> v = JNum t \<and> safeInt t \<and> 0 \<le> t"
  by (cases v) (auto simp: assertTimestamp_def isSafeInteger_def)

lemma assertCycleId_Inr: "assertCycleId v l = Inr s \<longleftrightarrow> v = JStr s \<and> cycleIdPattern s"
  by (auto simp: assertCycleId_def str_matches_iff)

lemma assertDigest_Inr: "assertDigest v l = Inr s \<longleftrightarrow> v = JStr s \<and> digest_pattern s"
  by (auto simp: assertDigest_def str_matches_iff)

lemma assertMicroUsdAmount_Inr:
  "assertMicroUsdAmount v l = Inr n \<longleftrightarrow> (\<exists>s. v = JStr s \<and> is_decimal s \<and> n = nat_of_dec s \<and> n \<le> maxSafeMicroUsd)"
  by (auto simp: assertMicroUsdAmount_def str_matches_iff Let_def)

lemma assertIntegerInRange_Inr: "assertIntegerInRange v l lo hi = Inr i \<longleftrightarrow> v = JNum i \<and> lo \<le> i \<and> i \<le> hi"
  by (cases v) (auto simp: assertIntegerInRange_def isInteger_def)

lemmas config_Inr = assertExactPlainObject_Inr assertTimestamp_Inr assertCycleId_Inr assertDigest_Inr assertMicroUsdAmount_Inr assertIntegerInRange_Inr

text \<open>A loop that appends one parsed entry per element.\<close>

lemma foldE_gathers:
  assumes "foldE f i xs out = Inr r" and "\<And>i x out r. f i x out = Inr r \<Longrightarrow> r = out @ [g x]"
  shows "r = out @ map g xs"
  using assms(1)
proof (induction xs arbitrary: i out)
  case Nil
  then show ?case by simp
next
  case (Cons x xs)
  then obtain out' where "f i x out = Inr out'" "foldE f (Suc i) xs out' = Inr r" by (auto simp: bindE_Inr_iff)
  with Cons.IH assms(2) show ?case by fastforce
qed

definition cycleEntryOf :: "jsval \<Rightarrow> cycle_entry" where
  "cycleEntryOf e = \<lparr>ce_cycleId = str_of (jprop e ''cycleId''), ce_cycleDigest = str_of (jprop e ''cycleDigest''), ce_mode = str_of (jprop e ''mode''),
     ce_openedAtMs = num_of (jprop e ''openedAtMs''), ce_releaseAmountWei = str_of (jprop e ''releaseAmountWei''),
     ce_releaseCostMicroUsd = str_of (jprop e ''releaseCostMicroUsd'')\<rparr>"

definition spendEntryOf :: "jsval \<Rightarrow> spend_entry" where
  "spendEntryOf e = \<lparr>se_cycleId = str_of (jprop e ''cycleId''), se_cycleDigest = str_of (jprop e ''cycleDigest''),
     se_amountMicroUsd = str_of (jprop e ''amountMicroUsd''), se_reservedAtMs = num_of (jprop e ''reservedAtMs'')\<rparr>"

definition pendingOf :: "jsval \<Rightarrow> pending_decision" where
  "pendingOf e = \<lparr>pd_cycleId = str_of (jprop e ''cycleId''), pd_cycleDigest = str_of (jprop e ''cycleDigest''), pd_heldAtMs = num_of (jprop e ''heldAtMs'')\<rparr>"

lemma entryOf_jsval [simp]:
  "cycleEntryOf (jsval_of_cycle_entry e) = e" "spendEntryOf (jsval_of_spend_entry s) = s" "pendingOf (jsval_of_pending d) = d"
  by (simp_all add: cycleEntryOf_def jsval_of_cycle_entry_def spendEntryOf_def jsval_of_spend_entry_def pendingOf_def jsval_of_pending_def jprop_JObj)

text \<open>What the ledgers of a validated document satisfy.\<close>

definition cycleLedgerOk :: "cycle_entry list \<Rightarrow> bool" where
  "cycleLedgerOk es = (distinct (map ce_cycleId es) \<and> distinct (map ce_cycleDigest es) \<and> sorted (map ce_openedAtMs es)
     \<and> (\<forall>e \<in> set es. 0 \<le> ce_openedAtMs e \<and> digest_pattern (ce_cycleDigest e) \<and> is_decimal (ce_releaseCostMicroUsd e) \<and> is_decimal (ce_releaseAmountWei e)
          \<and> ce_mode e \<in> {''production'', ''rehearsal''}))"

definition spendLedgerOk :: "cycle_entry list \<Rightarrow> spend_entry list \<Rightarrow> bool" where
  "spendLedgerOk cycles es = (distinct (map se_cycleDigest es) \<and> set (map se_cycleDigest es) \<subseteq> set (map ce_cycleDigest cycles)
     \<and> sorted (map se_reservedAtMs es) \<and> (\<forall>e \<in> set es. 0 \<le> se_reservedAtMs e \<and> is_decimal (se_amountMicroUsd e)))"

lemma sorted_snoc_last: "sorted (map k (out @ [e])) \<longleftrightarrow> sorted (map k out) \<and> (out = [] \<or> k (last out) \<le> (k e :: int))"
  by (cases out rule: rev_cases) (auto simp: sorted_append)

lemma checkCycleEntry_Inr:
  assumes "checkCycleEntry i entry out = Inr r"
  shows "r = out @ [cycleEntryOf entry]" and "cycleLedgerOk out \<Longrightarrow> cycleLedgerOk r"
proof -
  let ?e = "cycleEntryOf entry"
  note c = assms [unfolded checkCycleEntry_def Let_def bindE_Inr_iff throwIf_Inr config_Inr]
  show r: "r = out @ [?e]" using c by (auto simp: cycleEntryOf_def)
  have e: "ce_cycleId ?e \<notin> set (map ce_cycleId out)" "ce_cycleDigest ?e \<notin> set (map ce_cycleDigest out)" "0 \<le> ce_openedAtMs ?e"
      "digest_pattern (ce_cycleDigest ?e)" "is_decimal (ce_releaseCostMicroUsd ?e)" "is_decimal (ce_releaseAmountWei ?e)"
      "ce_mode ?e \<in> {''production'', ''rehearsal''}" "out = [] \<or> ce_openedAtMs (last out) \<le> ce_openedAtMs ?e"
    using c by (auto simp: cycleEntryOf_def str_matches_iff split: if_splits)
  show "cycleLedgerOk out \<Longrightarrow> cycleLedgerOk r"
    using e unfolding r cycleLedgerOk_def sorted_snoc_last by (simp add: ball_Un)
qed

lemma checkSpendEntry_Inr:
  assumes "checkSpendEntry cycles i entry out = Inr r"
  shows "r = out @ [spendEntryOf entry]" and "spendLedgerOk cycles out \<Longrightarrow> spendLedgerOk cycles r"
proof -
  let ?e = "spendEntryOf entry"
  note c = assms [unfolded checkSpendEntry_def Let_def bindE_Inr_iff throwIf_Inr config_Inr]
  show r: "r = out @ [?e]" using c by (auto simp: spendEntryOf_def)
  have e: "se_cycleDigest ?e \<notin> set (map se_cycleDigest out)" "se_cycleDigest ?e \<in> set (map ce_cycleDigest cycles)" "0 \<le> se_reservedAtMs ?e"
      "is_decimal (se_amountMicroUsd ?e)" "out = [] \<or> se_reservedAtMs (last out) \<le> se_reservedAtMs ?e"
    using c by (auto simp: spendEntryOf_def split: if_splits)
  show "spendLedgerOk cycles out \<Longrightarrow> spendLedgerOk cycles r"
    using e unfolding r spendLedgerOk_def sorted_snoc_last by (simp add: ball_Un)
qed

lemma assertCycleLedger_Inr:
  assumes "assertCycleLedger v = Inr es"
  shows "es = map cycleEntryOf (arr_of v)" and "cycleLedgerOk es"
proof -
  have f: "foldE checkCycleEntry 0 (arr_of v) [] = Inr es" using assms by (simp add: assertCycleLedger_def split: if_splits)
  show "es = map cycleEntryOf (arr_of v)" using foldE_gathers [OF f checkCycleEntry_Inr(1)] by simp
  show "cycleLedgerOk es"
    by (rule foldE_invariant [OF f, of cycleLedgerOk]) (auto simp: cycleLedgerOk_def [of "[]"] dest: checkCycleEntry_Inr(2))
qed

lemma assertSpendLedger_Inr:
  assumes "assertSpendLedger v cycles = Inr es"
  shows "es = map spendEntryOf (arr_of v)" and "spendLedgerOk cycles es"
proof -
  have f: "foldE (checkSpendEntry cycles) 0 (arr_of v) [] = Inr es" using assms by (simp add: assertSpendLedger_def split: if_splits)
  show "es = map spendEntryOf (arr_of v)" using foldE_gathers [OF f checkSpendEntry_Inr(1)] by simp
  show "spendLedgerOk cycles es"
    by (rule foldE_invariant [OF f, of "spendLedgerOk cycles"]) (auto simp: spendLedgerOk_def [of _ "[]"] dest: checkSpendEntry_Inr(2))
qed

lemma assertPendingEpicDecisions_Inr: "assertPendingEpicDecisions v = Inr ds \<Longrightarrow> ds = map pendingOf (arr_of v)"
proof -
  assume "assertPendingEpicDecisions v = Inr ds"
  then have f: "foldE checkPending 0 (arr_of v) [] = Inr ds" by (simp add: assertPendingEpicDecisions_def split: if_splits)
  have "r = out @ [pendingOf e]" if "checkPending i e out = Inr r" for i e out r
    using that by (auto simp: checkPending_def Let_def bindE_Inr_iff config_Inr pendingOf_def)
  from foldE_gathers [OF f this] show "ds = map pendingOf (arr_of v)" by simp
qed

end
