(* ===== verification/Operator_Edits.thy ===== *)
theory Operator_Edits
  imports Operator_Configuration
begin

text \<open>
  What the operator document guarantees: the inversion of its validation, the fields a validated document keeps, and what an edit
  can change.
\<close>

section \<open>What acceptance means\<close>

lemma assertOperatorConfiguration_Inr:
  assumes "assertOperatorConfiguration given = Inr c" and v_def: "v = withClaimLimit given"
  obtains packIds plan pendings approvals cycles spends recipientLimit where
    "c = configurationOf v packIds plan pendings approvals cycles spends recipientLimit"
    and "exactKeys v configurationFields" and "isPlainObject v" and "jprop v ''schema'' = JStr OPERATOR_CONFIGURATION_SCHEMA"
    and "checkClaimLimit v = Inr ()" and "checkBudgets v = Inr ()" and "checkCustodyLimits v = Inr ()"
    and "checkInteger v ''configurationRevision'' 0 MAX_SAFE_INTEGER = Inr ()"
    and "assertAllowedPackIds (jprop v ''allowedPackIds'') = Inr packIds" and "assertPackPlan (jprop v ''packPlan'') = Inr plan"
    and "assertPendingEpicDecisions (jprop v ''pendingEpicDecisions'') = Inr pendings"
    and "assertApprovalsByCycleDigest (jprop v ''approvalsByCycleDigest'') = Inr approvals"
    and "assertCycleLedger (jprop v ''cycleLedger'') = Inr cycles" and "assertSpendLedger (jprop v ''spendLedger'') cycles = Inr spends"
    and "assertRewardRecipientLimit (jprop v ''rewardRecipientLimit'') = Inr recipientLimit"
proof -
  note c = assms(1) [unfolded assertOperatorConfiguration_def Let_def, folded v_def, unfolded bindE_Inr_iff throwIf_Inr assertExactPlainObject_Inr]
  show thesis using c by (elim exE conjE) (rule that, simp_all)
qed

lemma checkInteger_Inr: "checkInteger v f lo hi = Inr u \<longleftrightarrow> (\<exists>i. jprop v f = JNum i \<and> lo \<le> i \<and> i \<le> hi)"
  by (simp add: checkInteger_def bindE_Inr_iff assertIntegerInRange_Inr)

lemma checkBoolean_Inr: "checkBoolean v f = Inr u \<longleftrightarrow> (\<exists>b. jprop v f = JBool b)"
  by (auto simp: checkBoolean_def assertBoolean_def bindE_Inr_iff split: jsval.splits)

lemma amountField_Inr: "amountField v f = Inr n \<longleftrightarrow> (\<exists>s. jprop v f = JStr s \<and> is_decimal s \<and> n = nat_of_dec s \<and> n \<le> maxSafeMicroUsd)"
  by (simp add: amountField_def assertMicroUsdAmount_Inr)

lemmas field_Inr = bindE_Inr_iff throwIf_Inr checkInteger_Inr checkBoolean_Inr amountField_Inr assertIntegerInRange_Inr

lemma checkBudgets_Inr:
  assumes "checkBudgets v = Inr u"
  obtains n k up cb db pc b l m where "jprop v ''maxBoostersPerCycle'' = JNum n" "1 \<le> n" "n \<le> 1000"
    "jprop v ''requestedOrders'' = JNum k" "0 \<le> k" "k \<le> n"
    "jprop v ''maxUnitPriceMicroUsd'' = JStr up" "is_decimal up" "jprop v ''maxCycleBudgetMicroUsd'' = JStr cb" "is_decimal cb"
    "jprop v ''max24HourBudgetMicroUsd'' = JStr db" "is_decimal db" "nat_of_dec db \<le> maxSafeMicroUsd"
    "nat_of_dec up \<le> nat_of_dec cb" "nat_of_dec cb \<le> nat_of_dec db"
    "jprop v ''paused'' = JBool b" "jprop v ''liveMode'' = JBool l" "jprop v ''maxCyclesPerDay'' = JNum m" "0 \<le> m"
    "jprop v ''perCycleCapMicroUsd'' = JStr cb"
  using assms by (auto simp: checkBudgets_def field_Inr not_less nat_of_dec_inj)

lemma checkCustodyLimits_Inr:
  assumes "checkCustodyLimits v = Inr u"
  obtains lc mo hp hv ud x k m where "jprop v ''lossCapMicroUsd'' = JStr lc" "is_decimal lc"
    "jprop v ''maxOutstandingCustodyMicroUsd'' = JStr mo" "is_decimal mo" "jprop v ''maxHeldPositions'' = JNum hp" "0 \<le> hp" "hp \<le> 10"
    "jprop v ''maxHeldValueMicroUsd'' = JStr hv" "is_decimal hv" "nat_of_dec hv \<le> 5000000000"
    "jprop v ''unresolvedCardDeadlineMinutes'' = JNum ud" "5 \<le> ud" "ud \<le> 1440"
    "jprop v ''executionPaused'' = JBool x" "jprop v ''killSwitch'' = JBool k" "jprop v ''manualApprovalCycles'' = JNum m" "0 \<le> m"
  using assms by (auto simp: checkCustodyLimits_def field_Inr not_less)

lemma checkClaimLimit_Inr:
  assumes "checkClaimLimit v = Inr u"
  obtains cl iv where "jprop v ''processClaimLimit6hMicroUsd'' = JStr cl" "is_decimal cl" "nat_of_dec cl \<le> 50000000000"
    "jprop v ''intervalMinutes'' = JNum iv" "5 \<le> iv" "iv \<le> 1440"
  using assms by (auto simp: checkClaimLimit_def field_Inr not_less)

lemma assertAllowedPackIds_Inr:
  assumes "assertAllowedPackIds v = Inr ids"
  shows "v = JArr (map JStr ids)" and "sorted_wrt (<) ids" and "\<forall>i \<in> set ids. packCodePattern i"
proof -
  from assms obtain xs prev where v: "v = JArr xs" and f: "foldE (\<lambda>_. checkPackId) 0 xs (None, []) = Inr (prev, ids)"
    by (auto simp: assertAllowedPackIds_def isArray_iff bindE_Inr_iff split: if_splits)
  let ?P = "\<lambda>pre (prev, out). map JStr out = pre \<and> sorted_wrt (<) out \<and> (\<forall>i \<in> set out. packCodePattern i) \<and> prev = (if out = [] then None else Some (last out))"
  have "?P ([] @ xs) (prev, ids)"
  proof (rule foldE_prefix_invariant [where P = ?P, OF f])
    fix i x :: jsval and pre st st' assume p: "?P pre st" and s: "checkPackId x st = Inr st'"
    then show "?P (pre @ [x]) st'"
      by (cases st) (auto simp: checkPackId_def str_matches_iff sorted_snoc not_le split: if_splits)
  qed simp
  with v show "v = JArr (map JStr ids)" "sorted_wrt (<) ids" "\<forall>i \<in> set ids. packCodePattern i" by auto
qed

lemma foldE_approvals:
  assumes "foldE (\<lambda>_. checkApproval) i (map (\<lambda>(d, a). (d, jsval_of_approval a)) as) out = Inr r" and "distinct (map fst (out @ as))"
  shows "r = out @ as"
  using assms
proof (induction "as" arbitrary: i out)
  case (Cons p as)
  obtain d a where p: "p = (d, a)" by (cases p)
  have new: "omap_set d a out = out @ [(d, a)]" if "d \<notin> set (map fst out)" for out :: "(string \<times> approval) list"
    using that by (induction out) auto
  have d: "d \<notin> set (map fst out)" using Cons.prems(2) by (auto simp: p)
  have s: "r' = out @ [(d, a)]" if "checkApproval (d, jsval_of_approval a) out = Inr r'" for r'
  proof -
    have e: "\<lparr>ap_cycleId = ap_cycleId a, ap_approvedAtMs = ap_approvedAtMs a\<rparr> = a" by simp
    from that have "r' = omap_set d a out"
      by (auto simp: checkApproval_def Let_def bindE_Inr_iff config_Inr jsval_of_approval_def jprop_JObj e)
    with new [OF d] show ?thesis by simp
  qed
  from Cons.prems(1) obtain out' where o: "checkApproval (d, jsval_of_approval a) out = Inr out'"
    and f: "foldE (\<lambda>_. checkApproval) (Suc i) (map (\<lambda>(d, a). (d, jsval_of_approval a)) as) out' = Inr r"
    by (auto simp: p bindE_Inr_iff)
  have "r = out' @ as" by (rule Cons.IH [OF f]) (use Cons.prems(2) in \<open>simp add: s [OF o] p\<close>)
  then show ?case by (simp add: s [OF o] p)
qed simp

lemma assertApprovals_wf: "assertApprovalsByCycleDigest v = Inr as \<Longrightarrow> omap_wf as"
proof -
  assume "assertApprovalsByCycleDigest v = Inr as"
  then have f: "foldE (\<lambda>_. checkApproval) 0 (spread v) [] = Inr as" by (simp add: assertApprovalsByCycleDigest_def split: if_splits)
  show "omap_wf as"
    by (rule foldE_invariant [OF f, of omap_wf]) (auto simp: checkApproval_def Let_def bindE_Inr_iff)
qed

lemma assertApprovals_again:
  assumes "omap_wf as" and "assertApprovalsByCycleDigest (JObj (map (\<lambda>(d, a). (d, jsval_of_approval a)) as)) = Inr bs"
  shows "bs = as"
  using foldE_approvals [of 0 "as" "[]" bs] assms by (simp add: assertApprovalsByCycleDigest_def spread_def omap_wf_def isPlainObject_def)

lemma assertPackPlan_again:
  assumes "assertPackPlan (jsval_of_plan p) = Inr q"
  shows "q = p"
proof -
  have "pp_orders q = map (\<lambda>o'. (str_of (jprop o' ''pack''), num_of (jprop o' ''quantity''))) (arr_of (jprop (jsval_of_plan p) ''orders''))"
    "pp_revision q = num_of (jprop (jsval_of_plan p) ''revision'')" using assertPackPlan_Inr [OF assms] by simp_all
  then show ?thesis by (simp add: jsval_of_plan_def ordersArray_def orderObject_def jprop_JObj comp_def)
qed

lemma jsval_of_configuration_fields [simp]:
  "jprop (jsval_of_configuration c) ''intervalMinutes'' = JNum (oc_intervalMinutes c)"
  "jprop (jsval_of_configuration c) ''requestedOrders'' = JNum (oc_requestedOrders c)"
  "jprop (jsval_of_configuration c) ''maxBoostersPerCycle'' = JNum (oc_maxBoostersPerCycle c)"
  "jprop (jsval_of_configuration c) ''maxUnitPriceMicroUsd'' = JStr (oc_maxUnitPriceMicroUsd c)"
  "jprop (jsval_of_configuration c) ''maxCycleBudgetMicroUsd'' = JStr (oc_maxCycleBudgetMicroUsd c)"
  "jprop (jsval_of_configuration c) ''max24HourBudgetMicroUsd'' = JStr (oc_max24HourBudgetMicroUsd c)"
  "jprop (jsval_of_configuration c) ''processClaimLimit6hMicroUsd'' = JStr (oc_processClaimLimit6hMicroUsd c)"
  "jprop (jsval_of_configuration c) ''paused'' = JBool (oc_paused c)"
  "jprop (jsval_of_configuration c) ''liveMode'' = JBool (oc_liveMode c)"
  "jprop (jsval_of_configuration c) ''maxCyclesPerDay'' = JNum (oc_maxCyclesPerDay c)"
  "jprop (jsval_of_configuration c) ''perCycleCapMicroUsd'' = JStr (oc_perCycleCapMicroUsd c)"
  "jprop (jsval_of_configuration c) ''lossCapMicroUsd'' = JStr (oc_lossCapMicroUsd c)"
  "jprop (jsval_of_configuration c) ''maxOutstandingCustodyMicroUsd'' = JStr (oc_maxOutstandingCustodyMicroUsd c)"
  "jprop (jsval_of_configuration c) ''maxHeldPositions'' = JNum (oc_maxHeldPositions c)"
  "jprop (jsval_of_configuration c) ''maxHeldValueMicroUsd'' = JStr (oc_maxHeldValueMicroUsd c)"
  "jprop (jsval_of_configuration c) ''unresolvedCardDeadlineMinutes'' = JNum (oc_unresolvedCardDeadlineMinutes c)"
  "jprop (jsval_of_configuration c) ''executionPaused'' = JBool (oc_executionPaused c)"
  "jprop (jsval_of_configuration c) ''killSwitch'' = JBool (oc_killSwitch c)"
  "jprop (jsval_of_configuration c) ''manualApprovalCycles'' = JNum (oc_manualApprovalCycles c)"
  "jprop (jsval_of_configuration c) ''configurationRevision'' = JNum (oc_configurationRevision c)"
  "jprop (jsval_of_configuration c) ''schema'' = JStr OPERATOR_CONFIGURATION_SCHEMA"
  "jprop (jsval_of_configuration c) ''rewardRecipientLimit'' = JNum (oc_rewardRecipientLimit c)"
  "jprop (jsval_of_configuration c) ''allowedPackIds'' = JArr (map JStr (oc_allowedPackIds c))"
  "jprop (jsval_of_configuration c) ''packPlan'' = jsval_of_plan (oc_packPlan c)"
  "jprop (jsval_of_configuration c) ''pendingEpicDecisions'' = JArr (map jsval_of_pending (oc_pendingEpicDecisions c))"
  "jprop (jsval_of_configuration c) ''approvalsByCycleDigest'' = JObj (map (\<lambda>(d, a). (d, jsval_of_approval a)) (oc_approvalsByCycleDigest c))"
  "jprop (jsval_of_configuration c) ''spendLedger'' = JArr (map jsval_of_spend_entry (oc_spendLedger c))"
  "jprop (jsval_of_configuration c) ''cycleLedger'' = JArr (map jsval_of_cycle_entry (oc_cycleLedger c))"
  by (simp_all add: jsval_of_configuration_def jprop_JObj)

lemma configurationOf_fields [simp]:
  "oc_intervalMinutes (configurationOf v ids plan ps aps cs ss lim) = num_of (jprop v ''intervalMinutes'')"
  "oc_requestedOrders (configurationOf v ids plan ps aps cs ss lim) = num_of (jprop v ''requestedOrders'')"
  "oc_maxBoostersPerCycle (configurationOf v ids plan ps aps cs ss lim) = num_of (jprop v ''maxBoostersPerCycle'')"
  "oc_maxUnitPriceMicroUsd (configurationOf v ids plan ps aps cs ss lim) = str_of (jprop v ''maxUnitPriceMicroUsd'')"
  "oc_maxCycleBudgetMicroUsd (configurationOf v ids plan ps aps cs ss lim) = str_of (jprop v ''maxCycleBudgetMicroUsd'')"
  "oc_max24HourBudgetMicroUsd (configurationOf v ids plan ps aps cs ss lim) = str_of (jprop v ''max24HourBudgetMicroUsd'')"
  "oc_processClaimLimit6hMicroUsd (configurationOf v ids plan ps aps cs ss lim) = str_of (jprop v ''processClaimLimit6hMicroUsd'')"
  "oc_paused (configurationOf v ids plan ps aps cs ss lim) = (jprop v ''paused'' = JBool True)"
  "oc_liveMode (configurationOf v ids plan ps aps cs ss lim) = (jprop v ''liveMode'' = JBool True)"
  "oc_maxCyclesPerDay (configurationOf v ids plan ps aps cs ss lim) = num_of (jprop v ''maxCyclesPerDay'')"
  "oc_perCycleCapMicroUsd (configurationOf v ids plan ps aps cs ss lim) = str_of (jprop v ''perCycleCapMicroUsd'')"
  "oc_lossCapMicroUsd (configurationOf v ids plan ps aps cs ss lim) = str_of (jprop v ''lossCapMicroUsd'')"
  "oc_maxOutstandingCustodyMicroUsd (configurationOf v ids plan ps aps cs ss lim) = str_of (jprop v ''maxOutstandingCustodyMicroUsd'')"
  "oc_maxHeldPositions (configurationOf v ids plan ps aps cs ss lim) = num_of (jprop v ''maxHeldPositions'')"
  "oc_maxHeldValueMicroUsd (configurationOf v ids plan ps aps cs ss lim) = str_of (jprop v ''maxHeldValueMicroUsd'')"
  "oc_unresolvedCardDeadlineMinutes (configurationOf v ids plan ps aps cs ss lim) = num_of (jprop v ''unresolvedCardDeadlineMinutes'')"
  "oc_executionPaused (configurationOf v ids plan ps aps cs ss lim) = (jprop v ''executionPaused'' = JBool True)"
  "oc_killSwitch (configurationOf v ids plan ps aps cs ss lim) = (jprop v ''killSwitch'' = JBool True)"
  "oc_manualApprovalCycles (configurationOf v ids plan ps aps cs ss lim) = num_of (jprop v ''manualApprovalCycles'')"
  "oc_configurationRevision (configurationOf v ids plan ps aps cs ss lim) = num_of (jprop v ''configurationRevision'')"
  "oc_rewardRecipientLimit (configurationOf v ids plan ps aps cs ss lim) = lim"
  "oc_allowedPackIds (configurationOf v ids plan ps aps cs ss lim) = ids"
  "oc_packPlan (configurationOf v ids plan ps aps cs ss lim) = plan"
  "oc_pendingEpicDecisions (configurationOf v ids plan ps aps cs ss lim) = ps"
  "oc_approvalsByCycleDigest (configurationOf v ids plan ps aps cs ss lim) = aps"
  "oc_spendLedger (configurationOf v ids plan ps aps cs ss lim) = ss"
  "oc_cycleLedger (configurationOf v ids plan ps aps cs ss lim) = cs"
  by (simp_all add: configurationOf_def Let_def)

text \<open>The fields whose value the returned document keeps as it was given.\<close>

definition plainFields :: "string list" where
  "plainFields = [''intervalMinutes'', ''allowedPackIds'', ''rewardRecipientLimit'', ''requestedOrders'',
     ''maxBoostersPerCycle'', ''maxUnitPriceMicroUsd'', ''maxCycleBudgetMicroUsd'', ''max24HourBudgetMicroUsd'', ''processClaimLimit6hMicroUsd'',
     ''paused'', ''liveMode'', ''maxCyclesPerDay'', ''perCycleCapMicroUsd'', ''lossCapMicroUsd'', ''maxOutstandingCustodyMicroUsd'',
     ''maxHeldPositions'', ''maxHeldValueMicroUsd'', ''unresolvedCardDeadlineMinutes'', ''executionPaused'', ''killSwitch'',
     ''manualApprovalCycles'', ''configurationRevision'']"

lemma accepted_fields_kept:
  assumes "assertOperatorConfiguration given = Inr c" and v: "v = withClaimLimit given" and "f \<in> set plainFields"
  shows "jprop (jsval_of_configuration c) f = jprop v f"
proof -
  obtain ids plan ps aps cs ss lim where c: "c = configurationOf v ids plan ps aps cs ss lim"
    and k: "checkClaimLimit v = Inr ()" "checkBudgets v = Inr ()" "checkCustodyLimits v = Inr ()"
      "checkInteger v ''configurationRevision'' 0 MAX_SAFE_INTEGER = Inr ()"
      "assertAllowedPackIds (jprop v ''allowedPackIds'') = Inr ids" "assertRewardRecipientLimit (jprop v ''rewardRecipientLimit'') = Inr lim"
    by (rule assertOperatorConfiguration_Inr [OF assms(1) v]) blast
  have "list_all (\<lambda>f. jprop (jsval_of_configuration c) f = jprop v f) plainFields"
    using assertAllowedPackIds_Inr(1) [OF k(5)] assertRewardRecipientLimit_range [OF k(6)] k(4)
    by - (rule checkClaimLimit_Inr [OF k(1)], rule checkBudgets_Inr [OF k(2)], rule checkCustodyLimits_Inr [OF k(3)],
        clarsimp simp: plainFields_def c checkInteger_Inr)
  with assms(3) show ?thesis by (simp add: list_all_iff)
qed

lemma withClaimLimit_id: "hasOwn v ''processClaimLimit6hMicroUsd'' \<Longrightarrow> withClaimLimit v = v"
  by (simp add: withClaimLimit_def)

text \<open>The lists of the returned document, in terms of the given one.\<close>

lemma accepted_lists:
  assumes "assertOperatorConfiguration given = Inr c" and v: "v = withClaimLimit given"
  shows "oc_cycleLedger c = map cycleEntryOf (arr_of (jprop v ''cycleLedger''))"
    and "oc_spendLedger c = map spendEntryOf (arr_of (jprop v ''spendLedger''))"
    and "oc_pendingEpicDecisions c = map pendingOf (arr_of (jprop v ''pendingEpicDecisions''))"
    and "cycleLedgerOk (oc_cycleLedger c)" and "spendLedgerOk (oc_cycleLedger c) (oc_spendLedger c)" and "omap_wf (oc_approvalsByCycleDigest c)"
    and "assertApprovalsByCycleDigest (jprop v ''approvalsByCycleDigest'') = Inr (oc_approvalsByCycleDigest c)"
    and "assertPackPlan (jprop v ''packPlan'') = Inr (oc_packPlan c)"
  by (rule assertOperatorConfiguration_Inr [OF assms];
      simp add: configurationOf_def Let_def assertCycleLedger_Inr assertSpendLedger_Inr assertPendingEpicDecisions_Inr assertApprovals_wf)+


section \<open>Edits\<close>

lemma spread_configuration: "JObj (spread (jsval_of_configuration c)) = jsval_of_configuration c"
  by (simp add: spread_def jsval_of_configuration_def)


definition baseConfiguration :: "jsval \<Rightarrow> operator_configuration res" where
  "baseConfiguration current = (if current = JNull then createDefaultOperatorConfiguration else assertOperatorConfiguration current)"

definition planPatch :: "operator_configuration \<Rightarrow> jsval \<Rightarrow> (string \<times> jsval) list res" where
  "planPatch base patch =
     (if \<not> hasOwn patch ''packPlan'' then Inr []
      else bindE (assertExactPlainObject (jprop patch ''packPlan'') [''orders''] ''operator configuration pack plan patch'') (\<lambda>_.
        bindE (replacePackPlan (jsval_of_plan (oc_packPlan base)) (jprop (jprop patch ''packPlan'') ''orders'')) (\<lambda>p.
          Inr [(''packPlan'', jsval_of_plan p)])))"

definition patched :: "operator_configuration \<Rightarrow> jsval \<Rightarrow> (string \<times> jsval) list \<Rightarrow> jsval" where
  "patched base patch planProps = withProps (spread (jsval_of_configuration base))
     (spread patch @ planProps @ pairedCaps patch @ [(''configurationRevision'', JNum (oc_configurationRevision base + 1))])"

lemma applyOperatorConfiguration_Inr:
  assumes "applyOperatorConfiguration current patch = Inr c'"
  obtains base planProps ps where "baseConfiguration current = Inr base" "checkPatch patch = Inr ()" "planPatch base patch = Inr planProps"
    "assertOperatorConfiguration (patched base patch planProps) = Inr c'" "spread patch = ps" "patch = JObj ps \<or> patch = JInst ps"
proof -
  note a = assms [unfolded applyOperatorConfiguration_def, folded baseConfiguration_def planPatch_def patched_def, unfolded bindE_Inr_iff]
  from a obtain base planProps where b: "baseConfiguration current = Inr base" "checkPatch patch = Inr ()" "planPatch base patch = Inr planProps"
    "assertOperatorConfiguration (patched base patch planProps) = Inr c'" by auto
  from b(2) have "\<not> falsy patch" "typeofObject patch" "\<not> isArray patch" by (simp_all add: checkPatch_def bindE_Inr_iff throwIf_Inr)
  then have "patch = JObj (spread patch) \<or> patch = JInst (spread patch)"
    by (cases patch) (simp_all add: typeofObject_def isArray_def falsy_def spread_def)
  with b show thesis using that by blast
qed

lemma hasOwn_spread: "patch = JObj ps \<or> patch = JInst ps \<Longrightarrow> hasOwn patch f \<longleftrightarrow> f \<in> fst ` set ps"
  by (elim disjE) (simp_all add: hasOwn_def ownKeys_def)

lemma jprop_patched:
  assumes "planPatch base patch = Inr pp" and "patch = JObj ps \<or> patch = JInst ps" and "distinct (map fst ps)"
    and "\<not> hasOwn patch ''configurationRevision''"
  shows "jprop (patched base patch pp) f =
     (if f = ''configurationRevision'' then JNum (oc_configurationRevision base + 1)
      else case map_of (pairedCaps patch) f of Some x \<Rightarrow> x
      | None \<Rightarrow> case map_of pp f of Some x \<Rightarrow> x
      | None \<Rightarrow> if hasOwn patch f then jprop patch f else jprop (jsval_of_configuration base) f)"
proof -
  have sp: "spread patch = ps" "map_of (rev ps) f = map_of ps f" using assms(2,3) by (auto simp: spread_def map_of_rev_distinct)
  have one: "map_of (rev pp) f = map_of pp f" "map_of (rev (pairedCaps patch)) f = map_of (pairedCaps patch) f"
    using assms(1) by (auto simp: planPatch_def pairedCaps_def bindE_Inr_iff split: if_splits)
  have "map_of ps f = None \<longleftrightarrow> \<not> hasOwn patch f" "\<And>x. map_of ps f = Some x \<Longrightarrow> jprop patch f = x"
    using assms(2) by (auto simp: hasOwn_spread [OF assms(2)] map_of_eq_None_iff jprop_def)
  then show ?thesis
    by (auto simp: patched_def jprop_withProps sp one map_add_def spread_configuration split: option.splits)
qed


lemma baseConfiguration_validated:
  assumes "baseConfiguration current = Inr base"
  obtains given where "assertOperatorConfiguration given = Inr base"
proof (cases "current = JNull")
  case True
  from assms have "createDefaultOperatorConfiguration = Inr base" by (simp add: baseConfiguration_def True)
  from this [unfolded createDefaultOperatorConfiguration_def bindE_Inr_iff] show thesis using that by blast
next
  case False
  from assms have "assertOperatorConfiguration current = Inr base" by (simp add: baseConfiguration_def False)
  then show thesis by (rule that)
qed

text \<open>The value of a plain field after an edit: the patch's, the paired budget field's, or the old one.\<close>

definition editedField :: "operator_configuration \<Rightarrow> jsval \<Rightarrow> string \<Rightarrow> jsval" where
  "editedField base patch f =
     (if hasOwn patch f then jprop patch f
      else if f = ''perCycleCapMicroUsd'' \<and> hasOwn patch ''maxCycleBudgetMicroUsd'' then jprop patch ''maxCycleBudgetMicroUsd''
      else if f = ''maxCycleBudgetMicroUsd'' \<and> hasOwn patch ''perCycleCapMicroUsd'' then jprop patch ''perCycleCapMicroUsd''
      else jprop (jsval_of_configuration base) f)"

lemma paired_edit:
  "(case map_of (pairedCaps patch) f of Some x \<Rightarrow> x | None \<Rightarrow> if hasOwn patch f then jprop patch f else jprop (jsval_of_configuration base) f)
    = editedField base patch f"
proof -
  consider "f = ''perCycleCapMicroUsd''" | "f = ''maxCycleBudgetMicroUsd''" | "f \<noteq> ''perCycleCapMicroUsd''" "f \<noteq> ''maxCycleBudgetMicroUsd''"
    by blast
  then show ?thesis by cases (simp_all add: pairedCaps_def editedField_def)
qed

lemma applyOperatorConfiguration_frame:
  assumes "applyOperatorConfiguration current patch = Inr c" and "distinct (ownKeys patch)"
  shows "\<exists>base. (if current = JNull then createDefaultOperatorConfiguration else assertOperatorConfiguration current) = Inr base
    \<and> oc_configurationRevision c = oc_configurationRevision base + 1
    \<and> oc_cycleLedger c = oc_cycleLedger base \<and> oc_spendLedger c = oc_spendLedger base
    \<and> oc_pendingEpicDecisions c = oc_pendingEpicDecisions base \<and> oc_approvalsByCycleDigest c = oc_approvalsByCycleDigest base
    \<and> (if hasOwn patch ''packPlan''
       then replacePackPlan (jsval_of_plan (oc_packPlan base)) (jprop (jprop patch ''packPlan'') ''orders'') = Inr (oc_packPlan c)
       else oc_packPlan c = oc_packPlan base)
    \<and> (\<forall>f \<in> set plainFields - {''configurationRevision''}. jprop (jsval_of_configuration c) f = editedField base patch f)"
proof -
  obtain base pp ps where b: "baseConfiguration current = Inr base" and cp: "checkPatch patch = Inr ()" and pp: "planPatch base patch = Inr pp"
    and a: "assertOperatorConfiguration (patched base patch pp) = Inr c" and ps: "patch = JObj ps \<or> patch = JInst ps"
    by (rule applyOperatorConfiguration_Inr [OF assms(1)])
  have d: "distinct (map fst ps)" using assms(2) ps by (auto simp: ownKeys_def)
  have no: "\<not> hasOwn patch ''configurationRevision''" "\<not> hasOwn patch ''cycleLedger''" "\<not> hasOwn patch ''spendLedger''"
    "\<not> hasOwn patch ''pendingEpicDecisions''" "\<not> hasOwn patch ''approvalsByCycleDigest''"
    using cp by (simp_all add: checkPatch_def bindE_Inr_iff throwIf_Inr patchFields_def)
  let ?v = "patched base patch pp"
  note jp = jprop_patched [OF pp ps d no(1)]
  have v: "?v = withClaimLimit ?v"
    by (rule withClaimLimit_id [symmetric]) (simp add: patched_def hasOwn_withProps spread_def jsval_of_configuration_def)
  have ppk: "map_of pp f = None" if "f \<noteq> ''packPlan''" for f
    using pp that by (auto simp: planPatch_def bindE_Inr_iff split: if_splits)
  have cap: "map_of (pairedCaps patch) f = None" if "f \<notin> {''perCycleCapMicroUsd'', ''maxCycleBudgetMicroUsd''}" for f
    using that by (simp add: pairedCaps_def)
  have kept: "jprop ?v f = jprop (jsval_of_configuration base) f"
    if "\<not> hasOwn patch f" "f \<notin> {''perCycleCapMicroUsd'', ''maxCycleBudgetMicroUsd''}" "f \<noteq> ''packPlan''" "f \<noteq> ''configurationRevision''" for f
    using that(1,4) ppk [OF that(3)] cap [OF that(2)] by (simp add: jp)
  have plain: "jprop ?v f = editedField base patch f" if "f \<noteq> ''packPlan''" "f \<noteq> ''configurationRevision''" for f
    using that(2) ppk [OF that(1)] by (simp only: jp if_False option.case paired_edit)
  obtain given where g: "assertOperatorConfiguration given = Inr base" by (rule baseConfiguration_validated [OF b])
  note l = accepted_lists [OF a v]
  have revision: "oc_configurationRevision c = oc_configurationRevision base + 1"
    using accepted_fields_kept [OF a v, of "''configurationRevision''"] by (simp add: plainFields_def jp)
  have cycles: "oc_cycleLedger c = oc_cycleLedger base" "oc_spendLedger c = oc_spendLedger base" "oc_pendingEpicDecisions c = oc_pendingEpicDecisions base"
    by (simp_all add: l(1-3) kept no comp_def)
  have approvals: "oc_approvalsByCycleDigest c = oc_approvalsByCycleDigest base"
    using l(7) assertApprovals_again [OF accepted_lists(6) [OF g refl]] by (simp add: kept no)
  have plan: "if hasOwn patch ''packPlan''
       then replacePackPlan (jsval_of_plan (oc_packPlan base)) (jprop (jprop patch ''packPlan'') ''orders'') = Inr (oc_packPlan c)
       else oc_packPlan c = oc_packPlan base"
  proof (cases "hasOwn patch ''packPlan''")
    case True
    then obtain p where p: "replacePackPlan (jsval_of_plan (oc_packPlan base)) (jprop (jprop patch ''packPlan'') ''orders'') = Inr p" "pp = [(''packPlan'', jsval_of_plan p)]"
      using pp by (auto simp: planPatch_def bindE_Inr_iff)
    have "map_of pp ''packPlan'' = Some (jsval_of_plan p)" "map_of (pairedCaps patch) ''packPlan'' = None"
      by (simp_all add: cap p(2))
    then have "jprop ?v ''packPlan'' = jsval_of_plan p" by (simp add: jp)
    with l(8) True p(1) show ?thesis by (auto dest: assertPackPlan_again)
  next
    case False
    then have "map_of pp ''packPlan'' = None" "map_of (pairedCaps patch) ''packPlan'' = None" using pp by (simp_all add: planPatch_def cap)
    with False have "jprop ?v ''packPlan'' = jsval_of_plan (oc_packPlan base)" by (simp add: jp)
    with l(8) False show ?thesis by (auto dest: assertPackPlan_again)
  qed
  have fields: "jprop (jsval_of_configuration c) f = jprop ?v f" if "f \<in> set plainFields" for f
    by (rule accepted_fields_kept [OF a v that])
  have neq: "f \<noteq> ''packPlan''" if "f \<in> set plainFields" for f
    using that by (auto simp: plainFields_def)
  have all: "\<forall>f \<in> set plainFields - {''configurationRevision''}. jprop (jsval_of_configuration c) f = editedField base patch f"
    using fields plain neq by (metis DiffE insertI1)
  from b revision cycles approvals plan all show ?thesis unfolding baseConfiguration_def by blast
qed

text \<open>
  An accepted edit of the operator document raises the revision by exactly one and changes only what the patch names: the two
  ledgers, the approvals and the pending decisions are those of the base document, every other field has the value of the patch if it names
  it and otherwise the old value, except that the two budget fields that must agree follow each other.
\<close>

theorem operator_edit_changes_only_the_patch:
  assumes "applyOperatorConfiguration current patch = Inr c" and "distinct (ownKeys patch)"
  shows "\<exists>base. (if current = JNull then createDefaultOperatorConfiguration else assertOperatorConfiguration current) = Inr base
    \<and> oc_configurationRevision c = oc_configurationRevision base + 1
    \<and> oc_cycleLedger c = oc_cycleLedger base \<and> oc_spendLedger c = oc_spendLedger base
    \<and> oc_pendingEpicDecisions c = oc_pendingEpicDecisions base \<and> oc_approvalsByCycleDigest c = oc_approvalsByCycleDigest base
    \<and> (if hasOwn patch ''packPlan''
       then replacePackPlan (jsval_of_plan (oc_packPlan base)) (jprop (jprop patch ''packPlan'') ''orders'') = Inr (oc_packPlan c)
       else oc_packPlan c = oc_packPlan base)
    \<and> (\<forall>f \<in> set plainFields - {''configurationRevision''}. jprop (jsval_of_configuration c) f = editedField base patch f)"
  using assms by (rule applyOperatorConfiguration_frame)


text \<open>What an accepted configuration guarantees before the hard caps of the state file are added.\<close>

lemma accepted_configuration:
  assumes "assertOperatorConfiguration v = Inr c"
  shows "nat_of_dec (oc_maxUnitPriceMicroUsd c) \<le> nat_of_dec (oc_maxCycleBudgetMicroUsd c)
    \<and> oc_perCycleCapMicroUsd c = oc_maxCycleBudgetMicroUsd c
    \<and> nat_of_dec (oc_maxCycleBudgetMicroUsd c) \<le> nat_of_dec (oc_max24HourBudgetMicroUsd c)
    \<and> nat_of_dec (oc_processClaimLimit6hMicroUsd c) \<le> 50000000000 \<and> nat_of_dec (oc_maxHeldValueMicroUsd c) \<le> 5000000000
    \<and> 0 \<le> oc_maxHeldPositions c \<and> oc_maxHeldPositions c \<le> 10
    \<and> 0 \<le> oc_requestedOrders c \<and> oc_requestedOrders c \<le> oc_maxBoostersPerCycle c
    \<and> 1 \<le> oc_maxBoostersPerCycle c \<and> oc_maxBoostersPerCycle c \<le> 1000"
    and "5 \<le> oc_intervalMinutes c \<and> oc_intervalMinutes c \<le> 1440 \<and> 5 \<le> oc_unresolvedCardDeadlineMinutes c \<and> oc_unresolvedCardDeadlineMinutes c \<le> 1440
      \<and> 0 \<le> oc_maxCyclesPerDay c \<and> 0 \<le> oc_manualApprovalCycles c \<and> 0 \<le> oc_configurationRevision c"
    and "sorted_wrt (<) (oc_allowedPackIds c)" and "planOrdersOk (pp_orders (oc_packPlan c))"
    and "cycleLedgerOk (oc_cycleLedger c)" and "spendLedgerOk (oc_cycleLedger c) (oc_spendLedger c)" and "omap_wf (oc_approvalsByCycleDigest c)"
proof -
  define w where w: "w = withClaimLimit v"
  obtain ids plan ps aps cs ss lim where c: "c = configurationOf w ids plan ps aps cs ss lim"
    and k: "checkClaimLimit w = Inr ()" "checkBudgets w = Inr ()" "checkCustodyLimits w = Inr ()" "assertAllowedPackIds (jprop w ''allowedPackIds'') = Inr ids"
      "assertPackPlan (jprop w ''packPlan'') = Inr plan" "checkInteger w ''configurationRevision'' 0 MAX_SAFE_INTEGER = Inr ()"
    by (rule assertOperatorConfiguration_Inr [OF assms w]) blast
  show "nat_of_dec (oc_maxUnitPriceMicroUsd c) \<le> nat_of_dec (oc_maxCycleBudgetMicroUsd c)
    \<and> oc_perCycleCapMicroUsd c = oc_maxCycleBudgetMicroUsd c
    \<and> nat_of_dec (oc_maxCycleBudgetMicroUsd c) \<le> nat_of_dec (oc_max24HourBudgetMicroUsd c)
    \<and> nat_of_dec (oc_processClaimLimit6hMicroUsd c) \<le> 50000000000 \<and> nat_of_dec (oc_maxHeldValueMicroUsd c) \<le> 5000000000
    \<and> 0 \<le> oc_maxHeldPositions c \<and> oc_maxHeldPositions c \<le> 10
    \<and> 0 \<le> oc_requestedOrders c \<and> oc_requestedOrders c \<le> oc_maxBoostersPerCycle c
    \<and> 1 \<le> oc_maxBoostersPerCycle c \<and> oc_maxBoostersPerCycle c \<le> 1000"
    by (rule checkClaimLimit_Inr [OF k(1)], rule checkBudgets_Inr [OF k(2)], rule checkCustodyLimits_Inr [OF k(3)], simp add: c)
  show "5 \<le> oc_intervalMinutes c \<and> oc_intervalMinutes c \<le> 1440 \<and> 5 \<le> oc_unresolvedCardDeadlineMinutes c \<and> oc_unresolvedCardDeadlineMinutes c \<le> 1440
      \<and> 0 \<le> oc_maxCyclesPerDay c \<and> 0 \<le> oc_manualApprovalCycles c \<and> 0 \<le> oc_configurationRevision c"
    using k(6) by - (rule checkClaimLimit_Inr [OF k(1)], rule checkBudgets_Inr [OF k(2)], rule checkCustodyLimits_Inr [OF k(3)],
      auto simp: c checkInteger_Inr)
  show "sorted_wrt (<) (oc_allowedPackIds c)" using assertAllowedPackIds_Inr(2) [OF k(4)] by (simp add: c)
  show "planOrdersOk (pp_orders (oc_packPlan c))" using assertPackPlan_Inr(1) [OF k(5)] by (simp add: c)
  show "cycleLedgerOk (oc_cycleLedger c)" "spendLedgerOk (oc_cycleLedger c) (oc_spendLedger c)" "omap_wf (oc_approvalsByCycleDigest c)"
    using accepted_lists(4-6) [OF assms w] .
qed

section \<open>Examples\<close>

text \<open>The default document with a pause switch and a revision.\<close>

definition ex_document :: "bool \<Rightarrow> int \<Rightarrow> (string \<times> jsval) list" where
  "ex_document b r = [(''schema'', JStr OPERATOR_CONFIGURATION_SCHEMA),
       (''intervalMinutes'', JNum 20), (''allowedPackIds'', JArr []), (''packPlan'', jsval_of_plan \<lparr>pp_revision = 0, pp_orders = []\<rparr>), (''rewardRecipientLimit'', JNum 200),
       (''requestedOrders'', JNum 0), (''maxBoostersPerCycle'', JNum 1), (''maxUnitPriceMicroUsd'', JStr ''0''),
       (''maxCycleBudgetMicroUsd'', JStr ''0''), (''max24HourBudgetMicroUsd'', JStr ''0''), (''processClaimLimit6hMicroUsd'', JStr ''25000000000''),
       (''paused'', JBool b), (''liveMode'', JBool False), (''maxCyclesPerDay'', JNum 0), (''perCycleCapMicroUsd'', JStr ''0''),
       (''lossCapMicroUsd'', JStr ''0''), (''maxOutstandingCustodyMicroUsd'', JStr ''0''), (''maxHeldPositions'', JNum 10),
       (''maxHeldValueMicroUsd'', JStr ''5000000000''), (''unresolvedCardDeadlineMinutes'', JNum 30), (''executionPaused'', JBool False),
       (''killSwitch'', JBool False), (''manualApprovalCycles'', JNum 0), (''pendingEpicDecisions'', JArr []), (''approvalsByCycleDigest'', JObj []),
       (''spendLedger'', JArr []), (''cycleLedger'', JArr []), (''configurationRevision'', JNum r)]"

lemma ex_canonical: "\<exists>t. canonicalJson (JObj (ex_document b r)) = Inr t"
  by (rule canonicalJson_accepts) (simp_all add: ex_document_def json_limits jsval_of_plan_def ordersArray_def PACK_PLAN_SCHEMA_def OPERATOR_CONFIGURATION_SCHEMA_def)

lemma ex_schema: "jprop (JObj (ex_document b r)) ''schema'' = JStr OPERATOR_CONFIGURATION_SCHEMA" "hasOwn (JObj (ex_document b r)) ''processClaimLimit6hMicroUsd''"
  "isPlainObject (JObj (ex_document b r))" "exactKeys (JObj (ex_document b r)) configurationFields"
  "assertNoSecretMaterial (JObj (ex_document b r)) l = Inr ()"
  by (simp_all add: ex_document_def jprop_JObj hasOwn_def ownKeys_def isPlainObject_def exactKeys_def configurationFields_def assertNoSecretMaterial_def throwIf_def prohibitedSecretFields_def list_ex_iff list_all_iff)

lemma ex_checks:
  assumes "0 \<le> r" and "r \<le> 9"
  shows "checkClaimLimit (JObj (ex_document b r)) = Inr ()" "checkBudgets (JObj (ex_document b r)) = Inr ()" "checkCustodyLimits (JObj (ex_document b r)) = Inr ()"
   "checkInteger (JObj (ex_document b r)) ''configurationRevision'' 0 MAX_SAFE_INTEGER = Inr ()"
  using assms
  by (simp_all add: checkClaimLimit_def checkBudgets_def checkCustodyLimits_def amountField_def checkInteger_def checkBoolean_def assertBoolean_def assertIntegerInRange_def
     assertMicroUsdAmount_def ex_document_def jprop_JObj isInteger_def throwIf_def is_decimal_def is_pos_decimal_def nat_of_dec_def maxSafeMicroUsd_def MAX_SAFE_INTEGER_def cfgLabel_def digit_val_def is_digit_def)
lemma ex_plan: "createEmptyPackPlan = Inr \<lparr>pp_revision = 0, pp_orders = []\<rparr>"
  using assertPackPlan_ok [of "[]" 0] by (simp add: createEmptyPackPlan_def planOrdersOk_def MAX_PACK_PLAN_ORDERS_def safeInt_def MAX_SAFE_INTEGER_def ordersArray_def)

definition ex_configuration :: "bool \<Rightarrow> int \<Rightarrow> operator_configuration" where
  "ex_configuration b r = configurationOf (JObj (ex_document b r)) [] \<lparr>pp_revision = 0, pp_orders = []\<rparr> [] [] [] [] 200"

lemma ex_lists:
  "assertAllowedPackIds (jprop (JObj (ex_document b r)) ''allowedPackIds'') = Inr []"
  "assertPackPlan (jprop (JObj (ex_document b r)) ''packPlan'') = Inr \<lparr>pp_revision = 0, pp_orders = []\<rparr>"
  "assertPendingEpicDecisions (jprop (JObj (ex_document b r)) ''pendingEpicDecisions'') = Inr []"
  "assertApprovalsByCycleDigest (jprop (JObj (ex_document b r)) ''approvalsByCycleDigest'') = Inr []"
  "assertCycleLedger (jprop (JObj (ex_document b r)) ''cycleLedger'') = Inr []"
  "assertSpendLedger (jprop (JObj (ex_document b r)) ''spendLedger'') [] = Inr []"
  "assertRewardRecipientLimit (jprop (JObj (ex_document b r)) ''rewardRecipientLimit'') = Inr 200"
  using assertPackPlan_ok [of "[]" 0]
  by (simp_all add: ex_document_def jprop_JObj assertAllowedPackIds_def assertPendingEpicDecisions_def assertApprovalsByCycleDigest_def assertCycleLedger_def
      assertSpendLedger_def assertRewardRecipientLimit_def REWARD_RECIPIENT_LIMIT_OPTIONS_def isArray_def isPlainObject_def isInteger_def spread_def
      jsval_of_plan_object planOrdersOk_def MAX_PACK_PLAN_ORDERS_def safeInt_def MAX_SAFE_INTEGER_def)

lemma ex_accepted:
  assumes "0 \<le> r" and "r \<le> 9"
  shows "assertOperatorConfiguration (JObj (ex_document b r)) = Inr (ex_configuration b r)"
proof -
  have "withClaimLimit (JObj (ex_document b r)) = JObj (ex_document b r)" by (rule withClaimLimit_id) (rule ex_schema)
  moreover have "assertExactPlainObject (JObj (ex_document b r)) configurationFields l = Inr ()" for l
    by (simp add: assertExactPlainObject_Inr ex_canonical ex_schema)
  ultimately show ?thesis
    by (simp add: assertOperatorConfiguration_def Let_def ex_schema ex_checks [OF assms] ex_lists ex_configuration_def throwIf_def)
qed

lemma ex_default: "createDefaultOperatorConfiguration = Inr (ex_configuration False 0)"
  using ex_accepted [of 0 False]
  by (simp add: createDefaultOperatorConfiguration_def ex_plan ex_document_def DEFAULT_REWARD_RECIPIENT_LIMIT_def)

definition ex_patch :: jsval where
  "ex_patch = JObj [(''paused'', JBool True)]"

lemma ex_edit: "applyOperatorConfiguration JNull ex_patch = Inr (ex_configuration True 1)"
proof -
  have "jsval_of_configuration (ex_configuration False 0) = JObj (ex_document False 0)"
    by (simp add: jsval_of_configuration_def ex_configuration_def) (simp add: ex_document_def jprop_JObj)
  moreover have "withProps (ex_document False 0) [(''paused'', JBool True), (''configurationRevision'', JNum 1)] = JObj (ex_document True 1)"
    by (simp add: withProps_def ex_document_def)
  moreover have "checkPatch ex_patch = Inr ()"
    by (simp add: checkPatch_def ex_patch_def assertNoSecretMaterial_def throwIf_def hasOwn_def ownKeys_def falsy_def typeofObject_def isArray_def
        prohibitedSecretFields_def patchFields_def)
  moreover have "oc_configurationRevision (ex_configuration False 0) = 0" by (simp add: ex_configuration_def ex_document_def jprop_JObj)
  ultimately show ?thesis
    by (simp add: applyOperatorConfiguration_def ex_default ex_accepted) (simp add: ex_patch_def hasOwn_def ownKeys_def pairedCaps_def spread_def ex_accepted)
qed

theorem operator_edit_changes_only_the_patch_witness:
  "oc_cycleLedger (ex_configuration True 1) = oc_cycleLedger (ex_configuration False 0)
    \<and> oc_configurationRevision (ex_configuration True 1) = oc_configurationRevision (ex_configuration False 0) + 1"
proof -
  have d: "distinct (ownKeys ex_patch)" by (simp add: ex_patch_def ownKeys_def)
  from operator_edit_changes_only_the_patch [OF ex_edit d] show ?thesis unfolding ex_default by auto
qed

end
