(* ===== verification/Policy_Admission.thy ===== *)
theory Policy_Admission
  imports Operator_Edits
begin

text \<open>
  The monetary record a cycle is admitted with, \<^verbatim>\<open>packages/runner/src/automation/policy-engine.mjs\<close>: a purchase priced in the settlement
  asset, the exact-output quotes that fund it in the source asset, their USD valuations, and the finalized liability of the hook.

  A normalized admission is the record \<open>admission\<close>; it covers the single-pack form (\<open>ad_plan = None\<close>, exactly one order) and the form with a
  pack plan.  The parsed quotes, valuations and evidence it carries stay \<open>jsval\<close> objects, as the digest covers them.
\<close>

section \<open>Language\<close>

text \<open>
  \<open>a || b || c\<close> where an operand can throw; \<open>v?.toLowerCase()\<close>; \<open>pattern.test(v)\<close>, which converts \<open>v\<close> to a string.
\<close>

fun orE :: "bool res list \<Rightarrow> bool res" where
  "orE [] = Inr False"
| "orE (r # rs) = bindE r (\<lambda>b. if b then Inr True else orE rs)"

definition throwWhen :: "bool res list \<Rightarrow> string \<Rightarrow> unit res" where
  "throwWhen rs m = bindE (orE rs) (\<lambda>b. throwIf b m)"

definition optLower :: "jsval \<Rightarrow> jsval res" where
  "optLower v = (if nullish v then Inr JUndefined
     else case v of JStr s \<Rightarrow> Inr (JStr (toLowerCase s)) | _ \<Rightarrow> Inl (JsTypeError ''toLowerCase is not a function''))"

definition testPattern :: "(string \<Rightarrow> bool) \<Rightarrow> jsval \<Rightarrow> bool" where
  "testPattern p v = p (jsString v)"

definition notObject :: "jsval \<Rightarrow> bool" where
  "notObject v = (falsy v \<or> \<not> typeofObject v \<or> isArray v)"

definition nonemptyString :: "jsval \<Rightarrow> bool" where
  "nonemptyString v = str_matches (\<lambda>s. s \<noteq> []) v"

text \<open>\<open>JSON.parse(canonicalJson(v))\<close>: a copy with sorted keys.\<close>

fun sortKeys :: "jsval \<Rightarrow> jsval" where
  "sortKeys (JArr xs) = JArr (map sortKeys xs)"
| "sortKeys (JObj ps) = JObj (sort_key fst (map (\<lambda>p. (fst p, sortKeys (snd p))) ps))"
| "sortKeys v = v"

definition immutableCanonicalValue :: "jsval \<Rightarrow> string \<Rightarrow> jsval res" where
  "immutableCanonicalValue v label = (case canonicalJson v of
      Inl e \<Rightarrow> Inl (JsError (label @ '' is not canonical immutable data: '' @ errorMessage e))
    | Inr t \<Rightarrow> Inr (sortKeys v))"

section \<open>Deployment identity\<close>

record asset_route =
  rt_chainId :: string
  rt_assetId :: string
  rt_decimals :: int

record admission_identity =
  id_evm :: string
  id_solana :: string
  id_fundingRoute :: asset_route
  id_settlementRoute :: asset_route

definition ETH_ROUTE :: asset_route where
  "ETH_ROUTE = \<lparr>rt_chainId = ''4663'', rt_assetId = ''native'', rt_decimals = 18\<rparr>"

definition COLLECTOR_SETTLEMENT_ROUTE :: asset_route where
  "COLLECTOR_SETTLEMENT_ROUTE = \<lparr>rt_chainId = ''792703809'', rt_assetId = ''EPjFWdd5AufqSSqeM2qN1xzybapC8G4wEGGkZwyTDt1v'', rt_decimals = 6\<rparr>"

definition PRODUCTION_ADMISSION_IDENTITY :: admission_identity where
  "PRODUCTION_ADMISSION_IDENTITY = \<lparr>id_evm = ''0xb54aaf746eb1e80afdb5eb0992a75b08db2e4384'',
     id_solana = ''BrvhPB9EeAukw8g3jibQDFBYY5abu3Vchdm9ri3PHZNE'', id_fundingRoute = ETH_ROUTE, id_settlementRoute = COLLECTOR_SETTLEMENT_ROUTE\<rparr>"

text \<open>
  What a caller can pass as deployment identity: nothing, the pinned production object, an object minted by
  \<open>createTestOnlyAdmissionIdentity\<close> (recognised by object identity), or any other value.
\<close>

datatype operations_arg = NoIdentity | Pinned | Minted admission_identity | Lookalike jsval

definition assertOperationsAccounts :: "operations_arg \<Rightarrow> admission_identity res" where
  "assertOperationsAccounts arg = (case arg of
      NoIdentity \<Rightarrow> Inr PRODUCTION_ADMISSION_IDENTITY
    | Pinned \<Rightarrow> Inr PRODUCTION_ADMISSION_IDENTITY
    | Minted i \<Rightarrow> Inr i
    | Lookalike v \<Rightarrow> Inl (JsError ''policy admission deployment identity is not the approved production identity''))"

definition assertAdmissionRouteIdentity :: "jsval \<Rightarrow> string \<Rightarrow> asset_route res" where
  "assertAdmissionRouteIdentity v label =
     (if notObject v \<or> \<not> nonemptyString (jprop v ''chainId'') \<or> \<not> nonemptyString (jprop v ''assetId'')
        \<or> \<not> isInteger (jprop v ''decimals'') \<or> num_of (jprop v ''decimals'') < 0
      then Inl (JsError (''policy '' @ label @ '' route is invalid''))
      else Inr \<lparr>rt_chainId = str_of (jprop v ''chainId''), rt_assetId = str_of (jprop v ''assetId''), rt_decimals = num_of (jprop v ''decimals'')\<rparr>)"

definition createTestOnlyAdmissionIdentity :: "jsval \<Rightarrow> operations_arg res" where
  "createTestOnlyAdmissionIdentity v =
     bindE (if v = JNull then Inl (JsTypeError ''Cannot destructure property of null'') else Inr ()) (\<lambda>_.
     bindE (throwIf (\<not> nonemptyString (jprop v ''evm'') \<or> \<not> nonemptyString (jprop v ''solana''))
              ''test-only admission identity requires evm and solana accounts'') (\<lambda>_.
     bindE (assertAdmissionRouteIdentity (jprop v ''fundingRoute'') ''funding'') (\<lambda>f.
     bindE (assertAdmissionRouteIdentity (jprop v ''settlementRoute'') ''settlement'') (\<lambda>s.
       Inr (Minted \<lparr>id_evm = toLowerCase (str_of (jprop v ''evm'')), id_solana = str_of (jprop v ''solana''), id_fundingRoute = f, id_settlementRoute = s\<rparr>)))))"

section \<open>Amounts\<close>

definition assertAmount :: "jsval \<Rightarrow> string \<Rightarrow> bool \<Rightarrow> nat res" where
  "assertAmount v label positive =
     (if \<not> str_matches is_decimal v then Inl (JsError (label @ '' must be a canonical unsigned decimal string''))
      else let amount = nat_of_dec (str_of v) in
        if positive \<and> amount = 0 then Inl (JsError (label @ '' must be positive'')) else Inr amount)"

definition assertPolicyCycleId :: "jsval \<Rightarrow> string res" where
  "assertPolicyCycleId v = (if \<not> str_matches cycleIdPattern v then Inl (JsError ''policy cycleId is invalid'') else Inr (str_of v))"

definition assertPackId :: "jsval \<Rightarrow> string res" where
  "assertPackId v = (if \<not> nonemptyString v then Inl (JsError ''policy packId is invalid'') else Inr (str_of v))"

record admission_amount =
  aa_chainId :: string
  aa_assetId :: string
  aa_decimals :: int
  aa_amountAtomic :: string

definition jsval_of_amount :: "admission_amount \<Rightarrow> jsval" where
  "jsval_of_amount a = JObj [(''chainId'', JStr (aa_chainId a)), (''assetId'', JStr (aa_assetId a)), (''decimals'', JNum (aa_decimals a)),
     (''amountAtomic'', JStr (aa_amountAtomic a))]"

definition assertPolicyAdmissionAmount :: "jsval \<Rightarrow> string \<Rightarrow> admission_amount res" where
  "assertPolicyAdmissionAmount v label =
     bindE (throwIf (notObject v) (label @ '' is invalid'')) (\<lambda>_.
     bindE (throwIf (\<not> nonemptyString (jprop v ''chainId'') \<or> \<not> nonemptyString (jprop v ''assetId'')
              \<or> \<not> isInteger (jprop v ''decimals'') \<or> num_of (jprop v ''decimals'') < 0) (label @ '' asset identity is invalid'')) (\<lambda>_.
     bindE (assertAmount (jprop v ''amountAtomic'') (label @ '' amountAtomic'') True) (\<lambda>n.
       Inr \<lparr>aa_chainId = str_of (jprop v ''chainId''), aa_assetId = str_of (jprop v ''assetId''), aa_decimals = num_of (jprop v ''decimals''),
             aa_amountAtomic = dec_of_nat n\<rparr>)))"

definition assertAdmissionRoute :: "admission_amount \<Rightarrow> asset_route \<Rightarrow> string \<Rightarrow> unit res" where
  "assertAdmissionRoute a r label =
     throwIf (aa_chainId a \<noteq> rt_chainId r \<or> toLowerCase (aa_assetId a) \<noteq> toLowerCase (rt_assetId r) \<or> aa_decimals a \<noteq> rt_decimals r)
       (label @ '' does not match the canonical asset route'')"

text \<open>The value in base units, \<open>BigInt(amount.amountAtomic)\<close>.\<close>

definition atomic :: "admission_amount \<Rightarrow> nat" where
  "atomic a = nat_of_dec (aa_amountAtomic a)"

section \<open>Relay quotes\<close>

definition relayQuoteEvidenceDigest :: "(string \<Rightarrow> string) \<Rightarrow> jsval \<Rightarrow> string res" where
  "relayQuoteEvidenceDigest sha quote = digest sha (JObj ((''schema'', JStr ''hookemon.relay-quote.v1'') #
     map (\<lambda>f. (f, jprop quote f)) [''direction'', ''tradeType'', ''requestId'', ''orderId'', ''sender'', ''recipient'', ''deadlineUnixSeconds'',
       ''origin'', ''destination'', ''raw'']))"

definition routeAddress :: "admission_amount \<Rightarrow> string" where
  "routeAddress a = (if aa_assetId a = ''native'' then ZERO_ADDRESS else toLowerCase (aa_assetId a))"

definition amountDiffers :: "jsval \<Rightarrow> string \<Rightarrow> admission_amount \<Rightarrow> bool res" where
  "amountDiffers v label a = bindE (assertAmount v label True) (\<lambda>n. Inr (dec_of_nat n \<noteq> aa_amountAtomic a))"

definition assertQuoteRouteLeg :: "jsval \<Rightarrow> admission_amount \<Rightarrow> string \<Rightarrow> bool \<Rightarrow> unit res" where
  "assertQuoteRouteLeg v a label dest =
     throwWhen [Inr (notObject v), Inr (jsString (jprop v ''chainId'') \<noteq> aa_chainId a), Inr (\<not> isString (jprop v ''address'')),
         Inr (toLowerCase (str_of (jprop v ''address'')) \<noteq> routeAddress a), Inr (jprop v ''decimals'' \<noteq> JNum (aa_decimals a)),
         amountDiffers (jprop v ''amount'') (label @ '' amount'') a,
         if dest then amountDiffers (jprop v ''minimumAmount'') (label @ '' minimumAmount'') a else Inr False]
       (label @ '' does not bind the admitted asset amount'')"

definition assertRawRelayLeg :: "jsval \<Rightarrow> admission_amount \<Rightarrow> string \<Rightarrow> bool \<Rightarrow> unit res" where
  "assertRawRelayLeg v a label dest =
     (let currency = jprop v ''currency'' in
      throwIf (falsy currency \<or> jsString (jprop currency ''chainId'') \<noteq> aa_chainId a \<or> \<not> isString (jprop currency ''address'')
          \<or> toLowerCase (str_of (jprop currency ''address'')) \<noteq> routeAddress a \<or> jprop currency ''decimals'' \<noteq> JNum (aa_decimals a)
          \<or> jprop v ''amount'' \<noteq> JStr (aa_amountAtomic a) \<or> (dest \<and> jprop v ''minimumAmount'' \<noteq> JStr (aa_amountAtomic a)))
        (label @ '' does not bind the admitted asset amount''))"

text \<open>The object \<open>quote\<close> built from the given one.\<close>

definition quoteOf :: "jsval \<Rightarrow> jsval \<Rightarrow> jsval \<Rightarrow> jsval \<Rightarrow> jsval" where
  "quoteOf v origin destination raw =
     JObj [(''direction'', jprop v ''direction''), (''tradeType'', jprop v ''tradeType''), (''requestId'', jprop v ''requestId''),
       (''orderId'', jprop v ''orderId''), (''sender'', jprop v ''sender''), (''recipient'', jprop v ''recipient''),
       (''deadlineUnixSeconds'', jprop v ''deadlineUnixSeconds''), (''origin'', origin), (''destination'', destination),
       (''stepCount'', jprop v ''stepCount''), (''raw'', raw), (''quoteDigest'', jprop v ''quoteDigest'')]"

definition lowerDiffers :: "jsval \<Rightarrow> string \<Rightarrow> bool res" where
  "lowerDiffers v s = bindE (optLower v) (\<lambda>l. Inr (l \<noteq> JStr s))"

definition checkQuoteIdentity :: "jsval \<Rightarrow> jsval \<Rightarrow> admission_identity \<Rightarrow> string \<Rightarrow> unit res" where
  "checkQuoteIdentity quote relay operations label =
     throwWhen [Inr (jprop quote ''direction'' \<noteq> JStr ''OUTBOUND''), Inr (jprop quote ''tradeType'' \<noteq> JStr ''EXACT_OUTPUT''),
         Inr (\<not> strictEq (jprop quote ''requestId'') (jprop relay ''requestId'')), Inr (\<not> strictEq (jprop quote ''orderId'') (jprop relay ''orderId'')),
         lowerDiffers (jprop quote ''sender'') (id_evm operations), Inr (jprop quote ''recipient'' \<noteq> JStr (id_solana operations)),
         Inr (\<not> strictEq (jprop quote ''deadlineUnixSeconds'') (jprop relay ''deadlineUnixSeconds'')),
         Inr (\<not> isSafeInteger (jprop quote ''stepCount'') \<or> num_of (jprop quote ''stepCount'') < 0),
         Inr (\<not> str_matches digest_pattern (jprop quote ''quoteDigest''))]
       (''policy admission '' @ label @ '' identity is invalid'')"

definition v2Of :: "jsval \<Rightarrow> jsval" where
  "v2Of raw = jprop (jprop raw ''protocol'') ''v2''"

definition outputOf :: "jsval \<Rightarrow> jsval" where
  "outputOf raw = jprop (jprop (v2Of raw) ''orderData'') ''output''"

definition checkRawIdentity :: "jsval \<Rightarrow> string \<Rightarrow> unit res" where
  "checkRawIdentity quote label =
     (let raw = jprop quote ''raw''; details = jprop raw ''details''; output = outputOf raw in
      throwWhen [Inr (falsy raw), Inr (\<not> strictEq (jprop raw ''requestId'') (jprop quote ''requestId'')), Inr (\<not> isArray (jprop raw ''steps'')),
          Inr (JNum (int (length (arr_of (jprop raw ''steps'')))) \<noteq> jprop quote ''stepCount''),
          lowerDiffers (jprop details ''sender'') (toLowerCase (str_of (jprop quote ''sender''))),
          Inr (\<not> strictEq (jprop details ''recipient'') (jprop quote ''recipient'')),
          Inr (\<not> strictEq (jprop (v2Of raw) ''orderId'') (jprop quote ''orderId'')),
          Inr (\<not> strictEq (jprop output ''deadline'') (jprop quote ''deadlineUnixSeconds'')),
          Inr (jprop output ''chainId'' \<noteq> JStr ''solana''), Inr (\<not> isArray (jprop output ''calls'')), Inr (arr_of (jprop output ''calls'') \<noteq> [])]
        (''policy admission '' @ label @ '' raw identity is invalid''))"

definition checkRawOrder :: "jsval \<Rightarrow> admission_amount \<Rightarrow> admission_amount \<Rightarrow> string \<Rightarrow> unit res" where
  "checkRawOrder quote funding purchase label =
     (let raw = jprop quote ''raw''; payments = jprop (outputOf raw) ''payments''; inputs = jprop (jprop (v2Of raw) ''orderData'') ''inputs'';
          pay = firstElem payments; inp = jprop (firstElem inputs) ''payment'' in
      throwWhen [Inr (\<not> isArray payments), Inr (length (arr_of payments) \<noteq> 1), Inr (\<not> strictEq (jprop pay ''recipient'') (jprop quote ''recipient'')),
          Inr (\<not> strictEq (jprop pay ''currency'') (jprop (jprop quote ''destination'') ''address'')),
          Inr (jprop pay ''expectedAmount'' \<noteq> JStr (aa_amountAtomic purchase)), Inr (jprop pay ''minimumAmount'' \<noteq> JStr (aa_amountAtomic purchase)),
          Inr (\<not> isArray inputs), Inr (length (arr_of inputs) \<noteq> 1), Inr (jprop inp ''chainId'' \<noteq> JStr ''robinhood''),
          lowerDiffers (jprop inp ''currency'') (toLowerCase (str_of (jprop (jprop quote ''origin'') ''address''))),
          Inr (jprop inp ''amount'' \<noteq> JStr (aa_amountAtomic funding))]
        (''policy admission '' @ label @ '' raw order does not bind the admitted amounts''))"

definition normalizeUnitRelayQuote ::
  "(string \<Rightarrow> string) \<Rightarrow> jsval \<Rightarrow> admission_amount \<Rightarrow> admission_amount \<Rightarrow> jsval \<Rightarrow> admission_identity \<Rightarrow> string \<Rightarrow> jsval res"
where
  "normalizeUnitRelayQuote sha v funding purchase relay operations label =
     (let l = ''policy admission '' @ label in
      bindE (throwIf (notObject v) (l @ '' must be a parsed Relay quote'')) (\<lambda>_.
      bindE (immutableCanonicalValue (jprop v ''raw'') (l @ '' raw response'')) (\<lambda>raw.
      bindE (immutableCanonicalValue (jprop v ''origin'') (l @ '' origin'')) (\<lambda>origin.
      bindE (immutableCanonicalValue (jprop v ''destination'') (l @ '' destination'')) (\<lambda>destination.
      let quote = quoteOf v origin destination raw in
      bindE (checkQuoteIdentity quote relay operations label) (\<lambda>_.
      bindE (assertQuoteRouteLeg origin funding (l @ '' origin'') False) (\<lambda>_.
      bindE (assertQuoteRouteLeg destination purchase (l @ '' destination'') True) (\<lambda>_.
      bindE (checkRawIdentity quote label) (\<lambda>_.
      bindE (assertRawRelayLeg (jprop (jprop raw ''details'') ''currencyIn'') funding (l @ '' raw origin'') False) (\<lambda>_.
      bindE (assertRawRelayLeg (jprop (jprop raw ''details'') ''currencyOut'') purchase (l @ '' raw destination'') True) (\<lambda>_.
      bindE (checkRawOrder quote funding purchase label) (\<lambda>_.
      bindE (relayQuoteEvidenceDigest sha quote) (\<lambda>recomputed.
      bindE (throwIf (\<not> strictEq (jprop quote ''quoteDigest'') (jprop relay ''quoteDigest'') \<or> jprop quote ''quoteDigest'' \<noteq> JStr recomputed)
               (l @ '' digest does not match its immutable parsed evidence; recomputed '' @ recomputed)) (\<lambda>_.
        Inr quote))))))))))))))"

section \<open>Liability evidence\<close>

definition deriveOnchainCycleIdForEvidence :: "(string \<Rightarrow> string) \<Rightarrow> string \<Rightarrow> string" where
  "deriveOnchainCycleIdForEvidence sha cycleId = ''0x'' @ sha cycleId"

definition PROCESS_LIABILITY_EVIDENCE_FIELDS :: "string list" where
  "PROCESS_LIABILITY_EVIDENCE_FIELDS = [''schema'', ''chainId'', ''assetId'', ''decimals'', ''hook'', ''cycleId'', ''onchainCycleId'', ''blockNumber'',
     ''blockHash'', ''finalized'', ''processLiability'', ''remainingProcessClaimCapacity'', ''processClaimsPaused'', ''processClaimCycleUsed'',
     ''activeProcessClaimLimit'', ''totalLiability'', ''hookNativeBalance'', ''isSolvent'', ''operations'', ''ceilingAtomic'']"

definition evidenceAmounts :: "string list" where
  "evidenceAmounts = [''processLiability'', ''remainingProcessClaimCapacity'', ''activeProcessClaimLimit'', ''totalLiability'', ''hookNativeBalance'', ''ceilingAtomic'']"

definition evidenceAmount :: "jsval \<Rightarrow> string \<Rightarrow> nat" where
  "evidenceAmount v f = nat_of_dec (str_of (jprop v f))"

definition checkEvidenceFields :: "jsval \<Rightarrow> unit res" where
  "checkEvidenceFields v =
     foldE (\<lambda>_ k _. throwIf (k \<notin> set PROCESS_LIABILITY_EVIDENCE_FIELDS)
       (''policy admission processLiabilityEvidence has an unrecognized field '' @ [CHR 0x22] @ k @ [CHR 0x22])) 0 (ownKeys v) ()"

definition checkEvidenceAmounts :: "jsval \<Rightarrow> unit res" where
  "checkEvidenceAmounts v =
     foldE (\<lambda>_ f _. throwIf (\<not> str_matches is_decimal (jprop v f)) (''policy admission processLiabilityEvidence '' @ f @ '' is invalid'')) 0
       evidenceAmounts ()"

text \<open>The identity of the observation, before its amounts are looked at.\<close>

definition checkEvidenceIdentity :: "(string \<Rightarrow> string) \<Rightarrow> jsval \<Rightarrow> string \<Rightarrow> asset_route \<Rightarrow> unit res" where
  "checkEvidenceIdentity sha v cycleId route =
     bindE (throwIf (notObject v) ''policy admission processLiabilityEvidence is required and must be a plain object'') (\<lambda>_.
     bindE (checkEvidenceFields v) (\<lambda>_.
     bindE (throwIf (jprop v ''schema'' \<noteq> JStr ''hookemon.process-liability-evidence.v2'')
              ''policy admission processLiabilityEvidence must use hookemon.process-liability-evidence.v2'') (\<lambda>_.
     bindE (throwIf (jprop v ''finalized'' \<noteq> JBool True) ''policy admission processLiabilityEvidence must be finalized'') (\<lambda>_.
     bindE (throwWhen [Inr (jprop v ''chainId'' \<noteq> JStr (rt_chainId route)), lowerDiffers (jprop v ''assetId'') (toLowerCase (rt_assetId route)),
              Inr (jprop v ''decimals'' \<noteq> JNum (rt_decimals route))]
              ''policy admission processLiabilityEvidence is not denominated in the configured funding asset'') (\<lambda>_.
     bindE (throwIf (\<not> str_matches (any_hex_pattern 40) (jprop v ''hook'')) ''policy admission processLiabilityEvidence hook is invalid'') (\<lambda>_.
     bindE (throwIf (jprop v ''cycleId'' \<noteq> JStr cycleId)
              ''policy admission processLiabilityEvidence cycleId does not match the admitted cycle'') (\<lambda>_.
     bindE (throwIf (jprop v ''onchainCycleId'' \<noteq> JStr (deriveOnchainCycleIdForEvidence sha cycleId))
              ''policy admission processLiabilityEvidence onchainCycleId does not match its cycleId'') (\<lambda>_.
       throwIf (\<not> str_matches is_decimal (jprop v ''blockNumber'') \<or> \<not> str_matches (any_hex_pattern 64) (jprop v ''blockHash''))
         ''policy admission processLiabilityEvidence must bind the exact finalized block number and hash''))))))))"

definition checkEvidenceAccounting :: "jsval \<Rightarrow> admission_identity \<Rightarrow> unit res" where
  "checkEvidenceAccounting v operations =
     (let n = evidenceAmount v; capacity = n ''remainingProcessClaimCapacity''; liability = n ''processLiability'' in
      bindE (throwIf (\<exists>f \<in> {''processClaimsPaused'', ''processClaimCycleUsed'', ''isSolvent''}. jprop v f \<noteq> JBool True \<and> jprop v f \<noteq> JBool False)
               ''policy admission processLiabilityEvidence has a non-boolean control flag'') (\<lambda>_.
      bindE (throwIf (n ''activeProcessClaimLimit'' < capacity)
               ''policy admission processLiabilityEvidence remainingProcessClaimCapacity exceeds activeProcessClaimLimit'') (\<lambda>_.
      bindE (throwIf (n ''totalLiability'' < liability)
               ''policy admission processLiabilityEvidence processLiability exceeds totalLiability'') (\<lambda>_.
      bindE (throwIf (jprop v ''isSolvent'' \<noteq> JBool (n ''totalLiability'' \<le> n ''hookNativeBalance''))
               ''policy admission processLiabilityEvidence isSolvent does not match hookNativeBalance and totalLiability'') (\<lambda>_.
      bindE (throwIf (jprop v ''processClaimsPaused'' \<noteq> JBool False)
               ''policy admission processLiabilityEvidence refuses while hook process claims are paused'') (\<lambda>_.
      bindE (throwIf (jprop v ''processClaimCycleUsed'' \<noteq> JBool False)
               ''policy admission processLiabilityEvidence refuses a cycle id the hook already used'') (\<lambda>_.
      bindE (throwIf (jprop v ''isSolvent'' \<noteq> JBool True) ''policy admission processLiabilityEvidence refuses while the hook is not solvent'') (\<lambda>_.
      bindE (throwIf (jprop v ''operations'' \<noteq> JStr (id_evm operations))
               ''policy admission processLiabilityEvidence Operations role does not match the approved deployment identity'') (\<lambda>_.
        throwIf (JStr (dec_of_nat (if liability < capacity then liability else capacity)) \<noteq> jprop v ''ceilingAtomic'')
          ''policy admission processLiabilityEvidence ceilingAtomic does not equal min(processLiability, remainingProcessClaimCapacity)'')))))))))"

definition normalizeProcessLiabilityEvidence :: "(string \<Rightarrow> string) \<Rightarrow> jsval \<Rightarrow> string \<Rightarrow> admission_identity \<Rightarrow> jsval res" where
  "normalizeProcessLiabilityEvidence sha v cycleId operations =
     bindE (checkEvidenceIdentity sha v cycleId (id_fundingRoute operations)) (\<lambda>_.
     bindE (checkEvidenceAmounts v) (\<lambda>_.
     bindE (checkEvidenceAccounting v operations) (\<lambda>_.
       Inr (JObj (map (\<lambda>f. (f, jprop v f)) PROCESS_LIABILITY_EVIDENCE_FIELDS)))))"

section \<open>Valuations\<close>

definition fundingUsdFields :: "string list" where
  "fundingUsdFields = [''schema'', ''quoteDigest'', ''requestDigest'', ''quoteRequestId'', ''sourcePath'', ''amount'', ''amountMicroUsd'', ''rounding'',
     ''observedAtMs'', ''validUntilMs'']"

definition normalizeFundingUsd :: "jsval \<Rightarrow> admission_amount \<Rightarrow> jsval \<Rightarrow> jsval res" where
  "normalizeFundingUsd v amount quote =
     (let observed = jprop v ''observedAtMs''; validUntil = jprop v ''validUntilMs'' in
      bindE (throwWhen [Inr (falsy v), Inr (\<not> exactKeys v fundingUsdFields), Inr (jprop v ''schema'' \<noteq> JStr ''hookemon.quote-usd-valuation.v1''),
          Inr (\<not> strictEq (jprop v ''quoteDigest'') (jprop quote ''quoteDigest'')),
          Inr (\<not> strictEq (jprop v ''quoteRequestId'') (jprop quote ''requestId'')),
          Inr (\<not> testPattern digest_pattern (orElse (jprop v ''requestDigest'') (JStr []))),
          Inr (jprop v ''sourcePath'' \<noteq> JStr ''details.currencyIn.amountUsd''), Inr (jprop v ''rounding'' \<noteq> JStr ''up''),
          textsDiffer (jprop v ''amount'') (jsval_of_amount amount),
          Inr (\<not> isSafeInteger observed \<or> num_of observed < 0),
          Inr (\<not> isSafeInteger validUntil \<or> num_of validUntil \<le> num_of observed),
          Inr (num_of (jprop quote ''deadlineUnixSeconds'') * 1000 < num_of validUntil)]
        ''policy funding USD valuation binding is invalid'') (\<lambda>_.
      bindE (assertAmount (jprop v ''amountMicroUsd'') ''policy funding amountMicroUsd'' True) (\<lambda>_.
        immutableCanonicalValue v ''policy funding USD valuation'')))"

section \<open>Admissions\<close>

record leg =
  lg_purchase :: admission_amount
  lg_funding :: admission_amount
  lg_usd :: jsval
  lg_relay :: jsval
  lg_quote :: jsval

record admission_order =
  ao_packId :: string
  ao_quantity :: int
  ao_unit :: leg

record admission =
  ad_plan :: "pack_plan option"
  ad_cycleId :: string
  ad_orders :: "admission_order list"
  ad_quantity :: int
  ad_quoteDigest :: string
  ad_aggregate :: leg
  ad_liability :: jsval

definition isPlanAdmission :: "admission \<Rightarrow> bool" where
  "isPlanAdmission a = (ad_plan a \<noteq> None)"

definition jsval_of_order :: "nat \<Rightarrow> admission_order \<Rightarrow> jsval" where
  "jsval_of_order i o' = JObj [(''orderIndex'', JNum (int i)), (''packId'', JStr (ao_packId o')), (''quantity'', JNum (ao_quantity o')),
     (''unitPurchase'', jsval_of_amount (lg_purchase (ao_unit o'))), (''unitFundingQuote'', jsval_of_amount (lg_funding (ao_unit o'))),
     (''unitFundingUsd'', lg_usd (ao_unit o')), (''unitRelay'', lg_relay (ao_unit o')), (''unitRelayQuote'', lg_quote (ao_unit o'))]"

definition jsval_of_plan_admission :: "pack_plan \<Rightarrow> admission \<Rightarrow> jsval" where
  "jsval_of_plan_admission plan a = (let agg = ad_aggregate a; os = ad_orders a in
     JObj [(''schema'', JStr ''hookemon.policy-admission.v4''), (''cycleId'', JStr (ad_cycleId a)), (''packPlan'', jsval_of_plan plan),
       (''orders'', JArr (map (\<lambda>(i, o'). jsval_of_order i o') (zip [0..<length os] os))), (''quantity'', JNum (ad_quantity a)),
       (''quoteDigest'', JStr (ad_quoteDigest a)), (''aggregatePurchase'', jsval_of_amount (lg_purchase agg)),
       (''aggregateFundingQuote'', jsval_of_amount (lg_funding agg)), (''aggregateFundingUsd'', lg_usd agg), (''relay'', lg_relay agg),
       (''relayQuote'', lg_quote agg), (''processLiabilityEvidence'', ad_liability a)])"

definition jsval_of_pack_admission :: "admission \<Rightarrow> jsval" where
  "jsval_of_pack_admission a = (let agg = ad_aggregate a; o' = hd (ad_orders a); u = ao_unit o' in
     JObj [(''schema'', JStr ''hookemon.policy-admission.v3''), (''cycleId'', JStr (ad_cycleId a)), (''packId'', JStr (ao_packId o')),
       (''quantity'', JNum (ad_quantity a)), (''quoteDigest'', JStr (ad_quoteDigest a)), (''unitPurchase'', jsval_of_amount (lg_purchase u)),
       (''aggregatePurchase'', jsval_of_amount (lg_purchase agg)), (''unitFundingQuote'', jsval_of_amount (lg_funding u)),
       (''aggregateFundingQuote'', jsval_of_amount (lg_funding agg)), (''unitFundingUsd'', lg_usd u), (''aggregateFundingUsd'', lg_usd agg),
       (''relay'', lg_relay agg), (''unitRelay'', lg_relay u), (''unitRelayQuote'', lg_quote u), (''relayQuote'', lg_quote agg),
       (''processLiabilityEvidence'', ad_liability a)])"

definition jsval_of_admission :: "admission \<Rightarrow> jsval" where
  "jsval_of_admission a = (case ad_plan a of Some plan \<Rightarrow> jsval_of_plan_admission plan a | None \<Rightarrow> jsval_of_pack_admission a)"

definition checkLiabilityCeiling :: "admission_amount \<Rightarrow> jsval \<Rightarrow> unit res" where
  "checkLiabilityCeiling funding liability =
     throwIf (evidenceAmount liability ''ceilingAtomic'' < atomic funding)
       ''policy admission aggregateFundingQuote exceeds the persisted process liability ceiling''"

subsection \<open>With a pack plan\<close>

definition quoteLeg ::
  "(string \<Rightarrow> string) \<Rightarrow> admission_identity \<Rightarrow> jsval \<Rightarrow> jsval \<Rightarrow> jsval \<Rightarrow> jsval \<Rightarrow> jsval \<Rightarrow> string \<Rightarrow> leg res"
where
  "quoteLeg sha operations purchaseValue fundingValue relay quoteValue usdValue label =
     bindE (assertPolicyAdmissionAmount purchaseValue (label @ '' purchase'')) (\<lambda>purchase.
     bindE (assertPolicyAdmissionAmount fundingValue (label @ '' funding'')) (\<lambda>funding.
     bindE (assertAdmissionRoute purchase (id_settlementRoute operations) (label @ '' purchase'')) (\<lambda>_.
     bindE (assertAdmissionRoute funding (id_fundingRoute operations) (label @ '' funding'')) (\<lambda>_.
     bindE (throwWhen [Inr (falsy relay), Inr (jprop relay ''tradeType'' \<noteq> JStr ''EXACT_OUTPUT''), Inr (\<not> nonemptyString (jprop relay ''requestId'')),
         Inr (\<not> testPattern (any_hex_pattern 64) (orElse (jprop relay ''orderId'') (JStr []))),
         Inr (\<not> isSafeInteger (jprop relay ''deadlineUnixSeconds'') \<or> num_of (jprop relay ''deadlineUnixSeconds'') \<le> 0),
         lowerDiffers (jprop relay ''sender'') (id_evm operations), Inr (jprop relay ''recipient'' \<noteq> JStr (id_solana operations)),
         Inr (jprop relay ''destinationAmount'' \<noteq> JStr (aa_amountAtomic purchase)),
         Inr (jprop relay ''destinationMinimumAmount'' \<noteq> JStr (aa_amountAtomic purchase)),
         Inr (\<not> testPattern digest_pattern (orElse (jprop relay ''quoteDigest'') (JStr [])))]
       (label @ '' exact-output identity is invalid'')) (\<lambda>_.
     bindE (normalizeUnitRelayQuote sha quoteValue funding purchase relay operations label) (\<lambda>quote.
     bindE (throwIf (\<not> strictEq (jprop quote ''quoteDigest'') (jprop relay ''quoteDigest'')) (label @ '' quote digest mismatch'')) (\<lambda>_.
     bindE (immutableCanonicalValue relay label) (\<lambda>r.
     bindE (normalizeFundingUsd usdValue funding relay) (\<lambda>usd.
       Inr \<lparr>lg_purchase = purchase, lg_funding = funding, lg_usd = usd, lg_relay = r, lg_quote = quote\<rparr>)))))))))"

definition orderLeg :: "(string \<Rightarrow> string) \<Rightarrow> admission_identity \<Rightarrow> nat \<Rightarrow> jsval \<times> string \<times> int \<Rightarrow> admission_order res" where
  "orderLeg sha operations index p =
     (case p of (order, pack, quantity) \<Rightarrow>
      bindE (throwIf (falsy order \<or> jprop order ''orderIndex'' \<noteq> JNum (int index) \<or> jprop order ''packId'' \<noteq> JStr pack
               \<or> jprop order ''quantity'' \<noteq> JNum quantity) ''policy admission order differs from the cycle pack plan'') (\<lambda>_.
      bindE (quoteLeg sha operations (jprop order ''unitPurchase'') (jprop order ''unitFundingQuote'') (jprop order ''unitRelay'')
               (jprop order ''unitRelayQuote'') (jprop order ''unitFundingUsd'') (''order '' @ dec_of_nat index @ '' unit quote'')) (\<lambda>unit.
        Inr \<lparr>ao_packId = pack, ao_quantity = quantity, ao_unit = unit\<rparr>)))"

definition purchaseTotal :: "admission_order list \<Rightarrow> int" where
  "purchaseTotal os = (\<Sum>o' \<leftarrow> os. int (atomic (lg_purchase (ao_unit o'))) * ao_quantity o')"

definition normalizePlanAdmission :: "(string \<Rightarrow> string) \<Rightarrow> jsval \<Rightarrow> operations_arg \<Rightarrow> admission res" where
  "normalizePlanAdmission sha v arg =
     bindE (assertOperationsAccounts arg) (\<lambda>operations.
     bindE (assertPackPlan (jprop v ''packPlan'')) (\<lambda>plan.
     bindE (throwIf (pp_orders plan = [] \<or> \<not> isArray (jprop v ''orders'') \<or> length (arr_of (jprop v ''orders'')) \<noteq> length (pp_orders plan))
              ''policy admission orders must match the nonempty cycle pack plan'') (\<lambda>_.
     bindE (assertPolicyCycleId (jprop v ''cycleId'')) (\<lambda>cycleId.
     bindE (mapE (orderLeg sha operations) 0 (zip (arr_of (jprop v ''orders'')) (pp_orders plan))) (\<lambda>orders.
     let quantity = (\<Sum>o' \<leftarrow> orders. ao_quantity o') in
     bindE (throwIf (jprop v ''quantity'' \<noteq> JNum quantity) ''policy admission quantity differs from the plan total'') (\<lambda>_.
     bindE (quoteLeg sha operations (jprop v ''aggregatePurchase'') (jprop v ''aggregateFundingQuote'') (jprop v ''relay'') (jprop v ''relayQuote'')
              (jprop v ''aggregateFundingUsd'') ''aggregate quote'') (\<lambda>aggregate.
     bindE (throwIf (int (atomic (lg_purchase aggregate)) \<noteq> purchaseTotal orders)
              ''policy admission aggregate differs from the plan purchase total'') (\<lambda>_.
     bindE (throwIf (\<not> strictEq (jprop v ''quoteDigest'') (jprop (lg_quote aggregate) ''quoteDigest''))
              ''policy admission aggregate quote digest mismatch'') (\<lambda>_.
     bindE (normalizeProcessLiabilityEvidence sha (jprop v ''processLiabilityEvidence'') cycleId operations) (\<lambda>liability.
     bindE (checkLiabilityCeiling (lg_funding aggregate) liability) (\<lambda>_.
       Inr \<lparr>ad_plan = Some plan, ad_cycleId = cycleId, ad_orders = orders, ad_quantity = quantity,
             ad_quoteDigest = str_of (jprop v ''quoteDigest''), ad_aggregate = aggregate, ad_liability = liability\<rparr>)))))))))))"

subsection \<open>One pack\<close>

definition MAXIMUM_PACK_BATCH_SIZE :: int where "MAXIMUM_PACK_BATCH_SIZE = 64"

definition sameAsset :: "admission_amount \<Rightarrow> admission_amount \<Rightarrow> bool" where
  "sameAsset a b = (aa_chainId a = aa_chainId b \<and> aa_assetId a = aa_assetId b \<and> aa_decimals a = aa_decimals b)"

definition checkAggregateRelay :: "jsval \<Rightarrow> admission_identity \<Rightarrow> admission_amount \<Rightarrow> unit res" where
  "checkAggregateRelay relay operations aggregatePurchase =
     throwWhen [Inr (falsy relay), Inr (jprop relay ''tradeType'' \<noteq> JStr ''EXACT_OUTPUT''), Inr (\<not> nonemptyString (jprop relay ''requestId'')),
         Inr (\<not> str_matches (any_hex_pattern 64) (jprop relay ''orderId'')),
         Inr (\<not> isSafeInteger (jprop relay ''deadlineUnixSeconds'') \<or> num_of (jprop relay ''deadlineUnixSeconds'') \<le> 0),
         Inr (\<not> isString (jprop relay ''sender'')), lowerDiffers (jprop relay ''sender'') (id_evm operations),
         Inr (jprop relay ''recipient'' \<noteq> JStr (id_solana operations)),
         amountDiffers (jprop relay ''destinationAmount'') ''policy admission relay destinationAmount'' aggregatePurchase,
         amountDiffers (jprop relay ''destinationMinimumAmount'') ''policy admission relay destinationMinimumAmount'' aggregatePurchase]
       ''policy admission Relay exact-output identity is invalid''"

definition checkUnitRelay :: "jsval \<Rightarrow> admission_identity \<Rightarrow> admission_amount \<Rightarrow> unit res" where
  "checkUnitRelay relay operations unitPurchase =
     throwWhen [Inr (falsy relay), Inr (jprop relay ''tradeType'' \<noteq> JStr ''EXACT_OUTPUT''), Inr (\<not> nonemptyString (jprop relay ''requestId'')),
         Inr (\<not> testPattern (any_hex_pattern 64) (orElse (jprop relay ''orderId'') (JStr []))),
         Inr (\<not> isSafeInteger (jprop relay ''deadlineUnixSeconds'')), Inr (num_of (jprop relay ''deadlineUnixSeconds'') \<le> 0),
         lowerDiffers (jprop relay ''sender'') (id_evm operations), Inr (jprop relay ''recipient'' \<noteq> JStr (id_solana operations)),
         amountDiffers (jprop relay ''destinationAmount'') ''policy admission unitRelay destinationAmount'' unitPurchase,
         amountDiffers (jprop relay ''destinationMinimumAmount'') ''policy admission unitRelay destinationMinimumAmount'' unitPurchase,
         Inr (\<not> str_matches digest_pattern (jprop relay ''quoteDigest''))]
       ''policy admission unit exact-output Relay evidence is invalid''"

record admission_amounts =
  am_unitPurchase :: admission_amount
  am_aggregatePurchase :: admission_amount
  am_unitFunding :: admission_amount
  am_aggregateFunding :: admission_amount

text \<open>The four typed amounts and how they must relate.\<close>

definition packAmounts :: "jsval \<Rightarrow> admission_identity \<Rightarrow> admission_amounts res" where
  "packAmounts v operations =
     bindE (assertPolicyAdmissionAmount (jprop v ''unitPurchase'') ''policy admission unitPurchase'') (\<lambda>up.
     bindE (assertPolicyAdmissionAmount (jprop v ''aggregatePurchase'') ''policy admission aggregatePurchase'') (\<lambda>ap.
     bindE (assertPolicyAdmissionAmount (jprop v ''unitFundingQuote'') ''policy admission unitFundingQuote'') (\<lambda>uf.
     bindE (assertPolicyAdmissionAmount (jprop v ''aggregateFundingQuote'') ''policy admission aggregateFundingQuote'') (\<lambda>af.
     bindE (assertAdmissionRoute up (id_settlementRoute operations) ''policy admission unitPurchase'') (\<lambda>_.
     bindE (assertAdmissionRoute ap (id_settlementRoute operations) ''policy admission aggregatePurchase'') (\<lambda>_.
     bindE (assertAdmissionRoute uf (id_fundingRoute operations) ''policy admission unitFundingQuote'') (\<lambda>_.
     bindE (assertAdmissionRoute af (id_fundingRoute operations) ''policy admission aggregateFundingQuote'') (\<lambda>_.
     bindE (throwIf (\<not> sameAsset up ap \<or> int (atomic up) * num_of (jprop v ''quantity'') \<noteq> int (atomic ap))
              ''policy admission aggregatePurchase does not exactly equal unitPurchase times quantity'') (\<lambda>_.
     bindE (throwIf (\<not> sameAsset uf af) ''policy admission funding quotes do not share one source asset identity'') (\<lambda>_.
       Inr \<lparr>am_unitPurchase = up, am_aggregatePurchase = ap, am_unitFunding = uf, am_aggregateFunding = af\<rparr>))))))))))"

definition normalizePackAdmission :: "(string \<Rightarrow> string) \<Rightarrow> jsval \<Rightarrow> operations_arg \<Rightarrow> admission res" where
  "normalizePackAdmission sha v arg =
     bindE (assertOperationsAccounts arg) (\<lambda>operations.
     bindE (throwIf (notObject v \<or> jprop v ''schema'' \<noteq> JStr ''hookemon.policy-admission.v3'')
              ''policy admission must use hookemon.policy-admission.v3'') (\<lambda>_.
     bindE (assertPolicyCycleId (jprop v ''cycleId'')) (\<lambda>cycleId.
     bindE (assertPackId (jprop v ''packId'')) (\<lambda>packId.
     bindE (throwIf (\<not> isInteger (jprop v ''quantity'') \<or> num_of (jprop v ''quantity'') < 1 \<or> MAXIMUM_PACK_BATCH_SIZE < num_of (jprop v ''quantity''))
              (''policy admission quantity must be an integer from 1 through '' @ json_int MAXIMUM_PACK_BATCH_SIZE)) (\<lambda>_.
     bindE (throwIf (\<not> str_matches digest_pattern (jprop v ''quoteDigest'')) ''policy admission quoteDigest is invalid'') (\<lambda>_.
     bindE (packAmounts v operations) (\<lambda>am.
     bindE (normalizeProcessLiabilityEvidence sha (jprop v ''processLiabilityEvidence'') cycleId operations) (\<lambda>liability.
     bindE (checkLiabilityCeiling (am_aggregateFunding am) liability) (\<lambda>_.
     let relay = jprop v ''relay''; unitRelay = jprop v ''unitRelay'' in
     bindE (checkAggregateRelay relay operations (am_aggregatePurchase am)) (\<lambda>_.
     bindE (checkUnitRelay unitRelay operations (am_unitPurchase am)) (\<lambda>_.
     bindE (throwIf (\<not> isString (jprop relay ''quoteDigest'') \<or> jprop relay ''quoteDigest'' \<noteq> jprop v ''quoteDigest'')
              ''policy admission aggregate Relay quote digest is invalid'') (\<lambda>_.
     bindE (normalizeUnitRelayQuote sha (jprop v ''unitRelayQuote'') (am_unitFunding am) (am_unitPurchase am) unitRelay operations ''unitRelayQuote'') (\<lambda>unitQuote.
     bindE (normalizeUnitRelayQuote sha (jprop v ''relayQuote'') (am_aggregateFunding am) (am_aggregatePurchase am) relay operations ''relayQuote'') (\<lambda>quote.
     bindE (throwIf (jprop quote ''quoteDigest'' \<noteq> jprop v ''quoteDigest'')
              ''policy admission relayQuote digest does not match the admitted quote digest'') (\<lambda>_.
     bindE (normalizeFundingUsd (jprop v ''unitFundingUsd'') (am_unitFunding am) unitRelay) (\<lambda>unitUsd.
     bindE (normalizeFundingUsd (jprop v ''aggregateFundingUsd'') (am_aggregateFunding am) relay) (\<lambda>usd.
       Inr \<lparr>ad_plan = None, ad_cycleId = cycleId,
             ad_orders = [\<lparr>ao_packId = packId, ao_quantity = num_of (jprop v ''quantity''),
               ao_unit = \<lparr>lg_purchase = am_unitPurchase am, lg_funding = am_unitFunding am, lg_usd = unitUsd,
                          lg_relay = JObj (spread unitRelay), lg_quote = unitQuote\<rparr>\<rparr>],
             ad_quantity = num_of (jprop v ''quantity''), ad_quoteDigest = str_of (jprop v ''quoteDigest''),
             ad_aggregate = \<lparr>lg_purchase = am_aggregatePurchase am, lg_funding = am_aggregateFunding am, lg_usd = usd,
                             lg_relay = JObj (spread relay), lg_quote = quote\<rparr>,
             ad_liability = liability\<rparr>)))))))))))))))))"

definition normalizePolicyAdmission :: "(string \<Rightarrow> string) \<Rightarrow> jsval \<Rightarrow> operations_arg \<Rightarrow> admission res" where
  "normalizePolicyAdmission sha v arg =
     (if jprop v ''schema'' = JStr ''hookemon.policy-admission.v4'' then normalizePlanAdmission sha v arg else normalizePackAdmission sha v arg)"

definition admissionPackId :: "admission \<Rightarrow> string" where
  "admissionPackId a = ao_packId (hd (ad_orders a))"

text \<open>\<open>BigInt(valuation.amountMicroUsd)\<close>.\<close>

definition usdCost :: "leg \<Rightarrow> nat" where
  "usdCost l = nat_of_dec (str_of (jprop (lg_usd l) ''amountMicroUsd''))"

definition relayDeadlineMs :: "leg \<Rightarrow> int" where
  "relayDeadlineMs l = num_of (jprop (lg_relay l) ''deadlineUnixSeconds'') * 1000"

end
