(* ===== verification/Policy_Engine.thy ===== *)
theory Policy_Engine
  imports Policy_Admission
begin

text \<open>
  The spending policy, \<^verbatim>\<open>packages/runner/src/automation/policy-engine.mjs\<close>: the decision at every boundary of a cycle, the digest that binds
  a cycle to the policy it was admitted under, and the engine's operations on the durable operator document
  (\<^verbatim>\<open>mutateOperatorState\<close> of \<^verbatim>\<open>operator/state-file.mjs\<close>, \<^verbatim>\<open>mutatePolicyConfiguration\<close> of \<^verbatim>\<open>app/compose.mjs\<close>).

  The fields of \<open>input\<close> that are plain data are a \<open>jsval\<close>; the deployment identity and the valuation verifier are separate
  arguments.  SHA-256 is the parameter \<open>sha\<close>.
\<close>

lemma bindE_cong [fundef_cong]: "m = m' \<Longrightarrow> (\<And>x. m' = Inr x \<Longrightarrow> f x = g x) \<Longrightarrow> bindE m f = bindE m' g"
  by (cases m') auto

definition POLICY_WINDOW_MS :: int where "POLICY_WINDOW_MS = 86400000"

datatype decision = Refused string | Allowed "string option"

definition isAllowed :: "decision \<Rightarrow> bool" where
  "isAllowed d = (case d of Refused r \<Rightarrow> False | Allowed c \<Rightarrow> True)"

section \<open>Custody\<close>

record custody_state =
  cu_realizedLoss :: nat
  cu_atRisk :: nat
  cu_outstanding :: nat
  cu_heldAssets :: bool
  cu_heldCount :: int
  cu_heldValue :: nat
  cu_unattributed :: bool
  cu_unvalued :: bool
  cu_cycleExposure :: "(string \<times> nat) list"

definition addPosition :: "nat \<Rightarrow> jsval \<Rightarrow> nat \<Rightarrow> nat res" where
  "addPosition i position n =
     (let label = ''policy custody heldPositions positions['' @ dec_of_nat i @ '']'' in
      bindE (throwIf (notObject position) (label @ '' is invalid'')) (\<lambda>_.
      bindE (assertAmount (jprop position ''costMicroUsd'') (label @ '' costMicroUsd'') False) (\<lambda>c. Inr (n + c))))"

definition normalizeHeldPositions :: "jsval \<Rightarrow> (int \<times> nat) res" where
  "normalizeHeldPositions v =
     bindE (throwIf (notObject v) ''policy custody heldPositions is invalid'') (\<lambda>_.
     bindE (throwIf (\<not> isSafeInteger (jprop v ''count'') \<or> num_of (jprop v ''count'') < 0) ''policy custody heldPositions count is invalid'') (\<lambda>_.
     bindE (throwIf (\<not> isArray (jprop v ''positions'') \<or> int (length (arr_of (jprop v ''positions''))) \<noteq> num_of (jprop v ''count''))
              ''policy custody heldPositions count does not match positions'') (\<lambda>_.
     bindE (assertAmount (jprop v ''valueMicroUsd'') ''policy custody heldPositions valueMicroUsd'' False) (\<lambda>reported.
     bindE (foldE addPosition 0 (arr_of (jprop v ''positions'')) 0) (\<lambda>positionValue.
     bindE (throwIf (positionValue \<noteq> reported) ''policy custody heldPositions value does not match positions'') (\<lambda>_.
       Inr (num_of (jprop v ''count''), reported)))))))"

definition addExposure :: "nat \<Rightarrow> string \<times> jsval \<Rightarrow> (string \<times> nat) list \<Rightarrow> (string \<times> nat) list res" where
  "addExposure i p out =
     bindE (assertPolicyCycleId (JStr (fst p))) (\<lambda>c.
     bindE (assertAmount (snd p) ''policy per-cycle exposure'' False) (\<lambda>n. Inr (out @ [(c, n)])))"

definition custodyFlag :: "jsval \<Rightarrow> string \<Rightarrow> bool res" where
  "custodyFlag v f = (case jprop v f of JBool b \<Rightarrow> Inr b | _ \<Rightarrow> Inl (JsError (''policy custody '' @ f @ '' is invalid'')))"

definition normalizeCustody :: "jsval \<Rightarrow> custody_state res" where
  "normalizeCustody v =
     bindE (throwIf (notObject v) ''policy custody projection is invalid'') (\<lambda>_.
     bindE (assertAmount (jprop v ''realizedLossMicroUsd'') ''policy custody realizedLossMicroUsd'' False) (\<lambda>loss.
     bindE (assertAmount (jprop v ''atRiskMicroUsd'') ''policy custody atRiskMicroUsd'' False) (\<lambda>atRisk.
     bindE (assertAmount (jprop v ''outstandingMicroUsd'') ''policy custody outstandingMicroUsd'' False) (\<lambda>outstanding.
     bindE (normalizeHeldPositions (jprop v ''heldPositions'')) (\<lambda>(count, held).
     let exposure = orElse (jprop v ''cycleExposureMicroUsd'') (JObj []) in
     bindE (throwIf (notObject exposure) ''policy per-cycle exposure map is invalid'') (\<lambda>_.
     bindE (foldE addExposure 0 (spread exposure) []) (\<lambda>es.
     let exposed = sum_list (map snd es) in
     bindE (throwIf (atRisk < exposed \<or> outstanding < exposed) ''policy per-cycle exposure exceeds aggregate custody'') (\<lambda>_.
     bindE (custodyFlag v ''heldAssets'') (\<lambda>heldAssets.
     bindE (custodyFlag v ''unattributed'') (\<lambda>unattributed.
     bindE (custodyFlag v ''unvaluedExposure'') (\<lambda>unvalued.
       Inr \<lparr>cu_realizedLoss = loss, cu_atRisk = atRisk, cu_outstanding = outstanding, cu_heldAssets = heldAssets, cu_heldCount = count,
             cu_heldValue = held, cu_unattributed = unattributed, cu_unvalued = unvalued, cu_cycleExposure = es\<rparr>)))))))))))"

definition zeroCustody :: jsval where
  "zeroCustody = JObj [(''realizedLossMicroUsd'', JStr ''0''), (''atRiskMicroUsd'', JStr ''0''), (''outstandingMicroUsd'', JStr ''0''),
     (''heldAssets'', JBool False), (''heldPositions'', JObj [(''count'', JNum 0), (''valueMicroUsd'', JStr ''0''), (''positions'', JArr [])]),
     (''unattributed'', JBool False), (''unvaluedExposure'', JBool False)]"

section \<open>Windows and digests\<close>

definition inWindow :: "int \<Rightarrow> int \<Rightarrow> bool" where
  "inWindow now t = (t \<le> now \<and> now - t < POLICY_WINDOW_MS)"

definition cycleMode :: "jsval \<Rightarrow> jsval \<Rightarrow> string res" where
  "cycleMode liveMode explicit = (case liveMode of
      JBool live \<Rightarrow>
        if explicit \<noteq> JUndefined then
          if explicit \<noteq> JStr ''production'' \<and> explicit \<noteq> JStr ''rehearsal'' then Inl (JsError ''policy mode is invalid'') else Inr (str_of explicit)
        else Inr (if live then ''production'' else ''rehearsal'')
    | _ \<Rightarrow> Inl (JsError ''policy liveMode is invalid''))"

definition policyMaterial :: "operator_configuration \<Rightarrow> jsval" where
  "policyMaterial c = JObj [(''allowedPackIds'', JArr (map JStr (oc_allowedPackIds c))), (''requestedOrders'', JNum (oc_requestedOrders c)),
     (''maxBoostersPerCycle'', JNum (oc_maxBoostersPerCycle c)), (''maxUnitPriceMicroUsd'', JStr (oc_maxUnitPriceMicroUsd c)),
     (''perCycleCapMicroUsd'', JStr (oc_perCycleCapMicroUsd c)), (''max24HourBudgetMicroUsd'', JStr (oc_max24HourBudgetMicroUsd c)),
     (''maxCyclesPerDay'', JNum (oc_maxCyclesPerDay c)), (''lossCapMicroUsd'', JStr (oc_lossCapMicroUsd c)),
     (''maxOutstandingCustodyMicroUsd'', JStr (oc_maxOutstandingCustodyMicroUsd c)), (''maxHeldPositions'', JNum (oc_maxHeldPositions c)),
     (''maxHeldValueMicroUsd'', JStr (oc_maxHeldValueMicroUsd c)), (''unresolvedCardDeadlineMinutes'', JNum (oc_unresolvedCardDeadlineMinutes c)),
     (''manualApprovalCycles'', JNum (oc_manualApprovalCycles c))]"

definition assertPolicyHardCaps :: "operator_configuration \<Rightarrow> operator_configuration res" where
  "assertPolicyHardCaps c = assertOperatorHardCaps ''policy'' c"

definition policyConfiguration :: "jsval \<Rightarrow> operator_configuration res" where
  "policyConfiguration v = bindE (assertOperatorConfiguration v) assertPolicyHardCaps"

text \<open>The arguments of \<open>deriveCyclePolicyDigest\<close> besides the configuration; a missing admission is \<open>JUndefined\<close>.\<close>

record digest_input =
  di_cycleId :: jsval
  di_releaseCost :: jsval
  di_releaseWei :: jsval
  di_packId :: jsval
  di_liveMode :: jsval
  di_mode :: jsval
  di_admission :: jsval

definition digestCyclePolicy :: "(string \<Rightarrow> string) \<Rightarrow> operator_configuration \<Rightarrow> digest_input \<Rightarrow> admission option \<Rightarrow> string res" where
  "digestCyclePolicy sha c i admission =
     bindE (cycleMode (di_liveMode i) (di_mode i)) (\<lambda>mode.
       digest sha (JObj ([(''schema'', JStr ''hookemon.policy-cycle.v5''), (''cycleId'', di_cycleId i), (''releaseCostMicroUsd'', di_releaseCost i),
         (''releaseAmountWei'', di_releaseWei i), (''packId'', di_packId i), (''mode'', JStr mode), (''policy'', policyMaterial c)]
         @ (case admission of None \<Rightarrow> [] | Some a \<Rightarrow> [(''admission'', jsval_of_admission a)]))))"

text \<open>Under a pack plan the digest covers the plan's packs and quantity instead of the configured ones.\<close>

definition admittedConfiguration :: "operator_configuration \<Rightarrow> admission option \<Rightarrow> operator_configuration" where
  "admittedConfiguration c admission = (case admission of
      Some a \<Rightarrow> if isPlanAdmission a then c\<lparr>oc_requestedOrders := ad_quantity a, oc_allowedPackIds := map ao_packId (ad_orders a)\<rparr> else c
    | None \<Rightarrow> c)"

definition optionalAdmission :: "(string \<Rightarrow> string) \<Rightarrow> jsval \<Rightarrow> operations_arg \<Rightarrow> admission option res" where
  "optionalAdmission sha v arg =
     (if v = JUndefined then Inr None else bindE (normalizePolicyAdmission sha v arg) (\<lambda>a. Inr (Some a)))"

definition deriveCyclePolicyDigest :: "(string \<Rightarrow> string) \<Rightarrow> operations_arg \<Rightarrow> jsval \<Rightarrow> digest_input \<Rightarrow> string res" where
  "deriveCyclePolicyDigest sha arg configuration i =
     bindE (policyConfiguration configuration) (\<lambda>c.
     bindE (assertPolicyCycleId (di_cycleId i)) (\<lambda>cycleId.
     bindE (assertAmount (di_releaseCost i) ''policy releaseCostMicroUsd'' True) (\<lambda>_.
     bindE (assertAmount (di_releaseWei i) ''policy releaseAmountWei'' True) (\<lambda>_.
     bindE (assertPackId (di_packId i)) (\<lambda>_.
     bindE (optionalAdmission sha (di_admission i) arg) (\<lambda>admission.
     bindE (throwIf (case admission of None \<Rightarrow> False | Some a \<Rightarrow> ad_cycleId a \<noteq> cycleId) ''policy admission cycleId does not match cycle digest'') (\<lambda>_.
       digestCyclePolicy sha (admittedConfiguration c admission) i admission)))))))"

section \<open>The context of a decision\<close>

record policy_context =
  cx_boundary :: string
  cx_liveMode :: jsval
  cx_mode :: jsval
  cx_now :: int
  cx_releaseAmount :: nat
  cx_releaseWei :: nat
  cx_cap :: "nat option"
  cx_cycleId :: "string option"
  cx_packId :: "string option"
  cx_admission :: "admission option"
  cx_operations :: operations_arg
  cx_expired :: bool

definition policyBoundaries :: "string list" where
  "policyBoundaries = [''cycle-start'', ''claim-process'', ''purchase'', ''signature'', ''broadcast'', ''mutation'']"

definition mutationBoundaries :: "string list" where
  "mutationBoundaries = [''claim-process'', ''purchase'', ''signature'', ''broadcast'', ''mutation'']"

definition executionBoundaries :: "string list" where
  "executionBoundaries = [''signature'', ''broadcast'', ''mutation'']"

definition assertBoundary :: "jsval \<Rightarrow> string res" where
  "assertBoundary v = (if \<not> str_matches (\<lambda>s. s \<in> set policyBoundaries) v then Inl (JsError ''policy boundary is invalid'') else Inr (str_of v))"

definition assertPolicyClock :: "jsval \<Rightarrow> int res" where
  "assertPolicyClock v = (if \<not> isSafeInteger v \<or> num_of v < 0 then Inl (JsError ''policy clock is invalid'') else Inr (num_of v))"

definition optionalAmount :: "jsval \<Rightarrow> string \<Rightarrow> nat option res" where
  "optionalAmount v label = (if v = JUndefined then Inr None else bindE (assertAmount v label False) (\<lambda>n. Inr (Some n)))"

definition optionalString :: "jsval \<Rightarrow> string option" where
  "optionalString v = (if nullish v then None else Some (str_of v))"

text \<open>A resolved identity is passed on as the object it is.\<close>

definition resolvedArg :: "operations_arg \<Rightarrow> operations_arg" where
  "resolvedArg arg = (case arg of NoIdentity \<Rightarrow> Pinned | _ \<Rightarrow> arg)"

definition checkAdmissionContext :: "jsval \<Rightarrow> admission \<Rightarrow> nat \<Rightarrow> nat \<Rightarrow> unit res" where
  "checkAdmissionContext input a cost wei =
     bindE (throwIf (\<not> nullish (jprop input ''cycleId'') \<and> jprop input ''cycleId'' \<noteq> JStr (ad_cycleId a))
              ''policy admission cycleId does not match policy context'') (\<lambda>_.
     bindE (throwIf (wei \<noteq> atomic (lg_funding (ad_aggregate a)) \<or> cost \<noteq> usdCost (ad_aggregate a))
              ''policy release amount does not match admitted aggregate funding quote'') (\<lambda>_.
     bindE (throwIf (jprop input ''packId'' \<noteq> JUndefined \<and> jprop input ''packId'' \<noteq> JStr (admissionPackId a))
              ''policy admission packId does not match policy context'') (\<lambda>_.
       throwIf (jprop input ''requestedOrders'' \<noteq> JUndefined \<and> jprop input ''requestedOrders'' \<noteq> JNum (ad_quantity a))
         ''policy admission quantity does not match requested orders'')))"

definition admissionExpired :: "string \<Rightarrow> int \<Rightarrow> admission \<Rightarrow> bool" where
  "admissionExpired boundary now a =
     (boundary \<in> {''cycle-start'', ''claim-process'', ''purchase''}
      \<and> (relayDeadlineMs (ad_aggregate a) \<le> now \<or> list_ex (\<lambda>o'. relayDeadlineMs (ao_unit o') \<le> now) (ad_orders a)))"

text \<open>The object the function returns, with the part that depends on the admission.\<close>

definition contextOf ::
  "jsval \<Rightarrow> operations_arg \<Rightarrow> string \<Rightarrow> string \<Rightarrow> int \<Rightarrow> nat \<Rightarrow> nat \<Rightarrow> nat option \<Rightarrow> admission option \<Rightarrow> string option \<Rightarrow> string option \<Rightarrow> bool
   \<Rightarrow> policy_context"
where
  "contextOf input arg boundary mode now cost wei cap admission cycleId packId expired =
     \<lparr>cx_boundary = boundary, cx_liveMode = jprop input ''liveMode'', cx_mode = JStr mode,
      cx_now = now, cx_releaseAmount = cost, cx_releaseWei = wei, cx_cap = cap, cx_cycleId = cycleId, cx_packId = packId,
      cx_admission = admission, cx_operations = resolvedArg arg, cx_expired = expired\<rparr>"

definition finishContext ::
  "jsval \<Rightarrow> operations_arg \<Rightarrow> string \<Rightarrow> string \<Rightarrow> int \<Rightarrow> nat \<Rightarrow> nat \<Rightarrow> nat option \<Rightarrow> admission option \<Rightarrow> policy_context res"
where
  "finishContext input arg boundary mode now cost wei cap admission =
     (let context = contextOf input arg boundary mode now cost wei cap admission; packId = optionalString (jprop input ''packId'') in
      case admission of
        None \<Rightarrow> Inr (context (optionalString (jprop input ''cycleId'')) packId False)
      | Some a \<Rightarrow>
          let cycleId = Some (case optionalString (jprop input ''cycleId'') of None \<Rightarrow> ad_cycleId a | Some c \<Rightarrow> c) in
          bindE (checkAdmissionContext input a cost wei) (\<lambda>_.
            if admissionExpired boundary now a
            then Inr (context cycleId (Some (case packId of None \<Rightarrow> admissionPackId a | Some p \<Rightarrow> p)) True)
            else Inr (context cycleId packId False)))"

definition amountOr0 :: "nat option \<Rightarrow> nat" where
  "amountOr0 n = (case n of None \<Rightarrow> 0 | Some k \<Rightarrow> k)"

definition admissionContext :: "(string \<Rightarrow> string) \<Rightarrow> operations_arg \<Rightarrow> jsval \<Rightarrow> policy_context res" where
  "admissionContext sha arg input =
     bindE (throwIf (notObject input) ''policy admission input is invalid'') (\<lambda>_.
     bindE (assertBoundary (jprop input ''boundary'')) (\<lambda>boundary.
     bindE (cycleMode (jprop input ''liveMode'') (jprop input ''mode'')) (\<lambda>mode.
     bindE (assertPolicyClock (jprop input ''now'')) (\<lambda>now.
     bindE (throwIf (jprop input ''releaseAmountMicroUsdg'' \<noteq> JUndefined \<or> jprop input ''capUsdg'' \<noteq> JUndefined)
              ''historical USDG policy input is not executable'') (\<lambda>_.
     bindE (optionalAmount (jprop input ''releaseAmountWei'') ''policy releaseAmountWei'') (\<lambda>wei.
     bindE (optionalAmount (jprop input ''releaseCostMicroUsd'') ''policy releaseCostMicroUsd'') (\<lambda>cost.
     bindE (throwIf (boundary \<in> {''claim-process'', ''purchase''} \<and> (amountOr0 cost = 0 \<or> amountOr0 wei = 0))
              ''policy releaseCostMicroUsd must be positive for a money boundary'') (\<lambda>_.
     bindE (if nullish (jprop input ''cycleId'') then Inr [] else assertPolicyCycleId (jprop input ''cycleId'')) (\<lambda>_.
     bindE (if nullish (jprop input ''packId'') then Inr [] else assertPackId (jprop input ''packId'')) (\<lambda>_.
     bindE (optionalAmount (jprop input ''capMicroUsd'') ''policy capMicroUsd'') (\<lambda>cap.
     bindE (assertOperationsAccounts arg) (\<lambda>_.
     bindE (optionalAdmission sha (jprop input ''admission'') (resolvedArg arg)) (\<lambda>admission.
       finishContext input arg boundary mode now (amountOr0 cost) (amountOr0 wei) cap admission)))))))))))))"

section \<open>Fresh valuations\<close>

type_synonym verifier = "jsval \<Rightarrow> jsval \<Rightarrow> jsval res"

fun allE :: "('a \<Rightarrow> bool res) \<Rightarrow> 'a list \<Rightarrow> bool res" where
  "allE f [] = Inr True"
| "allE f (x # xs) = bindE (f x) (\<lambda>b. if b then allE f xs else Inr False)"

definition fundingLegs :: "jsval \<Rightarrow> (jsval \<times> jsval \<times> jsval) list" where
  "fundingLegs admission =
     (let units = (if jprop admission ''schema'' = JStr ''hookemon.policy-admission.v4'' then arr_of (jprop admission ''orders'') else [admission]) in
      map (\<lambda>u. (jprop u ''unitFundingUsd'', jprop u ''unitFundingQuote'', jprop u ''unitRelay'')) units
      @ [(jprop admission ''aggregateFundingUsd'', jprop admission ''aggregateFundingQuote'', jprop admission ''relay'')])"

definition legFresh :: "verifier \<Rightarrow> int \<Rightarrow> jsval \<times> jsval \<times> jsval \<Rightarrow> bool res" where
  "legFresh verify now l = (case l of (valuation, amount, quote) \<Rightarrow>
     if falsy valuation \<or> now < num_of (jprop valuation ''observedAtMs'') \<or> num_of (jprop valuation ''validUntilMs'') \<le> now then Inr False
     else bindE (verify valuation (JObj [(''amount'', amount), (''quoteDigest'', jprop quote ''quoteDigest''),
            (''quoteRequestId'', jprop quote ''requestId''), (''sourcePath'', JStr ''details.currencyIn.amountUsd''), (''rounding'', JStr ''up'')]))
          (\<lambda>r. Inr (r = JBool True)))"

definition hasFreshFundingUsd :: "jsval \<Rightarrow> verifier option \<Rightarrow> int \<Rightarrow> bool res" where
  "hasFreshFundingUsd admission verify now = (case verify of
      None \<Rightarrow> Inr False
    | Some vf \<Rightarrow> if falsy admission then Inr False else allE (legFresh vf now) (fundingLegs admission))"

section \<open>Decisions\<close>

definition refuseIf :: "bool \<Rightarrow> string \<Rightarrow> decision res \<Rightarrow> decision res" where
  "refuseIf b reason rest = (if b then Inr (Refused reason) else rest)"

definition existingCycle :: "operator_configuration \<Rightarrow> string \<Rightarrow> cycle_entry option" where
  "existingCycle c cycleId = find (\<lambda>e. ce_cycleId e = cycleId) (oc_cycleLedger c)"

definition reservationOf :: "operator_configuration \<Rightarrow> string \<Rightarrow> spend_entry option" where
  "reservationOf c d = find (\<lambda>e. se_cycleDigest e = d) (oc_spendLedger c)"

definition effectiveCycleCap :: "operator_configuration \<Rightarrow> policy_context \<Rightarrow> nat" where
  "effectiveCycleCap c cx = (let configured = nat_of_dec (oc_perCycleCapMicroUsd c) in
     case cx_cap cx of None \<Rightarrow> configured | Some cap \<Rightarrow> if cap < configured then cap else configured)"

definition planAdmission :: "policy_context \<Rightarrow> admission option" where
  "planAdmission cx = (case cx_admission cx of Some a \<Rightarrow> if isPlanAdmission a then Some a else None | None \<Rightarrow> None)"

definition allPacksAllowed :: "operator_configuration \<Rightarrow> policy_context \<Rightarrow> bool" where
  "allPacksAllowed c cx = (case planAdmission cx of
      Some a \<Rightarrow> list_all (\<lambda>o'. ao_packId o' \<in> set (oc_allowedPackIds c)) (ad_orders a)
    | None \<Rightarrow> (case cx_packId cx of None \<Rightarrow> False | Some p \<Rightarrow> p \<in> set (oc_allowedPackIds c)))"

definition contextInput :: "policy_context \<Rightarrow> string \<Rightarrow> string \<Rightarrow> digest_input" where
  "contextInput cx cost wei =
     \<lparr>di_cycleId = JStr (case cx_cycleId cx of None \<Rightarrow> [] | Some i \<Rightarrow> i), di_releaseCost = JStr cost, di_releaseWei = JStr wei,
      di_packId = JStr (case cx_packId cx of None \<Rightarrow> [] | Some p \<Rightarrow> p), di_liveMode = cx_liveMode cx, di_mode = cx_mode cx,
      di_admission = (case cx_admission cx of None \<Rightarrow> JUndefined | Some a \<Rightarrow> jsval_of_admission a)\<rparr>"

definition matchingExistingCycleDigest ::
  "(string \<Rightarrow> string) \<Rightarrow> operations_arg \<Rightarrow> operator_configuration \<Rightarrow> cycle_entry \<Rightarrow> digest_input \<Rightarrow> string option res"
where
  "matchingExistingCycleDigest sha arg c existing i =
     bindE (deriveCyclePolicyDigest sha arg (jsval_of_configuration c) i) (\<lambda>current.
       Inr (if ce_cycleDigest existing = current then Some current else None))"

text \<open>The position of a digest among the cycles of a mode, from 1; 0 when it is not there.\<close>

definition ordinalOf :: "string \<Rightarrow> cycle_entry list \<Rightarrow> nat" where
  "ordinalOf d es = (if list_ex (\<lambda>e. ce_cycleDigest e = d) es then Suc (length (takeWhile (\<lambda>e. ce_cycleDigest e \<noteq> d) es)) else 0)"

definition modeCycles :: "operator_configuration \<Rightarrow> policy_context \<Rightarrow> cycle_entry list" where
  "modeCycles c cx = filter (\<lambda>e. JStr (ce_mode e) = cx_mode cx) (oc_cycleLedger c)"

definition approvalMissing :: "operator_configuration \<Rightarrow> policy_context \<Rightarrow> nat \<Rightarrow> string \<Rightarrow> bool" where
  "approvalMissing c cx ordinal d =
     (0 < ordinal \<and> int ordinal \<le> oc_manualApprovalCycles c
      \<and> (case omap_get (oc_approvalsByCycleDigest c) d of None \<Rightarrow> True | Some a \<Rightarrow> Some (ap_cycleId a) \<noteq> cx_cycleId cx))"

definition recordedFor :: "policy_context \<Rightarrow> cycle_entry \<Rightarrow> bool" where
  "recordedFor cx e = (ce_releaseCostMicroUsd e = dec_of_nat (cx_releaseAmount cx) \<and> ce_releaseAmountWei e = dec_of_nat (cx_releaseWei cx))"

definition lossExceeded :: "operator_configuration \<Rightarrow> custody_state \<Rightarrow> nat \<Rightarrow> bool" where
  "lossExceeded c cu pending = (nat_of_dec (oc_lossCapMicroUsd c) < cu_realizedLoss cu + cu_atRisk cu + pending)"

definition custodyExceeded :: "operator_configuration \<Rightarrow> custody_state \<Rightarrow> nat \<Rightarrow> bool" where
  "custodyExceeded c cu pending = (nat_of_dec (oc_maxOutstandingCustodyMicroUsd c) < cu_outstanding cu + pending)"

definition evaluateExistingCycleExecution ::
  "(string \<Rightarrow> string) \<Rightarrow> operator_configuration \<Rightarrow> custody_state \<Rightarrow> policy_context \<Rightarrow> decision res"
where
  "evaluateExistingCycleExecution sha c cu cx =
     bindE (throwIf (cx_cycleId cx = None \<or> cx_packId cx = None \<or> cx_releaseAmount cx = 0 \<or> cx_releaseWei cx = 0)
              ''policy execution guard requires cycleId, packId, and a positive release amount'') (\<lambda>_.
     refuseIf (\<not> allPacksAllowed c cx) ''PACK_NOT_ALLOWED'' (
     refuseIf (effectiveCycleCap c cx < cx_releaseAmount cx \<or> nat_of_dec (oc_maxCycleBudgetMicroUsd c) < cx_releaseAmount cx) ''PER_CYCLE_CAP'' (
     case existingCycle c (the (cx_cycleId cx)) of
       None \<Rightarrow> Inr (Refused ''CYCLE_POLICY_MISSING'')
     | Some existing \<Rightarrow>
         refuseIf (\<not> recordedFor cx existing) ''CYCLE_POLICY_MISSING'' (
         bindE (matchingExistingCycleDigest sha (cx_operations cx) c existing
                  (contextInput cx (dec_of_nat (cx_releaseAmount cx)) (dec_of_nat (cx_releaseWei cx)))) (\<lambda>matching.
         case matching of None \<Rightarrow> Inr (Refused ''CYCLE_POLICY_DIGEST_CHANGED'')
         | Some d \<Rightarrow>
             refuseIf (case reservationOf c d of None \<Rightarrow> True | Some r \<Rightarrow> se_amountMicroUsd r \<noteq> ce_releaseCostMicroUsd existing)
               ''SPEND_RESERVATION_MISSING'' (
             refuseIf (approvalMissing c cx (ordinalOf d (modeCycles c cx)) d) ''MANUAL_APPROVAL_REQUIRED'' (
             refuseIf (lossExceeded c cu 0) ''LOSS_CAP'' (
             refuseIf (custodyExceeded c cu 0) ''OUTSTANDING_CUSTODY_CAP'' (
               Inr (Allowed (Some d)))))))))))"

definition startDecision :: "operator_configuration \<Rightarrow> policy_context \<Rightarrow> decision res" where
  "startDecision c cx =
     refuseIf (oc_maxCyclesPerDay c \<le> int (length (filter (\<lambda>e. inWindow (cx_now cx) (ce_openedAtMs e)) (modeCycles c cx)))) ''MAX_CYCLES_PER_DAY'' (
     refuseIf (effectiveCycleCap c cx < cx_releaseAmount cx) ''PER_CYCLE_CAP'' (
       Inr (Allowed None)))"

definition spendInWindow :: "operator_configuration \<Rightarrow> int \<Rightarrow> nat" where
  "spendInWindow c now = (\<Sum>e \<leftarrow> filter (\<lambda>e. inWindow now (se_reservedAtMs e)) (oc_spendLedger c). nat_of_dec (se_amountMicroUsd e))"

text \<open>The last part of a claim decision, once the digest of the cycle is known.\<close>

definition claimReservation ::
  "operator_configuration \<Rightarrow> custody_state \<Rightarrow> policy_context \<Rightarrow> cycle_entry option \<Rightarrow> string \<Rightarrow> decision res"
where
  "claimReservation c cu cx existing d =
     (let reserved = reservationOf c d; accounted = map_of (cu_cycleExposure cu) (the (cx_cycleId cx));
          additional = (if reserved = None then cx_releaseAmount cx else 0);
          accountedCost = (case accounted of None \<Rightarrow> 0 | Some n \<Rightarrow> n);
          reservedCost = (case reserved of None \<Rightarrow> cx_releaseAmount cx | Some r \<Rightarrow> nat_of_dec (se_amountMicroUsd r));
          pending = reservedCost - accountedCost;
          ordinal = (if existing = None then Suc (length (modeCycles c cx)) else ordinalOf d (modeCycles c cx)) in
      refuseIf (existing \<noteq> None \<and> (case reserved of None \<Rightarrow> True | Some r \<Rightarrow> se_amountMicroUsd r \<noteq> dec_of_nat (cx_releaseAmount cx)))
        ''SPEND_RESERVATION_MISSING'' (
      refuseIf (case reserved of None \<Rightarrow> False | Some r \<Rightarrow> \<not> inWindow (cx_now cx) (se_reservedAtMs r)) ''SPEND_RESERVATION_EXPIRED'' (
      refuseIf (reserved \<noteq> None \<and> accounted = None) ''UNVALUED_CUSTODY'' (
      bindE (throwIf (cu_atRisk cu < accountedCost \<or> cu_outstanding cu < accountedCost) ''policy cycle exposure exceeds total custody'') (\<lambda>_.
      refuseIf (nat_of_dec (oc_max24HourBudgetMicroUsd c) < spendInWindow c (cx_now cx) + additional) ''ROLLING_24H_CAP'' (
      refuseIf (approvalMissing c cx ordinal d) ''MANUAL_APPROVAL_REQUIRED'' (
      refuseIf (lossExceeded c cu pending) ''LOSS_CAP'' (
      refuseIf (custodyExceeded c cu pending) ''OUTSTANDING_CUSTODY_CAP'' (
        Inr (Allowed (Some d)))))))))))"

definition claimDecision :: "(string \<Rightarrow> string) \<Rightarrow> operator_configuration \<Rightarrow> custody_state \<Rightarrow> policy_context \<Rightarrow> decision res" where
  "claimDecision sha c cu cx =
     bindE (throwIf (cx_cycleId cx = None \<or> cx_packId cx = None) ''policy claim-process requires cycleId and packId'') (\<lambda>_.
     refuseIf (cu_unattributed cu) ''UNATTRIBUTED_CUSTODY'' (
     refuseIf (cu_unvalued cu) ''UNVALUED_CUSTODY'' (
     refuseIf (oc_maxHeldPositions c \<le> cu_heldCount cu \<or> nat_of_dec (oc_maxHeldValueMicroUsd c) < cu_heldValue cu) ''HELD_LIMIT'' (
     refuseIf (\<not> allPacksAllowed c cx) ''PACK_NOT_ALLOWED'' (
     refuseIf (planAdmission cx = None \<and> oc_requestedOrders c = 0) ''NO_ORDERS_REQUESTED'' (
     refuseIf (planAdmission cx = None \<and> (case cx_admission cx of None \<Rightarrow> False | Some a \<Rightarrow> ad_quantity a \<noteq> oc_requestedOrders c)) ''QUANTITY_MISMATCH'' (
     refuseIf (effectiveCycleCap c cx < cx_releaseAmount cx) ''PER_CYCLE_CAP'' (
     refuseIf (nat_of_dec (oc_maxCycleBudgetMicroUsd c) < cx_releaseAmount cx) ''PER_CYCLE_CAP'' (
     let existing = existingCycle c (the (cx_cycleId cx));
         i = contextInput cx (dec_of_nat (cx_releaseAmount cx)) (dec_of_nat (cx_releaseWei cx)) in
     refuseIf (existing = None \<and> oc_maxCyclesPerDay c \<le> int (length (filter (\<lambda>e. inWindow (cx_now cx) (ce_openedAtMs e)) (modeCycles c cx))))
       ''MAX_CYCLES_PER_DAY'' (
     bindE (deriveCyclePolicyDigest sha (cx_operations cx) (jsval_of_configuration c) i) (\<lambda>derived.
     bindE (case existing of None \<Rightarrow> Inr (Some derived)
            | Some e \<Rightarrow> matchingExistingCycleDigest sha (cx_operations cx) c e i) (\<lambda>cycleDigest.
     case cycleDigest of None \<Rightarrow> Inr (Refused ''CYCLE_POLICY_DIGEST_CHANGED'')
     | Some d \<Rightarrow> claimReservation c cu cx existing d))))))))))))"

definition purchaseDecision :: "(string \<Rightarrow> string) \<Rightarrow> operator_configuration \<Rightarrow> custody_state \<Rightarrow> policy_context \<Rightarrow> decision res" where
  "purchaseDecision sha c cu cx =
     bindE (throwIf (cx_cycleId cx = None \<or> cx_packId cx = None) ''policy purchase requires cycleId and packId'') (\<lambda>_.
     refuseIf (cu_unattributed cu) ''UNATTRIBUTED_CUSTODY'' (
     refuseIf (cu_unvalued cu) ''UNVALUED_CUSTODY'' (
     refuseIf (\<not> allPacksAllowed c cx) ''PACK_NOT_ALLOWED'' (
     refuseIf (list_ex (\<lambda>n. nat_of_dec (oc_maxUnitPriceMicroUsd c) < n)
         (case cx_admission cx of None \<Rightarrow> [cx_releaseAmount cx] | Some a \<Rightarrow> map (\<lambda>o'. usdCost (ao_unit o')) (ad_orders a))) ''UNIT_PRICE_CAP'' (
     case existingCycle c (the (cx_cycleId cx)) of
       None \<Rightarrow> Inr (Refused ''CYCLE_POLICY_MISSING'')
     | Some existing \<Rightarrow>
         bindE (matchingExistingCycleDigest sha (cx_operations cx) c existing
                  (contextInput cx (ce_releaseCostMicroUsd existing) (ce_releaseAmountWei existing))) (\<lambda>matching.
         case matching of None \<Rightarrow> Inr (Refused ''CYCLE_POLICY_DIGEST_CHANGED'')
         | Some d \<Rightarrow>
             refuseIf (case reservationOf c d of None \<Rightarrow> True | Some r \<Rightarrow> nat_of_dec (se_amountMicroUsd r) < cx_releaseAmount cx)
               ''SPEND_RESERVATION_MISSING'' (
             refuseIf (case reservationOf c d of None \<Rightarrow> True | Some r \<Rightarrow> \<not> inWindow (cx_now cx) (se_reservedAtMs r)) ''SPEND_RESERVATION_EXPIRED'' (
             refuseIf (effectiveCycleCap c cx < cx_releaseAmount cx) ''PER_CYCLE_CAP'' (
             refuseIf (lossExceeded c cu 0) ''LOSS_CAP'' (
             refuseIf (custodyExceeded c cu 0) ''OUTSTANDING_CUSTODY_CAP'' (
               Inr (Allowed (Some d)))))))))))))"

section \<open>Evaluation\<close>

text \<open>
  What the common part of an evaluation leads to: a decision, a second evaluation at another boundary, the check of a recorded cycle, or
  the boundary's own checks.
\<close>

datatype gate = Decided decision | Reevaluate string | Recorded | OwnChecks

definition policyGate :: "verifier option \<Rightarrow> operator_configuration \<Rightarrow> policy_context \<Rightarrow> jsval \<Rightarrow> gate res" where
  "policyGate verify c cx input =
     (let boundary = cx_boundary cx; immediate = (boundary = ''cycle-start'' \<or> boundary \<in> set mutationBoundaries) in
      bindE (if boundary \<in> {''claim-process'', ''purchase''} then hasFreshFundingUsd (jprop input ''admission'') verify (cx_now cx) else Inr True) (\<lambda>fresh.
      if \<not> fresh then Inr (Decided (Refused ''USD_VALUATION_UNVERIFIED''))
      else if cx_expired cx then Inr (Decided (Refused ''QUOTE_EXPIRED''))
      else if JBool (oc_liveMode c) \<noteq> cx_liveMode cx then Inr (Decided (Refused ''EXECUTION_MODE_MISMATCH''))
      else if immediate \<and> oc_killSwitch c then Inr (Decided (Refused ''KILL_SWITCH''))
      else if immediate \<and> oc_executionPaused c then Inr (Decided (Refused ''EXECUTION_PAUSED''))
      else if boundary = ''cycle-start'' \<and> oc_paused c then Inr (Decided (Refused ''SCHEDULING_PAUSED''))
      else if boundary \<in> set executionBoundaries \<and> (cx_cycleId cx \<noteq> None \<or> cx_packId cx \<noteq> None \<or> cx_releaseAmount cx \<noteq> 0) then
        if cx_cycleId cx = None \<or> cx_packId cx = None \<or> cx_releaseAmount cx = 0
        then Inl (JsError ''policy execution guard requires cycleId, packId, and a positive release amount'')
        else if jprop input ''stage'' = JStr ''claim-process'' then Inr (Reevaluate ''claim-process'')
        else if jprop input ''stage'' = JStr ''purchase'' then Inr (Reevaluate ''purchase'')
        else if boundary = ''mutation'' \<and> jprop input ''stage'' = JStr ''eligibility-snapshot'' \<and> existingCycle c (the (cx_cycleId cx)) = None
        then Inr (Decided (Allowed None))
        else Inr Recorded
      else Inr OwnChecks))"

definition ownChecks :: "(string \<Rightarrow> string) \<Rightarrow> operator_configuration \<Rightarrow> custody_state \<Rightarrow> policy_context \<Rightarrow> decision res" where
  "ownChecks sha c cu cx =
     refuseIf (case planAdmission cx of None \<Rightarrow> False | Some a \<Rightarrow> oc_maxBoostersPerCycle c < ad_quantity a) ''QUANTITY_LIMIT'' (
     refuseIf (case planAdmission cx of None \<Rightarrow> False
         | Some a \<Rightarrow> cx_boundary cx \<in> {''cycle-start'', ''claim-process'', ''purchase''}
             \<and> list_ex (\<lambda>o'. nat_of_dec (oc_maxUnitPriceMicroUsd c) < usdCost (ao_unit o')) (ad_orders a)) ''UNIT_PRICE_CAP'' (
     if cx_boundary cx = ''cycle-start'' then startDecision c cx
     else if cx_boundary cx = ''claim-process'' then claimDecision sha c cu cx
     else if cx_boundary cx = ''purchase'' then purchaseDecision sha c cu cx
     else Inr (Allowed None)))"

definition atBoundary :: "jsval \<Rightarrow> string \<Rightarrow> jsval" where
  "atBoundary input b = withProps (spread input) [(''boundary'', JStr b)]"

text \<open>\<open>evaluateAdmittedClaimExecution\<close>: an allowed claim must also be recorded with this amount.\<close>

definition recordedClaim :: "operator_configuration \<Rightarrow> policy_context \<Rightarrow> decision \<Rightarrow> decision" where
  "recordedClaim c cx d =
     (if \<not> isAllowed d then d
      else case existingCycle c (the (cx_cycleId cx)) of
        None \<Rightarrow> Refused ''CYCLE_POLICY_MISSING'' | Some e \<Rightarrow> if recordedFor cx e then d else Refused ''CYCLE_POLICY_MISSING'')"

lemma finishContext_boundary: "finishContext input arg boundary mode now cost wei cap admission = Inr cx \<Longrightarrow> cx_boundary cx = boundary"
  by (auto simp: finishContext_def contextOf_def Let_def bindE_Inr_iff split: option.splits if_splits)

lemma context_boundary: "admissionContext sha arg input = Inr cx \<Longrightarrow> jprop input ''boundary'' = JStr (cx_boundary cx)"
proof -
  assume a: "admissionContext sha arg input = Inr cx"
  then obtain boundary mode now cost wei cap admission where "assertBoundary (jprop input ''boundary'') = Inr boundary"
    and "finishContext input arg boundary mode now cost wei cap admission = Inr cx"
    unfolding admissionContext_def bindE_Inr_iff by blast
  then show ?thesis by (auto simp: assertBoundary_def str_matches_iff finishContext_boundary split: if_splits)
qed

lemma boundary_atBoundary [simp]: "jprop (atBoundary input b) ''boundary'' = JStr b"
  by (simp add: atBoundary_def jprop_withProps)

lemma gate_reevaluates:
  "policyGate verify c cx input = Inr (Reevaluate b) \<Longrightarrow> cx_boundary cx \<in> set executionBoundaries \<and> b \<in> {''claim-process'', ''purchase''}"
  by (auto simp: policyGate_def Let_def res_simps split: if_splits)

function evaluateConfiguredPolicy ::
  "(string \<Rightarrow> string) \<Rightarrow> operations_arg \<Rightarrow> verifier option \<Rightarrow> jsval \<Rightarrow> jsval \<Rightarrow> jsval \<Rightarrow> decision res"
where
  "evaluateConfiguredPolicy sha arg verify configuration custody input =
     bindE (admissionContext sha arg input) (\<lambda>cx.
     bindE (policyConfiguration configuration) (\<lambda>c.
     bindE (normalizeCustody custody) (\<lambda>cu.
     bindE (policyGate verify c cx input) (\<lambda>g.
     case g of
       Decided d \<Rightarrow> Inr d
     | Reevaluate b \<Rightarrow>
         bindE (evaluateConfiguredPolicy sha arg verify (jsval_of_configuration c) custody (atBoundary input b)) (\<lambda>d.
           if b = ''claim-process''
           then bindE (admissionContext sha arg (atBoundary input b)) (\<lambda>cx'. Inr (recordedClaim c cx' d)) else Inr d)
     | Recorded \<Rightarrow> evaluateExistingCycleExecution sha c cu cx
     | OwnChecks \<Rightarrow> ownChecks sha c cu cx))))"
  by pat_completeness auto
termination
proof (relation "measure (\<lambda>(sha, arg, verify, configuration, custody, input). if jprop input ''boundary'' \<in> JStr ` set executionBoundaries then 1 else 0)")
  fix sha arg verify configuration custody input cx c cu g b
  assume "admissionContext sha arg input = Inr cx" and "policyGate verify c cx input = Inr g" and "g = Reevaluate b"
  then have "jprop input ''boundary'' \<in> JStr ` set executionBoundaries" and b: "b \<in> {''claim-process'', ''purchase''}"
    using context_boundary gate_reevaluates by fastforce+
  moreover have "JStr b \<notin> JStr ` set executionBoundaries" using b by (auto simp: executionBoundaries_def)
  ultimately show "((sha, arg, verify, jsval_of_configuration c, custody, atBoundary input b), (sha, arg, verify, configuration, custody, input))
    \<in> measure (\<lambda>(sha, arg, verify, configuration, custody, input). if jprop input ''boundary'' \<in> JStr ` set executionBoundaries then 1 else 0)"
    by simp
qed simp

declare evaluateConfiguredPolicy.simps [simp del]

definition evaluateClaim :: "(string \<Rightarrow> string) \<Rightarrow> operations_arg \<Rightarrow> verifier option \<Rightarrow> jsval \<Rightarrow> jsval \<Rightarrow> jsval \<Rightarrow> decision res" where
  "evaluateClaim sha arg verify configuration custody input =
     evaluateConfiguredPolicy sha arg verify configuration custody (atBoundary input ''claim-process'')"

definition evaluatePurchase :: "(string \<Rightarrow> string) \<Rightarrow> operations_arg \<Rightarrow> verifier option \<Rightarrow> jsval \<Rightarrow> jsval \<Rightarrow> jsval \<Rightarrow> decision res" where
  "evaluatePurchase sha arg verify configuration custody input =
     evaluateConfiguredPolicy sha arg verify configuration custody (atBoundary input ''purchase'')"

definition evaluateSignature :: "(string \<Rightarrow> string) \<Rightarrow> operations_arg \<Rightarrow> verifier option \<Rightarrow> jsval \<Rightarrow> jsval \<Rightarrow> jsval \<Rightarrow> decision res" where
  "evaluateSignature sha arg verify configuration custody input =
     evaluateConfiguredPolicy sha arg verify configuration custody (atBoundary input ''signature'')"

section \<open>The rehearsal policy\<close>

definition rehearsalCaps :: "(string \<times> (operator_configuration \<Rightarrow> string)) list" where
  "rehearsalCaps = [(''maxUnitPriceMicroUsd'', oc_maxUnitPriceMicroUsd), (''maxCycleBudgetMicroUsd'', oc_maxCycleBudgetMicroUsd),
     (''max24HourBudgetMicroUsd'', oc_max24HourBudgetMicroUsd), (''perCycleCapMicroUsd'', oc_perCycleCapMicroUsd)]"

definition assertCollectorOnlyRehearsalPolicy :: "jsval \<Rightarrow> jsval \<Rightarrow> operator_configuration res" where
  "assertCollectorOnlyRehearsalPolicy configuration options =
     bindE (policyConfiguration configuration) (\<lambda>c.
     bindE (assertPackId (jprop options ''packCode'')) (\<lambda>packCode.
     bindE (assertAmount (jprop options ''packPriceAtomic'') ''collector-only rehearsal packPriceAtomic'' True) (\<lambda>_.
     bindE (assertAmount (jprop options ''packCostMicroUsd'') ''collector-only rehearsal packCostMicroUsd'' True) (\<lambda>_.
     bindE (throwIf (\<not> oc_liveMode c) ''collector-only rehearsal policy requires liveMode=true'') (\<lambda>_.
     bindE (throwIf (oc_allowedPackIds c \<noteq> [packCode]) ''collector-only rehearsal policy must allow exactly the selected pack'') (\<lambda>_.
     bindE (throwIf (oc_requestedOrders c \<noteq> 1) ''collector-only rehearsal policy requestedOrders must equal 1'') (\<lambda>_.
     bindE (throwIf (oc_maxBoostersPerCycle c \<noteq> 1) ''collector-only rehearsal policy maxBoostersPerCycle must equal 1'') (\<lambda>_.
     bindE (throwIf (oc_manualApprovalCycles c < 1) ''collector-only rehearsal policy requires at least one manual approval cycle'') (\<lambda>_.
     bindE (foldE (\<lambda>_ (f, get) _. throwIf (JStr (get c) \<noteq> jprop options ''packCostMicroUsd'')
              (''collector-only rehearsal policy '' @ f @ '' must equal the configured pack price'')) 0 rehearsalCaps ()) (\<lambda>_.
     bindE (throwIf (oc_maxCyclesPerDay c \<noteq> 1) ''collector-only rehearsal policy maxCyclesPerDay must equal 1'') (\<lambda>_.
       Inr c)))))))))))"

section \<open>Quote refresh\<close>

text \<open>
  \<open>evaluateQuoteRefresh\<close> passes the given mode on as it is: when a caller leaves it out, it stays \<open>undefined\<close>.
\<close>

definition refreshContext :: "jsval \<Rightarrow> operations_arg \<Rightarrow> nat \<Rightarrow> nat option \<Rightarrow> admission \<Rightarrow> policy_context" where
  "refreshContext input arg cost cap a =
     \<lparr>cx_boundary = [], cx_liveMode = jprop input ''liveMode'', cx_mode = jprop input ''mode'', cx_now = num_of (jprop input ''now''),
      cx_releaseAmount = cost, cx_releaseWei = nat_of_dec (str_of (jprop input ''releaseAmountWei'')), cx_cap = cap,
      cx_cycleId = Some (str_of (jprop input ''cycleId'')), cx_packId = Some (str_of (jprop input ''packId'')), cx_admission = Some a,
      cx_operations = resolvedArg arg, cx_expired = False\<rparr>"

definition refreshDigest :: "(string \<Rightarrow> string) \<Rightarrow> string \<Rightarrow> string option \<Rightarrow> admission \<Rightarrow> admission \<Rightarrow> string res" where
  "refreshDigest sha cycleId cycleDigest a r = digest sha (JObj [(''schema'', JStr ''hookemon.outbound-quote-refresh-decision.v1''),
     (''cycleId'', JStr cycleId), (''cycleDigest'', case cycleDigest of None \<Rightarrow> JUndefined | Some d \<Rightarrow> JStr d),
     (''admission'', jsval_of_admission a), (''replacement'', jsval_of_admission r)])"

text \<open>The checks on the two admissions and the replacement's valuation; \<open>Inl\<close> inside is a refusal.\<close>

definition refreshAdmissions :: "(string \<Rightarrow> string) \<Rightarrow> operations_arg \<Rightarrow> jsval \<Rightarrow> (admission \<times> admission \<times> nat) res" where
  "refreshAdmissions sha arg input =
     bindE (throwIf (nullish (jprop input ''admission'')) ''policy quote refresh requires the immutable original admission'') (\<lambda>_.
     bindE (throwIf (nullish (jprop input ''replacement'')) ''policy quote refresh requires the complete replacement admission'') (\<lambda>_.
     bindE (assertPolicyCycleId (jprop input ''cycleId'')) (\<lambda>cycleId.
     bindE (assertPackId (jprop input ''packId'')) (\<lambda>_.
     bindE (assertPolicyClock (jprop input ''now'')) (\<lambda>_.
     bindE (assertOperationsAccounts arg) (\<lambda>_.
     bindE (normalizePolicyAdmission sha (jprop input ''admission'') (resolvedArg arg)) (\<lambda>a.
     bindE (normalizePolicyAdmission sha (jprop input ''replacement'') (resolvedArg arg)) (\<lambda>r.
     bindE (throwIf (ad_cycleId a \<noteq> cycleId \<or> ad_cycleId r \<noteq> cycleId) ''policy quote refresh admission/replacement does not name this cycle'') (\<lambda>_.
     bindE (assertAmount (jprop input ''releaseCostMicroUsd'') ''policy releaseCostMicroUsd'' True) (\<lambda>cost.
     bindE (throwIf (jprop input ''releaseAmountWei'' \<noteq> JStr (aa_amountAtomic (lg_funding (ad_aggregate a)))
              \<or> jprop input ''releaseAmountWei'' \<noteq> JStr (aa_amountAtomic (lg_funding (ad_aggregate r))))
              ''policy quote refresh release amount does not match the immutable admitted principal'') (\<lambda>_.
       Inr (a, r, cost))))))))))))"

datatype refresh = RefreshRefused string | RefreshAllowed string

definition refreshRefusal :: "verifier option \<Rightarrow> jsval \<Rightarrow> jsval \<Rightarrow> admission \<times> admission \<times> nat
   \<Rightarrow> (string + operator_configuration) res" where
  "refreshRefusal verify configuration input p = (case p of (a, r, cost) \<Rightarrow>
     bindE (hasFreshFundingUsd (jprop input ''replacement'') verify (num_of (jprop input ''now''))) (\<lambda>fresh.
     if \<not> fresh then Inr (Inl ''USD_VALUATION_UNVERIFIED'')
     else if cost < usdCost (ad_aggregate r) then Inr (Inl ''PER_CYCLE_CAP'')
     else bindE (policyConfiguration configuration) (\<lambda>c.
       Inr (if JBool (oc_liveMode c) \<noteq> jprop input ''liveMode'' then Inl ''EXECUTION_MODE_MISMATCH''
            else if oc_killSwitch c then Inl ''KILL_SWITCH''
            else if oc_executionPaused c then Inl ''EXECUTION_PAUSED''
            else if list_ex (\<lambda>o'. nat_of_dec (oc_maxUnitPriceMicroUsd c) < usdCost (ao_unit o')) (ad_orders r) then Inl ''UNIT_PRICE_CAP''
            else Inr c))))"

definition evaluateQuoteRefresh ::
  "(string \<Rightarrow> string) \<Rightarrow> operations_arg \<Rightarrow> verifier option \<Rightarrow> jsval \<Rightarrow> jsval \<Rightarrow> jsval \<Rightarrow> refresh res"
where
  "evaluateQuoteRefresh sha arg verify configuration custody input =
     bindE (refreshAdmissions sha arg input) (\<lambda>p.
     bindE (refreshRefusal verify configuration input p) (\<lambda>q.
     case q of Inl reason \<Rightarrow> Inr (RefreshRefused reason)
     | Inr c \<Rightarrow>
       (case p of (a, r, cost) \<Rightarrow>
         bindE (optionalAmount (jprop input ''capMicroUsd'') ''policy capMicroUsd'') (\<lambda>cap.
         bindE (normalizeCustody custody) (\<lambda>cu.
         bindE (evaluateExistingCycleExecution sha c cu (refreshContext input arg cost cap a)) (\<lambda>d.
         case d of Refused reason \<Rightarrow> Inr (RefreshRefused reason)
         | Allowed cycleDigest \<Rightarrow>
             bindE (refreshDigest sha (str_of (jprop input ''cycleId'')) cycleDigest a r) (\<lambda>rd. Inr (RefreshAllowed rd))))))))"

section \<open>The durable document\<close>

text \<open>
  \<open>mutateOperatorState\<close> reads the state file under its lock, checks the expected revision, lets the mutation propose a state and replaces the
  file by the validated proposal with the next revision.  The file is the optional \<open>operator_state\<close>; the lock makes the read and the
  replacement one step.  A mutation also returns what its caller keeps from it.
\<close>

definition configurationValue :: "operator_configuration option \<Rightarrow> jsval" where
  "configurationValue c = (case c of None \<Rightarrow> JNull | Some cfg \<Rightarrow> jsval_of_configuration cfg)"

definition jsval_of_state :: "operator_state \<Rightarrow> jsval" where
  "jsval_of_state s = JObj [(''schema'', JStr ''hookemon.operator-state.v2''), (''revision'', JNum (os_revision s)),
     (''configuration'', configurationValue (os_configuration s))]"

definition createEmptyOperatorState :: operator_state where
  "createEmptyOperatorState = \<lparr>os_revision = 0, os_configuration = None\<rparr>"

definition mutateOperatorState ::
  "operator_state option \<Rightarrow> int option \<Rightarrow> (operator_state option \<Rightarrow> (jsval \<times> 'r) res) \<Rightarrow> (operator_state \<times> 'r) res"
where
  "mutateOperatorState current expected mutation =
     bindE (throwIf (case expected of None \<Rightarrow> False | Some r \<Rightarrow> r < 0) ''expected operator state revision is invalid'') (\<lambda>_.
     bindE (throwIf (map_option os_revision current \<noteq> expected) ''stale operator state revision'') (\<lambda>_.
     bindE (mutation current) (\<lambda>(proposed, result).
     bindE (assertOperatorState (withProps (spread proposed)
              [(''revision'', JNum (case current of None \<Rightarrow> 0 | Some s \<Rightarrow> os_revision s + 1))])) (\<lambda>candidate.
       Inr (candidate, result)))))"

text \<open>
  One attempt of \<open>mutatePolicyConfiguration\<close>, whose two reads see the same file; an attempt that loses a race fails as stale and changes nothing.
\<close>

definition mutatePolicyConfiguration ::
  "operator_state option \<Rightarrow> jsval \<Rightarrow> (operator_configuration \<Rightarrow> (operator_configuration \<times> 'r) res) \<Rightarrow> (operator_state \<times> 'r) res"
where
  "mutatePolicyConfiguration current expected mutation =
     bindE (throwIf (\<not> nullish expected \<and> (\<not> isSafeInteger expected \<or> num_of expected < 0)) ''policy configuration expected revision is invalid'') (\<lambda>_.
     case current of
       None \<Rightarrow> Inl (JsError ''policy configuration is missing'')
     | Some s \<Rightarrow> (case os_configuration s of
         None \<Rightarrow> Inl (JsError ''policy configuration is missing'')
       | Some c \<Rightarrow>
           bindE (throwIf (expected \<noteq> JUndefined \<and> expected \<noteq> JNum (os_revision s)) ''stale operator state revision'') (\<lambda>_.
             mutateOperatorState current (Some (os_revision s)) (\<lambda>_.
               bindE (mutation c) (\<lambda>(next', result).
                 Inr (withProps (spread (jsval_of_state s)) [(''configuration'', jsval_of_configuration next')], result))))))"

section \<open>The engine\<close>

definition withNow :: "jsval \<Rightarrow> int \<Rightarrow> jsval" where
  "withNow input now = withProps (spread input) [(''now'', JNum now)]"

definition policyEvaluate ::
  "(string \<Rightarrow> string) \<Rightarrow> operations_arg \<Rightarrow> verifier \<Rightarrow> operator_configuration option \<Rightarrow> jsval \<Rightarrow> int \<Rightarrow> jsval \<Rightarrow> decision res"
where
  "policyEvaluate sha arg verify configuration custody now input = (case jprop input ''liveMode'' of
      JBool live \<Rightarrow> (case configuration of
          None \<Rightarrow> Inr (if live then Refused ''CONFIGURATION_MISSING'' else Allowed None)
        | Some c \<Rightarrow> evaluateConfiguredPolicy sha arg (Some verify) (jsval_of_configuration c) custody (withNow input now))
    | _ \<Rightarrow> Inl (JsError ''policy liveMode is invalid''))"

definition reservationConfiguration :: "operator_configuration \<Rightarrow> jsval \<Rightarrow> jsval \<Rightarrow> int \<Rightarrow> operator_configuration res" where
  "reservationConfiguration c cycleDigest input now =
     (if existingCycle c (str_of (jprop input ''cycleId'')) \<noteq> None then Inr c
      else bindE (cycleMode (jprop input ''liveMode'') (jprop input ''mode'')) (\<lambda>mode.
        assertOperatorConfiguration (withProps (spread (jsval_of_configuration c))
          [(''cycleLedger'', JArr (map jsval_of_cycle_entry (oc_cycleLedger c) @
              [JObj [(''cycleId'', jprop input ''cycleId''), (''cycleDigest'', cycleDigest), (''mode'', JStr mode), (''openedAtMs'', JNum now),
                     (''releaseCostMicroUsd'', jprop input ''releaseCostMicroUsd''), (''releaseAmountWei'', jprop input ''releaseAmountWei'')]])),
           (''spendLedger'', JArr (map jsval_of_spend_entry (oc_spendLedger c) @
              [JObj [(''cycleId'', jprop input ''cycleId''), (''cycleDigest'', cycleDigest), (''amountMicroUsd'', jprop input ''releaseCostMicroUsd''),
                     (''reservedAtMs'', JNum now)]]))])))"

definition decisionDigest :: "decision \<Rightarrow> jsval" where
  "decisionDigest d = (case d of Allowed (Some c) \<Rightarrow> JStr c | _ \<Rightarrow> JUndefined)"

text \<open>The mutation that \<open>admit\<close> hands to the store; it reads the clock twice.\<close>

definition reserve ::
  "(string \<Rightarrow> string) \<Rightarrow> operations_arg \<Rightarrow> verifier \<Rightarrow> jsval \<Rightarrow> int \<Rightarrow> int \<Rightarrow> jsval \<Rightarrow> operator_configuration
   \<Rightarrow> (operator_configuration \<times> decision) res"
where
  "reserve sha arg verify custody now1 now2 input c =
     bindE (evaluateConfiguredPolicy sha arg (Some verify) (jsval_of_configuration c) custody (withNow input now1)) (\<lambda>d.
     if \<not> isAllowed d then Inr (c, d)
     else bindE (reservationConfiguration c (decisionDigest d) input now2) (\<lambda>next'. Inr (next', d)))"

definition reservesPolicy :: "jsval \<Rightarrow> decision \<Rightarrow> bool" where
  "reservesPolicy input initial =
     (isAllowed initial \<and> jprop input ''boundary'' = JStr ''claim-process'' \<and> jprop input ''reservePolicy'' \<noteq> JBool False)"

text \<open>\<open>admit\<close>: the first evaluation reads configuration, custody and clock; the reservation runs on the document as it is then.\<close>

definition admit ::
  "(string \<Rightarrow> string) \<Rightarrow> operations_arg \<Rightarrow> verifier \<Rightarrow> operator_configuration option \<Rightarrow> jsval \<Rightarrow> int \<Rightarrow> jsval \<Rightarrow> int \<Rightarrow> int \<Rightarrow> jsval
   \<Rightarrow> operator_state option \<Rightarrow> (operator_state option \<times> decision) res"
where
  "admit sha arg verify configuration custody now custody' now1 now2 input current =
     bindE (policyEvaluate sha arg verify configuration custody now input) (\<lambda>initial.
     if \<not> reservesPolicy input initial then Inr (current, initial)
     else bindE (mutatePolicyConfiguration current JUndefined (reserve sha arg verify custody' now1 now2 input)) (\<lambda>(s, d). Inr (Some s, d)))"

definition approve :: "string \<Rightarrow> string \<Rightarrow> jsval \<Rightarrow> int \<Rightarrow> operator_configuration \<Rightarrow> (operator_configuration \<times> approval) res" where
  "approve cycleDigest cycleId approvedAtMs now c =
     (case omap_get (oc_approvalsByCycleDigest c) cycleDigest of
       Some existing \<Rightarrow>
         if ap_cycleId existing \<noteq> cycleId \<or> (approvedAtMs \<noteq> JUndefined \<and> JNum (ap_approvedAtMs existing) \<noteq> approvedAtMs)
         then Inl (JsError ''policy approval conflicts with the existing cycle digest approval'') else Inr (c, existing)
     | None \<Rightarrow>
         bindE (if nullish approvedAtMs then assertPolicyClock (JNum now) else Inr (num_of approvedAtMs)) (\<lambda>t.
         bindE (assertOperatorConfiguration (withProps (spread (jsval_of_configuration c))
             [(''approvalsByCycleDigest'', withProps (spread (jprop (jsval_of_configuration c) ''approvalsByCycleDigest''))
                 [(cycleDigest, jsval_of_approval \<lparr>ap_cycleId = cycleId, ap_approvedAtMs = t\<rparr>)])])) (\<lambda>next'.
           Inr (next', \<lparr>ap_cycleId = cycleId, ap_approvedAtMs = t\<rparr>))))"

definition recordManualApproval ::
  "jsval \<Rightarrow> jsval \<Rightarrow> jsval \<Rightarrow> jsval \<Rightarrow> int \<Rightarrow> operator_state option \<Rightarrow> (operator_state \<times> approval) res"
where
  "recordManualApproval cycleDigest cycleId approvedAtMs expectedRevision now current =
     bindE (throwIf (\<not> str_matches digest_pattern cycleDigest) ''policy approval cycleDigest is invalid'') (\<lambda>_.
     bindE (assertPolicyCycleId cycleId) (\<lambda>c.
     bindE (if approvedAtMs = JUndefined then Inr 0 else assertPolicyClock approvedAtMs) (\<lambda>_.
     bindE (throwIf (\<not> nullish expectedRevision \<and> (\<not> isSafeInteger expectedRevision \<or> num_of expectedRevision < 0))
              ''policy approval expectedRevision is invalid'') (\<lambda>_.
       mutatePolicyConfiguration current expectedRevision
         (approve (str_of cycleDigest) c approvedAtMs now)))))"

definition assertExecutionAllowed ::
  "(string \<Rightarrow> string) \<Rightarrow> operations_arg \<Rightarrow> verifier \<Rightarrow> operator_configuration option \<Rightarrow> jsval \<Rightarrow> int \<Rightarrow> jsval \<Rightarrow> decision res"
where
  "assertExecutionAllowed sha arg verify configuration custody now input =
     (let hasCycleContext = (jprop input ''cycleId'' \<noteq> JUndefined \<or> jprop input ''releaseCostMicroUsd'' \<noteq> JUndefined \<or> jprop input ''packId'' \<noteq> JUndefined) in
      bindE (throwIf (jprop input ''boundary'' \<in> {JStr ''signature'', JStr ''broadcast''} \<and> hasCycleContext
               \<and> \<not> str_matches digest_pattern (jprop input ''requestDigest'')) ''policy execution requestDigest is invalid'') (\<lambda>_.
      bindE (policyEvaluate sha arg verify configuration custody now input) (\<lambda>d.
      case d of Refused reason \<Rightarrow> Inl (PolicyRefusal reason) | Allowed c \<Rightarrow> Inr d)))"

definition engineQuoteRefresh ::
  "(string \<Rightarrow> string) \<Rightarrow> operations_arg \<Rightarrow> verifier \<Rightarrow> operator_configuration option \<Rightarrow> jsval \<Rightarrow> int \<Rightarrow> jsval \<Rightarrow> refresh res"
where
  "engineQuoteRefresh sha arg verify configuration custody now input = (case configuration of
      None \<Rightarrow> Inr (RefreshRefused ''CONFIGURATION_MISSING'')
    | Some c \<Rightarrow> evaluateQuoteRefresh sha arg (Some verify) (jsval_of_configuration c) custody (withNow input now))"

text \<open>The operator's edit, \<open>mutateConfiguration\<close> of \<^verbatim>\<open>operator/control.mjs\<close>.\<close>

definition operatorEdit :: "int option \<Rightarrow> jsval \<Rightarrow> operator_state option \<Rightarrow> (operator_state \<times> unit) res" where
  "operatorEdit expected patch current =
     mutateOperatorState current expected (\<lambda>cur.
       let base = (case cur of None \<Rightarrow> createEmptyOperatorState | Some s \<Rightarrow> s) in
       bindE (applyOperatorConfiguration (configurationValue (os_configuration base)) patch) (\<lambda>c.
         Inr (withProps (spread (jsval_of_state base)) [(''configuration'', jsval_of_configuration c)], ())))"

section \<open>Interleavings\<close>

text \<open>
  Any number of runners and operators share the document and one clock.  A step admits a cycle, records an approval or applies an edit;
  the clock readings inside an admission are not before the last step's.
\<close>

record policy_sys =
  py_state :: "operator_state option"
  py_now :: int

inductive policy_step :: "(string \<Rightarrow> string) \<Rightarrow> operations_arg \<Rightarrow> verifier \<Rightarrow> policy_sys \<Rightarrow> policy_sys \<Rightarrow> bool"
  for sha arg verify
where
  admitted: "py_now s \<le> now1 \<Longrightarrow> now1 \<le> now2 \<Longrightarrow>
     admit sha arg verify configuration custody now custody' now1 now2 input (py_state s) = Inr (st, d) \<Longrightarrow>
     policy_step sha arg verify s (s\<lparr>py_state := st, py_now := now2\<rparr>)"
| approved: "recordManualApproval cycleDigest cycleId approvedAtMs expectedRevision now (py_state s) = Inr (st, a) \<Longrightarrow>
     policy_step sha arg verify s (s\<lparr>py_state := Some st\<rparr>)"
| edited: "distinct (ownKeys patch) \<Longrightarrow> operatorEdit expected patch (py_state s) = Inr (st, u) \<Longrightarrow>
     policy_step sha arg verify s (s\<lparr>py_state := Some st\<rparr>)"

inductive policy_reachable :: "(string \<Rightarrow> string) \<Rightarrow> operations_arg \<Rightarrow> verifier \<Rightarrow> policy_sys \<Rightarrow> bool"
  for sha arg verify
where
  initial: "policy_reachable sha arg verify \<lparr>py_state = None, py_now = t\<rparr>"
| step: "policy_reachable sha arg verify s \<Longrightarrow> policy_step sha arg verify s s' \<Longrightarrow> policy_reachable sha arg verify s'"

end
