(* ===== verification/Policy_Scenario.thy ===== *)
theory Policy_Scenario
  imports Policy_Engine "HOL-Library.Code_Target_Nat" "HOL-Library.Code_Target_Int"
begin

text \<open>
  One run of the policy on concrete values: the operator sets limits on an empty document, a runner admits a claim with a complete
  single-pack admission, and a later mutation of the same cycle is evaluated on the document that the claim left.  The values are
  evaluated by the simplifier on the definitions of \<open>Policy_Admission\<close> and \<open>Policy_Engine\<close>.
\<close>

definition ex_sha :: "string \<Rightarrow> string" where
  "ex_sha t = replicate 64 (CHR ''0'')"

definition ex_verify :: verifier where
  "ex_verify valuation expectation = Inr (JBool True)"

definition ex_digest :: string where
  "ex_digest = ''sha256:'' @ ex_sha []"

definition ex_cycle :: string where "ex_cycle = ''cycle-1''"

section \<open>The admission\<close>

definition ex_evm :: string where "ex_evm = ''0xb54aaf746eb1e80afdb5eb0992a75b08db2e4384''"
definition ex_solana :: string where "ex_solana = ''BrvhPB9EeAukw8g3jibQDFBYY5abu3Vchdm9ri3PHZNE''"
definition ex_usdc :: string where "ex_usdc = ''EPjFWdd5AufqSSqeM2qN1xzybapC8G4wEGGkZwyTDt1v''"
definition ex_order :: string where "ex_order = ''0x'' @ replicate 64 (CHR ''1'')"

definition ex_purchase :: admission_amount where
  "ex_purchase = \<lparr>aa_chainId = ''792703809'', aa_assetId = ex_usdc, aa_decimals = 6, aa_amountAtomic = ''5000000''\<rparr>"

definition ex_funding :: admission_amount where
  "ex_funding = \<lparr>aa_chainId = ''4663'', aa_assetId = ''native'', aa_decimals = 18, aa_amountAtomic = ''2000000000''\<rparr>"

definition ex_relay :: jsval where
  "ex_relay = JObj [(''tradeType'', JStr ''EXACT_OUTPUT''), (''requestId'', JStr ''request-1''), (''orderId'', JStr ex_order),
     (''deadlineUnixSeconds'', JNum 3600), (''sender'', JStr ex_evm), (''recipient'', JStr ex_solana), (''destinationAmount'', JStr ''5000000''),
     (''destinationMinimumAmount'', JStr ''5000000''), (''quoteDigest'', JStr ex_digest)]"

definition ex_currency :: "int \<Rightarrow> string \<Rightarrow> int \<Rightarrow> jsval" where
  "ex_currency chain address decimals = JObj [(''address'', JStr address), (''chainId'', JNum chain), (''decimals'', JNum decimals)]"

definition ex_raw :: jsval where
  "ex_raw = JObj [
     (''details'', JObj [
        (''currencyIn'', JObj [(''amount'', JStr ''2000000000''), (''currency'', ex_currency 4663 ZERO_ADDRESS 18)]),
        (''currencyOut'', JObj [(''amount'', JStr ''5000000''), (''currency'', ex_currency 792703809 ex_usdc 6), (''minimumAmount'', JStr ''5000000'')]),
        (''recipient'', JStr ex_solana), (''sender'', JStr ex_evm)]),
     (''protocol'', JObj [(''v2'', JObj [
        (''orderData'', JObj [
           (''inputs'', JArr [JObj [(''payment'', JObj [(''amount'', JStr ''2000000000''), (''chainId'', JStr ''robinhood''),
              (''currency'', JStr ZERO_ADDRESS)])]]),
           (''output'', JObj [(''calls'', JArr []), (''chainId'', JStr ''solana''), (''deadline'', JNum 3600),
              (''payments'', JArr [JObj [(''currency'', JStr ex_usdc), (''expectedAmount'', JStr ''5000000''),
                 (''minimumAmount'', JStr ''5000000''), (''recipient'', JStr ex_solana)]])])]),
        (''orderId'', JStr ex_order)])]),
     (''requestId'', JStr ''request-1''), (''steps'', JArr [])]"

definition ex_origin :: jsval where
  "ex_origin = JObj [(''address'', JStr ZERO_ADDRESS), (''amount'', JStr ''2000000000''), (''chainId'', JNum 4663), (''decimals'', JNum 18)]"

definition ex_destination :: jsval where
  "ex_destination = JObj [(''address'', JStr ex_usdc), (''amount'', JStr ''5000000''), (''chainId'', JNum 792703809), (''decimals'', JNum 6),
     (''minimumAmount'', JStr ''5000000'')]"

definition ex_quote :: jsval where
  "ex_quote = JObj [(''direction'', JStr ''OUTBOUND''), (''tradeType'', JStr ''EXACT_OUTPUT''), (''requestId'', JStr ''request-1''),
     (''orderId'', JStr ex_order), (''sender'', JStr ex_evm), (''recipient'', JStr ex_solana), (''deadlineUnixSeconds'', JNum 3600),
     (''origin'', ex_origin), (''destination'', ex_destination), (''stepCount'', JNum 0), (''raw'', ex_raw), (''quoteDigest'', JStr ex_digest)]"

definition ex_usd :: jsval where
  "ex_usd = JObj [
     (''amount'', JObj [(''amountAtomic'', JStr ''2000000000''), (''assetId'', JStr ''native''), (''chainId'', JStr ''4663''), (''decimals'', JNum 18)]),
     (''amountMicroUsd'', JStr ''5200000''), (''observedAtMs'', JNum 500), (''quoteDigest'', JStr ex_digest), (''quoteRequestId'', JStr ''request-1''),
     (''requestDigest'', JStr ex_digest), (''rounding'', JStr ''up''), (''schema'', JStr ''hookemon.quote-usd-valuation.v1''),
     (''sourcePath'', JStr ''details.currencyIn.amountUsd''), (''validUntilMs'', JNum 2000000)]"

definition ex_liability :: jsval where
  "ex_liability = JObj [(''schema'', JStr ''hookemon.process-liability-evidence.v2''), (''chainId'', JStr ''4663''), (''assetId'', JStr ''native''),
     (''decimals'', JNum 18), (''hook'', JStr ZERO_ADDRESS), (''cycleId'', JStr ex_cycle),
     (''onchainCycleId'', JStr (deriveOnchainCycleIdForEvidence ex_sha ex_cycle)), (''blockNumber'', JStr ''7''), (''blockHash'', JStr ex_order),
     (''finalized'', JBool True), (''processLiability'', JStr ''9000000000''), (''remainingProcessClaimCapacity'', JStr ''8000000000''),
     (''processClaimsPaused'', JBool False), (''processClaimCycleUsed'', JBool False), (''activeProcessClaimLimit'', JStr ''8000000000''),
     (''totalLiability'', JStr ''9000000000''), (''hookNativeBalance'', JStr ''9000000000''), (''isSolvent'', JBool True),
     (''operations'', JStr ex_evm), (''ceilingAtomic'', JStr ''8000000000'')]"

definition ex_leg :: leg where
  "ex_leg = \<lparr>lg_purchase = ex_purchase, lg_funding = ex_funding, lg_usd = ex_usd, lg_relay = ex_relay, lg_quote = ex_quote\<rparr>"

definition ex_admitted :: admission where
  "ex_admitted = \<lparr>ad_plan = None, ad_cycleId = ex_cycle, ad_orders = [\<lparr>ao_packId = ''pack-1'', ao_quantity = 1, ao_unit = ex_leg\<rparr>],
     ad_quantity = 1, ad_quoteDigest = ex_digest, ad_aggregate = ex_leg, ad_liability = ex_liability\<rparr>"

definition ex_admission :: jsval where
  "ex_admission = jsval_of_admission ex_admitted"

lemmas ex_values = ex_evm_def ex_solana_def ex_usdc_def ex_order_def ex_purchase_def ex_funding_def ex_relay_def ex_currency_def ex_raw_def
  ex_origin_def ex_destination_def ex_quote_def ex_usd_def ex_liability_def ex_leg_def ex_admitted_def ex_cycle_def ex_digest_def ex_sha_def
  ZERO_ADDRESS_def

lemma ex_digested: "\<exists>t. canonicalJson v = Inr t \<Longrightarrow> digest ex_sha v = Inr ex_digest"
  by (auto simp: digest_def ex_digest_def ex_sha_def)

lemma ex_canonical_parts:
  "\<exists>t. canonicalJson ex_raw = Inr t" "\<exists>t. canonicalJson ex_origin = Inr t" "\<exists>t. canonicalJson ex_destination = Inr t"
  "\<exists>t. canonicalJson ex_usd = Inr t"
  by (rule canonicalJson_accepts; simp add: ex_values json_limits)+

lemma ex_sorted_parts: "sortKeys ex_raw = ex_raw" "sortKeys ex_origin = ex_origin" "sortKeys ex_destination = ex_destination" "sortKeys ex_usd = ex_usd"
  by code_simp+

lemma ex_immutable:
  "immutableCanonicalValue ex_raw l = Inr ex_raw" "immutableCanonicalValue ex_origin l = Inr ex_origin"
  "immutableCanonicalValue ex_destination l = Inr ex_destination" "immutableCanonicalValue ex_usd l = Inr ex_usd"
  using ex_canonical_parts by (auto simp: immutableCanonicalValue_def ex_sorted_parts)

lemma ex_quote_checks:
  "checkQuoteIdentity ex_quote ex_relay PRODUCTION_ADMISSION_IDENTITY label = Inr ()" "assertQuoteRouteLeg ex_origin ex_funding label False = Inr ()"
  "assertQuoteRouteLeg ex_destination ex_purchase label True = Inr ()" "checkRawIdentity ex_quote label = Inr ()"
  "assertRawRelayLeg (jprop (jprop ex_raw ''details'') ''currencyIn'') ex_funding label False = Inr ()"
  "assertRawRelayLeg (jprop (jprop ex_raw ''details'') ''currencyOut'') ex_purchase label True = Inr ()"
  "checkRawOrder ex_quote ex_funding ex_purchase label = Inr ()"
  by code_simp+

lemma ex_quote_fields:
  "notObject ex_quote = False" "jprop ex_quote ''raw'' = ex_raw" "jprop ex_quote ''origin'' = ex_origin" "jprop ex_quote ''destination'' = ex_destination"
  "quoteOf ex_quote ex_origin ex_destination ex_raw = ex_quote" "jprop ex_quote ''quoteDigest'' = JStr ex_digest" "jprop ex_relay ''quoteDigest'' = JStr ex_digest"
  by code_simp+

lemma ex_evidence: "relayQuoteEvidenceDigest ex_sha ex_quote = Inr ex_digest"
  unfolding relayQuoteEvidenceDigest_def
  by (rule ex_digested) (rule canonicalJson_accepts; simp add: ex_values json_limits jprop_JObj)

lemma ex_normalized_quote: "normalizeUnitRelayQuote ex_sha ex_quote ex_funding ex_purchase ex_relay PRODUCTION_ADMISSION_IDENTITY label = Inr ex_quote"
  by (simp add: normalizeUnitRelayQuote_def Let_def ex_quote_fields ex_immutable ex_quote_checks ex_evidence throwIf_def strictEq_def)

lemma ex_usd_checked:
  "throwWhen [Inr (falsy ex_usd), Inr (\<not> exactKeys ex_usd fundingUsdFields), Inr (jprop ex_usd ''schema'' \<noteq> JStr ''hookemon.quote-usd-valuation.v1''),
          Inr (\<not> strictEq (jprop ex_usd ''quoteDigest'') (jprop ex_relay ''quoteDigest'')),
          Inr (\<not> strictEq (jprop ex_usd ''quoteRequestId'') (jprop ex_relay ''requestId'')),
          Inr (\<not> testPattern digest_pattern (orElse (jprop ex_usd ''requestDigest'') (JStr []))),
          Inr (jprop ex_usd ''sourcePath'' \<noteq> JStr ''details.currencyIn.amountUsd''), Inr (jprop ex_usd ''rounding'' \<noteq> JStr ''up''),
          textsDiffer (jprop ex_usd ''amount'') (jsval_of_amount ex_funding),
          Inr (\<not> isSafeInteger (jprop ex_usd ''observedAtMs'') \<or> num_of (jprop ex_usd ''observedAtMs'') < 0),
          Inr (\<not> isSafeInteger (jprop ex_usd ''validUntilMs'') \<or> num_of (jprop ex_usd ''validUntilMs'') \<le> num_of (jprop ex_usd ''observedAtMs'')),
          Inr (num_of (jprop ex_relay ''deadlineUnixSeconds'') * 1000 < num_of (jprop ex_usd ''validUntilMs''))]
        m = Inr ()"
  "assertAmount (jprop ex_usd ''amountMicroUsd'') l True = Inr 5200000"
  by code_simp+

lemma ex_normalized_usd: "normalizeFundingUsd ex_usd ex_funding ex_relay = Inr ex_usd"
  unfolding normalizeFundingUsd_def Let_def ex_usd_checked bindE_simps ex_immutable ..

lemma ex_normalized_liability: "normalizeProcessLiabilityEvidence ex_sha ex_liability ex_cycle PRODUCTION_ADMISSION_IDENTITY = Inr ex_liability"
  by code_simp

lemma ex_admission_fields:
  "notObject ex_admission = False" "jprop ex_admission ''schema'' = JStr ''hookemon.policy-admission.v3''" "jprop ex_admission ''cycleId'' = JStr ex_cycle"
  "jprop ex_admission ''packId'' = JStr ''pack-1''" "jprop ex_admission ''quantity'' = JNum 1" "jprop ex_admission ''quoteDigest'' = JStr ex_digest"
  "jprop ex_admission ''processLiabilityEvidence'' = ex_liability" "jprop ex_admission ''relay'' = ex_relay" "jprop ex_admission ''unitRelay'' = ex_relay"
  "jprop ex_admission ''unitRelayQuote'' = ex_quote" "jprop ex_admission ''relayQuote'' = ex_quote"
  "jprop ex_admission ''unitFundingUsd'' = ex_usd" "jprop ex_admission ''aggregateFundingUsd'' = ex_usd"
  by (simp_all add: ex_admission_def jsval_of_admission_def jsval_of_pack_admission_def ex_admitted_def ex_leg_def jprop_JObj notObject_def Let_def
      falsy_def typeofObject_def isArray_def)

lemma ex_pack_amounts: "packAmounts ex_admission PRODUCTION_ADMISSION_IDENTITY
    = Inr \<lparr>am_unitPurchase = ex_purchase, am_aggregatePurchase = ex_purchase, am_unitFunding = ex_funding, am_aggregateFunding = ex_funding\<rparr>"
  by code_simp

lemma ex_admission_checks:
  "checkLiabilityCeiling ex_funding ex_liability = Inr ()" "checkAggregateRelay ex_relay PRODUCTION_ADMISSION_IDENTITY ex_purchase = Inr ()"
  "checkUnitRelay ex_relay PRODUCTION_ADMISSION_IDENTITY ex_purchase = Inr ()" "JObj (spread ex_relay) = ex_relay"
  "digest_pattern ex_digest = True" "cycleIdPattern ex_cycle = True"
  by code_simp+

lemma ex_normalized: "normalizePolicyAdmission ex_sha ex_admission Pinned = Inr ex_admitted"
  by (simp add: normalizePolicyAdmission_def normalizePackAdmission_def Let_def ex_admission_fields ex_pack_amounts ex_admission_checks ex_normalized_liability
      ex_normalized_quote ex_normalized_usd ex_quote_fields throwIf_def assertOperationsAccounts_def assertPolicyCycleId_def assertPackId_def
      nonemptyString_def isInteger_def MAXIMUM_PACK_BATCH_SIZE_def isString_def ex_admitted_def ex_leg_def)

section \<open>The operator document\<close>

definition ex_limits :: "spend_entry list \<Rightarrow> cycle_entry list \<Rightarrow> operator_configuration" where
  "ex_limits spends cycles =
     \<lparr>oc_intervalMinutes = 20, oc_allowedPackIds = [''pack-1''], oc_packPlan = \<lparr>pp_revision = 0, pp_orders = []\<rparr>, oc_rewardRecipientLimit = 200,
      oc_requestedOrders = 1, oc_maxBoostersPerCycle = 1, oc_maxUnitPriceMicroUsd = ''6000000'', oc_maxCycleBudgetMicroUsd = ''6000000'',
      oc_max24HourBudgetMicroUsd = ''12000000'', oc_processClaimLimit6hMicroUsd = ''25000000000'', oc_paused = False, oc_liveMode = True,
      oc_maxCyclesPerDay = 2, oc_perCycleCapMicroUsd = ''6000000'', oc_lossCapMicroUsd = ''6000000'', oc_maxOutstandingCustodyMicroUsd = ''6000000'',
      oc_maxHeldPositions = 10, oc_maxHeldValueMicroUsd = ''5000000000'', oc_unresolvedCardDeadlineMinutes = 30, oc_executionPaused = False,
      oc_killSwitch = False, oc_manualApprovalCycles = 0, oc_pendingEpicDecisions = [], oc_approvalsByCycleDigest = [], oc_spendLedger = spends,
      oc_cycleLedger = cycles, oc_configurationRevision = 1\<rparr>"

definition ex_spend :: spend_entry where
  "ex_spend = \<lparr>se_cycleId = ex_cycle, se_cycleDigest = ex_digest, se_amountMicroUsd = ''5200000'', se_reservedAtMs = 1000\<rparr>"

definition ex_entry :: cycle_entry where
  "ex_entry = \<lparr>ce_cycleId = ex_cycle, ce_cycleDigest = ex_digest, ce_mode = ''production'', ce_openedAtMs = 1000,
     ce_releaseAmountWei = ''2000000000'', ce_releaseCostMicroUsd = ''5200000''\<rparr>"

abbreviation ex_open :: operator_configuration where "ex_open \<equiv> ex_limits [] []"
abbreviation ex_reserved :: operator_configuration where "ex_reserved \<equiv> ex_limits [ex_spend] [ex_entry]"

lemma ex_open_accepted: "assertOperatorConfiguration (jsval_of_configuration ex_open) = Inr ex_open"
  by code_simp

lemma ex_reserved_accepted: "assertOperatorConfiguration (jsval_of_configuration ex_reserved) = Inr ex_reserved"
  by code_simp

lemma ex_hard_caps: "assertPolicyHardCaps ex_open = Inr ex_open" "assertPolicyHardCaps ex_reserved = Inr ex_reserved"
  "assertOperatorHardCaps ''operator'' ex_open = Inr ex_open" "assertOperatorHardCaps ''operator'' ex_reserved = Inr ex_reserved"
  by code_simp+

lemma ex_policies: "policyConfiguration (jsval_of_configuration ex_open) = Inr ex_open" "policyConfiguration (jsval_of_configuration ex_reserved) = Inr ex_reserved"
  by (simp_all add: policyConfiguration_def ex_open_accepted ex_reserved_accepted ex_hard_caps)

definition ex_limits_patch :: jsval where
  "ex_limits_patch = JObj [(''allowedPackIds'', JArr [JStr ''pack-1'']), (''requestedOrders'', JNum 1), (''maxUnitPriceMicroUsd'', JStr ''6000000''),
     (''maxCycleBudgetMicroUsd'', JStr ''6000000''), (''max24HourBudgetMicroUsd'', JStr ''12000000''), (''liveMode'', JBool True), (''maxCyclesPerDay'', JNum 2),
     (''lossCapMicroUsd'', JStr ''6000000''), (''maxOutstandingCustodyMicroUsd'', JStr ''6000000'')]"

lemma ex_limits_patched:
  "checkPatch ex_limits_patch = Inr ()" "hasOwn ex_limits_patch ''packPlan'' = False"
  "withProps (spread (jsval_of_configuration (ex_configuration False 0))) (spread ex_limits_patch @ pairedCaps ex_limits_patch @
     [(''configurationRevision'', JNum (oc_configurationRevision (ex_configuration False 0) + 1))]) = jsval_of_configuration ex_open"
  by code_simp+

lemma ex_applied: "applyOperatorConfiguration JNull ex_limits_patch = Inr ex_open"
  by (simp add: applyOperatorConfiguration_def ex_default ex_limits_patched ex_open_accepted)

definition ex_state :: "int \<Rightarrow> operator_configuration \<Rightarrow> operator_state" where
  "ex_state r c = \<lparr>os_revision = r, os_configuration = Some c\<rparr>"

lemma ex_state_canonical:
  "\<exists>t. canonicalJson (jsval_of_state (ex_state 0 ex_open)) = Inr t" "\<exists>t. canonicalJson (jsval_of_state (ex_state 1 ex_reserved)) = Inr t"
  by (rule canonicalJson_accepts; simp add: ex_values json_limits jsval_of_state_def ex_state_def configurationValue_def jsval_of_configuration_def ex_limits_def
      ex_spend_def ex_entry_def jsval_of_plan_def ordersArray_def PACK_PLAN_SCHEMA_def OPERATOR_CONFIGURATION_SCHEMA_def jsval_of_spend_entry_def
      jsval_of_cycle_entry_def)+

lemma ex_state_checks:
  "jprop (jsval_of_state (ex_state r c)) ''configuration'' = jsval_of_configuration c" "jprop (jsval_of_state (ex_state r c)) ''revision'' = JNum r"
  "jprop (jsval_of_state (ex_state r c)) ''schema'' = JStr ''hookemon.operator-state.v2''"
  "isPlainObject (jsval_of_state (ex_state r c))" "exactKeys (jsval_of_state (ex_state r c)) [''schema'', ''revision'', ''configuration'']"
  "spread (jsval_of_state s) = [(''schema'', JStr ''hookemon.operator-state.v2''), (''revision'', JNum (os_revision s)),
     (''configuration'', configurationValue (os_configuration s))]"
  by (simp_all add: jsval_of_state_def ex_state_def jprop_JObj configurationValue_def isPlainObject_def exactKeys_def hasOwn_def ownKeys_def spread_def list_ex_iff)

lemma ex_state_accepted:
  "assertOperatorState (jsval_of_state (ex_state 0 ex_open)) = Inr (ex_state 0 ex_open)"
  "assertOperatorState (jsval_of_state (ex_state 1 ex_reserved)) = Inr (ex_state 1 ex_reserved)"
proof -
  have "jsval_of_configuration c \<noteq> JNull" for c by (simp add: jsval_of_configuration_def)
  then show "assertOperatorState (jsval_of_state (ex_state 0 ex_open)) = Inr (ex_state 0 ex_open)"
      "assertOperatorState (jsval_of_state (ex_state 1 ex_reserved)) = Inr (ex_state 1 ex_reserved)"
    using ex_state_canonical
    by (auto simp: assertOperatorState_def assertExactPlainObject_def ex_state_checks ex_open_accepted ex_reserved_accepted ex_hard_caps
        isInteger_def throwIf_def ex_state_def [symmetric])
qed

lemma ex_edited: "operatorEdit None ex_limits_patch None = Inr (ex_state 0 ex_open, ())"
proof -
  have "withProps (spread (withProps (spread (jsval_of_state createEmptyOperatorState)) [(''configuration'', jsval_of_configuration c)]))
      [(''revision'', JNum 0)] = jsval_of_state (ex_state 0 c)" for c
    by (simp add: ex_state_checks withProps_def createEmptyOperatorState_def) (simp add: spread_def jsval_of_state_def ex_state_def configurationValue_def)
  then show ?thesis
    by (simp add: operatorEdit_def mutateOperatorState_def throwIf_def ex_applied ex_state_accepted Let_def)
      (simp add: createEmptyOperatorState_def configurationValue_def ex_applied ex_state_accepted)
qed

section \<open>The claim\<close>

definition ex_input :: "string \<Rightarrow> jsval" where
  "ex_input b = JObj [(''boundary'', JStr b), (''stage'', JStr ''open''), (''liveMode'', JBool True), (''cycleId'', JStr ex_cycle), (''packId'', JStr ''pack-1''),
     (''releaseCostMicroUsd'', JStr ''5200000''), (''releaseAmountWei'', JStr ''2000000000''), (''admission'', ex_admission), (''now'', JNum 1000)]"

definition ex_context :: "string \<Rightarrow> policy_context" where
  "ex_context b = \<lparr>cx_boundary = b, cx_liveMode = JBool True, cx_mode = JStr ''production'', cx_now = 1000, cx_releaseAmount = 5200000,
     cx_releaseWei = 2000000000, cx_cap = None, cx_cycleId = Some ex_cycle, cx_packId = Some ''pack-1'', cx_admission = Some ex_admitted,
     cx_operations = Pinned, cx_expired = False\<rparr>"

lemma ex_input_fields:
  "jprop (ex_input b) f = (if f = ''boundary'' then JStr b else if f = ''stage'' then JStr ''open'' else if f = ''liveMode'' then JBool True
     else if f = ''cycleId'' then JStr ex_cycle else if f = ''packId'' then JStr ''pack-1'' else if f = ''releaseCostMicroUsd'' then JStr ''5200000''
     else if f = ''releaseAmountWei'' then JStr ''2000000000'' else if f = ''admission'' then ex_admission else if f = ''now'' then JNum 1000 else JUndefined)"
  "notObject (ex_input b) = False" "withNow (ex_input b) 1000 = ex_input b"
  by (simp_all add: ex_input_def jprop_JObj notObject_def falsy_def typeofObject_def isArray_def withNow_def spread_def withProps_def)

lemma ex_admission_defined: "ex_admission \<noteq> JUndefined" "falsy ex_admission = False"
  by (simp_all add: ex_admission_def jsval_of_admission_def ex_admitted_def jsval_of_pack_admission_def Let_def falsy_def)

lemma ex_input_amounts:
  "optionalAmount (JStr ''5200000'') l = Inr (Some 5200000)" "optionalAmount (JStr ''2000000000'') l = Inr (Some 2000000000)"
  "assertPolicyCycleId (JStr ex_cycle) = Inr ex_cycle" "assertPackId (JStr ''pack-1'') = Inr ''pack-1''" "cycleMode (JBool True) JUndefined = Inr ''production''"
  "assertPolicyClock (JNum 1000) = Inr 1000" "atomic (lg_funding (ad_aggregate ex_admitted)) = 2000000000" "usdCost (ad_aggregate ex_admitted) = 5200000"
  "admissionPackId ex_admitted = ''pack-1''" "ad_quantity ex_admitted = 1" "ad_cycleId ex_admitted = ex_cycle"
  by code_simp+

lemma ex_unexpired: "admissionExpired b 1000 ex_admitted = False"
  by (simp add: admissionExpired_def) (simp add: ex_admitted_def ex_leg_def relayDeadlineMs_def ex_relay_def jprop_JObj)

lemma ex_contexts:
  assumes "b \<in> set policyBoundaries"
  shows "admissionContext ex_sha Pinned (ex_input b) = Inr (ex_context b)"
  using assms
  by (simp add: admissionContext_def ex_input_fields ex_input_amounts assertBoundary_def throwIf_def amountOr0_def nullish_def optionalAmount_def [of JUndefined]
      assertOperationsAccounts_def optionalAdmission_def ex_admission_defined ex_normalized resolvedArg_def finishContext_def checkAdmissionContext_def
      ex_unexpired optionalString_def contextOf_def ex_context_def Let_def)

lemma ex_fresh: "hasFreshFundingUsd ex_admission (Some ex_verify) 1000 = Inr True"
  by code_simp

lemma ex_custody: "normalizeCustody zeroCustody = Inr \<lparr>cu_realizedLoss = 0, cu_atRisk = 0, cu_outstanding = 0, cu_heldAssets = False, cu_heldCount = 0,
    cu_heldValue = 0, cu_unattributed = False, cu_unvalued = False, cu_cycleExposure = []\<rparr>"
  by code_simp

section \<open>Decisions\<close>

lemma ex_inputs: "contextInput (ex_context b) ''5200000'' ''2000000000'' =
    \<lparr>di_cycleId = JStr ex_cycle, di_releaseCost = JStr ''5200000'', di_releaseWei = JStr ''2000000000'', di_packId = JStr ''pack-1'',
     di_liveMode = JBool True, di_mode = JStr ''production'', di_admission = ex_admission\<rparr>"
  by (simp add: contextInput_def ex_context_def ex_admission_def)

lemma ex_texts: "dec_of_nat (cx_releaseAmount (ex_context b)) = ''5200000''" "dec_of_nat (cx_releaseWei (ex_context b)) = ''2000000000''"
  by (simp_all add: ex_context_def) code_simp+

lemma ex_material: "\<exists>t. canonicalJson (JObj [(''schema'', JStr ''hookemon.policy-cycle.v5''), (''cycleId'', JStr ex_cycle), (''releaseCostMicroUsd'', JStr ''5200000''),
     (''releaseAmountWei'', JStr ''2000000000''), (''packId'', JStr ''pack-1''), (''mode'', JStr ''production''), (''policy'', policyMaterial (ex_limits spends cycles)),
     (''admission'', ex_admission)]) = Inr t"
  by (rule canonicalJson_accepts; simp add: ex_values json_limits ex_admission_def jsval_of_admission_def jsval_of_pack_admission_def jsval_of_amount_def
      Let_def policyMaterial_def ex_limits_def deriveOnchainCycleIdForEvidence_def)

lemma ex_derived:
  assumes "policyConfiguration (jsval_of_configuration (ex_limits spends cycles)) = Inr (ex_limits spends cycles)"
  shows "deriveCyclePolicyDigest ex_sha Pinned (jsval_of_configuration (ex_limits spends cycles)) (contextInput (ex_context b) ''5200000'' ''2000000000'')
    = Inr ex_digest"
proof -
  have a: "assertAmount (JStr ''5200000'') l True = Inr 5200000" "assertAmount (JStr ''2000000000'') l True = Inr 2000000000" for l by code_simp+
  have m: "cycleMode (JBool True) (JStr ''production'') = Inr ''production''" by code_simp
  have p: "isPlanAdmission ex_admitted = False" by (simp add: isPlanAdmission_def ex_admitted_def)
  have j: "jsval_of_admission ex_admitted = ex_admission" by (simp add: ex_admission_def)
  show ?thesis
    unfolding deriveCyclePolicyDigest_def assms ex_inputs
    by (simp add: a ex_input_amounts optionalAdmission_def ex_admission_defined ex_normalized throwIf_def admittedConfiguration_def p digestCyclePolicy_def m j
        ex_digested [OF ex_material])
qed

definition ex_zero :: custody_state where
  "ex_zero = \<lparr>cu_realizedLoss = 0, cu_atRisk = 0, cu_outstanding = 0, cu_heldAssets = False, cu_heldCount = 0,
    cu_heldValue = 0, cu_unattributed = False, cu_unvalued = False, cu_cycleExposure = []\<rparr>"

lemma ex_claim_checks:
  "existingCycle ex_open ex_cycle = None" "allPacksAllowed ex_open (ex_context b)" "planAdmission (ex_context b) = None"
  "effectiveCycleCap ex_open (ex_context b) = 6000000" "nat_of_dec (oc_maxCycleBudgetMicroUsd ex_open) = 6000000"
  "modeCycles ex_open (ex_context b) = []" "claimReservation ex_open ex_zero (ex_context b) None ex_digest = Inr (Allowed (Some ex_digest))"
  by code_simp+

lemma ex_context_fields:
  "cx_boundary (ex_context b) = b" "cx_liveMode (ex_context b) = JBool True" "cx_now (ex_context b) = 1000" "cx_releaseAmount (ex_context b) = 5200000"
  "cx_releaseWei (ex_context b) = 2000000000" "cx_cycleId (ex_context b) = Some ex_cycle" "cx_packId (ex_context b) = Some ''pack-1''"
  "cx_admission (ex_context b) = Some ex_admitted" "cx_operations (ex_context b) = Pinned" "cx_expired (ex_context b) = False"
  by (simp_all add: ex_context_def)

lemma ex_limits_fields:
  "oc_requestedOrders (ex_limits s e) = 1" "oc_maxHeldPositions (ex_limits s e) = 10" "oc_maxCyclesPerDay (ex_limits s e) = 2"
  "oc_liveMode (ex_limits s e) = True" "oc_killSwitch (ex_limits s e) = False" "oc_executionPaused (ex_limits s e) = False"
  by (simp_all add: ex_limits_def)

lemma ex_zero_fields: "cu_heldCount ex_zero = 0" "cu_heldValue ex_zero = 0" "cu_unattributed ex_zero = False" "cu_unvalued ex_zero = False"
  by (simp_all add: ex_zero_def)

lemma ex_claim_decided: "claimDecision ex_sha ex_open ex_zero (ex_context b) = Inr (Allowed (Some ex_digest))"
  unfolding claimDecision_def Let_def ex_texts
  using ex_derived [OF ex_policies(1)]
  by (simp add: refuseIf_def ex_claim_checks throwIf_def ex_context_fields ex_limits_fields ex_zero_fields ex_input_amounts)

lemma ex_gate:
  "policyGate (Some ex_verify) (ex_limits s e) (ex_context ''claim-process'') (ex_input ''claim-process'') = Inr OwnChecks"
  "policyGate (Some ex_verify) (ex_limits s e) (ex_context ''mutation'') (ex_input ''mutation'') = Inr Recorded"
  by (simp_all add: policyGate_def Let_def ex_context_fields ex_limits_fields ex_input_fields ex_fresh mutationBoundaries_def executionBoundaries_def)

lemma ex_claim_allowed:
  "evaluateConfiguredPolicy ex_sha Pinned (Some ex_verify) (jsval_of_configuration ex_open) zeroCustody (ex_input ''claim-process'')
    = Inr (Allowed (Some ex_digest))"
  unfolding evaluateConfiguredPolicy.simps [of ex_sha Pinned "Some ex_verify" "jsval_of_configuration ex_open"]
  by (simp add: ex_contexts policyBoundaries_def ex_policies ex_custody ex_gate ownChecks_def refuseIf_def ex_claim_checks
      ex_context_fields ex_claim_decided [unfolded ex_zero_def])

lemma ex_reservation: "reservationConfiguration ex_open (JStr ex_digest) (ex_input ''claim-process'') 1000 = Inr ex_reserved"
proof -
  have "withProps (spread (jsval_of_configuration ex_open))
          [(''cycleLedger'', JArr [jsval_of_cycle_entry ex_entry]), (''spendLedger'', JArr [jsval_of_spend_entry ex_spend])]
      = jsval_of_configuration ex_reserved" by code_simp
  moreover have "JObj [(''cycleId'', JStr ex_cycle), (''cycleDigest'', JStr ex_digest), (''mode'', JStr ''production''), (''openedAtMs'', JNum 1000),
       (''releaseCostMicroUsd'', JStr ''5200000''), (''releaseAmountWei'', JStr ''2000000000'')] = jsval_of_cycle_entry ex_entry"
      "JObj [(''cycleId'', JStr ex_cycle), (''cycleDigest'', JStr ex_digest), (''amountMicroUsd'', JStr ''5200000''), (''reservedAtMs'', JNum 1000)]
        = jsval_of_spend_entry ex_spend"
    by (simp_all add: ex_entry_def ex_spend_def jsval_of_cycle_entry_def jsval_of_spend_entry_def)
  moreover have "oc_cycleLedger ex_open = []" "oc_spendLedger ex_open = []" by (simp_all add: ex_limits_def)
  ultimately show ?thesis
    by (simp add: reservationConfiguration_def ex_input_fields ex_claim_checks ex_input_amounts ex_reserved_accepted)
qed

lemma ex_admit:
  "admit ex_sha Pinned ex_verify (Some ex_open) zeroCustody 1000 zeroCustody 1000 1000 (ex_input ''claim-process'') (Some (ex_state 0 ex_open))
    = Inr (Some (ex_state 1 ex_reserved), Allowed (Some ex_digest))"
proof -
  have "withProps (spread (withProps (spread (jsval_of_state (ex_state 0 ex_open))) [(''configuration'', jsval_of_configuration ex_reserved)]))
      [(''revision'', JNum 1)] = jsval_of_state (ex_state 1 ex_reserved)"
    by (simp add: ex_state_checks withProps_def) (simp add: spread_def jsval_of_state_def ex_state_def configurationValue_def)
  then show ?thesis
    by (simp add: admit_def policyEvaluate_def ex_input_fields ex_claim_allowed reservesPolicy_def isAllowed_def mutatePolicyConfiguration_def throwIf_def
        nullish_def mutateOperatorState_def reserve_def decisionDigest_def ex_reservation ex_state_accepted ex_state_def [of 0 ex_open])
qed

lemma ex_execution_checks:
  "existingCycle ex_reserved ex_cycle = Some ex_entry" "allPacksAllowed ex_reserved (ex_context b)" "recordedFor (ex_context b) ex_entry"
  "effectiveCycleCap ex_reserved (ex_context b) = 6000000" "nat_of_dec (oc_maxCycleBudgetMicroUsd ex_reserved) = 6000000"
  "reservationOf ex_reserved ex_digest = Some ex_spend" "se_amountMicroUsd ex_spend = ce_releaseCostMicroUsd ex_entry" "ce_cycleDigest ex_entry = ex_digest"
  "approvalMissing ex_reserved (ex_context b) (ordinalOf ex_digest (modeCycles ex_reserved (ex_context b))) ex_digest = False"
  "lossExceeded ex_reserved ex_zero 0 = False" "custodyExceeded ex_reserved ex_zero 0 = False"
  by code_simp+

lemma ex_execution_decided: "evaluateExistingCycleExecution ex_sha ex_reserved ex_zero (ex_context b) = Inr (Allowed (Some ex_digest))"
  unfolding evaluateExistingCycleExecution_def ex_texts
  using ex_derived [OF ex_policies(2)]
  by (simp add: refuseIf_def ex_execution_checks throwIf_def ex_context_fields matchingExistingCycleDigest_def)

lemma ex_execution_allowed:
  "evaluateConfiguredPolicy ex_sha Pinned (Some ex_verify) (jsval_of_configuration ex_reserved) zeroCustody (ex_input ''mutation'')
    = Inr (Allowed (Some ex_digest))"
  unfolding evaluateConfiguredPolicy.simps [of ex_sha Pinned "Some ex_verify" "jsval_of_configuration ex_reserved"]
  by (simp add: ex_contexts policyBoundaries_def ex_policies ex_custody ex_gate ex_execution_decided [unfolded ex_zero_def])

lemma ex_reachable: "policy_reachable ex_sha Pinned ex_verify \<lparr>py_state = Some (ex_state 1 ex_reserved), py_now = 1000\<rparr>"
proof -
  have "policy_step ex_sha Pinned ex_verify \<lparr>py_state = None, py_now = 0\<rparr> (\<lparr>py_state = None, py_now = 0\<rparr>\<lparr>py_state := Some (ex_state 0 ex_open)\<rparr>)"
    by (rule policy_step.edited [where patch = ex_limits_patch and expected = None and u = "()"])
      (simp_all add: ex_edited, simp add: ex_limits_patch_def ownKeys_def)
  then have s: "policy_reachable ex_sha Pinned ex_verify \<lparr>py_state = Some (ex_state 0 ex_open), py_now = 0\<rparr>"
    using policy_reachable.step [OF policy_reachable.initial] by fastforce
  have "policy_step ex_sha Pinned ex_verify \<lparr>py_state = Some (ex_state 0 ex_open), py_now = 0\<rparr>
      (\<lparr>py_state = Some (ex_state 0 ex_open), py_now = 0\<rparr>\<lparr>py_state := Some (ex_state 1 ex_reserved), py_now := 1000\<rparr>)"
    by (rule policy_step.admitted [where ?now1.0 = 1000 and ?now2.0 = 1000 and st = "Some (ex_state 1 ex_reserved)"])
      (simp, simp, simp only: policy_sys.simps, rule ex_admit)
  then show ?thesis using policy_reachable.step [OF s] by fastforce
qed

end
