(* ===== verification/Policy_Safety.thy ===== *)
theory Policy_Safety
  imports Policy_Scenario
begin

text \<open>
  What the spending policy guarantees: decisions are inverted to the limits they checked, execution boundaries need a reservation, and the
  interleavings of \<open>policy_step\<close> keep every 24-hour window of reservations within the fixed hard cap.
\<close>

section \<open>Inversion of decisions\<close>

lemma refuseIf_Allowed [res_simps]: "refuseIf b reason rest = Inr (Allowed d) \<longleftrightarrow> \<not> b \<and> rest = Inr (Allowed d)"
  by (simp add: refuseIf_def)

lemma revalidated:
  assumes g: "assertOperatorConfiguration given = Inr c" and a: "assertOperatorConfiguration (jsval_of_configuration c) = Inr c'"
  shows "c' = c"
proof -
  let ?v = "jsval_of_configuration c"
  have v: "?v = withClaimLimit ?v" by (rule withClaimLimit_id [symmetric]) (simp add: hasOwn_def ownKeys_def jsval_of_configuration_def)
  have f: "jprop (jsval_of_configuration c') f = jprop ?v f" if "f \<in> set plainFields" for f by (rule accepted_fields_kept [OF a v that])
  note l = accepted_lists [OF a v]
  have lists: "oc_cycleLedger c' = oc_cycleLedger c" "oc_spendLedger c' = oc_spendLedger c" "oc_pendingEpicDecisions c' = oc_pendingEpicDecisions c"
    by (simp_all add: l(1-3) comp_def)
  have plan: "oc_packPlan c' = oc_packPlan c" by (rule assertPackPlan_again) (use l(8) in simp)
  have approvals: "oc_approvalsByCycleDigest c' = oc_approvalsByCycleDigest c"
    by (rule assertApprovals_again [OF accepted_lists(6) [OF g refl]]) (use l(7) in simp)
  have "inj JStr" by (simp add: inj_def)
  then have ids: "oc_allowedPackIds c' = oc_allowedPackIds c" using f [of "''allowedPackIds''"] by (simp add: plainFields_def inj_map_eq_map)
  have all: "list_all (\<lambda>f. jprop (jsval_of_configuration c') f = jprop ?v f) plainFields" using f by (simp add: list_all_iff)
  show ?thesis
    by (rule operator_configuration.equality)
      (use all ids lists plan approvals in \<open>simp_all add: plainFields_def\<close>)
qed

lemma policyConfiguration_Inr: "policyConfiguration v = Inr c \<longleftrightarrow> assertOperatorConfiguration v = Inr c \<and> assertPolicyHardCaps c = Inr c"
proof -
  have "assertPolicyHardCaps c' = Inr c \<Longrightarrow> c' = c" for c' by (auto simp: assertPolicyHardCaps_def assertOperatorHardCaps_def bindE_Inr_iff)
  then show ?thesis by (auto simp: policyConfiguration_def bindE_Inr_iff)
qed

definition DAY_HARD_CAP :: nat where
  "DAY_HARD_CAP = MAX_UNIT_PRICE_MICRO_USD * CYCLE_BUDGET_MULTIPLE * DAILY_BUDGET_MULTIPLE"

lemmas hard_cap_defs = MAX_UNIT_PRICE_MICRO_USD_def CYCLE_BUDGET_MULTIPLE_def DAILY_BUDGET_MULTIPLE_def

lemma hardCaps_Inr:
  assumes "assertPolicyHardCaps c = Inr c'"
  shows "nat_of_dec (oc_max24HourBudgetMicroUsd c) \<le> DAY_HARD_CAP" and "nat_of_dec (oc_maxUnitPriceMicroUsd c) \<le> MAX_UNIT_PRICE_MICRO_USD"
  using assms
  by (auto simp: assertPolicyHardCaps_def assertOperatorHardCaps_def OPERATOR_HARD_CAPS_def DAY_HARD_CAP_def bindE_Inr_iff throwIf_Inr not_less)

text \<open>
  What the limits of a claim are, for a context, a configuration and the custody it is decided on.  \<open>claimCostLimits\<close> bounds the cost,
  \<open>claimCustodyLimits\<close> the money already out, \<open>claimCycleLimits\<close> the cycle and its reservation, \<open>claimPackLimits\<close> what is bought.
\<close>

definition claimCostLimits :: "operator_configuration \<Rightarrow> policy_context \<Rightarrow> string \<Rightarrow> bool" where
  "claimCostLimits c cx d =
     (let cost = cx_releaseAmount cx in
      cost \<le> nat_of_dec (oc_maxCycleBudgetMicroUsd c) \<and> cost \<le> nat_of_dec (oc_perCycleCapMicroUsd c)
      \<and> (\<forall>cap. cx_cap cx = Some cap \<longrightarrow> cost \<le> cap)
      \<and> (\<Sum>e \<leftarrow> filter (\<lambda>e. se_reservedAtMs e \<le> cx_now cx \<and> cx_now cx - se_reservedAtMs e < 86400000) (oc_spendLedger c). nat_of_dec (se_amountMicroUsd e))
          + (if reservationOf c d = None then cost else 0) \<le> nat_of_dec (oc_max24HourBudgetMicroUsd c))"

definition claimCustodyLimits :: "operator_configuration \<Rightarrow> custody_state \<Rightarrow> policy_context \<Rightarrow> string \<Rightarrow> bool" where
  "claimCustodyLimits c cu cx d =
     (let pending = (case reservationOf c d of None \<Rightarrow> cx_releaseAmount cx | Some r \<Rightarrow> nat_of_dec (se_amountMicroUsd r))
            - (case map_of (cu_cycleExposure cu) (the (cx_cycleId cx)) of None \<Rightarrow> 0 | Some n \<Rightarrow> n) in
      cu_realizedLoss cu + cu_atRisk cu + pending \<le> nat_of_dec (oc_lossCapMicroUsd c)
      \<and> cu_outstanding cu + pending \<le> nat_of_dec (oc_maxOutstandingCustodyMicroUsd c)
      \<and> cu_heldCount cu < oc_maxHeldPositions c \<and> cu_heldValue cu \<le> nat_of_dec (oc_maxHeldValueMicroUsd c)
      \<and> \<not> cu_unattributed cu \<and> \<not> cu_unvalued cu)"

definition approvedFor :: "operator_configuration \<Rightarrow> policy_context \<Rightarrow> string \<Rightarrow> bool" where
  "approvedFor c cx d = (\<exists>a. omap_get (oc_approvalsByCycleDigest c) d = Some a \<and> Some (ap_cycleId a) = cx_cycleId cx)"

definition claimCycleLimits :: "operator_configuration \<Rightarrow> custody_state \<Rightarrow> policy_context \<Rightarrow> string \<Rightarrow> bool" where
  "claimCycleLimits c cu cx d =
     (let cycles = filter (\<lambda>e. JStr (ce_mode e) = cx_mode cx) (oc_cycleLedger c) in
      (case existingCycle c (the (cx_cycleId cx)) of
         None \<Rightarrow> int (length (filter (\<lambda>e. ce_openedAtMs e \<le> cx_now cx \<and> cx_now cx - ce_openedAtMs e < 86400000) cycles)) < oc_maxCyclesPerDay c
           \<and> (int (Suc (length cycles)) \<le> oc_manualApprovalCycles c \<longrightarrow> approvedFor c cx d)
       | Some e \<Rightarrow> ce_cycleDigest e = d \<and> (\<exists>r. reservationOf c d = Some r \<and> se_amountMicroUsd r = dec_of_nat (cx_releaseAmount cx))
           \<and> (\<forall>n < length cycles. ce_cycleDigest (cycles ! n) = d \<and> (\<forall>m < n. ce_cycleDigest (cycles ! m) \<noteq> d)
                \<and> int (Suc n) \<le> oc_manualApprovalCycles c \<longrightarrow> approvedFor c cx d))
      \<and> (\<forall>r. reservationOf c d = Some r \<longrightarrow> se_reservedAtMs r \<le> cx_now cx \<and> cx_now cx - se_reservedAtMs r < 86400000
           \<and> map_of (cu_cycleExposure cu) (the (cx_cycleId cx)) \<noteq> None))"

definition claimPackLimits :: "operator_configuration \<Rightarrow> policy_context \<Rightarrow> bool" where
  "claimPackLimits c cx =
     (case planAdmission cx of
        Some a \<Rightarrow> ad_quantity a \<le> oc_maxBoostersPerCycle c
          \<and> (\<forall>o' \<in> set (ad_orders a). ao_packId o' \<in> set (oc_allowedPackIds c) \<and> usdCost (ao_unit o') \<le> nat_of_dec (oc_maxUnitPriceMicroUsd c))
      | None \<Rightarrow> (\<exists>p. cx_packId cx = Some p \<and> p \<in> set (oc_allowedPackIds c)) \<and> oc_requestedOrders c \<noteq> 0
          \<and> (\<forall>a. cx_admission cx = Some a \<longrightarrow> ad_quantity a = oc_requestedOrders c))"

definition claimWithinLimits :: "operator_configuration \<Rightarrow> custody_state \<Rightarrow> policy_context \<Rightarrow> string \<Rightarrow> bool" where
  "claimWithinLimits c cu cx d =
     (claimCostLimits c cx d \<and> claimCustodyLimits c cu cx d \<and> claimCycleLimits c cu cx d \<and> claimPackLimits c cx)"

lemma effectiveCycleCap_le: "n \<le> effectiveCycleCap c cx \<longleftrightarrow> n \<le> nat_of_dec (oc_perCycleCapMicroUsd c) \<and> (\<forall>cap. cx_cap cx = Some cap \<longrightarrow> n \<le> cap)"
  by (auto simp: effectiveCycleCap_def Let_def split: option.splits)

lemma ordinalOf_nth:
  assumes "n < length es" and "ce_cycleDigest (es ! n) = d" and "\<forall>m < n. ce_cycleDigest (es ! m) \<noteq> d"
  shows "ordinalOf d es = Suc n"
proof -
  have "takeWhile (\<lambda>e. ce_cycleDigest e \<noteq> d) es = take n es" by (rule takeWhile_eq_take_P_nth) (use assms in auto)
  moreover have "list_ex (\<lambda>e. ce_cycleDigest e = d) es" using assms(1,2) by (auto simp: list_ex_iff)
  ultimately show ?thesis using assms(1) by (simp add: ordinalOf_def)
qed

lemma approvedFor_iff: "approvalMissing c cx n d \<longleftrightarrow> 0 < n \<and> int n \<le> oc_manualApprovalCycles c \<and> \<not> approvedFor c cx d"
  by (auto simp: approvalMissing_def approvedFor_def split: option.splits)

lemma claimReservation_Allowed:
  assumes "claimReservation c cu cx existing d = Inr (Allowed o')"
  shows "o' = Some d"
    and "spendInWindow c (cx_now cx) + (if reservationOf c d = None then cx_releaseAmount cx else 0) \<le> nat_of_dec (oc_max24HourBudgetMicroUsd c)"
    and "cu_realizedLoss cu + cu_atRisk cu + ((case reservationOf c d of None \<Rightarrow> cx_releaseAmount cx | Some r \<Rightarrow> nat_of_dec (se_amountMicroUsd r))
            - (case map_of (cu_cycleExposure cu) (the (cx_cycleId cx)) of None \<Rightarrow> 0 | Some n \<Rightarrow> n)) \<le> nat_of_dec (oc_lossCapMicroUsd c)"
    and "cu_outstanding cu + ((case reservationOf c d of None \<Rightarrow> cx_releaseAmount cx | Some r \<Rightarrow> nat_of_dec (se_amountMicroUsd r))
            - (case map_of (cu_cycleExposure cu) (the (cx_cycleId cx)) of None \<Rightarrow> 0 | Some n \<Rightarrow> n)) \<le> nat_of_dec (oc_maxOutstandingCustodyMicroUsd c)"
    and "\<not> approvalMissing c cx (if existing = None then Suc (length (modeCycles c cx)) else ordinalOf d (modeCycles c cx)) d"
    and "existing \<noteq> None \<Longrightarrow> \<exists>r. reservationOf c d = Some r \<and> se_amountMicroUsd r = dec_of_nat (cx_releaseAmount cx)"
    and "reservationOf c d = Some r \<Longrightarrow> inWindow (cx_now cx) (se_reservedAtMs r) \<and> map_of (cu_cycleExposure cu) (the (cx_cycleId cx)) \<noteq> None"
  using assms unfolding claimReservation_def Let_def res_simps lossExceeded_def custodyExceeded_def not_less
  by (auto split: option.splits)

lemma claimDecision_Allowed:
  assumes "claimDecision sha c cu cx = Inr (Allowed o')"
  obtains d where "o' = Some d" "claimPackLimits c cx \<Longrightarrow> claimWithinLimits c cu cx d" "planAdmission cx = None \<Longrightarrow> claimPackLimits c cx" "allPacksAllowed c cx" "cx_cycleId cx \<noteq> None"
    "claimReservation c cu cx (existingCycle c (the (cx_cycleId cx))) d = Inr (Allowed o')"
    "deriveCyclePolicyDigest sha (cx_operations cx) (jsval_of_configuration c)
       (contextInput cx (dec_of_nat (cx_releaseAmount cx)) (dec_of_nat (cx_releaseWei cx))) = Inr d"
    "existingCycle c (the (cx_cycleId cx)) = None \<or> (\<exists>e. existingCycle c (the (cx_cycleId cx)) = Some e \<and> ce_cycleDigest e = d)"
proof -
  let ?i = "contextInput cx (dec_of_nat (cx_releaseAmount cx)) (dec_of_nat (cx_releaseWei cx))"
  let ?ex = "existingCycle c (the (cx_cycleId cx))"
  note a = assms [unfolded claimDecision_def Let_def res_simps not_less]
  from a obtain derived cd where der: "deriveCyclePolicyDigest sha (cx_operations cx) (jsval_of_configuration c) ?i = Inr derived"
    and cd: "(case ?ex of None \<Rightarrow> Inr (Some derived) | Some e \<Rightarrow> matchingExistingCycleDigest sha (cx_operations cx) c e ?i) = Inr cd"
    and res: "(case cd of None \<Rightarrow> Inr (Refused ''CYCLE_POLICY_DIGEST_CHANGED'') | Some d \<Rightarrow> claimReservation c cu cx ?ex d) = Inr (Allowed o')"
    by blast
  from res obtain d where cdd: "cd = Some d" and r: "claimReservation c cu cx ?ex d = Inr (Allowed o')" by (cases cd) auto
  have d: "derived = d" "?ex = None \<or> (\<exists>e. ?ex = Some e \<and> ce_cycleDigest e = d)"
    using cd der by (auto simp: cdd matchingExistingCycleDigest_def split: option.splits if_splits)
  have cost: "cx_releaseAmount cx \<le> nat_of_dec (oc_maxCycleBudgetMicroUsd c)" "cx_releaseAmount cx \<le> effectiveCycleCap c cx"
    and packs: "allPacksAllowed c cx" and cid: "cx_cycleId cx \<noteq> None"
    and custody: "\<not> cu_unattributed cu" "\<not> cu_unvalued cu" "cu_heldCount cu < oc_maxHeldPositions c" "cu_heldValue cu \<le> nat_of_dec (oc_maxHeldValueMicroUsd c)"
    and orders: "planAdmission cx = None \<Longrightarrow> oc_requestedOrders c \<noteq> 0"
      "planAdmission cx = None \<Longrightarrow> cx_admission cx = Some q \<Longrightarrow> ad_quantity q = oc_requestedOrders c"
    and day: "?ex = None \<Longrightarrow> int (length (filter (\<lambda>e. inWindow (cx_now cx) (ce_openedAtMs e)) (modeCycles c cx))) < oc_maxCyclesPerDay c" for q
    using a by auto
  have w1: "claimCostLimits c cx d"
    using cost claimReservation_Allowed(2) [OF r] by (simp add: claimCostLimits_def Let_def effectiveCycleCap_le spendInWindow_def inWindow_def POLICY_WINDOW_MS_def)
  have w2: "claimCustodyLimits c cu cx d"
    using custody claimReservation_Allowed(3,4) [OF r] by (simp add: claimCustodyLimits_def Let_def)
  have w3: "claimCycleLimits c cu cx d"
  proof (cases ?ex)
    case None
    with day claimReservation_Allowed(5,7) [OF r] show ?thesis
      by (simp add: claimCycleLimits_def Let_def approvedFor_iff modeCycles_def inWindow_def POLICY_WINDOW_MS_def)
  next
    case (Some e)
    have "approvedFor c cx d"
      if "n < length (modeCycles c cx)" "ce_cycleDigest (modeCycles c cx ! n) = d" "\<forall>m < n. ce_cycleDigest (modeCycles c cx ! m) \<noteq> d"
        "int (Suc n) \<le> oc_manualApprovalCycles c" for n
      using claimReservation_Allowed(5) [OF r] that(4) by (simp add: Some approvedFor_iff ordinalOf_nth [OF that(1-3)])
    with Some d(2) claimReservation_Allowed(6,7) [OF r] show ?thesis
      by (simp add: claimCycleLimits_def Let_def modeCycles_def inWindow_def POLICY_WINDOW_MS_def)
  qed
  have w4: "claimPackLimits c cx" if "planAdmission cx = None"
    using that packs orders by (auto simp: claimPackLimits_def allPacksAllowed_def split: option.splits)
  have w: "claimWithinLimits c cu cx d" if "claimPackLimits c cx" using that w1 w2 w3 by (simp add: claimWithinLimits_def)
  from r have o': "o' = Some d" by (rule claimReservation_Allowed(1))
  from that [OF o' w w4 packs cid r der [unfolded d(1)] d(2)] show thesis .
qed


section \<open>Inversion of evaluations\<close>

lemma evaluate_Inr:
  assumes "evaluateConfiguredPolicy sha arg verify configuration custody input = Inr d"
  obtains cx c cu g where "admissionContext sha arg input = Inr cx" "policyConfiguration configuration = Inr c" "normalizeCustody custody = Inr cu"
    "policyGate verify c cx input = Inr g"
    "(case g of Decided d' \<Rightarrow> d = d'
     | Reevaluate b \<Rightarrow> (\<exists>d'. evaluateConfiguredPolicy sha arg verify (jsval_of_configuration c) custody (atBoundary input b) = Inr d' \<and>
         (if b = ''claim-process'' then \<exists>cx'. admissionContext sha arg (atBoundary input b) = Inr cx' \<and> d = recordedClaim c cx' d' else d = d'))
     | Recorded \<Rightarrow> evaluateExistingCycleExecution sha c cu cx = Inr d
     | OwnChecks \<Rightarrow> ownChecks sha c cu cx = Inr d)"
proof -
  from assms obtain cx c cu g where h: "admissionContext sha arg input = Inr cx" "policyConfiguration configuration = Inr c" "normalizeCustody custody = Inr cu"
    "policyGate verify c cx input = Inr g" and
    r: "(case g of
       Decided d \<Rightarrow> Inr d
     | Reevaluate b \<Rightarrow>
         bindE (evaluateConfiguredPolicy sha arg verify (jsval_of_configuration c) custody (atBoundary input b)) (\<lambda>d.
           if b = ''claim-process''
           then bindE (admissionContext sha arg (atBoundary input b)) (\<lambda>cx'. Inr (recordedClaim c cx' d)) else Inr d)
     | Recorded \<Rightarrow> evaluateExistingCycleExecution sha c cu cx
     | OwnChecks \<Rightarrow> ownChecks sha c cu cx) = Inr d"
    unfolding evaluateConfiguredPolicy.simps [of sha arg verify configuration custody input] bindE_Inr_iff by blast
  show thesis
    by (rule that [OF h]) (use r in \<open>auto simp: bindE_Inr_iff split: gate.splits if_splits\<close>)
qed

lemma gate_cases:
  assumes "policyGate verify c cx input = Inr g"
  shows "(\<exists>r. g = Decided (Refused r))
    \<or> \<not> (cx_boundary cx \<in> {''cycle-start'', ''claim-process'', ''purchase'', ''signature'', ''broadcast'', ''mutation''} \<and> (oc_killSwitch c \<or> oc_executionPaused c))
      \<and> JBool (oc_liveMode c) = cx_liveMode cx \<and> \<not> cx_expired cx"
  using assms by (auto simp: policyGate_def Let_def bindE_Inr_iff mutationBoundaries_def split: if_splits)

lemma gate_money:
  assumes g: "policyGate verify c cx input = Inr g" and b: "cx_boundary cx = ''claim-process'' \<or> cx_boundary cx = ''purchase''" and n: "\<forall>r. g \<noteq> Decided (Refused r)"
  shows "g = OwnChecks \<and> hasFreshFundingUsd (jprop input ''admission'') verify (cx_now cx) = Inr True"
proof -
  have e: "cx_boundary cx \<notin> set executionBoundaries" "cx_boundary cx \<in> {''claim-process'', ''purchase''}" "cx_boundary cx \<noteq> ''cycle-start''"
    using b by (auto simp: executionBoundaries_def)
  from g obtain fresh where f: "hasFreshFundingUsd (jprop input ''admission'') verify (cx_now cx) = Inr fresh"
    using e(2) unfolding policyGate_def Let_def bindE_Inr_iff by auto
  from g n show ?thesis
    unfolding policyGate_def Let_def if_P [OF e(2)] f bindE_simps
    using e(1,3) by (auto split: if_splits)
qed

text \<open>An execution boundary of a cycle is never left to the boundary's own checks; it is decided at once only before the cycle is recorded.\<close>

lemma gate_cycle_execution:
  assumes g: "policyGate verify c cx input = Inr g" and b: "cx_boundary cx = ''signature'' \<or> cx_boundary cx = ''broadcast'' \<or> cx_boundary cx = ''mutation''"
    and i: "cx_cycleId cx = Some i" and n: "\<forall>r. g \<noteq> Decided (Refused r)"
  shows "g = Recorded \<or> (\<exists>b. g = Reevaluate b)
    \<or> g = Decided (Allowed None) \<and> cx_boundary cx = ''mutation'' \<and> jprop input ''stage'' = JStr ''eligibility-snapshot'' \<and> existingCycle c i = None"
proof -
  have e: "cx_boundary cx \<in> set executionBoundaries" "\<not> cx_boundary cx \<in> {''claim-process'', ''purchase''}" "cx_boundary cx \<noteq> ''cycle-start''"
    using b by (auto simp: executionBoundaries_def)
  have some: "(cx_cycleId cx \<noteq> None \<or> cx_packId cx \<noteq> None \<or> cx_releaseAmount cx \<noteq> 0) = True" by (simp add: i)
  note g' = g [unfolded policyGate_def Let_def if_not_P [OF e(2)] bindE_simps some simp_thms]
  show ?thesis using g' e(1,3) n i by (auto split: if_splits)
qed

lemma recorded_Allowed_Some:
  assumes "evaluateExistingCycleExecution sha c cu cx = Inr (Allowed o')"
  shows "\<exists>d. o' = Some d"
proof -
  let ?ex = "existingCycle c (the (cx_cycleId cx))"
  note a = assms [unfolded evaluateExistingCycleExecution_def res_simps]
  obtain e where e: "?ex = Some e" using a by (cases ?ex) auto
  from a obtain m where "(case m of None \<Rightarrow> Inr (Refused ''CYCLE_POLICY_DIGEST_CHANGED'')
         | Some d \<Rightarrow>
             refuseIf (case reservationOf c d of None \<Rightarrow> True | Some r \<Rightarrow> se_amountMicroUsd r \<noteq> ce_releaseCostMicroUsd e)
               ''SPEND_RESERVATION_MISSING'' (
             refuseIf (approvalMissing c cx (ordinalOf d (modeCycles c cx)) d) ''MANUAL_APPROVAL_REQUIRED'' (
             refuseIf (lossExceeded c cu 0) ''LOSS_CAP'' (
             refuseIf (custodyExceeded c cu 0) ''OUTSTANDING_CUSTODY_CAP'' (
               Inr (Allowed (Some d))))))) = Inr (Allowed o')"
    unfolding e option.case refuseIf_Allowed bindE_Inr_iff by blast
  then show ?thesis by (cases m) (auto simp: refuseIf_Allowed)
qed

lemma purchase_Allowed_Some:
  assumes "purchaseDecision sha c cu cx = Inr (Allowed o')"
  shows "\<exists>d. o' = Some d"
proof -
  let ?ex = "existingCycle c (the (cx_cycleId cx))"
  note a = assms [unfolded purchaseDecision_def res_simps]
  obtain e where e: "?ex = Some e" using a by (cases ?ex) auto
  from a obtain cd where "(case cd of None \<Rightarrow> Inr (Refused ''CYCLE_POLICY_DIGEST_CHANGED'')
         | Some d \<Rightarrow>
             refuseIf (case reservationOf c d of None \<Rightarrow> True | Some r \<Rightarrow> nat_of_dec (se_amountMicroUsd r) < cx_releaseAmount cx)
               ''SPEND_RESERVATION_MISSING'' (
             refuseIf (case reservationOf c d of None \<Rightarrow> True | Some r \<Rightarrow> \<not> inWindow (cx_now cx) (se_reservedAtMs r)) ''SPEND_RESERVATION_EXPIRED'' (
             refuseIf (effectiveCycleCap c cx < cx_releaseAmount cx) ''PER_CYCLE_CAP'' (
             refuseIf (lossExceeded c cu 0) ''LOSS_CAP'' (
             refuseIf (custodyExceeded c cu 0) ''OUTSTANDING_CUSTODY_CAP'' (
               Inr (Allowed (Some d)))))))) = Inr (Allowed o')"
    unfolding e option.case bindE_Inr_iff by blast
  then show ?thesis by (cases cd) (auto simp: refuseIf_Allowed)
qed

lemma jprop_spread: "\<not> notObject v \<Longrightarrow> jprop (JObj (spread v)) f = jprop v f"
  by (cases v) (auto simp: notObject_def spread_def jprop_def typeofObject_def isArray_def falsy_def)

lemma jprop_atBoundary: "\<not> notObject input \<Longrightarrow> jprop (atBoundary input b) f = (if f = ''boundary'' then JStr b else jprop input f)"
  by (simp add: atBoundary_def jprop_withProps jprop_spread)

lemma jprop_withNow: "\<not> notObject input \<Longrightarrow> jprop (withNow input t) f = (if f = ''now'' then JNum t else jprop input f)"
  by (simp add: withNow_def jprop_withProps jprop_spread)

lemma optionalAmount_Inr: "optionalAmount v l = Inr n \<Longrightarrow> amountOr0 n = nat_of_dec (str_of v)"
  by (auto simp: optionalAmount_def amountOr0_def assertAmount_def bindE_Inr_iff Let_def str_of_def nat_of_dec_def split: if_splits)

lemma context_fields:
  assumes "admissionContext sha arg input = Inr cx"
  shows "\<not> notObject input" and "cx_releaseAmount cx = nat_of_dec (str_of (jprop input ''releaseCostMicroUsd''))"
    and "cx_releaseWei cx = nat_of_dec (str_of (jprop input ''releaseAmountWei''))"
    and "jprop input ''now'' = JNum (cx_now cx)" and "cx_liveMode cx = jprop input ''liveMode''"
    and "jprop input ''cycleId'' = JStr i \<Longrightarrow> cx_cycleId cx = Some i"
    and "cycleMode (jprop input ''liveMode'') (jprop input ''mode'') = Inr m \<Longrightarrow> cx_mode cx = JStr m"
proof -
  obtain boundary mode now cost wei cap admission where n: "\<not> notObject input" and m: "cycleMode (jprop input ''liveMode'') (jprop input ''mode'') = Inr mode"
    and t: "assertPolicyClock (jprop input ''now'') = Inr now"
    and w: "optionalAmount (jprop input ''releaseAmountWei'') ''policy releaseAmountWei'' = Inr wei"
    and co: "optionalAmount (jprop input ''releaseCostMicroUsd'') ''policy releaseCostMicroUsd'' = Inr cost"
    and f: "finishContext input arg boundary mode now (amountOr0 cost) (amountOr0 wei) cap admission = Inr cx"
    using assms unfolding admissionContext_def bindE_Inr_iff throwIf_Inr by blast
  obtain c' p' e' where cx: "cx = contextOf input arg boundary mode now (amountOr0 cost) (amountOr0 wei) cap admission c' p' e'"
    and c': "\<And>i. jprop input ''cycleId'' = JStr i \<Longrightarrow> c' = Some i"
    using f by (auto simp: finishContext_def Let_def bindE_Inr_iff optionalString_def nullish_def split: option.splits if_splits)
  show "\<not> notObject input" by (rule n)
  show "cx_releaseAmount cx = nat_of_dec (str_of (jprop input ''releaseCostMicroUsd''))"
    using optionalAmount_Inr [OF co] by (simp add: cx contextOf_def)
  show "cx_releaseWei cx = nat_of_dec (str_of (jprop input ''releaseAmountWei''))"
    using optionalAmount_Inr [OF w] by (simp add: cx contextOf_def)
  show "jprop input ''now'' = JNum (cx_now cx)"
    using t by (cases "jprop input ''now''") (simp_all add: cx contextOf_def assertPolicyClock_def isSafeInteger_def split: if_splits)
  show "cx_liveMode cx = jprop input ''liveMode''" by (simp add: cx contextOf_def)
  show "jprop input ''cycleId'' = JStr i \<Longrightarrow> cx_cycleId cx = Some i" using c' by (simp add: cx contextOf_def)
  show "cycleMode (jprop input ''liveMode'') (jprop input ''mode'') = Inr m \<Longrightarrow> cx_mode cx = JStr m" using m by (simp add: cx contextOf_def)
qed

lemma claim_evaluation:
  assumes "evaluateConfiguredPolicy sha arg verify configuration custody input = Inr (Allowed o')"
    and "jprop input ''boundary'' = JStr ''claim-process''"
  obtains cx c cu where "admissionContext sha arg input = Inr cx" "policyConfiguration configuration = Inr c" "normalizeCustody custody = Inr cu"
    "claimDecision sha c cu cx = Inr (Allowed o')" "\<not> oc_killSwitch c" "\<not> oc_executionPaused c" "JBool (oc_liveMode c) = jprop input ''liveMode''"
    "hasFreshFundingUsd (jprop input ''admission'') verify (cx_now cx) = Inr True" "\<not> cx_expired cx"
    "\<And>a. planAdmission cx = Some a \<Longrightarrow> ad_quantity a \<le> oc_maxBoostersPerCycle c
       \<and> (\<forall>o' \<in> set (ad_orders a). usdCost (ao_unit o') \<le> nat_of_dec (oc_maxUnitPriceMicroUsd c))"
proof (rule evaluate_Inr [OF assms(1)])
  fix cx c cu g
  assume h: "admissionContext sha arg input = Inr cx" "policyConfiguration configuration = Inr c" "normalizeCustody custody = Inr cu"
    and g: "policyGate verify c cx input = Inr g"
    and r: "(case g of Decided d' \<Rightarrow> Allowed o' = d'
     | Reevaluate b \<Rightarrow> (\<exists>d'. evaluateConfiguredPolicy sha arg verify (jsval_of_configuration c) custody (atBoundary input b) = Inr d' \<and>
         (if b = ''claim-process'' then \<exists>cx'. admissionContext sha arg (atBoundary input b) = Inr cx' \<and> Allowed o' = recordedClaim c cx' d' else Allowed o' = d'))
     | Recorded \<Rightarrow> evaluateExistingCycleExecution sha c cu cx = Inr (Allowed o')
     | OwnChecks \<Rightarrow> ownChecks sha c cu cx = Inr (Allowed o'))"
  have b: "cx_boundary cx = ''claim-process''" using context_boundary [OF h(1)] assms(2) by simp
  have nr: "\<forall>r. g \<noteq> Decided (Refused r)" using r by auto
  from gate_money [OF g _ nr] b have own: "g = OwnChecks" and fr: "hasFreshFundingUsd (jprop input ''admission'') verify (cx_now cx) = Inr True" by simp_all
  have gc: "\<not> oc_killSwitch c" "\<not> oc_executionPaused c" "JBool (oc_liveMode c) = cx_liveMode cx" "\<not> cx_expired cx"
    using gate_cases [OF g] b by (simp_all add: own)
  have "claimDecision sha c cu cx = Inr (Allowed o')" using r b by (simp add: own ownChecks_def refuseIf_Allowed)
  moreover have "ad_quantity a \<le> oc_maxBoostersPerCycle c \<and> (\<forall>o' \<in> set (ad_orders a). usdCost (ao_unit o') \<le> nat_of_dec (oc_maxUnitPriceMicroUsd c))"
    if "planAdmission cx = Some a" for a
    using r b that by (auto simp: own ownChecks_def refuseIf_Allowed list_ex_iff not_less)
  ultimately show thesis using h gc fr context_fields(5) [OF h(1)] by (intro that) simp_all
qed


lemma purchase_evaluation:
  assumes "evaluateConfiguredPolicy sha arg verify configuration custody input = Inr (Allowed o')"
    and "jprop input ''boundary'' = JStr ''purchase''"
  obtains cx c cu where "admissionContext sha arg input = Inr cx" "policyConfiguration configuration = Inr c" "normalizeCustody custody = Inr cu"
    "purchaseDecision sha c cu cx = Inr (Allowed o')" "\<not> oc_killSwitch c" "\<not> oc_executionPaused c" "JBool (oc_liveMode c) = jprop input ''liveMode''"
    "hasFreshFundingUsd (jprop input ''admission'') verify (cx_now cx) = Inr True" "\<not> cx_expired cx"
proof (rule evaluate_Inr [OF assms(1)])
  fix cx c cu g
  assume h: "admissionContext sha arg input = Inr cx" "policyConfiguration configuration = Inr c" "normalizeCustody custody = Inr cu"
    and g: "policyGate verify c cx input = Inr g"
    and r: "(case g of Decided d' \<Rightarrow> Allowed o' = d'
     | Reevaluate b \<Rightarrow> (\<exists>d'. evaluateConfiguredPolicy sha arg verify (jsval_of_configuration c) custody (atBoundary input b) = Inr d' \<and>
         (if b = ''claim-process'' then \<exists>cx'. admissionContext sha arg (atBoundary input b) = Inr cx' \<and> Allowed o' = recordedClaim c cx' d' else Allowed o' = d'))
     | Recorded \<Rightarrow> evaluateExistingCycleExecution sha c cu cx = Inr (Allowed o')
     | OwnChecks \<Rightarrow> ownChecks sha c cu cx = Inr (Allowed o'))"
  have b: "cx_boundary cx = ''purchase''" using context_boundary [OF h(1)] assms(2) by simp
  have nr: "\<forall>r. g \<noteq> Decided (Refused r)" using r by auto
  from gate_money [OF g _ nr] b have own: "g = OwnChecks" and fr: "hasFreshFundingUsd (jprop input ''admission'') verify (cx_now cx) = Inr True" by simp_all
  have gc: "\<not> oc_killSwitch c" "\<not> oc_executionPaused c" "JBool (oc_liveMode c) = cx_liveMode cx" "\<not> cx_expired cx"
    using gate_cases [OF g] b by (simp_all add: own)
  have "purchaseDecision sha c cu cx = Inr (Allowed o')" using r b by (simp add: own ownChecks_def refuseIf_Allowed)
  with h gc fr context_fields(5) [OF h(1)] show thesis by (intro that) simp_all
qed


lemma existingCycle_Some: "existingCycle c i = Some e \<Longrightarrow> e \<in> set (oc_cycleLedger c) \<and> ce_cycleId e = i"
  by (auto simp: existingCycle_def find_Some_iff)

lemma reservationOf_Some: "reservationOf c d = Some r \<Longrightarrow> r \<in> set (oc_spendLedger c) \<and> se_cycleDigest r = d"
  by (auto simp: reservationOf_def find_Some_iff)

text \<open>A cycle and its reservation, recorded for at least an amount.\<close>

definition reservedFor :: "operator_configuration \<Rightarrow> string \<Rightarrow> string \<Rightarrow> nat \<Rightarrow> bool" where
  "reservedFor c cycleId d amount = (\<exists>e \<in> set (oc_cycleLedger c). \<exists>r \<in> set (oc_spendLedger c).
     ce_cycleId e = cycleId \<and> ce_cycleDigest e = d \<and> se_cycleDigest r = d \<and> amount \<le> nat_of_dec (se_amountMicroUsd r))"

lemma reservedForI:
  assumes "existingCycle c i = Some e" and "ce_cycleDigest e = d" and "reservationOf c d = Some r" and "n \<le> nat_of_dec (se_amountMicroUsd r)"
  shows "reservedFor c i d n"
  using existingCycle_Some [OF assms(1)] reservationOf_Some [OF assms(3)] assms(2,4) by (auto simp: reservedFor_def)

lemma matching_digest: "matchingExistingCycleDigest sha arg c e i = Inr (Some d) \<Longrightarrow> ce_cycleDigest e = d"
  by (auto simp: matchingExistingCycleDigest_def bindE_Inr_iff split: if_splits)

lemma recorded_Allowed:
  assumes "evaluateExistingCycleExecution sha c cu cx = Inr (Allowed (Some d))"
  shows "reservedFor c (the (cx_cycleId cx)) d (cx_releaseAmount cx)"
proof -
  obtain e where e: "existingCycle c (the (cx_cycleId cx)) = Some e" "recordedFor cx e"
    and m: "matchingExistingCycleDigest sha (cx_operations cx) c e
        (contextInput cx (dec_of_nat (cx_releaseAmount cx)) (dec_of_nat (cx_releaseWei cx))) = Inr (Some d)"
    and r: "\<not> (case reservationOf c d of None \<Rightarrow> True | Some r \<Rightarrow> se_amountMicroUsd r \<noteq> ce_releaseCostMicroUsd e)"
    using assms unfolding evaluateExistingCycleExecution_def res_simps by (auto simp: res_simps split: option.splits)
  then obtain r where "reservationOf c d = Some r" "se_amountMicroUsd r = ce_releaseCostMicroUsd e" by (auto split: option.splits)
  with e(2) show ?thesis by (intro reservedForI [OF e(1) matching_digest [OF m], of r]) (simp_all add: recordedFor_def)
qed

lemma purchase_Allowed:
  assumes "purchaseDecision sha c cu cx = Inr (Allowed (Some d))"
  shows "reservedFor c (the (cx_cycleId cx)) d (cx_releaseAmount cx)"
proof -
  let ?ex = "existingCycle c (the (cx_cycleId cx))"
  note a = assms [unfolded purchaseDecision_def res_simps]
  obtain e where e: "?ex = Some e" using a by (cases ?ex) auto
  let ?i = "contextInput cx (ce_releaseCostMicroUsd e) (ce_releaseAmountWei e)"
  from a obtain cd where cd: "matchingExistingCycleDigest sha (cx_operations cx) c e ?i = Inr cd"
    and res: "(case cd of None \<Rightarrow> Inr (Refused ''CYCLE_POLICY_DIGEST_CHANGED'')
         | Some d \<Rightarrow>
             refuseIf (case reservationOf c d of None \<Rightarrow> True | Some r \<Rightarrow> nat_of_dec (se_amountMicroUsd r) < cx_releaseAmount cx)
               ''SPEND_RESERVATION_MISSING'' (
             refuseIf (case reservationOf c d of None \<Rightarrow> True | Some r \<Rightarrow> \<not> inWindow (cx_now cx) (se_reservedAtMs r)) ''SPEND_RESERVATION_EXPIRED'' (
             refuseIf (effectiveCycleCap c cx < cx_releaseAmount cx) ''PER_CYCLE_CAP'' (
             refuseIf (lossExceeded c cu 0) ''LOSS_CAP'' (
             refuseIf (custodyExceeded c cu 0) ''OUTSTANDING_CUSTODY_CAP'' (
               Inr (Allowed (Some d)))))))) = Inr (Allowed (Some d))"
    unfolding e option.case bindE_Inr_iff by blast
  have "cd = Some d" and r: "\<not> (case reservationOf c d of None \<Rightarrow> True | Some r \<Rightarrow> nat_of_dec (se_amountMicroUsd r) < cx_releaseAmount cx)"
    using res by (cases cd; simp add: refuseIf_Allowed)+
  with cd have m: "matchingExistingCycleDigest sha (cx_operations cx) c e ?i = Inr (Some d)" by simp
  from r
  obtain r where "reservationOf c d = Some r" "cx_releaseAmount cx \<le> nat_of_dec (se_amountMicroUsd r)" by (auto split: option.splits)
  then show ?thesis by (rule reservedForI [OF e matching_digest [OF m]])
qed

lemma claim_Allowed:
  assumes "claimDecision sha c cu cx = Inr (Allowed (Some d))" and "existingCycle c (the (cx_cycleId cx)) = Some e"
  shows "reservedFor c (the (cx_cycleId cx)) d (cx_releaseAmount cx)"
proof (rule claimDecision_Allowed [OF assms(1)])
  fix d' assume d: "Some d = Some d'" and r: "claimReservation c cu cx (existingCycle c (the (cx_cycleId cx))) d' = Inr (Allowed (Some d))"
    and e: "existingCycle c (the (cx_cycleId cx)) = None \<or> (\<exists>e. existingCycle c (the (cx_cycleId cx)) = Some e \<and> ce_cycleDigest e = d')"
  obtain r' where "reservationOf c d = Some r'" "se_amountMicroUsd r' = dec_of_nat (cx_releaseAmount cx)"
    using claimReservation_Allowed(6) [OF r] assms(2) d by auto
  with assms(2) e d show ?thesis by (intro reservedForI [where e = e and r = r']) auto
qed


lemma policyConfiguration_again:
  assumes "policyConfiguration v = Inr c" and "policyConfiguration (jsval_of_configuration c) = Inr c'"
  shows "c' = c"
  using assms revalidated by (auto simp: policyConfiguration_Inr)

lemma purchase_reserved:
  assumes e: "evaluateConfiguredPolicy sha arg verify (jsval_of_configuration c) custody input = Inr (Allowed (Some d))"
    and b: "jprop input ''boundary'' = JStr ''purchase''" and i: "jprop input ''cycleId'' = JStr i" and c: "policyConfiguration v = Inr c"
  shows "reservedFor c i d (nat_of_dec (str_of (jprop input ''releaseCostMicroUsd'')))"
proof (rule purchase_evaluation [OF e b])
  fix cx c2 cu
  assume cx: "admissionContext sha arg input = Inr cx" and c2: "policyConfiguration (jsval_of_configuration c) = Inr c2"
    and p: "purchaseDecision sha c2 cu cx = Inr (Allowed (Some d))"
  show ?thesis using purchase_Allowed [OF p] policyConfiguration_again [OF c c2] context_fields(2,6) [OF cx] i by simp
qed

lemma claim_reserved:
  assumes e: "evaluateConfiguredPolicy sha arg verify (jsval_of_configuration c) custody input = Inr d'"
    and cx: "admissionContext sha arg input = Inr cx" and rc: "Allowed (Some d) = recordedClaim c cx d'"
    and b: "jprop input ''boundary'' = JStr ''claim-process''" and i: "jprop input ''cycleId'' = JStr i" and c: "policyConfiguration v = Inr c"
  shows "reservedFor c i d (nat_of_dec (str_of (jprop input ''releaseCostMicroUsd'')))"
proof -
  from rc obtain e' where e': "existingCycle c (the (cx_cycleId cx)) = Some e'" and al: "d' = Allowed (Some d)"
    by (auto simp: recordedClaim_def isAllowed_def split: if_splits decision.splits option.splits)
  show ?thesis
  proof (rule claim_evaluation [OF e [unfolded al] b])
    fix cx2 c2 cu
    assume cx2: "admissionContext sha arg input = Inr cx2" and c2: "policyConfiguration (jsval_of_configuration c) = Inr c2"
      and p: "claimDecision sha c2 cu cx2 = Inr (Allowed (Some d))"
    have eq: "cx2 = cx" "c2 = c" using cx cx2 policyConfiguration_again [OF c c2] by simp_all
    show ?thesis using claim_Allowed [OF p [unfolded eq] e'] context_fields(2,6) [OF cx] i by simp
  qed
qed

lemma reevaluated_Some:
  assumes "evaluateConfiguredPolicy sha arg verify configuration custody input = Inr (Allowed o')"
    and "jprop input ''boundary'' = JStr ''claim-process'' \<or> jprop input ''boundary'' = JStr ''purchase''"
  shows "\<exists>d. o' = Some d"
  using assms(2)
proof
  assume "jprop input ''boundary'' = JStr ''claim-process''"
  then show ?thesis by (rule claim_evaluation [OF assms(1)]) (auto elim: claimDecision_Allowed)
next
  assume "jprop input ''boundary'' = JStr ''purchase''"
  then show ?thesis by (rule purchase_evaluation [OF assms(1)]) (rule purchase_Allowed_Some)
qed

text \<open>The one answer without a digest: the snapshot of a cycle that is not recorded yet.\<close>

definition beforeRecording :: "operator_configuration \<Rightarrow> jsval \<Rightarrow> bool" where
  "beforeRecording c input =
     (jprop input ''boundary'' = JStr ''mutation'' \<and> jprop input ''stage'' = JStr ''eligibility-snapshot''
      \<and> (\<forall>e \<in> set (oc_cycleLedger c). JStr (ce_cycleId e) \<noteq> jprop input ''cycleId''))"

lemma existingCycle_None: "existingCycle c i = None \<longleftrightarrow> (\<forall>e \<in> set (oc_cycleLedger c). ce_cycleId e \<noteq> i)"
  by (auto simp: existingCycle_def find_None_iff)

text \<open>
  C10. Nothing is signed, broadcast or otherwise mutated for a recorded cycle without its reservation.  When an execution boundary is allowed
  for a cycle, the kill switch and the execution pause are off and the mode is the configured one; and the decision names a digest under which
  the operator document records that cycle and the spend ledger reserves at least the released cost.  This holds for every signature and
  every broadcast, and for every mutation of every stage, also those evaluated again as a claim or a purchase, with a single exception: the
  mutation boundary of the eligibility snapshot of a cycle that the document does not record yet.
\<close>

theorem execution_needs_reservation:
  assumes "evaluateConfiguredPolicy sha arg verify configuration custody input = Inr (Allowed o')"
    and "jprop input ''boundary'' \<in> {JStr ''signature'', JStr ''broadcast'', JStr ''mutation''}" and "jprop input ''cycleId'' = JStr i"
  shows "\<exists>c. policyConfiguration configuration = Inr c
    \<and> \<not> oc_killSwitch c \<and> \<not> oc_executionPaused c \<and> JBool (oc_liveMode c) = jprop input ''liveMode''
    \<and> (case o' of Some d \<Rightarrow> reservedFor c i d (nat_of_dec (str_of (jprop input ''releaseCostMicroUsd''))) | None \<Rightarrow> beforeRecording c input)"
proof (rule evaluate_Inr [OF assms(1)])
  fix cx c cu g
  assume h: "admissionContext sha arg input = Inr cx" "policyConfiguration configuration = Inr c" "normalizeCustody custody = Inr cu"
    and g: "policyGate verify c cx input = Inr g"
    and r: "(case g of Decided d' \<Rightarrow> Allowed o' = d'
     | Reevaluate b \<Rightarrow> (\<exists>d'. evaluateConfiguredPolicy sha arg verify (jsval_of_configuration c) custody (atBoundary input b) = Inr d' \<and>
         (if b = ''claim-process'' then \<exists>cx'. admissionContext sha arg (atBoundary input b) = Inr cx' \<and> Allowed o' = recordedClaim c cx' d' else Allowed o' = d'))
     | Recorded \<Rightarrow> evaluateExistingCycleExecution sha c cu cx = Inr (Allowed o')
     | OwnChecks \<Rightarrow> ownChecks sha c cu cx = Inr (Allowed o'))"
  let ?n = "nat_of_dec (str_of (jprop input ''releaseCostMicroUsd''))"
  have b: "cx_boundary cx = ''signature'' \<or> cx_boundary cx = ''broadcast'' \<or> cx_boundary cx = ''mutation''"
    and boundary: "jprop input ''boundary'' = JStr (cx_boundary cx)"
    using context_boundary [OF h(1)] assms(2) by auto
  have nr: "\<forall>r. g \<noteq> Decided (Refused r)" using r by auto
  have flags: "\<not> oc_killSwitch c \<and> \<not> oc_executionPaused c \<and> JBool (oc_liveMode c) = jprop input ''liveMode''"
    using gate_cases [OF g] nr b context_fields(5) [OF h(1)] by auto
  note at = jprop_atBoundary [OF context_fields(1) [OF h(1)]]
  have "case o' of Some d \<Rightarrow> reservedFor c i d ?n | None \<Rightarrow> beforeRecording c input"
    using gate_cycle_execution [OF g b context_fields(6) [OF h(1) assms(3)] nr]
  proof (elim disjE exE)
    assume "g = Recorded"
    with r have rec: "evaluateExistingCycleExecution sha c cu cx = Inr (Allowed o')" by simp
    with recorded_Allowed_Some obtain d where d: "o' = Some d" by blast
    with rec recorded_Allowed [of sha c cu cx d] context_fields(2,6) [OF h(1)] assms(3) show ?thesis by simp
  next
    fix b' assume re: "g = Reevaluate b'"
    then have b': "b' = ''claim-process'' \<or> b' = ''purchase''" using gate_reevaluates [of verify c cx input b'] g by simp
    have "\<exists>d. o' = Some d"
      using b' r reevaluated_Some [of sha arg verify "jsval_of_configuration c" custody "atBoundary input b'"]
      by (auto simp: re recordedClaim_def isAllowed_def split: decision.splits option.splits if_splits)
    then obtain d where d: "o' = Some d" by blast
    have "reservedFor c i d ?n"
      using b' r purchase_reserved [OF _ _ _ h(2)] claim_reserved [OF _ _ _ _ _ h(2)] assms(3)
      unfolding re d by (elim disjE) (fastforce simp: at)+
    with d show ?thesis by simp
  next
    assume "g = Decided (Allowed None) \<and> cx_boundary cx = ''mutation'' \<and> jprop input ''stage'' = JStr ''eligibility-snapshot'' \<and> existingCycle c i = None"
    with r boundary assms(3) show ?thesis by (simp add: beforeRecording_def existingCycle_None)
  qed
  with h(2) flags show ?thesis by blast
qed


section \<open>Quote refresh\<close>

text \<open>
  The check of a recorded cycle counts the cycles of the context's mode.  Every other boundary resolves an omitted mode first; a refresh
  does not, so for an omitted mode no cycle counts and the manual approval is never required.
\<close>

lemma refresh_without_mode_skips_approval:
  assumes "jprop input ''mode'' = JUndefined"
  shows "\<not> approvalMissing c (refreshContext input arg cost cap a) (ordinalOf d (modeCycles c (refreshContext input arg cost cap a))) d"
proof -
  have "modeCycles c (refreshContext input arg cost cap a) = []" using assms by (simp add: modeCycles_def refreshContext_def)
  then show ?thesis by (simp add: approvalMissing_def ordinalOf_def)
qed

section \<open>The rolling day budget\<close>

abbreviation spendOf :: "spend_entry \<Rightarrow> nat" where
  "spendOf e \<equiv> nat_of_dec (se_amountMicroUsd e)"

definition spentWithin :: "int \<Rightarrow> spend_entry list \<Rightarrow> nat" where
  "spentWithin t es = (\<Sum>e \<leftarrow> filter (\<lambda>e. inWindow t (se_reservedAtMs e)) es. spendOf e)"

text \<open>Every entry was within the hard cap together with the window before it.\<close>

definition windowsOk :: "spend_entry list \<Rightarrow> bool" where
  "windowsOk es = (\<forall>pre e post. es = pre @ e # post \<longrightarrow> spentWithin (se_reservedAtMs e) pre + spendOf e \<le> DAY_HARD_CAP)"

lemma windowsOk_Nil: "windowsOk []"
  by (simp add: windowsOk_def)

lemma windowsOk_snoc: "windowsOk (es @ [e]) \<longleftrightarrow> windowsOk es \<and> spentWithin (se_reservedAtMs e) es + spendOf e \<le> DAY_HARD_CAP"
proof
  assume "windowsOk es \<and> spentWithin (se_reservedAtMs e) es + spendOf e \<le> DAY_HARD_CAP"
  moreover have "(\<exists>post'. es = pre @ x # post') \<or> pre = es \<and> x = e" if "es @ [e] = pre @ x # post" for pre x post
    using that by (cases post rule: rev_cases) (auto simp: append_eq_append_conv2 append_eq_Cons_conv)
  ultimately show "windowsOk (es @ [e])" unfolding windowsOk_def by blast
next
  assume w: "windowsOk (es @ [e])"
  then have "spentWithin (se_reservedAtMs e) es + spendOf e \<le> DAY_HARD_CAP" unfolding windowsOk_def by blast
  moreover have "windowsOk es" unfolding windowsOk_def
  proof (intro allI impI)
    fix pre x post assume "es = pre @ x # post"
    then have "es @ [e] = pre @ x # (post @ [e])" by simp
    with w show "spentWithin (se_reservedAtMs x) pre + spendOf x \<le> DAY_HARD_CAP" unfolding windowsOk_def by blast
  qed
  ultimately show "windowsOk es \<and> spentWithin (se_reservedAtMs e) es + spendOf e \<le> DAY_HARD_CAP" by simp
qed

lemma spentWithin_mono:
  assumes "\<And>e. e \<in> set es \<Longrightarrow> inWindow t (se_reservedAtMs e) \<Longrightarrow> inWindow u (se_reservedAtMs e)"
  shows "spentWithin t es \<le> spentWithin u es"
  using assms by (induction es) (auto simp: spentWithin_def)

lemma window_bound:
  assumes "windowsOk es" and "sorted (map se_reservedAtMs es)"
  shows "spentWithin t es \<le> DAY_HARD_CAP"
  using assms
proof (induction es rule: rev_induct)
  case (snoc e es)
  show ?case
  proof (cases "inWindow t (se_reservedAtMs e)")
    case True
    have "spentWithin t es \<le> spentWithin (se_reservedAtMs e) es"
      by (rule spentWithin_mono) (use snoc.prems(2) True in \<open>auto simp: inWindow_def sorted_append\<close>)
    moreover have "spentWithin (se_reservedAtMs e) es + spendOf e \<le> DAY_HARD_CAP" using snoc.prems(1) by (simp add: windowsOk_snoc)
    moreover have "spentWithin t (es @ [e]) = spentWithin t es + spendOf e" using True by (simp add: spentWithin_def)
    ultimately show ?thesis by linarith
  next
    case False
    then show ?thesis using snoc by (simp add: windowsOk_snoc spentWithin_def sorted_append)
  qed
qed (simp add: spentWithin_def)

definition documentOk :: "int \<Rightarrow> operator_configuration \<Rightarrow> bool" where
  "documentOk t c = ((\<exists>v. assertOperatorConfiguration v = Inr c) \<and> windowsOk (oc_spendLedger c) \<and> (\<forall>e \<in> set (oc_spendLedger c). se_reservedAtMs e \<le> t))"

lemma documentOk_bound: "documentOk t c \<Longrightarrow> spendInWindow c u \<le> DAY_HARD_CAP"
proof -
  assume d: "documentOk t c"
  then obtain v where "assertOperatorConfiguration v = Inr c" by (auto simp: documentOk_def)
  then have "spendLedgerOk (oc_cycleLedger c) (oc_spendLedger c)" by (rule accepted_lists(5) [OF _ refl])
  with d window_bound [of "oc_spendLedger c" u] show ?thesis by (simp add: documentOk_def spendLedgerOk_def spentWithin_def spendInWindow_def)
qed

lemma documentOk_later: "documentOk t c \<Longrightarrow> t \<le> u \<Longrightarrow> documentOk u c"
  by (auto simp: documentOk_def)

lemma documentOk_same_spends:
  assumes "documentOk t c" and "assertOperatorConfiguration v = Inr c'" and "oc_spendLedger c' = oc_spendLedger c"
  shows "documentOk t c'"
  using assms by (auto simp: documentOk_def)

lemma ownKeys_configuration: "ownKeys (jsval_of_configuration c) = configurationFields"
  by (simp add: ownKeys_def jsval_of_configuration_def configurationFields_def)

lemma replaced_lists:
  assumes a: "assertOperatorConfiguration (withProps (spread (jsval_of_configuration c)) qs) = Inr c'"
    and k: "''processClaimLimit6hMicroUsd'' \<notin> set (map fst qs)" and d: "distinct (map fst qs)"
  shows "oc_spendLedger c' = map spendEntryOf (arr_of (case map_of qs ''spendLedger'' of Some x \<Rightarrow> x | None \<Rightarrow> JArr (map jsval_of_spend_entry (oc_spendLedger c))))"
    and "oc_cycleLedger c' = map cycleEntryOf (arr_of (case map_of qs ''cycleLedger'' of Some x \<Rightarrow> x | None \<Rightarrow> JArr (map jsval_of_cycle_entry (oc_cycleLedger c))))"
proof -
  let ?v = "withProps (spread (jsval_of_configuration c)) qs"
  have v: "?v = withClaimLimit ?v"
    by (rule withClaimLimit_id [symmetric]) (simp add: hasOwn_withProps spread_def jsval_of_configuration_def)
  have j: "jprop ?v f = (case map_of qs f of Some x \<Rightarrow> x | None \<Rightarrow> jprop (jsval_of_configuration c) f)" for f
    by (simp add: jprop_withProps map_of_rev_distinct [OF d] spread_configuration split: option.split)
  show "oc_spendLedger c' = map spendEntryOf (arr_of (case map_of qs ''spendLedger'' of Some x \<Rightarrow> x | None \<Rightarrow> JArr (map jsval_of_spend_entry (oc_spendLedger c))))"
    "oc_cycleLedger c' = map cycleEntryOf (arr_of (case map_of qs ''cycleLedger'' of Some x \<Rightarrow> x | None \<Rightarrow> JArr (map jsval_of_cycle_entry (oc_cycleLedger c))))"
    using accepted_lists(1,2) [OF a v] by (simp_all add: j cong: option.case_cong)
qed

lemma spendEntryOf_new:
  "spendEntryOf (JObj [(''cycleId'', i), (''cycleDigest'', JStr d), (''amountMicroUsd'', m), (''reservedAtMs'', JNum t)])
    = \<lparr>se_cycleId = str_of i, se_cycleDigest = d, se_amountMicroUsd = str_of m, se_reservedAtMs = t\<rparr>"
  by (simp add: spendEntryOf_def jprop_JObj)

lemma object_of_property: "jprop v f = JStr s \<Longrightarrow> \<not> notObject v"
  by (cases v) (simp_all add: jprop_def notObject_def falsy_def typeofObject_def isArray_def)

lemma reservation_appends:
  assumes "reservationConfiguration c (JStr d) input now = Inr c'" and "existingCycle c (str_of (jprop input ''cycleId'')) = None"
  shows "oc_spendLedger c' = oc_spendLedger c @ [\<lparr>se_cycleId = str_of (jprop input ''cycleId''), se_cycleDigest = d,
      se_amountMicroUsd = str_of (jprop input ''releaseCostMicroUsd''), se_reservedAtMs = now\<rparr>]"
    and "\<exists>v. assertOperatorConfiguration v = Inr c'"
proof -
  from assms obtain mode where a: "assertOperatorConfiguration (withProps (spread (jsval_of_configuration c))
          [(''cycleLedger'', JArr (map jsval_of_cycle_entry (oc_cycleLedger c) @
              [JObj [(''cycleId'', jprop input ''cycleId''), (''cycleDigest'', JStr d), (''mode'', JStr mode), (''openedAtMs'', JNum now),
                     (''releaseCostMicroUsd'', jprop input ''releaseCostMicroUsd''), (''releaseAmountWei'', jprop input ''releaseAmountWei'')]])),
           (''spendLedger'', JArr (map jsval_of_spend_entry (oc_spendLedger c) @
              [JObj [(''cycleId'', jprop input ''cycleId''), (''cycleDigest'', JStr d), (''amountMicroUsd'', jprop input ''releaseCostMicroUsd''),
                     (''reservedAtMs'', JNum now)]]))]) = Inr c'"
    by (auto simp: reservationConfiguration_def bindE_Inr_iff)
  then show "\<exists>v. assertOperatorConfiguration v = Inr c'" by blast
  show "oc_spendLedger c' = oc_spendLedger c @ [\<lparr>se_cycleId = str_of (jprop input ''cycleId''), se_cycleDigest = d,
      se_amountMicroUsd = str_of (jprop input ''releaseCostMicroUsd''), se_reservedAtMs = now\<rparr>]"
    by (subst replaced_lists(1) [OF a]) (simp_all add: comp_def spendEntryOf_new)
qed

lemma reserve_documentOk:
  assumes r: "reserve sha arg verify custody now1 now2 input c = Inr (c', d)" and ok: "documentOk t c"
    and now: "t \<le> now1" "now1 \<le> now2" and b: "jprop input ''boundary'' = JStr ''claim-process''"
  shows "documentOk now2 c'"
proof -
  from r have e: "evaluateConfiguredPolicy sha arg (Some verify) (jsval_of_configuration c) custody (withNow input now1) = Inr d"
    by (auto simp: reserve_def bindE_Inr_iff split: if_splits)
  have same: "documentOk now2 c" using ok now by (blast intro: documentOk_later order_trans)
  show ?thesis
  proof (cases "isAllowed d \<and> existingCycle c (str_of (jprop input ''cycleId'')) = None")
    case False
    then have "c' = c" using r e by (auto simp: reserve_def reservationConfiguration_def split: if_splits)
    with same show ?thesis by simp
  next
    case True
    then obtain o' where d: "d = Allowed o'" by (cases d) (auto simp: isAllowed_def)
    note wn = jprop_withNow [OF object_of_property [OF b]]
    obtain w where w: "assertOperatorConfiguration w = Inr c" using ok by (auto simp: documentOk_def)
    obtain cx c2 cu where cx: "admissionContext sha arg (withNow input now1) = Inr cx" and c2: "policyConfiguration (jsval_of_configuration c) = Inr c2"
      and cd: "claimDecision sha c2 cu cx = Inr (Allowed o')"
      by (rule claim_evaluation [OF e [unfolded d]]) (simp_all add: wn b)
    have c: "c2 = c" and cap: "nat_of_dec (oc_max24HourBudgetMicroUsd c) \<le> DAY_HARD_CAP"
      using c2 revalidated [OF w] hardCaps_Inr(1) by (auto simp: policyConfiguration_Inr)
    obtain dg where o': "o' = Some dg" and cr: "claimReservation c cu cx (existingCycle c (the (cx_cycleId cx))) dg = Inr (Allowed o')"
      by (rule claimDecision_Allowed [OF cd [unfolded c]])
    let ?e = "\<lparr>se_cycleId = str_of (jprop input ''cycleId''), se_cycleDigest = dg,
      se_amountMicroUsd = str_of (jprop input ''releaseCostMicroUsd''), se_reservedAtMs = now2\<rparr>"
    have rc: "reservationConfiguration c (JStr dg) input now2 = Inr c'"
      using r e True by (auto simp: reserve_def d o' decisionDigest_def bindE_Inr_iff isAllowed_def)
    have sp: "oc_spendLedger c' = oc_spendLedger c @ [?e]" and v: "\<exists>v. assertOperatorConfiguration v = Inr c'"
      using reservation_appends [OF rc] True by simp_all
    from v obtain v where "assertOperatorConfiguration v = Inr c'" ..
    from accepted_lists(5) [OF this refl] have "dg \<notin> set (map se_cycleDigest (oc_spendLedger c))" by (simp add: spendLedgerOk_def sp)
    then have "reservationOf c dg = None" by (auto simp: reservationOf_def find_None_iff)
    moreover have "cx_now cx = now1" "cx_releaseAmount cx = spendOf ?e"
      using context_fields(2,4) [OF cx] by (simp_all add: wn)
    ultimately have "spendInWindow c now1 + spendOf ?e \<le> DAY_HARD_CAP"
      using claimReservation_Allowed(2) [OF cr] cap by simp
    moreover have "spentWithin now2 (oc_spendLedger c) \<le> spendInWindow c now1"
      unfolding spendInWindow_def spentWithin_def [symmetric]
      by (rule spentWithin_mono) (use ok now in \<open>force simp: documentOk_def inWindow_def\<close>)
    ultimately have "windowsOk (oc_spendLedger c')" using ok by (simp add: sp windowsOk_snoc documentOk_def)
    with v same show ?thesis by (auto simp: documentOk_def sp)
  qed
qed

definition stateOk :: "int \<Rightarrow> operator_state option \<Rightarrow> bool" where
  "stateOk t s = (case s of None \<Rightarrow> True | Some st \<Rightarrow> (case os_configuration st of None \<Rightarrow> True | Some c \<Rightarrow> documentOk t c))"

lemma stored_configuration:
  assumes "mutateOperatorState current expected (\<lambda>cur. bindE (m cur) (\<lambda>(c, r). Inr (withProps (spread v) [(''configuration'', jsval_of_configuration c)], r))) = Inr (st, r)"
    and "\<And>c r. m current = Inr (c, r) \<Longrightarrow> \<exists>g. assertOperatorConfiguration g = Inr c"
  obtains c where "m current = Inr (c, r)" and "os_configuration st = Some c"
proof -
  from assms(1) obtain c n where m: "m current = Inr (c, r)"
    and a: "assertOperatorState (withProps (spread (withProps (spread v) [(''configuration'', jsval_of_configuration c)])) [(''revision'', n)]) = Inr st"
    by (auto simp: mutateOperatorState_def bindE_Inr_iff)
  have ob: "JObj (spread (withProps ps qs)) = withProps ps qs" for ps qs by (simp add: withProps_def spread_def)
  have "jprop (withProps (spread (withProps (spread v) [(''configuration'', jsval_of_configuration c)])) [(''revision'', n)]) ''configuration''
      = jsval_of_configuration c"
    by (simp add: jprop_withProps ob)
  moreover have "jsval_of_configuration c \<noteq> JNull" by (simp add: jsval_of_configuration_def)
  ultimately obtain c' where "assertOperatorConfiguration (jsval_of_configuration c) = Inr c'" "os_configuration st = Some c'"
    using a by (auto simp: assertOperatorState_def bindE_Inr_iff assertOperatorHardCaps_def)
  with assms(2) [OF m] revalidated m that show thesis by blast
qed

lemma policy_mutation:
  assumes "mutatePolicyConfiguration current expected m = Inr (st, r)" and "stateOk t current" and "t \<le> u"
    and ok: "\<And>c c' r. documentOk t c \<Longrightarrow> m c = Inr (c', r) \<Longrightarrow> documentOk u c'"
  shows "stateOk u (Some st)"
proof -
  from assms(1) obtain s c where s: "current = Some s" "os_configuration s = Some c"
    and mu: "mutateOperatorState current (Some (os_revision s))
      (\<lambda>_. bindE (m c) (\<lambda>(c', r). Inr (withProps (spread (jsval_of_state s)) [(''configuration'', jsval_of_configuration c')], r))) = Inr (st, r)"
    by (auto simp: mutatePolicyConfiguration_def bindE_Inr_iff split: option.splits)
  have c: "documentOk t c" using assms(2) by (simp add: stateOk_def s)
  show ?thesis
  proof (rule stored_configuration [OF mu])
    show "\<exists>g. assertOperatorConfiguration g = Inr c'" if "m c = Inr (c', r)" for c' r
      using ok [OF c that] by (simp add: documentOk_def)
    show ?thesis if "m c = Inr (c', r)" "os_configuration st = Some c'" for c'
      using ok [OF c that(1)] that(2) by (simp add: stateOk_def)
  qed
qed

lemma admit_stateOk:
  assumes "admit sha arg verify configuration custody now custody' now1 now2 input current = Inr (st, d)"
    and "stateOk t current" and "t \<le> now1" and "now1 \<le> now2"
  shows "stateOk now2 st"
proof -
  from assms(1) obtain initial where i: "policyEvaluate sha arg verify configuration custody now input = Inr initial"
    and r: "(if \<not> reservesPolicy input initial then Inr (current, initial)
     else bindE (mutatePolicyConfiguration current JUndefined (reserve sha arg verify custody' now1 now2 input)) (\<lambda>(s, d). Inr (Some s, d))) = Inr (st, d)"
    by (auto simp: admit_def bindE_Inr_iff)
  show ?thesis
  proof (cases "reservesPolicy input initial")
    case False
    with r assms(2-4) show ?thesis by (auto simp: stateOk_def dest: documentOk_later split: option.splits)
  next
    case True
    then have b: "jprop input ''boundary'' = JStr ''claim-process''" by (simp add: reservesPolicy_def)
    from r True obtain s where m: "mutatePolicyConfiguration current JUndefined (reserve sha arg verify custody' now1 now2 input) = Inr (s, d)" and st: "st = Some s"
      by (auto simp: bindE_Inr_iff)
    show ?thesis unfolding st
      by (rule policy_mutation [OF m assms(2)]) (use assms(3,4) b reserve_documentOk in auto)
  qed
qed

lemma approve_documentOk:
  assumes "approve cycleDigest cycleId approvedAtMs now c = Inr (c', a)" and "documentOk t c"
  shows "documentOk t c'"
proof (cases "omap_get (oc_approvalsByCycleDigest c) cycleDigest")
  case None
  then obtain x where "assertOperatorConfiguration (withProps (spread (jsval_of_configuration c)) [(''approvalsByCycleDigest'', x)]) = Inr c'"
    using assms(1) by (auto simp: approve_def bindE_Inr_iff)
  from documentOk_same_spends [OF assms(2) this] replaced_lists(1) [OF this] show ?thesis by (simp add: comp_def)
next
  case (Some e)
  with assms show ?thesis by (auto simp: approve_def split: if_splits)
qed

lemma default_spends: "createDefaultOperatorConfiguration = Inr c \<Longrightarrow> oc_spendLedger c = []"
  by (auto simp: ex_default ex_configuration_def)

lemma edit_stateOk:
  assumes "operatorEdit expected patch current = Inr (st, u)" and "distinct (ownKeys patch)" and "stateOk t current"
  shows "stateOk t (Some st)"
proof -
  let ?base = "case current of None \<Rightarrow> createEmptyOperatorState | Some s \<Rightarrow> s"
  let ?m = "\<lambda>cur. bindE (applyOperatorConfiguration (configurationValue (os_configuration ?base)) patch) (\<lambda>c. Inr (c, ()))"
  have ok: "documentOk t c" if c: "applyOperatorConfiguration (configurationValue (os_configuration ?base)) patch = Inr c" for c
  proof -
    obtain base where b: "(if configurationValue (os_configuration ?base) = JNull then createDefaultOperatorConfiguration
        else assertOperatorConfiguration (configurationValue (os_configuration ?base))) = Inr base"
      and sp: "oc_spendLedger c = oc_spendLedger base" using applyOperatorConfiguration_frame [OF c assms(2)] by blast
    obtain v where v: "assertOperatorConfiguration v = Inr c" using c by (auto simp: applyOperatorConfiguration_def bindE_Inr_iff)
    show ?thesis
    proof (cases "os_configuration ?base")
      case None
      then have "createDefaultOperatorConfiguration = Inr base" using b by (simp add: configurationValue_def)
      then have "oc_spendLedger base = []" by (rule default_spends)
      with v sp show ?thesis by (auto simp: documentOk_def windowsOk_Nil)
    next
      case (Some c0)
      then have c0: "documentOk t c0" using assms(3) by (auto simp: stateOk_def createEmptyOperatorState_def split: option.splits)
      have "assertOperatorConfiguration (jsval_of_configuration c0) = Inr base"
        using b Some by (auto simp: configurationValue_def jsval_of_configuration_def split: if_splits)
      then have "base = c0" using c0 revalidated by (auto simp: documentOk_def)
      with documentOk_same_spends [OF c0 v] sp show ?thesis by simp
    qed
  qed
  have mu: "mutateOperatorState current expected (\<lambda>cur. bindE (?m cur) (\<lambda>(c, r).
      Inr (withProps (spread (jsval_of_state ?base)) [(''configuration'', jsval_of_configuration c)], r))) = Inr (st, u)"
    using assms(1) by (simp add: operatorEdit_def mutateOperatorState_def bindE_assoc Let_def)
  show ?thesis
  proof (rule stored_configuration [OF mu])
    show "\<exists>g. assertOperatorConfiguration g = Inr c" if "?m current = Inr (c, r)" for c r
      using ok that by (auto simp: bindE_Inr_iff documentOk_def)
    show ?thesis if "?m current = Inr (c, u)" "os_configuration st = Some c" for c
      using ok that by (auto simp: bindE_Inr_iff stateOk_def)
  qed
qed

lemma step_stateOk:
  assumes "policy_step sha arg verify s s'" and "stateOk (py_now s) (py_state s)"
  shows "stateOk (py_now s') (py_state s')"
  using assms
proof cases
  case (admitted now1 now2 configuration custody now custody' input st d)
  then show ?thesis using admit_stateOk assms(2) by auto
next
  case (approved cycleDigest cycleId approvedAtMs expectedRevision now st a)
  from approved(2) obtain c where m: "mutatePolicyConfiguration (py_state s) expectedRevision (approve (str_of cycleDigest) c approvedAtMs now) = Inr (st, a)"
    by (auto simp: recordManualApproval_def bindE_Inr_iff)
  show ?thesis using policy_mutation [OF m assms(2) order_refl] approve_documentOk approved(1) by auto
next
  case (edited patch expected st u)
  then show ?thesis using edit_stateOk assms(2) by auto
qed

text \<open>
  C2. The rolling day budget.  However runners and operators interleave admissions, approvals and edits of the operator document - with
  limits that the operator may raise and lower in between - the reservations in any window of 24 hours never exceed the fixed hard
  cap of 495 US dollars: every admission re-checks the window on the document it appends to, and nothing else touches the ledger.
\<close>

theorem rolling_day_budget_holds:
  assumes "policy_reachable sha arg verify s" and "py_state s = Some st" and "os_configuration st = Some c"
  shows "spendInWindow c t \<le> DAY_HARD_CAP"
proof -
  have "stateOk (py_now s) (py_state s)"
    using assms(1) by induction (simp add: stateOk_def, rule step_stateOk)
  with assms(2,3) show ?thesis using documentOk_bound by (simp add: stateOk_def)
qed

section \<open>The operator document\<close>

lemma operator_caps_Inr:
  assumes "assertOperatorHardCaps who c = Inr c'"
  shows "c' = c" and "nat_of_dec (oc_maxUnitPriceMicroUsd c) \<le> 55000000" and "nat_of_dec (oc_maxCycleBudgetMicroUsd c) \<le> 165000000"
    and "nat_of_dec (oc_max24HourBudgetMicroUsd c) \<le> 495000000"
  using assms by (auto simp: assertOperatorHardCaps_def OPERATOR_HARD_CAPS_def hard_cap_defs bindE_Inr_iff throwIf_Inr not_less)

text \<open>
  C37. What the durable operator document guarantees whenever it is read or written.  The fixed hard caps hold: 55 US dollars for a unit, 165 for a
  cycle, 495 for a day, 10 held positions worth 5000, claims of 50000 in six hours, 1000 boosters.  The price limits are nested and the cycle cap
  equals the cycle budget; the schedule and the deadline lie between 5 and 1440 minutes and no count is negative.  The pack list and the pack plan are
  in canonical form; the cycle ledger has unique cycles in time order, the spend ledger reserves at most once per recorded cycle, in time
  order, and there is one approval per digest.  Accepting the document changes none of its plain fields.
\<close>

theorem operator_configuration_wellformed:
  assumes "assertOperatorState v = Inr st" and "os_configuration st = Some c"
  shows "nat_of_dec (oc_maxUnitPriceMicroUsd c) \<le> 55000000 \<and> nat_of_dec (oc_maxCycleBudgetMicroUsd c) \<le> 165000000
    \<and> nat_of_dec (oc_max24HourBudgetMicroUsd c) \<le> 495000000 \<and> 0 \<le> oc_maxHeldPositions c \<and> oc_maxHeldPositions c \<le> 10
    \<and> nat_of_dec (oc_maxHeldValueMicroUsd c) \<le> 5000000000 \<and> nat_of_dec (oc_processClaimLimit6hMicroUsd c) \<le> 50000000000
    \<and> 1 \<le> oc_maxBoostersPerCycle c \<and> oc_maxBoostersPerCycle c \<le> 1000 \<and> 0 \<le> oc_requestedOrders c \<and> oc_requestedOrders c \<le> oc_maxBoostersPerCycle c
    \<and> nat_of_dec (oc_maxUnitPriceMicroUsd c) \<le> nat_of_dec (oc_maxCycleBudgetMicroUsd c)
    \<and> nat_of_dec (oc_maxCycleBudgetMicroUsd c) \<le> nat_of_dec (oc_max24HourBudgetMicroUsd c)
    \<and> oc_perCycleCapMicroUsd c = oc_maxCycleBudgetMicroUsd c
    \<and> 5 \<le> oc_intervalMinutes c \<and> oc_intervalMinutes c \<le> 1440 \<and> 5 \<le> oc_unresolvedCardDeadlineMinutes c \<and> oc_unresolvedCardDeadlineMinutes c \<le> 1440
    \<and> 0 \<le> oc_maxCyclesPerDay c \<and> 0 \<le> oc_manualApprovalCycles c \<and> 0 \<le> oc_configurationRevision c \<and> 0 \<le> os_revision st
    \<and> sorted_wrt (<) (oc_allowedPackIds c) \<and> planOrdersOk (pp_orders (oc_packPlan c))
    \<and> cycleLedgerOk (oc_cycleLedger c) \<and> spendLedgerOk (oc_cycleLedger c) (oc_spendLedger c) \<and> distinct (map fst (oc_approvalsByCycleDigest c))
    \<and> (\<forall>f \<in> set plainFields. jprop (jsval_of_configuration c) f = jprop (withClaimLimit (jprop v ''configuration'')) f)"
proof -
  from assms obtain c0 where c0: "assertOperatorConfiguration (jprop v ''configuration'') = Inr c0" "assertOperatorHardCaps ''operator'' c0 = Inr c"
    and r: "0 \<le> os_revision st"
    by (auto simp: assertOperatorState_def bindE_Inr_iff throwIf_Inr split: if_splits)
  have eq: "c0 = c" by (rule operator_caps_Inr(1) [OF c0(2), symmetric])
  note a = c0(1) [unfolded eq] and caps = c0(2) [unfolded eq]
  have "distinct (map fst (oc_approvalsByCycleDigest c))" using accepted_configuration(7) [OF a] by (simp add: omap_wf_def)
  with operator_caps_Inr(2-4) [OF caps] accepted_configuration [OF a] accepted_fields_kept [OF a refl] r
  show ?thesis by auto
qed

section \<open>At concrete inputs\<close>


theorem execution_needs_reservation_witness: "reservedFor ex_reserved ex_cycle ex_digest (nat_of_dec ''5200000'')"
  using execution_needs_reservation [OF ex_execution_allowed] by (simp add: ex_input_fields ex_policies str_of_def)

theorem rolling_day_budget_holds_witness: "spendInWindow ex_reserved 5000 \<le> DAY_HARD_CAP \<and> oc_spendLedger ex_reserved = [ex_spend]"
  using rolling_day_budget_holds [OF ex_reachable, of "ex_state 1 ex_reserved" ex_reserved 5000] by (simp add: ex_state_def ex_limits_def)

theorem operator_configuration_wellformed_witness:
  "nat_of_dec (oc_maxCycleBudgetMicroUsd ex_reserved) = 6000000 \<and> nat_of_dec (oc_maxCycleBudgetMicroUsd ex_reserved) \<le> 165000000
     \<and> spendLedgerOk [ex_entry] [ex_spend] \<and> oc_maxHeldPositions ex_reserved \<le> 10"
  using operator_configuration_wellformed [OF ex_state_accepted(2), of ex_reserved] by (simp add: ex_state_def ex_limits_def nat_of_dec_def digit_val_def)

end
