(* ===== verification/Cycle_Journal.thy ===== *)
theory Cycle_Journal
  imports Js_Objects Canonical_Injective "HOL-Library.Code_Target_Nat" "HOL-Library.Code_Target_Int"
begin

text \<open>
  The append-only journal of \<^verbatim>\<open>packages/runner/src/cycle/journal.mjs\<close>: \<open>assertJournalEntry\<close> and the class
  \<open>CycleJournal\<close>.  An entry is a JavaScript object that carries its position, the digest of its predecessor and the
  digest of its own canonical text.  The laws an append-only log promises are the locale \<open>append_log\<close>, instantiated by
  the class; the section on tampering shows what the chain of digests protects.
\<close>

section \<open>Entries\<close>

definition payload_limits :: canonical_limits where
  "payload_limits = \<lparr>lim_objects = 256, lim_arrays = 64, lim_arrayItems = 64, lim_aggregateBytes = 262144\<rparr>"

definition journalEvents :: nat where "journalEvents = 512"

definition is_lower_alpha :: "char \<Rightarrow> bool" where
  "is_lower_alpha c = (c \<in> set ''abcdefghijklmnopqrstuvwxyz'')"

definition is_upper_alpha :: "char \<Rightarrow> bool" where
  "is_upper_alpha c = (c \<in> set ''ABCDEFGHIJKLMNOPQRSTUVWXYZ'')"

text \<open>\<^verbatim>\<open>/^[a-z][a-z0-9-]{1,63}$/\<close> and \<^verbatim>\<open>/^[A-Za-z0-9][A-Za-z0-9:._-]{1,127}$/\<close>.\<close>

definition event_kind_pattern :: "string \<Rightarrow> bool" where
  "event_kind_pattern s = (case s of [] \<Rightarrow> False | c # cs \<Rightarrow> is_lower_alpha c \<and> 1 \<le> length cs \<and> length cs \<le> 63
     \<and> list_all (\<lambda>d. is_lower_alpha d \<or> is_digit d \<or> d = CHR ''-'') cs)"

definition journal_id_pattern :: "string \<Rightarrow> bool" where
  "journal_id_pattern s = (case s of [] \<Rightarrow> False | c # cs \<Rightarrow> (is_lower_alpha c \<or> is_upper_alpha c \<or> is_digit c)
     \<and> 1 \<le> length cs \<and> length cs \<le> 127
     \<and> list_all (\<lambda>d. is_lower_alpha d \<or> is_upper_alpha d \<or> is_digit d \<or> d \<in> set '':._-'') cs)"

definition journalFields :: "string list" where
  "journalFields = [''cycleId'', ''index'', ''kind'', ''payload'', ''previousDigest'', ''digest'']"

text \<open>\<open>const { digest: entryDigest, ...unsigned } = entry\<close>.\<close>

definition unsignedEntry :: "jsval \<Rightarrow> jsval" where
  "unsignedEntry entry = JObj (filter (\<lambda>p. fst p \<noteq> ''digest'') (spread entry))"

definition assertJournalEntry :: "(string \<Rightarrow> string) \<Rightarrow> jsval \<Rightarrow> string \<Rightarrow> nat \<Rightarrow> jsval \<Rightarrow> unit res" where
  "assertJournalEntry sha entry cycleId index previousDigest =
     bindE (throwIf (\<not> (typeofObject entry \<and> entry \<noteq> JNull \<and> \<not> isArray entry \<and> hasOwn entry ''payload''))
       ''journal payload must be an own data property without an accessor'') (\<lambda>_.
     bindE (assertBoundedCanonicalValue (jprop entry ''payload'') ''journal payload'' payload_limits) (\<lambda>_.
     bindE (assertCanonicalObject entry) (\<lambda>_.
     bindE (throwIf (\<not> exactKeys entry journalFields) ''journal event must use the exact schema'') (\<lambda>_.
     bindE (throwIf (jprop entry ''cycleId'' \<noteq> JStr cycleId \<or> jprop entry ''index'' \<noteq> JNum (int index)
         \<or> jprop entry ''previousDigest'' \<noteq> previousDigest) ''journal event predecessor is invalid'') (\<lambda>_.
     bindE (throwIf (\<not> str_matches event_kind_pattern (jprop entry ''kind'')) ''journal event kind is invalid'') (\<lambda>_.
     bindE (assertCanonicalObject (jprop entry ''payload'')) (\<lambda>_.
     bindE (digest sha (unsignedEntry entry)) (\<lambda>d.
     throwIf (jprop entry ''digest'' \<noteq> JStr d) ''journal event digest is invalid''))))))))"

section \<open>The class \<open>CycleJournal\<close>\<close>

record cycle_journal =
  cj_cycleId :: string
  cj_entries :: "jsval list"

text \<open>\<open>get head()\<close>: the digest of the last entry, \<open>null\<close> when there is none.\<close>

definition headOf :: "jsval list \<Rightarrow> jsval" where
  "headOf es = (if es = [] then JNull else jprop (last es) ''digest'')"

text \<open>The checks of the constructor and of \<open>verify\<close>: every entry against its predecessor.\<close>

fun assertChain :: "(string \<Rightarrow> string) \<Rightarrow> string \<Rightarrow> nat \<Rightarrow> jsval \<Rightarrow> jsval list \<Rightarrow> unit res" where
  "assertChain sha cycleId index previousDigest [] = Inr ()"
| "assertChain sha cycleId index previousDigest (e # es) =
     bindE (assertJournalEntry sha e cycleId index previousDigest) (\<lambda>_. assertChain sha cycleId (Suc index) (jprop e ''digest'') es)"

definition newCycleJournal :: "(string \<Rightarrow> string) \<Rightarrow> jsval \<Rightarrow> jsval \<Rightarrow> cycle_journal res" where
  "newCycleJournal sha cycleId entries =
     bindE (throwIf (\<not> str_matches journal_id_pattern cycleId) ''cycleId is invalid'') (\<lambda>_.
     bindE (throwIf (\<not> isArray entries) ''journal entries must be an array'') (\<lambda>_.
     bindE (throwIf (length (arr_of entries) > journalEvents) ''journal event count limit exceeded'') (\<lambda>_.
     bindE (assertChain sha (str_of cycleId) 0 JNull (arr_of entries)) (\<lambda>_.
     bindE (mapE (\<lambda>_. structuredClone) 0 (arr_of entries)) (\<lambda>es.
     Inr \<lparr>cj_cycleId = str_of cycleId, cj_entries = es\<rparr>)))))"

definition propose :: "(string \<Rightarrow> string) \<Rightarrow> cycle_journal \<Rightarrow> string \<Rightarrow> jsval \<Rightarrow> jsval res" where
  "propose sha j kind payload =
     bindE (assertBoundedCanonicalValue payload ''journal payload'' payload_limits) (\<lambda>_.
     bindE (canonicalJson payload) (\<lambda>_.
     bindE (structuredClone payload) (\<lambda>p.
     let entry = [(''cycleId'', JStr (cj_cycleId j)), (''index'', JNum (int (length (cj_entries j)))), (''kind'', JStr kind),
                  (''payload'', p), (''previousDigest'', headOf (cj_entries j))] in
     bindE (digest sha (JObj entry)) (\<lambda>d.
     let signed = JObj (entry @ [(''digest'', JStr d)]) in
     bindE (assertJournalEntry sha signed (cj_cycleId j) (length (cj_entries j)) (headOf (cj_entries j))) (\<lambda>_.
     structuredClone signed)))))"

definition appendEvent :: "(string \<Rightarrow> string) \<Rightarrow> cycle_journal \<Rightarrow> jsval \<Rightarrow> cycle_journal res" where
  "appendEvent sha j entry =
     bindE (assertJournalEntry sha entry (cj_cycleId j) (length (cj_entries j)) (headOf (cj_entries j))) (\<lambda>_.
     bindE (structuredClone entry) (\<lambda>e. Inr (j\<lparr>cj_entries := cj_entries j @ [e]\<rparr>)))"

text \<open>\<open>append\<close> returns the journal it changed and the entry it appended.\<close>

definition appendKind :: "(string \<Rightarrow> string) \<Rightarrow> cycle_journal \<Rightarrow> string \<Rightarrow> jsval \<Rightarrow> (cycle_journal \<times> jsval) res" where
  "appendKind sha j kind payload =
     bindE (propose sha j kind payload) (\<lambda>e. bindE (appendEvent sha j e) (\<lambda>j'. Inr (j', e)))"

definition verify :: "(string \<Rightarrow> string) \<Rightarrow> cycle_journal \<Rightarrow> bool" where
  "verify sha j = isOk (assertChain sha (cj_cycleId j) 0 JNull (cj_entries j))"

definition prepareIntent :: "(string \<Rightarrow> string) \<Rightarrow> cycle_journal \<Rightarrow> jsval \<Rightarrow> (cycle_journal \<times> jsval) res" where
  "prepareIntent sha j v =
     (let actionKind = jprop v ''actionKind''; request = jprop v ''request''; bindingDigest = jprop v ''bindingDigest'' in
      bindE (throwIf (falsy actionKind \<or> falsy request \<or> falsy bindingDigest) ''intent requires actionKind, request, and bindingDigest'') (\<lambda>_.
      bindE (digest sha request) (\<lambda>requestDigest.
      bindE (appendKind sha j ''intent'' (JObj [(''actionKind'', actionKind), (''request'', request), (''requestDigest'', JStr requestDigest),
          (''bindingDigest'', bindingDigest)])) (\<lambda>(j', entry).
      Inr (j', JObj [(''cycleId'', JStr (cj_cycleId j)), (''actionKind'', actionKind), (''requestDigest'', JStr requestDigest),
          (''bindingDigest'', bindingDigest), (''journalHead'', jprop entry ''digest'')])))))"

section \<open>Lemmas on entries and chains\<close>

lemma structuredClone_canonOk: "canonOk v \<Longrightarrow> structuredClone v = Inr v"
proof (induction v)
  case (JArr xs)
  then have "mapE (\<lambda>_. structuredClone) 0 xs = Inr (map id xs)" by (intro mapE_Inr) (simp add: list_all_iff)
  then show ?case by simp
next
  case (JObj ps)
  have "mapE (\<lambda>_ p. bindE (structuredClone (snd p)) (\<lambda>v. Inr (fst p, v))) 0 ps = Inr (map id ps)"
  proof (rule mapE_Inr)
    fix i p assume p: "p \<in> set ps"
    then have "structuredClone (snd p) = Inr (snd p)"
      using JObj.IH [of p "snd p"] JObj.prems by (cases p) (auto simp: list_all_iff snds.simps)
    then show "bindE (structuredClone (snd p)) (\<lambda>v. Inr (fst p, v)) = Inr (id p)" by simp
  qed
  then show ?case by simp
qed simp_all

lemma canonicalJson_canonOk: "canonicalJson v = Inr t \<Longrightarrow> canonOk v"
  by (auto simp: canonicalJson_def res_simps canonicalJsonUnchecked_iff)

lemma digest_canonOk: "digest sha v = Inr d \<Longrightarrow> canonOk v"
  by (auto simp: digest_def res_simps dest: canonicalJson_canonOk)

lemma jprop_filter: "f \<noteq> k \<Longrightarrow> jprop (JObj (filter (\<lambda>p. fst p \<noteq> k) ps)) f = jprop (JObj ps) f"
  by (induction ps) (auto simp: jprop_JObj)

text \<open>What a checked entry is.\<close>

lemma assertJournalEntry_Inr:
  assumes "assertJournalEntry sha e cycleId i prev = Inr u"
  obtains ps d where "e = JObj ps" "distinct (map fst ps)" "set (map fst ps) = set journalFields"
    "jprop e ''cycleId'' = JStr cycleId" "jprop e ''index'' = JNum (int i)" "jprop e ''previousDigest'' = prev"
    "str_matches event_kind_pattern (jprop e ''kind'')" "isPlainObject (jprop e ''payload'')"
    "digest sha (unsignedEntry e) = Inr d" "jprop e ''digest'' = JStr d"
proof -
  have e: "assertCanonicalObject e = Inr ()" "exactKeys e journalFields" "assertCanonicalObject (jprop e ''payload'') = Inr ()"
    using assms unfolding assertJournalEntry_def by (simp_all add: res_simps)
  from e(1) obtain ps where ps: "e = JObj ps" by (auto simp: assertCanonicalObject_def isPlainObject_iff res_simps)
  have "distinct (ownKeys e) \<and> set (ownKeys e) = set journalFields"
    by (rule exactKeys_distinct [OF e(2)]) (simp add: journalFields_def)
  then have k: "distinct (map fst ps)" "set (map fst ps) = set journalFields" by (simp_all add: ps ownKeys_def)
  have "isPlainObject (jprop e ''payload'')" using e(3) by (simp add: assertCanonicalObject_def res_simps)
  with that [OF ps k] show thesis using assms unfolding assertJournalEntry_def by (simp add: res_simps) blast
qed

lemma assertJournalEntry_canonOk:
  assumes "assertJournalEntry sha e cycleId i prev = Inr u"
  shows "canonOk e"
proof -
  from assms obtain ps d where e: "e = JObj ps" "distinct (map fst ps)" "digest sha (unsignedEntry e) = Inr d" "jprop e ''digest'' = JStr d"
    by (rule assertJournalEntry_Inr)
  have ok: "list_all (\<lambda>p. fst p \<notin> set forbiddenKeys \<and> canonOk (snd p)) (filter (\<lambda>p. fst p \<noteq> ''digest'') ps)"
    using digest_canonOk [OF e(3)] by (simp add: unsignedEntry_def e(1) spread_def)
  have "fst p \<notin> set forbiddenKeys \<and> canonOk (snd p)" if p: "p \<in> set ps" for p
  proof (cases "fst p = ''digest''")
    case True
    then have "map_of ps ''digest'' = Some (snd p)" using p e(2) by (metis map_of_is_SomeI surjective_pairing)
    then show ?thesis using e(4) True by (simp add: e(1) jprop_JObj forbiddenKeys_def)
  next
    case False
    with ok p show ?thesis by (cases p) (simp add: list_all_iff)
  qed
  then show ?thesis by (simp add: e(1) list_all_iff)
qed

lemma assertChain_snoc:
  "assertChain sha c i prev (es @ [e]) =
     bindE (assertChain sha c i prev es) (\<lambda>_. assertJournalEntry sha e c (i + length es) (if es = [] then prev else headOf es))"
proof (induction es arbitrary: i prev)
  case (Cons x es)
  then show ?case by (cases "assertJournalEntry sha x c i prev") (auto simp: headOf_def)
qed (simp add: bindE_def split: sum.split)

lemma assertChain_append: "assertChain sha c i prev (es @ fs) = Inr u \<Longrightarrow> assertChain sha c i prev es = Inr ()"
  by (induction es arbitrary: i prev) (auto simp: res_simps)

section \<open>The log as an interface\<close>

text \<open>
  What a client of the journal relies on: adding an entry to a well-formed log keeps it well-formed and
  changes nothing that is already in it.
\<close>

locale append_log =
  fixes ok :: "'j \<Rightarrow> bool"
    and entries :: "'j \<Rightarrow> 'e list"
    and add :: "'j \<Rightarrow> 'a \<Rightarrow> ('j \<times> 'e) res"
  assumes add_ok: "ok j \<Longrightarrow> add j a = Inr (j', e) \<Longrightarrow> ok j'"
    and add_entries: "ok j \<Longrightarrow> add j a = Inr (j', e) \<Longrightarrow> entries j' = entries j @ [e]"
begin

definition adds :: "'a list \<Rightarrow> 'j \<Rightarrow> 'j res" where
  "adds items j = foldE (\<lambda>_ a j. bindE (add j a) (\<lambda>(j', e). Inr j')) 0 items j"

lemma adds_invariant: "ok j \<Longrightarrow> foldE (\<lambda>_ a j. bindE (add j a) (\<lambda>(j', e). Inr j')) i items j = Inr j' \<Longrightarrow>
    ok j' \<and> (\<exists>es. entries j' = entries j @ es \<and> length es = length items)"
proof (induction items arbitrary: i j)
  case (Cons a items)
  from Cons.prems(2) obtain j1 e where a: "add j a = Inr (j1, e)"
    and rest: "foldE (\<lambda>_ a j. bindE (add j a) (\<lambda>(j', e). Inr j')) (Suc i) items j1 = Inr j'" by (auto simp: res_simps)
  from Cons.IH [OF add_ok [OF Cons.prems(1) a] rest] add_entries [OF Cons.prems(1) a] show ?case by auto
qed simp

lemma adds_ok: "ok j \<Longrightarrow> adds items j = Inr j' \<Longrightarrow> ok j'"
  unfolding adds_def using adds_invariant by blast

lemma adds_extend: "ok j \<Longrightarrow> adds items j = Inr j' \<Longrightarrow> \<exists>es. entries j' = entries j @ es \<and> length es = length items"
  unfolding adds_def using adds_invariant by blast

end

lemma appendEvent_Inr:
  assumes "appendEvent sha j e = Inr j'"
  shows "assertJournalEntry sha e (cj_cycleId j) (length (cj_entries j)) (headOf (cj_entries j)) = Inr ()"
    and "j' = j\<lparr>cj_entries := cj_entries j @ [e]\<rparr>"
proof -
  show a: "assertJournalEntry sha e (cj_cycleId j) (length (cj_entries j)) (headOf (cj_entries j)) = Inr ()"
    using assms by (auto simp: appendEvent_def res_simps)
  then have "structuredClone e = Inr e" by (intro structuredClone_canonOk) (rule assertJournalEntry_canonOk)
  with assms a show "j' = j\<lparr>cj_entries := cj_entries j @ [e]\<rparr>" by (simp add: appendEvent_def)
qed

lemma appendEvent_verify: "verify sha j \<Longrightarrow> appendEvent sha j e = Inr j' \<Longrightarrow> verify sha j'"
  using appendEvent_Inr [of sha j e j']
  by (cases "cj_entries j = []") (auto simp: verify_def isOk_iff assertChain_snoc headOf_def)

lemma appendKind_Inr:
  assumes "appendKind sha j kind payload = Inr (j', e)"
  shows "propose sha j kind payload = Inr e" "appendEvent sha j e = Inr j'" "cj_entries j' = cj_entries j @ [e]" "cj_cycleId j' = cj_cycleId j"
proof -
  show p: "propose sha j kind payload = Inr e" and a: "appendEvent sha j e = Inr j'"
    using assms by (auto simp: appendKind_def res_simps)
  show "cj_entries j' = cj_entries j @ [e]" "cj_cycleId j' = cj_cycleId j" using appendEvent_Inr(2) [OF a] by simp_all
qed

interpretation journal: append_log "verify sha" cj_entries "\<lambda>j (kind, payload). appendKind sha j kind payload" for sha
  by unfold_locales (auto simp: appendKind_Inr(3) dest: appendKind_Inr(2) appendEvent_verify)

lemma propose_entry:
  assumes "propose sha j kind payload = Inr e"
  shows "jprop e ''kind'' = JStr kind" "jprop e ''payload'' = payload"
proof -
  let ?entry = "[(''cycleId'', JStr (cj_cycleId j)), (''index'', JNum (int (length (cj_entries j)))), (''kind'', JStr kind),
                  (''payload'', payload), (''previousDigest'', headOf (cj_entries j))]"
  have clone: "structuredClone payload = Inr payload" if "canonicalJson payload = Inr t" for t
    using that by (intro structuredClone_canonOk) (rule canonicalJson_canonOk)
  from assms obtain d where c: "structuredClone (JObj (?entry @ [(''digest'', JStr d)])) = Inr e"
    and chk: "assertJournalEntry sha (JObj (?entry @ [(''digest'', JStr d)])) (cj_cycleId j) (length (cj_entries j)) (headOf (cj_entries j)) = Inr ()"
    unfolding propose_def Let_def by (auto simp: res_simps clone simp del: structuredClone.simps)
  have "e = JObj (?entry @ [(''digest'', JStr d)])"
    using structuredClone_canonOk [OF assertJournalEntry_canonOk [OF chk]] c by (simp only: sum.inject)
  then show "jprop e ''kind'' = JStr kind" "jprop e ''payload'' = payload" by (simp_all add: jprop_JObj)
qed

text \<open>
  Appending to a journal that verifies gives a journal that verifies: the entry carries the next index, the given
  kind and payload and the digest of the last entry, and no earlier entry changes.
\<close>

theorem journal_append_extends_chain:
  assumes "verify sha j" and "appendKind sha j kind payload = Inr (j', e)"
  shows "verify sha j' \<and> cj_entries j' = cj_entries j @ [e] \<and> cj_cycleId j' = cj_cycleId j
    \<and> jprop e ''index'' = JNum (int (length (cj_entries j))) \<and> jprop e ''kind'' = JStr kind \<and> jprop e ''payload'' = payload
    \<and> jprop e ''previousDigest'' = headOf (cj_entries j)"
proof -
  note p = appendKind_Inr(1) [OF assms(2)] and a = appendKind_Inr(2) [OF assms(2)]
  note checked = appendEvent_Inr [OF a]
  have "jprop e ''index'' = JNum (int (length (cj_entries j)))" "jprop e ''previousDigest'' = headOf (cj_entries j)"
    by (rule assertJournalEntry_Inr [OF checked(1)], simp)+
  then show ?thesis using checked(2) appendEvent_verify [OF assms(1) a] propose_entry [OF p] by simp
qed

section \<open>Tampering\<close>

text \<open>The texts a journal's digests are taken of.\<close>

definition digestedTexts :: "jsval list \<Rightarrow> string set" where
  "digestedTexts es = {t. \<exists>e \<in> set es. canonicalJson (unsignedEntry e) = Inr t}"

text \<open>Equal digests of two checked entries, with no collision among the two texts: the entries agree in every field.\<close>

lemma entry_binding:
  assumes e: "assertJournalEntry sha e c i prev = Inr ()" and e': "assertJournalEntry sha e' c' i' prev' = Inr ()"
    and same: "jprop e ''digest'' = jprop e' ''digest''"
    and inj: "inj_on sha (digestedTexts es)" "e \<in> set es" "e' \<in> set es"
    and pure: "pureJson e" "pureJson e'"
    and f: "f \<noteq> ''digest''"
  shows "normal (jprop e f) = normal (jprop e' f)"
proof -
  from e obtain ps d where p: "e = JObj ps" "distinct (map fst ps)" "digest sha (unsignedEntry e) = Inr d" "jprop e ''digest'' = JStr d"
    by (rule assertJournalEntry_Inr)
  from e' obtain qs d' where q: "e' = JObj qs" "distinct (map fst qs)" "digest sha (unsignedEntry e') = Inr d'" "jprop e' ''digest'' = JStr d'"
    by (rule assertJournalEntry_Inr)
  from p(3) obtain t where t: "canonicalJson (unsignedEntry e) = Inr t" "d = ''sha256:'' @ sha t" by (auto simp: digest_def res_simps)
  from q(3) obtain t' where t': "canonicalJson (unsignedEntry e') = Inr t'" "d' = ''sha256:'' @ sha t'" by (auto simp: digest_def res_simps)
  have "sha t = sha t'" using same p(4) q(4) t(2) t'(2) by simp
  moreover have "t \<in> digestedTexts es" "t' \<in> digestedTexts es" using t(1) t'(1) inj by (auto simp: digestedTexts_def)
  ultimately have "t = t'" using inj(1) by (simp add: inj_on_def)
  let ?k = "filter (\<lambda>p. fst p \<noteq> ''digest'')"
  have u: "unsignedEntry e = JObj (?k ps)" "unsignedEntry e' = JObj (?k qs)" by (simp_all add: unsignedEntry_def p(1) q(1) spread_def)
  have pu: "pureJson (unsignedEntry e)" "pureJson (unsignedEntry e')"
    unfolding u using pure p(2) q(2) by (simp_all add: p(1) q(1) list_all_iff distinct_map_filter)
  have "normal (JObj (?k ps)) = normal (JObj (?k qs))"
    using canonicalJson_injective [OF t(1) _ pu] t'(1) \<open>t = t'\<close> u by simp
  then have "normal (jprop (JObj (?k ps)) f) = normal (jprop (JObj (?k qs)) f)"
    by (rule normal_jprop) (use p(2) q(2) in \<open>simp_all add: distinct_map_filter\<close>)
  then show ?thesis using f by (simp add: jprop_filter p(1) q(1))
qed

text \<open>
  C18. Two journals that verify and have the same head digest are the same history: the same cycle, the same number of
  entries and, position by position, the same kind and the same payload (up to the order of object keys), provided
  SHA-256 has no collision among the texts of the two journals.  A rewritten entry anywhere in the history
  changes the head digest that the cycle store keeps.
\<close>

theorem journal_head_binds_history:
  assumes "verify sha j" "verify sha j'" and "headOf (cj_entries j) = headOf (cj_entries j')"
    and "inj_on sha (digestedTexts (cj_entries j @ cj_entries j'))"
    and "list_all pureJson (cj_entries j)" "list_all pureJson (cj_entries j')"
  shows "length (cj_entries j) = length (cj_entries j')
    \<and> (\<forall>k < length (cj_entries j). jprop (cj_entries j ! k) ''cycleId'' = jprop (cj_entries j' ! k) ''cycleId''
      \<and> jprop (cj_entries j ! k) ''kind'' = jprop (cj_entries j' ! k) ''kind''
      \<and> normal (jprop (cj_entries j ! k) ''payload'') = normal (jprop (cj_entries j' ! k) ''payload''))"
proof -
  define c c' where "c = cj_cycleId j" and "c' = cj_cycleId j'"
  let ?same = "\<lambda>e e'. jprop e ''cycleId'' = jprop e' ''cycleId'' \<and> jprop e ''kind'' = jprop e' ''kind''
      \<and> normal (jprop e ''payload'') = normal (jprop e' ''payload'')"
  have main: "assertChain sha c 0 JNull es = Inr () \<Longrightarrow> assertChain sha c' 0 JNull es' = Inr () \<Longrightarrow> headOf es = headOf es' \<Longrightarrow>
      set es \<subseteq> set (cj_entries j) \<Longrightarrow> set es' \<subseteq> set (cj_entries j') \<Longrightarrow> list_all2 ?same es es'" for es es'
  proof (induction es arbitrary: es' rule: rev_induct)
    case Nil
    then show ?case
      by (cases es' rule: rev_cases) (auto simp: headOf_def assertChain_snoc res_simps elim!: assertJournalEntry_Inr)
  next
    case (snoc e es)
    from snoc.prems(1) have chain: "assertChain sha c 0 JNull es = Inr ()"
      and e: "assertJournalEntry sha e c (length es) (headOf es) = Inr ()" by (auto simp: assertChain_snoc res_simps headOf_def)
    obtain e' fs where es': "es' = fs @ [e']"
      using snoc.prems(3) e by (cases es' rule: rev_cases) (auto simp: headOf_def elim!: assertJournalEntry_Inr)
    from snoc.prems(2) have chain': "assertChain sha c' 0 JNull fs = Inr ()"
      and e': "assertJournalEntry sha e' c' (length fs) (headOf fs) = Inr ()" by (auto simp: es' assertChain_snoc res_simps headOf_def)
    have bind: "normal (jprop e f) = normal (jprop e' f)" if "f \<noteq> ''digest''" for f
      by (rule entry_binding [OF e e' _ assms(4)])
        (use snoc.prems(3-5) assms(5,6) that in \<open>auto simp: es' headOf_def list_all_iff\<close>)
    have kinds: "jprop e f = jprop e' f" if "f \<in> {''cycleId'', ''kind'', ''previousDigest''}" for f
    proof -
      have "\<exists>s. jprop e f = JStr s \<or> jprop e f = JNull"
        using that e chain by (cases es rule: rev_cases)
          (auto simp: headOf_def str_matches_iff assertChain_snoc res_simps elim!: assertJournalEntry_Inr)
      moreover have "normal (jprop e f) = normal (jprop e' f)" by (rule bind) (use that in auto)
      ultimately show ?thesis by (metis normal_JStr normal_JNull)
    qed
    have "headOf es = headOf fs"
      using kinds [of "''previousDigest''"] e e' by (auto elim!: assertJournalEntry_Inr)
    then have "list_all2 ?same es fs" using snoc.IH [OF chain chain'] snoc.prems(4,5) by (simp add: es')
    then show ?case using kinds [of "''cycleId''"] kinds [of "''kind''"] bind [of "''payload''"] by (simp add: es' list_all2_appendI)
  qed
  have "list_all2 ?same (cj_entries j) (cj_entries j')"
    using assms(1-3) by (intro main) (auto simp: verify_def isOk_iff c_def c'_def)
  then show ?thesis by (simp add: list_all2_conv_all_nth)
qed

section \<open>A concrete history\<close>

text \<open>Two journals with the same two entries, the first payload written with its keys in a different order.\<close>

definition ex_history :: "(string \<times> jsval) list \<Rightarrow> cycle_journal" where
  "ex_history payload =
     (case bindE (appendKind id \<lparr>cj_cycleId = ''c1'', cj_entries = []\<rparr> ''note'' (JObj payload)) (\<lambda>(j, e). appendKind id j ''end'' (JObj [])) of
        Inr (j, e) \<Rightarrow> j | Inl e \<Rightarrow> \<lparr>cj_cycleId = ''c1'', cj_entries = []\<rparr>)"

definition ex_history_1 :: cycle_journal where
  "ex_history_1 = ex_history [(''a'', JNum 1), (''b'', JBool True)]"

definition ex_history_2 :: cycle_journal where
  "ex_history_2 = ex_history [(''b'', JBool True), (''a'', JNum 1)]"

lemma ex_history_verifies: "verify id ex_history_1" "verify id ex_history_2"
  by code_simp+

lemma ex_history_heads: "headOf (cj_entries ex_history_1) = headOf (cj_entries ex_history_2)"
  by code_simp

lemma ex_history_pure: "list_all pureJson (cj_entries ex_history_1)" "list_all pureJson (cj_entries ex_history_2)"
  by code_simp+

lemma journal_append_extends_chain_witness:
  "\<exists>j' e. verify id ex_history_1 \<and> appendKind id ex_history_1 ''stop'' (JObj []) = Inr (j', e) \<and> verify id j'
     \<and> cj_entries j' = cj_entries ex_history_1 @ [e]"
proof -
  have "isOk (appendKind id ex_history_1 ''stop'' (JObj []))" by code_simp
  then obtain j' e where a: "appendKind id ex_history_1 ''stop'' (JObj []) = Inr (j', e)" by (auto simp: isOk_iff)
  from journal_append_extends_chain [OF ex_history_verifies(1) a] show ?thesis using ex_history_verifies(1) a by blast
qed

lemma journal_head_binds_history_witness:
  "length (cj_entries ex_history_1) = 2 \<and> cj_entries ex_history_1 \<noteq> cj_entries ex_history_2
    \<and> normal (jprop (cj_entries ex_history_1 ! 0) ''payload'') = normal (jprop (cj_entries ex_history_2 ! 0) ''payload'')"
proof -
  have "length (cj_entries ex_history_1) = 2" "cj_entries ex_history_1 \<noteq> cj_entries ex_history_2" by code_simp+
  then show ?thesis
    using journal_head_binds_history [OF ex_history_verifies ex_history_heads _ ex_history_pure] by simp
qed

end
