(* ===== verification/Cycle_Ledger.thy ===== *)
theory Cycle_Ledger
  imports Cycle_Journal Money_Attempts
begin

text \<open>
  The durable record of a cycle: \<^verbatim>\<open>packages/adapters/src/app/cycle-repository.mjs\<close>.  The repository keeps no
  state but the journal of a cycle; every operation replays the stored entries, checks its preconditions on the
  replayed state, and appends entries.  This theory models the replay (\<open>#replayStored\<close>) of the events that drive
  a cycle: stages, provider attempts, chain attempts, sign-only retries, holds and completion.

  The events of the other parts (admission, relay legs, custody, held positions, supplementary settlements, payout
  dust and quarantines, packs, nonces) change the other maps of the replayed state.  Those maps are the field
  \<open>rp_other\<close>, of any type, and the record \<open>other_parts\<close> gives what the code modelled here uses of them: the replay of
  one such event and the values read from the maps.
\<close>

section \<open>Constants and helpers\<close>

definition LEGACY_ACCOUNTING_STAGES :: "string list" where
  "LEGACY_ACCOUNTING_STAGES = [''funding'', ''distribution'']"

definition POST_TERMINAL_RECORD_KINDS :: "string list" where
  "POST_TERMINAL_RECORD_KINDS = [''process-usd-claim-finalized'', ''stage-attempted'', ''stage-attempt-failed'', ''stage-attempt-sent-unknown'',
     ''stage-attempt-not-sent'', ''stage-attempt-reprepared'', ''stage-attempt-response-recorded'', ''stage-attempt-deadline-anchored'',
     ''stage-attempt-reconciled'', ''chain-attempt-broadcast'', ''chain-attempt-finalized'', ''relay-leg-settled'', ''custody-ledger-recorded'',
     ''payout-quarantine-retry-requested'', ''payout-quarantine-retry-refused'', ''payout-quarantine-settled'', ''wallet-nonce-reserved'',
     ''wallet-nonce-released'', ''held-owner-decision-recorded'', ''held-position-owner-decision-recorded'', ''held-position-identity-verified'',
     ''held-position-resolved'', ''supplementary-settlement-advanced'', ''supplementary-payout-gas-recorded'',
     ''supplementary-chain-attempt-prepared'', ''supplementary-chain-attempt-signed'', ''supplementary-chain-attempt-signed-with-recovery-context'',
     ''supplementary-chain-attempt-broadcast'', ''supplementary-chain-attempt-recovery-context-recorded'']"

definition POST_COMPLETION_RECORD_KINDS :: "string list" where
  "POST_COMPLETION_RECORD_KINDS = [''process-usd-claim-finalized'', ''held-position-owner-decision-recorded'', ''held-position-identity-verified'',
     ''held-position-resolved'', ''supplementary-settlement-advanced'', ''supplementary-payout-gas-recorded'',
     ''supplementary-chain-attempt-prepared'', ''supplementary-chain-attempt-signed'', ''supplementary-chain-attempt-signed-with-recovery-context'',
     ''supplementary-chain-attempt-broadcast'', ''supplementary-chain-attempt-recovery-context-recorded'']"

definition HELD_OWNER_DECISION :: string where "HELD_OWNER_DECISION = ''HELD_OWNER_DECISION''"

definition quoted :: "string \<Rightarrow> string" where
  "quoted s = CHR 0x22 # s @ [CHR 0x22]"

definition assertStageName :: "jsval \<Rightarrow> bool \<Rightarrow> string res" where
  "assertStageName stage allowLegacyRead =
     (if str_matches (\<lambda>s. s \<in> set OPERATIONAL_CYCLE_STAGES) stage then Inr (str_of stage)
      else if str_matches (\<lambda>s. s \<in> set LEGACY_ACCOUNTING_STAGES) stage
      then (if allowLegacyRead then Inr (str_of stage)
            else Inl (JsError (''cycle-repository: retired stage '' @ quoted (str_of stage) @ '' is read-only'')))
      else Inl (JsError (''cycle-repository: unknown stage '' @ quoted (jsString stage))))"

definition chainAttemptKey :: "string \<Rightarrow> string \<Rightarrow> string" where
  "chainAttemptKey stage requestDigest = stage @ [CHR 0x00] @ requestDigest"

definition cloneEvidence :: "jsval \<Rightarrow> string \<Rightarrow> jsval res" where
  "cloneEvidence v label =
     bindE (canonicalJson v) (\<lambda>_. case structuredClone v of Inl e \<Rightarrow> Inl (JsError (label @ '' must be cloneable'')) | Inr w \<Rightarrow> Inr w)"

definition cloneChainObservationEvidence :: "jsval \<Rightarrow> string \<Rightarrow> jsval res" where
  "cloneChainObservationEvidence v label =
     (if v = JNull \<or> v = JUndefined \<or> \<not> typeofObject v \<or> isArray v then Inl (JsError (label @ '' must be a canonical object''))
      else cloneEvidence v label)"

definition evidenceDigest :: "(string \<Rightarrow> string) \<Rightarrow> string \<Rightarrow> string \<Rightarrow> string \<Rightarrow> jsval \<Rightarrow> string res" where
  "evidenceDigest sha domain cycleId stage evidence =
     bindE (cloneEvidence evidence (domain @ '' evidence'')) (\<lambda>e.
     digest sha (JObj [(''domain'', JStr domain), (''cycleId'', JStr cycleId), (''stage'', JStr stage), (''evidence'', e)]))"

definition assertOptionalTerminalAtMs :: "jsval \<Rightarrow> string \<Rightarrow> jsval res" where
  "assertOptionalTerminalAtMs v label =
     (if v = JUndefined then Inr JNull
      else if \<not> isSafeInteger v \<or> num_of v < 0 then Inl (JsError (label @ '' terminalAtMs is invalid''))
      else Inr v)"

definition assertTerminalPayloadShape :: "jsval \<Rightarrow> string \<Rightarrow> unit res" where
  "assertTerminalPayloadShape v label =
     bindE (throwIf (\<not> isPlainObject v) (label @ '' must be a plain object'')) (\<lambda>_.
     bindE (canonicalJson v) (\<lambda>_.
     let extra = filter (\<lambda>k. k \<notin> {''terminalState'', ''evidence''}) (ownKeys v) in
     throwIf (\<not> list_all (hasOwn v) [''terminalState'', ''evidence''] \<or> \<not> (extra = [] \<or> extra = [''terminalAtMs'']))
       (label @ '' must use the exact schema'')))"

definition exactObject :: "jsval \<Rightarrow> string list \<Rightarrow> string \<Rightarrow> unit res" where
  "exactObject v keys label =
     bindE (throwIf (\<not> isPlainObject v) (label @ '' must be a plain object'')) (\<lambda>_.
     bindE (canonicalJson v) (\<lambda>_.
     throwIf (\<not> exactKeys v keys) (label @ '' must use the exact schema'')))"

lemma exactObject_eval [code]:
  "exactObject v keys label =
     bindE (throwIf (\<not> isPlainObject v) (label @ '' must be a plain object'')) (\<lambda>_.
     bindE (canonChecks v) (\<lambda>_. throwIf (\<not> exactKeys v keys) (label @ '' must use the exact schema'')))"
  by (simp add: exactObject_def canonChecks_only)

lemma cloneEvidence_eval [code]:
  "cloneEvidence v label = bindE (canonChecks v) (\<lambda>_. case structuredClone v of Inl e \<Rightarrow> Inl (JsError (label @ '' must be cloneable'')) | Inr w \<Rightarrow> Inr w)"
  by (simp add: cloneEvidence_def canonChecks_only)

text \<open>\<^verbatim>\<open>/^[A-Za-z0-9][A-Za-z0-9._:-]{0,127}$/\<close>.\<close>

definition requestIdPattern :: "string \<Rightarrow> bool" where
  "requestIdPattern s = (case s of [] \<Rightarrow> False | c # cs \<Rightarrow> (is_lower_alpha c \<or> is_upper_alpha c \<or> is_digit c) \<and> length cs \<le> 127
     \<and> list_all (\<lambda>d. is_lower_alpha d \<or> is_upper_alpha d \<or> is_digit d \<or> d \<in> set ''._:-'') cs)"

definition heldOwnerDecisionEvidenceDigest :: "(string \<Rightarrow> string) \<Rightarrow> string \<Rightarrow> jsval \<Rightarrow> string res" where
  "heldOwnerDecisionEvidenceDigest sha cycleId evidence =
     bindE (cloneEvidence evidence ''held owner decision evidence'') (\<lambda>e.
     digest sha (JObj [(''schema'', JStr ''hookemon.cycle-held-owner-decision.v1''), (''cycleId'', JStr cycleId),
       (''terminalState'', JStr HELD_OWNER_DECISION), (''evidence'', e)]))"

definition assertHeldOwnerDecision :: "jsval \<Rightarrow> string \<Rightarrow> jsval res" where
  "assertHeldOwnerDecision v label =
     bindE (exactObject v [''cycleId'', ''heldEvidenceDigest'', ''requestId'', ''expectedRevision'', ''choice''] label) (\<lambda>_.
     bindE (throwIf (\<not> str_matches (\<lambda>s. s \<noteq> []) (jprop v ''cycleId'')) (label @ ''.cycleId is invalid'')) (\<lambda>_.
     bindE (throwIf (\<not> str_matches digest_pattern (jprop v ''heldEvidenceDigest'')) (label @ ''.heldEvidenceDigest is invalid'')) (\<lambda>_.
     bindE (throwIf (\<not> str_matches requestIdPattern (jprop v ''requestId'')) (label @ ''.requestId is invalid'')) (\<lambda>_.
     bindE (throwIf (\<not> isSafeInteger (jprop v ''expectedRevision'') \<or> num_of (jprop v ''expectedRevision'') < 0)
       (label @ ''.expectedRevision is invalid'')) (\<lambda>_.
     bindE (throwIf (jprop v ''choice'' \<notin> {JStr ''sell'', JStr ''keep-holding''}) (label @ ''.choice is invalid'')) (\<lambda>_.
     cloneEvidence v label))))))"

section \<open>The replayed state\<close>

record operational =
  op_attempt :: provider_attempt
  op_responseEvidence :: jsval
  op_reconciliationEvidence :: jsval
  op_sentAtMs :: jsval
  op_respondedAtMs :: jsval
  op_deadlineAnchorMs :: jsval
  op_failed :: bool

record chain_record =
  cn_attempt :: chain_attempt
  cn_broadcastEvidence :: jsval
  cn_finalityEvidence :: jsval

record legacy_attempt =
  la_evidence :: jsval
  la_attemptIndex :: nat
  la_failed :: bool

text \<open>
  The maps are association lists in insertion order.  \<open>rp_stages\<close> holds the evidence of the completed stages (no other status is ever
  stored), \<open>rp_prepared\<close> the journal head of a stage's preparation.
\<close>

record 'x replay_state =
  rp_stages :: "(string \<times> jsval) list"
  rp_prepared :: "(string \<times> jsval) list"
  rp_attempts :: "(string \<times> legacy_attempt) list"
  rp_attemptCounts :: "(string \<times> nat) list"
  rp_operational :: "(string \<times> operational) list"
  rp_chain :: "(string \<times> chain_record) list"
  rp_bindings :: "(string \<times> sign_only_binding) list"
  rp_ledgers :: "(string \<times> sign_ledger) list"
  rp_completed :: bool
  rp_terminalState :: "string option"
  rp_heldEvidenceDigest :: "string option"
  rp_ownerDecision :: jsval
  rp_terminalEvidence :: jsval
  rp_terminalAtMs :: jsval
  rp_other :: 'x

text \<open>What the modelled events and operations use of the rest of the repository.\<close>

record 'x other_parts =
  ot_initial :: 'x
  ot_step :: "'x replay_state \<Rightarrow> jsval \<Rightarrow> 'x res"
  ot_admission :: "'x \<Rightarrow> jsval"
  ot_purchaseBatch :: "'x \<Rightarrow> jsval"
  ot_custodyLedgers :: "'x \<Rightarrow> jsval list"
  ot_heldRetry :: "string \<Rightarrow> 'x replay_state \<Rightarrow> bool"
  ot_rewardEvidence :: "'x \<Rightarrow> jsval \<Rightarrow> unit res"
  ot_restoreValuations :: "'x \<Rightarrow> unit res"
  ot_resolveEvidence :: "string \<Rightarrow> jsval \<Rightarrow> jsval res"
  ot_persistEvidence :: "string \<Rightarrow> jsval \<Rightarrow> jsval res"

definition initialReplay :: "'x other_parts \<Rightarrow> 'x replay_state" where
  "initialReplay env = \<lparr>rp_stages = [], rp_prepared = [], rp_attempts = [], rp_attemptCounts = [], rp_operational = [], rp_chain = [],
     rp_bindings = [], rp_ledgers = [], rp_completed = False, rp_terminalState = None, rp_heldEvidenceDigest = None, rp_ownerDecision = JNull,
     rp_terminalEvidence = JNull, rp_terminalAtMs = JNull, rp_other = ot_initial env\<rparr>"

definition freshOperational :: "provider_attempt \<Rightarrow> operational" where
  "freshOperational a = \<lparr>op_attempt = a, op_responseEvidence = JNull, op_reconciliationEvidence = JNull, op_sentAtMs = JNull,
     op_respondedAtMs = JNull, op_deadlineAnchorMs = JNull, op_failed = False\<rparr>"

section \<open>Completing a stage and a cycle\<close>

text \<open>\<open>evidence.packs.some((pack, i) => pack.packIndex !== i || pack.memo !== batch.packs[i].memo)\<close>.\<close>

fun packsDiffer :: "jsval \<Rightarrow> nat \<Rightarrow> jsval list \<Rightarrow> bool res" where
  "packsDiffer batchPacks i [] = Inr False"
| "packsDiffer batchPacks i (pack # packs) =
     bindE (getProp pack ''packIndex'') (\<lambda>packIndex.
     if packIndex \<noteq> JNum (int i) then Inr True
     else bindE (getProp pack ''memo'') (\<lambda>memo.
          bindE (getProp (if i < length (arr_of batchPacks) then arr_of batchPacks ! i else JUndefined) ''memo'') (\<lambda>batchMemo.
          if memo \<noteq> batchMemo then Inr True else packsDiffer batchPacks (Suc i) packs)))"

definition assertPlanPurchase :: "'x other_parts \<Rightarrow> 'x replay_state \<Rightarrow> string \<Rightarrow> jsval \<Rightarrow> unit res" where
  "assertPlanPurchase env st stage evidence =
     (let adm = ot_admission env (rp_other st); batch = ot_purchaseBatch env (rp_other st); packs = jprop evidence ''packs'' in
      if stage = ''purchase'' \<and> jprop adm ''schema'' = JStr ''hookemon.policy-admission.v4''
      then bindE (if jprop batch ''generationComplete'' \<noteq> JBool True \<or> \<not> isArray packs
                     \<or> JNum (int (length (arr_of packs))) \<noteq> jprop adm ''quantity'' then Inr True
                  else packsDiffer (jprop batch ''packs'') 0 (arr_of packs)) (\<lambda>differ.
           throwIf differ ''plan purchase requires reconciliation of every admitted order'')
      else Inr ())"

definition assertChainsFinal :: "string \<Rightarrow> (string \<times> chain_record) list \<Rightarrow> unit res" where
  "assertChainsFinal stage entries =
     foldE (\<lambda>_ (k, c) _. throwIf (ca_stage (cn_attempt c) = stage \<and> ca_state (cn_attempt c) \<noteq> C_FINALIZED)
       (''cycle-repository completeStage: '' @ quoted stage @ '' requires finalized chain evidence'')) 0 entries ()"

definition assertReconciledCompletion :: "'x other_parts \<Rightarrow> 'x replay_state \<Rightarrow> string \<Rightarrow> jsval \<Rightarrow> unit res" where
  "assertReconciledCompletion env st stage evidence =
     bindE (assertPlanPurchase env st stage evidence) (\<lambda>_.
     bindE (case omap_get (rp_operational st) stage of
         None \<Rightarrow> Inr ()
       | Some operational \<Rightarrow>
           bindE (throwIf (pa_state (op_attempt operational) \<noteq> P_RECONCILED)
             (''cycle-repository completeStage: '' @ quoted stage @ '' requires reconciled operational evidence'')) (\<lambda>_.
           bindE (textsDiffer (op_reconciliationEvidence operational) evidence) (\<lambda>differ.
           throwIf differ (''cycle-repository completeStage: '' @ quoted stage @ '' evidence must match reconciled operational evidence'')))) (\<lambda>_.
     assertChainsFinal stage (rp_chain st)))"

definition predecessors :: "string \<Rightarrow> string list" where
  "predecessors stage = takeWhile (\<lambda>s. s \<noteq> stage) OPERATIONAL_CYCLE_STAGES"

definition assertPreparedOrderedCompletion :: "'x replay_state \<Rightarrow> string \<Rightarrow> unit res" where
  "assertPreparedOrderedCompletion st stage =
     bindE (throwIf (\<not> omap_has (rp_prepared st) stage)
       (''cycle-repository completeStage: stage '' @ quoted stage @ '' was not prepared'')) (\<lambda>_.
     foldE (\<lambda>_ predecessor _. throwIf (\<not> omap_has (rp_stages st) predecessor)
       (''cycle-repository completeStage: '' @ quoted stage @ '' requires completed predecessor '' @ quoted predecessor)) 0 (predecessors stage) ())"

definition closedBuckets :: "string list" where
  "closedBuckets = [''heldAssets'', ''payoutLiability'', ''refunds'', ''residual'', ''dust'', ''unattributed'']"

definition assertCustodyClosed :: "jsval list \<Rightarrow> unit res" where
  "assertCustodyClosed custody =
     foldE (\<lambda>_ ledger _. foldE (\<lambda>_ bucket _. bindE (js_BigInt (jprop ledger bucket)) (\<lambda>n.
         throwIf (n > 0) (''cycle-repository completeCycle: unclosed custody '' @ bucket @ '' for ''
           @ jsString (jprop ledger ''chainId'') @ ''/'' @ jsString (jprop ledger ''assetId'')))) 0 closedBuckets ()) 0 custody ()"

definition assertCycleClosure :: "'x other_parts \<Rightarrow> 'x replay_state \<Rightarrow> unit res" where
  "assertCycleClosure env st =
     bindE (foldE (\<lambda>_ stage _. throwIf (\<not> omap_has (rp_stages st) stage)
       (''cycle-repository completeCycle: requires every operational stage complete; '' @ quoted stage @ '' is pending'')) 0 OPERATIONAL_CYCLE_STAGES ()) (\<lambda>_.
     bindE (foldE (\<lambda>_ (stage, operational) _. throwIf (pa_state (op_attempt operational) \<noteq> P_RECONCILED)
       (''cycle-repository completeCycle: unresolved provider attempt for '' @ quoted stage)) 0 (rp_operational st) ()) (\<lambda>_.
     bindE (foldE (\<lambda>_ (key, c) _. throwIf (ca_state (cn_attempt c) \<noteq> C_FINALIZED)
       (''cycle-repository completeCycle: unfinalized chain attempt for '' @ quoted key)) 0 (rp_chain st) ()) (\<lambda>_.
     assertCustodyClosed (ot_custodyLedgers env (rp_other st)))))"

section \<open>Replaying one event\<close>

text \<open>A timestamp of an event that older entries do not have: \<open>Object.hasOwn(payload, f) ? payload[f] : null\<close>.\<close>

definition optionalTime :: "jsval \<Rightarrow> string \<Rightarrow> string \<Rightarrow> jsval res" where
  "optionalTime payload f message =
     (let t = (if hasOwn payload f then jprop payload f else JNull) in
      if t \<noteq> JNull \<and> (\<not> isSafeInteger t \<or> num_of t < 0) then Inl (JsError message) else Inr t)"

definition replayStagePrepared :: "jsval \<Rightarrow> jsval \<Rightarrow> 'x replay_state \<Rightarrow> 'x replay_state res" where
  "replayStagePrepared entry payload st =
     bindE (assertStageName (jprop payload ''stage'') False) (\<lambda>stage.
     Inr (if omap_has (rp_prepared st) stage then st
          else st\<lparr>rp_prepared := omap_set stage (jprop entry ''digest'') (rp_prepared st)\<rparr>))"

definition replayStageCompleted :: "'x other_parts \<Rightarrow> jsval \<Rightarrow> 'x replay_state \<Rightarrow> 'x replay_state res" where
  "replayStageCompleted env payload st =
     bindE (assertStageName (jprop payload ''stage'') True) (\<lambda>stage.
     bindE (if stage \<in> set OPERATIONAL_CYCLE_STAGES
            then bindE (assertPreparedOrderedCompletion st stage) (\<lambda>_. assertReconciledCompletion env st stage (jprop payload ''evidence''))
            else Inr ()) (\<lambda>_.
     bindE (case omap_get (rp_stages st) stage of
         None \<Rightarrow> Inr ()
       | Some evidence \<Rightarrow> bindE (textsDiffer evidence (jprop payload ''evidence'')) (\<lambda>differ.
           throwIf differ (''stored stage '' @ quoted stage @ '' has conflicting completion evidence''))) (\<lambda>_.
     Inr (st\<lparr>rp_stages := omap_set stage (jprop payload ''evidence'') (rp_stages st)\<rparr>))))"

text \<open>The legacy attempt records; the stage is not checked on replay.\<close>

definition replayStageAttempted :: "jsval \<Rightarrow> 'x replay_state \<Rightarrow> 'x replay_state res" where
  "replayStageAttempted payload st =
     (let stage = str_of (jprop payload ''stage''); attemptIndex = (case omap_get (rp_attemptCounts st) stage of None \<Rightarrow> 0 | Some n \<Rightarrow> n) in
      Inr (st\<lparr>rp_attempts := omap_set stage \<lparr>la_evidence = jprop payload ''evidence'', la_attemptIndex = attemptIndex, la_failed = False\<rparr> (rp_attempts st),
             rp_attemptCounts := omap_set stage (attemptIndex + 1) (rp_attemptCounts st)\<rparr>))"

definition replayStageAttemptFailed :: "jsval \<Rightarrow> 'x replay_state \<Rightarrow> 'x replay_state res" where
  "replayStageAttemptFailed payload st =
     (let stage = str_of (jprop payload ''stage'') in
      Inr (st\<lparr>rp_attempts := (case omap_get (rp_attempts st) stage of
                 None \<Rightarrow> rp_attempts st | Some a \<Rightarrow> omap_set stage (a\<lparr>la_failed := True\<rparr>) (rp_attempts st)),
             rp_operational := (case omap_get (rp_operational st) stage of
                 None \<Rightarrow> rp_operational st | Some q \<Rightarrow> omap_set stage (q\<lparr>op_failed := True\<rparr>) (rp_operational st))\<rparr>))"

text \<open>
  The stored attempt of an event, and the checks most provider events share: a previous attempt in one of the given
  states, the new state, the cycle, the stage and the request of the previous attempt.
\<close>

definition storedProvider :: "jsval \<Rightarrow> provider_attempt res" where
  "storedProvider payload = assertProviderMutationAttempt (jprop payload ''attempt'') ''stored provider mutation attempt''"

definition providerFollows :: "string \<Rightarrow> jsval \<Rightarrow> operational option \<Rightarrow> provider_state list \<Rightarrow> provider_state \<Rightarrow> provider_attempt \<Rightarrow> bool" where
  "providerFollows cycleId payload previous from to attempt =
     (case previous of None \<Rightarrow> False
      | Some q \<Rightarrow> pa_state (op_attempt q) \<in> set from \<and> pa_state attempt = to \<and> pa_cycleId attempt = cycleId
          \<and> JStr (pa_stage attempt) = jprop payload ''stage'' \<and> pa_requestDigest attempt = pa_requestDigest (op_attempt q))"

definition previousOperational :: "'x replay_state \<Rightarrow> jsval \<Rightarrow> operational option" where
  "previousOperational st payload = (case jprop payload ''stage'' of JStr s \<Rightarrow> omap_get (rp_operational st) s | _ \<Rightarrow> None)"

definition setOperational :: "operational \<Rightarrow> 'x replay_state \<Rightarrow> 'x replay_state" where
  "setOperational q st = st\<lparr>rp_operational := omap_set (pa_stage (op_attempt q)) q (rp_operational st)\<rparr>"

definition replayAttemptPrepared :: "string \<Rightarrow> jsval \<Rightarrow> 'x replay_state \<Rightarrow> 'x replay_state res" where
  "replayAttemptPrepared cycleId payload st =
     bindE (storedProvider payload) (\<lambda>attempt.
     bindE (throwIf (pa_cycleId attempt \<noteq> cycleId \<or> JStr (pa_stage attempt) \<noteq> jprop payload ''stage'' \<or> pa_state attempt \<noteq> P_PREPARED)
       ''stored provider mutation preparation is invalid'') (\<lambda>_.
     Inr (setOperational (freshOperational attempt) st)))"

definition replayAttemptSentUnknown :: "string \<Rightarrow> jsval \<Rightarrow> 'x replay_state \<Rightarrow> 'x replay_state res" where
  "replayAttemptSentUnknown cycleId payload st =
     (let previous = previousOperational st payload in
      bindE (storedProvider payload) (\<lambda>attempt.
      bindE (throwIf (\<not> providerFollows cycleId payload previous [P_PREPARED] P_SENT_UNKNOWN attempt)
        ''stored provider mutation sent-unknown transition is invalid'') (\<lambda>_.
      bindE (optionalTime payload ''sentAtMs'' ''stored provider mutation sent-unknown timestamp is invalid'') (\<lambda>sentAtMs.
      Inr (setOperational ((the previous)\<lparr>op_attempt := attempt, op_sentAtMs := sentAtMs\<rparr>) st)))))"

definition replayAttemptNotSent :: "string \<Rightarrow> jsval \<Rightarrow> 'x replay_state \<Rightarrow> 'x replay_state res" where
  "replayAttemptNotSent cycleId payload st =
     (let previous = previousOperational st payload in
      bindE (storedProvider payload) (\<lambda>attempt.
      bindE (throwIf (\<not> providerFollows cycleId payload previous [P_PREPARED] P_NOT_SENT attempt)
        ''stored provider mutation not-sent transition is invalid'') (\<lambda>_.
      Inr (setOperational ((the previous)\<lparr>op_attempt := attempt\<rparr>) st))))"

definition replayAttemptReprepared :: "string \<Rightarrow> jsval \<Rightarrow> 'x replay_state \<Rightarrow> 'x replay_state res" where
  "replayAttemptReprepared cycleId payload st =
     (let previous = previousOperational st payload; message = ''stored provider mutation repreparation transition is invalid'' in
      bindE (storedProvider payload) (\<lambda>attempt.
      case previous of None \<Rightarrow> Inl (JsError message)
      | Some q \<Rightarrow>
          bindE (throwIf (pa_state (op_attempt q) \<noteq> P_NOT_SENT \<or> pa_state attempt \<noteq> P_PREPARED \<or> pa_cycleId attempt \<noteq> cycleId
              \<or> JStr (pa_stage attempt) \<noteq> jprop payload ''stage'') message) (\<lambda>_.
          bindE (transitionProviderMutationAttempt (jsval_of_provider (op_attempt q)) P_PREPARED (JObj [])) (\<lambda>expected.
          bindE (textsDiffer (jsval_of_provider attempt) (jsval_of_provider expected)) (\<lambda>differ.
          bindE (throwIf differ message) (\<lambda>_.
          Inr (setOperational (freshOperational attempt) st)))))))"

definition replayAttemptResponse :: "string \<Rightarrow> jsval \<Rightarrow> 'x replay_state \<Rightarrow> 'x replay_state res" where
  "replayAttemptResponse cycleId payload st =
     (let previous = previousOperational st payload in
      bindE (storedProvider payload) (\<lambda>attempt.
      bindE (throwIf (\<not> providerFollows cycleId payload previous [P_PREPARED, P_SENT_UNKNOWN] P_RESPONSE_RECORDED attempt)
        ''stored provider mutation response transition is invalid'') (\<lambda>_.
      bindE (optionalTime payload ''respondedAtMs'' ''stored provider mutation response timestamp is invalid'') (\<lambda>respondedAtMs.
      bindE (cloneEvidence (jprop payload ''evidence'') ''stored provider response evidence'') (\<lambda>evidence.
      Inr (setOperational ((the previous)\<lparr>op_attempt := attempt, op_respondedAtMs := respondedAtMs, op_responseEvidence := evidence\<rparr>) st))))))"

definition replayAttemptDeadline :: "string \<Rightarrow> jsval \<Rightarrow> 'x replay_state \<Rightarrow> 'x replay_state res" where
  "replayAttemptDeadline cycleId payload st =
     (let previous = previousOperational st payload; anchoredAtMs = jprop payload ''anchoredAtMs'';
          message = ''stored provider mutation deadline anchor is invalid'' in
      bindE (storedProvider payload) (\<lambda>attempt.
      case previous of None \<Rightarrow> Inl (JsError message)
      | Some q \<Rightarrow>
          bindE (throwIf (pa_state (op_attempt q) \<notin> {P_SENT_UNKNOWN, P_RESPONSE_RECORDED} \<or> pa_state attempt \<noteq> pa_state (op_attempt q)
              \<or> pa_cycleId attempt \<noteq> cycleId \<or> JStr (pa_stage attempt) \<noteq> jprop payload ''stage'') message) (\<lambda>_.
          bindE (textsDiffer (jsval_of_provider attempt) (jsval_of_provider (op_attempt q))) (\<lambda>differ.
          bindE (throwIf (differ \<or> jprop payload ''requestDigest'' \<noteq> JStr (pa_requestDigest (op_attempt q))
              \<or> op_sentAtMs q \<noteq> JNull \<or> op_respondedAtMs q \<noteq> JNull \<or> op_deadlineAnchorMs q \<noteq> JNull
              \<or> \<not> isSafeInteger anchoredAtMs \<or> num_of anchoredAtMs < 0) message) (\<lambda>_.
          Inr (setOperational (q\<lparr>op_attempt := attempt, op_deadlineAnchorMs := anchoredAtMs\<rparr>) st))))))"

definition replayAttemptReconciled :: "string \<Rightarrow> jsval \<Rightarrow> 'x replay_state \<Rightarrow> 'x replay_state res" where
  "replayAttemptReconciled cycleId payload st =
     (let previous = previousOperational st payload in
      bindE (storedProvider payload) (\<lambda>attempt.
      bindE (throwIf (\<not> providerFollows cycleId payload previous [P_SENT_UNKNOWN, P_RESPONSE_RECORDED] P_RECONCILED attempt)
        ''stored provider mutation reconciliation transition is invalid'') (\<lambda>_.
      bindE (cloneEvidence (jprop payload ''evidence'') ''stored provider reconciliation evidence'') (\<lambda>evidence.
      Inr (setOperational ((the previous)\<lparr>op_attempt := attempt, op_reconciliationEvidence := evidence\<rparr>) st)))))"

text \<open>Chain attempts: keyed by stage and request, each event one step of the transition table.\<close>

definition storedChain :: "jsval \<Rightarrow> chain_attempt res" where
  "storedChain payload = assertChainTransactionAttempt (jprop payload ''attempt'') ''stored chain transaction attempt''"

definition chainKeyOf :: "chain_attempt \<Rightarrow> string" where
  "chainKeyOf a = chainAttemptKey (ca_stage a) (ca_requestDigest a)"

definition chainFollows :: "string \<Rightarrow> jsval \<Rightarrow> chain_record option \<Rightarrow> chain_state \<Rightarrow> chain_state \<Rightarrow> chain_attempt \<Rightarrow> bool" where
  "chainFollows cycleId payload previous from to attempt =
     (case previous of None \<Rightarrow> False
      | Some c \<Rightarrow> ca_state (cn_attempt c) = from \<and> ca_state attempt = to \<and> ca_cycleId attempt = cycleId
          \<and> JStr (ca_stage attempt) = jprop payload ''stage'' \<and> ca_requestDigest attempt = ca_requestDigest (cn_attempt c))"

definition setChain :: "chain_record \<Rightarrow> 'x replay_state \<Rightarrow> 'x replay_state" where
  "setChain c st = st\<lparr>rp_chain := omap_set (chainKeyOf (cn_attempt c)) c (rp_chain st)\<rparr>"

definition replayChainPrepared :: "string \<Rightarrow> jsval \<Rightarrow> 'x replay_state \<Rightarrow> 'x replay_state res" where
  "replayChainPrepared cycleId payload st =
     bindE (storedChain payload) (\<lambda>attempt.
     bindE (throwIf (ca_cycleId attempt \<noteq> cycleId \<or> JStr (ca_stage attempt) \<noteq> jprop payload ''stage'' \<or> ca_state attempt \<noteq> C_PREPARED
         \<or> omap_has (rp_chain st) (chainKeyOf attempt)) ''stored chain transaction preparation is invalid'') (\<lambda>_.
     Inr (setChain \<lparr>cn_attempt = attempt, cn_broadcastEvidence = JNull, cn_finalityEvidence = JNull\<rparr> st)))"

definition signingMaterial :: "chain_attempt \<Rightarrow> jsval" where
  "signingMaterial a = JObj [(''rawBytes'', nullable (ca_rawBytes a)), (''nonce'', nullable (ca_nonce a)), (''blockhash'', nullable (ca_blockhash a)),
     (''hash'', nullable (ca_hash a))]"

text \<open>The attempt must be what the transition from the previous one gives, compared as text.\<close>

definition assertExpectedChain :: "chain_record \<Rightarrow> chain_state \<Rightarrow> jsval \<Rightarrow> chain_attempt \<Rightarrow> string \<Rightarrow> unit res" where
  "assertExpectedChain c to evidence attempt message =
     bindE (transitionChainTransactionAttempt (jsval_of_chain (cn_attempt c)) to evidence) (\<lambda>expected.
     bindE (textsDiffer (jsval_of_chain attempt) (jsval_of_chain expected)) (\<lambda>differ. throwIf differ message))"

definition replayChainSigned :: "string \<Rightarrow> jsval \<Rightarrow> 'x replay_state \<Rightarrow> 'x replay_state res" where
  "replayChainSigned cycleId payload st =
     bindE (storedChain payload) (\<lambda>attempt.
     let previous = omap_get (rp_chain st) (chainKeyOf attempt) in
     bindE (throwIf (\<not> chainFollows cycleId payload previous C_PREPARED C_SIGNED attempt)
       ''stored chain transaction signing transition is invalid'') (\<lambda>_.
     bindE (assertExpectedChain (the previous) C_SIGNED (signingMaterial attempt) attempt ''stored chain transaction signing material is invalid'') (\<lambda>_.
     Inr (setChain ((the previous)\<lparr>cn_attempt := attempt\<rparr>) st))))"

definition replayChainBroadcast :: "string \<Rightarrow> jsval \<Rightarrow> 'x replay_state \<Rightarrow> 'x replay_state res" where
  "replayChainBroadcast cycleId payload st =
     bindE (storedChain payload) (\<lambda>attempt.
     let previous = omap_get (rp_chain st) (chainKeyOf attempt); message = ''stored chain transaction broadcast transition is invalid'' in
     bindE (cloneChainObservationEvidence (jprop payload ''evidence'') ''stored chain transaction broadcast evidence'') (\<lambda>evidence.
     bindE (throwIf (\<not> chainFollows cycleId payload previous C_SIGNED C_BROADCAST attempt) message) (\<lambda>_.
     bindE (assertExpectedChain (the previous) C_BROADCAST (JObj []) attempt message) (\<lambda>_.
     Inr (setChain ((the previous)\<lparr>cn_attempt := attempt, cn_broadcastEvidence := evidence\<rparr>) st)))))"

definition replayChainFinalized :: "string \<Rightarrow> jsval \<Rightarrow> 'x replay_state \<Rightarrow> 'x replay_state res" where
  "replayChainFinalized cycleId payload st =
     bindE (storedChain payload) (\<lambda>attempt.
     let previous = omap_get (rp_chain st) (chainKeyOf attempt); message = ''stored chain transaction finality transition is invalid'' in
     bindE (cloneChainObservationEvidence (jprop payload ''evidence'') ''stored chain transaction finality evidence'') (\<lambda>evidence.
     bindE (throwIf (\<not> chainFollows cycleId payload previous C_BROADCAST C_FINALIZED attempt) message) (\<lambda>_.
     bindE (assertExpectedChain (the previous) C_FINALIZED (JObj []) attempt message) (\<lambda>_.
     Inr (setChain ((the previous)\<lparr>cn_attempt := attempt, cn_finalityEvidence := evidence\<rparr>) st)))))"

text \<open>Sign-only retries: both need the chain attempt still \<open>PREPARED\<close>.\<close>

definition chainPrepared :: "'x replay_state \<Rightarrow> string \<Rightarrow> bool" where
  "chainPrepared st key = (case omap_get (rp_chain st) key of None \<Rightarrow> False | Some c \<Rightarrow> ca_state (cn_attempt c) = C_PREPARED)"

definition replaySignOnlyBinding :: "string \<Rightarrow> jsval \<Rightarrow> 'x replay_state \<Rightarrow> 'x replay_state res" where
  "replaySignOnlyBinding cycleId payload st =
     bindE (assertSignOnlyPreSignBinding (jprop payload ''binding'') ''stored sign-only pre-sign binding'') (\<lambda>binding.
     let key = chainAttemptKey (sb_stage binding) (sb_requestDigest binding) in
     bindE (throwIf (sb_cycleId binding \<noteq> cycleId) ''stored sign-only pre-sign binding cycleId is invalid'') (\<lambda>_.
     bindE (throwIf (\<not> chainPrepared st key) ''stored sign-only pre-sign binding does not bind a PREPARED chain attempt'') (\<lambda>_.
     bindE (throwIf (omap_has (rp_bindings st) key) ''stored sign-only pre-sign binding already exists'') (\<lambda>_.
     Inr (st\<lparr>rp_bindings := omap_set key binding (rp_bindings st)\<rparr>)))))"

definition ledgerKeyOf :: "sign_ledger \<Rightarrow> string" where
  "ledgerKeyOf l = chainAttemptKey (sl_stage l) (sl_requestDigest l)"

definition setLedger :: "sign_ledger \<Rightarrow> 'x replay_state \<Rightarrow> 'x replay_state" where
  "setLedger l st = st\<lparr>rp_ledgers := omap_set (ledgerKeyOf l) l (rp_ledgers st)\<rparr>"

definition storedLedger :: "jsval \<Rightarrow> sign_ledger res" where
  "storedLedger payload = assertSignOnlyInvocationLedger (jprop payload ''ledger'') ''stored sign-only invocation ledger''"

definition assertExpectedLedger :: "sign_ledger \<Rightarrow> ledger_state \<Rightarrow> sign_ledger \<Rightarrow> string \<Rightarrow> unit res" where
  "assertExpectedLedger previous to ledger message =
     bindE (transitionSignOnlyInvocationLedger (jsval_of_ledger previous) to) (\<lambda>expected.
     bindE (textsDiffer (jsval_of_ledger ledger) (jsval_of_ledger expected)) (\<lambda>differ. throwIf differ message))"

definition replaySignOnlyReserved :: "string \<Rightarrow> jsval \<Rightarrow> 'x replay_state \<Rightarrow> 'x replay_state res" where
  "replaySignOnlyReserved cycleId payload st =
     bindE (storedLedger payload) (\<lambda>ledger.
     let key = ledgerKeyOf ledger; previous = omap_get (rp_ledgers st) key;
         second = ''stored sign-only invocation ledger ordinal 2 reservation is invalid'' in
     bindE (throwIf (sl_cycleId ledger \<noteq> cycleId) ''stored sign-only invocation ledger cycleId is invalid'') (\<lambda>_.
     bindE (throwIf (\<not> chainPrepared st key) ''stored sign-only invocation ledger reservation does not bind a PREPARED chain attempt'') (\<lambda>_.
     bindE (if sl_state ledger = L_1_ALLOCATED
            then throwIf (previous \<noteq> None \<or> \<not> omap_has (rp_bindings st) key)
                   ''stored sign-only invocation ledger ordinal 1 reservation is invalid''
            else if sl_state ledger = L_2_ALLOCATED
            then (case previous of None \<Rightarrow> Inl (JsError second)
                  | Some l \<Rightarrow> bindE (throwIf (sl_state l \<noteq> L_1_TIMED_OUT) second) (\<lambda>_. assertExpectedLedger l L_2_ALLOCATED ledger second))
            else Inl (JsError ''stored sign-only invocation ledger reservation state is invalid'')) (\<lambda>_.
     Inr (setLedger ledger st)))))"

definition replaySignOnlyTimedOut :: "string \<Rightarrow> jsval \<Rightarrow> 'x replay_state \<Rightarrow> 'x replay_state res" where
  "replaySignOnlyTimedOut cycleId payload st =
     bindE (storedLedger payload) (\<lambda>ledger.
     let message = ''stored sign-only invocation ledger timeout transition is invalid'' in
     bindE (throwIf (sl_cycleId ledger \<noteq> cycleId) ''stored sign-only invocation ledger cycleId is invalid'') (\<lambda>_.
     case omap_get (rp_ledgers st) (ledgerKeyOf ledger) of None \<Rightarrow> Inl (JsError message)
     | Some l \<Rightarrow>
         bindE (throwIf (sl_state l \<noteq> (if sl_state ledger = L_1_TIMED_OUT then L_1_ALLOCATED else L_2_ALLOCATED)) message) (\<lambda>_.
         bindE (assertExpectedLedger l (sl_state ledger) ledger message) (\<lambda>_.
         Inr (setLedger ledger st)))))"

text \<open>Holds and completion.\<close>

definition replayTerminal :: "(string \<Rightarrow> string) \<Rightarrow> string \<Rightarrow> jsval \<Rightarrow> 'x replay_state \<Rightarrow> 'x replay_state res" where
  "replayTerminal sha cycleId payload st =
     bindE (assertTerminalPayloadShape payload ''stored cycle terminal state'') (\<lambda>_.
     bindE (assertCycleTerminalState (jprop payload ''terminalState'') ''stored cycle terminal state'') (\<lambda>terminalState.
     bindE (cloneEvidence (jprop payload ''evidence'') ''stored cycle terminal evidence'') (\<lambda>evidence.
     bindE (assertOptionalTerminalAtMs (jprop payload ''terminalAtMs'') ''stored cycle terminal state'') (\<lambda>atMs.
     bindE (if terminalState = HELD_OWNER_DECISION
            then bindE (heldOwnerDecisionEvidenceDigest sha cycleId (jprop payload ''evidence'')) (\<lambda>d. Inr (Some d))
            else Inr (rp_heldEvidenceDigest st)) (\<lambda>held.
     Inr (st\<lparr>rp_terminalState := Some terminalState, rp_terminalEvidence := evidence, rp_terminalAtMs := atMs, rp_heldEvidenceDigest := held\<rparr>))))))"

definition replayOwnerDecision :: "string \<Rightarrow> jsval \<Rightarrow> jsval \<Rightarrow> 'x replay_state \<Rightarrow> 'x replay_state res" where
  "replayOwnerDecision cycleId entry payload st =
     bindE (assertHeldOwnerDecision payload ''stored held owner decision'') (\<lambda>decision.
     bindE (throwIf (rp_terminalState st \<noteq> Some HELD_OWNER_DECISION \<or> rp_heldEvidenceDigest st = None)
       ''stored held owner decision does not follow an owner-decision hold'') (\<lambda>_.
     bindE (throwIf (jprop decision ''cycleId'' \<noteq> JStr cycleId \<or> jprop decision ''heldEvidenceDigest'' \<noteq> nullable (rp_heldEvidenceDigest st))
       ''stored held owner decision does not bind the held cycle evidence'') (\<lambda>_.
     bindE (throwIf (jprop decision ''expectedRevision'' \<noteq> jprop entry ''index'') ''stored held owner decision has a stale cycle revision'') (\<lambda>_.
     bindE (throwIf (rp_ownerDecision st \<noteq> JNull) ''stored cycle has a second held owner decision'') (\<lambda>_.
     Inr (st\<lparr>rp_ownerDecision := decision\<rparr>))))))"

definition replayCycleCompleted :: "'x other_parts \<Rightarrow> jsval \<Rightarrow> 'x replay_state \<Rightarrow> 'x replay_state res" where
  "replayCycleCompleted env payload st =
     bindE (throwIf (length (ownKeys payload) > 1 \<or> (length (ownKeys payload) = 1 \<and> \<not> hasOwn payload ''completedAtMs''))
       ''stored cycle-completed event must use the exact schema'') (\<lambda>_.
     bindE (assertCycleClosure env st) (\<lambda>_.
     bindE (assertOptionalTerminalAtMs (jprop payload ''completedAtMs'') ''stored cycle-completed event'') (\<lambda>atMs.
     Inr (st\<lparr>rp_completed := True, rp_terminalState := Some ''COMPLETED'', rp_terminalAtMs := atMs\<rparr>))))"

section \<open>Replaying a journal\<close>

definition entryKind :: "jsval \<Rightarrow> string" where
  "entryKind entry = str_of (jprop entry ''kind'')"

text \<open>After a terminal event only observations are accepted, after completion fewer still.\<close>

definition assertNotTerminal :: "string \<Rightarrow> 'x replay_state \<Rightarrow> unit res" where
  "assertNotTerminal kind st =
     (if rp_terminalState st \<noteq> None
         \<and> (kind \<notin> set POST_TERMINAL_RECORD_KINDS \<or> (rp_completed st \<and> kind \<notin> set POST_COMPLETION_RECORD_KINDS))
      then Inl (JsError (if kind \<in> {''cycle-terminal'', ''cycle-completed''} then ''stored cycle has a second terminal event''
                         else ''stored cycle has a non-observational event after terminal state''))
      else Inr ())"

definition applyEvent :: "(string \<Rightarrow> string) \<Rightarrow> 'x other_parts \<Rightarrow> string \<Rightarrow> jsval \<Rightarrow> string \<Rightarrow> 'x replay_state \<Rightarrow> 'x replay_state res" where
  "applyEvent sha env cycleId entry kind st =
     (let payload = jprop entry ''payload'' in
      if kind = ''stage-prepared'' then replayStagePrepared entry payload st
      else if kind = ''stage-completed'' then replayStageCompleted env payload st
      else if kind = ''stage-attempted'' then replayStageAttempted payload st
      else if kind = ''stage-attempt-failed'' then replayStageAttemptFailed payload st
      else if kind = ''stage-attempt-prepared'' then replayAttemptPrepared cycleId payload st
      else if kind = ''stage-attempt-sent-unknown'' then replayAttemptSentUnknown cycleId payload st
      else if kind = ''stage-attempt-not-sent'' then replayAttemptNotSent cycleId payload st
      else if kind = ''stage-attempt-reprepared'' then replayAttemptReprepared cycleId payload st
      else if kind = ''stage-attempt-response-recorded'' then replayAttemptResponse cycleId payload st
      else if kind = ''stage-attempt-deadline-anchored'' then replayAttemptDeadline cycleId payload st
      else if kind = ''stage-attempt-reconciled'' then replayAttemptReconciled cycleId payload st
      else if kind = ''chain-attempt-prepared'' then replayChainPrepared cycleId payload st
      else if kind = ''chain-attempt-signed'' then replayChainSigned cycleId payload st
      else if kind = ''chain-attempt-broadcast'' then replayChainBroadcast cycleId payload st
      else if kind = ''chain-attempt-finalized'' then replayChainFinalized cycleId payload st
      else if kind = ''sign-only-pre-sign-binding-persisted'' then replaySignOnlyBinding cycleId payload st
      else if kind = ''sign-only-invocation-reserved'' then replaySignOnlyReserved cycleId payload st
      else if kind = ''sign-only-invocation-timed-out'' then replaySignOnlyTimedOut cycleId payload st
      else if kind = ''cycle-terminal'' then replayTerminal sha cycleId payload st
      else if kind = ''held-owner-decision-recorded'' then replayOwnerDecision cycleId entry payload st
      else if kind = ''cycle-completed'' then replayCycleCompleted env payload st
      else bindE (ot_step env st entry) (\<lambda>x. Inr (st\<lparr>rp_other := x\<rparr>)))"

definition replayEntry :: "(string \<Rightarrow> string) \<Rightarrow> 'x other_parts \<Rightarrow> string \<Rightarrow> jsval \<Rightarrow> 'x replay_state \<Rightarrow> 'x replay_state res" where
  "replayEntry sha env cycleId entry st =
     bindE (assertNotTerminal (entryKind entry) st) (\<lambda>_. applyEvent sha env cycleId entry (entryKind entry) st)"

definition replayEntries :: "(string \<Rightarrow> string) \<Rightarrow> 'x other_parts \<Rightarrow> string \<Rightarrow> jsval list \<Rightarrow> 'x replay_state res" where
  "replayEntries sha env cycleId entries = foldE (\<lambda>_ entry st. replayEntry sha env cycleId entry st) 0 entries (initialReplay env)"

definition replayStored :: "(string \<Rightarrow> string) \<Rightarrow> 'x other_parts \<Rightarrow> string \<Rightarrow> jsval list \<Rightarrow> 'x replay_state res" where
  "replayStored sha env cycleId entries =
     bindE (replayEntries sha env cycleId entries) (\<lambda>st.
     bindE (case omap_get (rp_stages st) ''eligibility-snapshot'' of
         None \<Rightarrow> Inr ()
       | Some evidence \<Rightarrow> bindE (ot_resolveEvidence env ''eligibility-snapshot'' evidence) (ot_rewardEvidence env (rp_other st))) (\<lambda>_.
     bindE (ot_restoreValuations env (rp_other st)) (\<lambda>_.
     Inr st)))"

end
