(* ===== verification/Cycle_Operations.thy ===== *)
theory Cycle_Operations
  imports Cycle_Ledger
begin

text \<open>
  The operations of \<^verbatim>\<open>packages/adapters/src/app/cycle-repository.mjs\<close> on the events that \<open>Cycle_Ledger\<close> replays.
  An operation reads the journal, replays it and decides: it returns, it throws, or it appends entries
  (\<open>#appendEvents\<close>), which replays the journal again as it then is and checks a second guard.  Between
  the two replays other writers may have appended, so an operation is a plan computed from the state it saw,
  and \<open>execute\<close> runs the plan on a journal that may be longer.

  The first argument of an operation is the result of the first replay, so that the checks the code makes before it
  come first here too.  Results are the objects the code returns.
\<close>

section \<open>Appending\<close>

text \<open>
  \<open>operation\<close> names the calls that a terminal state refuses; the observations of a held cycle pass none.
  \<open>result\<close> is computed from the entries appended.
\<close>

datatype 'x plan =
    Return jsval
  | Append "(string \<times> jsval) list" "string option" "'x replay_state \<Rightarrow> unit res" "jsval list \<Rightarrow> jsval"

definition proposeAll :: "(string \<Rightarrow> string) \<Rightarrow> (string \<times> jsval) list \<Rightarrow> cycle_journal \<Rightarrow> cycle_journal res" where
  "proposeAll sha events j = foldE (\<lambda>_ (kind, payload) j. bindE (appendKind sha j kind payload) (\<lambda>(j', e). Inr j')) 0 events j"

definition appendEvents ::
  "(string \<Rightarrow> string) \<Rightarrow> 'x other_parts \<Rightarrow> string \<Rightarrow> jsval list \<Rightarrow> (string \<times> jsval) list \<Rightarrow> string option
    \<Rightarrow> ('x replay_state \<Rightarrow> unit res) \<Rightarrow> jsval list res"
where
  "appendEvents sha env cycleId stored events operation assertState =
     bindE (throwIf (events = []) ''cycle-repository append requires journal events'') (\<lambda>_.
     bindE (replayStored sha env cycleId stored) (\<lambda>st.
     bindE (case (operation, rp_terminalState st) of
         (Some name, Some terminal) \<Rightarrow>
           throwIf (\<not> (name \<in> {''reserveWalletNonce'', ''releaseWalletNonce''} \<and> ot_heldRetry env name st))
             (''cycle-repository '' @ name @ '': cycle is terminal as '' @ terminal)
       | _ \<Rightarrow> Inr ()) (\<lambda>_.
     bindE (assertState st) (\<lambda>_.
     bindE (newCycleJournal sha (JStr cycleId) (JArr stored)) (\<lambda>j.
     bindE (proposeAll sha events j) (\<lambda>j'.
     Inr (drop (length stored) (cj_entries j'))))))))"

text \<open>The commit refuses when the stored version has moved since the second read, so the entries follow the journal that was replayed.\<close>

definition execute ::
  "(string \<Rightarrow> string) \<Rightarrow> 'x other_parts \<Rightarrow> string \<Rightarrow> ('x replay_state res \<Rightarrow> 'x plan res) \<Rightarrow> jsval list \<Rightarrow> jsval list \<Rightarrow> (jsval list \<times> jsval) res"
where
  "execute sha env cycleId operation seen stored =
     bindE (operation (replayStored sha env cycleId seen)) (\<lambda>p.
     case p of
       Return r \<Rightarrow> Inr (stored, r)
     | Append events name assertState result \<Rightarrow>
         bindE (appendEvents sha env cycleId stored events name assertState) (\<lambda>es. Inr (stored @ es, result es)))"

section \<open>Objects returned\<close>

definition jsval_of_operational :: "operational \<Rightarrow> jsval" where
  "jsval_of_operational q = JObj [(''attempt'', jsval_of_provider (op_attempt q)), (''responseEvidence'', op_responseEvidence q),
     (''reconciliationEvidence'', op_reconciliationEvidence q), (''sentAtMs'', op_sentAtMs q), (''respondedAtMs'', op_respondedAtMs q),
     (''deadlineAnchorMs'', op_deadlineAnchorMs q), (''failed'', JBool (op_failed q))]"

definition jsval_of_chain_record :: "chain_record \<Rightarrow> jsval" where
  "jsval_of_chain_record c = JObj [(''attempt'', jsval_of_chain (cn_attempt c)), (''broadcastEvidence'', cn_broadcastEvidence c),
     (''finalityEvidence'', cn_finalityEvidence c)]"

text \<open>\<open>now()\<close>, checked.\<close>

definition currentRepositoryTime :: "jsval \<Rightarrow> jsval res" where
  "currentRepositoryTime now =
     (if \<not> isSafeInteger now \<or> num_of now < 0 then Inl (JsError ''cycle-repository clock returned an invalid lease time'') else Inr now)"

definition refuseTerminal :: "string \<Rightarrow> 'x replay_state \<Rightarrow> unit res" where
  "refuseTerminal name st =
     (case rp_terminalState st of None \<Rightarrow> Inr () | Some terminal \<Rightarrow> Inl (JsError (''cycle-repository '' @ name @ '': cycle is terminal as '' @ terminal)))"

section \<open>Stages and the cycle\<close>

definition prepareStage :: "jsval \<Rightarrow> 'x replay_state res \<Rightarrow> 'x plan res" where
  "prepareStage stageValue replay =
     bindE (assertStageName stageValue False) (\<lambda>stage.
     bindE replay (\<lambda>state.
     bindE (refuseTerminal ''prepareStage'' state) (\<lambda>_.
     let prepared = (\<lambda>head. JObj [(''status'', JStr ''PREPARED''), (''stage'', JStr stage), (''journalHead'', head)]) in
     case omap_get (rp_prepared state) stage of
       Some head \<Rightarrow> Inr (Return (prepared head))
     | None \<Rightarrow> Inr (Append [(''stage-prepared'', JObj [(''stage'', JStr stage)])] (Some ''prepareStage'') (\<lambda>_. Inr ())
         (\<lambda>es. prepared (jprop (hd es) ''digest''))))))"

definition fitsBoundedJournalPayload :: "jsval \<Rightarrow> bool" where
  "fitsBoundedJournalPayload v = isOk (assertBoundedCanonicalValue v ''stage evidence'' payload_limits)"

definition preparePagedStageEvidence :: "'x other_parts \<Rightarrow> string \<Rightarrow> jsval \<Rightarrow> jsval res" where
  "preparePagedStageEvidence env stage evidence =
     (if fitsBoundedJournalPayload evidence then Inr evidence else ot_persistEvidence env stage evidence)"

definition completeStage :: "'x other_parts \<Rightarrow> jsval \<Rightarrow> jsval \<Rightarrow> 'x replay_state res \<Rightarrow> 'x plan res" where
  "completeStage env stageValue evidence replay =
     bindE (assertStageName stageValue False) (\<lambda>stage.
     bindE replay (\<lambda>state.
     bindE (case rp_terminalState state of None \<Rightarrow> Inr ()
         | Some terminal \<Rightarrow> Inl (JsError (''cycle-repository completeStage: cycle is terminally held as '' @ terminal))) (\<lambda>_.
     case omap_get (rp_stages state) stage of
       Some current \<Rightarrow>
         bindE (ot_resolveEvidence env stage current) (\<lambda>currentEvidence.
         bindE (textsDiffer currentEvidence evidence) (\<lambda>differ.
         bindE (throwIf differ (''cycle-repository completeStage: stage '' @ quoted stage @ '' was already completed with different evidence'')) (\<lambda>_.
         Inr (Return JUndefined))))
     | None \<Rightarrow>
         bindE (if stage = ''eligibility-snapshot'' then ot_rewardEvidence env (rp_other state) evidence else Inr ()) (\<lambda>_.
         bindE (assertPreparedOrderedCompletion state stage) (\<lambda>_.
         bindE (assertReconciledCompletion env state stage evidence) (\<lambda>_.
         bindE (preparePagedStageEvidence env stage evidence) (\<lambda>storedEvidence.
         Inr (Append [(''stage-completed'', JObj [(''stage'', JStr stage), (''evidence'', storedEvidence)])] (Some ''completeStage'')
           (\<lambda>current.
              bindE (throwIf (omap_has (rp_stages current) stage)
                (''cycle-repository completeStage: stage '' @ quoted stage @ '' changed while completing'')) (\<lambda>_.
              bindE (assertPreparedOrderedCompletion current stage) (\<lambda>_.
              assertReconciledCompletion env current stage evidence)))
           (\<lambda>_. JUndefined))))))))) "

text \<open>The archival that follows a completion without open held positions is the store's and is not modelled.\<close>

definition completeCycle :: "'x other_parts \<Rightarrow> jsval \<Rightarrow> 'x replay_state res \<Rightarrow> 'x plan res" where
  "completeCycle env now replay =
     bindE replay (\<lambda>state.
     bindE (case rp_terminalState state of None \<Rightarrow> Inr ()
         | Some terminal \<Rightarrow> throwIf (terminal \<noteq> ''COMPLETED'') (''cycle-repository completeCycle: cycle is terminally held as '' @ terminal)) (\<lambda>_.
     if rp_completed state then Inr (Return JUndefined)
     else bindE (assertCycleClosure env state) (\<lambda>_.
          bindE (currentRepositoryTime now) (\<lambda>completedAtMs.
          Inr (Append [(''cycle-completed'', JObj [(''completedAtMs'', completedAtMs)])] (Some ''completeCycle'') (assertCycleClosure env)
            (\<lambda>_. JUndefined))))))"

definition holdCycle :: "jsval \<Rightarrow> jsval \<Rightarrow> jsval \<Rightarrow> 'x replay_state res \<Rightarrow> 'x plan res" where
  "holdCycle terminalValue evidence now replay =
     bindE (assertCycleTerminalState terminalValue ''cycle terminal state'') (\<lambda>terminalState.
     bindE (throwIf (take 5 terminalState \<noteq> ''HELD_'') ''cycle-repository holdCycle requires a held terminal state'') (\<lambda>_.
     bindE replay (\<lambda>state.
     case rp_terminalState state of
       Some terminal \<Rightarrow>
         bindE (throwIf (terminal \<noteq> terminalState) ''cycle-repository holdCycle terminal state conflict'') (\<lambda>_.
         bindE (textsDiffer (rp_terminalEvidence state) evidence) (\<lambda>differ.
         bindE (throwIf differ ''cycle-repository holdCycle terminal evidence conflict'') (\<lambda>_.
         Inr (Return JUndefined))))
     | None \<Rightarrow>
         bindE (cloneEvidence evidence ''cycle terminal evidence'') (\<lambda>cloned.
         bindE (currentRepositoryTime now) (\<lambda>terminalAtMs.
         Inr (Append [(''cycle-terminal'', JObj [(''terminalState'', JStr terminalState), (''evidence'', cloned), (''terminalAtMs'', terminalAtMs)])]
           None
           (\<lambda>current. throwIf (rp_terminalState current \<noteq> None) ''cycle-repository holdCycle terminal state changed while recording hold'')
           (\<lambda>_. JUndefined)))))))"

section \<open>Provider attempts\<close>

text \<open>The second guard of most operations: the attempt is still the one the operation saw.\<close>

definition providerUnchanged :: "string \<Rightarrow> provider_attempt \<Rightarrow> string \<Rightarrow> 'x replay_state \<Rightarrow> unit res" where
  "providerUnchanged stage attempt message current =
     (case omap_get (rp_operational current) stage of None \<Rightarrow> Inl (JsError message)
      | Some latest \<Rightarrow> bindE (textsDiffer (jsval_of_provider (op_attempt latest)) (jsval_of_provider attempt)) (\<lambda>differ. throwIf differ message))"

definition prepareStageAttempt :: "string \<Rightarrow> jsval \<Rightarrow> jsval \<Rightarrow> 'x replay_state res \<Rightarrow> 'x plan res" where
  "prepareStageAttempt cycleId stageValue attemptValue replay =
     bindE (assertStageName stageValue False) (\<lambda>stage.
     bindE (assertProviderMutationAttempt attemptValue providerLabel) (\<lambda>attempt.
     bindE (throwIf (pa_cycleId attempt \<noteq> cycleId \<or> pa_stage attempt \<noteq> stage \<or> pa_state attempt \<noteq> P_PREPARED)
       ''cycle-repository prepareStageAttempt attempt does not match cycle or stage'') (\<lambda>_.
     bindE replay (\<lambda>state.
     bindE (refuseTerminal ''prepareStageAttempt'' state) (\<lambda>_.
     let payload = JObj [(''stage'', JStr stage), (''attempt'', jsval_of_provider attempt)];
         taken = ''cycle-repository prepareStageAttempt: stage '' @ quoted stage @ '' already has an operational attempt'';
         result = (\<lambda>_. jsval_of_operational (freshOperational attempt)) in
     case omap_get (rp_operational state) stage of
       None \<Rightarrow> Inr (Append [(''stage-attempt-prepared'', payload)] (Some ''prepareStageAttempt'')
         (\<lambda>current. throwIf (omap_has (rp_operational current) stage) taken) result)
     | Some q \<Rightarrow>
         if pa_state (op_attempt q) = P_NOT_SENT
         then bindE (transitionProviderMutationAttempt (jsval_of_provider attempt) P_NOT_SENT (JObj [])) (\<lambda>expected.
              bindE (textsDiffer (jsval_of_provider (op_attempt q)) (jsval_of_provider expected)) (\<lambda>differ.
              bindE (throwIf differ (''cycle-repository prepareStageAttempt: stage '' @ quoted stage @ '' already has a different pre-call attempt'')) (\<lambda>_.
              Inr (Append [(''stage-attempt-reprepared'', payload)] (Some ''prepareStageAttempt'')
                (providerUnchanged stage (op_attempt q)
                  (''cycle-repository prepareStageAttempt: stage '' @ quoted stage @ '' changed while resetting a pre-call attempt'')) result))))
         else bindE (textsDiffer (jsval_of_provider (op_attempt q)) (jsval_of_provider attempt)) (\<lambda>differ.
              bindE (throwIf differ taken) (\<lambda>_.
              Inr (Return (jsval_of_operational q)))))))))"

text \<open>The attempt of a stage, or the error of the operation that needs one.\<close>

definition needOperational :: "'x replay_state \<Rightarrow> string \<Rightarrow> string \<Rightarrow> operational res" where
  "needOperational state stage message =
     (case omap_get (rp_operational state) stage of None \<Rightarrow> Inl (JsError (message @ quoted stage)) | Some q \<Rightarrow> Inr q)"

definition markStageAttemptSentUnknown :: "jsval \<Rightarrow> jsval \<Rightarrow> 'x replay_state res \<Rightarrow> 'x plan res" where
  "markStageAttemptSentUnknown stageValue now replay =
     bindE (assertStageName stageValue False) (\<lambda>stage.
     bindE replay (\<lambda>state.
     bindE (needOperational state stage ''cycle-repository markStageAttemptSentUnknown: no prepared attempt for '') (\<lambda>q.
     if pa_state (op_attempt q) = P_SENT_UNKNOWN then Inr (Return (jsval_of_operational q))
     else bindE (throwIf (pa_state (op_attempt q) \<noteq> P_PREPARED)
            (''cycle-repository markStageAttemptSentUnknown: '' @ quoted stage @ '' must be reconciled instead of re-sent'')) (\<lambda>_.
          bindE (transitionProviderMutationAttempt (jsval_of_provider (op_attempt q)) P_SENT_UNKNOWN (JObj [])) (\<lambda>attempt.
          bindE (currentRepositoryTime now) (\<lambda>sentAtMs.
          Inr (Append [(''stage-attempt-sent-unknown'', JObj [(''stage'', JStr stage), (''attempt'', jsval_of_provider attempt), (''sentAtMs'', sentAtMs)])]
            None
            (providerUnchanged stage (op_attempt q)
              (''cycle-repository markStageAttemptSentUnknown: '' @ quoted stage @ '' changed while recording observation''))
            (\<lambda>_. jsval_of_operational (q\<lparr>op_attempt := attempt, op_sentAtMs := sentAtMs\<rparr>)))))))))"

definition anchorOperationalStageDeadline :: "jsval \<Rightarrow> jsval \<Rightarrow> 'x replay_state res \<Rightarrow> 'x plan res" where
  "anchorOperationalStageDeadline stageValue nowMs replay =
     bindE (assertStageName stageValue False) (\<lambda>stage.
     bindE (throwIf (\<not> isSafeInteger nowMs \<or> num_of nowMs < 0) ''cycle-repository anchorOperationalStageDeadline nowMs is invalid'') (\<lambda>_.
     bindE replay (\<lambda>state.
     bindE (needOperational state stage ''cycle-repository anchorOperationalStageDeadline: no attempt for '') (\<lambda>q.
     let anchored = (\<lambda>q. op_sentAtMs q \<noteq> JNull \<or> op_respondedAtMs q \<noteq> JNull \<or> op_deadlineAnchorMs q \<noteq> JNull);
         changed = ''cycle-repository anchorOperationalStageDeadline: '' @ quoted stage @ '' changed while anchoring'' in
     if anchored q then Inr (Return (jsval_of_operational q))
     else bindE (throwIf (pa_state (op_attempt q) \<notin> {P_SENT_UNKNOWN, P_RESPONSE_RECORDED})
            (''cycle-repository anchorOperationalStageDeadline: '' @ quoted stage @ '' must be sent or response-recorded'')) (\<lambda>_.
          Inr (Append [(''stage-attempt-deadline-anchored'', JObj [(''stage'', JStr stage), (''attempt'', jsval_of_provider (op_attempt q)),
              (''requestDigest'', JStr (pa_requestDigest (op_attempt q))), (''anchoredAtMs'', nowMs)])] (Some ''anchorOperationalStageDeadline'')
            (\<lambda>current. bindE (providerUnchanged stage (op_attempt q) changed current) (\<lambda>_.
               case omap_get (rp_operational current) stage of None \<Rightarrow> Inl (JsError changed)
               | Some latest \<Rightarrow> throwIf (anchored latest) changed))
            (\<lambda>_. jsval_of_operational (q\<lparr>op_deadlineAnchorMs := nowMs\<rparr>))))))))"

definition markStageAttemptNotSent :: "jsval \<Rightarrow> 'x replay_state res \<Rightarrow> 'x plan res" where
  "markStageAttemptNotSent stageValue replay =
     bindE (assertStageName stageValue False) (\<lambda>stage.
     bindE replay (\<lambda>state.
     bindE (needOperational state stage ''cycle-repository markStageAttemptNotSent: no prepared attempt for '') (\<lambda>q.
     if pa_state (op_attempt q) = P_NOT_SENT then Inr (Return (jsval_of_operational q))
     else bindE (throwIf (pa_state (op_attempt q) \<noteq> P_PREPARED)
            (''cycle-repository markStageAttemptNotSent: '' @ quoted stage @ '' must be reconciled instead of retried'')) (\<lambda>_.
          bindE (transitionProviderMutationAttempt (jsval_of_provider (op_attempt q)) P_NOT_SENT (JObj [])) (\<lambda>attempt.
          Inr (Append [(''stage-attempt-not-sent'', JObj [(''stage'', JStr stage), (''attempt'', jsval_of_provider attempt)])] None
            (providerUnchanged stage (op_attempt q)
              (''cycle-repository markStageAttemptNotSent: '' @ quoted stage @ '' changed while recording observation''))
            (\<lambda>_. jsval_of_operational (q\<lparr>op_attempt := attempt\<rparr>))))))))"

definition recordStageAttemptResponse :: "(string \<Rightarrow> string) \<Rightarrow> string \<Rightarrow> jsval \<Rightarrow> jsval \<Rightarrow> jsval \<Rightarrow> 'x replay_state res \<Rightarrow> 'x plan res" where
  "recordStageAttemptResponse sha cycleId stageValue evidence now replay =
     bindE (assertStageName stageValue False) (\<lambda>stage.
     bindE (cloneEvidence evidence ''provider response evidence'') (\<lambda>responseEvidence.
     bindE replay (\<lambda>state.
     bindE (needOperational state stage ''cycle-repository recordStageAttemptResponse: no prepared attempt for '') (\<lambda>q.
     if pa_state (op_attempt q) \<in> {P_RESPONSE_RECORDED, P_RECONCILED}
     then bindE (textsDiffer (op_responseEvidence q) responseEvidence) (\<lambda>differ.
          bindE (throwIf differ (''cycle-repository recordStageAttemptResponse: '' @ quoted stage @ '' already has different response evidence'')) (\<lambda>_.
          Inr (Return (jsval_of_operational q))))
     else bindE (evidenceDigest sha ''hookemon.provider-mutation-response.v1'' cycleId stage responseEvidence) (\<lambda>responseDigest.
          bindE (transitionProviderMutationAttempt (jsval_of_provider (op_attempt q)) P_RESPONSE_RECORDED
              (JObj [(''responseDigest'', JStr responseDigest)])) (\<lambda>attempt.
          bindE (currentRepositoryTime now) (\<lambda>respondedAtMs.
          Inr (Append [(''stage-attempt-response-recorded'', JObj [(''stage'', JStr stage), (''attempt'', jsval_of_provider attempt),
              (''evidence'', responseEvidence), (''respondedAtMs'', respondedAtMs)])] None
            (providerUnchanged stage (op_attempt q)
              (''cycle-repository recordStageAttemptResponse: '' @ quoted stage @ '' changed while recording observation''))
            (\<lambda>_. jsval_of_operational (q\<lparr>op_attempt := attempt, op_responseEvidence := responseEvidence, op_respondedAtMs := respondedAtMs\<rparr>)))))))))) "

definition reconcileStageAttempt :: "(string \<Rightarrow> string) \<Rightarrow> string \<Rightarrow> jsval \<Rightarrow> jsval \<Rightarrow> 'x replay_state res \<Rightarrow> 'x plan res" where
  "reconcileStageAttempt sha cycleId stageValue evidence replay =
     bindE (assertStageName stageValue False) (\<lambda>stage.
     bindE (cloneEvidence evidence ''provider reconciliation evidence'') (\<lambda>reconciliationEvidence.
     bindE replay (\<lambda>state.
     bindE (needOperational state stage ''cycle-repository reconcileStageAttempt: no prepared attempt for '') (\<lambda>q.
     if pa_state (op_attempt q) = P_RECONCILED
     then bindE (textsDiffer (op_reconciliationEvidence q) reconciliationEvidence) (\<lambda>differ.
          bindE (throwIf differ (''cycle-repository reconcileStageAttempt: '' @ quoted stage @ '' already has different reconciliation evidence'')) (\<lambda>_.
          Inr (Return (jsval_of_operational q))))
     else bindE (throwIf (pa_state (op_attempt q) \<notin> {P_SENT_UNKNOWN, P_RESPONSE_RECORDED})
            (''cycle-repository reconcileStageAttempt: '' @ quoted stage @ '' must be sent or response-recorded first'')) (\<lambda>_.
          bindE (evidenceDigest sha ''hookemon.provider-mutation-reconciliation.v1'' cycleId stage reconciliationEvidence) (\<lambda>reconciliationDigest.
          bindE (transitionProviderMutationAttempt (jsval_of_provider (op_attempt q)) P_RECONCILED
              (JObj [(''reconciliationDigest'', JStr reconciliationDigest)])) (\<lambda>attempt.
          Inr (Append [(''stage-attempt-reconciled'', JObj [(''stage'', JStr stage), (''attempt'', jsval_of_provider attempt),
              (''evidence'', reconciliationEvidence)])] None
            (providerUnchanged stage (op_attempt q)
              (''cycle-repository reconcileStageAttempt: '' @ quoted stage @ '' changed while recording observation''))
            (\<lambda>_. jsval_of_operational (q\<lparr>op_attempt := attempt, op_reconciliationEvidence := reconciliationEvidence\<rparr>))))))))))"

section \<open>Chain attempts\<close>

definition chainUnchanged :: "string \<Rightarrow> chain_attempt \<Rightarrow> string \<Rightarrow> 'x replay_state \<Rightarrow> unit res" where
  "chainUnchanged key attempt message current =
     (case omap_get (rp_chain current) key of None \<Rightarrow> Inl (JsError message)
      | Some latest \<Rightarrow> bindE (textsDiffer (jsval_of_chain (cn_attempt latest)) (jsval_of_chain attempt)) (\<lambda>differ. throwIf differ message))"

text \<open>\<open>chainAttemptFor\<close>; a request digest that is no string, or empty, is refused.\<close>

definition chainAttemptFor :: "'x replay_state \<Rightarrow> string \<Rightarrow> jsval \<Rightarrow> string \<Rightarrow> chain_record option res" where
  "chainAttemptFor state stage requestDigest operation =
     (if \<not> str_matches (\<lambda>s. s \<noteq> []) requestDigest then Inl (JsError (''cycle-repository '' @ operation @ '': requestDigest is required''))
      else Inr (omap_get (rp_chain state) (chainAttemptKey stage (str_of requestDigest))))"

definition prepareChainTransactionAttempt :: "string \<Rightarrow> jsval \<Rightarrow> jsval \<Rightarrow> 'x replay_state res \<Rightarrow> 'x plan res" where
  "prepareChainTransactionAttempt cycleId stageValue attemptValue replay =
     bindE (assertStageName stageValue False) (\<lambda>stage.
     bindE (assertChainTransactionAttempt attemptValue chainLabel) (\<lambda>attempt.
     bindE (throwIf (ca_cycleId attempt \<noteq> cycleId \<or> ca_stage attempt \<noteq> stage \<or> ca_state attempt \<noteq> C_PREPARED)
       ''cycle-repository prepareChainTransactionAttempt attempt does not match cycle or stage'') (\<lambda>_.
     bindE replay (\<lambda>state.
     bindE (refuseTerminal ''prepareChainTransactionAttempt'' state) (\<lambda>_.
     let key = chainAttemptKey stage (ca_requestDigest attempt);
         taken = ''cycle-repository prepareChainTransactionAttempt: request '' @ quoted (ca_requestDigest attempt) @ '' already has a chain attempt'' in
     case omap_get (rp_chain state) key of
       Some c \<Rightarrow> bindE (textsDiffer (jsval_of_chain (cn_attempt c)) (jsval_of_chain attempt)) (\<lambda>differ.
         bindE (throwIf differ taken) (\<lambda>_. Inr (Return (jsval_of_chain_record c))))
     | None \<Rightarrow> Inr (Append [(''chain-attempt-prepared'', JObj [(''stage'', JStr stage), (''attempt'', jsval_of_chain attempt)])]
         (Some ''prepareChainTransactionAttempt'') (\<lambda>current. throwIf (omap_has (rp_chain current) key) taken)
         (\<lambda>_. jsval_of_chain_record \<lparr>cn_attempt = attempt, cn_broadcastEvidence = JNull, cn_finalityEvidence = JNull\<rparr>)))))))"

definition recordSignedTransaction :: "jsval \<Rightarrow> jsval \<Rightarrow> jsval \<Rightarrow> 'x replay_state res \<Rightarrow> 'x plan res" where
  "recordSignedTransaction stageValue requestDigest material replay =
     bindE (assertStageName stageValue False) (\<lambda>stage.
     bindE replay (\<lambda>state.
     bindE (refuseTerminal ''recordSignedTransaction'' state) (\<lambda>_.
     bindE (chainAttemptFor state stage requestDigest ''recordSignedTransaction'') (\<lambda>found.
     case found of
       None \<Rightarrow> Inl (JsError (''cycle-repository recordSignedTransaction: no prepared chain attempt for '' @ quoted (str_of requestDigest)))
     | Some c \<Rightarrow>
         let prepared = (cn_attempt c)\<lparr>ca_state := C_PREPARED, ca_rawBytes := None, ca_nonce := None, ca_blockhash := None, ca_hash := None\<rparr> in
         bindE (transitionChainTransactionAttempt (jsval_of_chain prepared) C_SIGNED material) (\<lambda>signed.
         if ca_state (cn_attempt c) = C_SIGNED
         then bindE (textsDiffer (jsval_of_chain (cn_attempt c)) (jsval_of_chain signed)) (\<lambda>differ.
              bindE (throwIf differ (''cycle-repository recordSignedTransaction: '' @ quoted stage @ '' already has different signing material'')) (\<lambda>_.
              Inr (Return (jsval_of_chain_record c))))
         else bindE (throwIf (ca_state (cn_attempt c) \<noteq> C_PREPARED)
                (''cycle-repository recordSignedTransaction: '' @ quoted stage @ '' is already broadcast and cannot be re-signed'')) (\<lambda>_.
              Inr (Append [(''chain-attempt-signed'', JObj [(''stage'', JStr stage), (''attempt'', jsval_of_chain signed)])] (Some ''recordSignedTransaction'')
                (chainUnchanged (chainAttemptKey stage (str_of requestDigest)) (cn_attempt c)
                  (''cycle-repository recordSignedTransaction: '' @ quoted (str_of requestDigest) @ '' changed while recording signing material''))
                (\<lambda>_. jsval_of_chain_record (c\<lparr>cn_attempt := signed\<rparr>)))))))))"

definition recordBroadcast :: "jsval \<Rightarrow> jsval \<Rightarrow> jsval \<Rightarrow> 'x replay_state res \<Rightarrow> 'x plan res" where
  "recordBroadcast stageValue requestDigest evidence replay =
     bindE (assertStageName stageValue False) (\<lambda>stage.
     bindE (cloneChainObservationEvidence evidence ''chain transaction broadcast evidence'') (\<lambda>broadcastEvidence.
     bindE replay (\<lambda>state.
     bindE (chainAttemptFor state stage requestDigest ''recordBroadcast'') (\<lambda>found.
     case found of
       None \<Rightarrow> Inl (JsError (''cycle-repository recordBroadcast: no signed chain attempt for '' @ quoted (str_of requestDigest)))
     | Some c \<Rightarrow>
         if ca_state (cn_attempt c) \<in> {C_BROADCAST, C_FINALIZED}
         then bindE (textsDiffer (cn_broadcastEvidence c) broadcastEvidence) (\<lambda>differ.
              bindE (throwIf differ (''cycle-repository recordBroadcast: '' @ quoted (str_of requestDigest) @ '' already has different broadcast evidence'')) (\<lambda>_.
              Inr (Return (jsval_of_chain_record c))))
         else bindE (throwIf (ca_state (cn_attempt c) \<noteq> C_SIGNED)
                (''cycle-repository recordBroadcast: '' @ quoted stage @ '' must be signed before broadcast'')) (\<lambda>_.
              bindE (transitionChainTransactionAttempt (jsval_of_chain (cn_attempt c)) C_BROADCAST (JObj [])) (\<lambda>attempt.
              Inr (Append [(''chain-attempt-broadcast'', JObj [(''stage'', JStr stage), (''attempt'', jsval_of_chain attempt), (''evidence'', broadcastEvidence)])]
                None
                (chainUnchanged (chainAttemptKey stage (str_of requestDigest)) (cn_attempt c)
                  (''cycle-repository recordBroadcast: '' @ quoted (str_of requestDigest) @ '' changed while recording broadcast''))
                (\<lambda>_. jsval_of_chain_record (c\<lparr>cn_attempt := attempt, cn_broadcastEvidence := broadcastEvidence\<rparr>)))))))))"

definition recordFinality :: "jsval \<Rightarrow> jsval \<Rightarrow> jsval \<Rightarrow> 'x replay_state res \<Rightarrow> 'x plan res" where
  "recordFinality stageValue requestDigest evidence replay =
     bindE (assertStageName stageValue False) (\<lambda>stage.
     bindE (cloneChainObservationEvidence evidence ''chain transaction finality evidence'') (\<lambda>finalityEvidence.
     bindE replay (\<lambda>state.
     bindE (chainAttemptFor state stage requestDigest ''recordFinality'') (\<lambda>found.
     case found of
       None \<Rightarrow> Inl (JsError (''cycle-repository recordFinality: no broadcast chain attempt for '' @ quoted (str_of requestDigest)))
     | Some c \<Rightarrow>
         if ca_state (cn_attempt c) = C_FINALIZED
         then bindE (textsDiffer (cn_finalityEvidence c) finalityEvidence) (\<lambda>differ.
              bindE (throwIf differ (''cycle-repository recordFinality: '' @ quoted (str_of requestDigest) @ '' already has different finality evidence'')) (\<lambda>_.
              Inr (Return (jsval_of_chain_record c))))
         else bindE (throwIf (ca_state (cn_attempt c) \<noteq> C_BROADCAST)
                (''cycle-repository recordFinality: '' @ quoted stage @ '' must be broadcast before finality'')) (\<lambda>_.
              bindE (transitionChainTransactionAttempt (jsval_of_chain (cn_attempt c)) C_FINALIZED (JObj [])) (\<lambda>attempt.
              Inr (Append [(''chain-attempt-finalized'', JObj [(''stage'', JStr stage), (''attempt'', jsval_of_chain attempt), (''evidence'', finalityEvidence)])]
                None
                (chainUnchanged (chainAttemptKey stage (str_of requestDigest)) (cn_attempt c)
                  (''cycle-repository recordFinality: '' @ quoted (str_of requestDigest) @ '' changed while recording finality''))
                (\<lambda>_. jsval_of_chain_record (c\<lparr>cn_attempt := attempt, cn_finalityEvidence := finalityEvidence\<rparr>)))))))))"

section \<open>Sign-only retries\<close>

text \<open>The chain attempt of the request is still \<open>PREPARED\<close>.\<close>

definition needPreparedChain :: "'x replay_state \<Rightarrow> string \<Rightarrow> jsval \<Rightarrow> string \<Rightarrow> string \<Rightarrow> unit res" where
  "needPreparedChain state stage requestDigest operation message =
     bindE (chainAttemptFor state stage requestDigest operation) (\<lambda>found.
     throwIf (case found of None \<Rightarrow> True | Some c \<Rightarrow> ca_state (cn_attempt c) \<noteq> C_PREPARED) (''cycle-repository '' @ operation @ message))"

definition persistSignOnlyPreSignBinding :: "string \<Rightarrow> jsval \<Rightarrow> jsval \<Rightarrow> jsval \<Rightarrow> 'x replay_state res \<Rightarrow> 'x plan res" where
  "persistSignOnlyPreSignBinding cycleId stageValue requestDigest bindingValue replay =
     bindE (assertStageName stageValue False) (\<lambda>stage.
     bindE (assertSignOnlyPreSignBinding bindingValue ''sign-only pre-sign binding'') (\<lambda>binding.
     bindE (throwIf (sb_cycleId binding \<noteq> cycleId \<or> sb_stage binding \<noteq> stage \<or> JStr (sb_requestDigest binding) \<noteq> requestDigest)
       ''cycle-repository persistSignOnlyPreSignBinding: binding does not match cycle, stage, or request'') (\<lambda>_.
     bindE replay (\<lambda>state.
     bindE (refuseTerminal ''persistSignOnlyPreSignBinding'' state) (\<lambda>_.
     bindE (needPreparedChain state stage requestDigest ''persistSignOnlyPreSignBinding'' '': chain attempt is not PREPARED'') (\<lambda>_.
     let key = chainAttemptKey stage (str_of requestDigest) in
     case omap_get (rp_bindings state) key of
       Some current \<Rightarrow> bindE (textsDiffer (jsval_of_binding current) (jsval_of_binding binding)) (\<lambda>differ.
         bindE (throwIf differ ''cycle-repository persistSignOnlyPreSignBinding: request already has a different pre-sign binding'') (\<lambda>_.
         Inr (Return (jsval_of_binding current))))
     | None \<Rightarrow> Inr (Append [(''sign-only-pre-sign-binding-persisted'', JObj [(''binding'', jsval_of_binding binding)])]
         (Some ''persistSignOnlyPreSignBinding'')
         (\<lambda>current.
            bindE (throwIf (omap_has (rp_bindings current) key)
              ''cycle-repository persistSignOnlyPreSignBinding: a concurrent binding was already recorded'') (\<lambda>_.
            needPreparedChain current stage requestDigest ''persistSignOnlyPreSignBinding'' '': chain attempt changed while recording''))
         (\<lambda>_. jsval_of_binding binding))))))))"

definition reserveSignOnlyInvocation :: "string \<Rightarrow> jsval \<Rightarrow> jsval \<Rightarrow> jsval \<Rightarrow> 'x replay_state res \<Rightarrow> 'x plan res" where
  "reserveSignOnlyInvocation cycleId stageValue requestDigest ordinal replay =
     bindE (assertStageName stageValue False) (\<lambda>stage.
     bindE (throwIf (ordinal \<noteq> JNum 1 \<and> ordinal \<noteq> JNum 2) ''cycle-repository reserveSignOnlyInvocation: ordinal must be 1 or 2'') (\<lambda>_.
     bindE replay (\<lambda>state.
     bindE (refuseTerminal ''reserveSignOnlyInvocation'' state) (\<lambda>_.
     let key = chainAttemptKey stage (jsString requestDigest);
         reserved = ''cycle-repository reserveSignOnlyInvocation: ordinal 1 was already reserved'' in
     bindE (throwIf (\<not> omap_has (rp_bindings state) key)
       ''cycle-repository reserveSignOnlyInvocation: no durable pre-sign binding for this request'') (\<lambda>_.
     bindE (needPreparedChain state stage requestDigest ''reserveSignOnlyInvocation'' '': chain attempt is not PREPARED'') (\<lambda>_.
     let currentLedger = omap_get (rp_ledgers state) key in
     bindE (if ordinal = JNum 1
            then bindE (throwIf (currentLedger \<noteq> None) reserved) (\<lambda>_.
                 createReservedSignOnlyInvocationLedger (JStr cycleId) (JStr stage) requestDigest)
            else (case currentLedger of
                None \<Rightarrow> Inl (JsError ''cycle-repository reserveSignOnlyInvocation: ordinal 2 requires a recorded ordinal 1 timeout'')
              | Some l \<Rightarrow> bindE (throwIf (sl_state l \<noteq> L_1_TIMED_OUT)
                    ''cycle-repository reserveSignOnlyInvocation: ordinal 2 requires a recorded ordinal 1 timeout'') (\<lambda>_.
                  transitionSignOnlyInvocationLedger (jsval_of_ledger l) L_2_ALLOCATED))) (\<lambda>ledger.
     Inr (Append [(''sign-only-invocation-reserved'', JObj [(''ledger'', jsval_of_ledger ledger)])] (Some ''reserveSignOnlyInvocation'')
       (\<lambda>current.
          bindE (needPreparedChain current stage requestDigest ''reserveSignOnlyInvocation'' '': chain attempt changed while reserving'') (\<lambda>_.
          case (ordinal = JNum 1, omap_get (rp_ledgers current) key, currentLedger) of
            (True, latest, _) \<Rightarrow> throwIf (latest \<noteq> None) reserved
          | (False, Some latest, Some l) \<Rightarrow> bindE (textsDiffer (jsval_of_ledger latest) (jsval_of_ledger l)) (\<lambda>differ.
              throwIf differ ''cycle-repository reserveSignOnlyInvocation: ordinal 1 outcome changed while reserving ordinal 2'')
          | _ \<Rightarrow> Inl (JsError ''cycle-repository reserveSignOnlyInvocation: ordinal 1 outcome changed while reserving ordinal 2'')))
       (\<lambda>_. jsval_of_ledger ledger)))))))))"

definition recordSignOnlyInvocationTimeout :: "jsval \<Rightarrow> jsval \<Rightarrow> jsval \<Rightarrow> 'x replay_state res \<Rightarrow> 'x plan res" where
  "recordSignOnlyInvocationTimeout stageValue requestDigest ordinal replay =
     bindE (assertStageName stageValue False) (\<lambda>stage.
     bindE (throwIf (ordinal \<noteq> JNum 1 \<and> ordinal \<noteq> JNum 2) ''cycle-repository recordSignOnlyInvocationTimeout: ordinal must be 1 or 2'') (\<lambda>_.
     bindE replay (\<lambda>state.
     bindE (refuseTerminal ''recordSignOnlyInvocationTimeout'' state) (\<lambda>_.
     let key = chainAttemptKey stage (jsString requestDigest);
         expected = (if ordinal = JNum 1 then L_1_ALLOCATED else L_2_ALLOCATED);
         nextState = (if ordinal = JNum 1 then L_1_TIMED_OUT else L_2_TIMED_OUT);
         message = ''cycle-repository recordSignOnlyInvocationTimeout: ordinal '' @ jsString ordinal @ '' is not in the allocated state'';
         changed = ''cycle-repository recordSignOnlyInvocationTimeout: ledger changed while recording ordinal '' @ jsString ordinal @ '' timeout'' in
     case omap_get (rp_ledgers state) key of
       None \<Rightarrow> Inl (JsError message)
     | Some l \<Rightarrow>
         if sl_state l = nextState then Inr (Return (jsval_of_ledger l))
         else bindE (throwIf (sl_state l \<noteq> expected) message) (\<lambda>_.
              bindE (transitionSignOnlyInvocationLedger (jsval_of_ledger l) nextState) (\<lambda>ledger.
              Inr (Append [(''sign-only-invocation-timed-out'', JObj [(''ledger'', jsval_of_ledger ledger)])] (Some ''recordSignOnlyInvocationTimeout'')
                (\<lambda>current. case omap_get (rp_ledgers current) key of None \<Rightarrow> Inl (JsError changed)
                   | Some latest \<Rightarrow> bindE (textsDiffer (jsval_of_ledger latest) (jsval_of_ledger l)) (\<lambda>differ. throwIf differ changed))
                (\<lambda>_. jsval_of_ledger ledger))))))))"

section \<open>Legacy attempt records\<close>

text \<open>Neither names an operation, so neither is refused on a terminal cycle.\<close>

definition recordStageAttempt :: "jsval \<Rightarrow> jsval \<Rightarrow> 'x replay_state res \<Rightarrow> 'x plan res" where
  "recordStageAttempt stageValue evidence replay =
     bindE (assertStageName stageValue False) (\<lambda>stage.
     Inr (Append [(''stage-attempted'', JObj [(''stage'', JStr stage), (''evidence'', evidence)])] None (\<lambda>_. Inr ()) (\<lambda>_. JUndefined)))"

definition recordStageAttemptFailure :: "jsval \<Rightarrow> jsval \<Rightarrow> 'x replay_state res \<Rightarrow> 'x plan res" where
  "recordStageAttemptFailure stageValue evidence replay =
     bindE (assertStageName stageValue False) (\<lambda>stage.
     Inr (Append [(''stage-attempt-failed'', JObj [(''stage'', JStr stage), (''evidence'', evidence)])] None (\<lambda>_. Inr ()) (\<lambda>_. JUndefined)))"

definition readStageAttempt :: "jsval \<Rightarrow> 'x replay_state res \<Rightarrow> jsval res" where
  "readStageAttempt stageValue replay =
     bindE (assertStageName stageValue False) (\<lambda>stage.
     bindE replay (\<lambda>state.
     Inr (case omap_get (rp_operational state) stage of
         Some q \<Rightarrow> if \<not> op_failed q then op_responseEvidence q
                   else (case omap_get (rp_attempts state) stage of Some a \<Rightarrow> if la_failed a then JNull else la_evidence a | None \<Rightarrow> JNull)
       | None \<Rightarrow> (case omap_get (rp_attempts state) stage of Some a \<Rightarrow> if la_failed a then JNull else la_evidence a | None \<Rightarrow> JNull))))"

definition nextStageAttemptIndex :: "jsval \<Rightarrow> 'x replay_state res \<Rightarrow> nat res" where
  "nextStageAttemptIndex stageValue replay =
     bindE (assertStageName stageValue False) (\<lambda>stage.
     bindE replay (\<lambda>state.
     Inr (case omap_get (rp_attemptCounts state) stage of None \<Rightarrow> 0 | Some n \<Rightarrow> n)))"

end
