(* ===== verification/Cycle_Ledger_Scenario.thy ===== *)
theory Cycle_Ledger_Scenario
  imports Cycle_Operations
begin

text \<open>
  Concrete journals of a cycle, for the witnesses of the ledger's properties: a provider request that was sent, a
  sign-only transaction that needed both invocations and was signed, and a cycle that completed all nine stages.  The other parts of the
  repository accept everything and keep no state; the digest is a constant.
\<close>

definition ex_sha :: "string \<Rightarrow> string" where
  "ex_sha t = replicate 64 CHR ''0''"

definition ex_parts :: "unit other_parts" where
  "ex_parts = \<lparr>ot_initial = (), ot_step = (\<lambda>_ _. Inr ()), ot_admission = (\<lambda>_. JNull), ot_purchaseBatch = (\<lambda>_. JUndefined),
     ot_custodyLedgers = (\<lambda>_. []), ot_heldRetry = (\<lambda>_ _. False), ot_rewardEvidence = (\<lambda>_ _. Inr ()), ot_restoreValuations = (\<lambda>_. Inr ()),
     ot_resolveEvidence = (\<lambda>_ v. Inr v), ot_persistEvidence = (\<lambda>_ v. Inr v)\<rparr>"

definition ex_cycle :: string where "ex_cycle = ''c1''"

definition ex_request :: string where
  "ex_request = ''sha256:'' @ replicate 64 CHR ''a''"

text \<open>The journal of a list of events: with a constant digest every entry carries the same digest.\<close>

definition ex_digest_text :: jsval where
  "ex_digest_text = JStr (''sha256:'' @ replicate 64 CHR ''0'')"

definition ex_entry :: "nat \<Rightarrow> string \<times> jsval \<Rightarrow> jsval" where
  "ex_entry i ev = JObj [(''cycleId'', JStr ex_cycle), (''index'', JNum (int i)), (''kind'', JStr (fst ev)), (''payload'', snd ev),
     (''previousDigest'', if i = 0 then JNull else ex_digest_text), (''digest'', ex_digest_text)]"

definition ex_journal :: "(string \<times> jsval) list \<Rightarrow> jsval list" where
  "ex_journal events = map (\<lambda>(i, ev). ex_entry i ev) (enumerate 0 events)"

definition ex_replay :: "jsval list \<Rightarrow> unit replay_state" where
  "ex_replay log = (case replayEntries ex_sha ex_parts ex_cycle log of Inr st \<Rightarrow> st | Inl _ \<Rightarrow> initialReplay ex_parts)"

definition ex_accepts :: "jsval list \<Rightarrow> bool" where
  "ex_accepts log = isOk (replayEntries ex_sha ex_parts ex_cycle log)"

lemma ex_accepts_replay: "ex_accepts log \<Longrightarrow> replayEntries ex_sha ex_parts ex_cycle log = Inr (ex_replay log)"
  by (auto simp: ex_accepts_def ex_replay_def isOk_iff)

section \<open>A provider request\<close>

definition ex_attempt :: "provider_state \<Rightarrow> provider_attempt" where
  "ex_attempt s = \<lparr>pa_cycleId = ex_cycle, pa_stage = ''open'', pa_state = s, pa_requestDigest = ex_request,
     pa_responseDigest = None, pa_reconciliationDigest = None\<rparr>"

definition ex_sent_log :: "jsval list" where
  "ex_sent_log = ex_journal
     [(''stage-attempt-prepared'', JObj [(''stage'', JStr ''open''), (''attempt'', jsval_of_provider (ex_attempt P_PREPARED))]),
      (''stage-attempt-sent-unknown'', JObj [(''stage'', JStr ''open''), (''attempt'', jsval_of_provider (ex_attempt P_SENT_UNKNOWN)), (''sentAtMs'', JNum 5)])]"

definition ex_reconcile :: "unit replay_state res \<Rightarrow> unit plan res" where
  "ex_reconcile = reconcileStageAttempt ex_sha ex_cycle (JStr ''open'') (JObj [(''ok'', JBool True)])"

definition ex_reconciled_log :: "jsval list" where
  "ex_reconciled_log = (case execute ex_sha ex_parts ex_cycle ex_reconcile ex_sent_log ex_sent_log of Inr (log, r) \<Rightarrow> log | Inl _ \<Rightarrow> [])"

lemma ex_sent_accepted: "ex_accepts ex_sent_log"
  by code_simp

lemma ex_sent_state: "map_option (\<lambda>q. pa_state (op_attempt q)) (omap_get (rp_operational (ex_replay ex_sent_log)) ''open'') = Some P_SENT_UNKNOWN"
  by code_simp

lemma ex_reconcile_runs: "isOk (execute ex_sha ex_parts ex_cycle ex_reconcile ex_sent_log ex_sent_log)"
  by code_simp

lemma ex_reconciled_accepted: "ex_accepts ex_reconciled_log"
  by code_simp

section \<open>A sign-only transaction\<close>

definition ex_chain :: "chain_state \<Rightarrow> chain_attempt" where
  "ex_chain s = (if s = C_PREPARED
     then \<lparr>ca_cycleId = ex_cycle, ca_stage = ''outbound'', ca_state = s, ca_requestDigest = ex_request, ca_rawBytes = None, ca_nonce = None,
           ca_blockhash = None, ca_hash = None\<rparr>
     else \<lparr>ca_cycleId = ex_cycle, ca_stage = ''outbound'', ca_state = s, ca_requestDigest = ex_request, ca_rawBytes = Some ''0x02'', ca_nonce = Some ''7'',
           ca_blockhash = None, ca_hash = Some ''0xab''\<rparr>)"

definition ex_binding :: sign_only_binding where
  "ex_binding = \<lparr>sb_cycleId = ex_cycle, sb_stage = ''outbound'', sb_requestDigest = ex_request, sb_role = ''executor'', sb_account = ''0x1'',
     sb_unsignedWireBytes = ''00'', sb_unsignedRequestDigest = ex_request, sb_policyDigest = ex_request, sb_validityContextDigest = ex_request\<rparr>"

definition ex_ledger :: "ledger_state \<Rightarrow> jsval" where
  "ex_ledger s = JObj [(''ledger'', jsval_of_ledger \<lparr>sl_cycleId = ex_cycle, sl_stage = ''outbound'', sl_requestDigest = ex_request, sl_state = s\<rparr>)]"

definition ex_chain_event :: "chain_state \<Rightarrow> (string \<times> jsval) list \<Rightarrow> jsval" where
  "ex_chain_event s extra = JObj ([(''stage'', JStr ''outbound''), (''attempt'', jsval_of_chain (ex_chain s))] @ extra)"

definition ex_signed_events :: "(string \<times> jsval) list" where
  "ex_signed_events = [(''chain-attempt-prepared'', ex_chain_event C_PREPARED []),
     (''sign-only-pre-sign-binding-persisted'', JObj [(''binding'', jsval_of_binding ex_binding)]),
     (''sign-only-invocation-reserved'', ex_ledger L_1_ALLOCATED), (''sign-only-invocation-timed-out'', ex_ledger L_1_TIMED_OUT),
     (''sign-only-invocation-reserved'', ex_ledger L_2_ALLOCATED), (''chain-attempt-signed'', ex_chain_event C_SIGNED [])]"

definition ex_signed_log :: "jsval list" where
  "ex_signed_log = ex_journal ex_signed_events"

definition ex_broadcast :: "jsval list" where
  "ex_broadcast = drop 6 (ex_journal (ex_signed_events @ [(''chain-attempt-broadcast'', ex_chain_event C_BROADCAST [(''evidence'', JObj [(''hash'', JStr ''0xab'')])])]))"

lemma ex_signed_accepted: "ex_accepts ex_signed_log"
  by code_simp

lemma ex_signed_state:
  "map_option (\<lambda>c. ca_state (cn_attempt c)) (omap_get (rp_chain (ex_replay ex_signed_log)) (chainAttemptKey ''outbound'' ex_request)) = Some C_SIGNED"
  by code_simp

lemma ex_broadcast_accepted: "ex_accepts (ex_signed_log @ ex_broadcast)"
  by code_simp

section \<open>A completed cycle\<close>

definition ex_completed_log :: "jsval list" where
  "ex_completed_log = ex_journal (concat (map (\<lambda>stage. [(''stage-prepared'', JObj [(''stage'', JStr stage)]),
      (''stage-completed'', JObj [(''stage'', JStr stage), (''evidence'', JObj [])])]) OPERATIONAL_CYCLE_STAGES)
    @ [(''cycle-completed'', JObj [(''completedAtMs'', JNum 9)])])"

lemma ex_completed_accepted: "ex_accepts ex_completed_log"
  by code_simp

lemma ex_completed_state: "rp_completed (ex_replay ex_completed_log)"
  by code_simp

lemma ex_completed_stages: "omap_get (rp_stages (ex_replay ex_completed_log)) ''purchase'' = Some (JObj [])"
  by code_simp

text \<open>An event of another part that a completed cycle still accepts.\<close>

definition ex_after_completion :: "jsval list" where
  "ex_after_completion = [ex_entry 19 (''held-position-resolved'', JObj [])]"

lemma ex_after_completion_accepted: "ex_accepts (ex_completed_log @ ex_after_completion)"
  by code_simp

lemma ex_completed_verifies: "isOk (assertChain ex_sha ex_cycle 0 JNull ex_completed_log)"
  by code_simp

text \<open>The event a legacy attempt record appends, proposed to the journal of the completed cycle.\<close>

definition ex_completed_journal :: cycle_journal where
  "ex_completed_journal = \<lparr>cj_cycleId = ex_cycle, cj_entries = ex_completed_log\<rparr>"

definition ex_legacy_event :: "string \<times> jsval" where
  "ex_legacy_event = (''stage-attempted'', JObj [(''stage'', JStr ''payout''), (''evidence'', JObj [])])"

lemma ex_legacy_proposed: "isOk (proposeAll ex_sha [ex_legacy_event] ex_completed_journal)"
  by code_simp

end
