(* ===== verification/Cycle_Ledger_Safety.thy ===== *)
theory Cycle_Ledger_Safety
  imports Cycle_Ledger_Scenario
begin

text \<open>
  What the journal of a cycle guarantees.  \<open>applyEvent_cases\<close> says what each event does to the replayed state; the
  properties are invariants, and relations between an earlier and a later replay of a growing journal, that every
  event keeps.
\<close>

section \<open>What an event does\<close>

lemma same_binding_of_chain: "assertChainTransactionAttempt (jsval_of_chain a) label = Inr b \<Longrightarrow> b = a"
  using assertChain_fields [of "jsval_of_chain a" label b] by (cases a; cases b) (simp add: chain_state_name_inj)

lemma assertExpectedChain_Inr:
  assumes "assertExpectedChain c to ev attempt m = Inr u"
  shows "to \<in> set (permittedChain (ca_state (cn_attempt c)))" "ca_state attempt = to"
    "ca_cycleId attempt = ca_cycleId (cn_attempt c)" "ca_stage attempt = ca_stage (cn_attempt c)"
    "ca_requestDigest attempt = ca_requestDigest (cn_attempt c)"
    "ca_state (cn_attempt c) \<noteq> C_PREPARED \<Longrightarrow> attempt = (cn_attempt c)\<lparr>ca_state := to\<rparr>"
proof -
  from assms obtain expected where t: "transitionChainTransactionAttempt (jsval_of_chain (cn_attempt c)) to ev = Inr expected"
    and d: "textsDiffer (jsval_of_chain attempt) (jsval_of_chain expected) = Inr False"
    unfolding assertExpectedChain_def by (auto simp: res_simps)
  have e: "attempt = expected" using same_chain [OF d] .
  show "to \<in> set (permittedChain (ca_state (cn_attempt c)))" "ca_state attempt = to"
    "ca_cycleId attempt = ca_cycleId (cn_attempt c)" "ca_stage attempt = ca_stage (cn_attempt c)"
    "ca_requestDigest attempt = ca_requestDigest (cn_attempt c)"
    "ca_state (cn_attempt c) \<noteq> C_PREPARED \<Longrightarrow> attempt = (cn_attempt c)\<lparr>ca_state := to\<rparr>"
    unfolding e by (rule transitionChain_Inr [OF t], auto dest!: same_binding_of_chain)+
qed

lemma assertExpectedLedger_Inr:
  assumes "assertExpectedLedger l to ledger m = Inr u"
  shows "to \<in> set (permittedLedger (sl_state l))" "ledger = l\<lparr>sl_state := to\<rparr>"
proof -
  from assms obtain expected where t: "transitionSignOnlyInvocationLedger (jsval_of_ledger l) to = Inr expected"
    and d: "textsDiffer (jsval_of_ledger ledger) (jsval_of_ledger expected) = Inr False"
    unfolding assertExpectedLedger_def by (auto simp: res_simps)
  show "to \<in> set (permittedLedger (sl_state l))" using transitionLedger_Inr(1) [OF t] .
  show "ledger = l\<lparr>sl_state := to\<rparr>" using transitionLedger_Inr(2) [OF t] same_ledger [OF d] by simp
qed

text \<open>
  One step of a provider attempt, of a chain attempt and of an invocation ledger, as the replay checks it.
\<close>

definition providerStep :: "operational option \<Rightarrow> operational \<Rightarrow> bool" where
  "providerStep previous q = (case previous of None \<Rightarrow> pa_state (op_attempt q) = P_PREPARED
     | Some p \<Rightarrow> pa_requestDigest (op_attempt q) = pa_requestDigest (op_attempt p)
         \<and> (pa_state (op_attempt q) \<in> set (permittedProvider (pa_state (op_attempt p))) \<or> op_attempt q = op_attempt p))"

definition chainStep :: "chain_record option \<Rightarrow> chain_record \<Rightarrow> bool" where
  "chainStep previous c = (case previous of None \<Rightarrow> ca_state (cn_attempt c) = C_PREPARED
     | Some p \<Rightarrow> ca_state (cn_attempt c) \<in> set (permittedChain (ca_state (cn_attempt p)))
         \<and> ca_cycleId (cn_attempt c) = ca_cycleId (cn_attempt p)
         \<and> (ca_state (cn_attempt p) \<noteq> C_PREPARED \<longrightarrow> cn_attempt c = (cn_attempt p)\<lparr>ca_state := ca_state (cn_attempt c)\<rparr>))"

definition ledgerStep :: "sign_ledger option \<Rightarrow> sign_ledger \<Rightarrow> bool" where
  "ledgerStep previous l = (case previous of None \<Rightarrow> sl_state l = L_1_ALLOCATED | Some p \<Rightarrow> sl_state l \<in> set (permittedLedger (sl_state p)))"

definition providerKinds :: "string list" where
  "providerKinds = [''stage-attempt-sent-unknown'', ''stage-attempt-not-sent'', ''stage-attempt-reprepared'', ''stage-attempt-response-recorded'',
     ''stage-attempt-deadline-anchored'', ''stage-attempt-reconciled'']"

definition reservedKinds :: "string list" where
  "reservedKinds = [''sign-only-invocation-reserved'', ''sign-only-invocation-timed-out'']"

lemma providerFollows_step:
  assumes "providerFollows cid payload previous from to attempt" "\<forall>f \<in> set from. to \<in> set (permittedProvider f)"
  shows "\<exists>p. previous = Some p \<and> JStr (pa_stage attempt) = jprop payload ''stage''
    \<and> (\<forall>q. op_attempt q = attempt \<longrightarrow> providerStep (Some p) q)"
  using assms by (auto simp: providerFollows_def providerStep_def split: option.splits)

lemma provider_replays:
  "replayAttemptSentUnknown cid payload st = Inr st' \<Longrightarrow> \<exists>q. st' = setOperational q st \<and> providerStep (omap_get (rp_operational st) (pa_stage (op_attempt q))) q
     \<and> omap_has (rp_operational st) (pa_stage (op_attempt q))"
  "replayAttemptNotSent cid payload st = Inr st' \<Longrightarrow> \<exists>q. st' = setOperational q st \<and> providerStep (omap_get (rp_operational st) (pa_stage (op_attempt q))) q
     \<and> omap_has (rp_operational st) (pa_stage (op_attempt q))"
  "replayAttemptResponse cid payload st = Inr st' \<Longrightarrow> \<exists>q. st' = setOperational q st \<and> providerStep (omap_get (rp_operational st) (pa_stage (op_attempt q))) q
     \<and> omap_has (rp_operational st) (pa_stage (op_attempt q))"
  "replayAttemptReconciled cid payload st = Inr st' \<Longrightarrow> \<exists>q. st' = setOperational q st \<and> providerStep (omap_get (rp_operational st) (pa_stage (op_attempt q))) q
     \<and> omap_has (rp_operational st) (pa_stage (op_attempt q))"
  unfolding replayAttemptSentUnknown_def replayAttemptNotSent_def replayAttemptResponse_def replayAttemptReconciled_def Let_def
  by (clarsimp simp: res_simps, drule providerFollows_step, simp,
      fastforce simp: previousOperational_def omap_has_iff eq_commute [of "JStr _"])+

lemma same_provider_valid: "assertProviderMutationAttempt (jsval_of_provider a) label = Inr b \<Longrightarrow>
    pa_state b = pa_state a \<and> pa_requestDigest b = pa_requestDigest a \<and> pa_stage b = pa_stage a"
  using assertProvider_fields [of "jsval_of_provider a" label b] by (simp add: provider_state_name_inj)

lemma replayReprepared_shape:
  assumes "replayAttemptReprepared cid payload st = Inr st'"
  shows "\<exists>q. st' = setOperational q st \<and> providerStep (omap_get (rp_operational st) (pa_stage (op_attempt q))) q
     \<and> omap_has (rp_operational st) (pa_stage (op_attempt q))"
proof -
  from assms obtain p attempt expected where p: "previousOperational st payload = Some p"
    and a: "JStr (pa_stage attempt) = jprop payload ''stage''" "pa_state attempt = P_PREPARED" "pa_state (op_attempt p) = P_NOT_SENT"
    and t: "transitionProviderMutationAttempt (jsval_of_provider (op_attempt p)) P_PREPARED (JObj []) = Inr expected"
    and d: "textsDiffer (jsval_of_provider attempt) (jsval_of_provider expected) = Inr False"
    and st': "st' = setOperational (freshOperational attempt) st"
    unfolding replayAttemptReprepared_def Let_def by (auto simp: res_simps split: option.splits)
  have "pa_requestDigest attempt = pa_requestDigest (op_attempt p)"
    unfolding same_provider [OF d] by (rule transitionProvider_Inr [OF t]) (auto dest: same_provider_valid)
  moreover have "omap_get (rp_operational st) (pa_stage attempt) = Some p"
    using p a(1) by (auto simp: previousOperational_def split: jsval.splits)
  ultimately show ?thesis
    using a by (intro exI [of _ "freshOperational attempt"]) (simp add: st' providerStep_def freshOperational_def omap_has_iff)
qed

lemma replayDeadline_shape:
  assumes "replayAttemptDeadline cid payload st = Inr st'"
  shows "\<exists>q. st' = setOperational q st \<and> providerStep (omap_get (rp_operational st) (pa_stage (op_attempt q))) q
     \<and> omap_has (rp_operational st) (pa_stage (op_attempt q))"
proof -
  from assms obtain p attempt where p: "previousOperational st payload = Some p"
    and a: "JStr (pa_stage attempt) = jprop payload ''stage''"
    and d: "textsDiffer (jsval_of_provider attempt) (jsval_of_provider (op_attempt p)) = Inr False"
    and st': "st' = setOperational (p\<lparr>op_attempt := attempt, op_deadlineAnchorMs := jprop payload ''anchoredAtMs''\<rparr>) st"
    unfolding replayAttemptDeadline_def Let_def by (auto simp: res_simps split: option.splits)
  have "omap_get (rp_operational st) (pa_stage attempt) = Some p"
    using p a by (auto simp: previousOperational_def split: jsval.splits)
  then show ?thesis
    using same_provider [OF d] by (intro exI [of _ "p\<lparr>op_attempt := attempt, op_deadlineAnchorMs := jprop payload ''anchoredAtMs''\<rparr>"])
      (simp add: st' providerStep_def omap_has_iff)
qed

lemmas provider_shapes = provider_replays replayReprepared_shape replayDeadline_shape

lemma replayPrepared_shape:
  "replayAttemptPrepared cid payload st = Inr st' \<Longrightarrow> \<exists>a. st' = setOperational (freshOperational a) st \<and> pa_state a = P_PREPARED
     \<and> jprop payload ''stage'' = JStr (pa_stage a)"
  unfolding replayAttemptPrepared_def by (auto simp: res_simps)

lemma chain_shapes:
  "replayChainPrepared cid payload st = Inr st' \<Longrightarrow> \<exists>c. st' = setChain c st \<and> chainStep (omap_get (rp_chain st) (chainKeyOf (cn_attempt c))) c"
  "replayChainSigned cid payload st = Inr st' \<Longrightarrow> \<exists>c. st' = setChain c st \<and> chainStep (omap_get (rp_chain st) (chainKeyOf (cn_attempt c))) c"
  "replayChainBroadcast cid payload st = Inr st' \<Longrightarrow> \<exists>c. st' = setChain c st \<and> chainStep (omap_get (rp_chain st) (chainKeyOf (cn_attempt c))) c"
  "replayChainFinalized cid payload st = Inr st' \<Longrightarrow> \<exists>c. st' = setChain c st \<and> chainStep (omap_get (rp_chain st) (chainKeyOf (cn_attempt c))) c"
proof -
  show "\<exists>c. st' = setChain c st \<and> chainStep (omap_get (rp_chain st) (chainKeyOf (cn_attempt c))) c" if "replayChainPrepared cid payload st = Inr st'"
  proof -
    from that obtain a where "ca_state a = C_PREPARED" "\<not> omap_has (rp_chain st) (chainKeyOf a)"
      "st' = setChain \<lparr>cn_attempt = a, cn_broadcastEvidence = JNull, cn_finalityEvidence = JNull\<rparr> st"
      unfolding replayChainPrepared_def by (auto simp: res_simps)
    then show ?thesis
      by (intro exI [of _ "\<lparr>cn_attempt = a, cn_broadcastEvidence = JNull, cn_finalityEvidence = JNull\<rparr>"])
        (auto simp: chainStep_def omap_has_iff split: option.split)
  qed
  have follow: "\<exists>d. setChain c st = setChain d st \<and> chainStep (omap_get (rp_chain st) (chainKeyOf (cn_attempt d))) d"
    if "assertExpectedChain p to ev (cn_attempt c) m = Inr ()" "omap_get (rp_chain st) (chainKeyOf (cn_attempt c)) = Some p" for p to ev m c
    using assertExpectedChain_Inr [OF that(1)] that(2) by (intro exI [of _ c]) (auto simp: chainStep_def)
  show "\<exists>c. st' = setChain c st \<and> chainStep (omap_get (rp_chain st) (chainKeyOf (cn_attempt c))) c" if "replayChainSigned cid payload st = Inr st'"
    using that unfolding replayChainSigned_def Let_def by (clarsimp simp: res_simps chainFollows_def split: option.splits) (rule follow, simp_all)
  show "\<exists>c. st' = setChain c st \<and> chainStep (omap_get (rp_chain st) (chainKeyOf (cn_attempt c))) c" if "replayChainBroadcast cid payload st = Inr st'"
    using that unfolding replayChainBroadcast_def Let_def by (clarsimp simp: res_simps chainFollows_def split: option.splits) (rule follow, simp_all)
  show "\<exists>c. st' = setChain c st \<and> chainStep (omap_get (rp_chain st) (chainKeyOf (cn_attempt c))) c" if "replayChainFinalized cid payload st = Inr st'"
    using that unfolding replayChainFinalized_def Let_def by (clarsimp simp: res_simps chainFollows_def split: option.splits) (rule follow, simp_all)
qed

lemma ledger_shapes:
  "replaySignOnlyReserved cid payload st = Inr st' \<Longrightarrow> \<exists>l. jprop payload ''ledger'' \<noteq> JUndefined \<and> storedLedger payload = Inr l \<and> st' = setLedger l st
     \<and> ledgerStep (omap_get (rp_ledgers st) (ledgerKeyOf l)) l"
  "replaySignOnlyTimedOut cid payload st = Inr st' \<Longrightarrow> \<exists>l. jprop payload ''ledger'' \<noteq> JUndefined \<and> storedLedger payload = Inr l \<and> st' = setLedger l st
     \<and> ledgerStep (omap_get (rp_ledgers st) (ledgerKeyOf l)) l"
proof -
  have undef: "storedLedger payload = Inr l \<Longrightarrow> jprop payload ''ledger'' \<noteq> JUndefined" for l
    by (auto simp: storedLedger_def assertSignOnlyInvocationLedger_def assertMoneyObject_def isPlainObject_def)
  show "\<exists>l. jprop payload ''ledger'' \<noteq> JUndefined \<and> storedLedger payload = Inr l \<and> st' = setLedger l st
     \<and> ledgerStep (omap_get (rp_ledgers st) (ledgerKeyOf l)) l" if "replaySignOnlyReserved cid payload st = Inr st'"
    using that unfolding replaySignOnlyReserved_def Let_def
    by (auto simp: res_simps ledgerStep_def undef dest: assertExpectedLedger_Inr split: option.splits if_splits)
  show "\<exists>l. jprop payload ''ledger'' \<noteq> JUndefined \<and> storedLedger payload = Inr l \<and> st' = setLedger l st
     \<and> ledgerStep (omap_get (rp_ledgers st) (ledgerKeyOf l)) l" if "replaySignOnlyTimedOut cid payload st = Inr st'"
    using that unfolding replaySignOnlyTimedOut_def Let_def
    by (clarsimp simp: res_simps undef split: option.splits) (drule assertExpectedLedger_Inr(1), simp add: ledgerStep_def)
qed

lemma stage_shapes:
  "replayStagePrepared e payload st = Inr st' \<Longrightarrow> \<exists>m. st' = st\<lparr>rp_prepared := m\<rparr> \<and> (\<forall>s. omap_has (rp_prepared st) s \<longrightarrow> omap_has m s)"
  "replayStageAttempted payload st = Inr st' \<Longrightarrow> \<exists>a c. st' = st\<lparr>rp_attempts := a, rp_attemptCounts := c\<rparr>"
  "replaySignOnlyBinding cid payload st = Inr st' \<Longrightarrow> \<exists>b. st' = st\<lparr>rp_bindings := b\<rparr>"
  "replayTerminal sha cid payload st = Inr st' \<Longrightarrow> \<exists>t e a h. st' = st\<lparr>rp_terminalState := Some t, rp_terminalEvidence := e, rp_terminalAtMs := a,
     rp_heldEvidenceDigest := h\<rparr>"
  "replayOwnerDecision cid e payload st = Inr st' \<Longrightarrow> \<exists>d. st' = st\<lparr>rp_ownerDecision := d\<rparr>"
  "replayCycleCompleted env payload st = Inr st' \<Longrightarrow> assertCycleClosure env st = Inr () \<and>
     (\<exists>a. st' = st\<lparr>rp_completed := True, rp_terminalState := Some ''COMPLETED'', rp_terminalAtMs := a\<rparr>)"
proof -
  assume "replayStagePrepared e payload st = Inr st'"
  then obtain x where "st' = (if omap_has (rp_prepared st) x then st else st\<lparr>rp_prepared := omap_set x (jprop e ''digest'') (rp_prepared st)\<rparr>)"
    unfolding replayStagePrepared_def by (auto simp: res_simps simp del: if_split)
  then show "\<exists>m. st' = st\<lparr>rp_prepared := m\<rparr> \<and> (\<forall>s. omap_has (rp_prepared st) s \<longrightarrow> omap_has m s)"
    by (intro exI [of _ "rp_prepared st'"]) (simp add: omap_has_iff)
qed (auto simp: replayStageAttempted_def replaySignOnlyBinding_def replayTerminal_def replayOwnerDecision_def replayCycleCompleted_def
      Let_def res_simps)

lemma failed_shape:
  "replayStageAttemptFailed payload st = Inr st' \<Longrightarrow> \<exists>a. st' = st\<lparr>rp_attempts := a\<rparr> \<or>
     (\<exists>k q. omap_get (rp_operational st) k = Some q \<and> st' = st\<lparr>rp_attempts := a, rp_operational := omap_set k (q\<lparr>op_failed := True\<rparr>) (rp_operational st)\<rparr>)"
  unfolding replayStageAttemptFailed_def Let_def
  by (rule exI [of _ "rp_attempts st'"]) (fastforce split: option.splits)

lemma completed_shape:
  assumes "replayStageCompleted env payload st = Inr st'"
  shows "\<exists>stage. st' = st\<lparr>rp_stages := omap_set stage (jprop payload ''evidence'') (rp_stages st)\<rparr>
     \<and> (stage \<in> set OPERATIONAL_CYCLE_STAGES \<longrightarrow> assertPreparedOrderedCompletion st stage = Inr ()
          \<and> assertReconciledCompletion env st stage (jprop payload ''evidence'') = Inr ())
     \<and> (\<forall>ev. omap_get (rp_stages st) stage = Some ev \<longrightarrow> textsDiffer ev (jprop payload ''evidence'') = Inr False)"
  using assms unfolding replayStageCompleted_def by (auto simp: res_simps split: if_splits option.splits)

lemma if_elim:
  assumes "(if b then x else y) = z" "b \<Longrightarrow> x = z \<Longrightarrow> R" "\<not> b \<Longrightarrow> y = z \<Longrightarrow> R"
  shows R
  using assms by (simp split: if_splits)

lemma applyEvent_cases:
  assumes "applyEvent sha env cid e kind st = Inr st'"
  obtains (Prepared) m where "st' = st\<lparr>rp_prepared := m\<rparr>" "\<forall>s. omap_has (rp_prepared st) s \<longrightarrow> omap_has m s"
  | (Completed) stage ev where "st' = st\<lparr>rp_stages := omap_set stage ev (rp_stages st)\<rparr>"
      "stage \<in> set OPERATIONAL_CYCLE_STAGES \<longrightarrow> assertPreparedOrderedCompletion st stage = Inr () \<and> assertReconciledCompletion env st stage ev = Inr ()"
      "\<forall>old. omap_get (rp_stages st) stage = Some old \<longrightarrow> textsDiffer old ev = Inr False"
  | (Attempted) a c where "st' = st\<lparr>rp_attempts := a, rp_attemptCounts := c\<rparr>"
  | (Failed) a where "st' = st\<lparr>rp_attempts := a\<rparr>"
  | (FailedOperational) a k q where "omap_get (rp_operational st) k = Some q"
      "st' = st\<lparr>rp_attempts := a, rp_operational := omap_set k (q\<lparr>op_failed := True\<rparr>) (rp_operational st)\<rparr>"
  | (FreshProvider) a where "kind = ''stage-attempt-prepared''" "st' = setOperational (freshOperational a) st" "pa_state a = P_PREPARED"
      "jprop (jprop e ''payload'') ''stage'' = JStr (pa_stage a)"
  | (Provider) q where "kind \<in> set providerKinds" "st' = setOperational q st" "providerStep (omap_get (rp_operational st) (pa_stage (op_attempt q))) q"
      "omap_has (rp_operational st) (pa_stage (op_attempt q))"
  | (Chain) c where "st' = setChain c st" "chainStep (omap_get (rp_chain st) (chainKeyOf (cn_attempt c))) c"
  | (Binding) b where "st' = st\<lparr>rp_bindings := b\<rparr>"
  | (Ledger) l where "kind \<in> set reservedKinds" "storedLedger (jprop e ''payload'') = Inr l" "st' = setLedger l st"
      "ledgerStep (omap_get (rp_ledgers st) (ledgerKeyOf l)) l"
  | (Terminal) t ev a h where "st' = st\<lparr>rp_terminalState := Some t, rp_terminalEvidence := ev, rp_terminalAtMs := a, rp_heldEvidenceDigest := h\<rparr>"
  | (Owner) d where "st' = st\<lparr>rp_ownerDecision := d\<rparr>"
  | (Closed) a where "assertCycleClosure env st = Inr ()"
      "st' = st\<lparr>rp_completed := True, rp_terminalState := Some ''COMPLETED'', rp_terminalAtMs := a\<rparr>"
  | (Other) x where "st' = st\<lparr>rp_other := x\<rparr>" "kind \<notin> set reservedKinds" "ot_step env st e = Inr x"
proof -
  have kinds: "''stage-attempt-sent-unknown'' \<in> set providerKinds" "''stage-attempt-not-sent'' \<in> set providerKinds"
    "''stage-attempt-reprepared'' \<in> set providerKinds" "''stage-attempt-response-recorded'' \<in> set providerKinds"
    "''stage-attempt-deadline-anchored'' \<in> set providerKinds" "''stage-attempt-reconciled'' \<in> set providerKinds"
    "''sign-only-invocation-reserved'' \<in> set reservedKinds" "''sign-only-invocation-timed-out'' \<in> set reservedKinds"
    by (simp_all add: providerKinds_def reservedKinds_def)
  from assms show thesis
    unfolding applyEvent_def Let_def
    apply (elim if_elim)
    subgoal by (drule stage_shapes(1)) (elim exE conjE, rule Prepared)
    subgoal by (drule completed_shape) (elim exE conjE, rule Completed)
    subgoal by (drule stage_shapes(2)) (elim exE, rule Attempted)
    subgoal by (drule failed_shape) (elim exE disjE conjE, (rule Failed FailedOperational, assumption+)+)
    subgoal by (drule replayPrepared_shape) (elim exE conjE, rule FreshProvider)
    subgoal by (drule provider_shapes(1)) (elim exE conjE, rule Provider, simp_all add: kinds)
    subgoal by (drule provider_shapes(2)) (elim exE conjE, rule Provider, simp_all add: kinds)
    subgoal by (drule provider_shapes(5)) (elim exE conjE, rule Provider, simp_all add: kinds)
    subgoal by (drule provider_shapes(3)) (elim exE conjE, rule Provider, simp_all add: kinds)
    subgoal by (drule provider_shapes(6)) (elim exE conjE, rule Provider, simp_all add: kinds)
    subgoal by (drule provider_shapes(4)) (elim exE conjE, rule Provider, simp_all add: kinds)
    subgoal by (drule chain_shapes(1)) (elim exE conjE, rule Chain)
    subgoal by (drule chain_shapes(2)) (elim exE conjE, rule Chain)
    subgoal by (drule chain_shapes(3)) (elim exE conjE, rule Chain)
    subgoal by (drule chain_shapes(4)) (elim exE conjE, rule Chain)
    subgoal by (drule stage_shapes(3)) (elim exE, rule Binding)
    subgoal by (drule ledger_shapes(1)) (elim exE conjE, rule Ledger, simp_all add: kinds)
    subgoal by (drule ledger_shapes(2)) (elim exE conjE, rule Ledger, simp_all add: kinds)
    subgoal by (drule stage_shapes(4)) (elim exE, rule Terminal)
    subgoal by (drule stage_shapes(5)) (elim exE, rule Owner)
    subgoal by (drule stage_shapes(6)) (elim exE conjE, rule Closed)
    subgoal by (simp add: bindE_Inr_iff) (elim exE conjE, rule Other, erule sym, simp_all add: reservedKinds_def)
    done
qed

section \<open>Growing journals\<close>

text \<open>A replay of a longer journal continues the replay of the shorter one.\<close>

lemma replayEntries_append:
  assumes "replayEntries sha env cid (log @ rest) = Inr st'"
  obtains st where "replayEntries sha env cid log = Inr st" "foldE (\<lambda>_ e st. replayEntry sha env cid e st) 0 rest st = Inr st'"
  using assms unfolding replayEntries_def
  by (auto simp: foldE_append res_simps) (metis foldE_no_index)

lemma replayEntry_event: "replayEntry sha env cid e s = Inr s' \<Longrightarrow> applyEvent sha env cid e (entryKind e) s = Inr s'"
  by (auto simp: replayEntry_def res_simps)

lemma replay_relates:
  assumes "replayEntries sha env cid log = Inr st" "replayEntries sha env cid (log @ rest) = Inr st'" "R st st"
    and "\<And>e s s'. R st s \<Longrightarrow> replayEntry sha env cid e s = Inr s' \<Longrightarrow> R st s'"
  shows "R st st'"
proof -
  from assms(1,2) have "foldE (\<lambda>_ e st. replayEntry sha env cid e st) 0 rest st = Inr st'"
    by (auto elim: replayEntries_append)
  then show ?thesis by (rule foldE_invariant [where P = "R st"]) (rule assms(3), rule assms(4))
qed

lemma replay_invariant:
  assumes "replayEntries sha env cid log = Inr st" "P (initialReplay env)"
    and "\<And>e s s'. P s \<Longrightarrow> replayEntry sha env cid e s = Inr s' \<Longrightarrow> P s'"
  shows "P st"
  using assms(1) unfolding replayEntries_def by (rule foldE_invariant [where P = P]) (rule assms(2), rule assms(3))

section \<open>Signed bytes\<close>

primrec chainRank :: "chain_state \<Rightarrow> nat" where
  "chainRank C_PREPARED = 0"
| "chainRank C_SIGNED = 1"
| "chainRank C_BROADCAST = 2"
| "chainRank C_FINALIZED = 3"

lemma permittedChain_rank: "t \<in> set (permittedChain s) \<Longrightarrow> chainRank t = Suc (chainRank s)"
  by (cases s) auto

text \<open>
  C5. Once a chain attempt is signed, no later journal of the cycle replays to other bytes, another nonce, block hash or
  transaction hash for the same stage and request: later events only move it forward, from signed to broadcast to finalized.
\<close>

theorem signed_bytes_immutable:
  fixes env :: "'x other_parts"
  assumes "replayEntries sha env cid log = Inr st" and "replayEntries sha env cid (log @ rest) = Inr st'"
    and "omap_get (rp_chain st) key = Some c" and "ca_state (cn_attempt c) \<noteq> C_PREPARED"
  shows "\<exists>c'. omap_get (rp_chain st') key = Some c' \<and> cn_attempt c' = (cn_attempt c)\<lparr>ca_state := ca_state (cn_attempt c')\<rparr>
    \<and> chainRank (ca_state (cn_attempt c)) \<le> chainRank (ca_state (cn_attempt c'))"
proof (rule replay_relates [OF assms(1,2)])
  fix e and s s' :: "'x replay_state"
  assume "\<exists>c'. omap_get (rp_chain s) key = Some c' \<and> cn_attempt c' = (cn_attempt c)\<lparr>ca_state := ca_state (cn_attempt c')\<rparr>
      \<and> chainRank (ca_state (cn_attempt c)) \<le> chainRank (ca_state (cn_attempt c'))"
  then obtain c' where c': "omap_get (rp_chain s) key = Some c'" "cn_attempt c' = (cn_attempt c)\<lparr>ca_state := ca_state (cn_attempt c')\<rparr>"
    "chainRank (ca_state (cn_attempt c)) \<le> chainRank (ca_state (cn_attempt c'))" by blast
  have signed: "ca_state (cn_attempt c') \<noteq> C_PREPARED" using c'(3) assms(4) by (cases "ca_state (cn_attempt c)") auto
  assume "replayEntry sha env cid e s = Inr s'"
  then have "applyEvent sha env cid e (entryKind e) s = Inr s'" by (rule replayEntry_event)
  then show "\<exists>c'. omap_get (rp_chain s') key = Some c' \<and> cn_attempt c' = (cn_attempt c)\<lparr>ca_state := ca_state (cn_attempt c')\<rparr>
      \<and> chainRank (ca_state (cn_attempt c)) \<le> chainRank (ca_state (cn_attempt c'))"
  proof (cases rule: applyEvent_cases)
    case (Chain d)
    show ?thesis
    proof (cases "chainKeyOf (cn_attempt d) = key")
      case True
      with Chain(2) c'(1) signed have "cn_attempt d = (cn_attempt c')\<lparr>ca_state := ca_state (cn_attempt d)\<rparr>"
        "ca_state (cn_attempt d) \<in> set (permittedChain (ca_state (cn_attempt c')))" by (simp_all add: chainStep_def)
      then show ?thesis
        using True c'(2,3) by (intro exI [of _ d]) (simp add: Chain(1) setChain_def permittedChain_rank, metis chain_attempt.surjective chain_attempt.update_convs(3))
    next
      case False
      with c' show ?thesis by (intro exI [of _ c']) (simp add: Chain(1) setChain_def)
    qed
  qed (use c' in \<open>auto simp: setOperational_def setLedger_def\<close>)
qed (use assms(3) in simp)

lemma signed_bytes_immutable_witness:
  "\<exists>c c'. omap_get (rp_chain (ex_replay ex_signed_log)) (chainAttemptKey ''outbound'' ex_request) = Some c \<and> ca_state (cn_attempt c) = C_SIGNED
    \<and> omap_get (rp_chain (ex_replay (ex_signed_log @ ex_broadcast))) (chainAttemptKey ''outbound'' ex_request) = Some c'
    \<and> ca_rawBytes (cn_attempt c') = ca_rawBytes (cn_attempt c)"
proof -
  from ex_signed_state obtain c where c: "omap_get (rp_chain (ex_replay ex_signed_log)) (chainAttemptKey ''outbound'' ex_request) = Some c"
    and signed: "ca_state (cn_attempt c) = C_SIGNED" by auto
  from signed_bytes_immutable [OF ex_accepts_replay [OF ex_signed_accepted] ex_accepts_replay [OF ex_broadcast_accepted] c] signed
  obtain c' where "omap_get (rp_chain (ex_replay (ex_signed_log @ ex_broadcast))) (chainAttemptKey ''outbound'' ex_request) = Some c'"
    "cn_attempt c' = (cn_attempt c)\<lparr>ca_state := ca_state (cn_attempt c')\<rparr>" by auto
  moreover from this(2) have "ca_rawBytes (cn_attempt c') = ca_rawBytes (cn_attempt c)" by (metis chain_attempt.select_convs(5) chain_attempt.surjective chain_attempt.update_convs(3))
  ultimately show ?thesis using c signed by blast
qed

section \<open>Completed stages\<close>

lemma preparedOrdered_Inr: "assertPreparedOrderedCompletion st stage = Inr () \<longleftrightarrow>
    omap_has (rp_prepared st) stage \<and> (\<forall>p \<in> set (predecessors stage). omap_has (rp_stages st) p)"
  by (auto simp: assertPreparedOrderedCompletion_def res_simps foldE_unit)

text \<open>
  C38. In every replayable journal the completed stages of the scheduler form an initial segment of their order, and each of
  them was prepared: no stage completes before all its predecessors have.
\<close>

theorem completed_stages_form_prefix:
  fixes env :: "'x other_parts"
  assumes "replayEntries sha env cid log = Inr st" and "stage \<in> set OPERATIONAL_CYCLE_STAGES" and "omap_has (rp_stages st) stage"
  shows "omap_has (rp_prepared st) stage \<and> (\<forall>p \<in> set (predecessors stage). omap_has (rp_stages st) p)"
proof -
  have "\<forall>stage \<in> set OPERATIONAL_CYCLE_STAGES. omap_has (rp_stages st) stage \<longrightarrow> assertPreparedOrderedCompletion st stage = Inr ()"
  proof (rule replay_invariant [OF assms(1)])
    fix e and s s' :: "'x replay_state"
    assume inv: "\<forall>stage \<in> set OPERATIONAL_CYCLE_STAGES. omap_has (rp_stages s) stage \<longrightarrow> assertPreparedOrderedCompletion s stage = Inr ()"
    assume "replayEntry sha env cid e s = Inr s'"
    then have "applyEvent sha env cid e (entryKind e) s = Inr s'" by (rule replayEntry_event)
    then show "\<forall>stage \<in> set OPERATIONAL_CYCLE_STAGES. omap_has (rp_stages s') stage \<longrightarrow> assertPreparedOrderedCompletion s' stage = Inr ()"
    proof (cases rule: applyEvent_cases)
      case (Completed stage ev)
      then have "omap_has (rp_stages s') x \<longleftrightarrow> x = stage \<or> omap_has (rp_stages s) x" "rp_prepared s' = rp_prepared s" for x
        by (simp_all add: omap_has_iff)
      with inv Completed(2) show ?thesis unfolding preparedOrdered_Inr by auto
    qed (use inv in \<open>auto simp: preparedOrdered_Inr setOperational_def setChain_def setLedger_def\<close>)
  qed (simp add: initialReplay_def omap_has_def)
  with assms(2,3) show ?thesis by (simp add: preparedOrdered_Inr)
qed

lemma completed_stages_form_prefix_witness:
  "omap_has (rp_prepared (ex_replay ex_completed_log)) ''purchase'' \<and> omap_has (rp_stages (ex_replay ex_completed_log)) ''outbound''"
proof -
  have "''outbound'' \<in> set (predecessors ''purchase'')" by (simp add: predecessors_def OPERATIONAL_CYCLE_STAGES_def)
  moreover have "''purchase'' \<in> set OPERATIONAL_CYCLE_STAGES" by (simp add: OPERATIONAL_CYCLE_STAGES_def)
  ultimately show ?thesis
    using completed_stages_form_prefix [OF ex_accepts_replay [OF ex_completed_accepted], of "''purchase''"] ex_completed_stages
    by (simp add: omap_has_iff)
qed

text \<open>
  The evidence of a completed stage is final: whatever is appended later, the stage stays complete with evidence of the
  same canonical text.
\<close>

theorem stage_evidence_is_final:
  fixes env :: "'x other_parts"
  assumes "replayEntries sha env cid log = Inr st" and "replayEntries sha env cid (log @ rest) = Inr st'"
    and "omap_get (rp_stages st) stage = Some ev"
  shows "\<exists>ev'. omap_get (rp_stages st') stage = Some ev' \<and> (ev' = ev \<or> (\<exists>t. canonicalJson ev = Inr t \<and> canonicalJson ev' = Inr t))"
proof (rule replay_relates [OF assms(1,2)])
  fix e and s s' :: "'x replay_state"
  let ?R = "\<lambda>s. \<exists>ev'. omap_get (rp_stages s) stage = Some ev' \<and> (ev' = ev \<or> (\<exists>t. canonicalJson ev = Inr t \<and> canonicalJson ev' = Inr t))"
  assume r: "?R s"
  assume "replayEntry sha env cid e s = Inr s'"
  then have "applyEvent sha env cid e (entryKind e) s = Inr s'" by (rule replayEntry_event)
  then show "?R s'"
  proof (cases rule: applyEvent_cases)
    case (Completed stage' new)
    with r show ?thesis by (auto simp: textsDiffer_def res_simps)
  qed (use r in \<open>auto simp: setOperational_def setChain_def setLedger_def\<close>)
qed (use assms(3) in simp)

lemma stage_evidence_is_final_witness:
  "\<exists>ev. omap_get (rp_stages (ex_replay (ex_completed_log @ ex_after_completion))) ''purchase'' = Some ev"
  using stage_evidence_is_final [OF ex_accepts_replay [OF ex_completed_accepted] ex_accepts_replay [OF ex_after_completion_accepted] ex_completed_stages]
  by blast

section \<open>Sign-only retries\<close>

text \<open>The invocation events of a request in a journal, and the states they record.\<close>

definition ledgerEventState :: "string \<Rightarrow> jsval \<Rightarrow> ledger_state option" where
  "ledgerEventState key e =
     (if entryKind e \<notin> set reservedKinds then None
      else case storedLedger (jprop e ''payload'') of Inl _ \<Rightarrow> None | Inr l \<Rightarrow> if ledgerKeyOf l = key then Some (sl_state l) else None)"

definition invocationStates :: "string \<Rightarrow> jsval list \<Rightarrow> ledger_state list" where
  "invocationStates key log = List.map_filter (ledgerEventState key) log"

text \<open>The states up to the one a ledger is in.\<close>

definition statesUpTo :: "sign_ledger option \<Rightarrow> ledger_state list" where
  "statesUpTo l = (case l of None \<Rightarrow> []
     | Some l \<Rightarrow> (case sl_state l of L_1_ALLOCATED \<Rightarrow> [L_1_ALLOCATED] | L_1_TIMED_OUT \<Rightarrow> [L_1_ALLOCATED, L_1_TIMED_OUT]
         | L_2_ALLOCATED \<Rightarrow> [L_1_ALLOCATED, L_1_TIMED_OUT, L_2_ALLOCATED] | L_2_TIMED_OUT \<Rightarrow> SIGN_ONLY_INVOCATION_LEDGER_STATES))"

lemma statesUpTo_step: "ledgerStep previous l \<Longrightarrow> statesUpTo (Some l) = statesUpTo previous @ [sl_state l]"
  by (cases "sl_state l"; auto simp: ledgerStep_def statesUpTo_def SIGN_ONLY_INVOCATION_LEDGER_STATES_def
      split: option.splits ledger_state.splits)

lemma statesUpTo_take: "\<exists>n \<le> 4. statesUpTo l = take n SIGN_ONLY_INVOCATION_LEDGER_STATES"
proof (cases l)
  case None
  then show ?thesis by (intro exI [of _ 0]) (simp add: statesUpTo_def)
next
  case (Some m)
  have "statesUpTo l = take (case sl_state m of L_1_ALLOCATED \<Rightarrow> 1 | L_1_TIMED_OUT \<Rightarrow> 2 | L_2_ALLOCATED \<Rightarrow> 3 | L_2_TIMED_OUT \<Rightarrow> 4)
      SIGN_ONLY_INVOCATION_LEDGER_STATES"
    by (simp add: Some statesUpTo_def SIGN_ONLY_INVOCATION_LEDGER_STATES_def split: ledger_state.split)
  moreover have "(case sl_state m of L_1_ALLOCATED \<Rightarrow> 1 | L_1_TIMED_OUT \<Rightarrow> 2 | L_2_ALLOCATED \<Rightarrow> 3 | L_2_TIMED_OUT \<Rightarrow> 4) \<le> (4 :: nat)"
    by (simp split: ledger_state.split)
  ultimately show ?thesis by blast
qed

lemma ledger_event:
  assumes "applyEvent sha env cid e kind s = Inr s'" "kind \<in> set reservedKinds"
  shows "\<exists>l. storedLedger (jprop e ''payload'') = Inr l \<and> s' = setLedger l s \<and> ledgerStep (omap_get (rp_ledgers s) (ledgerKeyOf l)) l"
proof -
  have "kind = ''sign-only-invocation-reserved'' \<or> kind = ''sign-only-invocation-timed-out''" using assms(2) by (simp add: reservedKinds_def)
  then show ?thesis
  proof
    assume k: "kind = ''sign-only-invocation-reserved''"
    with assms(1) have "replaySignOnlyReserved cid (jprop e ''payload'') s = Inr s'" by (simp add: applyEvent_def Let_def)
    then show ?thesis by (auto dest: ledger_shapes(1))
  next
    assume k: "kind = ''sign-only-invocation-timed-out''"
    with assms(1) have "replaySignOnlyTimedOut cid (jprop e ''payload'') s = Inr s'" by (simp add: applyEvent_def Let_def)
    then show ?thesis by (auto dest: ledger_shapes(2))
  qed
qed

text \<open>
  C17. The bounded retry of a sign-only request ends: in every replayable journal the invocations recorded for a request are
  an initial segment of first allocation, first timeout, second allocation, second timeout.  The signer is
  never allowed a third invocation, nor a second one without a recorded timeout of the first.
\<close>

theorem sign_only_retries_end:
  fixes env :: "'x other_parts"
  assumes "replayEntries sha env cid log = Inr st"
  shows "\<exists>n \<le> 4. invocationStates key log = take n SIGN_ONLY_INVOCATION_LEDGER_STATES"
proof -
  have "invocationStates key ([] @ log) = statesUpTo (omap_get (rp_ledgers st) key)"
  proof (rule foldE_prefix_invariant [where P = "\<lambda>pre st. invocationStates key pre = statesUpTo (omap_get (rp_ledgers st) key)"])
    show "foldE (\<lambda>_ e st. replayEntry sha env cid e st) 0 log (initialReplay env) = Inr st" using assms by (simp add: replayEntries_def)
    show "invocationStates key [] = statesUpTo (omap_get (rp_ledgers (initialReplay env)) key)"
      by (simp add: invocationStates_def map_filter_def statesUpTo_def initialReplay_def omap_get_def)
    fix pre j e and s s' :: "'x replay_state"
    assume inv: "invocationStates key pre = statesUpTo (omap_get (rp_ledgers s) key)"
    assume "replayEntry sha env cid e s = Inr s'"
    then have ap: "applyEvent sha env cid e (entryKind e) s = Inr s'" by (rule replayEntry_event)
    have snoc: "invocationStates key (pre @ [e]) = invocationStates key pre @ (case ledgerEventState key e of None \<Rightarrow> [] | Some x \<Rightarrow> [x])"
      by (simp add: invocationStates_def map_filter_def split: option.split)
    show "invocationStates key (pre @ [e]) = statesUpTo (omap_get (rp_ledgers s') key)"
    proof (cases "entryKind e \<in> set reservedKinds")
      case True
      from ledger_event [OF ap True] obtain l where l: "storedLedger (jprop e ''payload'') = Inr l" "s' = setLedger l s"
        "ledgerStep (omap_get (rp_ledgers s) (ledgerKeyOf l)) l" by blast
      then show ?thesis using True inv statesUpTo_step [OF l(3)]
        by (cases "ledgerKeyOf l = key") (simp_all add: snoc ledgerEventState_def setLedger_def)
    next
      case False
      from ap have "rp_ledgers s' = rp_ledgers s"
        by (cases rule: applyEvent_cases) (use False in \<open>auto simp: setOperational_def setChain_def\<close>)
      with False inv show ?thesis by (simp add: snoc ledgerEventState_def)
    qed
  qed
  then show ?thesis using statesUpTo_take by simp
qed

lemma sign_only_retries_end_witness:
  "\<exists>n \<le> 4. invocationStates (chainAttemptKey ''outbound'' ex_request) ex_signed_log = take n SIGN_ONLY_INVOCATION_LEDGER_STATES"
  by (rule sign_only_retries_end [OF ex_accepts_replay [OF ex_signed_accepted]])

section \<open>Completion\<close>

lemma completionKinds_other:
  "kind \<in> set POST_COMPLETION_RECORD_KINDS \<Longrightarrow> applyEvent sha env cid e kind st = bindE (ot_step env st e) (\<lambda>x. Inr (st\<lparr>rp_other := x\<rparr>))"
  unfolding POST_COMPLETION_RECORD_KINDS_def by (simp, elim disjE) (simp_all add: applyEvent_def Let_def)

definition cycleClosed :: "'x replay_state \<Rightarrow> bool" where
  "cycleClosed st = (rp_completed st \<and> rp_terminalState st = Some ''COMPLETED''
     \<and> list_all (omap_has (rp_stages st)) OPERATIONAL_CYCLE_STAGES
     \<and> list_all (\<lambda>(stage, q). pa_state (op_attempt q) = P_RECONCILED) (rp_operational st)
     \<and> list_all (\<lambda>(key, c). ca_state (cn_attempt c) = C_FINALIZED) (rp_chain st))"

lemma assertCycleClosure_Inr:
  "assertCycleClosure env st = Inr () \<Longrightarrow> list_all (omap_has (rp_stages st)) OPERATIONAL_CYCLE_STAGES
     \<and> list_all (\<lambda>(stage, q). pa_state (op_attempt q) = P_RECONCILED) (rp_operational st)
     \<and> list_all (\<lambda>(key, c). ca_state (cn_attempt c) = C_FINALIZED) (rp_chain st)"
  unfolding assertCycleClosure_def by (simp add: bindE_Inr_iff foldE_unit foldE_unit_pairs throwIf_Inr list_all_iff)

lemma closed_step:
  assumes "rp_completed s \<longrightarrow> cycleClosed s" "replayEntry sha env cid e s = Inr s'"
  shows "rp_completed s' \<longrightarrow> cycleClosed s'" and "rp_completed s \<longrightarrow> (\<exists>x. s' = s\<lparr>rp_other := x\<rparr>)"
proof -
  from assms(2) have ap: "applyEvent sha env cid e (entryKind e) s = Inr s'" by (rule replayEntry_event)
  have "entryKind e \<in> set POST_COMPLETION_RECORD_KINDS" if "rp_completed s"
    using assms that by (auto simp: replayEntry_def assertNotTerminal_def cycleClosed_def res_simps split: if_splits)
  then show frozen: "rp_completed s \<longrightarrow> (\<exists>x. s' = s\<lparr>rp_other := x\<rparr>)"
    using ap by (auto simp: completionKinds_other res_simps)
  show "rp_completed s' \<longrightarrow> cycleClosed s'"
  proof (cases "rp_completed s")
    case True
    with frozen assms(1) show ?thesis by (auto simp: cycleClosed_def)
  next
    case running: False
    from ap show ?thesis
    proof (cases rule: applyEvent_cases)
      case (Closed a)
      with assertCycleClosure_Inr [OF Closed(1)] show ?thesis by (simp add: cycleClosed_def)
    qed (use running in \<open>simp_all add: setOperational_def setChain_def setLedger_def\<close>)
  qed
qed

text \<open>
  C6. A cycle that is completed is closed for good: in every longer journal that replays, all nine stages are complete,
  every provider attempt is reconciled, every chain attempt is finalized, and none of this differs from the state at
  completion; only the other parts of the record can change.
\<close>

theorem completed_cycle_is_closed:
  fixes env :: "'x other_parts"
  assumes "replayEntries sha env cid log = Inr st" and "replayEntries sha env cid (log @ rest) = Inr st'" and "rp_completed st"
  shows "cycleClosed st' \<and> (\<exists>x. st' = st\<lparr>rp_other := x\<rparr>)"
proof -
  have "rp_completed st \<longrightarrow> cycleClosed st"
    by (rule replay_invariant [OF assms(1), where P = "\<lambda>s. rp_completed s \<longrightarrow> cycleClosed s"])
      (simp add: initialReplay_def, rule closed_step(1))
  with assms(3) have "cycleClosed st" by simp
  have "cycleClosed st' \<and> (\<exists>x. st' = st\<lparr>rp_other := x\<rparr>)"
  proof (rule replay_relates [OF assms(1,2), where R = "\<lambda>st s. cycleClosed s \<and> (\<exists>x. s = st\<lparr>rp_other := x\<rparr>)"])
    show "cycleClosed st \<and> (\<exists>x. st = st\<lparr>rp_other := x\<rparr>)"
      using \<open>cycleClosed st\<close> by (intro conjI exI [of _ "rp_other st"]) simp_all
    fix e and s s' :: "'x replay_state"
    assume s: "cycleClosed s \<and> (\<exists>x. s = st\<lparr>rp_other := x\<rparr>)" and step: "replayEntry sha env cid e s = Inr s'"
    from s have c: "rp_completed s" by (simp add: cycleClosed_def)
    obtain y where y: "s' = s\<lparr>rp_other := y\<rparr>" using closed_step(2) [OF _ step] s c by blast
    have "cycleClosed s'" using s by (simp add: y cycleClosed_def)
    moreover have "\<exists>x. s' = st\<lparr>rp_other := x\<rparr>" using s by (intro exI [of _ y]) (auto simp: y)
    ultimately show "cycleClosed s' \<and> (\<exists>x. s' = st\<lparr>rp_other := x\<rparr>)" by blast
  qed
  then show ?thesis .
qed

lemma completed_cycle_is_closed_witness:
  "cycleClosed (ex_replay (ex_completed_log @ ex_after_completion))"
  using completed_cycle_is_closed [OF ex_accepts_replay [OF ex_completed_accepted] ex_accepts_replay [OF ex_after_completion_accepted] ex_completed_state]
  by blast

end
