(* ===== verification/Cycle_Repository_Safety.thy ===== *)
theory Cycle_Repository_Safety
  imports Cycle_Ledger_Safety
begin

text \<open>
  Runs of the cycle repository: sequences of operations, each planned on a journal the operation saw and
  executed on the journal as it has grown since, interleaved with appends of the operations that are not modelled.
\<close>

section \<open>Runs\<close>

text \<open>The operations modelled, as what they plan from the first replay.\<close>

inductive repo_operation :: "(string \<Rightarrow> string) \<Rightarrow> 'x other_parts \<Rightarrow> string \<Rightarrow> ('x replay_state res \<Rightarrow> 'x plan res) \<Rightarrow> bool"
  for sha env cid
where
  op_prepareStage: "repo_operation sha env cid (prepareStage stage)"
| op_completeStage: "repo_operation sha env cid (completeStage env stage evidence)"
| op_completeCycle: "repo_operation sha env cid (completeCycle env now)"
| op_holdCycle: "repo_operation sha env cid (holdCycle terminal evidence now)"
| op_prepareStageAttempt: "repo_operation sha env cid (prepareStageAttempt cid stage attempt)"
| op_sentUnknown: "repo_operation sha env cid (markStageAttemptSentUnknown stage now)"
| op_anchor: "repo_operation sha env cid (anchorOperationalStageDeadline stage now)"
| op_notSent: "repo_operation sha env cid (markStageAttemptNotSent stage)"
| op_response: "repo_operation sha env cid (recordStageAttemptResponse sha cid stage evidence now)"
| op_reconcile: "repo_operation sha env cid (reconcileStageAttempt sha cid stage evidence)"
| op_prepareChain: "repo_operation sha env cid (prepareChainTransactionAttempt cid stage attempt)"
| op_signed: "repo_operation sha env cid (recordSignedTransaction stage request material)"
| op_broadcast: "repo_operation sha env cid (recordBroadcast stage request evidence)"
| op_finality: "repo_operation sha env cid (recordFinality stage request evidence)"
| op_binding: "repo_operation sha env cid (persistSignOnlyPreSignBinding cid stage request binding)"
| op_reserve: "repo_operation sha env cid (reserveSignOnlyInvocation cid stage request ordinal)"
| op_timeout: "repo_operation sha env cid (recordSignOnlyInvocationTimeout stage request ordinal)"
| op_legacy: "repo_operation sha env cid (recordStageAttempt stage evidence)"
| op_legacyFailure: "repo_operation sha env cid (recordStageAttemptFailure stage evidence)"

text \<open>
  One step of the stored journal.  The other operations append through \<open>#appendEvents\<close> too; \<open>prepareStageAttempt\<close> is the only
  one that appends \<^verbatim>\<open>stage-attempt-prepared\<close>.
\<close>

inductive repo_step :: "(string \<Rightarrow> string) \<Rightarrow> 'x other_parts \<Rightarrow> string \<Rightarrow> jsval list \<Rightarrow> jsval list \<Rightarrow> bool" for sha env cid where
  operate: "repo_operation sha env cid operation \<Longrightarrow> log = seen @ since \<Longrightarrow> execute sha env cid operation seen log = Inr (log', r)
    \<Longrightarrow> repo_step sha env cid log log'"
| append_other: "appendEvents sha env cid log events name assertState = Inr es \<Longrightarrow> ''stage-attempt-prepared'' \<notin> set (map fst events)
    \<Longrightarrow> repo_step sha env cid log (log @ es)"

definition repo_run :: "(string \<Rightarrow> string) \<Rightarrow> 'x other_parts \<Rightarrow> string \<Rightarrow> jsval list \<Rightarrow> jsval list \<Rightarrow> bool" where
  "repo_run sha env cid = (repo_step sha env cid)\<^sup>*\<^sup>*"

section \<open>What is appended\<close>

lemma chain_entries_ok: "assertChain sha cid i prev es = Inr u \<Longrightarrow> \<forall>e \<in> set es. canonOk e"
  by (induction es arbitrary: i prev) (auto simp: res_simps dest: assertJournalEntry_canonOk)

lemma newCycleJournal_entries:
  assumes "newCycleJournal sha (JStr cid) (JArr es) = Inr j"
  shows "cj_entries j = es"
proof -
  from assms obtain fs where c: "assertChain sha cid 0 JNull es = Inr ()" and m: "mapE (\<lambda>_. structuredClone) 0 es = Inr fs"
    and j: "cj_entries j = fs" unfolding newCycleJournal_def by (auto simp: res_simps)
  have "mapE (\<lambda>_. structuredClone) 0 es = Inr (map id es)"
    by (rule mapE_Inr) (use chain_entries_ok [OF c] structuredClone_canonOk in auto)
  with m j show ?thesis by simp
qed

lemma proposeAll_entries:
  assumes "proposeAll sha events j = Inr j'"
  shows "\<exists>es. cj_entries j' = cj_entries j @ es \<and> map entryKind es = map fst events \<and> map (\<lambda>e. jprop e ''payload'') es = map snd events"
proof -
  have "foldE (\<lambda>_ (kind, payload) j. bindE (appendKind sha j kind payload) (\<lambda>(j', e). Inr j')) i events j = Inr j' \<Longrightarrow>
      \<exists>es. cj_entries j' = cj_entries j @ es \<and> map entryKind es = map fst events \<and> map (\<lambda>e. jprop e ''payload'') es = map snd events" for i
  proof (induction events arbitrary: i j)
    case (Cons ev events)
    obtain kind payload where ev: "ev = (kind, payload)" by (cases ev)
    from Cons.prems obtain j1 e where a: "appendKind sha j kind payload = Inr (j1, e)"
      and rest: "foldE (\<lambda>_ (kind, payload) j. bindE (appendKind sha j kind payload) (\<lambda>(j', e). Inr j')) (Suc i) events j1 = Inr j'"
      by (auto simp: ev bindE_Inr_iff)
    from Cons.IH [OF rest] obtain es where "cj_entries j' = cj_entries j1 @ es" "map entryKind es = map fst events"
      "map (\<lambda>e. jprop e ''payload'') es = map snd events" by blast
    then show ?case
      using appendKind_Inr(3) [OF a] propose_entry [OF appendKind_Inr(1) [OF a]]
      by (intro exI [of _ "e # es"]) (simp add: ev, simp add: entryKind_def)
  qed simp
  then show ?thesis using assms unfolding proposeAll_def by blast
qed

lemma execute_cases:
  assumes "execute sha env cid operation seen log = Inr (log', r)"
  obtains (returned) r' where "operation (replayStored sha env cid seen) = Inr (Return r')" "log' = log"
  | (appended) events name assertState result es where "operation (replayStored sha env cid seen) = Inr (Append events name assertState result)"
      "appendEvents sha env cid log events name assertState = Inr es" "log' = log @ es"
proof -
  from assms obtain p where p: "operation (replayStored sha env cid seen) = Inr p"
    and run: "(case p of Return r \<Rightarrow> Inr (log, r) | Append events name assertState result \<Rightarrow>
        bindE (appendEvents sha env cid log events name assertState) (\<lambda>es. Inr (log @ es, result es))) = Inr (log', r)"
    unfolding execute_def by (auto simp: bindE_Inr_iff)
  show thesis
  proof (cases p)
    case (Return x)
    with p run show ?thesis by (intro returned [of x]) simp_all
  next
    case (Append events name assertState result)
    with run obtain es where "appendEvents sha env cid log events name assertState = Inr es" "log' = log @ es" by (auto simp: bindE_Inr_iff)
    with p Append show ?thesis by (intro appended) simp_all
  qed
qed

lemma appendEvents_Inr:
  assumes "appendEvents sha env cid log events name assertState = Inr es"
  shows "map entryKind es = map fst events" "map (\<lambda>e. jprop e ''payload'') es = map snd events"
    and "\<exists>st. replayEntries sha env cid log = Inr st \<and> assertState st = Inr ()"
proof -
  from assms obtain st j j' where st: "replayStored sha env cid log = Inr st" "assertState st = Inr ()"
    and j: "newCycleJournal sha (JStr cid) (JArr log) = Inr j" "proposeAll sha events j = Inr j'" "es = drop (length log) (cj_entries j')"
    unfolding appendEvents_def by (auto simp: bindE_Inr_iff)
  from proposeAll_entries [OF j(2)] newCycleJournal_entries [OF j(1)] j(3)
  show "map entryKind es = map fst events" "map (\<lambda>e. jprop e ''payload'') es = map snd events" by auto
  show "\<exists>st. replayEntries sha env cid log = Inr st \<and> assertState st = Inr ()"
    using st by (auto simp: replayStored_def res_simps)
qed

text \<open>Only the preparation of an attempt appends a preparation, one, and only where the stage has no attempt.\<close>

definition guardedPreparation :: "'x plan \<Rightarrow> bool" where
  "guardedPreparation p = (case p of Return r \<Rightarrow> True
     | Append events name assertState result \<Rightarrow> ''stage-attempt-prepared'' \<notin> set (map fst events)
         \<or> (\<exists>stage a. events = [(''stage-attempt-prepared'', JObj [(''stage'', JStr stage), (''attempt'', a)])]
              \<and> (\<forall>current u. assertState current = Inr u \<longrightarrow> \<not> omap_has (rp_operational current) stage)))"

lemma guardedPreparation_simps [simp]:
  "guardedPreparation (Return r)"
  "''stage-attempt-prepared'' \<notin> set (map fst events) \<Longrightarrow> guardedPreparation (Append events name g result)"
  by (auto simp: guardedPreparation_def)

lemma operation_guarded: "repo_operation sha env cid operation \<Longrightarrow> operation r = Inr p \<Longrightarrow> guardedPreparation p"
proof (induction rule: repo_operation.induct)
  case (op_prepareStageAttempt stage attempt)
  then show ?case unfolding prepareStageAttempt_def Let_def
    by (auto simp: res_simps split: option.splits if_splits) (auto simp: guardedPreparation_def throwIf_Inr)
qed (auto simp: prepareStage_def completeStage_def completeCycle_def holdCycle_def markStageAttemptSentUnknown_def anchorOperationalStageDeadline_def
    markStageAttemptNotSent_def recordStageAttemptResponse_def reconcileStageAttempt_def prepareChainTransactionAttempt_def
    recordSignedTransaction_def recordBroadcast_def recordFinality_def persistSignOnlyPreSignBinding_def reserveSignOnlyInvocation_def
    recordSignOnlyInvocationTimeout_def recordStageAttempt_def recordStageAttemptFailure_def Let_def bindE_Inr_iff
    split: option.splits if_splits)

section \<open>A request is sent once\<close>

primrec providerRank :: "provider_state \<Rightarrow> nat" where
  "providerRank P_NOT_SENT = 0"
| "providerRank P_PREPARED = 0"
| "providerRank P_SENT_UNKNOWN = 1"
| "providerRank P_RESPONSE_RECORDED = 2"
| "providerRank P_RECONCILED = 3"

text \<open>The attempt of a stage is still the request it was, and not earlier in its life.\<close>

definition keepsRequest :: "string \<Rightarrow> operational \<Rightarrow> 'x replay_state \<Rightarrow> bool" where
  "keepsRequest stage q st = (case omap_get (rp_operational st) stage of None \<Rightarrow> False
     | Some q' \<Rightarrow> pa_requestDigest (op_attempt q') = pa_requestDigest (op_attempt q)
         \<and> providerRank (pa_state (op_attempt q)) \<le> providerRank (pa_state (op_attempt q')))"

lemma permittedProvider_rank: "t \<in> set (permittedProvider s) \<Longrightarrow> 0 < providerRank s \<Longrightarrow> providerRank s < providerRank t"
  by (cases s) auto

lemma keepsRequest_entry:
  assumes "keepsRequest stage q s" "0 < providerRank (pa_state (op_attempt q))" "replayEntry sha env cid e s = Inr s'"
    and "entryKind e = ''stage-attempt-prepared'' \<Longrightarrow> jprop (jprop e ''payload'') ''stage'' \<noteq> JStr stage"
  shows "keepsRequest stage q s'"
proof -
  from assms(3) have "applyEvent sha env cid e (entryKind e) s = Inr s'" by (rule replayEntry_event)
  then show ?thesis
  proof (cases rule: applyEvent_cases)
    case (FailedOperational a k p)
    with assms(1) show ?thesis by (auto simp: keepsRequest_def split: option.splits)
  next
    case (FreshProvider a)
    with assms(1,4) show ?thesis by (auto simp: keepsRequest_def setOperational_def freshOperational_def)
  next
    case (Provider p)
    show ?thesis
    proof (cases "pa_stage (op_attempt p) = stage")
      case True
      with Provider(3) assms(1,2) show ?thesis
        by (auto simp: keepsRequest_def Provider(2) setOperational_def providerStep_def split: option.splits dest!: permittedProvider_rank)
    next
      case False
      with assms(1) show ?thesis by (simp add: keepsRequest_def Provider(2) setOperational_def)
    qed
  qed (use assms(1) in \<open>simp_all add: keepsRequest_def setChain_def setLedger_def\<close>)
qed

lemma keepsRequest_entries:
  assumes "keepsRequest stage q st" "0 < providerRank (pa_state (op_attempt q))"
    and "foldE (\<lambda>_ e st. replayEntry sha env cid e st) 0 es st = Inr st'"
    and "\<And>e. e \<in> set es \<Longrightarrow> entryKind e = ''stage-attempt-prepared'' \<Longrightarrow> jprop (jprop e ''payload'') ''stage'' \<noteq> JStr stage"
  shows "keepsRequest stage q st'"
  using assms(3) by (rule foldE_invariant [where P = "keepsRequest stage q"]) (use assms in \<open>auto intro: keepsRequest_entry\<close>)

lemma append_keeps:
  assumes a: "appendEvents sha env cid log events name assertState = Inr es"
    and guard: "guardedPreparation (Append events name assertState result)"
    and st: "replayEntries sha env cid log = Inr st" "replayEntries sha env cid (log @ es) = Inr st'"
    and q: "keepsRequest stage q st" "0 < providerRank (pa_state (op_attempt q))"
  shows "keepsRequest stage q st'"
proof -
  note appended = appendEvents_Inr [OF a]
  from st have "foldE (\<lambda>_ e st. replayEntry sha env cid e st) 0 es st = Inr st'" by (auto elim: replayEntries_append)
  then show ?thesis
  proof (rule keepsRequest_entries [OF q])
    fix e assume e: "e \<in> set es" "entryKind e = ''stage-attempt-prepared''"
    then have "''stage-attempt-prepared'' \<in> set (map fst events)" using appended(1) by (metis image_eqI set_map)
    with guard obtain s x where ev: "events = [(''stage-attempt-prepared'', JObj [(''stage'', JStr s), (''attempt'', x)])]"
      and free: "\<forall>current u. assertState current = Inr u \<longrightarrow> \<not> omap_has (rp_operational current) s"
      by (auto simp: guardedPreparation_def)
    have "jprop e ''payload'' = JObj [(''stage'', JStr s), (''attempt'', x)]" using appended(2) e(1) by (auto simp: ev)
    moreover have "\<not> omap_has (rp_operational st) s" using appended(3) free st(1) by auto
    ultimately show "jprop (jprop e ''payload'') ''stage'' \<noteq> JStr stage"
      using q(1) by (auto simp: keepsRequest_def jprop_JObj omap_has_iff split: option.splits)
  qed
qed

lemma repo_step_extends: "repo_step sha env cid log log' \<Longrightarrow> \<exists>es. log' = log @ es"
proof (induction rule: repo_step.induct)
  case (operate operation log seen since log' r)
  from operate(3) show ?case by (cases rule: execute_cases) auto
qed simp

lemma repo_step_keeps:
  assumes "repo_step sha env cid log log'" "replayEntries sha env cid log = Inr st" "replayEntries sha env cid log' = Inr st'"
    and q: "keepsRequest stage q st" "0 < providerRank (pa_state (op_attempt q))"
  shows "keepsRequest stage q st'"
  using assms(1)
proof cases
  case (operate operation seen since r)
  from operate(3) show ?thesis
  proof (cases rule: execute_cases)
    case (returned r')
    with assms(2,3) q show ?thesis by simp
  next
    case (appended events name assertState result es)
    then show ?thesis using append_keeps operation_guarded [OF operate(1) appended(1)] assms(2,3) q by blast
  qed
next
  case (append_other events name assertState es)
  then have "guardedPreparation (Append events name assertState (\<lambda>_. JUndefined))" by simp
  with append_other assms(2,3) q show ?thesis using append_keeps by blast
qed

text \<open>
  C3. An operation of a provider that may have been sent is never sent again: once the attempt of a stage is past
  \<open>PREPARED\<close> and \<open>NOT_SENT\<close>, then in every later state of the cycle, whatever operations run and however they
  interleave, the stage has an attempt for the same request that is no earlier in its life.  It is never
  reset to a state from which it could be sent, and no other request takes its place.
\<close>

theorem provider_request_sent_once:
  assumes "repo_run sha env cid log log'" and "replayEntries sha env cid log = Inr st" and "replayEntries sha env cid log' = Inr st'"
    and "omap_get (rp_operational st) stage = Some q" and "pa_state (op_attempt q) \<notin> {P_PREPARED, P_NOT_SENT}"
  shows "\<exists>q'. omap_get (rp_operational st') stage = Some q' \<and> pa_requestDigest (op_attempt q') = pa_requestDigest (op_attempt q)
    \<and> providerRank (pa_state (op_attempt q)) \<le> providerRank (pa_state (op_attempt q')) \<and> pa_state (op_attempt q') \<notin> {P_PREPARED, P_NOT_SENT}"
proof -
  have sent: "0 < providerRank (pa_state (op_attempt q))" using assms(5) by (cases "pa_state (op_attempt q)") auto
  have start: "keepsRequest stage q st" using assms(4) by (simp add: keepsRequest_def)
  have "(repo_step sha env cid)\<^sup>*\<^sup>* log log'" using assms(1) by (simp add: repo_run_def)
  then have "\<forall>st'. replayEntries sha env cid log' = Inr st' \<longrightarrow> keepsRequest stage q st'"
  proof (induction rule: rtranclp_induct)
    case base
    with assms(2) start show ?case by simp
  next
    case (step mid final)
    show ?case
    proof (intro allI impI)
      fix st' assume final: "replayEntries sha env cid final = Inr st'"
      obtain es where "final = mid @ es" using repo_step_extends [OF step.hyps(2)] by blast
      with final obtain s where s: "replayEntries sha env cid mid = Inr s" by (auto elim: replayEntries_append)
      with step.IH have "keepsRequest stage q s" by blast
      with step.hyps(2) s final sent show "keepsRequest stage q st'" by (blast intro: repo_step_keeps)
    qed
  qed
  with assms(3) have "keepsRequest stage q st'" by blast
  then obtain q' where q': "omap_get (rp_operational st') stage = Some q'" "pa_requestDigest (op_attempt q') = pa_requestDigest (op_attempt q)"
    "providerRank (pa_state (op_attempt q)) \<le> providerRank (pa_state (op_attempt q'))"
    by (auto simp: keepsRequest_def split: option.splits)
  moreover from q'(3) sent have "pa_state (op_attempt q') \<notin> {P_PREPARED, P_NOT_SENT}" by auto
  ultimately show ?thesis by blast
qed

lemma provider_request_sent_once_witness:
  "\<exists>q'. omap_get (rp_operational (ex_replay ex_reconciled_log)) ''open'' = Some q' \<and> pa_state (op_attempt q') \<notin> {P_PREPARED, P_NOT_SENT}"
proof -
  from ex_reconcile_runs obtain r where "execute ex_sha ex_parts ex_cycle ex_reconcile ex_sent_log ex_sent_log = Inr (ex_reconciled_log, r)"
    by (auto simp: ex_reconciled_log_def isOk_iff)
  then have "repo_step ex_sha ex_parts ex_cycle ex_sent_log ex_reconciled_log"
    by (intro operate [where operation = ex_reconcile and seen = ex_sent_log and since = "[]"])
      (simp_all add: ex_reconcile_def op_reconcile)
  then have run: "repo_run ex_sha ex_parts ex_cycle ex_sent_log ex_reconciled_log" by (simp add: repo_run_def)
  from ex_sent_state obtain q where q: "omap_get (rp_operational (ex_replay ex_sent_log)) ''open'' = Some q" "pa_state (op_attempt q) = P_SENT_UNKNOWN"
    by auto
  from provider_request_sent_once [OF run ex_accepts_replay [OF ex_sent_accepted] ex_accepts_replay [OF ex_reconciled_accepted] q(1)] q(2)
  show ?thesis by auto
qed

section \<open>Legacy records on a completed cycle\<close>

lemma completed_is_terminal:
  assumes "replayEntries sha env cid log = Inr st" "rp_completed st"
  shows "rp_terminalState st \<noteq> None"
proof -
  have "rp_completed st \<longrightarrow> cycleClosed st"
    by (rule replay_invariant [OF assms(1), where P = "\<lambda>s. rp_completed s \<longrightarrow> cycleClosed s"])
      (simp add: initialReplay_def, rule closed_step(1))
  with assms(2) show ?thesis by (simp add: cycleClosed_def)
qed

text \<open>
  C39. The legacy attempt records do not look at the state of the cycle.  On a cycle that is completed and not yet archived they
  are appended all the same, and from then on the journal, and every extension of it, fails to replay: every later
  operation on the cycle throws.
\<close>

theorem legacy_record_breaks_completed_journal:
  assumes "replayEntries sha env cid log = Inr st" and "rp_completed st"
    and "operation = recordStageAttempt stage evidence \<or> operation = recordStageAttemptFailure stage evidence"
    and "execute sha env cid operation seen log = Inr (log', r)"
  shows "replayStored sha env cid (log' @ rest) = Inl (JsError ''stored cycle has a non-observational event after terminal state'')"
  using assms(4)
proof (cases rule: execute_cases)
  case (returned r')
  with assms(3) show ?thesis by (auto simp: recordStageAttempt_def recordStageAttemptFailure_def bindE_Inr_iff)
next
  case (appended events name assertState result es)
  then have "map fst events = [''stage-attempted''] \<or> map fst events = [''stage-attempt-failed'']"
    using assms(3) by (auto simp: recordStageAttempt_def recordStageAttemptFailure_def bindE_Inr_iff)
  with appendEvents_Inr(1) [OF appended(2)] obtain e where es: "es = [e]" and kind: "entryKind e \<in> {''stage-attempted'', ''stage-attempt-failed''}"
    by (cases es) auto
  have "replayEntry sha env cid e st = Inl (JsError ''stored cycle has a non-observational event after terminal state'')"
    using kind assms(2) completed_is_terminal [OF assms(1,2)]
    by (auto simp: replayEntry_def assertNotTerminal_def POST_COMPLETION_RECORD_KINDS_def)
  then have "replayEntries sha env cid (log' @ rest) = Inl (JsError ''stored cycle has a non-observational event after terminal state'')"
    using assms(1) by (simp add: replayEntries_def appended(3) es foldE_append)
  then show ?thesis by (simp add: replayStored_def)
qed

lemma appendEvents_succeeds:
  assumes "events \<noteq> []" "replayStored sha env cid log = Inr st" "assertState st = Inr ()" "journal_id_pattern cid" "length log \<le> journalEvents"
    "assertChain sha cid 0 JNull log = Inr ()" "proposeAll sha events \<lparr>cj_cycleId = cid, cj_entries = log\<rparr> = Inr j"
  shows "appendEvents sha env cid log events None assertState = Inr (drop (length log) (cj_entries j))"
proof -
  have "mapE (\<lambda>_. structuredClone) 0 log = Inr (map id log)"
    by (rule mapE_Inr) (use chain_entries_ok [OF assms(6)] structuredClone_canonOk in auto)
  then have "newCycleJournal sha (JStr cid) (JArr log) = Inr \<lparr>cj_cycleId = cid, cj_entries = log\<rparr>"
    using assms(4-6) by (simp add: newCycleJournal_def throwIf_def isArray_def)
  then show ?thesis using assms by (simp add: appendEvents_def throwIf_def)
qed

lemma legacy_record_breaks_completed_journal_witness:
  "\<exists>log' r. execute ex_sha ex_parts ex_cycle (recordStageAttempt (JStr ''payout'') (JObj [])) ex_completed_log ex_completed_log = Inr (log', r)
    \<and> replayStored ex_sha ex_parts ex_cycle log' = Inl (JsError ''stored cycle has a non-observational event after terminal state'')"
proof -
  let ?op = "recordStageAttempt (JStr ''payout'') (JObj []) :: unit replay_state res \<Rightarrow> unit plan res"
  note replay = ex_accepts_replay [OF ex_completed_accepted]
  have stored: "replayStored ex_sha ex_parts ex_cycle ex_completed_log = Inr (ex_replay ex_completed_log)"
    using replay by (simp add: replayStored_def ex_parts_def split: option.split)
  have verifies: "assertChain ex_sha ex_cycle 0 JNull ex_completed_log = Inr ()" using ex_completed_verifies by (auto simp: isOk_iff)
  obtain j where j: "proposeAll ex_sha [ex_legacy_event] \<lparr>cj_cycleId = ex_cycle, cj_entries = ex_completed_log\<rparr> = Inr j"
    using ex_legacy_proposed by (auto simp: isOk_iff ex_completed_journal_def)
  have "length ex_completed_log \<le> journalEvents" "journal_id_pattern ex_cycle"
    by (simp_all add: ex_completed_log_def ex_journal_def journalEvents_def OPERATIONAL_CYCLE_STAGES_def ex_cycle_def journal_id_pattern_def
        is_lower_alpha_def is_digit_def)
  then have "appendEvents ex_sha ex_parts ex_cycle ex_completed_log [ex_legacy_event] None (\<lambda>_. Inr ())
      = Inr (drop (length ex_completed_log) (cj_entries j))"
    using stored verifies j by (intro appendEvents_succeeds) simp_all
  then have run: "execute ex_sha ex_parts ex_cycle ?op ex_completed_log ex_completed_log
      = Inr (ex_completed_log @ drop (length ex_completed_log) (cj_entries j), JUndefined)"
    by (simp add: execute_def recordStageAttempt_def assertStageName_def OPERATIONAL_CYCLE_STAGES_def ex_legacy_event_def)
  from legacy_record_breaks_completed_journal [OF replay ex_completed_state _ run, of _ _ "[]"] run show ?thesis by auto
qed

end
