(* ===== verification/Custody_Documents.thy ===== *)
theory Custody_Documents
  imports Money_Attempts
begin

text \<open>
  The custody ledger of \<^verbatim>\<open>packages/runner/src/cycle/money-schemas.mjs\<close>: for one chain and asset, how much of the cycle's money
  lies in which bucket, what balance was last observed on the chain, what a return leg is expected to deliver and what gas was paid.
  Ledgers stay \<open>jsval\<close> objects, since the code compares and spreads them as such; the validators give back the copy
  (\<open>structuredClone\<close>) the code gives back.
\<close>

section \<open>Amounts and finality\<close>

definition CUSTODY_LEDGER_BUCKETS :: "string list" where
  "CUSTODY_LEDGER_BUCKETS = [''claimed'', ''bridgeOut'', ''bridgeIn'', ''packCost'', ''buybackProceeds'', ''returnInput'', ''returnReceived'',
     ''refunds'', ''residual'', ''heldAssets'', ''heldPositions'', ''payoutLiability'', ''dust'', ''unattributed'']"

definition assertDecimals :: "jsval \<Rightarrow> string \<Rightarrow> unit res" where
  "assertDecimals v label = throwIf (\<not> isInteger v \<or> num_of v < 0 \<or> 255 < num_of v) (label @ '' is invalid'')"

definition assertTypedAmount :: "jsval \<Rightarrow> string \<Rightarrow> jsval res" where
  "assertTypedAmount v label =
     bindE (assertMoneyObject v [''chainId'', ''assetId'', ''decimals'', ''amountAtomic''] label) (\<lambda>_.
     bindE (assertMoneyString (jprop v ''chainId'') (label @ '' chainId'')) (\<lambda>_.
     bindE (assertMoneyString (jprop v ''assetId'') (label @ '' assetId'')) (\<lambda>_.
     bindE (assertDecimals (jprop v ''decimals'') (label @ '' decimals'')) (\<lambda>_.
     bindE (assertMoneyAtomic (jprop v ''amountAtomic'') (label @ '' amountAtomic'')) (\<lambda>_.
     structuredClone v)))))"

definition assertRelayFinality :: "jsval \<Rightarrow> string \<Rightarrow> jsval res" where
  "assertRelayFinality v label =
     bindE (assertMoneyObject v [''height'', ''hash'', ''timestampUnixSeconds''] label) (\<lambda>_.
     bindE (assertMoneyAtomic (jprop v ''height'') (label @ '' height'')) (\<lambda>_.
     bindE (assertMoneyString (jprop v ''hash'') (label @ '' hash'')) (\<lambda>_.
     bindE (unlessNull assertMoneyAtomic (jprop v ''timestampUnixSeconds'') (label @ '' timestampUnixSeconds'')) (\<lambda>_.
     structuredClone v))))"

definition CUSTODY_BALANCE_OBSERVATION_FIELDS :: "string list" where
  "CUSTODY_BALANCE_OBSERVATION_FIELDS = [''schema'', ''account'', ''balance'', ''finality'']"

definition assertCustodyBalanceObservation :: "jsval \<Rightarrow> string \<Rightarrow> jsval res" where
  "assertCustodyBalanceObservation v label =
     bindE (assertMoneyObject v CUSTODY_BALANCE_OBSERVATION_FIELDS label) (\<lambda>_.
     bindE (throwIf (jprop v ''schema'' \<noteq> JStr ''hookemon.custody-balance-observation.v1'') (label @ '' schema is invalid'')) (\<lambda>_.
     bindE (assertMoneyString (jprop v ''account'') (label @ '' account'')) (\<lambda>account.
     bindE (assertTypedAmount (jprop v ''balance'') (label @ '' balance'')) (\<lambda>balance.
     bindE (assertRelayFinality (jprop v ''finality'') (label @ '' finality'')) (\<lambda>finality.
     Inr (JObj [(''schema'', jprop v ''schema''), (''account'', JStr account), (''balance'', balance), (''finality'', finality)]))))))"

section \<open>Ledgers\<close>

definition CUSTODY_LEDGER_V2_FIELDS :: "string list" where
  "CUSTODY_LEDGER_V2_FIELDS = [''verifiedCurrentBalance'', ''expectedCycleAsset'']"

definition LEGACY_OPTIONAL_CUSTODY_BUCKETS :: "string list" where
  "LEGACY_OPTIONAL_CUSTODY_BUCKETS = [''heldPositions'']"

definition completeLegacyCustodyBuckets :: "jsval \<Rightarrow> jsval" where
  "completeLegacyCustodyBuckets v =
     (let missing = filter (\<lambda>bucket. \<not> hasOwn v bucket) LEGACY_OPTIONAL_CUSTODY_BUCKETS in
      if falsy v \<or> \<not> typeofObject v \<or> isArray v \<or> missing = [] then v
      else withProps (spread v) (map (\<lambda>bucket. (bucket, JStr ''0'')) missing))"

text \<open>Whether two values name the same asset; both are objects whose three fields were validated.\<close>

definition sameIdentity :: "jsval \<Rightarrow> jsval \<Rightarrow> bool" where
  "sameIdentity v w = list_all (\<lambda>f. jprop v f = jprop w f) [''chainId'', ''assetId'', ''decimals'']"

definition assertCustodyRowIdentity :: "jsval \<Rightarrow> jsval \<Rightarrow> string \<Rightarrow> unit res" where
  "assertCustodyRowIdentity v row label =
     throwIf (\<not> sameIdentity v row) (label @ '' identity must equal the custody ledger row's own chainId, assetId, and decimals'')"

definition ledgerV1 :: jsval where "ledgerV1 = JStr ''hookemon.custody-ledger.v1''"
definition ledgerV2 :: jsval where "ledgerV2 = JStr ''hookemon.custody-ledger.v2''"
definition ledgerV3 :: jsval where "ledgerV3 = JStr ''hookemon.custody-ledger.v3''"

text \<open>The schemas that carry an observed balance and an expectation.\<close>

definition observesBalance :: "jsval \<Rightarrow> bool" where
  "observesBalance v = (jprop v ''schema'' \<in> {ledgerV2, ledgerV3})"

definition ledgerFields :: "jsval \<Rightarrow> string list" where
  "ledgerFields v = [''schema'', ''cycleId'', ''chainId'', ''assetId'', ''decimals''] @ CUSTODY_LEDGER_BUCKETS
     @ (if observesBalance v then CUSTODY_LEDGER_V2_FIELDS else [])
     @ (if jprop v ''schema'' = ledgerV3 then [''gasReserve'', ''gasSpent'', ''gasPayments''] else [])"

text \<open>
  One pass over the gas payments: the hashes seen and the total.  The pattern test converts a hash to a string, so an array
  holding one string passes it; two such arrays are never the same key of the set.
\<close>

definition gasPayment :: "string \<Rightarrow> nat \<Rightarrow> jsval \<Rightarrow> jsval list \<times> nat \<Rightarrow> (jsval list \<times> nat) res" where
  "gasPayment label i payment acc =
     (let (seen, gasTotal) = acc; hash = jprop payment ''transactionHash'' in
      bindE (assertMoneyObject payment [''transactionHash'', ''amountWei''] (label @ '' gas payment'')) (\<lambda>_.
      bindE (throwIf (\<not> hex_pattern 64 (jsString hash) \<or> (isString hash \<and> hash \<in> set seen))
        (label @ '' gas transaction identity is invalid or duplicated'')) (\<lambda>_.
      bindE (assertMoneyAtomic (jprop payment ''amountWei'') (label @ '' gas payment amountWei'')) (\<lambda>wei.
      Inr (seen @ [hash], gasTotal + nat_of_dec wei)))))"

definition assertGasAmount :: "jsval \<Rightarrow> string \<Rightarrow> string \<Rightarrow> unit res" where
  "assertGasAmount v name label =
     bindE (assertTypedAmount (jprop v name) (label @ '' '' @ name)) (\<lambda>gas. assertCustodyRowIdentity gas v (label @ '' '' @ name))"

definition assertNativeGas :: "jsval \<Rightarrow> string \<Rightarrow> unit res" where
  "assertNativeGas v label =
     bindE (throwIf (jprop v ''chainId'' \<noteq> JStr ''4663'' \<or> jprop v ''assetId'' \<noteq> JStr ''native'' \<or> jprop v ''decimals'' \<noteq> JNum 18)
       (label @ '' v3 requires native ETH identity'')) (\<lambda>_.
     bindE (assertGasAmount v ''gasReserve'' label) (\<lambda>_.
     bindE (assertGasAmount v ''gasSpent'' label) (\<lambda>_.
     bindE (throwIf (\<not> isArray (jprop v ''gasPayments'')) (label @ '' gasPayments must be an array'')) (\<lambda>_.
     bindE (foldE (gasPayment label) 0 (arr_of (jprop v ''gasPayments'')) ([], 0)) (\<lambda>(seen, gasTotal).
     throwIf (JStr (dec_of_nat gasTotal) \<noteq> jprop (jprop v ''gasSpent'') ''amountAtomic'')
       (label @ '' gasSpent must equal its unique transaction costs''))))))"

definition assertObservedBalance :: "jsval \<Rightarrow> string \<Rightarrow> unit res" where
  "assertObservedBalance v label =
     (if jprop v ''verifiedCurrentBalance'' = JNull then Inr ()
      else bindE (assertCustodyBalanceObservation (jprop v ''verifiedCurrentBalance'') (label @ '' verifiedCurrentBalance'')) (\<lambda>observation.
           assertCustodyRowIdentity (jprop observation ''balance'') v (label @ '' verifiedCurrentBalance balance'')))"

definition assertExpectedAsset :: "jsval \<Rightarrow> string \<Rightarrow> unit res" where
  "assertExpectedAsset v label =
     (if jprop v ''expectedCycleAsset'' = JNull then Inr ()
      else bindE (assertTypedAmount (jprop v ''expectedCycleAsset'') (label @ '' expectedCycleAsset'')) (\<lambda>expected.
           assertCustodyRowIdentity expected v (label @ '' expectedCycleAsset'')))"

definition assertLedgerBody :: "jsval \<Rightarrow> string \<Rightarrow> unit res" where
  "assertLedgerBody v label =
     bindE (assertMoneyObject v (ledgerFields v) label) (\<lambda>_.
     bindE (assertMoneyString (jprop v ''cycleId'') (label @ '' cycleId'')) (\<lambda>_.
     bindE (assertMoneyString (jprop v ''chainId'') (label @ '' chainId'')) (\<lambda>_.
     bindE (assertMoneyString (jprop v ''assetId'') (label @ '' assetId'')) (\<lambda>_.
     bindE (assertDecimals (jprop v ''decimals'') (label @ '' decimals'')) (\<lambda>_.
     foldE (\<lambda>_ bucket _. bindE (assertMoneyAtomic (jprop v bucket) (label @ '' '' @ bucket)) (\<lambda>_. Inr ())) 0 CUSTODY_LEDGER_BUCKETS ())))))"

definition assertCustodyLedger :: "jsval \<Rightarrow> string \<Rightarrow> bool \<Rightarrow> jsval res" where
  "assertCustodyLedger value label allowLegacyBuckets =
     (let v = (if allowLegacyBuckets then completeLegacyCustodyBuckets value else value) in
      bindE (throwIf (falsy v \<or> \<not> typeofObject v \<or> isArray v) (label @ '' must be a plain object'')) (\<lambda>_.
      bindE (throwIf (jprop v ''schema'' \<notin> {ledgerV1, ledgerV2, ledgerV3}) (label @ '' schema is invalid'')) (\<lambda>_.
      bindE (assertLedgerBody v label) (\<lambda>_.
      bindE (if jprop v ''schema'' = ledgerV3 then assertNativeGas v label else Inr ()) (\<lambda>_.
      bindE (if observesBalance v then bindE (assertObservedBalance v label) (\<lambda>_. assertExpectedAsset v label) else Inr ()) (\<lambda>_.
      structuredClone v))))))"

section \<open>JSON data\<close>

text \<open>
  Values as they come from a stored journal: no function, no foreign prototype, no repeated key.  Copying them changes nothing.
\<close>

fun plainJson :: "jsval \<Rightarrow> bool" where
  "plainJson (JArr xs) = list_all plainJson xs"
| "plainJson (JObj ps) = (distinct (map fst ps) \<and> list_all (\<lambda>p. plainJson (snd p)) ps)"
| "plainJson (JFrac t) = frac_text t"
| "plainJson (JInst ps) = False"
| "plainJson JFun = False"
| "plainJson v = True"

lemma plain_pure: "plainJson v \<Longrightarrow> pureJson v"
  by (induction v rule: plainJson.induct) (auto simp: list_all_iff)

lemma clone_plain: "plainJson v \<Longrightarrow> structuredClone v = Inr v"
proof (induction v rule: plainJson.induct)
  case (1 xs)
  then have "\<forall>x \<in> set xs. structuredClone x = Inr x" by (auto simp: list_all_iff)
  then have "mapE (\<lambda>_. structuredClone) i xs = Inr xs" for i by (induction xs arbitrary: i) auto
  then show ?case by simp
next
  case (2 ps)
  then have "\<forall>p \<in> set ps. structuredClone (snd p) = Inr (snd p)" by (auto simp: list_all_iff)
  then have "mapE (\<lambda>_ p. bindE (structuredClone (snd p)) (\<lambda>v. Inr (fst p, v))) i ps = Inr ps" for i by (induction ps arbitrary: i) auto
  then show ?case by simp
qed simp_all

lemma plain_jprop: "plainJson v \<Longrightarrow> plainJson (jprop v f)"
  by (force simp: jprop_def list_all_iff dest: map_of_SomeD split: jsval.split option.split)

lemma omap_set_members: "p \<in> set (omap_set k v m) \<Longrightarrow> p = (k, v) \<or> p \<in> set m"
  by (induction k v m rule: omap_set.induct) (auto split: if_splits)

lemma plain_withProps:
  assumes "plainJson (JObj ps)" and "\<forall>q \<in> set qs. plainJson (snd q)"
  shows "plainJson (withProps ps qs)"
proof -
  have "plainJson (JObj (omap_set k v m))" if "plainJson (JObj m)" "plainJson v" for k v and m :: "(string \<times> jsval) list"
    using that omap_wf_set [of m k v] by (simp add: omap_wf_def) (fastforce simp: list_all_iff dest: omap_set_members)
  then have "plainJson (JObj (foldl (\<lambda>acc (k, v). omap_set k v acc) ps qs))"
    using assms by (induction qs arbitrary: ps) (auto simp del: plainJson.simps)
  then show ?thesis by (simp add: withProps_def)
qed

lemma plain_spread: "isPlainObject v \<Longrightarrow> plainJson v \<Longrightarrow> plainJson (JObj (spread v))"
  by (auto simp: spread_def isPlainObject_iff)

lemma spread_plain: "isPlainObject v \<Longrightarrow> JObj (spread v) = v"
  by (auto simp: spread_def isPlainObject_iff)

section \<open>Equal JSON\<close>

definition sameJson :: "jsval \<Rightarrow> jsval \<Rightarrow> bool" where
  "sameJson v w = (normal v = normal w)"

lemma sameJson_refl [simp]: "sameJson v v"
  by (simp add: sameJson_def)

lemma sameJson_trans: "sameJson u v \<Longrightarrow> sameJson v w \<Longrightarrow> sameJson u w"
  by (simp add: sameJson_def)

lemma sameJson_kinds [simp]:
  "sameJson (JStr s) v \<longleftrightarrow> v = JStr s" "sameJson v (JStr s) \<longleftrightarrow> v = JStr s" "sameJson JNull v \<longleftrightarrow> v = JNull" "sameJson v JNull \<longleftrightarrow> v = JNull"
  by (auto simp: sameJson_def normal_JStr normal_JNull eq_commute [of _ "normal v"])

lemma sameJson_text: "textsDiffer v w = Inr False \<Longrightarrow> plainJson v \<Longrightarrow> plainJson w \<Longrightarrow> sameJson v w"
  by (simp add: sameJson_def textsDiffer_False plain_pure)

lemma sameJson_prop: "sameJson v w \<Longrightarrow> plainJson v \<Longrightarrow> plainJson w \<Longrightarrow> isPlainObject v \<Longrightarrow> isPlainObject w \<Longrightarrow> sameJson (jprop v f) (jprop w f)"
  by (auto simp: sameJson_def isPlainObject_iff intro: normal_jprop)

lemma sameJson_string: "sameJson v w \<Longrightarrow> isString v \<Longrightarrow> w = v"
  by (cases v) (auto simp: isString_def)

end
