(* ===== verification/Relay_Legs.thy ===== *)
theory Relay_Legs
  imports Custody_Documents
begin

text \<open>
  The Relay legs of \<^verbatim>\<open>packages/runner/src/cycle/money-schemas.mjs\<close>: one bridge transfer, recorded before its source transaction
  is signed, attributed to that transaction once, and settled or held on the evidence of both chains.  A return leg also carries
  the quoted intent it must match.  Legs stay \<open>jsval\<close> objects; the validators give back the copy the code gives back.
\<close>

section \<open>The intent of a return leg\<close>

definition RELAY_LEG_DIRECTIONS :: "string list" where
  "RELAY_LEG_DIRECTIONS = [''outbound'', ''return'']"

definition RELAY_LEG_STATES :: "string list" where
  "RELAY_LEG_STATES = [''RECORDED'', ''SETTLED''] @ RELAY_LEG_TERMINAL_STATES"

definition RELAY_LEG_FIELDS :: "string list" where
  "RELAY_LEG_FIELDS = [''schema'', ''cycleId'', ''direction'', ''relayRequestId'', ''quoteDigest'', ''sourceChainId'', ''sourceTxHash'',
     ''sourceAssetId'', ''sourceDecimals'', ''sourceAmountAtomic'', ''destinationChainId'', ''destinationTxHash'', ''destinationAssetId'',
     ''destinationDecimals'', ''destinationAmountAtomic'', ''finalizedAtSource'', ''finalizedAtDestination'', ''netDeltaAtomic'', ''state'']"

definition RETURN_LEG_ATTRIBUTION_FIELDS :: "string list" where
  "RETURN_LEG_ATTRIBUTION_FIELDS = [''schema'', ''intent'', ''requestCreatedAtUnixSeconds'', ''maxSettlementWindowSeconds'']"

definition RETURN_RELAY_INTENT_FIELDS :: "string list" where
  "RETURN_RELAY_INTENT_FIELDS = [''schema'', ''requestId'', ''orderId'', ''direction'', ''originChainId'', ''destinationChainId'',
     ''originAssetId'', ''originDecimals'', ''destinationAssetId'', ''destinationDecimals'', ''originAmount'', ''quotedDestinationAmount'',
     ''quotedDestinationMinimumAmount'', ''sender'', ''recipient'', ''deadlineUnixSeconds'']"

definition RETURN_RELAY_INTENT_FIELDS_WITH_TRADE_EVIDENCE :: "string list" where
  "RETURN_RELAY_INTENT_FIELDS_WITH_TRADE_EVIDENCE = [''schema'', ''requestId'', ''orderId'', ''direction'', ''tradeType'', ''quoteDigest'',
     ''originChainId'', ''destinationChainId'', ''originAssetId'', ''originDecimals'', ''destinationAssetId'', ''destinationDecimals'',
     ''originAmount'', ''quotedDestinationAmount'', ''quotedDestinationMinimumAmount'', ''sender'', ''recipient'', ''deadlineUnixSeconds'']"

definition RETURN_RELAY_INTENT_TRADE_TYPES :: "string list" where
  "RETURN_RELAY_INTENT_TRADE_TYPES = [''EXACT_INPUT'', ''EXACT_OUTPUT'', ''EXPECTED_OUTPUT'']"

text \<open>A named field that must pass a check, for the fields of a list.\<close>

definition checkFields :: "(jsval \<Rightarrow> string \<Rightarrow> 'a res) \<Rightarrow> jsval \<Rightarrow> string list \<Rightarrow> string \<Rightarrow> unit res" where
  "checkFields check v fs label = foldE (\<lambda>_ f _. bindE (check (jprop v f) (label @ '' '' @ f)) (\<lambda>_. Inr ())) 0 fs ()"

definition positiveSafe :: "jsval \<Rightarrow> bool" where
  "positiveSafe v = (isSafeInteger v \<and> 0 < num_of v)"

definition assertReturnRelayIntent :: "jsval \<Rightarrow> jsval \<Rightarrow> string \<Rightarrow> jsval res" where
  "assertReturnRelayIntent v relayRequestId label =
     (let hasTradeType = isPlainObject v \<and> hasOwn v ''tradeType''; hasQuoteDigest = isPlainObject v \<and> hasOwn v ''quoteDigest'' in
      bindE (throwIf (hasTradeType \<noteq> hasQuoteDigest) (label @ '' must carry tradeType and quoteDigest together or neither'')) (\<lambda>_.
      bindE (assertMoneyObject v (if hasTradeType then RETURN_RELAY_INTENT_FIELDS_WITH_TRADE_EVIDENCE else RETURN_RELAY_INTENT_FIELDS) label) (\<lambda>_.
      bindE (throwIf (jprop v ''schema'' \<notin> {JStr ''hookemon.relay-intent.v1'', JStr ''hookemon.relay-intent.v2''}) (label @ '' schema is invalid'')) (\<lambda>_.
      bindE (throwIf (jprop v ''requestId'' \<noteq> relayRequestId) (label @ '' requestId does not match its Relay leg'')) (\<lambda>_.
      bindE (throwIf (jprop v ''direction'' \<noteq> JStr ''RETURN'') (label @ '' direction is invalid'')) (\<lambda>_.
      bindE (if hasTradeType
             then bindE (throwIf (\<not> str_matches (\<lambda>s. s \<in> set RETURN_RELAY_INTENT_TRADE_TYPES) (jprop v ''tradeType'')) (label @ '' tradeType is invalid'')) (\<lambda>_.
                  checkFields assertMoneyDigest v [''quoteDigest''] label)
             else Inr ()) (\<lambda>_.
      bindE (throwIf (\<not> positiveSafe (jprop v ''originChainId'') \<or> \<not> positiveSafe (jprop v ''destinationChainId'')) (label @ '' chain identity is invalid'')) (\<lambda>_.
      bindE (checkFields assertMoneyString v [''orderId'', ''originAssetId'', ''destinationAssetId'', ''sender'', ''recipient''] label) (\<lambda>_.
      bindE (checkFields assertDecimals v [''originDecimals'', ''destinationDecimals''] label) (\<lambda>_.
      bindE (checkFields assertMoneyAtomic v [''originAmount'', ''quotedDestinationAmount''] label) (\<lambda>_.
      bindE (checkFields (unlessNull assertMoneyAtomic) v [''quotedDestinationMinimumAmount''] label) (\<lambda>_.
      bindE (throwIf (\<not> positiveSafe (jprop v ''deadlineUnixSeconds'')) (label @ '' deadlineUnixSeconds is invalid'')) (\<lambda>_.
      structuredClone v)))))))))))))"

section \<open>The attribution of a return leg\<close>

definition DESTINATION_USD_FIELDS :: "string list" where
  "DESTINATION_USD_FIELDS = [''schema'', ''quoteDigest'', ''requestDigest'', ''quoteRequestId'', ''sourcePath'', ''amount'', ''amountMicroUsd'',
     ''rounding'', ''observedAtMs'', ''validUntilMs'']"

definition nativeAttribution :: "jsval \<Rightarrow> bool" where
  "nativeAttribution v = (jprop v ''schema'' = JStr ''hookemon.return-leg-attribution-context.v2'')"

definition assertDestinationUsd :: "jsval \<Rightarrow> jsval \<Rightarrow> string \<Rightarrow> unit res" where
  "assertDestinationUsd v leg label =
     (let usd = jprop v ''destinationUsd'' in
      bindE (throwIf (jprop leg ''schema'' \<noteq> JStr ''hookemon.relay-leg.v2'') (label @ '' native valuation requires native leg'')) (\<lambda>_.
      bindE (assertMoneyObject usd DESTINATION_USD_FIELDS (label @ '' destination USD'')) (\<lambda>_.
      bindE (throwIf (jprop usd ''schema'' \<noteq> JStr ''hookemon.quote-usd-valuation.v1'' \<or> jprop usd ''rounding'' \<noteq> JStr ''down''
          \<or> jprop usd ''sourcePath'' \<noteq> JStr ''details.currencyOut.amountUsd'' \<or> jprop usd ''quoteRequestId'' \<noteq> jprop leg ''relayRequestId'')
        (label @ '' destination USD binding is invalid'')) (\<lambda>_.
      bindE (assertTypedAmount (jprop usd ''amount'') ''amount'') (\<lambda>amount.
      bindE (throwIf (jprop amount ''chainId'' \<noteq> jprop leg ''destinationChainId'' \<or> jprop amount ''assetId'' \<noteq> jprop leg ''destinationAssetId''
          \<or> jprop amount ''decimals'' \<noteq> jprop leg ''destinationDecimals'' \<or> jprop amount ''amountAtomic'' \<noteq> jprop leg ''destinationAmountAtomic'')
        (label @ '' destination USD amount is invalid'')) (\<lambda>_.
      bindE (assertMoneyAtomic (jprop usd ''amountMicroUsd'') (label @ '' destination USD amountMicroUsd'')) (\<lambda>_.
      bindE (checkFields assertMoneyDigest usd [''quoteDigest'', ''requestDigest''] label) (\<lambda>_.
      bindE (throwIf (\<not> isSafeInteger (jprop usd ''observedAtMs'') \<or> \<not> isSafeInteger (jprop usd ''validUntilMs'')
          \<or> num_of (jprop usd ''observedAtMs'') < 0 \<or> num_of (jprop usd ''validUntilMs'') \<le> num_of (jprop usd ''observedAtMs''))
        (label @ '' destination USD validity is invalid'')) (\<lambda>_.
      assertMoneyObject (jprop v ''destinationUsdEvidence'') [''request'', ''rawDigest'', ''valuationDigest'', ''quote'']
        (label @ '' destination USD evidence'')))))))))) "

definition lowerOf :: "jsval \<Rightarrow> string" where
  "lowerOf v = toLowerCase (str_of v)"

text \<open>The object \<open>assertReturnLegAttribution\<close> returns is never used; the model keeps the check.\<close>

definition assertReturnLegAttribution :: "jsval \<Rightarrow> jsval \<Rightarrow> string \<Rightarrow> unit res" where
  "assertReturnLegAttribution v leg label =
     (let native = nativeAttribution v in
      bindE (assertMoneyObject v (RETURN_LEG_ATTRIBUTION_FIELDS @ (if native then [''destinationUsd'', ''destinationUsdEvidence''] else [])) label) (\<lambda>_.
      bindE (throwIf (\<not> native \<and> jprop v ''schema'' \<noteq> JStr ''hookemon.return-leg-attribution-context.v1'') (label @ '' schema is invalid'')) (\<lambda>_.
      bindE (if native then assertDestinationUsd v leg label else Inr ()) (\<lambda>_.
      bindE (assertReturnRelayIntent (jprop v ''intent'') (jprop leg ''relayRequestId'') (label @ '' intent'')) (\<lambda>intent.
      bindE (throwIf (JStr (jsString (jprop intent ''originChainId'')) \<noteq> jprop leg ''sourceChainId'' \<or> jprop intent ''originAssetId'' \<noteq> jprop leg ''sourceAssetId''
          \<or> jprop intent ''originDecimals'' \<noteq> jprop leg ''sourceDecimals'' \<or> jprop intent ''originAmount'' \<noteq> jprop leg ''sourceAmountAtomic'')
        (label @ '' intent origin route and amount do not match its Relay leg'')) (\<lambda>_.
      bindE (throwIf (JStr (jsString (jprop intent ''destinationChainId'')) \<noteq> jprop leg ''destinationChainId''
          \<or> lowerOf (jprop intent ''destinationAssetId'') \<noteq> lowerOf (jprop leg ''destinationAssetId'')
          \<or> jprop intent ''destinationDecimals'' \<noteq> jprop leg ''destinationDecimals'' \<or> jprop intent ''quotedDestinationAmount'' \<noteq> jprop leg ''destinationAmountAtomic'')
        (label @ '' intent destination route and amount do not match its Relay leg'')) (\<lambda>_.
      bindE (assertMoneyAtomic (jprop v ''requestCreatedAtUnixSeconds'') (label @ '' requestCreatedAtUnixSeconds'')) (\<lambda>_.
      bindE (assertMoneyAtomic (jprop v ''maxSettlementWindowSeconds'') (label @ '' maxSettlementWindowSeconds'')) (\<lambda>window.
      throwIf (nat_of_dec window = 0) (label @ '' maxSettlementWindowSeconds must be positive'')))))))))) "

section \<open>Legs\<close>

definition signed_decimal :: "string \<Rightarrow> bool" where
  "signed_decimal s = (is_decimal s \<or> (take 1 s = ''-'' \<and> is_pos_decimal (drop 1 s)))"

definition assertSignedAtomic :: "jsval \<Rightarrow> string \<Rightarrow> string res" where
  "assertSignedAtomic v label = (if \<not> str_matches signed_decimal v then Inl (JsError (label @ '' is invalid'')) else Inr (str_of v))"

text \<open>The fields of every leg, up to the attribution.\<close>

definition assertLegRoute :: "jsval \<Rightarrow> string \<Rightarrow> unit res" where
  "assertLegRoute v label =
     bindE (throwIf (jprop v ''schema'' \<notin> {JStr ''hookemon.relay-leg.v1'', JStr ''hookemon.relay-leg.v2''}) (label @ '' schema is invalid'')) (\<lambda>_.
     bindE (checkFields assertMoneyString v [''cycleId''] label) (\<lambda>_.
     bindE (throwIf (\<not> str_matches (\<lambda>s. s \<in> set RELAY_LEG_DIRECTIONS) (jprop v ''direction'')) (label @ '' direction is invalid'')) (\<lambda>_.
     bindE (checkFields assertMoneyString v [''relayRequestId''] label) (\<lambda>_.
     bindE (checkFields assertMoneyDigest v [''quoteDigest''] label) (\<lambda>_.
     bindE (checkFields assertMoneyString v [''sourceChainId''] label) (\<lambda>_.
     bindE (checkFields (unlessNull assertMoneyString) v [''sourceTxHash''] label) (\<lambda>_.
     bindE (checkFields assertMoneyString v [''sourceAssetId''] label) (\<lambda>_.
     bindE (checkFields assertDecimals v [''sourceDecimals''] label) (\<lambda>_.
     bindE (assertMoneyAtomic (jprop v ''sourceAmountAtomic'') (label @ '' sourceAmountAtomic'')) (\<lambda>amount.
     bindE (throwIf (nat_of_dec amount = 0) (label @ '' sourceAmountAtomic must be positive'')) (\<lambda>_.
     bindE (checkFields assertMoneyString v [''destinationChainId''] label) (\<lambda>_.
     bindE (checkFields (unlessNull assertMoneyString) v [''destinationTxHash''] label) (\<lambda>_.
     bindE (checkFields assertMoneyString v [''destinationAssetId''] label) (\<lambda>_.
     bindE (checkFields assertDecimals v [''destinationDecimals''] label) (\<lambda>_.
     bindE (checkFields assertMoneyAtomic v [''destinationAmountAtomic''] label) (\<lambda>_.
     throwIf (jprop v ''sourceChainId'' = jprop v ''destinationChainId'') (label @ '' must bridge between two chains'')))))))))))))))))"

text \<open>The evidence a leg carries in its state.\<close>

definition assertLegEvidence :: "jsval \<Rightarrow> string \<Rightarrow> unit res" where
  "assertLegEvidence v label =
     (let state = jprop v ''state''; destination = jprop v ''destinationTxHash''; net = jprop v ''netDeltaAtomic'' in
      bindE (if jprop v ''finalizedAtSource'' \<noteq> JNull then bindE (assertRelayFinality (jprop v ''finalizedAtSource'') (label @ '' finalizedAtSource'')) (\<lambda>_. Inr ()) else Inr ()) (\<lambda>_.
      bindE (if jprop v ''finalizedAtDestination'' \<noteq> JNull then bindE (assertRelayFinality (jprop v ''finalizedAtDestination'') (label @ '' finalizedAtDestination'')) (\<lambda>_. Inr ()) else Inr ()) (\<lambda>_.
      bindE (unlessNull assertSignedAtomic net (label @ '' netDeltaAtomic'')) (\<lambda>_.
      bindE (throwIf (\<not> str_matches (\<lambda>s. s \<in> set RELAY_LEG_STATES) state) (label @ '' state is invalid'')) (\<lambda>_.
      bindE (if state = JStr ''RECORDED''
             then throwIf (destination \<noteq> JNull \<or> jprop v ''finalizedAtSource'' \<noteq> JNull \<or> jprop v ''finalizedAtDestination'' \<noteq> JNull \<or> net \<noteq> JNull)
                    (label @ '' recorded state cannot carry settlement evidence'')
             else bindE (throwIf (jprop v ''sourceTxHash'' = JNull) (label @ '' '' @ str_of state @ '' requires a sourceTxHash'')) (\<lambda>_.
                  throwIf (jprop v ''finalizedAtSource'' = JNull) (label @ '' '' @ str_of state @ '' requires finalizedAtSource''))) (\<lambda>_.
      bindE (if state = JStr ''SETTLED''
             then bindE (throwIf (destination = JNull) (label @ '' SETTLED requires a destinationTxHash'')) (\<lambda>_.
                  bindE (throwIf (jprop v ''finalizedAtDestination'' = JNull) (label @ '' SETTLED requires finalizedAtDestination'')) (\<lambda>_.
                  bindE (if net = JNull then Inr True else bindE (js_BigInt net) (\<lambda>n. Inr (n \<le> 0))) (\<lambda>bad.
                  throwIf bad (label @ '' SETTLED requires a positive netDeltaAtomic''))))
             else Inr ()) (\<lambda>_.
      throwIf (destination \<noteq> JNull \<and> jprop v ''finalizedAtDestination'' = JNull \<and> state \<noteq> JStr ''RECORDED'')
        (label @ '' destinationTxHash requires finalizedAtDestination''))))))))"

definition assertRelayLeg :: "jsval \<Rightarrow> string \<Rightarrow> jsval res" where
  "assertRelayLeg v label =
     bindE (assertMoneyObject v (RELAY_LEG_FIELDS @ (if jprop v ''direction'' = JStr ''return'' then [''returnAttribution''] else [])) label) (\<lambda>_.
     bindE (assertLegRoute v label) (\<lambda>_.
     bindE (if jprop v ''direction'' = JStr ''return'' then assertReturnLegAttribution (jprop v ''returnAttribution'') v (label @ '' returnAttribution'') else Inr ()) (\<lambda>_.
     bindE (assertLegEvidence v label) (\<lambda>_.
     structuredClone v))))"

definition relayLegLabel :: string where "relayLegLabel = ''relay leg''"

section \<open>Life of a leg\<close>

definition nativeEth :: "jsval \<Rightarrow> bool" where
  "nativeEth amount = (jprop amount ''chainId'' = JStr ''4663'' \<and> jprop amount ''assetId'' = JStr ''native'' \<and> jprop amount ''decimals'' = JNum 18)"

definition createRecordedRelayLeg :: "jsval \<Rightarrow> jsval \<Rightarrow> jsval \<Rightarrow> jsval \<Rightarrow> jsval \<Rightarrow> jsval \<Rightarrow> jsval \<Rightarrow> jsval res" where
  "createRecordedRelayLeg cycleId direction relayRequestId quoteDigest src dst returnAttribution =
     bindE (assertTypedAmount src ''relay leg source'') (\<lambda>source.
     bindE (assertTypedAmount dst ''relay leg destination'') (\<lambda>destination.
     assertRelayLeg (JObj ([
       (''schema'', JStr (if nativeEth source \<or> nativeEth destination then ''hookemon.relay-leg.v2'' else ''hookemon.relay-leg.v1'')),
       (''cycleId'', cycleId), (''direction'', direction), (''relayRequestId'', relayRequestId), (''quoteDigest'', quoteDigest),
       (''sourceChainId'', jprop source ''chainId''), (''sourceTxHash'', JNull), (''sourceAssetId'', jprop source ''assetId''),
       (''sourceDecimals'', jprop source ''decimals''), (''sourceAmountAtomic'', jprop source ''amountAtomic''),
       (''destinationChainId'', jprop destination ''chainId''), (''destinationTxHash'', JNull), (''destinationAssetId'', jprop destination ''assetId''),
       (''destinationDecimals'', jprop destination ''decimals''), (''destinationAmountAtomic'', jprop destination ''amountAtomic''),
       (''finalizedAtSource'', JNull), (''finalizedAtDestination'', JNull), (''netDeltaAtomic'', JNull), (''state'', JStr ''RECORDED'')]
       @ (if direction = JStr ''return'' then [(''returnAttribution'', returnAttribution)] else []))) relayLegLabel))"

definition attributeRelayLegSource :: "jsval \<Rightarrow> jsval \<Rightarrow> jsval res" where
  "attributeRelayLegSource v sourceTxHash =
     bindE (assertRelayLeg v relayLegLabel) (\<lambda>current.
     bindE (throwIf (jprop current ''state'' \<noteq> JStr ''RECORDED'') ''relay leg source can be attributed only while RECORDED'') (\<lambda>_.
     bindE (assertMoneyString sourceTxHash ''relay leg sourceTxHash'') (\<lambda>_.
     bindE (throwIf (jprop current ''sourceTxHash'' \<noteq> JNull \<and> jprop current ''sourceTxHash'' \<noteq> sourceTxHash)
       ''relay leg source transaction hash is already attributed'') (\<lambda>_.
     assertRelayLeg (withProps (spread current) [(''sourceTxHash'', sourceTxHash)]) relayLegLabel))))"

definition RELAY_LEG_SETTLEMENT_EVIDENCE :: "string list" where
  "RELAY_LEG_SETTLEMENT_EVIDENCE = [''finalizedAtSource'', ''destinationTxHash'', ''finalizedAtDestination'', ''netDeltaAtomic'']"

definition transitionRelayLeg :: "jsval \<Rightarrow> string \<Rightarrow> jsval \<Rightarrow> jsval res" where
  "transitionRelayLeg v nextState evidence =
     bindE (assertRelayLeg v relayLegLabel) (\<lambda>current.
     bindE (throwIf (jprop current ''state'' \<noteq> JStr ''RECORDED'') ''relay leg transition is invalid'') (\<lambda>_.
     bindE (throwIf (nextState \<noteq> ''SETTLED'' \<and> nextState \<notin> set RELAY_LEG_TERMINAL_STATES) ''relay leg transition is invalid'') (\<lambda>_.
     bindE (throwIf (falsy evidence \<or> \<not> typeofObject evidence \<or> isArray evidence) ''relay leg transition evidence is invalid'') (\<lambda>_.
     bindE (throwIf (sort (ownKeys evidence) \<noteq> sort RELAY_LEG_SETTLEMENT_EVIDENCE)
       ''relay leg transition evidence must name finalizedAtSource, destinationTxHash, finalizedAtDestination, and netDeltaAtomic'') (\<lambda>_.
     bindE (throwIf (jprop current ''sourceTxHash'' = JNull) ''relay leg transition requires an attributed sourceTxHash'') (\<lambda>_.
     bindE (structuredClone evidence) (\<lambda>ev.
     assertRelayLeg (withProps (spread current) (spread ev @ [(''state'', JStr nextState)])) relayLegLabel)))))))"

section \<open>The proof of a return\<close>

definition RETURN_LEG_DESTINATION_PROOF_FIELDS :: "string list" where
  "RETURN_LEG_DESTINATION_PROOF_FIELDS = [''schema'', ''relayRequestId'', ''terminalStatus'', ''sourceTxHash'', ''sourceFinality'', ''destinationTxHash'',
     ''destinationFinality'', ''transferCount'', ''observedToken'', ''observedRecipient'', ''observedAmountAtomic'']"

text \<open>\<open>proof.f !== value\<close> for the fields of a native payment proof: two objects from different places are never identical.\<close>

definition nativeProofBinds :: "jsval \<Rightarrow> jsval \<Rightarrow> bool" where
  "nativeProofBinds proof v =
     (let finality = jprop v ''destinationFinality'' in
      \<not> falsy proof \<and> list_all (\<lambda>(f, x). strictEq (jprop proof f) x)
        [(''schema'', JStr ''hookemon.native-payment-proof.v1''), (''kind'', JStr ''relay-return''), (''chainId'', JStr ''4663''), (''assetId'', JStr ''native''),
         (''decimals'', JNum 18), (''transactionHash'', jprop v ''destinationTxHash''), (''sourceTransactionHash'', jprop v ''sourceTxHash''),
         (''relayRequestId'', jprop v ''relayRequestId''), (''recipient'', jprop v ''observedRecipient''), (''amountWei'', jprop v ''observedAmountAtomic''),
         (''blockNumber'', jprop finality ''height''), (''blockHash'', jprop finality ''hash''),
         (''timestampUnixSeconds'', jprop finality ''timestampUnixSeconds'')])"

definition nativeReturnProof :: "jsval \<Rightarrow> bool" where
  "nativeReturnProof v = (jprop v ''schema'' = JStr ''hookemon.return-leg-destination-proof.v2'')"

definition assertReturnLegDestinationProof :: "jsval \<Rightarrow> string \<Rightarrow> jsval res" where
  "assertReturnLegDestinationProof v label =
     (let native = nativeReturnProof v; status = jprop v ''terminalStatus'' in
      bindE (assertMoneyObject v (RETURN_LEG_DESTINATION_PROOF_FIELDS @ (if native then [''nativePaymentProof''] else [])) label) (\<lambda>_.
      bindE (throwIf (\<not> native \<and> jprop v ''schema'' \<noteq> JStr ''hookemon.return-leg-destination-proof.v1'') (label @ '' schema is invalid'')) (\<lambda>_.
      bindE (checkFields assertMoneyString v [''relayRequestId''] label) (\<lambda>_.
      bindE (assertMoneyObject status [''status'', ''destinationTxHash''] (label @ '' terminalStatus'')) (\<lambda>_.
      bindE (throwIf (jprop status ''status'' \<noteq> JStr ''SUCCESS'') (label @ '' terminalStatus is invalid'')) (\<lambda>_.
      bindE (throwIf (\<not> str_matches (hex_pattern 64) (jprop v ''destinationTxHash'')) (label @ '' destinationTxHash is invalid'')) (\<lambda>_.
      bindE (throwIf (jprop status ''destinationTxHash'' \<noteq> jprop v ''destinationTxHash'') (label @ '' terminalStatus does not point to its destinationTxHash'')) (\<lambda>_.
      bindE (checkFields assertMoneyString v [''sourceTxHash''] label) (\<lambda>_.
      bindE (assertRelayFinality (jprop v ''sourceFinality'') (label @ '' sourceFinality'')) (\<lambda>_.
      bindE (assertRelayFinality (jprop v ''destinationFinality'') (label @ '' destinationFinality'')) (\<lambda>_.
      bindE (throwIf (jprop v ''transferCount'' \<noteq> JNum 1) (label @ '' transferCount must equal one'')) (\<lambda>_.
      bindE (throwIf (if native then jprop v ''observedToken'' \<noteq> JStr ''native'' else \<not> str_matches (hex_pattern 40) (jprop v ''observedToken''))
        (label @ '' observedToken is invalid'')) (\<lambda>_.
      bindE (throwIf (\<not> str_matches (hex_pattern 40) (jprop v ''observedRecipient'')) (label @ '' observedRecipient is invalid'')) (\<lambda>_.
      bindE (throwIf (native \<and> \<not> nativeProofBinds (jprop v ''nativePaymentProof'') v) (label @ '' native payment evidence is inconsistent'')) (\<lambda>_.
      bindE (checkFields assertMoneyAtomic v [''observedAmountAtomic''] label) (\<lambda>_.
      structuredClone v))))))))))))))))"

section \<open>Laws\<close>

lemma checkFields_Inr: "checkFields check v fs label = Inr u \<longleftrightarrow> (\<forall>f \<in> set fs. \<exists>x. check (jprop v f) (label @ '' '' @ f) = Inr x)"
  unfolding checkFields_def foldE_unit by (simp add: bindE_Inr_iff)

text \<open>What an accepted leg looks like, and what acceptance gives back.\<close>

lemma assertRelayLeg_Inr:
  assumes "assertRelayLeg v label = Inr w"
  shows "structuredClone v = Inr w" and "isPlainObject v" and "assertLegRoute v label = Inr ()" and "assertLegEvidence v label = Inr ()"
    and "jprop v ''direction'' = JStr ''return'' \<Longrightarrow> assertReturnLegAttribution (jprop v ''returnAttribution'') v (label @ '' returnAttribution'') = Inr ()"
  using assms by (auto simp: assertRelayLeg_def bindE_Inr_iff assertMoneyObject_def split: if_splits)

lemma checkFields_kinds:
  "checkFields assertMoneyString v [f] label = Inr u \<Longrightarrow> isString (jprop v f)"
  "checkFields (unlessNull assertMoneyString) v [f] label = Inr u \<Longrightarrow> jprop v f = JNull \<or> isString (jprop v f)"
  "checkFields assertMoneyDigest v [f] label = Inr u \<Longrightarrow> isString (jprop v f)"
  "checkFields assertMoneyAtomic v [f] label = Inr u \<Longrightarrow> \<exists>a. jprop v f = JStr a \<and> is_decimal a"
  by (auto simp: checkFields_Inr money_inversions isString_def)

lemma assertLegRoute_Inr:
  assumes "assertLegRoute v label = Inr ()"
  shows "\<forall>f \<in> {''cycleId'', ''relayRequestId'', ''quoteDigest'', ''sourceChainId'', ''sourceAssetId'', ''destinationChainId'', ''destinationAssetId''}.
      isString (jprop v f)"
    and "\<exists>d \<in> set RELAY_LEG_DIRECTIONS. jprop v ''direction'' = JStr d"
    and "jprop v ''sourceTxHash'' = JNull \<or> isString (jprop v ''sourceTxHash'')"
    and "\<exists>a. jprop v ''sourceAmountAtomic'' = JStr a \<and> is_pos_decimal a" and "\<exists>a. jprop v ''destinationAmountAtomic'' = JStr a \<and> is_decimal a"
proof -
  from assms have c: "checkFields assertMoneyString v [''cycleId''] label = Inr ()" "checkFields assertMoneyString v [''relayRequestId''] label = Inr ()"
    "checkFields assertMoneyDigest v [''quoteDigest''] label = Inr ()" "checkFields assertMoneyString v [''sourceChainId''] label = Inr ()"
    "checkFields assertMoneyString v [''sourceAssetId''] label = Inr ()" "checkFields assertMoneyString v [''destinationChainId''] label = Inr ()"
    "checkFields assertMoneyString v [''destinationAssetId''] label = Inr ()" "checkFields (unlessNull assertMoneyString) v [''sourceTxHash''] label = Inr ()"
    "checkFields assertMoneyAtomic v [''destinationAmountAtomic''] label = Inr ()" "str_matches (\<lambda>s. s \<in> set RELAY_LEG_DIRECTIONS) (jprop v ''direction'')"
    "\<exists>a. assertMoneyAtomic (jprop v ''sourceAmountAtomic'') (label @ '' sourceAmountAtomic'') = Inr a \<and> nat_of_dec a \<noteq> 0"
    unfolding assertLegRoute_def bindE_Inr_iff throwIf_Inr by (elim exE conjE, (simp; fail | blast)+)+
  show "\<forall>f \<in> {''cycleId'', ''relayRequestId'', ''quoteDigest'', ''sourceChainId'', ''sourceAssetId'', ''destinationChainId'', ''destinationAssetId''}.
      isString (jprop v f)"
    using checkFields_kinds(1) [OF c(1)] checkFields_kinds(1) [OF c(2)] checkFields_kinds(3) [OF c(3)] checkFields_kinds(1) [OF c(4)]
      checkFields_kinds(1) [OF c(5)] checkFields_kinds(1) [OF c(6)] checkFields_kinds(1) [OF c(7)] by simp
  show "\<exists>d \<in> set RELAY_LEG_DIRECTIONS. jprop v ''direction'' = JStr d" using c(10) by (auto simp: str_matches_iff)
  show "jprop v ''sourceTxHash'' = JNull \<or> isString (jprop v ''sourceTxHash'')" by (rule checkFields_kinds(2) [OF c(8)])
  show "\<exists>a. jprop v ''sourceAmountAtomic'' = JStr a \<and> is_pos_decimal a" using c(11) by (auto simp: assertMoneyAtomic_Inr is_pos_decimal_iff)
  show "\<exists>a. jprop v ''destinationAmountAtomic'' = JStr a \<and> is_decimal a" by (rule checkFields_kinds(4) [OF c(9)])
qed

lemma assertLegEvidence_Inr:
  assumes "assertLegEvidence v label = Inr ()"
  shows "\<exists>s \<in> set RELAY_LEG_STATES. jprop v ''state'' = JStr s"
    and "jprop v ''netDeltaAtomic'' = JNull \<or> isString (jprop v ''netDeltaAtomic'')"
    and "jprop v ''state'' = JStr ''RECORDED'' \<Longrightarrow> jprop v ''netDeltaAtomic'' = JNull"
    and "jprop v ''state'' \<noteq> JStr ''RECORDED'' \<Longrightarrow> jprop v ''sourceTxHash'' \<noteq> JNull"
    and "jprop v ''state'' = JStr ''SETTLED'' \<Longrightarrow> \<exists>n. js_BigInt (jprop v ''netDeltaAtomic'') = Inr n \<and> 0 < n"
  using assms unfolding assertLegEvidence_def Let_def bindE_Inr_iff throwIf_Inr
  by (auto simp: str_matches_iff unlessNull_Inr assertSignedAtomic_def isString_def bindE_Inr_iff throwIf_Inr split: if_splits)

text \<open>On JSON data the accepted leg is the leg itself.\<close>

lemma assertRelayLeg_plain: "plainJson v \<Longrightarrow> assertRelayLeg v label = Inr w \<Longrightarrow> w = v"
  by (drule assertRelayLeg_Inr(1)) (simp add: clone_plain)

lemma transition_shape:
  assumes "transitionRelayLeg v next ev = Inr w" and "plainJson v" and "plainJson ev" and "isPlainObject ev"
  shows "isPlainObject v" and "w = withProps (spread v) (spread ev @ [(''state'', JStr next)])" and "assertRelayLeg w relayLegLabel = Inr w" and "plainJson w"
    and "jprop v ''state'' = JStr ''RECORDED''" and "next \<noteq> ''RECORDED''" and "set (ownKeys ev) = set RELAY_LEG_SETTLEMENT_EVIDENCE"
proof -
  let ?w = "withProps (spread v) (spread ev @ [(''state'', JStr next)])"
  from assms(1) obtain current where c: "assertRelayLeg v relayLegLabel = Inr current" "jprop current ''state'' = JStr ''RECORDED''"
      "next = ''SETTLED'' \<or> next \<in> set RELAY_LEG_TERMINAL_STATES" "sort (ownKeys ev) = sort RELAY_LEG_SETTLEMENT_EVIDENCE"
      and w: "assertRelayLeg (withProps (spread current) (spread ev @ [(''state'', JStr next)])) relayLegLabel = Inr w"
    unfolding transitionRelayLeg_def bindE_Inr_iff throwIf_Inr clone_plain [OF assms(3)] by auto
  have same: "current = v" by (rule assertRelayLeg_plain [OF assms(2) c(1)])
  show obj: "isPlainObject v" by (rule assertRelayLeg_Inr(2) [OF c(1)])
  show "jprop v ''state'' = JStr ''RECORDED''" using c(2) same by simp
  show "next \<noteq> ''RECORDED''" using c(3) by (auto simp: RELAY_LEG_TERMINAL_STATES_def)
  show "set (ownKeys ev) = set RELAY_LEG_SETTLEMENT_EVIDENCE" using arg_cong [OF c(4), of set] by simp
  have ev: "\<forall>q \<in> set (spread ev). plainJson (snd q)" using plain_spread [OF assms(4,3)] by (auto simp: list_all_iff)
  have plain: "plainJson ?w" by (rule plain_withProps [OF plain_spread [OF obj assms(2)]]) (use ev in auto)
  show eq: "w = ?w" using assertRelayLeg_plain [OF plain] w same by simp
  show "assertRelayLeg w relayLegLabel = Inr w" using w same eq by simp
  show "plainJson w" using plain eq by simp
qed

lemma attribute_shape:
  assumes "attributeRelayLegSource v h = Inr w" and "plainJson v" and "plainJson h"
  shows "isPlainObject v" and "w = withProps (spread v) [(''sourceTxHash'', h)]" and "plainJson w" and "jprop v ''state'' = JStr ''RECORDED''"
    and "isString h" and "jprop v ''sourceTxHash'' \<noteq> JNull \<Longrightarrow> jprop v ''sourceTxHash'' = h" and "assertRelayLeg w relayLegLabel = Inr w"
proof -
  let ?w = "withProps (spread v) [(''sourceTxHash'', h)]"
  from assms(1) obtain current s where c: "assertRelayLeg v relayLegLabel = Inr current" "jprop current ''state'' = JStr ''RECORDED''" "h = JStr s"
      "jprop current ''sourceTxHash'' \<noteq> JNull \<longrightarrow> jprop current ''sourceTxHash'' = h"
      and w: "assertRelayLeg (withProps (spread current) [(''sourceTxHash'', h)]) relayLegLabel = Inr w"
    unfolding attributeRelayLegSource_def bindE_Inr_iff throwIf_Inr assertMoneyString_Inr by auto
  have same: "current = v" by (rule assertRelayLeg_plain [OF assms(2) c(1)])
  show obj: "isPlainObject v" by (rule assertRelayLeg_Inr(2) [OF c(1)])
  show "jprop v ''state'' = JStr ''RECORDED''" "isString h" "jprop v ''sourceTxHash'' \<noteq> JNull \<Longrightarrow> jprop v ''sourceTxHash'' = h"
    using c same by (simp_all add: isString_def)
  have plain: "plainJson ?w" by (rule plain_withProps [OF plain_spread [OF obj assms(2)]]) (use assms(3) in simp)
  show eq: "w = ?w" using assertRelayLeg_plain [OF plain] w same by simp
  show "plainJson w" using plain eq by simp
  show "assertRelayLeg w relayLegLabel = Inr w" using w same eq by simp
qed

end
