(* ===== verification/Relay_Settlement.thy ===== *)
theory Relay_Settlement
  imports Relay_Legs Cycle_Operations
begin

text \<open>
  Relay legs and custody ledgers in \<^verbatim>\<open>packages/adapters/src/app/cycle-repository.mjs\<close>: the events that record, attribute and settle
  a leg and that rewrite a ledger, and the operations that append them.  \<open>moneyParts\<close> puts them in the place that \<open>Cycle_Ledger\<close>
  leaves for the rest of the repository, so that every theorem about the replay also holds with these events.

  Some parts stay outside: \<open>money_env\<close> holds the other events (which may write ledgers, but never legs), the recovery contexts
  of signed transactions, the checks of a quote's USD valuation (the parser of \<^verbatim>\<open>relay-client.mjs\<close>), and the
  registries of proofs that this process has made itself (\<open>isProcess...\<close>), which are sets of object identities.
\<close>

section \<open>State\<close>

text \<open>
  \<open>md_returnKeys\<close> is \<open>returnLegLedgerKeys\<close>: the ledger that carries the expectation of a return leg.  A ledger written by another event
  is stored under its own key.
\<close>

record 'y money_state =
  md_legs :: "(string \<times> jsval) list"
  md_custody :: "(string \<times> jsval) list"
  md_returnKeys :: "(string \<times> string) list"
  md_rest :: 'y

record 'y money_env =
  mo_initial :: 'y
  mo_step :: "'y money_state replay_state \<Rightarrow> jsval \<Rightarrow> ('y \<times> jsval list) res"
  mo_admission :: "'y \<Rightarrow> jsval"
  mo_purchaseBatch :: "'y \<Rightarrow> jsval"
  mo_heldRetry :: "string \<Rightarrow> 'y money_state replay_state \<Rightarrow> bool"
  mo_rewardEvidence :: "'y \<Rightarrow> jsval \<Rightarrow> unit res"
  mo_restoreValuations :: "'y \<Rightarrow> unit res"
  mo_resolveEvidence :: "string \<Rightarrow> jsval \<Rightarrow> jsval res"
  mo_persistEvidence :: "string \<Rightarrow> jsval \<Rightarrow> jsval res"
  mo_recoveryContexts :: "'y \<Rightarrow> jsval list"
  mo_nativeValuation :: "jsval \<Rightarrow> unit res"
  mo_isPaymentProof :: "jsval \<Rightarrow> jsval \<Rightarrow> bool"
  mo_isDestinationObservation :: "jsval \<Rightarrow> jsval \<Rightarrow> bool"
  mo_isRefundProof :: "jsval \<Rightarrow> jsval \<Rightarrow> bool"
  mo_isReturnProof :: "jsval \<Rightarrow> jsval \<Rightarrow> bool"
  mo_isUsdValuation :: "jsval \<Rightarrow> jsval \<Rightarrow> bool"

definition custodyLedgerKey :: "jsval \<Rightarrow> string" where
  "custodyLedgerKey ledger = jsString (jprop ledger ''chainId'') @ [CHR 0x00] @ jsString (jprop ledger ''assetId'')"

text \<open>\<open>map.get(v)\<close> for a key of any type.\<close>

definition getAt :: "(string \<times> 'a) list \<Rightarrow> jsval \<Rightarrow> 'a option" where
  "getAt m v = (case v of JStr s \<Rightarrow> omap_get m s | _ \<Rightarrow> None)"

definition setLeg :: "jsval \<Rightarrow> 'y money_state \<Rightarrow> 'y money_state" where
  "setLeg leg md = md\<lparr>md_legs := omap_set (str_of (jprop leg ''relayRequestId'')) leg (md_legs md)\<rparr>"

definition setCustody :: "jsval \<Rightarrow> 'y money_state \<Rightarrow> 'y money_state" where
  "setCustody ledger md = md\<lparr>md_custody := omap_set (custodyLedgerKey ledger) ledger (md_custody md)\<rparr>"

section \<open>Rewriting a ledger\<close>

definition custodyLabel :: string where "custodyLabel = ''cycle-repository custody ledger''"

definition observedOf :: "jsval \<Rightarrow> jsval" where
  "observedOf ledger = (if observesBalance ledger then jprop ledger ''verifiedCurrentBalance'' else JNull)"

definition expectedOf :: "jsval \<Rightarrow> jsval" where
  "expectedOf ledger = (if observesBalance ledger then jprop ledger ''expectedCycleAsset'' else JNull)"

text \<open>The gas history only grows.\<close>

definition gasHistoryKept :: "jsval list \<Rightarrow> jsval list \<Rightarrow> bool res" where
  "gasHistoryKept before after =
     (if length after < length before then Inr False
      else bindE (foldE (\<lambda>_ (payment, later) same. if \<not> same then Inr False else bindE (textsDiffer payment later) (\<lambda>differ. Inr (\<not> differ)))
                    0 (zip before after) True) Inr)"

definition heightOf :: "jsval \<Rightarrow> int res" where
  "heightOf observation = js_BigInt (jprop (jprop observation ''finality'') ''height'')"

definition assertGasHistory :: "jsval \<Rightarrow> jsval \<Rightarrow> string \<Rightarrow> unit res" where
  "assertGasHistory previous following label =
     (if jprop following ''schema'' \<noteq> ledgerV3 then Inr ()
      else bindE (js_BigInt (jprop (jprop following ''gasSpent'') ''amountAtomic'')) (\<lambda>later.
           bindE (js_BigInt (jprop (jprop previous ''gasSpent'') ''amountAtomic'')) (\<lambda>earlier.
           bindE (throwIf (later < earlier) (label @ '' cannot erase native gas costs'')) (\<lambda>_.
           bindE (gasHistoryKept (arr_of (jprop previous ''gasPayments'')) (arr_of (jprop following ''gasPayments''))) (\<lambda>kept.
           throwIf (\<not> kept) (label @ '' native gas payment history is append-only''))))))"

definition assertObservationMoves :: "jsval \<Rightarrow> jsval \<Rightarrow> string \<Rightarrow> unit res" where
  "assertObservationMoves previousBalance nextBalance label =
     bindE (textsDiffer nextBalance previousBalance) (\<lambda>differ.
     if \<not> differ then Inr ()
     else bindE (heightOf previousBalance) (\<lambda>previousHeight.
          bindE (heightOf nextBalance) (\<lambda>nextHeight.
          bindE (throwIf (nextHeight < previousHeight) (label @ '' verifiedCurrentBalance finality height cannot go backward'')) (\<lambda>_.
          throwIf (nextHeight = previousHeight) (label @ '' verifiedCurrentBalance conflicts with prior evidence at the same finality height'')))))"

definition assertCustodyLedgerTransition :: "jsval option \<Rightarrow> jsval \<Rightarrow> string \<Rightarrow> unit res" where
  "assertCustodyLedgerTransition prior following label = (case prior of None \<Rightarrow> Inr () | Some previous \<Rightarrow>
     let before = jprop previous ''schema''; after = jprop following ''schema'' in
     bindE (throwIf (jprop previous ''decimals'' \<noteq> jprop following ''decimals'') (label @ '' decimals are immutable for this cycle, chain, and asset'')) (\<lambda>_.
     bindE (throwIf (before = ledgerV3 \<and> after \<noteq> before) (label @ '' cannot downgrade native custody'')) (\<lambda>_.
     bindE (throwIf (after = ledgerV3 \<and> before \<noteq> after) (label @ '' cannot reinterpret historical custody as native'')) (\<lambda>_.
     bindE (assertGasHistory previous following label) (\<lambda>_.
     bindE (throwIf (before = ledgerV2 \<and> after \<noteq> ledgerV2) (label @ '' cannot downgrade from hookemon.custody-ledger.v2 to v1 for this key'')) (\<lambda>_.
     bindE (throwIf (observedOf previous \<noteq> JNull \<and> observedOf following = JNull) (label @ '' cannot erase a previously recorded verifiedCurrentBalance'')) (\<lambda>_.
     bindE (throwIf (observesBalance following \<and> observedOf following = JNull)
       (label @ '' verifiedCurrentBalance may be null only on a key's first-ever write'')) (\<lambda>_.
     if observedOf previous = JNull then Inr () else assertObservationMoves (observedOf previous) (observedOf following) label))))))))"

definition assertCustodyLedgerExpectedAssetUnchanged :: "jsval option \<Rightarrow> jsval \<Rightarrow> string \<Rightarrow> unit res" where
  "assertCustodyLedgerExpectedAssetUnchanged prior following label =
     bindE (textsDiffer (expectedOf following) (case prior of None \<Rightarrow> JNull | Some previous \<Rightarrow> expectedOf previous)) (\<lambda>differ.
     throwIf differ (label @ '' expectedCycleAsset can only be populated or cleared by the dedicated return-leg expectation and settlement/held-clearing writers''))"

definition replayCustodyRecorded :: "string \<Rightarrow> jsval \<Rightarrow> 'y money_state \<Rightarrow> 'y money_state res" where
  "replayCustodyRecorded cycleId payload md =
     bindE (assertCustodyLedger (jprop payload ''ledger'') ''stored custody ledger'' True) (\<lambda>ledger.
     let previous = omap_get (md_custody md) (custodyLedgerKey ledger) in
     bindE (throwIf (jprop ledger ''cycleId'' \<noteq> JStr cycleId) ''stored custody ledger cycleId is invalid'') (\<lambda>_.
     bindE (assertCustodyLedgerTransition previous ledger ''stored custody ledger'') (\<lambda>_.
     bindE (assertCustodyLedgerExpectedAssetUnchanged previous ledger ''stored custody ledger'') (\<lambda>_.
     Inr (setCustody ledger md)))))"

section \<open>Recording a leg\<close>

definition replayLegRecorded :: "string \<Rightarrow> jsval \<Rightarrow> 'y money_state \<Rightarrow> 'y money_state res" where
  "replayLegRecorded cycleId payload md =
     bindE (assertRelayLeg (jprop payload ''leg'') ''stored Relay leg'') (\<lambda>leg.
     bindE (throwIf (jprop leg ''cycleId'' \<noteq> JStr cycleId \<or> jprop leg ''state'' \<noteq> JStr ''RECORDED'' \<or> jprop leg ''sourceTxHash'' \<noteq> JNull
         \<or> getAt (md_legs md) (jprop leg ''relayRequestId'') \<noteq> None) ''stored Relay leg recording is invalid'') (\<lambda>_.
     Inr (setLeg leg md)))"

definition unresolvedReturnLegConflict :: "(string \<times> jsval) list \<Rightarrow> jsval \<Rightarrow> bool" where
  "unresolvedReturnLegConflict legs leg =
     list_ex (\<lambda>(_, existing). jprop existing ''relayRequestId'' \<noteq> jprop leg ''relayRequestId'' \<and> jprop existing ''direction'' = JStr ''return''
       \<and> jprop existing ''state'' = JStr ''RECORDED'' \<and> jprop existing ''destinationChainId'' = jprop leg ''destinationChainId''
       \<and> jprop existing ''destinationAssetId'' = jprop leg ''destinationAssetId'') legs"

text \<open>\<open>{ ...ledger, expectedCycleAsset: null }\<close>.\<close>

definition withoutExpectation :: "jsval \<Rightarrow> jsval" where
  "withoutExpectation ledger = withProps (spread ledger) [(''expectedCycleAsset'', JNull)]"

text \<open>An expectation may be added to a ledger that has none and otherwise stays as it is; the two messages differ between replay and writer.\<close>

definition assertExpectationAdded :: "jsval option \<Rightarrow> jsval \<Rightarrow> string \<Rightarrow> string \<Rightarrow> unit res" where
  "assertExpectationAdded prior ledger already changed = (case prior of None \<Rightarrow> Inr () | Some previous \<Rightarrow>
     bindE (throwIf (jprop previous ''expectedCycleAsset'' \<noteq> JNull) already) (\<lambda>_.
     bindE (textsDiffer (withoutExpectation previous) (withoutExpectation ledger)) (\<lambda>differ.
     throwIf differ changed)))"

definition replayExpectation :: "'y money_env \<Rightarrow> string \<Rightarrow> jsval \<Rightarrow> 'y money_state \<Rightarrow> 'y money_state res" where
  "replayExpectation env cycleId payload md =
     bindE (exactObject payload [''leg'', ''ledger''] ''stored return relay leg expectation'') (\<lambda>_.
     bindE (assertRelayLeg (jprop payload ''leg'') ''stored return relay leg expectation leg'') (\<lambda>leg.
     bindE (if nativeAttribution (jprop leg ''returnAttribution'') then mo_nativeValuation env leg else Inr ()) (\<lambda>_.
     bindE (throwIf (jprop leg ''cycleId'' \<noteq> JStr cycleId \<or> jprop leg ''direction'' \<noteq> JStr ''return'' \<or> jprop leg ''state'' \<noteq> JStr ''RECORDED''
         \<or> jprop leg ''sourceTxHash'' \<noteq> JNull \<or> getAt (md_legs md) (jprop leg ''relayRequestId'') \<noteq> None)
       ''stored return relay leg expectation leg is invalid'') (\<lambda>_.
     bindE (throwIf (unresolvedReturnLegConflict (md_legs md) leg)
       ''stored return relay leg expectation conflicts with an existing unresolved return leg for this destination'') (\<lambda>_.
     bindE (assertCustodyLedger (jprop payload ''ledger'') ''stored return relay leg expectation custody ledger'' True) (\<lambda>ledger.
     let key = custodyLedgerKey ledger; previous = omap_get (md_custody md) key in
     bindE (throwIf (jprop ledger ''cycleId'' \<noteq> JStr cycleId) ''stored return relay leg expectation custody ledger cycleId is invalid'') (\<lambda>_.
     bindE (throwIf (\<not> observesBalance ledger \<or> jprop ledger ''expectedCycleAsset'' = JNull)
       ''stored return relay leg expectation requires a v2 custody ledger with a populated expectedCycleAsset'') (\<lambda>_.
     bindE (throwIf (jprop ledger ''decimals'' \<noteq> jprop leg ''destinationDecimals''
         \<or> jprop (jprop ledger ''expectedCycleAsset'') ''amountAtomic'' \<noteq> jprop leg ''destinationAmountAtomic'')
       ''stored return relay leg expectation custody ledger does not bind the Relay leg'') (\<lambda>_.
     bindE (assertCustodyLedgerTransition previous ledger ''stored return relay leg expectation custody ledger'') (\<lambda>_.
     bindE (assertExpectationAdded previous ledger ''stored return relay leg expectation custody ledger already carries an unresolved expectedCycleAsset''
       ''stored return relay leg expectation custody ledger buckets changed unexpectedly'') (\<lambda>_.
     Inr ((setCustody ledger (setLeg leg md))
       \<lparr>md_returnKeys := omap_set (str_of (jprop leg ''relayRequestId'')) key (md_returnKeys md)\<rparr>))))))))))))"

definition replayLegSource :: "string \<Rightarrow> jsval \<Rightarrow> 'y money_state \<Rightarrow> 'y money_state res" where
  "replayLegSource cycleId payload md =
     bindE (assertRelayLeg (jprop payload ''leg'') ''stored Relay leg'') (\<lambda>leg.
     let invalid = ''stored Relay source attribution is invalid'' in
     case getAt (md_legs md) (jprop payload ''relayRequestId'') of None \<Rightarrow> Inl (JsError invalid)
     | Some previous \<Rightarrow>
         bindE (throwIf (jprop previous ''state'' \<noteq> JStr ''RECORDED'' \<or> jprop leg ''cycleId'' \<noteq> JStr cycleId
             \<or> jprop leg ''relayRequestId'' \<noteq> jprop payload ''relayRequestId'') invalid) (\<lambda>_.
         bindE (canonicalJson leg) (\<lambda>text.
         bindE (attributeRelayLegSource previous (jprop leg ''sourceTxHash'')) (\<lambda>expected.
         bindE (canonicalJson expected) (\<lambda>expectedText.
         bindE (throwIf (text \<noteq> expectedText) invalid) (\<lambda>_.
         Inr (setLeg leg md)))))))"

section \<open>Settling a leg\<close>

definition relayAttributionSchema :: jsval where "relayAttributionSchema = JStr ''hookemon.relay-attribution.v1''"

definition assertRelaySettlementAttribution :: "jsval \<Rightarrow> jsval \<Rightarrow> string \<Rightarrow> jsval res" where
  "assertRelaySettlementAttribution v relayRequestId label =
     bindE (exactObject v [''schema'', ''observer'', ''requestId'', ''memo'', ''observedAmountAtomic''] label) (\<lambda>_.
     bindE (throwIf (jprop v ''schema'' \<noteq> relayAttributionSchema) (label @ '' schema is invalid'')) (\<lambda>_.
     bindE (throwIf (jprop v ''observer'' \<noteq> JStr ''process-rpc'') (label @ '' must come from this process's RPC clients'')) (\<lambda>_.
     bindE (throwIf (jprop v ''requestId'' \<noteq> relayRequestId \<or> jprop v ''memo'' \<noteq> relayRequestId)
       (label @ '' does not bind the Relay request id and memo'')) (\<lambda>_.
     bindE (throwIf (\<not> str_matches signed_decimal (jprop v ''observedAmountAtomic'')) (label @ '' observed amount is invalid'')) (\<lambda>_.
     structuredClone v)))))"

definition assertPlainObjectWithOptionalFields :: "jsval \<Rightarrow> string list \<Rightarrow> string list \<Rightarrow> string \<Rightarrow> unit res" where
  "assertPlainObjectWithOptionalFields v required optional label =
     bindE (throwIf (\<not> isPlainObject v) (label @ '' must be a plain object'')) (\<lambda>_.
     bindE (canonicalJson v) (\<lambda>_.
     throwIf (\<not> list_all (hasOwn v) required \<or> \<not> set (ownKeys v) \<subseteq> set (required @ optional)) (label @ '' must use the exact schema'')))"

lemma assertPlainObjectWithOptionalFields_eval [code]:
  "assertPlainObjectWithOptionalFields v required optional label =
     bindE (throwIf (\<not> isPlainObject v) (label @ '' must be a plain object'')) (\<lambda>_.
     bindE (canonChecks v) (\<lambda>_.
     throwIf (\<not> list_all (hasOwn v) required \<or> \<not> set (ownKeys v) \<subseteq> set (required @ optional)) (label @ '' must use the exact schema'')))"
  by (simp add: assertPlainObjectWithOptionalFields_def canonChecks_only)

definition settlementEvidence :: "jsval \<Rightarrow> jsval \<Rightarrow> jsval \<Rightarrow> jsval \<Rightarrow> jsval" where
  "settlementEvidence source txHash destination net = JObj [(''finalizedAtSource'', source), (''destinationTxHash'', txHash),
     (''finalizedAtDestination'', destination), (''netDeltaAtomic'', net)]"

definition assertOutboundRelaySettlementInput :: "jsval \<Rightarrow> jsval \<Rightarrow> (jsval \<times> jsval) res" where
  "assertOutboundRelaySettlementInput leg v =
     (let terminalState = jprop v ''terminalState''; net = jprop v ''netDeltaAtomic''; refund = jprop v ''refundProof'' in
      bindE (assertPlainObjectWithOptionalFields v [''sourceFinality'', ''destinationTxHash'', ''destinationFinality'', ''netDeltaAtomic'', ''attribution'',
        ''terminalState''] [''refundProof''] ''relay settlement'') (\<lambda>_.
      bindE (throwIf (terminalState \<notin> JStr ` set (''SETTLED'' # RELAY_LEG_TERMINAL_STATES)) ''relay settlement terminalState is invalid'') (\<lambda>_.
      bindE (throwIf (\<not> str_matches (\<lambda>s. s \<noteq> []) (jprop v ''destinationTxHash'')) ''relay settlement destinationTxHash is invalid'') (\<lambda>_.
      bindE (throwIf (\<not> str_matches signed_decimal net) ''relay settlement netDeltaAtomic is invalid'') (\<lambda>_.
      bindE (assertRelaySettlementAttribution (jprop v ''attribution'') (jprop leg ''relayRequestId'') ''relay settlement attribution'') (\<lambda>attribution.
      bindE (throwIf (jprop attribution ''observedAmountAtomic'' \<noteq> net) ''relay settlement attribution amount does not match its observed delta'') (\<lambda>_.
      bindE (transitionRelayLeg leg (str_of terminalState)
        (settlementEvidence (jprop v ''sourceFinality'') (jprop v ''destinationTxHash'') (jprop v ''destinationFinality'') net)) (\<lambda>transitioned.
      bindE (throwIf (terminalState = JStr ''SETTLED'' \<and> jprop transitioned ''netDeltaAtomic'' \<noteq> jprop transitioned ''destinationAmountAtomic'')
        ''relay settlement delta does not equal the attributed destination amount'') (\<lambda>_.
      bindE (throwIf (terminalState = JStr ''HELD_RELAY_REFUND'' \<and> refund = JUndefined)
        ''relay refund settlement must retain its process-RPC origin credit proof'') (\<lambda>_.
      bindE (throwIf (terminalState \<noteq> JStr ''HELD_RELAY_REFUND'' \<and> refund \<noteq> JUndefined)
        ''only a Relay refund settlement may retain an origin credit proof'') (\<lambda>_.
      bindE (structuredClone v) (\<lambda>settlement.
      Inr (transitioned, settlement)))))))))))))"

text \<open>The chain attempts of a stage that a predicate selects; the code reads one or refuses.\<close>

definition stageRecords :: "'x replay_state \<Rightarrow> string \<Rightarrow> chain_record list" where
  "stageRecords st stage = filter (\<lambda>c. ca_stage (cn_attempt c) = stage) (map snd (rp_chain st))"

definition finalizedReturnSource :: "'x replay_state \<Rightarrow> jsval \<Rightarrow> jsval res" where
  "finalizedReturnSource st leg =
     (case filter (\<lambda>c. ca_state (cn_attempt c) = C_FINALIZED \<and> strictEq (jprop (cn_finalityEvidence c) ''transactionHash'') (jprop leg ''sourceTxHash''))
             (stageRecords st ''return'') of
        [c] \<Rightarrow> bindE (throwIf (\<not> strictEq (jprop (cn_finalityEvidence c) ''debitedAmountAtomic'') (jprop leg ''sourceAmountAtomic''))
                 ''relay settlement finalized return source amount does not match its Relay leg'') (\<lambda>_.
               assertRelayFinality (jprop (cn_finalityEvidence c) ''finalizedAtSource'') ''relay settlement finalized return source finality'')
      | _ \<Rightarrow> Inl (JsError ''relay settlement requires one finalized return source attempt''))"

definition returnRelayTerminalState :: "jsval \<Rightarrow> jsval \<Rightarrow> string res" where
  "returnRelayTerminalState leg proof =
     (let attribution = jprop leg ''returnAttribution'' in
      if jprop proof ''observedToken'' \<noteq> JStr (lowerOf (jprop leg ''destinationAssetId''))
         \<or> jprop proof ''observedRecipient'' \<noteq> JStr (lowerOf (jprop (jprop attribution ''intent'') ''recipient''))
      then Inr ''HELD_RELAY_WRONG_ASSET''
      else if jprop proof ''observedAmountAtomic'' \<noteq> jprop leg ''destinationAmountAtomic'' then Inr ''HELD_RELAY_PARTIAL''
      else bindE (js_BigInt (jprop attribution ''requestCreatedAtUnixSeconds'')) (\<lambda>createdAt.
           bindE (js_BigInt (jprop attribution ''maxSettlementWindowSeconds'')) (\<lambda>window.
           bindE (js_BigInt (jprop (jprop proof ''destinationFinality'') ''timestampUnixSeconds'')) (\<lambda>observedAt.
           Inr (if observedAt < createdAt \<or> createdAt + window < observedAt then ''HELD_RELAY_LATE'' else ''SETTLED'')))))"

definition returnLedgerKey :: "'y money_state \<Rightarrow> jsval \<Rightarrow> string" where
  "returnLedgerKey md leg =
     (case getAt (md_returnKeys md) (jprop leg ''relayRequestId'') of
        Some key \<Rightarrow> key
      | None \<Rightarrow> jsString (jprop leg ''destinationChainId'') @ [CHR 0x00] @ jsString (jprop leg ''destinationAssetId''))"

definition freshReturnLedger :: "jsval \<Rightarrow> int \<Rightarrow> jsval" where
  "freshReturnLedger leg received = JObj ([(''schema'', ledgerV1), (''cycleId'', jprop leg ''cycleId''), (''chainId'', jprop leg ''destinationChainId''),
     (''assetId'', jprop leg ''destinationAssetId''), (''decimals'', jprop leg ''destinationDecimals'')]
     @ map (\<lambda>bucket. (bucket, if bucket = ''returnReceived'' then JStr (jsString (JNum received)) else JStr ''0'')) CUSTODY_LEDGER_BUCKETS)"

definition returnSettlementCustodyLedger :: "'y money_state \<Rightarrow> jsval \<Rightarrow> jsval res" where
  "returnSettlementCustodyLedger md leg =
     (let previous = omap_get (md_custody md) (returnLedgerKey md leg) in
      bindE (throwIf (getAt (md_returnKeys md) (jprop leg ''relayRequestId'') \<noteq> None \<and> previous = None)
        ''relay settlement cannot locate the custody ledger durably associated with this return leg'') (\<lambda>_.
      bindE (js_BigInt (jprop leg ''netDeltaAtomic'')) (\<lambda>received.
      bindE (throwIf (received \<le> 0) ''relay settlement exact return custody must be positive'') (\<lambda>_.
      case previous of
        Some l \<Rightarrow> bindE (js_BigInt (jprop l ''returnReceived'')) (\<lambda>already.
          Inr (withProps (spread l) ((''returnReceived'', JStr (jsString (JNum (already + received))))
            # (if observesBalance l then [(''expectedCycleAsset'', JNull)] else []))))
      | None \<Rightarrow> Inr (freshReturnLedger leg received)))))"

definition clearedReturnExpectationLedger :: "'y money_state \<Rightarrow> jsval \<Rightarrow> jsval" where
  "clearedReturnExpectationLedger md leg =
     (case omap_get (md_custody md) (returnLedgerKey md leg) of
        None \<Rightarrow> JNull
      | Some l \<Rightarrow> if \<not> observesBalance l \<or> jprop l ''expectedCycleAsset'' = JNull then JNull else withoutExpectation l)"

text \<open>\<open>canonicalJson(ledger) !== canonicalJson(expected)\<close> for the checked ledger of a settlement.\<close>

definition assertLedgerText :: "jsval \<Rightarrow> string \<Rightarrow> jsval \<Rightarrow> string \<Rightarrow> unit res" where
  "assertLedgerText v label expected message =
     bindE (assertCustodyLedger v label False) (\<lambda>ledger. bindE (textsDiffer ledger expected) (\<lambda>differ. throwIf differ message))"

definition assertReturnCustody :: "'y money_state \<Rightarrow> jsval \<Rightarrow> string \<Rightarrow> jsval \<Rightarrow> unit res" where
  "assertReturnCustody md transitioned terminalState custodyLedger =
     (if terminalState = ''SETTLED''
      then bindE (returnSettlementCustodyLedger md transitioned) (\<lambda>expected.
           assertLedgerText custodyLedger ''return relay settlement custody ledger'' expected
             ''return relay settlement custody ledger does not bind the attributed net delta'')
      else let expected = clearedReturnExpectationLedger md transitioned in
           if expected = JNull then throwIf (custodyLedger \<noteq> JNull) ''return relay settlement hold cannot create payout custody''
           else assertLedgerText custodyLedger ''return relay hold custody ledger'' expected
                  ''return relay settlement hold does not clear its custody ledger expectation exactly'')"

definition assertReturnRelaySettlementInput :: "'y money_state replay_state \<Rightarrow> jsval \<Rightarrow> jsval \<Rightarrow> (jsval \<times> jsval) res" where
  "assertReturnRelaySettlementInput st leg v =
     bindE (exactObject v [''sourceFinality'', ''destinationTxHash'', ''destinationFinality'', ''netDeltaAtomic'', ''returnDestinationProof'', ''terminalState'',
       ''custodyLedger''] ''return relay settlement'') (\<lambda>_.
     bindE (assertReturnLegDestinationProof (jprop v ''returnDestinationProof'') ''return relay settlement proof'') (\<lambda>proof.
     let unbound = ''return relay settlement does not match its process-RPC destination proof'' in
     bindE (throwIf (jprop proof ''relayRequestId'' \<noteq> jprop leg ''relayRequestId'' \<or> jprop proof ''sourceTxHash'' \<noteq> jprop leg ''sourceTxHash''
         \<or> jprop proof ''destinationTxHash'' \<noteq> jprop v ''destinationTxHash'') unbound) (\<lambda>_.
     bindE (textsDiffer (jprop proof ''sourceFinality'') (jprop v ''sourceFinality'')) (\<lambda>differ. bindE (throwIf differ unbound) (\<lambda>_.
     bindE (textsDiffer (jprop proof ''destinationFinality'') (jprop v ''destinationFinality'')) (\<lambda>differ. bindE (throwIf differ unbound) (\<lambda>_.
     bindE (throwIf (jprop proof ''observedAmountAtomic'' \<noteq> jprop v ''netDeltaAtomic'') unbound) (\<lambda>_.
     bindE (finalizedReturnSource st leg) (\<lambda>finalizedSource.
     bindE (textsDiffer finalizedSource (jprop proof ''sourceFinality'')) (\<lambda>differ.
     bindE (throwIf differ ''return relay settlement source finality does not match its durable chain attempt'') (\<lambda>_.
     bindE (returnRelayTerminalState leg proof) (\<lambda>terminalState.
     bindE (throwIf (jprop v ''terminalState'' \<noteq> JStr terminalState) ''return relay settlement terminalState does not match its proof'') (\<lambda>_.
     bindE (transitionRelayLeg leg terminalState (settlementEvidence (jprop proof ''sourceFinality'') (jprop proof ''destinationTxHash'')
       (jprop proof ''destinationFinality'') (jprop proof ''observedAmountAtomic''))) (\<lambda>transitioned.
     bindE (assertReturnCustody (rp_other st) transitioned terminalState (jprop v ''custodyLedger'')) (\<lambda>_.
     bindE (structuredClone v) (\<lambda>settlement.
     Inr (transitioned, settlement)))))))))))))))))"

definition assertRelaySettlementInput :: "'y money_state replay_state \<Rightarrow> jsval \<Rightarrow> jsval \<Rightarrow> (jsval \<times> jsval) res" where
  "assertRelaySettlementInput st leg v =
     (if jprop leg ''direction'' = JStr ''outbound'' then assertOutboundRelaySettlementInput leg v
      else if jprop leg ''direction'' = JStr ''return'' then assertReturnRelaySettlementInput st leg v
      else Inl (JsError ''relay settlement direction is invalid''))"

definition replayLegSettled :: "jsval \<Rightarrow> 'y money_state replay_state \<Rightarrow> 'y money_state res" where
  "replayLegSettled payload st =
     (let md = rp_other st; missing = ''stored Relay settlement has no recorded leg'' in
      case getAt (md_legs md) (jprop payload ''relayRequestId'') of None \<Rightarrow> Inl (JsError missing)
      | Some previous \<Rightarrow>
          bindE (throwIf (jprop previous ''state'' \<noteq> JStr ''RECORDED'') missing) (\<lambda>_.
          bindE (assertRelaySettlementInput st previous (jprop payload ''settlement'')) (\<lambda>(leg, settlement).
          bindE (throwIf (jprop leg ''relayRequestId'' \<noteq> jprop payload ''relayRequestId'') ''stored Relay settlement leg is invalid'') (\<lambda>_.
          bindE (textsDiffer (jprop payload ''leg'') leg) (\<lambda>differ.
          bindE (throwIf differ ''stored Relay settlement leg is invalid'') (\<lambda>_.
          let custody = jprop settlement ''custodyLedger'' in
          Inr (if nullish custody then setLeg leg md else setCustody custody (setLeg leg md))))))))"

section \<open>The parts of the repository\<close>

definition moneyStep :: "'y money_env \<Rightarrow> string \<Rightarrow> 'y money_state replay_state \<Rightarrow> jsval \<Rightarrow> 'y money_state res" where
  "moneyStep env cycleId st entry =
     (let kind = entryKind entry; payload = jprop entry ''payload''; md = rp_other st in
      if kind = ''relay-leg-recorded'' then replayLegRecorded cycleId payload md
      else if kind = ''return-relay-leg-expectation-recorded'' then replayExpectation env cycleId payload md
      else if kind = ''relay-leg-source-recorded'' then replayLegSource cycleId payload md
      else if kind = ''relay-leg-settled'' then replayLegSettled payload st
      else if kind = ''custody-ledger-recorded'' then replayCustodyRecorded cycleId payload md
      else bindE (mo_step env st entry) (\<lambda>(rest, ledgers). Inr (foldl (\<lambda>md ledger. setCustody ledger md) (md\<lparr>md_rest := rest\<rparr>) ledgers)))"

definition moneyParts :: "'y money_env \<Rightarrow> string \<Rightarrow> 'y money_state other_parts" where
  "moneyParts env cycleId = \<lparr>
     ot_initial = \<lparr>md_legs = [], md_custody = [], md_returnKeys = [], md_rest = mo_initial env\<rparr>,
     ot_step = moneyStep env cycleId,
     ot_admission = (\<lambda>md. mo_admission env (md_rest md)), ot_purchaseBatch = (\<lambda>md. mo_purchaseBatch env (md_rest md)),
     ot_custodyLedgers = (\<lambda>md. map snd (md_custody md)), ot_heldRetry = mo_heldRetry env,
     ot_rewardEvidence = (\<lambda>md. mo_rewardEvidence env (md_rest md)), ot_restoreValuations = (\<lambda>md. mo_restoreValuations env (md_rest md)),
     ot_resolveEvidence = mo_resolveEvidence env, ot_persistEvidence = mo_persistEvidence env\<rparr>"

text \<open>The events of legs and ledgers.\<close>

definition moneyKinds :: "string list" where
  "moneyKinds = [''relay-leg-recorded'', ''return-relay-leg-expectation-recorded'', ''relay-leg-source-recorded'', ''relay-leg-settled'',
     ''custody-ledger-recorded'']"

lemma money_event:
  assumes "kind \<in> set moneyKinds"
  shows "applyEvent sha env cid e kind st = bindE (ot_step env st e) (\<lambda>x. Inr (st\<lparr>rp_other := x\<rparr>))"
  using assms unfolding moneyKinds_def
  by (simp only: list.set insert_iff empty_iff simp_thms) (elim disjE; simp add: applyEvent_def)

end
