(* ===== verification/Relay_Operations.thy ===== *)
theory Relay_Operations
  imports Relay_Settlement
begin

text \<open>
  The operations of \<^verbatim>\<open>packages/adapters/src/app/cycle-repository.mjs\<close> that record, attribute and settle a Relay leg and that
  record a custody ledger.  Like those of \<open>Cycle_Operations\<close>, each is a plan computed from the first replay.

  A transaction hash belongs to one leg of all cycles: \<open>known\<close> is what \<open>#knownStates\<close> gives, the legs of every cycle.  The
  reservation of the hash as a global key is a feature of the store and not part of the model.
\<close>

section \<open>Transaction hashes\<close>

definition isEvmRelayChain :: "jsval \<Rightarrow> bool" where
  "isEvmRelayChain chainId = (jsString chainId = ''4663'')"

definition canonicalRelayTransactionHash :: "jsval \<Rightarrow> jsval \<Rightarrow> string \<Rightarrow> string res" where
  "canonicalRelayTransactionHash chainId hash label =
     bindE (throwIf (\<not> str_matches (\<lambda>s. s \<noteq> []) hash) (label @ '' is invalid'')) (\<lambda>_.
     if \<not> isEvmRelayChain chainId then Inr (str_of hash)
     else bindE (throwIf (\<not> any_hex_pattern 64 (str_of hash)) (label @ '' must be a 32-byte EVM transaction hash'')) (\<lambda>_.
          Inr (lowerOf hash)))"

definition relayHashLabel :: string where "relayHashLabel = ''Relay transaction hash''"

definition sameRelayTransactionHash :: "jsval \<Rightarrow> jsval \<Rightarrow> jsval \<Rightarrow> jsval \<Rightarrow> bool res" where
  "sameRelayTransactionHash leftChainId leftHash rightChainId rightHash =
     (if leftHash = JNull \<or> rightHash = JNull \<or> jsString leftChainId \<noteq> jsString rightChainId then Inr False
      else bindE (canonicalRelayTransactionHash leftChainId leftHash relayHashLabel) (\<lambda>l.
           bindE (canonicalRelayTransactionHash rightChainId rightHash relayHashLabel) (\<lambda>r. Inr (l = r))))"

text \<open>The first cycle with another leg that has the hash on either side.\<close>

definition hashOwner :: "(string \<times> (string \<times> jsval) list) list \<Rightarrow> jsval \<Rightarrow> jsval \<Rightarrow> string \<Rightarrow> string \<Rightarrow> string option res" where
  "hashOwner known chainId hash exceptCycleId exceptRequest =
     (if hash = JNull then Inr None
      else bindE (canonicalRelayTransactionHash chainId hash relayHashLabel) (\<lambda>canonical.
           foldE (\<lambda>_ (cycleId, request, leg) found.
             if found \<noteq> None \<or> (cycleId = exceptCycleId \<and> request = exceptRequest) then Inr found
             else bindE (sameRelayTransactionHash (jprop leg ''sourceChainId'') (jprop leg ''sourceTxHash'') chainId (JStr canonical)) (\<lambda>same.
                  if same then Inr (Some cycleId)
                  else bindE (sameRelayTransactionHash (jprop leg ''destinationChainId'') (jprop leg ''destinationTxHash'') chainId (JStr canonical)) (\<lambda>same'.
                       Inr (if same' then Some cycleId else None))))
             0 (concat (map (\<lambda>(cycleId, legs). map (\<lambda>(request, leg). (cycleId, request, leg)) legs) known)) None))"

definition refuseOwner :: "string option \<Rightarrow> string \<Rightarrow> unit res" where
  "refuseOwner owner message = (case owner of None \<Rightarrow> Inr () | Some cycleId \<Rightarrow> Inl (JsError (message @ cycleId)))"

section \<open>Recording and attributing\<close>

definition recordRelayLeg :: "string \<Rightarrow> jsval \<Rightarrow> 'y money_state replay_state res \<Rightarrow> 'y money_state plan res" where
  "recordRelayLeg cycleId legValue replay =
     bindE (assertRelayLeg legValue ''Relay leg'') (\<lambda>leg.
     bindE (throwIf (jprop leg ''cycleId'' \<noteq> JStr cycleId \<or> jprop leg ''state'' \<noteq> JStr ''RECORDED'' \<or> jprop leg ''sourceTxHash'' \<noteq> JNull)
       ''cycle-repository recordRelayLeg requires an unsigned recorded Relay leg for this cycle'') (\<lambda>_.
     bindE replay (\<lambda>state.
     bindE (refuseTerminal ''recordRelayLeg'' state) (\<lambda>_.
     let request = jprop leg ''relayRequestId'' in
     case getAt (md_legs (rp_other state)) request of
       Some current \<Rightarrow>
         bindE (textsDiffer current leg) (\<lambda>differ.
         bindE (throwIf differ ''cycle-repository recordRelayLeg: Relay request id already has different evidence'') (\<lambda>_.
         Inr (Return current)))
     | None \<Rightarrow> Inr (Append [(''relay-leg-recorded'', JObj [(''leg'', leg)])] (Some ''recordRelayLeg'')
         (\<lambda>current. throwIf (getAt (md_legs (rp_other current)) request \<noteq> None) ''cycle-repository recordRelayLeg: Relay leg changed while recording'')
         (\<lambda>_. leg))))))"

definition requestString :: "jsval \<Rightarrow> string \<Rightarrow> unit res" where
  "requestString v name = throwIf (\<not> str_matches (\<lambda>s. s \<noteq> []) v) (''cycle-repository '' @ name @ '': relayRequestId is invalid'')"

definition readRelayLeg :: "jsval \<Rightarrow> 'y money_state replay_state res \<Rightarrow> jsval res" where
  "readRelayLeg request replay =
     bindE (requestString request ''readRelayLeg'') (\<lambda>_.
     bindE replay (\<lambda>state.
     Inr (case getAt (md_legs (rp_other state)) request of None \<Rightarrow> JNull | Some leg \<Rightarrow> leg)))"

text \<open>The second guard of attribution and settlement: the leg is still the one the operation saw.\<close>

definition legUnchanged :: "jsval \<Rightarrow> jsval \<Rightarrow> string \<Rightarrow> 'y money_state replay_state \<Rightarrow> unit res" where
  "legUnchanged request leg message current =
     (case getAt (md_legs (rp_other current)) request of None \<Rightarrow> Inl (JsError message)
      | Some latest \<Rightarrow> bindE (textsDiffer latest leg) (\<lambda>differ. throwIf differ message))"

definition recordRelayLegSource ::
  "(string \<times> (string \<times> jsval) list) list \<Rightarrow> string \<Rightarrow> jsval \<Rightarrow> jsval \<Rightarrow> 'y money_state replay_state res \<Rightarrow> 'y money_state plan res"
where
  "recordRelayLegSource known cycleId request sourceTxHash replay =
     bindE (requestString request ''recordRelayLegSource'') (\<lambda>_.
     bindE (throwIf (\<not> str_matches (\<lambda>s. s \<noteq> []) sourceTxHash) ''cycle-repository recordRelayLegSource: sourceTxHash is invalid'') (\<lambda>_.
     bindE replay (\<lambda>state.
     bindE (refuseTerminal ''recordRelayLegSource'' state) (\<lambda>_.
     case getAt (md_legs (rp_other state)) request of
       None \<Rightarrow> Inl (JsError ''cycle-repository recordRelayLegSource: no recorded Relay leg exists'')
     | Some current \<Rightarrow>
         bindE (attributeRelayLegSource current sourceTxHash) (\<lambda>leg.
         bindE (textsDiffer current leg) (\<lambda>differ.
         if \<not> differ then Inr (Return current)
         else let chainId = jprop current ''sourceChainId'' in
              bindE (canonicalRelayTransactionHash chainId sourceTxHash ''cycle-repository recordRelayLegSource sourceTxHash'') (\<lambda>_.
              bindE (hashOwner known chainId sourceTxHash cycleId (str_of request)) (\<lambda>owner.
              bindE (refuseOwner owner ''cycle-repository recordRelayLegSource: transaction hash is already attributed to '') (\<lambda>_.
              Inr (Append [(''relay-leg-source-recorded'', JObj [(''relayRequestId'', request), (''leg'', leg)])] (Some ''recordRelayLegSource'')
                (legUnchanged request current ''cycle-repository recordRelayLegSource: Relay leg changed while recording source hash'')
                (\<lambda>_. leg))))))))))) "

section \<open>What the chains show of an outbound leg\<close>

text \<open>\<open>records.filter(f)\<close> where \<open>f\<close> can throw.\<close>

definition filterE :: "('a \<Rightarrow> bool res) \<Rightarrow> 'a list \<Rightarrow> 'a list res" where
  "filterE f xs = foldE (\<lambda>_ x acc. bindE (f x) (\<lambda>keep. Inr (if keep then acc @ [x] else acc))) 0 xs []"

definition outboundRelayRecoveryContext :: "'y money_env \<Rightarrow> 'y money_state replay_state \<Rightarrow> jsval \<Rightarrow> jsval res" where
  "outboundRelayRecoveryContext env st leg =
     (let chainId = jprop leg ''sourceChainId'' in
      bindE (filterE (\<lambda>c. case ca_hash (cn_attempt c) of None \<Rightarrow> Inr False
                          | Some h \<Rightarrow> sameRelayTransactionHash chainId (JStr h) chainId (jprop leg ''sourceTxHash'')) (stageRecords st ''outbound'')) (\<lambda>attempts.
      case attempts of
        [c] \<Rightarrow> (case filter (\<lambda>x. jprop x ''stage'' = JStr ''outbound'' \<and> jprop x ''recipient'' = JNull
                   \<and> jprop x ''requestDigest'' = JStr (ca_requestDigest (cn_attempt c)) \<and> jprop x ''rawSignedBytesHash'' = nullable (ca_hash (cn_attempt c)))
                  (mo_recoveryContexts env (md_rest (rp_other st))) of
             [x] \<Rightarrow> Inr x
           | _ \<Rightarrow> Inl (JsError ''relay settlement has no durable signed outbound recovery context''))
      | _ \<Rightarrow> Inl (JsError ''relay settlement cannot bind the source hash to one durable outbound attempt'')))"

definition outboundRelayQuoteDeadline :: "'y money_env \<Rightarrow> 'y money_state replay_state \<Rightarrow> jsval \<Rightarrow> jsval res" where
  "outboundRelayQuoteDeadline env st leg =
     bindE (outboundRelayRecoveryContext env st leg) (\<lambda>x.
     let deadline = jprop x ''relayQuoteDeadlineUnixSeconds'' in
     bindE (throwIf (\<not> str_matches is_pos_decimal deadline) ''relay settlement durable outbound quote deadline is invalid'') (\<lambda>_. Inr deadline))"

definition assertRelayEvmAddress :: "jsval \<Rightarrow> string \<Rightarrow> string res" where
  "assertRelayEvmAddress v label =
     (if \<not> str_matches (any_hex_pattern 40) v then Inl (JsError (label @ '' is invalid'')) else Inr (lowerOf v))"

definition outboundRelayRoute :: "'y money_env \<Rightarrow> 'y money_state replay_state \<Rightarrow> jsval \<Rightarrow> jsval res" where
  "outboundRelayRoute env st leg =
     bindE (outboundRelayRecoveryContext env st leg) (\<lambda>x.
     let intent = jprop x ''relayIntent''; route = jprop x ''relayRoute'' in
     bindE (throwIf (nullish intent \<or> nullish route) ''relay settlement has no durable persisted outbound route accounts'') (\<lambda>_.
     bindE (if jprop leg ''schema'' = JStr ''hookemon.relay-leg.v2'' \<and> jprop leg ''sourceChainId'' = JStr ''4663''
               \<and> jprop leg ''sourceAssetId'' = JStr ''native'' \<and> jprop leg ''sourceDecimals'' = JNum 18 then Inr ''native''
            else assertRelayEvmAddress (jprop leg ''sourceAssetId'') ''relay settlement source asset'') (\<lambda>sourceCurrency.
     bindE (throwIf (\<not> list_all (\<lambda>(a, b). strictEq a b)
         [(jprop intent ''requestId'', jprop leg ''relayRequestId''), (JStr (jsString (jprop intent ''originChainId'')), jprop leg ''sourceChainId''),
          (jprop intent ''originAssetId'', JStr sourceCurrency), (jprop intent ''originDecimals'', jprop leg ''sourceDecimals''),
          (jprop intent ''originAmount'', jprop leg ''sourceAmountAtomic''), (JStr (jsString (jprop intent ''destinationChainId'')), jprop leg ''destinationChainId''),
          (jprop intent ''destinationAssetId'', jprop leg ''destinationAssetId''), (jprop intent ''destinationDecimals'', jprop leg ''destinationDecimals''),
          (jprop intent ''quotedDestinationAmount'', jprop leg ''destinationAmountAtomic''), (jprop intent ''sender'', jprop route ''sourceSender''),
          (jprop intent ''recipient'', jprop route ''destinationOwner''),
          (JStr (jsString (jprop intent ''deadlineUnixSeconds'')), jprop x ''relayQuoteDeadlineUnixSeconds'')])
       ''relay settlement durable outbound route does not match its recorded Relay leg'') (\<lambda>_.
     Inr route))))"

definition observedOutboundSourceFinality :: "'y money_env \<Rightarrow> jsval \<Rightarrow> jsval \<Rightarrow> jsval \<Rightarrow> jsval res" where
  "observedOutboundSourceFinality env leg sourceProof route =
     bindE (throwIf (jprop leg ''schema'' \<noteq> JStr ''hookemon.relay-leg.v2'' \<or> jprop leg ''sourceAssetId'' \<noteq> JStr ''native'' \<or> jprop leg ''sourceDecimals'' \<noteq> JNum 18
         \<or> \<not> mo_isPaymentProof env sourceProof (JObj [(''kind'', JStr ''direct''), (''chainId'', JStr ''4663''), (''assetId'', JStr ''native''), (''decimals'', JNum 18),
              (''transactionHash'', JStr (lowerOf (jprop leg ''sourceTxHash''))), (''source'', JStr (lowerOf (jprop route ''sourceSender''))),
              (''recipient'', JStr (lowerOf (jprop route ''sourceRecipient''))), (''amountWei'', jprop leg ''sourceAmountAtomic'')]))
       ''relay settlement requires an own process finalized native source proof'') (\<lambda>_.
     Inr (JObj [(''height'', jprop sourceProof ''blockNumber''), (''hash'', jprop sourceProof ''blockHash''),
       (''timestampUnixSeconds'', jprop sourceProof ''timestampUnixSeconds'')]))"

definition observedOutboundDestination :: "'y money_env \<Rightarrow> jsval \<Rightarrow> jsval \<Rightarrow> jsval \<Rightarrow> jsval res" where
  "observedOutboundDestination env leg observation route =
     bindE (throwIf (\<not> mo_isDestinationObservation env observation (JObj [(''owner'', jprop route ''destinationOwner''), (''relayRequestId'', jprop leg ''relayRequestId'')]))
       ''relay settlement requires an own process RPC destination observation'') (\<lambda>_.
     bindE (throwIf (\<not> str_matches (\<lambda>s. s \<noteq> []) (jprop observation ''transactionHash'') \<or> \<not> str_matches (\<lambda>s. s \<noteq> []) (jprop observation ''mint'')
         \<or> \<not> str_matches signed_decimal (jprop observation ''netDeltaAtomic'')) ''relay settlement destination observation is invalid'') (\<lambda>_.
     bindE (structuredClone (jprop observation ''finality'')) (\<lambda>finality.
     bindE (structuredClone (jprop observation ''attribution'')) (\<lambda>attribution.
     Inr (JObj [(''transactionHash'', jprop observation ''transactionHash''), (''mint'', jprop observation ''mint''),
       (''netDeltaAtomic'', jprop observation ''netDeltaAtomic''), (''finality'', finality), (''attribution'', attribution)])))))"

definition outboundRelayTerminalState :: "jsval \<Rightarrow> jsval \<Rightarrow> jsval \<Rightarrow> jsval \<Rightarrow> string res" where
  "outboundRelayTerminalState leg sourceFinality destination deadline =
     (if jprop destination ''mint'' \<noteq> jprop leg ''destinationAssetId'' then Inr ''HELD_RELAY_WRONG_ASSET''
      else bindE (js_BigInt (jprop destination ''netDeltaAtomic'')) (\<lambda>observedDelta.
           bindE (throwIf (observedDelta \<le> 0) ''a destination-side debit or zero delta never proves an origin-chain Relay refund'') (\<lambda>_.
           bindE (js_BigInt (jprop leg ''destinationAmountAtomic'')) (\<lambda>expected.
           if observedDelta \<noteq> expected then Inr ''HELD_RELAY_PARTIAL''
           else bindE (throwIf (deadline = JNull) ''relay settlement has no durable signed outbound quote deadline'') (\<lambda>_.
                bindE (js_BigInt (jprop sourceFinality ''timestampUnixSeconds'')) (\<lambda>sourceTimestamp.
                bindE (getProp (jprop destination ''finality'') ''timestampUnixSeconds'') (\<lambda>t.
                bindE (js_BigInt t) (\<lambda>destinationTimestamp.
                bindE (js_BigInt deadline) (\<lambda>latest.
                Inr (if destinationTimestamp < sourceTimestamp \<or> latest < destinationTimestamp then ''HELD_RELAY_LATE'' else ''SETTLED'')))))))))) "

definition REFUND_PROOF_FIELDS :: "string list" where
  "REFUND_PROOF_FIELDS = [''schema'', ''relayRequestId'', ''terminalStatus'', ''sourceTxHash'', ''sourceFinality'', ''refundTxHash'', ''refundFinality'',
     ''transferCount'', ''observedToken'', ''observedSource'', ''sourceDepository'', ''nativePaymentProof'', ''observedRecipient'', ''observedAmountAtomic'']"

text \<open>\<open>assertRuntimeExactObject\<close> is the exact-schema check of the money schemas, without serializing the value.\<close>

definition refundBinds :: "'y money_env \<Rightarrow> jsval \<Rightarrow> jsval \<Rightarrow> jsval \<Rightarrow> jsval \<Rightarrow> bool res" where
  "refundBinds env leg proof route sourceFinality =
     (let chainId = jprop leg ''sourceChainId''; status = jprop proof ''terminalStatus''; amount = jprop proof ''observedAmountAtomic'' in
      if jprop proof ''schema'' \<noteq> JStr ''hookemon.outbound-relay-origin-refund-proof.v2'' \<or> jprop leg ''schema'' \<noteq> JStr ''hookemon.relay-leg.v2''
         \<or> \<not> mo_isPaymentProof env (jprop proof ''nativePaymentProof'') (JObj [(''kind'', JStr ''relay-refund''), (''transactionHash'', jprop proof ''refundTxHash''),
              (''source'', jprop proof ''observedSource''), (''recipient'', jprop proof ''observedRecipient''), (''amountWei'', amount)])
         \<or> \<not> strictEq (jprop proof ''relayRequestId'') (jprop leg ''relayRequestId'') \<or> jprop status ''status'' \<noteq> JStr ''REFUND'' then Inr False
      else bindE (sameRelayTransactionHash chainId (jprop proof ''sourceTxHash'') chainId (jprop leg ''sourceTxHash'')) (\<lambda>sameSource.
           if \<not> sameSource then Inr False
           else bindE (sameRelayTransactionHash chainId (jprop proof ''refundTxHash'') chainId (jprop status ''refundTxHash'')) (\<lambda>sameRefund.
           if \<not> sameRefund \<or> jprop proof ''transferCount'' \<noteq> JNum 1 \<or> jprop proof ''observedToken'' \<noteq> JStr ''native''
              \<or> \<not> strictEq (jprop proof ''sourceDepository'') (jprop route ''sourceRecipient'') \<or> \<not> strictEq (jprop proof ''observedRecipient'') (jprop route ''sourceSender'')
              \<or> \<not> str_matches is_pos_decimal amount \<or> nat_of_dec (str_of (jprop leg ''sourceAmountAtomic'')) < nat_of_dec (str_of amount) then Inr False
           else bindE (textsDiffer (jprop proof ''sourceFinality'') sourceFinality) (\<lambda>differ. Inr (\<not> differ)))))"

definition observedOutboundRefundSettlement ::
  "'y money_env \<Rightarrow> 'y money_state replay_state \<Rightarrow> jsval \<Rightarrow> jsval \<Rightarrow> jsval \<Rightarrow> jsval \<Rightarrow> (jsval \<times> jsval) res"
where
  "observedOutboundRefundSettlement env st leg sourceFinality proof route =
     (let amount = jprop proof ''observedAmountAtomic''; request = jprop leg ''relayRequestId'' in
      bindE (throwIf (\<not> mo_isRefundProof env proof (JObj [(''relayRequestId'', request), (''sourceTxHash'', jprop leg ''sourceTxHash''),
          (''sourceDepository'', jprop route ''sourceRecipient'')])) ''relay refund settlement requires an own process RPC origin credit proof'') (\<lambda>_.
      bindE (assertMoneyObject proof REFUND_PROOF_FIELDS ''relay refund proof'') (\<lambda>_.
      bindE (exactObject (jprop proof ''terminalStatus'') [''status'', ''refundTxHash''] ''relay refund terminal status'') (\<lambda>_.
      bindE (refundBinds env leg proof route sourceFinality) (\<lambda>binds.
      bindE (throwIf (\<not> binds) ''relay refund proof does not bind the durable source route and amount'') (\<lambda>_.
      bindE (assertRelayFinality (jprop proof ''refundFinality'') ''relay refund finality'') (\<lambda>refundFinality.
      bindE (outboundRelayQuoteDeadline env st leg) (\<lambda>deadlineText.
      bindE (js_BigInt deadlineText) (\<lambda>deadline.
      bindE (js_BigInt (jprop refundFinality ''timestampUnixSeconds'')) (\<lambda>refundAt.
      bindE (js_BigInt (jprop sourceFinality ''timestampUnixSeconds'')) (\<lambda>sourceAt.
      bindE (throwIf (refundAt < sourceAt \<or> deadline < refundAt) ''relay refund proof is outside the durable settlement window'') (\<lambda>_.
      bindE (structuredClone proof) (\<lambda>refundProof.
      assertOutboundRelaySettlementInput leg (JObj [(''sourceFinality'', sourceFinality), (''destinationTxHash'', jprop proof ''refundTxHash''),
        (''destinationFinality'', refundFinality), (''netDeltaAtomic'', amount),
        (''attribution'', JObj [(''schema'', relayAttributionSchema), (''observer'', JStr ''process-rpc''), (''requestId'', request), (''memo'', request),
           (''observedAmountAtomic'', amount)]),
        (''terminalState'', JStr ''HELD_RELAY_REFUND''), (''refundProof'', refundProof)])))))))))))))) "

definition observedOutboundRelaySettlement ::
  "'y money_env \<Rightarrow> 'y money_state replay_state \<Rightarrow> jsval \<Rightarrow> jsval \<Rightarrow> (jsval \<times> jsval) res"
where
  "observedOutboundRelaySettlement env st leg v =
     bindE (throwIf (jprop leg ''direction'' \<noteq> JStr ''outbound'') ''relay settlement requires documented destination attribution for this direction'') (\<lambda>_.
     bindE (outboundRelayRoute env st leg) (\<lambda>route.
     if hasOwn v ''refundProof''
     then bindE (assertMoneyObject v [''sourceProof'', ''refundProof''] ''relay refund settlement observation'') (\<lambda>_.
          bindE (observedOutboundSourceFinality env leg (jprop v ''sourceProof'') route) (\<lambda>sourceFinality.
          observedOutboundRefundSettlement env st leg sourceFinality (jprop v ''refundProof'') route))
     else bindE (assertMoneyObject v [''sourceProof'', ''destinationObservation''] ''relay settlement observation'') (\<lambda>_.
          bindE (observedOutboundSourceFinality env leg (jprop v ''sourceProof'') route) (\<lambda>sourceFinality.
          bindE (observedOutboundDestination env leg (jprop v ''destinationObservation'') route) (\<lambda>destination.
          bindE (if jprop destination ''mint'' \<noteq> jprop leg ''destinationAssetId'' then Inr False
                 else bindE (js_BigInt (jprop destination ''netDeltaAtomic'')) (\<lambda>a. bindE (js_BigInt (jprop leg ''destinationAmountAtomic'')) (\<lambda>b. Inr (a = b)))) (\<lambda>exactCredit.
          bindE (if exactCredit then outboundRelayQuoteDeadline env st leg else Inr JNull) (\<lambda>deadline.
          bindE (outboundRelayTerminalState leg sourceFinality destination deadline) (\<lambda>terminalState.
          assertOutboundRelaySettlementInput leg (JObj [(''sourceFinality'', sourceFinality), (''destinationTxHash'', jprop destination ''transactionHash''),
            (''destinationFinality'', jprop destination ''finality''), (''netDeltaAtomic'', jprop destination ''netDeltaAtomic''),
            (''attribution'', jprop destination ''attribution''), (''terminalState'', JStr terminalState)])))))))))"

section \<open>Settling\<close>

definition observedReturnRelaySettlement ::
  "'y money_env \<Rightarrow> 'y money_state replay_state \<Rightarrow> jsval \<Rightarrow> jsval \<Rightarrow> (jsval \<times> jsval) res"
where
  "observedReturnRelaySettlement env st leg v =
     (let proofValue = jprop v ''returnDestinationProof''; md = rp_other st in
      bindE (throwIf (jprop leg ''schema'' \<noteq> JStr ''hookemon.relay-leg.v2'' \<or> \<not> nativeReturnProof proofValue)
        ''native return settlement refuses historical token legs and proofs'') (\<lambda>_.
      bindE (assertMoneyObject v [''returnDestinationProof''] ''return relay settlement observation'') (\<lambda>_.
      bindE (throwIf (jprop leg ''direction'' \<noteq> JStr ''return'') ''return relay settlement requires a return Relay leg'') (\<lambda>_.
      bindE (throwIf (\<not> mo_isReturnProof env proofValue (JObj [(''relayRequestId'', jprop leg ''relayRequestId''), (''sourceTxHash'', jprop leg ''sourceTxHash'')]))
        ''relay settlement requires an own process RPC return destination proof'') (\<lambda>_.
      bindE (assertReturnLegDestinationProof proofValue ''return relay settlement proof'') (\<lambda>proof.
      bindE (returnRelayTerminalState leg proof) (\<lambda>terminalState.
      bindE (transitionRelayLeg leg terminalState (settlementEvidence (jprop proof ''sourceFinality'') (jprop proof ''destinationTxHash'')
        (jprop proof ''destinationFinality'') (jprop proof ''observedAmountAtomic''))) (\<lambda>provisional.
      bindE (if terminalState = ''SETTLED'' then returnSettlementCustodyLedger md provisional else Inr (clearedReturnExpectationLedger md provisional)) (\<lambda>custody.
      assertRelaySettlementInput st leg (JObj [(''sourceFinality'', jprop proof ''sourceFinality''), (''destinationTxHash'', jprop proof ''destinationTxHash''),
        (''destinationFinality'', jprop proof ''destinationFinality''), (''netDeltaAtomic'', jprop proof ''observedAmountAtomic''),
        (''returnDestinationProof'', proof), (''terminalState'', JStr terminalState), (''custodyLedger'', custody)]))))))))))"

text \<open>The ledger under a key is still the one the operation saw.\<close>

definition custodyUnchanged :: "string \<Rightarrow> 'y money_state \<Rightarrow> string \<Rightarrow> 'y money_state replay_state \<Rightarrow> unit res" where
  "custodyUnchanged key md message current =
     (let read = (\<lambda>m. case omap_get (md_custody m) key of None \<Rightarrow> JNull | Some l \<Rightarrow> l) in
      bindE (textsDiffer (read (rp_other current)) (read md)) (\<lambda>differ. throwIf differ message))"

text \<open>A hold of the leg also ends the cycle, in the same append.\<close>

definition settlementEvents :: "jsval \<Rightarrow> jsval \<Rightarrow> jsval \<Rightarrow> (string \<times> jsval) list" where
  "settlementEvents request leg settlement =
     (''relay-leg-settled'', JObj [(''relayRequestId'', request), (''leg'', leg), (''settlement'', settlement)])
     # (if jprop leg ''state'' \<in> JStr ` set RELAY_LEG_TERMINAL_STATES
        then [(''cycle-terminal'', JObj [(''terminalState'', jprop leg ''state''), (''evidence'', JObj [(''relayRequestId'', request),
                (''sourceTxHash'', jprop leg ''sourceTxHash''), (''destinationTxHash'', jprop leg ''destinationTxHash''), (''settlement'', settlement)])])]
        else [])"

definition settleRelayLeg ::
  "'y money_env \<Rightarrow> (string \<times> (string \<times> jsval) list) list \<Rightarrow> string \<Rightarrow> jsval \<Rightarrow> jsval \<Rightarrow> 'y money_state replay_state res
    \<Rightarrow> 'y money_state plan res"
where
  "settleRelayLeg env known cycleId request settlementValue replay =
     bindE (requestString request ''settleRelayLeg'') (\<lambda>_.
     bindE replay (\<lambda>state.
     bindE (refuseTerminal ''settleRelayLeg'' state) (\<lambda>_.
     case getAt (md_legs (rp_other state)) request of
       None \<Rightarrow> Inl (JsError ''cycle-repository settleRelayLeg: no recorded Relay leg exists'')
     | Some current \<Rightarrow>
         bindE (if jprop current ''direction'' = JStr ''outbound'' then observedOutboundRelaySettlement env state current settlementValue
                else observedReturnRelaySettlement env state current settlementValue) (\<lambda>(leg, settlement).
         let destinationChain = jprop leg ''destinationChainId''; destinationHash = jprop leg ''destinationTxHash''; custody = jprop settlement ''custodyLedger'' in
         bindE (sameRelayTransactionHash destinationChain destinationHash (jprop leg ''sourceChainId'') (jprop leg ''sourceTxHash'')) (\<lambda>same.
         bindE (throwIf same ''cycle-repository settleRelayLeg: source and destination transaction hashes must be globally distinct'') (\<lambda>_.
         bindE (hashOwner known destinationChain destinationHash cycleId (str_of request)) (\<lambda>owner.
         bindE (refuseOwner owner ''cycle-repository settleRelayLeg: transaction hash is already attributed to '') (\<lambda>_.
         bindE (canonicalRelayTransactionHash destinationChain destinationHash relayHashLabel) (\<lambda>_.
         Inr (Append (settlementEvents request leg settlement) (Some ''settleRelayLeg'')
           (\<lambda>now. bindE (legUnchanged request current ''cycle-repository settleRelayLeg: Relay leg changed while recording settlement'' now) (\<lambda>_.
                  if nullish custody then Inr ()
                  else custodyUnchanged (custodyLedgerKey custody) (rp_other state)
                         ''cycle-repository settleRelayLeg: return custody changed while recording settlement'' now))
           (\<lambda>_. leg)))))))))))"

section \<open>Custody\<close>

definition recordCustodyLedger :: "string \<Rightarrow> jsval \<Rightarrow> 'y money_state replay_state res \<Rightarrow> 'y money_state plan res" where
  "recordCustodyLedger cycleId ledgerValue replay =
     bindE (assertCustodyLedger ledgerValue ''custody ledger'' False) (\<lambda>ledger.
     bindE (throwIf (jprop ledger ''cycleId'' \<noteq> JStr cycleId) ''cycle-repository custody ledger cycleId does not match'') (\<lambda>_.
     Inr (Append [(''custody-ledger-recorded'', JObj [(''ledger'', ledger)])] None
       (\<lambda>state. let previous = omap_get (md_custody (rp_other state)) (custodyLedgerKey ledger) in
          bindE (assertCustodyLedgerTransition previous ledger custodyLabel) (\<lambda>_.
          assertCustodyLedgerExpectedAssetUnchanged previous ledger custodyLabel))
       (\<lambda>_. JUndefined))))"

text \<open>The fresh valuation of a native return: made by this process, still valid, and the one the leg carries.\<close>

definition assertFreshProceeds :: "'y money_env \<Rightarrow> (string \<Rightarrow> string) \<Rightarrow> jsval \<Rightarrow> jsval \<Rightarrow> jsval \<Rightarrow> unit res" where
  "assertFreshProceeds env sha leg destinationUsd now =
     (if jprop leg ''schema'' \<noteq> JStr ''hookemon.relay-leg.v2'' then Inr ()
      else let usd = jprop (jprop leg ''returnAttribution'') ''destinationUsd''; stale = ''native return expectation requires fresh producer USD proceeds capability'' in
           bindE (mo_nativeValuation env leg) (\<lambda>_.
           bindE (throwIf (\<not> mo_isUsdValuation env destinationUsd (JObj [(''amount'', jprop usd ''amount''), (''quoteDigest'', jprop usd ''quoteDigest''),
               (''quoteRequestId'', jprop leg ''relayRequestId''), (''sourcePath'', JStr ''details.currencyOut.amountUsd''), (''rounding'', JStr ''down'')])) stale) (\<lambda>_.
           bindE (digest sha destinationUsd) (\<lambda>given.
           bindE (digest sha usd) (\<lambda>carried.
           throwIf (given \<noteq> carried \<or> num_of now < num_of (jprop destinationUsd ''observedAtMs'') \<or> num_of (jprop destinationUsd ''validUntilMs'') \<le> num_of now) stale)))))"

definition recordReturnRelayLegExpectation ::
  "'y money_env \<Rightarrow> (string \<Rightarrow> string) \<Rightarrow> string \<Rightarrow> jsval \<Rightarrow> jsval \<Rightarrow> jsval \<Rightarrow> jsval \<Rightarrow> 'y money_state replay_state res
    \<Rightarrow> 'y money_state plan res"
where
  "recordReturnRelayLegExpectation env sha cycleId legValue ledgerValue destinationUsd now replay =
     (let name = ''cycle-repository recordReturnRelayLegExpectation'' in
      bindE (assertRelayLeg legValue ''return Relay leg expectation'') (\<lambda>leg.
      bindE (throwIf (jprop leg ''cycleId'' \<noteq> JStr cycleId \<or> jprop leg ''direction'' \<noteq> JStr ''return'' \<or> jprop leg ''state'' \<noteq> JStr ''RECORDED''
          \<or> jprop leg ''sourceTxHash'' \<noteq> JNull) (name @ '' requires an unsigned recorded return Relay leg for this cycle'')) (\<lambda>_.
      bindE (assertCustodyLedger ledgerValue ''return relay leg expectation custody ledger'' False) (\<lambda>ledger.
      bindE (throwIf (jprop ledger ''cycleId'' \<noteq> JStr cycleId) (name @ '': custody ledger cycleId does not match'')) (\<lambda>_.
      bindE (throwIf (\<not> observesBalance ledger \<or> jprop ledger ''expectedCycleAsset'' = JNull)
        (name @ '' requires a v2 custody ledger with a populated expectedCycleAsset'')) (\<lambda>_.
      bindE (throwIf (jprop ledger ''decimals'' \<noteq> jprop leg ''destinationDecimals'') (name @ '': custody ledger decimals do not match the Relay leg destination'')) (\<lambda>_.
      bindE (throwIf (jprop (jprop ledger ''expectedCycleAsset'') ''amountAtomic'' \<noteq> jprop leg ''destinationAmountAtomic'')
        (name @ '': expectedCycleAsset amount does not match the Relay leg'')) (\<lambda>_.
      bindE replay (\<lambda>state.
      bindE (refuseTerminal ''recordReturnRelayLegExpectation'' state) (\<lambda>_.
      let md = rp_other state; request = jprop leg ''relayRequestId''; key = custodyLedgerKey ledger; previous = omap_get (md_custody md) key in
      case getAt (md_legs md) request of
        Some current \<Rightarrow>
          bindE (textsDiffer current leg) (\<lambda>differ.
          bindE (throwIf differ (name @ '': Relay request id already has different evidence'')) (\<lambda>_.
          let other = name @ '': Relay request id already has a different custody ledger association'' in
          bindE (throwIf (getAt (md_returnKeys md) request \<noteq> Some key) other) (\<lambda>_.
          bindE (textsDiffer (case previous of None \<Rightarrow> JNull | Some l \<Rightarrow> l) ledger) (\<lambda>differ'.
          bindE (throwIf differ' other) (\<lambda>_.
          Inr (Return current))))))
      | None \<Rightarrow>
          bindE (assertFreshProceeds env sha leg destinationUsd now) (\<lambda>_.
          bindE (throwIf (unresolvedReturnLegConflict (md_legs md) leg) (name @ '': an unresolved return leg for this destination already exists'')) (\<lambda>_.
          bindE (assertCustodyLedgerTransition previous ledger (name @ '' custody ledger'')) (\<lambda>_.
          bindE (assertExpectationAdded previous ledger (name @ '': custody ledger already carries an unresolved expectedCycleAsset'')
            (name @ '': custody ledger buckets must be unchanged when recording a return leg expectation'')) (\<lambda>_.
          Inr (Append [(''return-relay-leg-expectation-recorded'', JObj [(''leg'', leg), (''ledger'', ledger)])] (Some ''recordReturnRelayLegExpectation'')
            (\<lambda>current.
               bindE (throwIf (getAt (md_legs (rp_other current)) request \<noteq> None) (name @ '': Relay leg changed while recording'')) (\<lambda>_.
               bindE (throwIf (unresolvedReturnLegConflict (md_legs (rp_other current)) leg) (name @ '': an unresolved return leg for this destination already exists'')) (\<lambda>_.
               custodyUnchanged key md (name @ '': custody ledger changed while recording expectation'') current)))
            (\<lambda>_. leg)))))))))))))))) "

end
