(* ===== verification/Relay_Scenario.thy ===== *)
theory Relay_Scenario
  imports Relay_Operations Cycle_Ledger_Scenario
begin

text \<open>
  A concrete return, for the witnesses of \<open>Relay_Safety\<close>: a leg is recorded together with the expectation of its ledger, its source
  transaction is prepared, signed, broadcast and finalized, the leg is attributed and settled.
\<close>

definition ex_money :: "unit money_env" where
  "ex_money = \<lparr>mo_initial = (), mo_step = (\<lambda>_ _. Inr ((), [])), mo_admission = (\<lambda>_. JNull), mo_purchaseBatch = (\<lambda>_. JUndefined),
     mo_heldRetry = (\<lambda>_ _. False), mo_rewardEvidence = (\<lambda>_ _. Inr ()), mo_restoreValuations = (\<lambda>_. Inr ()), mo_resolveEvidence = (\<lambda>_ v. Inr v),
     mo_persistEvidence = (\<lambda>_ v. Inr v), mo_recoveryContexts = (\<lambda>_. []), mo_nativeValuation = (\<lambda>_. Inr ()), mo_isPaymentProof = (\<lambda>_ _. True),
     mo_isDestinationObservation = (\<lambda>_ _. True), mo_isRefundProof = (\<lambda>_ _. True), mo_isReturnProof = (\<lambda>_ _. True), mo_isUsdValuation = (\<lambda>_ _. True)\<rparr>"

definition ex_finality :: "string \<Rightarrow> string \<Rightarrow> jsval" where
  "ex_finality height time = JObj [(''height'', JStr height), (''hash'', JStr ''h''), (''timestampUnixSeconds'', JStr time)]"

definition ex_intent :: jsval where
  "ex_intent = JObj [(''schema'', JStr ''hookemon.relay-intent.v1''), (''requestId'', JStr ''r1''), (''orderId'', JStr ''o1''), (''direction'', JStr ''RETURN''),
     (''originChainId'', JNum 5), (''destinationChainId'', JNum 6), (''originAssetId'', JStr ''usdc''), (''originDecimals'', JNum 6),
     (''destinationAssetId'', JStr addr_a), (''destinationDecimals'', JNum 18), (''originAmount'', JStr ''7''), (''quotedDestinationAmount'', JStr ''500''),
     (''quotedDestinationMinimumAmount'', JNull), (''sender'', JStr ''s''), (''recipient'', JStr addr_b), (''deadlineUnixSeconds'', JNum 2000)]"

definition ex_leg :: "jsval \<Rightarrow> jsval list \<Rightarrow> string \<Rightarrow> jsval" where
  "ex_leg hash evidence state = JObj [(''schema'', JStr ''hookemon.relay-leg.v1''), (''cycleId'', JStr ex_cycle), (''direction'', JStr ''return''),
     (''relayRequestId'', JStr ''r1''), (''quoteDigest'', JStr ex_request), (''sourceChainId'', JStr ''5''), (''sourceTxHash'', hash),
     (''sourceAssetId'', JStr ''usdc''), (''sourceDecimals'', JNum 6), (''sourceAmountAtomic'', JStr ''7''), (''destinationChainId'', JStr ''6''),
     (''destinationTxHash'', evidence ! 0), (''destinationAssetId'', JStr addr_a), (''destinationDecimals'', JNum 18), (''destinationAmountAtomic'', JStr ''500''),
     (''finalizedAtSource'', evidence ! 1), (''finalizedAtDestination'', evidence ! 2), (''netDeltaAtomic'', evidence ! 3), (''state'', JStr state),
     (''returnAttribution'', JObj [(''schema'', JStr ''hookemon.return-leg-attribution-context.v1''), (''intent'', ex_intent),
        (''requestCreatedAtUnixSeconds'', JStr ''100''), (''maxSettlementWindowSeconds'', JStr ''1000'')])]"

definition ex_custody :: "string \<Rightarrow> jsval \<Rightarrow> jsval" where
  "ex_custody received expected = JObj ([(''schema'', ledgerV2), (''cycleId'', JStr ex_cycle), (''chainId'', JStr ''eip155''), (''assetId'', JStr ''token''),
     (''decimals'', JNum 18)] @ map (\<lambda>b. (b, JStr (if b = ''returnReceived'' then received else ''0''))) CUSTODY_LEDGER_BUCKETS
     @ [(''verifiedCurrentBalance'', JNull), (''expectedCycleAsset'', expected)])"

definition ex_expected :: jsval where
  "ex_expected = JObj [(''chainId'', JStr ''eip155''), (''assetId'', JStr ''token''), (''decimals'', JNum 18), (''amountAtomic'', JStr ''500'')]"

definition ex_return_chain :: "chain_state \<Rightarrow> (string \<times> jsval) list \<Rightarrow> jsval" where
  "ex_return_chain s extra = JObj ([(''stage'', JStr ''return''), (''attempt'', jsval_of_chain
     (if s = C_PREPARED
      then \<lparr>ca_cycleId = ex_cycle, ca_stage = ''return'', ca_state = s, ca_requestDigest = ex_request, ca_rawBytes = None, ca_nonce = None,
            ca_blockhash = None, ca_hash = None\<rparr>
      else \<lparr>ca_cycleId = ex_cycle, ca_stage = ''return'', ca_state = s, ca_requestDigest = ex_request, ca_rawBytes = Some ''0x02'', ca_nonce = Some ''7'',
            ca_blockhash = None, ca_hash = Some ''sig1''\<rparr>))] @ extra)"

definition ex_return_hash :: jsval where
  "ex_return_hash = JStr (''0x'' @ replicate 64 CHR ''b'')"

definition ex_return_proof :: jsval where
  "ex_return_proof = JObj [(''schema'', JStr ''hookemon.return-leg-destination-proof.v1''), (''relayRequestId'', JStr ''r1''),
     (''terminalStatus'', JObj [(''status'', JStr ''SUCCESS''), (''destinationTxHash'', ex_return_hash)]), (''sourceTxHash'', JStr ''sig1''),
     (''sourceFinality'', ex_finality ''1'' ''150''), (''destinationTxHash'', ex_return_hash), (''destinationFinality'', ex_finality ''2'' ''200''),
     (''transferCount'', JNum 1), (''observedToken'', JStr addr_a), (''observedRecipient'', JStr addr_b), (''observedAmountAtomic'', JStr ''500'')]"

definition ex_settlement :: jsval where
  "ex_settlement = JObj [(''sourceFinality'', ex_finality ''1'' ''150''), (''destinationTxHash'', ex_return_hash), (''destinationFinality'', ex_finality ''2'' ''200''),
     (''netDeltaAtomic'', JStr ''500''), (''returnDestinationProof'', ex_return_proof), (''terminalState'', JStr ''SETTLED''),
     (''custodyLedger'', ex_custody ''500'' JNull)]"


definition ex_leg_recorded :: jsval where "ex_leg_recorded = ex_leg JNull [JNull, JNull, JNull, JNull] ''RECORDED''"
definition ex_leg_sent :: jsval where "ex_leg_sent = ex_leg (JStr ''sig1'') [JNull, JNull, JNull, JNull] ''RECORDED''"
definition ex_leg_settled :: jsval where
  "ex_leg_settled = ex_leg (JStr ''sig1'') [ex_return_hash, ex_finality ''1'' ''150'', ex_finality ''2'' ''200'', JStr ''500''] ''SETTLED''"


definition ex_ledger_open :: jsval where "ex_ledger_open = ex_custody ''0'' ex_expected"
definition ex_ledger_credited :: jsval where "ex_ledger_credited = ex_custody ''500'' JNull"

lemma ex_relay_accepted:
  "assertRelayLeg ex_leg_recorded lab = Inr ex_leg_recorded" "assertRelayLeg ex_leg_sent lab = Inr ex_leg_sent"
  "assertRelayLeg ex_leg_settled lab = Inr ex_leg_settled"
  "assertCustodyLedger ex_ledger_open lab True = Inr ex_ledger_open"
  "assertCustodyLedger ex_ledger_open lab False = Inr ex_ledger_open"
  "assertCustodyLedger ex_ledger_credited lab False = Inr ex_ledger_credited"
  "assertReturnLegDestinationProof ex_return_proof lab = Inr ex_return_proof"
  by code_simp+

lemma ex_leg_fields:
  "list_all (\<lambda>leg. jprop leg ''cycleId'' = JStr ex_cycle \<and> jprop leg ''direction'' = JStr ''return'' \<and> jprop leg ''relayRequestId'' = JStr ''r1''
     \<and> jprop leg ''destinationDecimals'' = JNum 18 \<and> jprop leg ''destinationAmountAtomic'' = JStr ''500'' \<and> jprop leg ''schema'' = JStr ''hookemon.relay-leg.v1'')
   [ex_leg_recorded, ex_leg_sent, ex_leg_settled]
   \<and> jprop ex_leg_recorded ''state'' = JStr ''RECORDED'' \<and> jprop ex_leg_sent ''state'' = JStr ''RECORDED'' \<and> jprop ex_leg_settled ''state'' = JStr ''SETTLED''
   \<and> jprop ex_leg_recorded ''sourceTxHash'' = JNull \<and> jprop ex_leg_sent ''sourceTxHash'' = JStr ''sig1'' \<and> jprop ex_leg_settled ''netDeltaAtomic'' = JStr ''500''
   \<and> \<not> nativeAttribution (jprop ex_leg_recorded ''returnAttribution'')"
  by code_simp

lemma ex_ledger_fields:
  "jprop ex_ledger_open ''cycleId'' = JStr ex_cycle \<and> jprop ex_ledger_open ''decimals'' = JNum 18 \<and> observesBalance ex_ledger_open
   \<and> jprop ex_ledger_open ''expectedCycleAsset'' \<noteq> JNull \<and> jprop (jprop ex_ledger_open ''expectedCycleAsset'') ''amountAtomic'' = JStr ''500''
   \<and> jprop ex_ledger_open ''returnReceived'' = JStr ''0''"
  by code_simp

lemma ex_next_forms:
  "withProps (spread ex_leg_recorded) [(''sourceTxHash'', JStr ''sig1'')] = ex_leg_sent"
  "withProps (spread ex_leg_sent) (spread (settlementEvidence (ex_finality ''1'' ''150'') ex_return_hash (ex_finality ''2'' ''200'') (JStr ''500''))
     @ [(''state'', JStr ''SETTLED'')]) = ex_leg_settled"
  "withProps (spread ex_ledger_open) [(''returnReceived'', JStr ''500''), (''expectedCycleAsset'', JNull)] = ex_ledger_credited"
  by code_simp+

lemma ex_plain: "plainJson ex_leg_recorded" "plainJson ex_leg_sent" "plainJson ex_leg_settled" "plainJson ex_ledger_open" "plainJson ex_ledger_credited"
  "plainJson ex_return_proof"
  by code_simp+

lemma ex_text: "canonChecks ex_leg_sent = Inr ()" "\<not> nullish ex_ledger_credited" "textsDiffer ex_leg_settled ex_leg_settled = Inr False" "textsDiffer ex_ledger_credited ex_ledger_credited = Inr False"
  by code_simp+

definition ex_chain_events :: "jsval list" where
  "ex_chain_events = map (\<lambda>(i, ev). ex_entry i ev) (enumerate 1
     [(''chain-attempt-prepared'', ex_return_chain C_PREPARED []), (''chain-attempt-signed'', ex_return_chain C_SIGNED []),
      (''chain-attempt-broadcast'', ex_return_chain C_BROADCAST [(''evidence'', JObj [])]),
      (''chain-attempt-finalized'', ex_return_chain C_FINALIZED [(''evidence'', JObj [(''transactionHash'', JStr ''sig1''), (''debitedAmountAtomic'', JStr ''7''),
         (''finalizedAtSource'', ex_finality ''1'' ''150'')])])])"

definition ex_finalized_chain :: chain_record where
  "ex_finalized_chain = \<lparr>cn_attempt = \<lparr>ca_cycleId = ex_cycle, ca_stage = ''return'', ca_state = C_FINALIZED, ca_requestDigest = ex_request,
       ca_rawBytes = Some ''0x02'', ca_nonce = Some ''7'', ca_blockhash = None, ca_hash = Some ''sig1''\<rparr>, cn_broadcastEvidence = JObj [],
     cn_finalityEvidence = JObj [(''transactionHash'', JStr ''sig1''), (''debitedAmountAtomic'', JStr ''7''), (''finalizedAtSource'', ex_finality ''1'' ''150'')]\<rparr>"

definition ex_state :: "(string \<times> chain_record) list \<Rightarrow> unit money_state \<Rightarrow> unit money_state replay_state" where
  "ex_state chain md = (initialReplay (moneyParts ex_money ex_cycle))\<lparr>rp_chain := chain, rp_other := md\<rparr>"

definition ex_chain_map :: "(string \<times> chain_record) list" where
  "ex_chain_map = [(chainAttemptKey ''return'' ex_request, ex_finalized_chain)]"

lemma ex_chain_steps:
  "foldE (\<lambda>_ e st. replayEntry ex_sha (moneyParts ex_money ex_cycle) ex_cycle e st) 0 ex_chain_events (ex_state [] md) = Inr (ex_state ex_chain_map md)"
  by code_simp

definition ex_key :: string where "ex_key = custodyLedgerKey ex_ledger_open"

lemma ex_keys: "custodyLedgerKey ex_ledger_credited = ex_key"
  unfolding ex_key_def by code_simp

definition ex_money_start :: "unit money_state" where
  "ex_money_start = \<lparr>md_legs = [], md_custody = [], md_returnKeys = [], md_rest = ()\<rparr>"

definition ex_money_at :: "jsval \<Rightarrow> jsval \<Rightarrow> unit money_state" where
  "ex_money_at leg ledger = \<lparr>md_legs = [(''r1'', leg)], md_custody = [(ex_key, ledger)], md_returnKeys = [(''r1'', ex_key)], md_rest = ()\<rparr>"

definition ex_expectation_payload :: jsval where
  "ex_expectation_payload = JObj [(''leg'', ex_leg_recorded), (''ledger'', ex_ledger_open)]"

definition ex_source_payload :: jsval where
  "ex_source_payload = JObj [(''relayRequestId'', JStr ''r1''), (''leg'', ex_leg_sent)]"

definition ex_settled_payload :: jsval where
  "ex_settled_payload = JObj [(''relayRequestId'', JStr ''r1''), (''leg'', ex_leg_settled), (''settlement'', ex_settlement)]"

lemma ex_payloads:
  "jprop ex_expectation_payload ''leg'' = ex_leg_recorded" "jprop ex_expectation_payload ''ledger'' = ex_ledger_open"
  "jprop ex_source_payload ''relayRequestId'' = JStr ''r1''" "jprop ex_source_payload ''leg'' = ex_leg_sent"
  "jprop ex_settled_payload ''relayRequestId'' = JStr ''r1''" "jprop ex_settled_payload ''leg'' = ex_leg_settled"
  "jprop ex_settled_payload ''settlement'' = ex_settlement"
  by (simp_all add: ex_expectation_payload_def ex_source_payload_def ex_settled_payload_def jprop_def)

lemma ex_exact: "exactObject ex_expectation_payload [''leg'', ''ledger''] lab = Inr ()"
  by code_simp

lemma ex_exact2: "exactObject ex_settlement [''sourceFinality'', ''destinationTxHash'', ''destinationFinality'', ''netDeltaAtomic'', ''returnDestinationProof'', ''terminalState'',
       ''custodyLedger''] lab = Inr ()"
  by code_simp

lemma ex_expectation_step: "replayExpectation ex_money ex_cycle ex_expectation_payload ex_money_start = Inr (ex_money_at ex_leg_recorded ex_ledger_open)"
  using ex_leg_fields ex_ledger_fields
  by (simp add: replayExpectation_def ex_exact ex_payloads ex_relay_accepted ex_money_start_def ex_money_at_def getAt_def omap_get_def throwIf_def Let_def
     unresolvedReturnLegConflict_def assertCustodyLedgerTransition_def assertExpectationAdded_def setCustody_def setLeg_def ex_key_def)


lemma ex_sent_text: obtains t where "canonicalJson ex_leg_sent = Inr t"
  using canonChecks_only [of ex_leg_sent "Inr ()"] ex_text(1) by (cases "canonicalJson ex_leg_sent") simp_all

lemma ex_source_step: "replayLegSource ex_cycle ex_source_payload (ex_money_at ex_leg_recorded l) = Inr (ex_money_at ex_leg_sent l)"
proof -
  obtain t where "canonicalJson ex_leg_sent = Inr t" by (rule ex_sent_text)
  then show ?thesis using ex_leg_fields
    by (simp add: replayLegSource_def ex_payloads ex_relay_accepted ex_money_at_def getAt_def omap_get_def throwIf_def Let_def attributeRelayLegSource_def
       assertMoneyString_def str_matches_iff ex_next_forms setLeg_def)
qed

lemma ex_settlement_fields:
  "jprop ex_settlement ''returnDestinationProof'' = ex_return_proof" "jprop ex_settlement ''destinationTxHash'' = ex_return_hash"
  "jprop ex_settlement ''sourceFinality'' = ex_finality ''1'' ''150''" "jprop ex_settlement ''destinationFinality'' = ex_finality ''2'' ''200''"
  "jprop ex_settlement ''netDeltaAtomic'' = JStr ''500''" "jprop ex_settlement ''terminalState'' = JStr ''SETTLED''"
  "jprop ex_settlement ''custodyLedger'' = ex_ledger_credited" "jprop ex_return_proof ''relayRequestId'' = JStr ''r1''"
  "jprop ex_return_proof ''sourceTxHash'' = JStr ''sig1''" "jprop ex_return_proof ''destinationTxHash'' = ex_return_hash"
  "jprop ex_return_proof ''sourceFinality'' = ex_finality ''1'' ''150''" "jprop ex_return_proof ''destinationFinality'' = ex_finality ''2'' ''200''"
  "jprop ex_return_proof ''observedAmountAtomic'' = JStr ''500''"
  by code_simp+

lemma ex_settlement_checks:
  "textsDiffer (ex_finality ''1'' ''150'') (ex_finality ''1'' ''150'') = Inr False" "textsDiffer (ex_finality ''2'' ''200'') (ex_finality ''2'' ''200'') = Inr False"
  "finalizedReturnSource (ex_state ex_chain_map md) ex_leg_sent = Inr (ex_finality ''1'' ''150'')"
  "returnRelayTerminalState ex_leg_sent ex_return_proof = Inr ''SETTLED''"
  "structuredClone ex_settlement = Inr ex_settlement"
  "js_BigInt (JStr ''500'') = Inr 500" "js_BigInt (JStr ''0'') = Inr 0" "dec_of_nat 500 = ''500''"
  by code_simp+

lemma ex_relay_evidence:
  "falsy (settlementEvidence a b c d) = False" "typeofObject (settlementEvidence a b c d)" "isArray (settlementEvidence a b c d) = False"
  "sort (ownKeys (settlementEvidence a b c d)) = sort RELAY_LEG_SETTLEMENT_EVIDENCE"
  by code_simp+

lemma ex_evidence_clone:
  "structuredClone (settlementEvidence (ex_finality ''1'' ''150'') ex_return_hash (ex_finality ''2'' ''200'') (JStr ''500'')) = Inr (settlementEvidence (ex_finality ''1'' ''150'') ex_return_hash (ex_finality ''2'' ''200'') (JStr ''500''))"
  by code_simp

lemma ex_transition:
  "transitionRelayLeg ex_leg_sent ''SETTLED'' (settlementEvidence (ex_finality ''1'' ''150'') ex_return_hash (ex_finality ''2'' ''200'') (JStr ''500'')) = Inr ex_leg_settled"
  using ex_leg_fields by (simp add: transitionRelayLeg_def ex_relay_accepted throwIf_def ex_relay_evidence ex_evidence_clone ex_next_forms)

lemma ex_credit:
  "returnSettlementCustodyLedger (ex_money_at leg ex_ledger_open) ex_leg_settled = Inr ex_ledger_credited"
  using ex_leg_fields ex_ledger_fields
  by (simp add: returnSettlementCustodyLedger_def returnLedgerKey_def ex_money_at_def getAt_def omap_get_def throwIf_def Let_def ex_settlement_checks ex_next_forms)

lemma ex_settlement_step:
  "replayLegSettled ex_settled_payload (ex_state ex_chain_map (ex_money_at ex_leg_sent ex_ledger_open)) = Inr (ex_money_at ex_leg_settled ex_ledger_credited)"
proof -
  have o: "rp_other (ex_state ex_chain_map md) = md" for md by (simp add: ex_state_def)
  have "assertReturnCustody (ex_money_at ex_leg_sent ex_ledger_open) ex_leg_settled ''SETTLED'' ex_ledger_credited = Inr ()"
    by (simp add: assertReturnCustody_def ex_credit assertLedgerText_def ex_relay_accepted ex_text throwIf_def)
  then have "assertReturnRelaySettlementInput (ex_state ex_chain_map (ex_money_at ex_leg_sent ex_ledger_open)) ex_leg_sent ex_settlement = Inr (ex_leg_settled, ex_settlement)"
    using ex_leg_fields
    by (simp add: assertReturnRelaySettlementInput_def ex_exact2 ex_settlement_fields ex_settlement_checks ex_relay_accepted throwIf_def o ex_transition)
  then show ?thesis using ex_leg_fields
    by (simp add: replayLegSettled_def o ex_money_at_def getAt_def omap_get_def ex_payloads throwIf_def Let_def assertRelaySettlementInput_def ex_settlement_fields ex_text
      setLeg_def setCustody_def ex_keys)
qed


section \<open>The journal\<close>

definition ex_expectation_entry :: jsval where
  "ex_expectation_entry = ex_entry 0 (''return-relay-leg-expectation-recorded'', ex_expectation_payload)"

definition ex_source_entry :: jsval where
  "ex_source_entry = ex_entry 5 (''relay-leg-source-recorded'', ex_source_payload)"

definition ex_return_log :: "jsval list" where
  "ex_return_log = ex_expectation_entry # ex_chain_events @ [ex_source_entry]"

definition ex_return_entry :: jsval where
  "ex_return_entry = ex_entry 6 (''relay-leg-settled'', ex_settled_payload)"

definition ex_money_replay :: "jsval list \<Rightarrow> unit money_state replay_state res" where
  "ex_money_replay log = replayEntries ex_sha (moneyParts ex_money ex_cycle) ex_cycle log"

lemma ex_entry_parts: "entryKind (ex_entry i ev) = fst ev" "jprop (ex_entry i ev) ''payload'' = snd ev" "jprop (ex_entry i ev) ''kind'' = JStr (fst ev)"
  by (simp_all add: entryKind_def ex_entry_def jprop_def)

lemma ex_money_entry:
  assumes "kind \<in> set moneyKinds" and "moneyStep ex_money ex_cycle (ex_state chain md) (ex_entry i (kind, p)) = Inr md'"
  shows "replayEntry ex_sha (moneyParts ex_money ex_cycle) ex_cycle (ex_entry i (kind, p)) (ex_state chain md) = Inr (ex_state chain md')"
proof -
  have "assertNotTerminal kind (ex_state chain md) = Inr ()" by (simp add: assertNotTerminal_def ex_state_def initialReplay_def)
  moreover have "ot_step (moneyParts ex_money ex_cycle) (ex_state chain md) (ex_entry i (kind, p)) = Inr md'" using assms(2) by (simp add: moneyParts_def)
  ultimately show ?thesis by (simp add: replayEntry_def ex_entry_parts money_event [OF assms(1)] ex_state_def)
qed

lemma ex_return_steps:
  "replayEntry ex_sha (moneyParts ex_money ex_cycle) ex_cycle ex_expectation_entry (ex_state [] ex_money_start) = Inr (ex_state [] (ex_money_at ex_leg_recorded ex_ledger_open))"
  "replayEntry ex_sha (moneyParts ex_money ex_cycle) ex_cycle ex_source_entry (ex_state chain (ex_money_at ex_leg_recorded l)) = Inr (ex_state chain (ex_money_at ex_leg_sent l))"
  "replayEntry ex_sha (moneyParts ex_money ex_cycle) ex_cycle ex_return_entry (ex_state ex_chain_map (ex_money_at ex_leg_sent ex_ledger_open))
    = Inr (ex_state ex_chain_map (ex_money_at ex_leg_settled ex_ledger_credited))"
  unfolding ex_expectation_entry_def ex_source_entry_def ex_return_entry_def
  by (rule ex_money_entry; simp add: moneyKinds_def moneyStep_def ex_entry_parts ex_expectation_step ex_source_step ex_settlement_step; simp add: ex_state_def ex_source_step ex_expectation_step)+

lemma ex_initial: "initialReplay (moneyParts ex_money ex_cycle) = ex_state [] ex_money_start"
  by (simp add: ex_state_def initialReplay_def moneyParts_def ex_money_start_def ex_money_def)

lemma ex_chain_steps_at:
  "foldE (\<lambda>_. replayEntry ex_sha (moneyParts ex_money ex_cycle) ex_cycle) i ex_chain_events (ex_state [] md) = Inr (ex_state ex_chain_map md)"
  using ex_chain_steps [of md] foldE_no_index [of _ i _ _ 0] by metis

lemma ex_return_before: "ex_money_replay ex_return_log = Inr (ex_state ex_chain_map (ex_money_at ex_leg_sent ex_ledger_open))"
  by (simp add: ex_money_replay_def replayEntries_def ex_initial ex_return_log_def ex_return_steps foldE_append ex_chain_steps_at)

lemma ex_return_after: "ex_money_replay (ex_return_log @ [ex_return_entry]) = Inr (ex_state ex_chain_map (ex_money_at ex_leg_settled ex_ledger_credited))"
  using ex_return_before unfolding ex_money_replay_def replayEntries_def by (simp add: foldE_append ex_return_steps)

lemma ex_return_plain: "list_all plainJson (ex_return_log @ [ex_return_entry])"
  by code_simp

end
