(* ===== verification/Relay_Safety.thy ===== *)
theory Relay_Safety
  imports Relay_Scenario Cycle_Ledger_Safety
begin

text \<open>
  What the journal of a cycle guarantees of its Relay legs: a recorded leg never changes except by its one attribution and its one
  settlement, and a settled return credits the custody ledger with exactly what its proof shows.  The journals are
  JSON data (\<open>plainJson\<close>), as everything that is read back from the store is.
\<close>

section \<open>Events and legs\<close>

lemma foldl_setCustody: "md_legs (foldl (\<lambda>md ledger. setCustody ledger md) md ls) = md_legs md"
  by (induction ls arbitrary: md) (simp_all add: setCustody_def)

text \<open>An event outside \<open>moneyKinds\<close> leaves the legs alone.\<close>

lemma other_event_keeps_legs:
  assumes "applyEvent sha (moneyParts env cid) cid e (entryKind e) st = Inr st'" and "entryKind e \<notin> set moneyKinds"
  shows "md_legs (rp_other st') = md_legs (rp_other st)"
  using assms(1)
proof (cases rule: applyEvent_cases)
  case (Other x)
  then have "moneyStep env cid st e = Inr x" by (simp add: moneyParts_def)
  with assms(2) have "md_legs x = md_legs (rp_other st)"
    by (auto simp: moneyStep_def moneyKinds_def Let_def bindE_Inr_iff foldl_setCustody)
  with Other show ?thesis by simp
qed (simp_all add: setOperational_def setChain_def setLedger_def)

definition legMap :: "'y money_state replay_state \<Rightarrow> string \<Rightarrow> jsval option" where
  "legMap st request = omap_get (md_legs (rp_other st)) request"

definition legsOk :: "'y money_state replay_state \<Rightarrow> bool" where
  "legsOk st = (\<forall>request leg. legMap st request = Some leg \<longrightarrow>
     plainJson leg \<and> (\<exists>label. assertRelayLeg leg label = Inr leg) \<and> jprop leg ''relayRequestId'' = JStr request)"

lemma legsOk_leg:
  assumes "legsOk st" and "legMap st request = Some leg"
  shows "plainJson leg" and "isPlainObject leg" and "jprop leg ''relayRequestId'' = JStr request"
    and "jprop leg ''sourceTxHash'' = JNull \<or> isString (jprop leg ''sourceTxHash'')"
proof -
  from assms obtain label where leg: "plainJson leg" "assertRelayLeg leg label = Inr leg" "jprop leg ''relayRequestId'' = JStr request"
    unfolding legsOk_def by blast
  show "plainJson leg" "jprop leg ''relayRequestId'' = JStr request" "isPlainObject leg"
    "jprop leg ''sourceTxHash'' = JNull \<or> isString (jprop leg ''sourceTxHash'')"
    using leg(1,3) assertRelayLeg_Inr(2) [OF leg(2)] assertLegRoute_Inr(3) [OF assertRelayLeg_Inr(3) [OF leg(2)]] by simp_all
qed

text \<open>The fields that attribution and settlement fill in.\<close>

definition settlementFields :: "string list" where
  "settlementFields = [''sourceTxHash'', ''state''] @ RELAY_LEG_SETTLEMENT_EVIDENCE"

definition legKeeps :: "jsval \<Rightarrow> jsval \<Rightarrow> bool" where
  "legKeeps leg leg' =
     ((\<forall>f. f \<notin> set settlementFields \<longrightarrow> sameJson (jprop leg f) (jprop leg' f))
      \<and> (jprop leg ''sourceTxHash'' \<noteq> JNull \<longrightarrow> jprop leg' ''sourceTxHash'' = jprop leg ''sourceTxHash'')
      \<and> (jprop leg ''state'' \<noteq> JStr ''RECORDED'' \<longrightarrow> leg' = leg))"

lemma legKeeps_refl [simp]: "legKeeps leg leg"
  by (simp add: legKeeps_def)

lemma legKeeps_trans: "legKeeps a b \<Longrightarrow> legKeeps b c \<Longrightarrow> legKeeps a c"
proof -
  assume a: "legKeeps a b" and b: "legKeeps b c"
  have "sameJson (jprop a f) (jprop c f)" if "f \<notin> set settlementFields" for f
    using a b that sameJson_trans [of "jprop a f" "jprop b f" "jprop c f"] unfolding legKeeps_def by blast
  moreover have "jprop a ''sourceTxHash'' \<noteq> JNull \<Longrightarrow> jprop c ''sourceTxHash'' = jprop a ''sourceTxHash''"
    using a b unfolding legKeeps_def by simp
  moreover have "jprop a ''state'' \<noteq> JStr ''RECORDED'' \<Longrightarrow> c = a" using a b unfolding legKeeps_def by simp
  ultimately show ?thesis unfolding legKeeps_def by blast
qed


section \<open>What an event does to a leg\<close>

lemma fresh_leg_shape:
  assumes "assertRelayLeg v label = Inr leg" and "plainJson v" and "getAt legs (jprop leg ''relayRequestId'') = None"
  shows "\<exists>request. jprop leg ''relayRequestId'' = JStr request \<and> omap_get legs request = None \<and> plainJson leg \<and> (\<exists>l. assertRelayLeg leg l = Inr leg)"
proof -
  have v: "leg = v" by (rule assertRelayLeg_plain [OF assms(2,1)])
  have "isString (jprop leg ''relayRequestId'')" using assertLegRoute_Inr(1) [OF assertRelayLeg_Inr(3) [OF assms(1)]] v by simp
  then obtain request where "jprop leg ''relayRequestId'' = JStr request" by (auto simp: isString_def split: jsval.splits)
  with assms v show ?thesis by (auto simp: getAt_def)
qed

lemma recorded_shape:
  assumes "replayLegRecorded cid payload md = Inr md' \<or> replayExpectation env cid payload md = Inr md'" and "plainJson payload"
  obtains leg request label where "omap_get (md_legs md) request = None" "md_legs md' = omap_set request leg (md_legs md)"
    "plainJson leg" "assertRelayLeg leg label = Inr leg" "jprop leg ''relayRequestId'' = JStr request" "jprop leg ''state'' = JStr ''RECORDED''"
proof -
  from assms(1) obtain label leg where leg: "assertRelayLeg (jprop payload ''leg'') label = Inr leg" "jprop leg ''state'' = JStr ''RECORDED''"
      "getAt (md_legs md) (jprop leg ''relayRequestId'') = None" "md_legs md' = omap_set (str_of (jprop leg ''relayRequestId'')) leg (md_legs md)"
  proof (elim disjE)
    assume "replayLegRecorded cid payload md = Inr md'"
    then show thesis unfolding replayLegRecorded_def bindE_Inr_iff throwIf_Inr by (elim exE conjE) (rule that, assumption, auto simp: setLeg_def)
  next
    assume "replayExpectation env cid payload md = Inr md'"
    then show thesis unfolding replayExpectation_def bindE_Inr_iff throwIf_Inr Let_def
      by (elim exE conjE) (rule that, assumption, auto simp: setLeg_def setCustody_def)
  qed
  from fresh_leg_shape [OF leg(1) plain_jprop [OF assms(2)] leg(3)] leg(2,4) show thesis by (auto intro: that)
qed

lemma transition_keeps:
  assumes "transitionRelayLeg leg nxt ev = Inr leg'" and "plainJson leg" and "plainJson ev" and "isPlainObject ev"
  shows "legKeeps leg leg'" and "jprop leg' ''state'' = JStr nxt" and "nxt \<noteq> ''RECORDED''" and "jprop leg ''state'' = JStr ''RECORDED''"
    and "plainJson leg'" and "assertRelayLeg leg' relayLegLabel = Inr leg'" and "jprop leg' ''relayRequestId'' = jprop leg ''relayRequestId''"
    and "\<And>f. f \<notin> insert ''state'' (set RELAY_LEG_SETTLEMENT_EVIDENCE) \<Longrightarrow> jprop leg' f = jprop leg f"
    and "\<And>f. f \<in> set RELAY_LEG_SETTLEMENT_EVIDENCE \<Longrightarrow> jprop leg' f = jprop ev f"
proof -
  note t = transition_shape [OF assms]
  have keys: "set (map fst (spread ev)) = set RELAY_LEG_SETTLEMENT_EVIDENCE"
  proof -
    have "map fst (spread ev) = ownKeys ev" using assms(4) by (auto simp: isPlainObject_iff spread_def ownKeys_def)
    then show ?thesis by (simp only: t(7))
  qed
  show same: "jprop leg' f = jprop leg f" if "f \<notin> insert ''state'' (set RELAY_LEG_SETTLEMENT_EVIDENCE)" for f
    using that unfolding t(2) by (subst jprop_with_other) (simp_all add: keys spread_plain [OF t(1)] del: set_map)
  show "jprop leg' f = jprop ev f" if "f \<in> set RELAY_LEG_SETTLEMENT_EVIDENCE" for f
  proof -
    have f: "f \<noteq> ''state''" using that by (auto simp: RELAY_LEG_SETTLEMENT_EVIDENCE_def)
    obtain ps where ps: "ev = JObj ps" using assms(4) by (auto simp: isPlainObject_iff)
    have "f \<in> set (map fst ps)" using that keys by (simp add: ps spread_def del: set_map)
    then obtain x where "map_of ps f = Some x" by (metis not_None_eq map_of_eq_None_iff set_map)
    moreover have "distinct (map fst ps)" using assms(3) by (simp add: ps)
    ultimately show ?thesis unfolding t(2) jprop_withProps using f by (simp add: ps spread_def map_of_rev_distinct jprop_JObj)
  qed
  show "jprop leg' ''state'' = JStr nxt" unfolding t(2) by (rule jprop_with_state)
  show "nxt \<noteq> ''RECORDED''" "jprop leg ''state'' = JStr ''RECORDED''" "plainJson leg'" "assertRelayLeg leg' relayLegLabel = Inr leg'"
    by (rule t)+
  show "jprop leg' ''relayRequestId'' = jprop leg ''relayRequestId''" by (rule same) (simp add: RELAY_LEG_SETTLEMENT_EVIDENCE_def)
  have hash: "jprop leg' ''sourceTxHash'' = jprop leg ''sourceTxHash''" by (rule same) (simp add: RELAY_LEG_SETTLEMENT_EVIDENCE_def)
  show "legKeeps leg leg'"
    unfolding legKeeps_def using same hash t(5) by (auto simp: settlementFields_def)
qed

lemma attribution_keeps:
  assumes "attributeRelayLegSource leg h = Inr leg'" and "plainJson leg" and "plainJson h"
  shows "legKeeps leg leg'" and "jprop leg' ''state'' = JStr ''RECORDED''" and "jprop leg ''state'' = JStr ''RECORDED''"
    and "plainJson leg'" and "isPlainObject leg'" and "jprop leg' ''sourceTxHash'' = h"
proof -
  note t = attribute_shape [OF assms]
  have field: "jprop leg' f = (if f = ''sourceTxHash'' then h else jprop leg f)" for f
    unfolding t(2) jprop_withProps by (simp add: spread_plain [OF t(1)])
  show "jprop leg' ''state'' = JStr ''RECORDED''" "jprop leg ''state'' = JStr ''RECORDED''" "plainJson leg'" "jprop leg' ''sourceTxHash'' = h"
    using t(3,4) by (simp_all add: field)
  show "isPlainObject leg'" unfolding t(2) by (simp add: withProps_def isPlainObject_def)
  show "legKeeps leg leg'" unfolding legKeeps_def using t(4,6) by (simp add: field settlementFields_def)
qed

lemma source_shape:
  assumes "replayLegSource cid payload md = Inr md'" and "plainJson payload" and "\<forall>r l. omap_get (md_legs md) r = Some l \<longrightarrow> plainJson l"
  obtains leg previous request label where "omap_get (md_legs md) request = Some previous" "md_legs md' = omap_set request leg (md_legs md)"
    "plainJson leg" "assertRelayLeg leg label = Inr leg" "jprop leg ''relayRequestId'' = JStr request" "legKeeps previous leg"
    "jprop previous ''state'' = JStr ''RECORDED''" "jprop leg ''state'' = JStr ''RECORDED''"
proof -
  from assms(1) obtain leg request previous expected t where p: "assertRelayLeg (jprop payload ''leg'') ''stored Relay leg'' = Inr leg"
      "jprop payload ''relayRequestId'' = JStr request" "omap_get (md_legs md) request = Some previous" "jprop leg ''relayRequestId'' = JStr request"
      "canonicalJson leg = Inr t" "attributeRelayLegSource previous (jprop leg ''sourceTxHash'') = Inr expected" "canonicalJson expected = Inr t"
      "md' = setLeg leg md"
    unfolding replayLegSource_def bindE_Inr_iff Let_def getAt_def
    by (auto simp: throwIf_Inr bindE_Inr_iff split: option.splits jsval.splits)
  have leg: "leg = jprop payload ''leg''" by (rule assertRelayLeg_plain [OF plain_jprop [OF assms(2)] p(1)])
  have plain: "plainJson leg" "plainJson previous" "plainJson (jprop leg ''sourceTxHash'')"
    using assms(2,3) p(3) leg by (simp_all add: plain_jprop)
  note at = attribution_keeps [OF p(6) plain(2,3)]
  have obj: "isPlainObject leg" using assertRelayLeg_Inr(2) [OF p(1)] leg by simp
  have "textsDiffer leg expected = Inr False" using p(5,7) by (simp add: textsDiffer_def)
  then have same: "sameJson leg expected" by (rule sameJson_text [OF _ plain(1) at(4)])
  have props: "sameJson (jprop expected f) (jprop leg f)" for f
    using sameJson_prop [OF same plain(1) at(4) obj at(5), of f] by (simp add: sameJson_def)
  have st: "jprop leg ''state'' = JStr ''RECORDED''" using props [of "''state''"] at(2) by simp
  have "legKeeps previous leg"
  proof -
    have "sameJson (jprop previous f) (jprop leg f)" if "f \<notin> set settlementFields" for f
      using at(1) that props [of f] sameJson_trans unfolding legKeeps_def by blast
    moreover have "jprop previous ''sourceTxHash'' \<noteq> JNull \<Longrightarrow> jprop leg ''sourceTxHash'' = jprop previous ''sourceTxHash''"
      using at(1,6) unfolding legKeeps_def by simp
    ultimately show ?thesis using at(3) unfolding legKeeps_def by simp
  qed
  moreover have "assertRelayLeg leg ''stored Relay leg'' = Inr leg" using p(1) leg by simp
  moreover have "md_legs md' = omap_set request leg (md_legs md)" using p(4,8) by (simp add: setLeg_def)
  ultimately show thesis using p(3,4) plain(1) at(3) st by (rule_tac that)
qed

lemma evidence_plain:
  assumes "plainJson a" "plainJson b" "plainJson c" "plainJson d"
  shows "plainJson (settlementEvidence a b c d)" and "isPlainObject (settlementEvidence a b c d)"
  using assms by (simp_all add: settlementEvidence_def isPlainObject_def)

lemma evidence_fields [simp]:
  "jprop (settlementEvidence a b c d) ''finalizedAtSource'' = a" "jprop (settlementEvidence a b c d) ''destinationTxHash'' = b"
  "jprop (settlementEvidence a b c d) ''finalizedAtDestination'' = c" "jprop (settlementEvidence a b c d) ''netDeltaAtomic'' = d"
  by (simp_all add: settlementEvidence_def jprop_JObj)

lemma assertProof_plain:
  assumes "assertReturnLegDestinationProof v label = Inr w" and "plainJson v"
  shows "w = v"
  using assms(1) unfolding assertReturnLegDestinationProof_def Let_def bindE_Inr_iff
  by (elim exE conjE) (simp add: clone_plain [OF assms(2)])

text \<open>A settlement is one transition of the leg on the evidence of the input.\<close>

lemma outbound_transition:
  assumes "assertOutboundRelaySettlementInput leg v = Inr (leg', settlement)" and "plainJson v"
  obtains nxt ev where "transitionRelayLeg leg nxt ev = Inr leg'" "plainJson ev" "isPlainObject ev" "settlement = v"
proof -
  let ?ev = "settlementEvidence (jprop v ''sourceFinality'') (jprop v ''destinationTxHash'') (jprop v ''destinationFinality'') (jprop v ''netDeltaAtomic'')"
  have "transitionRelayLeg leg (str_of (jprop v ''terminalState'')) ?ev = Inr leg' \<and> settlement = v"
    using assms(1) unfolding assertOutboundRelaySettlementInput_def Let_def bindE_Inr_iff
    by (elim exE conjE) (simp add: clone_plain [OF assms(2)])
  then show thesis using evidence_plain plain_jprop [OF assms(2)] by (auto intro: that)
qed

lemma return_transition:
  assumes "assertReturnRelaySettlementInput st leg v = Inr (leg', settlement)" and "plainJson v"
  obtains nxt proof' where "transitionRelayLeg leg nxt (settlementEvidence (jprop proof' ''sourceFinality'') (jprop proof' ''destinationTxHash'')
      (jprop proof' ''destinationFinality'') (jprop proof' ''observedAmountAtomic'')) = Inr leg'"
    "plainJson proof'" "settlement = v" "returnRelayTerminalState leg proof' = Inr nxt"
    "assertReturnCustody (rp_other st) leg' nxt (jprop v ''custodyLedger'') = Inr ()"
    "assertReturnLegDestinationProof proof' ''return relay settlement proof'' = Inr proof'" "proof' = jprop v ''returnDestinationProof''"
proof -
  note plain = plain_jprop [OF assms(2), of "''returnDestinationProof''"]
  from assms(1) have "\<exists>p nxt x s. assertReturnLegDestinationProof (jprop v ''returnDestinationProof'') ''return relay settlement proof'' = Inr p
      \<and> returnRelayTerminalState leg p = Inr nxt
      \<and> transitionRelayLeg leg nxt (settlementEvidence (jprop p ''sourceFinality'') (jprop p ''destinationTxHash'')
        (jprop p ''destinationFinality'') (jprop p ''observedAmountAtomic'')) = Inr x
      \<and> assertReturnCustody (rp_other st) x nxt (jprop v ''custodyLedger'') = Inr () \<and> structuredClone v = Inr s \<and> (Inr (x, s) :: (jsval \<times> jsval) res) = Inr (leg', settlement)"
    unfolding assertReturnRelaySettlementInput_def Let_def bindE_Inr_iff by (elim exE conjE) (intro exI conjI, assumption+, simp, assumption+)
  then obtain p nxt where p: "assertReturnLegDestinationProof (jprop v ''returnDestinationProof'') ''return relay settlement proof'' = Inr p"
      "returnRelayTerminalState leg p = Inr nxt"
      "transitionRelayLeg leg nxt (settlementEvidence (jprop p ''sourceFinality'') (jprop p ''destinationTxHash'')
        (jprop p ''destinationFinality'') (jprop p ''observedAmountAtomic'')) = Inr leg'"
      "assertReturnCustody (rp_other st) leg' nxt (jprop v ''custodyLedger'') = Inr ()" "settlement = v"
    unfolding clone_plain [OF assms(2)] by auto
  have eq: "p = jprop v ''returnDestinationProof''" by (rule assertProof_plain [OF p(1) plain])
  show thesis by (rule that [OF p(3) _ p(5) p(2) p(4) _ eq]) (use p(1) plain eq in simp_all)
qed

lemma settled_shape:
  assumes "replayLegSettled payload st = Inr md'" and "plainJson payload" and "\<forall>r l. omap_get (md_legs (rp_other st)) r = Some l \<longrightarrow> plainJson l"
  obtains leg leg' request settlement nxt ev where "jprop payload ''relayRequestId'' = JStr request" "omap_get (md_legs (rp_other st)) request = Some leg"
    "assertRelaySettlementInput st leg (jprop payload ''settlement'') = Inr (leg', jprop payload ''settlement'')"
    "transitionRelayLeg leg nxt ev = Inr leg'" "plainJson ev" "isPlainObject ev" "jprop leg' ''relayRequestId'' = JStr request"
    "md' = (let custody = jprop (jprop payload ''settlement'') ''custodyLedger'' in
       if nullish custody then setLeg leg' (rp_other st) else setCustody custody (setLeg leg' (rp_other st)))"
proof -
  note plain = plain_jprop [OF assms(2), of "''settlement''"]
  from assms(1) obtain request leg leg' settlement where p: "jprop payload ''relayRequestId'' = JStr request" "omap_get (md_legs (rp_other st)) request = Some leg"
      "assertRelaySettlementInput st leg (jprop payload ''settlement'') = Inr (leg', settlement)" "jprop leg' ''relayRequestId'' = JStr request"
      "md' = (let custody = jprop settlement ''custodyLedger'' in
         if nullish custody then setLeg leg' (rp_other st) else setCustody custody (setLeg leg' (rp_other st)))"
    unfolding replayLegSettled_def Let_def getAt_def
    by (auto simp: throwIf_Inr bindE_Inr_iff split: option.splits jsval.splits)
  have "\<exists>nxt ev. transitionRelayLeg leg nxt ev = Inr leg' \<and> plainJson ev \<and> isPlainObject ev \<and> settlement = jprop payload ''settlement''"
  proof (cases "jprop leg ''direction'' = JStr ''outbound''")
    case True
    then have "assertOutboundRelaySettlementInput leg (jprop payload ''settlement'') = Inr (leg', settlement)"
      using p(3) by (simp add: assertRelaySettlementInput_def)
    then show ?thesis by (rule outbound_transition [OF _ plain]) blast
  next
    case False
    then have "assertReturnRelaySettlementInput st leg (jprop payload ''settlement'') = Inr (leg', settlement)"
      using p(3) by (simp add: assertRelaySettlementInput_def split: if_splits)
    then obtain nxt p where p: "transitionRelayLeg leg nxt (settlementEvidence (jprop p ''sourceFinality'') (jprop p ''destinationTxHash'')
        (jprop p ''destinationFinality'') (jprop p ''observedAmountAtomic'')) = Inr leg'" "plainJson p" "settlement = jprop payload ''settlement''"
      by (rule return_transition [OF _ plain])
    show ?thesis by (intro exI conjI) (rule p(1), (rule evidence_plain plain_jprop p)+)
  qed
  then obtain nxt ev where h: "transitionRelayLeg leg nxt ev = Inr leg'" "plainJson ev" "isPlainObject ev" "settlement = jprop payload ''settlement''"
    by blast
  show thesis by (rule that [OF p(1,2) p(3) [unfolded h(4)] h(1-3) p(4) p(5) [unfolded h(4)]])
qed

definition settlesLeg :: "string \<Rightarrow> jsval \<Rightarrow> bool" where
  "settlesLeg request e = (entryKind e = ''relay-leg-settled'' \<and> jprop (jprop e ''payload'') ''relayRequestId'' = JStr request)"

definition isSettled :: "string \<Rightarrow> 'y money_state replay_state \<Rightarrow> bool" where
  "isSettled request st = (\<exists>leg. legMap st request = Some leg \<and> jprop leg ''state'' \<noteq> JStr ''RECORDED'')"

text \<open>
  Every accepted event leaves the legs alone, records or attributes one leg that stays \<open>RECORDED\<close>, or settles one.
\<close>

lemma leg_event_cases:
  assumes "legsOk s" and "plainJson e" and "replayEntry sha (moneyParts env cid) cid e s = Inr s'"
  obtains (Same) "legMap s' = legMap s" "\<And>r. \<not> settlesLeg r e"
  | (Set) request leg label where "legMap s' = (legMap s)(request \<mapsto> leg)" "plainJson leg" "assertRelayLeg leg label = Inr leg"
      "jprop leg ''relayRequestId'' = JStr request" "\<And>r. settlesLeg r e \<longleftrightarrow> r = request \<and> jprop leg ''state'' \<noteq> JStr ''RECORDED''"
      "\<And>old. legMap s request = Some old \<Longrightarrow> legKeeps old leg \<and> jprop old ''state'' = JStr ''RECORDED''"
      "settlesLeg request e \<Longrightarrow> legMap s request \<noteq> None"
proof -
  let ?md = "rp_other s" and ?p = "jprop e ''payload''"
  have ev: "applyEvent sha (moneyParts env cid) cid e (entryKind e) s = Inr s'" by (rule replayEntry_event [OF assms(3)])
  have plain: "plainJson ?p" "\<forall>r l. omap_get (md_legs ?md) r = Some l \<longrightarrow> plainJson l"
    using assms(1,2) by (simp_all add: plain_jprop legsOk_def legMap_def)
  show thesis
  proof (cases "entryKind e \<in> set moneyKinds")
    case False
    then have "legMap s' = legMap s" using other_event_keeps_legs [OF ev] by (simp add: legMap_def fun_eq_iff)
    moreover have "\<not> settlesLeg r e" for r using False by (auto simp: settlesLeg_def moneyKinds_def)
    ultimately show thesis by (rule Same)
  next
    case True
    then obtain md' where md': "moneyStep env cid s e = Inr md'" "s' = s\<lparr>rp_other := md'\<rparr>"
      using ev by (auto simp: money_event moneyParts_def bindE_Inr_iff)
    have map': "legMap s' = (legMap s)(request \<mapsto> leg)" if "md_legs md' = omap_set request leg (md_legs ?md)" for request leg
      using that by (auto simp: legMap_def md'(2))
    from True consider (rec) "entryKind e \<in> {''relay-leg-recorded'', ''return-relay-leg-expectation-recorded''}"
      | (src) "entryKind e = ''relay-leg-source-recorded''" | (settle) "entryKind e = ''relay-leg-settled''"
      | (custody) "entryKind e = ''custody-ledger-recorded''"
      unfolding moneyKinds_def by (simp only: list.set insert_iff empty_iff simp_thms) blast
    then show thesis
    proof cases
      case rec
      then have none: "\<not> settlesLeg r e" for r by (auto simp: settlesLeg_def)
      from rec have "replayLegRecorded cid ?p ?md = Inr md' \<or> replayExpectation env cid ?p ?md = Inr md'"
        using md'(1) by (elim insertE emptyE) (simp_all add: moneyStep_def)
      then obtain leg request label where l: "omap_get (md_legs ?md) request = None" "md_legs md' = omap_set request leg (md_legs ?md)"
          "plainJson leg" "assertRelayLeg leg label = Inr leg" "jprop leg ''relayRequestId'' = JStr request" "jprop leg ''state'' = JStr ''RECORDED''"
        by (rule recorded_shape [OF _ plain(1)])
      show thesis by (rule Set [OF map' [OF l(2)] l(3-5)]) (use l none in \<open>simp_all add: legMap_def\<close>)
    next
      case src
      then have none: "\<not> settlesLeg r e" for r by (simp add: settlesLeg_def)
      from src have "replayLegSource cid ?p ?md = Inr md'" using md'(1) by (simp add: moneyStep_def)
      then obtain leg previous request label where l: "omap_get (md_legs ?md) request = Some previous" "md_legs md' = omap_set request leg (md_legs ?md)"
          "plainJson leg" "assertRelayLeg leg label = Inr leg" "jprop leg ''relayRequestId'' = JStr request" "legKeeps previous leg"
          "jprop previous ''state'' = JStr ''RECORDED''" "jprop leg ''state'' = JStr ''RECORDED''"
        by (rule source_shape [OF _ plain])
      show thesis by (rule Set [OF map' [OF l(2)] l(3-5)]) (use l none in \<open>simp_all add: legMap_def\<close>)
    next
      case settle
      then have "replayLegSettled ?p s = Inr md'" using md'(1) by (simp add: moneyStep_def)
      then obtain leg leg' request nxt ev where l: "jprop ?p ''relayRequestId'' = JStr request" "omap_get (md_legs ?md) request = Some leg"
          "transitionRelayLeg leg nxt ev = Inr leg'" "plainJson ev" "isPlainObject ev" "jprop leg' ''relayRequestId'' = JStr request"
          "md' = (let custody = jprop (jprop ?p ''settlement'') ''custodyLedger'' in
             if nullish custody then setLeg leg' ?md else setCustody custody (setLeg leg' ?md))"
        by (rule settled_shape [OF _ plain])
      note t = transition_keeps [OF l(3) plain(2) [rule_format, OF l(2)] l(4,5)]
      have legs: "md_legs md' = omap_set request leg' (md_legs ?md)" using l(6,7) by (simp add: setLeg_def setCustody_def Let_def)
      have settles: "settlesLeg r e \<longleftrightarrow> r = request \<and> jprop leg' ''state'' \<noteq> JStr ''RECORDED''" for r
        using settle l(1) t(2,3) by (auto simp: settlesLeg_def)
      show thesis by (rule Set [OF map' [OF legs] t(5,6) l(6) settles]) (use l(2) t(1,4) in \<open>simp_all add: legMap_def\<close>)
    next
      case custody
      then have "md_legs md' = md_legs ?md"
        using md'(1) by (auto simp: moneyStep_def replayCustodyRecorded_def bindE_Inr_iff Let_def setCustody_def)
      then have "legMap s' = legMap s" by (simp add: legMap_def md'(2) fun_eq_iff)
      moreover have "\<not> settlesLeg r e" for r using custody by (simp add: settlesLeg_def)
      ultimately show thesis by (rule Same)
    qed
  qed
qed

lemma leg_event:
  assumes "legsOk s" and "plainJson e" and "replayEntry sha (moneyParts env cid) cid e s = Inr s'"
  shows "legsOk s'" and "legMap s r = Some leg \<Longrightarrow> \<exists>leg'. legMap s' r = Some leg' \<and> legKeeps leg leg'"
    and "settlesLeg r e \<Longrightarrow> \<not> isSettled r s \<and> isSettled r s'" and "\<not> settlesLeg r e \<Longrightarrow> isSettled r s' = isSettled r s"
proof -
  have "legsOk s' \<and> (legMap s r = Some leg \<longrightarrow> (\<exists>leg'. legMap s' r = Some leg' \<and> legKeeps leg leg'))
    \<and> (if settlesLeg r e then \<not> isSettled r s \<and> isSettled r s' else isSettled r s' = isSettled r s)"
    using assms
  proof (cases rule: leg_event_cases)
    case Same
    with assms(1) show ?thesis by (simp add: legsOk_def isSettled_def)
  next
    case (Set request new label)
    have "legsOk s'" using assms(1) Set(1-4) unfolding legsOk_def by auto
    moreover have "legMap s r = Some leg \<longrightarrow> (\<exists>leg'. legMap s' r = Some leg' \<and> legKeeps leg leg')"
      using Set(6) by (simp add: Set(1))
    moreover have "if settlesLeg r e then \<not> isSettled r s \<and> isSettled r s' else isSettled r s' = isSettled r s"
      using Set(5) [of r] Set(6) unfolding isSettled_def Set(1) by auto
    ultimately show ?thesis by blast
  qed
  then show "legsOk s'" "legMap s r = Some leg \<Longrightarrow> \<exists>leg'. legMap s' r = Some leg' \<and> legKeeps leg leg'"
    "settlesLeg r e \<Longrightarrow> \<not> isSettled r s \<and> isSettled r s'" "\<not> settlesLeg r e \<Longrightarrow> isSettled r s' = isSettled r s" by (auto split: if_splits)
qed

lemma legsOk_initial: "legsOk (initialReplay (moneyParts env cid))"
  by (simp add: legsOk_def legMap_def initialReplay_def moneyParts_def omap_get_def)

section \<open>A leg is written once\<close>

lemma legs_of_log:
  assumes "list_all plainJson log" and "replayEntries sha (moneyParts env cid) cid log = Inr st"
  shows "legsOk st" and "length (filter (settlesLeg r) log) = (if isSettled r st then 1 else 0)"
proof -
  let ?P = "\<lambda>pre s. list_all plainJson pre \<longrightarrow> legsOk s \<and> length (filter (settlesLeg r) pre) = (if isSettled r s then 1 else 0)"
  have "?P ([] @ log) st"
  proof (rule foldE_prefix_invariant [where P = ?P])
    show "foldE (\<lambda>_ e st. replayEntry sha (moneyParts env cid) cid e st) 0 log (initialReplay (moneyParts env cid)) = Inr st"
      using assms(2) by (simp add: replayEntries_def)
    show "?P [] (initialReplay (moneyParts env cid))"
      using legsOk_initial by (auto simp: isSettled_def legMap_def initialReplay_def moneyParts_def omap_get_def)
    fix pre i e s s'
    assume inv: "?P pre s" and step: "replayEntry sha (moneyParts env cid) cid e s = Inr s'"
    show "?P (pre @ [e]) s'"
    proof
      assume plain: "list_all plainJson (pre @ [e])"
      with inv have ok: "legsOk s" "length (filter (settlesLeg r) pre) = (if isSettled r s then 1 else 0)" by simp_all
      from plain have e: "plainJson e" by simp
      note ev = leg_event [OF ok(1) e step]
      show "legsOk s' \<and> length (filter (settlesLeg r) (pre @ [e])) = (if isSettled r s' then 1 else 0)"
        using ev(1) ev(3,4) [of r] ok(2) by (cases "settlesLeg r e") simp_all
    qed
  qed
  with assms(1) show "legsOk st" "length (filter (settlesLeg r) log) = (if isSettled r st then 1 else 0)" by simp_all
qed

text \<open>
  C8. A Relay leg is settled at most once.  In every journal that replays, the number of settlement events of a request is one if its leg
  has reached \<open>SETTLED\<close> or a hold, and zero otherwise; no order of events can settle, or credit, the same transfer twice.
\<close>

theorem relay_leg_settles_once:
  fixes env :: "'y money_env"
  assumes "list_all plainJson log" and "replayEntries sha (moneyParts env cid) cid log = Inr st"
  shows "length (filter (settlesLeg request) log) =
    (case omap_get (md_legs (rp_other st)) request of None \<Rightarrow> 0 | Some leg \<Rightarrow> if jprop leg ''state'' = JStr ''RECORDED'' then 0 else 1)"
  using legs_of_log(2) [OF assms, of request] by (simp add: isSettled_def legMap_def split: option.split)

theorem relay_leg_settles_once_witness: "length (filter (settlesLeg ''r1'') (ex_return_log @ [ex_return_entry])) = 1"
  using relay_leg_settles_once [OF ex_return_plain ex_return_after [unfolded ex_money_replay_def], of "''r1''"] ex_leg_fields
  by (simp add: ex_state_def ex_money_at_def omap_get_def del: filter_append)

text \<open>
  C19. A recorded leg is final.  Whatever is appended later, the route, amounts, quote and attribution data of a leg stay as they were recorded,
  the source transaction it was attributed to is never replaced, and a leg that has been settled or held does not change at all.
\<close>

theorem recorded_leg_is_final:
  fixes env :: "'y money_env"
  assumes "list_all plainJson (log @ rest)" and "replayEntries sha (moneyParts env cid) cid log = Inr st"
    and "replayEntries sha (moneyParts env cid) cid (log @ rest) = Inr st'" and "omap_get (md_legs (rp_other st)) request = Some leg"
  shows "\<exists>leg'. omap_get (md_legs (rp_other st')) request = Some leg'
    \<and> (\<forall>f. f \<notin> set settlementFields \<longrightarrow> sameJson (jprop leg f) (jprop leg' f))
    \<and> (jprop leg ''sourceTxHash'' \<noteq> JNull \<longrightarrow> jprop leg' ''sourceTxHash'' = jprop leg ''sourceTxHash'')
    \<and> (jprop leg ''state'' \<noteq> JStr ''RECORDED'' \<longrightarrow> leg' = leg)"
proof -
  let ?P = "\<lambda>pre s. list_all plainJson pre \<longrightarrow> legsOk s \<and> (\<exists>leg'. legMap s request = Some leg' \<and> legKeeps leg leg')"
  have "?P ([] @ rest) st'"
  proof (rule foldE_prefix_invariant [where P = ?P])
    show "foldE (\<lambda>_ e st. replayEntry sha (moneyParts env cid) cid e st) 0 rest st = Inr st'"
      using assms(2,3) by (auto elim: replayEntries_append)
    show "?P [] st" using legs_of_log(1) [OF _ assms(2)] assms(1,4) by (simp add: legMap_def)
    fix pre i e and s s' :: "'y money_state replay_state"
    assume inv: "?P pre s" and step: "replayEntry sha (moneyParts env cid) cid e s = Inr s'"
    show "?P (pre @ [e]) s'"
    proof
      assume plain: "list_all plainJson (pre @ [e])"
      with inv obtain leg' where l: "legsOk s" "legMap s request = Some leg'" "legKeeps leg leg'" by auto
      from plain have e: "plainJson e" by simp
      from leg_event(2) [OF l(1) e step l(2)] legKeeps_trans [OF l(3)] leg_event(1) [OF l(1) e step]
      show "legsOk s' \<and> (\<exists>leg'. legMap s' request = Some leg' \<and> legKeeps leg leg')" by blast
    qed
  qed
  with assms(1) show ?thesis unfolding legMap_def legKeeps_def by simp
qed

theorem recorded_leg_is_final_witness:
  "\<exists>leg'. omap_get (md_legs (ex_money_at ex_leg_settled ex_ledger_credited)) ''r1'' = Some leg'
    \<and> (\<forall>f. f \<notin> set settlementFields \<longrightarrow> sameJson (jprop ex_leg_sent f) (jprop leg' f)) \<and> jprop leg' ''sourceTxHash'' = JStr ''sig1''"
proof -
  have "omap_get (md_legs (rp_other (ex_state ex_chain_map (ex_money_at ex_leg_sent ex_ledger_open)))) ''r1'' = Some ex_leg_sent"
    by (simp add: ex_state_def ex_money_at_def omap_get_def)
  from recorded_leg_is_final [OF ex_return_plain ex_return_before [unfolded ex_money_replay_def] ex_return_after [unfolded ex_money_replay_def] this]
  show ?thesis using ex_leg_fields by (simp add: ex_state_def)
qed

section \<open>What a settlement credits\<close>

lemma assertCustodyLedger_Inr:
  assumes "assertCustodyLedger v label False = Inr w" and "plainJson v"
  shows "w = v" and "isPlainObject v" and "isString (jprop v ''chainId'')" and "isString (jprop v ''assetId'')"
    and "\<forall>bucket \<in> set CUSTODY_LEDGER_BUCKETS. \<exists>a. jprop v bucket = JStr a \<and> is_decimal a"
proof -
  from assms(1) have body: "assertLedgerBody v label = Inr ()" and w: "structuredClone v = Inr w"
    unfolding assertCustodyLedger_def Let_def bindE_Inr_iff if_False by (elim exE conjE, simp)+
  from w show "w = v" by (simp add: clone_plain [OF assms(2)])
  from body show "isPlainObject v" "isString (jprop v ''chainId'')" "isString (jprop v ''assetId'')"
    unfolding assertLedgerBody_def bindE_Inr_iff
    by (auto simp: assertMoneyObject_def assertMoneyString_Inr isString_def split: if_splits)
  from body have "foldE (\<lambda>_ bucket _. bindE (assertMoneyAtomic (jprop v bucket) (label @ '' '' @ bucket)) (\<lambda>_. Inr ())) 0 CUSTODY_LEDGER_BUCKETS () = Inr ()"
    unfolding assertLedgerBody_def bindE_Inr_iff by blast
  then show "\<forall>bucket \<in> set CUSTODY_LEDGER_BUCKETS. \<exists>a. jprop v bucket = JStr a \<and> is_decimal a"
    unfolding foldE_unit by (simp add: bindE_Inr_iff assertMoneyAtomic_Inr)
qed

text \<open>Ledgers as every writer leaves them.\<close>

definition custodyOk :: "'y money_state \<Rightarrow> bool" where
  "custodyOk md = (\<forall>key ledger. omap_get (md_custody md) key = Some ledger \<longrightarrow>
     plainJson ledger \<and> custodyLedgerKey ledger = key \<and> (\<exists>label. assertCustodyLedger ledger label False = Inr ledger))"

definition amountIn :: "'y money_state \<Rightarrow> string \<Rightarrow> string \<Rightarrow> nat" where
  "amountIn md key bucket = (case omap_get (md_custody md) key of None \<Rightarrow> 0 | Some ledger \<Rightarrow> nat_of_dec (str_of (jprop ledger bucket)))"

definition expectationAt :: "'y money_state \<Rightarrow> string \<Rightarrow> jsval" where
  "expectationAt md key = (case omap_get (md_custody md) key of None \<Rightarrow> JNull | Some ledger \<Rightarrow> expectedOf ledger)"

lemma custodyOk_ledger:
  assumes "custodyOk md" and "omap_get (md_custody md) key = Some l"
  shows "plainJson l" and "isPlainObject l" and "custodyLedgerKey l = key" and "isString (jprop l ''chainId'')" and "isString (jprop l ''assetId'')"
    and "\<forall>bucket \<in> set CUSTODY_LEDGER_BUCKETS. \<exists>a. jprop l bucket = JStr a \<and> is_decimal a"
proof -
  from assms obtain label where l: "plainJson l" "custodyLedgerKey l = key" "assertCustodyLedger l label False = Inr l"
    unfolding custodyOk_def by blast
  note a = assertCustodyLedger_Inr [OF l(3,1)]
  show "plainJson l" "isPlainObject l" "custodyLedgerKey l = key" "isString (jprop l ''chainId'')" "isString (jprop l ''assetId'')"
    "\<forall>bucket \<in> set CUSTODY_LEDGER_BUCKETS. \<exists>a. jprop l bucket = JStr a \<and> is_decimal a" by (rule l a)+
qed

lemma assertLedgerText_Inr:
  assumes "assertLedgerText v label expected message = Inr ()" and "plainJson v" and "plainJson expected" and "isPlainObject expected"
  shows "\<forall>f. sameJson (jprop v f) (jprop expected f)" and "custodyLedgerKey v = custodyLedgerKey expected"
    and "\<forall>bucket \<in> set CUSTODY_LEDGER_BUCKETS. jprop expected bucket = jprop v bucket"
proof -
  from assms(1) obtain ledger where l: "assertCustodyLedger v label False = Inr ledger" "textsDiffer ledger expected = Inr False"
    unfolding assertLedgerText_def by (auto simp: bindE_Inr_iff throwIf_Inr)
  note a = assertCustodyLedger_Inr [OF l(1) assms(2)]
  have "sameJson v expected" by (rule sameJson_text [OF _ assms(2,3)]) (use l(2) a(1) in simp)
  then show same: "\<forall>f. sameJson (jprop v f) (jprop expected f)" using sameJson_prop assms(2-4) a(2) by blast
  have str: "jprop expected f = jprop v f" if "isString (jprop v f)" for f using sameJson_string [OF same [rule_format] that] .
  show "custodyLedgerKey v = custodyLedgerKey expected" unfolding custodyLedgerKey_def str [OF a(3)] str [OF a(4)] ..
  show "\<forall>bucket \<in> set CUSTODY_LEDGER_BUCKETS. jprop expected bucket = jprop v bucket"
  proof
    fix bucket assume "bucket \<in> set CUSTODY_LEDGER_BUCKETS"
    with a(5) have "isString (jprop v bucket)" by (auto simp: isString_def)
    then show "jprop expected bucket = jprop v bucket" by (rule str)
  qed
qed

text \<open>The ledger a settled return must carry: the received amount added, the expectation gone, nothing else.\<close>

lemma settlement_ledger:
  assumes "returnSettlementCustodyLedger md leg = Inr w" and ok: "custodyOk md" and leg: "plainJson leg" "assertRelayLeg leg label = Inr leg"
    and net: "jprop leg ''netDeltaAtomic'' = JStr n" "is_decimal n"
  defines "key \<equiv> returnLedgerKey md leg"
  shows "plainJson w" and "isPlainObject w" and "custodyLedgerKey w = key" and "expectedOf w = JNull" and "0 < nat_of_dec n"
    and "\<forall>bucket \<in> set CUSTODY_LEDGER_BUCKETS. nat_of_dec (str_of (jprop w bucket)) = amountIn md key bucket + (if bucket = ''returnReceived'' then nat_of_dec n else 0)"
proof -
  have num: "js_BigInt (jprop leg ''netDeltaAtomic'') = Inr (int (nat_of_dec n))" using net by simp
  have w: "0 < nat_of_dec n" "case omap_get (md_custody md) key of
      Some l \<Rightarrow> \<exists>already. js_BigInt (jprop l ''returnReceived'') = Inr already \<and>
        w = withProps (spread l) ((''returnReceived'', JStr (jsString (JNum (already + int (nat_of_dec n)))))
            # (if observesBalance l then [(''expectedCycleAsset'', JNull)] else []))
    | None \<Rightarrow> getAt (md_returnKeys md) (jprop leg ''relayRequestId'') = None \<and> w = freshReturnLedger leg (int (nat_of_dec n))"
    using assms(1) unfolding returnSettlementCustodyLedger_def Let_def bindE_Inr_iff throwIf_Inr num key_def
    by (auto split: option.splits simp: bindE_Inr_iff)
  show "0 < nat_of_dec n" by (rule w(1))
  have "plainJson w \<and> isPlainObject w \<and> custodyLedgerKey w = key \<and> expectedOf w = JNull
    \<and> (\<forall>bucket \<in> set CUSTODY_LEDGER_BUCKETS. nat_of_dec (str_of (jprop w bucket)) = amountIn md key bucket + (if bucket = ''returnReceived'' then nat_of_dec n else 0))"
  proof (cases "omap_get (md_custody md) key")
    case None
    with w(2) have fresh: "getAt (md_returnKeys md) (jprop leg ''relayRequestId'') = None" "w = freshReturnLedger leg (int (nat_of_dec n))" by simp_all
    have strings: "isString (jprop leg ''cycleId'')" "isString (jprop leg ''destinationChainId'')" "isString (jprop leg ''destinationAssetId'')"
      using assertLegRoute_Inr(1) [OF assertRelayLeg_Inr(3) [OF leg(2)]] by simp_all
    have "plainJson w" using plain_jprop [OF leg(1)] by (simp add: fresh(2) freshReturnLedger_def CUSTODY_LEDGER_BUCKETS_def ledgerV1_def)
    moreover have "custodyLedgerKey w = key"
      by (simp add: fresh freshReturnLedger_def custodyLedgerKey_def key_def returnLedgerKey_def jprop_JObj)
    moreover have "expectedOf w = JNull"
      by (simp add: fresh(2) freshReturnLedger_def expectedOf_def observesBalance_def jprop_JObj ledgerV1_def ledgerV2_def ledgerV3_def)
    moreover have "isPlainObject w" by (simp add: fresh(2) freshReturnLedger_def isPlainObject_def)
    moreover have "\<forall>bucket \<in> set CUSTODY_LEDGER_BUCKETS. nat_of_dec (str_of (jprop w bucket)) = (if bucket = ''returnReceived'' then nat_of_dec n else 0)"
      by (simp add: fresh(2) freshReturnLedger_def CUSTODY_LEDGER_BUCKETS_def jprop_JObj nat_of_dec_single digit_val_def)
    ultimately show ?thesis by (simp add: amountIn_def None)
  next
    case (Some l)
    note l = custodyOk_ledger [OF ok Some]
    have bucket: "''returnReceived'' \<in> set CUSTODY_LEDGER_BUCKETS" by (simp add: CUSTODY_LEDGER_BUCKETS_def)
    with l(6) obtain a where a: "jprop l ''returnReceived'' = JStr a" "is_decimal a" by blast
    let ?sum = "JStr (dec_of_nat (nat_of_dec a + nat_of_dec n))"
    have sum: "JStr (jsString (JNum (int (nat_of_dec a) + int (nat_of_dec n)))) = ?sum" by (simp flip: of_nat_add)
    from w(2) Some a have w': "w = withProps (spread l) ((''returnReceived'', ?sum) # (if observesBalance l then [(''expectedCycleAsset'', JNull)] else []))"
      using sum by simp
    have field: "jprop w f = (if f = ''returnReceived'' then ?sum else if f = ''expectedCycleAsset'' \<and> observesBalance l then JNull else jprop l f)" for f
      unfolding w' jprop_withProps by (simp add: spread_plain [OF l(2)])
    have "plainJson w" unfolding w' by (rule plain_withProps [OF plain_spread [OF l(2,1)]]) simp
    moreover have "isPlainObject w" by (simp add: w' withProps_def isPlainObject_def)
    moreover have "custodyLedgerKey w = key" using l(3) by (simp add: custodyLedgerKey_def field)
    moreover have "expectedOf w = JNull" by (simp add: expectedOf_def observesBalance_def field)
    moreover have "nat_of_dec (str_of (jprop w b)) = amountIn md key b + (if b = ''returnReceived'' then nat_of_dec n else 0)"
      if "b \<in> set CUSTODY_LEDGER_BUCKETS" for b
    proof -
      have "b \<noteq> ''expectedCycleAsset''" using that by (auto simp: CUSTODY_LEDGER_BUCKETS_def)
      then show ?thesis by (simp add: field amountIn_def Some a)
    qed
    ultimately show ?thesis by blast
  qed
  then show "plainJson w" "isPlainObject w" "custodyLedgerKey w = key" "expectedOf w = JNull"
    "\<forall>bucket \<in> set CUSTODY_LEDGER_BUCKETS. nat_of_dec (str_of (jprop w bucket)) = amountIn md key bucket + (if bucket = ''returnReceived'' then nat_of_dec n else 0)"
    by blast+
qed

text \<open>The ledger of a hold: only the expectation goes.\<close>

lemma hold_ledger:
  assumes "clearedReturnExpectationLedger md leg = w" and ok: "custodyOk md"
  defines "key \<equiv> returnLedgerKey md leg"
  shows "w = JNull \<Longrightarrow> expectationAt md key = JNull"
    and "w \<noteq> JNull \<Longrightarrow> plainJson w \<and> isPlainObject w \<and> custodyLedgerKey w = key \<and> expectedOf w = JNull
      \<and> (\<forall>bucket \<in> set CUSTODY_LEDGER_BUCKETS. nat_of_dec (str_of (jprop w bucket)) = amountIn md key bucket)"
proof -
  show "expectationAt md key = JNull" if "w = JNull"
    using assms(1) that unfolding clearedReturnExpectationLedger_def key_def [symmetric]
    by (auto simp: expectationAt_def expectedOf_def withoutExpectation_def withProps_def split: option.splits if_splits)
  assume "w \<noteq> JNull"
  with assms(1) obtain l where l: "omap_get (md_custody md) key = Some l" and w: "w = withoutExpectation l"
    unfolding clearedReturnExpectationLedger_def key_def [symmetric] by (auto split: option.splits if_splits)
  note c = custodyOk_ledger [OF ok l]
  have field: "jprop w f = (if f = ''expectedCycleAsset'' then JNull else jprop l f)" for f
    unfolding w withoutExpectation_def jprop_withProps by (simp add: spread_plain [OF c(2)])
  have "plainJson w" unfolding w withoutExpectation_def by (rule plain_withProps [OF plain_spread [OF c(2,1)]]) simp
  moreover have "isPlainObject w" by (simp add: w withoutExpectation_def withProps_def isPlainObject_def)
  moreover have "custodyLedgerKey w = key" using c(3) by (simp add: custodyLedgerKey_def field)
  moreover have "expectedOf w = JNull" by (simp add: expectedOf_def field)
  moreover have "nat_of_dec (str_of (jprop w b)) = amountIn md key b" if "b \<in> set CUSTODY_LEDGER_BUCKETS" for b
  proof -
    have "b \<noteq> ''expectedCycleAsset''" using that by (auto simp: CUSTODY_LEDGER_BUCKETS_def)
    then show ?thesis by (simp add: field amountIn_def l)
  qed
  ultimately show "plainJson w \<and> isPlainObject w \<and> custodyLedgerKey w = key \<and> expectedOf w = JNull
      \<and> (\<forall>bucket \<in> set CUSTODY_LEDGER_BUCKETS. nat_of_dec (str_of (jprop w bucket)) = amountIn md key bucket)" by blast
qed

text \<open>Writing a ledger that has the text of \<open>w\<close> moves only the amounts under its key.\<close>

lemma written_ledger:
  assumes "assertLedgerText c label w message = Inr ()" and "plainJson c" and w: "plainJson w" "isPlainObject w" "custodyLedgerKey w = key" "expectedOf w = JNull"
    and amounts: "\<forall>bucket \<in> set CUSTODY_LEDGER_BUCKETS. nat_of_dec (str_of (jprop w bucket)) = amountIn md key bucket + credit bucket"
  shows "\<not> nullish c"
    and "\<forall>k. \<forall>bucket \<in> set CUSTODY_LEDGER_BUCKETS. amountIn (setCustody c (setLeg leg md)) k bucket = amountIn md k bucket + (if k = key then credit bucket else 0)"
    and "expectationAt (setCustody c (setLeg leg md)) key = JNull"
proof -
  note t = assertLedgerText_Inr [OF assms(1,2) w(1,2)]
  from assms(1) obtain ledger where "assertCustodyLedger c label False = Inr ledger" unfolding assertLedgerText_def bindE_Inr_iff by blast
  from assertCustodyLedger_Inr(2) [OF this assms(2)] show "\<not> nullish c" by (auto simp: nullish_def isPlainObject_def)
  have "expectedOf c = JNull"
  proof (cases "observesBalance c")
    case True
    then have "isString (jprop c ''schema'')" by (auto simp: observesBalance_def isString_def ledgerV2_def ledgerV3_def)
    then have "jprop w ''schema'' = jprop c ''schema''" by (rule sameJson_string [OF t(1) [rule_format]])
    with w(4) True have "jprop w ''expectedCycleAsset'' = JNull" by (simp add: expectedOf_def observesBalance_def)
    with t(1) [rule_format, of "''expectedCycleAsset''"] True show ?thesis by (simp add: expectedOf_def)
  qed (simp add: expectedOf_def)
  then show "expectationAt (setCustody c (setLeg leg md)) key = JNull" using t(2) w(3) by (simp add: expectationAt_def setCustody_def setLeg_def)
  have "custodyLedgerKey c = key" using t(2) w(3) by simp
  then show "\<forall>k. \<forall>bucket \<in> set CUSTODY_LEDGER_BUCKETS. amountIn (setCustody c (setLeg leg md)) k bucket = amountIn md k bucket + (if k = key then credit bucket else 0)"
    using amounts t(3) by (simp add: amountIn_def setCustody_def setLeg_def)
qed

lemma setLeg_custody [simp]: "amountIn (setLeg leg md) = amountIn md" "expectationAt (setLeg leg md) = expectationAt md"
  by (simp_all add: fun_eq_iff amountIn_def expectationAt_def setLeg_def)

lemma return_state:
  assumes "returnRelayTerminalState leg p = Inr ''SETTLED''"
  shows "jprop p ''observedAmountAtomic'' = jprop leg ''destinationAmountAtomic''"
  using assms unfolding returnRelayTerminalState_def Let_def by (auto split: if_splits)

lemma return_credit:
  assumes ok: "custodyOk md" and leg: "plainJson leg" "assertRelayLeg leg l1 = Inr leg" and leg': "plainJson leg'" "assertRelayLeg leg' l2 = Inr leg'"
    and same: "\<forall>f \<in> {''relayRequestId'', ''destinationChainId'', ''destinationAssetId''}. jprop leg' f = jprop leg f"
    and custody: "assertReturnCustody md leg' nxt c = Inr ()" "plainJson c" and net: "nxt = ''SETTLED'' \<Longrightarrow> jprop leg' ''netDeltaAtomic'' = jprop leg ''destinationAmountAtomic''"
  defines "key \<equiv> returnLedgerKey md leg"
    and "credit \<equiv> if nxt = ''SETTLED'' then nat_of_dec (str_of (jprop leg ''destinationAmountAtomic'')) else 0"
    and "md' \<equiv> if nullish c then setLeg leg' md else setCustody c (setLeg leg' md)"
  shows "\<forall>k. \<forall>bucket \<in> set CUSTODY_LEDGER_BUCKETS. amountIn md' k bucket = amountIn md k bucket + (if k = key \<and> bucket = ''returnReceived'' then credit else 0)"
    and "expectationAt md' key = JNull" and "nxt = ''SETTLED'' \<Longrightarrow> 0 < credit"
proof -
  have key: "returnLedgerKey md leg' = key" using same by (simp add: key_def returnLedgerKey_def split: option.split)
  have "(\<forall>k. \<forall>bucket \<in> set CUSTODY_LEDGER_BUCKETS. amountIn md' k bucket = amountIn md k bucket + (if k = key \<and> bucket = ''returnReceived'' then credit else 0))
    \<and> expectationAt md' key = JNull \<and> (nxt = ''SETTLED'' \<longrightarrow> 0 < credit)"
  proof (cases "nxt = ''SETTLED''")
    case True
    from assertLegRoute_Inr(5) [OF assertRelayLeg_Inr(3) [OF leg(2)]] obtain n where n: "jprop leg ''destinationAmountAtomic'' = JStr n" "is_decimal n" by blast
    have net': "jprop leg' ''netDeltaAtomic'' = JStr n" using net [OF True] n by simp
    from custody(1) True obtain w where w: "returnSettlementCustodyLedger md leg' = Inr w"
        "assertLedgerText c ''return relay settlement custody ledger'' w ''return relay settlement custody ledger does not bind the attributed net delta'' = Inr ()"
      unfolding assertReturnCustody_def by (auto simp: bindE_Inr_iff)
    note s = settlement_ledger [OF w(1) ok leg' net' n(2), unfolded key]
    note t = assertLedgerText_Inr [OF w(2) custody(2) s(1,2)]
    note r = written_ledger(1) [OF w(2) custody(2) s(1-4) s(6)] written_ledger(2,3) [where leg = leg', OF w(2) custody(2) s(1-4) s(6)]
    show ?thesis using r s(5) by (simp add: md'_def credit_def True n)
  next
    case False
    note h = hold_ledger [OF refl ok, of leg', unfolded key]
    show ?thesis
    proof (cases "clearedReturnExpectationLedger md leg' = JNull")
      case True
      with custody(1) False have "c = JNull" unfolding assertReturnCustody_def by (auto simp: throwIf_Inr)
      with h(1) [OF True] False show ?thesis by (simp add: md'_def nullish_def credit_def)
    next
      case notNull: False
      note s = h(2) [OF notNull]
      from custody(1) False notNull have w: "assertLedgerText c ''return relay hold custody ledger'' (clearedReturnExpectationLedger md leg')
          ''return relay settlement hold does not clear its custody ledger expectation exactly'' = Inr ()"
        unfolding assertReturnCustody_def by (simp add: Let_def)
      have "\<forall>bucket \<in> set CUSTODY_LEDGER_BUCKETS. nat_of_dec (str_of (jprop (clearedReturnExpectationLedger md leg') bucket)) = amountIn md key bucket + (\<lambda>_. 0) bucket"
        using s by simp
      note r = written_ledger(1) [OF w custody(2) _ _ _ _ this] written_ledger(2,3) [where leg = leg', OF w custody(2) _ _ _ _ this]
      show ?thesis using r s False by (simp add: md'_def credit_def)
    qed
  qed
  then show "\<forall>k. \<forall>bucket \<in> set CUSTODY_LEDGER_BUCKETS. amountIn md' k bucket = amountIn md k bucket + (if k = key \<and> bucket = ''returnReceived'' then credit else 0)"
    "expectationAt md' key = JNull" "nxt = ''SETTLED'' \<Longrightarrow> 0 < credit" by blast+
qed

lemma transition_outbound_custody:
  assumes "assertOutboundRelaySettlementInput leg v = Inr x"
  shows "nullish (jprop v ''custodyLedger'')"
proof -
  from assms have keys: "isPlainObject v" "set (ownKeys v) \<subseteq> {''sourceFinality'', ''destinationTxHash'', ''destinationFinality'', ''netDeltaAtomic'', ''attribution'',
      ''terminalState'', ''refundProof''}"
    unfolding assertOutboundRelaySettlementInput_def assertPlainObjectWithOptionalFields_def Let_def bindE_Inr_iff throwIf_Inr
    by (elim exE conjE; simp)+
  then have "''custodyLedger'' \<notin> set (ownKeys v)" by auto
  moreover obtain ps where "v = JObj ps" using keys(1) by (auto simp: isPlainObject_iff)
  ultimately have "map_of ps ''custodyLedger'' = None" by (simp add: ownKeys_def map_of_eq_None_iff)
  then show ?thesis by (simp add: \<open>v = JObj ps\<close> jprop_JObj nullish_def)
qed

text \<open>
  C7. A settlement moves exactly the money its proof shows.  When a settlement event of a leg is accepted, the only amount of any custody
  ledger that changes is \<open>returnReceived\<close> of the ledger that expects the return, and it grows by exactly the quoted amount of the
  leg, a positive number, if the return is \<open>SETTLED\<close>, and by nothing if it is held; the ledger's expectation is cleared in the same event.
  An outbound settlement changes no amount.
\<close>

theorem settlement_credits_exactly:
  fixes env :: "'y money_env"
  assumes "list_all plainJson (log @ [e])" and "replayEntries sha (moneyParts env cid) cid log = Inr st"
    and "replayEntries sha (moneyParts env cid) cid (log @ [e]) = Inr st'" and "settlesLeg request e" and "custodyOk (rp_other st)"
  shows "\<exists>leg leg'. omap_get (md_legs (rp_other st)) request = Some leg \<and> omap_get (md_legs (rp_other st')) request = Some leg'
    \<and> (let key = returnLedgerKey (rp_other st) leg; returned = (jprop leg ''direction'' = JStr ''return''); settled = (jprop leg' ''state'' = JStr ''SETTLED'');
           credit = (if returned \<and> settled then nat_of_dec (str_of (jprop leg ''destinationAmountAtomic'')) else 0) in
       (\<forall>k. \<forall>bucket \<in> set CUSTODY_LEDGER_BUCKETS.
          amountIn (rp_other st') k bucket = amountIn (rp_other st) k bucket + (if k = key \<and> bucket = ''returnReceived'' then credit else 0))
       \<and> (returned \<longrightarrow> expectationAt (rp_other st') key = JNull) \<and> (returned \<and> settled \<longrightarrow> 0 < credit))"
proof -
  from assms(1) have plain: "list_all plainJson log" "plainJson e" by simp_all
  have step: "replayEntry sha (moneyParts env cid) cid e st = Inr st'"
    using assms(2,3) by (auto simp: bindE_Inr_iff elim!: replayEntries_append)
  note ok = legs_of_log(1) [OF plain(1) assms(2)]
  let ?md = "rp_other st" and ?p = "jprop e ''payload''"
  have kind: "entryKind e = ''relay-leg-settled''" and req: "jprop ?p ''relayRequestId'' = JStr request" using assms(4) by (simp_all add: settlesLeg_def)
  have "\<exists>md'. replayLegSettled ?p st = Inr md' \<and> st' = st\<lparr>rp_other := md'\<rparr>"
    using replayEntry_event [OF step] kind
    by (auto simp: money_event moneyKinds_def moneyParts_def bindE_Inr_iff moneyStep_def)
  then obtain md' where md': "replayLegSettled ?p st = Inr md'" "st' = st\<lparr>rp_other := md'\<rparr>" by blast
  have legs: "\<forall>r l. omap_get (md_legs ?md) r = Some l \<longrightarrow> plainJson l" using ok by (simp add: legsOk_def legMap_def)
  obtain leg leg' request' nxt ev where l: "jprop ?p ''relayRequestId'' = JStr request'" "omap_get (md_legs ?md) request' = Some leg"
      "assertRelaySettlementInput st leg (jprop ?p ''settlement'') = Inr (leg', jprop ?p ''settlement'')"
      "transitionRelayLeg leg nxt ev = Inr leg'" "plainJson ev" "isPlainObject ev" "jprop leg' ''relayRequestId'' = JStr request'"
      "md' = (let custody = jprop (jprop ?p ''settlement'') ''custodyLedger'' in
         if nullish custody then setLeg leg' ?md else setCustody custody (setLeg leg' ?md))"
    by (rule settled_shape [OF md'(1) plain_jprop [OF plain(2)] legs])
  let ?v = "jprop ?p ''settlement''" and ?key = "returnLedgerKey ?md leg"
  have same: "request' = request" using l(1) req by simp
  have v: "plainJson ?v" by (intro plain_jprop plain(2))
  have p0: "plainJson leg" using legs l(2) by blast
  from ok l(2) obtain label where acc: "assertRelayLeg leg label = Inr leg" unfolding legsOk_def legMap_def by blast
  note t = transition_keeps [OF l(4) p0 l(5,6)]
  have legs': "omap_get (md_legs md') request = Some leg'" using l(7,8) same by (simp add: setLeg_def setCustody_def Let_def)
  have "(let returned = (jprop leg ''direction'' = JStr ''return''); settled = (jprop leg' ''state'' = JStr ''SETTLED'');
           credit = (if returned \<and> settled then nat_of_dec (str_of (jprop leg ''destinationAmountAtomic'')) else 0) in
       (\<forall>k. \<forall>bucket \<in> set CUSTODY_LEDGER_BUCKETS.
          amountIn md' k bucket = amountIn ?md k bucket + (if k = ?key \<and> bucket = ''returnReceived'' then credit else 0))
       \<and> (returned \<longrightarrow> expectationAt md' ?key = JNull) \<and> (returned \<and> settled \<longrightarrow> 0 < credit))"
  proof (cases "jprop leg ''direction'' = JStr ''outbound''")
    case True
    then have "assertOutboundRelaySettlementInput leg ?v = Inr (leg', ?v)" using l(3) by (simp add: assertRelaySettlementInput_def)
    from transition_outbound_custody [OF this] l(8) have "md' = setLeg leg' ?md" by simp
    with True show ?thesis by simp
  next
    case False
    then have ret: "jprop leg ''direction'' = JStr ''return''" and inp: "assertReturnRelaySettlementInput st leg ?v = Inr (leg', ?v)"
      using l(3) by (simp_all add: assertRelaySettlementInput_def split: if_splits)
    obtain nxt' p where r: "transitionRelayLeg leg nxt' (settlementEvidence (jprop p ''sourceFinality'') (jprop p ''destinationTxHash'')
          (jprop p ''destinationFinality'') (jprop p ''observedAmountAtomic'')) = Inr leg'"
        "plainJson p" "returnRelayTerminalState leg p = Inr nxt'" "assertReturnCustody ?md leg' nxt' (jprop ?v ''custodyLedger'') = Inr ()"
      by (rule return_transition [OF inp v])
    note t' = transition_keeps [OF r(1) p0 evidence_plain [OF plain_jprop [OF r(2)] plain_jprop [OF r(2)] plain_jprop [OF r(2)] plain_jprop [OF r(2)]]]
    have fields: "\<forall>f \<in> {''relayRequestId'', ''destinationChainId'', ''destinationAssetId''}. jprop leg' f = jprop leg f"
      using t'(8) by (simp add: RELAY_LEG_SETTLEMENT_EVIDENCE_def)
    have net: "jprop leg' ''netDeltaAtomic'' = jprop leg ''destinationAmountAtomic''" if "nxt' = ''SETTLED''"
      using return_state [OF r(3) [unfolded that]] t'(9) [of "''netDeltaAtomic''"] by (simp add: RELAY_LEG_SETTLEMENT_EVIDENCE_def)
    have state: "jprop leg' ''state'' = JStr ''SETTLED'' \<longleftrightarrow> nxt' = ''SETTLED''" using t'(2) by simp
    note c = return_credit [OF assms(5) p0 acc t'(5,6) fields r(4) plain_jprop [OF v] net]
    have "md' = (if nullish (jprop ?v ''custodyLedger'') then setLeg leg' ?md else setCustody (jprop ?v ''custodyLedger'') (setLeg leg' ?md))"
      using l(8) by (simp add: Let_def)
    then show ?thesis using c unfolding ret state Let_def by simp
  qed
  with l(2) legs' same show ?thesis unfolding md'(2) by (simp add: Let_def)
qed

theorem settlement_credits_exactly_witness:
  "amountIn (ex_money_at ex_leg_settled ex_ledger_credited) ex_key ''returnReceived'' = amountIn (ex_money_at ex_leg_sent ex_ledger_open) ex_key ''returnReceived'' + 500
   \<and> expectationAt (ex_money_at ex_leg_settled ex_ledger_credited) ex_key = JNull"
proof -
  let ?before = "ex_state ex_chain_map (ex_money_at ex_leg_sent ex_ledger_open)" and ?after = "ex_state ex_chain_map (ex_money_at ex_leg_settled ex_ledger_credited)"
  have o: "rp_other (ex_state chain md) = md" for chain md by (simp add: ex_state_def)
  have settles: "settlesLeg ''r1'' ex_return_entry" by (simp add: settlesLeg_def ex_return_entry_def ex_entry_parts ex_payloads)
  have ok: "custodyOk (rp_other ?before)"
    by (auto simp: custodyOk_def o ex_money_at_def omap_get_def ex_key_def ex_plain ex_relay_accepted split: if_splits)
  have key: "returnLedgerKey (ex_money_at ex_leg_sent ex_ledger_open) ex_leg_sent = ex_key"
    using ex_leg_fields by (simp add: returnLedgerKey_def ex_money_at_def getAt_def omap_get_def)
  have legs: "omap_get (md_legs (ex_money_at leg l)) ''r1'' = Some leg" for leg l by (simp add: ex_money_at_def omap_get_def)
  have bucket: "''returnReceived'' \<in> set CUSTODY_LEDGER_BUCKETS" by (simp add: CUSTODY_LEDGER_BUCKETS_def)
  have amount: "nat_of_dec (str_of (JStr ''500'')) = 500" by code_simp
  from settlement_credits_exactly [OF ex_return_plain ex_return_before [unfolded ex_money_replay_def] ex_return_after [unfolded ex_money_replay_def] settles ok]
  show ?thesis using ex_leg_fields amount bucket unfolding o legs option.inject Let_def by (auto simp: key)
qed

end
