(* ===== verification/Wallet_Nonces.thy ===== *)
theory Wallet_Nonces
  imports Relay_Settlement
begin

text \<open>
  Wallet nonce reservations: the document of \<^verbatim>\<open>packages/runner/src/cycle/money-schemas.mjs\<close>, its events and operations in
  \<^verbatim>\<open>packages/adapters/src/app/cycle-repository.mjs\<close> and the global keys of \<^verbatim>\<open>packages/runner/src/cycle/durable-store.mjs\<close> that
  hold a wallet for one cycle.  A stage reserves the wallet of its signer for the time of its lease before it assigns a nonce, and releases it
  when it is done; a reservation whose lease has ended can be taken over.

  \<open>withNonces\<close> puts the events in the place that \<open>Relay_Settlement\<close> leaves for the rest of the repository.  A commit of the store
  writes the global keys and the journal together; a crash between the two writes is a matter of the store and not modelled.
\<close>

section \<open>The reservation\<close>

definition WALLET_NONCE_RESERVATION_STATES :: "string list" where
  "WALLET_NONCE_RESERVATION_STATES = [''HELD'', ''RELEASED'']"

definition WALLET_NONCE_FIELDS :: "string list" where
  "WALLET_NONCE_FIELDS = [''schema'', ''chainId'', ''wallet'', ''cycleId'', ''stage'', ''fencingToken'', ''leaseAcquiredAtMs'', ''leaseExpiresAtMs'', ''state'']"

text \<open>A version 4 UUID in lower case.\<close>

definition fencingTokenPattern :: "string \<Rightarrow> bool" where
  "fencingTokenPattern s = (length s = 36 \<and> list_all (\<lambda>(i, c).
     if i \<in> set [8, 13, 18, 23] then c = CHR ''-'' else if i = 14 then c = CHR ''4'' else if i = 19 then c \<in> set ''89ab''
     else c \<in> set ''0123456789abcdef'') (enumerate (0 :: nat) s))"

definition walletNonceSchema :: jsval where "walletNonceSchema = JStr ''hookemon.wallet-nonce-reservation.v1''"

definition assertWalletNonceReservation :: "jsval \<Rightarrow> string \<Rightarrow> jsval res" where
  "assertWalletNonceReservation v label =
     bindE (assertMoneyObject v WALLET_NONCE_FIELDS label) (\<lambda>_.
     bindE (throwIf (jprop v ''schema'' \<noteq> walletNonceSchema) (label @ '' schema is invalid'')) (\<lambda>_.
     bindE (checkFields assertMoneyString v [''chainId'', ''wallet'', ''cycleId''] label) (\<lambda>_.
     bindE (assertStage (jprop v ''stage'') (label @ '' stage'')) (\<lambda>_.
     bindE (throwIf (\<not> str_matches fencingTokenPattern (jprop v ''fencingToken'')) (label @ '' fencingToken is invalid'')) (\<lambda>_.
     bindE (throwIf (\<not> isSafeInteger (jprop v ''leaseAcquiredAtMs'') \<or> num_of (jprop v ''leaseAcquiredAtMs'') < 0) (label @ '' leaseAcquiredAtMs is invalid'')) (\<lambda>_.
     bindE (throwIf (\<not> isSafeInteger (jprop v ''leaseExpiresAtMs'') \<or> num_of (jprop v ''leaseExpiresAtMs'') \<le> num_of (jprop v ''leaseAcquiredAtMs''))
       (label @ '' leaseExpiresAtMs is invalid'')) (\<lambda>_.
     bindE (throwIf (\<not> str_matches (\<lambda>s. s \<in> set WALLET_NONCE_RESERVATION_STATES) (jprop v ''state'')) (label @ '' state is invalid'')) (\<lambda>_.
     structuredClone v))))))))"

definition canonicalChainId :: "jsval \<Rightarrow> string \<Rightarrow> string res" where
  "canonicalChainId v label =
     (if str_matches (\<lambda>s. s \<noteq> []) v \<or> (isSafeInteger v \<and> 0 \<le> num_of v) then Inr (jsString v) else Inl (JsError (label @ '' chainId is invalid'')))"

definition nonceInputLabel :: string where "nonceInputLabel = ''wallet nonce reservation''"

definition assertWalletNonceReservationInput :: "string \<Rightarrow> jsval \<Rightarrow> jsval res" where
  "assertWalletNonceReservationInput cycleId v =
     bindE (exactObject v [''chainId'', ''wallet'', ''stage'', ''fencingToken'', ''leaseAcquiredAtMs'', ''leaseExpiresAtMs''] (nonceInputLabel @ '' input'')) (\<lambda>_.
     bindE (canonicalChainId (jprop v ''chainId'') nonceInputLabel) (\<lambda>chainId.
     assertWalletNonceReservation (JObj [(''schema'', walletNonceSchema), (''chainId'', JStr chainId), (''wallet'', jprop v ''wallet''), (''cycleId'', JStr cycleId),
       (''stage'', jprop v ''stage''), (''fencingToken'', jprop v ''fencingToken''), (''leaseAcquiredAtMs'', jprop v ''leaseAcquiredAtMs''),
       (''leaseExpiresAtMs'', jprop v ''leaseExpiresAtMs''), (''state'', JStr ''HELD'')]) nonceInputLabel))"

definition walletNonceReservationKey :: "jsval \<Rightarrow> string" where
  "walletNonceReservationKey r = jsString (jprop r ''chainId'') @ [CHR 0x00] @ jsString (jprop r ''wallet'')"

definition isHeld :: "jsval \<Rightarrow> bool" where
  "isHeld r = (jprop r ''state'' = JStr ''HELD'')"

definition walletNonceReservationExpired :: "jsval \<Rightarrow> int \<Rightarrow> bool" where
  "walletNonceReservationExpired r now = (num_of (jprop r ''leaseExpiresAtMs'') \<le> now)"

definition validWalletNonceTakeover :: "jsval \<Rightarrow> jsval \<Rightarrow> bool" where
  "validWalletNonceTakeover previous replacement =
     (isHeld previous \<and> isHeld replacement \<and> num_of (jprop previous ''leaseExpiresAtMs'') \<le> num_of (jprop replacement ''leaseAcquiredAtMs''))"

section \<open>Replay\<close>

record 'z nonce_state =
  nn_reservations :: "(string \<times> jsval) list"
  nn_rest :: 'z

definition replayNonceReserved :: "string \<Rightarrow> jsval \<Rightarrow> (string \<times> jsval) list \<Rightarrow> (string \<times> jsval) list res" where
  "replayNonceReserved cycleId payload reservations =
     bindE (assertWalletNonceReservation (jprop payload ''reservation'') ''stored wallet nonce reservation'') (\<lambda>reservation.
     bindE (throwIf (jprop reservation ''cycleId'' \<noteq> JStr cycleId \<or> \<not> isHeld reservation) ''stored wallet nonce reservation is invalid'') (\<lambda>_.
     let key = walletNonceReservationKey reservation in
     bindE (case omap_get reservations key of None \<Rightarrow> Inr False
            | Some previous \<Rightarrow> if \<not> isHeld previous then Inr False
                else bindE (textsDiffer previous reservation) (\<lambda>differ. Inr (differ \<and> \<not> validWalletNonceTakeover previous reservation))) (\<lambda>conflict.
     bindE (throwIf conflict ''stored wallet nonce reservation conflicts with prior reservation'') (\<lambda>_.
     Inr (omap_set key reservation reservations)))))"

definition replayNonceReleased :: "string \<Rightarrow> jsval \<Rightarrow> (string \<times> jsval) list \<Rightarrow> (string \<times> jsval) list res" where
  "replayNonceReleased cycleId payload reservations =
     bindE (assertWalletNonceReservation (jprop payload ''reservation'') ''stored wallet nonce release'') (\<lambda>release.
     let key = walletNonceReservationKey release; invalid = ''stored wallet nonce release is invalid'' in
     case omap_get reservations key of None \<Rightarrow> Inl (JsError invalid)
     | Some previous \<Rightarrow>
         bindE (throwIf (\<not> isHeld previous \<or> jprop previous ''cycleId'' \<noteq> JStr cycleId \<or> jprop previous ''stage'' \<noteq> jprop release ''stage''
             \<or> jprop previous ''fencingToken'' \<noteq> jprop release ''fencingToken'' \<or> jprop release ''state'' \<noteq> JStr ''RELEASED'') invalid) (\<lambda>_.
         Inr (omap_set key release reservations)))"

text \<open>The remaining events may change anything but the reservations.\<close>

definition nonceStep ::
  "'z nonce_state money_env \<Rightarrow> string \<Rightarrow> 'z nonce_state money_state replay_state \<Rightarrow> jsval \<Rightarrow> ('z nonce_state \<times> jsval list) res"
where
  "nonceStep env cycleId st entry =
     (let kind = entryKind entry; payload = jprop entry ''payload''; nn = md_rest (rp_other st) in
      if kind = ''wallet-nonce-reserved'' then bindE (replayNonceReserved cycleId payload (nn_reservations nn)) (\<lambda>m. Inr (nn\<lparr>nn_reservations := m\<rparr>, []))
      else if kind = ''wallet-nonce-released'' then bindE (replayNonceReleased cycleId payload (nn_reservations nn)) (\<lambda>m. Inr (nn\<lparr>nn_reservations := m\<rparr>, []))
      else bindE (mo_step env st entry) (\<lambda>(rest, ledgers). Inr (rest\<lparr>nn_reservations := nn_reservations nn\<rparr>, ledgers)))"

definition withNonces :: "'z nonce_state money_env \<Rightarrow> string \<Rightarrow> 'z nonce_state money_env" where
  "withNonces env cycleId = env\<lparr>mo_initial := (mo_initial env)\<lparr>nn_reservations := []\<rparr>, mo_step := nonceStep env cycleId\<rparr>"

definition nonceParts :: "'z nonce_state money_env \<Rightarrow> string \<Rightarrow> 'z nonce_state money_state other_parts" where
  "nonceParts env cycleId = moneyParts (withNonces env cycleId) cycleId"

definition reservationsOf :: "'z nonce_state money_state replay_state \<Rightarrow> (string \<times> jsval) list" where
  "reservationsOf st = nn_reservations (md_rest (rp_other st))"

section \<open>Global keys of the store\<close>

definition globalKeyPattern :: "string \<Rightarrow> bool" where
  "globalKeyPattern s = (case s of [] \<Rightarrow> False | c # cs \<Rightarrow> (is_lower_alpha c \<or> is_upper_alpha c \<or> is_digit c) \<and> length cs \<le> 255
     \<and> list_all (\<lambda>d. is_lower_alpha d \<or> is_upper_alpha d \<or> is_digit d \<or> d \<in> set '':._-'') cs)"

definition assertGlobalKey :: "string \<Rightarrow> unit res" where
  "assertGlobalKey key = throwIf (\<not> globalKeyPattern key) ''durable global reservation key is invalid''"

definition readGlobalKey :: "(string \<times> jsval) list \<Rightarrow> string \<Rightarrow> jsval option res" where
  "readGlobalKey globals key = bindE (assertGlobalKey key) (\<lambda>_. Inr (omap_get globals key))"

definition omap_delete :: "'k \<Rightarrow> ('k \<times> 'v) list \<Rightarrow> ('k \<times> 'v) list" where
  "omap_delete k m = filter (\<lambda>p. fst p \<noteq> k) m"

definition releaseGlobalKey :: "(string \<times> jsval) list \<Rightarrow> string \<Rightarrow> jsval \<Rightarrow> (string \<times> jsval) list res" where
  "releaseGlobalKey globals key v =
     bindE (assertGlobalKey key) (\<lambda>_.
     bindE (canonicalJson v) (\<lambda>_.
     case omap_get globals key of None \<Rightarrow> Inr globals
     | Some existing \<Rightarrow>
         bindE (textsDiffer existing v) (\<lambda>differ.
         bindE (throwIf differ ''durable global reservation key is owned by different value'') (\<lambda>_.
         Inr (omap_delete key globals)))))"

datatype global_op =
    ReserveKey string jsval
  | ReplaceKey string jsval jsval
  | ReleaseKey string jsval

text \<open>The checks that a commit repeats under the lock of the store, and what it then writes.\<close>

definition changedUnlessEqual :: "(string \<times> jsval) list \<Rightarrow> string \<Rightarrow> jsval \<Rightarrow> string \<Rightarrow> unit res" where
  "changedUnlessEqual globals key expected message =
     (case omap_get globals key of None \<Rightarrow> Inl (JsError message)
      | Some existing \<Rightarrow> bindE (textsDiffer existing expected) (\<lambda>differ. throwIf differ message))"

fun checkGlobalOp :: "(string \<times> jsval) list \<Rightarrow> global_op \<Rightarrow> unit res" where
  "checkGlobalOp globals (ReserveKey key v) =
     bindE (assertGlobalKey key) (\<lambda>_.
     bindE (canonicalJson v) (\<lambda>_.
     case omap_get globals key of None \<Rightarrow> Inr ()
     | Some existing \<Rightarrow>
         if falsy existing then Inr ()
         else bindE (textsDiffer existing v) (\<lambda>differ. throwIf differ ''durable global reservation key is already reserved by a different value'')))"
| "checkGlobalOp globals (ReplaceKey key expected v) =
     bindE (assertGlobalKey key) (\<lambda>_.
     bindE (canonicalJson expected) (\<lambda>_.
     bindE (canonicalJson v) (\<lambda>_.
     changedUnlessEqual globals key expected ''durable global reservation key changed before replacement'')))"
| "checkGlobalOp globals (ReleaseKey key expected) =
     bindE (assertGlobalKey key) (\<lambda>_.
     bindE (canonicalJson expected) (\<lambda>_.
     changedUnlessEqual globals key expected ''durable global reservation key changed before release''))"

fun applyGlobalOp :: "global_op \<Rightarrow> (string \<times> jsval) list \<Rightarrow> (string \<times> jsval) list" where
  "applyGlobalOp (ReserveKey key v) globals = omap_set key v globals"
| "applyGlobalOp (ReplaceKey key expected v) globals = omap_set key v globals"
| "applyGlobalOp (ReleaseKey key expected) globals = omap_delete key globals"

definition commitGlobals :: "(string \<times> jsval) list \<Rightarrow> global_op list \<Rightarrow> (string \<times> jsval) list res" where
  "commitGlobals globals ops =
     bindE (foldE (\<lambda>_ op _. checkGlobalOp globals op) 0 ops ()) (\<lambda>_. Inr (foldl (\<lambda>m op. applyGlobalOp op m) globals ops))"

section \<open>Operations\<close>

text \<open>
  What an operation decides: a plan for the journal with the global keys written in the same commit, or, for a key that a released
  reservation left behind, the deletion of that key alone.
\<close>

datatype 'x nonce_plan =
    Commit "'x plan" "global_op list"
  | ReleaseOnly string jsval

definition nonceGlobalKey :: "jsval \<Rightarrow> string" where
  "nonceGlobalKey r = ''wallet-nonce:'' @ str_of (jprop r ''chainId'') @ '':'' @ lowerOf (jprop r ''wallet'')"

text \<open>\<open>#knownStates()\<close> gives the reservations of every cycle.\<close>

definition heldInAnotherCycle :: "(string \<times> (string \<times> jsval) list) list \<Rightarrow> string \<Rightarrow> jsval \<Rightarrow> int \<Rightarrow> string option" where
  "heldInAnotherCycle known cycleId reservation now =
     map_option fst (List.find (\<lambda>(candidate, reservations). candidate \<noteq> cycleId
       \<and> (case omap_get reservations (walletNonceReservationKey reservation) of None \<Rightarrow> False
          | Some current \<Rightarrow> isHeld current \<and> \<not> walletNonceReservationExpired current now)) known)"

definition refuseCompeting :: "string option \<Rightarrow> string \<Rightarrow> unit res" where
  "refuseCompeting competing name =
     (case competing of None \<Rightarrow> Inr () | Some other \<Rightarrow> Inl (JsError (''cycle-repository '' @ name @ '': wallet is reserved by active cycle '' @ other)))"

definition retakes :: "jsval \<Rightarrow> jsval \<Rightarrow> int \<Rightarrow> bool" where
  "retakes current reservation now = (walletNonceReservationExpired current now \<and> validWalletNonceTakeover current reservation)"

text \<open>How a reservation claims its global key.\<close>

definition claimGlobalKey :: "jsval option \<Rightarrow> jsval \<Rightarrow> int \<Rightarrow> global_op list res" where
  "claimGlobalKey existingGlobal reservation now =
     (let key = nonceGlobalKey reservation in
      case existingGlobal of None \<Rightarrow> Inr [ReserveKey key reservation]
      | Some existing \<Rightarrow>
          bindE (textsDiffer existing reservation) (\<lambda>differ.
          if \<not> differ then Inr []
          else case assertWalletNonceReservation existing ''durable wallet nonce reservation'' of
                 Inl e \<Rightarrow> Inl (JsError ''cycle-repository reserveWalletNonce: durable wallet nonce reservation is invalid'')
               | Inr holder \<Rightarrow>
                   bindE (throwIf (\<not> retakes holder reservation now) ''cycle-repository reserveWalletNonce: wallet is already reserved with different fence'') (\<lambda>_.
                   Inr [ReplaceKey key existing reservation])))"

text \<open>The guard of the second replay.\<close>

definition reserveGuard :: "jsval \<Rightarrow> int \<Rightarrow> 'z nonce_state money_state replay_state \<Rightarrow> unit res" where
  "reserveGuard reservation now current =
     (case omap_get (reservationsOf current) (walletNonceReservationKey reservation) of None \<Rightarrow> Inr ()
      | Some latest \<Rightarrow>
          bindE (if isHeld latest
                 then bindE (textsDiffer latest reservation) (\<lambda>differ. Inr (differ \<and> \<not> retakes latest reservation now))
                 else Inr False) (\<lambda>changed.
          bindE (throwIf changed ''cycle-repository reserveWalletNonce: reservation changed while acquiring'') (\<lambda>_.
          throwIf (jprop latest ''state'' \<notin> {JStr ''HELD'', JStr ''RELEASED''}) ''cycle-repository reserveWalletNonce: wallet reservation has an invalid state'')))"

definition heldRetry :: "'z nonce_state money_env \<Rightarrow> string \<Rightarrow> 'z nonce_state money_state replay_state \<Rightarrow> unit res" where
  "heldRetry env name st =
     (case rp_terminalState st of None \<Rightarrow> Inr ()
      | Some terminal \<Rightarrow> throwIf (\<not> mo_heldRetry env name st) (''cycle-repository '' @ name @ '': cycle is terminal as '' @ terminal))"

definition reserveWalletNonce ::
  "'z nonce_state money_env \<Rightarrow> string \<Rightarrow> jsval \<Rightarrow> jsval \<Rightarrow> 'z nonce_state money_state replay_state res
    \<Rightarrow> (string \<times> (string \<times> jsval) list) list \<Rightarrow> (string \<times> jsval) list \<Rightarrow> 'z nonce_state money_state nonce_plan res"
where
  "reserveWalletNonce env cycleId v clock replay known globals =
     bindE (assertWalletNonceReservationInput cycleId v) (\<lambda>reservation.
     bindE (currentRepositoryTime clock) (\<lambda>time.
     let now = num_of time; name = ''cycle-repository reserveWalletNonce'' in
     bindE (throwIf (now < num_of (jprop reservation ''leaseAcquiredAtMs'') \<or> walletNonceReservationExpired reservation now)
       (name @ '': reservation lease is not active'')) (\<lambda>_.
     bindE replay (\<lambda>state.
     bindE (heldRetry env ''reserveWalletNonce'' state) (\<lambda>_.
     let current = omap_get (reservationsOf state) (walletNonceReservationKey reservation) in
     bindE (case current of None \<Rightarrow> Inr None
            | Some c \<Rightarrow> if \<not> isHeld c then Inr None
                else bindE (textsDiffer c reservation) (\<lambda>differ.
                     if \<not> differ then Inr (Some c)
                     else bindE (throwIf (\<not> retakes c reservation now) (name @ '': wallet is already reserved with different fence'')) (\<lambda>_. Inr None))) (\<lambda>mine.
     case mine of Some c \<Rightarrow> Inr (Commit (Return c) [])
     | None \<Rightarrow>
         bindE (case current of None \<Rightarrow> Inr ()
                | Some c \<Rightarrow> throwIf (jprop c ''state'' \<noteq> JStr ''RELEASED'' \<and> \<not> (isHeld c \<and> retakes c reservation now))
                    (name @ '': wallet reservation has an invalid state'')) (\<lambda>_.
         bindE (refuseCompeting (heldInAnotherCycle known cycleId reservation now) ''reserveWalletNonce'') (\<lambda>_.
         bindE (readGlobalKey globals (nonceGlobalKey reservation)) (\<lambda>existingGlobal.
         bindE (claimGlobalKey existingGlobal reservation now) (\<lambda>ops.
         Inr (Commit (Append [(''wallet-nonce-reserved'', JObj [(''reservation'', reservation)])] (Some ''reserveWalletNonce'')
           (reserveGuard reservation now) (\<lambda>_. reservation)) ops)))))))))))"

definition assertWalletNonce ::
  "string \<Rightarrow> jsval \<Rightarrow> jsval \<Rightarrow> 'z nonce_state money_state replay_state res \<Rightarrow> (string \<times> (string \<times> jsval) list) list \<Rightarrow> bool res"
where
  "assertWalletNonce cycleId v clock replay known =
     bindE (assertWalletNonceReservationInput cycleId v) (\<lambda>expected.
     bindE (currentRepositoryTime clock) (\<lambda>time.
     let now = num_of time; name = ''cycle-repository assertWalletNonce'' in
     bindE (throwIf (walletNonceReservationExpired expected now) (name @ '': wallet nonce reservation lease has expired'')) (\<lambda>_.
     bindE (refuseCompeting (heldInAnotherCycle known cycleId expected now) ''assertWalletNonce'') (\<lambda>_.
     bindE replay (\<lambda>state.
     let notHeld = name @ '': wallet nonce reservation is not held'' in
     case omap_get (reservationsOf state) (walletNonceReservationKey expected) of None \<Rightarrow> Inl (JsError notHeld)
     | Some current \<Rightarrow>
         bindE (throwIf (\<not> isHeld current) notHeld) (\<lambda>_.
         bindE (throwIf (walletNonceReservationExpired current now) (name @ '': wallet nonce reservation lease has expired'')) (\<lambda>_.
         bindE (textsDiffer current expected) (\<lambda>differ.
         bindE (throwIf differ (name @ '': stale wallet nonce fencing token'')) (\<lambda>_.
         Inr True)))))))))"

definition releaseGuard :: "jsval \<Rightarrow> jsval \<Rightarrow> 'z nonce_state money_state replay_state \<Rightarrow> unit res" where
  "releaseGuard expected current now =
     (let changed = ''cycle-repository releaseWalletNonce: reservation changed while releasing'' in
      case omap_get (reservationsOf now) (walletNonceReservationKey expected) of None \<Rightarrow> Inl (JsError changed)
      | Some latest \<Rightarrow> bindE (textsDiffer latest current) (\<lambda>differ. throwIf differ changed))"

definition releaseWalletNonce ::
  "string \<Rightarrow> jsval \<Rightarrow> 'z nonce_state money_state replay_state res \<Rightarrow> (string \<times> jsval) list \<Rightarrow> 'z nonce_state money_state nonce_plan res"
where
  "releaseWalletNonce cycleId v replay globals =
     bindE (assertWalletNonceReservationInput cycleId v) (\<lambda>expected.
     bindE replay (\<lambda>state.
     let key = nonceGlobalKey expected; name = ''cycle-repository releaseWalletNonce''; stale = name @ '': stale wallet nonce fencing token'';
         newer = name @ '': durable wallet nonce reservation has a newer fence''
     in case omap_get (reservationsOf state) (walletNonceReservationKey expected) of
          None \<Rightarrow> Inl (JsError stale)
        | Some current \<Rightarrow>
            if jprop current ''state'' = JStr ''RELEASED''
            then bindE (throwIf (list_ex (\<lambda>f. jprop current f \<noteq> jprop expected f) [''fencingToken'', ''stage'', ''leaseAcquiredAtMs'', ''leaseExpiresAtMs'']) stale) (\<lambda>_.
                 bindE (readGlobalKey globals key) (\<lambda>stranded.
                 case stranded of None \<Rightarrow> Inr (Commit (Return (JBool True)) [])
                 | Some existing \<Rightarrow>
                     bindE (textsDiffer existing expected) (\<lambda>differ.
                     bindE (throwIf differ newer) (\<lambda>_.
                     Inr (ReleaseOnly key expected)))))
            else bindE (textsDiffer current expected) (\<lambda>differ.
                 bindE (throwIf differ stale) (\<lambda>_.
                 bindE (readGlobalKey globals key) (\<lambda>existingGlobal.
                 bindE (case existingGlobal of None \<Rightarrow> Inr []
                        | Some existing \<Rightarrow> bindE (textsDiffer existing expected) (\<lambda>other. bindE (throwIf other newer) (\<lambda>_. Inr [ReleaseKey key expected]))) (\<lambda>ops.
                 Inr (Commit (Append [(''wallet-nonce-released'', JObj [(''reservation'', withProps (spread expected) [(''state'', JStr ''RELEASED'')])])]
                     (Some ''releaseWalletNonce'') (releaseGuard expected current) (\<lambda>_. JBool True)) ops)))))))"

end
