(* ===== verification/Wallet_Exclusion.thy ===== *)
theory Wallet_Exclusion
  imports Wallet_Nonces Cycle_Repository_Safety Cycle_Ledger_Scenario
begin

text \<open>
  The runner's cycles reserve wallets concurrently: each operation reads the journal of its cycle, the other cycles and the
  global key, and commits later, on journals and keys that may have moved.  Within one cycle the operations on wallets follow each other,
  because a cycle is driven under the lease of \<open>Lease\<close>; between cycles any interleaving is a run.  The theorem: a wallet has at
  most one holder whose lease has not ended.
\<close>

section \<open>Runs\<close>

record 'z nonce_world =
  nw_logs :: "string \<Rightarrow> jsval list"
  nw_globals :: "(string \<times> jsval) list"
  nw_clock :: int
  nw_pending :: "string \<Rightarrow> 'z nonce_state money_state nonce_plan option"

definition nonceKinds :: "string list" where
  "nonceKinds = [''wallet-nonce-reserved'', ''wallet-nonce-released'']"

definition isNonceKey :: "string \<Rightarrow> bool" where
  "isNonceKey k = (take 13 k = ''wallet-nonce:'')"

definition setPending ::
  "string \<Rightarrow> 'z nonce_state money_state nonce_plan option \<Rightarrow> 'z nonce_world \<Rightarrow> 'z nonce_world"
where
  "setPending c p w = w\<lparr>nw_pending := (nw_pending w)(c := p)\<rparr>"

definition appendLog :: "string \<Rightarrow> jsval list \<Rightarrow> 'z nonce_world \<Rightarrow> 'z nonce_world" where
  "appendLog c es w = w\<lparr>nw_logs := (nw_logs w)(c := nw_logs w c @ es)\<rparr>"

text \<open>
  \<open>known\<close>, what the operation saw of the other cycles, is arbitrary: it may be stale.  \<open>clock\<close> was read at the latest when the plan is
  made.  The other operations of the repository append any other events and write any other keys.
\<close>

inductive nonce_step :: "(string \<Rightarrow> string) \<Rightarrow> 'z nonce_state money_env \<Rightarrow> 'z nonce_world \<Rightarrow> 'z nonce_world \<Rightarrow> bool" for sha env where
  time_passes: "nw_clock w \<le> t \<Longrightarrow> nonce_step sha env w (w\<lparr>nw_clock := t\<rparr>)"
| plan_reserve: "nw_pending w c = None \<Longrightarrow> num_of clock \<le> nw_clock w
    \<Longrightarrow> reserveWalletNonce env c v clock (replayStored sha (nonceParts env c) c (nw_logs w c)) known (nw_globals w) = Inr p
    \<Longrightarrow> nonce_step sha env w (setPending c (Some p) w)"
| plan_release: "nw_pending w c = None
    \<Longrightarrow> releaseWalletNonce c v (replayStored sha (nonceParts env c) c (nw_logs w c)) (nw_globals w) = Inr p
    \<Longrightarrow> nonce_step sha env w (setPending c (Some p) w)"
| commit: "nw_pending w c = Some (Commit (Append events name guard result) ops)
    \<Longrightarrow> appendEvents sha (nonceParts env c) c (nw_logs w c) events name guard = Inr es \<Longrightarrow> commitGlobals (nw_globals w) ops = Inr g
    \<Longrightarrow> nonce_step sha env w (setPending c None (appendLog c es (w\<lparr>nw_globals := g\<rparr>)))"
| release_key: "nw_pending w c = Some (ReleaseOnly key v) \<Longrightarrow> releaseGlobalKey (nw_globals w) key v = Inr g
    \<Longrightarrow> nonce_step sha env w (setPending c None (w\<lparr>nw_globals := g\<rparr>))"
| operation_ends: "nonce_step sha env w (setPending c None w)"
| other_operation: "set (map entryKind es) \<inter> set nonceKinds = {} \<Longrightarrow> \<forall>k. isNonceKey k \<longrightarrow> omap_get g k = omap_get (nw_globals w) k
    \<Longrightarrow> nonce_step sha env w (appendLog c es (w\<lparr>nw_globals := g\<rparr>))"

definition emptyWorld :: "int \<Rightarrow> 'z nonce_world" where
  "emptyWorld t = \<lparr>nw_logs = (\<lambda>_. []), nw_globals = [], nw_clock = t, nw_pending = (\<lambda>_. None)\<rparr>"

inductive nonce_reachable :: "(string \<Rightarrow> string) \<Rightarrow> 'z nonce_state money_env \<Rightarrow> 'z nonce_world \<Rightarrow> bool" for sha env where
  begin_run: "nonce_reachable sha env (emptyWorld t)"
| next_step: "nonce_reachable sha env w \<Longrightarrow> nonce_step sha env w w' \<Longrightarrow> nonce_reachable sha env w'"

definition reservationsIn :: "(string \<Rightarrow> string) \<Rightarrow> 'z nonce_state money_env \<Rightarrow> string \<Rightarrow> jsval list \<Rightarrow> (string \<times> jsval) list" where
  "reservationsIn sha env c log = (case replayEntries sha (nonceParts env c) c log of Inl _ \<Rightarrow> [] | Inr st \<Rightarrow> reservationsOf st)"

text \<open>Cycle \<open>c\<close> holds a wallet: its journal has a reservation whose lease has not ended.\<close>

definition holdsWallet :: "(string \<Rightarrow> string) \<Rightarrow> 'z nonce_state money_env \<Rightarrow> 'z nonce_world \<Rightarrow> string \<Rightarrow> jsval \<Rightarrow> bool" where
  "holdsWallet sha env w c r = ((\<exists>key. omap_get (reservationsIn sha env c (nw_logs w c)) key = Some r) \<and> isHeld r \<and> \<not> walletNonceReservationExpired r (nw_clock w))"

section \<open>Events and reservations\<close>

lemma foldl_setCustody_rest: "md_rest (foldl (\<lambda>md ledger. setCustody ledger md) md ls) = md_rest md"
  by (induction ls arbitrary: md) (simp_all add: setCustody_def)

lemma leg_events_keep_rest:
  "replayLegRecorded c p md = Inr md' \<Longrightarrow> md_rest md' = md_rest md" "replayExpectation env c p md = Inr md' \<Longrightarrow> md_rest md' = md_rest md"
  "replayLegSource c p md = Inr md' \<Longrightarrow> md_rest md' = md_rest md" "replayCustodyRecorded c p md = Inr md' \<Longrightarrow> md_rest md' = md_rest md"
  by (auto simp: replayLegRecorded_def replayExpectation_def replayLegSource_def replayCustodyRecorded_def setLeg_def setCustody_def Let_def bindE_Inr_iff
      split: option.splits)

lemma settlement_keeps_rest: "replayLegSettled p st = Inr md' \<Longrightarrow> md_rest md' = md_rest (rp_other st)"
  by (auto simp: replayLegSettled_def setLeg_def setCustody_def Let_def bindE_Inr_iff split: option.splits if_splits)

lemma nonceStep_cases:
  assumes "nonceStep env c st e = Inr (rest, ledgers)"
  shows "entryKind e = ''wallet-nonce-reserved'' \<Longrightarrow> replayNonceReserved c (jprop e ''payload'') (reservationsOf st) = Inr (nn_reservations rest)"
    and "entryKind e = ''wallet-nonce-released'' \<Longrightarrow> replayNonceReleased c (jprop e ''payload'') (reservationsOf st) = Inr (nn_reservations rest)"
    and "entryKind e \<notin> set nonceKinds \<Longrightarrow> nn_reservations rest = reservationsOf st"
  using assms by (auto simp: nonceStep_def reservationsOf_def nonceKinds_def Let_def bindE_Inr_iff)

lemma nonce_entry:
  assumes "replayEntry sha (nonceParts env c) c e st = Inr st'"
  shows "entryKind e = ''wallet-nonce-reserved'' \<Longrightarrow> replayNonceReserved c (jprop e ''payload'') (reservationsOf st) = Inr (reservationsOf st')"
    and "entryKind e = ''wallet-nonce-released'' \<Longrightarrow> replayNonceReleased c (jprop e ''payload'') (reservationsOf st) = Inr (reservationsOf st')"
    and "entryKind e \<notin> set nonceKinds \<Longrightarrow> reservationsOf st' = reservationsOf st"
proof -
  note ev = replayEntry_event [OF assms]
  have nonce: "\<exists>rest ledgers. nonceStep env c st e = Inr (rest, ledgers) \<and> nn_reservations rest = reservationsOf st'" if "entryKind e \<in> set nonceKinds"
  proof -
    have "\<exists>x. moneyStep (withNonces env c) c st e = Inr x \<and> st' = st\<lparr>rp_other := x\<rparr>"
      using ev that by (auto simp: applyEvent_def nonceKinds_def nonceParts_def moneyParts_def bindE_Inr_iff)
    then show ?thesis using that
      by (auto simp: moneyStep_def nonceKinds_def withNonces_def Let_def bindE_Inr_iff reservationsOf_def foldl_setCustody_rest)
  qed
  show "replayNonceReserved c (jprop e ''payload'') (reservationsOf st) = Inr (reservationsOf st')" if "entryKind e = ''wallet-nonce-reserved''"
  proof -
    from that nonce obtain rest ledgers where "nonceStep env c st e = Inr (rest, ledgers)" "nn_reservations rest = reservationsOf st'"
      by (auto simp: nonceKinds_def)
    with nonceStep_cases(1) [OF this(1) that] show ?thesis by simp
  qed
  show "replayNonceReleased c (jprop e ''payload'') (reservationsOf st) = Inr (reservationsOf st')" if "entryKind e = ''wallet-nonce-released''"
  proof -
    from that nonce obtain rest ledgers where "nonceStep env c st e = Inr (rest, ledgers)" "nn_reservations rest = reservationsOf st'"
      by (auto simp: nonceKinds_def)
    with nonceStep_cases(2) [OF this(1) that] show ?thesis by simp
  qed
  show "reservationsOf st' = reservationsOf st" if other: "entryKind e \<notin> set nonceKinds"
    using ev
  proof (cases rule: applyEvent_cases)
    case (Other x)
    then have step: "moneyStep (withNonces env c) c st e = Inr x" by (simp add: nonceParts_def moneyParts_def)
    have "nn_reservations (md_rest x) = reservationsOf st"
    proof (cases "entryKind e \<in> set moneyKinds")
      case True
      with step have "md_rest x = md_rest (rp_other st)"
        unfolding moneyKinds_def by (auto simp: moneyStep_def Let_def dest: leg_events_keep_rest settlement_keeps_rest)
      then show ?thesis by (simp add: reservationsOf_def)
    next
      case False
      with step obtain rest ledgers where r: "nonceStep env c st e = Inr (rest, ledgers)" "md_rest x = rest"
        by (auto simp: moneyStep_def moneyKinds_def withNonces_def Let_def bindE_Inr_iff foldl_setCustody_rest)
      with nonceStep_cases(3) [OF r(1) other] show ?thesis by simp
    qed
    with Other show ?thesis by (simp add: reservationsOf_def)
  qed (simp_all add: setOperational_def setChain_def setLedger_def reservationsOf_def)
qed

lemma other_events_keep:
  assumes "set (map entryKind es) \<inter> set nonceKinds = {}"
  shows "reservationsIn sha env c (log @ es) = reservationsIn sha env c log \<or> reservationsIn sha env c (log @ es) = []"
proof (cases "replayEntries sha (nonceParts env c) c (log @ es)")
  case (Inr st')
  then obtain st where st: "replayEntries sha (nonceParts env c) c log = Inr st"
      "foldE (\<lambda>_ e st. replayEntry sha (nonceParts env c) c e st) 0 es st = Inr st'" by (rule replayEntries_append)
  have "set es \<subseteq> {e. entryKind e \<notin> set nonceKinds}" using assms by auto
  have "foldE (\<lambda>_ e st. replayEntry sha (nonceParts env c) c e st) i xs s = Inr s' \<Longrightarrow> set xs \<subseteq> {e. entryKind e \<notin> set nonceKinds}
      \<Longrightarrow> reservationsOf s' = reservationsOf s" for i xs s s'
    by (induction xs arbitrary: i s) (auto simp: bindE_Inr_iff dest: nonce_entry(3))
  from this [OF st(2)] assms have "reservationsOf st' = reservationsOf st" by auto
  with Inr st(1) show ?thesis by (simp add: reservationsIn_def)
qed (simp add: reservationsIn_def)

section \<open>Reservations of a cycle\<close>

definition reservationFor :: "string \<Rightarrow> jsval \<Rightarrow> bool" where
  "reservationFor c r = (plainJson r \<and> isPlainObject r \<and> jprop r ''cycleId'' = JStr c \<and> isString (jprop r ''chainId'') \<and> isString (jprop r ''wallet'')
     \<and> (\<exists>t. jprop r ''leaseExpiresAtMs'' = JNum t))"

lemma same_reservation:
  assumes "sameJson r s" and r: "reservationFor c r" and s: "reservationFor d s"
  shows "c = d" and "walletNonceReservationKey r = walletNonceReservationKey s" and "walletNonceReservationExpired r now = walletNonceReservationExpired s now"
    and "nonceGlobalKey r = nonceGlobalKey s"
proof -
  have p: "sameJson (jprop r f) (jprop s f)" for f
    using sameJson_prop [OF assms(1)] r s by (simp add: reservationFor_def)
  show "c = d" using p [of "''cycleId''"] r s by (simp add: reservationFor_def)
  have eq: "jprop s ''chainId'' = jprop r ''chainId''" "jprop s ''wallet'' = jprop r ''wallet''"
    using sameJson_string [OF p] r by (simp_all add: reservationFor_def)
  show "walletNonceReservationKey r = walletNonceReservationKey s" "nonceGlobalKey r = nonceGlobalKey s"
    by (simp_all add: walletNonceReservationKey_def nonceGlobalKey_def eq)
  obtain t where "jprop r ''leaseExpiresAtMs'' = JNum t" using r by (auto simp: reservationFor_def)
  with p [of "''leaseExpiresAtMs''"] have "jprop s ''leaseExpiresAtMs'' = JNum t"
    by (auto simp: sameJson_def normal_JNum eq_commute [of _ "normal (jprop s ''leaseExpiresAtMs'')"])
  with \<open>jprop r ''leaseExpiresAtMs'' = JNum t\<close>
  show "walletNonceReservationExpired r now = walletNonceReservationExpired s now" by (simp add: walletNonceReservationExpired_def)
qed

lemma assertWalletNonceReservation_Inr:
  assumes "assertWalletNonceReservation v label = Inr r"
  shows "structuredClone v = Inr r" and "isPlainObject v"
    and "\<forall>f \<in> set [''chainId'', ''wallet'', ''cycleId'', ''stage'', ''fencingToken'']. isString (jprop v f)"
    and "\<forall>f \<in> set [''leaseAcquiredAtMs'', ''leaseExpiresAtMs'']. \<exists>t. jprop v f = JNum t"
proof -
  from assms have a: "assertMoneyObject v WALLET_NONCE_FIELDS label = Inr ()"
      "\<forall>f \<in> set [''chainId'', ''wallet'', ''cycleId'']. \<exists>x. assertMoneyString (jprop v f) (label @ '' '' @ f) = Inr x"
      "\<exists>x. assertStage (jprop v ''stage'') (label @ '' stage'') = Inr x" "str_matches fencingTokenPattern (jprop v ''fencingToken'')"
      "isSafeInteger (jprop v ''leaseAcquiredAtMs'')" "isSafeInteger (jprop v ''leaseExpiresAtMs'')" "structuredClone v = Inr r"
    unfolding assertWalletNonceReservation_def bindE_Inr_iff throwIf_Inr checkFields_Inr by (elim exE conjE, (simp; fail | blast)+)+
  show "structuredClone v = Inr r" by (rule a(7))
  show "isPlainObject v" using a(1) by (simp add: assertMoneyObject_def split: if_splits)
  have "isString (jprop v ''stage'')" using a(3) by (auto simp: assertStage_def isString_def str_matches_iff split: if_splits)
  moreover have "isString (jprop v ''fencingToken'')" using a(4) by (auto simp: isString_def str_matches_iff)
  moreover have "\<forall>f \<in> set [''chainId'', ''wallet'', ''cycleId'']. isString (jprop v f)" using a(2) by (auto simp: assertMoneyString_Inr isString_def)
  ultimately show "\<forall>f \<in> set [''chainId'', ''wallet'', ''cycleId'', ''stage'', ''fencingToken'']. isString (jprop v f)" by simp
  show "\<forall>f \<in> set [''leaseAcquiredAtMs'', ''leaseExpiresAtMs'']. \<exists>t. jprop v f = JNum t"
    using a(5,6) by (auto simp: isSafeInteger_def split: jsval.splits)
qed

lemma input_reservation:
  assumes "assertWalletNonceReservationInput c v = Inr r"
  shows "reservationFor c r" and "isHeld r"
proof -
  from assms obtain chainId where chk: "assertWalletNonceReservation (JObj [(''schema'', walletNonceSchema), (''chainId'', JStr chainId),
      (''wallet'', jprop v ''wallet''), (''cycleId'', JStr c), (''stage'', jprop v ''stage''), (''fencingToken'', jprop v ''fencingToken''),
      (''leaseAcquiredAtMs'', jprop v ''leaseAcquiredAtMs''), (''leaseExpiresAtMs'', jprop v ''leaseExpiresAtMs''), (''state'', JStr ''HELD'')])
      nonceInputLabel = Inr r"
    by (auto simp: assertWalletNonceReservationInput_def bindE_Inr_iff)
  let ?v = "JObj [(''schema'', walletNonceSchema), (''chainId'', JStr chainId),
      (''wallet'', jprop v ''wallet''), (''cycleId'', JStr c), (''stage'', jprop v ''stage''), (''fencingToken'', jprop v ''fencingToken''),
      (''leaseAcquiredAtMs'', jprop v ''leaseAcquiredAtMs''), (''leaseExpiresAtMs'', jprop v ''leaseExpiresAtMs''), (''state'', JStr ''HELD'')]"
  have f: "jprop ?v ''chainId'' = JStr chainId" "jprop ?v ''wallet'' = jprop v ''wallet''" "jprop ?v ''cycleId'' = JStr c" "jprop ?v ''stage'' = jprop v ''stage''"
    "jprop ?v ''fencingToken'' = jprop v ''fencingToken''" "jprop ?v ''leaseAcquiredAtMs'' = jprop v ''leaseAcquiredAtMs''"
    "jprop ?v ''leaseExpiresAtMs'' = jprop v ''leaseExpiresAtMs''" "jprop ?v ''state'' = JStr ''HELD''"
    by (simp_all add: jprop_JObj)
  note a = assertWalletNonceReservation_Inr [OF chk]
  have strings: "isString x \<Longrightarrow> \<exists>s. x = JStr s" for x by (cases x) (simp_all add: isString_def)
  obtain w s t x y where e: "jprop v ''wallet'' = JStr w" "jprop v ''stage'' = JStr s" "jprop v ''fencingToken'' = JStr t"
      "jprop v ''leaseAcquiredAtMs'' = JNum x" "jprop v ''leaseExpiresAtMs'' = JNum y"
    using a(3,4) strings by (fastforce simp: f)
  have p: "plainJson ?v" by (simp add: e walletNonceSchema_def)
  have r: "r = ?v" using a(1) unfolding clone_plain [OF p] by simp
  show "reservationFor c r" unfolding r reservationFor_def f using p a(2) by (simp add: e isString_def)
  show "isHeld r" unfolding r isHeld_def f by simp
qed

lemma nonceGlobalKey_nonce [simp]: "isNonceKey (nonceGlobalKey r)"
  by (simp add: isNonceKey_def nonceGlobalKey_def)

lemma expired_later: "walletNonceReservationExpired r now \<Longrightarrow> now \<le> now' \<Longrightarrow> walletNonceReservationExpired r now'"
  by (simp add: walletNonceReservationExpired_def)

section \<open>What a commit may do to a global key\<close>

fun opKey :: "global_op \<Rightarrow> string" where
  "opKey (ReserveKey k v) = k" | "opKey (ReplaceKey k e v) = k" | "opKey (ReleaseKey k e) = k"

fun opExpected :: "global_op \<Rightarrow> jsval" where
  "opExpected (ReserveKey k v) = v" | "opExpected (ReplaceKey k e v) = e" | "opExpected (ReleaseKey k e) = e"

text \<open>The value that the operation expects under its key is a reservation of the operation's cycle, or one whose lease has ended.\<close>

definition opOk :: "string \<Rightarrow> int \<Rightarrow> global_op \<Rightarrow> bool" where
  "opOk c now op = (\<exists>d. reservationFor d (opExpected op) \<and> (d = c \<or> walletNonceReservationExpired (opExpected op) now))"

lemma omap_get_delete [simp]: "omap_get (omap_delete k m) k' = (if k' = k then None else omap_get m k')"
  by (induction m) (auto simp: omap_delete_def omap_get_def)

lemma op_other_key: "k \<noteq> opKey op \<Longrightarrow> omap_get (applyGlobalOp op m) k = omap_get m k"
  by (cases op) simp_all

lemma object_not_falsy: "isPlainObject v \<Longrightarrow> \<not> falsy v"
  by (auto simp: isPlainObject_iff falsy_def)

lemma op_existing:
  assumes "checkGlobalOp globals op = Inr ()" and "omap_get globals (opKey op) = Some g" and "reservationFor c g" and "plainJson (opExpected op)"
  shows "sameJson g (opExpected op)"
proof -
  have "textsDiffer g (opExpected op) = Inr False"
    using assms(1-3) object_not_falsy [of g]
    by (cases op) (auto simp: changedUnlessEqual_def bindE_Inr_iff throwIf_Inr reservationFor_def)
  then show ?thesis by (rule sameJson_text) (use assms in \<open>simp_all add: reservationFor_def\<close>)
qed

lemma op_spares_others:
  assumes "checkGlobalOp globals op = Inr ()" and "opOk c now op" and "omap_get globals k = Some g" and "reservationFor d g" and "d \<noteq> c"
    and "\<not> walletNonceReservationExpired g now"
  shows "omap_get (applyGlobalOp op globals) k = Some g"
proof (cases "k = opKey op")
  case True
  from assms(2) obtain d' where d': "reservationFor d' (opExpected op)" "d' = c \<or> walletNonceReservationExpired (opExpected op) now"
    by (auto simp: opOk_def)
  have "sameJson g (opExpected op)"
    by (rule op_existing [OF assms(1)]) (use assms(3,4) True d'(1) in \<open>simp_all add: reservationFor_def\<close>)
  from same_reservation [OF this assms(4) d'(1)] d'(2) assms(5,6) show ?thesis by simp
qed (simp add: op_other_key assms(3))

lemma commitGlobals_cases:
  "commitGlobals globals [] = Inr g \<longleftrightarrow> g = globals"
  "commitGlobals globals [op] = Inr g \<longleftrightarrow> checkGlobalOp globals op = Inr () \<and> g = applyGlobalOp op globals"
  by (auto simp: commitGlobals_def bindE_Inr_iff)

lemma releaseGlobalKey_check:
  "releaseGlobalKey globals key v = Inr g \<Longrightarrow> omap_get globals key = Some x \<Longrightarrow> checkGlobalOp globals (ReleaseKey key v) = Inr () \<and> g = applyGlobalOp (ReleaseKey key v) globals"
  "releaseGlobalKey globals key v = Inr g \<Longrightarrow> omap_get globals key = None \<Longrightarrow> g = globals"
  by (auto simp: releaseGlobalKey_def changedUnlessEqual_def bindE_Inr_iff throwIf_Inr)

section \<open>The invariant\<close>

definition globalsOk :: "(string \<times> jsval) list \<Rightarrow> bool" where
  "globalsOk globals = (\<forall>k g. isNonceKey k \<longrightarrow> omap_get globals k = Some g \<longrightarrow> (\<exists>c. reservationFor c g))"

text \<open>The reservations of a cycle are its own, and the global key of a wallet it still holds carries that reservation.\<close>

definition cycleOk :: "string \<Rightarrow> (string \<times> jsval) list \<Rightarrow> (string \<times> jsval) list \<Rightarrow> int \<Rightarrow> bool" where
  "cycleOk c reservations globals now = (\<forall>key r. omap_get reservations key = Some r \<longrightarrow> reservationFor c r \<and> walletNonceReservationKey r = key
     \<and> (isHeld r \<longrightarrow> walletNonceReservationExpired r now \<or> (\<exists>g. omap_get globals (nonceGlobalKey r) = Some g \<and> sameJson g r)))"

text \<open>What is true of a plan until it commits.\<close>

definition releasedForm :: "jsval \<Rightarrow> jsval" where
  "releasedForm r = withProps (spread r) [(''state'', JStr ''RELEASED'')]"

definition claimOk :: "string \<Rightarrow> jsval \<Rightarrow> global_op list \<Rightarrow> (string \<times> jsval) list \<Rightarrow> int \<Rightarrow> bool" where
  "claimOk c r ops globals now =
     ((\<exists>op. ops = [op] \<and> opKey op = nonceGlobalKey r \<and> opOk c now op
         \<and> (opExpected op = r \<or> walletNonceReservationExpired (opExpected op) now) \<and> (\<forall>m. omap_get (applyGlobalOp op m) (nonceGlobalKey r) = Some r))
      \<or> (ops = [] \<and> (walletNonceReservationExpired r now \<or> (\<exists>g. omap_get globals (nonceGlobalKey r) = Some g \<and> sameJson g r))))"

fun planOk :: "string \<Rightarrow> 'x nonce_plan \<Rightarrow> (string \<times> jsval) list \<Rightarrow> (string \<times> jsval) list \<Rightarrow> int \<Rightarrow> bool" where
  "planOk c (Commit (Return x) ops) reservations globals now = True"
| "planOk c (Commit (Append events name guard result) ops) reservations globals now = (\<exists>r. reservationFor c r
     \<and> ((events = [(''wallet-nonce-reserved'', JObj [(''reservation'', r)])] \<and> isHeld r \<and> claimOk c r ops globals now)
        \<or> (events = [(''wallet-nonce-released'', JObj [(''reservation'', releasedForm r)])] \<and> (ops = [] \<or> ops = [ReleaseKey (nonceGlobalKey r) r]))))"
| "planOk c (ReleaseOnly key r) reservations globals now = (reservationFor c r \<and> key = nonceGlobalKey r
     \<and> (\<forall>x. omap_get reservations (walletNonceReservationKey r) = Some x \<longrightarrow> \<not> isHeld x))"

definition worldOk :: "(string \<Rightarrow> string) \<Rightarrow> 'z nonce_state money_env \<Rightarrow> 'z nonce_world \<Rightarrow> bool" where
  "worldOk sha env w = (globalsOk (nw_globals w) \<and> (\<forall>c. let m = reservationsIn sha env c (nw_logs w c) in
     cycleOk c m (nw_globals w) (nw_clock w) \<and> (\<forall>p. nw_pending w c = Some p \<longrightarrow> planOk c p m (nw_globals w) (nw_clock w))))"

lemma worldOkI:
  assumes "globalsOk (nw_globals w)" and "\<And>c. cycleOk c (reservationsIn sha env c (nw_logs w c)) (nw_globals w) (nw_clock w)"
    and "\<And>c p. nw_pending w c = Some p \<Longrightarrow> planOk c p (reservationsIn sha env c (nw_logs w c)) (nw_globals w) (nw_clock w)"
  shows "worldOk sha env w"
  using assms by (simp add: worldOk_def Let_def)

lemma worldOkD:
  assumes "worldOk sha env w"
  shows "globalsOk (nw_globals w)" and "cycleOk c (reservationsIn sha env c (nw_logs w c)) (nw_globals w) (nw_clock w)"
    and "nw_pending w c = Some p \<Longrightarrow> planOk c p (reservationsIn sha env c (nw_logs w c)) (nw_globals w) (nw_clock w)"
  using assms by (simp_all add: worldOk_def Let_def)

lemma globalsOk_at: "globalsOk globals \<Longrightarrow> omap_get globals (nonceGlobalKey r) = Some g \<Longrightarrow> \<exists>d. reservationFor d g"
  by (metis globalsOk_def nonceGlobalKey_nonce)

text \<open>What keeps a cycle's facts: global keys that carry its live reservations stay.\<close>

definition spares :: "string \<Rightarrow> int \<Rightarrow> (string \<times> jsval) list \<Rightarrow> (string \<times> jsval) list \<Rightarrow> bool" where
  "spares c now globals globals' = (\<forall>k g. isNonceKey k \<longrightarrow> omap_get globals k = Some g \<longrightarrow> reservationFor c g \<longrightarrow> \<not> walletNonceReservationExpired g now
     \<longrightarrow> omap_get globals' k = Some g)"

lemma spares_refl [simp]: "spares c now globals globals"
  by (simp add: spares_def)

lemma covered_spared:
  assumes "walletNonceReservationExpired r now \<or> (\<exists>g. omap_get globals (nonceGlobalKey r) = Some g \<and> sameJson g r)"
    and "globalsOk globals" and "reservationFor c r" and "spares c now globals globals'" and "now \<le> now'"
  shows "walletNonceReservationExpired r now' \<or> (\<exists>g. omap_get globals' (nonceGlobalKey r) = Some g \<and> sameJson g r)"
proof (cases "walletNonceReservationExpired r now")
  case True
  then show ?thesis using expired_later assms(5) by blast
next
  case False
  with assms(1) obtain g where g: "omap_get globals (nonceGlobalKey r) = Some g" "sameJson g r" by blast
  with assms(2) obtain d where d: "reservationFor d g" using globalsOk_at by blast
  note s = same_reservation [OF g(2) d assms(3)]
  have "omap_get globals' (nonceGlobalKey r) = Some g"
    using assms(4) g(1) d s(1) s(3) [of now] False unfolding spares_def by simp
  with g(2) show ?thesis by blast
qed

lemma cycleOk_spared:
  assumes "cycleOk c m globals now" and "globalsOk globals" and "spares c now globals globals'" and "now \<le> now'"
  shows "cycleOk c m globals' now'"
  using assms(1) covered_spared [OF _ assms(2) _ assms(3,4)] unfolding cycleOk_def by blast

lemma opOk_later: "opOk c now op \<Longrightarrow> now \<le> now' \<Longrightarrow> opOk c now' op"
  unfolding opOk_def using expired_later by blast

lemma planOk_spared:
  assumes "planOk c p m globals now" and "globalsOk globals" and "spares c now globals globals'" and "now \<le> now'" and "m' = m \<or> m' = []"
  shows "planOk c p m' globals' now'"
  using assms(1)
proof (cases "(c, p, m, globals, now)" rule: planOk.cases)
  case (2 _ events name guard result ops)
  have claim: "claimOk c r ops globals' now'" if "claimOk c r ops globals now" "reservationFor c r" for r
    using that covered_spared [OF _ assms(2) that(2) assms(3,4)] opOk_later [OF _ assms(4)] expired_later [OF _ assms(4)] unfolding claimOk_def by blast
  with 2 assms(1) show ?thesis by auto
next
  case (3 _ key r)
  then show ?thesis using assms(1,5) by (auto simp: omap_get_def)
qed simp

section \<open>Plans\<close>

lemma globals_reservation: "globalsOk globals \<Longrightarrow> readGlobalKey globals (nonceGlobalKey r) = Inr (Some g) \<Longrightarrow>
    omap_get globals (nonceGlobalKey r) = Some g \<and> (\<exists>d. reservationFor d g)"
  by (auto simp: readGlobalKey_def bindE_Inr_iff dest: globalsOk_at)

lemma claim_ok:
  assumes "claimGlobalKey existing r now = Inr ops" and "readGlobalKey globals (nonceGlobalKey r) = Inr existing" and "globalsOk globals"
    and r: "reservationFor c r" and "now \<le> now'"
  shows "claimOk c r ops globals now'"
proof (cases existing)
  case None
  with assms(1) have "ops = [ReserveKey (nonceGlobalKey r) r]" by (simp add: claimGlobalKey_def)
  with r show ?thesis unfolding claimOk_def opOk_def by auto
next
  case (Some g)
  with globals_reservation [OF assms(3)] assms(2) obtain d where g: "omap_get globals (nonceGlobalKey r) = Some g" "reservationFor d g" by blast
  from assms(1) Some obtain differ where differ: "textsDiffer g r = Inr differ"
    by (auto simp: claimGlobalKey_def Let_def bindE_Inr_iff)
  show ?thesis
  proof (cases differ)
    case False
    with assms(1) Some differ have "ops = []" by (simp add: claimGlobalKey_def Let_def)
    moreover have "sameJson g r" using differ False g(2) r sameJson_text by (simp add: reservationFor_def)
    ultimately show ?thesis using g(1) unfolding claimOk_def by blast
  next
    case True
    with assms(1) Some differ obtain holder where h: "assertWalletNonceReservation g ''durable wallet nonce reservation'' = Inr holder"
        "retakes holder r now" "ops = [ReplaceKey (nonceGlobalKey r) g r]"
      by (auto simp: claimGlobalKey_def Let_def bindE_Inr_iff throwIf_Inr split: sum.splits)
    have "holder = g" using assertWalletNonceReservation_Inr(1) [OF h(1)] g(2) clone_plain [of g] by (simp add: reservationFor_def)
    with h(2) have "walletNonceReservationExpired g now'" using expired_later [OF _ assms(5)] by (simp add: retakes_def)
    with h(3) g(2) show ?thesis unfolding claimOk_def opOk_def by auto
  qed
qed

lemma reserve_ok:
  assumes "reserveWalletNonce env c v clock replay known globals = Inr p" and "globalsOk globals" and "num_of clock \<le> now"
  shows "planOk c p m globals now"
proof -
  from assms(1) obtain r time where r: "assertWalletNonceReservationInput c v = Inr r" and time: "currentRepositoryTime clock = Inr time"
    and p: "(\<exists>x. p = Commit (Return x) []) \<or> (\<exists>existing ops. readGlobalKey globals (nonceGlobalKey r) = Inr existing
        \<and> claimGlobalKey existing r (num_of time) = Inr ops
        \<and> p = Commit (Append [(''wallet-nonce-reserved'', JObj [(''reservation'', r)])] (Some ''reserveWalletNonce'') (reserveGuard r (num_of time)) (\<lambda>_. r)) ops)"
    unfolding reserveWalletNonce_def Let_def bindE_Inr_iff by (elim exE conjE) (auto simp: bindE_Inr_iff split: option.splits)
  have t: "num_of time \<le> now" using time assms(3) by (auto simp: currentRepositoryTime_def split: if_splits)
  note i = input_reservation [OF r]
  from p show ?thesis using claim_ok [OF _ _ assms(2) i(1) t] i by auto
qed

lemma release_ok:
  assumes "releaseWalletNonce c v replay globals = Inr p" and "\<And>st. replay = Inr st \<Longrightarrow> m = reservationsOf st"
  shows "planOk c p m globals now"
proof -
  from assms(1) obtain r st where r: "assertWalletNonceReservationInput c v = Inr r" and st: "replay = Inr st"
    unfolding releaseWalletNonce_def Let_def bindE_Inr_iff by blast
  note i = input_reservation [OF r]
  from assms(1) r st obtain x where x: "omap_get m (walletNonceReservationKey r) = Some x"
    and p: "(\<exists>y. p = Commit (Return y) []) \<or> (jprop x ''state'' = JStr ''RELEASED'' \<and> p = ReleaseOnly (nonceGlobalKey r) r)
      \<or> (\<exists>guard result ops. p = Commit (Append [(''wallet-nonce-released'', JObj [(''reservation'', releasedForm r)])] (Some ''releaseWalletNonce'') guard result) ops
           \<and> (ops = [] \<or> ops = [ReleaseKey (nonceGlobalKey r) r]))"
    unfolding releaseWalletNonce_def Let_def releasedForm_def assms(2) [OF st]
    by (auto simp: bindE_Inr_iff split: option.splits if_splits)
  from p show ?thesis using i x by (auto simp: isHeld_def)
qed

section \<open>Steps\<close>

lemma releasedForm_facts:
  assumes "reservationFor c r"
  shows "reservationFor c (releasedForm r)" and "walletNonceReservationKey (releasedForm r) = walletNonceReservationKey r" and "\<not> isHeld (releasedForm r)"
    and "nonceGlobalKey (releasedForm r) = nonceGlobalKey r"
proof -
  have obj: "isPlainObject r" and plain: "plainJson r" using assms by (simp_all add: reservationFor_def)
  have f: "jprop (releasedForm r) f = (if f = ''state'' then JStr ''RELEASED'' else jprop r f)" for f
    unfolding releasedForm_def jprop_withProps spread_plain [OF obj] by simp
  have "plainJson (releasedForm r)" unfolding releasedForm_def by (rule plain_withProps [OF plain_spread [OF obj plain]]) simp
  moreover have "isPlainObject (releasedForm r)" by (simp add: releasedForm_def withProps_def isPlainObject_iff)
  ultimately show "reservationFor c (releasedForm r)" using assms by (simp add: reservationFor_def f)
  show "walletNonceReservationKey (releasedForm r) = walletNonceReservationKey r" "\<not> isHeld (releasedForm r)" "nonceGlobalKey (releasedForm r) = nonceGlobalKey r"
    by (simp_all add: walletNonceReservationKey_def nonceGlobalKey_def isHeld_def f)
qed

lemma replayed_reservation:
  assumes "reservationFor c r"
  shows "replayNonceReserved c (JObj [(''reservation'', r)]) m = Inr m' \<Longrightarrow> m' = omap_set (walletNonceReservationKey r) r m"
    and "replayNonceReleased c (JObj [(''reservation'', r)]) m = Inr m' \<Longrightarrow> m' = omap_set (walletNonceReservationKey r) r m"
proof -
  have p: "jprop (JObj [(''reservation'', r)]) ''reservation'' = r" by (simp add: jprop_JObj)
  have same: "assertWalletNonceReservation r label = Inr x \<Longrightarrow> x = r" for label x
    using assertWalletNonceReservation_Inr(1) [of r label x] clone_plain [of r] assms by (simp add: reservationFor_def)
  show "replayNonceReserved c (JObj [(''reservation'', r)]) m = Inr m' \<Longrightarrow> m' = omap_set (walletNonceReservationKey r) r m"
    unfolding replayNonceReserved_def p Let_def bindE_Inr_iff by (elim exE conjE) (drule same, simp)
  show "replayNonceReleased c (JObj [(''reservation'', r)]) m = Inr m' \<Longrightarrow> m' = omap_set (walletNonceReservationKey r) r m"
    unfolding replayNonceReleased_def p Let_def by (auto simp: bindE_Inr_iff dest!: same split: option.splits)
qed

lemma appended_reservation:
  assumes "appendEvents sha (nonceParts env c) c log [(kind, JObj [(''reservation'', r)])] name guard = Inr es" and "kind \<in> set nonceKinds"
    and "reservationFor c r"
  shows "reservationsIn sha env c (log @ es) \<in> {[], omap_set (walletNonceReservationKey r) r (reservationsIn sha env c log)}"
proof (cases "replayEntries sha (nonceParts env c) c (log @ es)")
  case (Inr st')
  then obtain st where st: "replayEntries sha (nonceParts env c) c log = Inr st"
      "foldE (\<lambda>_ e st. replayEntry sha (nonceParts env c) c e st) 0 es st = Inr st'" by (rule replayEntries_append)
  from appendEvents_Inr(1,2) [OF assms(1)] obtain e where e: "es = [e]" "entryKind e = kind" "jprop e ''payload'' = JObj [(''reservation'', r)]"
    by (cases es) auto
  have step: "replayEntry sha (nonceParts env c) c e st = Inr st'" using st(2) e(1) by (auto simp: bindE_Inr_iff)
  have "reservationsOf st' = omap_set (walletNonceReservationKey r) r (reservationsOf st)"
    using assms(2) nonce_entry(1,2) [OF step] replayed_reservation [OF assms(3)] e(2,3) by (auto simp: nonceKinds_def)
  with Inr st(1) show ?thesis by (simp add: reservationsIn_def)
qed (simp add: reservationsIn_def)

lemma cycleOk_Nil [simp]: "cycleOk c [] globals now"
  by (simp add: cycleOk_def omap_get_def)

text \<open>Setting one reservation of a cycle while an operation on its global key takes effect.\<close>

lemma cycleOk_set:
  assumes old: "cycleOk c m globals now" and g: "globalsOk globals" and r: "reservationFor c r"
    and new: "isHeld r \<Longrightarrow> walletNonceReservationExpired r now \<or> (\<exists>g. omap_get globals' (nonceGlobalKey r) = Some g \<and> sameJson g r)"
    and others: "\<And>k. k \<noteq> nonceGlobalKey r \<Longrightarrow> omap_get globals' k = omap_get globals k"
    and same: "\<And>x gx. omap_get globals (nonceGlobalKey r) = Some gx \<Longrightarrow> reservationFor c gx \<Longrightarrow> omap_get globals' (nonceGlobalKey r) = Some gx
        \<or> walletNonceReservationKey gx = walletNonceReservationKey r \<or> walletNonceReservationExpired gx now"
  shows "cycleOk c (omap_set (walletNonceReservationKey r) r m) globals' now"
  unfolding cycleOk_def
proof (intro allI impI)
  fix key x
  assume x: "omap_get (omap_set (walletNonceReservationKey r) r m) key = Some x"
  show "reservationFor c x \<and> walletNonceReservationKey x = key
     \<and> (isHeld x \<longrightarrow> walletNonceReservationExpired x now \<or> (\<exists>g. omap_get globals' (nonceGlobalKey x) = Some g \<and> sameJson g x))"
  proof (cases "key = walletNonceReservationKey r")
    case True
    with x r new show ?thesis by simp
  next
    case False
    with x old have o: "reservationFor c x" "walletNonceReservationKey x = key"
      "isHeld x \<longrightarrow> walletNonceReservationExpired x now \<or> (\<exists>g. omap_get globals (nonceGlobalKey x) = Some g \<and> sameJson g x)"
      unfolding cycleOk_def by simp_all
    have "\<exists>g. omap_get globals' (nonceGlobalKey x) = Some g \<and> sameJson g x" if held: "isHeld x" "\<not> walletNonceReservationExpired x now"
    proof -
      from o(3) held obtain gx where gx: "omap_get globals (nonceGlobalKey x) = Some gx" "sameJson gx x" by blast
      from globalsOk_at [OF g gx(1)] obtain d where d: "reservationFor d gx" by blast
      note s = same_reservation [OF gx(2) d o(1)]
      show ?thesis
      proof (cases "nonceGlobalKey x = nonceGlobalKey r")
        case True
        with same gx(1) d s(1,2) s(3) [of now] o(2) held(2) False gx(2) show ?thesis by metis
      qed (use others gx in simp)
    qed
    with o show ?thesis by blast
  qed
qed

text \<open>One operation on one key, for the cycle \<open>c\<close> and its reservation \<open>r\<close>.\<close>

definition opFor :: "string \<Rightarrow> jsval \<Rightarrow> int \<Rightarrow> global_op \<Rightarrow> bool" where
  "opFor c r now op = (opKey op = nonceGlobalKey r \<and> opOk c now op \<and> (opExpected op = r \<or> walletNonceReservationExpired (opExpected op) now)
     \<and> (\<forall>m x. omap_get (applyGlobalOp op m) (nonceGlobalKey r) = Some x \<longrightarrow> x = r))"

lemma release_opFor: "reservationFor c r \<Longrightarrow> opFor c r now (ReleaseKey (nonceGlobalKey r) r)"
  by (auto simp: opFor_def opOk_def)

lemma opFor_spares:
  assumes "opFor c r now op" and "checkGlobalOp globals op = Inr ()" and "d \<noteq> c"
  shows "spares d now globals (applyGlobalOp op globals)"
  unfolding spares_def using op_spares_others [OF assms(2) _ _ _ assms(3)] assms(1) unfolding opFor_def by blast

lemma opFor_globalsOk:
  assumes "opFor c r now op" and "reservationFor c r" and "globalsOk globals"
  shows "globalsOk (applyGlobalOp op globals)"
  unfolding globalsOk_def
proof (intro allI impI)
  fix k g
  assume k: "isNonceKey k" "omap_get (applyGlobalOp op globals) k = Some g"
  show "\<exists>c. reservationFor c g"
  proof (cases "k = nonceGlobalKey r")
    case True
    with k(2) assms(1,2) show ?thesis unfolding opFor_def by blast
  next
    case False
    with k assms(1,3) op_other_key [of k op globals] show ?thesis unfolding opFor_def globalsOk_def by auto
  qed
qed

lemma opFor_same:
  assumes "opFor c r now op" and "checkGlobalOp globals op = Inr ()" and "omap_get globals (nonceGlobalKey r) = Some g" and g: "reservationFor d g"
  shows "sameJson g r \<or> walletNonceReservationExpired g now"
proof -
  from assms(1) obtain e where e: "reservationFor e (opExpected op)" unfolding opFor_def opOk_def by blast
  have s: "sameJson g (opExpected op)"
    by (rule op_existing [OF assms(2) _ g]) (use assms(1,3) e in \<open>simp_all add: opFor_def reservationFor_def\<close>)
  from same_reservation(3) [OF s g e, of now] s assms(1) show ?thesis unfolding opFor_def by auto
qed

lemma cycleOk_op:
  assumes "opFor c r now op" and "checkGlobalOp globals op = Inr ()" and "cycleOk c m globals now" and "globalsOk globals" and r: "reservationFor c r"
    and x: "x = r \<and> omap_get (applyGlobalOp op globals) (nonceGlobalKey r) = Some r \<or> x = releasedForm r"
  shows "cycleOk c (omap_set (walletNonceReservationKey r) x m) (applyGlobalOp op globals) now"
proof -
  from x releasedForm_facts [OF r] r have fx: "reservationFor c x" "walletNonceReservationKey x = walletNonceReservationKey r"
    "nonceGlobalKey x = nonceGlobalKey r" "isHeld x \<Longrightarrow> x = r" by auto
  have "cycleOk c (omap_set (walletNonceReservationKey x) x m) (applyGlobalOp op globals) now"
  proof (rule cycleOk_set [OF assms(3,4) fx(1)])
    show "walletNonceReservationExpired x now \<or> (\<exists>g. omap_get (applyGlobalOp op globals) (nonceGlobalKey x) = Some g \<and> sameJson g x)" if "isHeld x"
      using x that releasedForm_facts(3) [OF r] sameJson_refl by blast
    show "omap_get (applyGlobalOp op globals) k = omap_get globals k" if "k \<noteq> nonceGlobalKey x" for k
      using that assms(1) fx(3) by (simp add: op_other_key opFor_def)
    fix y gx
    assume g: "omap_get globals (nonceGlobalKey x) = Some gx" "reservationFor c gx"
    have "sameJson gx r \<or> walletNonceReservationExpired gx now" by (rule opFor_same [OF assms(1,2) _ g(2)]) (use g(1) fx(3) in simp)
    then show "omap_get (applyGlobalOp op globals) (nonceGlobalKey x) = Some gx \<or> walletNonceReservationKey gx = walletNonceReservationKey x
        \<or> walletNonceReservationExpired gx now"
      using same_reservation(2) [OF _ g(2) r] fx(2) by auto
  qed
  with fx(2) show ?thesis by simp
qed

lemma cycleOk_plain:
  assumes "cycleOk c m globals now" and "globalsOk globals" and r: "reservationFor c r"
    and "isHeld r \<Longrightarrow> walletNonceReservationExpired r now \<or> (\<exists>g. omap_get globals (nonceGlobalKey r) = Some g \<and> sameJson g r)"
  shows "cycleOk c (omap_set (walletNonceReservationKey r) r m) globals now"
  by (rule cycleOk_set [OF assms(1,2) r assms(4)]) simp_all

text \<open>A commit of one cycle, as seen by that cycle and by the others.\<close>

lemma committed:
  assumes plan: "planOk c (Commit (Append events name guard result) ops) m globals now" and m: "m = reservationsIn sha env c log"
    and app: "appendEvents sha (nonceParts env c) c log events name guard = Inr es" and com: "commitGlobals globals ops = Inr g"
    and old: "cycleOk c m globals now" and ok: "globalsOk globals"
  shows "cycleOk c (reservationsIn sha env c (log @ es)) g now" and "globalsOk g" and "d \<noteq> c \<Longrightarrow> spares d now globals g"
proof -
  from plan obtain r where r: "reservationFor c r" and
    cases: "(events = [(''wallet-nonce-reserved'', JObj [(''reservation'', r)])] \<and> isHeld r \<and> claimOk c r ops globals now)
        \<or> (events = [(''wallet-nonce-released'', JObj [(''reservation'', releasedForm r)])] \<and> (ops = [] \<or> ops = [ReleaseKey (nonceGlobalKey r) r]))"
    by auto
  note rel = releasedForm_facts [OF r]
  let ?m = "reservationsIn sha env c (log @ es)" and ?K = "walletNonceReservationKey r"
  have written: "\<exists>x. reservationFor c x \<and> walletNonceReservationKey x = ?K \<and> ?m \<in> {[], omap_set ?K x m}
      \<and> ((ops = [] \<and> g = globals \<and> (isHeld x \<longrightarrow> walletNonceReservationExpired x now \<or> (\<exists>g. omap_get globals (nonceGlobalKey x) = Some g \<and> sameJson g x)))
        \<or> (\<exists>op. g = applyGlobalOp op globals \<and> checkGlobalOp globals op = Inr () \<and> opFor c r now op
             \<and> (x = r \<and> omap_get (applyGlobalOp op globals) (nonceGlobalKey r) = Some r \<or> x = releasedForm r)))"
    using cases
  proof (elim disjE conjE)
    assume e: "events = [(''wallet-nonce-reserved'', JObj [(''reservation'', r)])]" and claim: "claimOk c r ops globals now"
    have "?m \<in> {[], omap_set ?K r m}" using appended_reservation [OF app [unfolded e] _ r] m by (simp add: nonceKinds_def)
    moreover from claim have "(ops = [] \<and> g = globals \<and> (walletNonceReservationExpired r now \<or> (\<exists>g. omap_get globals (nonceGlobalKey r) = Some g \<and> sameJson g r)))
        \<or> (\<exists>op. g = applyGlobalOp op globals \<and> checkGlobalOp globals op = Inr () \<and> opFor c r now op
             \<and> omap_get (applyGlobalOp op globals) (nonceGlobalKey r) = Some r)"
      using com unfolding claimOk_def opFor_def by (auto simp: commitGlobals_cases)
    ultimately show ?thesis using r by blast
  next
    assume e: "events = [(''wallet-nonce-released'', JObj [(''reservation'', releasedForm r)])]" and ops: "ops = []"
    have "?m \<in> {[], omap_set ?K (releasedForm r) m}" using appended_reservation [OF app [unfolded e] _ rel(1)] m rel(2) by (simp add: nonceKinds_def)
    then show ?thesis using ops com rel by (intro exI [of _ "releasedForm r"]) (simp add: commitGlobals_cases)
  next
    assume e: "events = [(''wallet-nonce-released'', JObj [(''reservation'', releasedForm r)])]" and ops: "ops = [ReleaseKey (nonceGlobalKey r) r]"
    have "?m \<in> {[], omap_set ?K (releasedForm r) m}" using appended_reservation [OF app [unfolded e] _ rel(1)] m rel(2) by (simp add: nonceKinds_def)
    moreover have "g = applyGlobalOp (ReleaseKey (nonceGlobalKey r) r) globals" "checkGlobalOp globals (ReleaseKey (nonceGlobalKey r) r) = Inr ()"
      using ops com by (simp_all only: commitGlobals_cases)
    ultimately show ?thesis using rel release_opFor [OF r] by blast
  qed
  then obtain x where x: "reservationFor c x" "walletNonceReservationKey x = ?K" "?m \<in> {[], omap_set ?K x m}"
    and how: "(ops = [] \<and> g = globals \<and> (isHeld x \<longrightarrow> walletNonceReservationExpired x now \<or> (\<exists>g. omap_get globals (nonceGlobalKey x) = Some g \<and> sameJson g x)))
        \<or> (\<exists>op. g = applyGlobalOp op globals \<and> checkGlobalOp globals op = Inr () \<and> opFor c r now op
             \<and> (x = r \<and> omap_get (applyGlobalOp op globals) (nonceGlobalKey r) = Some r \<or> x = releasedForm r))" by blast
  have set: "cycleOk c (omap_set ?K x m) g now"
    using how cycleOk_plain [OF old ok x(1)] x(2) cycleOk_op [OF _ _ old ok r] by auto
  show "cycleOk c ?m g now" using x(3) set by auto
  show "globalsOk g" using how ok opFor_globalsOk [OF _ r ok] by blast
  show "spares d now globals g" if "d \<noteq> c" using how opFor_spares [OF _ _ that] spares_refl by blast
qed

lemma key_released:
  assumes plan: "planOk c (ReleaseOnly key v) m globals now" and rel: "releaseGlobalKey globals key v = Inr g"
    and old: "cycleOk c m globals now" and ok: "globalsOk globals"
  shows "cycleOk c m g now" and "globalsOk g" and "d \<noteq> c \<Longrightarrow> spares d now globals g"
proof -
  from plan have v: "reservationFor c v" "key = nonceGlobalKey v" and free: "\<And>x. omap_get m (walletNonceReservationKey v) = Some x \<Longrightarrow> \<not> isHeld x"
    by auto
  note op = release_opFor [OF v(1)]
  have cases: "g = globals \<or> (checkGlobalOp globals (ReleaseKey key v) = Inr () \<and> g = applyGlobalOp (ReleaseKey key v) globals)"
    using releaseGlobalKey_check [OF rel] by (cases "omap_get globals key") auto
  show "globalsOk g" using cases ok opFor_globalsOk [OF op v(1) ok] v(2) by blast
  show "spares d now globals g" if "d \<noteq> c" using cases opFor_spares [OF op _ that] v(2) spares_refl by blast
  show "cycleOk c m g now"
  proof (cases "g = globals")
    case False
    with cases have g: "checkGlobalOp globals (ReleaseKey key v) = Inr ()" "g = omap_delete key globals" by auto
    show ?thesis unfolding cycleOk_def
    proof (intro allI impI)
      fix k x
      assume "omap_get m k = Some x"
      with old have x: "omap_get m k = Some x" "reservationFor c x" "walletNonceReservationKey x = k"
        "isHeld x \<longrightarrow> walletNonceReservationExpired x now \<or> (\<exists>g. omap_get globals (nonceGlobalKey x) = Some g \<and> sameJson g x)"
        unfolding cycleOk_def by simp_all
      have "nonceGlobalKey x \<noteq> key" if held: "isHeld x" "\<not> walletNonceReservationExpired x now"
      proof
        assume eq: "nonceGlobalKey x = key"
        from x(4) held obtain gx where gx: "omap_get globals key = Some gx" "sameJson gx x" using eq by blast
        from globalsOk_at [OF ok] gx(1) v(2) obtain d where d: "reservationFor d gx" by blast
        note s = same_reservation [OF gx(2) d x(2)]
        have "sameJson gx v \<or> walletNonceReservationExpired gx now"
          by (rule opFor_same [OF op _ _ d]) (use g(1) gx(1) v(2) in simp_all)
        with s(3) [of now] held(2) have "sameJson gx v" by blast
        from same_reservation(2) [OF this d v(1)] s(2) x(3) free [of x] x(1) held(1) show False by simp
      qed
      with x g(2) show "reservationFor c x \<and> walletNonceReservationKey x = k
         \<and> (isHeld x \<longrightarrow> walletNonceReservationExpired x now \<or> (\<exists>y. omap_get g (nonceGlobalKey x) = Some y \<and> sameJson y x))" by auto
    qed
  qed (use old in simp)
qed

lemma other_cycle_spared:
  assumes "worldOk sha env w" and "d \<noteq> c" and "spares d (nw_clock w) (nw_globals w) g"
  shows "cycleOk d (reservationsIn sha env d (nw_logs w d)) g (nw_clock w)"
    and "nw_pending w d = Some p \<Longrightarrow> planOk d p (reservationsIn sha env d (nw_logs w d)) g (nw_clock w)"
  by (rule cycleOk_spared [OF worldOkD(2,1) [OF assms(1)] assms(3) order_refl])
    (rule planOk_spared [OF worldOkD(3) [OF assms(1)] worldOkD(1) [OF assms(1)] assms(3) order_refl], assumption, simp)

lemma step_ok:
  assumes "nonce_step sha env w w'" and "worldOk sha env w"
  shows "worldOk sha env w'"
  using assms
proof (cases rule: nonce_step.cases)
  case (time_passes t)
  note ok = worldOkD [OF assms(2)]
  show ?thesis unfolding time_passes(1)
  proof (rule worldOkI, goal_cases)
    case (2 d)
    show ?case using cycleOk_spared [OF ok(2) ok(1) spares_refl time_passes(2)] by simp
  next
    case (3 d p)
    then show ?case using planOk_spared [OF ok(3) ok(1) spares_refl time_passes(2)] by simp
  qed (simp add: ok(1))
next
  case (plan_reserve c clock v known p)
  note ok = worldOkD [OF assms(2)]
  show ?thesis unfolding plan_reserve(1)
    by (rule worldOkI) (use ok reserve_ok [OF plan_reserve(4) ok(1) plan_reserve(3)] in \<open>auto simp: setPending_def split: if_splits\<close>)
next
  case (plan_release c v p)
  note ok = worldOkD [OF assms(2)]
  have "planOk c p (reservationsIn sha env c (nw_logs w c)) (nw_globals w) (nw_clock w)"
    by (rule release_ok [OF plan_release(3)]) (auto simp: replayStored_def reservationsIn_def bindE_Inr_iff)
  then show ?thesis unfolding plan_release(1)
    by (intro worldOkI) (use ok in \<open>auto simp: setPending_def split: if_splits\<close>)
next
  case (commit c events name guard result ops es g)
  note ok = worldOkD [OF assms(2)]
  note done' = committed [OF ok(3) [OF commit(2)] refl commit(3,4) ok(2) ok(1)]
  show ?thesis unfolding commit(1)
  proof (rule worldOkI, goal_cases)
    case 1
    show ?case using done'(2) by (simp add: setPending_def appendLog_def)
  next
    case (2 d)
    show ?case using done'(1) other_cycle_spared(1) [OF assms(2) _ done'(3)] by (cases "d = c") (simp_all add: setPending_def appendLog_def)
  next
    case (3 d p)
    then show ?case using other_cycle_spared(2) [OF assms(2) _ done'(3)] by (cases "d = c") (simp_all add: setPending_def appendLog_def)
  qed
next
  case (release_key c key v g)
  note ok = worldOkD [OF assms(2)]
  note done' = key_released [OF ok(3) [OF release_key(2)] release_key(3) ok(2) ok(1)]
  show ?thesis unfolding release_key(1)
  proof (rule worldOkI, goal_cases)
    case 1
    show ?case using done'(2) by (simp add: setPending_def)
  next
    case (2 d)
    show ?case using done'(1) other_cycle_spared(1) [OF assms(2) _ done'(3)] by (cases "d = c") (simp_all add: setPending_def)
  next
    case (3 d p)
    then show ?case using other_cycle_spared(2) [OF assms(2) _ done'(3)] by (cases "d = c") (simp_all add: setPending_def)
  qed
next
  case (operation_ends c)
  then show ?thesis using worldOkD [OF assms(2)] by (intro worldOkI) (auto simp: setPending_def split: if_splits)
next
  case (other_operation es g c)
  note ok = worldOkD [OF assms(2)]
  have spare: "spares d (nw_clock w) (nw_globals w) g" for d using other_operation(3) by (simp add: spares_def)
  have logs: "reservationsIn sha env d (nw_logs w' d) \<in> {reservationsIn sha env d (nw_logs w d), []}" for d
    using other_events_keep [OF other_operation(2), of sha env c "nw_logs w c"] unfolding other_operation(1) appendLog_def by (cases "d = c") auto
  have w': "nw_globals w' = g" "nw_clock w' = nw_clock w" "nw_pending w' = nw_pending w" by (simp_all add: other_operation(1) appendLog_def)
  show ?thesis
  proof (rule worldOkI, goal_cases)
    case 1
    show ?case using ok(1) other_operation(3) unfolding w' globalsOk_def by auto
  next
    case (2 d)
    show ?case using cycleOk_spared [OF ok(2) ok(1) spare order_refl] logs [of d] unfolding w' by auto
  next
    case (3 d p)
    then show ?case using planOk_spared [OF ok(3) ok(1) spare order_refl] logs [of d] unfolding w' by blast
  qed
qed

lemma reachable_ok: "nonce_reachable sha env w \<Longrightarrow> worldOk sha env w"
proof (induction rule: nonce_reachable.induct)
  case (begin_run t)
  have "reservationsIn sha env c [] = []" for c
    by (simp add: reservationsIn_def replayEntries_def reservationsOf_def initialReplay_def nonceParts_def moneyParts_def withNonces_def)
  then show ?case by (simp add: worldOk_def emptyWorld_def globalsOk_def omap_get_def)
qed (rule step_ok)

section \<open>One holder\<close>

text \<open>
  C9. A wallet has one holder.  In every interleaving of reservations and releases by all cycles, with arbitrarily stale views of each other,
  two journals never both carry a held reservation of one wallet (in any letter case) whose lease has not ended: the two are the
  same reservation of the same cycle.
\<close>

theorem wallet_has_one_holder:
  assumes "nonce_reachable sha env w" and "holdsWallet sha env w c r" and "holdsWallet sha env w d s" and "nonceGlobalKey r = nonceGlobalKey s"
  shows "c = d \<and> r = s"
proof -
  note ok = worldOkD [OF reachable_ok [OF assms(1)]]
  from assms(2) obtain k where k: "omap_get (reservationsIn sha env c (nw_logs w c)) k = Some r" "isHeld r" "\<not> walletNonceReservationExpired r (nw_clock w)"
    unfolding holdsWallet_def by blast
  from assms(3) obtain l where l: "omap_get (reservationsIn sha env d (nw_logs w d)) l = Some s" "isHeld s" "\<not> walletNonceReservationExpired s (nw_clock w)"
    unfolding holdsWallet_def by blast
  from ok(2) [of c] k obtain g where g: "omap_get (nw_globals w) (nonceGlobalKey r) = Some g" "sameJson g r" "reservationFor c r" "walletNonceReservationKey r = k"
    unfolding cycleOk_def by blast
  from ok(2) [of d] l obtain h where h: "omap_get (nw_globals w) (nonceGlobalKey s) = Some h" "sameJson h s" "reservationFor d s" "walletNonceReservationKey s = l"
    unfolding cycleOk_def by blast
  have "g = h" using g(1) h(1) assms(4) by simp
  then have "sameJson r s" using g(2) h(2) by (simp add: sameJson_def)
  from same_reservation [OF this g(3) h(3)] g(4) h(4) k(1) l(1) show ?thesis by simp
qed

text \<open>A run for the witness: one cycle reserves a wallet.\<close>

definition ex_nonce_env :: "unit nonce_state money_env" where
  "ex_nonce_env = \<lparr>mo_initial = \<lparr>nn_reservations = [], nn_rest = ()\<rparr>, mo_step = (\<lambda>st _. Inr (md_rest (rp_other st), [])), mo_admission = (\<lambda>_. JNull),
     mo_purchaseBatch = (\<lambda>_. JUndefined), mo_heldRetry = (\<lambda>_ _. False), mo_rewardEvidence = (\<lambda>_ _. Inr ()), mo_restoreValuations = (\<lambda>_. Inr ()),
     mo_resolveEvidence = (\<lambda>_ v. Inr v), mo_persistEvidence = (\<lambda>_ v. Inr v), mo_recoveryContexts = (\<lambda>_. []), mo_nativeValuation = (\<lambda>_. Inr ()),
     mo_isPaymentProof = (\<lambda>_ _. True), mo_isDestinationObservation = (\<lambda>_ _. True), mo_isRefundProof = (\<lambda>_ _. True), mo_isReturnProof = (\<lambda>_ _. True),
     mo_isUsdValuation = (\<lambda>_ _. True)\<rparr>"

definition ex_nonce_input :: jsval where
  "ex_nonce_input = JObj [(''chainId'', JStr ''1''), (''wallet'', JStr ''0xA''), (''stage'', JStr ''return''),
     (''fencingToken'', JStr ''0f0e0d0c-0b0a-4908-8706-050403020100''), (''leaseAcquiredAtMs'', JNum 10), (''leaseExpiresAtMs'', JNum 100)]"

definition ex_nonce_reservation :: jsval where
  "ex_nonce_reservation = (case assertWalletNonceReservationInput ex_cycle ex_nonce_input of Inr r \<Rightarrow> r | Inl _ \<Rightarrow> JNull)"

definition ex_nonce_ops :: "global_op list" where
  "ex_nonce_ops = [ReserveKey (nonceGlobalKey ex_nonce_reservation) ex_nonce_reservation]"

definition ex_nonce_guard :: "unit nonce_state money_state replay_state \<Rightarrow> unit res" where
  "ex_nonce_guard = reserveGuard ex_nonce_reservation 50"

definition ex_nonce_event :: "string \<times> jsval" where
  "ex_nonce_event = (''wallet-nonce-reserved'', JObj [(''reservation'', ex_nonce_reservation)])"

definition ex_nonce_log :: "jsval list" where
  "ex_nonce_log = (case appendEvents ex_sha (nonceParts ex_nonce_env ex_cycle) ex_cycle [] [ex_nonce_event] (Some ''reserveWalletNonce'') ex_nonce_guard of
     Inr es \<Rightarrow> es | Inl _ \<Rightarrow> [])"

definition ex_nonce_globals :: "(string \<times> jsval) list" where
  "ex_nonce_globals = [(nonceGlobalKey ex_nonce_reservation, ex_nonce_reservation)]"

definition ex_nonce_plan :: "unit nonce_state money_state nonce_plan" where
  "ex_nonce_plan = Commit (Append [ex_nonce_event] (Some ''reserveWalletNonce'') ex_nonce_guard (\<lambda>_. ex_nonce_reservation)) ex_nonce_ops"

definition ex_nonce_world :: "unit nonce_world" where
  "ex_nonce_world = setPending ex_cycle None (appendLog ex_cycle ex_nonce_log ((setPending ex_cycle (Some ex_nonce_plan) (emptyWorld 50))\<lparr>nw_globals := ex_nonce_globals\<rparr>))"

lemma ex_nonce_input_ok: "assertWalletNonceReservationInput ex_cycle ex_nonce_input = Inr ex_nonce_reservation"
  by code_simp

lemma ex_nonce_times:
  "num_of (jprop ex_nonce_reservation ''leaseAcquiredAtMs'') = 10" "num_of (jprop ex_nonce_reservation ''leaseExpiresAtMs'') = 100" "isHeld ex_nonce_reservation"
  by code_simp+

lemma ex_nonce_key: "readGlobalKey [] (nonceGlobalKey ex_nonce_reservation) = Inr None"
  by code_simp

lemma ex_nonce_start: "replayStored sha (nonceParts ex_nonce_env c) c [] = Inr (initialReplay (nonceParts ex_nonce_env c))"
  by (simp add: replayStored_def replayEntries_def initialReplay_def nonceParts_def moneyParts_def withNonces_def ex_nonce_env_def omap_get_def)

lemma ex_nonce_planned:
  "reserveWalletNonce ex_nonce_env ex_cycle ex_nonce_input (JNum 50) (replayStored ex_sha (nonceParts ex_nonce_env ex_cycle) ex_cycle []) [] [] = Inr ex_nonce_plan"
proof -
  have none: "reservationsOf (initialReplay (nonceParts ex_nonce_env ex_cycle)) = []" "rp_terminalState (initialReplay (nonceParts ex_nonce_env ex_cycle)) = None"
    by (simp_all add: reservationsOf_def initialReplay_def nonceParts_def moneyParts_def withNonces_def)
  show ?thesis unfolding reserveWalletNonce_def ex_nonce_input_ok ex_nonce_start
    by (simp add: currentRepositoryTime_def isSafeInteger_def safeInt_def MAX_SAFE_INTEGER_def throwIf_def ex_nonce_times walletNonceReservationExpired_def heldRetry_def none
        omap_get_def heldInAnotherCycle_def refuseCompeting_def ex_nonce_key claimGlobalKey_def ex_nonce_plan_def ex_nonce_event_def ex_nonce_guard_def
        ex_nonce_ops_def)
qed

lemma ex_nonce_appended:
  "isOk (appendEvents ex_sha (nonceParts ex_nonce_env ex_cycle) ex_cycle [] [ex_nonce_event] (Some ''reserveWalletNonce'') ex_nonce_guard)"
  by code_simp

lemma ex_nonce_committed: "commitGlobals [] ex_nonce_ops = Inr ex_nonce_globals"
  by code_simp

lemma ex_nonce_kept: "reservationsIn ex_sha ex_nonce_env ex_cycle ex_nonce_log = [(walletNonceReservationKey ex_nonce_reservation, ex_nonce_reservation)]"
  by code_simp

lemma ex_nonce_reachable: "nonce_reachable ex_sha ex_nonce_env ex_nonce_world"
proof -
  let ?w = "setPending ex_cycle (Some ex_nonce_plan) (emptyWorld 50)"
  have "nonce_step ex_sha ex_nonce_env (emptyWorld 50) ?w"
    by (rule plan_reserve [where clock = "JNum 50" and v = ex_nonce_input and known = "[]"]) (simp_all add: emptyWorld_def ex_nonce_planned)
  moreover have "nonce_step ex_sha ex_nonce_env ?w ex_nonce_world"
    unfolding ex_nonce_world_def
    by (rule commit [where events = "[ex_nonce_event]" and name = "Some ''reserveWalletNonce''" and guard = ex_nonce_guard
          and result = "\<lambda>_. ex_nonce_reservation" and ops = ex_nonce_ops])
      (use ex_nonce_appended in \<open>auto simp: setPending_def emptyWorld_def ex_nonce_plan_def ex_nonce_committed ex_nonce_log_def isOk_iff\<close>)
  ultimately show ?thesis using begin_run next_step by blast
qed

lemma ex_nonce_holds: "holdsWallet ex_sha ex_nonce_env ex_nonce_world ex_cycle ex_nonce_reservation"
proof -
  have "nw_logs ex_nonce_world ex_cycle = ex_nonce_log" "nw_clock ex_nonce_world = 50"
    by (simp_all add: ex_nonce_world_def setPending_def appendLog_def emptyWorld_def)
  then show ?thesis
    by (simp add: holdsWallet_def ex_nonce_kept omap_get_def ex_nonce_times walletNonceReservationExpired_def)
qed

theorem wallet_has_one_holder_witness:
  "{(d, s). holdsWallet ex_sha ex_nonce_env ex_nonce_world d s \<and> nonceGlobalKey s = ''wallet-nonce:1:0xa''} = {(ex_cycle, ex_nonce_reservation)}"
proof -
  have key: "nonceGlobalKey ex_nonce_reservation = ''wallet-nonce:1:0xa''" by code_simp
  have only: "ex_cycle = d \<and> ex_nonce_reservation = s"
    if "holdsWallet ex_sha ex_nonce_env ex_nonce_world d s" "nonceGlobalKey s = ''wallet-nonce:1:0xa''" for d s
    by (rule wallet_has_one_holder [OF ex_nonce_reachable ex_nonce_holds that(1)]) (simp only: key that(2))
  show ?thesis
  proof (intro set_eqI iffI)
    fix x assume "x \<in> {(d, s). holdsWallet ex_sha ex_nonce_env ex_nonce_world d s \<and> nonceGlobalKey s = ''wallet-nonce:1:0xa''}"
    then show "x \<in> {(ex_cycle, ex_nonce_reservation)}" using only by (cases x) blast
  next
    fix x assume "x \<in> {(ex_cycle, ex_nonce_reservation)}"
    then show "x \<in> {(d, s). holdsWallet ex_sha ex_nonce_env ex_nonce_world d s \<and> nonceGlobalKey s = ''wallet-nonce:1:0xa''}"
      using ex_nonce_holds key by blast
  qed
qed

end
