(* ===== verification/Spec2Isabelle.thy ===== *)
theory Spec2Isabelle
  imports Lease Budget_Gate Fee_Settlement Payout_Plan Scheduler Merkle_Claims Keccak_Vector Cycle_Safety Policy_Safety Cycle_Repository_Safety Relay_Safety Wallet_Exclusion
begin

text \<open>
  Verification development of the Hookemon cycle runner.

  The program.  A runner process wakes up on a timer, takes an exclusive lease, and drives one money cycle at
  a time through nine stages: fix who is eligible, claim the process funds from the hook contract, bridge them,
  buy and open packs, sell the cards back, bridge the proceeds back, and pay the holders.  All sources are under
  \<^verbatim>\<open>src/packages/runner/src\<close>, \<^verbatim>\<open>src/packages/adapters/src\<close> and \<^verbatim>\<open>src/packages/contracts/tooling\<close>.

  Theories and the code they model, in the order in which a cycle meets them:

  \<^item> \<open>Hk_Prelude\<close>: JavaScript values (\<open>jsval\<close>), thrown errors as values (\<open>res\<close>, \<open>bindE\<close>), loops that stop at
    the first error, canonical decimal strings, insertion-ordered maps, sorting by a key.
  \<^item> \<open>Js_Objects\<close>: nullish values, property access, spreading, string conversion, guards that throw.
  \<^item> \<open>Scheduler\<close> (\<^verbatim>\<open>scheduler/scheduler.mjs\<close>): the wake-up loop.  The mutable variables of \<open>createScheduler\<close> are the
    record \<open>sched\<close>; the step relation \<open>sched_step\<close> interleaves start, stop, manual ticks, timer callbacks and the
    phases of a tick.  The timer service is the locale \<open>timer_service\<close>.
  \<^item> \<open>Lease\<close> (\<^verbatim>\<open>automation/exclusive-lease.mjs\<close>, \<^verbatim>\<open>app/lease-store.mjs\<close>): the lease functions over any store that meets
    the locale \<open>lease_store\<close>; the file store is shown to meet it, and processes are interleaved by \<open>lease_step\<close>.
  \<^item> \<open>Effects\<close>, \<open>Cycle_Service\<close>, \<open>Service_Config\<close>, \<open>Cycle_Safety\<close> (\<^verbatim>\<open>automation/automated-cycle-service.mjs\<close>): the
    stage sequencer.  Every collaborator (lease, repository, stage driver, policy engine, planner, clock) is a call
    answered by an arbitrary environment, so the theorems hold whatever the collaborators do; the heartbeat timer may
    fire any number of times during an awaited call.  \<open>svcGuard\<close> is the specification of the calls that matter.
  \<^item> \<open>Budget_Gate\<close> (\<^verbatim>\<open>automation/budget-gate.mjs\<close>) and \<open>Pack_Plan\<close> (\<^verbatim>\<open>config/pack-plan.mjs\<close>,
    \<^verbatim>\<open>automation/pack-plan-snapshot.mjs\<close>): what a cycle may spend and on what.
  \<^item> \<open>Operator_Configuration\<close>, \<open>Operator_Edits\<close> (\<^verbatim>\<open>config/state-schema.mjs\<close>, \<^verbatim>\<open>operator/state-file.mjs\<close>): the operator document, its
    validation, defaults and migration, the fixed hard caps, edits and what an edit can change.
  \<^item> \<open>Policy_Admission\<close>, \<open>Policy_Engine\<close>, \<open>Policy_Scenario\<close>, \<open>Policy_Safety\<close> (\<^verbatim>\<open>automation/policy-engine.mjs\<close>): the spending policy.
    An admission is the monetary record of a cycle, normalized from untyped data; \<open>evaluateConfiguredPolicy\<close> decides at every boundary; the
    engine reserves, approves and refuses on the durable operator document, whose replacement under the lock is \<open>mutateOperatorState\<close>.
    \<open>policy_step\<close> interleaves admissions, approvals and operator edits.  \<open>Policy_Scenario\<close> evaluates one complete run.
  \<^item> \<open>Fee_Settlement\<close> (\<^verbatim>\<open>automation/fee-settlement.mjs\<close>): plans for the fee beneficiaries and the evidence they need.
  \<^item> \<open>Canonical_Json\<close>, \<open>Canonical_Injective\<close>, \<open>Cycle_Journal\<close> (\<^verbatim>\<open>cycle/journal.mjs\<close>): the bounded canonical encoding under every
    digest, the proof that JSON data with one text are equal up to the order of their keys, and the journal whose entries carry the digest of
    their predecessor.
  \<^item> \<open>Money_Attempts\<close>, \<open>Custody_Documents\<close>, \<open>Relay_Legs\<close> (\<^verbatim>\<open>cycle/money-schemas.mjs\<close>): the documents the journal carries.
    Provider, chain and sign-only attempts are records with their state machines; custody ledgers and Relay legs stay \<open>jsval\<close> objects behind
    their validators.
  \<^item> \<open>Cycle_Ledger\<close>, \<open>Cycle_Operations\<close>, \<open>Relay_Settlement\<close>, \<open>Relay_Operations\<close>
    (\<^verbatim>\<open>app/cycle-repository.mjs\<close>): the repository.  The local variables of \<open>#replayStored\<close> are the record \<open>replay_state\<close>,
    each branch of its loop a \<open>replay...\<close> definition and the loop \<open>replayEntries\<close>.  An operation is a \<open>plan\<close> computed from a first replay,
    either an answer or events with a guard, and \<open>execute\<close> replays the journal again, as it has grown by then, checks the guard and appends.
    The events of the parts that are not modelled are the record \<open>other_parts\<close>; \<open>moneyParts\<close> fills it with the events of Relay
    legs and custody ledgers and leaves the remaining ones to \<open>money_env\<close>.
  \<^item> \<open>Cycle_Ledger_Safety\<close>, \<open>Cycle_Repository_Safety\<close>, \<open>Relay_Safety\<close>: what every accepted journal guarantees, what every
    interleaving of operations guarantees (\<open>repo_run\<close>), and what becomes of a recorded leg and the money it returns.
    \<open>Cycle_Ledger_Scenario\<close> and \<open>Relay_Scenario\<close> hold the concrete journals of the witnesses.
  \<^item> \<open>Wallet_Nonces\<close>, \<open>Wallet_Exclusion\<close> (\<^verbatim>\<open>app/cycle-repository.mjs\<close>, \<^verbatim>\<open>cycle/money-schemas.mjs\<close>,
    \<^verbatim>\<open>cycle/durable-store.mjs\<close>): reservations of signing wallets.  The journal of a cycle and a global key of the store both
    record a reservation; \<open>nonce_step\<close> interleaves the operations of all cycles, while those of one cycle follow each other, because a cycle is
    driven under its lease.
  \<^item> \<open>Reward_Selection\<close>, \<open>Snapshot_Indexer\<close> (\<^verbatim>\<open>automation/reward-selection-snapshot.mjs\<close>,
    \<^verbatim>\<open>distribution/snapshot-indexer.mjs\<close>): from transfer logs to a holder snapshot and the selected recipients.
  \<^item> \<open>Floor_Shares\<close>, \<open>Pro_Rata\<close>, \<open>Payout_Plan\<close> (\<^verbatim>\<open>distribution/pro-rata.mjs\<close>, \<^verbatim>\<open>distribution/payout-plan.mjs\<close>): from
    balances and a pool to amounts.  The rounding argument is the locale of \<open>Floor_Shares\<close>, interpreted by both.
  \<^item> \<open>Keccak\<close>, \<open>Keccak_Vector\<close>, \<open>Merkle_Sum\<close>, \<open>Merkle_Manifest\<close>, \<open>Merkle_Claims\<close>
    (\<^verbatim>\<open>contracts/tooling/payout/canonical-merkle-sum.mjs\<close>, \<^verbatim>\<open>distribution/merkle-sum.mjs\<close>): the Merkle sum tree that the
    payout contract checks claims against.  Trees are the locales \<open>sum_tree\<close> and \<open>bound_tree\<close>; Keccak-256 is
    written out on words and evaluated by the kernel on the published node tag.

  What the lemma groups show.  Validators are inverted (\<open>..._Inr\<close>: what an accepted value looks like), loops carry an
  invariant (\<open>foldE_invariant\<close>, \<open>foldE_prefix_invariant\<close>), money routines are compared with exact arithmetic on natural numbers,
  the two step relations have inductive invariants, the tree lemmas give soundness of proofs from collision
  freedom of the hash on the encodings that occur, and the triples of \<open>Cycle_Safety\<close> track what has been called.  The replay has one
  inversion lemma (\<open>applyEvent_cases\<close>: what an accepted event did to the state), from which the invariants of journals follow by induction over
  the entries; \<open>leg_event_cases\<close> does the same for a leg.

  Parameters.  \<open>sha\<close> (SHA-256 in hexadecimal), the answers of the collaborators, the lock's success and the values
  of \<open>randomUUID()\<close> are arguments.  A hypothesis about them (for instance that no two of the encodings in question collide)
  is stated in the theorem that needs it, which has a witness.

  Conventions.  JavaScript strings are ASCII \<open>string\<close>s; non-ASCII dashes in error messages are written
  as \<open>-\<close>.  Amounts are canonical decimal strings, as in the code; \<open>BigInt\<close> is \<open>int\<close> or \<open>nat\<close>.  A property of \<open>undefined\<close> or \<open>null\<close> is
  \<open>JUndefined\<close> where the code uses optional chaining, and a \<open>TypeError\<close> (\<open>getProp\<close>) where it does not and the value can be absent.  No
  definition uses fuel: the loops are structural, and the lock retries at most \<open>LOCK_MAX_ATTEMPTS\<close> times, as the code does.

  Not modelled.  Of the cycle repository: opening and admission, pack batches, held positions, supplementary settlements, payout dust
  and quarantines, paged evidence, and the store below it (files, locks, the order of its writes).  The event reducer, the
  mechanics of each stage (they are the environment of the sequencer), the operator's commands other than edits and approvals, historical
  admission formats, network clients, signing, the dashboard, the web application and the repository's scripts.  These are input and
  output around third-party services, or records of the same pattern as the ones modelled; the next ones to add would be the held
  positions and the payout quarantines of the repository.
\<close>

end
